(* ===== verification/Prelude.thy ===== *)
theory Prelude
  imports Complex_Main "HOL-Library.Word" "HOL-Library.Monad_Syntax" "HOL-Library.Sublist"
begin

text \<open>
  Shared vocabulary of the development: bytes of C strings, the character classes of
  \<open>ctype.h\<close> in the C locale, Harbour's one-based arrays seen as lists, and the lemma
  collections the component theories extend.

  A C string is a list of HOL characters, one per byte; \<open>byte\<close> is the unsigned value of a
  byte and \<open>schar\<close> the value it has as a (signed) C \<open>char\<close>. The type \<open>'a option\<close> is used
  in two documented ways only: as the result of a C computation that may not come back with a
  result (an endless loop, or an access outside an object), and as a possibly absent value.
\<close>

section \<open>Lemma collections\<close>

named_theorems wa_defs \<open>definitions of the small work area accessors\<close>
named_theorems esc_defs \<open>definitions of the escape routines\<close>
named_theorems lex_defs \<open>definitions of the scanner's helpers\<close>

section \<open>Bytes and C character classes\<close>

type_synonym bytes = "char list"

abbreviation NUL :: char where "NUL \<equiv> CHR 0x00"
abbreviation LF :: char where "LF \<equiv> CHR 0x0A"
abbreviation CR :: char where "CR \<equiv> CHR 0x0D"
abbreviation QUOTE :: char where "QUOTE \<equiv> CHR 0x27"
abbreviation DQUOTE :: char where "DQUOTE \<equiv> CHR 0x22"
abbreviation BSLASH :: char where "BSLASH \<equiv> CHR 0x5C"
abbreviation SPACE :: char where "SPACE \<equiv> CHR 0x20"
abbreviation BACKTICK :: char where "BACKTICK \<equiv> CHR 0x60"

definition byte :: "char \<Rightarrow> nat" where
  "byte c = of_char c"

definition schar :: "char \<Rightarrow> int" where
  "schar c = (if byte c < 128 then int (byte c) else int (byte c) - 256)"

definition is_digit :: "char \<Rightarrow> bool" where
  "is_digit c \<longleftrightarrow> 48 \<le> byte c \<and> byte c \<le> 57"

definition is_upper :: "char \<Rightarrow> bool" where
  "is_upper c \<longleftrightarrow> 65 \<le> byte c \<and> byte c \<le> 90"

definition is_lower :: "char \<Rightarrow> bool" where
  "is_lower c \<longleftrightarrow> 97 \<le> byte c \<and> byte c \<le> 122"

definition is_alpha :: "char \<Rightarrow> bool" where
  "is_alpha c \<longleftrightarrow> is_upper c \<or> is_lower c"

definition is_alnum :: "char \<Rightarrow> bool" where
  "is_alnum c \<longleftrightarrow> is_alpha c \<or> is_digit c"

definition is_space :: "char \<Rightarrow> bool" where
  "is_space c \<longleftrightarrow> byte c = 32 \<or> (9 \<le> byte c \<and> byte c \<le> 13)"

definition to_upper :: "char \<Rightarrow> char" where
  "to_upper c = (if is_lower c then char_of (byte c - 32) else c)"

definition to_lower :: "char \<Rightarrow> char" where
  "to_lower c = (if is_upper c then char_of (byte c + 32) else c)"

lemmas ctype_defs = byte_def is_digit_def is_upper_def is_lower_def is_alpha_def is_alnum_def
  is_space_def

lemma byte_less_256 [simp]: "byte c < 256"
  by (simp add: byte_def)

lemma byte_inject [simp]: "byte c = byte d \<longleftrightarrow> c = d"
  by (simp add: byte_def)

lemma byte_char_of [simp]: "byte (char_of n) = n mod 256"
  by (simp add: byte_def)

lemma char_of_byte [simp]: "char_of (byte c) = c"
  by (simp add: byte_def)

lemma schar_range: "- 128 \<le> schar c \<and> schar c \<le> 127"
  using byte_less_256 [of c] by (auto simp: schar_def simp del: byte_less_256)

lemma byte_to_lower: "byte (to_lower c) = (if is_upper c then byte c + 32 else byte c)"
  by (auto simp: to_lower_def is_upper_def)

lemma byte_to_upper: "byte (to_upper c) = (if is_lower c then byte c - 32 else byte c)"
  by (auto simp: to_upper_def is_lower_def)

lemma to_lower_idem [simp]: "to_lower (to_lower c) = to_lower c"
  by (auto simp: to_lower_def [of "to_lower c"] is_upper_def byte_to_lower)

lemma to_upper_idem [simp]: "to_upper (to_upper c) = to_upper c"
  by (auto simp: to_upper_def [of "to_upper c"] is_lower_def byte_to_upper)

lemma is_alnum_to_lower [simp]: "is_alnum (to_lower c) = is_alnum c"
  by (auto simp: is_alnum_def is_alpha_def is_digit_def is_upper_def is_lower_def byte_to_lower)

section \<open>Harbour arrays as lists\<close>

text \<open>
  Harbour arrays are indexed from one; \<open>hb_arrayGet\<close> outside the array gives NIL and
  \<open>hb_arraySet\<close> outside the array stores nothing. \<open>arr_get\<close> takes the value to give
  outside the array as its first argument.
\<close>

definition arr_get :: "'a \<Rightarrow> 'a list \<Rightarrow> nat \<Rightarrow> 'a" where
  "arr_get d xs pos = (if 1 \<le> pos \<and> pos \<le> length xs then xs ! (pos - 1) else d)"

definition arr_set :: "'a list \<Rightarrow> nat \<Rightarrow> 'a \<Rightarrow> 'a list" where
  "arr_set xs pos v = (if 1 \<le> pos \<and> pos \<le> length xs then xs[pos - 1 := v] else xs)"

lemma length_arr_set [simp]: "length (arr_set xs pos v) = length xs"
  by (simp add: arr_set_def)

lemma arr_get_set:
  "arr_get d (arr_set xs pos v) q =
     (if q = pos \<and> 1 \<le> pos \<and> pos \<le> length xs then v else arr_get d xs q)"
  by (auto simp: arr_get_def arr_set_def nth_list_update)

lemma arr_get_set_same [simp]:
  "1 \<le> pos \<Longrightarrow> pos \<le> length xs \<Longrightarrow> arr_get d (arr_set xs pos v) pos = v"
  by (simp add: arr_get_set)

lemma arr_get_set_other [simp]: "q \<noteq> pos \<Longrightarrow> arr_get d (arr_set xs pos v) q = arr_get d xs q"
  by (simp add: arr_get_set)

section \<open>Lists\<close>

lemma takeWhile_append_stop:
  "(\<forall>x \<in> set xs. P x) \<Longrightarrow> ys = [] \<or> \<not> P (hd ys) \<Longrightarrow> takeWhile P (xs @ ys) = xs"
  by (induction xs) (cases ys, auto)

lemma length_concat_map_le:
  "(\<And>x. length (f x) \<le> k) \<Longrightarrow> length (concat (map f xs)) \<le> k * length xs"
proof (induction xs)
  case Nil
  then show ?case by simp
next
  case (Cons x xs)
  have "length (f x) + length (concat (map f xs)) \<le> k + k * length xs"
    by (rule add_mono [OF Cons.prems Cons.IH [OF Cons.prems]])
  then show ?case by simp
qed

fun rtrim_spaces :: "bytes \<Rightarrow> bytes" where
  "rtrim_spaces s = rev (dropWhile (\<lambda>c. c = SPACE) (rev s))"

declare rtrim_spaces.simps [simp del]

lemma rtrim_spaces_Nil [simp]: "rtrim_spaces [] = []"
  by (simp add: rtrim_spaces.simps)

lemma rtrim_spaces_snoc_space [simp]: "rtrim_spaces (s @ [SPACE]) = rtrim_spaces s"
  by (simp add: rtrim_spaces.simps)

lemma rtrim_spaces_snoc_other: "c \<noteq> SPACE \<Longrightarrow> rtrim_spaces (s @ [c]) = s @ [c]"
  by (simp add: rtrim_spaces.simps)

end
