(* ===== verification/Escape.thy ===== *)
theory Escape
  imports Prelude
begin

text \<open>
  The escaping and quoting of values for SQL text, \<open>source/sqlact.c\<close>: the escape routines
  (\<open>escape_mysql\<close> .. \<open>escape_oci\<close>), \<open>SR_ESCAPESTRING\<close>, \<open>SR_QuoteTrimEscapeString\<close>,
  \<open>SR_DBQUALIFY\<close> and the hexadecimal conversions. What a server does with the text is stated by
  \<open>read_literal\<close>, the reading of a quoted SQL literal; the locale \<open>literal_escaper\<close> is the
  contract between an escape routine and that reading, and every routine is an interpretation.
\<close>

section \<open>Database systems\<close>

text \<open>The codes of \<open>include/sqlrddpp.h\<close>.\<close>

abbreviation RDBMS_ORACLE :: int where "RDBMS_ORACLE \<equiv> 1"
abbreviation RDBMS_MSSQL6 :: int where "RDBMS_MSSQL6 \<equiv> 2"
abbreviation RDBMS_MSSQL7 :: int where "RDBMS_MSSQL7 \<equiv> 3"
abbreviation RDBMS_SYBASE :: int where "RDBMS_SYBASE \<equiv> 5"
abbreviation RDBMS_INGRES :: int where "RDBMS_INGRES \<equiv> 7"
abbreviation RDBMS_ADABAS :: int where "RDBMS_ADABAS \<equiv> 9"
abbreviation RDBMS_INFORM :: int where "RDBMS_INFORM \<equiv> 10"
abbreviation RDBMS_IBMDB2 :: int where "RDBMS_IBMDB2 \<equiv> 11"
abbreviation RDBMS_MYSQL :: int where "RDBMS_MYSQL \<equiv> 12"
abbreviation RDBMS_POSTGR :: int where "RDBMS_POSTGR \<equiv> 13"
abbreviation RDBMS_FIREBR :: int where "RDBMS_FIREBR \<equiv> 14"
abbreviation RDBMS_CACHE :: int where "RDBMS_CACHE \<equiv> 15"
abbreviation RDBMS_OTERRO :: int where "RDBMS_OTERRO \<equiv> 16"
abbreviation RDBMS_PERVASIVE :: int where "RDBMS_PERVASIVE \<equiv> 17"
abbreviation RDBMS_AZURE :: int where "RDBMS_AZURE \<equiv> 18"
abbreviation RDBMS_MARIADB :: int where "RDBMS_MARIADB \<equiv> 19"
abbreviation RDBMS_FIREBR3 :: int where "RDBMS_FIREBR3 \<equiv> 20"
abbreviation RDBMS_FIREBR4 :: int where "RDBMS_FIREBR4 \<equiv> 21"
abbreviation RDBMS_FIREBR5 :: int where "RDBMS_FIREBR5 \<equiv> 22"
abbreviation RDBMS_CUBRID :: int where "RDBMS_CUBRID \<equiv> 23"

text \<open>
  What a function callable from Harbour code does: raises the argument error, returns a value,
  or returns a buffer part of which was never written.
\<close>

datatype 'a hbret = ArgError | Returns 'a | Indeterminate

section \<open>The escape routines\<close>

text \<open>Each loop runs over the \<open>length\<close> bytes from \<open>from\<close>; the result is what is written to \<open>to\<close>
  before the terminating NUL, so its length is the value returned.\<close>

fun escape_mysql :: "bytes \<Rightarrow> bytes" where
  "escape_mysql [] = []"
| "escape_mysql (c # cs) =
     (if c = NUL then [BSLASH, CHR ''0'']
      else if c = LF then [BSLASH, CHR ''n'']
      else if c = CR then [BSLASH, CHR ''r'']
      else if c = BSLASH then [BSLASH, BSLASH]
      else if c = QUOTE then [BSLASH, QUOTE]
      else if c = DQUOTE then [BSLASH, DQUOTE]
      else if c = CHR 0x1A then [BSLASH, CHR ''Z'']
      else [c]) @ escape_mysql cs"

fun escape_single :: "bytes \<Rightarrow> bytes" where
  "escape_single [] = []"
| "escape_single (c # cs) = (if c = QUOTE then [QUOTE, QUOTE] else [c]) @ escape_single cs"

fun escape_firebird :: "bytes \<Rightarrow> bytes" where
  "escape_firebird [] = []"
| "escape_firebird (c # cs) =
     (if c = QUOTE then [QUOTE, QUOTE] else if c = NUL then [SPACE] else [c])
     @ escape_firebird cs"

fun escape_db2 :: "bytes \<Rightarrow> bytes" where
  "escape_db2 [] = []"
| "escape_db2 (c # cs) =
     (if c = QUOTE then [QUOTE, QUOTE] else if c = NUL then [SPACE] else [c]) @ escape_db2 cs"

fun escape_pgs :: "bytes \<Rightarrow> bytes" where
  "escape_pgs [] = []"
| "escape_pgs (c # cs) =
     (if c = QUOTE then [QUOTE, QUOTE]
      else if c = BSLASH then [BSLASH, BSLASH]
      else if c = NUL then []
      else [c]) @ escape_pgs cs"

fun escape_oci :: "bytes \<Rightarrow> bytes" where
  "escape_oci [] = []"
| "escape_oci (c # cs) =
     (if c = QUOTE then [QUOTE, QUOTE] else if c = NUL then [] else [c]) @ escape_oci cs"

text \<open>
  The switch over the database system shared by \<open>SR_ESCAPESTRING\<close> and
  \<open>SR_QuoteTrimEscapeString\<close>. It has no \<open>default\<close>: for every other system nothing is written
  to the freshly allocated buffer and \<open>iSize\<close> stays the length of the source, which is the
  value \<open>None\<close> unless no byte is meant to be there.
\<close>

definition escape_for :: "int \<Rightarrow> bytes \<Rightarrow> bytes option" where
  "escape_for db s =
     (if db \<in> {RDBMS_MYSQL, RDBMS_MARIADB} then Some (escape_mysql s)
      else if db \<in> {RDBMS_FIREBR, RDBMS_FIREBR3, RDBMS_FIREBR4, RDBMS_FIREBR5}
        then Some (escape_firebird s)
      else if db \<in> {RDBMS_ORACLE, RDBMS_CACHE} then Some (escape_oci s)
      else if db \<in> {RDBMS_MSSQL7, RDBMS_INGRES, RDBMS_SYBASE, RDBMS_ADABAS, RDBMS_INFORM,
                     RDBMS_OTERRO, RDBMS_PERVASIVE, RDBMS_CUBRID} then Some (escape_single s)
      else if db = RDBMS_POSTGR then Some (escape_pgs s)
      else if db = RDBMS_IBMDB2 then Some (escape_db2 s)
      else if s = [] then Some []
      else None)"

text \<open>\<open>SR_ESCAPESTRING(cString, nDatabase)\<close>; an argument of another type is \<open>None\<close> here.\<close>

definition SR_ESCAPESTRING :: "bytes option \<Rightarrow> int option \<Rightarrow> bytes hbret" where
  "SR_ESCAPESTRING a1 a2 =
     (case (a1, a2) of
        (Some s, Some db) \<Rightarrow>
          (if s \<noteq> [] then (case escape_for db s of Some t \<Rightarrow> Returns t | None \<Rightarrow> Indeterminate)
           else Returns [])
      | _ \<Rightarrow> ArgError)"

text \<open>The trimming loop: \<open>n\<close> is \<open>iSize\<close>, the buffer starts with the opening quote.\<close>

fun rtrim_loop :: "bytes \<Rightarrow> nat \<Rightarrow> nat" where
  "rtrim_loop buf 0 = 0"
| "rtrim_loop buf (Suc n) =
     (if Suc n > 1 \<and> buf ! n = SPACE then rtrim_loop buf n else Suc n)"

definition SR_QuoteTrimEscapeString :: "bytes \<Rightarrow> int \<Rightarrow> bool \<Rightarrow> bytes option" where
  "SR_QuoteTrimEscapeString s db bRTrim =
     (case escape_for db s of
        None \<Rightarrow> None
      | Some t \<Rightarrow>
          let buf = QUOTE # t;
              iSize = (if bRTrim then rtrim_loop buf (length buf) else length buf)
          in Some (take iSize buf @ [QUOTE]))"

section \<open>What a server reads\<close>

definition prepend :: "bytes \<Rightarrow> (bytes \<times> bytes) option \<Rightarrow> (bytes \<times> bytes) option" where
  "prepend p x = map_option (apfst (\<lambda>v. p @ v)) x"

lemma prepend_simps [simp]:
  "prepend p None = None"
  "prepend p (Some (v, r)) = Some (p @ v, r)"
  "prepend [] x = x"
  "prepend p (prepend q x) = prepend (p @ q) x"
  by (cases x; force simp: prepend_def)+

text \<open>
  The reading of a quoted literal, from behind its opening quote: \<open>Some (value, rest)\<close>, or
  \<open>None\<close> when the literal is not closed. A doubled quote stands for one. \<open>mode\<close> is \<open>None\<close> for
  standard SQL strings and \<open>Some d\<close> where a backslash escapes the next byte, which then
  stands for its image under \<open>d\<close> (MySQL; PostgreSQL without standard-conforming strings).
\<close>

fun read_literal :: "(char \<Rightarrow> char) option \<Rightarrow> bytes \<Rightarrow> (bytes \<times> bytes) option" where
  "read_literal mode [] = None"
| "read_literal mode [c] = (if c = QUOTE then Some ([], []) else None)"
| "read_literal mode (c # d # cs) =
     (if c = QUOTE then
        (if d = QUOTE then prepend [QUOTE] (read_literal mode cs)
         else Some ([], d # cs))
      else (case mode of
              Some dec \<Rightarrow>
                (if c = BSLASH then prepend [dec d] (read_literal mode cs)
                 else prepend [c] (read_literal mode (d # cs)))
            | None \<Rightarrow> prepend [c] (read_literal mode (d # cs))))"

definition mysql_unescape :: "char \<Rightarrow> char" where
  "mysql_unescape c =
     (if c = CHR ''0'' then NUL else if c = CHR ''n'' then LF else if c = CHR ''r'' then CR
      else if c = CHR ''Z'' then CHR 0x1A else if c = CHR ''t'' then CHR 0x09
      else if c = CHR ''b'' then CHR 0x08 else c)"

lemma read_plain:
  "c \<noteq> QUOTE \<Longrightarrow> mode = None \<or> c \<noteq> BSLASH \<Longrightarrow>
   read_literal mode (c # cs) = prepend [c] (read_literal mode cs)"
  by (cases cs) (auto split: option.splits)

lemma read_close: "r = [] \<or> hd r \<noteq> QUOTE \<Longrightarrow> read_literal mode (QUOTE # r) = Some ([], r)"
  by (cases r) auto

section \<open>The contract of an escape routine\<close>

text \<open>
  \<open>image c\<close> is what the routine writes for the byte \<open>c\<close> and \<open>val c\<close> what a server that
  reads in \<open>mode\<close> stores for it.
\<close>

locale literal_escaper =
  fixes esc :: "bytes \<Rightarrow> bytes"
    and image :: "char \<Rightarrow> bytes"
    and val :: "char \<Rightarrow> bytes"
    and mode :: "(char \<Rightarrow> char) option"
  assumes esc_Nil: "esc [] = []"
    and esc_Cons: "esc (c # cs) = image c @ esc cs"
    and image_len: "length (image c) \<le> 2"
    and image_reads:
      "read_literal mode (image c @ r) = prepend (val c) (read_literal mode r)"
    and image_trim:
      "(image c = [] \<and> val c = []) \<or> (image c = [SPACE] \<and> val c = [SPACE]) \<or>
       (image c \<noteq> [] \<and> val c \<noteq> [] \<and> last (image c) \<noteq> SPACE \<and> last (val c) \<noteq> SPACE)"
begin

lemma esc_concat: "esc s = concat (map image s)"
  by (induction s) (simp_all add: esc_Nil esc_Cons)

lemma esc_append: "esc (s @ t) = esc s @ esc t"
  by (simp add: esc_concat)

lemma esc_length: "length (esc s) \<le> 2 * length s"
  unfolding esc_concat by (rule length_concat_map_le) (rule image_len)

lemma esc_reads:
  "read_literal mode (esc s @ r)
   = prepend (concat (map val s)) (read_literal mode r)"
  by (induction s) (simp_all add: esc_Nil esc_Cons image_reads)

lemma esc_literal:
  assumes "r = [] \<or> hd r \<noteq> QUOTE"
  shows "read_literal mode (esc s @ QUOTE # r) = Some (concat (map val s), r)"
  by (simp add: esc_reads read_close [OF assms])

lemma esc_trim:
  "\<exists>t. rtrim_spaces (esc s) = esc t \<and> rtrim_spaces (concat (map val s)) = concat (map val t)"
proof (induction s rule: rev_induct)
  case Nil
  show ?case by (rule exI [of _ "[]"]) (simp add: esc_Nil)
next
  case (snoc c s)
  have e: "esc (s @ [c]) = esc s @ image c" by (simp add: esc_append esc_Cons esc_Nil)
  consider "image c = [] \<and> val c = []" | "image c = [SPACE] \<and> val c = [SPACE]"
    | "image c \<noteq> [] \<and> val c \<noteq> [] \<and> last (image c) \<noteq> SPACE \<and> last (val c) \<noteq> SPACE"
    using image_trim [of c] by blast
  then show ?case
  proof cases
    case 3
    then obtain xs x ys y where "image c = xs @ [x]" "x \<noteq> SPACE" "val c = ys @ [y]" "y \<noteq> SPACE"
      by (metis append_butlast_last_id)
    then have "rtrim_spaces (esc (s @ [c])) = esc (s @ [c])"
      and "rtrim_spaces (concat (map val (s @ [c]))) = concat (map val (s @ [c]))"
      using rtrim_spaces_snoc_other [of x "esc s @ xs"]
        rtrim_spaces_snoc_other [of y "concat (map val s) @ ys"] e by simp_all
    then show ?thesis by blast
  qed (use snoc e in simp_all)
qed

lemma esc_trim_literal:
  assumes "r = [] \<or> hd r \<noteq> QUOTE"
  shows "read_literal mode (rtrim_spaces (esc s) @ QUOTE # r)
         = Some (rtrim_spaces (concat (map val s)), r)"
  using esc_trim [of s] esc_literal [OF assms] by metis

end
section \<open>Every routine keeps the contract\<close>

definition image_mysql :: "char \<Rightarrow> bytes" where "image_mysql c = escape_mysql [c]"
definition image_single :: "char \<Rightarrow> bytes" where "image_single c = escape_single [c]"
definition image_firebird :: "char \<Rightarrow> bytes" where "image_firebird c = escape_firebird [c]"
definition image_pgs :: "char \<Rightarrow> bytes" where "image_pgs c = escape_pgs [c]"
definition image_oci :: "char \<Rightarrow> bytes" where "image_oci c = escape_oci [c]"

definition nul_to_space :: "char \<Rightarrow> bytes" where
  "nul_to_space c = (if c = NUL then [SPACE] else [c])"

definition drop_nul :: "char \<Rightarrow> bytes" where
  "drop_nul c = (if c = NUL then [] else [c])"

definition pgs_std_value :: "char \<Rightarrow> bytes" where
  "pgs_std_value c = (if c = NUL then [] else if c = BSLASH then [BSLASH, BSLASH] else [c])"

lemmas image_defs [esc_defs] = image_mysql_def image_single_def image_firebird_def image_pgs_def
  image_oci_def nul_to_space_def drop_nul_def pgs_std_value_def

lemma read_double_quote:
  "read_literal mode (QUOTE # QUOTE # r) = prepend [QUOTE] (read_literal mode r)"
  by simp

lemma read_backslash:
  "read_literal (Some dec) (BSLASH # d # r)
   = prepend [dec d] (read_literal (Some dec) r)"
  by simp

lemmas read_steps = read_double_quote read_backslash read_plain

interpretation mysql: literal_escaper escape_mysql image_mysql "\<lambda>c. [c]" "Some mysql_unescape"
  by unfold_locales
     (auto simp: esc_defs read_steps mysql_unescape_def simp del: read_literal.simps)

interpretation single: literal_escaper escape_single image_single "\<lambda>c. [c]" None
  by unfold_locales (auto simp: esc_defs read_steps simp del: read_literal.simps)

interpretation firebird: literal_escaper escape_firebird image_firebird nul_to_space None
  by unfold_locales (auto simp: esc_defs read_steps simp del: read_literal.simps)

interpretation db2: literal_escaper escape_db2 image_firebird nul_to_space None
  by unfold_locales (auto simp: esc_defs read_steps simp del: read_literal.simps)

interpretation oci: literal_escaper escape_oci image_oci drop_nul None
  by unfold_locales (auto simp: esc_defs read_steps simp del: read_literal.simps)

interpretation pgs_std: literal_escaper escape_pgs image_pgs pgs_std_value None
  by unfold_locales (auto simp: esc_defs read_steps simp del: read_literal.simps)

interpretation pgs_esc: literal_escaper escape_pgs image_pgs drop_nul "Some mysql_unescape"
  by unfold_locales
     (auto simp: esc_defs read_steps mysql_unescape_def simp del: read_literal.simps)

text \<open>
  What each system stores for a byte, and how it reads literals by default. PostgreSQL takes a backslash for a
  byte like another in a literal without an \<open>E\<close> in front, and the functions here put none there, where
  \<open>sqlrdd2.prg\<close> does: so the backslash that \<open>escape_pgs\<close> doubled is stored twice.
\<close>

definition server_mode :: "int \<Rightarrow> (char \<Rightarrow> char) option" where
  "server_mode db = (if db \<in> {RDBMS_MYSQL, RDBMS_MARIADB} then Some mysql_unescape else None)"

definition stored1 :: "int \<Rightarrow> char \<Rightarrow> bytes" where
  "stored1 db =
     (if db \<in> {RDBMS_FIREBR, RDBMS_FIREBR3, RDBMS_FIREBR4, RDBMS_FIREBR5, RDBMS_IBMDB2}
        then nul_to_space
      else if db \<in> {RDBMS_ORACLE, RDBMS_CACHE} then drop_nul
      else if db = RDBMS_POSTGR then pgs_std_value
      else (\<lambda>c. [c]))"

definition stored :: "int \<Rightarrow> bytes \<Rightarrow> bytes" where
  "stored db s = concat (map (stored1 db) s)"

lemma escape_for_literal:
  assumes "escape_for db s = Some t" and "r = [] \<or> hd r \<noteq> QUOTE"
  shows "read_literal (server_mode db) (t @ QUOTE # r) = Some (stored db s, r)"
    and "read_literal (server_mode db) (rtrim_spaces t @ QUOTE # r)
         = Some (rtrim_spaces (stored db s), r)"
    and "length t \<le> 2 * length s"
  using assms(1)
    mysql.esc_literal [OF assms(2)] mysql.esc_trim_literal [OF assms(2)] mysql.esc_length
    single.esc_literal [OF assms(2)] single.esc_trim_literal [OF assms(2)] single.esc_length
    firebird.esc_literal [OF assms(2)] firebird.esc_trim_literal [OF assms(2)] firebird.esc_length
    db2.esc_literal [OF assms(2)] db2.esc_trim_literal [OF assms(2)] db2.esc_length
    oci.esc_literal [OF assms(2)] oci.esc_trim_literal [OF assms(2)] oci.esc_length
    pgs_std.esc_literal [OF assms(2)] pgs_std.esc_trim_literal [OF assms(2)] pgs_std.esc_length
    read_close [OF assms(2)]
  by (auto simp: escape_for_def server_mode_def stored_def stored1_def split: if_splits)

lemma rtrim_loop_take:
  "n \<le> length t \<Longrightarrow>
   take (rtrim_loop (QUOTE # t) (Suc n)) (QUOTE # t) = QUOTE # rtrim_spaces (take n t)"
proof (induction n)
  case 0
  then show ?case by simp
next
  case (Suc n)
  then have t: "take (Suc n) t = take n t @ [t ! n]" by (simp add: take_Suc_conv_app_nth)
  show ?case
  proof (cases "t ! n = SPACE")
    case True
    with Suc t show ?thesis by simp
  next
    case False
    with t show ?thesis by (simp add: rtrim_spaces_snoc_other)
  qed
qed

lemma quote_trim_shape:
  "SR_QuoteTrimEscapeString s db trim
   = map_option (\<lambda>t. QUOTE # (if trim then rtrim_spaces t else t) @ [QUOTE]) (escape_for db s)"
  using rtrim_loop_take [of "length t" t for t]
  by (auto simp: SR_QuoteTrimEscapeString_def Let_def split: option.splits)

lemma length_rtrim_spaces: "length (rtrim_spaces s) \<le> length s"
  using length_dropWhile_le [of "\<lambda>c. c = SPACE" "rev s"] by (simp add: rtrim_spaces.simps)

section \<open>Identifiers\<close>

text \<open>
  \<open>SR_DBQUALIFY(cName, nDatabase)\<close>. The length handed back is \<open>ulLen + 2\<close>, computed on the
  64-bit \<open>HB_SIZE\<close>; the Informix branch takes two off first, which wraps for the shortest
  names.
\<close>

definition SR_DBQUALIFY :: "bytes option \<Rightarrow> int \<Rightarrow> bytes hbret" where
  "SR_DBQUALIFY a1 ulDb =
     (case a1 of
        None \<Rightarrow> ArgError
      | Some s \<Rightarrow>
          let ulLen = (of_nat (length s) :: 64 word);
              (szOut, ulLen') =
                (if ulDb \<in> {RDBMS_ORACLE, RDBMS_FIREBR, RDBMS_FIREBR3, RDBMS_FIREBR4,
                            RDBMS_FIREBR5, RDBMS_IBMDB2, RDBMS_ADABAS}
                   then ([DQUOTE] @ map to_upper s @ [DQUOTE], ulLen)
                 else if ulDb \<in> {RDBMS_INGRES, RDBMS_POSTGR}
                   then ([DQUOTE] @ map to_lower s @ [DQUOTE], ulLen)
                 else if ulDb = RDBMS_MSSQL7 then ([CHR ''[''] @ s @ [CHR '']''], ulLen)
                 else if ulDb \<in> {RDBMS_MYSQL, RDBMS_OTERRO, RDBMS_MARIADB, RDBMS_CUBRID}
                   then ([BACKTICK] @ map to_lower s @ [BACKTICK], ulLen)
                 else if ulDb = RDBMS_INFORM then (map to_lower s, ulLen - 2)
                 else ([DQUOTE] @ s @ [DQUOTE], ulLen))
          in Returns (take (unat (ulLen' + 2)) szOut))"

definition ident_fold :: "int \<Rightarrow> char \<Rightarrow> char" where
  "ident_fold db =
     (if db \<in> {RDBMS_ORACLE, RDBMS_FIREBR, RDBMS_FIREBR3, RDBMS_FIREBR4, RDBMS_FIREBR5,
               RDBMS_IBMDB2, RDBMS_ADABAS} then to_upper
      else if db \<in> {RDBMS_INGRES, RDBMS_POSTGR, RDBMS_MYSQL, RDBMS_OTERRO, RDBMS_MARIADB,
                    RDBMS_CUBRID, RDBMS_INFORM} then to_lower
      else id)"

definition ident_delims :: "int \<Rightarrow> (char \<times> char) option" where
  "ident_delims db =
     (if db = RDBMS_INFORM then None
      else if db = RDBMS_MSSQL7 then Some (CHR ''['', CHR '']'')
      else if db \<in> {RDBMS_MYSQL, RDBMS_OTERRO, RDBMS_MARIADB, RDBMS_CUBRID}
        then Some (BACKTICK, BACKTICK)
      else Some (DQUOTE, DQUOTE))"

section \<open>Hexadecimal\<close>

text \<open>\<open>iNum\<close> is a \<open>uint16_t\<close> set from the sign-extended byte.\<close>

definition hex_cipher :: "nat \<Rightarrow> char" where
  "hex_cipher n = (if n < 10 then char_of (48 + n) else char_of (65 + (n - 10)))"

fun strtohex_loop :: "bytes \<Rightarrow> bytes" where
  "strtohex_loop [] = []"
| "strtohex_loop (ch # cs) =
     (let iNum = (word_of_int (schar ch) :: 16 word);
          c1 = hex_cipher (unat (iNum mod 16));
          iNum2 = drop_bit 4 iNum;
          c0 = hex_cipher (unat (iNum2 mod 16))
      in [c0, c1] @ strtohex_loop cs)"

definition SR_STRTOHEX :: "bytes option \<Rightarrow> bytes hbret" where
  "SR_STRTOHEX a1 = (case a1 of None \<Rightarrow> ArgError | Some s \<Rightarrow> Returns (strtohex_loop s))"

definition hex_value :: "char \<Rightarrow> nat" where
  "hex_value c =
     (if 48 \<le> byte c \<and> byte c \<le> 57 then byte c - 48
      else if 65 \<le> byte c \<and> byte c \<le> 70 then byte c - 65 + 10
      else if 97 \<le> byte c \<and> byte c \<le> 102 then byte c - 97 + 10
      else 0)"

fun sr_Hex2Str :: "bytes \<Rightarrow> bytes" where
  "sr_Hex2Str (a # b # cs) = char_of (hex_value a * 16 + hex_value b) # sr_Hex2Str cs"
| "sr_Hex2Str _ = []"

definition SR_HEXTOSTR :: "bytes option \<Rightarrow> bytes hbret" where
  "SR_HEXTOSTR a1 = (case a1 of None \<Rightarrow> ArgError | Some s \<Rightarrow> Returns (sr_Hex2Str s))"

definition sign_extend16 :: "char \<Rightarrow> nat" where
  "sign_extend16 c = (if byte c < 128 then byte c else byte c + 65280)"

lemma word16_schar: "(word_of_int (schar c) :: 16 word) = of_nat (sign_extend16 c)"
proof (cases "byte c < 128")
  case True
  then show ?thesis by (simp add: schar_def sign_extend16_def)
next
  case False
  have "(word_of_int (int (byte c) - 256) :: 16 word) = word_of_int (int (byte c) + 65280)"
    by (simp add: word_of_int_eq_iff take_bit_eq_mod)
  with False show ?thesis by (simp add: schar_def sign_extend16_def)
qed

lemma byte_div_16 [simp]: "byte c div 16 < 16"
  using byte_less_256 [of c] by (simp add: less_mult_imp_div_less del: byte_less_256)

lemma sign_extend16_facts:
  "sign_extend16 c < 65536" "sign_extend16 c mod 16 = byte c mod 16"
  "sign_extend16 c div 16 mod 16 = byte c div 16"
proof -
  have b: "byte c < 256" by simp
  have e: "(65280 :: nat) = 16 * 4080" by simp
  show "sign_extend16 c < 65536" using b by (simp add: sign_extend16_def)
  show "sign_extend16 c mod 16 = byte c mod 16"
    unfolding sign_extend16_def e by (simp only: mod_mult_self2 split: if_split) blast
  have "(byte c + 65280) div 16 = byte c div 16 + 4080" unfolding e by simp
  moreover have "(byte c div 16 + 4080) mod 16 = byte c div 16"
  proof -
    have "byte c div 16 < 16" by simp
    moreover have "(4080 :: nat) = 16 * 255" by simp
    ultimately show ?thesis by (metis mod_less mod_mult_self2)
  qed
  moreover have "byte c div 16 mod 16 = byte c div 16" by simp
  ultimately show "sign_extend16 c div 16 mod 16 = byte c div 16"
    by (simp add: sign_extend16_def)
qed

lemma word16_low_nibble: "unat ((word_of_int (schar c) :: 16 word) mod 16) = byte c mod 16"
  by (simp add: word16_schar unat_mod unat_of_nat sign_extend16_facts take_bit_nat_eq_self)

lemma word16_high_nibble:
  "unat (drop_bit 4 (word_of_int (schar c) :: 16 word) mod 16) = byte c div 16"
  by (simp add: word16_schar unat_mod unat_div drop_bit_eq_div unat_of_nat
      sign_extend16_facts take_bit_nat_eq_self)

lemma hex_value_cipher: "n < 16 \<Longrightarrow> hex_value (hex_cipher n) = n"
  by (auto simp: hex_cipher_def hex_value_def)

section \<open>Properties\<close>

text \<open>A backslash on its way to PostgreSQL: it is doubled, and stored twice when the literal is read without an
  \<open>E\<close> in front, once when it is read with one.\<close>

lemma pgs_backslash_stored_twice:
  "SR_QuoteTrimEscapeString [BSLASH] RDBMS_POSTGR False = Some ([QUOTE, BSLASH, BSLASH, QUOTE]) \<and>
   read_literal (server_mode RDBMS_POSTGR) [BSLASH, BSLASH, QUOTE] = Some ([BSLASH, BSLASH], []) \<and>
   read_literal (Some mysql_unescape) [BSLASH, BSLASH, QUOTE] = Some ([BSLASH], [])"
  by code_simp

text \<open>C10: the quoted text of any value, put anywhere a quote does not follow, is read by the
  server as exactly one literal, whose value is the stored form of the source (right-trimmed
  when that was asked for; in PostgreSQL every backslash is in it twice), and the reading ends right behind it:
  no value can close the literal early or swallow the text that follows.\<close>

theorem quoted_literal_reads_back:
  assumes "SR_QuoteTrimEscapeString s db trim = Some lit"
    and "r = [] \<or> hd r \<noteq> QUOTE"
  shows "hd lit = QUOTE \<and>
         read_literal (server_mode db) (tl lit @ r)
         = Some (if trim then rtrim_spaces (stored db s) else stored db s, r)"
  using assms escape_for_literal [of db s _ r] by (auto simp: quote_trim_shape)

lemma quote_trim_example:
  "SR_QuoteTrimEscapeString ([QUOTE] @ ''k '') RDBMS_MYSQL True
   = Some ([QUOTE, BSLASH, QUOTE] @ ''k'' @ [QUOTE])"
  by code_simp

theorem quoted_literal_reads_back_witness:
  "SR_QuoteTrimEscapeString ([QUOTE] @ ''k '') RDBMS_MYSQL True
     = Some ([QUOTE, BSLASH, QUOTE] @ ''k'' @ [QUOTE]) \<and>
   read_literal (server_mode RDBMS_MYSQL) (([BSLASH, QUOTE] @ ''k'' @ [QUOTE]) @ '', 1)'')
     = Some (rtrim_spaces (stored RDBMS_MYSQL ([QUOTE] @ ''k '')), '', 1)'')"
  using quoted_literal_reads_back [OF quote_trim_example, of "'', 1)''"] quote_trim_example by simp

text \<open>hexadecimal text written by \<open>SR_STRTOHEX\<close> is read back by \<open>SR_HEXTOSTR\<close> to the same
  bytes, for every byte string.\<close>

theorem hex_round_trip:
  "\<exists>h. SR_STRTOHEX (Some s) = Returns h \<and> SR_HEXTOSTR (Some h) = Returns s"
proof -
  have "sr_Hex2Str (strtohex_loop s) = s"
    by (induction s)
       (simp_all add: word16_low_nibble word16_high_nibble hex_value_cipher Let_def)
  then show ?thesis by (simp add: SR_HEXTOSTR_def SR_STRTOHEX_def)
qed

end
