(* ===== verification/Decimal.thy ===== *)
theory Decimal
  imports Prelude
begin

text \<open>
  Decimal numbers in texts: what \<open>%d\<close>, \<open>%*d\<close> and \<open>%0*d\<close> of \<open>printf\<close> write, and the value of digits.
\<close>

fun nat_text :: "nat \<Rightarrow> bytes" where
  "nat_text n = (if n < 10 then [char_of (48 + n)] else nat_text (n div 10) @ [char_of (48 + n mod 10)])"

declare nat_text.simps [simp del]

definition int_text :: "int \<Rightarrow> bytes" where
  "int_text n = (if n < 0 then CHR ''-'' # nat_text (nat (- n)) else nat_text (nat n))"

text \<open>A field width: blanks before the text, or behind it for a negative width.\<close>

definition in_width :: "int \<Rightarrow> bytes \<Rightarrow> bytes" where
  "in_width w s =
     (let pad = replicate (nat \<bar>w\<bar> - length s) SPACE in if w < 0 then s @ pad else pad @ s)"

text \<open>\<open>%0*d\<close> for a number that is not negative.\<close>

definition zero_padded :: "nat \<Rightarrow> nat \<Rightarrow> bytes" where
  "zero_padded w n = (let s = nat_text n in replicate (w - length s) (CHR ''0'') @ s)"

definition dec_value :: "bytes \<Rightarrow> int" where
  "dec_value ds = foldl (\<lambda>v c. 10 * v + (int (byte c) - 48)) 0 ds"

text \<open>\<open>atoi\<close> and \<open>atol\<close>: blanks, a sign and digits.\<close>

definition c_atol :: "bytes \<Rightarrow> int" where
  "c_atol s =
     (let t = dropWhile is_space s;
          u = (case t of c # r \<Rightarrow> if c = CHR ''-'' \<or> c = CHR ''+'' then r else t | [] \<Rightarrow> []);
          n = dec_value (takeWhile is_digit u)
      in if t \<noteq> [] \<and> hd t = CHR ''-'' then - n else n)"

lemma digit_char: "n < 10 \<Longrightarrow> byte (char_of (48 + n)) = 48 + n"
  by simp

lemma nat_text_digits: "\<forall>c \<in> set (nat_text n). is_digit c"
proof (induction n rule: nat_text.induct)
  case (1 n)
  have "is_digit (char_of (48 + m))" if "m < 10" for m :: nat
    using that by (simp add: is_digit_def)
  then show ?case using 1 by (subst nat_text.simps) auto
qed

lemma nat_text_nonempty [simp]: "nat_text n \<noteq> []"
  by (subst nat_text.simps) simp

lemma dec_value_snoc: "dec_value (ds @ [c]) = 10 * dec_value ds + (int (byte c) - 48)"
  by (simp add: dec_value_def)

lemma dec_value_nat_text: "dec_value (nat_text n) = int n"
proof (induction n rule: nat_text.induct)
  case (1 n)
  show ?case
  proof (cases "n < 10")
    case True
    then show ?thesis by (subst nat_text.simps) (simp add: dec_value_def)
  next
    case False
    then have "nat_text n = nat_text (n div 10) @ [char_of (48 + n mod 10)]"
      by (subst nat_text.simps) simp
    then have "dec_value (nat_text n) = 10 * int (n div 10) + int (n mod 10)"
      using 1 False by (simp add: dec_value_snoc)
    also have "\<dots> = int n" by (simp add: zdiv_int zmod_int)
    finally show ?thesis .
  qed
qed

lemma dec_value_append: "dec_value (xs @ ys) = dec_value xs * 10 ^ length ys + dec_value ys"
  by (induction ys rule: rev_induct) (simp_all add: dec_value_snoc dec_value_def [of "[]"] algebra_simps flip: append_assoc)

lemma dec_value_zeros: "dec_value (replicate k (CHR ''0'')) = 0"
  by (induction k) (simp_all add: dec_value_snoc dec_value_def [of "[]"] byte_def flip: replicate_append_same)

lemma length_nat_text: "0 < w \<Longrightarrow> n < 10 ^ w \<Longrightarrow> length (nat_text n) \<le> w"
proof (induction n arbitrary: w rule: nat_text.induct)
  case (1 n)
  show ?case
  proof (cases "n < 10")
    case True
    then show ?thesis using 1(2) by (subst nat_text.simps) simp
  next
    case False
    then obtain v where w: "w = Suc v" "0 < v"
      using 1(2,3) by (cases w; cases "w = 1") auto
    then have "n div 10 < 10 ^ v" using 1(3) by (simp add: div_less_iff_less_mult)
    then show ?thesis using 1(1) [OF False w(2)] False w by (subst nat_text.simps) simp
  qed
qed

lemma zero_padded_length: "0 < w \<Longrightarrow> n < 10 ^ w \<Longrightarrow> length (zero_padded w n) = w"
  using length_nat_text [of w n] by (simp add: zero_padded_def Let_def)

lemma zero_padded_value [simp]: "dec_value (zero_padded w n) = int n"
  by (simp add: zero_padded_def Let_def dec_value_append dec_value_zeros dec_value_nat_text)

lemma zero_padded_digits: "\<forall>c \<in> set (zero_padded w n). is_digit c"
  using nat_text_digits [of n] by (auto simp: zero_padded_def Let_def is_digit_def byte_def)

end
