(* ===== verification/HbItem.thy ===== *)
theory HbItem
  imports Decimal
begin

text \<open>
  The values of the Harbour virtual machine the C code handles through \<open>PHB_ITEM\<close>, as far as
  its documented API tells them apart. An array item is the list of its elements; an object is
  an array with a class, so \<open>HB_IS_ARRAY\<close> holds of it too. Numbers that fit the machine's
  integers are \<open>INum\<close>, the others \<open>DNum\<close>; display widths are not kept. A date is its Julian day
  number, with 0 for the empty date, and a time stamp adds the milliseconds of the day. A pointer
  is its address and a symbol says whether it has a function.
\<close>

datatype item =
    NIL
  | Str bytes
  | Memo bytes
  | INum int
  | DNum rat
  | Date int
  | TStamp int int
  | Logical bool
  | Arr nat "item list"
  | Hash "(item \<times> item) list"
  | Block nat
  | Pointer nat
  | Symbol bool

definition HB_IS_NIL :: "item \<Rightarrow> bool" where
  "HB_IS_NIL v \<longleftrightarrow> v = NIL"

fun HB_IS_STRING :: "item \<Rightarrow> bool" where
  "HB_IS_STRING (Str _) = True"
| "HB_IS_STRING (Memo _) = True"
| "HB_IS_STRING _ = False"

fun HB_IS_MEMO :: "item \<Rightarrow> bool" where
  "HB_IS_MEMO (Memo _) = True"
| "HB_IS_MEMO _ = False"

fun HB_IS_NUMERIC :: "item \<Rightarrow> bool" where
  "HB_IS_NUMERIC (INum _) = True"
| "HB_IS_NUMERIC (DNum _) = True"
| "HB_IS_NUMERIC _ = False"

fun HB_IS_DATE :: "item \<Rightarrow> bool" where
  "HB_IS_DATE (Date _) = True"
| "HB_IS_DATE _ = False"

fun HB_IS_TIMESTAMP :: "item \<Rightarrow> bool" where
  "HB_IS_TIMESTAMP (TStamp _ _) = True"
| "HB_IS_TIMESTAMP _ = False"

definition HB_IS_DATETIME :: "item \<Rightarrow> bool" where
  "HB_IS_DATETIME v \<longleftrightarrow> HB_IS_DATE v \<or> HB_IS_TIMESTAMP v"

fun HB_IS_LOGICAL :: "item \<Rightarrow> bool" where
  "HB_IS_LOGICAL (Logical _) = True"
| "HB_IS_LOGICAL _ = False"

fun HB_IS_ARRAY :: "item \<Rightarrow> bool" where
  "HB_IS_ARRAY (Arr _ _) = True"
| "HB_IS_ARRAY _ = False"

fun HB_IS_OBJECT :: "item \<Rightarrow> bool" where
  "HB_IS_OBJECT (Arr cls _) = (cls \<noteq> 0)"
| "HB_IS_OBJECT _ = False"

fun HB_IS_HASH :: "item \<Rightarrow> bool" where
  "HB_IS_HASH (Hash _) = True"
| "HB_IS_HASH _ = False"

fun HB_IS_BLOCK :: "item \<Rightarrow> bool" where
  "HB_IS_BLOCK (Block _) = True"
| "HB_IS_BLOCK _ = False"

text \<open>The readers give the API's neutral value for an item of another type.\<close>

fun hb_itemGetL :: "item \<Rightarrow> bool" where
  "hb_itemGetL (Logical b) = b"
| "hb_itemGetL (INum n) = (n \<noteq> 0)"
| "hb_itemGetL (DNum d) = (d \<noteq> 0)"
| "hb_itemGetL _ = False"

text \<open>\<open>hb_itemGetNL\<close>: a double is cut towards zero.\<close>

fun hb_itemGetNL :: "item \<Rightarrow> int" where
  "hb_itemGetNL (INum n) = n"
| "hb_itemGetNL (DNum d) = (if 0 \<le> d then \<lfloor>d\<rfloor> else \<lceil>d\<rceil>)"
| "hb_itemGetNL _ = 0"

fun hb_itemGetDL :: "item \<Rightarrow> int" where
  "hb_itemGetDL (Date d) = d"
| "hb_itemGetDL (TStamp d t) = d"
| "hb_itemGetDL _ = 0"

fun hb_itemGetND :: "item \<Rightarrow> rat" where
  "hb_itemGetND (INum n) = of_int n"
| "hb_itemGetND (DNum d) = d"
| "hb_itemGetND _ = 0"

fun HB_IS_NUMINT :: "item \<Rightarrow> bool" where
  "HB_IS_NUMINT (INum _) = True"
| "HB_IS_NUMINT _ = False"

fun hb_itemGetC :: "item \<Rightarrow> bytes" where
  "hb_itemGetC (Str s) = s"
| "hb_itemGetC (Memo s) = s"
| "hb_itemGetC _ = []"

fun arr_of :: "item \<Rightarrow> item list" where
  "arr_of (Arr _ xs) = xs"
| "arr_of _ = []"

text \<open>\<open>hb_arrayGetItemPtr\<close> followed by a read, \<open>hb_arrayLen\<close>, \<open>hb_arraySet\<close>.\<close>

definition hb_arrayGet :: "item \<Rightarrow> nat \<Rightarrow> item" where
  "hb_arrayGet a n = arr_get NIL (arr_of a) n"

definition hb_arrayLen :: "item \<Rightarrow> nat" where
  "hb_arrayLen a = length (arr_of a)"

fun hb_arraySet :: "item \<Rightarrow> nat \<Rightarrow> item \<Rightarrow> item" where
  "hb_arraySet (Arr c xs) n v = Arr c (arr_set xs n v)"
| "hb_arraySet a n v = a"

fun hb_arrayAdd :: "item \<Rightarrow> item \<Rightarrow> item" where
  "hb_arrayAdd (Arr c xs) v = Arr c (xs @ [v])"
| "hb_arrayAdd a v = a"

text \<open>\<open>hb_arrayIns\<close> shifts the elements from position \<open>n\<close> on by one, dropping the last.\<close>

fun hb_arrayIns :: "item \<Rightarrow> nat \<Rightarrow> item" where
  "hb_arrayIns (Arr c xs) n =
     Arr c (if 1 \<le> n \<and> n \<le> length xs
            then take (n - 1) xs @ NIL # take (length xs - n) (drop (n - 1) xs) else xs)"
| "hb_arrayIns a n = a"

text \<open>A text cut or filled up to a width, and how a text begins that holds a serialized value.\<close>

definition fit :: "nat \<Rightarrow> bytes \<Rightarrow> bytes" where
  "fit n s = take n s @ replicate (n - length s) SPACE"

definition serial_signature :: bytes where
  "serial_signature = ''!#SERIAL#!''"

lemma HB_IS_OBJECT_ARRAY [intro]: "HB_IS_OBJECT v \<Longrightarrow> HB_IS_ARRAY v"
  by (cases v) auto

lemma hb_arraySet_arr_of: "arr_of (hb_arraySet a n v) = arr_set (arr_of a) n v"
  by (cases a) (auto simp: arr_set_def)

lemma hb_arrayLen_set [simp]: "hb_arrayLen (hb_arraySet a n v) = hb_arrayLen a"
  by (simp add: hb_arrayLen_def hb_arraySet_arr_of)

lemma hb_arrayGet_set:
  "hb_arrayGet (hb_arraySet a n v) k =
     (if k = n \<and> 1 \<le> n \<and> n \<le> hb_arrayLen a then v else hb_arrayGet a k)"
  by (simp add: hb_arrayGet_def hb_arrayLen_def hb_arraySet_arr_of arr_get_set)

end
