(* ===== verification/Literal.thy ===== *)
theory Literal
  imports Escape HbItem
begin

text \<open>
  From Harbour values to SQL literals and back, \<open>source/sqlact.c\<close>: \<open>SR_itemEmpty\<close>,
  \<open>SR_quotedNull\<close> and the number conversion of \<open>SR_ESCAPENUM\<close> and \<open>sr_escapeNumber\<close>. The
  functions of Harbour's run-time library they call are parameters: \<open>str_empty\<close> is
  \<open>hb_strEmpty\<close>, \<open>item_str\<close> is \<open>hb_itemStr\<close>, \<open>date_str\<close> is \<open>hb_dateDecStr\<close>, \<open>str_val\<close> and
  \<open>str_val_int\<close> are \<open>hb_strVal\<close> and \<open>hb_strValInt\<close>.
\<close>

section \<open>Empty values\<close>

fun SR_itemEmpty :: "(bytes \<Rightarrow> bool) \<Rightarrow> item \<Rightarrow> bool" where
  "SR_itemEmpty str_empty (Arr _ xs) = (length xs = 0)"
| "SR_itemEmpty str_empty (Hash kv) = (length kv = 0)"
| "SR_itemEmpty str_empty (Str s) = str_empty s"
| "SR_itemEmpty str_empty (Memo s) = str_empty s"
| "SR_itemEmpty str_empty (INum n) = (n = 0)"
| "SR_itemEmpty str_empty (DNum d) = (d = 0)"
| "SR_itemEmpty str_empty (Date d) = (d = 0)"
| "SR_itemEmpty str_empty (TStamp d t) = (d = 0 \<and> t = 0)"
| "SR_itemEmpty str_empty (Logical b) = (\<not> b)"
| "SR_itemEmpty str_empty (Block _) = False"
| "SR_itemEmpty str_empty (Pointer p) = (p = 0)"
| "SR_itemEmpty str_empty (Symbol f) = (\<not> f)"
| "SR_itemEmpty str_empty NIL = True"

section \<open>Values as literals\<close>

text \<open>
  The \<open>char *\<close> handed back: a text, the null pointer, a buffer that was never written, or no
  result because an access outside the buffer came first.
\<close>

datatype cstr = CText bytes | CNull | CUninit | CBadAccess

text \<open>
  The loop that moves a number over its leading blanks. \<open>buf\<close> is the whole buffer with its
  terminating NUL; the bound is the constant 15, whatever the length of the text.
\<close>

function shift_loop :: "bytes \<Rightarrow> nat \<Rightarrow> nat \<Rightarrow> bytes option" where
  "shift_loop buf iTrim iPos =
     (if iPos + iTrim < 15 then
        (if iPos + iTrim < length buf
         then shift_loop (buf[iPos := buf ! (iPos + iTrim)]) iTrim (Suc iPos)
         else None)
      else if iPos < length buf then Some (buf[iPos := NUL]) else None)"
  by auto
termination by (relation "measure (\<lambda>(buf, iTrim, iPos). 15 - iPos)") auto

declare shift_loop.simps [simp del]

definition trim_number :: "bytes \<Rightarrow> cstr" where
  "trim_number t =
     (let buf = t @ [NUL];
          iTrim = length (takeWhile (\<lambda>c. c = SPACE) buf)
      in if iTrim > 0
         then (case shift_loop buf iTrim 0 of
                 None \<Rightarrow> CBadAccess
               | Some b \<Rightarrow> CText (takeWhile (\<lambda>c. c \<noteq> NUL) b))
         else CText (takeWhile (\<lambda>c. c \<noteq> NUL) buf))"

definition quote_text :: "bytes \<Rightarrow> int \<Rightarrow> bool \<Rightarrow> cstr" where
  "quote_text s db trim =
     (case SR_QuoteTrimEscapeString s db trim of Some t \<Rightarrow> CText t | None \<Rightarrow> CUninit)"

text \<open>The last switch of \<open>SR_quotedNull\<close>, over the type of the value.\<close>

fun quoted_value ::
  "(item \<Rightarrow> item \<Rightarrow> item \<Rightarrow> bytes) \<Rightarrow> (int \<Rightarrow> bytes) \<Rightarrow> item \<Rightarrow> item \<Rightarrow> int \<Rightarrow> bool \<Rightarrow> bool \<Rightarrow> item \<Rightarrow> cstr"
where
  "quoted_value item_str date_str len dec db tc memo (Str s) = quote_text s db (\<not> tc)"
| "quoted_value item_str date_str len dec db tc memo (Memo s) = quote_text s db (\<not> tc)"
| "quoted_value item_str date_str len dec db tc memo (INum n) =
     trim_number (item_str (INum n) len dec)"
| "quoted_value item_str date_str len dec db tc memo (DNum d) =
     trim_number (item_str (DNum d) len dec)"
| "quoted_value item_str date_str len dec db tc memo (Date d) =
     (if memo then CUninit
      else if db = RDBMS_ORACLE
      then CText (''TO_DATE('' @ [QUOTE] @ date_str d @ [QUOTE] @ '','' @ [QUOTE] @ ''YYYYMMDD'' @
                  [QUOTE] @ '')'')
      else CText ([QUOTE] @ date_str d @ [QUOTE]))"
| "quoted_value item_str date_str len dec db tc memo (Logical b) =
     CText (if b then (if db = RDBMS_POSTGR then ''true''
                       else if db = RDBMS_INFORM then [QUOTE] @ ''t'' @ [QUOTE] else ''1'')
            else (if db = RDBMS_POSTGR then ''false''
                  else if db = RDBMS_INFORM then [QUOTE] @ ''f'' @ [QUOTE] else ''0''))"
| "quoted_value item_str date_str len dec db tc memo _ = CNull"

text \<open>The inner switch, for an empty value of a column that takes no null; \<open>None\<close> goes on.\<close>

fun empty_literal :: "int \<Rightarrow> bool \<Rightarrow> item \<Rightarrow> cstr option" where
  "empty_literal db tc (Str s) =
     Some (if tc then quote_text s db False else CText [QUOTE, SPACE, QUOTE])"
| "empty_literal db tc (Memo s) =
     Some (if tc then quote_text s db False else CText [QUOTE, SPACE, QUOTE])"
| "empty_literal db tc (INum _) = Some (CText ''0'')"
| "empty_literal db tc (DNum _) = Some (CText ''0'')"
| "empty_literal db tc _ = None"

text \<open>The result and \<open>*bNullArgument\<close>.\<close>

definition SR_quotedNull ::
  "(bytes \<Rightarrow> bool) \<Rightarrow> (item \<Rightarrow> item \<Rightarrow> item \<Rightarrow> bytes) \<Rightarrow> (int \<Rightarrow> bytes) \<Rightarrow>
   item \<Rightarrow> item \<Rightarrow> item \<Rightarrow> bool \<Rightarrow> int \<Rightarrow> bool \<Rightarrow> bool \<Rightarrow> cstr \<times> bool"
where
  "SR_quotedNull str_empty item_str date_str v len dec nullable db tc memo =
     (let go_on = (quoted_value item_str date_str len dec db tc memo v, False) in
      if SR_itemEmpty str_empty v \<and> \<not> (HB_IS_ARRAY v \<or> HB_IS_OBJECT v \<or> HB_IS_HASH v) \<and>
         (db = RDBMS_POSTGR \<and> HB_IS_DATE v \<or> db \<noteq> RDBMS_POSTGR \<and> \<not> HB_IS_LOGICAL v)
      then if nullable \<or> HB_IS_DATE v then (CText ''NULL'', True)
           else (case empty_literal db tc v of Some r \<Rightarrow> (r, False) | None \<Rightarrow> go_on)
      else go_on)"

section \<open>Texts as numbers\<close>

text \<open>
  The state of the copying loop: the destination, the position of the decimal point, whether
  the text is an integer, the length and the places the exponent asks for.
\<close>

record num_scan =
  ns_buf :: bytes
  ns_dec :: nat
  ns_integer :: bool
  ns_size :: nat
  ns_mult :: rat

text \<open>\<open>src\<close> is the source with its NUL. The exponent takes the byte after \<open>E\<close> as a sign.\<close>

definition exponent_text :: "bytes \<Rightarrow> nat \<Rightarrow> nat \<Rightarrow> bytes" where
  "exponent_text src iSize iPos =
     [if src ! (iPos + 1) = CHR ''-'' then CHR ''-'' else CHR ''0'',
      src ! (iPos + 2),
      if iPos + 3 \<le> iSize then src ! (iPos + 3) else NUL,
      if iPos + 4 \<le> iSize then src ! (iPos + 4) else NUL,
      NUL]"

function copy_loop :: "(bytes \<Rightarrow> rat) \<Rightarrow> bytes \<Rightarrow> nat \<Rightarrow> num_scan \<Rightarrow> num_scan" where
  "copy_loop str_val src iPos st =
     (if iPos < ns_size st then
        (let c = (if src ! iPos = CHR '','' then CHR ''.'' else src ! iPos);
             st1 = st\<lparr>ns_buf := (ns_buf st)[iPos := c]\<rparr>;
             st2 = (if c = CHR ''.'' then st1\<lparr>ns_integer := False, ns_dec := iPos\<rparr> else st1)
         in if c = CHR ''E'' \<and> iPos + 2 \<le> ns_size st
            then st2\<lparr>ns_integer := False, ns_size := iPos,
                     ns_mult := str_val (exponent_text src (ns_size st) iPos)\<rparr>
            else copy_loop str_val src (Suc iPos) st2)
      else st)"
  by auto
termination
  by (relation "measure (\<lambda>(sv, src, iPos, st). ns_size st - iPos)") (auto simp: Let_def)

text \<open>The loop that moves the point to the right, one place per unit of \<open>m\<close>.\<close>

function move_point :: "nat \<Rightarrow> nat \<Rightarrow> rat \<Rightarrow> bytes \<Rightarrow> bytes" where
  "move_point iSize iPos m buf =
     (if iPos < iSize + 32 then
        (if buf ! iPos = CHR ''.'' \<and> m > 0 \<and> iPos + 1 \<le> iSize + 32 then
           (let b1 = buf[iPos := buf ! (iPos + 1), iPos + 1 := CHR ''.''];
                m1 = m - 1;
                b2 = (if b1 ! iPos = NUL \<or> iPos > iSize then b1[iPos := CHR ''0''] else b1)
            in if m1 = 0 \<and> b2 ! (iPos + 2) = NUL then b2[iPos + 1 := NUL]
               else move_point iSize (Suc iPos) m1 b2)
         else move_point iSize (Suc iPos) m buf)
      else buf)"
  by auto
termination by (relation "measure (\<lambda>(iSize, iPos, m, buf). iSize + 32 - iPos)") auto

declare copy_loop.simps [simp del] move_point.simps [simp del]

text \<open>
  The common body of \<open>SR_ESCAPENUM\<close> and \<open>sr_escapeNumber\<close>: the value, and the width and the
  decimals it is displayed with. The width is computed on the 64-bit \<open>HB_SIZE\<close> and both are
  cut to \<open>int32_t\<close>. \<open>str_val_int\<close> gives the value and whether it overflowed.
\<close>

definition number_of_text ::
  "(bytes \<Rightarrow> rat) \<Rightarrow> (bytes \<Rightarrow> int \<times> bool) \<Rightarrow> bytes \<Rightarrow> 64 word \<Rightarrow> 64 word \<Rightarrow> rat \<times> int \<times> int"
where
  "number_of_text str_val str_val_int s len dec =
     (let n = length s;
          len1 = (if dec > 0 then len - (dec + 1) else len);
          st = copy_loop str_val (s @ [NUL]) 0
                 \<lparr>ns_buf = replicate (n + 33) NUL, ns_dec = 0, ns_integer = True, ns_size = n,
                  ns_mult = 0\<rparr>;
          b0 = (ns_buf st)[ns_size st := NUL];
          (buf, iSize) = (if ns_mult st > 0
                          then let b = move_point (ns_size st) (ns_dec st) (ns_mult st) b0
                               in (b, length (takeWhile (\<lambda>c. c \<noteq> NUL) b))
                          else (b0, ns_size st));
          txt = takeWhile (\<lambda>c. c \<noteq> NUL) buf;
          v = (if ns_integer st
               then let (i, over) = str_val_int txt
                    in if over then str_val (take iSize buf) else of_int i
               else str_val (take iSize buf))
      in (v, sint (ucast len1 :: 32 word), sint (ucast dec :: 32 word)))"

definition SR_ESCAPENUM ::
  "(bytes \<Rightarrow> rat) \<Rightarrow> (bytes \<Rightarrow> int \<times> bool) \<Rightarrow> item \<Rightarrow> item \<Rightarrow> item \<Rightarrow> (rat \<times> int \<times> int) hbret"
where
  "SR_ESCAPENUM str_val str_val_int a1 a2 a3 =
     (if HB_IS_STRING a1 \<and> HB_IS_NUMERIC a2 \<and> HB_IS_NUMERIC a3
      then Returns (number_of_text str_val str_val_int (hb_itemGetC a1)
                      (word_of_int (hb_itemGetNL a2)) (word_of_int (hb_itemGetNL a3)))
      else ArgError)"

text \<open>\<open>strlen\<close> takes the text up to its first NUL.\<close>

definition sr_escapeNumber ::
  "(bytes \<Rightarrow> rat) \<Rightarrow> (bytes \<Rightarrow> int \<times> bool) \<Rightarrow> bytes \<Rightarrow> 64 word \<Rightarrow> 64 word \<Rightarrow> rat \<times> int \<times> int"
where
  "sr_escapeNumber str_val str_val_int s len dec =
     number_of_text str_val str_val_int (takeWhile (\<lambda>c. c \<noteq> NUL) s) len dec"

section \<open>Literals are read back\<close>

lemma quote_text_read:
  assumes "escape_for db s = Some u"
  shows "\<exists>t. quote_text s db trim = CText (QUOTE # t) \<and> read_literal (server_mode db) t =
      Some (if trim then rtrim_spaces (stored db s) else stored db s, [])"
  using quote_trim_shape [of s db trim] escape_for_literal(1,2) [OF assms, of "[]"] assms
  by (cases trim) (auto simp: quote_text_def)

lemma blank_literal_read: "read_literal mode [SPACE, QUOTE] = Some ([SPACE], [])"
  by (cases mode) (simp_all add: read_plain del: read_literal.simps(3))

text \<open>C20: the literal of a text value is read back by its server as the value it stores (in PostgreSQL with
  every backslash twice): trimmed of trailing blanks unless the compatibility switch is on, and one blank for an empty text in a column
  that takes no null; only where nulls are taken an empty text becomes \<open>NULL\<close>, and never for
  PostgreSQL.\<close>

theorem text_literal_reads_back:
  assumes "escape_for db s \<noteq> None" "SR_quotedNull e is ds (Str s) len dec nullable db tc memo = (r, isnull)"
  shows "isnull \<and> r = CText ''NULL'' \<and> e s \<and> nullable \<and> db \<noteq> RDBMS_POSTGR \<or>
     \<not> isnull \<and> (\<exists>t. r = CText (QUOTE # t) \<and> read_literal (server_mode db) t =
       Some (if e s \<and> db \<noteq> RDBMS_POSTGR \<and> \<not> tc then [SPACE]
             else if tc then stored db s else rtrim_spaces (stored db s), []))"
proof -
  obtain u where u: "escape_for db s = Some u" using assms(1) by blast
  note quoted = quote_text_read [OF u]
  obtain t0 where t0: "quote_text s db False = CText (QUOTE # t0)"
    "read_literal (server_mode db) t0 = Some (stored db s, [])"
    using quoted [of False] by auto
  obtain t1 where t1: "quote_text s db True = CText (QUOTE # t1)"
    "read_literal (server_mode db) t1 = Some (rtrim_spaces (stored db s), [])"
    using quoted [of True] by auto
  show ?thesis
    using assms(2) t0(2) t1(2)
    by (cases tc)
      (auto simp: SR_quotedNull_def Let_def t0(1) t1(1) blank_literal_read simp del: read_literal.simps split: if_splits)
qed

theorem text_literal_reads_back_witness:
  "\<exists>t. SR_quotedNull (\<lambda>s. s = []) (\<lambda>v l d. []) (\<lambda>d. []) (Str ''a '') NIL NIL True RDBMS_ORACLE False False =
     (CText (QUOTE # t), False) \<and> read_literal (server_mode RDBMS_ORACLE) t = Some (''a'', [])"
proof -
  have r: "SR_quotedNull (\<lambda>s. s = []) (\<lambda>v l d. []) (\<lambda>d. []) (Str ''a '') NIL NIL True RDBMS_ORACLE False False =
      (CText (QUOTE # ''a'' @ [QUOTE]), False)" by code_simp
  have "escape_for RDBMS_ORACLE ''a '' \<noteq> None" by code_simp
  moreover have "rtrim_spaces (stored RDBMS_ORACLE ''a '') = ''a''" by code_simp
  ultimately show ?thesis using text_literal_reads_back [OF _ r] r
    by (simp del: read_literal.simps)
qed

section \<open>Numbers\<close>

text \<open>One step of the loop is a step of a copy as long as it reads inside the buffer.\<close>

lemma shift_loop_spec:
  "i + k \<le> 15 \<Longrightarrow> 0 < k \<Longrightarrow> 15 \<le> length buf \<Longrightarrow>
   \<exists>b. shift_loop buf k i = Some b \<and> length b = length buf \<and>
       (\<forall>j < length buf. b ! j = (if j = 15 - k then NUL
                                 else if i \<le> j \<and> j < 15 - k then buf ! (j + k) else buf ! j))"
proof (induction "15 - (i + k)" arbitrary: i buf)
  case 0
  then show ?case
    by (intro exI [of _ "buf[i := NUL]"]) (subst shift_loop.simps, auto simp: nth_list_update)
next
  case (Suc n)
  let ?b = "buf[i := buf ! (i + k)]"
  have n: "n = 15 - (Suc i + k)" "Suc i + k \<le> 15" and lt: "i + k < 15"
    using Suc.hyps(2) by linarith+
  have "15 \<le> length ?b" using Suc.prems by simp
  from Suc.hyps(1) [OF n(1) n(2) Suc.prems(2) this] obtain b where b: "shift_loop ?b k (Suc i) = Some b" "length b = length buf"
    "\<forall>j < length buf. b ! j = (if j = 15 - k then NUL
        else if Suc i \<le> j \<and> j < 15 - k then ?b ! (j + k) else ?b ! j)"
    by auto
  have "shift_loop buf k i = Some b"
    using lt b(1) Suc.prems by (subst shift_loop.simps) simp
  then show ?case using b(2,3) Suc.prems Suc.hyps(2)
    by (intro exI [of _ b]) (auto simp: nth_list_update)
qed

lemma shift_loop_short:
  "i + k < 15 \<Longrightarrow> length buf < 15 \<Longrightarrow> shift_loop buf k i = None"
proof (induction "15 - (i + k)" arbitrary: i buf rule: less_induct)
  case less
  have "i + k = 14 \<or> Suc i + k < 15" using less.prems(1) by linarith
  then show ?case
    using less.hyps [of "Suc i" "buf[i := buf ! (i + k)]"] less.prems
    by (subst shift_loop.simps) (auto simp: shift_loop.simps [of _ _ "Suc i"])
qed

lemma blanks_count:
  "d \<noteq> [] \<Longrightarrow> hd d \<noteq> SPACE \<Longrightarrow>
   length (takeWhile (\<lambda>c. c = SPACE) (replicate k SPACE @ d @ [NUL])) = k"
  by (induction k) (cases d; auto)+

lemma takeWhile_upto:
  "n < length b \<Longrightarrow> b ! n = NUL \<Longrightarrow> (\<forall>j < n. b ! j \<noteq> NUL) \<Longrightarrow> takeWhile (\<lambda>c. c \<noteq> NUL) b = take n b"
proof (induction b arbitrary: n)
  case (Cons c b)
  show ?case
  proof (cases n)
    case (Suc m)
    have "c \<noteq> NUL" using Cons.prems(3) Suc by (metis nth_Cons_0 zero_less_Suc)
    moreover have "\<forall>j < m. b ! j \<noteq> NUL" using Cons.prems(3) Suc by (metis Suc_mono nth_Cons_Suc)
    ultimately show ?thesis using Cons.IH [of m] Cons.prems(1,2) Suc by simp
  qed (use Cons.prems in simp)
qed simp

lemma trim_padded:
  assumes "0 < k" "k < 15" "d \<noteq> []" "hd d \<noteq> SPACE" "NUL \<notin> set d" "14 \<le> k + length d"
  shows "trim_number (replicate k SPACE @ d) = CText (take (15 - k) d)"
proof -
  let ?buf = "replicate k SPACE @ d @ [NUL]"
  have len: "15 \<le> length ?buf" using assms(6) by simp
  have "0 + k \<le> 15" using assms(2) by simp
  from shift_loop_spec [OF this assms(1) len]
  obtain b where b: "shift_loop ?buf k 0 = Some b" "length b = length ?buf"
    "\<forall>j < length ?buf. b ! j = (if j = 15 - k then NUL
        else if 0 \<le> j \<and> j < 15 - k then ?buf ! (j + k) else ?buf ! j)"
    by blast
  define n where "n = min (15 - k) (length d)"
  have at: "b ! j = d ! j" if "j < n" for j
    using b(3) that len by (auto simp: n_def nth_append)
  have "b ! n = NUL"
    using b(3) len assms(2) by (auto simp: n_def nth_append min_def)
  moreover have "n < length b" using b(2) by (auto simp: n_def)
  moreover have "b ! j \<noteq> NUL" if "j < n" for j
  proof -
    have "d ! j \<in> set d" using that by (intro nth_mem) (simp add: n_def)
    then show ?thesis using at [OF that] assms(5) by metis
  qed
  ultimately have "takeWhile (\<lambda>c. c \<noteq> NUL) b = take n b" by (intro takeWhile_upto) auto
  also have "\<dots> = take (15 - k) d"
    using at b(2) by (intro nth_equalityI) (auto simp: n_def)
  finally show ?thesis
    using b(1) assms(1,3,4) blanks_count [of d k] by (simp add: trim_number_def Let_def del: length_greater_0_conv)
qed

text \<open>a number formatted with \<open>k\<close> leading blanks to a text of 14 characters or more keeps
  only the digits that end before its 16th character: up to a width of 15 the literal is the number,
  beyond it the last digits are lost.\<close>

theorem padded_number_literal:
  assumes "n \<noteq> 0" "is (INum n) len dec = replicate k SPACE @ d" "0 < k" "k < 15" "d \<noteq> []"
    "hd d \<noteq> SPACE" "NUL \<notin> set d" "14 \<le> k + length d"
  shows "SR_quotedNull e is ds (INum n) len dec nullable db tc memo = (CText (take (15 - k) d), False)"
  using assms(1,2) trim_padded [OF assms(3-8)] by (simp add: SR_quotedNull_def)

theorem padded_number_literal_witness:
  "SR_quotedNull (\<lambda>s. s = []) (\<lambda>v l d. replicate 14 SPACE @ ''1234'') (\<lambda>d. []) (INum 1234) NIL NIL
     True RDBMS_ORACLE False False = (CText ''1'', False)"
  using padded_number_literal [of 1234 "\<lambda>v l d. replicate 14 SPACE @ ''1234''" NIL NIL 14 "''1234''"
      "\<lambda>s. s = []" "\<lambda>d. []" True RDBMS_ORACLE False False] by simp

text \<open>a number formatted with leading blanks to fewer than 14 characters makes the same loop
  leave its buffer.\<close>

theorem short_padded_number_overruns:
  assumes "n \<noteq> 0" "is (INum n) len dec = replicate k SPACE @ d" "0 < k" "d \<noteq> []" "hd d \<noteq> SPACE"
    "k + length d < 14"
  shows "SR_quotedNull e is ds (INum n) len dec nullable db tc memo = (CBadAccess, False)"
  using assms shift_loop_short [of 0 k "replicate k SPACE @ d @ [NUL]"] blanks_count [of d k]
  by (simp add: SR_quotedNull_def trim_number_def Let_def del: length_greater_0_conv)

theorem short_padded_number_overruns_witness:
  "SR_quotedNull (\<lambda>s. s = []) (\<lambda>v l d. ''    7'') (\<lambda>d. []) (INum 7) NIL NIL
     True RDBMS_ORACLE False False = (CBadAccess, False)"
  using short_padded_number_overruns [of 7 "\<lambda>v l d. ''    7''" NIL NIL 4 "''7''"
      "\<lambda>s. s = []" "\<lambda>d. []" True RDBMS_ORACLE False False]
  by (simp add: eval_nat_numeral)

section \<open>Scientific notation\<close>

definition plain :: "char \<Rightarrow> bool" where
  "plain c \<longleftrightarrow> c \<noteq> CHR '','' \<and> c \<noteq> CHR ''.'' \<and> c \<noteq> CHR ''E''"

definition write_at :: "bytes \<Rightarrow> nat \<Rightarrow> bytes \<Rightarrow> bytes" where
  "write_at buf i x = take i buf @ x @ drop (i + length x) buf"

lemma write_at_Nil [simp]: "write_at buf i [] = buf"
  by (simp add: write_at_def)

lemma write_at_Cons:
  "i < length buf \<Longrightarrow> write_at (buf[i := c]) (Suc i) x = write_at buf i (c # x)"
  by (simp add: write_at_def take_Suc_conv_app_nth upd_conv_take_nth_drop add.commute)

lemma copy_plain:
  "\<forall>c \<in> set x. plain c \<Longrightarrow> length p + length x \<le> ns_size st \<Longrightarrow>
   length p + length x \<le> length (ns_buf st) \<Longrightarrow>
   copy_loop sv (p @ x @ r) (length p) st =
   copy_loop sv (p @ x @ r) (length p + length x) (st\<lparr>ns_buf := write_at (ns_buf st) (length p) x\<rparr>)"
proof (induction x arbitrary: p st)
  case Nil
  then show ?case by simp
next
  case (Cons c x)
  let ?st = "st\<lparr>ns_buf := (ns_buf st)[length p := c]\<rparr>"
  have "copy_loop sv (p @ (c # x) @ r) (length p) st = copy_loop sv (p @ (c # x) @ r) (Suc (length p)) ?st"
    using Cons.prems by (subst copy_loop.simps) (simp add: plain_def Let_def)
  also have "\<dots> = copy_loop sv (p @ (c # x) @ r) (length p + length (c # x))
      (st\<lparr>ns_buf := write_at (ns_buf st) (length p) (c # x)\<rparr>)"
    using Cons.IH [of "p @ [c]" ?st] Cons.prems by (simp add: write_at_Cons)
  finally show ?case .
qed

text \<open>The copying loop on digits, a point and digits.\<close>

lemma copy_pointed:
  assumes "\<forall>c \<in> set (a @ x). plain c" "length a + length x + 1 \<le> ns_size st" "ns_size st \<le> length (ns_buf st)"
  shows "copy_loop sv (a @ CHR ''.'' # x @ r) 0 st = copy_loop sv (a @ CHR ''.'' # x @ r) (Suc (length a) + length x)
    (st\<lparr>ns_integer := False, ns_dec := length a, ns_buf := write_at (ns_buf st) 0 (a @ CHR ''.'' # x)\<rparr>)"
proof -
  let ?src = "a @ CHR ''.'' # x @ r"
  let ?b1 = "write_at (ns_buf st) 0 a"
  let ?st1 = "st\<lparr>ns_buf := ?b1\<rparr>"
  have l1: "length ?b1 = length (ns_buf st)" using assms(2,3) by (simp add: write_at_def)
  have "copy_loop sv ?src 0 st = copy_loop sv ?src (length a) ?st1"
    using copy_plain [of a "[]" st sv] assms by simp
  also have "\<dots> = copy_loop sv ?src (Suc (length a))
      (?st1\<lparr>ns_buf := ?b1[length a := CHR ''.''], ns_integer := False, ns_dec := length a\<rparr>)"
    using assms by (subst copy_loop.simps) (simp add: Let_def nth_append)
  also have "?b1[length a := CHR ''.''] = write_at (ns_buf st) 0 (a @ [CHR ''.''])"
    using assms(2,3) by (simp add: write_at_def list_update_append upd_conv_take_nth_drop)
  also have "copy_loop sv ?src (Suc (length a))
      (?st1\<lparr>ns_buf := write_at (ns_buf st) 0 (a @ [CHR ''.'']), ns_integer := False, ns_dec := length a\<rparr>) =
      copy_loop sv ?src (Suc (length a) + length x)
      (st\<lparr>ns_integer := False, ns_dec := length a, ns_buf := write_at (ns_buf st) 0 (a @ CHR ''.'' # x)\<rparr>)"
    using copy_plain [of x "a @ [CHR ''.'']"
        "?st1\<lparr>ns_buf := write_at (ns_buf st) 0 (a @ [CHR ''.'']), ns_integer := False, ns_dec := length a\<rparr>" sv r] assms
    by (simp add: write_at_def add.commute [of "length x"])
  finally show ?thesis .
qed

text \<open>The copying loop on a number \<open>a.xE..\<close> leaves the mantissa and the exponent's value.\<close>

lemma copy_scientific:
  assumes "\<forall>c \<in> set (a @ x). plain c" "ns_size st = length a + length x + 2 + length e"
    "e \<noteq> []" "length (ns_buf st) = ns_size st + 33"
  shows "copy_loop sv (a @ CHR ''.'' # x @ CHR ''E'' # e @ [NUL]) 0 st =
    st\<lparr>ns_buf := write_at (ns_buf st) 0 (a @ CHR ''.'' # x @ [CHR ''E'']), ns_integer := False,
       ns_dec := length a, ns_size := length a + length x + 1,
       ns_mult := sv (exponent_text (a @ CHR ''.'' # x @ CHR ''E'' # e @ [NUL]) (ns_size st)
                        (length a + length x + 1))\<rparr>"
proof -
  let ?src = "a @ CHR ''.'' # x @ CHR ''E'' # e @ [NUL]"
  have "copy_loop sv ?src 0 st = copy_loop sv ?src (Suc (length a) + length x)
      (st\<lparr>ns_integer := False, ns_dec := length a, ns_buf := write_at (ns_buf st) 0 (a @ CHR ''.'' # x)\<rparr>)"
    using assms by (intro copy_pointed) simp_all
  also have "\<dots> = st\<lparr>ns_buf := (write_at (ns_buf st) 0 (a @ CHR ''.'' # x))[length a + length x + 1 := CHR ''E''],
       ns_integer := False, ns_dec := length a, ns_size := length a + length x + 1,
       ns_mult := sv (exponent_text ?src (ns_size st) (length a + length x + 1))\<rparr>"
    using assms by (subst copy_loop.simps) (cases e; simp add: Let_def nth_append)
  also have "(write_at (ns_buf st) 0 (a @ CHR ''.'' # x))[length a + length x + 1 := CHR ''E''] =
      write_at (ns_buf st) 0 (a @ CHR ''.'' # x @ [CHR ''E''])"
    using assms(2,4) by (simp add: write_at_def list_update_append upd_conv_take_nth_drop)
  finally show ?thesis .
qed

text \<open>A number with a point and without an exponent is read as it stands.\<close>

lemma pointed_number_read:
  assumes "\<forall>c \<in> set (a @ x). plain c \<and> c \<noteq> NUL"
  shows "fst (number_of_text sv svi (a @ CHR ''.'' # x) len dec) = sv (a @ CHR ''.'' # x)"
proof -
  let ?s = "a @ CHR ''.'' # x"
  let ?n = "length ?s"
  let ?st = "\<lparr>ns_buf = replicate (?n + 33) NUL, ns_dec = 0, ns_integer = True, ns_size = ?n, ns_mult = 0\<rparr>"
  have "copy_loop sv (?s @ [NUL]) 0 ?st = copy_loop sv (?s @ [NUL]) (Suc (length a) + length x)
      (?st\<lparr>ns_integer := False, ns_dec := length a, ns_buf := write_at (ns_buf ?st) 0 ?s\<rparr>)"
    using copy_pointed [of a x ?st sv "[NUL]"] assms by simp
  also have "\<dots> = ?st\<lparr>ns_integer := False, ns_dec := length a, ns_buf := write_at (ns_buf ?st) 0 ?s\<rparr>"
    by (subst copy_loop.simps) simp
  finally show ?thesis
    by (simp add: number_of_text_def Let_def write_at_def)
qed

lemma move_point_idle: "m \<le> 0 \<Longrightarrow> move_point iSize i m buf = buf"
proof (induction iSize i m buf rule: move_point.induct)
  case (1 iSize i m buf)
  then show ?case by (subst move_point.simps) simp
qed

lemma move_point_step:
  assumes "length a \<le> iSize" "m > 0" "c \<noteq> NUL"
  shows "move_point iSize (length a) m (a @ CHR ''.'' # c # d # r) =
     (if m = 1 \<and> d = NUL then a @ c # NUL # d # r
      else move_point iSize (Suc (length a)) (m - 1) (a @ c # CHR ''.'' # d # r))"
  using assms by (subst move_point.simps) (simp add: Let_def list_update_append nth_append)

text \<open>The point moves over the digits \<open>x\<close>, and disappears when nothing is left behind it.\<close>

lemma move_digits:
  "x \<noteq> [] \<Longrightarrow> NUL \<notin> set x \<Longrightarrow> length a + length x \<le> iSize \<Longrightarrow>
   move_point iSize (length a) (of_nat (length x)) (a @ CHR ''.'' # x @ d # r) =
   (if d = NUL then a @ x @ NUL # d # r else a @ x @ CHR ''.'' # d # r)"
proof (induction x arbitrary: a)
  case Nil
  then show ?case by simp
next
  case (Cons c x)
  show ?case
  proof (cases x)
    case Nil
    then show ?thesis
      using Cons.prems move_point_step [of a iSize 1 c d r] by (simp add: move_point_idle)
  next
    case (Cons c' x')
    have "c \<noteq> NUL" using Cons.prems by auto
    then have "move_point iSize (length a) (of_nat (length (c # x))) (a @ CHR ''.'' # c # c' # x' @ d # r) =
        move_point iSize (Suc (length a)) (of_nat (length x)) (a @ c # CHR ''.'' # c' # x' @ d # r)"
      using Cons.prems Cons move_point_step [of a iSize "of_nat (length (c # x))" c c' "x' @ d # r"]
      by simp
    also have "\<dots> = (if d = NUL then a @ (c # x) @ NUL # d # r else a @ (c # x) @ CHR ''.'' # d # r)"
      using Cons.IH [of "a @ [c]"] Cons.prems Cons by simp
    finally show ?thesis using Cons by simp
  qed
qed

definition point_after :: "bytes \<Rightarrow> bytes \<Rightarrow> bytes" where
  "point_after a y = (if y = [] then a else a @ CHR ''.'' # y)"

lemma takeWhile_text:
  "NUL \<notin> set t \<Longrightarrow> takeWhile (\<lambda>c. c \<noteq> NUL) (t @ NUL # r) = t"
  by (induction t) auto

text \<open>a number in scientific notation, with a sign and three digits of exponent, is read as
  its mantissa with the decimal point moved right by the exponent, when the mantissa has enough
  decimals.\<close>

theorem scientific_number_read:
  assumes "\<forall>c \<in> set (a @ x @ y). plain c \<and> c \<noteq> NUL" "x \<noteq> []" "sg \<noteq> CHR ''-''"
    "str_val [CHR ''0'', d1, d2, d3, NUL] = of_nat (length x)"
  shows "\<exists>w. SR_ESCAPENUM str_val str_val_int
      (Str (a @ CHR ''.'' # x @ y @ CHR ''E'' # [sg, d1, d2, d3])) (INum len) (INum dec) =
    Returns (str_val (point_after (a @ x) y), w)"
proof -
  let ?s = "a @ CHR ''.'' # x @ y @ CHR ''E'' # [sg, d1, d2, d3]"
  let ?st0 = "\<lparr>ns_buf = replicate (length ?s + 33) NUL, ns_dec = 0, ns_integer = True,
     ns_size = length ?s, ns_mult = 0\<rparr>"
  let ?n = "length a + length x + length y + 1"
  define z where "z = replicate 37 NUL"
  have ex: "exponent_text (?s @ [NUL]) (length ?s) ?n = [CHR ''0'', d1, d2, d3, NUL]"
    using assms(3) by (simp add: exponent_text_def nth_append)
  have st: "copy_loop str_val (?s @ [NUL]) 0 ?st0 =
      ?st0\<lparr>ns_buf := write_at (ns_buf ?st0) 0 (a @ CHR ''.'' # x @ y @ [CHR ''E'']), ns_integer := False,
         ns_dec := length a, ns_size := ?n, ns_mult := of_nat (length x)\<rparr>"
    using copy_scientific [of a "x @ y" ?st0 "[sg, d1, d2, d3]" str_val] assms(1,4) ex
    by (simp add: add.assoc)
  have b0: "(write_at (ns_buf ?st0) 0 (a @ CHR ''.'' # x @ y @ [CHR ''E'']))[?n := NUL] =
      a @ CHR ''.'' # x @ y @ NUL # z"
    by (simp add: write_at_def list_update_append z_def)
  have nul: "NUL \<notin> set (a @ x)" "NUL \<notin> set x" "NUL \<notin> set (point_after (a @ x) y)"
    using assms(1) by (auto simp: point_after_def)
  have "\<exists>t. move_point ?n (length a) (of_nat (length x)) (a @ CHR ''.'' # x @ y @ NUL # z) =
      point_after (a @ x) y @ NUL # t"
  proof (cases y)
    case Nil
    then show ?thesis
      using move_digits [of x a ?n NUL z] assms(2) nul by (simp add: point_after_def)
  next
    case (Cons d y')
    then show ?thesis
      using move_digits [of x a ?n d "y' @ NUL # z"] assms(1,2) nul by (simp add: point_after_def)
  qed
  then obtain t where mv: "move_point ?n (length a) (of_nat (length x)) (a @ CHR ''.'' # x @ y @ NUL # z) =
      point_after (a @ x) y @ NUL # t" by blast
  have tw: "takeWhile (\<lambda>c. c \<noteq> NUL) (point_after (a @ x) y @ NUL # t) = point_after (a @ x) y"
    by (rule takeWhile_text [OF nul(3)])
  have "fst (number_of_text str_val str_val_int ?s len1 dec1) = str_val (point_after (a @ x) y)"
    for len1 dec1
    unfolding number_of_text_def Let_def st using b0 mv tw assms(2)
    by simp
  then show ?thesis by (simp add: SR_ESCAPENUM_def) (metis prod.collapse)
qed

text \<open>The digits at the start of a text, read as a number: what \<open>hb_strVal\<close> gives for a text of
  digits.\<close>

definition leading_digits :: "bytes \<Rightarrow> rat" where
  "leading_digits t =
     of_int (foldl (\<lambda>v c. 10 * v + (int (byte c) - 48)) 0 (takeWhile is_digit t))"

theorem scientific_number_read_witness:
  "\<exists>w. SR_ESCAPENUM leading_digits (\<lambda>t. (0, False)) (Str ''1.2345E+002'') (INum 10) (INum 2) =
    Returns (leading_digits ''123.45'', w)"
proof -
  have "\<forall>c \<in> set (''1'' @ ''23'' @ ''45''). plain c \<and> c \<noteq> NUL"
    "leading_digits [CHR ''0'', CHR ''0'', CHR ''0'', CHR ''2'', NUL] = of_nat (length ''23'')"
    by code_simp+
  then show ?thesis
    using scientific_number_read [of "''1''" "''23''" "''45''" "CHR ''+''" leading_digits
        "CHR ''0''" "CHR ''0''" "CHR ''2''" "\<lambda>t. (0, False)" 10 2]
    by (simp add: point_after_def)
qed

text \<open>an exponent of one digit and no sign is not read at all: whatever the digit, the result is
  the same.\<close>

theorem unsigned_exponent_ignored:
  assumes "\<forall>c \<in> set (a @ x). plain c" "d \<noteq> CHR ''-''" "d' \<noteq> CHR ''-''"
  shows "SR_ESCAPENUM str_val str_val_int (Str (a @ CHR ''.'' # x @ [CHR ''E'', d])) (INum len) (INum dec) =
    SR_ESCAPENUM str_val str_val_int (Str (a @ CHR ''.'' # x @ [CHR ''E'', d'])) (INum len) (INum dec)"
proof -
  let ?n = "length a + length x + 3"
  let ?st0 = "\<lparr>ns_buf = replicate (?n + 33) NUL, ns_dec = 0, ns_integer = True, ns_size = ?n, ns_mult = 0\<rparr>"
  have ex: "exponent_text (a @ CHR ''.'' # x @ CHR ''E'' # [e] @ [NUL]) ?n (length a + length x + 1) =
      [CHR ''0'', NUL, NUL, NUL, NUL]" if "e \<noteq> CHR ''-''" for e
    using that by (simp add: exponent_text_def nth_append)
  have "copy_loop str_val (a @ CHR ''.'' # x @ CHR ''E'' # [e] @ [NUL]) 0 ?st0 =
      ?st0\<lparr>ns_buf := write_at (ns_buf ?st0) 0 (a @ CHR ''.'' # x @ [CHR ''E'']), ns_integer := False,
         ns_dec := length a, ns_size := length a + length x + 1,
         ns_mult := str_val [CHR ''0'', NUL, NUL, NUL, NUL]\<rparr>" if "e \<noteq> CHR ''-''" for e
    using copy_scientific [of a x ?st0 "[e]" str_val] assms(1) ex [OF that] by simp
  note st = this [OF assms(2)] this [OF assms(3)]
  have "number_of_text str_val str_val_int (a @ CHR ''.'' # x @ [CHR ''E'', d]) l1 d1 =
      number_of_text str_val str_val_int (a @ CHR ''.'' # x @ [CHR ''E'', d']) l1 d1" for l1 d1
  proof -
    have len: "length (a @ CHR ''.'' # x @ [CHR ''E'', e]) = ?n" for e by simp
    show ?thesis
      unfolding number_of_text_def Let_def len using st by (simp only: append_assoc append_Cons append_Nil)
  qed
  then show ?thesis by (simp add: SR_ESCAPENUM_def)
qed

theorem unsigned_exponent_ignored_witness:
  "SR_ESCAPENUM leading_digits (\<lambda>t. (0, False)) (Str ''2.5E5'') (INum 10) (INum 2) =
   SR_ESCAPENUM leading_digits (\<lambda>t. (0, False)) (Str ''2.5E1'') (INum 10) (INum 2)"
proof -
  have "\<forall>c \<in> set (''2'' @ ''5''). plain c" by code_simp
  then show ?thesis
    using unsigned_exponent_ignored [of "''2''" "''5''" "CHR ''5''" "CHR ''1''" leading_digits] by simp
qed

end
