(* ===== verification/WorkArea.thy ===== *)
theory WorkArea
  imports HbItem
begin

text \<open>
  The SQL work area, \<open>SQLAREA\<close> of \<open>source/sqlrdd.h\<close>, and what its operations in
  \<open>source/sqlrdd1.c\<close> talk to. The Harbour arrays of an area are shared with its work area object,
  which is written in PRG code: here they are lists inside the state, and a message to the object
  may change every part of the state. The outside (the object, the functions of the parent driver,
  the run-time library) is the record \<open>env\<close>; the driver's own functions are called through the
  record \<open>rdd\<close>, as the code calls them through its function table. A computation that does not
  come back with a result is \<open>None\<close>.
\<close>

section \<open>The area\<close>

text \<open>
  \<open>itmCobExpr\<close> is the code block of the filter (\<open>area.dbfi.itmCobExpr\<close>), \<open>lpdbRelations\<close> says
  whether the area has child relations, a pending relation is known by a number. A code page is a
  number too, 0 standing for the null pointer. \<open>world\<close> is everything else.
\<close>

record field =
  uiType :: int
  uiLen :: nat
  uiDec :: nat
  uiFlags :: int

record 'w area =
  fBof :: bool
  fEof :: bool
  fFound :: bool
  fTop :: bool
  fBottom :: bool
  itmCobExpr :: "item option"
  lpdbRelations :: bool
  lpFields :: "field list"
  cdPage :: nat
  cdPageCnv :: nat
  szDataFileName :: "bytes option"
  hOrdCurrent :: int
  shared :: bool
  readonly :: bool
  creating :: bool
  firstinteract :: bool
  isam :: bool
  wasdel :: bool
  initialized :: bool
  sqlfilter :: bool
  oWorkArea :: item
  aInfo :: "item list"
  aBuffer :: "item list"
  aOrders :: "item list"
  aStruct :: item
  aLocked :: "item list"
  aCreate :: item
  aCache :: "item list"
  aOldBuffer :: "item list"
  aEmptyBuff :: "item list"
  aSelectList :: "item list"
  ulhRecno :: nat
  ulhDeleted :: nat
  uiBufferIndex :: "int list"
  uiFieldList :: "int list"
  iFieldListStatus :: int
  lpdbPendingRel :: "nat option"
  world :: 'w

text \<open>An area as it is allocated: every flag off and every pointer null.\<close>

definition zero_area :: "'w \<Rightarrow> 'w area" where
  "zero_area w =
     \<lparr>fBof = False, fEof = False, fFound = False, fTop = False, fBottom = False, itmCobExpr = None,
      lpdbRelations = False, lpFields = [], cdPage = 0, cdPageCnv = 0, szDataFileName = None,
      hOrdCurrent = 0, shared = False, readonly = False, creating = False, firstinteract = False,
      isam = False, wasdel = False, initialized = False, sqlfilter = False, oWorkArea = NIL,
      aInfo = [], aBuffer = [], aOrders = [], aStruct = NIL, aLocked = [], aCreate = NIL, aCache = [],
      aOldBuffer = [], aEmptyBuff = [], aSelectList = [], ulhRecno = 0, ulhDeleted = 0,
      uiBufferIndex = [], uiFieldList = [], iFieldListStatus = 0, lpdbPendingRel = None, world = w\<rparr>"

section \<open>The status array\<close>

text \<open>The positions of \<open>include/sqlrddsetup.ch\<close>.\<close>

abbreviation SR_CACHE_PAGE_SIZE :: int where "SR_CACHE_PAGE_SIZE \<equiv> 200"
abbreviation SR_AINFO_BOF :: nat where "SR_AINFO_BOF \<equiv> 1"
abbreviation SR_AINFO_EOF :: nat where "SR_AINFO_EOF \<equiv> 2"
abbreviation SR_AINFO_FOUND :: nat where "SR_AINFO_FOUND \<equiv> 3"
abbreviation SR_AINFO_RECNO :: nat where "SR_AINFO_RECNO \<equiv> 4"
abbreviation SR_AINFO_RCOUNT :: nat where "SR_AINFO_RCOUNT \<equiv> 6"
abbreviation SR_AINFO_HOT :: nat where "SR_AINFO_HOT \<equiv> 7"
abbreviation SR_AINFO_DELETED :: nat where "SR_AINFO_DELETED \<equiv> 8"
abbreviation SR_AINFO_ISINSERT :: nat where "SR_AINFO_ISINSERT \<equiv> 12"
abbreviation SR_AINFO_BOF_AT :: nat where "SR_AINFO_BOF_AT \<equiv> 13"
abbreviation SR_AINFO_EOF_AT :: nat where "SR_AINFO_EOF_AT \<equiv> 14"
abbreviation SR_AINFO_INDEXORD :: nat where "SR_AINFO_INDEXORD \<equiv> 16"
abbreviation SR_AINFO_REVERSE_INDEX :: nat where "SR_AINFO_REVERSE_INDEX \<equiv> 17"
abbreviation SR_AINFO_SKIPCOUNT :: nat where "SR_AINFO_SKIPCOUNT \<equiv> 18"
abbreviation SR_AINFO_NPOSCACHE :: nat where "SR_AINFO_NPOSCACHE \<equiv> 20"
abbreviation SR_AINFO_NCACHEBEGIN :: nat where "SR_AINFO_NCACHEBEGIN \<equiv> 21"
abbreviation SR_AINFO_NCACHEEND :: nat where "SR_AINFO_NCACHEEND \<equiv> 22"

definition info :: "nat \<Rightarrow> 'w area \<Rightarrow> item" where
  "info n a = arr_get NIL (aInfo a) n"

definition infoL :: "nat \<Rightarrow> 'w area \<Rightarrow> bool" where
  "infoL n a = hb_itemGetL (info n a)"

definition infoNL :: "nat \<Rightarrow> 'w area \<Rightarrow> int" where
  "infoNL n a = hb_itemGetNL (info n a)"

definition set_info :: "nat \<Rightarrow> item \<Rightarrow> 'w area \<Rightarrow> 'w area" where
  "set_info n v a = a\<lparr>aInfo := arr_set (aInfo a) n v\<rparr>"

abbreviation set_infoL :: "nat \<Rightarrow> bool \<Rightarrow> 'w area \<Rightarrow> 'w area" where
  "set_infoL n b \<equiv> set_info n (Logical b)"

abbreviation set_infoNL :: "nat \<Rightarrow> int \<Rightarrow> 'w area \<Rightarrow> 'w area" where
  "set_infoNL n v \<equiv> set_info n (INum v)"

text \<open>The positions the driver uses all exist.\<close>

definition info_ok :: "'w area \<Rightarrow> bool" where
  "info_ok a \<longleftrightarrow> 22 \<le> length (aInfo a)"

lemma info_set_info:
  "1 \<le> n \<Longrightarrow> n \<le> length (aInfo a) \<Longrightarrow> info m (set_info n v a) = (if m = n then v else info m a)"
  by (simp add: info_def set_info_def arr_get_set)

lemma info_set_info_ok [simp]:
  "info_ok a \<Longrightarrow> 1 \<le> n \<Longrightarrow> n \<le> 22 \<Longrightarrow> info m (set_info n v a) = (if m = n then v else info m a)"
  by (simp add: info_ok_def info_set_info)

lemma infoL_set_info [simp]:
  "info_ok a \<Longrightarrow> 1 \<le> n \<Longrightarrow> n \<le> 22 \<Longrightarrow>
   infoL m (set_info n v a) = (if m = n then hb_itemGetL v else infoL m a)"
  by (simp add: infoL_def)

lemma infoNL_set_info [simp]:
  "info_ok a \<Longrightarrow> 1 \<le> n \<Longrightarrow> n \<le> 22 \<Longrightarrow>
   infoNL m (set_info n v a) = (if m = n then hb_itemGetNL v else infoNL m a)"
  by (simp add: infoNL_def)

lemma info_ok_set_info [simp]: "info_ok (set_info n v a) = info_ok a"
  by (simp add: info_ok_def set_info_def)

text \<open>Writing the status array changes nothing else.\<close>

lemma set_info_fields [simp]:
  "fBof (set_info n v a) = fBof a" "fEof (set_info n v a) = fEof a"
  "fFound (set_info n v a) = fFound a" "fTop (set_info n v a) = fTop a"
  "fBottom (set_info n v a) = fBottom a" "itmCobExpr (set_info n v a) = itmCobExpr a"
  "lpdbRelations (set_info n v a) = lpdbRelations a" "isam (set_info n v a) = isam a"
  "wasdel (set_info n v a) = wasdel a" "firstinteract (set_info n v a) = firstinteract a"
  "aCache (set_info n v a) = aCache a" "aBuffer (set_info n v a) = aBuffer a"
  "aOldBuffer (set_info n v a) = aOldBuffer a" "aEmptyBuff (set_info n v a) = aEmptyBuff a"
  "ulhRecno (set_info n v a) = ulhRecno a" "ulhDeleted (set_info n v a) = ulhDeleted a"
  "lpdbPendingRel (set_info n v a) = lpdbPendingRel a" "world (set_info n v a) = world a"
  "hOrdCurrent (set_info n v a) = hOrdCurrent a" "sqlfilter (set_info n v a) = sqlfilter a"
  "oWorkArea (set_info n v a) = oWorkArea a" "aOrders (set_info n v a) = aOrders a"
  "uiBufferIndex (set_info n v a) = uiBufferIndex a" "uiFieldList (set_info n v a) = uiFieldList a"
  "lpFields (set_info n v a) = lpFields a" "cdPage (set_info n v a) = cdPage a"
  "cdPageCnv (set_info n v a) = cdPageCnv a" "shared (set_info n v a) = shared a"
  "aLocked (set_info n v a) = aLocked a" "aSelectList (set_info n v a) = aSelectList a"
  "initialized (set_info n v a) = initialized a"
  by (simp_all add: set_info_def)

lemma info_update [simp]:
  "info n (a\<lparr>fBof := b\<rparr>) = info n a" "info n (a\<lparr>fEof := b\<rparr>) = info n a"
  "info n (a\<lparr>fFound := b\<rparr>) = info n a" "info n (a\<lparr>fTop := b\<rparr>) = info n a"
  "info n (a\<lparr>fBottom := b\<rparr>) = info n a" "info n (a\<lparr>firstinteract := b\<rparr>) = info n a"
  "info n (a\<lparr>wasdel := b\<rparr>) = info n a" "info n (a\<lparr>lpdbPendingRel := r\<rparr>) = info n a"
  "info n (a\<lparr>aBuffer := x\<rparr>) = info n a" "info n (a\<lparr>aOldBuffer := x\<rparr>) = info n a"
  "info n (a\<lparr>aLocked := x\<rparr>) = info n a"
  "info n (a\<lparr>world := w\<rparr>) = info n a"
  "info n (a\<lparr>sqlfilter := b\<rparr>) = info n a"
  "info n (a\<lparr>hOrdCurrent := k\<rparr>) = info n a"
  "info n (a\<lparr>aSelectList := x\<rparr>) = info n a"
  "info n (a\<lparr>uiFieldList := u\<rparr>) = info n a"
  "info n (a\<lparr>iFieldListStatus := k\<rparr>) = info n a"
  by (simp_all add: info_def)

lemma infoL_update [simp]:
  "infoL n (a\<lparr>fBof := b\<rparr>) = infoL n a" "infoL n (a\<lparr>fEof := b\<rparr>) = infoL n a"
  "infoL n (a\<lparr>fFound := b\<rparr>) = infoL n a" "infoL n (a\<lparr>fTop := b\<rparr>) = infoL n a"
  "infoL n (a\<lparr>fBottom := b\<rparr>) = infoL n a" "infoL n (a\<lparr>firstinteract := b\<rparr>) = infoL n a"
  "infoL n (a\<lparr>wasdel := b\<rparr>) = infoL n a" "infoL n (a\<lparr>lpdbPendingRel := r\<rparr>) = infoL n a"
  "infoL n (a\<lparr>aBuffer := x\<rparr>) = infoL n a" "infoL n (a\<lparr>aOldBuffer := x\<rparr>) = infoL n a"
  "infoL n (a\<lparr>aLocked := x\<rparr>) = infoL n a"
  "infoL n (a\<lparr>world := w\<rparr>) = infoL n a"
  "infoL n (a\<lparr>sqlfilter := b\<rparr>) = infoL n a"
  "infoL n (a\<lparr>hOrdCurrent := k\<rparr>) = infoL n a"
  "infoL n (a\<lparr>aSelectList := x\<rparr>) = infoL n a"
  "infoL n (a\<lparr>uiFieldList := u\<rparr>) = infoL n a"
  "infoL n (a\<lparr>iFieldListStatus := k\<rparr>) = infoL n a"
  by (simp_all add: infoL_def)

lemma infoNL_update [simp]:
  "infoNL n (a\<lparr>fBof := b\<rparr>) = infoNL n a" "infoNL n (a\<lparr>fEof := b\<rparr>) = infoNL n a"
  "infoNL n (a\<lparr>fFound := b\<rparr>) = infoNL n a" "infoNL n (a\<lparr>fTop := b\<rparr>) = infoNL n a"
  "infoNL n (a\<lparr>fBottom := b\<rparr>) = infoNL n a" "infoNL n (a\<lparr>firstinteract := b\<rparr>) = infoNL n a"
  "infoNL n (a\<lparr>wasdel := b\<rparr>) = infoNL n a" "infoNL n (a\<lparr>lpdbPendingRel := r\<rparr>) = infoNL n a"
  "infoNL n (a\<lparr>aBuffer := x\<rparr>) = infoNL n a" "infoNL n (a\<lparr>aOldBuffer := x\<rparr>) = infoNL n a"
  "infoNL n (a\<lparr>aLocked := x\<rparr>) = infoNL n a"
  "infoNL n (a\<lparr>world := w\<rparr>) = infoNL n a"
  "infoNL n (a\<lparr>sqlfilter := b\<rparr>) = infoNL n a"
  "infoNL n (a\<lparr>hOrdCurrent := k\<rparr>) = infoNL n a"
  "infoNL n (a\<lparr>aSelectList := x\<rparr>) = infoNL n a"
  "infoNL n (a\<lparr>uiFieldList := u\<rparr>) = infoNL n a"
  "infoNL n (a\<lparr>iFieldListStatus := k\<rparr>) = infoNL n a"
  by (simp_all add: infoNL_def)

lemma info_ok_update [simp]:
  "info_ok (a\<lparr>fBof := b\<rparr>) = info_ok a" "info_ok (a\<lparr>fEof := b\<rparr>) = info_ok a"
  "info_ok (a\<lparr>fFound := b\<rparr>) = info_ok a" "info_ok (a\<lparr>fTop := b\<rparr>) = info_ok a"
  "info_ok (a\<lparr>fBottom := b\<rparr>) = info_ok a" "info_ok (a\<lparr>firstinteract := b\<rparr>) = info_ok a"
  "info_ok (a\<lparr>wasdel := b\<rparr>) = info_ok a" "info_ok (a\<lparr>lpdbPendingRel := r\<rparr>) = info_ok a"
  "info_ok (a\<lparr>aBuffer := x\<rparr>) = info_ok a" "info_ok (a\<lparr>aOldBuffer := x\<rparr>) = info_ok a"
  "info_ok (a\<lparr>aLocked := x\<rparr>) = info_ok a"
  "info_ok (a\<lparr>world := w\<rparr>) = info_ok a"
  "info_ok (a\<lparr>sqlfilter := b\<rparr>) = info_ok a"
  "info_ok (a\<lparr>hOrdCurrent := k\<rparr>) = info_ok a"
  "info_ok (a\<lparr>aSelectList := x\<rparr>) = info_ok a"
  "info_ok (a\<lparr>uiFieldList := u\<rparr>) = info_ok a"
  "info_ok (a\<lparr>iFieldListStatus := k\<rparr>) = info_ok a"
  by (simp_all add: info_ok_def)

section \<open>The outside and the function table\<close>

type_synonym ('w, 'a) op = "'w area \<Rightarrow> ('a \<times> 'w area) option"

text \<open>The codes of Harbour's \<open>hbapirdd.h\<close>.\<close>

type_synonym errcode = int

abbreviation HB_SUCCESS :: errcode where "HB_SUCCESS \<equiv> 0"
abbreviation HB_FAILURE :: errcode where "HB_FAILURE \<equiv> 1"

text \<open>
  The driver's functions, called through \<open>lprfsHost\<close> (the \<open>SELF_..\<close> macros);
  \<open>SELF_SYNCCHILDREN\<close>, \<open>SELF_RELEVAL\<close> and \<open>SELF_ADDFIELD\<close> are inherited from the parent driver.
\<close>

record 'w rdd =
  self_goBottom :: "('w, errcode) op"
  self_goTo :: "int \<Rightarrow> ('w, errcode) op"
  self_goToId :: "item \<Rightarrow> ('w, errcode) op"
  self_goTop :: "('w, errcode) op"
  self_skip :: "int \<Rightarrow> ('w, errcode) op"
  self_skipFilter :: "int \<Rightarrow> ('w, errcode) op"
  self_skipRaw :: "int \<Rightarrow> ('w, errcode) op"
  self_deleted :: "('w, bool \<times> errcode) op"
  self_goCold :: "('w, errcode) op"
  self_forceRel :: "('w, errcode) op"
  self_childSync :: "nat \<Rightarrow> ('w, errcode) op"
  self_clearFilter :: "('w, errcode) op"
  self_bof :: "('w, bool \<times> errcode) op"
  self_eof :: "('w, bool \<times> errcode) op"
  self_recCount :: "('w, int \<times> errcode) op"
  self_recId :: "('w, item \<times> errcode) op"
  self_setFieldExtent :: "nat \<Rightarrow> ('w, errcode) op"
  self_close :: "('w, errcode) op"

text \<open>What is passed to open or create a table, and a column handed to the parent driver.\<close>

record openinfo =
  uiArea :: int
  abName :: bytes
  atomAlias :: "bytes option"
  fShared :: bool
  fReadonly :: bool
  cdpId :: "bytes option"
  ulConnection :: int

record fieldinfo =
  atomName :: bytes
  fi_uiType :: int
  fi_uiLen :: nat
  fi_uiDec :: nat

text \<open>The condition of an order, and a filter: its code block and its text.\<close>

record condinfo =
  abFor :: "bytes option"
  abWhile :: "bytes option"
  itmStartRecID :: "item option"
  lNextCount :: int
  itmRecID :: "item option"
  fRest :: bool
  fDescending :: bool

record filterinfo =
  ff_itmCobExpr :: "item option"
  abFilterText :: item

text \<open>
  \<open>send\<close> is \<open>hb_objSendMessage\<close> to the work area object: message, arguments, and the value
  \<open>hb_stackReturnItem\<close> has afterwards; \<open>send_to\<close> sends to another object and \<open>new_workarea\<close> calls the
  class function. The parent's operations that call back through the function table are given it.
  \<open>rtrim_len\<close>, \<open>date_text\<close>, \<open>item_text\<close> are \<open>hb_strRTrimLen\<close>, \<open>hb_itemGetDS\<close> and \<open>hb_itemStr\<close>;
  \<open>cdp_dup\<close> is \<open>hb_cdpnDup\<close>, \<open>cdp_dup2\<close> \<open>hb_cdpnDup2\<close> with the size of its buffer, \<open>str_cmp\<close>
  \<open>hb_itemStrCmp\<close> without exact comparison, \<open>put_nlen\<close> \<open>hb_itemPutNLen\<close>. \<open>hash_add\<close> is \<open>hb_hashAdd\<close> to
  the hash in a column of the buffer: a hash is shared by every array that holds it, so this may
  change them all. \<open>common_error\<close> is the raising of an error with its two codes; Harbour's error
  handler may come back from it. The functions of the run-time settings read the \<open>world\<close>.
\<close>

record 'w env =
  send :: "string \<Rightarrow> item list \<Rightarrow> ('w, item) op"
  send_to :: "item \<Rightarrow> string \<Rightarrow> item list \<Rightarrow> ('w, item) op"
  new_workarea :: "('w, item) op"
  eval_block :: "item \<Rightarrow> ('w, item) op"
  macro_value :: "bytes \<Rightarrow> ('w, item) op"
  hash_add :: "nat \<Rightarrow> item \<Rightarrow> item \<Rightarrow> ('w, unit) op"
  common_error :: "int \<Rightarrow> int \<Rightarrow> ('w, unit) op"
  sync_children :: "('w, errcode) op"
  rel_eval :: "nat \<Rightarrow> ('w, errcode) op"
  add_field :: "fieldinfo \<Rightarrow> ('w, errcode) op"
  super_skip :: "'w rdd \<Rightarrow> int \<Rightarrow> ('w, errcode) op"
  super_locate :: "'w rdd \<Rightarrow> bool \<Rightarrow> ('w, errcode) op"
  super_setFilter :: "'w rdd \<Rightarrow> filterinfo \<Rightarrow> ('w, errcode) op"
  super_clearFilter :: "('w, errcode) op"
  super_filterText :: "item \<Rightarrow> ('w, item \<times> errcode) op"
  super_new :: "('w, errcode) op"
  super_open :: "openinfo \<Rightarrow> ('w, errcode) op"
  super_create :: "'w rdd \<Rightarrow> openinfo \<Rightarrow> ('w, errcode) op"
  super_createFields :: "'w rdd \<Rightarrow> item \<Rightarrow> ('w, errcode) op"
  super_close :: "'w rdd \<Rightarrow> ('w, errcode) op"
  super_childStart :: "nat \<Rightarrow> ('w, errcode) op"
  super_childEnd :: "nat \<Rightarrow> ('w, errcode) op"
  super_setFieldExtent :: "nat \<Rightarrow> ('w, errcode) op"
  super_ordSetCond :: "condinfo option \<Rightarrow> ('w, errcode) op"
  vm_cdp :: "'w \<Rightarrow> nat"
  cdp_find :: "bytes \<Rightarrow> nat"
  cdp_id :: "nat \<Rightarrow> bytes"
  cdp_dup :: "bytes \<Rightarrow> nat \<Rightarrow> nat \<Rightarrow> bytes"
  cdp_dup2 :: "bytes \<Rightarrow> nat \<Rightarrow> nat \<Rightarrow> nat \<Rightarrow> bytes"
  put_nlen :: "rat \<Rightarrow> nat \<Rightarrow> nat \<Rightarrow> item"
  rtrim_len :: "bytes \<Rightarrow> nat"
  date_text :: "int \<Rightarrow> bytes"
  item_text :: "item \<Rightarrow> item \<Rightarrow> bytes"
  str_cmp :: "bytes \<Rightarrow> bytes \<Rightarrow> int"
  alias_of :: "bytes \<Rightarrow> bytes"
  set_deleted :: "'w \<Rightarrow> bool"
  auto_open :: "'w \<Rightarrow> bool"
  go_top_on_scope :: "'w \<Rightarrow> bool"
  hide_recno :: "'w \<Rightarrow> bool"
  hide_historic :: "'w \<Rightarrow> bool"
  is_multilang :: "'w \<Rightarrow> bool"
  base_lang :: "'w \<Rightarrow> item"
  second_lang :: "'w \<Rightarrow> item"
  root_lang :: "'w \<Rightarrow> item"

text \<open>\<open>if (thiswa->lpdbPendingRel) SELF_FORCEREL(..)\<close> and the two orders it is combined with the
  first positioning of an area in; the results of the calls are not looked at.\<close>

definition force_pending :: "'w rdd \<Rightarrow> ('w, unit) op" where
  "force_pending self a =
     (if lpdbPendingRel a \<noteq> None then do { (r, a1) \<leftarrow> self_forceRel self a; Some ((), a1) }
      else Some ((), a))"

definition first_interact :: "'w rdd \<Rightarrow> ('w, unit) op" where
  "first_interact self a =
     (if firstinteract a
      then do { (r, a1) \<leftarrow> self_goTop self a; Some ((), a1\<lparr>firstinteract := False\<rparr>) }
      else Some ((), a))"

definition pending_or_first :: "'w rdd \<Rightarrow> ('w, unit) op" where
  "pending_or_first self a =
     (if lpdbPendingRel a \<noteq> None then force_pending self a else first_interact self a)"

definition first_then_pending :: "'w rdd \<Rightarrow> ('w, unit) op" where
  "first_then_pending self a =
     do { (u, a1) \<leftarrow> first_interact self a; force_pending self a1 }"

text \<open>Writing a changed record back before the area moves.\<close>

definition write_hot :: "'w env \<Rightarrow> ('w, unit) op" where
  "write_hot env a =
     (if infoL SR_AINFO_HOT a then do { (r, a1) \<leftarrow> send env ''WRITEBUFFER'' [] a; Some ((), a1) }
      else Some ((), a))"

text \<open>\<open>hb_arrayGetL\<close> into the two flags of the base area.\<close>

definition load_eof_bof :: "'w area \<Rightarrow> 'w area" where
  "load_eof_bof a = a\<lparr>fEof := infoL SR_AINFO_EOF a, fBof := infoL SR_AINFO_BOF a\<rparr>"

lemma load_eof_bof_fields [simp]:
  "fEof (load_eof_bof a) = infoL SR_AINFO_EOF a" "fBof (load_eof_bof a) = infoL SR_AINFO_BOF a"
  "aInfo (load_eof_bof a) = aInfo a" "info_ok (load_eof_bof a) = info_ok a"
  "infoL n (load_eof_bof a) = infoL n a" "infoNL n (load_eof_bof a) = infoNL n a"
  by (simp_all add: load_eof_bof_def info_ok_def)

text \<open>\<open>return thiswa->area.lpdbRelations ? SELF_SYNCCHILDREN(..) : HB_SUCCESS\<close>\<close>

definition sync_relations :: "'w env \<Rightarrow> ('w, errcode) op" where
  "sync_relations env a = (if lpdbRelations a then sync_children env a else Some (HB_SUCCESS, a))"

text \<open>\<open>thiswa->cdPageCnv ? thiswa->cdPageCnv : hb_vmCDP()\<close>, and the test that goes with it.\<close>

definition other_cdp :: "'w env \<Rightarrow> 'w area \<Rightarrow> nat" where
  "other_cdp env a = (if cdPageCnv a \<noteq> 0 then cdPageCnv a else vm_cdp env (world a))"

definition must_convert :: "'w env \<Rightarrow> 'w area \<Rightarrow> bool" where
  "must_convert env a \<longleftrightarrow> cdPage a \<noteq> 0 \<and> cdPage a \<noteq> other_cdp env a"

section \<open>An outside for the witnesses\<close>

text \<open>
  Nothing registered answers: a message does nothing and gives NIL, a call of the parent succeeds
  without effect. Witnesses replace the components they are about. The world is the list of the
  messages sent so far, the latest first.
\<close>

type_synonym trace = "(string \<times> item list) list"

abbreviation nothing :: "errcode \<Rightarrow> (trace, errcode) op" where
  "nothing r \<equiv> \<lambda>a. Some (r, a)"

definition idle_rdd :: "trace rdd" where
  "idle_rdd =
     \<lparr>self_goBottom = nothing 0, self_goTo = (\<lambda>n. nothing 0), self_goToId = (\<lambda>v. nothing 0),
      self_goTop = nothing 0, self_skip = (\<lambda>n. nothing 0), self_skipFilter = (\<lambda>n. nothing 0),
      self_skipRaw = (\<lambda>n. nothing 0), self_deleted = (\<lambda>a. Some ((False, 0), a)),
      self_goCold = nothing 0, self_forceRel = nothing 0, self_childSync = (\<lambda>n. nothing 0),
      self_clearFilter = nothing 0, self_bof = (\<lambda>a. Some ((False, 0), a)),
      self_eof = (\<lambda>a. Some ((False, 0), a)), self_recCount = (\<lambda>a. Some ((0, 0), a)),
      self_recId = (\<lambda>a. Some ((NIL, 0), a)), self_setFieldExtent = (\<lambda>n. nothing 0),
      self_close = nothing 0\<rparr>"

definition log_send :: "string \<Rightarrow> item list \<Rightarrow> (trace, item) op" where
  "log_send m args a = Some (NIL, a\<lparr>world := (m, args) # world a\<rparr>)"

definition idle_env :: "trace env" where
  "idle_env =
     \<lparr>send = log_send, send_to = (\<lambda>v. log_send), new_workarea = (\<lambda>a. Some (Arr 1 [], a)),
      eval_block = (\<lambda>b a. Some (NIL, a)), macro_value = (\<lambda>b a. Some (NIL, a)),
      hash_add = (\<lambda>n k v a. Some ((), a)), common_error = (\<lambda>g c a. Some ((), a)),
      sync_children = nothing 0, rel_eval = (\<lambda>n. nothing 0), add_field = (\<lambda>f. nothing 0),
      super_skip = (\<lambda>t n. nothing 0), super_locate = (\<lambda>t b. nothing 0),
      super_setFilter = (\<lambda>t v. nothing 0), super_clearFilter = nothing 0,
      super_filterText = (\<lambda>v a. Some ((v, 0), a)), super_new = nothing 0, super_open = (\<lambda>i. nothing 0),
      super_create = (\<lambda>t i. nothing 0), super_createFields = (\<lambda>t v. nothing 0),
      super_close = (\<lambda>t. nothing 0), super_childStart = (\<lambda>n. nothing 0),
      super_childEnd = (\<lambda>n. nothing 0), super_setFieldExtent = (\<lambda>n. nothing 0),
      super_ordSetCond = (\<lambda>v. nothing 0), vm_cdp = (\<lambda>w. 1), cdp_find = (\<lambda>s. 0), cdp_id = (\<lambda>n. []),
      cdp_dup = (\<lambda>s p q. s), cdp_dup2 = (\<lambda>s n p q. take n s), put_nlen = (\<lambda>d l e. DNum d),
      rtrim_len = (\<lambda>s. length (rtrim_spaces s)), date_text = (\<lambda>d. replicate 8 SPACE),
      item_text = (\<lambda>v n. []), str_cmp = (\<lambda>s t. if s = t then 0 else 1), alias_of = (\<lambda>s. s),
      set_deleted = (\<lambda>w. False), auto_open = (\<lambda>w. False), go_top_on_scope = (\<lambda>w. True),
      hide_recno = (\<lambda>w. False), hide_historic = (\<lambda>w. False), is_multilang = (\<lambda>w. False),
      base_lang = (\<lambda>w. NIL), second_lang = (\<lambda>w. NIL), root_lang = (\<lambda>w. NIL)\<rparr>"

end
