(* ===== verification/ExArea.thy ===== *)
theory ExArea
  imports Literal WorkArea
begin

text \<open>
  The work area of the second driver, \<open>SQLEXAREA\<close> of \<open>source/sqlex.h\<close>, which reads its records with
  its own ODBC statements. Its first part is laid out as the area of the first driver, which the
  record extends (\<open>iFieldListStatus\<close> is called \<open>iColumnListStatus\<close> here). The arrays of C are lists
  of their length; an access outside one is \<open>None\<close>, and so is a text that does not fit its buffer.
  Record numbers are values below \<open>2^31\<close>, for which the driver's own integer types do not matter.

  A prepared statement is its text and what is bound to its parameters: ODBC reads the bound
  variables when the statement is executed. The statements an area holds are values here, so
  nothing is said about releasing handles, and \<open>hStmt\<close>, which is used inside one call only, is left out.
\<close>

section \<open>Codes\<close>

datatype sqlreturn = SQL_SUCCESS | SQL_SUCCESS_WITH_INFO | SQL_NO_DATA | SQL_ERROR | SQL_INVALID_HANDLE

fun CHECK_SQL_N_OK :: "sqlreturn \<Rightarrow> bool" where
  "CHECK_SQL_N_OK res = (res \<noteq> SQL_SUCCESS \<and> res \<noteq> SQL_SUCCESS_WITH_INFO)"

abbreviation RESULTSET_OK :: errcode where "RESULTSET_OK \<equiv> 10"
abbreviation SR_HB_RETRY :: errcode where "SR_HB_RETRY \<equiv> 101"

abbreviation RECORD_LIST_SIZE :: nat where "RECORD_LIST_SIZE \<equiv> 250"
abbreviation MAX_INDEXES :: nat where "MAX_INDEXES \<equiv> 51"
abbreviation MAX_SQL_QUERY_LEN :: nat where "MAX_SQL_QUERY_LEN \<equiv> 32000"
abbreviation DEFAULT_INDEX_COLUMN_MAX_LEN :: nat where "DEFAULT_INDEX_COLUMN_MAX_LEN \<equiv> 200"
abbreviation FIELD_LIST_SIZE :: nat where "FIELD_LIST_SIZE \<equiv> 6000"
abbreviation INITIAL_MEMO_ALLOC :: int where "INITIAL_MEMO_ALLOC \<equiv> 256"

abbreviation FIELD_LIST_LEARNING :: int where "FIELD_LIST_LEARNING \<equiv> 0"
abbreviation FIELD_LIST_STABLE :: int where "FIELD_LIST_STABLE \<equiv> 1"
abbreviation FIELD_LIST_CHANGED :: int where "FIELD_LIST_CHANGED \<equiv> 2"
abbreviation FIELD_LIST_NEW_VALUE_READ :: int where "FIELD_LIST_NEW_VALUE_READ \<equiv> 3"

text \<open>The direction of the record list, and what \<open>getWhereExpression\<close> is asked for.\<close>

datatype direction = SR_LIST_FORWARD | SR_LIST_BACKWARD

datatype listtype = SR_LIST_FROM_TOP | SR_LIST_FROM_BOTTOM | SR_LIST_SKIP_FWD | SR_LIST_SKIP_BWD

text \<open>The ODBC codes of the C types a column is bound as.\<close>

abbreviation SQL_C_CHAR :: int where "SQL_C_CHAR \<equiv> 1"
abbreviation SQL_C_SHORT :: int where "SQL_C_SHORT \<equiv> 5"
abbreviation SQL_C_DOUBLE :: int where "SQL_C_DOUBLE \<equiv> 8"
abbreviation SQL_C_TYPE_DATE :: int where "SQL_C_TYPE_DATE \<equiv> 91"
abbreviation SQL_C_TYPE_TIMESTAMP :: int where "SQL_C_TYPE_TIMESTAMP \<equiv> 93"
abbreviation SQL_C_BINARY :: int where "SQL_C_BINARY \<equiv> - 2"
abbreviation SQL_C_BIT :: int where "SQL_C_BIT \<equiv> - 7"
abbreviation SQL_VARCHAR :: int where "SQL_VARCHAR \<equiv> 12"

abbreviation SQL_NTS :: int where "SQL_NTS \<equiv> - 3"
abbreviation SQL_NULL_DATA :: int where "SQL_NULL_DATA \<equiv> - 1"

text \<open>Columns of the structure arrays.\<close>

abbreviation SR_FIELD_NAME :: nat where "SR_FIELD_NAME \<equiv> 1"
abbreviation SR_FIELD_TYPE :: nat where "SR_FIELD_TYPE \<equiv> 2"
abbreviation SR_FIELD_LEN :: nat where "SR_FIELD_LEN \<equiv> 3"
abbreviation SR_FIELD_DEC :: nat where "SR_FIELD_DEC \<equiv> 4"
abbreviation SR_FIELD_NULLABLE :: nat where "SR_FIELD_NULLABLE \<equiv> 5"
abbreviation SR_FIELD_DOMAIN :: nat where "SR_FIELD_DOMAIN \<equiv> 6"
abbreviation SR_FIELD_MULTILANG :: nat where "SR_FIELD_MULTILANG \<equiv> 7"
abbreviation SR_FIELD_WAOFFSET :: nat where "SR_FIELD_WAOFFSET \<equiv> 9"

abbreviation SR_AINDEX_ORDER_ASCEND :: nat where "SR_AINDEX_ORDER_ASCEND \<equiv> 1"
abbreviation SR_AINDEX_ORDER_DESEND :: nat where "SR_AINDEX_ORDER_DESEND \<equiv> 2"
abbreviation SR_AINDEX_INDEX_FIELDS :: nat where "SR_AINDEX_INDEX_FIELDS \<equiv> 3"
abbreviation SR_AINDEX_SCOPE_SQLEXPR :: nat where "SR_AINDEX_SCOPE_SQLEXPR \<equiv> 13"
abbreviation SR_AINDEX_INDEX_PHISICAL_NAME :: nat where "SR_AINDEX_INDEX_PHISICAL_NAME \<equiv> 21"

abbreviation SR_IDXFLD_SQL :: nat where "SR_IDXFLD_SQL \<equiv> 3"
abbreviation SR_IDXFLD_LEN :: nat where "SR_IDXFLD_LEN \<equiv> 5"
abbreviation SR_IDXFLD_XFORM :: nat where "SR_IDXFLD_XFORM \<equiv> 6"

section \<open>Columns and indexes\<close>

text \<open>
  \<open>COLUMNBIND\<close>: \<open>asChar\<close> is what was copied into the buffer, up to the terminating NUL; its other
  members are \<open>asChar_size\<close> and \<open>size_alloc\<close>. A date is year, month and day, a time stamp adds hour,
  minute and second.
\<close>

record columnbind =
  iParNum :: int
  iSQLType :: int
  iCType :: int
  lFieldPosDB :: int
  lFieldPosWA :: int
  colName :: bytes
  asChar :: bytes
  asChar_size :: int
  size_alloc :: int
  asLogical :: bool
  asDate :: "int \<times> int \<times> int"
  asTimestamp :: "(int \<times> int \<times> int) \<times> int \<times> int \<times> int"
  asNumeric :: rat
  ColumnSize :: int
  DecimalDigits :: int
  isNullable :: bool
  isArgumentNull :: bool
  isBoundNULL :: bool
  lIndPtr :: int
  isMemo :: bool
  isMultiLang :: bool

definition zero_column :: columnbind where
  "zero_column =
     \<lparr>iParNum = 0, iSQLType = 0, iCType = 0, lFieldPosDB = 0, lFieldPosWA = 0, colName = [],
      asChar = [], asChar_size = 0, size_alloc = 0, asLogical = False, asDate = (0, 0, 0),
      asTimestamp = ((0, 0, 0), 0, 0, 0), asNumeric = 0, ColumnSize = 0, DecimalDigits = 0,
      isNullable = False, isArgumentNull = False, isBoundNULL = False, lIndPtr = 0, isMemo = False,
      isMultiLang = False\<rparr>"

text \<open>
  The variable bound to a parameter: a member of a column (\<open>BindCol\<close> of the current record,
  \<open>BindIns\<close> of the record to insert, \<open>BindExpr\<close> of an expression column of an order) with the C
  type it is bound as and whether the length indicator is bound too, or one of the area's numbers.
\<close>

datatype bindref =
    BindCol nat int bool
  | BindIns nat int bool
  | BindExpr nat nat
  | BindCurrent
  | BindUpdated
  | BindRetrieve nat
  | BindNothing

record stmt =
  st_sql :: bytes
  st_binds :: "bindref list"

record indexbind =
  ib_lFieldPosDB :: int
  hIndexOrder :: int
  iLevel :: nat
  iIndexColumns :: nat
  SkipFwdStmt :: "stmt option"
  SkipBwdStmt :: "stmt option"
  SeekFwdStmt :: "stmt option"
  SeekBwdStmt :: "stmt option"
  bIsExpr :: bool
  sExprSQL :: bytes
  pExprBlock :: item
  ExprBind :: columnbind

definition zero_index :: indexbind where
  "zero_index =
     \<lparr>ib_lFieldPosDB = 0, hIndexOrder = 0, iLevel = 0, iIndexColumns = 0, SkipFwdStmt = None,
      SkipBwdStmt = None, SeekFwdStmt = None, SeekBwdStmt = None, bIsExpr = False, sExprSQL = [],
      pExprBlock = NIL, ExprBind = zero_column\<rparr>"

section \<open>The area\<close>

text \<open>
  \<open>s_bOldReverseIndex\<close> is a static variable of \<open>sqlex1.c\<close>, which the areas share; \<open>s_pageReadSize\<close>
  and \<open>s_bufferPoolSize\<close> are the others.
\<close>

record 'w exarea = "'w area" +
  oSql :: "item option"
  pIndexMgmnt :: "item list option"
  aFields :: "item list"
  hBufferPool :: "(int \<times> item list) list"
  hStmtBuffer :: "stmt option"
  hStmtInsert :: "stmt option"
  hStmtNextval :: "stmt option"
  hStmtUpdate :: "stmt option"
  nSystemID :: int
  lCurrentRecord :: int
  lUpdatedRecord :: int
  lBofAt :: int
  lEofAt :: int
  lLastRec :: int
  lRecordToRetrieve :: "int list"
  recordList :: "int list"
  deletedList :: "char list"
  recordListPos :: int
  recordListSize :: int
  recordListDirection :: direction
  iTCCompat :: int
  indexColumns :: nat
  indexLevel :: int
  skipDirection :: int
  sFields :: "bytes option"
  sSql :: bytes
  sSqlBuffer :: bytes
  sTable :: bytes
  sOwner :: bytes
  sWhere :: bytes
  sOrderBy :: bytes
  sRecnoName :: bytes
  sDeletedName :: bytes
  sLimit1 :: bytes
  sLimit2 :: bytes
  bufferHot :: bool
  bIsInsert :: bool
  bConnVerified :: bool
  bReverseIndex :: bool
  IndexBindings :: "indexbind list option list"
  colStmt :: "stmt option list"
  bConditionChanged1 :: bool
  bConditionChanged2 :: bool
  bOrderChanged :: bool
  bRebuildSeekQuery :: bool
  bHistoric :: bool
  InsertRecord :: "columnbind list option"
  CurrRecord :: "columnbind list option"
  editMask :: "bool list"
  updatedMask :: "bool list"
  specialMask :: "bool list"
  bIndexTouchedInUpdate :: bool
  bIsSelect :: bool
  s_bOldReverseIndex :: bool

abbreviation iColumnListStatus :: "'w exarea \<Rightarrow> int" where
  "iColumnListStatus \<equiv> iFieldListStatus"

type_synonym ('w, 'a) exop = "'w exarea \<Rightarrow> ('a \<times> 'w exarea) option"

section \<open>The outside\<close>

text \<open>What the driver's functions are called through, and the parent driver's.\<close>

record 'w exrdd =
  ex_goBottom :: "('w, errcode) exop"
  ex_goTo :: "int \<Rightarrow> ('w, errcode) exop"
  ex_goTop :: "('w, errcode) exop"
  ex_skipFilter :: "int \<Rightarrow> ('w, errcode) exop"
  ex_skipRaw :: "int \<Rightarrow> ('w, errcode) exop"
  ex_deleted :: "('w, bool \<times> errcode) exop"
  ex_goCold :: "('w, errcode) exop"
  ex_forceRel :: "('w, errcode) exop"

text \<open>A parameter value as ODBC reads it, and what executing a statement gives: the code, the rows
  with the code \<open>SQLFetch\<close> has for each, and the further results of \<open>SQLMoreResults\<close>.\<close>

datatype param =
    PNull
  | PChar bytes
  | PNum rat
  | PBit bool
  | PDate "int \<times> int \<times> int"
  | PStamp "(int \<times> int \<times> int) \<times> int \<times> int \<times> int"
  | PLong int
  | PMissing

type_synonym rows = "(sqlreturn \<times> item list) list"

record 'w answer =
  an_res :: sqlreturn
  an_rows :: rows
  an_more :: "(sqlreturn \<times> rows) list"
  an_world :: 'w

text \<open>
  \<open>alloc_stmt\<close>, \<open>prepare\<close>, \<open>bind_par\<close>, \<open>close_stmt\<close> and \<open>execute\<close> are the ODBC calls on statements,
  \<open>execute\<close> also \<open>SQLExecDirect\<close>; \<open>get_long\<close> and \<open>get_char\<close> are \<open>SQLGetData\<close> of a column as a
  number and as a text of one byte, and \<open>odbc_item\<close> is \<open>SR_odbcGetData\<close> of \<open>source/odbc/sr_odbc_bind.c\<close> for the
  description of a field and a column. \<open>x_send\<close> and \<open>x_send_sql\<close> send to the work area object and to
  its connection. \<open>eval_expr\<close> evaluates the code block of an expression column, \<open>x_field_name\<close> is
  \<open>hb_dynsymName\<close> of the symbol of a field, counted from one, \<open>x_serialize\<close> and \<open>x_deserialize\<close> are
  \<open>SR_SERIALIZE1\<close> and \<open>SR_DESERIALIZE\<close>. \<open>x_languages\<close> are the base, second and root language.
  \<open>x_str_val\<close> and \<open>x_str_int\<close> are \<open>hb_strVal\<close> and the integer of \<open>hb_compStrToNum\<close>; \<open>x_rtrim_len\<close>,
  \<open>x_date_text\<close> and \<open>x_item_text\<close> are as for the first driver.
  \<open>x_super\<close> calls a function of the parent driver, which is the first one.
\<close>

record 'w exenv =
  alloc_stmt :: "'w \<Rightarrow> sqlreturn"
  prepare :: "bytes \<Rightarrow> 'w \<Rightarrow> sqlreturn"
  bind_par :: "bytes \<Rightarrow> int \<Rightarrow> 'w \<Rightarrow> sqlreturn"
  close_stmt :: "'w \<Rightarrow> sqlreturn"
  execute :: "bytes \<Rightarrow> param list \<Rightarrow> 'w \<Rightarrow> 'w answer"
  get_long :: "item \<Rightarrow> sqlreturn \<times> int"
  get_char :: "item \<Rightarrow> sqlreturn \<times> char"
  odbc_item :: "item \<Rightarrow> item \<Rightarrow> item"
  odbc_error :: "bytes \<Rightarrow> ('w, unit) exop"
  x_send :: "string \<Rightarrow> item list \<Rightarrow> ('w, item) exop"
  x_send_sql :: "string \<Rightarrow> ('w, item) exop"
  eval_expr :: "item \<Rightarrow> item \<Rightarrow> ('w, item) exop"
  x_eval_block :: "item \<Rightarrow> ('w, item) exop"
  x_common_error :: "int \<Rightarrow> int \<Rightarrow> ('w, unit) exop"
  x_sync_children :: "('w, errcode) exop"
  x_super :: "string \<Rightarrow> ('w, errcode) exop"
  x_serialize :: "item \<Rightarrow> ('w, item) exop"
  x_deserialize :: "bytes \<Rightarrow> ('w, item) exop"
  x_hash_add :: "nat \<Rightarrow> item \<Rightarrow> item \<Rightarrow> ('w, unit) exop"
  x_vm_cdp :: "'w \<Rightarrow> nat"
  x_cdp_dup :: "bytes \<Rightarrow> nat \<Rightarrow> nat \<Rightarrow> bytes"
  x_cdp_dup2 :: "bytes \<Rightarrow> nat \<Rightarrow> nat \<Rightarrow> nat \<Rightarrow> bytes"
  x_put_nlen :: "rat \<Rightarrow> nat \<Rightarrow> nat \<Rightarrow> item"
  x_ser_as_string :: "'w \<Rightarrow> bool"
  x_multilang :: "'w \<Rightarrow> bool"
  x_languages :: "'w \<Rightarrow> item list"
  x_set_deleted :: "'w \<Rightarrow> bool"
  x_use_deleteds :: "'w \<Rightarrow> bool"
  x_field_name :: "nat \<Rightarrow> 'w \<Rightarrow> bytes"
  x_str_empty :: "bytes \<Rightarrow> bool"
  x_str_val :: "bytes \<Rightarrow> rat"
  x_str_int :: "bytes \<Rightarrow> int"
  x_rtrim_len :: "bytes \<Rightarrow> nat"
  x_date_text :: "int \<Rightarrow> bytes"
  x_item_text :: "item \<Rightarrow> item \<Rightarrow> bytes"
  x_date_decode :: "int \<Rightarrow> int \<times> int \<times> int"
  x_time_decode :: "int \<Rightarrow> int \<times> int \<times> int"
  s_pageReadSize :: nat
  s_bufferPoolSize :: int

text \<open>Rows one after the other: \<open>SQLFetch\<close>, and a column of the row it went to.\<close>

fun SQLFetch :: "rows \<Rightarrow> sqlreturn \<times> item list \<times> rows" where
  "SQLFetch [] = (SQL_NO_DATA, [], [])"
| "SQLFetch ((res, row) # rest) = (res, row, rest)"

definition SQLGetData_long :: "'w exenv \<Rightarrow> item list \<Rightarrow> nat \<Rightarrow> sqlreturn \<times> int" where
  "SQLGetData_long env row n =
     (if 1 \<le> n \<and> n \<le> length row then get_long env (row ! (n - 1)) else (SQL_ERROR, 0))"

definition SQLGetData_char :: "'w exenv \<Rightarrow> item list \<Rightarrow> nat \<Rightarrow> sqlreturn \<times> char" where
  "SQLGetData_char env row n =
     (if 1 \<le> n \<and> n \<le> length row then get_char env (row ! (n - 1)) else (SQL_ERROR, NUL))"

text \<open>Arrays and buffers of C.\<close>

definition rd_at :: "'a list \<Rightarrow> int \<Rightarrow> 'a option" where
  "rd_at xs i = (if 0 \<le> i \<and> i < int (length xs) then Some (xs ! nat i) else None)"

definition wr_at :: "'a list \<Rightarrow> int \<Rightarrow> 'a \<Rightarrow> 'a list option" where
  "wr_at xs i v = (if 0 \<le> i \<and> i < int (length xs) then Some (xs[nat i := v]) else None)"

definition into :: "nat \<Rightarrow> bytes \<Rightarrow> bytes option" where
  "into n s = (if length s < n then Some s else None)"

lemma rd_at_of_nat [simp]: "rd_at xs (int i) = (if i < length xs then Some (xs ! i) else None)"
  by (simp add: rd_at_def)

lemma wr_at_of_nat [simp]: "wr_at xs (int i) v = (if i < length xs then Some (xs[i := v]) else None)"
  by (simp add: wr_at_def)

lemma into_fits [simp]: "length s < n \<Longrightarrow> into n s = Some s"
  by (simp add: into_def)

section \<open>Statements\<close>

definition bind_at :: "int \<Rightarrow> bindref \<Rightarrow> stmt \<Rightarrow> stmt" where
  "bind_at n r st =
     (let k = nat (n - 1); bs = st_binds st in
      st\<lparr>st_binds := (if k < length bs then bs[k := r]
                      else bs @ replicate (k - length bs) BindNothing @ [r])\<rparr>)"

text \<open>\<open>SQLBindParameter\<close>: what it gives, and the statement with the variable bound.\<close>

definition SQLBindParameter ::
  "'w exenv \<Rightarrow> stmt \<Rightarrow> int \<Rightarrow> bindref \<Rightarrow> 'w exarea \<Rightarrow> sqlreturn \<times> stmt" where
  "SQLBindParameter env st n r a =
     (let res = bind_par env (st_sql st) n (world a)
      in (res, if CHECK_SQL_N_OK res then st else bind_at n r st))"

definition bound_member :: "columnbind \<Rightarrow> int \<Rightarrow> bool \<Rightarrow> param" where
  "bound_member c ty ind =
     (if ind \<and> lIndPtr c = SQL_NULL_DATA then PNull
      else if ty = SQL_C_CHAR \<or> ty = SQL_C_BINARY then PChar (takeWhile (\<lambda>x. x \<noteq> NUL) (asChar c))
      else if ty = SQL_C_DOUBLE then PNum (asNumeric c)
      else if ty = SQL_C_TYPE_TIMESTAMP then PStamp (asTimestamp c)
      else if ty = SQL_C_TYPE_DATE then PDate (asDate c)
      else if ty = SQL_C_SHORT \<or> ty = SQL_C_BIT then PBit (asLogical c)
      else PMissing)"

fun bound_value :: "'w exarea \<Rightarrow> bindref \<Rightarrow> param" where
  "bound_value a (BindCol i ty ind) =
     (case CurrRecord a of
        Some cs \<Rightarrow> if i < length cs then bound_member (cs ! i) ty ind else PMissing
      | None \<Rightarrow> PMissing)"
| "bound_value a (BindIns i ty ind) =
     (case InsertRecord a of
        Some cs \<Rightarrow> if i < length cs then bound_member (cs ! i) ty ind else PMissing
      | None \<Rightarrow> PMissing)"
| "bound_value a (BindExpr ord i) =
     (if ord < length (IndexBindings a)
      then (case IndexBindings a ! ord of
              Some ibs \<Rightarrow> if i < length ibs then bound_member (ExprBind (ibs ! i)) SQL_C_CHAR False
                          else PMissing
            | None \<Rightarrow> PMissing)
      else PMissing)"
| "bound_value a BindCurrent = PLong (lCurrentRecord a)"
| "bound_value a BindUpdated = PLong (lUpdatedRecord a)"
| "bound_value a (BindRetrieve i) =
     (if i < length (lRecordToRetrieve a) then PLong (lRecordToRetrieve a ! i) else PMissing)"
| "bound_value a BindNothing = PMissing"

text \<open>\<open>SQLExecute\<close> of a prepared statement, \<open>SQLExecDirect\<close> of a text, and preparing a text.\<close>

definition SQLExecute :: "'w exenv \<Rightarrow> stmt \<Rightarrow> 'w exarea \<Rightarrow> 'w answer \<times> 'w exarea" where
  "SQLExecute env st a =
     (let an = execute env (st_sql st) (map (bound_value a) (st_binds st)) (world a)
      in (an, a\<lparr>world := an_world an\<rparr>))"

definition SQLExecDirect :: "'w exenv \<Rightarrow> bytes \<Rightarrow> 'w exarea \<Rightarrow> 'w answer \<times> 'w exarea" where
  "SQLExecDirect env sql a =
     (let an = execute env sql [] (world a) in (an, a\<lparr>world := an_world an\<rparr>))"

definition SQLPrepare :: "'w exenv \<Rightarrow> bytes \<Rightarrow> 'w exarea \<Rightarrow> stmt option" where
  "SQLPrepare env sql a =
     (if CHECK_SQL_N_OK (alloc_stmt env (world a)) \<or> CHECK_SQL_N_OK (prepare env sql (world a)) then None
      else Some \<lparr>st_sql = sql, st_binds = []\<rparr>)"

end
