(* ===== verification/ExQuery.thy ===== *)
theory ExQuery
  imports ExArea
begin

text \<open>
  The texts of the statements the second driver reads records with, \<open>source/sqlex1.c\<close>: names and
  their quotes, the limit of a result set, the order, the restrictions and the position, and the
  values bound to the parameters of a statement. \<open>SR_QualifyName\<close> is of \<open>source/sqlex2.c\<close>.
\<close>

section \<open>Names and numbers\<close>

definition openQuotes :: "char list" where
  "openQuotes =
     [DQUOTE, DQUOTE, DQUOTE, CHR ''['', DQUOTE, DQUOTE, DQUOTE, DQUOTE, DQUOTE, DQUOTE, DQUOTE, DQUOTE,
      BACKTICK, DQUOTE, DQUOTE, DQUOTE, BACKTICK, DQUOTE, DQUOTE, BACKTICK, DQUOTE, DQUOTE, DQUOTE,
      BACKTICK]"

definition closeQuotes :: "char list" where
  "closeQuotes =
     [DQUOTE, DQUOTE, DQUOTE, CHR '']'', DQUOTE, DQUOTE, DQUOTE, DQUOTE, DQUOTE, DQUOTE, DQUOTE, DQUOTE,
      BACKTICK, DQUOTE, DQUOTE, DQUOTE, BACKTICK, DQUOTE, DQUOTE, BACKTICK, DQUOTE, DQUOTE, DQUOTE,
      BACKTICK]"

text \<open>\<open>%c%s%c\<close> with \<open>OPEN_QUALIFIER\<close> and \<open>CLOSE_QUALIFIER\<close>\<close>

definition quoted :: "'w exarea \<Rightarrow> bytes \<Rightarrow> bytes option" where
  "quoted a s = do {
     q1 \<leftarrow> rd_at openQuotes (nSystemID a);
     q2 \<leftarrow> rd_at closeQuotes (nSystemID a);
     Some (q1 # s @ [q2])
   }"

definition SR_QualifyName :: "int \<Rightarrow> bytes \<Rightarrow> bytes" where
  "SR_QualifyName sys szName =
     (if sys \<in> {RDBMS_MSSQL7, RDBMS_ORACLE, RDBMS_FIREBR, RDBMS_FIREBR3, RDBMS_FIREBR4, RDBMS_FIREBR5,
                RDBMS_IBMDB2, RDBMS_ADABAS} then map to_upper szName
      else if sys \<in> {RDBMS_INGRES, RDBMS_POSTGR, RDBMS_MYSQL, RDBMS_MARIADB, RDBMS_OTERRO,
                     RDBMS_INFORM, RDBMS_CUBRID} then map to_lower szName
      else szName)"

section \<open>The current record\<close>

definition SR_GetCurrentRecordNum :: "'w exarea \<Rightarrow> int option" where
  "SR_GetCurrentRecordNum a =
     (if bIsInsert a \<or> fEof a then Some (lLastRec a) else rd_at (recordList a) (recordListPos a))"

definition IsItemNull :: "'w exenv \<Rightarrow> item \<Rightarrow> 'w exarea \<Rightarrow> bool" where
  "IsItemNull env v a \<longleftrightarrow>
     SR_itemEmpty (x_str_empty env) v \<and> \<not> (HB_IS_ARRAY v \<or> HB_IS_OBJECT v \<or> HB_IS_HASH v) \<and>
     (nSystemID a = RDBMS_POSTGR \<and> HB_IS_DATE v \<or> nSystemID a \<noteq> RDBMS_POSTGR \<and> \<not> HB_IS_LOGICAL v)"

fun copy_cols :: "nat \<Rightarrow> item list \<Rightarrow> item list \<Rightarrow> item list" where
  "copy_cols n [] xs = xs"
| "copy_cols n (v # vs) xs = copy_cols (Suc n) vs (arr_set xs n v)"

definition x_info :: "'w exarea \<Rightarrow> nat \<Rightarrow> item" where
  "x_info a n = arr_get NIL (aInfo a) n"

definition x_cleanBuffer :: "'w exarea \<Rightarrow> 'w exarea" where
  "x_cleanBuffer a =
     a\<lparr>aOldBuffer := copy_cols 1 (aEmptyBuff a) (aOldBuffer a),
       aBuffer := copy_cols 1 (aEmptyBuff a) (aBuffer a),
       lLastRec := hb_itemGetNL (x_info a SR_AINFO_RCOUNT) + 1,
       fEof := True\<rparr>"

definition x_concludeSkipraw :: "'w exenv \<Rightarrow> ('w, errcode) exop" where
  "x_concludeSkipraw env a = (if lpdbRelations a then x_sync_children env a else Some (HB_SUCCESS, a))"

section \<open>The limit of a result set\<close>

definition limit_formats :: "int \<Rightarrow> bytes \<Rightarrow> bytes \<times> bytes" where
  "limit_formats sys n =
     (if sys \<in> {RDBMS_MSSQL7, RDBMS_CACHE, RDBMS_SYBASE} then (''TOP '' @ n, [])
      else if sys \<in> {RDBMS_FIREBR, RDBMS_FIREBR3, RDBMS_FIREBR4, RDBMS_FIREBR5, RDBMS_INFORM}
        then (''FIRST '' @ n, [])
      else if sys = RDBMS_ORACLE then ([], [])
      else if sys \<in> {RDBMS_POSTGR, RDBMS_MYSQL, RDBMS_MARIADB, RDBMS_CUBRID} then ([], ''LIMIT '' @ n)
      else if sys = RDBMS_IBMDB2 then ([], ''fetch first '' @ n @ '' rows only'')
      else ([], []))"

definition SR_setResultSetLimit :: "int \<Rightarrow> 'w exarea \<Rightarrow> 'w exarea option" where
  "SR_setResultSetLimit iRows a =
     (let n = (if iRows > 1 then iRows + 1 else iRows);
          (l1, l2) = limit_formats (nSystemID a) (int_text n)
      in do {
        l1 \<leftarrow> into 50 l1;
        l2 \<leftarrow> into 50 l2;
        Some (a\<lparr>sLimit1 := l1, sLimit2 := l2\<rparr>)
      })"

section \<open>The query for a list of records\<close>

definition createRecodListQuery :: "'w exarea \<Rightarrow> 'w exarea option" where
  "createRecodListQuery a = do {
     rec \<leftarrow> quoted a (sRecnoName a);
     cols \<leftarrow> (if ulhDeleted a = 0 then Some (''A.'' @ rec)
             else do { d \<leftarrow> quoted a (sDeletedName a); Some (''A.'' @ rec @ '', A.'' @ d) });
     src \<leftarrow> (if \<not> bIsSelect a then Some (sTable a)
            else if ulhDeleted a = 0 then map_option (\<lambda>n. ''('' @ n @ '')'') (szDataFileName a)
            else Some (''('' @ sTable a @ '')''));
     sql \<leftarrow> into MAX_SQL_QUERY_LEN
       (''SELECT '' @ sLimit1 a @ '' '' @ cols @ '' FROM '' @ src @ '' A '' @ sWhere a @ '' '' @
        sOrderBy a @ '' '' @ sLimit2 a);
     Some (a\<lparr>sSql := sql\<rparr>)
   }"

definition createCountQuery :: "'w exarea \<Rightarrow> 'w exarea option" where
  "createCountQuery a = do {
     rec \<leftarrow> quoted a (sRecnoName a);
     sql \<leftarrow> into MAX_SQL_QUERY_LEN
       (''SELECT COUNT( A.'' @ rec @ '' ) '' @ [LF] @ ''FROM '' @ sTable a @ '' A '' @ sWhere a);
     Some (a\<lparr>sSql := sql\<rparr>)
   }"

text \<open>The description of an order; the current one.\<close>

definition order_ref :: "'w exarea \<Rightarrow> item" where
  "order_ref a = arr_get NIL (aOrders a) (nat (hOrdCurrent a))"

definition SR_getOrderByExpression :: "bool \<Rightarrow> 'w exarea \<Rightarrow> 'w exarea option" where
  "SR_getOrderByExpression hints a =
     (if hints then do {
        s \<leftarrow> (if hOrdCurrent a > 0
             then into 1600 (hb_itemGetC (hb_arrayGet (order_ref a) SR_AINDEX_INDEX_PHISICAL_NAME))
             else Some []);
        Some (a\<lparr>sOrderBy := s\<rparr>)
      }
      else (let fwd = ((recordListDirection a = SR_LIST_FORWARD) \<noteq> bReverseIndex a) in do {
        s \<leftarrow> (if hOrdCurrent a > 0
             then into 1600 (LF # hb_itemGetC (hb_arrayGet (order_ref a)
                                 (if fwd then SR_AINDEX_ORDER_ASCEND else SR_AINDEX_ORDER_DESEND)))
             else do {
               rec \<leftarrow> quoted a (sRecnoName a);
               into 1600 (LF # ''ORDER BY A.'' @ rec @ '' '' @ (if fwd then ''ASC'' else ''DESC''))
             });
        Some (a\<lparr>sOrderBy := s\<rparr>)
      }))"

section \<open>Restrictions\<close>

abbreviation WHERE_SIZE :: nat where "WHERE_SIZE \<equiv> 3200"

text \<open>A further restriction; the flag tells whether there is one already.\<close>

definition restrict :: "bytes \<Rightarrow> bool \<Rightarrow> ('w, bool) exop" where
  "restrict f bWhere a =
     (if f = [] then Some (bWhere, a)
      else do {
        s \<leftarrow> into WHERE_SIZE (if bWhere then sWhere a @ '' AND ( '' @ f @ '' )''
                             else LF # ''WHERE ( '' @ f @ '' )'');
        Some (True, a\<lparr>sWhere := s\<rparr>)
      })"

definition getMessageC :: "'w exenv \<Rightarrow> string \<Rightarrow> ('w, bytes) exop" where
  "getMessageC env m a = do {
     (v, a1) \<leftarrow> x_send env m [] a;
     Some (takeWhile (\<lambda>c. c \<noteq> NUL) (hb_itemGetC v), a1)
   }"

definition SR_SolveFilters :: "'w exenv \<Rightarrow> bool \<Rightarrow> 'w exarea \<Rightarrow> 'w exarea option" where
  "SR_SolveFilters env bWhere a = do {
     (f1, a1) \<leftarrow> getMessageC env ''CFOR'' a;
     (w1, a1) \<leftarrow> restrict f1 bWhere a1;
     (f2, a2) \<leftarrow> getMessageC env ''CFILTER'' a1;
     (w2, a2) \<leftarrow> restrict f2 w1 a2;
     (w3, a3) \<leftarrow> (if hOrdCurrent a2 > 0
                 then restrict (takeWhile (\<lambda>c. c \<noteq> NUL)
                        (hb_itemGetC (hb_arrayGet (order_ref a2) SR_AINDEX_SCOPE_SQLEXPR))) w2 a2
                 else Some (w2, a2));
     (f4, a4) \<leftarrow> getMessageC env ''CSCOPE'' a3;
     (w4, a4) \<leftarrow> restrict f4 w3 a4;
     (f5, a5) \<leftarrow> getMessageC env ''CFLTUSR'' a4;
     (w5, a5) \<leftarrow> restrict f5 w4 a5;
     Some a5
   }"

section \<open>The columns of the current record\<close>

definition type_of_field :: "item \<Rightarrow> char" where
  "type_of_field f =
     (if hb_itemGetL (hb_arrayGet f SR_FIELD_MULTILANG) then CHR ''M''
      else case hb_itemGetC (hb_arrayGet f SR_FIELD_TYPE) of c # _ \<Rightarrow> c | [] \<Rightarrow> NUL)"

definition current_column :: "int \<Rightarrow> nat \<Rightarrow> item \<Rightarrow> columnbind" where
  "current_column sys i f =
     (let lType = hb_itemGetNL (hb_arrayGet f SR_FIELD_DOMAIN);
          len = hb_itemGetNL (hb_arrayGet f SR_FIELD_LEN);
          t = type_of_field f;
          c = zero_column\<lparr>iSQLType := lType, isNullable := hb_itemGetL (hb_arrayGet f SR_FIELD_NULLABLE),
                lFieldPosDB := int i, lFieldPosWA := hb_itemGetNL (hb_arrayGet f SR_FIELD_WAOFFSET),
                ColumnSize := len, DecimalDigits := hb_itemGetNL (hb_arrayGet f SR_FIELD_DEC),
                colName := SR_QualifyName sys (hb_itemGetC (hb_arrayGet f SR_FIELD_NAME)),
                isMemo := (t = CHR ''M'')\<rparr>
      in if t = CHR ''C'' then c\<lparr>size_alloc := len + 1, iCType := SQL_C_CHAR\<rparr>
         else if t = CHR ''M'' then c\<lparr>size_alloc := INITIAL_MEMO_ALLOC, iCType := SQL_C_BINARY, ColumnSize := 0\<rparr>
         else if t = CHR ''N'' then c\<lparr>iCType := SQL_C_DOUBLE\<rparr>
         else if t = CHR ''T'' then c\<lparr>iCType := SQL_C_TYPE_TIMESTAMP\<rparr>
         else if t = CHR ''D'' then c\<lparr>iCType := (if sys = RDBMS_ORACLE then SQL_C_TYPE_TIMESTAMP else lType)\<rparr>
         else if t = CHR ''L'' then c\<lparr>iCType := (if sys = RDBMS_CUBRID then SQL_C_SHORT else SQL_C_BIT)\<rparr>
         else c)"

definition SR_SetCurrRecordStructure :: "'w exarea \<Rightarrow> 'w exarea" where
  "SR_SetCurrRecordStructure a =
     a\<lparr>CurrRecord := Some (map (\<lambda>(i, f). current_column (nSystemID a) i f) (enumerate 1 (aFields a)))\<rparr>"

text \<open>\<open>SR_GetBindStruct\<close>: the column an index column is about, by its position.\<close>

definition SR_GetBindStruct :: "'w exarea \<Rightarrow> indexbind \<Rightarrow> columnbind option" where
  "SR_GetBindStruct a ib = do {
     cs \<leftarrow> CurrRecord a;
     rd_at cs (ib_lFieldPosDB ib - 1)
   }"

definition put_BindStruct :: "indexbind \<Rightarrow> columnbind \<Rightarrow> 'w exarea \<Rightarrow> 'w exarea option" where
  "put_BindStruct ib c a = do {
     cs \<leftarrow> CurrRecord a;
     cs1 \<leftarrow> wr_at cs (ib_lFieldPosDB ib - 1) c;
     Some (a\<lparr>CurrRecord := Some cs1\<rparr>)
   }"

text \<open>The columns of an order, and one of them; \<open>i\<close> counts from zero.\<close>

definition bindings_of :: "'w exarea \<Rightarrow> int \<Rightarrow> indexbind list option" where
  "bindings_of a ord = do {
     slot \<leftarrow> rd_at (IndexBindings a) ord;
     slot
   }"

definition index_bind :: "'w exarea \<Rightarrow> int \<Rightarrow> nat \<Rightarrow> indexbind option" where
  "index_bind a ord i = do {
     ibs \<leftarrow> bindings_of a ord;
     rd_at ibs (int i)
   }"

definition put_index_bind :: "int \<Rightarrow> nat \<Rightarrow> indexbind \<Rightarrow> 'w exarea \<Rightarrow> 'w exarea option" where
  "put_index_bind ord i ib a = do {
     ibs \<leftarrow> bindings_of a ord;
     ibs1 \<leftarrow> wr_at ibs (int i) ib;
     slots \<leftarrow> wr_at (IndexBindings a) ord (Some ibs1);
     Some (a\<lparr>IndexBindings := slots\<rparr>)
   }"

definition SR_GetIndexColBind :: "'w exarea \<Rightarrow> int \<Rightarrow> nat \<Rightarrow> columnbind option" where
  "SR_GetIndexColBind a ord i = do {
     ib \<leftarrow> index_bind a ord i;
     if bIsExpr ib then Some (ExprBind ib) else SR_GetBindStruct a ib
   }"

definition put_IndexColBind :: "int \<Rightarrow> nat \<Rightarrow> columnbind \<Rightarrow> 'w exarea \<Rightarrow> 'w exarea option" where
  "put_IndexColBind ord i c a = do {
     ib \<leftarrow> index_bind a ord i;
     if bIsExpr ib then put_index_bind ord i (ib\<lparr>ExprBind := c\<rparr>) a else put_BindStruct ib c a
   }"

text \<open>\<open>SR_EvalExprComp\<close>; a block without a result gives an empty text, which is the outside's business.\<close>

definition SR_EvalExprComp :: "'w exenv \<Rightarrow> indexbind \<Rightarrow> item \<Rightarrow> ('w, item) exop" where
  "SR_EvalExprComp env ib v a = eval_expr env (pExprBlock ib) v a"

definition SR_SetExprBindValue :: "item \<Rightarrow> columnbind \<Rightarrow> columnbind option" where
  "SR_SetExprBindValue v c =
     (let t = hb_itemGetC v;
          n = (if int (length t) \<ge> size_alloc c then size_alloc c - 1 else int (length t))
      in if n < 0 then None
         else Some (c\<lparr>asChar := take (nat n) t, asChar_size := n, lIndPtr := SQL_NTS, isBoundNULL := False,
                      isArgumentNull := False\<rparr>))"

section \<open>Values bound to a column\<close>

text \<open>
  The common start of the numeric types: whether the value is stored. \<open>h\<close> tells whether there is a
  statement.
\<close>

definition null_step :: "bool \<Rightarrow> bool \<Rightarrow> columnbind \<Rightarrow> columnbind \<times> bool" where
  "null_step bEmpty h c =
     (if \<not> bEmpty \<and> isBoundNULL c \<and> h then (c\<lparr>isBoundNULL := False, lIndPtr := 0\<rparr>, True)
      else if bEmpty \<and> \<not> isBoundNULL c \<and> h then (c\<lparr>lIndPtr := SQL_NULL_DATA, isBoundNULL := True\<rparr>, False)
      else if bEmpty \<and> isBoundNULL c then (c, False)
      else (c, True))"

fun item_TDT :: "item \<Rightarrow> int \<times> int" where
  "item_TDT (Date d) = (d, 0)"
| "item_TDT (TStamp d t) = (d, t)"
| "item_TDT _ = (0, 0)"

definition set_char_value :: "bytes \<Rightarrow> columnbind \<Rightarrow> columnbind option" where
  "set_char_value t c =
     (if int (length t) + 1 > size_alloc c then None
      else if t = [] then
        Some ((if isBoundNULL c then c else c\<lparr>lIndPtr := SQL_NULL_DATA, isBoundNULL := True\<rparr>)
                \<lparr>asChar := [], asChar_size := 0\<rparr>)
      else Some ((if isBoundNULL c then c\<lparr>isBoundNULL := False, lIndPtr := SQL_NTS\<rparr> else c)
                \<lparr>asChar := t, asChar_size := int (length t)\<rparr>))"

text \<open>A memo grows its buffer; a value longer than any before has its parameter bound again.\<close>

definition set_memo_value ::
  "'w exenv \<Rightarrow> bytes \<Rightarrow> columnbind \<Rightarrow> stmt option \<Rightarrow> ('w, errcode \<times> columnbind) exop" where
  "set_memo_value env t c st a =
     (let n = int (length t);
          c1 = (if n \<ge> size_alloc c then c\<lparr>size_alloc := n + 1\<rparr> else c)
      in if n > asChar_size c1 then
           (let c2 = c1\<lparr>asChar := t, lIndPtr := SQL_NTS\<rparr>;
                res = (case st of Some s \<Rightarrow> bind_par env (st_sql s) (iParNum c2) (world a)
                       | None \<Rightarrow> SQL_INVALID_HANDLE)
            in if CHECK_SQL_N_OK res then do {
                 (u, a1) \<leftarrow> odbc_error env [] a;
                 Some ((HB_FAILURE, c2), a1)
               }
               else Some ((HB_SUCCESS, c2), a))
         else Some ((HB_SUCCESS, c1\<lparr>asChar := t, asChar_size := n\<rparr>), a))"

definition SR_SetBindValue ::
  "'w exenv \<Rightarrow> item \<Rightarrow> columnbind \<Rightarrow> stmt option \<Rightarrow> ('w, errcode \<times> columnbind) exop" where
  "SR_SetBindValue env v c st a =
     (let bEmpty = SR_itemEmpty (x_str_empty env) v;
          t = rtrim_spaces (hb_itemGetC v);
          (c1, store) = null_step bEmpty (st \<noteq> None) c
      in if iCType c = SQL_C_CHAR then do { c2 \<leftarrow> set_char_value t c; Some ((HB_SUCCESS, c2), a) }
         else if iCType c = SQL_C_BINARY then set_memo_value env t c st a
         else if iCType c = SQL_C_DOUBLE then
           Some ((HB_SUCCESS, if store then c1\<lparr>asNumeric := hb_itemGetND v\<rparr> else c1), a)
         else if iCType c = SQL_C_TYPE_DATE then
           Some ((HB_SUCCESS, if store then c1\<lparr>asDate := x_date_decode env (hb_itemGetDL v)\<rparr> else c1), a)
         else if iCType c = SQL_C_TYPE_TIMESTAMP then
           (let (d, ms) = item_TDT v in
            Some ((HB_SUCCESS, if store then c1\<lparr>asTimestamp := (x_date_decode env d, x_time_decode env ms)\<rparr>
                               else c1), a))
         else if iCType c = SQL_C_SHORT \<or> iCType c = SQL_C_BIT then
           Some ((HB_SUCCESS, c\<lparr>asLogical := hb_itemGetL v\<rparr>), a)
         else Some ((HB_SUCCESS, c), a))"

definition SR_SetBindEmptylValue :: "columnbind \<Rightarrow> columnbind option" where
  "SR_SetBindEmptylValue c =
     (if iCType c = SQL_C_CHAR then
        (if size_alloc c < 2 then None else Some (c\<lparr>asChar := [SPACE], asChar_size := 1\<rparr>))
      else if iCType c = SQL_C_BINARY then (if size_alloc c < 1 then None else Some (c\<lparr>asChar := []\<rparr>))
      else if iCType c = SQL_C_DOUBLE then Some (c\<lparr>asNumeric := 0\<rparr>)
      else if iCType c = SQL_C_TYPE_TIMESTAMP \<or> iCType c = SQL_C_TYPE_DATE then
        Some (if isBoundNULL c then c else c\<lparr>lIndPtr := SQL_NULL_DATA, isBoundNULL := True\<rparr>)
      else if iCType c = SQL_C_SHORT \<or> iCType c = SQL_C_BIT then Some (c\<lparr>asLogical := False\<rparr>)
      else Some c)"

end
