(* ===== verification/ExRecords.thy ===== *)
theory ExRecords
  imports ExQuery
begin

text \<open>
  The record list of the second driver, \<open>source/sqlex1.c\<close>: from \<open>getMissingColumn\<close> to
  \<open>CreateSkipStmt\<close>. A list is a run of record numbers in the order of the table or against it; the
  records themselves are read a page at a time into the buffer pool. The copies of the statement
  texts that are kept for debugging only are left out.
\<close>

section \<open>A column that was not read\<close>

text \<open>The statement for one column: whether it is ready.\<close>

definition missing_column_stmt :: "'w exenv \<Rightarrow> int \<Rightarrow> ('w, bool) exop" where
  "missing_column_stmt env pos a =
     (if CHECK_SQL_N_OK (alloc_stmt env (world a)) then Some (False, a)
      else do {
        q1 \<leftarrow> quoted a (SR_QualifyName (nSystemID a)
                (hb_itemGetC (hb_arrayGet (arr_get NIL (aFields a) (nat pos)) SR_FIELD_NAME)));
        q2 \<leftarrow> quoted a (sRecnoName a);
        src \<leftarrow> (if bIsSelect a then map_option (\<lambda>n. ''('' @ n @ '')'') (szDataFileName a) else Some (sTable a));
        sql \<leftarrow> into DEFAULT_INDEX_COLUMN_MAX_LEN
                (''SELECT '' @ q1 @ '' FROM '' @ src @ '' WHERE '' @ q2 @ '' = ?'');
        if CHECK_SQL_N_OK (prepare env sql (world a)) then do {
          ss \<leftarrow> wr_at (colStmt a) (pos - 1) (Some \<lparr>st_sql = [], st_binds = []\<rparr>);
          Some (False, a\<lparr>colStmt := ss\<rparr>)
        }
        else do {
          let (res, st) = SQLBindParameter env \<lparr>st_sql = sql, st_binds = []\<rparr> 1 BindCurrent a;
          ss \<leftarrow> wr_at (colStmt a) (pos - 1) (Some st);
          Some (\<not> CHECK_SQL_N_OK res, a\<lparr>colStmt := ss\<rparr>)
        }
      })"

text \<open>\<open>getMissingColumn\<close>: the value is \<open>None\<close> when it was not written.\<close>

definition getMissingColumn :: "'w exenv \<Rightarrow> int \<Rightarrow> ('w, errcode \<times> item option) exop" where
  "getMissingColumn env pos a = do {
     slot \<leftarrow> rd_at (colStmt a) (pos - 1);
     (ready, a1) \<leftarrow> (if slot = None then missing_column_stmt env pos a else Some (True, a));
     if \<not> ready then Some ((HB_FAILURE, None), a1)
     else do {
       cur \<leftarrow> SR_GetCurrentRecordNum a1;
       let a2 = a1\<lparr>lCurrentRecord := cur\<rparr>;
       slot2 \<leftarrow> rd_at (colStmt a2) (pos - 1);
       st \<leftarrow> slot2;
       let (an, a3) = SQLExecute env st a2;
       if CHECK_SQL_N_OK (an_res an) then do {
         (u, a4) \<leftarrow> odbc_error env (st_sql st) a3;
         Some ((HB_FAILURE, None), a4)
       }
       else (case SQLFetch (an_rows an) of (res, row, rest) \<Rightarrow>
         if res = SQL_ERROR then do {
           (u, a4) \<leftarrow> odbc_error env (st_sql st) a3;
           Some ((HB_FAILURE, None), a4)
         }
         else Some ((HB_SUCCESS, Some (odbc_item env (arr_get NIL (aFields a3) (nat pos)) (arr_get NIL row 1))), a3))
     }
   }"

section \<open>The columns of an order\<close>

definition SR_SetupExprBind :: "indexbind \<Rightarrow> item \<Rightarrow> 'w exarea \<Rightarrow> (indexbind \<times> 'w exarea) option" where
  "SR_SetupExprBind ib def a =
     (if HB_IS_ARRAY def \<and> hb_arrayLen def \<ge> SR_IDXFLD_XFORM \<and>
         HB_IS_STRING (hb_arrayGet def SR_IDXFLD_SQL) \<and> hb_itemGetC (hb_arrayGet def SR_IDXFLD_SQL) \<noteq> []
      then (let n = hb_itemGetNL (hb_arrayGet def SR_IDXFLD_LEN);
                iLen = (if n \<le> 0 then 254 else n);
                a1 = (if CurrRecord a = None then SR_SetCurrRecordStructure a else a);
                sql = takeWhile (\<lambda>c. c \<noteq> NUL) (hb_itemGetC (hb_arrayGet def SR_IDXFLD_SQL))
            in do {
              real \<leftarrow> SR_GetBindStruct a1 ib;
              Some (ib\<lparr>bIsExpr := True, sExprSQL := sql, pExprBlock := hb_arrayGet def SR_IDXFLD_XFORM,
                       ExprBind := zero_column\<lparr>iCType := SQL_C_CHAR, iSQLType := SQL_VARCHAR,
                         lFieldPosDB := ib_lFieldPosDB ib, lFieldPosWA := lFieldPosWA real, colName := sql,
                         ColumnSize := iLen, lIndPtr := SQL_NTS, size_alloc := iLen + 32\<rparr>\<rparr>, a1)
            })
      else Some (ib\<lparr>bIsExpr := False\<rparr>, a))"

text \<open>The columns from the \<open>i\<close>-th on, out of \<open>n\<close>.\<close>

fun index_columns :: "nat \<Rightarrow> nat \<Rightarrow> item list \<Rightarrow> 'w exarea \<Rightarrow> (indexbind list \<times> 'w exarea) option" where
  "index_columns n i [] a = Some ([], a)"
| "index_columns n i (def # defs) a = do {
     (ib, a1) \<leftarrow> SR_SetupExprBind
       (zero_index\<lparr>ib_lFieldPosDB := hb_itemGetNL (hb_arrayGet def 2), hIndexOrder := hOrdCurrent a,
                   iLevel := i, iIndexColumns := n\<rparr>) def a;
     (ibs, a2) \<leftarrow> index_columns n (Suc i) defs a1;
     Some (ib # ibs, a2)
   }"

definition order_columns :: "'w exarea \<Rightarrow> item list" where
  "order_columns a = arr_of (hb_arrayGet (order_ref a) SR_AINDEX_INDEX_FIELDS)"

definition SR_SetIndexBindStructure :: "'w exarea \<Rightarrow> 'w exarea option" where
  "SR_SetIndexBindStructure a =
     (if hOrdCurrent a > 0 then
        (let n = length (order_columns a) in do {
           (ibs, a1) \<leftarrow> index_columns n 1 (order_columns a) (a\<lparr>indexColumns := n\<rparr>);
           slots \<leftarrow> wr_at (IndexBindings a1) (hOrdCurrent a1) (Some ibs);
           Some (a1\<lparr>IndexBindings := slots\<rparr>)
         })
      else do {
        slots \<leftarrow> wr_at (IndexBindings a) (hOrdCurrent a)
          (Some [zero_index\<lparr>ib_lFieldPosDB := int (ulhRecno a), iLevel := 1, iIndexColumns := 1\<rparr>]);
        Some (a\<lparr>indexColumns := 1, IndexBindings := slots\<rparr>)
      })"

section \<open>The position as a condition\<close>

definition dir_stmt :: "'w exarea \<Rightarrow> indexbind \<Rightarrow> stmt option" where
  "dir_stmt a ib = (if recordListDirection a = SR_LIST_FORWARD then SkipFwdStmt ib else SkipBwdStmt ib)"

definition put_dir_stmt :: "'w exarea \<Rightarrow> stmt option \<Rightarrow> indexbind \<Rightarrow> indexbind" where
  "put_dir_stmt a st ib =
     (if recordListDirection a = SR_LIST_FORWARD then ib\<lparr>SkipFwdStmt := st\<rparr> else ib\<lparr>SkipBwdStmt := st\<rparr>)"

text \<open>The value of a key column in the current record; a column that was not read is read now.\<close>

definition key_column :: "'w exenv \<Rightarrow> columnbind \<Rightarrow> ('w, item) exop" where
  "key_column env c a =
     (if lFieldPosDB c = int (ulhRecno a) then do {
        r \<leftarrow> rd_at (recordList a) (recordListPos a);
        Some (INum r, a)
      }
      else if lFieldPosWA c > 0 then do {
        v \<leftarrow> rd_at (aBuffer a) (lFieldPosWA c - 1);
        if v \<noteq> NIL then Some (v, a)
        else do {
          ((r, x), a1) \<leftarrow> getMissingColumn env (lFieldPosDB c) a;
          (case x of None \<Rightarrow> Some (NIL, a1)
           | Some w \<Rightarrow> Some (w, a1\<lparr>aBuffer := arr_set (aBuffer a1) (nat (lFieldPosWA c)) w\<rparr>))
        }
      }
      else if lFieldPosWA c = 0 then do {
        ((r, x), a1) \<leftarrow> getMissingColumn env (lFieldPosDB c) a;
        Some (case x of None \<Rightarrow> NIL | Some w \<Rightarrow> w, a1)
      }
      else None)"

definition key_value_of :: "'w exenv \<Rightarrow> int \<Rightarrow> nat \<Rightarrow> ('w, item) exop" where
  "key_value_of env ord i a = do {
     c \<leftarrow> SR_GetIndexColBind a ord i;
     (v, a1) \<leftarrow> key_column env c a;
     ib \<leftarrow> index_bind a1 ord i;
     if bIsExpr ib then SR_EvalExprComp env ib v a1 else Some (v, a1)
   }"

text \<open>One more condition in the text.\<close>

definition add_condition :: "bytes \<Rightarrow> bool \<Rightarrow> 'w exarea \<Rightarrow> (bool \<times> 'w exarea) option" where
  "add_condition cond bWhere a = do {
     s \<leftarrow> into WHERE_SIZE ((if bWhere then sWhere a else LF # ''WHERE'') @ '' '' @
                          (if bWhere then ''AND'' else []) @ '' '' @ cond);
     Some (True, a\<lparr>sWhere := s\<rparr>)
   }"

text \<open>The condition for a column; \<open>None\<close> inside when there is none. \<open>lastc\<close>: the last column of the level.\<close>

definition column_condition ::
  "'w exarea \<Rightarrow> indexbind \<Rightarrow> columnbind \<Rightarrow> bool \<Rightarrow> bool \<Rightarrow> bool \<Rightarrow> bytes option option" where
  "column_condition a ib c isnull lastc fwd = do {
     q \<leftarrow> quoted a (colName c);
     let cmp = (if fwd then ''>='' else ''<='');
     Some (if isnull then
             (if iCType c = SQL_C_DOUBLE
              then Some (''( A.'' @ q @ '' '' @ (if lastc then cmp else ''IS'') @ '' '' @
                         (if lastc then ''0'' else ''NULL'') @ '' OR A.'' @ q @ '' IS NULL )'')
              else if lastc \<and> fwd then None
              else Some (''A.'' @ q @ '' IS NULL''))
           else if bIsExpr ib then Some (sExprSQL ib @ '' '' @ (if lastc then cmp else ''='') @ '' ?'')
           else Some (''A.'' @ q @ '' '' @ (if lastc then cmp else ''='') @ '' ?''))
   }"

text \<open>The last column of a level is bound, with the statement of its own slot.\<close>

definition bind_last :: "'w exenv \<Rightarrow> int \<Rightarrow> nat \<Rightarrow> item \<Rightarrow> bool \<Rightarrow> 'w exarea \<Rightarrow> 'w exarea option" where
  "bind_last env ord i v isnull a = do {
     ib \<leftarrow> index_bind a ord i;
     c0 \<leftarrow> SR_GetIndexColBind a ord i;
     let c = c0\<lparr>isArgumentNull := isnull\<rparr>;
     if isnull then put_IndexColBind ord i c a
     else if bIsExpr ib then do { c1 \<leftarrow> SR_SetExprBindValue v c; put_IndexColBind ord i c1 a }
     else do {
       ((r, c1), a1) \<leftarrow> SR_SetBindValue env v c (dir_stmt a ib) a;
       put_IndexColBind ord i c1 a1
     }
   }"

text \<open>The columns from \<open>i\<close> on, \<open>k\<close> of them; the last is the level's.\<close>

fun where_columns :: "'w exenv \<Rightarrow> bool \<Rightarrow> nat \<Rightarrow> nat \<Rightarrow> bool \<Rightarrow> ('w, bool) exop" where
  "where_columns env fwd 0 i bWhere a = Some (bWhere, a)"
| "where_columns env fwd (Suc k) i bWhere a = do {
     let ord = hOrdCurrent a;
     (v, a1) \<leftarrow> key_value_of env ord i a;
     c \<leftarrow> SR_GetIndexColBind a1 ord i;
     let isnull = (isNullable c \<and> IsItemNull env v a1);
     a2 \<leftarrow> (if k = 0 then bind_last env ord i v isnull a1 else Some a1);
     ib \<leftarrow> index_bind a2 ord i;
     cond \<leftarrow> column_condition a2 ib c isnull (k = 0) fwd;
     (w, a3) \<leftarrow> (case cond of None \<Rightarrow> Some (bWhere, a2) | Some t \<Rightarrow> add_condition t bWhere a2);
     where_columns env fwd k (Suc i) w a3
   }"

text \<open>Before the restrictions: whether there is a condition.\<close>

definition position_condition :: "'w exenv \<Rightarrow> listtype \<Rightarrow> ('w, bool) exop" where
  "position_condition env t a =
     (let a1 = a\<lparr>recordListDirection := (if t = SR_LIST_SKIP_FWD then SR_LIST_FORWARD else SR_LIST_BACKWARD)\<rparr>;
          fwd = ((t = SR_LIST_SKIP_FWD) \<noteq> bReverseIndex a)
      in if hOrdCurrent a1 = 0 then do {
           q \<leftarrow> quoted a1 (sRecnoName a1);
           s \<leftarrow> into WHERE_SIZE (LF # ''WHERE A.'' @ q @ '' '' @ (if fwd then ''>='' else ''<='') @ '' ?'');
           ib \<leftarrow> index_bind a1 0 0;
           c \<leftarrow> SR_GetBindStruct a1 ib;
           cur \<leftarrow> SR_GetCurrentRecordNum a1;
           a2 \<leftarrow> put_BindStruct ib (c\<lparr>asNumeric := of_int cur\<rparr>) (a1\<lparr>sWhere := s\<rparr>);
           Some (True, a2)
         }
         else where_columns env fwd (nat (indexLevel a1)) 0 False a1)"

definition getWhereExpression :: "'w exenv \<Rightarrow> listtype \<Rightarrow> 'w exarea \<Rightarrow> 'w exarea option" where
  "getWhereExpression env t a = do {
     let a0 = a\<lparr>sWhere := [], bConditionChanged1 := False\<rparr>;
     (w, a1) \<leftarrow> (if t = SR_LIST_SKIP_FWD \<or> t = SR_LIST_SKIP_BWD then position_condition env t a0
                else Some (False, a0\<lparr>indexLevel := - 1\<rparr>));
     let a2 = (if t = SR_LIST_FROM_TOP then a1\<lparr>recordListDirection := SR_LIST_FORWARD\<rparr>
               else if t = SR_LIST_FROM_BOTTOM then a1\<lparr>recordListDirection := SR_LIST_BACKWARD\<rparr>
               else a1);
     SR_SolveFilters env w a2
   }"

end
