(* ===== verification/ExSkip.thy ===== *)
theory ExSkip
  imports ExRecords
begin

text \<open>
  Statements for moving through an order, filling the record list and reading records, from
  \<open>BindAllIndexStmts\<close> to \<open>CreateSkipStmt\<close> of \<open>source/sqlex1.c\<close>.
\<close>

section \<open>Preparing and binding\<close>

definition prepareRecordListQuery :: "'w exenv \<Rightarrow> ('w, errcode) exop" where
  "prepareRecordListQuery env a =
     (if CHECK_SQL_N_OK (alloc_stmt env (world a)) \<or> CHECK_SQL_N_OK (prepare env (sSql a) (world a))
      then Some (HB_FAILURE, a)
      else do {
        let i = nat (indexLevel a - 1);
        ib \<leftarrow> (if indexLevel a < 1 then None else index_bind a (hOrdCurrent a) i);
        a1 \<leftarrow> put_index_bind (hOrdCurrent a) i
               (put_dir_stmt a (Some \<lparr>st_sql = sSql a, st_binds = []\<rparr>) ib) a;
        Some (HB_SUCCESS, a1)
      })"

text \<open>The queries of every level, the deepest first.\<close>

fun level_queries :: "'w exenv \<Rightarrow> nat \<Rightarrow> 'w exarea \<Rightarrow> 'w exarea option" where
  "level_queries env 0 a = Some a"
| "level_queries env (Suc k) a = do {
     a1 \<leftarrow> getWhereExpression env
       (if recordListDirection a = SR_LIST_FORWARD then SR_LIST_SKIP_FWD else SR_LIST_SKIP_BWD) a;
     a2 \<leftarrow> createRecodListQuery a1;
     (r, a3) \<leftarrow> prepareRecordListQuery env a2;
     level_queries env k (a3\<lparr>indexLevel := indexLevel a3 - 1\<rparr>)
   }"

definition skip_stmt_missing :: "'w exarea \<Rightarrow> bool option" where
  "skip_stmt_missing a = do {
     slot \<leftarrow> rd_at (IndexBindings a) (hOrdCurrent a);
     (case slot of
        None \<Rightarrow> Some True
      | Some ibs \<Rightarrow> do { ib \<leftarrow> rd_at ibs 0; Some (dir_stmt a ib = None) })
   }"

definition drop_skip_stmts :: "nat \<Rightarrow> indexbind list \<Rightarrow> indexbind list option" where
  "drop_skip_stmts n ibs =
     (if n \<le> length ibs
      then Some (map (\<lambda>ib. ib\<lparr>SkipFwdStmt := None, SkipBwdStmt := None\<rparr>) (take n ibs) @ drop n ibs)
      else None)"

definition CreateSkipStmt :: "'w exenv \<Rightarrow> ('w, bool) exop" where
  "CreateSkipStmt env a = do {
     missing \<leftarrow> (if bOrderChanged a \<or> bConditionChanged1 a then Some True else skip_stmt_missing a);
     if \<not> missing then Some (False, a)
     else do {
       let n = (if hOrdCurrent a > 0 then length (order_columns a) else 1);
       let a1 = a\<lparr>lBofAt := 0, lEofAt := 0, bOrderChanged := False, indexColumns := n\<rparr>;
       slot \<leftarrow> rd_at (IndexBindings a1) (hOrdCurrent a1);
       a2 \<leftarrow> (if slot = None then SR_SetIndexBindStructure a1 else Some a1);
       ibs \<leftarrow> bindings_of a2 (hOrdCurrent a2);
       ibs1 \<leftarrow> drop_skip_stmts (indexColumns a2) ibs;
       slots \<leftarrow> wr_at (IndexBindings a2) (hOrdCurrent a2) (Some ibs1);
       a3 \<leftarrow> SR_getOrderByExpression False (a2\<lparr>IndexBindings := slots\<rparr>);
       a4 \<leftarrow> SR_setResultSetLimit (int RECORD_LIST_SIZE) a3;
       a5 \<leftarrow> level_queries env (indexColumns a4) (a4\<lparr>indexLevel := int (indexColumns a4)\<rparr>);
       Some (True, a5)
     }
   }"

text \<open>A parameter of the statement of a slot; without a statement ODBC refuses the call.\<close>

definition bind_slot ::
  "'w exenv \<Rightarrow> int \<Rightarrow> nat \<Rightarrow> int \<Rightarrow> bindref \<Rightarrow> 'w exarea \<Rightarrow> (sqlreturn \<times> 'w exarea) option" where
  "bind_slot env ord slot n r a = do {
     ib \<leftarrow> index_bind a ord slot;
     (case dir_stmt a ib of
        None \<Rightarrow> Some (SQL_INVALID_HANDLE, a)
      | Some st \<Rightarrow> do {
          let (res, st1) = SQLBindParameter env st n r a;
          a1 \<leftarrow> put_index_bind ord slot (put_dir_stmt a (Some st1) ib) a;
          Some (res, a1)
        })
   }"

definition report :: "'w exenv \<Rightarrow> sqlreturn \<Rightarrow> 'w exarea \<Rightarrow> 'w exarea option" where
  "report env res a =
     (if CHECK_SQL_N_OK res then do { (u, a1) \<leftarrow> odbc_error env [] a; Some a1 } else Some a)"

text \<open>The variable a column is bound by; a memo has none here.\<close>

definition skip_ref :: "int \<Rightarrow> nat \<Rightarrow> indexbind \<Rightarrow> columnbind \<Rightarrow> bindref option" where
  "skip_ref ord j ib c =
     (if iCType c \<in> {SQL_C_CHAR, SQL_C_DOUBLE, SQL_C_TYPE_TIMESTAMP, SQL_C_TYPE_DATE, SQL_C_SHORT, SQL_C_BIT}
      then Some (if bIsExpr ib then BindExpr (nat ord) j
                 else BindCol (nat (ib_lFieldPosDB ib - 1)) (iCType c) False)
      else None)"

text \<open>The columns from \<open>j\<close> on, \<open>k\<close> of them, as the parameters from \<open>n\<close> on; \<open>res\<close> is the last result.\<close>

fun bind_level ::
  "'w exenv \<Rightarrow> int \<Rightarrow> nat \<Rightarrow> nat \<Rightarrow> nat \<Rightarrow> int \<Rightarrow> sqlreturn \<Rightarrow> 'w exarea \<Rightarrow> (sqlreturn \<times> 'w exarea) option"
where
  "bind_level env ord slot 0 j n res a = Some (res, a)"
| "bind_level env ord slot (Suc k) j n res a = do {
     ib \<leftarrow> index_bind a ord j;
     c \<leftarrow> SR_GetIndexColBind a ord j;
     if isArgumentNull c then bind_level env ord slot k (Suc j) n res a
     else do {
       (res1, a1) \<leftarrow> (case skip_ref ord j ib c of
                       None \<Rightarrow> Some (res, a)
                     | Some r \<Rightarrow> bind_slot env ord slot n r a);
       a2 \<leftarrow> report env res1 a1;
       bind_level env ord slot k (Suc j) (n + 1) res1 a2
     }
   }"

fun bind_levels :: "'w exenv \<Rightarrow> int \<Rightarrow> nat \<Rightarrow> nat \<Rightarrow> sqlreturn \<Rightarrow> 'w exarea \<Rightarrow> 'w exarea option" where
  "bind_levels env ord 0 slot res a = Some a"
| "bind_levels env ord (Suc k) slot res a = do {
     ib \<leftarrow> index_bind a ord slot;
     (res1, a1) \<leftarrow> bind_level env ord slot (iLevel ib) 0 1 res a;
     bind_levels env ord k (Suc slot) res1 a1
   }"

definition BindAllIndexStmts :: "'w exenv \<Rightarrow> 'w exarea \<Rightarrow> 'w exarea option" where
  "BindAllIndexStmts env a =
     (if hOrdCurrent a = 0 then do {
        ib \<leftarrow> index_bind a 0 0;
        c \<leftarrow> SR_GetBindStruct a ib;
        (res, a1) \<leftarrow> bind_slot env 0 0 1 (BindCol (nat (ib_lFieldPosDB ib - 1)) SQL_C_DOUBLE False) a;
        report env res a1
      }
      else bind_levels env (hOrdCurrent a) (indexColumns a) 0 SQL_ERROR a)"

text \<open>
  A column of the current record goes to its variable; the flag asks for the statements to be
  made again, as the column has become empty and they were not made for that.
\<close>

definition feed_column :: "'w exenv \<Rightarrow> int \<Rightarrow> nat \<Rightarrow> ('w, bool) exop" where
  "feed_column env ord i a = do {
     c0 \<leftarrow> SR_GetIndexColBind a ord i;
     ib \<leftarrow> index_bind a ord i;
     (v, a1) \<leftarrow> key_column env (c0\<lparr>lFieldPosDB := ib_lFieldPosDB ib, lFieldPosWA := max 0 (lFieldPosWA c0)\<rparr>) a;
     c \<leftarrow> SR_GetIndexColBind a1 ord i;
     if bIsExpr ib then do {
       (x, a2) \<leftarrow> SR_EvalExprComp env ib v a1;
       c1 \<leftarrow> SR_SetExprBindValue x c;
       a3 \<leftarrow> put_IndexColBind ord i c1 a2;
       Some (False, a3)
     }
     else if SR_itemEmpty (x_str_empty env) v \<and>
             (nSystemID a1 = RDBMS_POSTGR \<and> HB_IS_DATE v \<or> nSystemID a1 \<noteq> RDBMS_POSTGR \<and> \<not> HB_IS_LOGICAL v)
       then (if isNullable c \<and> \<not> isArgumentNull c then Some (True, a1)
             else if isNullable c then do {
               ((r, c1), a2) \<leftarrow> SR_SetBindValue env v c (dir_stmt a1 ib) a1;
               a3 \<leftarrow> put_IndexColBind ord i c1 a2;
               Some (False, a3)
             }
             else do {
               c1 \<leftarrow> SR_SetBindEmptylValue c;
               a2 \<leftarrow> put_IndexColBind ord i c1 a1;
               Some (False, a2)
             })
     else do {
       ((r, c1), a2) \<leftarrow> SR_SetBindValue env v c (dir_stmt a1 ib) a1;
       a3 \<leftarrow> put_IndexColBind ord i c1 a2;
       Some (False, a3)
     }
   }"

definition feed_recno :: "'w exarea \<Rightarrow> 'w exarea option" where
  "feed_recno a = do {
     ib \<leftarrow> index_bind a 0 0;
     c \<leftarrow> SR_GetBindStruct a ib;
     cur \<leftarrow> SR_GetCurrentRecordNum a;
     put_BindStruct ib (c\<lparr>asNumeric := of_int cur\<rparr>) a
   }"

partial_function (option) feed_columns :: "'w exenv \<Rightarrow> nat \<Rightarrow> 'w exarea \<Rightarrow> 'w exarea option" where
  "feed_columns env i a =
     (if i \<ge> indexColumns a then Some a
      else do {
        (again, a1) \<leftarrow> feed_column env (hOrdCurrent a) i a;
        if again then do {
          (r, a2) \<leftarrow> CreateSkipStmt env (a1\<lparr>bConditionChanged1 := True\<rparr>);
          a3 \<leftarrow> BindAllIndexStmts env a2;
          a4 \<leftarrow> feed_columns env 0 a3;
          feed_columns env (Suc i) a4
        }
        else feed_columns env (Suc i) a1
      })"

definition FeedCurrentRecordToBindings :: "'w exenv \<Rightarrow> 'w exarea \<Rightarrow> 'w exarea option" where
  "FeedCurrentRecordToBindings env a = (if hOrdCurrent a = 0 then feed_recno a else feed_columns env 0 a)"

section \<open>Filling the record list\<close>

text \<open>The mark of a record: a blank that a server has cut off counts as one.\<close>

definition deleted_flag :: "char \<Rightarrow> char" where
  "deleted_flag c = (if c = NUL then SPACE else c)"

text \<open>
  Rows into the lists from position \<open>i\<close> on, \<open>k\<close> of them at most; \<open>ends\<close> is what is done when a row
  cannot be fetched. The result is the number of records or a failure.
\<close>

fun fetch_list ::
  "'w exenv \<Rightarrow> (nat \<Rightarrow> sqlreturn \<Rightarrow> 'w exarea \<Rightarrow> 'w exarea option) \<Rightarrow> nat \<Rightarrow> nat \<Rightarrow> rows \<Rightarrow>
   'w exarea \<Rightarrow> (nat option \<times> 'w exarea) option"
where
  "fetch_list env ends 0 i rs a = Some (Some i, a)"
| "fetch_list env ends (Suc k) i rs a =
     (case SQLFetch rs of (res, row, rest) \<Rightarrow>
        if res \<noteq> SQL_SUCCESS then do { a1 \<leftarrow> ends i res a; Some (Some i, a1) }
        else (case SQLGetData_long env row 1 of (r, n) \<Rightarrow>
          if r = SQL_ERROR then Some (None, a)
          else do {
            rl \<leftarrow> wr_at (recordList a) (int i) n;
            let a1 = a\<lparr>recordList := rl\<rparr>;
            (case (if ulhDeleted a > 0 then SQLGetData_char env row 2 else (SQL_SUCCESS, SPACE)) of (r2, c) \<Rightarrow>
              if r2 = SQL_ERROR then Some (None, a1)
              else do {
                dl \<leftarrow> wr_at (deletedList a1) (int i) (deleted_flag c);
                fetch_list env ends k (Suc i) rest (a1\<lparr>deletedList := dl\<rparr>)
              })
          }))"

definition list_filled :: "nat option \<times> 'w exarea \<Rightarrow> errcode \<times> 'w exarea" where
  "list_filled r =
     (case r of
        (None, a) \<Rightarrow> (HB_FAILURE, a)
      | (Some n, a) \<Rightarrow> if n > 0 then (RESULTSET_OK, a\<lparr>recordListSize := int n, recordListPos := 0\<rparr>)
                      else (HB_SUCCESS, a))"

text \<open>The end of the table in the direction of the list is known to be at a record.\<close>

definition end_known :: "int \<Rightarrow> 'w exarea \<Rightarrow> 'w exarea option" where
  "end_known pos a = do {
     r \<leftarrow> rd_at (recordList a) pos;
     Some (if recordListDirection a = SR_LIST_FORWARD then a\<lparr>lEofAt := r\<rparr> else a\<lparr>lBofAt := r\<rparr>)
   }"

definition prepared_end :: "nat \<Rightarrow> sqlreturn \<Rightarrow> 'w exarea \<Rightarrow> 'w exarea option" where
  "prepared_end i res a =
     (if i > 0 \<and> indexLevel a = 1 \<and> res = SQL_NO_DATA then end_known (int i - 1) a
      else if i = 0 \<and> indexLevel a = 1 \<and> res = SQL_NO_DATA \<and> recordListSize a > 0
        then end_known (recordListPos a) a
      else Some a)"

definition direct_end :: "nat \<Rightarrow> sqlreturn \<Rightarrow> 'w exarea \<Rightarrow> 'w exarea option" where
  "direct_end i res a = (if i > 0 \<and> res = SQL_NO_DATA then end_known (int i - 1) a else Some a)"

text \<open>The rows behind the current record, or why there are none.\<close>

fun find_current :: "'w exenv \<Rightarrow> int \<Rightarrow> rows \<Rightarrow> errcode + rows" where
  "find_current env cur [] = Inl SR_HB_RETRY"
| "find_current env cur ((res, row) # rest) =
     (if res \<noteq> SQL_SUCCESS then Inl SR_HB_RETRY
      else (case SQLGetData_long env row 1 of (r, n) \<Rightarrow>
        if CHECK_SQL_N_OK r then Inl HB_FAILURE
        else if n = cur then Inr rest
        else find_current env cur rest))"

text \<open>The statement is the one of the first slot, whatever the level.\<close>

definition getPreparedRecordList :: "'w exenv \<Rightarrow> nat \<Rightarrow> ('w, errcode) exop" where
  "getPreparedRecordList env iMax a = do {
     ib \<leftarrow> index_bind a (hOrdCurrent a) 0;
     (case dir_stmt a ib of
        None \<Rightarrow> do { (u, a1) \<leftarrow> odbc_error env [] a; Some (HB_FAILURE, a1) }
      | Some st \<Rightarrow> do {
          let (an, a1) = SQLExecute env st a;
          if CHECK_SQL_N_OK (an_res an) then do {
            (u, a2) \<leftarrow> odbc_error env (st_sql st) a1;
            Some (HB_FAILURE, a2)
          }
          else (case find_current env (lCurrentRecord a1) (an_rows an) of
                  Inl e \<Rightarrow> Some (e, a1)
                | Inr rest \<Rightarrow> map_option list_filled (fetch_list env prepared_end iMax 0 rest a1))
        })
   }"

definition getRecordList :: "'w exenv \<Rightarrow> nat \<Rightarrow> ('w, errcode) exop" where
  "getRecordList env iMax a =
     (if CHECK_SQL_N_OK (alloc_stmt env (world a)) then Some (HB_FAILURE, a)
      else do {
        let (an, a1) = SQLExecDirect env (sSql a) a;
        if an_res an = SQL_ERROR then Some (HB_FAILURE, a1)
        else map_option list_filled (fetch_list env direct_end iMax 0 (an_rows an) a1)
      })"

definition getFirstColumnAsLong :: "'w exenv \<Rightarrow> ('w, errcode \<times> int) exop" where
  "getFirstColumnAsLong env a =
     (if CHECK_SQL_N_OK (alloc_stmt env (world a)) then Some ((HB_FAILURE, 0), a)
      else do {
        let (an, a1) = SQLExecDirect env (sSql a) a;
        if an_res an = SQL_ERROR then Some ((HB_FAILURE, 0), a1)
        else (case SQLFetch (an_rows an) of (res, row, rest) \<Rightarrow>
          if res = SQL_ERROR then Some ((HB_FAILURE, 0), a1)
          else (case SQLGetData_long env row 1 of (r, n) \<Rightarrow>
            Some ((if r = SQL_ERROR then HB_FAILURE else HB_SUCCESS, n), a1)))
      })"

section \<open>The columns that are read\<close>

definition first_columns :: "'w exarea \<Rightarrow> bytes option" where
  "first_columns a = do {
     rec \<leftarrow> quoted a (sRecnoName a);
     if ulhDeleted a = 0 then Some (''A.'' @ rec)
     else do { d \<leftarrow> quoted a (sDeletedName a); Some (''A.'' @ rec @ '', A.'' @ d) }
   }"

text \<open>The fields from the \<open>n\<close>-th on that are in the list \<open>keep\<close> allows.\<close>

fun field_texts :: "'w exenv \<Rightarrow> (nat \<Rightarrow> bool) \<Rightarrow> nat \<Rightarrow> nat \<Rightarrow> 'w exarea \<Rightarrow> bytes list option" where
  "field_texts env keep 0 n a = Some []"
| "field_texts env keep (Suc k) n a = do {
     ts \<leftarrow> field_texts env keep k (Suc n) a;
     if keep n then do {
       q \<leftarrow> quoted a (SR_QualifyName (nSystemID a) (x_field_name env n (world a)));
       Some (('', A.'' @ q) # ts)
     }
     else Some ts
   }"

definition SR_getColumnList :: "'w exenv \<Rightarrow> ('w, bool) exop" where
  "SR_getColumnList env a =
     (let n = length (lpFields a) in
      if iColumnListStatus a = FIELD_LIST_LEARNING then
        (if sFields a \<noteq> None then Some (False, a)
         else do {
           fc \<leftarrow> first_columns a;
           ts \<leftarrow> field_texts env (\<lambda>i. True) n 1 a;
           s \<leftarrow> (if ts = [] then None else into FIELD_LIST_SIZE (fc @ concat ts));
           Some (True, a\<lparr>sFields := Some s\<rparr>)
         })
      else if iColumnListStatus a = FIELD_LIST_CHANGED \<or> iColumnListStatus a = FIELD_LIST_NEW_VALUE_READ then do {
        fc \<leftarrow> first_columns a;
        ts \<leftarrow> (if n \<le> length (uiFieldList a)
              then field_texts env (\<lambda>i. uiFieldList a ! (i - 1) \<noteq> 0) n 1 a else None);
        s \<leftarrow> (if ts = [] then sFields a else into FIELD_LIST_SIZE (fc @ concat ts));
        Some (True, a\<lparr>sFields := Some s, iFieldListStatus := FIELD_LIST_STABLE\<rparr>)
      }
      else Some (False, a))"

section \<open>Reading records\<close>

text \<open>\<open>hb_arrayCopy\<close> of a whole record into another\<close>

definition hb_arrayCopy :: "item list \<Rightarrow> item list \<Rightarrow> item list" where
  "hb_arrayCopy src dst = copy_cols 1 src dst"

definition pool_add :: "int \<Rightarrow> item list \<Rightarrow> (int \<times> item list) list \<Rightarrow> (int \<times> item list) list" where
  "pool_add k rec pool = (k, rec) # filter (\<lambda>(k', r). k' \<noteq> k) pool"

text \<open>The text for a page: the first parameter found becomes as many as there are in a page.\<close>

definition page_query :: "nat \<Rightarrow> bytes \<Rightarrow> bytes option" where
  "page_query page s =
     (let i = 20 + length (takeWhile (\<lambda>c. c \<noteq> CHR ''?'') (drop 20 s)) in
      if i < length s then Some (take (Suc i) s @ concat (replicate (page - 1) '',?'') @ '')'') else None)"

fun bind_page :: "'w exenv \<Rightarrow> nat \<Rightarrow> nat \<Rightarrow> stmt \<Rightarrow> 'w exarea \<Rightarrow> bool \<times> stmt" where
  "bind_page env 0 i st a = (True, st)"
| "bind_page env (Suc k) i st a =
     (case SQLBindParameter env st (int i + 1) (BindRetrieve i) a of (res, st1) \<Rightarrow>
        if CHECK_SQL_N_OK res then (False, st1) else bind_page env k (Suc i) st1 a)"

definition prepare_page :: "'w exenv \<Rightarrow> ('w, errcode) exop" where
  "prepare_page env a = do {
     fields \<leftarrow> sFields a;
     rec \<leftarrow> quoted a (sRecnoName a);
     s \<leftarrow> (if bIsSelect a then do {
            n \<leftarrow> szDataFileName a;
            Some (''SELECT '' @ fields @ '' FROM ('' @ n @ '') A WHERE A.'' @ rec @ '' IN ( ?'')
          }
          else Some (''SELECT '' @ fields @ '' '' @ [LF] @ ''FROM '' @ sTable a @ '' A '' @ [LF] @
                     ''WHERE A.'' @ rec @ '' IN ( ?''));
     q \<leftarrow> page_query (s_pageReadSize env) s;
     sql \<leftarrow> into 6400 q;
     let a1 = a\<lparr>bConditionChanged2 := True, sSqlBuffer := sql\<rparr>;
     if hStmtBuffer a1 \<noteq> None \<and> CHECK_SQL_N_OK (close_stmt env (world a1)) then Some (HB_FAILURE, a1)
     else if CHECK_SQL_N_OK (alloc_stmt env (world a1)) then Some (HB_FAILURE, a1)
     else if CHECK_SQL_N_OK (prepare env sql (world a1))
       then Some (HB_FAILURE, a1\<lparr>hStmtBuffer := Some \<lparr>st_sql = [], st_binds = []\<rparr>\<rparr>)
     else (case bind_page env (s_pageReadSize env) 0 \<lparr>st_sql = sql, st_binds = []\<rparr> a1 of (ok, st) \<Rightarrow>
             Some (if ok then HB_SUCCESS else HB_FAILURE, a1\<lparr>hStmtBuffer := Some st\<rparr>))
   }"

text \<open>The page starts at the current record; zero stands for no record.\<close>

fun retrieve_from :: "nat \<Rightarrow> nat \<Rightarrow> 'w exarea \<Rightarrow> 'w exarea option" where
  "retrieve_from 0 i a = Some a"
| "retrieve_from (Suc k) i a = do {
     n \<leftarrow> (if recordListPos a + int i < recordListSize a then rd_at (recordList a) (recordListPos a + int i)
          else Some 0);
     rs \<leftarrow> wr_at (lRecordToRetrieve a) (int i) n;
     retrieve_from k (Suc i) (a\<lparr>lRecordToRetrieve := rs\<rparr>)
   }"

text \<open>The fields from the \<open>n\<close>-th on, \<open>k\<close> of them, from the columns behind \<open>i\<close>.\<close>

fun row_fields ::
  "'w exenv \<Rightarrow> item list \<Rightarrow> nat \<Rightarrow> nat \<Rightarrow> nat \<Rightarrow> 'w exarea \<Rightarrow> item list option" where
  "row_fields env row 0 n i a = Some []"
| "row_fields env row (Suc k) n i a = do {
     f \<leftarrow> rd_at (uiFieldList a) (int n - 1);
     if f = 0 \<and> iColumnListStatus a \<noteq> FIELD_LIST_LEARNING
     then do { vs \<leftarrow> row_fields env row k (Suc n) i a; Some (NIL # vs) }
     else do {
       p \<leftarrow> rd_at (uiBufferIndex a) (int n - 1);
       vs \<leftarrow> row_fields env row k (Suc n) (Suc i) a;
       Some (odbc_item env (arr_get NIL (aFields a) (nat p)) (arr_get NIL row (Suc i)) # vs)
     }
   }"

definition row_record :: "'w exenv \<Rightarrow> item list \<Rightarrow> nat \<Rightarrow> 'w exarea \<Rightarrow> item list option" where
  "row_record env row i a = do {
     vs \<leftarrow> row_fields env row (length (lpFields a)) 1 i a;
     Some (copy_cols 1 vs (replicate (length (aBuffer a)) NIL))
   }"

text \<open>The rows of a page go to the pool, the current record to the buffer. The result is the number of
  rows and the code of the last call, or a failure.\<close>

fun read_page ::
  "'w exenv \<Rightarrow> nat \<Rightarrow> nat \<Rightarrow> sqlreturn \<Rightarrow> rows \<Rightarrow> 'w exarea \<Rightarrow> ((nat \<times> sqlreturn) option \<times> 'w exarea) option"
where
  "read_page env 0 n res rs a = Some (Some (n, res), a)"
| "read_page env (Suc k) n res rs a =
     (case SQLFetch rs of (res1, row, rest) \<Rightarrow>
        if res1 \<noteq> SQL_SUCCESS then Some (Some (n, res1), a)
        else (case SQLGetData_long env row 1 of (r, cur) \<Rightarrow>
          if r = SQL_ERROR then Some (None, a)
          else do {
            here \<leftarrow> rd_at (recordList a) (recordListPos a);
            (case (if ulhDeleted a > 0 \<and> here = cur then SQLGetData_char env row 2 else (r, SPACE)) of (r2, c) \<Rightarrow>
              if r2 = SQL_ERROR then Some (None, a)
              else do {
                dl \<leftarrow> (if ulhDeleted a > 0 \<and> here = cur
                      then wr_at (deletedList a) (recordListPos a) (deleted_flag c) else Some (deletedList a));
                let a1 = a\<lparr>deletedList := dl\<rparr>;
                rec \<leftarrow> row_record env row (if ulhDeleted a > 0 then 2 else 1) a1;
                let a2 = a1\<lparr>hBufferPool := pool_add cur rec (hBufferPool a1)\<rparr>;
                read_page env k (Suc n) r2 rest
                  (if here = cur then a2\<lparr>aBuffer := hb_arrayCopy rec (aBuffer a2)\<rparr> else a2)
              })
          }))"

definition updateRecordBuffer :: "'w exenv \<Rightarrow> bool \<Rightarrow> ('w, errcode) exop" where
  "updateRecordBuffer env bUpdateDeleted a = do {
     key \<leftarrow> rd_at (recordList a) (recordListPos a);
     (case (if bUpdateDeleted then None else map_of (hBufferPool a) key) of
        Some rec \<Rightarrow> Some (HB_SUCCESS, a\<lparr>aBuffer := hb_arrayCopy rec (aBuffer a)\<rparr>)
      | None \<Rightarrow> do {
          let a1 = (if int (length (hBufferPool a)) > s_bufferPoolSize env then a\<lparr>hBufferPool := []\<rparr> else a);
          (changed, a2) \<leftarrow> SR_getColumnList env a1;
          (r, a3) \<leftarrow> (if changed \<or> hStmtBuffer a2 = None then prepare_page env a2 else Some (HB_SUCCESS, a2));
          if r = HB_FAILURE then Some (HB_FAILURE, a3)
          else do {
            a4 \<leftarrow> retrieve_from (s_pageReadSize env) 0 a3;
            st \<leftarrow> hStmtBuffer a4;
            let (an, a5) = SQLExecute env st a4;
            if CHECK_SQL_N_OK (an_res an) then do {
              (u, a6) \<leftarrow> odbc_error env (sSqlBuffer a5) a5;
              Some (HB_FAILURE, a6)
            }
            else do {
              (pr, a6) \<leftarrow> read_page env (s_pageReadSize env) 0 (an_res an) (an_rows an) a5;
              (case pr of
                 None \<Rightarrow> Some (HB_FAILURE, a6)
               | Some (n, res) \<Rightarrow> Some (if res = SQL_NO_DATA \<and> n = 0 then HB_FAILURE else HB_SUCCESS, a6))
            }
          }
        })
   }"

section \<open>Moving inside the list\<close>

abbreviation EG_ARG :: int where "EG_ARG \<equiv> 1"
abbreviation EG_OPEN :: int where "EG_OPEN \<equiv> 21"
abbreviation EG_NOORDER :: int where "EG_NOORDER \<equiv> 36"
abbreviation ESQLRDD_OPEN :: int where "ESQLRDD_OPEN \<equiv> 1001"
abbreviation ESQLRDD_READ :: int where "ESQLRDD_READ \<equiv> 1010"

text \<open>Reading the record that has become the current one; an error is reported.\<close>

definition read_current :: "'w exenv \<Rightarrow> bool \<Rightarrow> ('w, errcode) exop" where
  "read_current env upd a = do {
     (r, a1) \<leftarrow> updateRecordBuffer env upd a;
     if r = HB_FAILURE then do {
       (u, a2) \<leftarrow> x_common_error env EG_ARG ESQLRDD_READ a1;
       Some (HB_FAILURE, a2)
     }
     else Some (HB_SUCCESS, a1)
   }"

definition trySkippingOnCache :: "'w exenv \<Rightarrow> int \<Rightarrow> ('w, errcode) exop" where
  "trySkippingOnCache env lToSkip a =
     (if skipDirection a = 0 then Some (HB_FAILURE, a)
      else if recordListDirection a = SR_LIST_FORWARD then
        (let p = recordListPos a + lToSkip in
         if p \<ge> 0 \<and> p < recordListSize a then read_current env False (a\<lparr>recordListPos := p\<rparr>)
         else do {
           r0 \<leftarrow> rd_at (recordList a) 0;
           r \<leftarrow> rd_at (recordList a) (recordListPos a);
           if p < 0 \<and> r0 = lBofAt a then Some (HB_SUCCESS, a\<lparr>fBof := True\<rparr>)
           else if p \<ge> 0 \<and> r = lEofAt a then Some (HB_SUCCESS, x_cleanBuffer a)
           else Some (HB_FAILURE, a)
         })
      else
        (let p = recordListPos a - lToSkip in
         if p \<ge> 0 \<and> p < recordListSize a then read_current env False (a\<lparr>recordListPos := p\<rparr>)
         else do {
           r0 \<leftarrow> rd_at (recordList a) 0;
           r \<leftarrow> rd_at (recordList a) (recordListPos a);
           if p < 0 \<and> r0 = lEofAt a then Some (HB_SUCCESS, x_cleanBuffer a)
           else if p \<ge> 0 \<and> r = lBofAt a then Some (HB_SUCCESS, a\<lparr>fBof := True\<rparr>)
           else Some (HB_FAILURE, a)
         }))"

end
