(* ===== verification/ExMove.thy ===== *)
theory ExMove
  imports ExSkip
begin

text \<open>
  The movement operations of the second driver, \<open>sqlExBof\<close> to \<open>sqlExSkipRaw\<close> of \<open>source/sqlex1.c\<close>, but
  for seeking.
\<close>

section \<open>State of the area\<close>

definition x_force :: "'w exrdd \<Rightarrow> ('w, unit) exop" where
  "x_force self a =
     (if lpdbPendingRel a \<noteq> None then do { (r, a1) \<leftarrow> ex_forceRel self a; Some ((), a1) }
      else Some ((), a))"

definition x_first :: "'w exrdd \<Rightarrow> ('w, unit) exop" where
  "x_first self a =
     (if firstinteract a
      then do { (r, a1) \<leftarrow> ex_goTop self a; Some ((), a1\<lparr>firstinteract := False\<rparr>) }
      else Some ((), a))"

definition x_force_or_first :: "'w exrdd \<Rightarrow> ('w, unit) exop" where
  "x_force_or_first self a = (if lpdbPendingRel a \<noteq> None then x_force self a else x_first self a)"

definition sqlExBof :: "'w exrdd \<Rightarrow> ('w, bool \<times> errcode) exop" where
  "sqlExBof self a = do {
     (u, a1) \<leftarrow> x_first self a;
     (u, a2) \<leftarrow> x_force self a1;
     Some ((fBof a2, HB_SUCCESS), a2)
   }"

definition sqlExEof :: "'w exrdd \<Rightarrow> ('w, bool \<times> errcode) exop" where
  "sqlExEof self a = do {
     (u, a1) \<leftarrow> x_first self a;
     (u, a2) \<leftarrow> x_force self a1;
     Some ((if bIsInsert a2 \<and> bufferHot a2 then False else fEof a2, HB_SUCCESS), a2)
   }"

definition sqlExFound :: "'w exrdd \<Rightarrow> ('w, bool \<times> errcode) exop" where
  "sqlExFound self a = do {
     (u, a1) \<leftarrow> x_force self a;
     Some ((fFound a1, HB_SUCCESS), a1)
   }"

section \<open>What the object knows\<close>

abbreviation CONNECT_ODBC :: int where "CONNECT_ODBC \<equiv> 1"
abbreviation CONNECT_ODBC_QUERY_ONLY :: int where "CONNECT_ODBC_QUERY_ONLY \<equiv> 101"

definition SetColStatements :: "'w exarea \<Rightarrow> 'w exarea" where
  "SetColStatements a = a\<lparr>colStmt := replicate (length (aFields a)) None\<rparr>"

definition load_params :: "'w exenv \<Rightarrow> 'w exarea \<Rightarrow> 'w exarea option" where
  "load_params env a = do {
     (sql, a1) \<leftarrow> x_send env ''OSQL'' [] a;
     (fs, a2) \<leftarrow> x_send env ''AFIELDS'' [] (a1\<lparr>oSql := Some sql\<rparr>);
     (h, a3) \<leftarrow> x_send_sql env ''HDBC'' (a2\<lparr>aFields := arr_of fs\<rparr>);
     (sys, a4) \<leftarrow> x_send_sql env ''NSYSTEMID'' a3;
     (tab, a5) \<leftarrow> getMessageC env ''CQUALIFIEDTABLENAME'' (a4\<lparr>nSystemID := hb_itemGetNL sys\<rparr>);
     (own, a6) \<leftarrow> getMessageC env ''COWNER'' (a5\<lparr>sTable := tab\<rparr>);
     (rn, a7) \<leftarrow> getMessageC env ''CRECNONAME'' (a6\<lparr>sOwner := own\<rparr>);
     (dn, a8) \<leftarrow> getMessageC env ''CDELETEDNAME'' (a7\<lparr>sRecnoName := rn\<rparr>);
     (tc, a9) \<leftarrow> x_send env ''NTCCOMPAT'' [] (a8\<lparr>sDeletedName := dn\<rparr>);
     (hist, a10) \<leftarrow> x_send env ''LHISTORIC'' [] (a9\<lparr>iTCCompat := hb_itemGetNL tc\<rparr>);
     let a11 = a10\<lparr>bHistoric := hb_itemGetL hist\<rparr>;
     Some (SetColStatements (a11\<lparr>sRecnoName := SR_QualifyName (nSystemID a11) (sRecnoName a11),
                                sDeletedName := SR_QualifyName (nSystemID a11) (sDeletedName a11)\<rparr>))
   }"

definition getWorkareaParams :: "'w exenv \<Rightarrow> ('w, errcode) exop" where
  "getWorkareaParams env a = do {
     a1 \<leftarrow> (if oSql a = None then load_params env a else Some a);
     (ok, a2) \<leftarrow> (if bConnVerified a1 then Some (True, a1)
                 else do {
                   (v, b) \<leftarrow> x_send_sql env ''NCONNECTIONTYPE'' a1;
                   (if hb_itemGetNL v \<in> {CONNECT_ODBC, CONNECT_ODBC_QUERY_ONLY}
                    then Some (True, b\<lparr>bConnVerified := True\<rparr>)
                    else do { (u, b1) \<leftarrow> x_common_error env EG_OPEN ESQLRDD_OPEN b; Some (False, b1) })
                 });
     if \<not> ok then Some (HB_FAILURE, a2)
     else do {
       (v, a3) \<leftarrow> x_send env ''LTABLEISSELECT'' [] a2;
       Some (HB_SUCCESS, a3\<lparr>bIsSelect := hb_itemGetL v\<rparr>)
     }
   }"

section \<open>Absolute movement\<close>

abbreviation TOP_LIST_SIZE :: nat where "TOP_LIST_SIZE \<equiv> 25"

text \<open>The first records from one end of the table.\<close>

definition list_from_end :: "'w exenv \<Rightarrow> listtype \<Rightarrow> ('w, errcode) exop" where
  "list_from_end env t a = do {
     a1 \<leftarrow> SR_getOrderByExpression False
       (a\<lparr>recordListDirection := (if t = SR_LIST_FROM_TOP then SR_LIST_FORWARD else SR_LIST_BACKWARD)\<rparr>);
     a2 \<leftarrow> getWhereExpression env t a1;
     a3 \<leftarrow> SR_setResultSetLimit (int TOP_LIST_SIZE) a2;
     a4 \<leftarrow> createRecodListQuery a3;
     (r, a5) \<leftarrow> getRecordList env TOP_LIST_SIZE a4;
     if r = HB_FAILURE then do {
       (u, a6) \<leftarrow> odbc_error env (sSql a5) a5;
       (u, a7) \<leftarrow> x_common_error env EG_ARG ESQLRDD_READ a6;
       Some (HB_FAILURE, a7)
     }
     else Some (HB_SUCCESS, a5)
   }"

text \<open>To the end of the table that is known, or to what a query finds.\<close>

definition go_end :: "'w exrdd \<Rightarrow> 'w exenv \<Rightarrow> listtype \<Rightarrow> int \<Rightarrow> ('w, errcode) exop" where
  "go_end self env t known a =
     (if known \<noteq> 0 then do {
        (r, a1) \<leftarrow> ex_goTo self known a;
        if bReverseIndex a1 \<noteq> s_bOldReverseIndex a1 then list_from_end env t a1 else Some (HB_SUCCESS, a1)
      }
      else list_from_end env t a)"

definition leave_pos :: "'w exarea \<Rightarrow> 'w exarea" where
  "leave_pos a = a\<lparr>lpdbPendingRel := None, firstinteract := False, wasdel := False, fFound := False\<rparr>"

text \<open>The area on the first record of the list, or on none.\<close>

definition on_first :: "'w exenv \<Rightarrow> listtype \<Rightarrow> ('w, errcode) exop" where
  "on_first env t a =
     (if recordListSize a = 0 then Some (HB_SUCCESS, x_cleanBuffer (a\<lparr>fEof := True, fBof := True\<rparr>))
      else do {
        r \<leftarrow> rd_at (recordList a) (recordListPos a);
        read_current env False
          ((if t = SR_LIST_FROM_TOP then a\<lparr>lBofAt := r\<rparr> else a\<lparr>lEofAt := r\<rparr>)\<lparr>fEof := False, fBof := False\<rparr>)
      })"

definition arrive :: "'w exrdd \<Rightarrow> 'w exenv \<Rightarrow> int \<Rightarrow> ('w, errcode) exop" where
  "arrive self env d a = do {
     (r, a1) \<leftarrow> ex_skipFilter self d a;
     if lpdbRelations a1 then x_sync_children env a1 else Some (HB_SUCCESS, a1)
   }"

definition sqlExGoBottom :: "'w exrdd \<Rightarrow> 'w exenv \<Rightarrow> ('w, errcode) exop" where
  "sqlExGoBottom self env a = do {
     (r, a1) \<leftarrow> ex_goCold self (leave_pos a);
     if r = HB_FAILURE then Some (HB_FAILURE, a1)
     else do {
       (r2, a2) \<leftarrow> go_end self env SR_LIST_FROM_BOTTOM (lEofAt a1) a1;
       if r2 = HB_FAILURE then Some (HB_FAILURE, a2)
       else do {
         (r3, a3) \<leftarrow> on_first env SR_LIST_FROM_BOTTOM (a2\<lparr>fTop := False, fBottom := True, skipDirection := - 1\<rparr>);
         if r3 = HB_FAILURE then Some (HB_FAILURE, a3) else arrive self env (- 1) a3
       }
     }
   }"

definition sqlExGoTop :: "'w exrdd \<Rightarrow> 'w exenv \<Rightarrow> ('w, errcode) exop" where
  "sqlExGoTop self env a = do {
     (r0, a0) \<leftarrow> getWorkareaParams env (leave_pos a);
     if r0 = HB_FAILURE then Some (HB_FAILURE, a0)
     else do {
       (r, a1) \<leftarrow> ex_goCold self a0;
       if r = HB_FAILURE then Some (HB_FAILURE, a1)
       else do {
         (r2, a2) \<leftarrow> go_end self env SR_LIST_FROM_TOP (lBofAt a1) a1;
         if r2 = HB_FAILURE then Some (HB_FAILURE, a2)
         else do {
           (r3, a3) \<leftarrow> on_first env SR_LIST_FROM_TOP (a2\<lparr>fTop := True, fBottom := False, skipDirection := 1\<rparr>);
           if r3 = HB_FAILURE then Some (HB_FAILURE, a3) else arrive self env 1 a3
         }
       }
     }
   }"

text \<open>The record is looked for in the list from position \<open>i\<close> on; the flag tells whether it was read.\<close>

fun goto_in_list :: "'w exenv \<Rightarrow> int \<Rightarrow> nat \<Rightarrow> nat \<Rightarrow> ('w, bool) exop" where
  "goto_in_list env recno 0 i a = Some (False, a)"
| "goto_in_list env recno (Suc k) i a =
     (if int i < recordListSize a then do {
        r \<leftarrow> rd_at (recordList a) (int i);
        if r = recno then do {
          (e, a1) \<leftarrow> updateRecordBuffer env False (a\<lparr>recordListPos := int i\<rparr>);
          if e = HB_SUCCESS then Some (True, a1) else goto_in_list env recno k (Suc i) a1
        }
        else goto_in_list env recno k (Suc i) a
      }
      else Some (False, a))"

definition sqlExGoTo :: "'w exrdd \<Rightarrow> 'w exenv \<Rightarrow> int \<Rightarrow> ('w, errcode) exop" where
  "sqlExGoTo self env recno a = do {
     (r, a1) \<leftarrow> ex_goCold self a;
     if r = HB_FAILURE then Some (HB_FAILURE, a1)
     else do {
       let a2 = leave_pos a1;
       if recno = 0 then Some (HB_SUCCESS, (x_cleanBuffer a2)\<lparr>fBof := True\<rparr>)
       else do {
         (here, a3) \<leftarrow> goto_in_list env recno (nat (recordListSize a2)) 0 a2;
         if here then Some (HB_SUCCESS, a3\<lparr>fEof := False, fBof := False\<rparr>)
         else do {
           rl \<leftarrow> wr_at (recordList a3) 0 recno;
           (e, a4) \<leftarrow> updateRecordBuffer env True
             (a3\<lparr>recordList := rl, recordListSize := 1, recordListDirection := SR_LIST_FORWARD, recordListPos := 0\<rparr>);
           Some (HB_SUCCESS, if e = HB_SUCCESS then a4\<lparr>fEof := False, fBof := False\<rparr>
                             else (x_cleanBuffer a4)\<lparr>fBof := True\<rparr>)
         }
       }
     }
   }"

definition sqlExGoToId :: "'w exrdd \<Rightarrow> 'w exenv \<Rightarrow> item \<Rightarrow> ('w, errcode) exop" where
  "sqlExGoToId self env v a = do {
     (r, a1) \<leftarrow> ex_goCold self (a\<lparr>firstinteract := False, wasdel := False\<rparr>);
     if r = HB_FAILURE then Some (HB_FAILURE, a1)
     else if HB_IS_NUMERIC v then ex_goTo self (hb_itemGetNL v) a1
     else do {
       (u, a2) \<leftarrow> x_common_error env EG_ARG ESQLRDD_READ a1;
       Some (HB_FAILURE, a2)
     }
   }"

section \<open>Relative movement\<close>

text \<open>The loop of \<open>sqlExSkip\<close>: \<open>n\<close> steps in direction \<open>d\<close>, as long as no end is reached.\<close>

fun skip_steps :: "'w exrdd \<Rightarrow> int \<Rightarrow> nat \<Rightarrow> ('w, errcode) exop" where
  "skip_steps self d 0 a = Some (HB_SUCCESS, a)"
| "skip_steps self d (Suc n) a = do {
     (r, a1) \<leftarrow> ex_skipRaw self d a;
     if r \<noteq> HB_SUCCESS then Some (HB_FAILURE, a1)
     else do {
       (r2, a2) \<leftarrow> ex_skipFilter self d a1;
       if r2 \<noteq> HB_SUCCESS then Some (HB_FAILURE, a2)
       else if fBof a2 \<or> fEof a2 then Some (HB_SUCCESS, a2)
       else skip_steps self d n a2
     }
   }"

definition sqlExSkip :: "'w exrdd \<Rightarrow> 'w exenv \<Rightarrow> int \<Rightarrow> ('w, errcode) exop" where
  "sqlExSkip self env lToSkip a = do {
     (ok, a1) \<leftarrow> (if lpdbPendingRel a \<noteq> None
                 then do { (r, b) \<leftarrow> ex_forceRel self a; Some (r = HB_SUCCESS, b) }
                 else do { (u, b) \<leftarrow> x_first self a; Some (True, b) });
     if \<not> ok then Some (HB_FAILURE, a1)
     else if lToSkip = 0 then ex_goCold self a1
     else do {
       cur \<leftarrow> SR_GetCurrentRecordNum a1;
       let a2 = a1\<lparr>lCurrentRecord := cur, fTop := False, fBottom := False, wasdel := False,
                   fBof := False, fEof := False\<rparr>;
       let d = (if lToSkip > 0 then 1 else - 1);
       (r, a3) \<leftarrow> skip_steps self d (nat \<bar>lToSkip\<bar>) a2;
       if r = HB_FAILURE then Some (HB_FAILURE, a3)
       else Some (HB_SUCCESS, if d < 0 then a3\<lparr>fEof := False\<rparr> else a3\<lparr>fBof := False\<rparr>)
     }
   }"

definition x_filtering :: "'w exenv \<Rightarrow> 'w exarea \<Rightarrow> bool" where
  "x_filtering env a \<longleftrightarrow> x_set_deleted env (world a) \<or> itmCobExpr a \<noteq> None"

text \<open>Whether the current record is to be passed over; \<open>None\<close> inside is a failure.\<close>

definition x_hidden :: "'w exrdd \<Rightarrow> 'w exenv \<Rightarrow> ('w, bool option) exop" where
  "x_hidden self env a = do {
     (h, a1) \<leftarrow> (if x_set_deleted env (world a) then do {
                  ((d, r), b) \<leftarrow> ex_deleted self a;
                  Some (if r = HB_SUCCESS then Some d else None, b)
                }
                else Some (Some False, a));
     if h \<noteq> Some False then Some (h, a1)
     else (case itmCobExpr a1 of
             None \<Rightarrow> Some (Some False, a1)
           | Some b \<Rightarrow> do {
               (v, a2) \<leftarrow> x_eval_block env b a1;
               Some (Some (HB_IS_LOGICAL v \<and> \<not> hb_itemGetL v), a2)
             })
   }"

partial_function (option) x_filter_loop ::
  "'w exenv \<Rightarrow> 'w exrdd \<Rightarrow> int \<Rightarrow> 'w exarea \<Rightarrow> (errcode \<times> 'w exarea) option"
where
  "x_filter_loop env self d a =
     (if fBof a \<or> fEof a then Some (HB_SUCCESS, a)
      else do {
        (h, a1) \<leftarrow> x_hidden self env a;
        if h = None then Some (HB_FAILURE, a1)
        else if h = Some True then do {
          (r, a2) \<leftarrow> ex_skipRaw self d a1;
          if r \<noteq> HB_SUCCESS then Some (HB_FAILURE, a2) else x_filter_loop env self d a2
        }
        else Some (HB_SUCCESS, a1)
      })"

definition sqlExSkipFilter :: "'w exrdd \<Rightarrow> 'w exenv \<Rightarrow> int \<Rightarrow> ('w, errcode) exop" where
  "sqlExSkipFilter self env lUpDown a =
     (if \<not> x_filtering env a then Some (HB_SUCCESS, a)
      else (let d = (if lUpDown < 0 then - 1 else 1); bottom = fBottom a in do {
        (r, a1) \<leftarrow> x_filter_loop env self d a;
        if r = HB_FAILURE then Some (HB_FAILURE, a1)
        else if fBof a1 \<and> d < 0 then
          (if bottom then ex_goTo self 0 a1
           else do { (e, a2) \<leftarrow> ex_goTop self a1; Some (e, a2\<lparr>fBof := True\<rparr>) })
        else Some (HB_SUCCESS, a1)
      }))"

text \<open>The levels of the order, from the deepest on; the statement is the same for each.\<close>

fun list_by_levels :: "'w exrdd \<Rightarrow> 'w exenv \<Rightarrow> int \<Rightarrow> nat \<Rightarrow> ('w, errcode) exop" where
  "list_by_levels self env lToSkip k a = do {
     (res, a1) \<leftarrow> getPreparedRecordList env RECORD_LIST_SIZE a;
     let a2 = a1\<lparr>indexLevel := indexLevel a1 - 1\<rparr>;
     if res = RESULTSET_OK then Some (res, a2)
     else if res = HB_FAILURE then do {
       (u, a3) \<leftarrow> x_common_error env EG_ARG ESQLRDD_READ a2;
       Some (HB_FAILURE, a3)
     }
     else if res = SR_HB_RETRY then
       (if lToSkip > 0 then Some (res, x_cleanBuffer a2)
        else do { (r, a3) \<leftarrow> ex_goTop self a2; Some (res, a3) })
     else (case k of 0 \<Rightarrow> Some (res, a2) | Suc j \<Rightarrow> list_by_levels self env lToSkip j a2)
   }"

declare list_by_levels.simps [simp del]

definition list_from_record :: "'w exrdd \<Rightarrow> 'w exenv \<Rightarrow> int \<Rightarrow> ('w, errcode) exop" where
  "list_from_record self env lToSkip a = do {
     let n = (if hOrdCurrent a > 0 then length (order_columns a) else 1);
     let a1 = a\<lparr>indexColumns := n,
                recordListDirection := (if lToSkip > 0 then SR_LIST_FORWARD else SR_LIST_BACKWARD)\<rparr>;
     (new, a2) \<leftarrow> CreateSkipStmt env a1;
     a3 \<leftarrow> (if new then BindAllIndexStmts env a2 else FeedCurrentRecordToBindings env a2);
     let a4 = a3\<lparr>indexLevel := int (indexColumns a3)\<rparr>;
     (res, a5) \<leftarrow> list_by_levels self env lToSkip (indexColumns a4 - 1) a4;
     if res = HB_FAILURE then Some (HB_FAILURE, a5)
     else if res = RESULTSET_OK then do {
       (r, a6) \<leftarrow> read_current env False a5;
       if r = HB_FAILURE then Some (HB_FAILURE, a6) else x_concludeSkipraw env a6
     }
     else if lToSkip < 0 then do {
       r \<leftarrow> (if recordListSize a5 \<noteq> 0 then rd_at (recordList a5) (recordListPos a5) else Some (lBofAt a5));
       x_concludeSkipraw env (a5\<lparr>fBof := True, lBofAt := r\<rparr>)
     }
     else x_concludeSkipraw env (x_cleanBuffer a5)
   }"

definition sqlExSkipRaw :: "'w exrdd \<Rightarrow> 'w exenv \<Rightarrow> int \<Rightarrow> ('w, errcode) exop" where
  "sqlExSkipRaw self env lToSkip a = do {
     (r, a0) \<leftarrow> ex_goCold self a;
     if r = HB_FAILURE then Some (HB_FAILURE, a0)
     else if lToSkip < 0 \<and> lCurrentRecord a0 = lLastRec a0 then ex_goBottom self a0
     else do {
       let a1 = (if CurrRecord a0 = None then SR_SetCurrRecordStructure a0 else a0);
       if lToSkip = 0 then x_concludeSkipraw env a1
       else do {
         (c, a2) \<leftarrow> trySkippingOnCache env lToSkip (a1\<lparr>skipDirection := (if lToSkip > 0 then 1 else - 1)\<rparr>);
         if c = HB_SUCCESS then x_concludeSkipraw env a2
         else list_from_record self env lToSkip a2
       }
     }
   }"

end
