(* ===== verification/Cache.thy ===== *)
theory Cache
  imports WorkArea
begin

text \<open>
  The record cache of a work area, \<open>source/sqlrdd1.c\<close>: a ring of three pages whose valid part
  runs from \<open>NCACHEBEGIN\<close> to \<open>NCACHEEND\<close>, possibly across the end of the array. The searches for
  the next and the previous filled position are two interpretations of the locale \<open>ring_scan\<close>, where
  their result and their termination are proved once. Then the loading of a record from the cache
  into the buffers.
\<close>

section \<open>The ring\<close>

abbreviation RING :: int where "RING \<equiv> SR_CACHE_PAGE_SIZE * 3"

definition fixCachePointer :: "int \<Rightarrow> int" where
  "fixCachePointer p =
     (if p < 1 then p + SR_CACHE_PAGE_SIZE * 3
      else if p > SR_CACHE_PAGE_SIZE * 3 then p - SR_CACHE_PAGE_SIZE * 3
      else p)"

text \<open>\<open>SR_FIXCACHEPOINTER(nPos)\<close>\<close>

definition SR_FIXCACHEPOINTER :: "item \<Rightarrow> int" where
  "SR_FIXCACHEPOINTER v = fixCachePointer (hb_itemGetNL v)"

definition isCachePointerInRange :: "int \<Rightarrow> int \<Rightarrow> int \<Rightarrow> bool" where
  "isCachePointerInRange p b e =
     (if b = e then p = b
      else if b < e then p \<ge> b \<and> p \<le> e
      else p \<ge> b \<or> p \<le> e)"

text \<open>\<open>hb_arrayGetItemPtr\<close> gives the null pointer outside the array, which \<open>HB_IS_NIL\<close> follows.\<close>

definition cell :: "item list \<Rightarrow> int \<Rightarrow> item option" where
  "cell c p = (if 1 \<le> p \<and> p \<le> int (length c) then Some (c ! nat (p - 1)) else None)"

partial_function (option) fwd_loop :: "item list \<Rightarrow> int \<Rightarrow> int \<Rightarrow> int \<Rightarrow> int option" where
  "fwd_loop c b e p =
     (if isCachePointerInRange p b e then
        (case cell c p of
           None \<Rightarrow> None
         | Some v \<Rightarrow> if v \<noteq> NIL then Some p else fwd_loop c b e (fixCachePointer (p + 1)))
      else Some 0)"

partial_function (option) bwd_loop :: "item list \<Rightarrow> int \<Rightarrow> int \<Rightarrow> int \<Rightarrow> int option" where
  "bwd_loop c b e p =
     (if isCachePointerInRange p b e then
        (case cell c p of
           None \<Rightarrow> None
         | Some v \<Rightarrow> if v \<noteq> NIL then Some p else bwd_loop c b e (fixCachePointer (p - 1)))
      else Some 0)"

definition searchCacheFWD :: "'w area \<Rightarrow> int \<Rightarrow> int option" where
  "searchCacheFWD a prev =
     (let p = infoNL SR_AINFO_NPOSCACHE a in
      if p = 0 then Some 0
      else fwd_loop (aCache a) (infoNL SR_AINFO_NCACHEBEGIN a) (infoNL SR_AINFO_NCACHEEND a)
             (fixCachePointer (if prev \<noteq> 0 then p + 1 else p)))"

definition searchCacheBWD :: "'w area \<Rightarrow> int \<Rightarrow> int option" where
  "searchCacheBWD a prev =
     (let p = infoNL SR_AINFO_NPOSCACHE a in
      if p = 0 then Some 0
      else bwd_loop (aCache a) (infoNL SR_AINFO_NCACHEBEGIN a) (infoNL SR_AINFO_NCACHEEND a)
             (fixCachePointer (if prev \<noteq> 0 then p - 1 else p)))"

definition on_ring :: "int \<Rightarrow> bool" where
  "on_ring p \<longleftrightarrow> 1 \<le> p \<and> p \<le> RING"

lemma fixCachePointer_id [simp]: "on_ring p \<Longrightarrow> fixCachePointer p = p"
  by (simp add: fixCachePointer_def on_ring_def)

lemma fixCachePointer_on_ring: "1 - RING \<le> p \<Longrightarrow> p \<le> 2 * RING \<Longrightarrow> on_ring (fixCachePointer p)"
  by (auto simp: fixCachePointer_def on_ring_def)

lemma fixCachePointer_mod:
  assumes "1 - RING \<le> p" "p \<le> 2 * RING"
  shows "fixCachePointer p = (p - 1) mod RING + 1"
proof -
  have m: "(p - 1) mod RING = (p - 1 + RING) mod RING" "(p - 1) mod RING = (p - 1 - RING) mod RING"
    by (simp_all only: mod_add_self2 minus_mod_self2)
  consider "p < 1" | "1 \<le> p \<and> p \<le> RING" | "RING < p" by linarith
  then show ?thesis
  proof cases
    case 1
    then have "(p - 1 + RING) mod RING = p - 1 + RING" using assms by (intro mod_pos_pos_trivial) auto
    then show ?thesis using 1 m(1)
      by (simp add: fixCachePointer_def)
  next
    case 2
    then show ?thesis by (simp add: fixCachePointer_def mod_pos_pos_trivial)
  next
    case 3
    then have "(p - 1 - RING) mod RING = p - 1 - RING" using assms by (intro mod_pos_pos_trivial) auto
    then show ?thesis using 3 m(2)
      by (simp add: fixCachePointer_def)
  qed
qed

section \<open>The contract of a search\<close>

text \<open>
  \<open>step\<close> goes from one position to the next and reaches every position of the ring from every
  other; \<open>scan\<close> follows it to the first filled position or out of the range, and gives a result
  only if it comes to one of them.
\<close>

locale ring_scan =
  fixes step :: "int \<Rightarrow> int"
    and scan :: "item list \<Rightarrow> int \<Rightarrow> int \<Rightarrow> int \<Rightarrow> int option"
  assumes step_ring: "on_ring p \<Longrightarrow> on_ring (step p)"
    and step_reaches: "on_ring p \<Longrightarrow> on_ring q \<Longrightarrow> \<exists>k. (step ^^ k) p = q"
    and scan_eq:
      "scan c b e p =
         (if isCachePointerInRange p b e then
            (case cell c p of
               None \<Rightarrow> None
             | Some v \<Rightarrow> if v \<noteq> NIL then Some p else scan c b e (step p))
          else Some 0)"
    and scan_only:
      "scan c b e p = Some r \<Longrightarrow>
       \<exists>k. \<not> isCachePointerInRange ((step ^^ k) p) b e \<and> r = 0 \<or>
           isCachePointerInRange ((step ^^ k) p) b e \<and> r = (step ^^ k) p \<and>
           (\<exists>v. cell c r = Some v \<and> v \<noteq> NIL)"
begin

definition stops :: "item list \<Rightarrow> int \<Rightarrow> int \<Rightarrow> int \<Rightarrow> bool" where
  "stops c b e p \<longleftrightarrow> \<not> isCachePointerInRange p b e \<or> cell c p \<noteq> Some NIL"

lemma scan_stop: "stops c b e p \<Longrightarrow>
   scan c b e p = (if isCachePointerInRange p b e then map_option (\<lambda>v. p) (cell c p) else Some 0)"
  by (subst scan_eq) (auto simp: stops_def split: option.splits)

lemma scan_go: "\<not> stops c b e p \<Longrightarrow> scan c b e p = scan c b e (step p)"
  by (subst scan_eq) (auto simp: stops_def)

lemma scan_first:
  "(\<forall>j < k. \<not> stops c b e ((step ^^ j) p)) \<Longrightarrow> scan c b e p = scan c b e ((step ^^ k) p)"
  by (induction k) (auto simp: scan_go)

lemma scan_stops: "scan c b e p = Some r \<Longrightarrow> \<exists>k. stops c b e ((step ^^ k) p)"
proof -
  assume "scan c b e p = Some r"
  from scan_only [OF this] obtain k where
    "\<not> isCachePointerInRange ((step ^^ k) p) b e \<or> (\<exists>v. cell c ((step ^^ k) p) = Some v \<and> v \<noteq> NIL)"
    by blast
  then have "stops c b e ((step ^^ k) p)" by (auto simp: stops_def)
  then show ?thesis ..
qed

lemma ring_orbit: "on_ring p \<Longrightarrow> on_ring ((step ^^ k) p)"
  by (induction k) (auto simp: step_ring)

lemma cell_ring: "on_ring p \<Longrightarrow> length c = nat RING \<Longrightarrow> \<exists>v. cell c p = Some v"
  by (simp add: cell_def on_ring_def)

text \<open>A search returns exactly when some position of the ring stops it.\<close>

lemma scan_returns_iff:
  assumes "on_ring p" "length c = nat RING"
  shows "(\<exists>r. scan c b e p = Some r) \<longleftrightarrow> (\<exists>q. on_ring q \<and> stops c b e q)"
proof
  assume "\<exists>r. scan c b e p = Some r"
  then obtain k where k: "stops c b e ((step ^^ k) p)" using scan_stops by blast
  then show "\<exists>q. on_ring q \<and> stops c b e q" using ring_orbit [OF assms(1)] by blast
next
  assume "\<exists>q. on_ring q \<and> stops c b e q"
  then obtain k where "stops c b e ((step ^^ k) p)"
    using step_reaches [OF assms(1)] by blast
  define n where "n = (LEAST k. stops c b e ((step ^^ k) p))"
  have n: "stops c b e ((step ^^ n) p)" "\<forall>j < n. \<not> stops c b e ((step ^^ j) p)"
    using \<open>stops c b e ((step ^^ k) p)\<close> not_less_Least
    by (auto simp: n_def intro: LeastI)
  have "\<exists>v. cell c ((step ^^ n) p) = Some v" using cell_ring ring_orbit assms by blast
  then show "\<exists>r. scan c b e p = Some r"
    using scan_first [OF n(2)] scan_stop [OF n(1)] by auto
qed

text \<open>What it returns: the first filled position on its way, or 0 when it leaves the range.\<close>

lemma scan_result:
  assumes "on_ring p" "length c = nat RING" "scan c b e p = Some r"
  shows "\<exists>k. (\<forall>j < k. isCachePointerInRange ((step ^^ j) p) b e \<and> cell c ((step ^^ j) p) = Some NIL) \<and>
     (r = 0 \<and> \<not> isCachePointerInRange ((step ^^ k) p) b e \<or>
      r = (step ^^ k) p \<and> isCachePointerInRange r b e \<and> (\<exists>v. cell c r = Some v \<and> v \<noteq> NIL))"
proof -
  have "\<exists>k. stops c b e ((step ^^ k) p)" by (rule scan_stops [OF assms(3)])
  define n where "n = (LEAST k. stops c b e ((step ^^ k) p))"
  have n: "stops c b e ((step ^^ n) p)" "\<forall>j < n. \<not> stops c b e ((step ^^ j) p)"
    using \<open>\<exists>k. stops c b e ((step ^^ k) p)\<close> not_less_Least
    by (auto simp: n_def intro: LeastI_ex)
  obtain v where v: "cell c ((step ^^ n) p) = Some v" using cell_ring ring_orbit assms by blast
  show ?thesis
    using scan_first [OF n(2)] scan_stop [OF n(1)] n v assms(3)
    by (intro exI [of _ n]) (auto simp: stops_def split: if_splits)
qed

end
section \<open>The two searches\<close>

definition step_fwd :: "int \<Rightarrow> int" where
  "step_fwd p = fixCachePointer (p + 1)"

definition step_bwd :: "int \<Rightarrow> int" where
  "step_bwd p = fixCachePointer (p - 1)"

lemma on_ring_mod: "on_ring (x mod RING + 1)"
  by (simp add: on_ring_def)

lemma mod_on_ring: "on_ring p \<Longrightarrow> (p - 1) mod 600 + 1 = p"
  by (simp add: on_ring_def mod_pos_pos_trivial)

lemma step_fwd_power: "on_ring p \<Longrightarrow> (step_fwd ^^ k) p = (p - 1 + int k) mod RING + 1"
proof (induction k)
  case (Suc k)
  have "(step_fwd ^^ Suc k) p = step_fwd ((step_fwd ^^ k) p)" by simp
  also have "\<dots> = fixCachePointer ((p - 1 + int k) mod RING + 1 + 1)"
    unfolding Suc.IH [OF Suc.prems] step_fwd_def ..
  also have "\<dots> = ((p - 1 + int k) mod RING + 1) mod RING + 1"
    using on_ring_mod [of "p - 1 + int k"]
    by (subst fixCachePointer_mod) (auto simp: on_ring_def add.commute)
  finally show ?case by (simp add: mod_simps algebra_simps)
qed (simp add: mod_on_ring)

lemma step_bwd_power: "on_ring p \<Longrightarrow> (step_bwd ^^ k) p = (p - 1 - int k) mod RING + 1"
proof (induction k)
  case (Suc k)
  have "(step_bwd ^^ Suc k) p = step_bwd ((step_bwd ^^ k) p)" by simp
  also have "\<dots> = fixCachePointer ((p - 1 - int k) mod RING + 1 - 1)"
    unfolding Suc.IH [OF Suc.prems] step_bwd_def ..
  also have "\<dots> = ((p - 1 - int k) mod RING + 1 - 1 - 1) mod RING + 1"
    using on_ring_mod [of "p - 1 - int k"] by (subst fixCachePointer_mod) (auto simp: on_ring_def)
  finally show ?case by (simp add: mod_simps algebra_simps)
qed (simp add: mod_on_ring)

lemma ring_distance: "on_ring p \<Longrightarrow> on_ring q \<Longrightarrow> \<exists>k. (p - 1 + int k) mod RING + 1 = q"
  by (rule exI [of _ "nat ((q - p) mod RING)"]) (simp add: mod_simps mod_on_ring)

lemma ring_distance_back: "on_ring p \<Longrightarrow> on_ring q \<Longrightarrow> \<exists>k. (p - 1 - int k) mod RING + 1 = q"
  by (rule exI [of _ "nat ((p - q) mod RING)"]) (simp add: mod_simps mod_on_ring)

text \<open>The form of a result, as the contract asks for it.\<close>

definition scan_end ::
  "(int \<Rightarrow> int) \<Rightarrow> item list \<Rightarrow> int \<Rightarrow> int \<Rightarrow> int \<Rightarrow> int \<Rightarrow> bool"
where
  "scan_end step c b e p r \<longleftrightarrow>
     (\<exists>k. \<not> isCachePointerInRange ((step ^^ k) p) b e \<and> r = 0 \<or>
          isCachePointerInRange ((step ^^ k) p) b e \<and> r = (step ^^ k) p \<and>
          (\<exists>v. cell c r = Some v \<and> v \<noteq> NIL))"

lemma scan_end_now:
  "\<not> isCachePointerInRange p b e \<Longrightarrow> scan_end step c b e p 0"
  "isCachePointerInRange p b e \<Longrightarrow> cell c p = Some v \<Longrightarrow> v \<noteq> NIL \<Longrightarrow> scan_end step c b e p p"
  unfolding scan_end_def by (rule exI [of _ 0], simp)+

lemma scan_end_later: "scan_end step c b e (step p) r \<Longrightarrow> scan_end step c b e p r"
  unfolding scan_end_def
proof (elim exE)
  fix k assume "\<not> isCachePointerInRange ((step ^^ k) (step p)) b e \<and> r = 0 \<or>
      isCachePointerInRange ((step ^^ k) (step p)) b e \<and> r = (step ^^ k) (step p) \<and>
      (\<exists>v. cell c r = Some v \<and> v \<noteq> NIL)"
  then show "\<exists>k. \<not> isCachePointerInRange ((step ^^ k) p) b e \<and> r = 0 \<or>
      isCachePointerInRange ((step ^^ k) p) b e \<and> r = (step ^^ k) p \<and>
      (\<exists>v. cell c r = Some v \<and> v \<noteq> NIL)"
    by (intro exI [of _ "Suc k"]) (simp add: funpow_swap1)
qed

lemma fwd_loop_only: "fwd_loop c b e p = Some r \<Longrightarrow> scan_end step_fwd c b e p r"
proof (rule fwd_loop.raw_induct [where P = "scan_end step_fwd"])
  fix f c b e p r
  assume ih: "\<And>c b e p r. f c b e p = Some r \<Longrightarrow> scan_end step_fwd c b e p r"
    and eq: "(if isCachePointerInRange p b e then
        (case cell c p of
           None \<Rightarrow> None
         | Some v \<Rightarrow> if v \<noteq> NIL then Some p else f c b e (fixCachePointer (p + 1)))
      else Some 0) = Some r"
  show "scan_end step_fwd c b e p r"
  proof (cases "isCachePointerInRange p b e \<and> cell c p = Some NIL")
    case True
    then have "f c b e (step_fwd p) = Some r" using eq by (simp add: step_fwd_def)
    then show ?thesis by (rule scan_end_later [OF ih])
  next
    case stop: False
    show ?thesis
    proof (cases "isCachePointerInRange p b e")
      case True
      then obtain v where v: "cell c p = Some v" "v \<noteq> NIL" using stop eq by (cases "cell c p") auto
      then have "r = p" using eq True by simp
      then show ?thesis using scan_end_now(2) [OF True v] by simp
    next
      case False
      then show ?thesis using eq scan_end_now(1) by simp
    qed
  qed
qed

lemma bwd_loop_only: "bwd_loop c b e p = Some r \<Longrightarrow> scan_end step_bwd c b e p r"
proof (rule bwd_loop.raw_induct [where P = "scan_end step_bwd"])
  fix f c b e p r
  assume ih: "\<And>c b e p r. f c b e p = Some r \<Longrightarrow> scan_end step_bwd c b e p r"
    and eq: "(if isCachePointerInRange p b e then
        (case cell c p of
           None \<Rightarrow> None
         | Some v \<Rightarrow> if v \<noteq> NIL then Some p else f c b e (fixCachePointer (p - 1)))
      else Some 0) = Some r"
  show "scan_end step_bwd c b e p r"
  proof (cases "isCachePointerInRange p b e \<and> cell c p = Some NIL")
    case True
    then have "f c b e (step_bwd p) = Some r" using eq by (simp add: step_bwd_def)
    then show ?thesis by (rule scan_end_later [OF ih])
  next
    case stop: False
    show ?thesis
    proof (cases "isCachePointerInRange p b e")
      case True
      then obtain v where v: "cell c p = Some v" "v \<noteq> NIL" using stop eq by (cases "cell c p") auto
      then have "r = p" using eq True by simp
      then show ?thesis using scan_end_now(2) [OF True v] by simp
    next
      case False
      then show ?thesis using eq scan_end_now(1) by simp
    qed
  qed
qed

interpretation fwd: ring_scan step_fwd fwd_loop
proof
  show "on_ring p \<Longrightarrow> on_ring (step_fwd p)" for p
    using fixCachePointer_on_ring [of "p + 1"] by (simp add: step_fwd_def on_ring_def)
  show "on_ring p \<Longrightarrow> on_ring q \<Longrightarrow> \<exists>k. (step_fwd ^^ k) p = q" for p q
    using ring_distance [of p q] step_fwd_power [of p] by simp
  show "fwd_loop c b e p =
         (if isCachePointerInRange p b e then
            (case cell c p of
               None \<Rightarrow> None
             | Some v \<Rightarrow> if v \<noteq> NIL then Some p else fwd_loop c b e (step_fwd p))
          else Some 0)" for c b e p
    unfolding step_fwd_def by (rule fwd_loop.simps)
qed (rule fwd_loop_only [unfolded scan_end_def])

interpretation bwd: ring_scan step_bwd bwd_loop
proof
  show "on_ring p \<Longrightarrow> on_ring (step_bwd p)" for p
    using fixCachePointer_on_ring [of "p - 1"] by (simp add: step_bwd_def on_ring_def)
  show "on_ring p \<Longrightarrow> on_ring q \<Longrightarrow> \<exists>k. (step_bwd ^^ k) p = q" for p q
    using ring_distance_back [of p q] step_bwd_power [of p] by simp
  show "bwd_loop c b e p =
         (if isCachePointerInRange p b e then
            (case cell c p of
               None \<Rightarrow> None
             | Some v \<Rightarrow> if v \<noteq> NIL then Some p else bwd_loop c b e (step_bwd p))
          else Some 0)" for c b e p
    unfolding step_bwd_def by (rule bwd_loop.simps)
qed (rule bwd_loop_only [unfolded scan_end_def])

section \<open>What the searches promise\<close>

text \<open>A cache laid out as the work area object makes it, with the current position on the ring.\<close>

definition cache_ok :: "'w area \<Rightarrow> bool" where
  "cache_ok a \<longleftrightarrow> length (aCache a) = 600 \<and> on_ring (infoNL SR_AINFO_NPOSCACHE a)"

definition in_window :: "'w area \<Rightarrow> int \<Rightarrow> bool" where
  "in_window a p \<longleftrightarrow>
     isCachePointerInRange p (infoNL SR_AINFO_NCACHEBEGIN a) (infoNL SR_AINFO_NCACHEEND a)"

definition filled :: "'w area \<Rightarrow> int \<Rightarrow> bool" where
  "filled a p \<longleftrightarrow> (\<exists>v. cell (aCache a) p = Some v \<and> v \<noteq> NIL)"

text \<open>C30: both searches give a result exactly when the ring has a position outside the valid part or
  a filled one: on a full window of deleted records they never return.\<close>

theorem search_returns_iff:
  assumes "length (aCache a) = 600" "on_ring (infoNL SR_AINFO_NPOSCACHE a)"
  shows "((\<exists>r. searchCacheFWD a prev = Some r) \<longleftrightarrow> (\<exists>q. on_ring q \<and> (\<not> in_window a q \<or> filled a q))) \<and>
    ((\<exists>r. searchCacheBWD a prev = Some r) \<longleftrightarrow> (\<exists>q. on_ring q \<and> (\<not> in_window a q \<or> filled a q)))"
proof -
  let ?p = "infoNL SR_AINFO_NPOSCACHE a"
  have p: "1 \<le> ?p" "?p \<le> 600" using assms(2) by (simp_all add: on_ring_def)
  have ring: "on_ring (fixCachePointer ?p)" "on_ring (fixCachePointer (?p + 1))"
    "on_ring (fixCachePointer (?p - 1))"
    using p by (auto intro!: fixCachePointer_on_ring)
  have len: "length (aCache a) = nat RING" using assms(1) by simp
  have "fwd.stops (aCache a) (infoNL SR_AINFO_NCACHEBEGIN a) (infoNL SR_AINFO_NCACHEEND a) q \<longleftrightarrow>
      \<not> in_window a q \<or> filled a q" if q: "on_ring q" for q
  proof -
    obtain v where "cell (aCache a) q = Some v" using fwd.cell_ring [OF q len] by blast
    then show ?thesis by (auto simp: fwd.stops_def in_window_def filled_def)
  qed
  then have stop: "(\<exists>q. on_ring q \<and>
        fwd.stops (aCache a) (infoNL SR_AINFO_NCACHEBEGIN a) (infoNL SR_AINFO_NCACHEEND a) q) \<longleftrightarrow>
      (\<exists>q. on_ring q \<and> (\<not> in_window a q \<or> filled a q))"
    by blast
  have "?p \<noteq> 0" using p by simp
  then show ?thesis
    using fwd.scan_returns_iff [OF ring(1) len] fwd.scan_returns_iff [OF ring(2) len]
      bwd.scan_returns_iff [OF ring(1) len] bwd.scan_returns_iff [OF ring(3) len]
    unfolding searchCacheFWD_def searchCacheBWD_def Let_def stop [symmetric]
    by simp
qed

text \<open>C31: a position a search finds is filled and in the valid part, and every position between the
  start and it, in the direction of the search, is in the valid part and empty.\<close>

theorem search_finds_nearest:
  assumes "length (aCache a) = 600" "on_ring (infoNL SR_AINFO_NPOSCACHE a)" "r \<noteq> 0"
  shows "(searchCacheFWD a 1 = Some r \<longrightarrow> in_window a r \<and> filled a r \<and>
      (\<exists>k. r = (step_fwd ^^ Suc k) (infoNL SR_AINFO_NPOSCACHE a) \<and>
        (\<forall>j < k. cell (aCache a) ((step_fwd ^^ Suc j) (infoNL SR_AINFO_NPOSCACHE a)) = Some NIL))) \<and>
    (searchCacheBWD a 1 = Some r \<longrightarrow> in_window a r \<and> filled a r \<and>
      (\<exists>k. r = (step_bwd ^^ Suc k) (infoNL SR_AINFO_NPOSCACHE a) \<and>
        (\<forall>j < k. cell (aCache a) ((step_bwd ^^ Suc j) (infoNL SR_AINFO_NPOSCACHE a)) = Some NIL)))"
proof -
  let ?p = "infoNL SR_AINFO_NPOSCACHE a"
  have p: "?p \<noteq> 0" using assms(2) by (auto simp: on_ring_def)
  have len: "length (aCache a) = nat RING" using assms(1) by simp
  have ring: "on_ring (step_fwd ?p)" "on_ring (step_bwd ?p)"
    by (rule fwd.step_ring [OF assms(2)], rule bwd.step_ring [OF assms(2)])
  have f: "in_window a r \<and> filled a r \<and> (\<exists>k. r = (step_fwd ^^ Suc k) ?p \<and>
      (\<forall>j < k. cell (aCache a) ((step_fwd ^^ Suc j) ?p) = Some NIL))" if "searchCacheFWD a 1 = Some r"
  proof -
    have "fwd_loop (aCache a) (infoNL SR_AINFO_NCACHEBEGIN a) (infoNL SR_AINFO_NCACHEEND a) (step_fwd ?p) = Some r"
      using that p by (simp add: searchCacheFWD_def step_fwd_def)
    from fwd.scan_result [OF ring(1) len this] assms(3) show ?thesis
      unfolding in_window_def filled_def funpow_Suc_right o_apply by blast
  qed
  have b: "in_window a r \<and> filled a r \<and> (\<exists>k. r = (step_bwd ^^ Suc k) ?p \<and>
      (\<forall>j < k. cell (aCache a) ((step_bwd ^^ Suc j) ?p) = Some NIL))" if "searchCacheBWD a 1 = Some r"
  proof -
    have "bwd_loop (aCache a) (infoNL SR_AINFO_NCACHEBEGIN a) (infoNL SR_AINFO_NCACHEEND a) (step_bwd ?p) = Some r"
      using that p by (simp add: searchCacheBWD_def step_bwd_def)
    from bwd.scan_result [OF ring(2) len this] assms(3) show ?thesis
      unfolding in_window_def filled_def funpow_Suc_right o_apply by blast
  qed
  show ?thesis using f b by blast
qed

section \<open>Loading a record\<close>

text \<open>One turn of the loop over the columns of a cached record. \<open>hb_itemGetCPtr\<close> gives the empty
  string for a value that is none.\<close>

definition deleted_mark :: "item \<Rightarrow> bool" where
  "deleted_mark v = (case hb_itemGetC v of c # _ \<Rightarrow> c = CHR ''T'' \<or> c = CHR ''*'' | [] \<Rightarrow> False)"

definition load_col :: "nat \<Rightarrow> item \<Rightarrow> 'w area \<Rightarrow> 'w area" where
  "load_col n v a =
     (let a1 = a\<lparr>aOldBuffer := arr_set (aOldBuffer a) n v\<rparr>;
          a2 = (if n = ulhRecno a1 then set_info SR_AINFO_RECNO v a1 else a1);
          a3 = (if n = ulhDeleted a2 then set_infoL SR_AINFO_DELETED (deleted_mark v) a2 else a2)
      in a3\<lparr>aBuffer := arr_set (aBuffer a3) n v\<rparr>)"

fun load_cols :: "nat \<Rightarrow> item list \<Rightarrow> 'w area \<Rightarrow> 'w area" where
  "load_cols n [] a = a"
| "load_cols n (v # vs) a = load_cols (Suc n) vs (load_col n v a)"

definition setCurrentFromCache :: "int \<Rightarrow> 'w area \<Rightarrow> 'w area option" where
  "setCurrentFromCache p a = do {
     let a1 = set_infoNL SR_AINFO_NPOSCACHE p a;
     r \<leftarrow> cell (aCache a1) p;
     let a2 = load_cols 1 (arr_of r) a1;
     Some (if ulhDeleted a2 = 0 then set_infoL SR_AINFO_DELETED False a2 else a2)
   }"

definition sqlGetBufferFromCache2 :: "int \<Rightarrow> 'w area \<Rightarrow> 'w area option" where
  "sqlGetBufferFromCache2 p a = do {
     r \<leftarrow> cell (aCache a) p;
     let a1 = load_cols 1 (arr_of r) a;
     let a2 = (if ulhDeleted a1 = 0 then set_infoL SR_AINFO_DELETED False a1 else a1);
     Some (set_infoNL SR_AINFO_NPOSCACHE p a2)
   }"

fun clean_cols :: "nat \<Rightarrow> item list \<Rightarrow> 'w area \<Rightarrow> 'w area" where
  "clean_cols n [] a = a"
| "clean_cols n (v # vs) a =
     clean_cols (Suc n) vs
       (a\<lparr>aOldBuffer := arr_set (aOldBuffer a) n v, aBuffer := arr_set (aBuffer a) n v\<rparr>)"

definition sqlGetCleanBuffer :: "'w area \<Rightarrow> 'w area" where
  "sqlGetCleanBuffer a =
     (let a1 = clean_cols 1 (aEmptyBuff a) a;
          a2 = set_infoL SR_AINFO_DELETED False a1;
          a3 = set_infoL SR_AINFO_EOF True a2;
          a4 = set_infoNL SR_AINFO_RECNO (infoNL SR_AINFO_RCOUNT a3 + 1) a3
      in if \<not> isam a4 then set_infoNL SR_AINFO_NPOSCACHE (int (length (aCache a4)) + 1) a4 else a4)"

text \<open>What the loops leave alone: the area but for the status array and the two buffers.\<close>

definition frame :: "'w area \<Rightarrow> 'w area" where
  "frame a = a\<lparr>aInfo := [], aBuffer := [], aOldBuffer := []\<rparr>"

lemma frame_set_info [simp]: "frame (set_info n v a) = frame a"
  by (simp add: frame_def set_info_def)

lemma frame_load_col [simp]: "frame (load_col n v a) = frame a"
  by (simp add: load_col_def Let_def frame_def set_info_def)

lemma frame_load_cols [simp]: "frame (load_cols n vs a) = frame a"
  by (induction n vs a rule: load_cols.induct) simp_all

lemma frame_clean_cols [simp]: "frame (clean_cols n vs a) = frame a"
  by (induction n vs a rule: clean_cols.induct) (simp_all add: frame_def)

lemma frame_eq_fields:
  assumes "frame b = frame a"
  shows "ulhRecno b = ulhRecno a" "ulhDeleted b = ulhDeleted a" "aCache b = aCache a"
    "isam b = isam a" "aEmptyBuff b = aEmptyBuff a" "fEof b = fEof a" "fBof b = fBof a"
    "lpdbRelations b = lpdbRelations a" "itmCobExpr b = itmCobExpr a" "world b = world a"
  using assms by (cases a; cases b; simp add: frame_def)+

lemmas load_frame = frame_eq_fields [OF frame_load_col] frame_eq_fields [OF frame_load_cols]
  frame_eq_fields [OF frame_clean_cols]

text \<open>Writing the position first or last makes no difference to the loop.\<close>

lemma set_info_swap:
  assumes "m \<noteq> n"
  shows "set_info m v (set_info n w a) = set_info n w (set_info m v a)"
proof -
  have "arr_set (arr_set xs n w) m v = arr_set (arr_set xs m v) n w" for xs :: "item list"
  proof (cases "1 \<le> m \<and> 1 \<le> n")
    case True
    then have "m - 1 \<noteq> n - 1" using assms by linarith
    from list_update_swap [OF this, of xs v w] show ?thesis using True by (auto simp: arr_set_def)
  next
    case False
    then show ?thesis by (auto simp: arr_set_def)
  qed
  then show ?thesis by (simp add: set_info_def)
qed

lemma load_col_pos:
  "load_col n v (set_infoNL SR_AINFO_NPOSCACHE p a) = set_infoNL SR_AINFO_NPOSCACHE p (load_col n v a)"
proof -
  have upd: "set_info m w a\<lparr>aOldBuffer := x\<rparr> = set_info m w (a\<lparr>aOldBuffer := x\<rparr>)"
    "set_info m w a\<lparr>aBuffer := x\<rparr> = set_info m w (a\<lparr>aBuffer := x\<rparr>)" for m w x and a :: "'w area"
    by (simp_all add: set_info_def)
  show ?thesis
    by (simp add: load_col_def Let_def upd set_info_swap [of SR_AINFO_RECNO SR_AINFO_NPOSCACHE]
        set_info_swap [of SR_AINFO_DELETED SR_AINFO_NPOSCACHE])
qed

lemma load_cols_pos:
  "load_cols n vs (set_infoNL SR_AINFO_NPOSCACHE p a) = set_infoNL SR_AINFO_NPOSCACHE p (load_cols n vs a)"
  by (induction n vs a rule: load_cols.induct) (simp_all add: load_col_pos)

lemma loaders_eq: "setCurrentFromCache p a = sqlGetBufferFromCache2 p a"
  by (cases "cell (aCache a) p")
    (auto simp: setCurrentFromCache_def sqlGetBufferFromCache2_def Let_def load_cols_pos
      set_info_swap [of SR_AINFO_DELETED SR_AINFO_NPOSCACHE])

text \<open>the two routines that load a record from the cache, one for tables and one for query
  results, do the same.\<close>

theorem cache_loaders_agree: "setCurrentFromCache p a = sqlGetBufferFromCache2 p a"
  by (rule loaders_eq)

lemma aBuffer_load_cols:
  "n + length vs \<le> Suc (length (aBuffer a)) \<Longrightarrow> 1 \<le> n \<Longrightarrow>
   aBuffer (load_cols n vs a) = take (n - 1) (aBuffer a) @ vs @ drop (n - 1 + length vs) (aBuffer a)"
proof (induction vs arbitrary: n a)
  case (Cons v vs)
  have b: "aBuffer (load_col n v a) = (aBuffer a)[n - 1 := v]"
    using Cons.prems by (auto simp: load_col_def Let_def arr_set_def)
  have "aBuffer (load_cols (Suc n) vs (load_col n v a)) =
      take n (aBuffer (load_col n v a)) @ vs @ drop (n + length vs) (aBuffer (load_col n v a))"
    using Cons.IH [of "Suc n" "load_col n v a"] Cons.prems b by simp
  then show ?case
    using Cons.prems unfolding b by (cases n) (auto simp: take_Suc_conv_app_nth take_update_swap list_update_append)
qed simp

lemma aOldBuffer_load_cols:
  "n + length vs \<le> Suc (length (aOldBuffer a)) \<Longrightarrow> 1 \<le> n \<Longrightarrow>
   aOldBuffer (load_cols n vs a) = take (n - 1) (aOldBuffer a) @ vs @ drop (n - 1 + length vs) (aOldBuffer a)"
proof (induction vs arbitrary: n a)
  case (Cons v vs)
  have b: "aOldBuffer (load_col n v a) = (aOldBuffer a)[n - 1 := v]"
    using Cons.prems by (auto simp: load_col_def Let_def arr_set_def)
  have "aOldBuffer (load_cols (Suc n) vs (load_col n v a)) =
      take n (aOldBuffer (load_col n v a)) @ vs @ drop (n + length vs) (aOldBuffer (load_col n v a))"
    using Cons.IH [of "Suc n" "load_col n v a"] Cons.prems b by simp
  then show ?case
    using Cons.prems unfolding b by (cases n) (auto simp: take_Suc_conv_app_nth take_update_swap list_update_append)
qed simp

lemma infoL_infoNL_load:
  "info_ok a \<Longrightarrow> info_ok (load_col n v a)"
  "info_ok a \<Longrightarrow> info SR_AINFO_RECNO (load_col n v a) = (if n = ulhRecno a then v else info SR_AINFO_RECNO a)"
  "info_ok a \<Longrightarrow> infoL SR_AINFO_DELETED (load_col n v a) =
     (if n = ulhDeleted a then deleted_mark v else infoL SR_AINFO_DELETED a)"
  by (simp_all add: load_col_def Let_def)

lemma info_ok_load_cols: "info_ok a \<Longrightarrow> info_ok (load_cols n vs a)"
  by (induction n vs a rule: load_cols.induct) (simp_all add: infoL_infoNL_load)

lemma info_load_cols:
  "info_ok a \<Longrightarrow>
   info SR_AINFO_RECNO (load_cols n vs a) =
     (if n \<le> ulhRecno a \<and> ulhRecno a < n + length vs then vs ! (ulhRecno a - n)
      else info SR_AINFO_RECNO a)"
proof (induction n vs a rule: load_cols.induct)
  case (2 n v vs a)
  have "ulhRecno (load_col n v a) = ulhRecno a" by (rule load_frame)
  then show ?case using 2 by (auto simp: infoL_infoNL_load nth_Cons' dest: le_antisym)
qed auto

lemma deleted_load_cols:
  "info_ok a \<Longrightarrow>
   infoL SR_AINFO_DELETED (load_cols n vs a) =
     (if n \<le> ulhDeleted a \<and> ulhDeleted a < n + length vs then deleted_mark (vs ! (ulhDeleted a - n))
      else infoL SR_AINFO_DELETED a)"
proof (induction n vs a rule: load_cols.induct)
  case (2 n v vs a)
  have "ulhDeleted (load_col n v a) = ulhDeleted a" by (rule load_frame)
  then show ?case using 2 by (auto simp: infoL_infoNL_load nth_Cons' dest: le_antisym)
qed auto

text \<open>loading a filled position makes it the current one: both buffers are the cached record,
  the record number is its record number column, the deletion flag is the mark in its deletion
  column, and nothing else changes.\<close>

theorem load_from_cache:
  assumes "cell (aCache a) p = Some (Arr k rec)" "info_ok a" "length (aBuffer a) = length rec"
    "length (aOldBuffer a) = length rec" "1 \<le> ulhRecno a" "ulhRecno a \<le> length rec"
    "ulhDeleted a \<le> length rec"
  shows "\<exists>b. setCurrentFromCache p a = Some b \<and> aBuffer b = rec \<and> aOldBuffer b = rec \<and>
     info SR_AINFO_RECNO b = rec ! (ulhRecno a - 1) \<and> infoNL SR_AINFO_NPOSCACHE b = p \<and>
     (infoL SR_AINFO_DELETED b \<longleftrightarrow> ulhDeleted a \<noteq> 0 \<and> deleted_mark (rec ! (ulhDeleted a - 1))) \<and>
     b\<lparr>aInfo := [], aBuffer := [], aOldBuffer := []\<rparr> = a\<lparr>aInfo := [], aBuffer := [], aOldBuffer := []\<rparr>"
proof -
  let ?a2 = "load_cols 1 rec a"
  let ?a3 = "if ulhDeleted ?a2 = 0 then set_infoL SR_AINFO_DELETED False ?a2 else ?a2"
  let ?b = "set_infoNL SR_AINFO_NPOSCACHE p ?a3"
  have ok: "info_ok ?a2" using assms(2) by (rule info_ok_load_cols)
  then have ok3: "info_ok ?a3" by simp
  have del: "ulhDeleted ?a2 = ulhDeleted a" by (rule load_frame)
  have "setCurrentFromCache p a = Some ?b"
    using assms(1) by (simp add: loaders_eq sqlGetBufferFromCache2_def Let_def)
  moreover have "aBuffer ?b = rec" "aOldBuffer ?b = rec"
    using aBuffer_load_cols [of 1 rec a] aOldBuffer_load_cols [of 1 rec a] assms(3,4) by simp_all
  moreover have "info SR_AINFO_RECNO ?b = rec ! (ulhRecno a - 1)"
    using ok info_load_cols [OF assms(2), of 1 rec] assms(5,6) by simp
  moreover have "infoNL SR_AINFO_NPOSCACHE ?b = p" using ok3 by simp
  moreover have "infoL SR_AINFO_DELETED ?b \<longleftrightarrow> ulhDeleted a \<noteq> 0 \<and> deleted_mark (rec ! (ulhDeleted a - 1))"
    using ok del deleted_load_cols [OF assms(2), of 1 rec] assms(7) by simp
  moreover have "frame ?b = frame a" by simp
  ultimately show ?thesis unfolding frame_def by blast
qed

section \<open>Witnesses\<close>

text \<open>A full ring: every position is in the valid part and the current one is 600.\<close>

definition ring_area :: "item list \<Rightarrow> unit area" where
  "ring_area c = (zero_area ())
     \<lparr>aCache := c, aInfo := (replicate 24 NIL)[19 := INum 600, 20 := INum 1, 21 := INum 600],
      aBuffer := [NIL, NIL, NIL], aOldBuffer := [NIL, NIL, NIL], ulhRecno := 3, ulhDeleted := 2\<rparr>"

lemma ring_area_simps [simp]:
  "infoNL SR_AINFO_NPOSCACHE (ring_area c) = 600" "infoNL SR_AINFO_NCACHEBEGIN (ring_area c) = 1"
  "infoNL SR_AINFO_NCACHEEND (ring_area c) = 600" "aCache (ring_area c) = c"
  "ulhRecno (ring_area c) = 3" "ulhDeleted (ring_area c) = 2" "aBuffer (ring_area c) = [NIL, NIL, NIL]"
  "aOldBuffer (ring_area c) = [NIL, NIL, NIL]" "info_ok (ring_area c)"
  by (simp_all add: ring_area_def infoNL_def info_def arr_get_def info_ok_def)

theorem search_returns_iff_witness:
  "searchCacheFWD (ring_area (replicate 600 NIL)) 1 = None \<and>
   searchCacheBWD (ring_area (replicate 600 NIL)) 1 = None"
proof -
  let ?a = "ring_area (replicate 600 NIL)"
  have no: "\<not> (\<exists>q. on_ring q \<and> (\<not> in_window ?a q \<or> filled ?a q))"
    by (auto simp: on_ring_def in_window_def filled_def isCachePointerInRange_def cell_def)
  have "length (aCache ?a) = 600" "on_ring (infoNL SR_AINFO_NPOSCACHE ?a)"
    by (simp_all add: on_ring_def)
  from search_returns_iff [OF this, of 1] no
  have "\<nexists>r. searchCacheFWD ?a 1 = Some r" "\<nexists>r. searchCacheBWD ?a 1 = Some r"
    by blast+
  then show ?thesis by simp
qed

definition one_record :: "item list" where
  "one_record = (replicate 600 NIL)[1 := Arr 0 [Str ''x'', Str ''T'', INum 7]]"

lemma one_record_cells:
  "length one_record = 600" "cell one_record 1 = Some NIL"
  "cell one_record 2 = Some (Arr 0 [Str ''x'', Str ''T'', INum 7])"
  by (simp_all add: one_record_def cell_def)

theorem search_finds_nearest_witness:
  "searchCacheFWD (ring_area one_record) 1 = Some 2 \<and> in_window (ring_area one_record) 2 \<and>
   filled (ring_area one_record) 2"
proof -
  have f: "searchCacheFWD (ring_area one_record) 1 = Some 2"
    using one_record_cells
    by (simp add: searchCacheFWD_def fixCachePointer_def fwd_loop.simps isCachePointerInRange_def)
  then show ?thesis
    using search_finds_nearest [of "ring_area one_record" 2] one_record_cells
    by (simp add: on_ring_def)
qed

theorem load_from_cache_witness:
  "\<exists>b. setCurrentFromCache 2 (ring_area one_record) = Some b \<and>
     aBuffer b = [Str ''x'', Str ''T'', INum 7] \<and> info SR_AINFO_RECNO b = INum 7 \<and>
     infoL SR_AINFO_DELETED b"
proof -
  have "deleted_mark (Str ''T'')" by code_simp
  then show ?thesis
    using load_from_cache [of "ring_area one_record" 2 0 "[Str ''x'', Str ''T'', INum 7]"]
      one_record_cells by auto
qed

end
