(* ===== verification/Movement.thy ===== *)
theory Movement
  imports Cache
begin

text \<open>
  The movement operations of the driver, \<open>source/sqlrdd1.c\<close>: \<open>sqlBof\<close> to \<open>sqlSkipRaw\<close>. Each takes the
  outside and the function table; an out parameter is a component of the result.
\<close>

section \<open>Messages for a cache page\<close>

abbreviation SR_ORD_DIR_FWD :: int where "SR_ORD_DIR_FWD \<equiv> 1"
abbreviation SR_ORD_DIR_BWD :: int where "SR_ORD_DIR_BWD \<equiv> 2"

definition readCachePageFWD :: "'w env \<Rightarrow> ('w, item) op" where
  "readCachePageFWD env a = send env ''READPAGE'' [INum SR_ORD_DIR_FWD, Logical (wasdel a)] a"

definition readCachePageBWD :: "'w env \<Rightarrow> ('w, item) op" where
  "readCachePageBWD env a = send env ''READPAGE'' [INum SR_ORD_DIR_BWD, Logical (wasdel a)] a"

section \<open>State of the area\<close>

definition sqlBof :: "'w rdd \<Rightarrow> ('w, bool \<times> errcode) op" where
  "sqlBof self a = do {
     (u, a1) \<leftarrow> first_then_pending self a;
     let a2 = a1\<lparr>fBof := infoL SR_AINFO_BOF a1\<rparr>;
     Some ((fBof a2, HB_SUCCESS), a2)
   }"

definition sqlEof :: "'w rdd \<Rightarrow> ('w, bool \<times> errcode) op" where
  "sqlEof self a = do {
     (u, a1) \<leftarrow> first_then_pending self a;
     if infoL SR_AINFO_ISINSERT a1 \<and> infoL SR_AINFO_HOT a1 then Some ((False, HB_SUCCESS), a1)
     else do {
       let a2 = a1\<lparr>fEof := infoL SR_AINFO_EOF a1\<rparr>;
       Some ((fEof a2, HB_SUCCESS), a2)
     }
   }"

definition sqlFound :: "'w rdd \<Rightarrow> ('w, bool \<times> errcode) op" where
  "sqlFound self a = do {
     (u, a1) \<leftarrow> force_pending self a;
     let a2 = a1\<lparr>fFound := infoL SR_AINFO_FOUND a1\<rparr>;
     Some ((fFound a2, HB_SUCCESS), a2)
   }"

section \<open>Absolute movement\<close>

definition leave_position :: "'w area \<Rightarrow> 'w area" where
  "leave_position a = a\<lparr>lpdbPendingRel := None, firstinteract := False, wasdel := False\<rparr>"

definition sqlGoBottom :: "'w rdd \<Rightarrow> 'w env \<Rightarrow> ('w, errcode) op" where
  "sqlGoBottom self env a = do {
     (u, a1) \<leftarrow> write_hot env (leave_position a);
     let leof = infoNL SR_AINFO_EOF_AT a1;
     (r, a2) \<leftarrow> (if leof \<noteq> 0 then send env ''SQLGOTO'' [INum leof] a1
                else send env ''SQLGOBOTTOM'' [] a1);
     let a3 = load_eof_bof (a2\<lparr>fTop := False, fBottom := True\<rparr>);
     (r2, a4) \<leftarrow> self_skipFilter self (- 1) a3;
     sync_relations env a4
   }"

definition sqlGoTo :: "'w env \<Rightarrow> int \<Rightarrow> ('w, errcode) op" where
  "sqlGoTo env recno a = do {
     (u, a1) \<leftarrow> write_hot env (leave_position a);
     (r, a2) \<leftarrow> send env ''SQLGOTO'' [INum recno] a1;
     Some (HB_SUCCESS, load_eof_bof a2)
   }"

definition sqlGoToId :: "'w rdd \<Rightarrow> 'w env \<Rightarrow> item \<Rightarrow> ('w, errcode) op" where
  "sqlGoToId self env v a =
     (let a0 = a\<lparr>firstinteract := False, wasdel := False\<rparr> in
      if HB_IS_NUMERIC v then self_goTo self (hb_itemGetNL v) a0
      else do {
        (u, a1) \<leftarrow> write_hot env a0;
        (r, a2) \<leftarrow> send env ''SQLGOTO'' [v] a1;
        Some (HB_SUCCESS, load_eof_bof a2)
      })"

definition sqlGoTop :: "'w rdd \<Rightarrow> 'w env \<Rightarrow> ('w, errcode) op" where
  "sqlGoTop self env a = do {
     (u, a1) \<leftarrow> write_hot env (leave_position a);
     let lbof = infoNL SR_AINFO_BOF_AT a1;
     (r, a2) \<leftarrow> (if lbof \<noteq> 0 then send env ''SQLGOTO'' [INum lbof] a1
                else send env ''SQLGOTOP'' [] a1);
     let a3 = load_eof_bof (a2\<lparr>fTop := True, fBottom := False\<rparr>);
     (r2, a4) \<leftarrow> self_skipFilter self 1 a3;
     sync_relations env a4
   }"

section \<open>Keys\<close>

abbreviation SR_AINDEX_INDEX_KEY_CODEBLOCK :: nat where "SR_AINDEX_INDEX_KEY_CODEBLOCK \<equiv> 20"

abbreviation EG_DATATYPE :: int where "EG_DATATYPE \<equiv> 33"
abbreviation ESQLRDD_DATATYPE :: int where "ESQLRDD_DATATYPE \<equiv> 1020"

text \<open>
  \<open>sr_loadTagDefault(thiswa, pInfo, &lorder)\<close>: the tag and the order number. \<open>ord\<close> is
  \<open>pInfo->itmOrder\<close>, \<open>None\<close> when there is none or no \<open>pInfo\<close>.
\<close>

definition sr_loadTagDefault :: "'w env \<Rightarrow> item option \<Rightarrow> ('w, item option \<times> int) op" where
  "sr_loadTagDefault env ord a =
     (if HB_IS_OBJECT (oWorkArea a) then do {
        (r, a1) \<leftarrow> send env ''SQLORDERLISTNUM'' [case ord of Some v \<Rightarrow> v | None \<Rightarrow> NIL] a;
        let lorder = hb_itemGetNL r;
        Some ((if lorder \<noteq> 0
               then Some (if 1 \<le> lorder then arr_get NIL (aOrders a1) (nat lorder) else NIL)
               else None, lorder), a1)
      }
      else do {
        (u, a1) \<leftarrow> common_error env EG_DATATYPE ESQLRDD_DATATYPE a;
        Some ((None, 0), a1)
      })"

text \<open>\<open>memcmp\<close> on C strings with their NUL: undefined past the end of either.\<close>

definition memcmp :: "bytes \<Rightarrow> bytes \<Rightarrow> nat \<Rightarrow> int option" where
  "memcmp m1 m2 n =
     (if n \<le> length m1 \<and> n \<le> length m2 then
        Some (case filter (\<lambda>(c, d). c \<noteq> d) (zip (take n m1) (take n m2)) of
                [] \<Rightarrow> 0
              | (c, d) # _ \<Rightarrow> if byte c < byte d then - 1 else 1)
      else None)"

definition u8 :: "int \<Rightarrow> nat" where
  "u8 n = nat (n mod 256)"

text \<open>The value of the current record's key, its length and its text.\<close>

definition key_value :: "'w env \<Rightarrow> item \<Rightarrow> ('w, item \<times> nat) op" where
  "key_value env tag a =
     (let b = hb_arrayGet tag SR_AINDEX_INDEX_KEY_CODEBLOCK in
      if HB_IS_NUMERIC b then
        (let v = arr_get NIL (aBuffer a) (nat (hb_itemGetNL b))
         in Some ((v, u8 (int (u8 (int (rtrim_len env (hb_itemGetC v)))) - 15)), a))
      else do {
        (v, a1) \<leftarrow> eval_block env b a;
        Some ((v, u8 (int (length (hb_itemGetC v)))), a1)
      })"

definition key_text :: "'w env \<Rightarrow> item \<Rightarrow> nat \<Rightarrow> bytes \<times> nat" where
  "key_text env key len1 =
     (if HB_IS_DATE key then (date_text env (hb_itemGetDL key), 8)
      else if HB_IS_NUMERIC key then
        (let t = item_text env key (INum (int len1))
         in (t, u8 (int (length t))))
      else if HB_IS_LOGICAL key then (if hb_itemGetL key then ''T'' else ''F'', 1)
      else (hb_itemGetC key, u8 (int (length (hb_itemGetC key)))))"

definition key_result :: "item \<Rightarrow> nat \<Rightarrow> bytes \<Rightarrow> nat \<Rightarrow> bool \<Rightarrow> int option" where
  "key_result v len1 val2 len2 exact =
     (let iLimit = (if len1 > len2 then len2 else len1);
          val1 = hb_itemGetC v
      in if HB_IS_STRING v then do {
           r \<leftarrow> (if iLimit > 0 then memcmp (val1 @ [NUL]) (val2 @ [NUL]) iLimit else Some 0);
           Some (if r = 0 then (if len1 \<ge> len2 then 1 else if len1 < len2 \<and> exact then - 1 else 0)
                 else 0)
         }
         else do {
           r \<leftarrow> (if iLimit = 0 then Some 0 else memcmp (val1 @ [NUL]) (val2 @ [NUL]) iLimit);
           Some (if iLimit = 0 \<or> r = 0 then (if len1 \<ge> len2 then 1 else - 1) else r)
         })"

definition SR_sqlKeyCompare :: "'w rdd \<Rightarrow> 'w env \<Rightarrow> item \<Rightarrow> bool \<Rightarrow> ('w, int) op" where
  "SR_sqlKeyCompare self env key exact a = do {
     ((tag, lorder), a1) \<leftarrow> sr_loadTagDefault env None a;
     (case tag of
        None \<Rightarrow> Some (0, a1)
      | Some t \<Rightarrow> do {
          (u, a2) \<leftarrow> first_interact self a1;
          ((v, len1), a3) \<leftarrow> key_value env t a2;
          let (val2, len2) = key_text env key len1;
          r \<leftarrow> key_result v len1 val2 len2 exact;
          Some (r, a3)
        })
   }"

section \<open>Seeking\<close>

text \<open>\<open>hb_setGetDeleted() || thiswa->area.dbfi.itmCobExpr != NULL\<close>\<close>

definition filtering :: "'w env \<Rightarrow> 'w area \<Rightarrow> bool" where
  "filtering env a \<longleftrightarrow> set_deleted env (world a) \<or> itmCobExpr a \<noteq> None"

definition seek_key :: "'w env \<Rightarrow> item \<Rightarrow> 'w area \<Rightarrow> item" where
  "seek_key env key a =
     (if HB_IS_STRING key \<and> must_convert env a
      then Str (cdp_dup env (hb_itemGetC key) (other_cdp env a) (cdPage a))
      else key)"

text \<open>The part after the object has positioned the area, when records may be hidden.\<close>

definition seek_visible :: "'w rdd \<Rightarrow> 'w env \<Rightarrow> item \<Rightarrow> bool \<Rightarrow> bool \<Rightarrow> ('w, errcode) op" where
  "seek_visible self env key softSeek findLast a = do {
     (ret, a1) \<leftarrow> self_skipFilter self (if findLast then - 1 else 1) a;
     if fEof a1
     then Some (ret, set_infoL SR_AINFO_FOUND False (a1\<lparr>fFound := False\<rparr>))
     else do {
       (c, a2) \<leftarrow> SR_sqlKeyCompare self env key False a1;
       if c \<noteq> 0
       then Some (ret, set_infoL SR_AINFO_FOUND True (a2\<lparr>fFound := True\<rparr>))
       else do {
         let a3 = set_infoL SR_AINFO_FOUND False (a2\<lparr>fFound := False\<rparr>);
         Some (ret, if \<not> softSeek then sqlGetCleanBuffer a3 else a3)
       }
     }
   }"

definition sqlSeek :: "'w rdd \<Rightarrow> 'w env \<Rightarrow> bool \<Rightarrow> item \<Rightarrow> bool \<Rightarrow> ('w, errcode) op" where
  "sqlSeek self env softSeek key findLast a = do {
     let a0 = leave_position a;
     let k = seek_key env key a0;
     (r, a1) \<leftarrow> send env ''SQLSEEK'' [k, Logical softSeek, Logical findLast] a0;
     let a2 = a1\<lparr>fFound := infoL SR_AINFO_FOUND a1, fBof := infoL SR_AINFO_BOF a1,
                 fEof := infoL SR_AINFO_EOF a1\<rparr>;
     (ret, a3) \<leftarrow> (if filtering env a2 \<and> \<not> fEof a2 then seek_visible self env k softSeek findLast a2
                  else Some (HB_SUCCESS, a2));
     if lpdbRelations a3 \<and> ret = HB_SUCCESS then sync_children env a3 else Some (ret, a3)
   }"

section \<open>Skipping over hidden records\<close>

definition sqlSkip :: "'w rdd \<Rightarrow> 'w env \<Rightarrow> int \<Rightarrow> ('w, errcode) op" where
  "sqlSkip self env lToSkip a = do {
     (u, a1) \<leftarrow> pending_or_first self a;
     (r, a2) \<leftarrow> self_goCold self a1;
     if r = HB_FAILURE then Some (HB_FAILURE, a2)
     else do {
       (ret, a3) \<leftarrow> super_skip env self lToSkip (a2\<lparr>fTop := False, fBottom := False\<rparr>);
       let a4 = set_infoL SR_AINFO_BOF (fBof a3) a3;
       let a5 = set_infoL SR_AINFO_EOF (fEof a4) a4;
       Some (ret, a5\<lparr>wasdel := False\<rparr>)
     }
   }"

definition filter_hides :: "'w env \<Rightarrow> ('w, bool) op" where
  "filter_hides env a =
     (case itmCobExpr a of
        None \<Rightarrow> Some (False, a)
      | Some b \<Rightarrow> do {
          (r, a1) \<leftarrow> eval_block env b a;
          Some (HB_IS_LOGICAL r \<and> \<not> hb_itemGetL r, a1)
        })"

definition deleted_hides :: "'w env \<Rightarrow> 'w rdd \<Rightarrow> ('w, bool) op" where
  "deleted_hides env self a =
     (if set_deleted env (world a) then do {
        ((d, r), a1) \<leftarrow> self_deleted self a;
        Some (d, a1)
      }
      else Some (False, a))"

text \<open>The loop, and whether it left the table.\<close>

partial_function (option) filter_loop ::
  "'w env \<Rightarrow> 'w rdd \<Rightarrow> int \<Rightarrow> 'w area \<Rightarrow> (bool \<times> 'w area) option"
where
  "filter_loop env self d a =
     (if fBof a \<or> fEof a then Some (True, a)
      else do {
        (h, a1) \<leftarrow> filter_hides env a;
        if h then do {
          (r, a2) \<leftarrow> self_skipRaw self d a1;
          filter_loop env self d a2
        }
        else do {
          (h2, a2) \<leftarrow> deleted_hides env self a1;
          if h2 then do {
            (r, a3) \<leftarrow> self_skipRaw self d a2;
            filter_loop env self d a3
          }
          else Some (False, a2)
        }
      })"

definition sqlSkipFilter :: "'w rdd \<Rightarrow> 'w env \<Rightarrow> int \<Rightarrow> ('w, errcode) op" where
  "sqlSkipFilter self env lUpDown a =
     (if \<not> filtering env a then Some (HB_SUCCESS, a)
      else do {
        let d = (if lUpDown > 0 then 1 else - 1);
        (out, a1) \<leftarrow> filter_loop env self d a;
        if out then
          (if d < 0 then do {
             (e, a2) \<leftarrow> self_goTop self (a1\<lparr>fEof := False\<rparr>);
             (r, a3) \<leftarrow> send env ''SETBOF'' [] a2;
             Some (e, a3\<lparr>fBof := True\<rparr>)
           }
           else Some (HB_SUCCESS, a1\<lparr>fBof := False\<rparr>))
        else Some (HB_SUCCESS, a1)
      })"

section \<open>Skipping in the order of the table\<close>

text \<open>Both arguments are null pointers when the status array is too short, which \<open>info\<close> gives as NIL.\<close>

definition iTemCompEqual :: "'w env \<Rightarrow> item \<Rightarrow> item \<Rightarrow> bool" where
  "iTemCompEqual env p q =
     (if HB_IS_NIL p \<or> HB_IS_NIL q then False
      else if HB_IS_STRING p \<and> HB_IS_STRING q then str_cmp env (hb_itemGetC p) (hb_itemGetC q) = 0
      else if HB_IS_NUMINT p \<and> HB_IS_NUMINT q then hb_itemGetNL p = hb_itemGetNL q
      else if HB_IS_NUMERIC p \<and> HB_IS_NUMERIC q then hb_itemGetND p = hb_itemGetND q
      else if HB_IS_DATE p \<and> HB_IS_DATE q then hb_itemGetDL p = hb_itemGetDL q
      else False)"

definition ConcludeSkipraw :: "'w env \<Rightarrow> ('w, errcode) op" where
  "ConcludeSkipraw env a = (if lpdbRelations a then sync_children env a else Some (HB_SUCCESS, a))"

text \<open>Past the last record and at the first one.\<close>

definition reach_eof :: "'w area \<Rightarrow> 'w area" where
  "reach_eof a = sqlGetCleanBuffer ((set_infoL SR_AINFO_EOF True a)\<lparr>fEof := True\<rparr>)"

definition reach_bof :: "'w area \<Rightarrow> 'w area" where
  "reach_bof a = (set_infoL SR_AINFO_BOF True a)\<lparr>fBof := True\<rparr>"

text \<open>A table, forward; \<open>bEof\<close> is the status at the start and \<open>pos\<close> the position in the cache.\<close>

definition skip_table_fwd :: "'w env \<Rightarrow> bool \<Rightarrow> int \<Rightarrow> ('w, errcode) op" where
  "skip_table_fwd env bEof pos a =
     (if bEof then Some (HB_SUCCESS, a)
      else if iTemCompEqual env (info SR_AINFO_EOF_AT a) (info SR_AINFO_RECNO a)
      then ConcludeSkipraw env (reach_eof a)
      else do {
        f \<leftarrow> searchCacheFWD a 1;
        if f \<noteq> 0 then do {
          a1 \<leftarrow> setCurrentFromCache f a;
          ConcludeSkipraw env (a1\<lparr>fBof := False\<rparr>)
        }
        else do {
          (r, a1) \<leftarrow> readCachePageFWD env a;
          f2 \<leftarrow> searchCacheFWD a1 pos;
          if f2 \<noteq> 0 then do {
            a2 \<leftarrow> setCurrentFromCache f2 a1;
            ConcludeSkipraw env (a2\<lparr>fBof := False\<rparr>)
          }
          else ConcludeSkipraw env (reach_eof a1)
        }
      })"

text \<open>The previous record of the cache or of the page before it; the flag tells whether there is one.\<close>

definition skip_table_prev :: "'w env \<Rightarrow> int \<Rightarrow> ('w, bool) op" where
  "skip_table_prev env pos a = do {
     f \<leftarrow> searchCacheBWD a 1;
     if f \<noteq> 0 then do { a1 \<leftarrow> setCurrentFromCache f a; Some (True, a1) }
     else do {
       (r, a1) \<leftarrow> readCachePageBWD env a;
       f2 \<leftarrow> searchCacheBWD a1 pos;
       if f2 \<noteq> 0 then do { a2 \<leftarrow> setCurrentFromCache f2 a1; Some (True, a2) }
       else Some (False, a1)
     }
   }"

text \<open>Backward from a record that is no longer there.\<close>

definition skip_table_first :: "'w env \<Rightarrow> ('w, errcode) op" where
  "skip_table_first env a = do {
     f \<leftarrow> searchCacheFWD a 1;
     if f \<noteq> 0 then do {
       a1 \<leftarrow> setCurrentFromCache f a;
       ConcludeSkipraw env (reach_bof a1)
     }
     else do {
       (r, a1) \<leftarrow> readCachePageFWD env a;
       f2 \<leftarrow> searchCacheFWD a1 1;
       if f2 \<noteq> 0 then do {
         a2 \<leftarrow> setCurrentFromCache f2 a1;
         ConcludeSkipraw env (reach_bof a2)
       }
       else ConcludeSkipraw env (load_eof_bof (reach_eof (reach_bof a1)))
     }
   }"

definition skip_table_deleted :: "'w rdd \<Rightarrow> 'w env \<Rightarrow> bool \<Rightarrow> bool \<Rightarrow> int \<Rightarrow> ('w, errcode) op" where
  "skip_table_deleted self env bEof bBof pos a =
     (if bBof then skip_table_first env a
      else if bEof then do {
        (r, a1) \<leftarrow> self_goBottom self a;
        ConcludeSkipraw env a1
      }
      else do {
        (found, a1) \<leftarrow> skip_table_prev env pos a;
        if found then ConcludeSkipraw env a1 else skip_table_first env a1
      })"

definition skip_table_bwd :: "'w rdd \<Rightarrow> 'w env \<Rightarrow> bool \<Rightarrow> bool \<Rightarrow> int \<Rightarrow> ('w, errcode) op" where
  "skip_table_bwd self env bEof bBof pos a =
     (if bBof then ConcludeSkipraw env a
      else if iTemCompEqual env (info SR_AINFO_BOF_AT a) (info SR_AINFO_RECNO a)
      then ConcludeSkipraw env (reach_bof a)
      else if bEof then do {
        (r, a1) \<leftarrow> (if iTemCompEqual env (info SR_AINFO_EOF_AT a) (info SR_AINFO_RECNO a)
                   then self_goToId self (info SR_AINFO_EOF_AT a) a
                   else self_goBottom self a);
        ConcludeSkipraw env a1
      }
      else do {
        (found, a1) \<leftarrow> skip_table_prev env pos a;
        ConcludeSkipraw env (if found then a1 else reach_bof a1)
      })"

text \<open>The rows of a query are all in the cache.\<close>

definition skip_query :: "'w env \<Rightarrow> int \<Rightarrow> ('w, errcode) op" where
  "skip_query env n a =
     (if length (aCache a) = 0
      then ConcludeSkipraw env (load_eof_bof (sqlGetCleanBuffer a))
      else do {
        (r, a1) \<leftarrow> send env ''STABILIZE'' [] a;
        let q = infoNL SR_AINFO_NPOSCACHE a1 + n;
        if q > 0 \<and> q \<le> int (length (aCache a1)) then do {
          a2 \<leftarrow> sqlGetBufferFromCache2 q a1;
          let a3 = set_infoL SR_AINFO_FOUND False
                     (set_infoL SR_AINFO_EOF False (set_infoL SR_AINFO_BOF False a2));
          (r2, a4) \<leftarrow> send env ''NORMALIZE'' [NIL] a3;
          ConcludeSkipraw env (a4\<lparr>fBof := False, fEof := False\<rparr>)
        }
        else if q < 1 then do {
          a2 \<leftarrow> sqlGetBufferFromCache2 1 (set_infoNL SR_AINFO_NPOSCACHE 1 a1);
          let a3 = set_infoL SR_AINFO_FOUND False
                     (set_infoL SR_AINFO_EOF False (set_infoL SR_AINFO_BOF True a2));
          ConcludeSkipraw env (a3\<lparr>fBof := True, fEof := False\<rparr>)
        }
        else ConcludeSkipraw env
               (load_eof_bof (sqlGetCleanBuffer (set_infoL SR_AINFO_BOF False a1)))
      })"

definition sqlSkipRaw :: "'w rdd \<Rightarrow> 'w env \<Rightarrow> int \<Rightarrow> ('w, errcode) op" where
  "sqlSkipRaw self env n a =
     (let bEof = infoL SR_AINFO_EOF a;
          bBof = infoL SR_AINFO_BOF a;
          a0 = a\<lparr>fFound := False\<rparr>
      in if (bEof \<and> bBof) \<and> n = - 1 then self_goBottom self a0
         else if (bEof \<and> bBof) \<or> n = 0 then Some (HB_SUCCESS, a0\<lparr>fEof := bEof, fBof := bBof\<rparr>)
         else do {
           let a1 = set_infoNL SR_AINFO_SKIPCOUNT (infoNL SR_AINFO_SKIPCOUNT a0 + n) a0;
           if isam a1 then do {
             let pos = infoNL SR_AINFO_NPOSCACHE a1;
             gone \<leftarrow> (if pos = 0 then Some False else map_option HB_IS_NIL (cell (aCache a1) pos));
             if n > 0 then skip_table_fwd env bEof pos a1
             else if gone then skip_table_deleted self env bEof bBof pos a1
             else skip_table_bwd self env bEof bBof pos a1
           }
           else skip_query env n a1
         })"

end
