(* ===== verification/Data.thy ===== *)
theory Data
  imports Movement
begin

text \<open>
  The data operations of the driver, \<open>source/sqlrdd1.c\<close>: \<open>sqlAppend\<close> to \<open>sqlSetFieldExtent\<close>. A column
  number \<open>fieldNum\<close> counts from one; \<open>uiBufferIndex\<close> maps it to its position in the buffer, and a
  read outside a C array has no result. A value that is passed to be stored is changed in place when it
  is converted, so \<open>sqlPutValue\<close> gives it back.
\<close>

section \<open>C arrays and field types\<close>

definition carr :: "'a list \<Rightarrow> nat \<Rightarrow> 'a option" where
  "carr xs n = (if 1 \<le> n \<and> n \<le> length xs then Some (xs ! (n - 1)) else None)"

definition u16 :: "int \<Rightarrow> nat" where
  "u16 n = nat (n mod 65536)"

text \<open>The field types of Harbour's \<open>hbapirdd.h\<close>.\<close>

abbreviation HB_FT_STRING :: int where "HB_FT_STRING \<equiv> 1"
abbreviation HB_FT_LOGICAL :: int where "HB_FT_LOGICAL \<equiv> 2"
abbreviation HB_FT_DATE :: int where "HB_FT_DATE \<equiv> 3"
abbreviation HB_FT_LONG :: int where "HB_FT_LONG \<equiv> 4"
abbreviation HB_FT_TIME :: int where "HB_FT_TIME \<equiv> 8"
abbreviation HB_FT_TIMESTAMP :: int where "HB_FT_TIMESTAMP \<equiv> 9"
abbreviation HB_FT_MEMO :: int where "HB_FT_MEMO \<equiv> 16"
abbreviation HB_FT_ANY :: int where "HB_FT_ANY \<equiv> 17"

abbreviation FIELD_LIST_NEW_VALUE_READ :: int where "FIELD_LIST_NEW_VALUE_READ \<equiv> 3"

lemma carr_eq_Some: "carr xs n = Some x \<longleftrightarrow> 1 \<le> n \<and> n \<le> length xs \<and> xs ! (n - 1) = x"
  by (auto simp: carr_def)

lemma u16_small: "0 \<le> n \<Longrightarrow> n < 65536 \<Longrightarrow> u16 n = nat n"
  by (simp add: u16_def)

lemma u16_less: "u16 n < 65536"
  by (simp add: u16_def nat_less_iff)

section \<open>Records\<close>

definition sqlAppend :: "'w env \<Rightarrow> bool \<Rightarrow> ('w, errcode) op" where
  "sqlAppend env bvalue a = do {
     (u, a1) \<leftarrow> write_hot env ((leave_position a)\<lparr>aLocked := []\<rparr>);
     let a2 = load_eof_bof a1;
     let a3 = set_infoL SR_AINFO_ISINSERT True (set_infoL SR_AINFO_HOT True a2);
     (r, a4) \<leftarrow> send env ''SQLGOTO'' [INum 0] a3;
     Some (HB_SUCCESS, a4)
   }"

definition sqlCreateFields :: "'w rdd \<Rightarrow> 'w env \<Rightarrow> item \<Rightarrow> ('w, errcode) op" where
  "sqlCreateFields self env pStruct a = super_createFields env self pStruct (a\<lparr>aCreate := pStruct\<rparr>)"

definition sqlDeleteRec :: "'w rdd \<Rightarrow> 'w env \<Rightarrow> ('w, errcode) op" where
  "sqlDeleteRec self env a = do {
     (u, a1) \<leftarrow> first_then_pending self a;
     (u2, a2) \<leftarrow> write_hot env a1;
     (r, a3) \<leftarrow> send env ''SQLDELETEREC'' [] a2;
     Some (HB_SUCCESS, a3\<lparr>wasdel := True\<rparr>)
   }"

definition sqlDeleted :: "'w rdd \<Rightarrow> ('w, bool \<times> errcode) op" where
  "sqlDeleted self a = do {
     (u, a1) \<leftarrow> pending_or_first self a;
     Some ((infoL SR_AINFO_DELETED a1, HB_SUCCESS), a1)
   }"

definition sqlFieldCount :: "('w, nat \<times> errcode) op" where
  "sqlFieldCount a = Some ((length (lpFields a), HB_SUCCESS), a)"

definition sqlFlush :: "'w env \<Rightarrow> ('w, errcode) op" where
  "sqlFlush env a = do { (r, a1) \<leftarrow> send env ''SQLFLUSH'' [] a; Some (HB_SUCCESS, a1) }"

definition sqlGoCold :: "'w env \<Rightarrow> ('w, errcode) op" where
  "sqlGoCold env a =
     (if infoL SR_AINFO_HOT a \<and> \<not> infoL SR_AINFO_DELETED a
      then do { (r, a1) \<leftarrow> send env ''WRITEBUFFER'' [] a; Some (HB_SUCCESS, a1) }
      else Some (HB_SUCCESS, a))"

definition sqlRecall :: "'w rdd \<Rightarrow> 'w env \<Rightarrow> ('w, errcode) op" where
  "sqlRecall self env a = do {
     (u, a1) \<leftarrow> pending_or_first self a;
     (r, a2) \<leftarrow> send env ''SQLRECALL'' [] a1;
     Some (HB_SUCCESS, a2)
   }"

definition sqlRecCount :: "'w rdd \<Rightarrow> ('w, int \<times> errcode) op" where
  "sqlRecCount self a = do {
     (u, a1) \<leftarrow> force_pending self a;
     Some ((if infoL SR_AINFO_ISINSERT a1 \<and> infoL SR_AINFO_HOT a1
            then infoNL SR_AINFO_RCOUNT a1 + 1 else infoNL SR_AINFO_RCOUNT a1, HB_SUCCESS), a1)
   }"

definition sqlRecNo :: "'w rdd \<Rightarrow> ('w, int \<times> errcode) op" where
  "sqlRecNo self a = do {
     (u, a1) \<leftarrow> pending_or_first self a;
     Some ((infoNL SR_AINFO_RECNO a1, HB_SUCCESS), a1)
   }"

definition sqlRecId :: "'w rdd \<Rightarrow> ('w, item \<times> errcode) op" where
  "sqlRecId self a = do {
     (u, a1) \<leftarrow> pending_or_first self a;
     Some ((if initialized a1 then info SR_AINFO_RECNO a1 else INum 0, HB_SUCCESS), a1)
   }"

text \<open>The extent is a \<open>uint16_t\<close>, one or two columns longer than the parent's.\<close>

definition sqlSetFieldExtent :: "'w env \<Rightarrow> nat \<Rightarrow> ('w, errcode) op" where
  "sqlSetFieldExtent env n a = do {
     (r, a1) \<leftarrow> super_setFieldExtent env n a;
     if r = HB_FAILURE then Some (HB_FAILURE, a1)
     else do {
       let n1 = (if \<not> hide_recno env (world a1) then u16 (int n + 1) else n);
       let n2 = (if \<not> hide_historic env (world a1) then u16 (int n1 + 1) else n1);
       Some (HB_SUCCESS, a1\<lparr>uiBufferIndex := replicate n2 0, uiFieldList := replicate n2 0\<rparr>)
     }
   }"

section \<open>Reading a column\<close>

text \<open>The language a multi-language value is read in, if it is in the hash.\<close>

definition lang_value :: "'w env \<Rightarrow> 'w area \<Rightarrow> item \<Rightarrow> item option" where
  "lang_value env a v =
     (case v of
        Hash kv \<Rightarrow>
          (case map_of kv (base_lang env (world a)) of
             Some x \<Rightarrow> Some x
           | None \<Rightarrow> (case map_of kv (second_lang env (world a)) of
                       Some x \<Rightarrow> Some x
                     | None \<Rightarrow> map_of kv (root_lang env (world a))))
      | _ \<Rightarrow> None)"

definition lang_text :: "'w env \<Rightarrow> 'w area \<Rightarrow> field \<Rightarrow> item \<Rightarrow> bytes" where
  "lang_text env a f v =
     (case lang_value env a v of
        None \<Rightarrow> replicate (uiLen f) SPACE
      | Some x \<Rightarrow>
          (let s = fit (uiLen f) (hb_itemGetC x)
           in if uiType f = HB_FT_STRING \<and> must_convert env a
              then cdp_dup env s (cdPage a) (other_cdp env a) else s))"

text \<open>From the value in the buffer to the value of the column.\<close>

definition column_value :: "'w env \<Rightarrow> nat \<Rightarrow> item \<Rightarrow> 'w area \<Rightarrow> item option" where
  "column_value env fieldNum v a =
     (if HB_IS_ARRAY v then Some v
      else do {
        f \<leftarrow> carr (lpFields a) fieldNum;
        Some (if HB_IS_HASH v \<and> is_multilang env (world a)
              then if uiType f = HB_FT_MEMO
                   then (case lang_value env a v of Some x \<Rightarrow> x | None \<Rightarrow> Str [])
                   else Str (lang_text env a f v)
              else if uiType f = HB_FT_STRING \<and> must_convert env a
                   then Str (cdp_dup env (hb_itemGetC v) (cdPage a) (other_cdp env a))
                   else v)
      })"

text \<open>The column is noted as one the program uses.\<close>

definition note_column :: "nat \<Rightarrow> 'w area \<Rightarrow> ('w area \<times> bool) option" where
  "note_column fieldNum a = do {
     used \<leftarrow> carr (uiFieldList a) fieldNum;
     if used \<noteq> 0 then Some (a, False)
     else do {
       i \<leftarrow> carr (uiBufferIndex a) fieldNum;
       Some (a\<lparr>aSelectList := arr_set (aSelectList a) (nat i) (INum 1),
               uiFieldList := (uiFieldList a)[fieldNum - 1 := 1]\<rparr>, True)
     }
   }"

definition sqlGetValue :: "'w rdd \<Rightarrow> 'w env \<Rightarrow> nat \<Rightarrow> ('w, item \<times> errcode) op" where
  "sqlGetValue self env fieldNum a = do {
     (u, a1) \<leftarrow> pending_or_first self a;
     i \<leftarrow> carr (uiBufferIndex a1) fieldNum;
     (v, a2) \<leftarrow> (let v = arr_get NIL (aBuffer a1) (nat i) in
       if HB_IS_NIL v then do {
         (r, b) \<leftarrow> send env ''SQLGETVALUE'' [INum i] a1;
         j \<leftarrow> carr (uiBufferIndex b) fieldNum;
         Some (arr_get NIL (aBuffer b) (nat j), b)
       }
       else Some (v, a1));
     (a3, noted) \<leftarrow> note_column fieldNum a2;
     let a4 = (if noted then a3\<lparr>iFieldListStatus := FIELD_LIST_NEW_VALUE_READ\<rparr> else a3);
     w \<leftarrow> column_value env fieldNum v a4;
     Some ((w, HB_SUCCESS), a4)
   }"

section \<open>Writing a column\<close>

definition same_kind :: "item \<Rightarrow> item \<Rightarrow> bool" where
  "same_kind dest v \<longleftrightarrow>
     HB_IS_NUMERIC dest \<and> HB_IS_NUMERIC v \<or> HB_IS_STRING dest \<and> HB_IS_STRING v \<or>
     HB_IS_LOGICAL dest \<and> HB_IS_LOGICAL v \<or> HB_IS_DATE dest \<and> HB_IS_DATE v \<or>
     HB_IS_TIMESTAMP dest \<and> HB_IS_DATETIME v \<or> HB_IS_DATETIME dest \<and> HB_IS_DATETIME v"

text \<open>A text is converted and filled up to the width of the field, a number gets its width; the width
  of the integer part is computed on a \<open>uint16_t\<close>.\<close>

definition converted :: "'w env \<Rightarrow> 'w area \<Rightarrow> field \<Rightarrow> item \<Rightarrow> item" where
  "converted env a f v =
     (if uiType f = HB_FT_STRING then
        (let s = cdp_dup2 env (hb_itemGetC v) (uiLen f) (other_cdp env a) (cdPage a)
         in Str (s @ replicate (uiLen f - length s) SPACE))
      else if uiType f = HB_FT_LONG then
        put_nlen env (hb_itemGetND v)
          (if uiDec f > 0 then u16 (int (uiLen f) - (int (uiDec f) + 1)) else uiLen f) (uiDec f)
      else v)"

definition store_value :: "'w env \<Rightarrow> nat \<Rightarrow> nat \<Rightarrow> item \<Rightarrow> item \<Rightarrow> ('w, item \<times> errcode) op" where
  "store_value env fieldNum col dest v a =
     (if same_kind dest v then do {
        f \<leftarrow> carr (lpFields a) fieldNum;
        let w = converted env a f v;
        Some ((w, HB_SUCCESS), a\<lparr>aBuffer := arr_set (aBuffer a) col w\<rparr>)
      }
      else if HB_IS_STRING v \<and> HB_IS_HASH dest \<and> is_multilang env (world a) then do {
        (u, a1) \<leftarrow> hash_add env col (base_lang env (world a)) v a;
        Some ((v, HB_SUCCESS), a1)
      }
      else do {
        f \<leftarrow> carr (lpFields a) fieldNum;
        if uiType f = HB_FT_MEMO then Some ((v, HB_SUCCESS), a\<lparr>aBuffer := arr_set (aBuffer a) col v\<rparr>)
        else do {
          (u, a1) \<leftarrow> common_error env EG_DATATYPE ESQLRDD_DATATYPE a;
          Some ((v, HB_FAILURE), a1)
        }
      })"

definition sqlPutValue :: "'w rdd \<Rightarrow> 'w env \<Rightarrow> nat \<Rightarrow> item \<Rightarrow> ('w, item \<times> errcode) op" where
  "sqlPutValue self env fieldNum v a = do {
     (u, a1) \<leftarrow> first_then_pending self a;
     i \<leftarrow> carr (uiBufferIndex a1) fieldNum;
     let col = u16 i;
     (dest, a2) \<leftarrow> (let d = arr_get NIL (aBuffer a1) col in
       if HB_IS_NIL d then do {
         (r, b) \<leftarrow> send env ''SQLGETVALUE'' [INum i] a1;
         Some (arr_get NIL (aBuffer b) col, b)
       }
       else Some (d, a1));
     (a3, noted) \<leftarrow> note_column fieldNum a2;
     ((w, r), a4) \<leftarrow> store_value env fieldNum col dest v a3;
     Some ((w, r), if r = HB_SUCCESS then set_infoL SR_AINFO_HOT True a4 else a4)
   }"

end
