(* ===== verification/ExWrite.thy ===== *)
theory ExWrite
  imports ExMove Data
begin

text \<open>
  The statements the second driver writes records with, \<open>source/sqlex2.c\<close>. The blocks of an order are
  evaluated in this area; selecting it for them is left out.
\<close>

abbreviation MAX_FIELDS :: nat where "MAX_FIELDS \<equiv> 512"
abbreviation FIELD_LIST_SIZE_PARAM :: nat where "FIELD_LIST_SIZE_PARAM \<equiv> 600"

abbreviation SR_INDEXMAN_COLUMNS :: nat where "SR_INDEXMAN_COLUMNS \<equiv> 6"
abbreviation SR_INDEXMAN_KEY_CODEBLOCK :: nat where "SR_INDEXMAN_KEY_CODEBLOCK \<equiv> 9"
abbreviation SR_INDEXMAN_FOR_CODEBLOCK :: nat where "SR_INDEXMAN_FOR_CODEBLOCK \<equiv> 10"
abbreviation SR_INDEXMAN_SYNTH_COLPOS :: nat where "SR_INDEXMAN_SYNTH_COLPOS \<equiv> 13"
abbreviation SR_INDEXMAN_FOR_COLPOS :: nat where "SR_INDEXMAN_FOR_COLPOS \<equiv> 14"

section \<open>Columns the orders compute\<close>

text \<open>The value of a block goes to a column; what is marked is the element behind it.\<close>

definition resolve_block :: "'w exenv \<Rightarrow> item \<Rightarrow> item \<Rightarrow> 'w exarea \<Rightarrow> 'w exarea option" where
  "resolve_block env block pos a = do {
     (v, a1) \<leftarrow> x_eval_block env block a;
     let p = u16 (hb_itemGetNL pos);
     m \<leftarrow> wr_at (specialMask a1) (int p) True;
     Some (a1\<lparr>specialMask := m, aBuffer := arr_set (aBuffer a1) p v\<rparr>)
   }"

fun resolve_indexes :: "'w exenv \<Rightarrow> item list \<Rightarrow> 'w exarea \<Rightarrow> 'w exarea option" where
  "resolve_indexes env [] a = Some a"
| "resolve_indexes env (ix # ixs) a = do {
     a1 \<leftarrow> (if SR_itemEmpty (x_str_empty env) (hb_arrayGet ix SR_INDEXMAN_COLUMNS) then Some a
           else resolve_block env (hb_arrayGet ix SR_INDEXMAN_KEY_CODEBLOCK)
                  (hb_arrayGet ix SR_INDEXMAN_SYNTH_COLPOS) a);
     a2 \<leftarrow> (if SR_itemEmpty (x_str_empty env) (hb_arrayGet ix SR_INDEXMAN_FOR_CODEBLOCK) then Some a1
           else resolve_block env (hb_arrayGet ix SR_INDEXMAN_FOR_CODEBLOCK)
                  (hb_arrayGet ix SR_INDEXMAN_FOR_COLPOS) a1);
     resolve_indexes env ixs a2
   }"

definition ResolveSpecialCols :: "'w exenv \<Rightarrow> 'w exarea \<Rightarrow> 'w exarea option" where
  "ResolveSpecialCols env a = do {
     (ixs, a1) \<leftarrow> (case pIndexMgmnt a of
                    Some ixs \<Rightarrow> Some (ixs, a)
                  | None \<Rightarrow> do {
                      (v, b) \<leftarrow> x_send env ''AINDEXMGMNT'' [] a;
                      Some (arr_of v, b\<lparr>pIndexMgmnt := Some (arr_of v)\<rparr>)
                    });
     resolve_indexes env ixs a1
   }"

section \<open>The INSERT statement\<close>

definition SR_SetInsertRecordStructure :: "'w exarea \<Rightarrow> 'w exarea" where
  "SR_SetInsertRecordStructure a = a\<lparr>InsertRecord := Some (replicate (length (aFields a)) zero_column)\<rparr>"

definition insert_column :: "int \<Rightarrow> nat \<Rightarrow> item \<Rightarrow> columnbind \<Rightarrow> columnbind" where
  "insert_column sys i f old =
     (let lType = hb_itemGetNL (hb_arrayGet f SR_FIELD_DOMAIN);
          len = hb_itemGetNL (hb_arrayGet f SR_FIELD_LEN);
          t = type_of_field f;
          c = old\<lparr>iSQLType := lType, isNullable := hb_itemGetL (hb_arrayGet f SR_FIELD_NULLABLE),
                isBoundNULL := False, isArgumentNull := False,
                lFieldPosDB := int i, lFieldPosWA := hb_itemGetNL (hb_arrayGet f SR_FIELD_WAOFFSET),
                ColumnSize := len, DecimalDigits := hb_itemGetNL (hb_arrayGet f SR_FIELD_DEC),
                isMemo := (t = CHR ''M''), isMultiLang := hb_itemGetL (hb_arrayGet f SR_FIELD_MULTILANG)\<rparr>
      in if t = CHR ''M'' then c\<lparr>size_alloc := INITIAL_MEMO_ALLOC, iCType := SQL_C_BINARY, ColumnSize := 0,
                                asChar := [], asChar_size := 0\<rparr>
         else if t = CHR ''C'' then c\<lparr>size_alloc := len + 1, iCType := SQL_C_CHAR, asChar := [], asChar_size := 0\<rparr>
         else if t = CHR ''N'' then c\<lparr>iCType := SQL_C_DOUBLE\<rparr>
         else if t = CHR ''D'' then c\<lparr>iCType := (if sys = RDBMS_ORACLE then SQL_C_TYPE_TIMESTAMP else lType)\<rparr>
         else if t = CHR ''T'' then c\<lparr>iCType := SQL_C_TYPE_TIMESTAMP\<rparr>
         else if t = CHR ''L'' then c\<lparr>iCType := (if sys = RDBMS_CUBRID then SQL_C_SHORT else SQL_C_BIT)\<rparr>
         else c)"

text \<open>The columns, but for the record number: each with a comma before it.\<close>

fun insert_names :: "'w exarea \<Rightarrow> nat \<Rightarrow> item list \<Rightarrow> bytes list option" where
  "insert_names a i [] = Some []"
| "insert_names a i (f # fs) = do {
     ns \<leftarrow> insert_names a (Suc i) fs;
     if i = ulhRecno a then Some ns
     else do {
       q \<leftarrow> quoted a (SR_QualifyName (nSystemID a) (hb_itemGetC (hb_arrayGet f SR_FIELD_NAME)));
       Some ((CHR '','' # q) # ns)
     }
   }"

text \<open>A table name cut for the name of its sequence.\<close>

definition sequence_base :: "'w exarea \<Rightarrow> bytes option" where
  "sequence_base a = do {
     n \<leftarrow> szDataFileName a;
     t \<leftarrow> into 100 n;
     Some (if length t > 27 then take 26 t else t)
   }"

definition insert_ident :: "'w exarea \<Rightarrow> bytes option" where
  "insert_ident a =
     (let sys = nSystemID a in
      if sys \<in> {RDBMS_MSSQL7, RDBMS_SYBASE} then into 200 (''SELECT '' @ sRecnoName a @ '' FROM @InsertedData;'')
      else if sys \<in> {RDBMS_FIREBR, RDBMS_FIREBR3, RDBMS_FIREBR4, RDBMS_FIREBR5}
        then into 200 ('' RETURNING '' @ sRecnoName a)
      else if sys = RDBMS_POSTGR then do {
        t \<leftarrow> sequence_base a;
        into 200 (''; SELECT currval('' @ [QUOTE] @ t @ ''_SQ'' @ [QUOTE] @ '');'')
      }
      else if sys = RDBMS_IBMDB2 then Some ''; VALUES IDENTITY_VAL_LOCAL();''
      else Some [])"

definition insert_text :: "'w exarea \<Rightarrow> bytes option" where
  "insert_text a = do {
     ns \<leftarrow> insert_names a 1 (aFields a);
     fields \<leftarrow> into FIELD_LIST_SIZE (concat ns);
     params \<leftarrow> into FIELD_LIST_SIZE_PARAM (concat (map (\<lambda>n. '',?'') ns));
     ident \<leftarrow> insert_ident a;
     decl \<leftarrow> (if nSystemID a \<in> {RDBMS_MSSQL7, RDBMS_SYBASE}
             then into 200 (''Declare @InsertedData table ( '' @ sRecnoName a @ '' numeric(15,0) );'') else Some []);
     if ns = [] then None
     else into MAX_SQL_QUERY_LEN
       (if nSystemID a = RDBMS_MSSQL7
        then decl @ '' INSERT INTO '' @ sTable a @ '' ('' @ SPACE # tl fields @ '' ) OUTPUT Inserted.'' @
             sRecnoName a @ '' INTO @InsertedData('' @ sRecnoName a @ '') VALUES ('' @ SPACE # tl params @ '' );'' @ ident
        else ''INSERT INTO '' @ sTable a @ '' ('' @ SPACE # tl fields @ '' ) VALUES ('' @ SPACE # tl params @ '' )'' @ ident)
   }"

definition SR_CreateInsertStmt :: "'w exarea \<Rightarrow> 'w exarea option" where
  "SR_CreateInsertStmt a =
     (let a1 = (if InsertRecord a = None then SR_SetInsertRecordStructure a else a) in do {
        old \<leftarrow> InsertRecord a1;
        cs \<leftarrow> (if length old = length (aFields a1)
              then Some (map (\<lambda>((i, f), c). insert_column (nSystemID a1) i f c) (zip (enumerate 1 (aFields a1)) old))
              else None);
        sql \<leftarrow> insert_text a1;
        Some (a1\<lparr>InsertRecord := Some cs, sSql := sql\<rparr>)
      })"

definition SR_PrepareInsertStmt :: "'w exenv \<Rightarrow> ('w, errcode) exop" where
  "SR_PrepareInsertStmt env a =
     (if CHECK_SQL_N_OK (alloc_stmt env (world a)) then do {
        (u, a1) \<leftarrow> odbc_error env (sSql a) a;
        Some (HB_FAILURE, a1)
      }
      else if CHECK_SQL_N_OK (prepare env (sSql a) (world a)) then do {
        (u, a1) \<leftarrow> odbc_error env (sSql a) (a\<lparr>hStmtInsert := Some \<lparr>st_sql = [], st_binds = []\<rparr>\<rparr>);
        Some (HB_FAILURE, a1)
      }
      else Some (HB_SUCCESS, a\<lparr>hStmtInsert := Some \<lparr>st_sql = sSql a, st_binds = []\<rparr>\<rparr>))"

text \<open>How a column is bound for writing: its C type, and whether its indicator is bound and to what it is
  set first.\<close>

definition write_binding :: "columnbind \<Rightarrow> (int \<times> int option) option" where
  "write_binding c =
     (if iCType c = SQL_C_CHAR \<or> iCType c = SQL_C_BINARY then Some (iCType c, Some SQL_NTS)
      else if iCType c \<in> {SQL_C_DOUBLE, SQL_C_TYPE_TIMESTAMP, SQL_C_TYPE_DATE} then Some (iCType c, Some 0)
      else if iCType c = SQL_C_SHORT \<or> iCType c = SQL_C_BIT then Some (iCType c, None)
      else None)"

text \<open>Binding with a handle that may be null.\<close>

definition bind_handle ::
  "'w exenv \<Rightarrow> stmt option \<Rightarrow> int \<Rightarrow> bindref \<Rightarrow> 'w exarea \<Rightarrow> sqlreturn \<times> stmt option" where
  "bind_handle env h n r a =
     (case h of
        None \<Rightarrow> (SQL_INVALID_HANDLE, None)
      | Some st \<Rightarrow> (case SQLBindParameter env st n r a of (res, st1) \<Rightarrow> (res, Some st1)))"

text \<open>\<open>mk\<close> makes the variable of the \<open>i\<close>-th column; the result has the column as it is after the call.\<close>

definition bind_write ::
  "'w exenv \<Rightarrow> (int \<Rightarrow> bool \<Rightarrow> bindref) \<Rightarrow> int \<Rightarrow> columnbind \<Rightarrow> sqlreturn \<Rightarrow> stmt option \<Rightarrow> 'w exarea \<Rightarrow>
   sqlreturn \<times> stmt option \<times> columnbind"
where
  "bind_write env mk n c res h a =
     (case write_binding c of
        None \<Rightarrow> (res, h, c\<lparr>iParNum := n\<rparr>)
      | Some (ty, ind) \<Rightarrow>
          (case bind_handle env h n (mk ty (ind \<noteq> None)) a of (res1, h1) \<Rightarrow>
             (res1, h1, (case ind of Some v \<Rightarrow> c\<lparr>lIndPtr := v\<rparr> | None \<Rightarrow> c)\<lparr>iParNum := n\<rparr>)))"

text \<open>The columns from the \<open>i\<close>-th on (counted from one) to the parameters behind \<open>n\<close>.\<close>

fun bind_insert ::
  "'w exenv \<Rightarrow> nat \<Rightarrow> nat \<Rightarrow> int \<Rightarrow> sqlreturn \<Rightarrow> 'w exarea \<Rightarrow> (errcode \<times> 'w exarea) option"
where
  "bind_insert env 0 i n res a = Some (HB_SUCCESS, a)"
| "bind_insert env (Suc k) i n res a =
     (if i = ulhRecno a then bind_insert env k (Suc i) n res a
      else do {
        cs \<leftarrow> InsertRecord a;
        c \<leftarrow> rd_at cs (int i - 1);
        let (res1, h1, c1) = bind_write env (BindIns (i - 1)) (n + 1) c res (hStmtInsert a) a;
        let a1 = a\<lparr>InsertRecord := Some (cs[i - 1 := c1]), hStmtInsert := h1\<rparr>;
        if CHECK_SQL_N_OK res1 then do {
          (u, a2) \<leftarrow> odbc_error env (sSql a1) a1;
          Some (HB_FAILURE, a2)
        }
        else bind_insert env k (Suc i) (n + 1) res1 a1
      })"

definition SR_BindInsertColumns :: "'w exenv \<Rightarrow> ('w, errcode) exop" where
  "SR_BindInsertColumns env a = bind_insert env (length (aFields a)) 1 0 SQL_ERROR a"

section \<open>From the buffer to the variables\<close>

definition write_record :: "bool \<Rightarrow> 'w exarea \<Rightarrow> columnbind list option" where
  "write_record upd a = (if upd then CurrRecord a else InsertRecord a)"

definition put_write_column :: "bool \<Rightarrow> nat \<Rightarrow> columnbind \<Rightarrow> 'w exarea \<Rightarrow> 'w exarea option" where
  "put_write_column upd i c a = do {
     cs \<leftarrow> write_record upd a;
     cs1 \<leftarrow> wr_at cs (int i - 1) c;
     Some (if upd then a\<lparr>CurrRecord := Some cs1\<rparr> else a\<lparr>InsertRecord := Some cs1\<rparr>)
   }"

text \<open>A value as it is stored: a text of a multi-language column becomes a hash, and what a memo holds
  besides text is turned into text; both stay in the buffer.\<close>

definition stored_form :: "'w exenv \<Rightarrow> columnbind \<Rightarrow> nat \<Rightarrow> ('w, item) exop" where
  "stored_form env c i a =
     (let v = arr_get NIL (aBuffer a) i;
          v1 = (if isMultiLang c \<and> HB_IS_STRING v then Hash [(arr_get NIL (x_languages env (world a)) 1, v)] else v)
      in do {
        (v2, a1) \<leftarrow> (if isMemo c \<and> \<not> HB_IS_STRING v1 then x_serialize env v1 a else Some (v1, a));
        Some (v2, a1\<lparr>aBuffer := arr_set (aBuffer a1) i v2\<rparr>)
      })"

definition feed_write :: "'w exenv \<Rightarrow> bool \<Rightarrow> nat \<Rightarrow> ('w, errcode) exop" where
  "feed_write env upd i a =
     (if i = ulhDeleted a then do {
        cs \<leftarrow> write_record upd a;
        c \<leftarrow> rd_at cs (int i - 1);
        c1 \<leftarrow> SR_SetBindEmptylValue c;
        a1 \<leftarrow> put_write_column upd i c1 a;
        Some (HB_SUCCESS, a1)
      }
      else if i = ulhRecno a then Some (HB_SUCCESS, a)
      else do {
        cs \<leftarrow> write_record upd a;
        c \<leftarrow> rd_at cs (int i - 1);
        if SR_itemEmpty (x_str_empty env) (arr_get NIL (aBuffer a) i) \<and> \<not> isNullable c then do {
          c1 \<leftarrow> SR_SetBindEmptylValue c;
          a1 \<leftarrow> put_write_column upd i c1 a;
          Some (HB_SUCCESS, a1)
        }
        else do {
          (v, a1) \<leftarrow> stored_form env c i a;
          ((r, c1), a2) \<leftarrow> SR_SetBindValue env v c (if upd then hStmtUpdate a1 else hStmtInsert a1) a1;
          a3 \<leftarrow> put_write_column upd i c1 a2;
          Some (r, a3)
        }
      })"

fun feed_writes :: "'w exenv \<Rightarrow> bool \<Rightarrow> nat \<Rightarrow> nat \<Rightarrow> ('w, errcode) exop" where
  "feed_writes env upd 0 i a = Some (HB_SUCCESS, a)"
| "feed_writes env upd (Suc k) i a = do {
     w \<leftarrow> (if upd then do {
            e \<leftarrow> rd_at (editMask a) (int i - 1);
            s \<leftarrow> rd_at (specialMask a) (int i - 1);
            Some (e \<or> s)
          }
          else Some True);
     (r, a1) \<leftarrow> (if w then feed_write env upd i a else Some (HB_SUCCESS, a));
     if r = HB_FAILURE then Some (HB_FAILURE, a1) else feed_writes env upd k (Suc i) a1
   }"

definition SR_FeedRecordCols :: "'w exenv \<Rightarrow> bool \<Rightarrow> ('w, errcode) exop" where
  "SR_FeedRecordCols env upd a = do {
     a1 \<leftarrow> (if upd then Some a
           else do {
             cur \<leftarrow> SR_GetCurrentRecordNum a;
             Some (a\<lparr>aInfo := arr_set (aInfo a) SR_AINFO_RECNO (INum (cur - 1))\<rparr>)
           });
     a2 \<leftarrow> ResolveSpecialCols env a1;
     feed_writes env upd (length (aFields a2)) 1 a2
   }"

section \<open>Executing\<close>

definition odbc_fail :: "'w exenv \<Rightarrow> bytes \<Rightarrow> ('w, errcode) exop" where
  "odbc_fail env sql a = do { (u, a1) \<leftarrow> odbc_error env sql a; Some (HB_FAILURE, a1) }"

text \<open>The number of the new record, from the first row.\<close>

definition read_new_recno :: "'w exenv \<Rightarrow> rows \<Rightarrow> bytes \<Rightarrow> ('w, errcode) exop" where
  "read_new_recno env rs sql a =
     (case SQLFetch rs of (res, row, rest) \<Rightarrow>
        if CHECK_SQL_N_OK res then odbc_fail env sql a
        else (case SQLGetData_long env row 1 of (r, n) \<Rightarrow> do {
          rl \<leftarrow> wr_at (recordList a) 0 n;
          if CHECK_SQL_N_OK r then odbc_fail env sql a else Some (HB_SUCCESS, a\<lparr>recordList := rl\<rparr>)
        }))"

text \<open>\<open>SQLMoreResults\<close>, tried again when it is not a plain success.\<close>

fun next_result :: "(sqlreturn \<times> rows) list \<Rightarrow> sqlreturn \<times> rows \<times> (sqlreturn \<times> rows) list" where
  "next_result [] = (SQL_NO_DATA, [], [])"
| "next_result ((r, rs) # ms) = (r, rs, ms)"

definition second_result :: "(sqlreturn \<times> rows) list \<Rightarrow> sqlreturn \<times> rows" where
  "second_result ms =
     (case next_result ms of (r, rs, ms1) \<Rightarrow>
        if r \<noteq> SQL_SUCCESS then (case next_result ms1 of (r2, rs2, ms2) \<Rightarrow> (r2, rs2)) else (r, rs))"

definition nextval_text :: "'w exarea \<Rightarrow> bytes option" where
  "nextval_text a =
     (if nSystemID a = RDBMS_ORACLE then do {
        t \<leftarrow> sequence_base a;
        into 200 (''SELECT '' @ sOwner a @ t @ ''_SQ.CURRVAL FROM DUAL'')
      }
      else Some ''SELECT LAST_INSERT_ID()'')"

definition nextval_stmt :: "'w exenv \<Rightarrow> ('w, errcode) exop" where
  "nextval_stmt env a =
     (if hStmtNextval a \<noteq> None then Some (HB_SUCCESS, a)
      else do {
        sql \<leftarrow> nextval_text a;
        if CHECK_SQL_N_OK (alloc_stmt env (world a)) then odbc_fail env sql a
        else if CHECK_SQL_N_OK (prepare env sql (world a))
          then odbc_fail env sql (a\<lparr>hStmtNextval := Some \<lparr>st_sql = [], st_binds = []\<rparr>\<rparr>)
        else Some (HB_SUCCESS, a\<lparr>hStmtNextval := Some \<lparr>st_sql = sql, st_binds = []\<rparr>\<rparr>)
      })"

definition new_recno :: "'w exenv \<Rightarrow> 'w answer \<Rightarrow> ('w, errcode) exop" where
  "new_recno env an a =
     (let sys = nSystemID a in
      if sys \<in> {RDBMS_FIREBR, RDBMS_FIREBR3, RDBMS_FIREBR4, RDBMS_FIREBR5}
        then read_new_recno env (an_rows an) (sSql a) a
      else if sys \<in> {RDBMS_MSSQL7, RDBMS_SYBASE, RDBMS_IBMDB2, RDBMS_POSTGR}
        then (case second_result (an_more an) of (r, rs) \<Rightarrow>
                if CHECK_SQL_N_OK r then odbc_fail env (sSql a) a else read_new_recno env rs (sSql a) a)
      else if sys \<in> {RDBMS_ORACLE, RDBMS_MYSQL, RDBMS_MARIADB, RDBMS_CUBRID} then do {
        (r, a1) \<leftarrow> nextval_stmt env a;
        if r = HB_FAILURE then Some (HB_FAILURE, a1)
        else do {
          st \<leftarrow> hStmtNextval a1;
          let (an2, a2) = SQLExecute env st a1;
          if CHECK_SQL_N_OK (an_res an2) then odbc_fail env (st_sql st) a2
          else read_new_recno env (an_rows an2) (st_sql st) a2
        }
      }
      else Some (HB_SUCCESS, a))"

definition SR_ExecuteInsertStmt :: "'w exenv \<Rightarrow> ('w, errcode) exop" where
  "SR_ExecuteInsertStmt env a = do {
     st \<leftarrow> hStmtInsert a;
     let (an, a1) = SQLExecute env st a;
     if CHECK_SQL_N_OK (an_res an) then odbc_fail env (sSql a1) a1
     else do {
       (r, a2) \<leftarrow> new_recno env an a1;
       if r = HB_FAILURE then Some (HB_FAILURE, a2)
       else do {
         n \<leftarrow> rd_at (recordList a2) 0;
         dl \<leftarrow> wr_at (deletedList a2) 0 SPACE;
         Some (HB_SUCCESS, a2\<lparr>deletedList := dl, recordListPos := 0, recordListSize := 1,
                             aInfo := arr_set (aInfo a2) SR_AINFO_RCOUNT (INum n), lLastRec := n + 1\<rparr>)
       }
     }
   }"

section \<open>The UPDATE statement\<close>

text \<open>
  The columns from the \<open>i\<close>-th on (counted from zero) that were changed, as the parameters behind \<open>n\<close>;
  the text grows with each. The column of the record number ends the loop.
\<close>

fun update_columns ::
  "'w exenv \<Rightarrow> nat \<Rightarrow> nat \<Rightarrow> int \<Rightarrow> sqlreturn \<Rightarrow> 'w exarea \<Rightarrow> ((int \<times> bool) \<times> 'w exarea) option"
where
  "update_columns env 0 i n res a = Some ((n, True), a)"
| "update_columns env (Suc k) i n res a = do {
     e \<leftarrow> rd_at (editMask a) (int i);
     s \<leftarrow> rd_at (specialMask a) (int i);
     if \<not> (e \<or> s) then update_columns env k (Suc i) n res a
     else do {
       um \<leftarrow> (if s then Some (updatedMask a) else wr_at (updatedMask a) (int i) True);
       let a1 = a\<lparr>updatedMask := um,
                  bIndexTouchedInUpdate := (bIndexTouchedInUpdate a \<or> s \<and> hOrdCurrent a \<noteq> 0)\<rparr>;
       cs \<leftarrow> CurrRecord a1;
       c \<leftarrow> rd_at cs (int i);
       if colName c = sRecnoName a1 then Some ((n, True), a1)
       else do {
         let (res1, h1, c1) = bind_write env (BindCol i) (n + 1) c res (hStmtUpdate a1) a1;
         q \<leftarrow> quoted a1 (colName c);
         sql \<leftarrow> into MAX_SQL_QUERY_LEN
                 (sSql a1 @ [if n + 1 > 1 then CHR '','' else SPACE] @ '' '' @ q @ '' = ?'');
         let a2 = a1\<lparr>CurrRecord := Some (cs[i := c1]), hStmtUpdate := h1, sSql := sql\<rparr>;
         if CHECK_SQL_N_OK res1 then do {
           (u, a3) \<leftarrow> odbc_error env (sSql a2) a2;
           Some ((n + 1, False), a3)
         }
         else update_columns env k (Suc i) (n + 1) res1 a2
       }
     }
   }"

definition touches_index :: "'w exarea \<Rightarrow> bool option" where
  "touches_index a =
     (let ps = map (\<lambda>d. hb_itemGetNL (hb_arrayGet d 2) - 1) (order_columns a) in
      if \<forall>p \<in> set ps. 0 \<le> p \<and> p < int (length (editMask a))
      then Some (\<exists>p \<in> set ps. editMask a ! nat p) else None)"

definition SR_CreateUpdateStmt :: "'w exenv \<Rightarrow> ('w, errcode) exop" where
  "SR_CreateUpdateStmt env a = do {
     let a0 = (if CurrRecord a = None then SR_SetCurrRecordStructure a else a);
     let res0 = alloc_stmt env (world a0);
     a1 \<leftarrow> report env res0 (a0\<lparr>hStmtUpdate := (if CHECK_SQL_N_OK res0 then None else Some \<lparr>st_sql = [], st_binds = []\<rparr>)\<rparr>);
     sql \<leftarrow> into MAX_SQL_QUERY_LEN (''UPDATE '' @ sTable a1 @ '' SET'');
     ((n, ok), a2) \<leftarrow> update_columns env (length (aFields a1)) 0 0 res0
                       (a1\<lparr>bIndexTouchedInUpdate := False, sSql := sql\<rparr>);
     if \<not> ok then Some (HB_FAILURE, a2)
     else do {
       q \<leftarrow> quoted a2 (sRecnoName a2);
       sql2 \<leftarrow> into MAX_SQL_QUERY_LEN (sSql a2 @ [LF] @ '' WHERE '' @ q @ '' = ?'');
       let a3 = a2\<lparr>sSql := sql2\<rparr>;
       let (res, h1) = bind_handle env (hStmtUpdate a3) (n + 1) BindUpdated a3;
       let a4 = a3\<lparr>hStmtUpdate := h1\<rparr>;
       if CHECK_SQL_N_OK res then odbc_fail env sql2 a4
       else if CHECK_SQL_N_OK (prepare env sql2 (world a4)) then odbc_fail env sql2 a4
       else do {
         let a5 = a4\<lparr>hStmtUpdate := map_option (\<lambda>st. st\<lparr>st_sql := sql2\<rparr>) h1\<rparr>;
         if \<not> bIndexTouchedInUpdate a5 \<and> hOrdCurrent a5 \<noteq> 0 then do {
           t \<leftarrow> touches_index a5;
           Some (HB_SUCCESS, a5\<lparr>indexColumns := length (order_columns a5), bIndexTouchedInUpdate := t\<rparr>)
         }
         else Some (HB_SUCCESS, a5)
       }
     }
   }"

definition SR_ExecuteUpdateStmt :: "'w exenv \<Rightarrow> ('w, errcode) exop" where
  "SR_ExecuteUpdateStmt env a = do {
     cur \<leftarrow> SR_GetCurrentRecordNum a;
     (r, a1) \<leftarrow> SR_FeedRecordCols env True (a\<lparr>lUpdatedRecord := cur\<rparr>);
     if r = HB_FAILURE then Some (HB_FAILURE, a1)
     else do {
       st \<leftarrow> hStmtUpdate a1;
       let (an, a2) = SQLExecute env st a1;
       if an_res an = SQL_ERROR then do {
         (u, a3) \<leftarrow> odbc_error env (sSql a2) a2;
         Some (HB_FAILURE, a3\<lparr>hStmtUpdate := None\<rparr>)
       }
       else do {
         here \<leftarrow> rd_at (recordList a2) (recordListPos a2);
         rl \<leftarrow> wr_at (recordList a2) 0 here;
         let a3 = (if bIndexTouchedInUpdate a2
                   then a2\<lparr>recordList := rl, recordListPos := 0, recordListSize := 1\<rparr> else a2);
         Some (HB_SUCCESS,
               case map_of (hBufferPool a3) here of
                 None \<Rightarrow> a3
               | Some rec \<Rightarrow> a3\<lparr>hBufferPool := pool_add here (hb_arrayCopy (aBuffer a3) rec) (hBufferPool a3)\<rparr>)
       }
     }
   }"

end
