(* ===== verification/ExEdit.thy ===== *)
theory ExEdit
  imports ExWrite
begin

text \<open>
  Records and columns of the second driver, \<open>source/sqlex1.c\<close>: \<open>sqlExAppend\<close> to \<open>sqlExRecId\<close>, and the
  life of an area. What the run-time library does with texts of columns is as in \<open>Data\<close>.
\<close>

section \<open>The record\<close>

definition sqlExDeleted :: "'w exrdd \<Rightarrow> ('w, bool \<times> errcode) exop" where
  "sqlExDeleted self a = do {
     (u, a1) \<leftarrow> x_first self a;
     (u, a2) \<leftarrow> x_force self a1;
     if ulhDeleted a2 = 0 \<or> bIsInsert a2 \<or> fEof a2 then Some ((False, HB_SUCCESS), a2)
     else do {
       c \<leftarrow> rd_at (deletedList a2) (recordListPos a2);
       Some ((c \<noteq> SPACE, HB_SUCCESS), a2)
     }
   }"

definition sqlExAppend :: "'w exrdd \<Rightarrow> ('w, errcode) exop" where
  "sqlExAppend self a = do {
     (r, a1) \<leftarrow> ex_goCold self
       (a\<lparr>lpdbPendingRel := None, firstinteract := False, wasdel := False, aLocked := []\<rparr>);
     if r = HB_FAILURE then Some (HB_FAILURE, a1)
     else Some (HB_SUCCESS, x_cleanBuffer (a1\<lparr>bufferHot := True, bIsInsert := True\<rparr>))
   }"

text \<open>A statement on the current record that is executed at once.\<close>

definition exec_direct :: "'w exenv \<Rightarrow> bytes \<Rightarrow> ('w, errcode) exop" where
  "exec_direct env text a = do {
     sql \<leftarrow> into MAX_SQL_QUERY_LEN text;
     let a1 = a\<lparr>sSql := sql\<rparr>;
     if CHECK_SQL_N_OK (alloc_stmt env (world a1)) then Some (HB_FAILURE, a1)
     else (let (an, a2) = SQLExecDirect env sql a1
           in Some (if an_res an = SQL_ERROR then HB_FAILURE else HB_SUCCESS, a2))
   }"

definition mark_text :: "'w exarea \<Rightarrow> char \<Rightarrow> int \<Rightarrow> bytes" where
  "mark_text a c n =
     ''UPDATE '' @ sTable a @ '' SET '' @ sDeletedName a @ '' = '' @ [QUOTE, c, QUOTE] @
     (if iTCCompat a \<ge> 4 then '', R_E_C_D_E_L_ = R_E_C_N_O_'' else '' '') @ '' WHERE '' @ sRecnoName a @
     '' = '' @ int_text n"

definition delete_text :: "'w exarea \<Rightarrow> int \<Rightarrow> bytes" where
  "delete_text a n = ''DELETE FROM '' @ sTable a @ '' WHERE '' @ sRecnoName a @ '' = '' @ int_text n"

text \<open>The mark in the record list.\<close>

definition set_mark :: "char \<Rightarrow> 'w exarea \<Rightarrow> 'w exarea option" where
  "set_mark c a = do {
     dl \<leftarrow> wr_at (deletedList a) (recordListPos a) c;
     Some (a\<lparr>deletedList := dl\<rparr>)
   }"

definition sqlExDeleteRec :: "'w exrdd \<Rightarrow> 'w exenv \<Rightarrow> ('w, errcode) exop" where
  "sqlExDeleteRec self env a = do {
     (r, a1) \<leftarrow> ex_goCold self a;
     if r = HB_FAILURE then Some (HB_FAILURE, a1)
     else do {
       (u, a2) \<leftarrow> x_first self a1;
       (u, a3) \<leftarrow> x_force self a2;
       ((d, r2), a4) \<leftarrow> ex_deleted self a3;
       (r3, a5) \<leftarrow> (if \<not> d \<and> \<not> fEof a4 then do {
                     n \<leftarrow> SR_GetCurrentRecordNum a4;
                     exec_direct env
                       (if ulhDeleted a4 > 0 \<and> x_use_deleteds env (world a4)
                        then mark_text a4 (if iTCCompat a4 \<ge> 2 then CHR ''*'' else CHR ''T'') n
                        else delete_text a4 n) a4
                   }
                   else Some (HB_SUCCESS, a4));
       if r3 = HB_FAILURE then Some (HB_FAILURE, a5)
       else do {
         a6 \<leftarrow> set_mark (if iTCCompat a5 \<noteq> 0 then CHR ''*'' else CHR ''T'') a5;
         here \<leftarrow> rd_at (recordList a6) (recordListPos a6);
         Some (HB_SUCCESS, a6\<lparr>lEofAt := (if lEofAt a6 = here then 0 else lEofAt a6),
                             lBofAt := (if lBofAt a6 = here then 0 else lBofAt a6)\<rparr>)
       }
     }
   }"

definition sqlExRecall :: "'w exrdd \<Rightarrow> 'w exenv \<Rightarrow> ('w, errcode) exop" where
  "sqlExRecall self env a = do {
     (r, a1) \<leftarrow> ex_goCold self a;
     if r = HB_FAILURE then Some (HB_FAILURE, a1)
     else do {
       (u, a2) \<leftarrow> x_force_or_first self a1;
       ((d, r2), a3) \<leftarrow> ex_deleted self a2;
       (r3, a4) \<leftarrow> (if d \<and> ulhDeleted a3 > 0 \<and> x_use_deleteds env (world a3) then do {
                     n \<leftarrow> SR_GetCurrentRecordNum a3;
                     exec_direct env (mark_text a3 SPACE n) a3
                   }
                   else Some (HB_SUCCESS, a3));
       if r3 = HB_FAILURE then Some (HB_FAILURE, a4)
       else do {
         a5 \<leftarrow> set_mark SPACE a4;
         Some (HB_SUCCESS, a5)
       }
     }
   }"

definition sqlExFlush :: "'w exrdd \<Rightarrow> ('w, errcode) exop" where
  "sqlExFlush self a = ex_goCold self a"

definition sqlExRecCount :: "'w exrdd \<Rightarrow> ('w, int \<times> errcode) exop" where
  "sqlExRecCount self a = do {
     (u, a1) \<leftarrow> x_force self a;
     let n = hb_itemGetNL (x_info a1 SR_AINFO_RCOUNT) + (if bIsInsert a1 \<and> bufferHot a1 then 1 else 0);
     Some ((n, HB_SUCCESS), a1\<lparr>lLastRec := n + 1\<rparr>)
   }"

definition sqlExRecNo :: "'w exrdd \<Rightarrow> ('w, int \<times> errcode) exop" where
  "sqlExRecNo self a = do {
     (u, a1) \<leftarrow> x_force_or_first self a;
     n \<leftarrow> SR_GetCurrentRecordNum a1;
     Some ((n, HB_SUCCESS), a1)
   }"

definition sqlExRecId :: "'w exrdd \<Rightarrow> ('w, item \<times> errcode) exop" where
  "sqlExRecId self a = do {
     (u, a1) \<leftarrow> x_force_or_first self a;
     n \<leftarrow> (if initialized a1 then SR_GetCurrentRecordNum a1 else Some 0);
     Some ((INum n, HB_SUCCESS), a1)
   }"

section \<open>Writing the record\<close>

definition write_new :: "'w exenv \<Rightarrow> ('w, errcode) exop" where
  "write_new env a = do {
     (r, a1) \<leftarrow> (if hStmtInsert a = None then do {
                  b \<leftarrow> SR_CreateInsertStmt a;
                  (r1, b1) \<leftarrow> SR_PrepareInsertStmt env b;
                  if r1 = HB_FAILURE then Some (HB_FAILURE, b1) else SR_BindInsertColumns env b1
                }
                else Some (HB_SUCCESS, a\<lparr>sSql := []\<rparr>));
     if r = HB_FAILURE then Some (HB_FAILURE, a1)
     else do {
       (r2, a2) \<leftarrow> SR_FeedRecordCols env False a1;
       if r2 = HB_FAILURE then Some (HB_FAILURE, a2) else SR_ExecuteInsertStmt env a2
     }
   }"

definition write_changed :: "'w exenv \<Rightarrow> ('w, errcode) exop" where
  "write_changed env a = do {
     (r, a1) \<leftarrow> (if hStmtUpdate a = None \<or> editMask a \<noteq> updatedMask a then SR_CreateUpdateStmt env a
                else Some (HB_SUCCESS, a\<lparr>sSql := []\<rparr>));
     if r = HB_FAILURE then Some (HB_FAILURE, a1) else SR_ExecuteUpdateStmt env a1
   }"

definition clear_mask :: "'w exarea \<Rightarrow> 'w exarea" where
  "clear_mask a = a\<lparr>editMask := replicate MAX_FIELDS False\<rparr>"

definition sqlExGoCold :: "'w exenv \<Rightarrow> ('w, errcode) exop" where
  "sqlExGoCold env a =
     (if \<not> bufferHot a then Some (HB_SUCCESS, clear_mask a)
      else if bHistoric a then do {
        let i1 = arr_set (arr_set (aInfo a) SR_AINFO_ISINSERT (Logical (bIsInsert a)))
                   SR_AINFO_HOT (Logical (bufferHot a));
        i2 \<leftarrow> (if bIsInsert a then Some i1
              else do { n \<leftarrow> SR_GetCurrentRecordNum a; Some (arr_set i1 SR_AINFO_RECNO (INum n)) });
        x_super env ''GOCOLD'' (a\<lparr>aInfo := i2\<rparr>)
      }
      else do {
        (r, a1) \<leftarrow> (if bIsInsert a then write_new env a
                   else if \<not> fEof a then write_changed env a
                   else Some (HB_SUCCESS, a));
        if r = HB_FAILURE then Some (HB_FAILURE, a1)
        else Some (HB_SUCCESS, clear_mask (a1\<lparr>bufferHot := False, bIsInsert := False\<rparr>))
      })"

section \<open>Columns\<close>

definition x_other_cdp :: "'w exenv \<Rightarrow> 'w exarea \<Rightarrow> nat" where
  "x_other_cdp env a = (if cdPageCnv a \<noteq> 0 then cdPageCnv a else x_vm_cdp env (world a))"

text \<open>The value of a multi-language hash in the first language it has.\<close>

definition x_lang_value :: "'w exenv \<Rightarrow> 'w exarea \<Rightarrow> item \<Rightarrow> item option" where
  "x_lang_value env a v =
     (case v of
        Hash kv \<Rightarrow> (case filter (\<lambda>l. map_of kv l \<noteq> None) (x_languages env (world a)) of
                      l # ls \<Rightarrow> map_of kv l
                    | [] \<Rightarrow> None)
      | _ \<Rightarrow> None)"

text \<open>A text that holds a serialized value is unpacked.\<close>

definition unpacked :: "'w exenv \<Rightarrow> item \<Rightarrow> ('w, item) exop" where
  "unpacked env v a =
     (if HB_IS_STRING v \<and> length (hb_itemGetC v) > 10 \<and> take 10 (hb_itemGetC v) = serial_signature \<and>
         \<not> x_ser_as_string env (world a)
      then do {
        (x, a1) \<leftarrow> x_deserialize env (hb_itemGetC v) a;
        Some (if HB_IS_HASH x \<and> x_multilang env (world a1)
              then (case x_lang_value env a1 x of Some y \<Rightarrow> y | None \<Rightarrow> v) else x, a1)
      }
      else Some (v, a))"

definition x_lang_text :: "'w exenv \<Rightarrow> 'w exarea \<Rightarrow> field \<Rightarrow> item \<Rightarrow> bytes" where
  "x_lang_text env a f v =
     (case x_lang_value env a v of
        None \<Rightarrow> replicate (uiLen f) SPACE
      | Some x \<Rightarrow>
          (let s = fit (uiLen f) (hb_itemGetC x)
           in if uiType f = HB_FT_STRING \<and> cdPage a \<noteq> 0 \<and> cdPage a \<noteq> x_other_cdp env a
              then x_cdp_dup env s (cdPage a) (x_other_cdp env a) else s))"

definition x_column_value :: "'w exenv \<Rightarrow> nat \<Rightarrow> item \<Rightarrow> 'w exarea \<Rightarrow> item option" where
  "x_column_value env fieldNum v a =
     (if \<not> HB_IS_ARRAY v \<and> HB_IS_HASH v \<and> x_multilang env (world a) then do {
        f \<leftarrow> carr (lpFields a) fieldNum;
        Some (if uiType f = HB_FT_MEMO
              then (case x_lang_value env a v of Some x \<Rightarrow> x | None \<Rightarrow> Str [])
              else Str (x_lang_text env a f v))
      }
      else Some v)"

text \<open>The column is noted as one that is used.\<close>

definition x_note_column :: "nat \<Rightarrow> 'w exarea \<Rightarrow> 'w exarea option" where
  "x_note_column fieldNum a = do {
     used \<leftarrow> carr (uiFieldList a) fieldNum;
     Some (if used \<noteq> 0 then a
           else a\<lparr>uiFieldList := (uiFieldList a)[fieldNum - 1 := 1], iFieldListStatus := FIELD_LIST_NEW_VALUE_READ\<rparr>)
   }"

definition sqlExGetValue :: "'w exrdd \<Rightarrow> 'w exenv \<Rightarrow> nat \<Rightarrow> ('w, item \<times> errcode) exop" where
  "sqlExGetValue self env fieldNum a = do {
     (u, a1) \<leftarrow> x_force_or_first self a;
     i \<leftarrow> carr (uiBufferIndex a1) fieldNum;
     (v, a2) \<leftarrow> (let v = arr_get NIL (aBuffer a1) (nat i) in
       if HB_IS_NIL v then do {
         ((r, x), b) \<leftarrow> getMissingColumn env i a1;
         let b1 = (case x of None \<Rightarrow> b | Some w \<Rightarrow> b\<lparr>aBuffer := arr_set (aBuffer b) (nat i) w\<rparr>);
         Some (arr_get NIL (aBuffer b1) (nat i), b1)
       }
       else Some (v, a1));
     (v1, a3) \<leftarrow> unpacked env v a2;
     a4 \<leftarrow> x_note_column fieldNum a3;
     w \<leftarrow> x_column_value env fieldNum v1 a4;
     Some ((w, HB_SUCCESS), a4)
   }"

definition x_converted :: "'w exenv \<Rightarrow> 'w exarea \<Rightarrow> field \<Rightarrow> item \<Rightarrow> item" where
  "x_converted env a f v =
     (if uiType f = HB_FT_STRING then
        (let s = x_cdp_dup2 env (hb_itemGetC v) (uiLen f) (x_other_cdp env a) (cdPage a)
         in Str (s @ replicate (uiLen f - length s) SPACE))
      else if uiType f = HB_FT_LONG then
        x_put_nlen env (hb_itemGetND v)
          (if uiDec f > 0 then u16 (int (uiLen f) - (int (uiDec f) + 1)) else uiLen f) (uiDec f)
      else v)"

text \<open>The kinds of value a column takes.\<close>

definition x_same_kind :: "item \<Rightarrow> item \<Rightarrow> bool" where
  "x_same_kind dest v \<longleftrightarrow>
     HB_IS_NUMERIC dest \<and> HB_IS_NUMERIC v \<or> HB_IS_STRING dest \<and> HB_IS_STRING v \<or>
     HB_IS_LOGICAL dest \<and> HB_IS_LOGICAL v \<or> HB_IS_DATE dest \<and> HB_IS_DATE v \<or>
     HB_IS_DATETIME dest \<and> HB_IS_DATETIME v"

definition x_store :: "'w exenv \<Rightarrow> field \<Rightarrow> nat \<Rightarrow> item \<Rightarrow> item \<Rightarrow> ('w, item \<times> errcode) exop" where
  "x_store env f col dest v a =
     (if x_same_kind dest v then
        (let w = x_converted env a f v in Some ((w, HB_SUCCESS), a\<lparr>aBuffer := arr_set (aBuffer a) col w\<rparr>))
      else if HB_IS_STRING v \<and> HB_IS_HASH dest \<and> x_multilang env (world a) then do {
        (u, a1) \<leftarrow> x_hash_add env col (arr_get NIL (x_languages env (world a)) 1) v a;
        Some ((v, HB_SUCCESS), a1)
      }
      else if uiType f = HB_FT_MEMO then Some ((v, HB_SUCCESS), a\<lparr>aBuffer := arr_set (aBuffer a) col v\<rparr>)
      else do {
        (u, a1) \<leftarrow> x_common_error env EG_DATATYPE ESQLRDD_DATATYPE a;
        Some ((v, HB_FAILURE), a1)
      })"

definition sqlExPutValue :: "'w exrdd \<Rightarrow> 'w exenv \<Rightarrow> nat \<Rightarrow> item \<Rightarrow> ('w, item \<times> errcode) exop" where
  "sqlExPutValue self env fieldNum v a = do {
     (u, a1) \<leftarrow> x_first self a;
     (u, a2) \<leftarrow> x_force self a1;
     i \<leftarrow> carr (uiBufferIndex a2) fieldNum;
     let col = u16 i;
     m \<leftarrow> wr_at (editMask a2) (int col - 1) True;
     a3 \<leftarrow> x_note_column fieldNum (a2\<lparr>editMask := m\<rparr>);
     (dest, a4) \<leftarrow> (let d = arr_get NIL (aBuffer a3) col in
       if HB_IS_NIL d then do {
         ((r, x), b) \<leftarrow> getMissingColumn env (int col) a3;
         Some (case x of Some w \<Rightarrow> w | None \<Rightarrow> NIL, b)
       }
       else Some (d, a3));
     f \<leftarrow> carr (lpFields a4) fieldNum;
     ((w, r), a5) \<leftarrow> x_store env f col dest v a4;
     Some ((w, r), if r = HB_FAILURE then a5 else a5\<lparr>bufferHot := True\<rparr>)
   }"

section \<open>The life of an area\<close>

text \<open>
  What \<open>sqlExNewArea\<close> sets; the memory it allocates is not written at once, so the numbers in the
  two lists are the ones \<open>recs\<close>, \<open>rtr\<close> and \<open>dels\<close> hold.
\<close>

definition new_area :: "int list \<Rightarrow> int list \<Rightarrow> char list \<Rightarrow> 'w exarea \<Rightarrow> 'w exarea" where
  "new_area recs rtr dels a =
     a\<lparr>oSql := None, hBufferPool := [], aFields := [], sTable := [], sOwner := [], sRecnoName := [],
       sDeletedName := [], iFieldListStatus := FIELD_LIST_LEARNING, hStmtBuffer := None,
       hStmtInsert := None, hStmtNextval := None, hStmtUpdate := None, recordListPos := 0,
       indexColumns := 0, skipDirection := 0, lBofAt := 0, lEofAt := 0, indexLevel := - 1,
       sFields := None, iTCCompat := 0, bIsInsert := False, bufferHot := False,
       bConditionChanged1 := False, bConditionChanged2 := False, bOrderChanged := False,
       bConnVerified := False, recordList := recs, lRecordToRetrieve := rtr, deletedList := dels,
       sSql := [], sSqlBuffer := [], sOrderBy := [], sWhere := [], InsertRecord := None,
       CurrRecord := None, updatedMask := replicate MAX_FIELDS False,
       editMask := replicate MAX_FIELDS False, specialMask := replicate MAX_FIELDS False,
       IndexBindings := replicate MAX_INDEXES None\<rparr>"

definition sqlExNewArea ::
  "'w exenv \<Rightarrow> int list \<Rightarrow> int list \<Rightarrow> char list \<Rightarrow> ('w, errcode) exop" where
  "sqlExNewArea env recs rtr dels a =
     (if length recs = RECORD_LIST_SIZE \<and> length rtr = s_pageReadSize env \<and> length dels = RECORD_LIST_SIZE
      then do { (r, a1) \<leftarrow> x_super env ''NEW'' a; Some (r, new_area recs rtr dels a1) }
      else None)"

definition sqlExOpen :: "'w exenv \<Rightarrow> ('w, errcode) exop" where
  "sqlExOpen env a = do {
     (r, a1) \<leftarrow> x_super env ''OPEN'' a;
     if r \<noteq> HB_SUCCESS then Some (r, a1)
     else do {
       (r2, a2) \<leftarrow> getWorkareaParams env a1;
       Some (if r2 = HB_FAILURE then (HB_FAILURE, a2) else (r, a2\<lparr>bOrderChanged := True\<rparr>))
     }
   }"

definition sqlExCreate :: "'w exenv \<Rightarrow> ('w, errcode) exop" where
  "sqlExCreate env a = x_super env ''CREATE'' a"

text \<open>\<open>sqlExClose\<close>: the area is gone afterwards; what is released is left out.\<close>

definition sqlExClose :: "'w exrdd \<Rightarrow> 'w exenv \<Rightarrow> ('w, errcode) exop" where
  "sqlExClose self env a = do {
     (r, a1) \<leftarrow> ex_goCold self a;
     if r = HB_FAILURE then Some (HB_FAILURE, a1)
     else do { (c, a2) \<leftarrow> x_super env ''CLOSE'' a1; Some (c, a2\<lparr>lpdbPendingRel := None\<rparr>) }
   }"

definition sqlExStructSize :: "nat \<Rightarrow> ('w, nat \<times> errcode) exop" where
  "sqlExStructSize n a = Some ((n, HB_SUCCESS), a)"

section \<open>Settings\<close>

text \<open>\<open>SR_SETPAGEREADSIZE\<close> and \<open>SR_SETBUFFERPOOLSIZE\<close>, with a size that is not negative.\<close>

definition SR_SETPAGEREADSIZE :: "item \<Rightarrow> 'w exenv \<Rightarrow> 'w exenv" where
  "SR_SETPAGEREADSIZE v env =
     (if HB_IS_NUMERIC v then env\<lparr>s_pageReadSize := nat (hb_itemGetNL v)\<rparr> else env)"

definition SR_SETBUFFERPOOLSIZE :: "item \<Rightarrow> 'w exenv \<Rightarrow> 'w exenv" where
  "SR_SETBUFFERPOOLSIZE v env =
     (if HB_IS_NUMERIC v then env\<lparr>s_bufferPoolSize := hb_itemGetNL v\<rparr> else env)"

end
