(* ===== verification/ExSeek.thy ===== *)
theory ExSeek
  imports ExEdit
begin

text \<open>
  Seeking in the second driver: the key is split over the columns of the order and a statement finds
  the first record that is not before it, \<open>source/sqlex3.c\<close> and \<open>sqlExSeek\<close> and \<open>sqlKeyCompareEx\<close> of
  \<open>source/sqlex1.c\<close>.
\<close>

section \<open>The query\<close>

definition createSeekQuery :: "'w exenv \<Rightarrow> bool \<Rightarrow> 'w exarea \<Rightarrow> 'w exarea option" where
  "createSeekQuery env hints a = do {
     (changed, a1) \<leftarrow> SR_getColumnList env a;
     fields \<leftarrow> sFields a1;
     sql \<leftarrow> into MAX_SQL_QUERY_LEN
       (if hints then ''SELECT /*+ INDEX_ASC( A '' @ sOrderBy a1 @ '' ) */ '' @ sLimit1 a1 @ '' '' @ fields @ '' '' @
          [LF] @ ''FROM '' @ sTable a1 @ '' A '' @ sWhere a1 @ '' AND ROWNUM <= 1''
        else ''SELECT '' @ sLimit1 a1 @ '' '' @ fields @ '' '' @ [LF] @ ''FROM '' @ sTable a1 @ '' A '' @ sWhere a1 @
          '' '' @ sOrderBy a1 @ '' '' @ sLimit2 a1);
     Some (a1\<lparr>bConditionChanged1 := (changed \<or> bConditionChanged1 a1), sSql := sql\<rparr>)
   }"

text \<open>The condition for a column; \<open>ahead\<close> tells whether the list is read forward.\<close>

definition seek_condition ::
  "'w exarea \<Rightarrow> indexbind \<Rightarrow> columnbind \<Rightarrow> bool \<Rightarrow> bool \<Rightarrow> bool \<Rightarrow> bytes option option" where
  "seek_condition a ib c lastc fwd ahead = do {
     q \<leftarrow> quoted a (colName c);
     let cmp = (if fwd then ''>='' else ''<='');
     Some (if isArgumentNull c then
             (if iCType c = SQL_C_DOUBLE
              then Some (''( A.'' @ q @ '' '' @ (if lastc then cmp else ''IS'') @ '' '' @
                         (if lastc then ''0'' else ''NULL'') @ '' OR A.'' @ q @ '' IS NULL )'')
              else if lastc \<and> ahead then None
              else Some (''A.'' @ q @ '' IS NULL''))
           else if bIsExpr ib then Some (sExprSQL ib @ '' '' @ (if lastc then cmp else ''='') @ '' ?'')
           else Some (''A.'' @ q @ '' '' @ (if lastc then cmp else ''='') @ '' ?''))
   }"

text \<open>The columns from \<open>i\<close> on, \<open>k\<close> of them; the result is whether the hint may be used.\<close>

fun seek_columns :: "bool \<Rightarrow> bool \<Rightarrow> nat \<Rightarrow> nat \<Rightarrow> bool \<Rightarrow> bool \<Rightarrow> 'w exarea \<Rightarrow> (bool \<times> 'w exarea) option" where
  "seek_columns fwd ahead 0 i bWhere hints a = Some (hints, a)"
| "seek_columns fwd ahead (Suc k) i bWhere hints a = do {
     ib \<leftarrow> index_bind a (hOrdCurrent a) i;
     c \<leftarrow> SR_GetIndexColBind a (hOrdCurrent a) i;
     cond \<leftarrow> seek_condition a ib c (k = 0) fwd ahead;
     (w, a1) \<leftarrow> (case cond of None \<Rightarrow> Some (bWhere, a) | Some t \<Rightarrow> add_condition t bWhere a);
     seek_columns fwd ahead k (Suc i) True (hints \<and> \<not> isArgumentNull c) a1
   }"

definition getSeekWhereExpression ::
  "'w exenv \<Rightarrow> listtype \<Rightarrow> nat \<Rightarrow> bool \<Rightarrow> ('w, bool) exop" where
  "getSeekWhereExpression env t queryLevel hints a = do {
     let ahead = (t = SR_LIST_SKIP_FWD);
     (h, a1) \<leftarrow> seek_columns (ahead \<noteq> bReverseIndex a) ahead queryLevel 0 False hints
       (a\<lparr>sWhere := [], recordListDirection := (if ahead then SR_LIST_FORWARD else SR_LIST_BACKWARD)\<rparr>);
     a2 \<leftarrow> SR_SolveFilters env (sWhere a1 \<noteq> []) a1;
     Some (h, a2)
   }"

definition seek_stmt :: "'w exarea \<Rightarrow> indexbind \<Rightarrow> stmt option" where
  "seek_stmt a ib = (if recordListDirection a = SR_LIST_FORWARD then SeekFwdStmt ib else SeekBwdStmt ib)"

definition put_seek_stmt :: "'w exarea \<Rightarrow> stmt option \<Rightarrow> indexbind \<Rightarrow> indexbind" where
  "put_seek_stmt a st ib =
     (if recordListDirection a = SR_LIST_FORWARD then ib\<lparr>SeekFwdStmt := st\<rparr> else ib\<lparr>SeekBwdStmt := st\<rparr>)"

definition prepareSeekQuery :: "'w exenv \<Rightarrow> ('w, errcode) exop" where
  "prepareSeekQuery env a =
     (if CHECK_SQL_N_OK (alloc_stmt env (world a)) \<or> CHECK_SQL_N_OK (prepare env (sSql a) (world a))
      then Some (HB_FAILURE, a)
      else do {
        ib \<leftarrow> index_bind a (hOrdCurrent a) 0;
        a1 \<leftarrow> put_index_bind (hOrdCurrent a) 0
               (put_seek_stmt a (Some \<lparr>st_sql = sSql a, st_binds = []\<rparr>) ib) a;
        Some (HB_SUCCESS, a1)
      })"

definition SR_CreateSeekStmt :: "'w exenv \<Rightarrow> nat \<Rightarrow> ('w, bool) exop" where
  "SR_CreateSeekStmt env queryLevel a = do {
     let a0 = a\<lparr>bConditionChanged1 := True\<rparr>;
     slot \<leftarrow> rd_at (IndexBindings a0) (hOrdCurrent a0);
     a1 \<leftarrow> (if slot = None then SR_SetIndexBindStructure a0 else Some a0);
     ib \<leftarrow> index_bind a1 (hOrdCurrent a1) 0;
     if \<not> (bConditionChanged2 a1 \<or> bRebuildSeekQuery a1 \<or> seek_stmt a1 ib = None) then Some (False, a1)
     else do {
       a2 \<leftarrow> put_index_bind (hOrdCurrent a1) 0 (ib\<lparr>SeekFwdStmt := None, SeekBwdStmt := None\<rparr>)
              (a1\<lparr>indexColumns := length (order_columns a1)\<rparr>);
       (hints, a3) \<leftarrow> getSeekWhereExpression env
         (if recordListDirection a2 = SR_LIST_FORWARD then SR_LIST_SKIP_FWD else SR_LIST_SKIP_BWD)
         queryLevel (nSystemID a2 = RDBMS_ORACLE) a2;
       a4 \<leftarrow> SR_getOrderByExpression hints a3;
       a5 \<leftarrow> SR_setResultSetLimit 1 a4;
       a6 \<leftarrow> createSeekQuery env hints a5;
       (r, a7) \<leftarrow> prepareSeekQuery env a6;
       Some (True, a7\<lparr>bOrderChanged := False\<rparr>)
     }
   }"

section \<open>The key\<close>

text \<open>The columns of an order that was not sought in before, from the \<open>i\<close>-th on: they have to be read,
  and their statements are gone.\<close>

fun reset_seek :: "nat \<Rightarrow> nat \<Rightarrow> 'w exarea \<Rightarrow> 'w exarea option" where
  "reset_seek 0 i a = Some a"
| "reset_seek (Suc k) i a = do {
     let ord = hOrdCurrent a;
     c \<leftarrow> SR_GetIndexColBind a ord i;
     used \<leftarrow> rd_at (uiFieldList a) (lFieldPosDB c - 1);
     let a1 = (if used = 0
               then a\<lparr>uiFieldList := (uiFieldList a)[nat (lFieldPosDB c - 1) := 1], iFieldListStatus := FIELD_LIST_CHANGED\<rparr>
               else a);
     a2 \<leftarrow> put_IndexColBind ord i (c\<lparr>isArgumentNull := False\<rparr>) a1;
     ib \<leftarrow> index_bind a2 ord i;
     a3 \<leftarrow> put_index_bind ord i
            (ib\<lparr>iLevel := Suc i, iIndexColumns := indexColumns a2, SeekFwdStmt := None, SeekBwdStmt := None\<rparr>) a2;
     reset_seek k (Suc i)
       (a3\<lparr>bRebuildSeekQuery := (bRebuildSeekQuery a3 \<or> SeekFwdStmt ib \<noteq> None \<or> SeekBwdStmt ib \<noteq> None)\<rparr>)
   }"

text \<open>A part of a text key in a column: the column, whether the query has to be made again, and how much
  of the key was used.\<close>

definition key_char :: "bytes \<Rightarrow> columnbind \<Rightarrow> (columnbind \<times> bool \<times> int) option" where
  "key_char key c =
     (let size = min (int (length key)) (ColumnSize c);
          t = rtrim_spaces (take (nat size) key)
      in if t = [] then
           (if \<not> isNullable c then
              (if size_alloc c < 2 then None else Some (c\<lparr>asChar := [SPACE]\<rparr>, False, size))
            else if size_alloc c < 1 then None
            else Some (c\<lparr>asChar := [], isArgumentNull := True\<rparr>, \<not> isArgumentNull c, size))
         else if int (length t) + 1 > size_alloc c then None
         else Some (c\<lparr>asChar := t, isArgumentNull := False\<rparr>, isArgumentNull c, size))"

text \<open>A date may be given in part; the mask has room for nine bytes.\<close>

definition key_date :: "'w exenv \<Rightarrow> bytes \<Rightarrow> columnbind \<Rightarrow> ((int \<times> int \<times> int) \<times> int) option" where
  "key_date env key c =
     (let size = min (int (length key)) (ColumnSize c);
          part = take (nat size) key;
          mask = part @ drop (length part) ''10000101''
      in if length part > 9 then None
         else Some ((x_str_int env (take 4 mask), x_str_int env (take 2 (drop 4 mask)),
                     x_str_int env (take 2 (drop 6 mask))), size))"

definition key_part :: "'w exenv \<Rightarrow> bytes \<Rightarrow> columnbind \<Rightarrow> (columnbind \<times> bool \<times> int) option" where
  "key_part env key c =
     (if iCType c = SQL_C_CHAR then key_char key c
      else if iCType c = SQL_C_DOUBLE then
        Some (c\<lparr>asNumeric := x_str_val env (take (nat (ColumnSize c)) key)\<rparr>, False, ColumnSize c)
      else if iCType c = SQL_C_TYPE_TIMESTAMP then
        do { (d, size) \<leftarrow> key_date env key c; Some (c\<lparr>asTimestamp := (d, 0, 0, 0)\<rparr>, False, size) }
      else if iCType c = SQL_C_TYPE_DATE then
        do { (d, size) \<leftarrow> key_date env key c; Some (c\<lparr>asDate := d\<rparr>, False, size) }
      else Some (c, False, 0))"

text \<open>The key over the columns from \<open>i\<close> on, \<open>k\<close> of them; the result is the level of the query.\<close>

fun split_key :: "'w exenv \<Rightarrow> bytes \<Rightarrow> nat \<Rightarrow> nat \<Rightarrow> ('w, nat) exop" where
  "split_key env key 0 i a = Some (indexColumns a, a)"
| "split_key env key (Suc k) i a = do {
     c \<leftarrow> SR_GetIndexColBind a (hOrdCurrent a) i;
     (c1, again, size) \<leftarrow> key_part env key c;
     a1 \<leftarrow> put_IndexColBind (hOrdCurrent a) i c1 a;
     let a2 = a1\<lparr>bRebuildSeekQuery := (bRebuildSeekQuery a1 \<or> again)\<rparr>;
     if int (length key) - size \<le> 0 then Some (Suc i, a2)
     else split_key env (drop (nat size) key) k (Suc i) a2
   }"

text \<open>A key of another type goes to the first column; \<open>None\<close> when the types do not fit.\<close>

definition key_value_bind :: "'w exenv \<Rightarrow> item \<Rightarrow> columnbind \<Rightarrow> columnbind option" where
  "key_value_bind env key c =
     (if HB_IS_NUMERIC key then
        (if iCType c \<noteq> SQL_C_DOUBLE then None else Some (c\<lparr>asNumeric := hb_itemGetND key\<rparr>))
      else if HB_IS_DATE key \<or> HB_IS_DATETIME key then
        (if iCType c = SQL_C_TYPE_DATE then Some (c\<lparr>asDate := x_date_decode env (hb_itemGetDL key)\<rparr>)
         else if iCType c = SQL_C_TYPE_TIMESTAMP
           then Some (c\<lparr>asTimestamp := (x_date_decode env (hb_itemGetDL key), x_time_decode env (snd (item_TDT key)))\<rparr>)
         else None)
      else if HB_IS_LOGICAL key then
        (if iCType c \<noteq> SQL_C_BIT then None else Some (c\<lparr>asLogical := hb_itemGetL key\<rparr>))
      else Some c)"

definition SR_FeedSeekKeyToBindings :: "'w exenv \<Rightarrow> item \<Rightarrow> ('w, errcode \<times> nat) exop" where
  "SR_FeedSeekKeyToBindings env key a = do {
     ib \<leftarrow> index_bind a (hOrdCurrent a) 0;
     a1 \<leftarrow> (if hOrdCurrent a = hIndexOrder ib then Some a
           else do {
             b \<leftarrow> put_index_bind (hOrdCurrent a) 0 (ib\<lparr>hIndexOrder := hOrdCurrent a\<rparr>) a;
             reset_seek (indexColumns b) 0 (b\<lparr>bConditionChanged2 := True\<rparr>)
           });
     if HB_IS_STRING key then do {
       (lev, a2) \<leftarrow> split_key env (hb_itemGetC key) (indexColumns a1) 0 a1;
       Some ((HB_SUCCESS, lev), a2)
     }
     else do {
       c \<leftarrow> SR_GetIndexColBind a1 (hOrdCurrent a1) 0;
       (case key_value_bind env key c of
          None \<Rightarrow> Some ((HB_FAILURE, 1), a1)
        | Some c1 \<Rightarrow> do {
            a2 \<leftarrow> put_IndexColBind (hOrdCurrent a1) 0 c1 a1;
            Some ((HB_SUCCESS, 1), a2)
          })
     }
   }"

section \<open>Binding and executing\<close>

definition seek_ref :: "int \<Rightarrow> nat \<Rightarrow> indexbind \<Rightarrow> columnbind \<Rightarrow> bindref option" where
  "seek_ref ord j ib c =
     (if iCType c \<in> {SQL_C_CHAR, SQL_C_DOUBLE, SQL_C_TYPE_TIMESTAMP, SQL_C_TYPE_DATE, SQL_C_BIT}
      then Some (if bIsExpr ib then BindExpr (nat ord) j
                 else BindCol (nat (ib_lFieldPosDB ib - 1)) (iCType c) False)
      else None)"

definition bind_seek_slot :: "'w exenv \<Rightarrow> int \<Rightarrow> bindref \<Rightarrow> 'w exarea \<Rightarrow> (sqlreturn \<times> 'w exarea) option" where
  "bind_seek_slot env n r a = do {
     ib \<leftarrow> index_bind a (hOrdCurrent a) 0;
     let (res, h) = bind_handle env (seek_stmt a ib) n r a;
     a1 \<leftarrow> put_index_bind (hOrdCurrent a) 0 (put_seek_stmt a h ib) a;
     Some (res, a1)
   }"

fun bind_seek :: "'w exenv \<Rightarrow> nat \<Rightarrow> nat \<Rightarrow> int \<Rightarrow> sqlreturn \<Rightarrow> 'w exarea \<Rightarrow> 'w exarea option" where
  "bind_seek env 0 j n res a = Some a"
| "bind_seek env (Suc k) j n res a = do {
     let ord = hOrdCurrent a;
     ib \<leftarrow> index_bind a ord j;
     c0 \<leftarrow> SR_GetIndexColBind a ord j;
     if isArgumentNull c0 then bind_seek env k (Suc j) n res a
     else do {
       let c = (if nSystemID a = RDBMS_ORACLE \<and> iCType c0 = SQL_C_TYPE_DATE
                then c0\<lparr>iCType := SQL_C_TYPE_TIMESTAMP\<rparr> else c0);
       a1 \<leftarrow> put_IndexColBind ord j (c\<lparr>iParNum := n + 1\<rparr>) a;
       (res1, a2) \<leftarrow> (case seek_ref ord j ib c of
                       None \<Rightarrow> Some (res, a1)
                     | Some r \<Rightarrow> bind_seek_slot env n r a1);
       a3 \<leftarrow> report env res1 a2;
       bind_seek env k (Suc j) (n + 1) res1 a3
     }
   }"

definition SR_BindSeekStmt :: "'w exenv \<Rightarrow> nat \<Rightarrow> 'w exarea \<Rightarrow> 'w exarea option" where
  "SR_BindSeekStmt env queryLevel a = bind_seek env queryLevel 0 1 SQL_ERROR a"

text \<open>The row that was found and the number of columns before the fields, or nothing.\<close>

definition SR_getPreparedSeek :: "'w exenv \<Rightarrow> ('w, (item list \<times> nat) option) exop" where
  "SR_getPreparedSeek env a = do {
     ib \<leftarrow> index_bind a (hOrdCurrent a) 0;
     (case seek_stmt a ib of
        None \<Rightarrow> do { (u, a1) \<leftarrow> odbc_error env [] a; Some (None, a1) }
      | Some st \<Rightarrow> do {
          let (an, a1) = SQLExecute env st a;
          if CHECK_SQL_N_OK (an_res an) then do { (u, a2) \<leftarrow> odbc_error env [] a1; Some (None, a2) }
          else (case SQLFetch (an_rows an) of (res, row, rest) \<Rightarrow>
            if res \<noteq> SQL_SUCCESS then Some (None, a1)
            else (case SQLGetData_long env row 1 of (r, n) \<Rightarrow>
              if r = SQL_ERROR then Some (None, a1)
              else do {
                rl \<leftarrow> wr_at (recordList a1) 0 n;
                let a2 = a1\<lparr>recordList := rl\<rparr>;
                (case (if ulhDeleted a2 > 0 then SQLGetData_char env row 2 else (SQL_SUCCESS, SPACE)) of (r2, c) \<Rightarrow>
                  if r2 = SQL_ERROR then Some (None, a2)
                  else do {
                    dl \<leftarrow> wr_at (deletedList a2) 0 (deleted_flag c);
                    Some (Some (row, if ulhDeleted a2 > 0 then 2 else 1),
                          a2\<lparr>deletedList := dl, recordListSize := 1, recordListPos := 0\<rparr>)
                  })
              }))
        })
   }"

section \<open>Comparing keys\<close>

definition x_loadTagDefault :: "'w exenv \<Rightarrow> ('w, item option) exop" where
  "x_loadTagDefault env a =
     (if HB_IS_OBJECT (oWorkArea a) then do {
        (r, a1) \<leftarrow> x_send env ''SQLORDERLISTNUM'' [NIL] a;
        let n = hb_itemGetNL r;
        Some (if n \<noteq> 0 then Some (if 1 \<le> n then arr_get NIL (aOrders a1) (nat n) else NIL) else None, a1)
      }
      else do {
        (u, a1) \<leftarrow> x_common_error env EG_DATATYPE ESQLRDD_DATATYPE a;
        Some (None, a1)
      })"

text \<open>As in the first driver, but that a numeric block is two more than the column of the buffer.\<close>

definition x_key_value :: "'w exenv \<Rightarrow> item \<Rightarrow> ('w, item \<times> nat) exop" where
  "x_key_value env tag a =
     (let b = hb_arrayGet tag SR_AINDEX_INDEX_KEY_CODEBLOCK in
      if HB_IS_NUMERIC b then
        (let v = arr_get NIL (aBuffer a) (nat (hb_itemGetNL b - 2))
         in Some ((v, u8 (int (u8 (int (x_rtrim_len env (hb_itemGetC v)))) - 15)), a))
      else do {
        (v, a1) \<leftarrow> x_eval_block env b a;
        Some ((v, u8 (int (length (hb_itemGetC v)))), a1)
      })"

definition x_key_text :: "'w exenv \<Rightarrow> item \<Rightarrow> nat \<Rightarrow> bytes \<times> nat" where
  "x_key_text env key len1 =
     (if HB_IS_DATE key then (x_date_text env (hb_itemGetDL key), 8)
      else if HB_IS_NUMERIC key then
        (let t = x_item_text env key (INum (int len1)) in (t, u8 (int (length t))))
      else if HB_IS_LOGICAL key then (if hb_itemGetL key then ''T'' else ''F'', 1)
      else (hb_itemGetC key, u8 (int (length (hb_itemGetC key)))))"

definition sqlKeyCompareEx :: "'w exrdd \<Rightarrow> 'w exenv \<Rightarrow> item \<Rightarrow> bool \<Rightarrow> ('w, int) exop" where
  "sqlKeyCompareEx self env key exact a = do {
     (tag, a1) \<leftarrow> x_loadTagDefault env a;
     (case tag of
        None \<Rightarrow> Some (0, a1)
      | Some t \<Rightarrow> do {
          (u, a2) \<leftarrow> x_first self a1;
          ((v, len1), a3) \<leftarrow> x_key_value env t a2;
          let (val2, len2) = x_key_text env key len1;
          r \<leftarrow> key_result v len1 val2 len2 exact;
          Some (r, a3)
        })
   }"

section \<open>Seeking\<close>

abbreviation EDBF_NOTINDEXED :: int where "EDBF_NOTINDEXED \<equiv> 1201"

definition x_seek_key :: "'w exenv \<Rightarrow> item \<Rightarrow> 'w exarea \<Rightarrow> item" where
  "x_seek_key env key a =
     (if HB_IS_STRING key \<and> cdPage a \<noteq> 0 \<and> cdPage a \<noteq> x_other_cdp env a
      then Str (x_cdp_dup env (hb_itemGetC key) (x_other_cdp env a) (cdPage a)) else key)"

text \<open>Whether the record found has the key; without the key and without a soft seek the area goes to the
  end.\<close>

definition judge_found :: "'w exrdd \<Rightarrow> 'w exenv \<Rightarrow> item \<Rightarrow> bool \<Rightarrow> bool \<Rightarrow> ('w, unit) exop" where
  "judge_found self env key soft first a = do {
     (c, a1) \<leftarrow> sqlKeyCompareEx self env key False a;
     Some ((), if c \<noteq> 0
               then (if first then a1\<lparr>fFound := True, fBof := False, fEof := False\<rparr> else a1\<lparr>fFound := True\<rparr>)
               else if soft then a1\<lparr>fFound := False\<rparr> else x_cleanBuffer (a1\<lparr>fFound := False\<rparr>))
   }"

definition seek_record :: "'w exrdd \<Rightarrow> 'w exenv \<Rightarrow> item \<Rightarrow> bool \<Rightarrow> bool \<Rightarrow> item list \<Rightarrow> nat \<Rightarrow> ('w, errcode) exop" where
  "seek_record self env key soft findLast row i a = do {
     rec \<leftarrow> row_record env row i a;
     (u, a1) \<leftarrow> judge_found self env key soft True (a\<lparr>aBuffer := hb_arrayCopy rec (aBuffer a)\<rparr>);
     if x_filtering env a1 \<and> \<not> fEof a1 then do {
       (ret, a2) \<leftarrow> ex_skipFilter self (if findLast then - 1 else 1) a1;
       if fEof a2 then Some (ret, a2\<lparr>fFound := False\<rparr>)
       else do {
         (u, a3) \<leftarrow> judge_found self env key soft False a2;
         Some (ret, a3)
       }
     }
     else Some (HB_SUCCESS, a1)
   }"

definition seek_bound :: "'w exrdd \<Rightarrow> 'w exenv \<Rightarrow> item \<Rightarrow> bool \<Rightarrow> bool \<Rightarrow> nat \<Rightarrow> ('w, errcode) exop" where
  "seek_bound self env key soft findLast lev a = do {
     (new, a1) \<leftarrow> SR_CreateSeekStmt env lev (a\<lparr>bRebuildSeekQuery := True\<rparr>);
     a2 \<leftarrow> (if new then SR_BindSeekStmt env lev a1 else Some a1);
     (found, a3) \<leftarrow> SR_getPreparedSeek env (a2\<lparr>bConditionChanged2 := False\<rparr>);
     (ret, a4) \<leftarrow> (case found of
                    None \<Rightarrow> Some (HB_SUCCESS, (x_cleanBuffer a3)\<lparr>fFound := False\<rparr>)
                  | Some (row, i) \<Rightarrow> seek_record self env key soft findLast row i a3);
     let a5 = a4\<lparr>bRebuildSeekQuery := True\<rparr>;
     if lpdbRelations a5 \<and> ret = HB_SUCCESS then x_sync_children env a5 else Some (HB_SUCCESS, a5)
   }"

definition sqlExSeek :: "'w exrdd \<Rightarrow> 'w exenv \<Rightarrow> bool \<Rightarrow> item \<Rightarrow> bool \<Rightarrow> ('w, errcode) exop" where
  "sqlExSeek self env soft key0 findLast a = do {
     (r, a1) \<leftarrow> ex_goCold self
       ((leave_pos a)\<lparr>fTop := False, fBottom := False, fEof := False\<rparr>);
     if r = HB_FAILURE then Some (HB_FAILURE, a1)
     else if hOrdCurrent a1 = 0 then do {
       (u, a2) \<leftarrow> x_common_error env EG_NOORDER EDBF_NOTINDEXED a1;
       Some (HB_FAILURE, a2)
     }
     else do {
       let key = x_seek_key env key0 a1;
       let a2 = (if CurrRecord a1 = None then SR_SetCurrRecordStructure a1 else a1)
                  \<lparr>recordListDirection := (if findLast then SR_LIST_BACKWARD else SR_LIST_FORWARD)\<rparr>;
       slot \<leftarrow> rd_at (IndexBindings a2) (hOrdCurrent a2);
       a3 \<leftarrow> (if slot = None then SR_SetIndexBindStructure a2 else Some a2);
       ((r2, lev), a4) \<leftarrow> SR_FeedSeekKeyToBindings env key a3;
       if r2 \<noteq> HB_SUCCESS then Some (HB_FAILURE, a4) else seek_bound self env key soft findLast lev a4
     }
   }"

end
