(* ===== verification/Orders.thy ===== *)
theory Orders
  imports Data
begin

text \<open>
  Orders, filters and scopes of a work area, \<open>source/sqlrdd1.c\<close>: \<open>sqlOrderListAdd\<close> to \<open>sqlLocate\<close>. An
  order is described by an array of the list \<open>aOrders\<close>, which the work area object shares; the positions
  in it are those of \<open>include/sqlrddsetup.ch\<close>. Null pointers to items are \<open>None\<close>.
\<close>

section \<open>Order information\<close>

record orderinfo =
  itmOrder :: "item option"
  oi_atomBagName :: "item option"
  itmResult :: "item option"
  itmNewVal :: "item option"

text \<open>\<open>hb_itemPut..\<close> makes a new item of the null pointer, which nobody sees; a copy to it is an access
  outside.\<close>

definition put_result :: "item \<Rightarrow> orderinfo \<Rightarrow> orderinfo" where
  "put_result v i = i\<lparr>itmResult := map_option (\<lambda>_. v) (itmResult i)\<rparr>"

definition copy_result :: "item \<Rightarrow> orderinfo \<Rightarrow> orderinfo option" where
  "copy_result v i = (if itmResult i = None then None else Some (put_result v i))"

definition or_NIL :: "item option \<Rightarrow> item" where
  "or_NIL v = (case v of Some x \<Rightarrow> x | None \<Rightarrow> NIL)"

definition or_empty :: "bytes option \<Rightarrow> item" where
  "or_empty s = Str (case s of Some x \<Rightarrow> x | None \<Rightarrow> [])"

abbreviation SR_AINDEX_INDEX_KEY :: nat where "SR_AINDEX_INDEX_KEY \<equiv> 4"
abbreviation SR_AORDER_UNIQUE :: nat where "SR_AORDER_UNIQUE \<equiv> 4"
abbreviation SR_AINDEX_FOR_CLAUSE :: nat where "SR_AINDEX_FOR_CLAUSE \<equiv> 5"
abbreviation SR_AINDEX_ORDER_TAG :: nat where "SR_AINDEX_ORDER_TAG \<equiv> 9"
abbreviation SR_AINDEX_ORDER_NAME :: nat where "SR_AINDEX_ORDER_NAME \<equiv> 10"
abbreviation SR_AINDEX_TOP_SCOPE :: nat where "SR_AINDEX_TOP_SCOPE \<equiv> 11"
abbreviation SR_AINDEX_BOTTOM_SCOPE :: nat where "SR_AINDEX_BOTTOM_SCOPE \<equiv> 12"
abbreviation SR_AINDEX_ORDER_SKIP_UP :: nat where "SR_AINDEX_ORDER_SKIP_UP \<equiv> 14"
abbreviation SR_AINDEX_ORDER_SKIP_DOWN :: nat where "SR_AINDEX_ORDER_SKIP_DOWN \<equiv> 15"
abbreviation SR_AINDEX_DESCEND_INDEX_ORDER :: nat where "SR_AINDEX_DESCEND_INDEX_ORDER \<equiv> 17"
abbreviation TOP_BOTTOM_SCOPE :: int where "TOP_BOTTOM_SCOPE \<equiv> 2"

section \<open>The list of orders\<close>

text \<open>An answer of the object that is an order number becomes the current order.\<close>

definition take_order :: "item \<Rightarrow> ('w, errcode) op" where
  "take_order r a =
     (if hb_itemGetNL r \<noteq> 0 then Some (HB_SUCCESS, a\<lparr>hOrdCurrent := hb_itemGetNL r\<rparr>)
      else Some (HB_FAILURE, a))"

definition sqlOrderListAdd :: "'w env \<Rightarrow> orderinfo \<Rightarrow> ('w, errcode) op" where
  "sqlOrderListAdd env i a = do {
     (r, a1) \<leftarrow> send env ''SQLORDERLISTADD'' [or_NIL (oi_atomBagName i), or_NIL (itmOrder i)] a;
     take_order r a1
   }"

definition sqlOrderListClear :: "'w env \<Rightarrow> ('w, errcode) op" where
  "sqlOrderListClear env a = do {
     (r, a1) \<leftarrow> send env ''SQLORDERLISTCLEAR'' [] a;
     Some (if hb_itemGetL r then (HB_SUCCESS, a1\<lparr>hOrdCurrent := 0\<rparr>) else (HB_FAILURE, a1))
   }"

definition sqlOrderListFocus :: "'w env \<Rightarrow> orderinfo \<Rightarrow> ('w, orderinfo \<times> errcode) op" where
  "sqlOrderListFocus env i a = do {
     ((tag, lorder), a1) \<leftarrow> sr_loadTagDefault env None a;
     i1 \<leftarrow> (case tag of Some t \<Rightarrow> copy_result (hb_arrayGet t SR_AINDEX_ORDER_TAG) i
                     | None \<Rightarrow> Some (put_result (Str []) i));
     (case itmOrder i1 of
        None \<Rightarrow> Some ((i1, HB_SUCCESS), a1)
      | Some ord \<Rightarrow> do {
          (r, a2) \<leftarrow> send env ''SQLORDERLISTFOCUS'' [ord, or_NIL (oi_atomBagName i1)] a1;
          Some ((i1, HB_SUCCESS), a2\<lparr>hOrdCurrent := hb_itemGetNL r\<rparr>)
        })
   }"

section \<open>Making and removing orders\<close>

definition opt_str :: "bytes option \<Rightarrow> item" where
  "opt_str s = (case s of Some x \<Rightarrow> Str x | None \<Rightarrow> NIL)"

definition condition_args :: "condinfo option \<Rightarrow> item list" where
  "condition_args c =
     (case c of
        None \<Rightarrow> [NIL, NIL, NIL, NIL, NIL, NIL, NIL]
      | Some k \<Rightarrow> [opt_str (abFor k), opt_str (abWhile k), or_NIL (itmStartRecID k), INum (lNextCount k),
                   or_NIL (itmRecID k), Logical (fRest k), Logical (fDescending k)])"

definition sqlOrderCondition :: "'w env \<Rightarrow> condinfo option \<Rightarrow> ('w, errcode) op" where
  "sqlOrderCondition env c a = do {
     (r, a1) \<leftarrow> send env ''SQLORDERCONDITION'' (condition_args c) a;
     (r2, a2) \<leftarrow> super_ordSetCond env c a1;
     Some (HB_SUCCESS, a2)
   }"

record constraintinfo =
  abConstrName :: "bytes option"
  abTargetName :: "bytes option"
  itmRelationKey :: item
  fEnabled :: bool

record ordercreateinfo =
  abBagName :: "bytes option"
  abExpr :: item
  oc_atomBagName :: "bytes option"
  lpdbConstraintInfo :: "constraintinfo option"

definition create_args :: "ordercreateinfo \<Rightarrow> item list" where
  "create_args i =
     [or_empty (abBagName i), abExpr i, or_empty (oc_atomBagName i)] @
     (case lpdbConstraintInfo i of
        None \<Rightarrow> []
      | Some c \<Rightarrow> [or_empty (abConstrName c), or_empty (abTargetName c), itmRelationKey c, Logical (fEnabled c)])"

definition sqlOrderCreate :: "'w rdd \<Rightarrow> 'w env \<Rightarrow> ordercreateinfo \<Rightarrow> ('w, errcode) op" where
  "sqlOrderCreate self env i a = do {
     (r, a1) \<leftarrow> self_goCold self a;
     if r = HB_FAILURE then Some (HB_FAILURE, a1)
     else do {
       (v, a2) \<leftarrow> send env ''SQLORDERCREATE'' (create_args i) a1;
       take_order v a2
     }
   }"

definition sqlOrderDestroy :: "'w rdd \<Rightarrow> 'w env \<Rightarrow> orderinfo \<Rightarrow> ('w, errcode) op" where
  "sqlOrderDestroy self env i a = do {
     (r, a1) \<leftarrow> self_goCold self a;
     if r = HB_FAILURE then Some (HB_FAILURE, a1)
     else do {
       ((tag, lorder), a2) \<leftarrow> sr_loadTagDefault env None a1;
       (case tag of
          None \<Rightarrow> Some (HB_FAILURE, a2)
        | Some t \<Rightarrow>
            (case itmOrder i of
               None \<Rightarrow> Some (HB_SUCCESS, a2)
             | Some ord \<Rightarrow> do {
                 (v, a3) \<leftarrow> send env ''SQLORDERDESTROY'' [ord, or_NIL (oi_atomBagName i)] a2;
                 take_order v a3
               }))
     }
   }"

section \<open>Scopes\<close>

text \<open>The answer 0 to a scope is success, and may ask for a positioning before the next access.\<close>

definition after_scope :: "'w env \<Rightarrow> item \<Rightarrow> ('w, errcode) op" where
  "after_scope env r a =
     (let res = hb_itemGetNL r;
          a1 = (if res = 0 \<and> go_top_on_scope env (world a) then a\<lparr>firstinteract := True\<rparr> else a)
      in Some (if res = 0 then HB_SUCCESS else HB_FAILURE, a1))"

definition sqlSetServerSideIndexScope :: "'w env \<Rightarrow> int \<Rightarrow> item option \<Rightarrow> ('w, errcode) op" where
  "sqlSetServerSideIndexScope env nScope scopeValue a = do {
     (r, a1) \<leftarrow> send env ''SQLSETSCOPE'' [INum nScope, or_NIL scopeValue] a;
     after_scope env r a1
   }"

definition sqlSetScope :: "'w env \<Rightarrow> int \<Rightarrow> item option \<Rightarrow> ('w, errcode) op" where
  "sqlSetScope env nScope scopeValue a = do {
     let v = or_NIL scopeValue;
     let w = (if HB_IS_STRING v \<and> must_convert env a
              then Str (cdp_dup env (hb_itemGetC v) (other_cdp env a) (cdPage a)) else v);
     (r, a1) \<leftarrow> send env ''SQLSETSCOPE'' [INum nScope, w] a;
     after_scope env r a1
   }"

definition sqlScopeInfo :: "'w env \<Rightarrow> nat \<Rightarrow> ('w, item \<times> errcode) op" where
  "sqlScopeInfo env nScope a =
     (if aOrders a = [] then Some ((NIL, HB_SUCCESS), a)
      else if HB_IS_OBJECT (oWorkArea a) then do {
        (r, a1) \<leftarrow> send env ''SQLORDERLISTNUM'' [NIL] a;
        let lorder = hb_itemGetNL r;
        Some ((if lorder \<noteq> 0
               then hb_arrayGet (if 1 \<le> lorder then arr_get NIL (aOrders a1) (nat lorder) else NIL)
                      (if nScope \<noteq> 0 then SR_AINDEX_BOTTOM_SCOPE else SR_AINDEX_TOP_SCOPE)
               else NIL, HB_SUCCESS), a1)
      }
      else do {
        (u, a1) \<leftarrow> common_error env EG_DATATYPE ESQLRDD_DATATYPE a;
        Some ((NIL, HB_FAILURE), a1)
      })"

section \<open>Filters\<close>

definition sqlClearFilter :: "'w env \<Rightarrow> ('w, errcode) op" where
  "sqlClearFilter env a = do {
     (u, a1) \<leftarrow> (if sqlfilter a
       then do { (r, b) \<leftarrow> send env ''SQLCLEARFILTER'' [] a; Some ((), b\<lparr>sqlfilter := False\<rparr>) }
       else Some ((), a));
     super_clearFilter env a1
   }"

definition sqlFilterText :: "'w env \<Rightarrow> item \<Rightarrow> ('w, item \<times> errcode) op" where
  "sqlFilterText env pFilter a =
     (if sqlfilter a
      then do { (r, a1) \<leftarrow> send env ''SQLFILTERTEXT'' [] a; Some ((r, HB_SUCCESS), a1) }
      else super_filterText env pFilter a)"

definition sqlSetFilter :: "'w rdd \<Rightarrow> 'w env \<Rightarrow> filterinfo \<Rightarrow> ('w, errcode) op" where
  "sqlSetFilter self env f a = do {
     (r, a1) \<leftarrow> (if lpdbPendingRel a \<noteq> None then self_forceRel self a else Some (HB_SUCCESS, a));
     if r \<noteq> HB_SUCCESS then Some (HB_FAILURE, a1)
     else do {
       (r2, a2) \<leftarrow> super_clearFilter env a1;
       (v, a3) \<leftarrow> send env ''SQLSETFILTER'' [abFilterText f] a2;
       if hb_itemGetNL v = HB_SUCCESS then Some (HB_SUCCESS, a3\<lparr>sqlfilter := True\<rparr>)
       else super_setFilter env self f a3
     }
   }"

definition sqlLocate :: "'w rdd \<Rightarrow> 'w env \<Rightarrow> bool \<Rightarrow> ('w, errcode) op" where
  "sqlLocate self env fContinue a = do {
     (err, a1) \<leftarrow> super_locate env self fContinue a;
     Some (err, set_infoL SR_AINFO_FOUND (fFound a1) a1)
   }"

section \<open>Questions about the current order\<close>

datatype dboi =
    DBOI_BAGEXT | DBOI_KEYCOUNTRAW | DBOI_KEYCOUNT | DBOI_CONDITION | DBOI_EXPRESSION | DBOI_NUMBER
  | DBOI_BAGNAME | DBOI_NAME | DBOI_POSITION | DBOI_KEYNORAW | DBOI_ISCOND | DBOI_ISDESC | DBOI_UNIQUE
  | DBOI_CUSTOM | DBOI_SCOPETOP | DBOI_SCOPEBOTTOM | DBOI_SCOPETOPCLEAR | DBOI_SCOPEBOTTOMCLEAR
  | DBOI_SCOPESET | DBOI_KEYADD | DBOI_KEYDELETE | DBOI_KEYVAL | DBOI_ORDERCOUNT | DBOI_other int

text \<open>A position of the order's array, or the empty text when there is no order.\<close>

definition tag_entry :: "'w env \<Rightarrow> nat \<Rightarrow> orderinfo \<Rightarrow> ('w, orderinfo) op" where
  "tag_entry env pos i a = do {
     ((tag, lorder), a1) \<leftarrow> sr_loadTagDefault env (itmOrder i) a;
     i1 \<leftarrow> (case tag of Some t \<Rightarrow> copy_result (hb_arrayGet t pos) i | None \<Rightarrow> Some (put_result (Str []) i));
     Some (i1, a1)
   }"

text \<open>The current direction; a new one is written into the order's array and into the status array, which
  loses its known ends.\<close>

definition reverse_tag :: "int \<Rightarrow> bool \<Rightarrow> 'w area \<Rightarrow> 'w area" where
  "reverse_tag lorder d a =
     (let t = arr_get NIL (aOrders a) (nat lorder);
          t1 = hb_arraySet (hb_arraySet (hb_arraySet t SR_AINDEX_DESCEND_INDEX_ORDER (Logical d))
                 SR_AINDEX_ORDER_SKIP_UP NIL) SR_AINDEX_ORDER_SKIP_DOWN NIL
      in set_infoNL SR_AINFO_EOF_AT 0 (set_infoNL SR_AINFO_BOF_AT 0
           (set_infoL SR_AINFO_REVERSE_INDEX d (a\<lparr>aOrders := arr_set (aOrders a) (nat lorder) t1\<rparr>))))"

definition order_direction :: "'w env \<Rightarrow> orderinfo \<Rightarrow> ('w, orderinfo) op" where
  "order_direction env i a = do {
     ((tag, lorder), a1) \<leftarrow> sr_loadTagDefault env (itmOrder i) a;
     (case tag of
        None \<Rightarrow> Some (put_result (Logical False) i, a1)
      | Some t \<Rightarrow>
          (case itmNewVal i of
             Some (Logical d) \<Rightarrow>
               Some (put_result (Logical (infoL SR_AINFO_REVERSE_INDEX a1)) i, reverse_tag lorder d a1)
           | _ \<Rightarrow> Some (put_result (Logical (hb_itemGetL (hb_arrayGet t SR_AINDEX_DESCEND_INDEX_ORDER))) i, a1)))
   }"

text \<open>One end of the scope, or both, set to a new value.\<close>

definition order_scope :: "'w env \<Rightarrow> nat \<Rightarrow> int \<Rightarrow> orderinfo \<Rightarrow> ('w, orderinfo) op" where
  "order_scope env pos nScope i a = do {
     ((tag, lorder), a1) \<leftarrow> sr_loadTagDefault env (itmOrder i) a;
     (case tag of
        None \<Rightarrow> do { i1 \<leftarrow> copy_result NIL i; Some (i1, a1) }
      | Some t \<Rightarrow> do {
          let i1 = put_result (hb_arrayGet t pos) i;
          (case itmNewVal i of
             None \<Rightarrow> Some (i1, a1)
           | Some v \<Rightarrow> do { (r, a2) \<leftarrow> sqlSetServerSideIndexScope env nScope (Some v) a1; Some (i1, a2) })
        })
   }"

definition clear_scope :: "'w env \<Rightarrow> int \<Rightarrow> orderinfo \<Rightarrow> ('w, orderinfo) op" where
  "clear_scope env nScope i a = do {
     ((tag, lorder), a1) \<leftarrow> sr_loadTagDefault env (itmOrder i) a;
     if tag = None then Some (i, a1)
     else do { (r, a2) \<leftarrow> sqlSetServerSideIndexScope env nScope None a1; Some (i, a2) }
   }"

definition order_keyval :: "'w rdd \<Rightarrow> 'w env \<Rightarrow> orderinfo \<Rightarrow> ('w, orderinfo) op" where
  "order_keyval self env i a = do {
     ((tag, lorder), a1) \<leftarrow> sr_loadTagDefault env (itmOrder i) a;
     (case tag of
        None \<Rightarrow> do { i1 \<leftarrow> copy_result NIL i; Some (i1, a1) }
      | Some t \<Rightarrow> do {
          (u, a2) \<leftarrow> first_interact self a1;
          (v, a3) \<leftarrow> macro_value env (hb_itemGetC (hb_arrayGet t SR_AINDEX_INDEX_KEY)) a2;
          i1 \<leftarrow> copy_result v i;
          Some (i1, a3)
        })
   }"

text \<open>A value of the tag as a logical, or false.\<close>

definition tag_flag :: "'w env \<Rightarrow> (item \<Rightarrow> bool) \<Rightarrow> orderinfo \<Rightarrow> ('w, orderinfo) op" where
  "tag_flag env p i a = do {
     ((tag, lorder), a1) \<leftarrow> sr_loadTagDefault env (itmOrder i) a;
     Some (put_result (Logical (case tag of Some t \<Rightarrow> p t | None \<Rightarrow> False)) i, a1)
   }"

text \<open>The first switch of \<open>sqlOrderInfo\<close>, with opened orders.\<close>

fun info_with_orders :: "'w rdd \<Rightarrow> 'w env \<Rightarrow> dboi \<Rightarrow> orderinfo \<Rightarrow> ('w, orderinfo) op" where
  "info_with_orders self env DBOI_KEYCOUNTRAW i a =
     do { ((n, r), a1) \<leftarrow> self_recCount self a; Some (put_result (INum n) i, a1) }"
| "info_with_orders self env DBOI_KEYCOUNT i a =
     do { (v, a1) \<leftarrow> send env ''SQLKEYCOUNT'' [] a; Some (put_result (INum (hb_itemGetNL v)) i, a1) }"
| "info_with_orders self env DBOI_CONDITION i a = tag_entry env SR_AINDEX_FOR_CLAUSE i a"
| "info_with_orders self env DBOI_EXPRESSION i a = tag_entry env SR_AINDEX_INDEX_KEY i a"
| "info_with_orders self env DBOI_NUMBER i a = Some (put_result (INum (infoNL SR_AINFO_INDEXORD a)) i, a)"
| "info_with_orders self env DBOI_BAGNAME i a = tag_entry env SR_AINDEX_ORDER_NAME i a"
| "info_with_orders self env DBOI_NAME i a = tag_entry env SR_AINDEX_ORDER_TAG i a"
| "info_with_orders self env DBOI_POSITION i a = Some (put_result (DNum 0) i, a)"
| "info_with_orders self env DBOI_KEYNORAW i a = Some (put_result (DNum 0) i, a)"
| "info_with_orders self env DBOI_ISCOND i a =
     tag_flag env (\<lambda>t. \<not> HB_IS_NIL (hb_arrayGet t SR_AINDEX_FOR_CLAUSE)) i a"
| "info_with_orders self env DBOI_ISDESC i a = order_direction env i a"
| "info_with_orders self env DBOI_UNIQUE i a = tag_flag env (\<lambda>t. hb_itemGetL (hb_arrayGet t SR_AORDER_UNIQUE)) i a"
| "info_with_orders self env DBOI_CUSTOM i a = Some (put_result (Logical False) i, a)"
| "info_with_orders self env DBOI_SCOPETOP i a = order_scope env SR_AINDEX_TOP_SCOPE 0 i a"
| "info_with_orders self env DBOI_SCOPEBOTTOM i a = order_scope env SR_AINDEX_BOTTOM_SCOPE 1 i a"
| "info_with_orders self env DBOI_SCOPETOPCLEAR i a = clear_scope env 0 i a"
| "info_with_orders self env DBOI_SCOPEBOTTOMCLEAR i a = clear_scope env 1 i a"
| "info_with_orders self env DBOI_SCOPESET i a = order_scope env SR_AINDEX_TOP_SCOPE TOP_BOTTOM_SCOPE i a"
| "info_with_orders self env DBOI_KEYADD i a = Some (put_result (Logical False) i, a)"
| "info_with_orders self env DBOI_KEYDELETE i a = Some (put_result (Logical False) i, a)"
| "info_with_orders self env DBOI_KEYVAL i a = order_keyval self env i a"
| "info_with_orders self env DBOI_ORDERCOUNT i a = Some (put_result (INum (int (length (aOrders a)))) i, a)"
| "info_with_orders self env DBOI_BAGEXT i a = Some (i, a)"
| "info_with_orders self env (DBOI_other n) i a = Some (i, a)"

text \<open>The second, without.\<close>

fun info_without_orders :: "'w rdd \<Rightarrow> 'w env \<Rightarrow> dboi \<Rightarrow> orderinfo \<Rightarrow> ('w, orderinfo) op" where
  "info_without_orders self env DBOI_KEYCOUNTRAW i a =
     do { ((n, r), a1) \<leftarrow> self_recCount self a; Some (put_result (DNum (of_int n)) i, a1) }"
| "info_without_orders self env DBOI_KEYCOUNT i a =
     do { (v, a1) \<leftarrow> send env ''SQLKEYCOUNT'' [] a; Some (put_result (DNum (hb_itemGetND v)) i, a1) }"
| "info_without_orders self env DBOI_POSITION i a =
     do { ((v, r), a1) \<leftarrow> self_recId self a; i1 \<leftarrow> copy_result v i; Some (i1, a1) }"
| "info_without_orders self env DBOI_KEYNORAW i a =
     do { ((v, r), a1) \<leftarrow> self_recId self a; i1 \<leftarrow> copy_result v i; Some (i1, a1) }"
| "info_without_orders self env DBOI_ISCOND i a = Some (put_result (Logical False) i, a)"
| "info_without_orders self env DBOI_ISDESC i a = Some (put_result (Logical False) i, a)"
| "info_without_orders self env DBOI_UNIQUE i a = Some (put_result (Logical False) i, a)"
| "info_without_orders self env DBOI_CUSTOM i a = Some (put_result (Logical False) i, a)"
| "info_without_orders self env DBOI_KEYADD i a = Some (put_result (Logical False) i, a)"
| "info_without_orders self env DBOI_KEYDELETE i a = Some (put_result (Logical False) i, a)"
| "info_without_orders self env DBOI_KEYVAL i a = map_option (\<lambda>j. (j, a)) (copy_result NIL i)"
| "info_without_orders self env DBOI_SCOPETOP i a = map_option (\<lambda>j. (j, a)) (copy_result NIL i)"
| "info_without_orders self env DBOI_SCOPEBOTTOM i a = map_option (\<lambda>j. (j, a)) (copy_result NIL i)"
| "info_without_orders self env DBOI_SCOPETOPCLEAR i a = map_option (\<lambda>j. (j, a)) (copy_result NIL i)"
| "info_without_orders self env DBOI_SCOPEBOTTOMCLEAR i a = map_option (\<lambda>j. (j, a)) (copy_result NIL i)"
| "info_without_orders self env DBOI_ORDERCOUNT i a = Some (put_result (INum 0) i, a)"
| "info_without_orders self env DBOI_NUMBER i a = Some (put_result (INum 0) i, a)"
| "info_without_orders self env _ i a = Some (put_result (Str []) i, a)"

definition sqlOrderInfo :: "'w rdd \<Rightarrow> 'w env \<Rightarrow> dboi \<Rightarrow> orderinfo \<Rightarrow> ('w, orderinfo \<times> errcode) op" where
  "sqlOrderInfo self env k i a =
     (if k = DBOI_BAGEXT then Some ((put_result (Str []) i, HB_SUCCESS), a)
      else do {
        (i1, a1) \<leftarrow> (if aOrders a \<noteq> [] then info_with_orders self env k i a
                    else info_without_orders self env k i a);
        Some ((i1, HB_SUCCESS), a1)
      })"

end
