(* ===== verification/ExTable.thy ===== *)
theory ExTable
  imports ExSeek Orders
begin

text \<open>
  Orders, filters, scopes and locks of the second driver, which pass on to the first one and forget what
  is no longer true, and the function table \<open>sqlTable\<close> of \<open>source/sqlex1.c\<close>. The functions call each
  other through the table: \<open>ex_table env n\<close> is the table in which such calls may be nested \<open>n\<close> deep.
\<close>

section \<open>Orders\<close>

text \<open>Nothing is known about the ends of the table.\<close>

definition forget_ends :: "'w exarea \<Rightarrow> 'w exarea" where
  "forget_ends a = a\<lparr>lBofAt := 0, lEofAt := 0\<rparr>"

definition take_direction :: "'w exarea \<Rightarrow> 'w exarea" where
  "take_direction a =
     a\<lparr>s_bOldReverseIndex := bReverseIndex a, bReverseIndex := hb_itemGetL (x_info a SR_AINFO_REVERSE_INDEX)\<rparr>"

definition ReleaseIndexBindStructure :: "'w exarea \<Rightarrow> 'w exarea" where
  "ReleaseIndexBindStructure a = a\<lparr>IndexBindings := map (\<lambda>s. None) (IndexBindings a)\<rparr>"

definition sqlExOrderListAdd :: "'w exenv \<Rightarrow> ('w, errcode) exop" where
  "sqlExOrderListAdd env a = do {
     (r, a1) \<leftarrow> x_super env ''ORDLSTADD'' a;
     Some (r, if hOrdCurrent a \<noteq> hOrdCurrent a1 then take_direction ((forget_ends a1)\<lparr>indexLevel := - 1\<rparr>) else a1)
   }"

definition sqlExOrderListClear :: "'w exenv \<Rightarrow> ('w, errcode) exop" where
  "sqlExOrderListClear env a = do {
     (r, a1) \<leftarrow> x_super env ''ORDLSTCLEAR'' ((forget_ends a)\<lparr>indexLevel := - 1\<rparr>);
     Some (HB_SUCCESS, (ReleaseIndexBindStructure a1)\<lparr>hOrdCurrent := 0\<rparr>)
   }"

definition sqlExOrderListFocus :: "'w exenv \<Rightarrow> ('w, errcode) exop" where
  "sqlExOrderListFocus env a = do {
     (r, a1) \<leftarrow> x_super env ''ORDLSTFOCUS'' a;
     let a2 = (if hOrdCurrent a \<noteq> hOrdCurrent a1 then (forget_ends a1)\<lparr>bOrderChanged := True\<rparr> else a1);
     if hOrdCurrent a2 > 0 then do {
       slots \<leftarrow> wr_at (IndexBindings a2) (hOrdCurrent a2) None;
       Some (r, take_direction (a2\<lparr>indexColumns := length (order_columns a2), IndexBindings := slots\<rparr>))
     }
     else Some (r, a2\<lparr>indexColumns := 1\<rparr>)
   }"

definition sqlExOrderCreate :: "'w exenv \<Rightarrow> ('w, errcode) exop" where
  "sqlExOrderCreate env a = do {
     (r, a1) \<leftarrow> x_super env ''ORDCREATE'' ((forget_ends a)\<lparr>indexLevel := - 1\<rparr>);
     let a2 = (if length (aFields a) \<noteq> length (aFields a1)
               then SR_SetInsertRecordStructure (SetColStatements (SR_SetCurrRecordStructure a1)) else a1);
     Some (r, if r = HB_SUCCESS then take_direction a2 else a2)
   }"

definition sqlExOrderDestroy :: "'w exenv \<Rightarrow> ('w, errcode) exop" where
  "sqlExOrderDestroy env a =
     x_super env ''ORDDESTROY'' (ReleaseIndexBindStructure ((forget_ends a)\<lparr>indexLevel := - 1\<rparr>))"

definition conditions_changed :: "'w exarea \<Rightarrow> 'w exarea" where
  "conditions_changed a = (forget_ends a)\<lparr>bConditionChanged1 := True, bConditionChanged2 := True\<rparr>"

text \<open>\<open>up\<close> is the function of the parent, \<open>given\<close> what \<open>pInfo->itmResult\<close> holds before.\<close>

definition sqlExOrderInfo ::
  "'w exenv \<Rightarrow> (dboi \<Rightarrow> ('w, item \<times> errcode) exop) \<Rightarrow> dboi \<Rightarrow> item \<Rightarrow> ('w, item \<times> errcode) exop" where
  "sqlExOrderInfo env up uiIndex given a =
     (if length (aOrders a) = 0 then up uiIndex a
      else if uiIndex = DBOI_KEYCOUNT then do {
        a1 \<leftarrow> getWhereExpression env SR_LIST_FROM_TOP a;
        a2 \<leftarrow> createCountQuery a1;
        ((r, n), a3) \<leftarrow> getFirstColumnAsLong env a2;
        if r = HB_FAILURE then do {
          (u, a4) \<leftarrow> odbc_error env (sSql a3) a3;
          Some ((given, HB_FAILURE), a4)
        }
        else Some ((INum n, HB_SUCCESS), a3)
      }
      else if uiIndex = DBOI_POSITION \<or> uiIndex = DBOI_KEYNORAW
        then Some ((INum (recordListPos a + 1), HB_SUCCESS), a)
      else if uiIndex \<in> {DBOI_SCOPETOP, DBOI_SCOPEBOTTOM, DBOI_SCOPETOPCLEAR, DBOI_SCOPEBOTTOMCLEAR, DBOI_SCOPESET}
        then do { (x, a1) \<leftarrow> up uiIndex a; Some (x, conditions_changed a1) }
      else do { (x, a1) \<leftarrow> up uiIndex a; Some (x, take_direction a1) })"

section \<open>Filters, scopes and locks\<close>

definition sqlExClearFilter :: "'w exenv \<Rightarrow> ('w, errcode) exop" where
  "sqlExClearFilter env a = x_super env ''CLEARFILTER'' (conditions_changed a)"

definition sqlExScopeInfo :: "'w exenv \<Rightarrow> ('w, errcode) exop" where
  "sqlExScopeInfo env a = x_super env ''SCOPEINFO'' (conditions_changed a)"

definition sqlExSetFilter :: "'w exenv \<Rightarrow> ('w, errcode) exop" where
  "sqlExSetFilter env a = do {
     (r, a1) \<leftarrow> x_super env ''SETFILTER'' a;
     Some (r, if r = HB_SUCCESS then a1\<lparr>bConditionChanged1 := True, bConditionChanged2 := True\<rparr> else a1)
   }"

definition sqlExSetScope :: "'w exenv \<Rightarrow> ('w, errcode) exop" where
  "sqlExSetScope env a = x_super env ''SETSCOPE'' (conditions_changed a)"

definition lock_call :: "'w exrdd \<Rightarrow> 'w exenv \<Rightarrow> string \<Rightarrow> ('w, errcode) exop" where
  "lock_call self env f a = do {
     (r, a1) \<leftarrow> ex_goCold self a;
     if r = HB_FAILURE then Some (HB_FAILURE, a1)
     else do {
       (u, a2) \<leftarrow> x_first self a1;
       n \<leftarrow> SR_GetCurrentRecordNum a2;
       x_super env f
         (a2\<lparr>aInfo := arr_set (arr_set (arr_set (aInfo a2) SR_AINFO_BOF (Logical (fBof a2)))
                       SR_AINFO_EOF (Logical (fEof a2))) SR_AINFO_RECNO (INum n)\<rparr>)
     }
   }"

definition sqlExLock :: "'w exrdd \<Rightarrow> 'w exenv \<Rightarrow> ('w, errcode) exop" where
  "sqlExLock self env a = lock_call self env ''LOCK'' a"

definition sqlExUnLock :: "'w exrdd \<Rightarrow> 'w exenv \<Rightarrow> ('w, errcode) exop" where
  "sqlExUnLock self env a = lock_call self env ''UNLOCK'' a"

section \<open>The function table\<close>

definition sqlExTable :: "'w exenv \<Rightarrow> 'w exrdd \<Rightarrow> 'w exrdd" where
  "sqlExTable env t =
     \<lparr>ex_goBottom = sqlExGoBottom t env, ex_goTo = sqlExGoTo t env, ex_goTop = sqlExGoTop t env,
      ex_skipFilter = sqlExSkipFilter t env, ex_skipRaw = sqlExSkipRaw t env, ex_deleted = sqlExDeleted t,
      ex_goCold = sqlExGoCold env, ex_forceRel = x_super env ''FORCEREL''\<rparr>"

fun ex_table :: "'w exenv \<Rightarrow> nat \<Rightarrow> 'w exrdd" where
  "ex_table env 0 =
     \<lparr>ex_goBottom = (\<lambda>a. None), ex_goTo = (\<lambda>n a. None), ex_goTop = (\<lambda>a. None),
      ex_skipFilter = (\<lambda>n a. None), ex_skipRaw = (\<lambda>n a. None), ex_deleted = (\<lambda>a. None),
      ex_goCold = (\<lambda>a. None), ex_forceRel = (\<lambda>a. None)\<rparr>"
| "ex_table env (Suc n) = sqlExTable env (ex_table env n)"

end
