(* ===== verification/ExNatural.thy ===== *)
theory ExNatural
  imports ExTable
begin

text \<open>
  The statements for moving in the natural order, by record number: their text, that they are prepared
  and bound to the current record whenever the driver moves, and what everything else keeps.
\<close>

section \<open>Restrictions\<close>

text \<open>What the object answers to the four messages about restrictions.\<close>

definition restriction_messages :: "string list" where
  "restriction_messages = [''CFOR'', ''CFILTER'', ''CSCOPE'', ''CFLTUSR'']"

definition answers :: "'w exenv \<Rightarrow> (string \<Rightarrow> bytes) \<Rightarrow> bool" where
  "answers env texts \<longleftrightarrow>
     (\<forall>m \<in> set restriction_messages. NUL \<notin> set (texts m) \<and> (\<forall>a. x_send env m [] a = Some (Str (texts m), a)))"

text \<open>Conditions joined behind one that is there already.\<close>

definition conjoined :: "bytes list \<Rightarrow> bytes" where
  "conjoined fs = concat (map (\<lambda>f. '' AND ( '' @ f @ '' )'') (filter (\<lambda>f. f \<noteq> []) fs))"

definition restriction_text :: "(string \<Rightarrow> bytes) \<Rightarrow> bytes" where
  "restriction_text texts = conjoined (map texts restriction_messages)"

lemma conjoined_Cons:
  "conjoined (f # fs) = conjoined [f] @ conjoined fs"
  by (simp add: conjoined_def)

lemma takeWhile_NUL: "NUL \<notin> set s \<Longrightarrow> takeWhile (\<lambda>c. c \<noteq> NUL) s = s"
  by (induction s) auto

lemma getMessageC_answers:
  "answers env texts \<Longrightarrow> m \<in> set restriction_messages \<Longrightarrow> getMessageC env m a = Some (texts m, a)"
  by (simp add: answers_def getMessageC_def takeWhile_NUL)

lemma restrict_more:
  assumes "length (sWhere a @ conjoined [f]) < WHERE_SIZE"
  shows "restrict f True a = Some (True, a\<lparr>sWhere := sWhere a @ conjoined [f]\<rparr>)"
proof (cases "f = []")
  case False
  then have "length (sWhere a @ '' AND ( '' @ f @ '' )'') < WHERE_SIZE"
    using assms by (simp add: conjoined_def)
  from into_fits [OF this] False show ?thesis
    by (simp add: restrict_def conjoined_def)
qed (simp add: restrict_def conjoined_def)

lemma filters_natural:
  assumes "answers env texts" "hOrdCurrent a = 0"
    and "length (sWhere a @ restriction_text texts) < WHERE_SIZE"
  shows "SR_SolveFilters env True a = Some (a\<lparr>sWhere := sWhere a @ restriction_text texts\<rparr>)"
proof -
  have m: "m \<in> set restriction_messages \<Longrightarrow> getMessageC env m b = Some (texts m, b)" for m b
    by (rule getMessageC_answers [OF assms(1)])
  have r: "restriction_text texts =
      conjoined [texts ''CFOR''] @ conjoined [texts ''CFILTER''] @ conjoined [texts ''CSCOPE''] @
      conjoined [texts ''CFLTUSR'']"
    unfolding restriction_text_def restriction_messages_def list.map
    by (simp only: conjoined_Cons [of _ "_ # _"] append_assoc)
  show ?thesis
    using assms(2,3)
    by (simp add: SR_SolveFilters_def m restriction_messages_def r restrict_more)
qed

section \<open>The texts\<close>

definition limit_texts :: "int \<Rightarrow> bytes \<times> bytes" where
  "limit_texts sys = limit_formats sys (int_text 251)"

definition where_text :: "bytes \<Rightarrow> bytes \<Rightarrow> direction \<Rightarrow> bytes" where
  "where_text q extra d =
     (LF # ''WHERE A.'' @ q @ '' '' @ (if d = SR_LIST_FORWARD then ''>='' else ''<='') @ '' ?'') @ extra"

definition order_text :: "bytes \<Rightarrow> direction \<Rightarrow> bytes" where
  "order_text q d = LF # ''ORDER BY A.'' @ q @ '' '' @ (if d = SR_LIST_FORWARD then ''ASC'' else ''DESC'')"

text \<open>The statement that gives the records from a number on, in a direction.\<close>

definition from_text :: "int \<Rightarrow> bytes \<Rightarrow> bytes \<Rightarrow> bytes \<Rightarrow> direction \<Rightarrow> bytes" where
  "from_text sys tab q extra d =
     ''SELECT '' @ fst (limit_texts sys) @ '' '' @ (''A.'' @ q) @ '' FROM '' @ tab @ '' A '' @ where_text q extra d @
     '' '' @ order_text q d @ '' '' @ snd (limit_texts sys)"

lemma int_text_251_short: "length (int_text 251) = 3"
  by (simp add: int_text_def nat_text.simps)

lemma limit_texts_short: "length (fst (limit_texts sys)) < 50" "length (snd (limit_texts sys)) < 50"
  by (simp_all add: limit_texts_def limit_formats_def int_text_251_short)

lemma set_limit_251:
  "SR_setResultSetLimit 250 a =
     Some (a\<lparr>sLimit1 := fst (limit_texts (nSystemID a)), sLimit2 := snd (limit_texts (nSystemID a))\<rparr>)"
  using limit_texts_short [of "nSystemID a"]
  by (simp add: SR_setResultSetLimit_def limit_texts_def case_prod_beta Let_def)


section \<open>Making the statement\<close>

definition skip_text :: "bytes \<Rightarrow> 'w exarea \<Rightarrow> direction \<Rightarrow> bytes" where
  "skip_text extra a d = from_text (nSystemID a) (sTable a) (the (quoted a (sRecnoName a))) extra d"

definition skip_stmt :: "bytes \<Rightarrow> 'w exarea \<Rightarrow> direction \<Rightarrow> stmt" where
  "skip_stmt extra a d =
     \<lparr>st_sql = skip_text extra a d, st_binds = [BindCol (ulhRecno a - 1) SQL_C_DOUBLE False]\<rparr>"

text \<open>An area in the natural order, without marks of deletion, whose texts fit their buffers.\<close>

definition natural_area :: "'w exenv \<Rightarrow> (string \<Rightarrow> bytes) \<Rightarrow> 'w exarea \<Rightarrow> bool" where
  "natural_area env texts a \<longleftrightarrow>
     answers env texts \<and> hOrdCurrent a = 0 \<and> \<not> bReverseIndex a \<and> \<not> bIsSelect a \<and> ulhDeleted a = 0 \<and>
     0 < ulhRecno a \<and> ulhRecno a \<le> length (aFields a) \<and> IndexBindings a \<noteq> [] \<and>
     (\<exists>q. quoted a (sRecnoName a) = Some q \<and> length q \<le> 100) \<and> length (sTable a) \<le> 20000 \<and>
     length (restriction_text texts) \<le> 3000"

text \<open>The server takes every statement.\<close>

definition accepts :: "'w exenv \<Rightarrow> 'w \<Rightarrow> bool" where
  "accepts env w \<longleftrightarrow>
     alloc_stmt env w = SQL_SUCCESS \<and> (\<forall>s. prepare env s w = SQL_SUCCESS) \<and>
     (\<forall>s n. bind_par env s n w = SQL_SUCCESS)"

text \<open>The slot of the natural order.\<close>

definition recno_slot :: "'w exarea \<Rightarrow> indexbind \<Rightarrow> bool" where
  "recno_slot a ib \<longleftrightarrow> ib_lFieldPosDB ib = int (ulhRecno a) \<and> \<not> bIsExpr ib"

definition slot_ok :: "bytes \<Rightarrow> 'w exarea \<Rightarrow> bool" where
  "slot_ok extra a \<longleftrightarrow>
     (case IndexBindings a ! 0 of
        None \<Rightarrow> True
      | Some ibs \<Rightarrow> (\<exists>ib. ibs = [ib] \<and> recno_slot a ib \<and>
          (bOrderChanged a \<or> bConditionChanged1 a \<or>
           SkipFwdStmt ib \<in> {None, Some (skip_stmt extra a SR_LIST_FORWARD)} \<and>
           SkipBwdStmt ib \<in> {None, Some (skip_stmt extra a SR_LIST_BACKWARD)})))"

definition skip_type :: "direction \<Rightarrow> listtype" where
  "skip_type d = (if d = SR_LIST_FORWARD then SR_LIST_SKIP_FWD else SR_LIST_SKIP_BWD)"

definition recno_bound :: "rat \<Rightarrow> 'w exarea \<Rightarrow> columnbind list \<Rightarrow> columnbind list" where
  "recno_bound r a cs = cs[ulhRecno a - 1 := (cs ! (ulhRecno a - 1))\<lparr>asNumeric := r\<rparr>]"

lemma length_recno_bound [simp]: "length (recno_bound r a cs) = length cs"
  by (simp add: recno_bound_def)

lemma recno_index: "0 < n \<Longrightarrow> int n - 1 = int (n - 1)"
  by simp

lemma where_natural:
  assumes nat: "natural_area env texts a" and slot: "IndexBindings a ! 0 = Some [ib]" "recno_slot a ib"
    and cur: "CurrRecord a = Some cs" "length cs = length (aFields a)" "SR_GetCurrentRecordNum a = Some r"
    and d: "recordListDirection a = d"
  shows "getWhereExpression env (skip_type d) a =
    Some (a\<lparr>sWhere := where_text (the (quoted a (sRecnoName a))) (restriction_text texts) d,
            bConditionChanged1 := False, CurrRecord := Some (recno_bound (of_int r) a cs)\<rparr>)"
proof -
  obtain q where q: "quoted a (sRecnoName a) = Some q" "length q \<le> 100"
    using nat by (auto simp: natural_area_def)
  have fit: "length (LF # ''WHERE A.'' @ q @ '' '' @ (if d = SR_LIST_FORWARD then ''>='' else ''<='') @ '' ?'') < WHERE_SIZE"
    using q by simp
  define s where "s = LF # ''WHERE A.'' @ q @ '' '' @ (if d = SR_LIST_FORWARD then ''>='' else ''<='') @ '' ?''"
  let ?a = "a\<lparr>sWhere := s, bConditionChanged1 := False, CurrRecord := Some (recno_bound (of_int r) a cs)\<rparr>"
  have pos: "position_condition env (skip_type d) (a\<lparr>sWhere := [], bConditionChanged1 := False\<rparr>) = Some (True, ?a)"
  proof -
    have "quoted (a\<lparr>sWhere := [], bConditionChanged1 := False, recordListDirection := d\<rparr>) (sRecnoName a) = Some q"
      using q by (simp add: quoted_def)
    moreover have "SR_GetCurrentRecordNum (a\<lparr>sWhere := [], bConditionChanged1 := False, recordListDirection := d\<rparr>) = Some r"
      using cur by (auto simp: SR_GetCurrentRecordNum_def split: if_splits)
    moreover have "into WHERE_SIZE s = Some s"
      using fit by (simp only: s_def into_fits)
    moreover have "a\<lparr>sWhere := [], bConditionChanged1 := False, recordListDirection := d\<rparr> =
        a\<lparr>sWhere := [], bConditionChanged1 := False\<rparr>"
      using d by simp
    ultimately show ?thesis
      using nat slot cur d
      by (cases d) (auto simp: position_condition_def skip_type_def natural_area_def index_bind_def bindings_of_def
          recno_slot_def SR_GetBindStruct_def put_BindStruct_def recno_bound_def rd_at_def wr_at_def s_def
          nat_diff_distrib Let_def)
  qed
  have len: "length (sWhere ?a @ restriction_text texts) < WHERE_SIZE"
    using fit nat by (simp add: natural_area_def s_def q(2)) (use q in simp)
  have "SR_SolveFilters env True ?a = Some (?a\<lparr>sWhere := sWhere ?a @ restriction_text texts\<rparr>)"
    by (rule filters_natural) (use nat len in \<open>simp_all add: natural_area_def\<close>)
  then show ?thesis
    using pos q by (cases d) (simp_all add: getWhereExpression_def skip_type_def where_text_def s_def)
qed


lemma query_natural:
  assumes nat: "natural_area env texts a"
    and w: "sWhere a = where_text (the (quoted a (sRecnoName a))) (restriction_text texts) d"
    and o: "sOrderBy a = order_text (the (quoted a (sRecnoName a))) d"
    and l: "sLimit1 a = fst (limit_texts (nSystemID a))" "sLimit2 a = snd (limit_texts (nSystemID a))"
  shows "createRecodListQuery a = Some (a\<lparr>sSql := skip_text (restriction_text texts) a d\<rparr>)"
proof -
  obtain q where q: "quoted a (sRecnoName a) = Some q" "length q \<le> 100"
    using nat by (auto simp: natural_area_def)
  have "length (skip_text (restriction_text texts) a d) < MAX_SQL_QUERY_LEN"
    using nat q limit_texts_short [of "nSystemID a"]
    by (cases d) (simp_all add: skip_text_def from_text_def where_text_def order_text_def natural_area_def)
  then have "into MAX_SQL_QUERY_LEN (skip_text (restriction_text texts) a d) = Some (skip_text (restriction_text texts) a d)"
    by (simp only: into_fits)
  moreover have "skip_text (restriction_text texts) a d =
      ''SELECT '' @ sLimit1 a @ '' '' @ (''A.'' @ q) @ '' FROM '' @ sTable a @ '' A '' @ sWhere a @ '' '' @
      sOrderBy a @ '' '' @ sLimit2 a"
    using q w o l by (simp add: skip_text_def from_text_def)
  ultimately show ?thesis
    using nat q by (simp add: createRecodListQuery_def natural_area_def)
qed

lemma order_natural:
  assumes nat: "natural_area env texts a" and d: "recordListDirection a = d"
  shows "SR_getOrderByExpression False a = Some (a\<lparr>sOrderBy := order_text (the (quoted a (sRecnoName a))) d\<rparr>)"
proof -
  obtain q where q: "quoted a (sRecnoName a) = Some q" "length q \<le> 100"
    using nat by (auto simp: natural_area_def)
  have "length (order_text q d) < 1600"
    using q by (cases d) (simp_all add: order_text_def)
  then have "into 1600 (order_text q d) = Some (order_text q d)"
    by (simp only: into_fits)
  then show ?thesis
    using nat q d by (cases d) (simp_all add: SR_getOrderByExpression_def natural_area_def order_text_def)
qed

text \<open>What is not about the order of the natural area may change.\<close>

lemma natural_area_cong:
  assumes "natural_area env texts a"
    and "hOrdCurrent b = hOrdCurrent a" "bReverseIndex b = bReverseIndex a" "bIsSelect b = bIsSelect a"
      "ulhDeleted b = ulhDeleted a" "ulhRecno b = ulhRecno a" "aFields b = aFields a"
      "length (IndexBindings b) = length (IndexBindings a)" "sRecnoName b = sRecnoName a" "sTable b = sTable a"
      "nSystemID b = nSystemID a"
  shows "natural_area env texts b"
  using assms by (auto simp: natural_area_def quoted_def)

lemma skip_text_cong:
  "sRecnoName b = sRecnoName a \<Longrightarrow> sTable b = sTable a \<Longrightarrow> nSystemID b = nSystemID a \<Longrightarrow>
   skip_text extra b d = skip_text extra a d"
  by (simp add: skip_text_def quoted_def)

definition fresh_slot :: "bytes \<Rightarrow> 'w exarea \<Rightarrow> direction \<Rightarrow> indexbind \<Rightarrow> bool" where
  "fresh_slot extra a d ib \<longleftrightarrow> recno_slot a ib \<and>
     SkipFwdStmt ib = (if d = SR_LIST_FORWARD then Some (skip_stmt extra a d) else None) \<and>
     SkipBwdStmt ib = (if d = SR_LIST_FORWARD then None else Some (skip_stmt extra a d))"

lemma create_natural:
  assumes nat: "natural_area env texts a" and acc: "accepts env (world a)"
    and slot: "slot_ok (restriction_text texts) a"
    and cur: "CurrRecord a = Some cs" "length cs = length (aFields a)" "SR_GetCurrentRecordNum a = Some r"
    and d: "recordListDirection a = d"
    and new: "bOrderChanged a \<or> bConditionChanged1 a \<or> skip_stmt_missing a = Some True"
  shows "\<exists>ib ib1 s w o1 l1 l2. fresh_slot (restriction_text texts) a d ib1 \<and>
    ib1 = put_dir_stmt a (map_option (bind_at 1 (BindCol (ulhRecno a - 1) SQL_C_DOUBLE False)) (dir_stmt a ib)) ib \<and>
    CreateSkipStmt env a = Some (True, a\<lparr>lBofAt := 0, lEofAt := 0, bOrderChanged := False, indexColumns := 1,
      IndexBindings := (IndexBindings a)[0 := Some [ib]], sOrderBy := o1, sLimit1 := l1, sLimit2 := l2,
      indexLevel := 0, sWhere := w, bConditionChanged1 := False, sSql := s,
      CurrRecord := Some (recno_bound (of_int r) a cs)\<rparr>)"
proof -
  have m: "(if bOrderChanged a \<or> bConditionChanged1 a then Some True else skip_stmt_missing a) = Some True"
    using new by auto
  have ne: "0 < length (IndexBindings a)" "hOrdCurrent a = 0"
    using nat by (auto simp: natural_area_def)
  define a1 where "a1 = a\<lparr>lBofAt := 0, lEofAt := 0, bOrderChanged := False, indexColumns := 1\<rparr>"
  obtain ib0 where ib0: "recno_slot a ib0"
    "(if IndexBindings a1 ! 0 = None then SR_SetIndexBindStructure a1 else Some a1) =
       Some (a1\<lparr>IndexBindings := (IndexBindings a)[0 := Some [ib0]]\<rparr>)"
    (is "?slot = _")
  proof (cases "IndexBindings a ! 0")
    case None
    then show ?thesis
      using ne that [of "zero_index\<lparr>ib_lFieldPosDB := int (ulhRecno a), iLevel := 1, iIndexColumns := 1\<rparr>"]
      by (simp add: a1_def SR_SetIndexBindStructure_def recno_slot_def zero_index_def wr_at_def)
  next
    case (Some ibs)
    then obtain ib where "ibs = [ib]" "recno_slot a ib"
      using slot by (auto simp: slot_ok_def)
    then have "(IndexBindings a)[0 := Some [ib]] = IndexBindings a1"
      using Some list_update_id [of "IndexBindings a" 0] by (simp add: a1_def)
    then have "a1\<lparr>IndexBindings := (IndexBindings a)[0 := Some [ib]]\<rparr> = a1"
      by simp
    moreover have "IndexBindings a1 ! 0 \<noteq> None"
      using Some by (simp add: a1_def)
    ultimately show ?thesis
      using that [of ib] \<open>recno_slot a ib\<close> by (simp only: if_False)
  qed
  define ibD where "ibD = ib0\<lparr>SkipFwdStmt := None, SkipBwdStmt := None\<rparr>"
  define a2 where "a2 = a1\<lparr>IndexBindings := (IndexBindings a)[0 := Some [ibD]]\<rparr>"
  have nat2: "natural_area env texts a2"
    by (rule natural_area_cong [OF nat]) (simp_all add: a2_def a1_def)
  have o2: "SR_getOrderByExpression False a2 =
      Some (a2\<lparr>sOrderBy := order_text (the (quoted a (sRecnoName a))) d\<rparr>)"
    using order_natural [OF nat2, of d] d by (simp add: a2_def a1_def quoted_def)
  define a3 where "a3 = a2\<lparr>sOrderBy := order_text (the (quoted a (sRecnoName a))) d,
      sLimit1 := fst (limit_texts (nSystemID a)), sLimit2 := snd (limit_texts (nSystemID a)), indexLevel := 1\<rparr>"
  have nat3: "natural_area env texts a3"
    by (rule natural_area_cong [OF nat2]) (simp_all add: a3_def)
  have w3: "getWhereExpression env (skip_type d) a3 =
      Some (a3\<lparr>sWhere := where_text (the (quoted a (sRecnoName a))) (restriction_text texts) d,
        bConditionChanged1 := False, CurrRecord := Some (recno_bound (of_int r) a cs)\<rparr>)"
  proof -
    have "SR_GetCurrentRecordNum a3 = Some r"
      using cur by (auto simp: SR_GetCurrentRecordNum_def a3_def a2_def a1_def split: if_splits)
    moreover have "recno_slot a3 ibD"
      using ib0(1) by (simp add: recno_slot_def ibD_def a3_def a2_def a1_def)
    ultimately have "getWhereExpression env (skip_type d) a3 =
      Some (a3\<lparr>sWhere := where_text (the (quoted a3 (sRecnoName a3))) (restriction_text texts) d,
        bConditionChanged1 := False, CurrRecord := Some (recno_bound (of_int r) a3 cs)\<rparr>)"
      using where_natural [OF nat3, of ibD cs r d] ne cur d by (simp add: a3_def a2_def a1_def)
    then show ?thesis
      by (simp add: a3_def a2_def a1_def quoted_def recno_bound_def)
  qed
  define a4 where "a4 = a3\<lparr>sWhere := where_text (the (quoted a (sRecnoName a))) (restriction_text texts) d,
        bConditionChanged1 := False, CurrRecord := Some (recno_bound (of_int r) a cs)\<rparr>"
  have nat4: "natural_area env texts a4"
    by (rule natural_area_cong [OF nat3]) (simp_all add: a4_def)
  have q4: "createRecodListQuery a4 = Some (a4\<lparr>sSql := skip_text (restriction_text texts) a d\<rparr>)"
    using query_natural [OF nat4, of d] skip_text_cong [of a4 a]
    by (simp add: a4_def a3_def a2_def a1_def quoted_def)
  let ?ib = "put_dir_stmt a (Some \<lparr>st_sql = skip_text (restriction_text texts) a d, st_binds = []\<rparr>) ibD"
  let ?b = "a4\<lparr>sSql := skip_text (restriction_text texts) a d, IndexBindings := (IndexBindings a)[0 := Some [?ib]]\<rparr>"
  have p4: "prepareRecordListQuery env (a4\<lparr>sSql := skip_text (restriction_text texts) a d\<rparr>) = Some (HB_SUCCESS, ?b)"
    using acc ne
    by (simp add: prepareRecordListQuery_def accepts_def a4_def a3_def a2_def a1_def index_bind_def bindings_of_def
        put_index_bind_def put_dir_stmt_def rd_at_def wr_at_def Let_def)
  have t: "(if recordListDirection a3 = SR_LIST_FORWARD then SR_LIST_SKIP_FWD else SR_LIST_SKIP_BWD) = skip_type d"
    using d by (simp add: skip_type_def a3_def a2_def a1_def)
  have lev: "level_queries env 1 a3 = Some (?b\<lparr>indexLevel := 0\<rparr>)"
    using w3 q4 p4 t by (simp add: a4_def) (simp add: a3_def)
  define b1 where "b1 = a1\<lparr>IndexBindings := (IndexBindings a)[0 := Some [ib0]]\<rparr>"
  have c: "CreateSkipStmt env a = Some (True, ?b\<lparr>indexLevel := 0\<rparr>)"
  proof -
    have n: "(if hOrdCurrent a > 0 then length (order_columns a) else 1) = 1"
      using ne by simp
    have h: "hOrdCurrent a1 = 0" "hOrdCurrent b1 = 0" "indexColumns b1 = 1"
      "IndexBindings b1 = (IndexBindings a)[0 := Some [ib0]]"
      "b1\<lparr>IndexBindings := (IndexBindings a)[0 := Some [ibD]]\<rparr> = a2"
      using ne by (simp_all add: b1_def a1_def a2_def)
    have e1: "bindings_of b1 0 = Some [ib0]"
      using ne by (simp add: bindings_of_def rd_at_def b1_def)
    have e2: "drop_skip_stmts 1 [ib0] = Some [ibD]"
      by (simp add: drop_skip_stmts_def ibD_def)
    have e3: "wr_at ((IndexBindings a)[0 := Some [ib0]]) 0 (Some [ibD]) = Some ((IndexBindings a)[0 := Some [ibD]])"
      using ne by (simp add: wr_at_def)
    define a2' where "a2' = a2\<lparr>sOrderBy := order_text (the (quoted a (sRecnoName a))) d,
      sLimit1 := fst (limit_texts (nSystemID a)), sLimit2 := snd (limit_texts (nSystemID a))\<rparr>"
    have e4: "SR_setResultSetLimit (int RECORD_LIST_SIZE)
        (a2\<lparr>sOrderBy := order_text (the (quoted a (sRecnoName a))) d\<rparr>) = Some a2'"
      by (simp add: set_limit_251 a2'_def) (simp add: a2_def a1_def)
    have e5: "rd_at (IndexBindings a1) 0 = Some (IndexBindings a1 ! 0)"
      using ne by (simp add: rd_at_def a1_def)
    have e6: "indexColumns a2' = 1" "a2'\<lparr>indexLevel := int 1\<rparr> = a3"
      by (simp_all add: a2'_def a3_def a2_def a1_def)
    show ?thesis
      by (simp only: CreateSkipStmt_def m n Let_def Option.bind.bind_lunit simp_thms if_False a1_def [symmetric]
          h e5 ib0(2) b1_def [symmetric] e1 e2 e3 o2 e4 e6 lev option.simps prod.case)
  qed
  define ib1 where "ib1 = put_dir_stmt a (Some (skip_stmt (restriction_text texts) a d)) ibD"
  have f: "fresh_slot (restriction_text texts) a d ib1"
    using ib0(1) d by (cases d) (simp_all add: fresh_slot_def ib1_def ibD_def put_dir_stmt_def recno_slot_def)
  have e: "ib1 = put_dir_stmt a (map_option (bind_at 1 (BindCol (ulhRecno a - 1) SQL_C_DOUBLE False)) (dir_stmt a ?ib)) ?ib"
    using d by (cases d)
      (simp_all add: ib1_def ibD_def put_dir_stmt_def dir_stmt_def skip_stmt_def bind_at_def Let_def)
  have "CreateSkipStmt env a = Some (True, a\<lparr>lBofAt := 0, lEofAt := 0, bOrderChanged := False, indexColumns := 1,
      IndexBindings := (IndexBindings a)[0 := Some [?ib]],
      sOrderBy := order_text (the (quoted a (sRecnoName a))) d, sLimit1 := fst (limit_texts (nSystemID a)),
      sLimit2 := snd (limit_texts (nSystemID a)), indexLevel := 0,
      sWhere := where_text (the (quoted a (sRecnoName a))) (restriction_text texts) d,
      bConditionChanged1 := False, sSql := skip_text (restriction_text texts) a d,
      CurrRecord := Some (recno_bound (of_int r) a cs)\<rparr>)"
    unfolding c by (simp add: a4_def a3_def a2_def a1_def)
  with f e show ?thesis
    by blast
qed


section \<open>The statement bound to the current record\<close>

lemma bind_natural:
  assumes ne: "IndexBindings a \<noteq> []" "hOrdCurrent a = 0" and acc: "accepts env (world a)"
    and ib: "recno_slot a ib" "dir_stmt a ib = Some st"
    and cs: "CurrRecord a = Some cs" "0 < ulhRecno a" "ulhRecno a \<le> length cs"
    and ibs: "IndexBindings a ! 0 = Some [ib]"
  shows "BindAllIndexStmts env a = Some (a\<lparr>IndexBindings := (IndexBindings a)[0 := Some
    [put_dir_stmt a (map_option (bind_at 1 (BindCol (ulhRecno a - 1) SQL_C_DOUBLE False)) (dir_stmt a ib)) ib]]\<rparr>)"
  using assms
  by (simp add: BindAllIndexStmts_def index_bind_def bindings_of_def rd_at_def wr_at_def SR_GetBindStruct_def
      recno_slot_def bind_slot_def SQLBindParameter_def accepts_def put_index_bind_def report_def
      nat_diff_distrib Let_def)

lemma feed_natural:
  assumes ne: "IndexBindings a \<noteq> []" "hOrdCurrent a = 0"
    and ib: "recno_slot a ib" "IndexBindings a ! 0 = Some [ib]"
    and cs: "CurrRecord a = Some cs" "0 < ulhRecno a" "ulhRecno a \<le> length cs"
    and cur: "SR_GetCurrentRecordNum a = Some r"
  shows "FeedCurrentRecordToBindings env a = Some (a\<lparr>CurrRecord := Some (recno_bound (of_int r) a cs)\<rparr>)"
  using assms
  by (simp add: FeedCurrentRecordToBindings_def feed_recno_def index_bind_def bindings_of_def rd_at_def wr_at_def
      SR_GetBindStruct_def put_BindStruct_def recno_slot_def recno_bound_def nat_diff_distrib Let_def)

lemma missing_natural:
  assumes "IndexBindings a \<noteq> []" "hOrdCurrent a = 0" "slot_ok extra a"
  obtains "skip_stmt_missing a = Some True"
    | ib where "skip_stmt_missing a = Some False" "IndexBindings a ! 0 = Some [ib]" "recno_slot a ib"
      "dir_stmt a ib \<noteq> None"
proof (cases "IndexBindings a ! 0")
  case None
  then show ?thesis
    using assms that(1) by (simp add: skip_stmt_missing_def rd_at_def)
next
  case (Some ibs)
  then obtain ib where ib: "ibs = [ib]" "recno_slot a ib"
    using assms by (auto simp: slot_ok_def)
  show ?thesis
    using assms(1,2) that Some ib by (cases "dir_stmt a ib") (simp_all add: skip_stmt_missing_def rd_at_def)
qed

definition other_stmt :: "direction \<Rightarrow> indexbind \<Rightarrow> stmt option" where
  "other_stmt d ib = (if d = SR_LIST_FORWARD then SkipBwdStmt ib else SkipFwdStmt ib)"

fun other :: "direction \<Rightarrow> direction" where
  "other SR_LIST_FORWARD = SR_LIST_BACKWARD"
| "other SR_LIST_BACKWARD = SR_LIST_FORWARD"

text \<open>After this the statement for the direction is there and is about the current record.\<close>

definition ready_slot :: "bytes \<Rightarrow> 'w exarea \<Rightarrow> direction \<Rightarrow> indexbind \<Rightarrow> bool" where
  "ready_slot extra a d ib \<longleftrightarrow> recno_slot a ib \<and>
     (if d = SR_LIST_FORWARD then SkipFwdStmt ib else SkipBwdStmt ib) = Some (skip_stmt extra a d) \<and>
     other_stmt d ib \<in> {None, Some (skip_stmt extra a (other d))}"

definition make_statement :: "'w exenv \<Rightarrow> 'w exarea \<Rightarrow> 'w exarea option" where
  "make_statement env a = do {
     (new, a2) \<leftarrow> CreateSkipStmt env a;
     if new then BindAllIndexStmts env a2 else FeedCurrentRecordToBindings env a2
   }"

lemma make_statement_natural:
  assumes nat: "natural_area env texts a" and acc: "accepts env (world a)"
    and slot: "slot_ok (restriction_text texts) a"
    and cur: "CurrRecord a = Some cs" "length cs = length (aFields a)" "SR_GetCurrentRecordNum a = Some r"
    and d: "recordListDirection a = d" and one: "indexColumns a = 1"
  shows "\<exists>ib s w o1 l1 l2 e1 e2 il. ready_slot (restriction_text texts) a d ib \<and>
    e1 \<in> {0, lBofAt a} \<and> e2 \<in> {0, lEofAt a} \<and>
    make_statement env a = Some (a\<lparr>lBofAt := e1, lEofAt := e2, bOrderChanged := False,
      IndexBindings := (IndexBindings a)[0 := Some [ib]], sOrderBy := o1, sLimit1 := l1, sLimit2 := l2,
      indexLevel := il, sWhere := w, bConditionChanged1 := False, sSql := s,
      CurrRecord := Some (recno_bound (of_int r) a cs)\<rparr>)"
proof -
  have ne: "IndexBindings a \<noteq> []" "hOrdCurrent a = 0" "0 < ulhRecno a" "ulhRecno a \<le> length (aFields a)"
    using nat by (auto simp: natural_area_def)
  consider (new) "bOrderChanged a \<or> bConditionChanged1 a \<or> skip_stmt_missing a = Some True"
    | (old) ib where "\<not> bOrderChanged a" "\<not> bConditionChanged1 a" "skip_stmt_missing a = Some False"
        "IndexBindings a ! 0 = Some [ib]" "recno_slot a ib" "dir_stmt a ib \<noteq> None"
    using missing_natural [OF ne(1,2) slot] by metis
  then show ?thesis
  proof cases
    case new
    from create_natural [OF nat acc slot cur d new]
    obtain ib ib1 s w o1 l1 l2 where f: "fresh_slot (restriction_text texts) a d ib1"
      and e: "ib1 = put_dir_stmt a (map_option (bind_at 1 (BindCol (ulhRecno a - 1) SQL_C_DOUBLE False)) (dir_stmt a ib)) ib"
      and c: "CreateSkipStmt env a = Some (True, a\<lparr>lBofAt := 0, lEofAt := 0, bOrderChanged := False, indexColumns := 1,
      IndexBindings := (IndexBindings a)[0 := Some [ib]], sOrderBy := o1, sLimit1 := l1, sLimit2 := l2,
      indexLevel := 0, sWhere := w, bConditionChanged1 := False, sSql := s,
      CurrRecord := Some (recno_bound (of_int r) a cs)\<rparr>)" (is "_ = Some (True, ?b)")
      by blast
    have b: "recno_slot ?b ib" "\<exists>st. dir_stmt ?b ib = Some st"
      using f e d by (cases d; cases "dir_stmt a ib";
          auto simp: fresh_slot_def recno_slot_def put_dir_stmt_def dir_stmt_def)+
    then obtain st where st: "dir_stmt ?b ib = Some st" by blast
    have "BindAllIndexStmts env ?b = Some (?b\<lparr>IndexBindings := (IndexBindings ?b)[0 := Some
      [put_dir_stmt ?b (map_option (bind_at 1 (BindCol (ulhRecno ?b - 1) SQL_C_DOUBLE False)) (dir_stmt ?b ib)) ib]]\<rparr>)"
      by (rule bind_natural [OF _ _ _ b(1) st, where cs = "recno_bound (of_int r) a cs"]) (use ne acc cur in simp_all)
    also have "put_dir_stmt ?b (map_option (bind_at 1 (BindCol (ulhRecno ?b - 1) SQL_C_DOUBLE False)) (dir_stmt ?b ib)) ib = ib1"
      by (simp add: e put_dir_stmt_def dir_stmt_def)
    finally have "make_statement env a = Some (a\<lparr>lBofAt := 0, lEofAt := 0, bOrderChanged := False,
      IndexBindings := (IndexBindings a)[0 := Some [ib1]], sOrderBy := o1, sLimit1 := l1, sLimit2 := l2,
      indexLevel := 0, sWhere := w, bConditionChanged1 := False, sSql := s,
      CurrRecord := Some (recno_bound (of_int r) a cs)\<rparr>)"
      using one by (simp add: make_statement_def c)
    moreover have "ready_slot (restriction_text texts) a d ib1"
      using f by (cases d) (simp_all add: fresh_slot_def ready_slot_def other_stmt_def)
    ultimately show ?thesis by blast
  next
    case old
    have c: "CreateSkipStmt env a = Some (False, a)"
      using old by (simp add: CreateSkipStmt_def)
    have u: "(IndexBindings a)[0 := Some [ib]] = IndexBindings a"
      using old(4) list_update_id [of "IndexBindings a" 0] by simp
    have "FeedCurrentRecordToBindings env a = Some (a\<lparr>CurrRecord := Some (recno_bound (of_int r) a cs)\<rparr>)"
      by (rule feed_natural [OF _ _ old(5,4) cur(1) _ _ cur(3)]) (use ne cur in simp_all)
    then have "make_statement env a = Some (a\<lparr>lBofAt := lBofAt a, lEofAt := lEofAt a, bOrderChanged := False,
      IndexBindings := (IndexBindings a)[0 := Some [ib]], sOrderBy := sOrderBy a, sLimit1 := sLimit1 a,
      sLimit2 := sLimit2 a, indexLevel := indexLevel a, sWhere := sWhere a, bConditionChanged1 := False,
      sSql := sSql a, CurrRecord := Some (recno_bound (of_int r) a cs)\<rparr>)"
      using old(1,2) by (simp add: make_statement_def c u)
    moreover have "ready_slot (restriction_text texts) a d ib"
      using old slot d by (cases d) (auto simp: ready_slot_def slot_ok_def dir_stmt_def other_stmt_def)
    ultimately show ?thesis by blast
  qed
qed

end
