(* ===== verification/ExWindow.thy ===== *)
theory ExWindow
  imports ExNatural
begin

text \<open>
  What a server holds and answers, and the record list of the second driver as a window on it: how the
  list is filled in the natural order, and that a record is read from the buffer pool or from a page.
\<close>

section \<open>Rows of the server\<close>

text \<open>
  The record numbers of a table in ascending order, the columns of a record as the statement for a page
  gives them, the record as the area has it in its buffer, and how many rows a statement for a list gives.
\<close>

record served =
  tb_rows :: "int list"
  tb_raw :: "int \<Rightarrow> item list"
  tb_record :: "int \<Rightarrow> item list"
  tb_limit :: nat

definition ok_rows :: "'w \<Rightarrow> item list list \<Rightarrow> 'w answer" where
  "ok_rows w rs = \<lparr>an_res = SQL_SUCCESS, an_rows = map (Pair SQL_SUCCESS) rs, an_more = [], an_world = w\<rparr>"

fun along :: "direction \<Rightarrow> 'a list \<Rightarrow> 'a list" where
  "along SR_LIST_FORWARD xs = xs"
| "along SR_LIST_BACKWARD xs = rev xs"

fun reaches :: "direction \<Rightarrow> int \<Rightarrow> int \<Rightarrow> bool" where
  "reaches SR_LIST_FORWARD r x \<longleftrightarrow> r \<le> x"
| "reaches SR_LIST_BACKWARD r x \<longleftrightarrow> x \<le> r"

text \<open>
  The server takes every statement, answers the statement for a list with the records from a number on,
  and the statement for a page with the records that are asked for.
\<close>

definition serves :: "'w exenv \<Rightarrow> 'w \<Rightarrow> served \<Rightarrow> (direction \<Rightarrow> bytes) \<Rightarrow> bytes \<Rightarrow> bool" where
  "serves env w tb from page \<longleftrightarrow>
     accepts env w \<and> (\<forall>r. get_long env (INum r) = (SQL_SUCCESS, r)) \<and> 251 \<le> tb_limit tb \<and>
     sorted_wrt (<) (tb_rows tb) \<and> 0 \<notin> set (tb_rows tb) \<and>
     (\<forall>d r. execute env (from d) [PNum (of_int r)] w =
        ok_rows w (map (\<lambda>x. [INum x]) (take (tb_limit tb) (filter (reaches d r) (along d (tb_rows tb)))))) \<and>
     (\<forall>rs. execute env page (map PLong rs) w =
        ok_rows w (map (tb_raw tb) (filter (\<lambda>r. r \<in> set rs) (tb_rows tb))))"

lemma length_along [simp]: "length (along d xs) = length xs"
  by (cases d) simp_all

lemma set_along [simp]: "set (along d xs) = set xs"
  by (cases d) simp_all

lemma distinct_along [simp]: "distinct (along d xs) = distinct xs"
  by (cases d) simp_all

lemma along_other: "along (other d) xs = rev (along d xs)"
  by (cases d) simp_all

lemma other_other [simp]: "other (other d) = d"
  by (cases d) simp_all

lemma sorted_distinct: "sorted_wrt (<) (xs :: int list) \<Longrightarrow> distinct xs"
  by (induction xs) auto

text \<open>From a record on: what comes behind it.\<close>

lemma filter_from:
  assumes "sorted_wrt R xs" "i < length xs" "\<And>x y. R x y \<Longrightarrow> P x y \<and> \<not> P y x" "\<And>x. P x x"
  shows "filter (P (xs ! i)) xs = drop i xs"
  using assms(1,2)
proof (induction xs arbitrary: i)
  case (Cons x xs)
  show ?case
  proof (cases i)
    case 0
    then show ?thesis using Cons assms(3,4) by (auto simp: filter_id_conv)
  next
    case (Suc j)
    then have "R x (xs ! j)" using Cons.prems by simp
    then show ?thesis using Cons Suc assms(3) by auto
  qed
qed simp

lemma rows_from:
  assumes "sorted_wrt (<) rows" "j < length rows"
  shows "filter (reaches d (along d rows ! j)) (along d rows) = drop j (along d rows)"
proof (cases d)
  case SR_LIST_FORWARD
  then show ?thesis
    using filter_from [of "(<)" rows j "reaches d"] assms by simp
next
  case SR_LIST_BACKWARD
  have "sorted_wrt (>) (rev rows)"
    using assms(1) by (simp add: sorted_wrt_rev)
  then show ?thesis
    using filter_from [of "(>)" "rev rows" j "reaches d"] assms SR_LIST_BACKWARD by simp
qed

section \<open>Filling a list\<close>

definition put_run :: "nat \<Rightarrow> 'a list \<Rightarrow> 'a list \<Rightarrow> 'a list" where
  "put_run i xs l = take i l @ xs @ drop (i + length xs) l"

lemma put_run_Nil [simp]: "put_run i [] l = l"
  by (simp add: put_run_def)

lemma put_run_Cons: "i < length l \<Longrightarrow> put_run i (x # xs) l = put_run (Suc i) xs (l[i := x])"
  by (simp add: put_run_def take_Suc_conv_app_nth)

lemma length_put_run [simp]: "i + length xs \<le> length l \<Longrightarrow> length (put_run i xs l) = length l"
  by (simp add: put_run_def)

lemma take_put_run: "length xs \<le> length l \<Longrightarrow> take (length xs) (put_run 0 xs l) = xs"
  by (simp add: put_run_def)

definition with_run :: "nat \<Rightarrow> int list \<Rightarrow> 'w exarea \<Rightarrow> 'w exarea" where
  "with_run i xs a =
     a\<lparr>recordList := put_run i xs (recordList a), deletedList := put_run i (map (\<lambda>x. SPACE) xs) (deletedList a)\<rparr>"

lemma fetch_list_rows:
  assumes "\<And>r. get_long env (INum r) = (SQL_SUCCESS, r)" "ulhDeleted a = 0"
    "i + k \<le> length (recordList a)" "length (deletedList a) = length (recordList a)"
  shows "fetch_list env ends k i (map (Pair SQL_SUCCESS) (map (\<lambda>x. [INum x]) xs)) a =
    (if k \<le> length xs then Some (Some (i + k), with_run i (take k xs) a)
     else do { a1 \<leftarrow> ends (i + length xs) SQL_NO_DATA (with_run i xs a); Some (Some (i + length xs), a1) })"
  using assms(2-4)
proof (induction k arbitrary: i xs a)
  case 0
  then show ?case by (simp add: with_run_def)
next
  case (Suc k)
  show ?case
  proof (cases xs)
    case Nil
    then show ?thesis using Suc.prems by (simp add: with_run_def)
  next
    case (Cons x ys)
    let ?b = "a\<lparr>recordList := (recordList a)[i := x], deletedList := (deletedList a)[i := SPACE]\<rparr>"
    have r: "with_run i (x # zs) a = with_run (Suc i) zs ?b" for zs
      using Suc.prems by (simp add: with_run_def put_run_Cons)
    show ?thesis
      using Suc.IH [of ?b "Suc i" ys] Suc.prems Cons
      by (simp add: SQLGetData_long_def assms(1) deleted_flag_def r)
  qed
qed

section \<open>The list behind a record\<close>

definition set_end :: "int \<Rightarrow> 'w exarea \<Rightarrow> 'w exarea" where
  "set_end r a = (if recordListDirection a = SR_LIST_FORWARD then a\<lparr>lEofAt := r\<rparr> else a\<lparr>lBofAt := r\<rparr>)"

definition with_list :: "int list \<Rightarrow> 'w exarea \<Rightarrow> 'w exarea" where
  "with_list xs a = (with_run 0 xs a)\<lparr>recordListSize := int (length xs), recordListPos := 0\<rparr>"


definition list_behind :: "int list \<Rightarrow> int \<Rightarrow> 'w exarea \<Rightarrow> errcode \<times> 'w exarea" where
  "list_behind rest r a =
     (if rest = [] then (HB_SUCCESS, set_end r a)
      else (RESULTSET_OK, with_list (take RECORD_LIST_SIZE rest)
             (if length rest < RECORD_LIST_SIZE then set_end (last rest) a else a)))"

lemma prepared_natural:
  assumes sv: "serves env (world a) tb (skip_text extra a) page"
    and del: "ulhDeleted a = 0" and ord: "hOrdCurrent a = 0" and lev: "indexLevel a = 1"
    and ib: "IndexBindings a = Some [ib] # slots" "dir_stmt a ib = Some (skip_stmt extra a d)"
    and cs: "CurrRecord a = Some cs" "ulhRecno a - 1 < length cs" "asNumeric (cs ! (ulhRecno a - 1)) = of_int r"
    and r: "lCurrentRecord a = r" "j < length (tb_rows tb)" "along d (tb_rows tb) ! j = r"
    and len: "length (recordList a) = RECORD_LIST_SIZE" "length (deletedList a) = RECORD_LIST_SIZE"
    and pos: "0 \<le> recordListPos a" "recordListPos a < recordListSize a" "recordListPos a < int RECORD_LIST_SIZE"
      "recordList a ! nat (recordListPos a) = r"
  shows "getPreparedRecordList env RECORD_LIST_SIZE a =
    Some (list_behind (drop (Suc j) (along d (tb_rows tb))) r a)"
proof -
  define rest where "rest = drop (Suc j) (along d (tb_rows tb))"
  define lim where "lim = tb_limit tb - 1"
  have lim: "250 \<le> lim" "tb_limit tb = Suc lim"
    using sv by (auto simp: serves_def lim_def)
  have g: "get_long env (INum n) = (SQL_SUCCESS, n)" for n
    using sv by (simp add: serves_def)
  have "drop j (along d (tb_rows tb)) = r # rest"
    using r Cons_nth_drop_Suc [of j "along d (tb_rows tb)"] by (simp add: rest_def)
  then have "filter (reaches d r) (along d (tb_rows tb)) = r # rest"
    using rows_from [of "tb_rows tb" j d] sv r by (simp add: serves_def)
  then have ex: "SQLExecute env (skip_stmt extra a d) a =
      (ok_rows (world a) (map (\<lambda>x. [INum x]) (r # take lim rest)), a)"
    using sv cs by (simp add: SQLExecute_def skip_stmt_def serves_def bound_member_def lim(2) ok_rows_def)
  have ib0: "index_bind a 0 0 = Some ib"
    by (simp add: index_bind_def bindings_of_def rd_at_def ib)
  have fc: "find_current env r (map (Pair SQL_SUCCESS) (map (\<lambda>x. [INum x]) (r # ys))) =
      Inr (map (Pair SQL_SUCCESS) (map (\<lambda>x. [INum x]) ys))" for ys
    by (simp add: SQLGetData_long_def g)
  have fl: "fetch_list env prepared_end RECORD_LIST_SIZE 0 (map (Pair SQL_SUCCESS) (map (\<lambda>x. [INum x]) (take lim rest))) a =
    (if RECORD_LIST_SIZE \<le> length (take lim rest) then Some (Some RECORD_LIST_SIZE, with_run 0 (take RECORD_LIST_SIZE (take lim rest)) a)
     else do { a1 \<leftarrow> prepared_end (length (take lim rest)) SQL_NO_DATA (with_run 0 (take lim rest) a);
               Some (Some (length (take lim rest)), a1) })"
    using fetch_list_rows [of env a 0 RECORD_LIST_SIZE prepared_end "take lim rest"] g del len by simp
  have "getPreparedRecordList env RECORD_LIST_SIZE a =
      map_option list_filled (fetch_list env prepared_end RECORD_LIST_SIZE 0
        (map (Pair SQL_SUCCESS) (map (\<lambda>x. [INum x]) (take lim rest))) a)"
    by (simp only: getPreparedRecordList_def ord ib0 Option.bind.bind_lunit ib(2) option.case Let_def prod.case ex r(1))
       (simp add: ok_rows_def fc [of "take lim rest", simplified])
  also have "\<dots> = Some (list_behind rest r a)"
  proof (cases "rest = []")
    case True
    then show ?thesis
      unfolding fl using pos len lev
      by (simp add: prepared_end_def end_known_def rd_at_def with_run_def list_behind_def set_end_def
          list_filled_def)
  next
    case False
    show ?thesis
    proof (cases "length rest < 250")
      case True
      then have t: "take lim rest = rest" using lim by simp
      have k: "int (length rest) - 1 = int (length rest - 1)"
        using False by (cases rest) simp_all
      have "put_run 0 rest (recordList a) ! (length rest - 1) = last rest"
        using False by (simp add: put_run_def nth_append last_conv_nth)
      moreover have "length rest - 1 < length (put_run 0 rest (recordList a))"
        using False True len by (simp add: put_run_def)
      ultimately have "rd_at (put_run 0 rest (recordList a)) (int (length rest) - 1) = Some (last rest)"
        unfolding k rd_at_of_nat by simp
      then have e: "end_known (int (length rest) - 1) (with_run 0 rest a) = Some (set_end (last rest) (with_run 0 rest a))"
        by (simp add: end_known_def with_run_def set_end_def)
      have "prepared_end (length rest) SQL_NO_DATA (with_run 0 rest a) = Some (set_end (last rest) (with_run 0 rest a))"
        using False lev unfolding prepared_end_def e by (simp add: with_run_def)
      then show ?thesis
        unfolding fl unfolding t using True False
        by (simp add: with_run_def with_list_def list_behind_def set_end_def list_filled_def)
    next
      case False
      then have "take 250 (take lim rest) = take 250 rest" "250 \<le> length (take lim rest)" "rest \<noteq> []"
        using lim by (auto simp: min_def)
      then show ?thesis
        unfolding fl using False by (simp add: with_list_def list_behind_def list_filled_def)
    qed
  qed
  finally show ?thesis by (simp add: rest_def)
qed


section \<open>Reading a record\<close>

definition page_refs :: "nat \<Rightarrow> bindref list" where
  "page_refs n = map BindRetrieve [0..<n]"

definition fields_settled :: "'w exarea \<Rightarrow> bool" where
  "fields_settled a \<longleftrightarrow>
     iColumnListStatus a = FIELD_LIST_STABLE \<or> iColumnListStatus a = FIELD_LIST_LEARNING \<and> sFields a \<noteq> None"

text \<open>The statement for a page is there, and the pool and the pages hold the records of the table.\<close>

definition reading :: "'w exenv \<Rightarrow> served \<Rightarrow> bytes \<Rightarrow> 'w exarea \<Rightarrow> bool" where
  "reading env tb page a \<longleftrightarrow>
     hStmtBuffer a = Some \<lparr>st_sql = page, st_binds = page_refs (s_pageReadSize env)\<rparr> \<and> fields_settled a \<and>
     length (lRecordToRetrieve a) = s_pageReadSize env \<and> 0 < s_pageReadSize env \<and> ulhDeleted a = 0 \<and>
     (\<forall>k v. map_of (hBufferPool a) k = Some v \<longrightarrow> v = tb_record tb k) \<and>
     (\<forall>r. length (tb_record tb r) = length (aBuffer a)) \<and>
     (\<forall>r \<in> set (tb_rows tb). row_record env (tb_raw tb r) 1 a = Some (tb_record tb r) \<and>
        SQLGetData_long env (tb_raw tb r) 1 = (SQL_SUCCESS, r))"

lemma copy_all_cols: "length ys = length zs \<Longrightarrow> copy_cols (Suc (length xs)) ys (xs @ zs) = xs @ ys"
proof (induction ys arbitrary: xs zs)
  case (Cons y ys)
  then obtain z zs' where z: "zs = z # zs'" by (cases zs) auto
  have "arr_set (xs @ z # zs') (Suc (length xs)) y = (xs @ [y]) @ zs'"
    by (simp add: arr_set_def)
  then show ?case
    using Cons.IH [of zs' "xs @ [y]"] Cons.prems z by simp
qed simp

lemma hb_arrayCopy_same: "length src = length dst \<Longrightarrow> hb_arrayCopy src dst = src"
  using copy_all_cols [of src dst "[]"] by (simp add: hb_arrayCopy_def)

lemma row_fields_cong:
  assumes "uiFieldList b = uiFieldList a" "iFieldListStatus b = iFieldListStatus a"
    "uiBufferIndex b = uiBufferIndex a" "aFields b = aFields a"
  shows "row_fields env row k n i b = row_fields env row k n i a"
  using assms by (induction k arbitrary: n i) (simp_all add: Let_def cong: if_cong)

lemma row_record_cong:
  assumes "uiFieldList b = uiFieldList a" "iFieldListStatus b = iFieldListStatus a"
    "uiBufferIndex b = uiBufferIndex a" "aFields b = aFields a" "lpFields b = lpFields a"
    "length (aBuffer b) = length (aBuffer a)"
  shows "row_record env row i b = row_record env row i a"
  using assms row_fields_cong [of b a] by (simp add: row_record_def)

lemma map_of_pool_add: "map_of (pool_add k v pool) k' = (if k' = k then Some v else map_of pool k')"
  unfolding pool_add_def by (induction pool) (auto split: if_splits)

lemma read_page_rows:
  assumes "ulhDeleted a = 0" "rd_at (recordList a) (recordListPos a) = Some here"
    "\<forall>r \<in> set L. row_record env (tb_raw tb r) 1 a = Some (tb_record tb r) \<and>
        SQLGetData_long env (tb_raw tb r) 1 = (SQL_SUCCESS, r)"
    "\<forall>r. length (tb_record tb r) = length (aBuffer a)"
    "\<forall>k v. map_of (hBufferPool a) k = Some v \<longrightarrow> v = tb_record tb k" "length L \<le> k"
  shows "\<exists>res' pool. (\<forall>k v. map_of pool k = Some v \<longrightarrow> v = tb_record tb k) \<and>
    read_page env k n res (map (Pair SQL_SUCCESS) (map (tb_raw tb) L)) a =
      Some (Some (n + length L, res'),
            a\<lparr>hBufferPool := pool, aBuffer := (if here \<in> set L then tb_record tb here else aBuffer a)\<rparr>)"
  using assms
proof (induction L arbitrary: k n res a)
  case Nil
  have "read_page env k n res [] a = Some (Some (n, if k = 0 then res else SQL_NO_DATA), a)"
    by (cases k) simp_all
  then show ?case
    using Nil(5) by (intro exI [of _ "if k = 0 then res else SQL_NO_DATA"] exI [of _ "hBufferPool a"]) simp
next
  case (Cons r L)
  then obtain k' where k: "k = Suc k'" "length L \<le> k'" by (cases k) auto
  let ?b = "a\<lparr>hBufferPool := pool_add r (tb_record tb r) (hBufferPool a),
              aBuffer := (if here = r then tb_record tb r else aBuffer a)\<rparr>"
  have "length (aBuffer ?b) = length (aBuffer a)"
    using Cons.prems(4) by simp
  then have c: "row_record env row i ?b = row_record env row i a" for row i
    by (intro row_record_cong) simp_all
  have "\<exists>res' pool. (\<forall>k v. map_of pool k = Some v \<longrightarrow> v = tb_record tb k) \<and>
    read_page env k' (Suc n) SQL_SUCCESS (map (Pair SQL_SUCCESS) (map (tb_raw tb) L)) ?b =
      Some (Some (Suc n + length L, res'),
            ?b\<lparr>hBufferPool := pool, aBuffer := (if here \<in> set L then tb_record tb here else aBuffer ?b)\<rparr>)"
  proof (rule Cons.IH)
    show "\<forall>r\<in>set L. row_record env (tb_raw tb r) 1 ?b = Some (tb_record tb r) \<and>
        SQLGetData_long env (tb_raw tb r) 1 = (SQL_SUCCESS, r)"
      using Cons.prems(3) by (simp add: c)
    show "\<forall>k v. map_of (hBufferPool ?b) k = Some v \<longrightarrow> v = tb_record tb k"
      using Cons.prems(5) by (simp add: map_of_pool_add)
  qed (use Cons.prems(1,2,4) k in simp_all)
  then obtain res' pool where p: "\<forall>k v. map_of pool k = Some v \<longrightarrow> v = tb_record tb k"
    "read_page env k' (Suc n) SQL_SUCCESS (map (Pair SQL_SUCCESS) (map (tb_raw tb) L)) ?b =
      Some (Some (Suc n + length L, res'),
            ?b\<lparr>hBufferPool := pool, aBuffer := (if here \<in> set L then tb_record tb here else aBuffer ?b)\<rparr>)"
    by blast
  have copy: "hb_arrayCopy (tb_record tb r) (aBuffer a) = tb_record tb r"
    using Cons.prems(4) by (simp add: hb_arrayCopy_same)
  have step: "read_page env k n res (map (Pair SQL_SUCCESS) (map (tb_raw tb) (r # L))) a =
      read_page env k' (Suc n) SQL_SUCCESS (map (Pair SQL_SUCCESS) (map (tb_raw tb) L)) ?b"
    using Cons.prems k by (simp add: copy)
  show ?case
    unfolding step p(2) using p(1)
    by (intro exI [of _ res'] exI [of _ pool]) simp
qed

definition page_number :: "'w exarea \<Rightarrow> nat \<Rightarrow> int" where
  "page_number a j = (if recordListPos a + int j < recordListSize a
                      then recordList a ! nat (recordListPos a + int j) else 0)"

lemma page_number_retrieve [simp]: "page_number (a\<lparr>lRecordToRetrieve := rs\<rparr>) = page_number a"
  by (simp add: page_number_def fun_eq_iff)

lemma retrieve_all:
  assumes "0 \<le> recordListPos a" "recordListSize a \<le> int (length (recordList a))"
    "i + k = length (lRecordToRetrieve a)"
  shows "retrieve_from k i a = Some (a\<lparr>lRecordToRetrieve := take i (lRecordToRetrieve a) @
    map (page_number a) [i..<i + k]\<rparr>)"
  using assms
proof (induction k arbitrary: i a)
  case 0
  then show ?case by simp
next
  case (Suc k)
  define b where "b = a\<lparr>lRecordToRetrieve := (lRecordToRetrieve a)[i := page_number a i]\<rparr>"
  have "retrieve_from (Suc k) i a = retrieve_from k (Suc i) b"
    using Suc.prems by (simp add: rd_at_def page_number_def b_def)
  also have "\<dots> = Some (b\<lparr>lRecordToRetrieve := take (Suc i) (lRecordToRetrieve b) @
    map (page_number b) [Suc i..<Suc i + k]\<rparr>)"
    by (rule Suc.IH) (use Suc.prems in \<open>simp_all add: b_def\<close>)
  also have "take (Suc i) (lRecordToRetrieve b) = take i (lRecordToRetrieve a) @ [page_number a i]"
    using Suc.prems by (simp add: take_Suc_conv_app_nth b_def)
  also have "page_number b = page_number a"
    by (simp add: b_def)
  also have "(take i (lRecordToRetrieve a) @ [page_number a i]) @ map (page_number a) [Suc i..<Suc i + k] =
      take i (lRecordToRetrieve a) @ map (page_number a) [i..<i + Suc k]"
    by (subst (2) upt_conv_Cons) simp_all
  finally show ?case
    by (simp add: b_def)
qed


definition read_result :: "int \<Rightarrow> served \<Rightarrow> (int \<times> item list) list \<Rightarrow> int list \<Rightarrow> 'w exarea \<Rightarrow> 'w exarea" where
  "read_result r tb pool ns a =
     a\<lparr>aBuffer := tb_record tb r, hBufferPool := pool, lRecordToRetrieve := ns\<rparr>"

lemma bound_page:
  "map (bound_value a) (page_refs (length (lRecordToRetrieve a))) = map PLong (lRecordToRetrieve a)"
  unfolding page_refs_def by (rule nth_equalityI) simp_all

text \<open>Reading from the server: what is asked for, and what is done with the answer.\<close>

lemma page_asked:
  assumes sv: "serves env (world a) tb from page" and rd: "reading env tb page a"
    and pos: "0 \<le> recordListPos a" "recordListSize a \<le> int (length (recordList a))"
    and key: "rd_at (recordList a) (recordListPos a) = Some r"
    and fresh: "upd \<or> map_of (hBufferPool a) r = None"
  obtains p1 ns where "ns = map (page_number a) [0..<s_pageReadSize env]" "p1 \<in> {[], hBufferPool a}"
    "updateRecordBuffer env upd a = do {
       (pr, a6) \<leftarrow> read_page env (s_pageReadSize env) 0 SQL_SUCCESS
         (map (Pair SQL_SUCCESS) (map (tb_raw tb) (filter (\<lambda>x. x \<in> set ns) (tb_rows tb))))
         (a\<lparr>hBufferPool := p1, lRecordToRetrieve := ns\<rparr>);
       (case pr of
          None \<Rightarrow> Some (HB_FAILURE, a6)
        | Some (n, res) \<Rightarrow> Some (if res = SQL_NO_DATA \<and> n = 0 then HB_FAILURE else HB_SUCCESS, a6)) }"
proof -
  define P where "P = s_pageReadSize env"
  define p1 where "p1 = (if int (length (hBufferPool a)) > s_bufferPoolSize env then [] else hBufferPool a)"
  define a1 where "a1 = a\<lparr>hBufferPool := p1\<rparr>"
  define ns where "ns = map (page_number a) [0..<P]"
  define a4 where "a4 = a1\<lparr>lRecordToRetrieve := ns\<rparr>"
  define L where "L = filter (\<lambda>x. x \<in> set ns) (tb_rows tb)"
  have P: "length (lRecordToRetrieve a) = P"
    using rd by (auto simp: reading_def P_def)
  have a1: "(if int (length (hBufferPool a)) > s_bufferPoolSize env then a\<lparr>hBufferPool := []\<rparr> else a) = a1"
    by (simp add: a1_def p1_def)
  have cl: "SR_getColumnList env a1 = Some (False, a1)" "hStmtBuffer a1 \<noteq> None"
    using rd by (auto simp: SR_getColumnList_def reading_def fields_settled_def a1_def Let_def)
  have "page_number a1 = page_number a"
    by (simp add: page_number_def a1_def fun_eq_iff)
  then have rt: "retrieve_from P 0 a1 = Some a4"
    using retrieve_all [of a1 0 P] pos P by (simp add: a1_def a4_def ns_def)
  have st: "hStmtBuffer a4 = Some \<lparr>st_sql = page, st_binds = page_refs P\<rparr>"
    using rd by (simp add: reading_def a4_def a1_def P_def)
  have lns: "length ns = P"
    by (simp add: ns_def)
  have ex: "SQLExecute env \<lparr>st_sql = page, st_binds = page_refs P\<rparr> a4 =
      (ok_rows (world a) (map (tb_raw tb) L), a4)"
    using bound_page [of a4] sv lns
    by (simp add: SQLExecute_def a4_def a1_def serves_def L_def ok_rows_def)
  have none: "(if upd then None else map_of (hBufferPool a) r) = None"
    using fresh by auto
  have "updateRecordBuffer env upd a = do {
       (pr, a6) \<leftarrow> read_page env P 0 SQL_SUCCESS (map (Pair SQL_SUCCESS) (map (tb_raw tb) L)) a4;
       (case pr of
          None \<Rightarrow> Some (HB_FAILURE, a6)
        | Some (n, res) \<Rightarrow> Some (if res = SQL_NO_DATA \<and> n = 0 then HB_FAILURE else HB_SUCCESS, a6)) }"
    unfolding updateRecordBuffer_def key Option.bind.bind_lunit none option.case
    by (simp add: a1 cl rt st ex Let_def P_def [symmetric]) (simp add: ok_rows_def)
  then show ?thesis
    using that [of ns p1] by (simp add: ns_def P_def p1_def a4_def a1_def L_def)
qed

lemma reading_result:
  assumes rd: "reading env tb page a" and pool: "\<forall>k v. map_of pool k = Some v \<longrightarrow> v = tb_record tb k"
    and ns: "length ns = s_pageReadSize env"
  shows "reading env tb page (read_result r tb pool ns a)"
proof -
  have "length (aBuffer (read_result r tb pool ns a)) = length (aBuffer a)"
    using rd by (simp add: read_result_def reading_def)
  then have "row_record env row i (read_result r tb pool ns a) = row_record env row i a" for row i
    by (intro row_record_cong) (simp_all add: read_result_def)
  then show ?thesis
    using rd pool ns by (simp add: reading_def read_result_def fields_settled_def)
qed

lemma read_natural:
  assumes sv: "serves env (world a) tb from page" and rd: "reading env tb page a"
    and pos: "0 \<le> recordListPos a" "recordListPos a < recordListSize a"
      "recordListSize a \<le> int (length (recordList a))"
    and r: "recordList a ! nat (recordListPos a) = r" "r \<in> set (tb_rows tb)"
  shows "\<exists>pool ns. updateRecordBuffer env upd a = Some (HB_SUCCESS, read_result r tb pool ns a) \<and>
    reading env tb page (read_result r tb pool ns a)"
proof -
  have key: "rd_at (recordList a) (recordListPos a) = Some r"
    using pos r by (simp add: rd_at_def)
  have old: "\<forall>k v. map_of (hBufferPool a) k = Some v \<longrightarrow> v = tb_record tb k"
    using rd by (simp add: reading_def)
  show ?thesis
  proof (cases "upd \<or> map_of (hBufferPool a) r = None")
    case False
    then obtain v where Some: "map_of (hBufferPool a) r = Some v" by blast
    then have v: "v = tb_record tb r" "length v = length (aBuffer a)"
      using rd by (auto simp: reading_def)
    have "updateRecordBuffer env upd a = Some (HB_SUCCESS, a\<lparr>aBuffer := tb_record tb r\<rparr>)"
      using Some v False by (simp add: updateRecordBuffer_def key hb_arrayCopy_same)
    then have "updateRecordBuffer env upd a =
        Some (HB_SUCCESS, read_result r tb (hBufferPool a) (lRecordToRetrieve a) a)"
      by (simp add: read_result_def)
    moreover have "reading env tb page (read_result r tb (hBufferPool a) (lRecordToRetrieve a) a)"
      by (rule reading_result [OF rd old]) (use rd in \<open>simp add: reading_def\<close>)
    ultimately show ?thesis by blast
  next
    case True
    define P where "P = s_pageReadSize env"
    obtain p1 ns where ns: "ns = map (page_number a) [0..<P]" and p1: "p1 \<in> {[], hBufferPool a}"
      and u: "updateRecordBuffer env upd a = do {
       (pr, a6) \<leftarrow> read_page env P 0 SQL_SUCCESS
         (map (Pair SQL_SUCCESS) (map (tb_raw tb) (filter (\<lambda>x. x \<in> set ns) (tb_rows tb))))
         (a\<lparr>hBufferPool := p1, lRecordToRetrieve := ns\<rparr>);
       (case pr of
          None \<Rightarrow> Some (HB_FAILURE, a6)
        | Some (n, res) \<Rightarrow> Some (if res = SQL_NO_DATA \<and> n = 0 then HB_FAILURE else HB_SUCCESS, a6)) }"
      unfolding P_def by (rule page_asked [OF sv rd pos(1,3) key True])
    define L where "L = filter (\<lambda>x. x \<in> set ns) (tb_rows tb)"
    define a4 where "a4 = a\<lparr>hBufferPool := p1, lRecordToRetrieve := ns\<rparr>"
    have P: "0 < P" and lns: "length ns = P"
      using rd by (auto simp: reading_def P_def ns)
    have "page_number a 0 = r"
      using pos r by (simp add: page_number_def)
    then have rL: "r \<in> set L"
      using P r by (auto simp: L_def ns image_def)
    have "distinct L"
      using sv sorted_distinct [of "tb_rows tb"] by (simp add: L_def serves_def)
    then have "length L = card (set L)"
      by (simp add: distinct_card)
    also have "\<dots> \<le> card (set ns)"
      by (rule card_mono) (auto simp: L_def)
    also have "\<dots> \<le> P"
      using card_length [of ns] lns by simp
    finally have lL: "length L \<le> P" .
    have "length (aBuffer a4) = length (aBuffer a)"
      by (simp add: a4_def)
    then have rr: "row_record env row i a4 = row_record env row i a" for row i
      by (intro row_record_cong) (simp_all add: a4_def)
    have "\<exists>res' pool. (\<forall>k v. map_of pool k = Some v \<longrightarrow> v = tb_record tb k) \<and>
      read_page env P 0 SQL_SUCCESS (map (Pair SQL_SUCCESS) (map (tb_raw tb) L)) a4 =
      Some (Some (0 + length L, res'),
            a4\<lparr>hBufferPool := pool, aBuffer := (if r \<in> set L then tb_record tb r else aBuffer a4)\<rparr>)"
    proof (rule read_page_rows)
      show "rd_at (recordList a4) (recordListPos a4) = Some r"
        using key by (simp add: a4_def)
      show "\<forall>r\<in>set L. row_record env (tb_raw tb r) 1 a4 = Some (tb_record tb r) \<and>
          SQLGetData_long env (tb_raw tb r) 1 = (SQL_SUCCESS, r)"
        using rd by (simp add: rr L_def reading_def)
      show "\<forall>k v. map_of (hBufferPool a4) k = Some v \<longrightarrow> v = tb_record tb k"
        using old p1 by (auto simp: a4_def)
    qed (use rd lL in \<open>simp_all add: reading_def a4_def\<close>)
    then obtain res' pool where p: "\<forall>k v. map_of pool k = Some v \<longrightarrow> v = tb_record tb k"
      "read_page env P 0 SQL_SUCCESS (map (Pair SQL_SUCCESS) (map (tb_raw tb) L)) a4 =
        Some (Some (length L, res'), a4\<lparr>hBufferPool := pool, aBuffer := tb_record tb r\<rparr>)"
      using rL by auto
    have "length L \<noteq> 0" using rL by auto
    then have "updateRecordBuffer env upd a =
        Some (HB_SUCCESS, a4\<lparr>hBufferPool := pool, aBuffer := tb_record tb r\<rparr>)"
      unfolding u L_def [symmetric] a4_def [symmetric] p(2) by simp
    then have "updateRecordBuffer env upd a = Some (HB_SUCCESS, read_result r tb pool ns a)"
      by (simp add: read_result_def a4_def)
    moreover have "reading env tb page (read_result r tb pool ns a)"
      by (rule reading_result [OF rd p(1)]) (use lns in \<open>simp add: P_def\<close>)
    ultimately show ?thesis by blast
  qed
qed

text \<open>A record that is not there, alone in the list.\<close>

lemma read_missing:
  assumes sv: "serves env (world a) tb from page" and rd: "reading env tb page a"
    and pos: "recordListPos a = 0" "recordListSize a = 1" "recordList a \<noteq> []"
    and r: "recordList a ! 0 = r" "r \<notin> set (tb_rows tb)"
  obtains p1 ns where "updateRecordBuffer env True a =
      Some (HB_FAILURE, a\<lparr>hBufferPool := p1, lRecordToRetrieve := ns\<rparr>)"
    "p1 \<in> {[], hBufferPool a}" "length ns = s_pageReadSize env"
proof -
  have key: "rd_at (recordList a) (recordListPos a) = Some r"
    using pos r by (simp add: rd_at_def)
  have l: "1 \<le> length (recordList a)"
    using pos(3) by (cases "recordList a") simp_all
  obtain p1 ns where n: "ns = map (page_number a) [0..<s_pageReadSize env]" "p1 \<in> {[], hBufferPool a}"
    and u: "updateRecordBuffer env True a = do {
       (pr, a6) \<leftarrow> read_page env (s_pageReadSize env) 0 SQL_SUCCESS
         (map (Pair SQL_SUCCESS) (map (tb_raw tb) (filter (\<lambda>x. x \<in> set ns) (tb_rows tb))))
         (a\<lparr>hBufferPool := p1, lRecordToRetrieve := ns\<rparr>);
       (case pr of
          None \<Rightarrow> Some (HB_FAILURE, a6)
        | Some (n, res) \<Rightarrow> Some (if res = SQL_NO_DATA \<and> n = 0 then HB_FAILURE else HB_SUCCESS, a6)) }"
    by (rule page_asked [OF sv rd _ _ key, of True]) (use pos l in simp_all)
  have "set ns \<subseteq> {r, 0}"
    using pos(1,2) r(1) by (auto simp: n page_number_def)
  moreover have "0 \<notin> set (tb_rows tb)"
    using sv by (simp add: serves_def)
  ultimately have L: "filter (\<lambda>x. x \<in> set ns) (tb_rows tb) = []"
    using r(2) by (auto simp: filter_empty_conv)
  obtain P where P: "s_pageReadSize env = Suc P"
    using rd by (cases "s_pageReadSize env") (simp_all add: reading_def)
  have "length ns = s_pageReadSize env"
    by (simp add: n)
  moreover have "updateRecordBuffer env True a =
      Some (HB_FAILURE, a\<lparr>hBufferPool := p1, lRecordToRetrieve := ns\<rparr>)"
    unfolding u L unfolding P by simp
  ultimately show ?thesis
    using that n(2) by blast
qed

end
