(* ===== verification/ExScan.thy ===== *)
theory ExScan
  imports ExWindow
begin

text \<open>
  Moving by one record in the natural order: the record list is a window on the records of the server,
  every single skip goes to the neighbour of the current record or to an end, and the window stays one.
\<close>

section \<open>The invariant\<close>

text \<open>Nothing is pending, and nothing is hidden by a filter.\<close>

definition idle :: "'w exenv \<Rightarrow> 'w exarea \<Rightarrow> bool" where
  "idle env a \<longleftrightarrow> \<not> bufferHot a \<and> \<not> bIsInsert a \<and> lpdbPendingRel a = None \<and> \<not> firstinteract a \<and>
     \<not> lpdbRelations a \<and> \<not> x_filtering env a"

text \<open>The end of the table in a direction, as far as it is known.\<close>

fun end_of :: "direction \<Rightarrow> 'w exarea \<Rightarrow> int" where
  "end_of SR_LIST_FORWARD a = lEofAt a"
| "end_of SR_LIST_BACKWARD a = lBofAt a"

definition scanning :: "'w exenv \<Rightarrow> served \<Rightarrow> (string \<Rightarrow> bytes) \<Rightarrow> bytes \<Rightarrow> 'w exarea \<Rightarrow> bool" where
  "scanning env tb texts page a \<longleftrightarrow>
     natural_area env texts a \<and> idle env a \<and> serves env (world a) tb (skip_text (restriction_text texts) a) page \<and>
     reading env tb page a \<and> slot_ok (restriction_text texts) a \<and>
     (\<forall>cs. CurrRecord a = Some cs \<longrightarrow> length cs = length (aFields a)) \<and>
     (\<forall>d. end_of d a \<in> {0, last (along d (tb_rows tb))}) \<and>
     lLastRec a \<notin> set (tb_rows tb) \<and> hb_itemGetNL (x_info a SR_AINFO_RCOUNT) + 1 \<notin> set (tb_rows tb)"

text \<open>The list is a part of the table in its direction; the current record is the \<open>j\<close>-th.\<close>

definition window :: "served \<Rightarrow> nat \<Rightarrow> 'w exarea \<Rightarrow> bool" where
  "window tb j a \<longleftrightarrow>
     length (recordList a) = RECORD_LIST_SIZE \<and> length (deletedList a) = RECORD_LIST_SIZE \<and>
     (\<exists>p s. recordListPos a = int p \<and> recordListSize a = int s \<and> p < s \<and> s \<le> RECORD_LIST_SIZE \<and> p \<le> j \<and>
        j - p + s \<le> length (tb_rows tb) \<and>
        take s (recordList a) = take s (drop (j - p) (along (recordListDirection a) (tb_rows tb))))"

text \<open>A list of more than one record that starts where the table starts knows that; if it is the whole
  table, it knows both ends.\<close>

definition anchored :: "served \<Rightarrow> nat \<Rightarrow> 'w exarea \<Rightarrow> bool" where
  "anchored tb j a \<longleftrightarrow>
     (let d = recordListDirection a in
      recordListPos a = int j \<and> recordListSize a > 1 \<longrightarrow>
        end_of (other d) a = along d (tb_rows tb) ! 0 \<and>
        (recordListSize a = int (length (tb_rows tb)) \<longrightarrow> end_of d a = last (along d (tb_rows tb))))"

text \<open>The current record is the \<open>i\<close>-th in ascending order, and in the buffer.\<close>

definition towards :: "direction \<Rightarrow> nat \<Rightarrow> nat \<Rightarrow> nat" where
  "towards d n i = (if d = SR_LIST_FORWARD then i else n - 1 - i)"

definition on_row :: "served \<Rightarrow> nat \<Rightarrow> 'w exarea \<Rightarrow> bool" where
  "on_row tb i a \<longleftrightarrow>
     i < length (tb_rows tb) \<and>
     (let j = towards (recordListDirection a) (length (tb_rows tb)) i in window tb j a \<and> anchored tb j a)"

lemma along_towards: "i < length xs \<Longrightarrow> along d xs ! towards d (length xs) i = xs ! i"
  by (cases d) (simp_all add: towards_def rev_nth)

lemma towards_less: "i < n \<Longrightarrow> towards d n i < n"
  by (simp add: towards_def)

lemma towards_towards [simp]: "i < n \<Longrightarrow> towards d n (towards d n i) = i"
  by (simp add: towards_def)

lemma towards_other: "i < n \<Longrightarrow> towards (other d) n i = n - 1 - towards d n i"
  by (cases d) (simp_all add: towards_def)

lemma window_nth:
  assumes "window tb j a" "recordListPos a = int p" "int k < recordListSize a"
  shows "recordList a ! k = along (recordListDirection a) (tb_rows tb) ! (j - p + k)"
proof -
  obtain s where s: "recordListSize a = int s" "s \<le> length (recordList a)" "p \<le> j"
    "j - p + s \<le> length (tb_rows tb)"
    "take s (recordList a) = take s (drop (j - p) (along (recordListDirection a) (tb_rows tb)))"
    using assms(1,2) by (auto simp: window_def)
  have k: "k < s" using assms(3) s(1) by simp
  then have "recordList a ! k = take s (recordList a) ! k"
    by simp
  also have "\<dots> = take s (drop (j - p) (along (recordListDirection a) (tb_rows tb))) ! k"
    by (simp only: s(5))
  also have "\<dots> = along (recordListDirection a) (tb_rows tb) ! (j - p + k)"
    using k s(4) by (subst nth_take, simp, subst nth_drop) simp_all
  finally show ?thesis .
qed

lemma window_bounds:
  assumes "window tb j a"
  obtains p s where "recordListPos a = int p" "recordListSize a = int s" "p < s" "s \<le> RECORD_LIST_SIZE"
    "p \<le> j" "j - p + s \<le> length (tb_rows tb)" "j < length (tb_rows tb)"
    "length (recordList a) = RECORD_LIST_SIZE" "length (deletedList a) = RECORD_LIST_SIZE"
    "recordList a ! p = along (recordListDirection a) (tb_rows tb) ! j"
proof -
  obtain p s where w: "recordListPos a = int p" "recordListSize a = int s" "p < s" "s \<le> RECORD_LIST_SIZE"
    "p \<le> j" "j - p + s \<le> length (tb_rows tb)"
    using assms by (auto simp: window_def)
  moreover have "recordList a ! p = along (recordListDirection a) (tb_rows tb) ! j"
    using window_nth [OF assms w(1), of p] w by simp
  moreover have "length (recordList a) = RECORD_LIST_SIZE" "length (deletedList a) = RECORD_LIST_SIZE"
    using assms by (auto simp: window_def)
  ultimately show ?thesis using that by simp
qed

text \<open>The same without what the list knows of its ends.\<close>

definition at_row :: "served \<Rightarrow> nat \<Rightarrow> 'w exarea \<Rightarrow> bool" where
  "at_row tb i a \<longleftrightarrow>
     i < length (tb_rows tb) \<and> window tb (towards (recordListDirection a) (length (tb_rows tb)) i) a"

lemma on_row_at_row: "on_row tb i a \<Longrightarrow> at_row tb i a"
  by (simp add: on_row_def at_row_def Let_def)

lemma at_row_current:
  assumes "at_row tb i a" "\<not> fEof a" "\<not> bIsInsert a"
  shows "SR_GetCurrentRecordNum a = Some (tb_rows tb ! i)"
proof -
  let ?j = "towards (recordListDirection a) (length (tb_rows tb)) i"
  have w: "window tb ?j a" "i < length (tb_rows tb)"
    using assms(1) by (simp_all add: at_row_def)
  from w(1) show ?thesis
    by (rule window_bounds) (use assms(2,3) along_towards [OF w(2)] in \<open>simp add: SR_GetCurrentRecordNum_def\<close>)
qed

lemmas on_row_current = at_row_current [OF on_row_at_row]

lemma at_row_cong:
  assumes "at_row tb i a" "recordList b = recordList a" "deletedList b = deletedList a"
    "recordListPos b = recordListPos a" "recordListSize b = recordListSize a"
    "recordListDirection b = recordListDirection a"
  shows "at_row tb i b"
  using assms by (simp add: at_row_def window_def)

lemma scanning_cong_slot:
  assumes "scanning env tb texts page a"
    and "hOrdCurrent b = hOrdCurrent a" "bReverseIndex b = bReverseIndex a" "bIsSelect b = bIsSelect a"
      "ulhDeleted b = ulhDeleted a" "ulhRecno b = ulhRecno a" "aFields b = aFields a"
      "length (IndexBindings b) = length (IndexBindings a)" "sRecnoName b = sRecnoName a" "sTable b = sTable a"
      "nSystemID b = nSystemID a"
      "world b = world a" "bufferHot b = bufferHot a" "bIsInsert b = bIsInsert a"
      "lpdbPendingRel b = lpdbPendingRel a" "firstinteract b = firstinteract a" "lpdbRelations b = lpdbRelations a"
      "itmCobExpr b = itmCobExpr a" "hStmtBuffer b = hStmtBuffer a" "iFieldListStatus b = iFieldListStatus a"
      "sFields b = sFields a" "lRecordToRetrieve b = lRecordToRetrieve a" "hBufferPool b = hBufferPool a"
      "uiFieldList b = uiFieldList a" "uiBufferIndex b = uiBufferIndex a" "lpFields b = lpFields a"
      "length (aBuffer b) = length (aBuffer a)" "aInfo b = aInfo a"
    and "slot_ok (restriction_text texts) b" "\<forall>cs. CurrRecord b = Some cs \<longrightarrow> length cs = length (aFields a)"
      "\<forall>d. end_of d b \<in> {0, last (along d (tb_rows tb))}" "lLastRec b \<notin> set (tb_rows tb)"
  shows "scanning env tb texts page b"
proof -
  have t: "skip_text e b = skip_text e a" for e
    using assms by (simp add: skip_text_def quoted_def fun_eq_iff)
  have rr: "row_record env row i b = row_record env row i a" for row i
    by (rule row_record_cong) (use assms in simp_all)
  have "natural_area env texts b"
    by (rule natural_area_cong [of _ _ a]) (use assms in \<open>simp_all add: scanning_def\<close>)
  moreover have "idle env b"
    using assms by (simp add: scanning_def idle_def x_filtering_def)
  moreover have "reading env tb page b"
    using assms by (simp add: scanning_def reading_def fields_settled_def rr)
  ultimately show ?thesis
    using assms by (simp add: scanning_def t x_info_def)
qed

lemma slot_ok_cong:
  assumes "slot_ok extra a" "IndexBindings b = IndexBindings a" "bOrderChanged b = bOrderChanged a"
    "bConditionChanged1 b = bConditionChanged1 a" "ulhRecno b = ulhRecno a" "sRecnoName b = sRecnoName a"
    "sTable b = sTable a" "nSystemID b = nSystemID a"
  shows "slot_ok extra b"
proof -
  have "skip_stmt extra b = skip_stmt extra a"
    using assms by (simp add: skip_stmt_def skip_text_def quoted_def fun_eq_iff)
  moreover have "recno_slot b = recno_slot a"
    using assms by (simp add: recno_slot_def fun_eq_iff)
  ultimately show ?thesis
    using assms by (simp add: slot_ok_def cong: option.case_cong)
qed

text \<open>What a movement leaves alone.\<close>

definition kept :: "'w exarea \<Rightarrow> 'w exarea \<Rightarrow> bool" where
  "kept a b \<longleftrightarrow>
     hOrdCurrent b = hOrdCurrent a \<and> bReverseIndex b = bReverseIndex a \<and> bIsSelect b = bIsSelect a \<and>
     ulhDeleted b = ulhDeleted a \<and> ulhRecno b = ulhRecno a \<and> aFields b = aFields a \<and>
     IndexBindings b = IndexBindings a \<and> sRecnoName b = sRecnoName a \<and> sTable b = sTable a \<and>
     nSystemID b = nSystemID a \<and> bOrderChanged b = bOrderChanged a \<and> bConditionChanged1 b = bConditionChanged1 a \<and>
     world b = world a \<and> bufferHot b = bufferHot a \<and> bIsInsert b = bIsInsert a \<and>
     lpdbPendingRel b = lpdbPendingRel a \<and> firstinteract b = firstinteract a \<and> lpdbRelations b = lpdbRelations a \<and>
     itmCobExpr b = itmCobExpr a \<and> hStmtBuffer b = hStmtBuffer a \<and> iFieldListStatus b = iFieldListStatus a \<and>
     sFields b = sFields a \<and> lRecordToRetrieve b = lRecordToRetrieve a \<and> hBufferPool b = hBufferPool a \<and>
     uiFieldList b = uiFieldList a \<and> uiBufferIndex b = uiBufferIndex a \<and> lpFields b = lpFields a \<and>
     length (aBuffer b) = length (aBuffer a) \<and> aInfo b = aInfo a"

lemma scanning_kept:
  assumes "scanning env tb texts page a" "kept a b"
    "\<forall>cs. CurrRecord b = Some cs \<longrightarrow> length cs = length (aFields a)"
    "\<forall>d. end_of d b \<in> {0, last (along d (tb_rows tb))}" "lLastRec b \<notin> set (tb_rows tb)"
  shows "scanning env tb texts page b"
proof (rule scanning_cong_slot [OF assms(1)])
  show "slot_ok (restriction_text texts) b"
    by (rule slot_ok_cong [of _ a]) (use assms(1,2) in \<open>simp_all add: scanning_def kept_def\<close>)
qed (use assms in \<open>simp_all add: kept_def\<close>)

section \<open>Moving inside the list\<close>

definition step :: "direction \<Rightarrow> int" where
  "step d = (if d = SR_LIST_FORWARD then 1 else - 1)"

fun at_end :: "direction \<Rightarrow> 'w exarea \<Rightarrow> 'w exarea" where
  "at_end SR_LIST_FORWARD a = x_cleanBuffer a"
| "at_end SR_LIST_BACKWARD a = a\<lparr>fBof := True\<rparr>"

lemma cache_same:
  assumes w: "window tb j a" and d: "recordListDirection a = d" and s: "skipDirection a \<noteq> 0"
  shows "trySkippingOnCache env (step d) a =
    (if recordListPos a + 1 < recordListSize a
     then read_current env False (a\<lparr>recordListPos := recordListPos a + 1\<rparr>)
     else if along d (tb_rows tb) ! j = end_of d a then Some (HB_SUCCESS, at_end d a)
     else Some (HB_FAILURE, a))"
proof -
  from w show ?thesis
  proof (rule window_bounds)
    fix p s'
    assume "recordListPos a = int p" "recordListSize a = int s'" "p < s'" "s' \<le> RECORD_LIST_SIZE"
      "length (recordList a) = RECORD_LIST_SIZE"
      "recordList a ! p = along (recordListDirection a) (tb_rows tb) ! j"
    then show ?thesis
      using d s by (cases d) (auto simp: trySkippingOnCache_def step_def rd_at_def Let_def)
  qed
qed

lemma cache_other:
  assumes w: "window tb j a" and d: "recordListDirection a = d" and s: "skipDirection a \<noteq> 0"
  shows "trySkippingOnCache env (step (other d)) a =
    (if 0 < recordListPos a
     then read_current env False (a\<lparr>recordListPos := recordListPos a - 1\<rparr>)
     else if along d (tb_rows tb) ! j = end_of (other d) a then Some (HB_SUCCESS, at_end (other d) a)
     else Some (HB_FAILURE, a))"
proof -
  from w show ?thesis
  proof (rule window_bounds)
    fix p s'
    assume "recordListPos a = int p" "recordListSize a = int s'" "p < s'" "s' \<le> RECORD_LIST_SIZE"
      "length (recordList a) = RECORD_LIST_SIZE"
      "recordList a ! p = along (recordListDirection a) (tb_rows tb) ! j"
    then show ?thesis
      using d s by (cases d; cases "p = 0") (auto simp: trySkippingOnCache_def step_def rd_at_def Let_def)
  qed
qed


section \<open>What a single step does\<close>

fun next_row :: "direction \<Rightarrow> nat \<Rightarrow> nat \<Rightarrow> nat option" where
  "next_row SR_LIST_FORWARD n i = (if Suc i < n then Some (Suc i) else None)"
| "next_row SR_LIST_BACKWARD n i = (if 0 < i then Some (i - 1) else None)"

definition moved ::
  "'w exenv \<Rightarrow> served \<Rightarrow> (string \<Rightarrow> bytes) \<Rightarrow> bytes \<Rightarrow> direction \<Rightarrow> nat \<Rightarrow> 'w exarea \<Rightarrow> bool" where
  "moved env tb texts page e i b \<longleftrightarrow>
     scanning env tb texts page b \<and>
     (case next_row e (length (tb_rows tb)) i of
        Some k \<Rightarrow> on_row tb k b \<and> aBuffer b = tb_record tb (tb_rows tb ! k) \<and> \<not> fEof b \<and> \<not> fBof b
      | None \<Rightarrow> on_row tb i b \<and> fEof b = (e = SR_LIST_FORWARD) \<and> fBof b = (e = SR_LIST_BACKWARD))"

lemma next_towards:
  assumes "i < n"
  shows "next_row e n i = (if Suc (towards e n i) < n then Some (towards e n (Suc (towards e n i))) else None)"
  using assms by (cases e) (auto simp: towards_def)

lemma last_along:
  assumes "i < length rows" "\<not> Suc (towards e (length rows) i) < length rows"
  shows "last (along e rows) = rows ! i"
proof -
  have "towards e (length rows) i = length rows - 1"
    using towards_less [OF assms(1), of e] assms(2) by simp
  moreover have "rows \<noteq> []" using assms(1) by auto
  ultimately show ?thesis
    using along_towards [OF assms(1), of e] by (cases e) (simp_all add: last_conv_nth hd_conv_nth last_rev rev_nth)
qed

lemma scanning_facts:
  assumes "scanning env tb texts page a"
  shows "natural_area env texts a" "idle env a" "accepts env (world a)"
    "serves env (world a) tb (skip_text (restriction_text texts) a) page" "reading env tb page a"
    "slot_ok (restriction_text texts) a" "distinct (tb_rows tb)" "0 \<notin> set (tb_rows tb)" "hOrdCurrent a = 0"
    "ulhDeleted a = 0" "\<not> lpdbRelations a" "\<not> bufferHot a" "\<not> bIsInsert a" "IndexBindings a \<noteq> []"
    "0 < ulhRecno a" "ulhRecno a \<le> length (aFields a)" "\<not> x_filtering env a" "\<not> firstinteract a"
    "lpdbPendingRel a = None"
  using assms sorted_distinct [of "tb_rows tb"]
  by (auto simp: scanning_def natural_area_def idle_def serves_def)

lemma x_cleanBuffer_fields [simp]:
  "length (aBuffer (x_cleanBuffer a)) = length (aBuffer a)" "fEof (x_cleanBuffer a)"
  "fBof (x_cleanBuffer a) = fBof a"
  "lLastRec (x_cleanBuffer a) = hb_itemGetNL (x_info a SR_AINFO_RCOUNT) + 1"
proof -
  have "length (copy_cols n vs xs) = length xs" for n vs xs
    by (induction vs arbitrary: n xs) simp_all
  then show "length (aBuffer (x_cleanBuffer a)) = length (aBuffer a)"
    by (simp add: x_cleanBuffer_def)
qed (simp_all add: x_cleanBuffer_def)

lemma kept_cleanBuffer: "kept a (x_cleanBuffer a)"
  by (simp add: kept_def) (simp add: x_cleanBuffer_def)

lemma list_cleanBuffer [simp]:
  "recordList (x_cleanBuffer a) = recordList a" "deletedList (x_cleanBuffer a) = deletedList a"
  "recordListPos (x_cleanBuffer a) = recordListPos a" "recordListSize (x_cleanBuffer a) = recordListSize a"
  "recordListDirection (x_cleanBuffer a) = recordListDirection a" "CurrRecord (x_cleanBuffer a) = CurrRecord a"
  "lEofAt (x_cleanBuffer a) = lEofAt a" "lBofAt (x_cleanBuffer a) = lBofAt a"
  "lpdbRelations (x_cleanBuffer a) = lpdbRelations a"
  by (simp_all add: x_cleanBuffer_def)

lemma end_of_cong: "lEofAt b = lEofAt a \<Longrightarrow> lBofAt b = lBofAt a \<Longrightarrow> end_of d b = end_of d a"
  by (cases d) simp_all

lemma scanning_clean:
  assumes "scanning env tb texts page a"
  shows "scanning env tb texts page (x_cleanBuffer a)"
  by (rule scanning_kept [OF assms kept_cleanBuffer])
     (use assms in \<open>auto simp: scanning_def end_of_cong [of "x_cleanBuffer a" a]\<close>)

lemma on_row_cong:
  assumes "on_row tb i a" "recordList b = recordList a" "deletedList b = deletedList a"
    "recordListPos b = recordListPos a" "recordListSize b = recordListSize a"
    "recordListDirection b = recordListDirection a" "lEofAt b = lEofAt a" "lBofAt b = lBofAt a"
  shows "on_row tb i b"
  using assms end_of_cong [of b a] by (simp add: on_row_def window_def anchored_def Let_def)

lemma scanning_read:
  assumes "scanning env tb texts page a" "reading env tb page (read_result r tb pool ns a)"
  shows "scanning env tb texts page (read_result r tb pool ns a)"
proof -
  let ?b = "read_result r tb pool ns a"
  have "natural_area env texts ?b"
    by (rule natural_area_cong [OF scanning_facts(1) [OF assms(1)]]) (simp_all add: read_result_def)
  moreover have "slot_ok (restriction_text texts) ?b"
    by (rule slot_ok_cong [OF scanning_facts(6) [OF assms(1)]]) (simp_all add: read_result_def)
  moreover have "idle env ?b"
    using scanning_facts(2) [OF assms(1)] by (simp add: read_result_def idle_def x_filtering_def)
  moreover have "skip_text extra ?b = skip_text extra a" for extra
    by (simp add: read_result_def skip_text_def quoted_def fun_eq_iff)
  moreover have "end_of d ?b = end_of d a" for d
    by (rule end_of_cong) (simp_all add: read_result_def)
  ultimately show ?thesis
    using assms by (simp add: scanning_def) (simp add: read_result_def x_info_def)
qed

lemma read_current_natural:
  assumes sc: "scanning env tb texts page a"
    and pos: "0 \<le> recordListPos a" "recordListPos a < recordListSize a"
      "recordListSize a \<le> int (length (recordList a))"
    and r: "recordList a ! nat (recordListPos a) = r" "r \<in> set (tb_rows tb)"
  obtains pool ns where "read_current env False a = Some (HB_SUCCESS, read_result r tb pool ns a)"
    "scanning env tb texts page (read_result r tb pool ns a)"
proof -
  obtain pool ns where u: "updateRecordBuffer env False a = Some (HB_SUCCESS, read_result r tb pool ns a)"
    "reading env tb page (read_result r tb pool ns a)"
    using read_natural [OF scanning_facts(4,5) [OF sc] pos r] by blast
  show ?thesis
    by (rule that [OF _ scanning_read [OF sc u(2)]]) (simp add: read_current_def u(1))
qed


section \<open>A new list from the server\<close>

text \<open>Inside the list there is nothing in the direction, and the end is not known to be here.\<close>

definition uncached :: "served \<Rightarrow> direction \<Rightarrow> nat \<Rightarrow> 'w exarea \<Rightarrow> bool" where
  "uncached tb e i a \<longleftrightarrow>
     (if e = recordListDirection a then recordListPos a + 1 \<ge> recordListSize a else recordListPos a = 0) \<and>
     end_of e a \<noteq> tb_rows tb ! i"

lemma slot_made:
  assumes "ready_slot extra a d ib" "IndexBindings b = (IndexBindings a)[0 := Some [ib]]" "IndexBindings a \<noteq> []"
    "ulhRecno b = ulhRecno a" "sRecnoName b = sRecnoName a" "sTable b = sTable a" "nSystemID b = nSystemID a"
  shows "slot_ok extra b"
proof -
  have "skip_stmt extra b = skip_stmt extra a"
    using assms by (simp add: skip_stmt_def skip_text_def quoted_def fun_eq_iff)
  moreover have "recno_slot b = recno_slot a"
    using assms by (simp add: recno_slot_def fun_eq_iff)
  ultimately show ?thesis
    using assms by (cases d) (auto simp: slot_ok_def ready_slot_def other_stmt_def)
qed

text \<open>What is done with a list that was asked for.\<close>

definition list_used :: "'w exenv \<Rightarrow> direction \<Rightarrow> errcode \<times> 'w exarea \<Rightarrow> (errcode \<times> 'w exarea) option" where
  "list_used env e x =
     (let a = (snd x)\<lparr>indexLevel := indexLevel (snd x) - 1\<rparr> in
      if fst x = RESULTSET_OK then do {
        (r, a1) \<leftarrow> read_current env False a;
        if r = HB_FAILURE then Some (HB_FAILURE, a1) else x_concludeSkipraw env a1
      }
      else if step e < 0 then do {
        r \<leftarrow> (if recordListSize a \<noteq> 0 then rd_at (recordList a) (recordListPos a) else Some (lBofAt a));
        x_concludeSkipraw env (a\<lparr>fBof := True, lBofAt := r\<rparr>)
      }
      else x_concludeSkipraw env (x_cleanBuffer a))"

text \<open>What is done with the last list that was asked for.\<close>

definition list_result :: "'w exenv \<Rightarrow> direction \<Rightarrow> errcode \<times> 'w exarea \<Rightarrow> (errcode \<times> 'w exarea) option" where
  "list_result env e x =
     (if fst x = HB_FAILURE then Some (HB_FAILURE, snd x)
      else if fst x = RESULTSET_OK then do {
        (r, a1) \<leftarrow> read_current env False (snd x);
        if r = HB_FAILURE then Some (HB_FAILURE, a1) else x_concludeSkipraw env a1
      }
      else if step e < 0 then do {
        r \<leftarrow> (if recordListSize (snd x) \<noteq> 0 then rd_at (recordList (snd x)) (recordListPos (snd x))
              else Some (lBofAt (snd x)));
        x_concludeSkipraw env ((snd x)\<lparr>fBof := True, lBofAt := r\<rparr>)
      }
      else x_concludeSkipraw env (x_cleanBuffer (snd x)))"

text \<open>The area in which the list behind the current record is asked for.\<close>

lemma asked_area:
  assumes sc: "scanning env tb texts page a" and row: "at_row tb i a" and cs: "CurrRecord a = Some cs"
    and fl: "\<not> fEof a"
  obtains b ib cs' where
    "list_from_record self env (step e) a = list_by_levels self env (step e) 0 b \<bind> list_result env e"
    "scanning env tb texts page b" "recordList b = recordList a" "deletedList b = deletedList a"
    "recordListPos b = recordListPos a" "recordListSize b = recordListSize a" "recordListDirection b = e"
    "fEof b = fEof a" "fBof b = fBof a" "lCurrentRecord b = lCurrentRecord a" "indexLevel b = 1"
    "IndexBindings b = Some [ib] # tl (IndexBindings a)"
    "dir_stmt b ib = Some (skip_stmt (restriction_text texts) b e)"
    "CurrRecord b = Some cs'" "ulhRecno b - 1 < length cs'" "asNumeric (cs' ! (ulhRecno b - 1)) = of_int (tb_rows tb ! i)"
proof -
  define rows where "rows = tb_rows tb"
  define r where "r = rows ! i"
  note F = scanning_facts [OF sc]
  define a1 where "a1 = a\<lparr>indexColumns := 1, recordListDirection := e\<rparr>"
  have cs1: "CurrRecord a1 = Some cs" "length cs = length (aFields a1)"
    using cs sc by (auto simp: a1_def scanning_def)
  have cur1: "SR_GetCurrentRecordNum a1 = Some r"
    using at_row_current [OF row fl F(13)] fl F(13) by (simp add: a1_def SR_GetCurrentRecordNum_def r_def rows_def)
  have nat1: "natural_area env texts a1"
    by (rule natural_area_cong [OF F(1)]) (simp_all add: a1_def)
  have slot1: "slot_ok (restriction_text texts) a1"
    by (rule slot_ok_cong [OF F(6)]) (simp_all add: a1_def)
  have acc1: "accepts env (world a1)" using F(3) by (simp add: a1_def)
  have "recordListDirection a1 = e" "indexColumns a1 = 1"
    by (simp_all add: a1_def)
  with make_statement_natural [OF nat1 acc1 slot1 cs1 cur1]
  obtain ib s w o1 l1 l2 e1 e2 il where ready: "ready_slot (restriction_text texts) a1 e ib"
    and e1: "e1 \<in> {0, lBofAt a1}" and e2: "e2 \<in> {0, lEofAt a1}"
    and m: "make_statement env a1 = Some (a1\<lparr>lBofAt := e1, lEofAt := e2, bOrderChanged := False,
      IndexBindings := (IndexBindings a1)[0 := Some [ib]], sOrderBy := o1, sLimit1 := l1, sLimit2 := l2,
      indexLevel := il, sWhere := w, bConditionChanged1 := False, sSql := s,
      CurrRecord := Some (recno_bound (of_int r) a1 cs)\<rparr>)" (is "_ = Some ?a3")
    by blast
  have e12: "e1 \<in> {0, lBofAt a}" "e2 \<in> {0, lEofAt a}"
    using e1 e2 by (simp_all add: a1_def)
  define b where "b = ?a3\<lparr>indexLevel := 1\<rparr>"
  have slotb: "slot_ok (restriction_text texts) b"
    by (rule slot_made [OF ready]) (use F in \<open>simp_all add: b_def a1_def\<close>)
  have ends: "\<forall>d. end_of d b \<in> {0, last (along d rows)}"
  proof
    fix d
    have "end_of d a \<in> {0, last (along d rows)}"
      using sc by (simp add: scanning_def rows_def)
    moreover have "end_of d b \<in> {0, end_of d a}"
      using e12 by (cases d) (simp_all add: b_def)
    ultimately show "end_of d b \<in> {0, last (along d rows)}"
      by auto
  qed
  have scb: "scanning env tb texts page b"
    by (rule scanning_cong_slot [OF sc])
       (use slotb ends cs1 sc in \<open>simp_all add: rows_def scanning_def\<close>, simp_all add: b_def a1_def)
  have st: "skip_stmt extra b = skip_stmt extra a1" for extra
    by (simp add: b_def a1_def skip_stmt_def skip_text_def quoted_def fun_eq_iff)
  have ibs: "IndexBindings b = Some [ib] # tl (IndexBindings a)"
    using F(14) by (cases "IndexBindings a") (simp_all add: b_def a1_def)
  have st1: "dir_stmt b ib = Some (skip_stmt (restriction_text texts) b e)"
    using ready by (cases e) (simp_all add: dir_stmt_def ready_slot_def st, simp_all add: b_def a1_def)
  have num: "asNumeric (recno_bound (of_int r) a1 cs ! (ulhRecno b - 1)) = of_int (tb_rows tb ! i)"
    "ulhRecno b - 1 < length (recno_bound (of_int r) a1 cs)"
    using F(15,16) cs1 by (simp_all add: recno_bound_def b_def a1_def r_def rows_def)
  have mk: "(do { (new, a2) \<leftarrow> CreateSkipStmt env a1;
      if new then BindAllIndexStmts env a2 else FeedCurrentRecordToBindings env a2 }) = Some ?a3"
    using m by (simp add: make_statement_def)
  have sgn: "(if step e > 0 then SR_LIST_FORWARD else SR_LIST_BACKWARD) = e"
    by (cases e) (simp_all add: step_def)
  show ?thesis
  proof (rule that [of b ib "recno_bound (of_int r) a1 cs"])
    have "list_from_record self env (step e) a = do {
       a3 \<leftarrow> (do { (new, a2) \<leftarrow> CreateSkipStmt env a1;
         if new then BindAllIndexStmts env a2 else FeedCurrentRecordToBindings env a2 });
       let a4 = a3\<lparr>indexLevel := int (indexColumns a3)\<rparr>;
       x \<leftarrow> list_by_levels self env (step e) (indexColumns a4 - 1) a4;
       list_result env e x
     }"
      using F(9) by (simp add: list_from_record_def sgn a1_def split_def list_result_def Let_def cong: if_cong)
    also have "\<dots> = list_by_levels self env (step e) 0 b \<bind> list_result env e"
    proof -
      have b': "?a3\<lparr>indexLevel := int (indexColumns ?a3)\<rparr> = b"
        by (simp add: b_def a1_def)
      have k: "indexColumns b - 1 = 0"
        by (simp add: b_def a1_def)
      show ?thesis
        unfolding mk Option.bind.bind_lunit Let_def b' k by simp
    qed
    finally show "list_from_record self env (step e) a = list_by_levels self env (step e) 0 b \<bind> list_result env e" .
  qed (use scb ibs st1 num in \<open>(simp_all, (simp_all add: b_def a1_def)?)\<close>)
qed

lemma list_asked:
  assumes sc: "scanning env tb texts page a" and row: "at_row tb i a" and cs: "CurrRecord a = Some cs"
    and fl: "\<not> fEof a" and cur: "lCurrentRecord a = tb_rows tb ! i"
  obtains b where
    "list_from_record self env (step e) a = list_used env e
       (list_behind (drop (Suc (towards e (length (tb_rows tb)) i)) (along e (tb_rows tb))) (tb_rows tb ! i) b)"
    "scanning env tb texts page b" "recordList b = recordList a" "deletedList b = deletedList a"
    "recordListPos b = recordListPos a" "recordListSize b = recordListSize a" "recordListDirection b = e"
    "fEof b = fEof a" "fBof b = fBof a"
proof -
  have i: "i < length (tb_rows tb)" using row by (simp add: at_row_def)
  obtain b ib cs' where lf: "list_from_record self env (step e) a = list_by_levels self env (step e) 0 b \<bind> list_result env e"
    and scb: "scanning env tb texts page b" and B: "recordList b = recordList a" "deletedList b = deletedList a"
    "recordListPos b = recordListPos a" "recordListSize b = recordListSize a" "recordListDirection b = e"
    "fEof b = fEof a" "fBof b = fBof a" "lCurrentRecord b = lCurrentRecord a" "indexLevel b = 1"
    and S: "IndexBindings b = Some [ib] # tl (IndexBindings a)"
    "dir_stmt b ib = Some (skip_stmt (restriction_text texts) b e)"
    "CurrRecord b = Some cs'" "ulhRecno b - 1 < length cs'" "asNumeric (cs' ! (ulhRecno b - 1)) = of_int (tb_rows tb ! i)"
    by (rule asked_area [OF sc row cs fl])
  from row have "window tb (towards (recordListDirection a) (length (tb_rows tb)) i) a"
    by (simp add: at_row_def)
  then obtain p s' where ps: "recordListPos a = int p" "recordListSize a = int s'" "p < s'" "s' \<le> RECORD_LIST_SIZE"
    "length (recordList a) = RECORD_LIST_SIZE" "length (deletedList a) = RECORD_LIST_SIZE" "recordList a ! p = tb_rows tb ! i"
    using along_towards [OF i] by (auto elim!: window_bounds)
  define x where "x = list_behind (drop (Suc (towards e (length (tb_rows tb)) i)) (along e (tb_rows tb))) (tb_rows tb ! i) b"
  have g: "getPreparedRecordList env RECORD_LIST_SIZE b = Some x"
    unfolding x_def
  proof (rule prepared_natural [where slots = "tl (IndexBindings a)" and ib = ib and cs = cs'
        and extra = "restriction_text texts" and page = page])
    show "serves env (world b) tb (skip_text (restriction_text texts) b) page"
      by (rule scanning_facts(4) [OF scb])
    show "along e (tb_rows tb) ! towards e (length (tb_rows tb)) i = tb_rows tb ! i"
      by (rule along_towards [OF i])
    show "towards e (length (tb_rows tb)) i < length (tb_rows tb)"
      by (rule towards_less [OF i])
    show "recordList b ! nat (recordListPos b) = tb_rows tb ! i"
      using ps by (simp add: B)
  qed (use scanning_facts [OF scb] S ps B cur in simp_all)
  have res: "fst x = HB_SUCCESS \<or> fst x = RESULTSET_OK"
    by (simp add: x_def list_behind_def)
  have lev: "list_by_levels self env (step e) 0 b = Some (fst x, (snd x)\<lparr>indexLevel := indexLevel (snd x) - 1\<rparr>)"
    using res by (subst list_by_levels.simps) (auto simp: g case_prod_beta Let_def)
  have "list_from_record self env (step e) a = list_used env e x"
    unfolding lf lev using res by (auto simp: list_result_def list_used_def Let_def)
  then show ?thesis
    using that [of b] scb B by (simp add: x_def)
qed


text \<open>At an end of the table the list stays, and is one in the other direction only if it is the record.\<close>

lemma list_stays:
  assumes row: "on_row tb i a" and un: "uncached tb e i a"
    and none: "\<not> Suc (towards e (length (tb_rows tb)) i) < length (tb_rows tb)"
    and b: "recordList b = recordList a" "deletedList b = deletedList a" "recordListPos b = recordListPos a"
      "recordListSize b = recordListSize a" "recordListDirection b = e"
  shows "on_row tb i b"
proof -
  define rows where "rows = tb_rows tb"
  define d where "d = recordListDirection a"
  define j where "j = towards d (length rows) i"
  have i: "i < length rows" and w: "window tb j a" and anc: "anchored tb j a"
    using row by (simp_all add: on_row_def rows_def d_def j_def Let_def)
  from w obtain p s where ps: "recordListPos a = int p" "recordListSize a = int s" "p < s" "s \<le> RECORD_LIST_SIZE"
    "p \<le> j" "j - p + s \<le> length rows" "j < length rows" "recordList a ! p = along d rows ! j"
    "length (recordList a) = RECORD_LIST_SIZE" "length (deletedList a) = RECORD_LIST_SIZE"
    by (auto elim!: window_bounds simp: rows_def d_def)
  have lastj: "towards e (length rows) i = length rows - 1"
    using none towards_less [OF i, of e] by (simp add: rows_def)
  show ?thesis
  proof (cases "e = d")
    case True
    have w2: "window tb j b"
      using w b True by (simp add: window_def d_def)
    have sp: "s = Suc p"
      using un ps True by (simp add: uncached_def d_def)
    have jn: "j = length rows - 1"
      using lastj True by (simp add: j_def)
    have "anchored tb j b"
    proof -
      have False if "int p = int j" "1 < int s"
      proof -
        have "s = length rows"
          using that sp jn i by simp
        then have "end_of d a = last (along d rows)"
          using anc ps that by (simp add: anchored_def d_def rows_def Let_def)
        also have "\<dots> = rows ! i"
          by (rule last_along [OF i]) (use none True in \<open>simp add: rows_def\<close>)
        finally show False
          using un True by (simp add: uncached_def rows_def d_def)
      qed
      then show ?thesis
        using b ps by (auto simp: anchored_def Let_def)
    qed
    then show ?thesis
      using w2 i b True by (simp add: on_row_def rows_def [symmetric] j_def d_def Let_def)
  next
    case False
    then have e: "e = other d" "d = other e" by (cases d; cases e; simp)+
    have p0: "p = 0"
      using un ps False by (simp add: uncached_def d_def)
    have j0: "j = 0"
      using towards_other [OF i, of e] lastj i by (simp add: j_def e(2))
    have s1: "s = 1"
    proof (rule ccontr)
      assume "s \<noteq> 1"
      then have "end_of e a = along d rows ! 0"
        using anc ps p0 j0 by (simp add: anchored_def d_def [symmetric] rows_def e(1) Let_def)
      also have "\<dots> = rows ! i"
        using along_towards [OF i, of d] j0 by (simp add: j_def)
      finally show False
        using un by (simp add: uncached_def rows_def)
    qed
    let ?k = "length rows - 1"
    have r: "recordList a ! 0 = along e rows ! ?k"
      using ps(8) p0 along_towards [OF i, of d] along_towards [OF i, of e] lastj by (simp add: j_def)
    have "window tb ?k b"
    proof -
      have "take 1 (recordList a) = take 1 (drop ?k (along e rows))"
        using r ps(9) i by (cases "recordList a") (simp_all add: Cons_nth_drop_Suc [symmetric])
      then show ?thesis
        using b ps p0 s1 i unfolding window_def
        by (intro conjI exI [of _ 0] exI [of _ 1]) (simp_all add: rows_def)
    qed
    moreover have "anchored tb ?k b"
      using b ps s1 by (simp add: anchored_def)
    ultimately show ?thesis
      using i b lastj by (simp add: on_row_def rows_def [symmetric] Let_def)
  qed
qed

text \<open>The list behind a record: read from its start if there is one, and otherwise an end; for this nothing has
  to be known of the ends.\<close>

definition listed ::
  "'w exenv \<Rightarrow> served \<Rightarrow> (string \<Rightarrow> bytes) \<Rightarrow> bytes \<Rightarrow> direction \<Rightarrow> nat \<Rightarrow> 'w exarea \<Rightarrow> 'w exarea \<Rightarrow> bool" where
  "listed env tb texts page e i a b \<longleftrightarrow>
     scanning env tb texts page b \<and> recordListDirection b = e \<and>
     (case next_row e (length (tb_rows tb)) i of
        Some k \<Rightarrow> at_row tb k b \<and> recordListPos b = 0 \<and> aBuffer b = tb_record tb (tb_rows tb ! k) \<and> \<not> fEof b \<and> \<not> fBof b
      | None \<Rightarrow> recordList b = recordList a \<and> deletedList b = deletedList a \<and> recordListPos b = recordListPos a \<and>
          recordListSize b = recordListSize a \<and> fEof b = (e = SR_LIST_FORWARD) \<and> fBof b = (e = SR_LIST_BACKWARD))"

lemma list_step_at:
  assumes sc: "scanning env tb texts page a" and row: "at_row tb i a" and cs: "CurrRecord a = Some cs"
    and fl: "\<not> fEof a" "\<not> fBof a" and cur: "lCurrentRecord a = tb_rows tb ! i"
  shows "\<exists>b. list_from_record self env (step e) a = Some (HB_SUCCESS, b) \<and> listed env tb texts page e i a b"
proof -
  define n where "n = length (tb_rows tb)"
  define j where "j = towards e n i"
  define xs where "xs = along e (tb_rows tb)"
  have i: "i < n" using row by (simp add: at_row_def n_def)
  obtain b where b: "list_from_record self env (step e) a =
      list_used env e (list_behind (drop (Suc j) xs) (tb_rows tb ! i) b)"
    "scanning env tb texts page b" "recordList b = recordList a" "deletedList b = deletedList a"
    "recordListPos b = recordListPos a" "recordListSize b = recordListSize a" "recordListDirection b = e"
    "fEof b = fEof a" "fBof b = fBof a"
    by (rule list_asked [OF sc row cs fl(1) cur, of self e]) (auto simp: j_def n_def xs_def)
  define r where "r = tb_rows tb ! i"
  note F = scanning_facts [OF b(2)]
  show ?thesis
  proof (cases "Suc j < n")
    case False
    have nr: "next_row e n i = None"
      using next_towards [OF i] False by (simp add: j_def)
    have lr: "last xs = r"
      using last_along [of i "tb_rows tb" e] i False by (simp add: xs_def r_def n_def j_def)
    define c where "c = (set_end r b)\<lparr>indexLevel := indexLevel b - 1\<rparr>"
    have cl: "recordList c = recordList a" "deletedList c = deletedList a" "recordListPos c = recordListPos a"
      "recordListSize c = recordListSize a" "recordListDirection c = e" "fEof c = fEof a" "fBof c = fBof a"
      "\<not> lpdbRelations c"
      using b F(11) by (simp_all add: c_def set_end_def)
    have ends: "\<forall>d. end_of d c \<in> {0, last (along d (tb_rows tb))}"
    proof
      fix d
      have "end_of d b \<in> {0, last (along d (tb_rows tb))}"
        using b(2) by (simp add: scanning_def)
      then show "end_of d c \<in> {0, last (along d (tb_rows tb))}"
        using lr b(7) by (cases d; cases e) (auto simp: c_def set_end_def xs_def)
    qed
    have "kept b c"
      by (simp add: kept_def c_def set_end_def)
    then have scc: "scanning env tb texts page c"
      by (rule scanning_kept [OF b(2)]) (use ends b(2) in \<open>auto simp: scanning_def c_def set_end_def\<close>)
    have u: "list_from_record self env (step e) a =
        (if step e < 0 then do {
           r \<leftarrow> (if recordListSize c \<noteq> 0 then rd_at (recordList c) (recordListPos c) else Some (lBofAt c));
           x_concludeSkipraw env (c\<lparr>fBof := True, lBofAt := r\<rparr>)
         }
         else x_concludeSkipraw env (x_cleanBuffer c))"
      using False by (simp add: b(1) list_behind_def list_used_def xs_def n_def r_def [symmetric] Let_def c_def)
        (simp add: set_end_def)
    show ?thesis
    proof (cases e)
      case SR_LIST_FORWARD
      have "list_from_record self env (step e) a = Some (HB_SUCCESS, x_cleanBuffer c)"
        using u cl SR_LIST_FORWARD by (simp add: step_def x_concludeSkipraw_def)
      moreover have "fBof (x_cleanBuffer c) = fBof a"
        using cl by simp
      ultimately show ?thesis
        using nr scanning_clean [OF scc] fl cl SR_LIST_FORWARD by (simp add: listed_def n_def)
    next
      case SR_LIST_BACKWARD
      have "SR_GetCurrentRecordNum a = Some r"
        using at_row_current [OF row fl(1) scanning_facts(13) [OF sc]] by (simp add: r_def)
      then have rd: "rd_at (recordList c) (recordListPos c) = Some r"
        using scanning_facts(13) [OF sc] fl cl by (simp add: SR_GetCurrentRecordNum_def)
      have lb: "lBofAt c = r"
        using SR_LIST_BACKWARD b(7) by (simp add: c_def set_end_def)
      then have cc: "c\<lparr>fBof := True, lBofAt := r\<rparr> = c\<lparr>fBof := True\<rparr>"
        by simp
      have "list_from_record self env (step e) a = Some (HB_SUCCESS, c\<lparr>fBof := True\<rparr>)"
        using u cl rd lb SR_LIST_BACKWARD cc by (simp add: step_def x_concludeSkipraw_def)
      moreover have "scanning env tb texts page (c\<lparr>fBof := True\<rparr>)"
        by (rule scanning_kept [OF scc])
           (use scc in \<open>auto simp: kept_def scanning_def end_of_cong [of "c\<lparr>fBof := True\<rparr>" c]\<close>)
      ultimately show ?thesis
        using nr fl cl SR_LIST_BACKWARD by (simp add: listed_def n_def)
    qed
  next
    case True
    define k where "k = towards e n (Suc j)"
    have nr: "next_row e n i = Some k" "k < n" "towards e n k = Suc j"
      using next_towards [OF i] True by (simp_all add: j_def k_def towards_less)
    define rest where "rest = drop (Suc j) xs"
    have rest: "rest \<noteq> []" "length rest = n - Suc j"
      using True by (simp_all add: rest_def xs_def n_def)
    define r2 where "r2 = tb_rows tb ! k"
    have r2: "rest ! 0 = r2" "r2 \<in> set (tb_rows tb)"
      using along_towards [of k "tb_rows tb" e] nr True by (simp_all add: rest_def xs_def r2_def n_def)
    define b1 where "b1 = (if length rest < RECORD_LIST_SIZE then set_end (last rest) b else b)"
    define c where "c = (with_list (take RECORD_LIST_SIZE rest) b1)\<lparr>indexLevel := indexLevel b - 1\<rparr>"
    have len: "length (recordList b) = RECORD_LIST_SIZE" "length (deletedList b) = RECORD_LIST_SIZE"
      using row b(3,4) by (simp_all add: at_row_def window_def)
    have b1: "kept b b1" "CurrRecord b1 = CurrRecord b" "lLastRec b1 = lLastRec b" "recordList b1 = recordList b"
      "deletedList b1 = deletedList b" "recordListDirection b1 = e" "fEof b1 = fEof a" "fBof b1 = fBof a"
      "indexLevel b1 = indexLevel b"
      using b(7,8,9) by (simp_all add: b1_def set_end_def kept_def)
    have ends1: "\<forall>d. end_of d b1 \<in> {0, last (along d (tb_rows tb))}"
    proof
      fix d
      have "end_of d b \<in> {0, last (along d (tb_rows tb))}"
        using b(2) by (simp add: scanning_def)
      moreover have "last rest = last xs"
        using rest True by (simp add: rest_def)
      ultimately show "end_of d b1 \<in> {0, last (along d (tb_rows tb))}"
        using b(7) by (cases d; cases e) (auto simp: b1_def set_end_def xs_def)
    qed
    have cl: "recordListPos c = 0" "recordListSize c = int (min RECORD_LIST_SIZE (length rest))"
      "recordList c = put_run 0 (take RECORD_LIST_SIZE rest) (recordList b)"
      "deletedList c = put_run 0 (map (\<lambda>x. SPACE) (take RECORD_LIST_SIZE rest)) (deletedList b)"
      "recordListDirection c = e" "fEof c = fEof a" "fBof c = fBof a" "lEofAt c = lEofAt b1" "lBofAt c = lBofAt b1"
      "CurrRecord c = CurrRecord b" "lLastRec c = lLastRec b"
      using b1 by (simp_all add: c_def with_list_def with_run_def)
    have "kept b c"
      using b1(1) by (simp add: kept_def c_def with_list_def with_run_def)
    then have scc: "scanning env tb texts page c"
      by (rule scanning_kept [OF b(2)])
         (use ends1 b(2) cl end_of_cong [of c b1] in \<open>simp_all add: scanning_def\<close>)
    have lc: "length (recordList c) = RECORD_LIST_SIZE" "length (deletedList c) = RECORD_LIST_SIZE"
      using len by (simp_all add: cl)
    have "take (length (take RECORD_LIST_SIZE rest)) (recordList c) = take RECORD_LIST_SIZE rest"
      unfolding cl(3) by (rule take_put_run) (simp add: len)
    then have tk: "take (min RECORD_LIST_SIZE (length rest)) (recordList c) = take RECORD_LIST_SIZE rest"
      by (simp add: min.commute)
    have c0: "recordList c ! 0 = r2"
    proof -
      have "0 < min RECORD_LIST_SIZE (length rest)"
        using rest(1) by simp
      then have "recordList c ! 0 = take (min RECORD_LIST_SIZE (length rest)) (recordList c) ! 0"
        by (rule nth_take [symmetric])
      then show ?thesis
        using rest r2 unfolding tk by simp
    qed
    obtain pool ns where rd: "read_current env False c = Some (HB_SUCCESS, read_result r2 tb pool ns c)"
      "scanning env tb texts page (read_result r2 tb pool ns c)"
    proof (rule read_current_natural [OF scc, of r2])
      show "0 \<le> recordListPos c"
        by (simp add: cl(1))
      show "recordListPos c < recordListSize c"
        using rest(1) by (simp add: cl(1,2))
      show "recordListSize c \<le> int (length (recordList c))"
        by (simp add: cl(2) lc(1))
      show "recordList c ! nat (recordListPos c) = r2"
        using c0 by (simp add: cl(1))
      show "r2 \<in> set (tb_rows tb)"
        by (rule r2(2))
    qed (rule that)
    have "\<not> lpdbRelations (read_result r2 tb pool ns c)"
      by (rule scanning_facts(11) [OF rd(2)])
    moreover have "list_behind rest (tb_rows tb ! i) b = (RESULTSET_OK, with_list (take RECORD_LIST_SIZE rest) b1)"
      using rest by (simp add: list_behind_def b1_def)
    moreover have "indexLevel (with_list (take RECORD_LIST_SIZE rest) b1) = indexLevel b"
      using b1 by (simp add: with_list_def with_run_def)
    ultimately have u: "list_from_record self env (step e) a = Some (HB_SUCCESS, read_result r2 tb pool ns c)"
      using rd(1) by (simp add: b(1) rest_def [symmetric] list_used_def x_concludeSkipraw_def c_def Let_def)
    have w: "window tb (Suc j) c"
    proof -
      have "take (min RECORD_LIST_SIZE (length rest)) (recordList c) =
          take (min RECORD_LIST_SIZE (length rest)) (drop (Suc j) (along e (tb_rows tb)))"
        unfolding tk by (simp add: rest_def xs_def min_def)
      then show ?thesis
        using cl lc rest True unfolding window_def
        by (intro conjI exI [of _ 0] exI [of _ "min RECORD_LIST_SIZE (length rest)"]) (simp_all add: n_def)
    qed
    have "at_row tb k c"
      using w nr cl by (simp add: at_row_def n_def [symmetric])
    then have "at_row tb k (read_result r2 tb pool ns c)"
      by (rule at_row_cong) (simp_all add: read_result_def)
    then have "listed env tb texts page e i a (read_result r2 tb pool ns c)"
      using rd(2) nr(1) fl cl by (simp add: listed_def n_def) (simp add: read_result_def r2_def)
    with u show ?thesis by blast
  qed
qed

lemma list_step:
  assumes sc: "scanning env tb texts page a" and row: "on_row tb i a" and cs: "CurrRecord a = Some cs"
    and fl: "\<not> fEof a" "\<not> fBof a" and cur: "lCurrentRecord a = tb_rows tb ! i" and un: "uncached tb e i a"
  shows "\<exists>b. list_from_record self env (step e) a = Some (HB_SUCCESS, b) \<and> moved env tb texts page e i b"
proof -
  define n where "n = length (tb_rows tb)"
  have i: "i < n" using row by (simp add: on_row_def n_def)
  obtain b where b: "list_from_record self env (step e) a = Some (HB_SUCCESS, b)" "listed env tb texts page e i a b"
    using list_step_at [OF sc on_row_at_row [OF row] cs fl cur, of self e] by blast
  note nx = next_towards [OF i, of e]
  have "moved env tb texts page e i b"
  proof (cases "next_row e n i")
    case None
    then have "\<not> Suc (towards e n i) < n" using nx by (auto split: if_splits)
    then have "on_row tb i b"
      using b(2) None by (intro list_stays [OF row un]) (simp_all add: listed_def n_def)
    then show ?thesis using b(2) None by (simp add: moved_def listed_def n_def)
  next
    case (Some k)
    then have k: "towards e n k = Suc (towards e n i)" using nx by (auto split: if_splits)
    have "anchored tb (towards e n k) b"
      using b(2) Some by (simp add: anchored_def listed_def n_def [symmetric] k)
    moreover have "recordListDirection b = e" "at_row tb k b"
      using b(2) Some by (simp_all add: listed_def n_def)
    ultimately have "on_row tb k b"
      by (auto simp: at_row_def on_row_def n_def)
    then show ?thesis using b(2) Some by (simp add: moved_def listed_def n_def)
  qed
  with b(1) show ?thesis by blast
qed


section \<open>A step\<close>

text \<open>The end of the table is known to be here.\<close>

lemma cache_end:
  assumes sc: "scanning env tb texts page a" and row: "at_row tb i a" and fl: "\<not> fEof a" "\<not> fBof a"
    and eq: "tb_rows tb ! i = end_of e a"
  shows "next_row e (length (tb_rows tb)) i = None" "scanning env tb texts page (at_end e a)"
    "fEof (at_end e a) = (e = SR_LIST_FORWARD)" "fBof (at_end e a) = (e = SR_LIST_BACKWARD)"
proof -
  define rows where "rows = tb_rows tb"
  define n where "n = length rows"
  have i: "i < n" using row by (simp add: at_row_def rows_def n_def)
  have "end_of e a \<in> {0, last (along e rows)}"
    using sc by (simp add: scanning_def rows_def)
  moreover have "rows ! i \<noteq> 0"
    using nth_mem [of i rows] i scanning_facts(8) [OF sc] unfolding rows_def n_def by metis
  ultimately have "rows ! i = last (along e rows)"
    using eq by (auto simp: rows_def)
  moreover have "along e rows \<noteq> []" "length (along e rows) = n"
    using i by (cases e; auto simp: n_def)+
  then have "last (along e rows) = along e rows ! (n - 1)"
    by (simp add: last_conv_nth)
  ultimately have "along e rows ! towards e n i = along e rows ! (n - 1)"
    using along_towards [of i rows e] i by (simp add: n_def)
  then have "towards e n i = n - 1"
    using scanning_facts(7) [OF sc] nth_eq_iff_index_eq [of "along e rows" "towards e n i" "n - 1"] i
      towards_less [OF i, of e] by (simp add: rows_def n_def)
  then show "next_row e (length (tb_rows tb)) i = None"
    using next_towards [OF i, of e] i by (simp add: n_def rows_def)
  show "scanning env tb texts page (at_end e a)"
  proof (cases e)
    case SR_LIST_BACKWARD
    have "scanning env tb texts page (a\<lparr>fBof := True\<rparr>)"
      by (rule scanning_kept [OF sc])
         (use sc in \<open>auto simp: kept_def scanning_def end_of_cong [of "a\<lparr>fBof := True\<rparr>" a]\<close>)
    then show ?thesis by (simp add: SR_LIST_BACKWARD)
  qed (simp add: scanning_clean [OF sc])
  show "fEof (at_end e a) = (e = SR_LIST_FORWARD)" "fBof (at_end e a) = (e = SR_LIST_BACKWARD)"
    using fl by (cases e; simp)+
qed

text \<open>The record is in the list, at another position.\<close>

lemma cache_read:
  assumes sc: "scanning env tb texts page a" and row: "at_row tb i a" and fl: "\<not> fEof a"
    and d: "recordListDirection a = d" and ps: "recordListPos a = int p" "int q < recordListSize a"
    and q: "towards d (length (tb_rows tb)) i + q = towards d (length (tb_rows tb)) k + p" "k < length (tb_rows tb)"
  obtains pool ns where
    "read_current env False (a\<lparr>recordListPos := int q\<rparr>) =
       Some (HB_SUCCESS, read_result (tb_rows tb ! k) tb pool ns (a\<lparr>recordListPos := int q\<rparr>))"
    "scanning env tb texts page (read_result (tb_rows tb ! k) tb pool ns (a\<lparr>recordListPos := int q\<rparr>))"
    "at_row tb k (read_result (tb_rows tb ! k) tb pool ns (a\<lparr>recordListPos := int q\<rparr>))"
proof -
  define n where "n = length (tb_rows tb)"
  define j where "j = towards d n i"
  define c where "c = a\<lparr>recordListPos := int q\<rparr>"
  have w: "window tb j a"
    using row by (simp add: at_row_def n_def d j_def)
  from w obtain s' where s': "recordListSize a = int s'" "p < s'" "s' \<le> RECORD_LIST_SIZE"
    "p \<le> j" "j - p + s' \<le> n" "length (recordList a) = RECORD_LIST_SIZE"
    using ps(1) by (auto elim!: window_bounds simp: n_def)
  have ec: "end_of x c = end_of x a" for x
    by (rule end_of_cong) (simp_all add: c_def)
  have scc: "scanning env tb texts page c"
    by (rule scanning_kept [OF sc])
       (use sc ec in \<open>simp_all add: scanning_def\<close>, simp_all add: kept_def c_def)
  have jq: "towards d n k - q = j - p" "q \<le> towards d n k" "q < s'"
    using q(1) s' ps(2) by (simp_all add: j_def n_def)
  have "window tb (towards d n k) c"
    using w ps s' jq unfolding window_def
    by (intro conjI exI [of _ q] exI [of _ s']) (auto simp: c_def n_def)
  then have oc: "at_row tb k c"
    using q(2) by (simp add: at_row_def n_def [symmetric]) (simp add: c_def d)
  have rk: "recordList c ! nat (recordListPos c) = tb_rows tb ! k"
    using at_row_current [OF oc] scanning_facts(13) [OF scc] fl jq(3) s'
    by (simp add: SR_GetCurrentRecordNum_def c_def)
  obtain pool ns where rd: "read_current env False c = Some (HB_SUCCESS, read_result (tb_rows tb ! k) tb pool ns c)"
    "scanning env tb texts page (read_result (tb_rows tb ! k) tb pool ns c)"
    by (rule read_current_natural [OF scc _ _ _ rk])
       (use ps s' q jq in \<open>auto simp: c_def\<close>)
  have "at_row tb k (read_result (tb_rows tb ! k) tb pool ns c)"
    by (rule at_row_cong [OF oc]) (simp_all add: read_result_def)
  with rd show ?thesis using that unfolding c_def by blast
qed

lemma list_step_in:
  assumes sc: "scanning env tb texts page a" and row: "on_row tb i a"
    and fl: "\<not> fEof a" "\<not> fBof a" and s: "skipDirection a \<noteq> 0"
    and c: "trySkippingOnCache env (step e) a \<noteq> Some (HB_FAILURE, a)"
  shows "\<exists>b. trySkippingOnCache env (step e) a = Some (HB_SUCCESS, b) \<and> moved env tb texts page e i b"
proof -
  define rows where "rows = tb_rows tb"
  define n where "n = length rows"
  define d where "d = recordListDirection a"
  define j where "j = towards d n i"
  have i: "i < n" and w: "window tb j a" and anc: "anchored tb j a"
    using row by (simp_all add: on_row_def rows_def n_def d_def j_def Let_def)
  from w obtain p s' where ps: "recordListPos a = int p" "recordListSize a = int s'" "p < s'" "s' \<le> RECORD_LIST_SIZE"
    "p \<le> j" "j - p + s' \<le> n" "j < n" "length (recordList a) = RECORD_LIST_SIZE"
    "length (deletedList a) = RECORD_LIST_SIZE"
    by (auto elim!: window_bounds simp: rows_def d_def n_def)
  have ar: "at_row tb i a" by (rule on_row_at_row [OF row])
  have end_case: ?thesis
    if t: "trySkippingOnCache env (step e) a = Some (HB_SUCCESS, at_end e a)" and eq: "rows ! i = end_of e a"
  proof -
    have "on_row tb i (at_end e a)"
      by (rule on_row_cong [OF row]) (cases e; simp)+
    then show ?thesis
      using t cache_end [OF sc ar fl] eq by (simp add: moved_def rows_def)
  qed
  have read_case: ?thesis
    if t: "trySkippingOnCache env (step e) a = read_current env False (a\<lparr>recordListPos := int q\<rparr>)"
      and q: "q < s'" "j + q = towards d n k + p" "next_row e n i = Some k" "k < n" for q k
  proof -
    define c where "c = a\<lparr>recordListPos := int q\<rparr>"
    obtain pool ns where rd: "read_current env False c = Some (HB_SUCCESS, read_result (rows ! k) tb pool ns c)"
      "scanning env tb texts page (read_result (rows ! k) tb pool ns c)" "at_row tb k (read_result (rows ! k) tb pool ns c)"
      using cache_read [OF sc ar fl(1) d_def [symmetric] ps(1), of q k] q(1,2,4) ps(2)
      unfolding c_def j_def n_def rows_def by auto
    let ?b = "read_result (rows ! k) tb pool ns c"
    have b: "recordListPos ?b = int q" "recordListSize ?b = recordListSize a" "recordListDirection ?b = d"
      "lEofAt ?b = lEofAt a" "lBofAt ?b = lBofAt a"
      by (simp_all add: read_result_def c_def d_def)
    have ends: "end_of x ?b = end_of x a" for x
      by (rule end_of_cong) (simp_all add: b)
    have "int q = int (towards d n k) \<longleftrightarrow> recordListPos a = int j"
      using q(2) ps(1) by auto
    then have "anchored tb (towards d n k) ?b"
      using anc unfolding anchored_def b(1-3) ends by (simp add: d_def)
    then have "on_row tb k ?b"
      using rd(3) unfolding on_row_def at_row_def b(3) by (simp add: n_def rows_def)
    then have "moved env tb texts page e i ?b"
      using rd(2) q(3) fl by (simp add: moved_def n_def rows_def) (simp add: read_result_def c_def)
    then show ?thesis
      using rd(1) t by (auto simp: c_def)
  qed
  have eq: "along d (tb_rows tb) ! j = rows ! i"
    using along_towards [of i rows d] i by (simp add: j_def n_def rows_def)
  show ?thesis
  proof (cases "e = d")
    case True
    have t: "trySkippingOnCache env (step e) a =
      (if recordListPos a + 1 < recordListSize a
       then read_current env False (a\<lparr>recordListPos := recordListPos a + 1\<rparr>)
       else if rows ! i = end_of e a then Some (HB_SUCCESS, at_end e a)
       else Some (HB_FAILURE, a))"
      using cache_same [OF w d_def [symmetric] s, of env] eq True by simp
    show ?thesis
    proof (cases "recordListPos a + 1 < recordListSize a")
      case T: True
      have "Suc j < n" using T ps by simp
      then have "next_row e n i = Some (towards e n (Suc j))"
        using next_towards [OF i, of e] True by (simp add: j_def)
      then show ?thesis
        using read_case [of "Suc p" "towards e n (Suc j)"] t T True ps \<open>Suc j < n\<close>
        by (simp add: towards_less add.commute)
    next
      case False
      then show ?thesis
        using t c end_case by (auto split: if_splits)
    qed
  next
    case False
    then have e: "e = other d" by (cases d; cases e; simp)
    have t: "trySkippingOnCache env (step e) a =
      (if 0 < recordListPos a
       then read_current env False (a\<lparr>recordListPos := recordListPos a - 1\<rparr>)
       else if rows ! i = end_of e a then Some (HB_SUCCESS, at_end e a)
       else Some (HB_FAILURE, a))"
      using cache_other [OF w d_def [symmetric] s, of env] eq e by simp
    show ?thesis
    proof (cases "0 < recordListPos a")
      case T: True
      have ej: "towards e n i = n - 1 - j"
        using towards_other [OF i, of d] by (simp add: e j_def)
      have j1: "0 < j" "0 < p" using T ps by simp_all
      have "Suc (towards e n i) < n"
        using ej j1 ps(7) by simp
      then have nx: "next_row e n i = Some (towards e n (n - j))"
        using next_towards [OF i, of e] ej j1 ps(7) by (simp add: Suc_diff_Suc)
      have k: "towards e n (n - j) < n" "towards d n (towards e n (n - j)) = j - 1"
        using j1 ps(7) by (cases d; simp add: e towards_def)+
      show ?thesis
        using read_case [of "p - 1" "towards e n (n - j)"] t T ps j1 nx k
        by (simp add: of_nat_diff)
    next
      case False
      then show ?thesis
        using t c end_case by (auto split: if_splits)
    qed
  qed
qed

end
