(* ===== verification/ExStep.thy ===== *)
theory ExStep
  imports ExScan
begin

text \<open>
  A single skip and a walk in the natural order, through the function table of the driver.
\<close>

section \<open>The raw skip\<close>

lemma scanning_idle:
  assumes "scanning env tb texts page a" "kept a b" "lEofAt b = lEofAt a" "lBofAt b = lBofAt a"
    "CurrRecord b = CurrRecord a" "lLastRec b = lLastRec a"
  shows "scanning env tb texts page b"
  by (rule scanning_kept [OF assms(1,2)])
     (use assms end_of_cong [of b a] in \<open>simp_all add: scanning_def\<close>)

lemma uncached_failure:
  assumes row: "on_row tb i a" and s: "skipDirection a \<noteq> 0"
    and c: "trySkippingOnCache env (step e) a = Some (HB_FAILURE, a)"
    and sc: "scanning env tb texts page a" and fl: "\<not> fEof a"
  shows "uncached tb e i a"
proof -
  define d where "d = recordListDirection a"
  define j where "j = towards d (length (tb_rows tb)) i"
  have w: "window tb j a" and i: "i < length (tb_rows tb)"
    using row by (simp_all add: on_row_def d_def j_def Let_def)
  have eq: "along d (tb_rows tb) ! j = tb_rows tb ! i"
    using along_towards [OF i, of d] by (simp add: j_def)
  obtain p s' where ps: "recordListPos a = int p" "recordListSize a = int s'" "p < s'" "s' \<le> RECORD_LIST_SIZE"
    "length (recordList a) = RECORD_LIST_SIZE" "j < length (tb_rows tb)"
    by (rule window_bounds [OF w])
  have no_read: "read_current env False (a\<lparr>recordListPos := q\<rparr>) \<noteq> Some (HB_FAILURE, a)"
    if q: "0 \<le> q" "q < recordListSize a" for q
  proof -
    define c where "c = a\<lparr>recordListPos := q\<rparr>"
    have scc: "scanning env tb texts page c"
      by (rule scanning_idle [OF sc]) (simp_all add: c_def kept_def)
    have m: "recordList a ! nat q \<in> set (tb_rows tb)"
    proof -
      have "recordList a ! nat q = along d (tb_rows tb) ! (j - p + nat q)"
        using window_nth [OF w ps(1), of "nat q"] q by (simp add: d_def)
      moreover have "j - p + nat q < length (tb_rows tb)"
        using w ps(1,2) q by (auto simp: window_def)
      then have "along d (tb_rows tb) ! (j - p + nat q) \<in> set (along d (tb_rows tb))"
        by (intro nth_mem) simp
      ultimately show ?thesis by simp
    qed
    obtain pool ns where "read_current env False c = Some (HB_SUCCESS, read_result (recordList a ! nat q) tb pool ns c)"
      by (rule read_current_natural [OF scc, of "recordList a ! nat q"])
         (use q m ps in \<open>simp_all add: c_def\<close>)
    then show ?thesis by (simp add: c_def)
  qed
  show ?thesis
  proof (cases "e = d")
    case True
    then show ?thesis
      using c no_read [of "recordListPos a + 1"] ps eq unfolding True cache_same [OF w d_def [symmetric] s]
      by (auto simp: uncached_def d_def split: if_splits)
  next
    case False
    then have e: "e = other d" by (cases d; cases e; simp)
    have "e \<noteq> recordListDirection a" using False by (simp add: d_def)
    then show ?thesis
      using c no_read [of "recordListPos a - 1"] ps eq
      unfolding e cache_other [OF w d_def [symmetric] s]
      by (auto simp: uncached_def split: if_splits)
  qed
qed

text \<open>A raw skip up to the look into the list.\<close>

lemma raw_ready:
  assumes sc: "scanning env tb texts page a"
    and fl: "\<not> fEof a" "\<not> fBof a" and cur: "lCurrentRecord a \<in> set (tb_rows tb)"
  obtains a2 where "sqlExSkipRaw (ex_table env (Suc m)) env (step e) a = do {
      (c, a3) \<leftarrow> trySkippingOnCache env (step e) a2;
      if c = HB_SUCCESS then x_concludeSkipraw env a3
      else list_from_record (ex_table env (Suc m)) env (step e) a3 }"
    "scanning env tb texts page a2" "\<not> fEof a2" "\<not> fBof a2"
    "lCurrentRecord a2 = lCurrentRecord a" "skipDirection a2 \<noteq> 0" "CurrRecord a2 \<noteq> None"
    "recordListPos a2 = recordListPos a" "recordListSize a2 = recordListSize a"
    "recordListDirection a2 = recordListDirection a" "recordList a2 = recordList a"
    "deletedList a2 = deletedList a" "lEofAt a2 = lEofAt a" "lBofAt a2 = lBofAt a"
proof -
  define a0 where "a0 = clear_mask a"
  define a1 where "a1 = (if CurrRecord a0 = None then SR_SetCurrRecordStructure a0 else a0)"
  define a2 where "a2 = a1\<lparr>skipDirection := (if step e > 0 then 1 else - 1)\<rparr>"
  note F = scanning_facts [OF sc]
  have s0: "step e \<noteq> 0" by (simp add: step_def)
  have cold: "ex_goCold (ex_table env (Suc m)) a = Some (HB_SUCCESS, a0)"
    using F(12) by (simp add: sqlExTable_def sqlExGoCold_def a0_def)
  have nl: "lCurrentRecord a0 \<noteq> lLastRec a0"
    using cur sc by (auto simp: a0_def clear_mask_def scanning_def)
  obtain cs where cs: "CurrRecord a2 = Some cs" "length cs = length (aFields a)"
    using sc by (cases "CurrRecord a")
      (auto simp: a2_def a1_def a0_def clear_mask_def SR_SetCurrRecordStructure_def scanning_def)
  have k: "kept a a2" "lEofAt a2 = lEofAt a" "lBofAt a2 = lBofAt a" "lLastRec a2 = lLastRec a"
    by (simp_all add: a2_def a1_def a0_def clear_mask_def SR_SetCurrRecordStructure_def kept_def)
  have u: "sqlExSkipRaw (ex_table env (Suc m)) env (step e) a = do {
      (c, a3) \<leftarrow> trySkippingOnCache env (step e) a2;
      if c = HB_SUCCESS then x_concludeSkipraw env a3
      else list_from_record (ex_table env (Suc m)) env (step e) a3 }"
    unfolding sqlExSkipRaw_def cold using nl s0
    by (simp add: a1_def [symmetric] a2_def [symmetric] Let_def del: ex_table.simps)
  have sc2: "scanning env tb texts page a2"
    by (rule scanning_kept [OF sc k(1)])
       (use cs k sc end_of_cong [of a2 a] in \<open>simp_all add: scanning_def\<close>)
  show ?thesis
    by (rule that [OF u sc2])
       (use fl cs in \<open>simp_all add: a2_def a1_def a0_def clear_mask_def SR_SetCurrRecordStructure_def\<close>)
qed

lemma raw_step:
  assumes sc: "scanning env tb texts page a" and row: "on_row tb i a"
    and fl: "\<not> fEof a" "\<not> fBof a" and cur: "lCurrentRecord a = tb_rows tb ! i"
  shows "\<exists>b. sqlExSkipRaw (ex_table env (Suc m)) env (step e) a = Some (HB_SUCCESS, b) \<and>
    moved env tb texts page e i b"
proof -
  have "lCurrentRecord a \<in> set (tb_rows tb)"
    using row cur by (simp add: on_row_def)
  then obtain a2 where u: "sqlExSkipRaw (ex_table env (Suc m)) env (step e) a = do {
      (c, a3) \<leftarrow> trySkippingOnCache env (step e) a2;
      if c = HB_SUCCESS then x_concludeSkipraw env a3
      else list_from_record (ex_table env (Suc m)) env (step e) a3 }"
    and sc2: "scanning env tb texts page a2"
    and fl2: "\<not> fEof a2" "\<not> fBof a2" "lCurrentRecord a2 = lCurrentRecord a" "skipDirection a2 \<noteq> 0" "CurrRecord a2 \<noteq> None"
    and l2: "recordListPos a2 = recordListPos a" "recordListSize a2 = recordListSize a"
    "recordListDirection a2 = recordListDirection a" "recordList a2 = recordList a"
    "deletedList a2 = deletedList a" "lEofAt a2 = lEofAt a" "lBofAt a2 = lBofAt a"
    by (rule raw_ready [OF sc fl])
  have row2: "on_row tb i a2"
    by (rule on_row_cong [OF row l2(4,5,1,2,3,6,7)])
  from fl2(5) obtain cs where cs: "CurrRecord a2 = Some cs" by blast
  have cur2: "lCurrentRecord a2 = tb_rows tb ! i"
    using fl2(3) cur by simp
  show ?thesis
  proof (cases "trySkippingOnCache env (step e) a2 = Some (HB_FAILURE, a2)")
    case True
    have "uncached tb e i a2"
      by (rule uncached_failure [OF row2 fl2(4) True sc2 fl2(1)])
    from list_step [OF sc2 row2 cs fl2(1,2) cur2 this] True show ?thesis
      by (auto simp: u simp del: ex_table.simps)
  next
    case False
    from list_step_in [OF sc2 row2 fl2(1,2,4) False] obtain b where
      b: "trySkippingOnCache env (step e) a2 = Some (HB_SUCCESS, b)" "moved env tb texts page e i b"
      by blast
    then have "\<not> lpdbRelations b"
      using scanning_facts(11) [of env tb texts page b] by (simp add: moved_def)
    with b show ?thesis
      by (simp add: u x_concludeSkipraw_def del: ex_table.simps)
  qed
qed

section \<open>The skip\<close>

lemma skip_raw:
  assumes sc: "scanning env tb texts page a" and row: "at_row tb i a" and fl: "\<not> fEof a"
    and raw: "\<And>c. scanning env tb texts page c \<Longrightarrow> \<not> fEof c \<Longrightarrow> \<not> fBof c \<Longrightarrow> lCurrentRecord c = tb_rows tb ! i \<Longrightarrow>
      recordList c = recordList a \<Longrightarrow> deletedList c = deletedList a \<Longrightarrow> recordListPos c = recordListPos a \<Longrightarrow>
      recordListSize c = recordListSize a \<Longrightarrow> recordListDirection c = recordListDirection a \<Longrightarrow>
      lEofAt c = lEofAt a \<Longrightarrow> lBofAt c = lBofAt a \<Longrightarrow>
      \<exists>b. sqlExSkipRaw (ex_table env (Suc m)) env (step e) c = Some (HB_SUCCESS, b) \<and> P b"
    and P: "\<And>b. P b \<Longrightarrow> scanning env tb texts page b \<and> (e = SR_LIST_FORWARD \<longrightarrow> \<not> fBof b) \<and> (e = SR_LIST_BACKWARD \<longrightarrow> \<not> fEof b)"
  shows "\<exists>b. sqlExSkip (ex_table env (Suc (Suc m))) env (step e) a = Some (HB_SUCCESS, b) \<and> P b"
proof -
  note F = scanning_facts [OF sc]
  define a2 where "a2 = a\<lparr>lCurrentRecord := tb_rows tb ! i, fTop := False, fBottom := False, wasdel := False,
    fBof := False, fEof := False\<rparr>"
  have cur: "SR_GetCurrentRecordNum a = Some (tb_rows tb ! i)"
    by (rule at_row_current [OF row fl F(13)])
  have sc2: "scanning env tb texts page a2"
    by (rule scanning_idle [OF sc]) (simp_all add: a2_def kept_def)
  obtain b where b: "sqlExSkipRaw (ex_table env (Suc m)) env (step e) a2 = Some (HB_SUCCESS, b)" "P b"
    using raw [OF sc2] by (auto simp: a2_def)
  have nf: "\<not> x_filtering env b"
    using P [OF b(2)] scanning_facts(17) [of env tb texts page b] by simp
  have st: "skip_steps (ex_table env (Suc (Suc m))) (step e) 1 a2 = Some (HB_SUCCESS, b)"
    using b(1) nf by (simp add: sqlExTable_def sqlExSkipFilter_def del: ex_table.simps(2))
      (simp add: ex_table.simps(2) [of env "Suc m"] sqlExTable_def sqlExSkipFilter_def del: ex_table.simps(2))
  have s: "step e \<noteq> 0" "nat \<bar>step e\<bar> = 1" "(if step e > 0 then 1 else - 1) = step e"
    by (simp_all add: step_def)
  have fix_up: "(if step e < 0 then b\<lparr>fEof := False\<rparr> else b\<lparr>fBof := False\<rparr>) = b"
    using P [OF b(2)] by (cases e) (auto simp: step_def)
  have "sqlExSkip (ex_table env (Suc (Suc m))) env (step e) a = Some (HB_SUCCESS, b)"
    unfolding sqlExSkip_def using F(18,19) s cur st fix_up
    by (simp add: x_first_def a2_def [symmetric] Let_def del: ex_table.simps skip_steps.simps)
  with b(2) show ?thesis by blast
qed

lemma skip_step:
  assumes sc: "scanning env tb texts page a" and row: "on_row tb i a" and fl: "\<not> fEof a"
  shows "\<exists>b. sqlExSkip (ex_table env (Suc (Suc m))) env (step e) a = Some (HB_SUCCESS, b) \<and>
    moved env tb texts page e i b"
proof (rule skip_raw [OF sc on_row_at_row [OF row] fl])
  fix c
  assume c: "scanning env tb texts page c" "\<not> fEof c" "\<not> fBof c" "lCurrentRecord c = tb_rows tb ! i"
    and l: "recordList c = recordList a" "deletedList c = deletedList a" "recordListPos c = recordListPos a"
      "recordListSize c = recordListSize a" "recordListDirection c = recordListDirection a"
      "lEofAt c = lEofAt a" "lBofAt c = lBofAt a"
  show "\<exists>b. sqlExSkipRaw (ex_table env (Suc m)) env (step e) c = Some (HB_SUCCESS, b) \<and> moved env tb texts page e i b"
    by (rule raw_step [OF c(1) on_row_cong [OF row l] c(2-4)])
qed (auto simp: moved_def split: option.splits)

section \<open>A skip along the list\<close>

text \<open>In the direction of the list nothing has to be known of the ends: a record is read from the list, or a new
  list is asked for, and when nothing is behind the record the end of the table is reached.\<close>

definition along_list :: "served \<Rightarrow> direction \<Rightarrow> nat \<Rightarrow> 'w exarea \<Rightarrow> bool" where
  "along_list tb e i a \<longleftrightarrow> at_row tb i a \<and> recordListDirection a = e"

definition moved_along ::
  "'w exenv \<Rightarrow> served \<Rightarrow> (string \<Rightarrow> bytes) \<Rightarrow> bytes \<Rightarrow> direction \<Rightarrow> nat \<Rightarrow> 'w exarea \<Rightarrow> bool" where
  "moved_along env tb texts page e i b \<longleftrightarrow>
     scanning env tb texts page b \<and>
     (case next_row e (length (tb_rows tb)) i of
        Some k \<Rightarrow> along_list tb e k b \<and> aBuffer b = tb_record tb (tb_rows tb ! k) \<and> \<not> fEof b \<and> \<not> fBof b
      | None \<Rightarrow> fEof b = (e = SR_LIST_FORWARD) \<and> fBof b = (e = SR_LIST_BACKWARD))"

lemma along_list_cong:
  assumes "along_list tb e i a" "recordList b = recordList a" "deletedList b = deletedList a"
    "recordListPos b = recordListPos a" "recordListSize b = recordListSize a"
    "recordListDirection b = recordListDirection a"
  shows "along_list tb e i b"
  using at_row_cong [of tb i a b] assms by (simp add: along_list_def)

lemma listed_along: "listed env tb texts page e i a b \<Longrightarrow> moved_along env tb texts page e i b"
  by (auto simp: listed_def moved_along_def along_list_def split: option.splits)

lemma raw_along:
  assumes sc: "scanning env tb texts page a" and al: "along_list tb e i a"
    and fl: "\<not> fEof a" "\<not> fBof a" and cur: "lCurrentRecord a = tb_rows tb ! i"
  shows "\<exists>b. sqlExSkipRaw (ex_table env (Suc m)) env (step e) a = Some (HB_SUCCESS, b) \<and>
    moved_along env tb texts page e i b"
proof -
  define n where "n = length (tb_rows tb)"
  define j where "j = towards e n i"
  have i: "i < n" using al by (simp add: along_list_def at_row_def n_def)
  then have "lCurrentRecord a \<in> set (tb_rows tb)" using cur by (simp add: n_def)
  then obtain c where u: "sqlExSkipRaw (ex_table env (Suc m)) env (step e) a = do {
      (r, a3) \<leftarrow> trySkippingOnCache env (step e) c;
      if r = HB_SUCCESS then x_concludeSkipraw env a3
      else list_from_record (ex_table env (Suc m)) env (step e) a3 }"
    and sc2: "scanning env tb texts page c"
    and fl2: "\<not> fEof c" "\<not> fBof c" "lCurrentRecord c = lCurrentRecord a" "skipDirection c \<noteq> 0" "CurrRecord c \<noteq> None"
    and l: "recordListPos c = recordListPos a" "recordListSize c = recordListSize a"
      "recordListDirection c = recordListDirection a" "recordList c = recordList a"
      "deletedList c = deletedList a"
    by (rule raw_ready [OF sc fl]) blast
  have alc: "at_row tb i c" "recordListDirection c = e"
    using along_list_cong [OF al l(4,5,1,2,3)] by (simp_all add: along_list_def)
  then have w: "window tb j c" by (simp add: at_row_def j_def n_def)
  then obtain p s where ps: "recordListPos c = int p" "recordListSize c = int s" "p < s" "j - p + s \<le> n" "p \<le> j"
    by (auto elim!: window_bounds simp: n_def)
  have rel: "\<not> lpdbRelations b" if "scanning env tb texts page b" for b
    by (rule scanning_facts(11) [OF that])
  have jr: "along e (tb_rows tb) ! j = tb_rows tb ! i"
    using along_towards [of i "tb_rows tb" e] i by (simp add: j_def n_def)
  note tr = cache_same [OF w alc(2) fl2(4), of env, unfolded jr]
  consider (list) "Suc p < s" | (known) "\<not> Suc p < s" "tb_rows tb ! i = end_of e c"
    | (ask) "\<not> Suc p < s" "tb_rows tb ! i \<noteq> end_of e c" by blast
  then show ?thesis
  proof cases
    case list
    then have sj: "Suc j < n" using ps by simp
    define k where "k = towards e n (Suc j)"
    have nr: "next_row e n i = Some k" "k < n" "towards e n k = Suc j"
      using next_towards [OF i, of e] sj by (simp_all add: j_def k_def towards_less)
    obtain pool ns where rd:
      "read_current env False (c\<lparr>recordListPos := int (Suc p)\<rparr>) =
         Some (HB_SUCCESS, read_result (tb_rows tb ! k) tb pool ns (c\<lparr>recordListPos := int (Suc p)\<rparr>))"
      "scanning env tb texts page (read_result (tb_rows tb ! k) tb pool ns (c\<lparr>recordListPos := int (Suc p)\<rparr>))"
      "at_row tb k (read_result (tb_rows tb ! k) tb pool ns (c\<lparr>recordListPos := int (Suc p)\<rparr>))"
      by (rule cache_read [OF sc2 alc(1) fl2(1) alc(2) ps(1), of "Suc p" k])
         (use list ps nr in \<open>simp_all add: n_def [symmetric] j_def [symmetric]\<close>)
    define b where "b = read_result (tb_rows tb ! k) tb pool ns (c\<lparr>recordListPos := int (Suc p)\<rparr>)"
    have "trySkippingOnCache env (step e) c = Some (HB_SUCCESS, b)"
      using tr list ps rd(1) by (simp add: b_def add.commute)
    moreover have "moved_along env tb texts page e i b"
      using rd(2,3) nr(1) fl2 alc(2)
      by (simp add: moved_along_def n_def [symmetric] b_def [symmetric] along_list_def) (simp add: b_def read_result_def)
    ultimately show ?thesis
      using u rel [OF rd(2)] by (simp add: x_concludeSkipraw_def b_def del: ex_table.simps)
  next
    case known
    note e = cache_end [OF sc2 alc(1) fl2(1,2) known(2)]
    have "moved_along env tb texts page e i (at_end e c)"
      using e by (simp add: moved_along_def)
    moreover have "trySkippingOnCache env (step e) c = Some (HB_SUCCESS, at_end e c)"
      using tr known ps by simp
    ultimately show ?thesis
      using u rel [OF e(2)] by (simp add: x_concludeSkipraw_def del: ex_table.simps)
  next
    case ask
    obtain cs where cs: "CurrRecord c = Some cs" using fl2(5) by blast
    obtain b where b: "list_from_record (ex_table env (Suc m)) env (step e) c = Some (HB_SUCCESS, b)"
      "listed env tb texts page e i c b"
      using list_step_at [OF sc2 alc(1) cs fl2(1,2), of "ex_table env (Suc m)" e] cur fl2(3) by auto
    have "trySkippingOnCache env (step e) c = Some (HB_FAILURE, c)"
      using tr ask ps by simp
    then show ?thesis
      using u b listed_along by (auto simp del: ex_table.simps)
  qed
qed

lemma skip_along:
  assumes sc: "scanning env tb texts page a" and al: "along_list tb e i a" and fl: "\<not> fEof a"
  shows "\<exists>b. sqlExSkip (ex_table env (Suc (Suc m))) env (step e) a = Some (HB_SUCCESS, b) \<and>
    moved_along env tb texts page e i b"
proof (rule skip_raw [OF sc _ fl])
  show "at_row tb i a" using al by (simp add: along_list_def)
  fix c
  assume c: "scanning env tb texts page c" "\<not> fEof c" "\<not> fBof c" "lCurrentRecord c = tb_rows tb ! i"
    and l: "recordList c = recordList a" "deletedList c = deletedList a" "recordListPos c = recordListPos a"
      "recordListSize c = recordListSize a" "recordListDirection c = recordListDirection a"
  show "\<exists>b. sqlExSkipRaw (ex_table env (Suc m)) env (step e) c = Some (HB_SUCCESS, b) \<and> moved_along env tb texts page e i b"
    by (rule raw_along [OF c(1) along_list_cong [OF al l] c(2-4)])
qed (auto simp: moved_along_def split: option.splits)

section \<open>A walk\<close>

text \<open>Skips in one direction until an end is reached, at most \<open>k\<close>; the buffers on the way.\<close>

fun walk :: "'w exrdd \<Rightarrow> 'w exenv \<Rightarrow> direction \<Rightarrow> nat \<Rightarrow> 'w exarea \<Rightarrow> (item list list \<times> 'w exarea) option" where
  "walk self env e 0 a = None"
| "walk self env e (Suc k) a = do {
     (r, a1) \<leftarrow> sqlExSkip self env (step e) a;
     if r \<noteq> HB_SUCCESS then None
     else if fEof a1 \<or> fBof a1 then Some ([], a1)
     else do { (bs, a2) \<leftarrow> walk self env e k a1; Some (aBuffer a1 # bs, a2) }
   }"

text \<open>The records that lie behind the \<open>i\<close>-th.\<close>

fun ahead :: "direction \<Rightarrow> nat \<Rightarrow> 'a list \<Rightarrow> 'a list" where
  "ahead SR_LIST_FORWARD i xs = drop (Suc i) xs"
| "ahead SR_LIST_BACKWARD i xs = rev (take i xs)"

lemma ahead_next:
  assumes "i < length xs"
  shows "ahead e i xs = (case next_row e (length xs) i of None \<Rightarrow> [] | Some k \<Rightarrow> xs ! k # ahead e k xs)"
proof (cases e)
  case SR_LIST_FORWARD
  then show ?thesis
    using assms by (simp add: Cons_nth_drop_Suc)
next
  case SR_LIST_BACKWARD
  then show ?thesis
    using assms by (cases i) (simp_all add: take_Suc_conv_app_nth)
qed

text \<open>A walk from where the area stands on a record, or along its list from there.\<close>

definition stands :: "served \<Rightarrow> direction \<Rightarrow> nat \<Rightarrow> 'w exarea \<Rightarrow> bool" where
  "stands tb e i a \<longleftrightarrow> on_row tb i a \<or> along_list tb e i a"

lemma skip_stands:
  assumes sc: "scanning env tb texts page a" and st: "stands tb e i a" and fl: "\<not> fEof a"
  shows "\<exists>b. sqlExSkip (ex_table env (Suc (Suc m))) env (step e) a = Some (HB_SUCCESS, b) \<and>
    scanning env tb texts page b \<and>
    (case next_row e (length (tb_rows tb)) i of
       Some k \<Rightarrow> stands tb e k b \<and> aBuffer b = tb_record tb (tb_rows tb ! k) \<and> \<not> fEof b \<and> \<not> fBof b
     | None \<Rightarrow> fEof b = (e = SR_LIST_FORWARD) \<and> fBof b = (e = SR_LIST_BACKWARD))"
  using st skip_step [OF sc _ fl, of i m e] skip_along [OF sc _ fl, of e i m]
  unfolding stands_def moved_def moved_along_def by (cases "next_row e (length (tb_rows tb)) i") force+

lemma walk_all:
  assumes "scanning env tb texts page a" "stands tb e i a" "\<not> fEof a"
    and "length (ahead e i (tb_rows tb)) < k"
  shows "\<exists>b. walk (ex_table env (Suc (Suc m))) env e k a =
      Some (map (tb_record tb) (ahead e i (tb_rows tb)), b) \<and>
    scanning env tb texts page b \<and>
    fEof b = (e = SR_LIST_FORWARD) \<and> fBof b = (e = SR_LIST_BACKWARD)"
  using assms
proof (induction k arbitrary: a i)
  case (Suc k)
  obtain b where b: "sqlExSkip (ex_table env (Suc (Suc m))) env (step e) a = Some (HB_SUCCESS, b)"
    "scanning env tb texts page b"
    "case next_row e (length (tb_rows tb)) i of
       Some k \<Rightarrow> stands tb e k b \<and> aBuffer b = tb_record tb (tb_rows tb ! k) \<and> \<not> fEof b \<and> \<not> fBof b
     | None \<Rightarrow> fEof b = (e = SR_LIST_FORWARD) \<and> fBof b = (e = SR_LIST_BACKWARD)"
    using skip_stands [OF Suc.prems(1-3), of m] by blast
  have i: "i < length (tb_rows tb)"
    using Suc.prems(2) by (auto simp: stands_def on_row_def along_list_def at_row_def)
  note al = ahead_next [OF i, of e]
  show ?case
  proof (cases "next_row e (length (tb_rows tb)) i")
    case None
    then show ?thesis
      using b al by (cases e) (simp_all del: ex_table.simps)
  next
    case (Some j)
    then have m: "stands tb e j b" "\<not> fEof b" "\<not> fBof b" "aBuffer b = tb_record tb (tb_rows tb ! j)"
      using b(3) by simp_all
    have "length (ahead e j (tb_rows tb)) < k"
      using Suc.prems(4) al Some by simp
    from Suc.IH [OF b(2) m(1,2) this] show ?thesis
      using b(1) m al Some by (auto simp del: ex_table.simps)
  qed
qed simp

end
