(* ===== verification/ExTop.thy ===== *)
theory ExTop
  imports ExStep
begin

text \<open>
  Going to a record number and to the ends of the table in the natural order.
\<close>

section \<open>Where the list may be\<close>

text \<open>The list is empty, a window, or the number of a single record that is not there.\<close>

definition placed :: "served \<Rightarrow> 'w exarea \<Rightarrow> bool" where
  "placed tb a \<longleftrightarrow>
     length (recordList a) = RECORD_LIST_SIZE \<and> length (deletedList a) = RECORD_LIST_SIZE \<and>
     (recordListSize a = 0 \<or> (\<exists>i. on_row tb i a) \<or>
      recordListSize a = 1 \<and> recordListPos a = 0 \<and> recordList a ! 0 \<notin> set (tb_rows tb))"

lemma on_row_placed: "on_row tb i a \<Longrightarrow> placed tb a"
  by (auto simp: placed_def on_row_def window_def Let_def)

lemma placed_cong:
  assumes "placed tb a" "recordList b = recordList a" "deletedList b = deletedList a"
    "recordListPos b = recordListPos a" "recordListSize b = recordListSize a"
    "recordListDirection b = recordListDirection a" "lEofAt b = lEofAt a" "lBofAt b = lBofAt a"
  shows "placed tb b"
  using assms on_row_cong [of tb _ a b] by (auto simp: placed_def)

section \<open>A record number\<close>

lemma goto_list_miss:
  assumes "recordListSize a = int s" "s \<le> length (recordList a)" "i + k = s"
    "\<forall>q. i \<le> q \<and> q < s \<longrightarrow> recordList a ! q \<noteq> r"
  shows "goto_in_list env r k i a = Some (False, a)"
  using assms(3,4)
proof (induction k arbitrary: i)
  case (Suc k)
  have "recordList a ! i \<noteq> r" using Suc.prems by simp
  then show ?case
    using Suc.IH [of "Suc i"] Suc.prems assms(1,2) by simp
qed simp

lemma goto_list_hit:
  assumes "recordListSize a = int s" "s \<le> length (recordList a)" "i + k = s"
    "i \<le> q" "q < s" "recordList a ! q = r" "\<forall>p < q. recordList a ! p \<noteq> r"
    "updateRecordBuffer env False (a\<lparr>recordListPos := int q\<rparr>) = Some (HB_SUCCESS, b)"
  shows "goto_in_list env r k i a = Some (True, b)"
  using assms(3,4)
proof (induction k arbitrary: i)
  case 0
  then show ?case using assms(5) by simp
next
  case (Suc k)
  show ?case
  proof (cases "i = q")
    case True
    then show ?thesis using assms by simp
  next
    case False
    then have "recordList a ! i \<noteq> r" using assms(7) Suc.prems(2) by simp
    then show ?thesis
      using Suc.IH [of "Suc i"] Suc.prems False assms(1,2) by simp
  qed
qed

lemma scanning_moved_pos:
  assumes "scanning env tb texts page a"
  shows "scanning env tb texts page (a\<lparr>recordListPos := p\<rparr>)"
  by (rule scanning_idle [OF assms]) (simp_all add: kept_def)

lemma on_row_at:
  assumes row: "on_row tb i a" and q: "int q < recordListSize a"
    and r: "recordList a ! q = tb_rows tb ! k" "k < length (tb_rows tb)" "distinct (tb_rows tb)"
  shows "on_row tb k (a\<lparr>recordListPos := int q\<rparr>)"
proof -
  define d where "d = recordListDirection a"
  define n where "n = length (tb_rows tb)"
  define j where "j = towards d n i"
  have w: "window tb j a" and anc: "anchored tb j a"
    using row by (simp_all add: on_row_def d_def j_def n_def Let_def)
  obtain p s where ps: "recordListPos a = int p" "recordListSize a = int s" "p < s" "s \<le> RECORD_LIST_SIZE" "p \<le> j"
    "j - p + s \<le> n" "length (recordList a) = RECORD_LIST_SIZE" "length (deletedList a) = RECORD_LIST_SIZE"
    by (rule window_bounds [OF w, folded n_def])
  have qs: "q < s" using q ps(2) by simp
  have "along d (tb_rows tb) ! (j - p + q) = tb_rows tb ! k"
    using window_nth [OF w ps(1) q] r(1) by (simp add: d_def)
  also have "\<dots> = along d (tb_rows tb) ! towards d n k"
    using along_towards [OF r(2), of d] by (simp add: n_def)
  finally have jk: "towards d n k = j - p + q"
    using nth_eq_iff_index_eq [of "along d (tb_rows tb)" "j - p + q" "towards d n k"] r(3) qs ps(6)
      towards_less [of k n d] r(2) by (simp add: n_def)
  let ?b = "a\<lparr>recordListPos := int q\<rparr>"
  have tk: "take s (recordList a) = take s (drop (j - p) (along d (tb_rows tb)))"
    using w ps(1,2) by (auto simp: window_def d_def)
  have "window tb (j - p + q) ?b"
    using ps qs tk unfolding window_def
    by (intro conjI exI [of _ q] exI [of _ s]) (simp_all add: d_def n_def)
  moreover have "anchored tb (j - p + q) ?b"
  proof -
    have "int q = int (j - p + q) \<longleftrightarrow> recordListPos a = int j"
      using ps by auto
    moreover have "end_of x ?b = end_of x a" for x
      by (rule end_of_cong) simp_all
    ultimately show ?thesis
      using anc by (simp add: anchored_def Let_def)
  qed
  ultimately show ?thesis
    using r(2) jk by (simp add: on_row_def d_def [symmetric] n_def [symmetric])
qed

text \<open>What has become of the area when it stands on the \<open>i\<close>-th record.\<close>

definition arrived :: "'w exenv \<Rightarrow> served \<Rightarrow> (string \<Rightarrow> bytes) \<Rightarrow> bytes \<Rightarrow> nat \<Rightarrow> 'w exarea \<Rightarrow> bool" where
  "arrived env tb texts page i b \<longleftrightarrow>
     scanning env tb texts page b \<and> on_row tb i b \<and> aBuffer b = tb_record tb (tb_rows tb ! i) \<and>
     \<not> fEof b \<and> \<not> fBof b"

text \<open>What is not touched by going to a record.\<close>

definition same_table :: "'w exarea \<Rightarrow> 'w exarea \<Rightarrow> bool" where
  "same_table a b \<longleftrightarrow>
     world b = world a \<and> sRecnoName b = sRecnoName a \<and> sTable b = sTable a \<and> nSystemID b = nSystemID a \<and>
     IndexBindings b = IndexBindings a \<and> bOrderChanged b = bOrderChanged a \<and> ulhRecno b = ulhRecno a \<and>
     lCurrentRecord b = lCurrentRecord a"

lemma arrived_read:
  assumes sc: "scanning env tb texts page (read_result (tb_rows tb ! i) tb pool ns a)" and "on_row tb i a"
    and b: "b = (read_result (tb_rows tb ! i) tb pool ns a)\<lparr>fEof := False, fBof := False\<rparr>"
  shows "arrived env tb texts page i b"
proof -
  have "scanning env tb texts page b"
    unfolding b by (rule scanning_idle [OF sc]) (simp_all add: kept_def)
  moreover have "on_row tb i b"
    by (rule on_row_cong [OF assms(2)]) (simp_all add: b read_result_def)
  ultimately show ?thesis
    by (simp add: arrived_def b read_result_def)
qed

text \<open>What the movements to a place do first.\<close>

definition ready :: "'w exarea \<Rightarrow> 'w exarea" where
  "ready a = leave_pos (clear_mask a)"

lemma ready_sel [simp]:
  "recordList (ready a) = recordList a" "deletedList (ready a) = deletedList a"
  "recordListPos (ready a) = recordListPos a" "recordListSize (ready a) = recordListSize a"
  "recordListDirection (ready a) = recordListDirection a" "lEofAt (ready a) = lEofAt a" "lBofAt (ready a) = lBofAt a"
  by (simp_all add: ready_def leave_pos_def clear_mask_def)

lemma leave_clear: "leave_pos (clear_mask (leave_pos a)) = ready a" "clear_mask (leave_pos a) = ready a"
  by (simp_all add: ready_def leave_pos_def clear_mask_def)

lemma scanning_ready:
  assumes "scanning env tb texts page (leave_pos a)"
  shows "scanning env tb texts page (ready a)"
  by (rule scanning_idle [OF assms]) (simp_all add: ready_def kept_def leave_pos_def clear_mask_def)

lemma goto_unfold:
  assumes sc: "scanning env tb texts page (leave_pos a)" and r: "r \<noteq> 0"
  shows "sqlExGoTo (ex_table env (Suc m)) env r a = do {
     (here, a3) \<leftarrow> goto_in_list env r (nat (recordListSize a)) 0 (ready a);
     if here then Some (HB_SUCCESS, a3\<lparr>fEof := False, fBof := False\<rparr>)
     else do {
       rl \<leftarrow> wr_at (recordList a3) 0 r;
       (e, a4) \<leftarrow> updateRecordBuffer env True
         (a3\<lparr>recordList := rl, recordListSize := 1, recordListDirection := SR_LIST_FORWARD, recordListPos := 0\<rparr>);
       Some (HB_SUCCESS, if e = HB_SUCCESS then a4\<lparr>fEof := False, fBof := False\<rparr>
                         else (x_cleanBuffer a4)\<lparr>fBof := True\<rparr>)
     } }"
proof -
  have "\<not> bufferHot a"
    using scanning_facts(12) [OF sc] by (simp add: leave_pos_def)
  then have "ex_goCold (ex_table env (Suc m)) a = Some (HB_SUCCESS, clear_mask a)"
    by (simp add: sqlExTable_def sqlExGoCold_def)
  then show ?thesis
    using r by (simp add: sqlExGoTo_def ready_def [symmetric] Let_def del: ex_table.simps)
qed

lemma first_position:
  assumes "r \<in> set (take s xs)"
  obtains q where "q < s" "q < length xs" "xs ! q = r" "\<forall>p < q. xs ! p \<noteq> r"
proof -
  have ex: "\<exists>q. q < s \<and> q < length xs \<and> xs ! q = r"
    using assms by (auto simp: in_set_conv_nth)
  define q where "q = (LEAST q. q < s \<and> q < length xs \<and> xs ! q = r)"
  have "q < s \<and> q < length xs \<and> xs ! q = r"
    unfolding q_def by (rule LeastI_ex [OF ex])
  moreover have "xs ! p \<noteq> r" if "p < q" for p
  proof
    assume "xs ! p = r"
    then have "q \<le> p"
      unfolding q_def using that calculation by (intro Least_le) (simp add: q_def [symmetric])
    with that show False by simp
  qed
  ultimately show ?thesis using that by blast
qed

text \<open>The list of a single record.\<close>

definition single :: "int \<Rightarrow> 'w exarea \<Rightarrow> 'w exarea" where
  "single r a =
     a\<lparr>recordList := (recordList a)[0 := r], recordListSize := 1, recordListDirection := SR_LIST_FORWARD,
       recordListPos := 0\<rparr>"

lemma scanning_single:
  assumes "scanning env tb texts page a"
  shows "scanning env tb texts page (single r a)"
  by (rule scanning_idle [OF assms]) (simp_all add: kept_def single_def)

lemma single_on_row:
  assumes "length (recordList a) = RECORD_LIST_SIZE" "length (deletedList a) = RECORD_LIST_SIZE"
    "i < length (tb_rows tb)"
  shows "on_row tb i (single (tb_rows tb ! i) a)"
proof -
  have "take 1 ((recordList a)[0 := tb_rows tb ! i]) = take 1 (drop i (tb_rows tb))"
    using assms by (cases "recordList a") (simp_all add: Cons_nth_drop_Suc [symmetric])
  then have "window tb i (single (tb_rows tb ! i) a)"
    using assms unfolding window_def
    by (intro conjI exI [of _ 0] exI [of _ 1]) (simp_all add: single_def)
  then show ?thesis
    using assms(3) by (simp add: on_row_def towards_def anchored_def single_def)
qed

lemma placed_in_list:
  assumes pl: "placed tb a" and r: "r \<in> set (tb_rows tb)" and s: "recordListSize a = int s"
    and i: "r \<in> set (take s (recordList a))"
  shows "\<exists>i. on_row tb i a"
proof (rule ccontr)
  assume "\<not> ?thesis"
  then have "s = 0 \<or> s = 1 \<and> recordList a ! 0 \<notin> set (tb_rows tb)"
    using pl s by (auto simp: placed_def)
  moreover have "recordList a \<noteq> []" using i by auto
  ultimately show False
    using i r by (cases "recordList a") auto
qed

lemma goto_natural:
  assumes sc: "scanning env tb texts page (leave_pos a)" and pl: "placed tb a" and i: "i < length (tb_rows tb)"
  shows "\<exists>b. sqlExGoTo (ex_table env (Suc m)) env (tb_rows tb ! i) a = Some (HB_SUCCESS, b) \<and>
    arrived env tb texts page i b \<and> same_table a b"
proof -
  define r where "r = tb_rows tb ! i"
  define a2 where "a2 = ready a"
  have sc2: "scanning env tb texts page a2"
    unfolding a2_def by (rule scanning_ready [OF sc])
  have r: "r \<in> set (tb_rows tb)" "r \<noteq> 0"
    using i scanning_facts(8) [OF sc] by (auto simp: r_def dest: nth_mem)
  have pl2: "placed tb a2"
    by (rule placed_cong [OF pl]) (simp_all add: a2_def)
  obtain s where s: "recordListSize a = int s" "s \<le> RECORD_LIST_SIZE" "length (recordList a) = RECORD_LIST_SIZE"
    "length (deletedList a) = RECORD_LIST_SIZE"
  proof -
    have "\<exists>s. recordListSize a = int s \<and> s \<le> RECORD_LIST_SIZE"
      using pl by (auto simp: placed_def on_row_def window_def Let_def intro: exI [of _ 0] exI [of _ 1])
    then show ?thesis using that pl by (auto simp: placed_def)
  qed
  note u = goto_unfold [OF sc r(2), of m, folded a2_def]
  show ?thesis
  proof (cases "r \<in> set (take s (recordList a))")
    case True
    obtain k where row: "on_row tb k a2"
      using placed_in_list [OF pl2 r(1), of s] True s by (auto simp: a2_def)
    obtain q where q: "q < s" "q < length (recordList a)" "recordList a ! q = r" "\<forall>p < q. recordList a ! p \<noteq> r"
      by (rule first_position [OF True])
    define c where "c = a2\<lparr>recordListPos := int q\<rparr>"
    have c: "on_row tb i c"
      unfolding c_def by (rule on_row_at [OF row])
        (use q s i scanning_facts(7) [OF sc] in \<open>simp_all add: r_def a2_def\<close>)
    have scc: "scanning env tb texts page c"
      unfolding c_def by (rule scanning_moved_pos [OF sc2])
    obtain pool ns where rd: "updateRecordBuffer env False c = Some (HB_SUCCESS, read_result r tb pool ns c)"
      "reading env tb page (read_result r tb pool ns c)"
      using read_natural [OF scanning_facts(4,5) [OF scc], of r False] q s r by (auto simp: c_def a2_def)
    define b where "b = (read_result r tb pool ns c)\<lparr>fEof := False, fBof := False\<rparr>"
    have "goto_in_list env r (nat (recordListSize a)) 0 a2 = Some (True, read_result r tb pool ns c)"
      by (rule goto_list_hit [where s = s and q = q]) (use s q rd(1) in \<open>simp_all add: a2_def c_def\<close>)
    then have "sqlExGoTo (ex_table env (Suc m)) env r a = Some (HB_SUCCESS, b)"
      by (simp add: u b_def del: ex_table.simps)
    moreover have "arrived env tb texts page i b"
      by (rule arrived_read [OF _ c, of env texts page pool ns])
         (use scanning_read [OF scc rd(2)] in \<open>simp_all add: b_def r_def\<close>)
    moreover have "same_table a b"
      by (simp add: same_table_def b_def read_result_def c_def single_def a2_def ready_def leave_pos_def clear_mask_def)
    ultimately show ?thesis by (auto simp: r_def)
  next
    case False
    define c where "c = single r a2"
    have c: "on_row tb i c"
      unfolding c_def r_def by (rule single_on_row) (use s i in \<open>simp_all add: a2_def\<close>)
    have scc: "scanning env tb texts page c"
      unfolding c_def by (rule scanning_single [OF sc2])
    have c0: "recordListPos c = 0" "recordListSize c = 1" "recordList c ! 0 = r" "length (recordList c) = RECORD_LIST_SIZE"
      using s by (simp_all add: c_def single_def a2_def)
    obtain pool ns where rd: "updateRecordBuffer env True c = Some (HB_SUCCESS, read_result r tb pool ns c)"
      "reading env tb page (read_result r tb pool ns c)"
      using read_natural [OF scanning_facts(4,5) [OF scc], of r True] c0 r by auto
    define b where "b = (read_result r tb pool ns c)\<lparr>fEof := False, fBof := False\<rparr>"
    have "goto_in_list env r (nat (recordListSize a)) 0 a2 = Some (False, a2)"
    proof (rule goto_list_miss [where s = s])
      show "\<forall>q. 0 \<le> q \<and> q < s \<longrightarrow> recordList a2 ! q \<noteq> r"
        using False s by (auto simp: in_set_conv_nth a2_def)
    qed (use s in \<open>simp_all add: a2_def\<close>)
    moreover have "recordList a \<noteq> []"
      using s(3) by auto
    ultimately have "sqlExGoTo (ex_table env (Suc m)) env r a = Some (HB_SUCCESS, b)"
      using s rd(1) unfolding u c_def single_def
      by (simp add: wr_at_def b_def c_def single_def a2_def)
    moreover have "arrived env tb texts page i b"
      by (rule arrived_read [OF _ c, of env texts page pool ns])
         (use scanning_read [OF scc rd(2)] in \<open>simp_all add: b_def r_def\<close>)
    moreover have "same_table a b"
      by (simp add: same_table_def b_def read_result_def c_def single_def a2_def ready_def leave_pos_def clear_mask_def)
    ultimately show ?thesis by (auto simp: r_def)
  qed
qed

lemma on_row_list:
  assumes "on_row tb i a"
  shows "set (take (nat (recordListSize a)) (recordList a)) \<subseteq> set (tb_rows tb)"
proof -
  obtain j where w: "window tb j a"
    using assms by (auto simp: on_row_def Let_def)
  then obtain p s where t: "recordListSize a = int s"
    "take s (recordList a) = take s (drop (j - p) (along (recordListDirection a) (tb_rows tb)))"
    by (auto simp: window_def)
  have "set (take s (drop (j - p) (along (recordListDirection a) (tb_rows tb)))) \<subseteq>
      set (along (recordListDirection a) (tb_rows tb))"
    by (meson order_trans set_drop_subset set_take_subset)
  then show ?thesis
    using t by simp
qed

lemma scanning_leave:
  assumes "scanning env tb texts page a"
  shows "scanning env tb texts page (leave_pos a)"
  by (rule scanning_idle [OF assms])
     (use scanning_facts(18,19) [OF assms] in \<open>simp_all add: kept_def leave_pos_def\<close>)

text \<open>A number that is not in the list is looked for on the server; nothing found is the end of the table.\<close>

lemma goto_missing:
  assumes sc: "scanning env tb texts page (leave_pos a)" and pl: "placed tb a"
    and r: "r \<noteq> 0" "r \<notin> set (tb_rows tb)" and nl: "r \<notin> set (take (nat (recordListSize a)) (recordList a))"
  shows "\<exists>b. sqlExGoTo (ex_table env (Suc m)) env r a = Some (HB_SUCCESS, b) \<and>
    scanning env tb texts page b \<and> placed tb b \<and> fEof b \<and> fBof b"
proof -
  define a2 where "a2 = ready a"
  have sc2: "scanning env tb texts page a2"
    unfolding a2_def by (rule scanning_ready [OF sc])
  obtain s where s: "recordListSize a = int s" "s \<le> RECORD_LIST_SIZE" "length (recordList a) = RECORD_LIST_SIZE"
    "length (deletedList a) = RECORD_LIST_SIZE"
  proof -
    have "\<exists>s. recordListSize a = int s \<and> s \<le> RECORD_LIST_SIZE"
      using pl by (auto simp: placed_def on_row_def window_def Let_def intro: exI [of _ 0] exI [of _ 1])
    then show ?thesis using that pl by (auto simp: placed_def)
  qed
  have ne: "recordList a \<noteq> []"
    using s(3) by auto
  define c where "c = single r a2"
  have scc: "scanning env tb texts page c"
    unfolding c_def by (rule scanning_single [OF sc2])
  have c0: "recordListPos c = 0" "recordListSize c = 1" "recordList c \<noteq> []" "recordList c ! 0 = r"
    "length (recordList c) = RECORD_LIST_SIZE" "length (deletedList c) = RECORD_LIST_SIZE"
    using s ne by (simp_all add: c_def single_def a2_def)
  obtain p1 ns where rd: "updateRecordBuffer env True c =
      Some (HB_FAILURE, c\<lparr>hBufferPool := p1, lRecordToRetrieve := ns\<rparr>)"
    "p1 \<in> {[], hBufferPool c}" "length ns = s_pageReadSize env"
    using read_missing [OF scanning_facts(4,5) [OF scc] c0(1-4) r(2)] by blast
  define d where "d = c\<lparr>hBufferPool := p1, lRecordToRetrieve := ns\<rparr>"
  have "reading env tb page (read_result r tb p1 ns c)"
    by (rule reading_result) (use scanning_facts(5) [OF scc] rd(2,3) in \<open>auto simp: reading_def\<close>)
  then have scr: "scanning env tb texts page (read_result r tb p1 ns c)"
    by (rule scanning_read [OF scc])
  have "length (tb_record tb r) = length (aBuffer c)"
    using scanning_facts(5) [OF scc] by (simp add: reading_def)
  then have scd: "scanning env tb texts page d"
    by (intro scanning_idle [OF scr]) (simp_all add: kept_def d_def read_result_def)
  define b where "b = (x_cleanBuffer d)\<lparr>fBof := True\<rparr>"
  have "goto_in_list env r (nat (recordListSize a)) 0 a2 = Some (False, a2)"
  proof (rule goto_list_miss [where s = s])
    show "\<forall>q. 0 \<le> q \<and> q < s \<longrightarrow> recordList a2 ! q \<noteq> r"
      using nl s by (auto simp: in_set_conv_nth a2_def)
  qed (use s in \<open>simp_all add: a2_def\<close>)
  then have "sqlExGoTo (ex_table env (Suc m)) env r a = Some (HB_SUCCESS, b)"
    using s ne rd(1) unfolding goto_unfold [OF sc r(1), of m, folded a2_def] c_def single_def
    by (simp add: wr_at_def b_def c_def single_def a2_def d_def)
  moreover have "scanning env tb texts page b"
    unfolding b_def by (rule scanning_idle [OF scanning_clean [OF scd]]) (simp_all add: kept_def)
  moreover have "placed tb b"
    using c0 r(2) by (simp add: placed_def b_def d_def)
  moreover have "fEof b" "fBof b"
    by (simp_all add: b_def)
  ultimately show ?thesis by blast
qed

section \<open>The first records from an end\<close>

text \<open>Restrictions where there is no condition yet.\<close>

definition wheres :: "bytes list \<Rightarrow> bytes" where
  "wheres fs =
     (case filter (\<lambda>f. f \<noteq> []) fs of
        [] \<Rightarrow> []
      | f # gs \<Rightarrow> LF # ''WHERE ( '' @ f @ '' )'' @ conjoined gs)"

lemma wheres_more:
  "wheres (fs @ [f]) =
     (if f = [] then wheres fs
      else if filter (\<lambda>f. f \<noteq> []) fs = [] then LF # ''WHERE ( '' @ f @ '' )''
      else wheres fs @ '' AND ( '' @ f @ '' )'')"
  by (simp add: wheres_def conjoined_def split: list.splits)

lemma conjoined_append: "conjoined (xs @ ys) = conjoined xs @ conjoined ys"
  by (simp add: conjoined_def)

lemma wheres_short: "length (wheres fs) \<le> length (conjoined fs) + 3"
proof (cases "filter (\<lambda>f. f \<noteq> []) fs")
  case (Cons f gs)
  have "conjoined fs = conjoined (f # gs)"
    by (simp add: conjoined_def Cons [symmetric])
  moreover have "f \<in> set (filter (\<lambda>f. f \<noteq> []) fs)"
    by (simp only: Cons) simp
  then have "f \<noteq> []" by simp
  ultimately show ?thesis
    using conjoined_Cons [of f gs] by (simp add: wheres_def Cons) (simp add: conjoined_def)
qed (simp add: wheres_def)

lemma restrict_next:
  assumes "sWhere a = wheres fs" "length (wheres (fs @ [f])) < WHERE_SIZE"
  shows "restrict f (filter (\<lambda>f. f \<noteq> []) fs \<noteq> []) a =
    Some (filter (\<lambda>f. f \<noteq> []) (fs @ [f]) \<noteq> [], a\<lparr>sWhere := wheres (fs @ [f])\<rparr>)"
  using assms by (simp add: restrict_def wheres_more into_def split: if_splits)

lemma filters_first:
  assumes ans: "answers env texts" and ord: "hOrdCurrent a = 0" and w: "sWhere a = []"
    and len: "length (restriction_text texts) \<le> 3000"
  shows "SR_SolveFilters env False a = Some (a\<lparr>sWhere := wheres (map texts restriction_messages)\<rparr>)"
proof -
  let ?fs = "map texts restriction_messages"
  have m: "m \<in> set restriction_messages \<Longrightarrow> getMessageC env m b = Some (texts m, b)" for m b
    by (rule getMessageC_answers [OF ans])
  have short: "length (wheres (take n ?fs)) < WHERE_SIZE" for n
  proof -
    have "conjoined ?fs = conjoined (take n ?fs) @ conjoined (drop n ?fs)"
      unfolding conjoined_append [symmetric] by simp
    then have "length (conjoined (take n ?fs)) \<le> length (restriction_text texts)"
      by (simp add: restriction_text_def)
    then show ?thesis
      using wheres_short [of "take n ?fs"] len by simp
  qed
  have r: "restrict (texts m) (filter (\<lambda>f. f \<noteq> []) (map texts ms) \<noteq> []) b =
      Some (filter (\<lambda>f. f \<noteq> []) (map texts (ms @ [m])) \<noteq> [], b\<lparr>sWhere := wheres (map texts (ms @ [m]))\<rparr>)"
    if "sWhere b = wheres (map texts ms)" "ms @ [m] = take n restriction_messages" for m ms n b
  proof -
    have t: "take n (map texts restriction_messages) = map texts ms @ [texts m]"
      by (simp add: take_map that(2) [symmetric])
    show ?thesis
      using restrict_next [OF that(1), of "texts m"] short [of n] unfolding t
      by (simp only: map_append list.map)
  qed
  define ms1 where "ms1 = [''CFOR'']"
  define ms2 where "ms2 = [''CFOR'', ''CFILTER'']"
  define ms3 where "ms3 = [''CFOR'', ''CFILTER'', ''CSCOPE'']"
  define nb where "nb = (\<lambda>ms. filter (\<lambda>f. f \<noteq> []) (map texts ms) \<noteq> [])"
  define aw where "aw = (\<lambda>ms. a\<lparr>sWhere := wheres (map texts ms)\<rparr>)"
  have b: "restrict (texts ''CFOR'') False a = Some (nb ms1, aw ms1)"
    using r [of a "[]" "''CFOR''" 1] w
    by (simp add: ms1_def nb_def aw_def wheres_def restriction_messages_def)
  have c: "restrict (texts ''CFILTER'') (nb ms1) (aw ms1) = Some (nb ms2, aw ms2)"
    using r [of "aw ms1" ms1 "''CFILTER''" 2] unfolding nb_def
    by (simp add: ms1_def ms2_def aw_def restriction_messages_def)
  have d: "restrict (texts ''CSCOPE'') (nb ms2) (aw ms2) = Some (nb ms3, aw ms3)"
    using r [of "aw ms2" ms2 "''CSCOPE''" 3] unfolding nb_def
    by (simp add: ms2_def ms3_def aw_def restriction_messages_def)
  have e: "restrict (texts ''CFLTUSR'') (nb ms3) (aw ms3) = Some (nb restriction_messages, aw restriction_messages)"
    using r [of "aw ms3" ms3 "''CFLTUSR''" 4] unfolding nb_def
    by (simp add: ms3_def aw_def restriction_messages_def)
  have o: "hOrdCurrent (aw ms) = 0" for ms
    using ord by (simp add: aw_def)
  have "m \<in> {''CFOR'', ''CFILTER'', ''CSCOPE'', ''CFLTUSR''} \<Longrightarrow> getMessageC env m b = Some (texts m, b)" for m b
    using m [of m b] by (simp add: restriction_messages_def)
  then show ?thesis
    by (simp add: SR_SolveFilters_def b c d e o) (simp add: aw_def)
qed

text \<open>The statement for the first records from the end that a direction leads away from.\<close>

definition end_limits :: "int \<Rightarrow> bytes \<times> bytes" where
  "end_limits sys = limit_formats sys (int_text 26)"

definition end_text :: "(string \<Rightarrow> bytes) \<Rightarrow> 'w exarea \<Rightarrow> direction \<Rightarrow> bytes" where
  "end_text texts a d =
     (let q = the (quoted a (sRecnoName a)); l = end_limits (nSystemID a) in
      ''SELECT '' @ fst l @ '' '' @ (''A.'' @ q) @ '' FROM '' @ sTable a @ '' A '' @
      wheres (map texts restriction_messages) @ '' '' @ order_text q d @ '' '' @ snd l)"

definition serves_ends :: "'w exenv \<Rightarrow> 'w \<Rightarrow> served \<Rightarrow> (direction \<Rightarrow> bytes) \<Rightarrow> bool" where
  "serves_ends env w tb ends \<longleftrightarrow>
     (\<forall>d. \<exists>lim \<ge> 25. execute env (ends d) [] w =
        ok_rows w (map (\<lambda>x. [INum x]) (take lim (along d (tb_rows tb)))))"

fun end_type :: "direction \<Rightarrow> listtype" where
  "end_type SR_LIST_FORWARD = SR_LIST_FROM_TOP"
| "end_type SR_LIST_BACKWARD = SR_LIST_FROM_BOTTOM"

definition end_list :: "served \<Rightarrow> direction \<Rightarrow> 'w exarea \<Rightarrow> 'w exarea" where
  "end_list tb d a =
     (let rows = along d (tb_rows tb) in
      if rows = [] then a
      else with_list (take TOP_LIST_SIZE rows) (if length rows < TOP_LIST_SIZE then set_end (last rows) a else a))"

lemma limit_26_short: "length (fst (end_limits sys)) < 50" "length (snd (end_limits sys)) < 50"
  by (simp_all add: end_limits_def limit_formats_def int_text_def nat_text.simps)

lemma set_limit_26:
  "SR_setResultSetLimit 25 a =
     Some (a\<lparr>sLimit1 := fst (end_limits (nSystemID a)), sLimit2 := snd (end_limits (nSystemID a))\<rparr>)"
  using limit_26_short [of "nSystemID a"]
  by (simp add: SR_setResultSetLimit_def end_limits_def case_prod_beta Let_def)

lemma top_query:
  assumes nat: "natural_area env texts a"
    and w: "sWhere a = wheres (map texts restriction_messages)"
    and o: "sOrderBy a = order_text (the (quoted a (sRecnoName a))) d"
    and l: "sLimit1 a = fst (end_limits (nSystemID a))" "sLimit2 a = snd (end_limits (nSystemID a))"
  shows "createRecodListQuery a = Some (a\<lparr>sSql := end_text texts a d\<rparr>)"
proof -
  obtain q where q: "quoted a (sRecnoName a) = Some q" "length q \<le> 100"
    using nat by (auto simp: natural_area_def)
  have "length (wheres (map texts restriction_messages)) \<le> 3003"
    using wheres_short [of "map texts restriction_messages"] nat
    by (simp add: natural_area_def restriction_text_def)
  then have "length (end_text texts a d) < MAX_SQL_QUERY_LEN"
    using nat q limit_26_short [of "nSystemID a"]
    by (cases d) (simp_all add: end_text_def order_text_def natural_area_def Let_def)
  then have "into MAX_SQL_QUERY_LEN (end_text texts a d) = Some (end_text texts a d)"
    by (simp only: into_fits)
  moreover have "end_text texts a d =
      ''SELECT '' @ sLimit1 a @ '' '' @ (''A.'' @ q) @ '' FROM '' @ sTable a @ '' A '' @ sWhere a @ '' '' @
      sOrderBy a @ '' '' @ sLimit2 a"
    using q w o l by (simp add: end_text_def Let_def)
  ultimately show ?thesis
    using nat q by (simp add: createRecodListQuery_def natural_area_def)
qed

lemma end_rows:
  assumes sv: "serves_ends env (world a) tb ends" "\<And>r. get_long env (INum r) = (SQL_SUCCESS, r)"
    and acc: "accepts env (world a)" and del: "ulhDeleted a = 0" and sql: "sSql a = ends d"
    and d: "recordListDirection a = d"
    and len: "length (recordList a) = RECORD_LIST_SIZE" "length (deletedList a) = RECORD_LIST_SIZE"
  shows "getRecordList env TOP_LIST_SIZE a =
    Some (if tb_rows tb = [] then HB_SUCCESS else RESULTSET_OK, end_list tb d a)"
proof -
  define rows where "rows = along d (tb_rows tb)"
  obtain lim where lim: "25 \<le> lim" "execute env (ends d) [] (world a) =
      ok_rows (world a) (map (\<lambda>x. [INum x]) (take lim rows))"
    using sv(1) by (auto simp: serves_ends_def rows_def)
  have fl: "fetch_list env direct_end 25 0 (map (Pair SQL_SUCCESS) (map (\<lambda>x. [INum x]) (take lim rows))) a =
    (if 25 \<le> length (take lim rows) then Some (Some 25, with_run 0 (take 25 (take lim rows)) a)
     else do { a1 \<leftarrow> direct_end (length (take lim rows)) SQL_NO_DATA (with_run 0 (take lim rows) a);
               Some (Some (length (take lim rows)), a1) })"
    using fetch_list_rows [of env a 0 25 direct_end "take lim rows"] sv(2) del len by simp
  have "getRecordList env TOP_LIST_SIZE a =
      map_option list_filled (fetch_list env direct_end 25 0 (map (Pair SQL_SUCCESS) (map (\<lambda>x. [INum x]) (take lim rows))) a)"
    using acc lim(2) by (simp add: getRecordList_def accepts_def SQLExecDirect_def sql ok_rows_def)
  also have "\<dots> = Some (if rows = [] then HB_SUCCESS else RESULTSET_OK, end_list tb d a)"
  proof (cases "length rows < 25")
    case True
    then have t: "take lim rows = rows" using lim by simp
    show ?thesis
    proof (cases "rows = []")
      case True
      then show ?thesis
        unfolding fl by (simp add: direct_end_def list_filled_def with_run_def end_list_def rows_def)
    next
      case False
      have k: "int (length rows) - 1 = int (length rows - 1)"
        using False by (cases rows) simp_all
      have ne: "tb_rows tb \<noteq> []"
        using False by (cases d) (simp_all add: rows_def)
      have "put_run 0 rows (recordList a) ! (length rows - 1) = last rows"
        using False by (simp add: put_run_def nth_append last_conv_nth)
      moreover have "length rows - 1 < length (put_run 0 rows (recordList a))"
        using False True len by (simp add: put_run_def)
      ultimately have "rd_at (put_run 0 rows (recordList a)) (int (length rows) - 1) = Some (last rows)"
        unfolding k rd_at_of_nat by simp
      then have e: "end_known (int (length rows) - 1) (with_run 0 rows a) = Some (set_end (last rows) (with_run 0 rows a))"
        by (simp add: end_known_def with_run_def set_end_def)
      have "direct_end (length rows) SQL_NO_DATA (with_run 0 rows a) = Some (set_end (last rows) (with_run 0 rows a))"
        using False unfolding direct_end_def e by simp
      then show ?thesis
        unfolding fl unfolding t using True False ne
        by (simp add: with_run_def with_list_def end_list_def set_end_def list_filled_def rows_def Let_def)
    qed
  next
    case False
    then have "take 25 (take lim rows) = take 25 rows" "25 \<le> length (take lim rows)" "rows \<noteq> []"
      using lim by (auto simp: min_def)
    then show ?thesis
      unfolding fl using False by (simp add: with_list_def end_list_def list_filled_def rows_def Let_def)
  qed
  also have "rows = [] \<longleftrightarrow> tb_rows tb = []"
    by (cases d) (simp_all add: rows_def)
  finally show ?thesis .
qed

text \<open>The area in which the query for an end is made.\<close>

lemma from_end:
  assumes sc: "scanning env tb texts page a" and sv: "serves_ends env (world a) tb (end_text texts a)"
    and len: "length (recordList a) = RECORD_LIST_SIZE" "length (deletedList a) = RECORD_LIST_SIZE"
  obtains b w o1 l1 l2 s where "list_from_end env (end_type d) a = Some (HB_SUCCESS, end_list tb d b)"
    "b = a\<lparr>recordListDirection := d, sOrderBy := o1, sWhere := w, indexLevel := - 1,
      bConditionChanged1 := False, sLimit1 := l1, sLimit2 := l2, sSql := s\<rparr>"
proof -
  note F = scanning_facts [OF sc]
  define q where "q = the (quoted a (sRecnoName a))"
  define a1 where "a1 = a\<lparr>recordListDirection := d, sOrderBy := order_text q d\<rparr>"
  define a2 where "a2 = a1\<lparr>indexLevel := - 1, bConditionChanged1 := False, sWhere := wheres (map texts restriction_messages)\<rparr>"
  define a3 where "a3 = a2\<lparr>sLimit1 := fst (end_limits (nSystemID a)), sLimit2 := snd (end_limits (nSystemID a))\<rparr>"
  define b where "b = a3\<lparr>sSql := end_text texts a d\<rparr>"
  have d: "(if end_type d = SR_LIST_FROM_TOP then SR_LIST_FORWARD else SR_LIST_BACKWARD) = d"
    by (cases d) simp_all
  have n0: "natural_area env texts (a\<lparr>recordListDirection := d\<rparr>)"
    by (rule natural_area_cong [OF F(1)]) simp_all
  have q0: "the (quoted (a\<lparr>recordListDirection := d\<rparr>) (sRecnoName (a\<lparr>recordListDirection := d\<rparr>))) = q"
    by (simp add: quoted_def q_def)
  have 1: "SR_getOrderByExpression False (a\<lparr>recordListDirection := d\<rparr>) = Some a1"
    using order_natural [OF n0, of d] unfolding q0 by (simp add: a1_def)
  have 2: "getWhereExpression env (end_type d) a1 = Some a2"
  proof -
    let ?c = "a1\<lparr>sWhere := [], bConditionChanged1 := False, indexLevel := - 1\<rparr>"
    have "SR_SolveFilters env False ?c = Some (?c\<lparr>sWhere := wheres (map texts restriction_messages)\<rparr>)"
      by (rule filters_first) (use F(1) in \<open>simp_all add: natural_area_def a1_def\<close>)
    moreover have "?c\<lparr>recordListDirection := d\<rparr> = ?c"
      by (simp add: a1_def)
    moreover have "getWhereExpression env (end_type d) a1 = SR_SolveFilters env False (?c\<lparr>recordListDirection := d\<rparr>)"
      by (cases d) (simp_all add: getWhereExpression_def)
    ultimately show ?thesis
      by (simp add: a2_def)
  qed
  have 3: "SR_setResultSetLimit 25 a2 = Some a3"
    unfolding set_limit_26 by (simp add: a3_def a2_def a1_def)
  have n3: "natural_area env texts a3"
    by (rule natural_area_cong [OF F(1)]) (simp_all add: a3_def a2_def a1_def)
  have e3: "end_text texts a3 d = end_text texts a d"
    by (simp add: end_text_def quoted_def a3_def a2_def a1_def)
  have "quoted a3 (sRecnoName a3) = quoted a (sRecnoName a)"
    by (simp add: quoted_def a3_def a2_def a1_def)
  then have 4: "createRecodListQuery a3 = Some b"
    using top_query [OF n3, of d] unfolding e3 b_def
    by (simp add: a3_def a2_def a1_def q_def)
  have 5: "getRecordList env 25 b = Some (if tb_rows tb = [] then HB_SUCCESS else RESULTSET_OK, end_list tb d b)"
    by (rule end_rows [where ends = "end_text texts a"])
       (use F sv len in \<open>simp_all add: b_def a3_def a2_def a1_def serves_def\<close>)
  have "list_from_end env (end_type d) a = Some (HB_SUCCESS, end_list tb d b)"
    unfolding list_from_end_def d 1 Option.bind.bind_lunit 2 using 3 4 5 by simp
  moreover have "b = a\<lparr>recordListDirection := d, sOrderBy := order_text q d,
      sWhere := wheres (map texts restriction_messages), indexLevel := - 1, bConditionChanged1 := False,
      sLimit1 := fst (end_limits (nSystemID a)), sLimit2 := snd (end_limits (nSystemID a)),
      sSql := end_text texts a d\<rparr>"
    by (simp add: b_def a3_def a2_def a1_def)
  ultimately show ?thesis using that by blast
qed

section \<open>The ends of the table\<close>

text \<open>The end behind the first record in a direction becomes known.\<close>

definition set_known :: "direction \<Rightarrow> int \<Rightarrow> 'w exarea \<Rightarrow> 'w exarea" where
  "set_known d r a = (if d = SR_LIST_FORWARD then a\<lparr>lBofAt := r\<rparr> else a\<lparr>lEofAt := r\<rparr>)"

lemma set_known_sel [simp]:
  "recordList (set_known d r a) = recordList a" "deletedList (set_known d r a) = deletedList a"
  "recordListPos (set_known d r a) = recordListPos a" "recordListSize (set_known d r a) = recordListSize a"
  "recordListDirection (set_known d r a) = recordListDirection a"
  by (simp_all add: set_known_def)

definition first_row :: "direction \<Rightarrow> served \<Rightarrow> nat" where
  "first_row d tb = towards d (length (tb_rows tb)) 0"

lemma first_row_along:
  assumes "tb_rows tb \<noteq> []"
  shows "first_row d tb < length (tb_rows tb)" "along d (tb_rows tb) ! 0 = tb_rows tb ! first_row d tb"
    "last (along (other d) (tb_rows tb)) = tb_rows tb ! first_row d tb"
    "towards d (length (tb_rows tb)) (first_row d tb) = 0"
  using assms by (cases d; simp add: first_row_def towards_def rev_nth last_rev hd_conv_nth last_conv_nth)+

lemma end_of_known: "end_of x (set_known d r a) = (if x = other d then r else end_of x a)"
  by (cases x; cases d) (simp_all add: set_known_def)

text \<open>Where the area stands after going to an end in direction \<open>d\<close>: on a record, and, when the list that was
  read is full and the whole table, at least on one along the list.\<close>

definition lands :: "served \<Rightarrow> direction \<Rightarrow> nat \<Rightarrow> 'w exarea \<Rightarrow> bool" where
  "lands tb d i a \<longleftrightarrow> on_row tb i a \<or> length (tb_rows tb) = TOP_LIST_SIZE \<and> along_list tb d i a"

lemma lands_stands: "lands tb d i a \<Longrightarrow> stands tb d i a"
  by (auto simp: lands_def stands_def)

lemma lands_at_row: "lands tb d i a \<Longrightarrow> at_row tb i a"
  using on_row_at_row [of tb i a] by (auto simp: lands_def along_list_def)

lemma lands_cong:
  assumes "lands tb d i a" "recordList b = recordList a" "deletedList b = deletedList a"
    "recordListPos b = recordListPos a" "recordListSize b = recordListSize a"
    "recordListDirection b = recordListDirection a" "lEofAt b = lEofAt a" "lBofAt b = lBofAt a"
  shows "lands tb d i b"
  using assms(1) on_row_cong [OF _ assms(2-8)] along_list_cong [OF _ assms(2-6)] by (auto simp: lands_def)

definition landed ::
  "'w exenv \<Rightarrow> served \<Rightarrow> (string \<Rightarrow> bytes) \<Rightarrow> bytes \<Rightarrow> direction \<Rightarrow> nat \<Rightarrow> 'w exarea \<Rightarrow> bool" where
  "landed env tb texts page d i b \<longleftrightarrow>
     scanning env tb texts page b \<and> lands tb d i b \<and> aBuffer b = tb_record tb (tb_rows tb ! i) \<and>
     \<not> fEof b \<and> \<not> fBof b"

lemma landed_arrived:
  "landed env tb texts page d i b \<Longrightarrow> length (tb_rows tb) \<noteq> TOP_LIST_SIZE \<Longrightarrow> arrived env tb texts page i b"
  by (simp add: landed_def lands_def arrived_def)

lemma on_first_natural:
  assumes sc: "scanning env tb texts page c" and ne: "tb_rows tb \<noteq> []"
    and row: "lands tb d (first_row d tb) (set_known d (tb_rows tb ! first_row d tb) c)"
  shows "\<exists>b. on_first env (end_type d) c = Some (HB_SUCCESS, b) \<and> landed env tb texts page d (first_row d tb) b"
proof -
  define r where "r = tb_rows tb ! first_row d tb"
  define c1 where "c1 = (set_known d r c)\<lparr>fEof := False, fBof := False\<rparr>"
  have rm: "r \<in> set (tb_rows tb)"
    using first_row_along(1) [OF ne, of d] by (simp add: r_def)
  have "window tb (towards (recordListDirection c) (length (tb_rows tb)) (first_row d tb)) (set_known d r c)"
    using lands_at_row [OF row] by (simp add: at_row_def r_def)
  then obtain p s where ps: "recordListPos c = int p" "recordListSize c = int s" "p < s" "s \<le> RECORD_LIST_SIZE"
    "length (recordList c) = RECORD_LIST_SIZE"
    "recordList c ! p = along (recordListDirection c) (tb_rows tb) !
      towards (recordListDirection c) (length (tb_rows tb)) (first_row d tb)"
    by (rule window_bounds) simp
  then have cr: "recordList c ! p = r"
    using along_towards [OF first_row_along(1) [OF ne], of "recordListDirection c" d] by (simp add: r_def)
  have ends: "\<forall>x. end_of x c1 \<in> {0, last (along x (tb_rows tb))}"
  proof
    fix x
    have "end_of x c \<in> {0, last (along x (tb_rows tb))}"
      using sc by (simp add: scanning_def)
    moreover have "end_of x c1 = end_of x (set_known d r c)"
      by (rule end_of_cong) (simp_all add: c1_def)
    ultimately show "end_of x c1 \<in> {0, last (along x (tb_rows tb))}"
      using first_row_along(3) [OF ne, of d] by (simp add: end_of_known r_def)
  qed
  have sc1: "scanning env tb texts page c1"
    by (rule scanning_kept [OF sc _ _ ends])
       (use sc in \<open>simp_all add: scanning_def c1_def set_known_def kept_def\<close>)
  have row1: "lands tb d (first_row d tb) c1"
    by (rule lands_cong [OF row]) (simp_all add: c1_def r_def)
  have c1: "recordListPos c1 = int p" "recordListSize c1 = int s" "recordList c1 = recordList c"
    "fEof c1 = False" "fBof c1 = False"
    by (simp_all add: c1_def set_known_def ps)
  obtain pool ns where rd: "read_current env False c1 = Some (HB_SUCCESS, read_result r tb pool ns c1)"
    "scanning env tb texts page (read_result r tb pool ns c1)"
    by (rule read_current_natural [OF sc1, of r]) (use c1 ps cr rm in simp_all)
  define b where "b = read_result r tb pool ns c1"
  have "on_first env (end_type d) c = Some (HB_SUCCESS, b)"
    using ps cr rd(1) by (cases d) (simp_all add: on_first_def b_def c1_def set_known_def)
  moreover have "lands tb d (first_row d tb) b"
    by (rule lands_cong [OF row1]) (simp_all add: b_def read_result_def)
  then have "landed env tb texts page d (first_row d tb) b"
    using rd(2) by (simp add: landed_def b_def) (simp add: read_result_def r_def c1)
  ultimately show ?thesis by blast
qed

lemma on_row_known:
  assumes row: "on_row tb i a" and ne: "tb_rows tb \<noteq> []"
  shows "on_row tb i (set_known d (tb_rows tb ! first_row d tb) a)"
proof -
  define r where "r = tb_rows tb ! first_row d tb"
  have "last (along x (tb_rows tb)) = r" if "x = other d" for x
    using first_row_along(3) [OF ne, of d] that by (simp add: r_def)
  moreover have "along x (tb_rows tb) ! 0 = r" if "other x = other d" for x
    using first_row_along(2) [OF ne, of d] that by (cases x; cases d) (simp_all add: r_def)
  ultimately show ?thesis
    using row unfolding r_def [symmetric]
    by (simp add: on_row_def window_def anchored_def end_of_known Let_def)
qed

lemma end_list_lands:
  assumes ne: "tb_rows tb \<noteq> []" and d: "recordListDirection a = d"
    and len: "length (recordList a) = RECORD_LIST_SIZE" "length (deletedList a) = RECORD_LIST_SIZE"
  shows "lands tb d (first_row d tb) (set_known d (tb_rows tb ! first_row d tb) (end_list tb d a))"
proof -
  define rows where "rows = along d (tb_rows tb)"
  define b where "b = set_known d (tb_rows tb ! first_row d tb) (end_list tb d a)"
  define s where "s = min 25 (length rows)"
  have rows: "rows \<noteq> []" "length rows = length (tb_rows tb)"
    using ne by (cases d; simp add: rows_def)+
  have bl: "recordList b = put_run 0 (take s rows) (recordList a)"
    "deletedList b = put_run 0 (map (\<lambda>x. SPACE) (take s rows)) (deletedList a)" "recordListPos b = 0"
    "recordListSize b = int s" "recordListDirection b = d"
    using rows ne d
    by (auto simp: b_def end_list_def rows_def [symmetric] set_known_def with_list_def with_run_def set_end_def
        s_def min_def Let_def)
  have ls: "length (take s rows) = s" "0 < s" "s \<le> 25" "s \<le> length rows"
    using rows ne by (simp_all add: s_def)
  have "take s (recordList b) = take s rows"
    unfolding bl(1) using take_put_run [of "take s rows" "recordList a"] len ls by simp
  then have w: "window tb 0 b"
    using bl ls len rows unfolding window_def
    by (intro conjI exI [of _ 0] exI [of _ s]) (simp_all add: rows_def [symmetric])
  have e1: "end_of (other d) b = rows ! 0"
    using first_row_along(2) [OF ne, of d] by (simp add: b_def end_of_known rows_def)
  have e2: "end_of d b = last rows" if "s = length rows" "length rows \<noteq> 25"
  proof -
    have "length rows < 25" using that by (simp add: s_def)
    then have "end_list tb d a = with_list (take 25 rows) (set_end (last rows) a)"
      using rows(1) by (simp add: end_list_def rows_def [symmetric])
    then have "end_of d b = end_of d (set_end (last rows) a)"
      by (cases d) (simp_all add: b_def end_of_known with_list_def with_run_def)
    then show ?thesis using d by (cases d) (simp_all add: set_end_def)
  qed
  have on: "on_row tb (first_row d tb) b" if "length rows \<noteq> 25"
  proof -
    have "anchored tb 0 b"
      using e1 e2 that bl rows by (auto simp: anchored_def rows_def [symmetric] Let_def)
    with w show ?thesis
      using first_row_along(1,4) [OF ne, of d] bl(5) by (simp add: on_row_def)
  qed
  have "along_list tb d (first_row d tb) b"
    using w first_row_along(1,4) [OF ne, of d] bl(5) by (simp add: along_list_def at_row_def)
  then show ?thesis
    using on rows(2) unfolding lands_def b_def [symmetric] by (cases "length rows = 25") simp_all
qed

text \<open>The object behind the area is known and answers that the table is not a query.\<close>

definition connected :: "'w exenv \<Rightarrow> 'w exarea \<Rightarrow> bool" where
  "connected env a \<longleftrightarrow> oSql a \<noteq> None \<and> bConnVerified a \<and>
     (\<forall>b. \<exists>v. x_send env ''LTABLEISSELECT'' [] b = Some (v, b) \<and> \<not> hb_itemGetL v)"

text \<open>The area may go to an end of a table that is not empty: the statements that are kept are not older than
  the restrictions.\<close>

definition may_go :: "'w exenv \<Rightarrow> served \<Rightarrow> (string \<Rightarrow> bytes) \<Rightarrow> bytes \<Rightarrow> 'w exarea \<Rightarrow> bool" where
  "may_go env tb texts page a \<longleftrightarrow>
     scanning env tb texts page (leave_pos a) \<and> placed tb a \<and>
     serves_ends env (world a) tb (end_text texts a) \<and>
     slot_ok (restriction_text texts) (a\<lparr>bConditionChanged1 := False\<rparr>) \<and>
     tb_rows tb \<noteq> []"

lemma from_end_row:
  assumes sc: "scanning env tb texts page a" and sv: "serves_ends env (world a) tb (end_text texts a)"
    and len: "length (recordList a) = RECORD_LIST_SIZE" "length (deletedList a) = RECORD_LIST_SIZE"
    and slot: "slot_ok (restriction_text texts) (a\<lparr>bConditionChanged1 := False\<rparr>)"
    and ne: "tb_rows tb \<noteq> []"
  obtains c where "list_from_end env (end_type d) a = Some (HB_SUCCESS, c)" "scanning env tb texts page c"
    "lands tb d (first_row d tb) (set_known d (tb_rows tb ! first_row d tb) c)"
proof -
  obtain b w o1 l1 l2 s where le: "list_from_end env (end_type d) a = Some (HB_SUCCESS, end_list tb d b)"
    and b: "b = a\<lparr>recordListDirection := d, sOrderBy := o1, sWhere := w, indexLevel := - 1,
      bConditionChanged1 := False, sLimit1 := l1, sLimit2 := l2, sSql := s\<rparr>"
    by (rule from_end [OF sc sv len])
  have row: "lands tb d (first_row d tb) (set_known d (tb_rows tb ! first_row d tb) (end_list tb d b))"
    by (rule end_list_lands [OF ne]) (use len in \<open>simp_all add: b\<close>)
  have ends: "\<forall>x. end_of x (end_list tb d b) \<in> {0, last (along x (tb_rows tb))}"
  proof
    fix x
    have "end_of x a \<in> {0, last (along x (tb_rows tb))}"
      using sc by (simp add: scanning_def)
    then show "end_of x (end_list tb d b) \<in> {0, last (along x (tb_rows tb))}"
      by (cases x; cases d)
         (auto simp: end_list_def b with_list_def with_run_def set_end_def Let_def)
  qed
  have slot2: "slot_ok (restriction_text texts) (end_list tb d b)"
    by (rule slot_ok_cong [OF slot])
       (simp_all add: b end_list_def with_list_def with_run_def set_end_def Let_def)
  have "scanning env tb texts page (end_list tb d b)"
    by (rule scanning_cong_slot [OF sc])
       (use slot2 ends sc in \<open>simp_all add: scanning_def\<close>,
        simp_all add: b end_list_def with_list_def with_run_def set_end_def Let_def)
  with le row show ?thesis using that by blast
qed

lemma end_natural:
  assumes go: "may_go env tb texts page a"
  obtains c where "go_end (ex_table env (Suc (Suc m))) env (end_type d) (end_of (other d) a) (ready a) =
      Some (HB_SUCCESS, c)"
    "scanning env tb texts page c" "lands tb d (first_row d tb) (set_known d (tb_rows tb ! first_row d tb) c)"
proof -
  have sc: "scanning env tb texts page (leave_pos a)" and pl: "placed tb a" and ne: "tb_rows tb \<noteq> []"
    using go by (simp_all add: may_go_def)
  define k where "k = end_of (other d) a"
  define f where "f = first_row d tb"
  have f: "f < length (tb_rows tb)"
    using first_row_along(1) [OF ne] by (simp add: f_def)
  have scr: "scanning env tb texts page (ready a)"
    by (rule scanning_ready [OF sc])
  have plr: "placed tb (ready a)"
    by (rule placed_cong [OF pl]) simp_all
  have tops: "serves_ends env (world c) tb (end_text texts c)" "slot_ok (restriction_text texts) (c\<lparr>bConditionChanged1 := False\<rparr>)"
    if st: "same_table a c" for c
  proof -
    have "end_text texts c = end_text texts a"
      using st by (simp add: same_table_def end_text_def quoted_def fun_eq_iff)
    then show "serves_ends env (world c) tb (end_text texts c)"
      using go st by (simp add: may_go_def same_table_def)
    show "slot_ok (restriction_text texts) (c\<lparr>bConditionChanged1 := False\<rparr>)"
      by (rule slot_ok_cong [of _ "a\<lparr>bConditionChanged1 := False\<rparr>"]) (use go st in \<open>simp_all add: may_go_def same_table_def\<close>)
  qed
  show ?thesis
  proof (cases "k = 0")
    case True
    obtain c where c: "list_from_end env (end_type d) (ready a) = Some (HB_SUCCESS, c)" "scanning env tb texts page c"
      "lands tb d (first_row d tb) (set_known d (tb_rows tb ! first_row d tb) c)"
      by (rule from_end_row [OF scr tops(1) _ _ tops(2) ne])
         (use pl in \<open>simp_all add: same_table_def ready_def leave_pos_def clear_mask_def placed_def\<close>)
    then show ?thesis
      using that [OF _ c(2,3)] True by (simp add: go_end_def k_def del: ex_table.simps)
  next
    case False
    have "end_of (other d) (leave_pos a) = k"
      unfolding k_def by (rule end_of_cong) (simp_all add: leave_pos_def)
    then have k: "k = tb_rows tb ! f"
      using sc False first_row_along(3) [OF ne, of d] by (auto simp: scanning_def f_def)
    have scl: "scanning env tb texts page (leave_pos (ready a))"
      by (rule scanning_idle [OF scr])
         (use scanning_facts(18,19) [OF scr] in \<open>simp_all add: kept_def leave_pos_def\<close>)
    obtain b where b: "sqlExGoTo (ex_table env (Suc m)) env k (ready a) = Some (HB_SUCCESS, b)"
      "arrived env tb texts page f b" "same_table (ready a) b"
      using goto_natural [OF scl plr f, of m] unfolding k by blast
    then have st: "same_table a b"
      by (simp add: same_table_def ready_def leave_pos_def clear_mask_def)
    show ?thesis
    proof (cases "bReverseIndex b = s_bOldReverseIndex b")
      case True
      then show ?thesis
        using that [of b] b False on_row_known [OF _ ne, of f b d]
        by (simp add: go_end_def k_def [symmetric] arrived_def f_def sqlExTable_def lands_def)
    next
      case rev: False
      have scb: "scanning env tb texts page b" and plb: "placed tb b"
        using b(2) on_row_placed [of tb f b] by (simp_all add: arrived_def)
      obtain c where c: "list_from_end env (end_type d) b = Some (HB_SUCCESS, c)" "scanning env tb texts page c"
        "lands tb d (first_row d tb) (set_known d (tb_rows tb ! first_row d tb) c)"
        by (rule from_end_row [OF scb tops(1) _ _ tops(2) ne])
           (use plb st in \<open>simp_all add: placed_def\<close>)
      then show ?thesis
        using that [OF _ c(2,3)] b(1) False rev by (simp add: go_end_def k_def [symmetric] sqlExTable_def)
    qed
  qed
qed

text \<open>The rest of both movements.\<close>

lemma go_rest:
  assumes go: "may_go env tb texts page a"
    and p: "\<And>c. scanning env tb texts page c \<Longrightarrow> scanning env tb texts page (g c)"
      "\<And>c r. set_known d r (g c) = g (set_known d r c)"
      "\<And>i c. lands tb d i c \<Longrightarrow> lands tb d i (g c)"
  shows "\<exists>b c. go_end (ex_table env (Suc (Suc m))) env (end_type d) (end_of (other d) a) (ready a) =
      Some (HB_SUCCESS, c) \<and>
    on_first env (end_type d) (g c) = Some (HB_SUCCESS, b) \<and>
    arrive (ex_table env (Suc (Suc m))) env k b = Some (HB_SUCCESS, b) \<and>
    landed env tb texts page d (first_row d tb) b"
proof -
  obtain c where c: "go_end (ex_table env (Suc (Suc m))) env (end_type d) (end_of (other d) a) (ready a) =
      Some (HB_SUCCESS, c)"
    "scanning env tb texts page c" "lands tb d (first_row d tb) (set_known d (tb_rows tb ! first_row d tb) c)"
    by (rule end_natural [OF go])
  have ne: "tb_rows tb \<noteq> []"
    using go by (simp add: may_go_def)
  obtain b where b: "on_first env (end_type d) (g c) = Some (HB_SUCCESS, b)" "landed env tb texts page d (first_row d tb) b"
    using on_first_natural [OF p(1) [OF c(2)] ne, of d] p(3) [OF c(3)] by (auto simp: p(2))
  have scb: "scanning env tb texts page b"
    using b(2) by (simp add: landed_def)
  have "ex_skipFilter (ex_table env (Suc (Suc m))) k b = Some (HB_SUCCESS, b)"
    using scanning_facts(17) [OF scb] by (simp add: sqlExTable_def sqlExSkipFilter_def)
  then have "arrive (ex_table env (Suc (Suc m))) env k b = Some (HB_SUCCESS, b)"
    using scanning_facts(11) [OF scb] by (simp add: arrive_def del: ex_table.simps)
  with b c(1) show ?thesis by blast
qed

lemma go_cold_ready:
  assumes "scanning env tb texts page (leave_pos a)"
  shows "ex_goCold (ex_table env (Suc (Suc m))) (leave_pos a) = Some (HB_SUCCESS, ready a)"
  using scanning_facts(12) [OF assms] by (simp add: sqlExTable_def sqlExGoCold_def leave_clear)

lemma params_kept:
  assumes sc: "scanning env tb texts page (leave_pos a)" and con: "connected env a"
  shows "getWorkareaParams env (leave_pos a) = Some (HB_SUCCESS, leave_pos a)"
proof -
  obtain v where v: "x_send env ''LTABLEISSELECT'' [] (leave_pos a) = Some (v, leave_pos a)" "\<not> hb_itemGetL v"
    using con by (auto simp: connected_def)
  have "\<not> bIsSelect (leave_pos a)"
    using scanning_facts(1) [OF sc] by (simp add: natural_area_def)
  then have "(leave_pos a)\<lparr>bIsSelect := False\<rparr> = leave_pos a"
    by simp
  moreover have "oSql (leave_pos a) \<noteq> None" "bConnVerified (leave_pos a)"
    using con by (simp_all add: connected_def leave_pos_def)
  ultimately show ?thesis
    using v unfolding getWorkareaParams_def by auto
qed

lemma go_bottom:
  assumes go: "may_go env tb texts page a"
  shows "\<exists>b. sqlExGoBottom (ex_table env (Suc (Suc m))) env a = Some (HB_SUCCESS, b) \<and>
    landed env tb texts page SR_LIST_BACKWARD (length (tb_rows tb) - 1) b"
proof -
  have sc: "scanning env tb texts page (leave_pos a)"
    using go by (simp add: may_go_def)
  define g :: "'a exarea \<Rightarrow> 'a exarea" where "g = (\<lambda>c. c\<lparr>fTop := False, fBottom := True, skipDirection := - 1\<rparr>)"
  have "\<exists>b c. go_end (ex_table env (Suc (Suc m))) env (end_type SR_LIST_BACKWARD) (end_of (other SR_LIST_BACKWARD) a) (ready a) =
      Some (HB_SUCCESS, c) \<and>
    on_first env (end_type SR_LIST_BACKWARD) (g c) = Some (HB_SUCCESS, b) \<and>
    arrive (ex_table env (Suc (Suc m))) env (- 1) b = Some (HB_SUCCESS, b) \<and>
    landed env tb texts page SR_LIST_BACKWARD (first_row SR_LIST_BACKWARD tb) b"
  proof (rule go_rest [OF go])
    show "scanning env tb texts page (g c)" if "scanning env tb texts page c" for c
      by (rule scanning_idle [OF that]) (simp_all add: g_def kept_def)
    show "lands tb SR_LIST_BACKWARD i (g c)" if "lands tb SR_LIST_BACKWARD i c" for i c
      by (rule lands_cong [OF that]) (simp_all add: g_def)
  qed (simp add: g_def set_known_def)
  then obtain b c where b: "go_end (ex_table env (Suc (Suc m))) env SR_LIST_FROM_BOTTOM (lEofAt a) (ready a) = Some (HB_SUCCESS, c)"
    "on_first env SR_LIST_FROM_BOTTOM (g c) = Some (HB_SUCCESS, b)"
    "arrive (ex_table env (Suc (Suc m))) env (- 1) b = Some (HB_SUCCESS, b)"
    "landed env tb texts page SR_LIST_BACKWARD (first_row SR_LIST_BACKWARD tb) b"
    by auto
  then have "sqlExGoBottom (ex_table env (Suc (Suc m))) env a = Some (HB_SUCCESS, b)"
    unfolding sqlExGoBottom_def go_cold_ready [OF sc] by (simp add: g_def del: ex_table.simps)
  with b(4) show ?thesis
    by (auto simp: first_row_def towards_def)
qed

lemma go_top:
  assumes go: "may_go env tb texts page a" and con: "connected env a"
  shows "\<exists>b. sqlExGoTop (ex_table env (Suc (Suc m))) env a = Some (HB_SUCCESS, b) \<and>
    landed env tb texts page SR_LIST_FORWARD 0 b"
proof -
  define g :: "'a exarea \<Rightarrow> 'a exarea" where "g = (\<lambda>c. c\<lparr>fTop := True, fBottom := False, skipDirection := 1\<rparr>)"
  have "\<exists>b c. go_end (ex_table env (Suc (Suc m))) env (end_type SR_LIST_FORWARD) (end_of (other SR_LIST_FORWARD) a) (ready a) =
      Some (HB_SUCCESS, c) \<and>
    on_first env (end_type SR_LIST_FORWARD) (g c) = Some (HB_SUCCESS, b) \<and>
    arrive (ex_table env (Suc (Suc m))) env 1 b = Some (HB_SUCCESS, b) \<and>
    landed env tb texts page SR_LIST_FORWARD (first_row SR_LIST_FORWARD tb) b"
  proof (rule go_rest [OF go])
    show "scanning env tb texts page (g c)" if "scanning env tb texts page c" for c
      by (rule scanning_idle [OF that]) (simp_all add: g_def kept_def)
    show "lands tb SR_LIST_FORWARD i (g c)" if "lands tb SR_LIST_FORWARD i c" for i c
      by (rule lands_cong [OF that]) (simp_all add: g_def)
  qed (simp add: g_def set_known_def)
  then obtain b c where b: "go_end (ex_table env (Suc (Suc m))) env SR_LIST_FROM_TOP (lBofAt a) (ready a) = Some (HB_SUCCESS, c)"
    "on_first env SR_LIST_FROM_TOP (g c) = Some (HB_SUCCESS, b)"
    "arrive (ex_table env (Suc (Suc m))) env 1 b = Some (HB_SUCCESS, b)"
    "landed env tb texts page SR_LIST_FORWARD (first_row SR_LIST_FORWARD tb) b"
    by auto
  have sc: "scanning env tb texts page (leave_pos a)"
    using go by (simp add: may_go_def)
  have "sqlExGoTop (ex_table env (Suc (Suc m))) env a = Some (HB_SUCCESS, b)"
    unfolding sqlExGoTop_def using b(1-3) go_cold_ready [OF sc, of m] params_kept [OF sc con]
    by (simp add: g_def del: ex_table.simps)
  with b(4) show ?thesis
    by (auto simp: first_row_def towards_def)
qed

end
