(* ===== verification/ExDemo.thy ===== *)
theory ExDemo
  imports ExTop
begin

text \<open>
  A small server with a table of one column, and an area on it: the hypotheses of the theorems on the
  second driver hold here.
\<close>

section \<open>The area\<close>

definition demo_area :: "unit exarea" where
  "demo_area =
     \<lparr>fBof = False, fEof = False, fFound = False, fTop = False, fBottom = False, itmCobExpr = None,
      lpdbRelations = False, lpFields = [\<lparr>uiType = 0, uiLen = 0, uiDec = 0, uiFlags = 0\<rparr>], cdPage = 0, cdPageCnv = 0, szDataFileName = None,
      hOrdCurrent = 0, shared = False, readonly = False, creating = False, firstinteract = False,
      isam = False, wasdel = False, initialized = False, sqlfilter = False, oWorkArea = NIL,
      aInfo = replicate 20 (INum 100), aBuffer = [NIL], aOrders = [], aStruct = NIL, aLocked = [], aCreate = NIL, aCache = [],
      aOldBuffer = [NIL], aEmptyBuff = [NIL], aSelectList = [], ulhRecno = 1, ulhDeleted = 0,
      uiBufferIndex = [1], uiFieldList = [1], iFieldListStatus = FIELD_LIST_STABLE, lpdbPendingRel = None, world = (),
      oSql = Some NIL, pIndexMgmnt = None, aFields = [Arr 1 []], hBufferPool = [],
      hStmtBuffer = Some \<lparr>st_sql = ''PAGE'', st_binds = [BindRetrieve 0, BindRetrieve 1]\<rparr>,
      hStmtInsert = None, hStmtNextval = None, hStmtUpdate = None, nSystemID = 1, lCurrentRecord = 0,
      lUpdatedRecord = 0, lBofAt = 0, lEofAt = 0, lLastRec = 0, lRecordToRetrieve = [0, 0],
      recordList = replicate RECORD_LIST_SIZE 0, deletedList = replicate RECORD_LIST_SIZE SPACE,
      recordListPos = 0, recordListSize = 0, recordListDirection = SR_LIST_FORWARD, iTCCompat = 0,
      indexColumns = 1, indexLevel = 0, skipDirection = 0, sFields = None, sSql = [], sSqlBuffer = [],
      sTable = ''T'', sOwner = [], sWhere = [], sOrderBy = [], sRecnoName = ''R'', sDeletedName = [],
      sLimit1 = [], sLimit2 = [], bufferHot = False, bIsInsert = False, bConnVerified = True,
      bReverseIndex = False, IndexBindings = replicate MAX_INDEXES None, colStmt = [None],
      bConditionChanged1 = False, bConditionChanged2 = False, bOrderChanged = False,
      bRebuildSeekQuery = False, bHistoric = False, InsertRecord = None, CurrRecord = None,
      editMask = replicate MAX_FIELDS False, updatedMask = replicate MAX_FIELDS False,
      specialMask = replicate MAX_FIELDS False, bIndexTouchedInUpdate = False, bIsSelect = False,
      s_bOldReverseIndex = False\<rparr>"

section \<open>The server\<close>

definition demo_served :: "int list \<Rightarrow> served" where
  "demo_served rows =
     \<lparr>tb_rows = rows, tb_raw = (\<lambda>r. [INum r, INum r]), tb_record = (\<lambda>r. [INum r]), tb_limit = 251\<rparr>"

definition demo_texts :: "string \<Rightarrow> bytes" where
  "demo_texts m = []"

definition demo_from :: "direction \<Rightarrow> bytes" where
  "demo_from = skip_text (restriction_text demo_texts) demo_area"

definition demo_ends :: "direction \<Rightarrow> bytes" where
  "demo_ends = end_text demo_texts demo_area"

fun param_int :: "param \<Rightarrow> int" where
  "param_int (PNum q) = \<lfloor>q\<rfloor>"
| "param_int (PLong r) = r"
| "param_int p = 0"

definition demo_execute :: "int list \<Rightarrow> bytes \<Rightarrow> param list \<Rightarrow> unit \<Rightarrow> unit answer" where
  "demo_execute rows s ps w =
     (let tb = demo_served rows; numbers = map (\<lambda>x. [INum x]) in
      if s = ''PAGE'' then ok_rows w (map (tb_raw tb) (filter (\<lambda>r. r \<in> set (map param_int ps)) rows))
      else (case filter (\<lambda>d. s = demo_from d) [SR_LIST_FORWARD, SR_LIST_BACKWARD] of
              d # ds \<Rightarrow> ok_rows w (numbers (take 251 (filter (reaches d (param_int (hd ps))) (along d rows))))
            | [] \<Rightarrow>
                (case filter (\<lambda>d. s = demo_ends d) [SR_LIST_FORWARD, SR_LIST_BACKWARD] of
                   d # ds \<Rightarrow> ok_rows w (numbers (take 26 (along d rows)))
                 | [] \<Rightarrow> ok_rows w [])))"

definition demo_env :: "int list \<Rightarrow> unit exenv" where
  "demo_env rows =
     \<lparr>alloc_stmt = (\<lambda>w. SQL_SUCCESS), prepare = (\<lambda>s w. SQL_SUCCESS), bind_par = (\<lambda>s n w. SQL_SUCCESS),
      close_stmt = (\<lambda>w. SQL_SUCCESS), execute = demo_execute rows,
      get_long = (\<lambda>v. (SQL_SUCCESS, hb_itemGetNL v)), get_char = (\<lambda>v. (SQL_SUCCESS, SPACE)), odbc_item = (\<lambda>f v. v),
      odbc_error = (\<lambda>s a. Some ((), a)),
      x_send = (\<lambda>m vs a. Some (if m = ''LTABLEISSELECT'' then Logical False else Str [], a)),
      x_send_sql = (\<lambda>m a. Some (NIL, a)), eval_expr = (\<lambda>b v a. Some (NIL, a)),
      x_eval_block = (\<lambda>b a. Some (NIL, a)), x_common_error = (\<lambda>g c a. Some ((), a)),
      x_sync_children = (\<lambda>a. Some (HB_SUCCESS, a)), x_super = (\<lambda>f a. Some (HB_SUCCESS, a)),
      x_serialize = (\<lambda>v a. Some (v, a)), x_deserialize = (\<lambda>s a. Some (NIL, a)),
      x_hash_add = (\<lambda>n k v a. Some ((), a)), x_vm_cdp = (\<lambda>w. 1), x_cdp_dup = (\<lambda>s f t. s),
      x_cdp_dup2 = (\<lambda>s n f t. s), x_put_nlen = (\<lambda>q n d. DNum q), x_ser_as_string = (\<lambda>w. False),
      x_multilang = (\<lambda>w. False), x_languages = (\<lambda>w. []), x_set_deleted = (\<lambda>w. False),
      x_use_deleteds = (\<lambda>w. False), x_field_name = (\<lambda>n w. ''F''), x_str_empty = (\<lambda>s. s = []),
      x_str_val = (\<lambda>s. 0), x_str_int = (\<lambda>s. 0), x_rtrim_len = length, x_date_text = (\<lambda>d. []),
      x_item_text = (\<lambda>v w. []), x_date_decode = (\<lambda>d. (0, 0, 0)), x_time_decode = (\<lambda>t. (0, 0, 0)),
      s_pageReadSize = 2, s_bufferPoolSize = 250\<rparr>"

section \<open>The hypotheses\<close>

lemma demo_texts_differ:
  "demo_from d \<noteq> ''PAGE''" "demo_ends d \<noteq> ''PAGE''" "demo_from d \<noteq> demo_ends e"
  "demo_from SR_LIST_FORWARD \<noteq> demo_from SR_LIST_BACKWARD" "demo_ends SR_LIST_FORWARD \<noteq> demo_ends SR_LIST_BACKWARD"
  by (cases d; cases e; simp add: demo_from_def demo_ends_def skip_text_def end_text_def from_text_def Let_def
      restriction_text_def conjoined_def wheres_def restriction_messages_def demo_texts_def demo_area_def quoted_def
      limit_texts_def end_limits_def limit_formats_def int_text_def nat_text.simps where_text_def order_text_def
      openQuotes_def closeQuotes_def rd_at_def)+

lemma demo_from_by_area:
  "sRecnoName a = sRecnoName demo_area \<Longrightarrow> sTable a = sTable demo_area \<Longrightarrow> nSystemID a = nSystemID demo_area \<Longrightarrow>
   skip_text (restriction_text demo_texts) a = demo_from"
  by (simp add: demo_from_def skip_text_def quoted_def fun_eq_iff)

lemma demo_serves:
  assumes "sorted_wrt (<) rows" "0 \<notin> set rows"
  shows "serves (demo_env rows) () (demo_served rows) demo_from ''PAGE''"
proof -
  have f: "execute (demo_env rows) (demo_from d) [PNum (of_int r)] () =
      ok_rows () (map (\<lambda>x. [INum x]) (take 251 (filter (reaches d r) (along d rows))))" for d r
    using demo_texts_differ by (cases d) (simp_all add: demo_env_def demo_execute_def)
  have p: "execute (demo_env rows) ''PAGE'' (map PLong rs) () =
      ok_rows () (map (tb_raw (demo_served rows)) (filter (\<lambda>r. r \<in> set rs) rows))" for rs
    by (simp add: demo_env_def demo_execute_def demo_served_def image_image)
  show ?thesis
    using assms f p unfolding serves_def
    by (simp add: demo_served_def) (simp add: accepts_def demo_env_def)
qed

lemma demo_serves_ends: "serves_ends (demo_env rows) () (demo_served rows) demo_ends"
proof -
  have "execute (demo_env rows) (demo_ends d) [] () = ok_rows () (map (\<lambda>x. [INum x]) (take 26 (along d rows)))" for d
    using demo_texts_differ(2) [of d] demo_texts_differ(3) [symmetric] demo_texts_differ(5)
    by (cases d) (simp_all add: demo_env_def demo_execute_def)
  then show ?thesis
    by (auto simp: serves_ends_def demo_served_def intro!: exI [of _ 26])
qed

lemma demo_scanning:
  assumes "sorted_wrt (<) rows" "\<forall>r \<in> set rows. 0 < r \<and> r < 100"
  shows "scanning (demo_env rows) (demo_served rows) demo_texts ''PAGE'' demo_area"
proof -
  have sv: "serves (demo_env rows) (world demo_area) (demo_served rows)
      (skip_text (restriction_text demo_texts) demo_area) ''PAGE''"
    using demo_serves [of rows] assms by (auto simp: demo_from_def demo_area_def)
  have nat: "natural_area (demo_env rows) demo_texts demo_area"
    by (simp add: natural_area_def answers_def demo_texts_def restriction_text_def conjoined_def
        restriction_messages_def quoted_def rd_at_def openQuotes_def closeQuotes_def)
       (simp add: demo_area_def demo_env_def)
  have idle: "idle (demo_env rows) demo_area"
    by (simp add: idle_def x_filtering_def demo_area_def demo_env_def)
  have rd: "reading (demo_env rows) (demo_served rows) ''PAGE'' demo_area"
    by (simp add: reading_def page_refs_def fields_settled_def demo_area_def demo_env_def demo_served_def
        row_record_def SQLGetData_long_def rd_at_def numeral_2_eq_2 arr_set_def arr_get_def)
  have slot: "slot_ok (restriction_text demo_texts) demo_area"
    by (simp add: slot_ok_def demo_area_def)
  have "end_of d demo_area = 0" for d
    by (cases d) (simp_all add: demo_area_def)
  moreover have "CurrRecord demo_area = None" "lLastRec demo_area = 0"
    "hb_itemGetNL (x_info demo_area SR_AINFO_RCOUNT) = 100"
    by (simp_all add: demo_area_def x_info_def arr_get_def)
  moreover have "tb_rows (demo_served rows) = rows"
    by (simp add: demo_served_def)
  ultimately show ?thesis
    using sv nat idle rd slot assms unfolding scanning_def by auto
qed

lemma demo_may_go:
  assumes "sorted_wrt (<) rows" "\<forall>r \<in> set rows. 0 < r \<and> r < 100" "rows \<noteq> []"
  shows "may_go (demo_env rows) (demo_served rows) demo_texts ''PAGE'' demo_area" "connected (demo_env rows) demo_area"
proof -
  have "leave_pos demo_area = demo_area"
    by (simp add: leave_pos_def demo_area_def)
  moreover have "world demo_area = ()" "slot_ok (restriction_text demo_texts) (demo_area\<lparr>bConditionChanged1 := False\<rparr>)"
    "placed (demo_served rows) demo_area"
    by (simp_all add: demo_area_def slot_ok_def placed_def)
  ultimately show "may_go (demo_env rows) (demo_served rows) demo_texts ''PAGE'' demo_area"
    using demo_scanning [OF assms(1,2)] demo_serves_ends [of rows] assms(3)
    by (simp add: may_go_def demo_ends_def [symmetric]) (simp add: demo_served_def)
  show "connected (demo_env rows) demo_area"
    by (simp add: connected_def) (simp add: demo_area_def demo_env_def)
qed

lemma demo_top:
  assumes "sorted_wrt (<) rows" "\<forall>r \<in> set rows. 0 < r \<and> r < 100" "rows \<noteq> []" "length rows \<noteq> TOP_LIST_SIZE"
  shows "\<exists>a. sqlExGoTop (ex_table (demo_env rows) (Suc (Suc m))) (demo_env rows) demo_area = Some (HB_SUCCESS, a) \<and>
    arrived (demo_env rows) (demo_served rows) demo_texts ''PAGE'' 0 a"
  using go_top [OF demo_may_go [OF assms(1-3)], of m] landed_arrived assms(4)
  by (fastforce simp: demo_served_def simp del: ex_table.simps)

end
