(* ===== verification/ExFaults.thy ===== *)
theory ExFaults
  imports ExDemo
begin

text \<open>
  Where moving in the natural order goes wrong: skips of more than one record over the end of the list,
  and skips back from the first record when the list is not known to start there.
\<close>

section \<open>Skips over the end of the list\<close>

lemma find_current_none:
  assumes "\<And>r. get_long env (INum r) = (SQL_SUCCESS, r)" "cur \<notin> set xs"
  shows "find_current env cur (map (Pair SQL_SUCCESS) (map (\<lambda>x. [INum x]) xs)) = Inl SR_HB_RETRY"
  using assms(2) by (induction xs) (simp_all add: SQLGetData_long_def assms(1))

text \<open>The record a list is asked for behind is not the one the rows are compared with.\<close>

lemma list_lost:
  assumes sc: "scanning env tb texts page a" and row: "on_row tb i a" and cs: "CurrRecord a \<noteq> None"
    and fl: "\<not> fEof a" and cur: "lCurrentRecord a \<notin> set (drop i (tb_rows tb))"
  shows "\<exists>b. list_from_record self env 1 a = Some (HB_SUCCESS, b) \<and> fEof b \<and> \<not> x_filtering env b"
proof -
  have i: "i < length (tb_rows tb)" using row by (simp add: on_row_def)
  have s1: "step SR_LIST_FORWARD = 1" by (simp add: step_def)
  obtain cs where cs: "CurrRecord a = Some cs" using cs by blast
  obtain b ib cs' where lf: "list_from_record self env (step SR_LIST_FORWARD) a =
      list_by_levels self env (step SR_LIST_FORWARD) 0 b \<bind> list_result env SR_LIST_FORWARD"
    and scb: "scanning env tb texts page b" and B: "lCurrentRecord b = lCurrentRecord a" "indexLevel b = 1"
    and S: "IndexBindings b = Some [ib] # tl (IndexBindings a)"
    "dir_stmt b ib = Some (skip_stmt (restriction_text texts) b SR_LIST_FORWARD)"
    "CurrRecord b = Some cs'" "ulhRecno b - 1 < length cs'" "asNumeric (cs' ! (ulhRecno b - 1)) = of_int (tb_rows tb ! i)"
    by (rule asked_area [OF sc on_row_at_row [OF row] cs fl])
  note F = scanning_facts [OF scb]
  define ys where "ys = take (tb_limit tb) (drop i (tb_rows tb))"
  have "filter (reaches SR_LIST_FORWARD (tb_rows tb ! i)) (tb_rows tb) = drop i (tb_rows tb)"
    using rows_from [of "tb_rows tb" i SR_LIST_FORWARD] F(4) i by (simp add: serves_def)
  then have ex: "SQLExecute env (skip_stmt (restriction_text texts) b SR_LIST_FORWARD) b =
      (ok_rows (world b) (map (\<lambda>x. [INum x]) ys), b)"
    using F(4) S(3-5) by (simp add: SQLExecute_def skip_stmt_def serves_def bound_member_def ys_def ok_rows_def)
  have "lCurrentRecord b \<notin> set ys"
    using cur B(1) set_take_subset [of "tb_limit tb" "drop i (tb_rows tb)"] by (auto simp: ys_def)
  then have fc: "find_current env (lCurrentRecord b) (map (Pair SQL_SUCCESS) (map (\<lambda>x. [INum x]) ys)) = Inl SR_HB_RETRY"
    by (intro find_current_none) (use F(4) in \<open>simp_all add: serves_def\<close>)
  have ib0: "index_bind b 0 0 = Some ib"
    by (simp add: index_bind_def bindings_of_def rd_at_def S)
  have g: "getPreparedRecordList env RECORD_LIST_SIZE b = Some (SR_HB_RETRY, b)"
    using fc by (simp add: getPreparedRecordList_def F(9) ib0 S(2) ex ok_rows_def)
  have "list_by_levels self env 1 0 b = Some (SR_HB_RETRY, x_cleanBuffer (b\<lparr>indexLevel := indexLevel b - 1\<rparr>))"
    by (subst list_by_levels.simps) (simp add: g)
  then have "list_from_record self env 1 a =
      x_concludeSkipraw env (x_cleanBuffer (x_cleanBuffer (b\<lparr>indexLevel := indexLevel b - 1\<rparr>)))"
    using lf s1 by (simp add: list_result_def)
  then show ?thesis
    using F(11,17) by (simp add: x_concludeSkipraw_def x_filtering_def) (simp add: x_cleanBuffer_def)
qed

text \<open>Steps inside the list: everything but the position and what was read stays.\<close>

lemma raw_inside:
  assumes sc: "scanning env tb texts page a" and row: "on_row tb i a"
    and fl: "\<not> fEof a" "\<not> fBof a" and cur: "lCurrentRecord a \<in> set (tb_rows tb)"
    and d: "recordListDirection a = SR_LIST_FORWARD" and p: "recordListPos a + 1 < recordListSize a"
  obtains b where "sqlExSkipRaw (ex_table env (Suc m)) env 1 a = Some (HB_SUCCESS, b)"
    "scanning env tb texts page b" "on_row tb (Suc i) b" "\<not> fEof b" "\<not> fBof b"
    "lCurrentRecord b = lCurrentRecord a" "recordListDirection b = SR_LIST_FORWARD"
    "recordListPos b = recordListPos a + 1" "recordListSize b = recordListSize a"
proof -
  have s1: "step SR_LIST_FORWARD = 1" by (simp add: step_def)
  obtain a2 where u: "sqlExSkipRaw (ex_table env (Suc m)) env (step SR_LIST_FORWARD) a = do {
      (c, a3) \<leftarrow> trySkippingOnCache env (step SR_LIST_FORWARD) a2;
      if c = HB_SUCCESS then x_concludeSkipraw env a3
      else list_from_record (ex_table env (Suc m)) env (step SR_LIST_FORWARD) a3 }"
    and sc2: "scanning env tb texts page a2"
    and A: "\<not> fEof a2" "\<not> fBof a2" "lCurrentRecord a2 = lCurrentRecord a" "skipDirection a2 \<noteq> 0"
    "recordListPos a2 = recordListPos a" "recordListSize a2 = recordListSize a"
    "recordListDirection a2 = recordListDirection a" "recordList a2 = recordList a"
    "deletedList a2 = deletedList a" "lEofAt a2 = lEofAt a" "lBofAt a2 = lBofAt a"
    by (rule raw_ready [OF sc fl cur])
  have row2: "on_row tb i a2"
    by (rule on_row_cong [OF row]) (simp_all add: A)
  have w: "window tb i a2" and i: "i < length (tb_rows tb)"
    using row2 d A by (simp_all add: on_row_def towards_def Let_def)
  obtain q s where ps: "recordListPos a2 = int q" "recordListSize a2 = int s" "q < s" "s \<le> RECORD_LIST_SIZE" "q \<le> i"
    "i - q + s \<le> length (tb_rows tb)" "length (recordList a2) = RECORD_LIST_SIZE"
    by (rule window_bounds [OF w])
  have qs: "Suc q < s" using p A ps by simp
  define c where "c = a2\<lparr>recordListPos := int (Suc q)\<rparr>"
  define r where "r = tb_rows tb ! Suc i"
  have t: "trySkippingOnCache env 1 a2 = read_current env False c"
    using cache_same [OF w, of SR_LIST_FORWARD env] A d p ps by (simp add: s1 c_def add.commute)
  have si: "Suc i < length (tb_rows tb)"
    using ps qs by simp
  have rq: "recordList a2 ! Suc q = r"
    using window_nth [OF w ps(1), of "Suc q"] qs ps d A by (simp add: r_def)
  have nq: "nat (1 + int q) = Suc q"
    by simp
  have scc: "scanning env tb texts page c"
    by (rule scanning_idle [OF sc2]) (simp_all add: c_def kept_def)
  have rowc: "on_row tb (Suc i) c"
    unfolding c_def by (rule on_row_at [OF row2])
      (use qs ps si rq scanning_facts(7) [OF sc2] in \<open>simp_all add: r_def\<close>)
  obtain pool ns where rd: "read_current env False c = Some (HB_SUCCESS, read_result r tb pool ns c)"
    "scanning env tb texts page (read_result r tb pool ns c)"
    by (rule read_current_natural [OF scc, of r]) (use ps qs rq si nq in \<open>simp_all add: c_def r_def\<close>)
  define b where "b = read_result r tb pool ns c"
  show ?thesis
  proof (rule that [of b])
    show "sqlExSkipRaw (ex_table env (Suc m)) env 1 a = Some (HB_SUCCESS, b)"
      using u t rd scanning_facts(11) [OF rd(2)] by (simp add: s1 x_concludeSkipraw_def b_def del: ex_table.simps)
    show "on_row tb (Suc i) b"
      by (rule on_row_cong [OF rowc]) (simp_all add: b_def read_result_def)
  qed (use rd(2) A d ps in \<open>simp_all add: b_def read_result_def c_def\<close>)
qed

lemma unfiltered:
  assumes "scanning env tb texts page b"
  shows "ex_skipFilter (ex_table env (Suc m)) k b = Some (HB_SUCCESS, b)"
  using scanning_facts(17) [OF assms] by (simp add: sqlExTable_def sqlExSkipFilter_def)

lemma table_skipRaw: "ex_skipRaw (ex_table env (Suc m)) k = sqlExSkipRaw (ex_table env m) env k"
  by (simp add: sqlExTable_def)

lemma steps_inside:
  assumes "scanning env tb texts page a" "on_row tb i a" "\<not> fEof a" "\<not> fBof a"
    "lCurrentRecord a \<in> set (tb_rows tb)" "recordListDirection a = SR_LIST_FORWARD"
    "recordListPos a + int k < recordListSize a"
  shows "\<exists>b. skip_steps (ex_table env (Suc (Suc m))) 1 (k + l) a = skip_steps (ex_table env (Suc (Suc m))) 1 l b \<and>
    scanning env tb texts page b \<and> on_row tb (i + k) b \<and> \<not> fEof b \<and> \<not> fBof b \<and>
    lCurrentRecord b = lCurrentRecord a \<and> recordListDirection b = SR_LIST_FORWARD \<and>
    recordListPos b = recordListPos a + int k \<and> recordListSize b = recordListSize a"
  using assms
proof (induction k arbitrary: a i)
  case 0
  then show ?case by auto
next
  case (Suc k)
  have "recordListPos a + 1 < recordListSize a" using Suc.prems(7) by simp
  then obtain c where c: "sqlExSkipRaw (ex_table env (Suc m)) env 1 a = Some (HB_SUCCESS, c)"
    "scanning env tb texts page c" "on_row tb (Suc i) c" "\<not> fEof c" "\<not> fBof c"
    "lCurrentRecord c = lCurrentRecord a" "recordListDirection c = SR_LIST_FORWARD"
    "recordListPos c = recordListPos a + 1" "recordListSize c = recordListSize a"
    by (rule raw_inside [OF Suc.prems(1-6)])
  have "skip_steps (ex_table env (Suc (Suc m))) 1 (Suc k + l) a = skip_steps (ex_table env (Suc (Suc m))) 1 (k + l) c"
    using c(1,4,5) unfiltered [OF c(2), of "Suc m" 1] by (simp add: table_skipRaw del: ex_table.simps)
  then show ?case
    using Suc.IH [of c "Suc i"] c Suc.prems(5,7) by auto
qed

lemma skip_ends_at_list:
  assumes sc: "scanning env tb texts page a" and row: "on_row tb i a" and fl: "\<not> fEof a"
    and d: "recordListDirection a = SR_LIST_FORWARD"
    and k: "recordListPos a + int k + 1 = recordListSize a" "0 < k" "k < n" "Suc (i + k) < length (tb_rows tb)"
  shows "\<exists>b. sqlExSkip (ex_table env (Suc (Suc m))) env (int n) a = Some (HB_SUCCESS, b) \<and> fEof b"
proof -
  define T where "T = ex_table env (Suc (Suc m))"
  note F = scanning_facts [OF sc]
  define a2 where "a2 = a\<lparr>lCurrentRecord := tb_rows tb ! i, fTop := False, fBottom := False, wasdel := False,
    fBof := False, fEof := False\<rparr>"
  have cur: "SR_GetCurrentRecordNum a = Some (tb_rows tb ! i)"
    by (rule on_row_current [OF row fl F(13)])
  have i: "i < length (tb_rows tb)"
    using row by (simp add: on_row_def)
  have sc2: "scanning env tb texts page a2"
    by (rule scanning_idle [OF sc]) (simp_all add: a2_def kept_def)
  have row2: "on_row tb i a2"
    by (rule on_row_cong [OF row]) (simp_all add: a2_def)
  obtain l where l: "n = k + Suc l"
    using k(3) less_imp_Suc_add by auto
  obtain b where b: "skip_steps T 1 (k + Suc l) a2 = skip_steps T 1 (Suc l) b"
    "scanning env tb texts page b" "on_row tb (i + k) b" "\<not> fEof b" "\<not> fBof b"
    "lCurrentRecord b = tb_rows tb ! i" "recordListDirection b = SR_LIST_FORWARD"
    "recordListPos b = recordListPos a + int k" "recordListSize b = recordListSize a"
    using steps_inside [OF sc2 row2, of k m "Suc l"] d k i by (auto simp: T_def a2_def)
  have s1: "step SR_LIST_FORWARD = 1" by (simp add: step_def)
  obtain b2 where u: "sqlExSkipRaw (ex_table env (Suc m)) env (step SR_LIST_FORWARD) b = do {
      (c, a3) \<leftarrow> trySkippingOnCache env (step SR_LIST_FORWARD) b2;
      if c = HB_SUCCESS then x_concludeSkipraw env a3
      else list_from_record (ex_table env (Suc m)) env (step SR_LIST_FORWARD) a3 }"
    and scb: "scanning env tb texts page b2"
    and B: "\<not> fEof b2" "\<not> fBof b2" "lCurrentRecord b2 = lCurrentRecord b" "skipDirection b2 \<noteq> 0" "CurrRecord b2 \<noteq> None"
    "recordListPos b2 = recordListPos b" "recordListSize b2 = recordListSize b"
    "recordListDirection b2 = recordListDirection b" "recordList b2 = recordList b"
    "deletedList b2 = deletedList b" "lEofAt b2 = lEofAt b" "lBofAt b2 = lBofAt b"
    by (rule raw_ready [OF b(2,4,5)]) (use b(6) i in simp)
  have rowb: "on_row tb (i + k) b2"
    by (rule on_row_cong [OF b(3)]) (simp_all add: B)
  have w: "window tb (i + k) b2" and ik: "i + k < length (tb_rows tb)"
    using rowb b(7) B by (simp_all add: on_row_def towards_def Let_def)
  have dist: "distinct (tb_rows tb)" by (rule F(7))
  have "tb_rows tb ! (i + k) \<noteq> last (tb_rows tb)"
    using k(4) dist nth_eq_iff_index_eq [of "tb_rows tb" "i + k" "length (tb_rows tb) - 1"] ik
    by (subst last_conv_nth) auto
  moreover have "tb_rows tb ! (i + k) \<noteq> 0"
    using F(8) ik nth_mem [of "i + k" "tb_rows tb"] by metis
  moreover have "lEofAt b2 \<in> {0, last (tb_rows tb)}"
  proof -
    have "end_of SR_LIST_FORWARD b2 \<in> {0, last (along SR_LIST_FORWARD (tb_rows tb))}"
      using scb unfolding scanning_def by blast
    then show ?thesis by simp
  qed
  ultimately have t: "trySkippingOnCache env 1 b2 = Some (HB_FAILURE, b2)"
    using cache_same [OF w, of SR_LIST_FORWARD env] b B k by (auto simp: s1)
  have "tb_rows tb ! i \<notin> set (drop (i + k) (tb_rows tb))"
    using dist k(2) i by (auto simp: in_set_conv_nth nth_eq_iff_index_eq)
  then obtain c where c: "list_from_record (ex_table env (Suc m)) env 1 b2 = Some (HB_SUCCESS, c)" "fEof c" "\<not> x_filtering env c"
    using list_lost [OF scb rowb B(5,1), of "ex_table env (Suc m)"] B(3) b(6) by auto
  have raw: "ex_skipRaw T 1 b = Some (HB_SUCCESS, c)"
    using u t c(1) by (simp add: T_def table_skipRaw s1 del: ex_table.simps)
  have "ex_skipFilter T 1 c = Some (HB_SUCCESS, c)"
    using c(3) by (simp add: T_def sqlExTable_def sqlExSkipFilter_def)
  then have "skip_steps T 1 (Suc l) b = Some (HB_SUCCESS, c)"
    using raw c(2) by simp
  then have "skip_steps T 1 n a2 = Some (HB_SUCCESS, c)"
    using b(1) l by simp
  moreover have "nat \<bar>int n\<bar> = n" "0 < n" using k by simp_all
  ultimately have "sqlExSkip T env (int n) a = Some (HB_SUCCESS, c\<lparr>fBof := False\<rparr>)"
    unfolding sqlExSkip_def using F(18,19) cur
    by (simp add: x_first_def a2_def [symmetric] Let_def)
  then show ?thesis
    using c(2) by (simp add: T_def)
qed

section \<open>Back from the first record\<close>

text \<open>The list starts with the first record but it is not known that the table does.\<close>

lemma skip_back_turns:
  assumes sc: "scanning env tb texts page a" and row: "at_row tb 0 a" and fl: "\<not> fEof a"
    and d: "recordListDirection a = SR_LIST_FORWARD"
    and p: "recordListPos a = 0" "1 < recordListSize a" and bof: "lBofAt a = 0"
  shows "\<exists>b c. sqlExSkip (ex_table env (Suc (Suc m))) env (- 1) a = Some (HB_SUCCESS, b) \<and> fBof b \<and>
    sqlExSkip (ex_table env (Suc (Suc m))) env (- 1) b = Some (HB_SUCCESS, c) \<and> \<not> fBof c \<and>
    aBuffer c = tb_record tb (tb_rows tb ! 1)"
proof -
  define T where "T = ex_table env (Suc (Suc m))"
  define r where "r = tb_rows tb ! 0"
  note F = scanning_facts [OF sc]
  have sm: "step SR_LIST_BACKWARD = - 1" by (simp add: step_def)
  have n: "0 < length (tb_rows tb)" and w: "window tb 0 a"
    using row d by (simp_all add: at_row_def towards_def)
  obtain s where ps: "recordListSize a = int s" "Suc 0 < s" "s \<le> RECORD_LIST_SIZE" "s \<le> length (tb_rows tb)"
    "length (recordList a) = RECORD_LIST_SIZE" "recordList a ! 0 = r"
    by (rule window_bounds [OF w]) (use p d in \<open>auto simp: r_def\<close>)
  have r1: "recordList a ! 1 = tb_rows tb ! 1"
    using window_nth [OF w, of 0 1] p d by simp
  have cur: "SR_GetCurrentRecordNum a = Some r"
    using at_row_current [OF row fl F(13)] by (simp add: r_def)
  have rin: "r \<in> set (tb_rows tb)" "r \<noteq> 0"
    using n F(8) nth_mem [of 0 "tb_rows tb"] unfolding r_def by metis+
  define a1 where "a1 = a\<lparr>lCurrentRecord := r, fTop := False, fBottom := False, wasdel := False,
    fBof := False, fEof := False\<rparr>"
  have sc1: "scanning env tb texts page a1"
    by (rule scanning_idle [OF sc]) (simp_all add: a1_def kept_def)
  obtain a2 where u: "sqlExSkipRaw (ex_table env (Suc m)) env (step SR_LIST_BACKWARD) a1 = do {
      (c, a3) \<leftarrow> trySkippingOnCache env (step SR_LIST_BACKWARD) a2;
      if c = HB_SUCCESS then x_concludeSkipraw env a3
      else list_from_record (ex_table env (Suc m)) env (step SR_LIST_BACKWARD) a3 }"
    and sc2: "scanning env tb texts page a2"
    and A: "\<not> fEof a2" "\<not> fBof a2" "lCurrentRecord a2 = lCurrentRecord a1" "skipDirection a2 \<noteq> 0" "CurrRecord a2 \<noteq> None"
    "recordListPos a2 = recordListPos a1" "recordListSize a2 = recordListSize a1"
    "recordListDirection a2 = recordListDirection a1" "recordList a2 = recordList a1"
    "deletedList a2 = deletedList a1" "lEofAt a2 = lEofAt a1" "lBofAt a2 = lBofAt a1"
    by (rule raw_ready [OF sc1]) (use rin in \<open>simp_all add: a1_def\<close>)
  have row2: "at_row tb 0 a2"
    by (rule at_row_cong [OF row]) (simp_all add: A a1_def)
  have w2: "window tb 0 a2" "recordListDirection a2 = SR_LIST_FORWARD"
    using row2 A d by (simp_all add: at_row_def towards_def a1_def)
  have t: "trySkippingOnCache env (- 1) a2 = Some (HB_FAILURE, a2)"
    using cache_other [OF w2 A(4), of env] A p bof rin by (simp add: sm a1_def r_def)
  obtain cs where cs: "CurrRecord a2 = Some cs" using A(5) by blast
  have cur2: "lCurrentRecord a2 = tb_rows tb ! 0"
    by (simp add: A a1_def r_def)
  obtain b where lf: "list_from_record (ex_table env (Suc m)) env (step SR_LIST_BACKWARD) a2 = list_used env SR_LIST_BACKWARD
       (list_behind (drop (Suc (towards SR_LIST_BACKWARD (length (tb_rows tb)) 0)) (along SR_LIST_BACKWARD (tb_rows tb))) (tb_rows tb ! 0) b)"
    and scb: "scanning env tb texts page b" and B: "recordList b = recordList a2" "deletedList b = deletedList a2"
    "recordListPos b = recordListPos a2" "recordListSize b = recordListSize a2" "recordListDirection b = SR_LIST_BACKWARD"
    "fEof b = fEof a2" "fBof b = fBof a2"
    by (rule list_asked [OF sc2 row2 cs A(1) cur2])
  define b1 where "b1 = b\<lparr>lBofAt := r, indexLevel := indexLevel b - 1, fBof := True\<rparr>"
  have lb: "list_behind (drop (Suc (towards SR_LIST_BACKWARD (length (tb_rows tb)) 0)) (along SR_LIST_BACKWARD (tb_rows tb)))
      (tb_rows tb ! 0) b = (HB_SUCCESS, b\<lparr>lBofAt := r\<rparr>)"
    using n B(5) by (simp add: list_behind_def towards_def set_end_def r_def)
  have rd0: "rd_at (recordList b) 0 = Some r"
    using ps B A by (simp add: rd_at_def a1_def)
  have raw1: "sqlExSkipRaw (ex_table env (Suc m)) env (- 1) a1 = Some (HB_SUCCESS, b1)"
    using u t lf lb rd0 B A p ps scanning_facts(11) [OF scb]
    by (simp add: sm list_used_def x_concludeSkipraw_def b1_def a1_def Let_def del: ex_table.simps)
  have lastr: "last (rev (tb_rows tb)) = r"
    using n by (cases "tb_rows tb") (simp_all add: r_def)
  have ends: "\<forall>x. end_of x b1 \<in> {0, last (along x (tb_rows tb))}"
  proof
    fix x
    have "end_of x b \<in> {0, last (along x (tb_rows tb))}"
      using scb by (simp add: scanning_def)
    then show "end_of x b1 \<in> {0, last (along x (tb_rows tb))}"
      using lastr by (cases x) (simp_all add: b1_def)
  qed
  have scb1: "scanning env tb texts page b1"
    by (rule scanning_kept [OF scb _ _ ends]) (use scb in \<open>simp_all add: b1_def kept_def scanning_def\<close>)
  have skip1: "sqlExSkip T env (- 1) a = Some (HB_SUCCESS, b1\<lparr>fEof := False\<rparr>)"
    using raw1 unfiltered [OF scb1, of "Suc m" "- 1"] F(18,19) cur
    unfolding sqlExSkip_def T_def by (simp add: x_first_def a1_def [symmetric] table_skipRaw b1_def Let_def del: ex_table.simps)
  define b2 where "b2 = b1\<lparr>fEof := False\<rparr>"
  define b3 where "b3 = b2\<lparr>lCurrentRecord := r, fTop := False, fBottom := False, wasdel := False,
    fBof := False, fEof := False\<rparr>"
  have sc3: "scanning env tb texts page b3"
    by (rule scanning_idle [OF scb1]) (simp_all add: b3_def b2_def kept_def)
  have L: "recordList b3 = recordList a" "recordListPos b3 = 0" "recordListSize b3 = int s"
    "recordListDirection b3 = SR_LIST_BACKWARD"
    using B A p ps by (simp_all add: b3_def b2_def b1_def a1_def)
  obtain b4 where u4: "sqlExSkipRaw (ex_table env (Suc m)) env (step SR_LIST_BACKWARD) b3 = do {
      (c, a3) \<leftarrow> trySkippingOnCache env (step SR_LIST_BACKWARD) b4;
      if c = HB_SUCCESS then x_concludeSkipraw env a3
      else list_from_record (ex_table env (Suc m)) env (step SR_LIST_BACKWARD) a3 }"
    and sc4: "scanning env tb texts page b4"
    and D: "\<not> fEof b4" "\<not> fBof b4" "lCurrentRecord b4 = lCurrentRecord b3" "skipDirection b4 \<noteq> 0" "CurrRecord b4 \<noteq> None"
    "recordListPos b4 = recordListPos b3" "recordListSize b4 = recordListSize b3"
    "recordListDirection b4 = recordListDirection b3" "recordList b4 = recordList b3"
    "deletedList b4 = deletedList b3" "lEofAt b4 = lEofAt b3" "lBofAt b4 = lBofAt b3"
    by (rule raw_ready [OF sc3]) (use rin in \<open>simp_all add: b3_def\<close>)
  define c where "c = b4\<lparr>recordListPos := 1\<rparr>"
  have t4: "trySkippingOnCache env (- 1) b4 = read_current env False c"
    using D L ps by (simp add: trySkippingOnCache_def c_def)
  have scc: "scanning env tb texts page c"
    by (rule scanning_idle [OF sc4]) (simp_all add: c_def kept_def)
  have r1in: "tb_rows tb ! 1 \<in> set (tb_rows tb)"
    using ps by simp
  obtain pool ns where rd: "read_current env False c = Some (HB_SUCCESS, read_result (tb_rows tb ! 1) tb pool ns c)"
    "scanning env tb texts page (read_result (tb_rows tb ! 1) tb pool ns c)"
    by (rule read_current_natural [OF scc, of "tb_rows tb ! 1"]) (use D L ps r1 r1in in \<open>simp_all add: c_def\<close>)
  define e where "e = read_result (tb_rows tb ! 1) tb pool ns c"
  have raw2: "sqlExSkipRaw (ex_table env (Suc m)) env (- 1) b3 = Some (HB_SUCCESS, e)"
    using u4 t4 rd scanning_facts(11) [OF rd(2)] by (simp add: sm x_concludeSkipraw_def e_def del: ex_table.simps)
  have fe: "\<not> fEof e" "\<not> fBof e" "aBuffer e = tb_record tb (tb_rows tb ! 1)"
    using D by (simp_all add: e_def read_result_def c_def)
  have F2: "\<not> firstinteract b2" "lpdbPendingRel b2 = None" "\<not> bIsInsert b2"
    using scanning_facts(13,18,19) [OF scb1] by (simp_all add: b2_def)
  have cur3: "SR_GetCurrentRecordNum b2 = Some r"
    using rd0 B A p F2 by (simp add: SR_GetCurrentRecordNum_def b2_def b1_def a1_def)
  have "sqlExSkip T env (- 1) b2 = Some (HB_SUCCESS, e\<lparr>fEof := False\<rparr>)"
    using raw2 unfiltered [OF rd(2) [folded e_def], of "Suc m" "- 1"] F2 cur3
    unfolding sqlExSkip_def T_def by (simp add: x_first_def b3_def [symmetric] table_skipRaw fe Let_def del: ex_table.simps)
  moreover have "fBof b2"
    by (simp add: b2_def b1_def)
  moreover have "\<not> fBof (e\<lparr>fEof := False\<rparr>)" "aBuffer (e\<lparr>fEof := False\<rparr>) = tb_record tb (tb_rows tb ! 1)"
    using fe by simp_all
  ultimately show ?thesis
    using skip1 unfolding b2_def [symmetric] T_def by blast
qed

end
