(* ===== verification/ExScanProps.thy ===== *)
theory ExScanProps
  imports ExFaults
begin

text \<open>
  Properties of the movements of the second driver in the natural order.
\<close>

section \<open>Reading a table\<close>

text \<open>C1: GOTOP followed by skips of one record until the area is at its end reads every record of the table
  exactly once and in its order, for every table with a record, whatever its size and however often the record
  list has to be read anew: the first record is in the buffer after GOTOP, each skip that comes back gives the
  next one, and after as many skips as there are records the end is reached. The server is any that answers the
  statements of the driver as documented, the area any in the natural order whose list is empty, or stands on a
  record and knows the ends it has seen (\<open>may_go\<close>).\<close>

theorem table_read_from_top:
  assumes "may_go env tb texts page a" "connected env a" "length (tb_rows tb) \<le> k"
  shows "\<exists>b c. sqlExGoTop (ex_table env (Suc (Suc m))) env a = Some (HB_SUCCESS, b) \<and>
    walk (ex_table env (Suc (Suc m))) env SR_LIST_FORWARD k b = Some (map (tb_record tb) (tl (tb_rows tb)), c) \<and>
    aBuffer b = tb_record tb (hd (tb_rows tb)) \<and> \<not> fEof b \<and> fEof c"
proof -
  obtain b where b: "sqlExGoTop (ex_table env (Suc (Suc m))) env a = Some (HB_SUCCESS, b)"
    "landed env tb texts page SR_LIST_FORWARD 0 b"
    using go_top [OF assms(1,2)] by blast
  have ne: "tb_rows tb \<noteq> []"
    using assms(1) by (simp add: may_go_def)
  then have "length (ahead SR_LIST_FORWARD 0 (tb_rows tb)) < k"
    using assms(3) by (cases "tb_rows tb") simp_all
  with b(2) ne walk_all [of env tb texts page b SR_LIST_FORWARD 0 k m] show ?thesis
    using b(1) by (auto simp: landed_def lands_stands hd_conv_nth drop_Suc)
qed

text \<open>A table as long as the first list that is read.\<close>

theorem table_read_from_top_witness:
  "\<exists>b c. sqlExGoTop (ex_table (demo_env [1..25]) 2) (demo_env [1..25]) demo_area = Some (HB_SUCCESS, b) \<and>
    walk (ex_table (demo_env [1..25]) 2) (demo_env [1..25]) SR_LIST_FORWARD 25 b =
      Some (map (\<lambda>r. [INum r]) [2..25], c) \<and> fEof c"
proof -
  have rows: "[1..25] = 1 # [2..(25 :: int)]" "tb_rows (demo_served [1..25]) = [1..25]" "length [1..25 :: int] = 25"
    by (simp add: upto.simps [of 1]) (simp_all add: demo_served_def)
  have r: "tb_record (demo_served [1..25]) = (\<lambda>r. [INum r])"
    by (simp add: demo_served_def)
  have "may_go (demo_env [1..25]) (demo_served [1..25]) demo_texts ''PAGE'' demo_area" "connected (demo_env [1..25]) demo_area"
    by (rule demo_may_go; simp)+
  then show ?thesis
    using table_read_from_top [of "demo_env [1..25]" "demo_served [1..25]" demo_texts "''PAGE''" demo_area 25 0]
    unfolding rows(2,3) r numeral_2_eq_2 [symmetric] by (auto simp: rows(1) simp del: ex_table.simps walk.simps upto.simps)
qed

text \<open>C3: GOBOTTOM followed by skips backwards reads every record once in descending order, for every table with
  a record and whatever its size, and the walk ends at the beginning of the table, never at its end.\<close>

theorem table_read_from_bottom:
  assumes "may_go env tb texts page a" "length (tb_rows tb) \<le> k"
  shows "\<exists>b c. sqlExGoBottom (ex_table env (Suc (Suc m))) env a = Some (HB_SUCCESS, b) \<and>
    walk (ex_table env (Suc (Suc m))) env SR_LIST_BACKWARD k b =
      Some (map (tb_record tb) (rev (butlast (tb_rows tb))), c) \<and>
    aBuffer b = tb_record tb (last (tb_rows tb)) \<and> \<not> fEof b \<and> fBof c \<and> \<not> fEof c"
proof -
  let ?n = "length (tb_rows tb) - 1"
  obtain b where b: "sqlExGoBottom (ex_table env (Suc (Suc m))) env a = Some (HB_SUCCESS, b)"
    "landed env tb texts page SR_LIST_BACKWARD ?n b"
    using go_bottom [OF assms(1)] by blast
  have ne: "tb_rows tb \<noteq> []"
    using assms(1) by (simp add: may_go_def)
  then have "length (ahead SR_LIST_BACKWARD ?n (tb_rows tb)) < k"
    using assms(2) by (cases "tb_rows tb") simp_all
  with b(2) ne walk_all [of env tb texts page b SR_LIST_BACKWARD ?n k m] show ?thesis
    using b(1) by (auto simp: landed_def lands_stands last_conv_nth butlast_conv_take)
qed

theorem table_read_from_bottom_witness:
  "\<exists>b c. sqlExGoBottom (ex_table (demo_env [2, 3, 5]) 2) (demo_env [2, 3, 5]) demo_area = Some (HB_SUCCESS, b) \<and>
    walk (ex_table (demo_env [2, 3, 5]) 2) (demo_env [2, 3, 5]) SR_LIST_BACKWARD 3 b = Some ([[INum 3], [INum 2]], c)"
  using table_read_from_bottom [of "demo_env [2, 3, 5]" "demo_served [2, 3, 5]" demo_texts "''PAGE''" demo_area 3 0]
    demo_may_go [of "[2, 3, 5]"]
  by (auto simp: demo_served_def numeral_2_eq_2 simp del: ex_table.simps walk.simps)

text \<open>C2: a skip by one record, in either direction, from a record of the table comes back with the
  neighbour of that record in the table of the server in the buffer, or at the end of that direction with the flag
  of that end set and only that one; afterwards the record list is a part of the table again, so the step
  refines the step in the list of all records.\<close>

theorem skip_reaches_neighbour:
  assumes "scanning env tb texts page a" "on_row tb i a" "\<not> fEof a"
  shows "\<exists>b. sqlExSkip (ex_table env (Suc (Suc m))) env (step e) a = Some (HB_SUCCESS, b) \<and>
    moved env tb texts page e i b"
  by (rule skip_step [OF assms])

theorem skip_reaches_neighbour_witness:
  "\<exists>a b. sqlExSkip (ex_table (demo_env [2, 3, 5]) 2) (demo_env [2, 3, 5]) 1 a = Some (HB_SUCCESS, b) \<and>
    aBuffer a = [INum 2] \<and> aBuffer b = [INum 3]"
proof -
  obtain a where a: "arrived (demo_env [2, 3, 5]) (demo_served [2, 3, 5]) demo_texts ''PAGE'' 0 a"
    using demo_top [of "[2, 3, 5]"] by auto
  then obtain b where "sqlExSkip (ex_table (demo_env [2, 3, 5]) 2) (demo_env [2, 3, 5]) (step SR_LIST_FORWARD) a = Some (HB_SUCCESS, b)"
    "moved (demo_env [2, 3, 5]) (demo_served [2, 3, 5]) demo_texts ''PAGE'' SR_LIST_FORWARD 0 b"
    using skip_reaches_neighbour [of "demo_env [2, 3, 5]" "demo_served [2, 3, 5]" demo_texts "''PAGE''" a 0 0 SR_LIST_FORWARD]
    by (auto simp: arrived_def numeral_2_eq_2 simp del: ex_table.simps)
  with a show ?thesis
    by (auto simp: moved_def step_def arrived_def demo_served_def simp del: ex_table.simps)
qed

text \<open>C18: a GOTO to the number of a record of the table finds that record, from the list if it is there and
  from the server otherwise, and leaves an area on it that can be moved on.\<close>

theorem goto_finds_record:
  assumes "scanning env tb texts page (leave_pos a)" "placed tb a" "i < length (tb_rows tb)"
  shows "\<exists>b. sqlExGoTo (ex_table env (Suc m)) env (tb_rows tb ! i) a = Some (HB_SUCCESS, b) \<and>
    arrived env tb texts page i b"
  using goto_natural [OF assms] by blast

theorem goto_finds_record_witness:
  "\<exists>b. sqlExGoTo (ex_table (demo_env [2, 3, 5]) 1) (demo_env [2, 3, 5]) 5 demo_area = Some (HB_SUCCESS, b) \<and>
    aBuffer b = [INum 5]"
  using goto_finds_record [of "demo_env [2, 3, 5]" "demo_served [2, 3, 5]" demo_texts "''PAGE''" demo_area 2 0]
    demo_may_go [of "[2, 3, 5]"]
  by (auto simp: may_go_def arrived_def demo_served_def simp del: ex_table.simps)

text \<open>a GOTO to a number that no record has succeeds with both flags, end and beginning, set.\<close>

theorem goto_nothing_is_both_ends:
  assumes "scanning env tb texts page (leave_pos a)" "on_row tb i a" "r \<noteq> 0" "r \<notin> set (tb_rows tb)"
  shows "\<exists>b. sqlExGoTo (ex_table env (Suc m)) env r a = Some (HB_SUCCESS, b) \<and>
    scanning env tb texts page b \<and> fEof b \<and> fBof b"
proof -
  have "set (take (nat (recordListSize a)) (recordList a)) \<subseteq> set (tb_rows tb)"
    by (rule on_row_list [OF assms(2)])
  then show ?thesis
    using goto_missing [OF assms(1) on_row_placed [OF assms(2)] assms(3,4), of m] assms(4) by blast
qed

theorem goto_nothing_is_both_ends_witness:
  "\<exists>a b. sqlExGoTo (ex_table (demo_env [2, 3, 5]) 1) (demo_env [2, 3, 5]) 4 a = Some (HB_SUCCESS, b) \<and>
    aBuffer a = [INum 2] \<and> fEof b \<and> fBof b"
proof -
  obtain a where a: "arrived (demo_env [2, 3, 5]) (demo_served [2, 3, 5]) demo_texts ''PAGE'' 0 a"
    using demo_top [of "[2, 3, 5]"] by auto
  then have "scanning (demo_env [2, 3, 5]) (demo_served [2, 3, 5]) demo_texts ''PAGE'' (leave_pos a)"
    by (auto simp: arrived_def intro: scanning_leave)
  then show ?thesis
    using a goto_nothing_is_both_ends [of "demo_env [2, 3, 5]" "demo_served [2, 3, 5]" demo_texts "''PAGE''" a 0 4 0]
    by (auto simp: arrived_def demo_served_def simp del: ex_table.simps)
qed

section \<open>Skips over the end of the list\<close>

text \<open>The area with two records in its list; what it knows of the beginning of the table is given.\<close>

definition demo_listed :: "int \<Rightarrow> unit exarea" where
  "demo_listed known =
     demo_area\<lparr>recordList := 2 # 3 # replicate 248 0, recordListSize := 2, lBofAt := known\<rparr>"

lemma demo_listed_scanning:
  assumes "known \<in> {0, 2}"
  shows "scanning (demo_env [2, 3, 5, 7]) (demo_served [2, 3, 5, 7]) demo_texts ''PAGE'' (demo_listed known)"
proof -
  have sc: "scanning (demo_env [2, 3, 5, 7]) (demo_served [2, 3, 5, 7]) demo_texts ''PAGE'' demo_area"
    by (rule demo_scanning) simp_all
  have ends: "end_of d (demo_listed known) \<in> {0, last (along d (tb_rows (demo_served [2, 3, 5, 7])))}" for d
    using assms by (cases d) (auto simp: demo_listed_def demo_served_def, simp_all add: demo_area_def)
  have cs: "\<forall>cs. CurrRecord (demo_listed known) = Some cs \<longrightarrow> length cs = length (aFields demo_area)"
    by (simp add: demo_listed_def) (simp add: demo_area_def)
  have ll: "lLastRec (demo_listed known) \<notin> set (tb_rows (demo_served [2, 3, 5, 7]))"
    by (simp add: demo_listed_def demo_served_def) (simp add: demo_area_def)
  show ?thesis
    by (rule scanning_kept [OF sc _ cs _ ll]) (use ends in \<open>simp_all add: kept_def demo_listed_def\<close>)
qed

lemma demo_listed_window: "window (demo_served [2, 3, 5, 7]) 0 (demo_listed known)"
  unfolding window_def
  by (intro conjI exI [of _ 0] exI [of _ 2]) (simp_all add: demo_listed_def demo_served_def demo_area_def numeral_2_eq_2)

lemma demo_listed_row:
  "at_row (demo_served [2, 3, 5, 7]) 0 (demo_listed known)" "on_row (demo_served [2, 3, 5, 7]) 0 (demo_listed 2)"
proof -
  have d: "recordListDirection (demo_listed known) = SR_LIST_FORWARD" for known
    by (simp add: demo_listed_def demo_area_def)
  show "at_row (demo_served [2, 3, 5, 7]) 0 (demo_listed known)"
    using demo_listed_window [of known] by (simp add: at_row_def d towards_def) (simp add: demo_served_def)
  have "anchored (demo_served [2, 3, 5, 7]) 0 (demo_listed 2)"
    by (simp add: anchored_def d demo_served_def) (simp add: demo_listed_def)
  then show "on_row (demo_served [2, 3, 5, 7]) 0 (demo_listed 2)"
    using demo_listed_window [of 2] by (simp add: on_row_def d towards_def) (simp add: demo_served_def)
qed

text \<open>C35: a skip of more than one record that runs over the end of the record list stops at the end of the
  file although there are records behind the list, because the record the new list starts from is looked up
  once before the loop and not again in it.\<close>

theorem long_skip_ends_with_list:
  assumes "scanning env tb texts page a" "on_row tb i a" "\<not> fEof a" "recordListDirection a = SR_LIST_FORWARD"
    "recordListPos a + int k + 1 = recordListSize a" "0 < k" "k < n" "Suc (i + k) < length (tb_rows tb)"
  shows "\<exists>b. sqlExSkip (ex_table env (Suc (Suc m))) env (int n) a = Some (HB_SUCCESS, b) \<and> fEof b"
  by (rule skip_ends_at_list [OF assms])

theorem long_skip_ends_with_list_witness:
  "\<exists>b. sqlExSkip (ex_table (demo_env [2, 3, 5, 7]) 2) (demo_env [2, 3, 5, 7]) 2 (demo_listed 2) = Some (HB_SUCCESS, b) \<and>
    fEof b"
proof -
  have "\<not> fEof (demo_listed 2)" "recordListDirection (demo_listed 2) = SR_LIST_FORWARD"
    "recordListPos (demo_listed 2) + int 1 + 1 = recordListSize (demo_listed 2)"
    by (simp_all add: demo_listed_def) (simp_all add: demo_area_def)
  moreover have "Suc (0 + 1) < length (tb_rows (demo_served [2, 3, 5, 7]))"
    by (simp add: demo_served_def)
  ultimately show ?thesis
    using long_skip_ends_with_list [where m = 0 and k = 1 and n = 2, OF demo_listed_scanning [of 2] demo_listed_row(2)]
    by (simp add: numeral_2_eq_2 del: ex_table.simps)
qed

text \<open>C38: at the first record, a skip backwards gives the beginning of the file, but turns the list; if the
  first record was not known to be the first, the second skip backwards then goes to the second record of the
  table.\<close>

theorem skip_back_at_beginning_turns:
  assumes "scanning env tb texts page a" "at_row tb 0 a" "\<not> fEof a" "recordListDirection a = SR_LIST_FORWARD"
    "recordListPos a = 0" "1 < recordListSize a" "lBofAt a = 0"
  shows "\<exists>b c. sqlExSkip (ex_table env (Suc (Suc m))) env (- 1) a = Some (HB_SUCCESS, b) \<and> fBof b \<and>
    sqlExSkip (ex_table env (Suc (Suc m))) env (- 1) b = Some (HB_SUCCESS, c) \<and> \<not> fBof c \<and>
    aBuffer c = tb_record tb (tb_rows tb ! 1)"
  by (rule skip_back_turns [OF assms])

theorem skip_back_at_beginning_turns_witness:
  "\<exists>b c. sqlExSkip (ex_table (demo_env [2, 3, 5, 7]) 2) (demo_env [2, 3, 5, 7]) (- 1) (demo_listed 0) = Some (HB_SUCCESS, b) \<and>
    fBof b \<and>
    sqlExSkip (ex_table (demo_env [2, 3, 5, 7]) 2) (demo_env [2, 3, 5, 7]) (- 1) b = Some (HB_SUCCESS, c) \<and>
    aBuffer c = [INum 3]"
proof -
  have "\<not> fEof (demo_listed 0)" "recordListDirection (demo_listed 0) = SR_LIST_FORWARD"
    "recordListPos (demo_listed 0) = 0" "1 < recordListSize (demo_listed 0)" "lBofAt (demo_listed 0) = 0"
    by (simp_all add: demo_listed_def) (simp_all add: demo_area_def)
  moreover have "scanning (demo_env [2, 3, 5, 7]) (demo_served [2, 3, 5, 7]) demo_texts ''PAGE'' (demo_listed 0)"
    by (rule demo_listed_scanning) simp
  ultimately obtain b c where "sqlExSkip (ex_table (demo_env [2, 3, 5, 7]) 2) (demo_env [2, 3, 5, 7]) (- 1) (demo_listed 0) =
      Some (HB_SUCCESS, b)" "fBof b"
    "sqlExSkip (ex_table (demo_env [2, 3, 5, 7]) 2) (demo_env [2, 3, 5, 7]) (- 1) b = Some (HB_SUCCESS, c)"
    "aBuffer c = tb_record (demo_served [2, 3, 5, 7]) (tb_rows (demo_served [2, 3, 5, 7]) ! 1)"
    using skip_back_at_beginning_turns [where m = 0, OF _ demo_listed_row(1), of "demo_env [2, 3, 5, 7]" demo_texts "''PAGE''" 0]
    unfolding numeral_2_eq_2 by blast
  then show ?thesis
    by (simp add: demo_served_def del: ex_table.simps)
qed

end
