(* ===== verification/ExRowProps.thy ===== *)
theory ExRowProps
  imports ExDemo
begin

text \<open>
  Properties of writing records with the second driver, and of what it keeps between statements.
\<close>

section \<open>The UPDATE statement\<close>











definition mark_columns :: "nat list \<Rightarrow> bool list \<Rightarrow> bool list" where
  "mark_columns js m = foldl (\<lambda>m j. m[j := True]) m js"

lemma mark_columns_length [simp]: "length (mark_columns js m) = length m"
  unfolding mark_columns_def by (induction js arbitrary: m) simp_all














section \<open>Records that were appended\<close>

lemma read_new_kept:
  assumes "read_new_recno env rs sql a = Some (r, b)" "r \<noteq> HB_FAILURE"
  obtains n where "b = a\<lparr>recordList := (recordList a)[0 := n]\<rparr>" "recordList a \<noteq> []"
  using assms that
  by (auto simp: read_new_recno_def odbc_fail_def wr_at_def split: prod.splits if_splits Option.bind_splits)

text \<open>What is kept on the way from an area to one in which the new number was read.\<close>

definition number_read :: "'w exarea \<Rightarrow> 'w exarea \<Rightarrow> bool" where
  "number_read a b \<longleftrightarrow> fEof b = fEof a \<and> bHistoric b = bHistoric a \<and> recordListSize b = recordListSize a"

lemma new_recno_kept:
  assumes "new_recno env an a = Some (r, b)" "r \<noteq> HB_FAILURE"
  shows "number_read a b"
proof -
  have rd: "number_read c b" if "read_new_recno env rs sql c = Some (r, b)" for rs sql c
    by (rule read_new_kept [OF that assms(2)]) (simp add: number_read_def)
  have nx: "number_read a c" if "nextval_stmt env a = Some (r, c)" "r \<noteq> HB_FAILURE" for r c
    using that
    by (auto simp: nextval_stmt_def odbc_fail_def number_read_def Let_def split: if_splits Option.bind_splits)
  have ex: "number_read c (snd (SQLExecute env st c))" for st c
    by (simp add: SQLExecute_def number_read_def Let_def)
  have tr: "number_read c d \<Longrightarrow> number_read d e \<Longrightarrow> number_read c e" for c d e :: "'a exarea"
    by (simp add: number_read_def)
  consider (row) "nSystemID a \<in> {RDBMS_FIREBR, RDBMS_FIREBR3, RDBMS_FIREBR4, RDBMS_FIREBR5}"
    | (more) "nSystemID a \<notin> {RDBMS_FIREBR, RDBMS_FIREBR3, RDBMS_FIREBR4, RDBMS_FIREBR5}"
        "nSystemID a \<in> {RDBMS_MSSQL7, RDBMS_SYBASE, RDBMS_IBMDB2, RDBMS_POSTGR}"
    | (nextval) "nSystemID a \<notin> {RDBMS_FIREBR, RDBMS_FIREBR3, RDBMS_FIREBR4, RDBMS_FIREBR5}"
        "nSystemID a \<notin> {RDBMS_MSSQL7, RDBMS_SYBASE, RDBMS_IBMDB2, RDBMS_POSTGR}"
        "nSystemID a \<in> {RDBMS_ORACLE, RDBMS_MYSQL, RDBMS_MARIADB, RDBMS_CUBRID}"
    | (none) "nSystemID a \<notin> {RDBMS_FIREBR, RDBMS_FIREBR3, RDBMS_FIREBR4, RDBMS_FIREBR5}"
        "nSystemID a \<notin> {RDBMS_MSSQL7, RDBMS_SYBASE, RDBMS_IBMDB2, RDBMS_POSTGR}"
        "nSystemID a \<notin> {RDBMS_ORACLE, RDBMS_MYSQL, RDBMS_MARIADB, RDBMS_CUBRID}"
    by blast
  then show ?thesis
  proof cases
    case row
    then have "new_recno env an a = read_new_recno env (an_rows an) (sSql a) a"
      by (simp only: new_recno_def Let_def if_True)
    then show ?thesis
      using assms rd by simp
  next
    case more
    then show ?thesis
      using assms rd
      by (auto simp: new_recno_def odbc_fail_def Let_def split: prod.splits if_splits Option.bind_splits)
  next
    case nextval
    then have "new_recno env an a = do {
        (r, a1) \<leftarrow> nextval_stmt env a;
        if r = HB_FAILURE then Some (HB_FAILURE, a1)
        else do {
          st \<leftarrow> hStmtNextval a1;
          let (an2, a2) = SQLExecute env st a1;
          if CHECK_SQL_N_OK (an_res an2) then odbc_fail env (st_sql st) a2
          else read_new_recno env (an_rows an2) (st_sql st) a2
        }
      }"
      by (simp only: new_recno_def Let_def if_True if_False)
    then obtain r2 c st where c: "nextval_stmt env a = Some (r2, c)" "r2 \<noteq> HB_FAILURE"
      "(case SQLExecute env st c of (an2, a2) \<Rightarrow>
         if CHECK_SQL_N_OK (an_res an2) then odbc_fail env (st_sql st) a2
         else read_new_recno env (an_rows an2) (st_sql st) a2) = Some (r, b)"
      using assms by (auto simp: Let_def split: if_splits Option.bind_splits)
    have "number_read (snd (SQLExecute env st c)) b"
      using c(3) rd assms(2) by (auto simp: odbc_fail_def split: prod.splits if_splits Option.bind_splits)
    then show ?thesis
      using tr [OF nx [OF c(1,2)] tr [OF ex]] by blast
  next
    case none
    then have "new_recno env an a = Some (HB_SUCCESS, a)"
      by (simp only: new_recno_def Let_def if_False)
    then show ?thesis
      using assms by (simp add: number_read_def)
  qed
qed

lemma insert_executed:
  assumes "SR_ExecuteInsertStmt env a = Some (HB_SUCCESS, b)"
  shows "fEof b = fEof a" "bHistoric b = bHistoric a" "recordListPos b = 0" "recordListSize b = 1"
    "rd_at (recordList b) 0 = Some (lLastRec b - 1)"
proof -
  obtain st where st: "hStmtInsert a = Some st"
    using assms by (auto simp: SR_ExecuteInsertStmt_def split: Option.bind_splits)
  obtain an a1 where an: "SQLExecute env st a = (an, a1)"
    by (cases "SQLExecute env st a")
  have a1: "number_read a a1"
    using an by (auto simp: SQLExecute_def number_read_def Let_def)
  obtain r a2 where a2: "new_recno env an a1 = Some (r, a2)" "rd_at (recordList a2) 0 \<noteq> None"
    "b = a2\<lparr>deletedList := deletedList b, recordListPos := 0, recordListSize := 1, aInfo := aInfo b,
      lLastRec := the (rd_at (recordList a2) 0) + 1\<rparr>" "r \<noteq> HB_FAILURE"
    using assms
    by (auto simp: SR_ExecuteInsertStmt_def st an odbc_fail_def split: if_splits Option.bind_splits)
  have "number_read a1 a2"
    by (rule new_recno_kept [OF a2(1,4)])
  then have k: "fEof a2 = fEof a" "bHistoric a2 = bHistoric a"
    using a1 by (simp_all add: number_read_def)
  show "fEof b = fEof a" "bHistoric b = bHistoric a" "recordListPos b = 0" "recordListSize b = 1"
    by (subst a2(3), simp add: k)+
  show "rd_at (recordList b) 0 = Some (lLastRec b - 1)"
    by (subst (1 2) a2(3)) (use a2(2) in auto)
qed

text \<open>What \<open>sqlExGoCold\<close> leaves of the area when a new record was written.\<close>

definition written :: "'w exarea \<Rightarrow> 'w exarea" where
  "written a = clear_mask (a\<lparr>bufferHot := False, bIsInsert := False\<rparr>)"

text \<open>C36: after an appended record is written the area still claims to be at its end: the number of the
  current record is one more than the number the server gave, and a later change of the record is dropped while
  writing it is reported as a success.\<close>

theorem change_after_append_dropped:
  assumes "SR_ExecuteInsertStmt env a = Some (HB_SUCCESS, b)" "fEof a" "\<not> bHistoric a"
  shows "\<exists>n. rd_at (recordList (written b)) (recordListPos (written b)) = Some n \<and>
    SR_GetCurrentRecordNum (written b) = Some (n + 1) \<and>
    sqlExGoCold env ((written b)\<lparr>aBuffer := v, editMask := m, bufferHot := True\<rparr>) =
      Some (HB_SUCCESS, (written b)\<lparr>aBuffer := v\<rparr>)"
proof -
  note I = insert_executed [OF assms(1)]
  have "(written b)\<lparr>aBuffer := v, editMask := m, bufferHot := True\<rparr> =
      ((written b)\<lparr>aBuffer := v\<rparr>)\<lparr>editMask := m, bufferHot := True\<rparr>"
    by simp
  then show ?thesis
    using I assms(2,3)
    by (intro exI [of _ "lLastRec b - 1"])
       (simp add: SR_GetCurrentRecordNum_def sqlExGoCold_def written_def clear_mask_def)
qed

text \<open>An area on Firebird that has a record to append.\<close>

definition demo_append :: "unit exarea" where
  "demo_append = demo_area\<lparr>nSystemID := RDBMS_FIREBR, hStmtInsert := Some \<lparr>st_sql = ''INSERT'', st_binds = []\<rparr>,
     fEof := True, bIsInsert := True, bufferHot := True\<rparr>"

definition demo_returning :: "unit exenv" where
  "demo_returning = (demo_env [])\<lparr>execute := (\<lambda>s ps w. ok_rows w [[INum 7]])\<rparr>"

theorem change_after_append_dropped_witness:
  "\<exists>b. SR_ExecuteInsertStmt demo_returning demo_append = Some (HB_SUCCESS, b) \<and>
    SR_GetCurrentRecordNum (written b) = Some 8 \<and> recordList b ! 0 = 7 \<and>
    sqlExGoCold demo_returning ((written b)\<lparr>aBuffer := [INum 1], editMask := [True], bufferHot := True\<rparr>) =
      Some (HB_SUCCESS, (written b)\<lparr>aBuffer := [INum 1]\<rparr>)"
proof -
  define b where "b = demo_append\<lparr>recordList := (recordList demo_append)[0 := 7],
    deletedList := (deletedList demo_append)[0 := SPACE], recordListPos := 0, recordListSize := 1,
    aInfo := arr_set (aInfo demo_append) SR_AINFO_RCOUNT (INum 7), lLastRec := 8\<rparr>"
  have sel: "hStmtInsert demo_append = Some \<lparr>st_sql = ''INSERT'', st_binds = []\<rparr>" "nSystemID demo_append = RDBMS_FIREBR"
    "length (recordList demo_append) = 250" "length (deletedList demo_append) = 250"
    by (simp_all add: demo_append_def demo_area_def)
  then have ne: "recordList demo_append \<noteq> []" "deletedList demo_append \<noteq> []"
    by auto
  have n: "new_recno demo_returning (ok_rows w [[INum 7]]) demo_append =
      Some (HB_SUCCESS, demo_append\<lparr>recordList := (recordList demo_append)[0 := 7]\<rparr>)" for w
    using sel(2,3)
    by (simp add: new_recno_def read_new_recno_def ok_rows_def SQLGetData_long_def demo_returning_def demo_env_def wr_at_def Let_def)
  have x: "SQLExecute demo_returning \<lparr>st_sql = ''INSERT'', st_binds = []\<rparr> demo_append = (ok_rows (world demo_append) [[INum 7]], demo_append)"
    by (simp add: SQLExecute_def demo_returning_def ok_rows_def)
  have e: "SR_ExecuteInsertStmt demo_returning demo_append = Some (HB_SUCCESS, b)"
    using sel ne by (simp add: SR_ExecuteInsertStmt_def x n b_def rd_at_def wr_at_def) (simp add: ok_rows_def)
  have l: "recordList b ! 0 = 7" "length (recordList b) = 250" "recordListPos (written b) = 0" "recordList (written b) = recordList b"
    using sel by (simp_all add: b_def written_def clear_mask_def)
  have "fEof demo_append" "\<not> bHistoric demo_append"
    by (simp_all add: demo_append_def demo_area_def)
  from change_after_append_dropped [OF e this, of "[True]" "[INum 1]"] e l show ?thesis
    by (auto simp: rd_at_def)
qed

section \<open>Restrictions that changed\<close>

text \<open>C37: the query for the first record takes back the mark that a filter changed. The prepared statements
  of the skips, which have the old filter in them, are then taken for current and left as they are.\<close>

theorem top_query_hides_changed_filter:
  assumes "answers env texts" "hOrdCurrent a = 0" "length (restriction_text texts) \<le> 3000" "\<not> bOrderChanged a"
    and "IndexBindings a = Some [ib] # slots" "SkipFwdStmt ib = Some st"
  shows "\<exists>b. getWhereExpression env SR_LIST_FROM_TOP (a\<lparr>bConditionChanged1 := True\<rparr>) = Some b \<and>
    CreateSkipStmt env b = Some (False, b) \<and> IndexBindings b = IndexBindings a"
proof -
  let ?c = "a\<lparr>sWhere := [], bConditionChanged1 := False, indexLevel := - 1, recordListDirection := SR_LIST_FORWARD\<rparr>"
  define b where "b = ?c\<lparr>sWhere := wheres (map texts restriction_messages)\<rparr>"
  have "SR_SolveFilters env False ?c = Some b"
    unfolding b_def by (rule filters_first) (use assms in simp_all)
  then have "getWhereExpression env SR_LIST_FROM_TOP (a\<lparr>bConditionChanged1 := True\<rparr>) = Some b"
    by (simp add: getWhereExpression_def)
  moreover have "CreateSkipStmt env b = Some (False, b)"
    using assms by (simp add: CreateSkipStmt_def skip_stmt_missing_def dir_stmt_def rd_at_def b_def)
  ultimately show ?thesis
    by (simp add: b_def)
qed

theorem top_query_hides_changed_filter_witness:
  "\<exists>b. getWhereExpression (demo_env []) SR_LIST_FROM_TOP
      (demo_area\<lparr>IndexBindings := [Some [zero_index\<lparr>SkipFwdStmt := Some \<lparr>st_sql = ''OLD'', st_binds = []\<rparr>\<rparr>]],
                 bConditionChanged1 := True\<rparr>) = Some b \<and>
    CreateSkipStmt (demo_env []) b = Some (False, b)"
proof -
  define a where "a = demo_area\<lparr>IndexBindings := [Some [zero_index\<lparr>SkipFwdStmt := Some \<lparr>st_sql = ''OLD'', st_binds = []\<rparr>\<rparr>]]\<rparr>"
  have "answers (demo_env []) demo_texts"
    by (simp add: answers_def demo_texts_def demo_env_def restriction_messages_def)
  moreover have "length (restriction_text demo_texts) \<le> 3000"
    by (simp add: restriction_text_def conjoined_def restriction_messages_def demo_texts_def)
  moreover have "hOrdCurrent a = 0" "\<not> bOrderChanged a"
    by (simp_all add: a_def demo_area_def)
  ultimately show ?thesis
    using top_query_hides_changed_filter [of "demo_env []" demo_texts a
        "zero_index\<lparr>SkipFwdStmt := Some \<lparr>st_sql = ''OLD'', st_binds = []\<rparr>\<rparr>" "[]"]
    by (auto simp: a_def)
qed

section \<open>The pool and the page\<close>

lemma pool_add_length: "length (pool_add k v pool) \<le> Suc (length pool)"
  by (simp add: pool_add_def)

lemma read_page_pool:
  assumes "read_page env k n res rs a = Some (x, b)"
  shows "length (hBufferPool b) \<le> length (hBufferPool a) + k"
  using assms
proof (induction k arbitrary: n res rs a)
  case (Suc k)
  have ih: "length (hBufferPool b) \<le> Suc (length (hBufferPool a) + k)"
    if "read_page env k n' res' rest c = Some (x, b)" "length (hBufferPool c) \<le> Suc (length (hBufferPool a))" for n' res' rest c
    using Suc.IH [OF that(1)] that(2) by simp
  from Suc.prems show ?case
    by (auto simp: Let_def split: prod.splits if_splits Option.bind_splits)
       (rule ih, assumption, simp add: pool_add_length)+
qed simp

lemma prepare_page_pool:
  "prepare_page env a = Some (r, b) \<Longrightarrow> hBufferPool b = hBufferPool a"
  by (auto simp: prepare_page_def Let_def split: prod.splits if_splits Option.bind_splits)

lemma column_list_pool:
  "SR_getColumnList env a = Some (r, b) \<Longrightarrow> hBufferPool b = hBufferPool a"
  by (auto simp: SR_getColumnList_def Let_def split: prod.splits if_splits Option.bind_splits)

lemma retrieve_pool:
  "retrieve_from k i a = Some b \<Longrightarrow> hBufferPool b = hBufferPool a"
  by (induction k arbitrary: i a) (auto simp: Let_def split: if_splits Option.bind_splits)

text \<open>C19: reading a page of records adds at most one page to the pool, which is emptied when it has more
  records than it may: the pool never has more than its size and one page.\<close>

theorem pool_stays_bounded:
  assumes u: "updateRecordBuffer env upd a = Some (HB_SUCCESS, b)"
    and a: "int (length (hBufferPool a)) \<le> max 0 (s_bufferPoolSize env) + int (s_pageReadSize env)"
  shows "int (length (hBufferPool b)) \<le> max 0 (s_bufferPoolSize env) + int (s_pageReadSize env)"
proof -
  define a1 where "a1 = (if int (length (hBufferPool a)) > s_bufferPoolSize env then a\<lparr>hBufferPool := []\<rparr> else a)"
  have a1: "int (length (hBufferPool a1)) \<le> max 0 (s_bufferPoolSize env)"
    by (auto simp: a1_def)
  have sx: "hBufferPool (snd (SQLExecute env st c)) = hBufferPool c" for st c
    by (simp add: SQLExecute_def Let_def)
  obtain key where key: "rd_at (recordList a) (recordListPos a) = Some key"
    using u by (auto simp: updateRecordBuffer_def split: Option.bind_splits)
  show ?thesis
  proof (cases "if upd then None else map_of (hBufferPool a) key")
    case (Some v)
    then have "b = a\<lparr>aBuffer := hb_arrayCopy v (aBuffer a)\<rparr>"
      using u by (auto simp: updateRecordBuffer_def key split: if_splits)
    then show ?thesis using a by simp
  next
    case None
    obtain changed a2 r3 a3 a4 st an a5 x where
      p: "SR_getColumnList env a1 = Some (changed, a2)"
      "(if changed \<or> hStmtBuffer a2 = None then prepare_page env a2 else Some (HB_SUCCESS, a2)) = Some (r3, a3)"
      "retrieve_from (s_pageReadSize env) 0 a3 = Some a4" "SQLExecute env st a4 = (an, a5)"
      "read_page env (s_pageReadSize env) 0 (an_res an) (an_rows an) a5 = Some (x, b)"
      using u unfolding updateRecordBuffer_def key Option.bind.bind_lunit None option.case a1_def [symmetric] Let_def
      by (auto split: prod.splits if_splits Option.bind_splits option.splits)
    have "hBufferPool a5 = hBufferPool a4"
      using sx [of st a4] p(4) by simp
    also have "\<dots> = hBufferPool a1"
      using retrieve_pool [OF p(3)] column_list_pool [OF p(1)] prepare_page_pool [of env a2 r3 a3] p(2)
      by (auto split: if_splits)
    finally show ?thesis
      using read_page_pool [OF p(5)] a1 by simp
  qed
qed

lemma demo_single_read:
  "\<exists>b. updateRecordBuffer (demo_env [2, 3, 5]) upd (single 2 demo_area) = Some (HB_SUCCESS, b)"
proof -
  have sc: "scanning (demo_env [2, 3, 5]) (demo_served [2, 3, 5]) demo_texts ''PAGE'' (single 2 demo_area)"
    by (rule scanning_single [OF demo_scanning]) simp_all
  have l: "length (recordList demo_area) = 250"
    by (simp add: demo_area_def)
  then have "recordList demo_area \<noteq> []"
    by auto
  then have "recordList (single 2 demo_area) ! nat (recordListPos (single 2 demo_area)) = 2"
    "0 \<le> recordListPos (single 2 demo_area)" "recordListPos (single 2 demo_area) < recordListSize (single 2 demo_area)"
    "recordListSize (single 2 demo_area) \<le> int (length (recordList (single 2 demo_area)))"
    using l by (simp_all add: single_def)
  then show ?thesis
    using read_natural [OF scanning_facts(4,5) [OF sc], of 2 upd] by (auto simp: demo_served_def)
qed

theorem pool_stays_bounded_witness:
  "\<exists>b. updateRecordBuffer (demo_env [2, 3, 5]) False (single 2 demo_area) = Some (HB_SUCCESS, b) \<and>
    length (hBufferPool b) \<le> 252"
proof -
  obtain b where b: "updateRecordBuffer (demo_env [2, 3, 5]) False (single 2 demo_area) = Some (HB_SUCCESS, b)"
    using demo_single_read by blast
  have e: "s_pageReadSize (demo_env [2, 3, 5]) = 2" "s_bufferPoolSize (demo_env [2, 3, 5]) = 250"
    by (simp_all add: demo_env_def)
  have "hBufferPool (single 2 demo_area) = []"
    by (simp add: single_def) (simp add: demo_area_def)
  with b show ?thesis
    using pool_stays_bounded [OF b] by (simp add: e)
qed

lemma retrieve_overrun:
  assumes "length (lRecordToRetrieve a) < i + k" "i \<le> length (lRecordToRetrieve a)"
  shows "retrieve_from k i a = None"
  using assms
proof (induction k arbitrary: i a)
  case (Suc k)
  show ?case
  proof (cases "i = length (lRecordToRetrieve a)")
    case True
    then show ?thesis
      by (auto split: Option.bind_splits)
  next
    case False
    then have "retrieve_from k (Suc i) (a\<lparr>lRecordToRetrieve := (lRecordToRetrieve a)[i := n]\<rparr>) = None" for n
      using Suc.prems by (intro Suc.IH) simp_all
    then show ?thesis
      by (auto split: Option.bind_splits if_splits)
  qed
qed simp

text \<open>C39: the numbers of a page are kept in an array of the size a page had when the area was made; with a
  larger page set later, reading a page writes behind that array, for every such size.\<close>

theorem larger_page_overruns:
  assumes "fields_settled a" "hStmtBuffer a \<noteq> None" "length (lRecordToRetrieve a) = s_pageReadSize env"
    "s_pageReadSize env < n"
  shows "updateRecordBuffer (SR_SETPAGEREADSIZE (INum (int n)) env) True a = None"
proof -
  define env2 where "env2 = SR_SETPAGEREADSIZE (INum (int n)) env"
  have n: "s_pageReadSize env2 = n"
    by (simp add: env2_def SR_SETPAGEREADSIZE_def)
  define a1 where "a1 = (if int (length (hBufferPool a)) > s_bufferPoolSize env2 then a\<lparr>hBufferPool := []\<rparr> else a)"
  have "SR_getColumnList env2 a1 = Some (False, a1)" "hStmtBuffer a1 \<noteq> None"
    using assms(1,2) by (auto simp: SR_getColumnList_def fields_settled_def a1_def Let_def)
  moreover have "retrieve_from n 0 a1 = None"
    by (rule retrieve_overrun) (use assms(3,4) in \<open>simp_all add: a1_def\<close>)
  ultimately show ?thesis
    unfolding env2_def [symmetric] updateRecordBuffer_def
    by (auto simp: n a1_def [symmetric] Let_def split: Option.bind_splits)
qed

theorem larger_page_overruns_witness:
  "updateRecordBuffer (SR_SETPAGEREADSIZE (INum 50) (demo_env [2, 3, 5])) True (single 2 demo_area) = None \<and>
   updateRecordBuffer (demo_env [2, 3, 5]) True (single 2 demo_area) \<noteq> None"
proof -
  have "fields_settled (single 2 demo_area)" "hStmtBuffer (single 2 demo_area) \<noteq> None"
    "length (lRecordToRetrieve (single 2 demo_area)) = s_pageReadSize (demo_env [2, 3, 5])" "s_pageReadSize (demo_env [2, 3, 5]) < 50"
    by (simp_all add: single_def fields_settled_def) (simp_all add: demo_area_def demo_env_def)
  from larger_page_overruns [OF this] show ?thesis
    using demo_single_read [of True] by auto
qed

section \<open>A table that has become empty\<close>

text \<open>GOTOP on a table that has become empty comes back with success, no flag set, and the record that
  was in the list before in the buffer.\<close>

theorem top_of_empty_shows_old_record:
  assumes sc: "scanning env tb texts page (leave_pos a)" and ne: "tb_rows tb = []"
    and sv: "serves_ends env (world a) tb (end_text texts a)" and con: "connected env a" and bof: "lBofAt a = 0"
    and len: "length (recordList a) = RECORD_LIST_SIZE" "length (deletedList a) = RECORD_LIST_SIZE"
    and old: "recordListSize a = 1" "recordListPos a = 0" "recordList a ! 0 = r" "map_of (hBufferPool a) r = Some v"
  shows "\<exists>b. sqlExGoTop (ex_table env (Suc (Suc m))) env a = Some (HB_SUCCESS, b) \<and>
    \<not> fEof b \<and> \<not> fBof b \<and> aBuffer b = v \<and> SR_GetCurrentRecordNum b = Some r"
proof -
  have scr: "scanning env tb texts page (ready a)"
    by (rule scanning_ready [OF sc])
  note F = scanning_facts [OF scr]
  have t: "serves_ends env (world (ready a)) tb (end_text texts (ready a))"
  proof -
    have "end_text texts (ready a) = end_text texts a" "world (ready a) = world a"
      by (simp_all add: end_text_def quoted_def fun_eq_iff ready_def leave_pos_def clear_mask_def)
    then show ?thesis using sv by simp
  qed
  obtain c w o1 l1 l2 s where "list_from_end env (end_type SR_LIST_FORWARD) (ready a) = Some (HB_SUCCESS, end_list tb SR_LIST_FORWARD c)"
    and c: "c = (ready a)\<lparr>recordListDirection := SR_LIST_FORWARD, sOrderBy := o1, sWhere := w, indexLevel := - 1,
      bConditionChanged1 := False, sLimit1 := l1, sLimit2 := l2, sSql := s\<rparr>"
    by (rule from_end [OF scr t, of SR_LIST_FORWARD]) (use len in simp_all)
  then have ge: "go_end (ex_table env (Suc (Suc m))) env SR_LIST_FROM_TOP (lBofAt (ready a)) (ready a) = Some (HB_SUCCESS, c)"
    using bof ne by (simp add: go_end_def end_list_def)
  define d where "d = c\<lparr>fTop := True, fBottom := False, skipDirection := 1\<rparr>"
  define e where "e = d\<lparr>lBofAt := r, fEof := False, fBof := False\<rparr>"
  have lst: "recordListSize e = 1" "recordListPos e = 0" "recordList e = recordList a" "hBufferPool e = hBufferPool a"
    "fEof e = False" "fBof e = False" "bIsInsert e = False" "lpdbRelations e = False" "aBuffer e = aBuffer a"
    "recordListSize d = 1" "recordListPos d = 0" "recordList d = recordList a"
    using old F(11,13) by (simp_all add: e_def d_def c, simp_all add: ready_def leave_pos_def clear_mask_def)
  have rd: "rd_at (recordList a) 0 = Some r"
    using len old by (simp add: rd_at_def)
  have "v = tb_record tb r" "length (tb_record tb r) = length (aBuffer (ready a))"
    using F(5) old(4) by (auto simp: reading_def ready_def leave_pos_def clear_mask_def)
  moreover have "aBuffer (ready a) = aBuffer a"
    by (simp add: ready_def leave_pos_def clear_mask_def)
  ultimately have "hb_arrayCopy v (aBuffer a) = v"
    by (simp add: hb_arrayCopy_same)
  then have "updateRecordBuffer env False e = Some (HB_SUCCESS, e\<lparr>aBuffer := v\<rparr>)"
    using rd old(4) by (simp add: updateRecordBuffer_def lst)
  then have "on_first env SR_LIST_FROM_TOP d = Some (HB_SUCCESS, e\<lparr>aBuffer := v\<rparr>)"
    using rd by (simp add: on_first_def lst read_current_def) (simp add: e_def)
  moreover have "\<not> x_filtering env (e\<lparr>aBuffer := v\<rparr>)"
    using F(17) by (simp add: e_def d_def c x_filtering_def)
  then have "arrive (ex_table env (Suc (Suc m))) env 1 (e\<lparr>aBuffer := v\<rparr>) = Some (HB_SUCCESS, e\<lparr>aBuffer := v\<rparr>)"
    using lst by (simp add: arrive_def sqlExTable_def sqlExSkipFilter_def)
  ultimately have "sqlExGoTop (ex_table env (Suc (Suc m))) env a = Some (HB_SUCCESS, e\<lparr>aBuffer := v\<rparr>)"
    unfolding sqlExGoTop_def using ge go_cold_ready [OF sc, of m] params_kept [OF sc con]
    by (simp add: d_def del: ex_table.simps)
  then show ?thesis
    using rd lst by (simp add: SR_GetCurrentRecordNum_def)
qed

text \<open>A record in the pool and the list of an area whose table has none.\<close>

definition demo_emptied :: "unit exarea" where
  "demo_emptied = single 2 (read_result 2 (demo_served []) [(2, [INum 2])] [0, 0] demo_area)"

theorem top_of_empty_shows_old_record_witness:
  "\<exists>b. sqlExGoTop (ex_table (demo_env []) 2) (demo_env []) demo_emptied = Some (HB_SUCCESS, b) \<and>
    \<not> fEof b \<and> aBuffer b = [INum 2] \<and> SR_GetCurrentRecordNum b = Some 2"
proof -
  have sc: "scanning (demo_env []) (demo_served []) demo_texts ''PAGE'' demo_area"
    by (rule demo_scanning) simp_all
  have "reading (demo_env []) (demo_served []) ''PAGE'' (read_result 2 (demo_served []) [(2, [INum 2])] [0, 0] demo_area)"
    by (rule reading_result [OF scanning_facts(5) [OF sc]]) (simp_all add: demo_served_def demo_env_def)
  then have "scanning (demo_env []) (demo_served []) demo_texts ''PAGE'' demo_emptied"
    unfolding demo_emptied_def by (intro scanning_single scanning_read [OF sc])
  then have scl: "scanning (demo_env []) (demo_served []) demo_texts ''PAGE'' (leave_pos demo_emptied)"
    by (rule scanning_leave)
  have e: "world demo_emptied = ()" "oSql demo_emptied = Some NIL" "bConnVerified demo_emptied" "lBofAt demo_emptied = 0"
    "length (recordList demo_emptied) = 250" "length (deletedList demo_emptied) = 250" "recordListSize demo_emptied = 1"
    "recordListPos demo_emptied = 0" "map_of (hBufferPool demo_emptied) 2 = Some [INum 2]"
    by (simp_all add: demo_emptied_def single_def read_result_def) (simp_all add: demo_area_def)
  have t: "end_text demo_texts demo_emptied = demo_ends"
    by (simp add: demo_ends_def end_text_def quoted_def fun_eq_iff demo_emptied_def single_def read_result_def)
  have "serves_ends (demo_env []) (world demo_emptied) (demo_served []) (end_text demo_texts demo_emptied)"
    using demo_serves_ends [of "[]"] by (simp add: t e)
  moreover have "connected (demo_env []) demo_emptied"
    by (simp add: connected_def e) (simp add: demo_env_def)
  moreover have "recordList demo_area \<noteq> []"
    by (simp add: demo_area_def)
  then have "recordList demo_emptied ! 0 = 2"
    by (simp add: demo_emptied_def single_def read_result_def)
  moreover have "tb_rows (demo_served []) = []"
    by (simp add: demo_served_def)
  ultimately show ?thesis
    using top_of_empty_shows_old_record [OF scl, where m = 0 and r = 2 and v = "[INum 2]"] e
    unfolding numeral_2_eq_2 by blast
qed

section \<open>Restrictions in the statements\<close>

text \<open>to a statement that has a condition each restriction that is not empty is added once, in the order
  FOR, FILTER, SCOPE, user filter, in parentheses and joined by AND; nothing else of the area is changed.\<close>

theorem restrictions_joined:
  assumes "answers env texts" "hOrdCurrent a = 0" "length (restriction_text texts) \<le> 3000"
    "length (sWhere a) < 200"
  shows "SR_SolveFilters env True a =
      Some (a\<lparr>sWhere := sWhere a @
        concat (map (\<lambda>m. if texts m = [] then [] else '' AND ( '' @ texts m @ '' )'') [''CFOR'', ''CFILTER'', ''CSCOPE'', ''CFLTUSR''])\<rparr>)"
proof -
  have "restriction_text texts =
      concat (map (\<lambda>m. if texts m = [] then [] else '' AND ( '' @ texts m @ '' )'') [''CFOR'', ''CFILTER'', ''CSCOPE'', ''CFLTUSR''])"
    by (simp add: restriction_text_def restriction_messages_def conjoined_def)
  then show ?thesis
    using filters_natural [OF assms(1,2)] assms(3,4) by simp
qed

theorem restrictions_joined_witness:
  "SR_SolveFilters ((demo_env [])\<lparr>x_send := (\<lambda>m vs a. Some (Str (if m = ''CFILTER'' then ''X = 1'' else []), a))\<rparr>) True
     (demo_area\<lparr>sWhere := ''WHERE Y''\<rparr>) = Some (demo_area\<lparr>sWhere := ''WHERE Y AND ( X = 1 )''\<rparr>)"
proof -
  have "answers ((demo_env [])\<lparr>x_send := (\<lambda>m vs a. Some (Str (if m = ''CFILTER'' then ''X = 1'' else []), a))\<rparr>)
      (\<lambda>m. if m = ''CFILTER'' then ''X = 1'' else [])"
    by (simp add: answers_def restriction_messages_def)
  moreover have "hOrdCurrent (demo_area\<lparr>sWhere := ''WHERE Y''\<rparr>) = 0"
    by (simp add: demo_area_def)
  ultimately show ?thesis
    using restrictions_joined [of _ "\<lambda>m. if m = ''CFILTER'' then ''X = 1'' else []" "demo_area\<lparr>sWhere := ''WHERE Y''\<rparr>"]
    by (simp add: restriction_text_def conjoined_def restriction_messages_def)
qed

end
