(* ===== verification/Lexer.thy ===== *)
theory Lexer
  imports HbItem
begin

text \<open>
  The lexical analyser of the SQL phrases, \<open>source/sqllex.c\<close>: \<open>sqlyylex\<close> and the statement
  record of \<open>source/hbsql.h\<close> it works on. Pointers into the phrase are offsets from
  \<open>stmt->query\<close>; \<open>query\<close> holds the readable bytes from there on, the terminating NUL included,
  and a read outside them makes the result \<open>None\<close>. A token is its code, the field of the
  parser's value union the scanner wrote, and the statement afterwards.
\<close>

section \<open>Codes\<close>

text \<open>The token codes of \<open>source/parser/sqly.h\<close>, the error and operator codes of
  \<open>include/hbsql.ch\<close>.\<close>

abbreviation TK_EOF :: int where "TK_EOF \<equiv> - 1"
abbreviation TK_ERRORVAL :: int where "TK_ERRORVAL \<equiv> 258"
abbreviation TK_INTEGERVAL :: int where "TK_INTEGERVAL \<equiv> 259"
abbreviation TK_STRINGVAL :: int where "TK_STRINGVAL \<equiv> 260"
abbreviation TK_REALVAL :: int where "TK_REALVAL \<equiv> 261"
abbreviation TK_DATEVAL :: int where "TK_DATEVAL \<equiv> 262"
abbreviation TK_BINDVAR :: int where "TK_BINDVAR \<equiv> 263"
abbreviation TK_NULLVAL :: int where "TK_NULLVAL \<equiv> 264"
abbreviation TK_PARAM :: int where "TK_PARAM \<equiv> 265"
abbreviation TK_PARAM_NOT_NULL :: int where "TK_PARAM_NOT_NULL \<equiv> 266"
abbreviation TK_IDENT :: int where "TK_IDENT \<equiv> 267"
abbreviation TK_QUOTED_IDENT :: int where "TK_QUOTED_IDENT \<equiv> 268"
abbreviation TK_ASTERISK :: int where "TK_ASTERISK \<equiv> 269"
abbreviation TK_EQUALS :: int where "TK_EQUALS \<equiv> 270"
abbreviation TK_COMPARE :: int where "TK_COMPARE \<equiv> 271"
abbreviation TK_OPERATOR :: int where "TK_OPERATOR \<equiv> 272"
abbreviation TK_IS_OP :: int where "TK_IS_OP \<equiv> 273"
abbreviation TK_AND_OP :: int where "TK_AND_OP \<equiv> 274"
abbreviation TK_OR :: int where "TK_OR \<equiv> 275"
abbreviation TK_IN_OP :: int where "TK_IN_OP \<equiv> 276"
abbreviation TK_INSERT :: int where "TK_INSERT \<equiv> 277"
abbreviation TK_UPDATE :: int where "TK_UPDATE \<equiv> 278"
abbreviation TK_SELECT :: int where "TK_SELECT \<equiv> 279"
abbreviation TK_DELETE_SQL :: int where "TK_DELETE_SQL \<equiv> 280"
abbreviation TK_ALL :: int where "TK_ALL \<equiv> 281"
abbreviation TK_DISTINCT :: int where "TK_DISTINCT \<equiv> 282"
abbreviation TK_WHERE :: int where "TK_WHERE \<equiv> 283"
abbreviation TK_ORDER :: int where "TK_ORDER \<equiv> 284"
abbreviation TK_LIMIT :: int where "TK_LIMIT \<equiv> 285"
abbreviation TK_ASC :: int where "TK_ASC \<equiv> 286"
abbreviation TK_DESC :: int where "TK_DESC \<equiv> 287"
abbreviation TK_FROM :: int where "TK_FROM \<equiv> 288"
abbreviation TK_INTO :: int where "TK_INTO \<equiv> 289"
abbreviation TK_BY :: int where "TK_BY \<equiv> 290"
abbreviation TK_VALUES :: int where "TK_VALUES \<equiv> 291"
abbreviation TK_SET :: int where "TK_SET \<equiv> 292"
abbreviation TK_NOT :: int where "TK_NOT \<equiv> 293"
abbreviation TK_AS :: int where "TK_AS \<equiv> 294"
abbreviation TK_UNION :: int where "TK_UNION \<equiv> 295"
abbreviation TK_LEFT :: int where "TK_LEFT \<equiv> 296"
abbreviation TK_OUTER :: int where "TK_OUTER \<equiv> 297"
abbreviation TK_JOIN :: int where "TK_JOIN \<equiv> 298"
abbreviation TK_GROUP :: int where "TK_GROUP \<equiv> 299"
abbreviation TK_RIGHT :: int where "TK_RIGHT \<equiv> 300"
abbreviation TK_LOCK :: int where "TK_LOCK \<equiv> 301"
abbreviation TK_LIKE :: int where "TK_LIKE \<equiv> 302"
abbreviation TK_COUNT :: int where "TK_COUNT \<equiv> 303"
abbreviation TK_MAX :: int where "TK_MAX \<equiv> 304"
abbreviation TK_MIN :: int where "TK_MIN \<equiv> 305"
abbreviation TK_TOKEN_ISNULL :: int where "TK_TOKEN_ISNULL \<equiv> 306"
abbreviation TK_SUBSTR :: int where "TK_SUBSTR \<equiv> 307"
abbreviation TK_ABS :: int where "TK_ABS \<equiv> 308"
abbreviation TK_POWER :: int where "TK_POWER \<equiv> 309"
abbreviation TK_ROUND :: int where "TK_ROUND \<equiv> 310"
abbreviation TK_TRIM :: int where "TK_TRIM \<equiv> 311"
abbreviation TK_SUM :: int where "TK_SUM \<equiv> 312"
abbreviation TK_AVG :: int where "TK_AVG \<equiv> 313"
abbreviation TK_CURRENT_DATE :: int where "TK_CURRENT_DATE \<equiv> 314"

abbreviation ERR_PARSE :: int where "ERR_PARSE \<equiv> 1"
abbreviation ERR_NUMBER :: int where "ERR_NUMBER \<equiv> 2"
abbreviation ERR_NUMBER_NEGATIVE :: int where "ERR_NUMBER_NEGATIVE \<equiv> 3"
abbreviation ERR_NUMBER_EOF :: int where "ERR_NUMBER_EOF \<equiv> 4"
abbreviation ERR_NUMBER_INTEGER :: int where "ERR_NUMBER_INTEGER \<equiv> 5"
abbreviation ERR_NUMBER_FLOAT :: int where "ERR_NUMBER_FLOAT \<equiv> 6"
abbreviation ERR_STRING :: int where "ERR_STRING \<equiv> 10"
abbreviation ERR_STRING_QUOTED :: int where "ERR_STRING_QUOTED \<equiv> 11"
abbreviation ERR_STRING_DATE :: int where "ERR_STRING_DATE \<equiv> 12"

abbreviation OP_EQ :: int where "OP_EQ \<equiv> 1008"
abbreviation OP_NE :: int where "OP_NE \<equiv> 1009"
abbreviation OP_GT :: int where "OP_GT \<equiv> 1010"
abbreviation OP_GE :: int where "OP_GE \<equiv> 1011"
abbreviation OP_LT :: int where "OP_LT \<equiv> 1012"
abbreviation OP_LE :: int where "OP_LE \<equiv> 1013"
abbreviation OP_PLUS :: int where "OP_PLUS \<equiv> 1015"
abbreviation OP_MINUS :: int where "OP_MINUS \<equiv> 1016"
abbreviation OP_MULT :: int where "OP_MULT \<equiv> 1017"
abbreviation OP_DIV :: int where "OP_DIV \<equiv> 1018"
abbreviation OP_CONCAT :: int where "OP_CONCAT \<equiv> 1019"

section \<open>The statement\<close>

record sql_stmt =
  command :: int
  numParam :: int
  errMsg :: int
  sq_where :: int
  query :: bytes
  queryLen :: nat
  queryPtr :: nat
  errPtr :: nat
  pArray :: item
  pTemp :: item

text \<open>
  The field of \<open>YYSTYPE\<close> a token writes. The value of a real literal is kept as the matched
  text; an integer literal outside \<open>int\<close>, whose conversion the C standard leaves undefined, is
  \<open>IntV None\<close>; a date is kept as the eight bytes handed to \<open>hb_itemPutDS\<close>.
\<close>

datatype lval =
    NoVal
  | IntV "int option"
  | RealV bytes
  | ItemV bytes
  | DateV bytes
  | OpV int
  | ParamV int

type_synonym token = "int \<times> lval \<times> sql_stmt"

section \<open>Reading the phrase\<close>

definition rd :: "bytes \<Rightarrow> nat \<Rightarrow> char option" where
  "rd m p = (if p < length m then Some (m ! p) else None)"

definition slice :: "bytes \<Rightarrow> nat \<Rightarrow> nat \<Rightarrow> bytes" where
  "slice m a b = take (b - a) (drop a m)"

definition is_word_char :: "char \<Rightarrow> bool" where
  "is_word_char c \<longleftrightarrow> is_alnum c \<or> c = CHR ''_''"

text \<open>\<open>while (p < e && P(*p)) ++p\<close>\<close>

function scan_while :: "(char \<Rightarrow> bool) \<Rightarrow> bytes \<Rightarrow> nat \<Rightarrow> nat \<Rightarrow> nat option" where
  "scan_while P m e p =
     (if p < e then
        (case rd m p of
           None \<Rightarrow> None
         | Some c \<Rightarrow> if P c then scan_while P m e (Suc p) else Some p)
      else Some p)"
  by auto
termination by (relation "measure (\<lambda>(P, m, e, p). e - p)") auto

text \<open>\<open>while (P(*p)) { if (++p == e) break; }\<close>\<close>

function scan_until :: "(char \<Rightarrow> bool) \<Rightarrow> bytes \<Rightarrow> nat \<Rightarrow> nat \<Rightarrow> nat option" where
  "scan_until P m e p =
     (case rd m p of
        None \<Rightarrow> None
      | Some c \<Rightarrow>
          if P c then (if Suc p = e then Some (Suc p) else scan_until P m e (Suc p))
          else Some p)"
  by auto
termination
  by (relation "measure (\<lambda>(P, m, e, p). length m - p)") (auto simp: rd_def split: if_splits)

declare scan_while.simps [simp del] scan_until.simps [simp del]

text \<open>The same inside a C string, where no end is given and the NUL stops every class.\<close>

definition scan_str :: "(char \<Rightarrow> bool) \<Rightarrow> bytes \<Rightarrow> nat \<Rightarrow> nat option" where
  "scan_str P m p = scan_until P m (Suc (length m)) p"

section \<open>Numbers\<close>

definition in_int32 :: "int \<Rightarrow> bool" where
  "in_int32 v \<longleftrightarrow> - (2 ^ 31) \<le> v \<and> v < 2 ^ 31"

text \<open>
  \<open>sscanf(p, " %d%n", ..)\<close>: the outer option is an access outside the string, the inner one
  the conversion that fails; the result is the value and the bytes consumed.
\<close>

definition sscanf_d :: "bytes \<Rightarrow> nat \<Rightarrow> (int option \<times> nat) option option" where
  "sscanf_d m p = do {
     a \<leftarrow> scan_str is_space m p;
     c \<leftarrow> rd m a;
     let b = (if c = CHR ''-'' \<or> c = CHR ''+'' then Suc a else a);
     d \<leftarrow> scan_str is_digit m b;
     let v = (if c = CHR ''-'' then - dec_value (slice m b d) else dec_value (slice m b d));
     Some (if d = b then None else Some (if in_int32 v then Some v else None, d - p))
   }"

text \<open>
  \<open>sscanf(p, " %lf%n", ..)\<close> on a decimal number. The directive takes the longest text that
  begins a number, so an exponent mark must be followed by a digit for it to succeed.
\<close>

definition sscanf_lf :: "bytes \<Rightarrow> nat \<Rightarrow> (bytes \<times> nat) option option" where
  "sscanf_lf m p = do {
     a \<leftarrow> scan_str is_space m p;
     c \<leftarrow> rd m a;
     let b = (if c = CHR ''-'' \<or> c = CHR ''+'' then Suc a else a);
     d \<leftarrow> scan_str is_digit m b;
     c1 \<leftarrow> rd m d;
     f \<leftarrow> (if c1 = CHR ''.'' then scan_str is_digit m (Suc d) else Some d);
     let digits = (d - b) + (f - Suc d);
     c2 \<leftarrow> rd m f;
     if digits = 0 then Some None
     else if to_lower c2 = CHR ''e'' then do {
       c3 \<leftarrow> rd m (Suc f);
       let g = (if c3 = CHR ''-'' \<or> c3 = CHR ''+'' then Suc (Suc f) else Suc f);
       h \<leftarrow> scan_str is_digit m g;
       Some (if h = g then None else Some (slice m a h, h - p))
     }
     else Some (Some (slice m a f, f - p))
   }"

text \<open>\<open>is_number_start\<close> is the test that opens the section "Check for a number".\<close>

definition is_number_start :: "bytes \<Rightarrow> nat \<Rightarrow> bool option" where
  "is_number_start m p = do {
     c \<leftarrow> rd m p;
     if c = CHR ''-'' \<or> c = CHR ''.'' then do { d \<leftarrow> rd m (Suc p); Some (is_digit d) }
     else Some (is_digit c)
   }"

definition lex_error :: "int \<Rightarrow> sql_stmt \<Rightarrow> token" where
  "lex_error code s = (TK_ERRORVAL, NoVal, s\<lparr>errMsg := code\<rparr>)"

text \<open>The body of that section; the first byte is at \<open>queryPtr\<close>.\<close>

definition lex_number :: "sql_stmt \<Rightarrow> token option" where
  "lex_number s = do {
     let m = query s;
     let e = queryLen s;
     let p0 = queryPtr s;
     p1 \<leftarrow> scan_until (\<lambda>c. c = CHR ''-'') m e p0;
     if p1 = e then Some (lex_error ERR_NUMBER_NEGATIVE s) else do {
     p2 \<leftarrow> scan_until is_space m e p1;
     if p2 = e then Some (lex_error ERR_NUMBER_EOF s) else do {
     c \<leftarrow> rd m p2;
     if c \<noteq> CHR ''.'' \<and> \<not> is_digit c then Some (lex_error ERR_NUMBER s) else do {
     p3 \<leftarrow> scan_until is_digit m e p2;
     integer \<leftarrow> (if p3 = e then Some True
                  else do { d \<leftarrow> rd m p3; Some (d \<noteq> CHR ''.'' \<and> to_lower d \<noteq> CHR ''e'') });
     if integer then do {
       r \<leftarrow> sscanf_d m p0;
       Some (case r of
               None \<Rightarrow> lex_error ERR_NUMBER_INTEGER s
             | Some (v, n) \<Rightarrow> (TK_INTEGERVAL, IntV v, s\<lparr>queryPtr := p0 + n\<rparr>))
     } else do {
       r \<leftarrow> sscanf_lf m p0;
       Some (case r of
               None \<Rightarrow> lex_error ERR_NUMBER_FLOAT s
             | Some (v, n) \<Rightarrow> (TK_REALVAL, RealV v, s\<lparr>queryPtr := p0 + n\<rparr>))
     } } } } }"

section \<open>Strings, quoted identifiers and dates\<close>

text \<open>
  The loop over a string literal, from the byte after the opening quote. The result is the
  position after the closing quote, or \<open>None\<close> inside when there is none. A backslash takes the
  next byte with it, and after a backslash and a quote one more byte is stepped over.
\<close>

function string_loop :: "bytes \<Rightarrow> nat \<Rightarrow> nat \<Rightarrow> nat option option" where
  "string_loop m e p =
     (if p < e then
        (case rd m p of
           None \<Rightarrow> None
         | Some c \<Rightarrow>
             if c = BSLASH then
               (if Suc p = e then Some None
                else (case rd m (Suc p) of
                        None \<Rightarrow> None
                      | Some d \<Rightarrow>
                          if d = QUOTE then
                            (if Suc (Suc p) = e then Some None
                             else string_loop m e (Suc (Suc (Suc p))))
                          else string_loop m e (Suc (Suc p))))
             else if c = QUOTE then Some (Some (Suc p))
             else string_loop m e (Suc p))
      else Some None)"
  by auto
termination by (relation "measure (\<lambda>(m, e, p). e - p)") auto

declare string_loop.simps [simp del]

definition lex_string :: "sql_stmt \<Rightarrow> token option" where
  "lex_string s = do {
     r \<leftarrow> string_loop (query s) (queryLen s) (Suc (queryPtr s));
     Some (case r of
             None \<Rightarrow> lex_error ERR_STRING s
           | Some q \<Rightarrow> (TK_STRINGVAL, ItemV (slice (query s) (Suc (queryPtr s)) (q - 1)),
                        s\<lparr>queryPtr := q\<rparr>))
   }"

definition lex_quoted_ident :: "sql_stmt \<Rightarrow> token option" where
  "lex_quoted_ident s = do {
     q \<leftarrow> scan_while (\<lambda>c. c \<noteq> DQUOTE) (query s) (queryLen s) (Suc (queryPtr s));
     Some (if q < queryLen s
           then (TK_QUOTED_IDENT, ItemV (slice (query s) (Suc (queryPtr s)) q),
                 s\<lparr>queryPtr := Suc q\<rparr>)
           else lex_error ERR_STRING_QUOTED s)
   }"

definition lex_date :: "sql_stmt \<Rightarrow> token option" where
  "lex_date s = do {
     closed \<leftarrow> (if queryPtr s + 9 < queryLen s
                then do { c \<leftarrow> rd (query s) (queryPtr s + 9); Some (c = CHR '']'') }
                else Some False);
     Some (if closed
           then (TK_DATEVAL, DateV (slice (query s) (Suc (queryPtr s)) (queryPtr s + 9)),
                 s\<lparr>queryPtr := queryPtr s + 10\<rparr>)
           else lex_error ERR_STRING_DATE s)
   }"

section \<open>Operators\<close>

text \<open>\<open>next_is c\<close> is the test \<open>queryPtr < queryEnd && *queryPtr == c\<close> after the first byte.\<close>

definition next_is :: "char \<Rightarrow> sql_stmt \<Rightarrow> bool option" where
  "next_is c s =
     (if Suc (queryPtr s) < queryLen s
      then do { d \<leftarrow> rd (query s) (Suc (queryPtr s)); Some (d = c) }
      else Some False)"

definition advance :: "nat \<Rightarrow> sql_stmt \<Rightarrow> sql_stmt" where
  "advance n s = s\<lparr>queryPtr := queryPtr s + n\<rparr>"

definition lex_equals :: "sql_stmt \<Rightarrow> token option" where
  "lex_equals s = do {
     twice \<leftarrow> next_is (CHR ''='') s;
     Some (TK_EQUALS, OpV OP_EQ, advance (if twice then 2 else 1) s)
   }"

definition lex_greater :: "sql_stmt \<Rightarrow> token option" where
  "lex_greater s = do {
     ge \<leftarrow> next_is (CHR ''='') s;
     Some (if ge then (TK_COMPARE, OpV OP_GE, advance 2 s)
           else (TK_COMPARE, OpV OP_GT, advance 1 s))
   }"

definition lex_less :: "sql_stmt \<Rightarrow> token option" where
  "lex_less s = do {
     le \<leftarrow> next_is (CHR ''='') s;
     if le then Some (TK_COMPARE, OpV OP_LE, advance 2 s) else do {
       ne \<leftarrow> next_is (CHR ''>'') s;
       Some (if ne then (TK_COMPARE, OpV OP_NE, advance 2 s)
             else (TK_COMPARE, OpV OP_LT, advance 1 s))
     }
   }"

text \<open>A lone exclamation mark is returned without \<open>stmt->queryPtr\<close> being stored.\<close>

definition lex_bang :: "sql_stmt \<Rightarrow> token option" where
  "lex_bang s = do {
     ne \<leftarrow> next_is (CHR ''='') s;
     Some (if ne then (TK_COMPARE, OpV OP_NE, advance 2 s) else (TK_NOT, NoVal, s))
   }"

definition lex_param :: "sql_stmt \<Rightarrow> token option" where
  "lex_param s = do {
     twice \<leftarrow> next_is (CHR ''?'') s;
     let s1 = s\<lparr>numParam := numParam s + 1\<rparr>;
     Some (if twice then (TK_PARAM_NOT_NULL, ParamV (numParam s), advance 2 s1)
           else (TK_PARAM, ParamV (numParam s), advance 1 s1))
   }"

section \<open>Keywords\<close>

text \<open>
  One test of the switch: the length its guard asks for, the word in lower case, whether it must
  end there or go on (the last conjunct is \<open>p + n == e || !isalnum_(p[n])\<close> or
  \<open>p + n != e\<close>), the token and the operator it stores. The first byte is the case label.
\<close>

datatype kw_end = Word | Open

datatype keyword = Kw (kw_guard: nat) (kw_word: string) (kw_end: kw_end) (kw_token: int) (kw_lval: lval)

abbreviation kw :: "nat \<Rightarrow> string \<Rightarrow> int \<Rightarrow> keyword" where
  "kw g w t \<equiv> Kw g w Word t NoVal"

abbreviation fn :: "nat \<Rightarrow> string \<Rightarrow> int \<Rightarrow> keyword" where
  "fn g w t \<equiv> Kw g w Open t NoVal"

definition kw_a :: "keyword list" where
  "kw_a = [kw 3 ''all'' TK_ALL, kw 3 ''and'' TK_AND_OP, kw 3 ''asc'' TK_ASC, kw 2 ''as'' TK_AS,
           fn 4 ''abs('' TK_ABS, fn 4 ''avg('' TK_AVG]"

definition kw_b :: "keyword list" where
  "kw_b = [kw 2 ''by'' TK_BY]"

definition kw_c :: "keyword list" where
  "kw_c = [fn 6 ''count('' TK_COUNT, Kw 4 ''concat'' Word TK_OPERATOR (OpV OP_CONCAT)]"

definition kw_d :: "keyword list" where
  "kw_d = [kw 4 ''desc'' TK_DESC, kw 6 ''delete'' TK_DELETE_SQL, kw 8 ''distinct'' TK_DISTINCT,
           fn 5 ''date('' TK_CURRENT_DATE]"

definition kw_f :: "keyword list" where
  "kw_f = [kw 4 ''from'' TK_FROM]"

definition kw_g :: "keyword list" where
  "kw_g = [kw 4 ''group'' TK_GROUP]"

definition kw_i :: "keyword list" where
  "kw_i = [fn 7 ''isnull('' TK_TOKEN_ISNULL, kw 2 ''is'' TK_IS_OP, kw 4 ''into'' TK_INTO,
           kw 2 ''in'' TK_IN_OP, kw 6 ''insert'' TK_INSERT]"

definition kw_j :: "keyword list" where
  "kw_j = [kw 4 ''join'' TK_JOIN]"

definition kw_l :: "keyword list" where
  "kw_l = [kw 4 ''left'' TK_LEFT, kw 4 ''lock'' TK_LOCK, kw 4 ''like'' TK_LIKE,
           kw 5 ''limit'' TK_LIMIT]"

definition kw_m :: "keyword list" where
  "kw_m = [fn 4 ''max('' TK_MAX, fn 4 ''min('' TK_MIN]"

definition kw_n :: "keyword list" where
  "kw_n = [kw 3 ''not'' TK_NOT, kw 4 ''null'' TK_NULLVAL]"

definition kw_o :: "keyword list" where
  "kw_o = [kw 2 ''or'' TK_OR, kw 5 ''order'' TK_ORDER, kw 5 ''outer'' TK_OUTER]"

definition kw_p :: "keyword list" where
  "kw_p = [fn 6 ''power('' TK_POWER]"

text \<open>The test for \<open>right\<close> asks for the parenthesis and for a word boundary after it.\<close>

definition kw_r :: "keyword list" where
  "kw_r = [fn 6 ''round('' TK_ROUND, kw 6 ''right('' TK_RIGHT]"

definition kw_s :: "keyword list" where
  "kw_s = [kw 3 ''set'' TK_SET, kw 6 ''select'' TK_SELECT, fn 7 ''substr('' TK_SUBSTR,
           fn 4 ''sum('' TK_SUM]"

definition kw_t :: "keyword list" where
  "kw_t = [fn 5 ''trim('' TK_TRIM]"

definition kw_u :: "keyword list" where
  "kw_u = [kw 6 ''update'' TK_UPDATE, kw 5 ''union'' TK_UNION]"

definition kw_v :: "keyword list" where
  "kw_v = [kw 6 ''values'' TK_VALUES]"

definition kw_w :: "keyword list" where
  "kw_w = [kw 5 ''where'' TK_WHERE]"

lemmas kw_defs = kw_a_def kw_b_def kw_c_def kw_d_def kw_f_def kw_g_def kw_i_def kw_j_def
  kw_l_def kw_m_def kw_n_def kw_o_def kw_p_def kw_r_def kw_s_def kw_t_def kw_u_def kw_v_def
  kw_w_def

text \<open>The switch on the first byte; the label \<open>k\<close> has no test.\<close>

definition kw_case :: "char \<Rightarrow> keyword list" where
  "kw_case c =
     (let l = to_lower c in
      if l = CHR ''a'' then kw_a else if l = CHR ''b'' then kw_b
      else if l = CHR ''c'' then kw_c else if l = CHR ''d'' then kw_d
      else if l = CHR ''f'' then kw_f else if l = CHR ''g'' then kw_g
      else if l = CHR ''i'' then kw_i else if l = CHR ''j'' then kw_j
      else if l = CHR ''k'' then [] else if l = CHR ''l'' then kw_l
      else if l = CHR ''m'' then kw_m else if l = CHR ''n'' then kw_n
      else if l = CHR ''o'' then kw_o else if l = CHR ''p'' then kw_p
      else if l = CHR ''r'' then kw_r else if l = CHR ''s'' then kw_s
      else if l = CHR ''t'' then kw_t else if l = CHR ''u'' then kw_u
      else if l = CHR ''v'' then kw_v else if l = CHR ''w'' then kw_w else [])"

text \<open>The comparisons of one test, from the second byte on, each guarded by the one before.\<close>

fun match_from :: "bytes \<Rightarrow> nat \<Rightarrow> string \<Rightarrow> bool option" where
  "match_from m p [] = Some True"
| "match_from m p (w # ws) =
     (case rd m p of
        None \<Rightarrow> None
      | Some c \<Rightarrow> if to_lower c = w then match_from m (Suc p) ws else Some False)"

definition kw_match :: "bytes \<Rightarrow> nat \<Rightarrow> nat \<Rightarrow> keyword \<Rightarrow> bool option" where
  "kw_match m e p k =
     (if p + kw_guard k \<le> e then do {
        same \<leftarrow> match_from m (Suc p) (tl (kw_word k));
        let q = p + length (kw_word k);
        if same then
          (case kw_end k of
             Open \<Rightarrow> Some (q \<noteq> e)
           | Word \<Rightarrow> if q = e then Some True
                     else do { c \<leftarrow> rd m q; Some (\<not> is_word_char c) })
        else Some False
      }
      else Some False)"

fun first_kw :: "bytes \<Rightarrow> nat \<Rightarrow> nat \<Rightarrow> keyword list \<Rightarrow> keyword option option" where
  "first_kw m e p [] = Some None"
| "first_kw m e p (k # ks) = do {
     b \<leftarrow> kw_match m e p k;
     if b then Some (Some k) else first_kw m e p ks
   }"

definition lex_word :: "sql_stmt \<Rightarrow> token option" where
  "lex_word s = do {
     let m = query s;
     let e = queryLen s;
     let p = queryPtr s;
     c \<leftarrow> rd m p;
     r \<leftarrow> first_kw m e p (kw_case c);
     (case r of
        Some k \<Rightarrow> Some (kw_token k, kw_lval k, s\<lparr>queryPtr := p + length (kw_word k)\<rparr>)
      | None \<Rightarrow> do {
          q \<leftarrow> scan_while is_word_char m e p;
          Some (TK_IDENT, ItemV (slice m p q), s\<lparr>queryPtr := q\<rparr>)
        })
   }"

section \<open>The scanner\<close>

text \<open>The sections of \<open>sqlyylex\<close> from "Check for a number" on, at the first byte of a token.\<close>

definition lex_token :: "sql_stmt \<Rightarrow> token option" where
  "lex_token s = do {
     c \<leftarrow> rd (query s) (queryPtr s);
     number \<leftarrow> is_number_start (query s) (queryPtr s);
     if number then lex_number s
     else if c = QUOTE then lex_string s
     else if c = DQUOTE then lex_quoted_ident s
     else if c = CHR ''['' then lex_date s
     else if c = CHR '':'' then Some (TK_BINDVAR, NoVal, advance 1 s)
     else if c = CHR ''+'' then Some (TK_OPERATOR, OpV OP_PLUS, advance 1 s)
     else if c = CHR ''-'' then Some (TK_OPERATOR, OpV OP_MINUS, advance 1 s)
     else if c = CHR ''*'' then Some (TK_ASTERISK, OpV OP_MULT, advance 1 s)
     else if c = CHR ''/'' then Some (TK_OPERATOR, OpV OP_DIV, advance 1 s)
     else if c = CHR ''='' then lex_equals s
     else if c = CHR ''>'' then lex_greater s
     else if c = CHR ''<'' then lex_less s
     else if c = CHR ''!'' then lex_bang s
     else if c = CHR ''?'' then lex_param s
     else if is_alpha c \<or> c = CHR ''_'' then lex_word s
     else Some (schar c, NoVal, advance 1 s)
   }"

text \<open>\<open>isspace\<close> already holds of the three bytes tested after it.\<close>

definition skip_spaces :: "sql_stmt \<Rightarrow> sql_stmt option" where
  "skip_spaces s = do {
     p \<leftarrow> scan_while is_space (query s) (queryLen s) (queryPtr s);
     Some (s\<lparr>queryPtr := p, errPtr := p\<rparr>)
   }"

definition sqlyylex :: "sql_stmt \<Rightarrow> token option" where
  "sqlyylex s = do {
     s1 \<leftarrow> skip_spaces s;
     if queryPtr s1 = queryLen s1 then Some (TK_EOF, NoVal, s1) else lex_token s1
   }"

definition sql_yylex :: "sql_stmt \<Rightarrow> token option" where
  "sql_yylex s = sqlyylex s"

definition sql_yyerror :: "sql_stmt \<Rightarrow> bytes \<Rightarrow> int" where
  "sql_yyerror s msg = 1"

text \<open>The statement \<open>SqlParse\<close> makes of a phrase before it calls the parser.\<close>

definition phrase :: "bytes \<Rightarrow> sql_stmt" where
  "phrase t = \<lparr>command = 0, numParam = 0, errMsg = 0, sq_where = 0, query = t @ [NUL],
               queryLen = length t + 1, queryPtr = 0, errPtr = 0, pArray = NIL, pTemp = NIL\<rparr>"

end
