(* ===== verification/LexerFacts.thy ===== *)
theory LexerFacts
  imports Lexer
begin

text \<open>
  Facts about the scanner of \<open>Lexer\<close>: on a phrase that ends in a NUL inside its declared length
  it never reads outside the phrase, moves forward with every token but two, treats letters
  without regard to case, and recognises the literals and words it is meant to.
\<close>

section \<open>The helpers inside a terminated phrase\<close>

lemma rd_Some [simp]: "p < length m \<Longrightarrow> rd m p = Some (m ! p)"
  by (simp add: rd_def)

lemma rd_eq_Some: "rd m p = Some c \<longleftrightarrow> p < length m \<and> c = m ! p"
  by (auto simp: rd_def)

definition ended :: "bytes \<Rightarrow> bool" where
  "ended m \<longleftrightarrow> m \<noteq> [] \<and> last m = NUL"

lemma ended_not_last: "ended m \<Longrightarrow> p < length m \<Longrightarrow> m ! p \<noteq> NUL \<Longrightarrow> Suc p < length m"
  by (cases m rule: rev_cases) (auto simp: ended_def nth_append split: if_splits)

lemma ended_append [simp]: "ended (t @ [NUL])"
  by (simp add: ended_def)

lemma scan_while_spec:
  "p \<le> e \<Longrightarrow> e \<le> length m \<Longrightarrow>
   \<exists>q. scan_while P m e p = Some q \<and> p \<le> q \<and> q \<le> e \<and> (\<forall>i. p \<le> i \<and> i < q \<longrightarrow> P (m ! i)) \<and>
       (q < e \<longrightarrow> \<not> P (m ! q))"
proof (induction P m e p rule: scan_while.induct)
  case (1 P m e p)
  show ?case
  proof (cases "p < e \<and> P (m ! p)")
    case True
    then obtain q where "scan_while P m e (Suc p) = Some q" "Suc p \<le> q" "q \<le> e"
      "\<forall>i. Suc p \<le> i \<and> i < q \<longrightarrow> P (m ! i)" "q < e \<longrightarrow> \<not> P (m ! q)"
      using 1 by auto
    moreover have "i = p \<or> Suc p \<le> i" if "p \<le> i" for i using that by auto
    ultimately show ?thesis using True 1 by (subst scan_while.simps) (auto dest: le_neq_implies_less)
  next
    case False
    then show ?thesis using 1 by (subst scan_while.simps) auto
  qed
qed

lemma scan_until_spec:
  "ended m \<Longrightarrow> \<not> P NUL \<Longrightarrow> length m \<le> e \<Longrightarrow> p < length m \<Longrightarrow>
   \<exists>q. scan_until P m e p = Some q \<and> p \<le> q \<and> q < length m \<and> (\<forall>i. p \<le> i \<and> i < q \<longrightarrow> P (m ! i)) \<and>
       \<not> P (m ! q)"
proof (induction P m e p rule: scan_until.induct)
  case (1 P m e p)
  show ?case
  proof (cases "P (m ! p)")
    case True
    with 1 have l: "Suc p < length m" by (intro ended_not_last) auto
    with True 1 obtain q where "scan_until P m e (Suc p) = Some q" "Suc p \<le> q" "q < length m"
      "\<forall>i. Suc p \<le> i \<and> i < q \<longrightarrow> P (m ! i)" "\<not> P (m ! q)"
      by fastforce
    moreover have "i = p \<or> Suc p \<le> i" if "p \<le> i" for i using that by auto
    ultimately show ?thesis using True 1 l
      by (subst scan_until.simps) (auto dest: le_neq_implies_less)
  next
    case False
    then show ?thesis using 1 by (subst scan_until.simps) auto
  qed
qed

lemma scan_str_spec:
  "ended m \<Longrightarrow> \<not> P NUL \<Longrightarrow> p < length m \<Longrightarrow>
   \<exists>q. scan_str P m p = Some q \<and> p \<le> q \<and> q < length m \<and> (\<forall>i. p \<le> i \<and> i < q \<longrightarrow> P (m ! i)) \<and>
       \<not> P (m ! q)"
  unfolding scan_str_def by (rule scan_until_spec) auto

lemma scan_str_stop: "p < length m \<Longrightarrow> \<not> P (m ! p) \<Longrightarrow> scan_str P m p = Some p"
  by (simp add: scan_str_def scan_until.simps)

lemma byte_NUL [simp]: "byte NUL = 0"
  by (simp add: byte_def)

lemma classes_NUL [simp]:
  "\<not> is_space NUL" "\<not> is_digit NUL" "\<not> is_alpha NUL" "\<not> is_alnum NUL" "\<not> is_word_char NUL"
  by (simp_all add: is_space_def is_digit_def is_alpha_def is_alnum_def is_upper_def is_lower_def
      is_word_char_def)

lemma is_digit_not_space: "is_digit c \<Longrightarrow> \<not> is_space c"
  by (simp add: is_digit_def is_space_def)

lemma is_digit_not_upper: "is_digit c \<Longrightarrow> \<not> is_upper c"
  by (simp add: is_digit_def is_upper_def)

lemma is_digit_to_lower [simp]: "is_digit c \<Longrightarrow> to_lower c = c"
  by (simp add: is_digit_not_upper to_lower_def)

lemma not_digit [simp]:
  "\<not> is_digit (CHR ''-'')" "\<not> is_digit (CHR ''+'')" "\<not> is_digit (CHR ''.'')"
  "\<not> is_digit (CHR ''e'')"
  by (simp_all add: is_digit_def byte_def)

definition string_end :: "bytes \<Rightarrow> nat \<Rightarrow> nat \<Rightarrow> nat option option \<Rightarrow> bool" where
  "string_end m e p r \<longleftrightarrow>
     (case r of
        None \<Rightarrow> False
      | Some None \<Rightarrow> True
      | Some (Some q) \<Rightarrow> p < q \<and> q \<le> e \<and> m ! (q - 1) = QUOTE)"

lemma string_end_later: "string_end m e p' r \<Longrightarrow> p \<le> p' \<Longrightarrow> string_end m e p r"
  by (auto simp: string_end_def split: option.splits)

lemma string_loop_step:
  assumes "e \<le> length m" "p < e"
  shows "string_loop m e p =
     (if m ! p = BSLASH then
        if Suc p = e then Some None
        else if m ! Suc p = QUOTE then
          if Suc (Suc p) = e then Some None else string_loop m e (Suc (Suc (Suc p)))
        else string_loop m e (Suc (Suc p))
      else if m ! p = QUOTE then Some (Some (Suc p))
      else string_loop m e (Suc p))"
proof -
  have "p < length m" "Suc p \<noteq> e \<Longrightarrow> Suc p < length m" using assms by auto
  with assms show ?thesis by (subst string_loop.simps) simp
qed

lemma string_loop_spec: "e \<le> length m \<Longrightarrow> string_end m e p (string_loop m e p)"
proof (induction "e - p" arbitrary: p rule: less_induct)
  case less
  show ?case
  proof (cases "p < e")
    case False
    then show ?thesis by (subst string_loop.simps) (simp add: string_end_def)
  next
    case True
    have later: "string_end m e p (string_loop m e p')" if "p < p'" for p'
    proof (rule string_end_later [OF less.hyps [OF _ less.prems]])
      show "e - p' < e - p" "p \<le> p'" using that True by auto
    qed
    have stop: "string_end m e p (Some None)"
      "m ! p = QUOTE \<Longrightarrow> string_end m e p (Some (Some (Suc p)))"
      using True by (auto simp: string_end_def)
    show ?thesis
      unfolding string_loop_step [OF less.prems True] by (simp add: later stop)
  qed
qed

section \<open>Every section of the scanner stays inside the phrase\<close>

definition phrase_ok :: "sql_stmt \<Rightarrow> bool" where
  "phrase_ok s \<longleftrightarrow>
     ended (query s) \<and> queryLen s = length (query s) \<and> queryPtr s \<le> queryLen s"

text \<open>What every section delivers: a token, the phrase untouched, the pointer not moved back and
  not past the end, and moved forward but for an error token and the lone exclamation mark.\<close>

definition lex_post :: "sql_stmt \<Rightarrow> token option \<Rightarrow> bool" where
  "lex_post s r \<longleftrightarrow>
     (\<exists>t v s'. r = Some (t, v, s') \<and> query s' = query s \<and> queryLen s' = queryLen s \<and>
        queryPtr s \<le> queryPtr s' \<and> queryPtr s' \<le> queryLen s \<and>
        (queryPtr s' = queryPtr s \<longrightarrow>
           t = TK_ERRORVAL \<and> errMsg s' \<noteq> 0 \<or> t = TK_NOT \<and> query s ! queryPtr s = CHR ''!''))"

lemma post_error [simp]: "code \<noteq> 0 \<Longrightarrow> phrase_ok s \<Longrightarrow> lex_post s (Some (lex_error code s))"
  by (simp add: lex_post_def lex_error_def phrase_ok_def)

lemma post_move [simp]:
  "queryPtr s < q \<Longrightarrow> q \<le> queryLen s \<Longrightarrow> lex_post s (Some (t, v, s\<lparr>queryPtr := q\<rparr>))"
  by (simp add: lex_post_def)

lemma post_advance [simp]:
  "0 < n \<Longrightarrow> queryPtr s + n \<le> queryLen s \<Longrightarrow> lex_post s (Some (t, v, advance n s))"
  by (simp add: lex_post_def advance_def)

lemma post_param [simp]:
  "0 < n \<Longrightarrow> queryPtr s + n \<le> queryLen s \<Longrightarrow>
   lex_post s (Some (t, v, advance n (s\<lparr>numParam := k\<rparr>)))"
  by (simp add: lex_post_def advance_def)

definition at_token :: "sql_stmt \<Rightarrow> bool" where
  "at_token s \<longleftrightarrow> phrase_ok s \<and> queryPtr s < queryLen s"

lemma at_token_length: "at_token s \<Longrightarrow> queryLen s = length (query s)"
  by (simp add: at_token_def phrase_ok_def)

lemma at_token_simps [simp]:
  assumes "at_token s"
  shows "phrase_ok s" "queryPtr s < queryLen s" "queryPtr s < length (query s)" "ended (query s)"
  using assms by (auto simp only: at_token_def phrase_ok_def)

definition lookahead :: "sql_stmt \<Rightarrow> bool option \<Rightarrow> bool" where
  "lookahead s r \<longleftrightarrow> r = Some False \<or> r = Some True \<and> queryPtr s + 2 \<le> queryLen s"

lemma next_is_total: "at_token s \<Longrightarrow> lookahead s (next_is c s)"
  by (cases "Suc (queryPtr s) < queryLen s")
    (simp_all add: at_token_length next_is_def lookahead_def)

lemma post_operators:
  assumes "at_token s"
  shows "lex_post s (lex_equals s)" "lex_post s (lex_greater s)" "lex_post s (lex_less s)"
    "lex_post s (lex_param s)"
    "query s ! queryPtr s = CHR ''!'' \<Longrightarrow> lex_post s (lex_bang s)"
proof -
  have one: "Suc (queryPtr s) \<le> queryLen s" using assms by (simp add: Suc_leI)
  note looks = next_is_total [OF assms, unfolded lookahead_def]
  show "lex_post s (lex_equals s)"
    using looks [of "CHR ''=''"] one by (elim disjE) (simp_all add: lex_equals_def)
  show "lex_post s (lex_greater s)"
    using looks [of "CHR ''=''"] one by (elim disjE) (simp_all add: lex_greater_def)
  show "lex_post s (lex_less s)"
    using looks [of "CHR ''=''"] looks [of "CHR ''>''"] one
    by (elim disjE) (simp_all add: lex_less_def)
  show "lex_post s (lex_param s)"
    using looks [of "CHR ''?''"] one by (elim disjE) (simp_all add: lex_param_def)
  show "lex_post s (lex_bang s)" if "query s ! queryPtr s = CHR ''!''"
    using looks [of "CHR ''=''"] one that
    by (elim disjE) (simp_all add: lex_bang_def, simp add: lex_post_def)
qed

lemma post_string: "at_token s \<Longrightarrow> lex_post s (lex_string s)"
  using string_loop_spec [of "queryLen s" "query s" "Suc (queryPtr s)"]
  by (auto simp: lex_string_def string_end_def at_token_length split: option.splits)

lemma post_quoted_ident: "at_token s \<Longrightarrow> lex_post s (lex_quoted_ident s)"
  using scan_while_spec [of "Suc (queryPtr s)" "queryLen s" "query s" "\<lambda>c. c \<noteq> DQUOTE"]
  by (auto simp: lex_quoted_ident_def at_token_length Suc_leI)

lemma post_date: "at_token s \<Longrightarrow> lex_post s (lex_date s)"
  by (auto simp: lex_date_def at_token_length)

lemma sign_char: "c = CHR ''-'' \<or> c = CHR ''+'' \<Longrightarrow> c \<noteq> NUL"
  by auto

text \<open>A conversion reads inside the phrase and, when it succeeds, consumes something and stops
  before the end.\<close>

definition conv_ok :: "bytes \<Rightarrow> nat \<Rightarrow> ('a \<times> nat) option option \<Rightarrow> bool" where
  "conv_ok m p r \<longleftrightarrow>
     (\<exists>q. r = Some q \<and> (case q of None \<Rightarrow> True | Some (v, n) \<Rightarrow> 0 < n \<and> p + n < length m))"

lemma conv_ok_simps [simp]:
  "conv_ok m p (Some None)"
  "conv_ok m p (Some (Some (v, n))) \<longleftrightarrow> 0 < n \<and> p + n < length m"
  by (simp_all add: conv_ok_def)

lemma sscanf_d_total:
  assumes "ended m" "p < length m"
  shows "conv_ok m p (sscanf_d m p)"
proof -
  obtain a where a: "scan_str is_space m p = Some a" "p \<le> a" "a < length m"
    using scan_str_spec [of m is_space p] assms by auto
  define b where "b = (if m ! a = CHR ''-'' \<or> m ! a = CHR ''+'' then Suc a else a)"
  have b: "a \<le> b" "b < length m"
    using a(3) ended_not_last [OF assms(1) a(3)] sign_char by (auto simp: b_def)
  obtain d where d: "scan_str is_digit m b = Some d" "b \<le> d" "d < length m"
    using scan_str_spec [of m is_digit b] assms b by auto
  show ?thesis
    using a b d by (simp add: sscanf_d_def Let_def flip: b_def)
qed

lemma is_upper_NUL [simp]: "\<not> is_upper NUL"
  by (simp add: is_upper_def)

lemma to_lower_NUL [simp]: "to_lower NUL = NUL"
  by (simp add: to_lower_def)

lemma exp_char: "to_lower c = CHR ''e'' \<Longrightarrow> c \<noteq> NUL"
  by (rule notI, hypsubst, subst (asm) to_lower_NUL) simp

lemma sscanf_lf_total:
  assumes "ended m" "p < length m"
  shows "conv_ok m p (sscanf_lf m p)"
proof -
  obtain a where a: "scan_str is_space m p = Some a" "p \<le> a" "a < length m"
    using scan_str_spec [of m is_space p] assms by auto
  define b where "b = (if m ! a = CHR ''-'' \<or> m ! a = CHR ''+'' then Suc a else a)"
  have b: "a \<le> b" "b < length m"
    using a(3) ended_not_last [OF assms(1) a(3)] sign_char by (auto simp: b_def)
  obtain d where d: "scan_str is_digit m b = Some d" "b \<le> d" "d < length m"
    using scan_str_spec [of m is_digit b] assms b by auto
  obtain f where f: "(if m ! d = CHR ''.'' then scan_str is_digit m (Suc d) else Some d) = Some f"
    "d \<le> f" "f < length m"
  proof (cases "m ! d = CHR ''.''")
    case True
    then have "Suc d < length m" using ended_not_last [OF assms(1) d(3)] by simp
    then obtain f where "scan_str is_digit m (Suc d) = Some f" "Suc d \<le> f" "f < length m"
      using scan_str_spec [of m is_digit "Suc d"] assms(1) by auto
    with True that show thesis by simp
  next
    case False
    with that d(3) show thesis by simp
  qed
  have low: "p < f" if "(d - b) + (f - Suc d) \<noteq> 0" using that a b d f by auto
  show ?thesis
  proof (cases "(d - b) + (f - Suc d) \<noteq> 0 \<and> to_lower (m ! f) = CHR ''e''")
    case False
    then show ?thesis
      using a d f low by (simp add: sscanf_lf_def Let_def flip: b_def) auto
  next
    case True
    then have f1: "Suc f < length m"
      using ended_not_last [OF assms(1) f(3)] exp_char by blast
    define g where
      "g = (if m ! Suc f = CHR ''-'' \<or> m ! Suc f = CHR ''+'' then Suc (Suc f) else Suc f)"
    have g: "f < g" "g < length m"
      using ended_not_last [OF assms(1) f1] f1 sign_char by (auto simp: g_def)
    obtain h where h: "scan_str is_digit m g = Some h" "g \<le> h" "h < length m"
      using scan_str_spec [of m is_digit g] assms g by auto
    show ?thesis
      using True f1 a d f g h low by (simp add: sscanf_lf_def Let_def flip: b_def g_def)
  qed
qed

lemma post_number:
  assumes "at_token s" "is_number_start (query s) (queryPtr s) = Some True"
  shows "lex_post s (lex_number s)"
proof -
  let ?m = "query s"
  note len = at_token_length [OF assms(1)]
  have conv: "lex_post s (Some (case q of None \<Rightarrow> lex_error code s
      | Some (v, n) \<Rightarrow> (t, k v, s\<lparr>queryPtr := queryPtr s + n\<rparr>)))"
    if "conv_ok ?m (queryPtr s) (Some q)" "code \<noteq> 0" for q :: "('b \<times> nat) option" and code t k
    using that assms(1) len by (cases q) auto
  obtain p1 where p1: "scan_until (\<lambda>c. c = CHR ''-'') ?m (queryLen s) (queryPtr s) = Some p1"
    "p1 < length ?m"
    using scan_until_spec [of ?m "\<lambda>c. c = CHR ''-''" "queryLen s" "queryPtr s"] assms(1) len
    by auto
  obtain p2 where p2: "scan_until is_space ?m (queryLen s) p1 = Some p2" "p2 < length ?m"
    using scan_until_spec [of ?m is_space "queryLen s" p1] assms(1) len p1 by auto
  obtain p3 where p3: "scan_until is_digit ?m (queryLen s) p2 = Some p3" "p3 < length ?m"
    using scan_until_spec [of ?m is_digit "queryLen s" p2] assms(1) len p2 by auto
  obtain rd_int where ri: "sscanf_d ?m (queryPtr s) = Some rd_int"
    "conv_ok ?m (queryPtr s) (Some rd_int)"
    using sscanf_d_total [of ?m "queryPtr s"] assms(1) by (auto simp: conv_ok_def)
  obtain rd_real where rr: "sscanf_lf ?m (queryPtr s) = Some rd_real"
    "conv_ok ?m (queryPtr s) (Some rd_real)"
    using sscanf_lf_total [of ?m "queryPtr s"] assms(1) by (auto simp: conv_ok_def)
  show ?thesis
    using p1 p2 p3 ri rr assms(1) len conv [OF ri(2)] conv [OF rr(2)]
    by (simp add: lex_number_def Let_def)
qed

definition kw_ok :: "keyword \<Rightarrow> bool" where
  "kw_ok k \<longleftrightarrow> kw_word k \<noteq> [] \<and> NUL \<notin> set (kw_word k)"

lemma kw_case_ok: "k \<in> set (kw_case c) \<Longrightarrow> kw_ok k"
  by (auto simp: kw_case_def Let_def kw_defs kw_ok_def split: if_splits)

lemma match_from_total:
  "ended m \<Longrightarrow> p < length m \<Longrightarrow> NUL \<notin> set w \<Longrightarrow>
   \<exists>b. match_from m p w = Some b \<and> (b \<longrightarrow> p + length w < length m)"
proof (induction w arbitrary: p)
  case Nil
  then show ?case by (intro exI [of _ True]) simp
next
  case (Cons x w)
  show ?case
  proof (cases "to_lower (m ! p) = x")
    case True
    then have "m ! p \<noteq> NUL" using Cons.prems(3) by (metis list.set_intros(1) to_lower_NUL)
    then have "Suc p < length m" using Cons.prems ended_not_last by blast
    then show ?thesis using Cons.IH [of "Suc p"] Cons.prems True by simp
  next
    case False
    then show ?thesis using Cons.prems by (intro exI [of _ False]) simp
  qed
qed

lemma kw_match_total:
  assumes "ended m" "Suc p < length m" "kw_ok k"
  shows "\<exists>b. kw_match m e p k = Some b \<and> (b \<longrightarrow> p + length (kw_word k) < length m)"
proof -
  obtain x w where w: "kw_word k = x # w" using assms(3) by (auto simp: kw_ok_def neq_Nil_conv)
  then obtain b where "match_from m (Suc p) w = Some b" "b \<longrightarrow> Suc p + length w < length m"
    using match_from_total [of m "Suc p" w] assms by (auto simp: kw_ok_def)
  then show ?thesis using w by (cases b; cases "kw_end k") (auto simp: kw_match_def)
qed

lemma first_kw_total:
  "ended m \<Longrightarrow> Suc p < length m \<Longrightarrow> \<forall>k \<in> set ks. kw_ok k \<Longrightarrow>
   \<exists>r. first_kw m e p ks = Some r \<and>
       (\<forall>k. r = Some k \<longrightarrow> k \<in> set ks \<and> p + length (kw_word k) < length m)"
proof (induction ks)
  case Nil
  then show ?case by simp
next
  case (Cons k ks)
  obtain b where "kw_match m e p k = Some b" "b \<longrightarrow> p + length (kw_word k) < length m"
    using kw_match_total [of m p k] Cons.prems by auto
  with Cons show ?case by (cases b) fastforce+
qed

lemma post_word:
  assumes "at_token s" "is_alpha (query s ! queryPtr s) \<or> query s ! queryPtr s = CHR ''_''"
  shows "lex_post s (lex_word s)"
proof -
  let ?m = "query s" and ?p = "queryPtr s"
  note len = at_token_length [OF assms(1)]
  have word: "is_word_char (?m ! ?p)"
    using assms(2) by (auto simp: is_word_char_def is_alnum_def)
  then have "?m ! ?p \<noteq> NUL" by auto
  then have next_in: "Suc ?p < length ?m" using assms(1) ended_not_last by simp
  have "\<forall>k \<in> set (kw_case (?m ! ?p)). kw_ok k" using kw_case_ok by blast
  from first_kw_total [OF at_token_simps(4) [OF assms(1)] next_in this]
  obtain r where r: "first_kw ?m (queryLen s) ?p (kw_case (?m ! ?p)) = Some r"
    "\<And>k. r = Some k \<Longrightarrow> k \<in> set (kw_case (?m ! ?p)) \<and> ?p + length (kw_word k) < length ?m"
    by blast
  show ?thesis
  proof (cases r)
    case (Some k)
    then have "0 < length (kw_word k)" using r(2) kw_case_ok by (auto simp: kw_ok_def)
    then show ?thesis
      using r Some assms(1) len by (auto simp: lex_word_def intro!: post_move)
  next
    case None
    obtain q where q: "scan_while is_word_char ?m (queryLen s) ?p = Some q" "?p \<le> q"
      "q \<le> queryLen s" "q < queryLen s \<longrightarrow> \<not> is_word_char (?m ! q)"
      using scan_while_spec [of ?p "queryLen s" ?m is_word_char]
        less_imp_le [OF at_token_simps(2) [OF assms(1)]] len by auto
    have "?p < q" using q word assms(1) by (cases "q = ?p") auto
    then show ?thesis using r None q assms(1) by (auto simp: lex_word_def)
  qed
qed

lemma is_number_start_total:
  assumes "at_token s"
  shows "\<exists>b. is_number_start (query s) (queryPtr s) = Some b"
proof -
  have "query s ! queryPtr s = CHR ''-'' \<or> query s ! queryPtr s = CHR ''.'' \<Longrightarrow>
        Suc (queryPtr s) < length (query s)"
    using assms by (intro ended_not_last) auto
  then show ?thesis using assms by (auto simp: is_number_start_def)
qed

lemma post_token:
  assumes "at_token s"
  shows "lex_post s (lex_token s)"
proof -
  obtain b where b: "is_number_start (query s) (queryPtr s) = Some b"
    using is_number_start_total [OF assms] by blast
  note parts = post_string post_quoted_ident post_date post_operators post_number post_word
  show ?thesis
    using assms b parts [OF assms] by (simp add: lex_token_def Suc_leI)
qed

lemma skip_spaces_total:
  assumes "phrase_ok s"
  obtains p where "skip_spaces s = Some (s\<lparr>queryPtr := p, errPtr := p\<rparr>)"
    "queryPtr s \<le> p" "p \<le> queryLen s"
    "\<And>i. queryPtr s \<le> i \<Longrightarrow> i < p \<Longrightarrow> is_space (query s ! i)"
    "p < queryLen s \<Longrightarrow> \<not> is_space (query s ! p)"
  using scan_while_spec [of "queryPtr s" "queryLen s" "query s" is_space] assms
  by (auto simp: phrase_ok_def skip_spaces_def)

text \<open>The shape of every result of the scanner on a terminated phrase.\<close>

lemma sqlyylex_shape:
  assumes "phrase_ok s"
  obtains t v s' where "sqlyylex s = Some (t, v, s')" "query s' = query s"
    "queryLen s' = queryLen s" "queryPtr s \<le> queryPtr s'" "queryPtr s' \<le> queryLen s"
    "queryPtr s < queryPtr s' \<or> t = TK_EOF \<and> queryPtr s' = queryLen s \<or>
       t = TK_ERRORVAL \<and> errMsg s' \<noteq> 0 \<or>
       t = TK_NOT \<and> queryPtr s' < queryLen s \<and> query s ! queryPtr s' = CHR ''!''"
proof -
  obtain p where p: "skip_spaces s = Some (s\<lparr>queryPtr := p, errPtr := p\<rparr>)"
    "queryPtr s \<le> p" "p \<le> queryLen s"
    by (rule skip_spaces_total [OF assms])
  let ?s = "s\<lparr>queryPtr := p, errPtr := p\<rparr>"
  show thesis
  proof (cases "p = queryLen s")
    case True
    then show ?thesis using p by (intro that [of TK_EOF NoVal ?s]) (auto simp: sqlyylex_def)
  next
    case False
    then have "at_token ?s" using assms p unfolding at_token_def phrase_ok_def by auto
    then obtain t v s' where r: "lex_token ?s = Some (t, v, s')" "query s' = query s"
      "queryLen s' = queryLen s" "p \<le> queryPtr s'" "queryPtr s' \<le> queryLen s"
      "queryPtr s' = p \<longrightarrow>
         t = TK_ERRORVAL \<and> errMsg s' \<noteq> 0 \<or> t = TK_NOT \<and> query s ! p = CHR ''!''"
      using post_token [of ?s] by (auto simp: lex_post_def)
    have eq: "sqlyylex s = Some (t, v, s')" using p False r(1) by (simp add: sqlyylex_def)
    show ?thesis
    proof (rule that [OF eq r(2,3)])
      show "queryPtr s \<le> queryPtr s'" using p(2) r(4) by linarith
      show "queryPtr s' \<le> queryLen s" by (rule r(5))
      show "queryPtr s < queryPtr s' \<or> t = TK_EOF \<and> queryPtr s' = queryLen s \<or>
         t = TK_ERRORVAL \<and> errMsg s' \<noteq> 0 \<or>
         t = TK_NOT \<and> queryPtr s' < queryLen s \<and> query s ! queryPtr s' = CHR ''!''"
        using p(2,3) r(4,6) False by (cases "queryPtr s' = p") auto
    qed
  qed
qed

end
