(* ===== verification/LexerProps.thy ===== *)
theory LexerProps
  imports LexerFacts
begin

text \<open>What the scanner promises, stated on \<open>sqlyylex\<close> itself.\<close>

section \<open>Safety and progress\<close>

text \<open>
  The calls of the parser on the scanner, up to the first end or error token; the result is
  \<open>None\<close> when \<open>n\<close> calls do not get there.
\<close>

fun scan_all :: "nat \<Rightarrow> sql_stmt \<Rightarrow> (int \<times> lval) list option" where
  "scan_all 0 s = None"
| "scan_all (Suc n) s =
     (case sqlyylex s of
        None \<Rightarrow> None
      | Some (t, v, s') \<Rightarrow>
          if t = TK_EOF \<or> t = TK_ERRORVAL then Some [(t, v)]
          else map_option ((#) (t, v)) (scan_all n s'))"

text \<open>C21: on a phrase terminated inside its length the scanner never reads outside the phrase:
  it always delivers a token, leaves the phrase unchanged and its pointer between the old
  position and the end.\<close>

theorem scanner_stays_inside:
  "ended (query s) \<Longrightarrow> queryLen s = length (query s) \<Longrightarrow> queryPtr s \<le> queryLen s \<Longrightarrow>
   \<exists>t v s'. sqlyylex s = Some (t, v, s') \<and> query s' = query s \<and> queryLen s' = queryLen s \<and>
     queryPtr s \<le> queryPtr s' \<and> queryPtr s' \<le> queryLen s"
  by (rule sqlyylex_shape [of s]) (auto simp: phrase_ok_def)

theorem scanner_stays_inside_witness:
  "\<exists>t v s'. sqlyylex (phrase ''select'') = Some (t, v, s') \<and> query s' = ''select'' @ [NUL] \<and>
     queryLen s' = 7 \<and> 0 \<le> queryPtr s' \<and> queryPtr s' \<le> 7"
  using scanner_stays_inside [of "phrase ''select''"] by (auto simp: phrase_def ended_def)

text \<open>C32: every token moves the scanner forward, but for the end of the phrase, an error token,
  which sets the error code, and the exclamation mark.\<close>

theorem scanner_progress:
  "ended (query s) \<Longrightarrow> queryLen s = length (query s) \<Longrightarrow> queryPtr s \<le> queryLen s \<Longrightarrow>
   sqlyylex s = Some (t, v, s') \<Longrightarrow>
   queryPtr s < queryPtr s' \<or> t = TK_EOF \<and> queryPtr s' = queryLen s \<or>
   t = TK_ERRORVAL \<and> errMsg s' \<noteq> 0 \<or> t = TK_NOT \<and> query s ! queryPtr s' = CHR ''!''"
  by (rule sqlyylex_shape [of s]) (auto simp: phrase_ok_def)

theorem scanner_progress_witness:
  "sqlyylex (phrase ''a'') = Some (TK_IDENT, ItemV ''a'', (phrase ''a'')\<lparr>queryPtr := 1\<rparr>) \<and>
   queryPtr (phrase ''a'') < 1"
proof -
  have "sqlyylex (phrase ''a'') = Some (TK_IDENT, ItemV ''a'', (phrase ''a'')\<lparr>queryPtr := 1\<rparr>)"
    by code_simp
  then show ?thesis
    using scanner_progress [of "phrase ''a''" TK_IDENT "ItemV ''a''" "(phrase ''a'')\<lparr>queryPtr := 1\<rparr>"]
    by (simp add: phrase_def ended_def)
qed

text \<open>C33: a phrase without exclamation marks is scanned completely: after as many calls as it has
  bytes left, and one more, the end or an error token has been delivered.\<close>

theorem scanning_ends:
  "ended (query s) \<Longrightarrow> queryLen s = length (query s) \<Longrightarrow> queryPtr s \<le> queryLen s \<Longrightarrow>
   CHR ''!'' \<notin> set (query s) \<Longrightarrow> queryLen s - queryPtr s < n \<Longrightarrow>
   \<exists>ts. scan_all n s = Some ts \<and> length ts \<le> queryLen s - queryPtr s + 1"
proof (induction n arbitrary: s)
  case 0
  then show ?case by simp
next
  case (Suc n)
  have ok: "phrase_ok s" using Suc.prems by (simp add: phrase_ok_def)
  obtain t v s' where r: "sqlyylex s = Some (t, v, s')" "query s' = query s"
    "queryLen s' = queryLen s" "queryPtr s \<le> queryPtr s'" "queryPtr s' \<le> queryLen s"
    "queryPtr s < queryPtr s' \<or> t = TK_EOF \<and> queryPtr s' = queryLen s \<or>
       t = TK_ERRORVAL \<and> errMsg s' \<noteq> 0 \<or>
       t = TK_NOT \<and> queryPtr s' < queryLen s \<and> query s ! queryPtr s' = CHR ''!''"
    by (rule sqlyylex_shape [OF ok])
  show ?case
  proof (cases "t = TK_EOF \<or> t = TK_ERRORVAL")
    case True
    then show ?thesis using r(1) by auto
  next
    case False
    have "query s ! queryPtr s' \<noteq> CHR ''!''" if "queryPtr s' < queryLen s"
      using that Suc.prems nth_mem by metis
    then have lt: "queryPtr s < queryPtr s'" using r(6) False by blast
    then obtain ts where "scan_all n s' = Some ts" "length ts \<le> queryLen s' - queryPtr s' + 1"
      using Suc.IH [of s'] Suc.prems r by force
    then show ?thesis using r lt False by auto
  qed
qed

theorem scanning_ends_witness:
  "\<exists>ts. scan_all 10 (phrase ''a + b'') = Some ts \<and> length ts \<le> 7"
proof -
  have "\<exists>ts. scan_all 10 (phrase ''a + b'') = Some ts \<and>
      length ts \<le> queryLen (phrase ''a + b'') - queryPtr (phrase ''a + b'') + 1"
    by (rule scanning_ends) (simp_all add: phrase_def ended_def)
  moreover have "queryLen (phrase ''a + b'') - queryPtr (phrase ''a + b'') + 1 = 7"
    by (simp add: phrase_def)
  ultimately show ?thesis by (simp only:)
qed

section \<open>The lone exclamation mark\<close>

text \<open>an exclamation mark that no equals sign follows is returned as \<open>NOT\<close> for ever: the
  pointer stays on it, so no number of calls gets past it.\<close>

theorem lone_bang_repeats:
  "queryPtr s < queryLen s \<Longrightarrow> queryLen s \<le> length (query s) \<Longrightarrow>
   query s ! queryPtr s = CHR ''!'' \<Longrightarrow>
   Suc (queryPtr s) = queryLen s \<or> query s ! Suc (queryPtr s) \<noteq> CHR ''='' \<Longrightarrow>
   scan_all n s = None"
proof (induction n arbitrary: s)
  case 0
  then show ?case by simp
next
  case (Suc n)
  have bang: "\<not> is_space (CHR ''!'')" "\<not> is_digit (CHR ''!'')"
    by (simp_all add: is_space_def is_digit_def byte_def)
  have skip: "skip_spaces s = Some (s\<lparr>errPtr := queryPtr s\<rparr>)"
    using Suc.prems bang by (simp add: skip_spaces_def scan_while.simps)
  have "sqlyylex s = Some (TK_NOT, NoVal, s\<lparr>errPtr := queryPtr s\<rparr>)"
    using Suc.prems bang skip
    by (auto simp: sqlyylex_def lex_token_def is_number_start_def lex_bang_def next_is_def)
  then show ?case using Suc.IH [of "s\<lparr>errPtr := queryPtr s\<rparr>"] Suc.prems by simp
qed

theorem lone_bang_repeats_witness: "scan_all 1000 (phrase ''!a'') = None"
  using lone_bang_repeats [of "phrase ''!a''" 1000] by (simp add: phrase_def)

section \<open>Letter case\<close>

fun lower_lval :: "lval \<Rightarrow> lval" where
  "lower_lval (RealV t) = RealV (map to_lower t)"
| "lower_lval (ItemV t) = ItemV (map to_lower t)"
| "lower_lval (DateV t) = DateV (map to_lower t)"
| "lower_lval v = v"

definition lower_stmt :: "sql_stmt \<Rightarrow> sql_stmt" where
  "lower_stmt s = s\<lparr>query := map to_lower (query s)\<rparr>"

definition lower_token :: "token \<Rightarrow> token" where
  "lower_token r = (case r of (t, v, s) \<Rightarrow> (t, lower_lval v, lower_stmt s))"

lemma rd_lower [simp]: "rd (map to_lower m) p = map_option to_lower (rd m p)"
  by (simp add: rd_def)

lemma slice_lower [simp]: "slice (map to_lower m) a b = map to_lower (slice m a b)"
  by (simp add: slice_def take_map drop_map)

lemma scan_while_lower:
  "(\<And>c. P (to_lower c) = P c) \<Longrightarrow> scan_while P (map to_lower m) e p = scan_while P m e p"
proof (induction P m e p rule: scan_while.induct)
  case (1 P m e p)
  then show ?case
    by (subst (1 2) scan_while.simps) (auto split: option.split)
qed

lemma scan_until_lower:
  "(\<And>c. P (to_lower c) = P c) \<Longrightarrow> scan_until P (map to_lower m) e p = scan_until P m e p"
proof (induction P m e p rule: scan_until.induct)
  case (1 P m e p)
  then show ?case
    by (subst (1 2) scan_until.simps) (auto split: option.split)
qed

lemma lower_classes [simp]:
  "is_digit (to_lower c) = is_digit c" "is_space (to_lower c) = is_space c"
  "is_alpha (to_lower c) = is_alpha c"
  by (auto simp: is_digit_def is_space_def is_alpha_def is_upper_def is_lower_def byte_to_lower)

lemma to_lower_other: "\<not> is_alpha c \<Longrightarrow> to_lower c = c"
  by (simp add: to_lower_def is_alpha_def)

lemma to_lower_eq_other [simp]: "\<not> is_alpha d \<Longrightarrow> to_lower c = d \<longleftrightarrow> c = d"
  by (cases "is_alpha c") (auto simp: to_lower_other dest: arg_cong [where f = is_alpha])

lemma not_alpha [simp]:
  "\<not> is_alpha (CHR ''-'')" "\<not> is_alpha (CHR ''+'')" "\<not> is_alpha (CHR ''.'')"
  "\<not> is_alpha BSLASH" "\<not> is_alpha QUOTE" "\<not> is_alpha DQUOTE" "\<not> is_alpha (CHR '']'')"
  "\<not> is_alpha (CHR ''['')" "\<not> is_alpha (CHR '':'')" "\<not> is_alpha (CHR ''*'')"
  "\<not> is_alpha (CHR ''/'')" "\<not> is_alpha (CHR ''='')" "\<not> is_alpha (CHR ''<'')"
  "\<not> is_alpha (CHR ''>'')" "\<not> is_alpha (CHR ''!'')" "\<not> is_alpha (CHR ''?'')"
  "\<not> is_alpha (CHR ''_'')"
  by (simp_all add: is_alpha_def is_upper_def is_lower_def byte_def)

lemma is_word_char_lower [simp]: "is_word_char (to_lower c) = is_word_char c"
  by (simp add: is_word_char_def)

lemma scan_str_lower:
  "(\<And>c. P (to_lower c) = P c) \<Longrightarrow> scan_str P (map to_lower m) p = scan_str P m p"
  by (simp add: scan_str_def scan_until_lower)

lemma bind_map_option [simp]: "Option.bind (map_option f x) g = Option.bind x (g \<circ> f)"
  by (cases x) auto

lemma scan_until_all:
  "scan_until P m e p = Some q \<Longrightarrow> p \<le> q \<and> (\<forall>i. p \<le> i \<and> i < q \<longrightarrow> i < length m \<and> P (m ! i))"
proof (induction P m e p rule: scan_until.induct)
  case (1 P m e p)
  have at: "i = p \<or> Suc p \<le> i" if "p \<le> i" for i using that by auto
  show ?case
  proof (cases "p < length m \<and> P (m ! p) \<and> Suc p \<noteq> e")
    case True
    then have "scan_until P m e (Suc p) = Some q" using 1(2) by (subst (asm) scan_until.simps) simp
    then show ?thesis using 1(1) [of "m ! p"] True at by auto
  next
    case False
    then show ?thesis using 1(2)
      by (subst (asm) scan_until.simps) (auto simp: rd_def le_less_Suc_eq split: if_splits)
  qed
qed

lemma digits_lower:
  assumes "scan_str is_digit m b = Some d"
  shows "map to_lower (slice m b d) = slice m b d"
proof (rule map_idI)
  fix c assume "c \<in> set (slice m b d)"
  then obtain i where "i < d - b" "c = m ! (b + i)" "b + i < length m"
    by (auto simp: slice_def in_set_conv_nth)
  then have "is_digit c" using scan_until_all [OF assms [unfolded scan_str_def]] by auto
  then show "to_lower c = c" by simp
qed

lemma sscanf_d_lower: "sscanf_d (map to_lower m) p = sscanf_d m p"
  unfolding sscanf_d_def
  by (auto simp: scan_str_lower comp_def Let_def digits_lower split: bind_splits)

lemma sscanf_lf_lower:
  "sscanf_lf (map to_lower m) p = map_option (map_option (apfst (map to_lower))) (sscanf_lf m p)"
  unfolding sscanf_lf_def
  by (simp add: scan_str_lower comp_def Let_def map_option_bind
      if_distrib [where f = "map_option g" for g] cong: if_cong)

lemma string_loop_lower: "string_loop (map to_lower m) e p = string_loop m e p"
proof (induction m e p rule: string_loop.induct)
  case (1 m e p)
  then show ?case
    by (subst (1 2) string_loop.simps) (simp cong: if_cong option.case_cong split: option.split)
qed

lemma match_from_lower: "match_from (map to_lower m) p w = match_from m p w"
  by (induction w arbitrary: p) (auto split: option.split)

lemma kw_match_lower: "kw_match (map to_lower m) e p k = kw_match m e p k"
  by (simp add: kw_match_def match_from_lower Let_def comp_def cong: if_cong kw_end.case_cong)

lemma first_kw_lower: "first_kw (map to_lower m) e p ks = first_kw m e p ks"
  by (induction ks) (simp_all add: kw_match_lower cong: if_cong)

lemma kw_case_lower: "kw_case (to_lower c) = kw_case c"
  by (simp add: kw_case_def)

lemma is_number_start_lower: "is_number_start (map to_lower m) p = is_number_start m p"
  by (simp add: is_number_start_def comp_def cong: if_cong)

lemma lower_stmt_simps [simp]:
  "query (lower_stmt s) = map to_lower (query s)" "queryLen (lower_stmt s) = queryLen s"
  "queryPtr (lower_stmt s) = queryPtr s" "numParam (lower_stmt s) = numParam s"
  "lower_stmt s\<lparr>queryPtr := q\<rparr> = lower_stmt (s\<lparr>queryPtr := q\<rparr>)"
  "lower_stmt s\<lparr>errPtr := q\<rparr> = lower_stmt (s\<lparr>errPtr := q\<rparr>)"
  "lower_stmt s\<lparr>numParam := k\<rparr> = lower_stmt (s\<lparr>numParam := k\<rparr>)"
  "advance n (lower_stmt s) = lower_stmt (advance n s)"
  by (simp_all add: lower_stmt_def advance_def)

lemma lower_token_simps [simp]:
  "lower_token (t, v, s) = (t, lower_lval v, lower_stmt s)"
  "lower_token (lex_error k s) = lex_error k (lower_stmt s)"
  by (simp_all add: lower_token_def lex_error_def lower_stmt_def)

lemmas lower_push = comp_def Let_def map_option_bind if_distrib [where f = "map_option g" for g]
  if_distrib [where f = lower_token] option.case_distrib [where h = lower_token]
  option.case_distrib [where h = "map_option g" for g] scan_while_lower scan_until_lower
  scan_str_lower

lemma lex_number_lower:
  "lex_number (lower_stmt s) = map_option lower_token (lex_number s)"
  unfolding lex_number_def
  by (simp add: lower_push sscanf_d_lower sscanf_lf_lower prod.case_distrib [where h = lower_token]
      apfst_def map_prod_def case_prod_unfold cong: if_cong option.case_cong)

lemma next_is_lower: "\<not> is_alpha c \<Longrightarrow> next_is c (lower_stmt s) = next_is c s"
  by (simp add: next_is_def comp_def cong: if_cong)

lemma lex_parts_lower:
  "lex_string (lower_stmt s) = map_option lower_token (lex_string s)"
  "lex_quoted_ident (lower_stmt s) = map_option lower_token (lex_quoted_ident s)"
  "lex_date (lower_stmt s) = map_option lower_token (lex_date s)"
  "lex_equals (lower_stmt s) = map_option lower_token (lex_equals s)"
  "lex_greater (lower_stmt s) = map_option lower_token (lex_greater s)"
  "lex_less (lower_stmt s) = map_option lower_token (lex_less s)"
  "lex_bang (lower_stmt s) = map_option lower_token (lex_bang s)"
  "lex_param (lower_stmt s) = map_option lower_token (lex_param s)"
  by (simp_all add: lex_string_def lex_quoted_ident_def lex_date_def lex_equals_def lex_greater_def
      lex_less_def lex_bang_def lex_param_def next_is_lower string_loop_lower lower_push
      cong: if_cong option.case_cong)

lemma kw_lval_lower: "first_kw m e p (kw_case c) = Some (Some k) \<Longrightarrow> lower_lval (kw_lval k) = kw_lval k"
proof -
  have in_set: "first_kw m e p ks = Some (Some k) \<Longrightarrow> k \<in> set ks" for ks
    by (induction ks) (auto split: bind_splits if_splits)
  assume "first_kw m e p (kw_case c) = Some (Some k)"
  from in_set [OF this] show ?thesis
    by (auto simp: kw_case_def Let_def kw_defs split: if_splits)
qed

lemma lex_word_lower: "lex_word (lower_stmt s) = map_option lower_token (lex_word s)"
  unfolding lex_word_def
  by (auto simp: lower_push first_kw_lower kw_case_lower kw_lval_lower split: bind_splits option.splits)

lemma lex_token_lower: "lex_token (lower_stmt s) = map_option lower_token (lex_token s)"
proof (cases "rd (query s) (queryPtr s)")
  case (Some c)
  then show ?thesis
    by (cases "is_number_start (query s) (queryPtr s)")
      (simp_all add: lex_token_def lower_push is_number_start_lower lex_number_lower
        lex_parts_lower lex_word_lower to_lower_other cong: if_cong)
qed (simp add: lex_token_def)

text \<open>the case of letters does not matter: scanning the phrase in lower case gives the token
  of the phrase as written, its text in lower case.\<close>

theorem scanner_case_blind:
  "sqlyylex (lower_stmt s) = map_option lower_token (sqlyylex s)"
  unfolding sqlyylex_def skip_spaces_def
  by (simp add: lower_push lex_token_lower cong: if_cong)

end
