(* ===== verification/LexerWords.thy ===== *)
theory LexerWords
  imports LexerProps
begin

text \<open>The literals and words the scanner recognises, inside any phrase.\<close>

section \<open>Reading from the middle of a phrase\<close>

lemma rd_append: "rd (pre @ m) (length pre + n) = rd m n"
  by (simp add: rd_def nth_append)

lemma rd_append_0 [simp]: "rd (pre @ m) (length pre) = rd m 0"
  using rd_append [of pre m 0] by simp

lemma rd_Cons [simp]: "rd (c # m) 0 = Some c" "rd (c # m) (Suc n) = rd m n"
  by (simp_all add: rd_def)

lemma match_from_append: "match_from (pre @ m) (length pre + n) w = match_from m n w"
proof (induction w arbitrary: n)
  case (Cons x w)
  then show ?case using Cons.IH [of "Suc n"] by (simp add: rd_append cong: option.case_cong if_cong)
qed simp

lemma kw_match_append:
  "kw_match (pre @ m) (length pre + e) (length pre) k = kw_match m e 0 k"
proof (cases "kw_word k")
  case (Cons x w)
  then show ?thesis
    using match_from_append [of pre m "Suc 0" w] rd_append [of pre m "Suc (length w)"]
    by (simp add: kw_match_def Let_def cong: if_cong kw_end.case_cong)
next
  case Nil
  then show ?thesis
    using match_from_append [of pre m "Suc 0" "[]"]
    by (simp add: kw_match_def Let_def cong: if_cong kw_end.case_cong)
qed

lemma first_kw_append:
  "first_kw (pre @ m) (length pre + e) (length pre) ks = first_kw m e 0 ks"
  by (induction ks) (simp_all add: kw_match_append cong: if_cong)

lemma scan_while_stops:
  "\<forall>c \<in> set x. P c \<Longrightarrow> \<not> P d \<Longrightarrow> length pre + length x < e \<Longrightarrow>
   scan_while P (pre @ x @ d # rest) e (length pre) = Some (length pre + length x)"
proof (induction x arbitrary: pre)
  case Nil
  then show ?case by (subst scan_while.simps) simp
next
  case (Cons c x)
  then show ?case
    using Cons.IH [of "pre @ [c]"] by (subst scan_while.simps) simp
qed

lemma scan_until_stops:
  "\<forall>c \<in> set x. P c \<Longrightarrow> \<not> P d \<Longrightarrow> length pre + length x < e \<Longrightarrow>
   scan_until P (pre @ x @ d # rest) e (length pre) = Some (length pre + length x)"
proof (induction x arbitrary: pre)
  case Nil
  then show ?case by (subst scan_until.simps) simp
next
  case (Cons c x)
  then show ?case
    using Cons.IH [of "pre @ [c]"] by (subst scan_until.simps) simp
qed

lemma scan_str_stops:
  "\<forall>c \<in> set x. P c \<Longrightarrow> \<not> P d \<Longrightarrow>
   scan_str P (pre @ x @ d # rest) (length pre) = Some (length pre + length x)"
  by (simp add: scan_str_def scan_until_stops)

lemma slice_middle [simp]: "slice (pre @ x @ y) (length pre) (length pre + length x) = x"
  by (simp add: slice_def)

text \<open>The statement with the pointer at the start of the token \<open>x\<close>, and after it.\<close>

definition at_text :: "sql_stmt \<Rightarrow> bytes \<Rightarrow> bytes \<Rightarrow> bytes \<Rightarrow> bool" where
  "at_text s pre x y \<longleftrightarrow>
     query s = pre @ x @ y \<and> queryPtr s = length pre \<and> queryLen s = length (query s)"

definition past :: "sql_stmt \<Rightarrow> bytes \<Rightarrow> bytes \<Rightarrow> sql_stmt" where
  "past s pre x = s\<lparr>queryPtr := length pre + length x, errPtr := length pre\<rparr>"

lemma sqlyylex_at:
  assumes "at_text s pre (c # x) y" "\<not> is_space c"
  shows "sqlyylex s = lex_token (s\<lparr>errPtr := length pre\<rparr>)"
proof -
  have "s\<lparr>queryPtr := length pre, errPtr := length pre\<rparr> = s\<lparr>errPtr := length pre\<rparr>"
    using assms(1) by (cases s) (simp add: at_text_def)
  then have "lex_token (s\<lparr>queryPtr := length pre, errPtr := length pre\<rparr>) =
      lex_token (s\<lparr>errPtr := length pre\<rparr>)"
    by (rule arg_cong)
  then show ?thesis
    using assms by (auto simp: at_text_def sqlyylex_def skip_spaces_def scan_while.simps)
qed

lemma plain_char_facts:
  assumes "is_alpha c \<or> c = CHR ''_''"
  shows "\<not> is_space c" "\<not> is_digit c"
    "\<forall>d \<in> {CHR ''-'', CHR ''+'', CHR ''.'', QUOTE, DQUOTE, CHR ''['', CHR '':'', CHR ''*'', CHR ''/'',
       CHR ''='', CHR ''>'', CHR ''<'', CHR ''!'', CHR ''?''}. c \<noteq> d"
proof -
  have u: "\<not> is_space (CHR ''_'')" "\<not> is_digit (CHR ''_'')"
    by (simp_all add: is_space_def is_digit_def byte_def)
  show "\<not> is_space c" using assms u
    by (auto simp: is_space_def is_alpha_def is_upper_def is_lower_def)
  show "\<not> is_digit c" using assms u
    by (auto simp: is_digit_def is_alpha_def is_upper_def is_lower_def)
  show "\<forall>d \<in> {CHR ''-'', CHR ''+'', CHR ''.'', QUOTE, DQUOTE, CHR ''['', CHR '':'', CHR ''*'', CHR ''/'',
       CHR ''='', CHR ''>'', CHR ''<'', CHR ''!'', CHR ''?''}. c \<noteq> d"
    using assms by auto
qed

lemma lex_token_word:
  assumes "at_text s pre (c # x) y" "is_alpha c \<or> c = CHR ''_''"
  shows "sqlyylex s = lex_word (s\<lparr>errPtr := length pre\<rparr>)"
  using assms plain_char_facts [OF assms(2)]
  by (simp add: sqlyylex_at) (simp add: at_text_def lex_token_def is_number_start_def)

section \<open>Keywords\<close>

lemma word_char_mismatch [simp]:
  "\<not> is_word_char d \<Longrightarrow> is_word_char w \<Longrightarrow> to_lower d \<noteq> w"
  "\<not> is_word_char d \<Longrightarrow> is_word_char w \<Longrightarrow> d \<noteq> w"
  by auto

lemma word_chars [simp]:
  "is_word_char (CHR ''a'')" "is_word_char (CHR ''b'')" "is_word_char (CHR ''c'')"
  "is_word_char (CHR ''d'')" "is_word_char (CHR ''e'')" "is_word_char (CHR ''f'')"
  "is_word_char (CHR ''g'')" "is_word_char (CHR ''h'')" "is_word_char (CHR ''i'')"
  "is_word_char (CHR ''j'')" "is_word_char (CHR ''k'')" "is_word_char (CHR ''l'')"
  "is_word_char (CHR ''m'')" "is_word_char (CHR ''n'')" "is_word_char (CHR ''o'')"
  "is_word_char (CHR ''p'')" "is_word_char (CHR ''q'')" "is_word_char (CHR ''r'')"
  "is_word_char (CHR ''s'')" "is_word_char (CHR ''t'')" "is_word_char (CHR ''u'')"
  "is_word_char (CHR ''v'')" "is_word_char (CHR ''w'')" "is_word_char (CHR ''x'')"
  "is_word_char (CHR ''y'')" "is_word_char (CHR ''z'')" "\<not> is_word_char (CHR ''('')"
  by (simp_all add: is_word_char_def is_alnum_def is_alpha_def is_lower_def is_upper_def
      is_digit_def byte_def)

lemma lower_letters [simp]:
  "to_lower (CHR ''a'') = CHR ''a''" "to_lower (CHR ''b'') = CHR ''b''"
  "to_lower (CHR ''c'') = CHR ''c''" "to_lower (CHR ''d'') = CHR ''d''"
  "to_lower (CHR ''e'') = CHR ''e''" "to_lower (CHR ''f'') = CHR ''f''"
  "to_lower (CHR ''g'') = CHR ''g''" "to_lower (CHR ''h'') = CHR ''h''"
  "to_lower (CHR ''i'') = CHR ''i''" "to_lower (CHR ''j'') = CHR ''j''"
  "to_lower (CHR ''k'') = CHR ''k''" "to_lower (CHR ''l'') = CHR ''l''"
  "to_lower (CHR ''m'') = CHR ''m''" "to_lower (CHR ''n'') = CHR ''n''"
  "to_lower (CHR ''o'') = CHR ''o''" "to_lower (CHR ''p'') = CHR ''p''"
  "to_lower (CHR ''q'') = CHR ''q''" "to_lower (CHR ''r'') = CHR ''r''"
  "to_lower (CHR ''s'') = CHR ''s''" "to_lower (CHR ''t'') = CHR ''t''"
  "to_lower (CHR ''u'') = CHR ''u''" "to_lower (CHR ''v'') = CHR ''v''"
  "to_lower (CHR ''w'') = CHR ''w''" "to_lower (CHR ''x'') = CHR ''x''"
  "to_lower (CHR ''y'') = CHR ''y''" "to_lower (CHR ''z'') = CHR ''z''"
  by (simp_all add: to_lower_def is_upper_def byte_def)

definition word_keys :: "keyword list" where
  "word_keys = filter (\<lambda>k. kw_end k = Word \<and> kw_word k \<noteq> ''right('')
     (kw_a @ kw_b @ kw_c @ kw_d @ kw_f @ kw_g @ kw_i @ kw_j @ kw_l @ kw_m @ kw_n @ kw_o @ kw_p @
      kw_r @ kw_s @ kw_t @ kw_u @ kw_v @ kw_w)"

lemma word_keys_eq:
  "word_keys = [kw 3 ''all'' TK_ALL, kw 3 ''and'' TK_AND_OP, kw 3 ''asc'' TK_ASC, kw 2 ''as'' TK_AS,
     kw 2 ''by'' TK_BY, Kw 4 ''concat'' Word TK_OPERATOR (OpV OP_CONCAT), kw 4 ''desc'' TK_DESC,
     kw 6 ''delete'' TK_DELETE_SQL, kw 8 ''distinct'' TK_DISTINCT, kw 4 ''from'' TK_FROM,
     kw 4 ''group'' TK_GROUP, kw 2 ''is'' TK_IS_OP, kw 4 ''into'' TK_INTO, kw 2 ''in'' TK_IN_OP,
     kw 6 ''insert'' TK_INSERT, kw 4 ''join'' TK_JOIN, kw 4 ''left'' TK_LEFT, kw 4 ''lock'' TK_LOCK,
     kw 4 ''like'' TK_LIKE, kw 5 ''limit'' TK_LIMIT, kw 3 ''not'' TK_NOT, kw 4 ''null'' TK_NULLVAL,
     kw 2 ''or'' TK_OR, kw 5 ''order'' TK_ORDER, kw 5 ''outer'' TK_OUTER, kw 3 ''set'' TK_SET,
     kw 6 ''select'' TK_SELECT, kw 6 ''update'' TK_UPDATE, kw 5 ''union'' TK_UNION,
     kw 6 ''values'' TK_VALUES, kw 5 ''where'' TK_WHERE]"
  by (simp add: word_keys_def kw_defs)

lemma word_key_lower:
  assumes "k \<in> set word_keys" "\<not> is_word_char d" "length (kw_word k) < e"
  shows "first_kw (kw_word k @ d # y) e 0 (kw_case (hd (kw_word k))) = Some (Some k)"
proof -
  have "list_all (\<lambda>k. length (kw_word k) < e \<longrightarrow>
      first_kw (kw_word k @ d # y) e 0 (kw_case (hd (kw_word k))) = Some (Some k)) word_keys"
    using assms(2)
    by (simp add: word_keys_eq kw_case_def kw_defs kw_match_def Let_def)
  then show ?thesis using assms by (simp add: list_all_iff)
qed

lemma first_kw_at:
  "first_kw (pre @ x @ y) (length (pre @ x @ y)) (length pre) ks =
   first_kw (map to_lower x @ map to_lower y) (length (x @ y)) 0 ks"
  using first_kw_append [of "map to_lower pre" "map to_lower (x @ y)" "length (x @ y)" ks]
    first_kw_lower [of "pre @ x @ y" "length (pre @ x @ y)" "length pre" ks]
  by (simp add: add.assoc)

lemma word_key_hd: "k \<in> set word_keys \<Longrightarrow> \<exists>c w. kw_word k = c # w \<and> is_alpha c"
  by (auto simp: word_keys_eq is_alpha_def is_lower_def byte_def)

text \<open>every keyword is recognised in any mixture of cases wherever no letter, digit or
  underscore follows it, with its token, its operator and the pointer right after it.\<close>

theorem keyword_scanned:
  assumes "at_text s pre w (d # y)" "k \<in> set word_keys" "map to_lower w = kw_word k"
    "\<not> is_word_char d"
  shows "sqlyylex s = Some (kw_token k, kw_lval k, past s pre w)"
proof -
  obtain l u where k: "kw_word k = l # u" "is_alpha l" using word_key_hd [OF assms(2)] by blast
  then obtain c x where w: "w = c # x" "to_lower c = l" using assms(3) by (cases w) auto
  then have c: "is_alpha c" using k(2) lower_classes(3) [of c] by simp
  have "first_kw (query s) (queryLen s) (length pre) (kw_case c) =
      first_kw (kw_word k @ to_lower d # map to_lower y) (length (w @ d # y)) 0 (kw_case (hd (kw_word k)))"
    using assms(1,3) first_kw_at [of pre w "d # y" "kw_case c"] w k kw_case_lower [of c]
    by (simp add: at_text_def)
  also have "\<dots> = Some (Some k)"
    using arg_cong [OF assms(3), of length] assms(4)
    by (intro word_key_lower [OF assms(2)]) simp_all
  finally show ?thesis
    using lex_token_word [of s pre c x "d # y"] assms(1) w c arg_cong [OF assms(3), of length]
    by (simp add: lex_word_def at_text_def past_def Let_def)
qed

theorem keyword_scanned_witness:
  "sqlyylex (phrase ''SeLeCt x'') =
     Some (TK_SELECT, NoVal, past (phrase ''SeLeCt x'') [] ''SeLeCt'')"
proof -
  have "at_text (phrase ''SeLeCt x'') [] ''SeLeCt'' (SPACE # ''x'' @ [NUL])"
    by (simp add: at_text_def phrase_def)
  moreover have "\<not> is_word_char SPACE" "map to_lower ''SeLeCt'' = ''select''" by code_simp+
  moreover have "kw 6 ''select'' TK_SELECT \<in> set word_keys" by (simp add: word_keys_eq)
  ultimately show ?thesis
    using keyword_scanned [of "phrase ''SeLeCt x''" "[]" "''SeLeCt''" SPACE "''x'' @ [NUL]"
        "kw 6 ''select'' TK_SELECT"] by simp
qed

section \<open>Identifiers\<close>

definition kw_shape :: "keyword \<Rightarrow> bool" where
  "kw_shape k \<longleftrightarrow>
     kw_end k = Word \<and> list_all is_word_char (kw_word k) \<or>
     kw_word k \<noteq> [] \<and> last (kw_word k) = CHR ''('' \<and> list_all is_word_char (butlast (kw_word k))"

definition all_keys :: "keyword list" where
  "all_keys = kw_a @ kw_b @ kw_c @ kw_d @ kw_f @ kw_g @ kw_i @ kw_j @ kw_l @ kw_m @ kw_n @ kw_o @
     kw_p @ kw_r @ kw_s @ kw_t @ kw_u @ kw_v @ kw_w"

lemma kw_case_all: "set (kw_case c) \<subseteq> set all_keys"
  by (auto simp: kw_case_def all_keys_def Let_def split: if_splits)

lemma all_keys_shape: "list_all kw_shape all_keys"
  by (simp add: all_keys_def kw_defs kw_shape_def)

lemma match_from_True:
  "match_from m n w = Some True \<Longrightarrow>
   n + length w \<le> max n (length m) \<and> (\<forall>i < length w. to_lower (m ! (n + i)) = w ! i)"
proof (induction w arbitrary: n)
  case Nil
  then show ?case by simp
next
  case (Cons x w)
  then have "n < length m" "to_lower (m ! n) = x" "match_from m (Suc n) w = Some True"
    by (auto simp: rd_def split: option.splits if_splits)
  with Cons.IH [of "Suc n"] show ?case by (auto simp: less_Suc_eq_0_disj)
qed

lemma kw_case_hd: "k \<in> set (kw_case c) \<Longrightarrow> kw_word k \<noteq> [] \<and> hd (kw_word k) = to_lower c"
  by (auto simp: kw_case_def Let_def kw_defs split: if_splits)

text \<open>A test that succeeds at the start of the word \<open>x\<close>, after which comes \<open>d\<close>, is for \<open>x\<close>
  itself, in lower case, unless \<open>d\<close> is an opening parenthesis.\<close>

lemma kw_match_chars:
  assumes "kw_match m e 0 k = Some True" "kw_word k \<noteq> []" "hd (kw_word k) = to_lower (m ! 0)"
  shows "\<forall>i < length (kw_word k). to_lower (m ! i) = kw_word k ! i"
    "kw_end k = Word \<Longrightarrow> length (kw_word k) \<noteq> e \<Longrightarrow> \<not> is_word_char (m ! length (kw_word k))"
proof -
  obtain l w where w: "kw_word k = l # w" using assms(2) by (cases "kw_word k") auto
  have "match_from m (Suc 0) w = Some True"
    using assms(1) w by (auto simp: kw_match_def Let_def split: bind_splits if_splits)
  from match_from_True [OF this] show "\<forall>i < length (kw_word k). to_lower (m ! i) = kw_word k ! i"
    using w assms(3) by (auto simp: less_Suc_eq_0_disj)
  show "kw_end k = Word \<Longrightarrow> length (kw_word k) \<noteq> e \<Longrightarrow> \<not> is_word_char (m ! length (kw_word k))"
    using assms(1) w by (auto simp: kw_match_def Let_def rd_def split: bind_splits if_splits)
qed

lemma kw_match_word:
  assumes "kw_match (x @ d # y) e 0 k = Some True" "kw_shape k" "kw_word k \<noteq> []"
    "hd (kw_word k) = to_lower (hd x)" "x \<noteq> []" "\<forall>c \<in> set x. is_word_char c"
    "\<not> is_word_char d" "d \<noteq> CHR ''(''" "length x < e"
  shows "kw_word k = map to_lower x"
proof -
  let ?m = "x @ d # y" and ?w = "kw_word k" and ?n = "length x"
  note chars = kw_match_chars [OF assms(1,3)]
  have hd: "hd ?w = to_lower (?m ! 0)" using assms(4,5) by (simp add: nth_append hd_conv_nth)
  have word: "is_word_char (?w ! i)" if "i < length ?w" "i < ?n" for i
  proof -
    have "to_lower (x ! i) = ?w ! i" using chars(1) [OF hd] that by (auto simp: nth_append)
    then show ?thesis
      using is_word_char_lower [of "x ! i"] assms(6) nth_mem [OF that(2)] by simp
  qed
  have at_d: "?w ! ?n = to_lower d" if "?n < length ?w"
    using chars(1) [OF hd] that by (auto simp: nth_append)
  have last: "?w ! (length ?w - 1) = last ?w" using assms(3) by (simp add: last_conv_nth)
  have paren: "\<not> (last ?w = CHR ''('' \<and> list_all is_word_char (butlast ?w))"
  proof
    assume p: "last ?w = CHR ''('' \<and> list_all is_word_char (butlast ?w)"
    consider "length ?w - 1 < ?n" | "length ?w - 1 = ?n" | "?n < length ?w - 1" by linarith
    then show False
    proof cases
      case 1
      then show ?thesis using word [of "length ?w - 1"] last p assms(3) by simp
    next
      case 2
      then have "to_lower d = CHR ''(''" using at_d last p assms(3) by (cases ?w) auto
      then show ?thesis using assms(7,8) by (simp add: to_lower_def is_word_char_def is_alnum_def is_alpha_def split: if_splits)
    next
      case 3
      then have "is_word_char (?w ! ?n)"
        using p by (auto simp: list_all_length nth_butlast)
      then show ?thesis using at_d 3 assms(7) by simp
    qed
  qed
  then have shape: "kw_end k = Word" "list_all is_word_char ?w"
    using assms(2) by (auto simp: kw_shape_def)
  have "\<not> ?n < length ?w" using at_d shape(2) assms(7) by (auto simp: list_all_length)
  moreover have "\<not> length ?w < ?n"
    using chars(2) [OF hd shape(1)] assms(6,9) by (auto simp: nth_append)
  ultimately have "length ?w = ?n" by linarith
  then show ?thesis
    using chars(1) [OF hd] by (intro nth_equalityI) (auto simp: nth_append)
qed

lemma first_kw_None:
  assumes "ended m" "Suc 0 < length m" "\<forall>k \<in> set ks. kw_ok k \<and> kw_match m e 0 k \<noteq> Some True"
  shows "first_kw m e 0 ks = Some None"
  using assms
proof (induction ks)
  case (Cons k ks)
  obtain b where "kw_match m e 0 k = Some b" using kw_match_total [of m 0 k e] Cons.prems by auto
  with Cons show ?case by (cases b) auto
qed simp

lemma paren_not_alpha [simp]: "\<not> is_alpha (CHR ''('')"
  by (simp add: is_alpha_def is_upper_def is_lower_def byte_def)

lemma last_map_lower: "m \<noteq> [] \<Longrightarrow> last m = NUL \<Longrightarrow> last (map to_lower m) = NUL"
  by (simp add: last_map)

text \<open>a letter or underscore and the letters, digits and underscores after it are read as one
  identifier, as written, unless they spell a keyword in some case or an opening parenthesis,
  which would make them a function name, follows.\<close>

theorem identifier_scanned:
  assumes "at_text s pre x (d # y)" "ended (query s)"
    "x \<noteq> []" "is_alpha (hd x) \<or> hd x = CHR ''_''" "\<forall>c \<in> set x. is_word_char c"
    "\<not> is_word_char d" "d \<noteq> CHR ''(''" "map to_lower x \<notin> kw_word ` set all_keys"
  shows "sqlyylex s = Some (TK_IDENT, ItemV x, past s pre x)"
proof -
  obtain c z where x: "x = c # z" using assms(3) by (cases x) auto
  let ?m = "map to_lower x @ map to_lower (d # y)"
  have "last (x @ d # y) = NUL" using assms(1,2) by (auto simp: at_text_def ended_def)
  then have "ended ?m" using last_map_lower [of "x @ d # y"] by (simp add: ended_def)
  moreover have "kw_match ?m (length ?m) 0 k \<noteq> Some True" if "k \<in> set (kw_case c)" for k
  proof
    assume "kw_match ?m (length ?m) 0 k = Some True"
    then have "kw_word k = map to_lower (map to_lower x)"
      using that kw_case_hd [OF that] all_keys_shape kw_case_all [of c] assms(3,5,6,7) x
      by (intro kw_match_word [of "map to_lower x" "to_lower d" "map to_lower y" "length ?m"])
        (auto simp: list_all_iff)
    moreover have "k \<in> set all_keys" using that kw_case_all [of c] by blast
    then have "kw_word k \<in> kw_word ` set all_keys" by (rule imageI)
    ultimately show False using assms(8) by (simp add: comp_def)
  qed
  ultimately have "first_kw ?m (length ?m) 0 (kw_case c) = Some None"
    using kw_case_ok x by (intro first_kw_None) auto
  then have none: "first_kw (query s) (queryLen s) (length pre) (kw_case c) = Some None"
    using assms(1) first_kw_at [of pre x "d # y" "kw_case c"] by (simp add: at_text_def)
  have "scan_while is_word_char (query s) (queryLen s) (length pre) = Some (length pre + length x)"
    using assms(1,5,6) scan_while_stops [of x is_word_char d pre "queryLen s" y]
    by (simp add: at_text_def)
  moreover have "slice (query s) (length pre) (length pre + length x) = x"
    using assms(1) slice_middle [of pre x "d # y"] by (simp add: at_text_def)
  moreover have "sqlyylex s = lex_word (s\<lparr>errPtr := length pre\<rparr>)"
    using lex_token_word [of s pre c z "d # y"] assms(1,4) x by simp
  moreover have "rd (query s) (length pre) = Some c" using assms(1) x by (simp add: at_text_def)
  moreover have "queryPtr s = length pre" using assms(1) by (simp add: at_text_def)
  ultimately show ?thesis
    using none by (simp add: lex_word_def past_def Let_def)
qed

theorem identifier_scanned_witness:
  "sqlyylex (phrase ''Selected, x'') =
     Some (TK_IDENT, ItemV ''Selected'', past (phrase ''Selected, x'') [] ''Selected'')"
proof -
  have "at_text (phrase ''Selected, x'') [] ''Selected'' (CHR '','' # '' x'' @ [NUL])"
    by (simp add: at_text_def phrase_def)
  moreover have "ended (query (phrase ''Selected, x''))" by (simp add: phrase_def ended_def)
  moreover have "map to_lower ''Selected'' \<notin> kw_word ` set all_keys" by code_simp
  moreover have "is_alpha (CHR ''S'')" "\<forall>c \<in> set ''Selected''. is_word_char c"
    "\<not> is_word_char (CHR '','')" by code_simp+
  ultimately show ?thesis
    using identifier_scanned [of "phrase ''Selected, x''" "[]" "''Selected''" "CHR '',''" "'' x'' @ [NUL]"]
    by simp
qed

section \<open>Literals\<close>

lemma quote_not_space [simp]: "\<not> is_space QUOTE" "\<not> is_digit QUOTE"
  by (simp_all add: is_space_def is_digit_def byte_def)

lemma string_loop_plain:
  "\<forall>c \<in> set b. c \<noteq> QUOTE \<and> c \<noteq> BSLASH \<Longrightarrow> length pre + length b \<le> e \<Longrightarrow>
   string_loop (pre @ b @ y) e (length pre) = string_loop (pre @ b @ y) e (length pre + length b)"
proof (induction b arbitrary: pre)
  case (Cons c b)
  then show ?case using Cons.IH [of "pre @ [c]"] by (subst string_loop.simps) simp
qed simp

lemma string_token_at:
  assumes "at_text s pre (QUOTE # x) y"
  shows "sqlyylex s = lex_string (s\<lparr>errPtr := length pre\<rparr>)"
  using assms sqlyylex_at [OF assms]
  by (simp add: at_text_def lex_token_def is_number_start_def)

text \<open>a quoted text without quotes and backslashes is read as a string token with exactly that
  text.\<close>

theorem string_scanned:
  assumes "at_text s pre (QUOTE # b @ [QUOTE]) y" "\<forall>c \<in> set b. c \<noteq> QUOTE \<and> c \<noteq> BSLASH"
  shows "sqlyylex s = Some (TK_STRINGVAL, ItemV b, past s pre (QUOTE # b @ [QUOTE]))"
proof -
  have q: "query s = (pre @ [QUOTE]) @ b @ QUOTE # y" "queryPtr s = length pre"
    "queryLen s = length pre + length b + length y + 2"
    using assms(1) by (auto simp: at_text_def)
  have "string_loop (query s) (queryLen s) (Suc (length pre)) =
      string_loop (query s) (queryLen s) (length (pre @ [QUOTE] @ b))"
    using string_loop_plain [OF assms(2), of "pre @ [QUOTE]" "queryLen s" "QUOTE # y"]
    by (simp add: q)
  also have "\<dots> = Some (Some (length pre + length b + 2))"
    using rd_append_0 [of "pre @ [QUOTE] @ b" "QUOTE # y"]
    by (subst string_loop.simps) (simp add: q)
  finally show ?thesis
    using slice_middle [of "pre @ [QUOTE]" b "QUOTE # y"]
    by (simp add: string_token_at [OF assms(1)] lex_string_def q past_def)
qed

theorem string_scanned_witness:
  "sqlyylex (phrase (QUOTE # ''Rua A, 12'' @ [QUOTE])) =
     Some (TK_STRINGVAL, ItemV ''Rua A, 12'',
           past (phrase (QUOTE # ''Rua A, 12'' @ [QUOTE])) [] (QUOTE # ''Rua A, 12'' @ [QUOTE]))"
  using string_scanned [of "phrase (QUOTE # ''Rua A, 12'' @ [QUOTE])" "[]" "''Rua A, 12''" "[NUL]"]
  by (simp add: at_text_def phrase_def)

text \<open>when an escaped quote is the last character of a string, the scanner steps over the
  closing quote with it: at the end of the phrase the string is reported as not terminated.\<close>

theorem final_escaped_quote_unterminated:
  assumes "at_text s pre (QUOTE # b @ [BSLASH, QUOTE, QUOTE]) [NUL]"
    "\<forall>c \<in> set b. c \<noteq> QUOTE \<and> c \<noteq> BSLASH"
  shows "sqlyylex s = Some (TK_ERRORVAL, NoVal, s\<lparr>errPtr := length pre, errMsg := ERR_STRING\<rparr>)"
proof -
  let ?p = "length (pre @ [QUOTE] @ b)"
  have q: "query s = (pre @ [QUOTE]) @ b @ [BSLASH, QUOTE, QUOTE, NUL]" "queryPtr s = length pre"
    "queryLen s = ?p + 4"
    using assms(1) by (auto simp: at_text_def)
  have at: "rd (query s) ?p = Some BSLASH" "rd (query s) (Suc ?p) = Some QUOTE"
    "rd (query s) (Suc (Suc (Suc ?p))) = Some NUL"
    using rd_append [of "pre @ [QUOTE] @ b" "[BSLASH, QUOTE, QUOTE, NUL]"]
    by (simp_all add: q rd_def nth_append)
  have "string_loop (query s) (queryLen s) (Suc (length pre)) =
      string_loop (query s) (queryLen s) ?p"
    using string_loop_plain [OF assms(2), of "pre @ [QUOTE]" "queryLen s" "[BSLASH, QUOTE, QUOTE, NUL]"]
    by (simp add: q)
  also have "\<dots> = string_loop (query s) (queryLen s) (Suc (Suc (Suc ?p)))"
    using at q(3) by (subst string_loop.simps) simp
  also have "\<dots> = Some None"
    using at q(3) by (subst string_loop.simps, simp) (subst string_loop.simps, simp)
  finally show ?thesis
    by (simp add: string_token_at [OF assms(1)] lex_string_def lex_error_def q(2))
qed

theorem final_escaped_quote_unterminated_witness:
  "sqlyylex (phrase (QUOTE # ''a'' @ [BSLASH, QUOTE, QUOTE])) =
     Some (TK_ERRORVAL, NoVal,
           (phrase (QUOTE # ''a'' @ [BSLASH, QUOTE, QUOTE]))\<lparr>errPtr := 0, errMsg := ERR_STRING\<rparr>)"
  using final_escaped_quote_unterminated
    [of "phrase (QUOTE # ''a'' @ [BSLASH, QUOTE, QUOTE])" "[]" "''a''"]
  by (simp add: at_text_def phrase_def)

lemma minus_not_space [simp]: "\<not> is_space (CHR ''-'')"
  by (simp add: is_space_def byte_def)

lemma scan_stops_here:
  "\<not> P d \<Longrightarrow> length pre < e \<Longrightarrow> scan_until P (pre @ d # y) e (length pre) = Some (length pre)"
  "\<not> P d \<Longrightarrow> scan_str P (pre @ d # y) (length pre) = Some (length pre)"
  using scan_until_stops [of "[]" P d pre e y] scan_str_stops [of "[]" P d pre y] by simp_all

lemma sscanf_d_text:
  assumes "sg = [] \<or> sg = [CHR ''-'']" "ds \<noteq> []" "\<forall>c \<in> set ds. is_digit c" "\<not> is_digit d"
  shows "sscanf_d (pre @ sg @ ds @ d # y) (length pre) =
     (let v = (if sg = [] then dec_value ds else - dec_value ds)
      in Some (Some (if in_int32 v then Some v else None, length sg + length ds)))"
proof -
  let ?m = "pre @ sg @ ds @ d # y"
  obtain c ds' where ds: "ds = c # ds'" "is_digit c" using assms(2,3) by (cases ds) auto
  have c: "\<not> is_space c" "c \<noteq> CHR ''-''" "c \<noteq> CHR ''+''"
    using ds(2) is_digit_not_space by auto
  have sp: "scan_str is_space ?m (length pre) = Some (length pre)"
    using assms(1) ds c(1) scan_stops_here(2) [of is_space c pre]
      scan_str_stops [of "[]" is_space "CHR ''-''" pre "ds @ d # y"] by auto
  have dg: "scan_str is_digit ?m (length (pre @ sg)) = Some (length (pre @ sg) + length ds)"
    using scan_str_stops [OF assms(3,4), of "pre @ sg" y] by simp
  have sl: "slice ?m (length (pre @ sg)) (length (pre @ sg) + length ds) = ds"
    using slice_middle [of "pre @ sg" ds "d # y"] by simp
  show ?thesis
    using assms(1) ds(1) c(2,3) sp dg sl by (auto simp: sscanf_d_def Let_def)
qed

lemma int_text_split:
  obtains sg ds where "int_text i = sg @ ds" "sg = [] \<or> sg = [CHR ''-'']" "ds \<noteq> []"
    "\<forall>c \<in> set ds. is_digit c" "(if sg = [] then dec_value ds else - dec_value ds) = i"
proof
  let ?sg = "if i < 0 then [CHR ''-''] else []"
  let ?ds = "nat_text (nat \<bar>i\<bar>)"
  show "int_text i = ?sg @ ?ds" by (simp add: int_text_def)
  show "?sg = [] \<or> ?sg = [CHR ''-'']" by simp
  show "?ds \<noteq> []" by simp
  show "\<forall>c \<in> set ?ds. is_digit c" by (rule nat_text_digits)
  show "(if ?sg = [] then dec_value ?ds else - dec_value ?ds) = i"
    by (simp add: dec_value_nat_text)
qed

text \<open>an integer written in decimal is read back as the same integer, negative ones with
  their sign, when it fits the scanner's 32-bit value and no digit, point or exponent mark follows.\<close>

theorem integer_scanned:
  assumes "at_text s pre (int_text i) (d # y)" "in_int32 i"
    "\<not> is_digit d" "d \<noteq> CHR ''.''" "to_lower d \<noteq> CHR ''e''"
  shows "sqlyylex s = Some (TK_INTEGERVAL, IntV (Some i), past s pre (int_text i))"
proof -
  obtain sg ds where t: "int_text i = sg @ ds" "sg = [] \<or> sg = [CHR ''-'']" "ds \<noteq> []"
    "\<forall>c \<in> set ds. is_digit c" "(if sg = [] then dec_value ds else - dec_value ds) = i"
    by (rule int_text_split)
  obtain c z where ds: "ds = c # z" "is_digit c" using t(3,4) by (cases ds) auto
  have c: "\<not> is_space c" "c \<noteq> CHR ''-''" "c \<noteq> CHR ''.''" using ds(2) is_digit_not_space by auto
  let ?m = "pre @ sg @ ds @ d # y" and ?e = "length (pre @ sg @ ds @ d # y)"
  have q: "query s = ?m" "queryPtr s = length pre" "queryLen s = ?e"
    using assms(1) t(1) by (auto simp: at_text_def)
  have minus: "scan_until (\<lambda>c. c = CHR ''-'') ?m ?e (length pre) = Some (length (pre @ sg))"
    using t(2) c(2) ds(1) scan_until_stops [of sg "\<lambda>c. c = CHR ''-''" c pre ?e "z @ d # y"] by auto
  have space: "scan_until is_space ?m ?e (length (pre @ sg)) = Some (length (pre @ sg))"
    using ds(1) c(1) scan_stops_here(1) [of is_space c "pre @ sg" ?e "z @ d # y"] by simp
  have digits: "scan_until is_digit ?m ?e (length (pre @ sg)) = Some (length (pre @ sg @ ds))"
    using scan_until_stops [OF t(4) assms(3), of "pre @ sg" ?e y] by (simp add: add.assoc)
  have at: "rd ?m (length (pre @ sg)) = Some c" "rd ?m (length (pre @ sg @ ds)) = Some d"
    using rd_append_0 [of "pre @ sg" "ds @ d # y"] rd_append_0 [of "pre @ sg @ ds" "d # y"] ds(1)
    by simp_all
  have conv: "sscanf_d ?m (length pre) = Some (Some (Some i, length sg + length ds))"
    using sscanf_d_text [OF t(2,3,4) assms(3), of pre y] t(5) assms(2) by (simp add: Let_def)
  let ?s = "s\<lparr>errPtr := length pre\<rparr>"
  have start: "is_number_start ?m (length pre) = Some True"
    using t(2) ds by (auto simp: is_number_start_def rd_append [of pre _ "Suc 0", simplified])
  have "rd ?m (length pre) \<noteq> None" by (simp add: rd_def)
  then obtain c0 where "rd ?m (length pre) = Some c0" by blast
  then have "sqlyylex s = lex_number ?s"
    using start q t(1) assms(1) t(2) ds c(1) sqlyylex_at [of s pre c z "d # y"]
      sqlyylex_at [of s pre "CHR ''-''" ds "d # y"]
    by (auto simp: lex_token_def)
  also have "\<dots> = Some (TK_INTEGERVAL, IntV (Some i), past s pre (int_text i))"
    using minus space digits at conv ds(2) q assms(4,5) t(1)
    by (simp add: lex_number_def Let_def past_def add.assoc)
  finally show ?thesis .
qed

theorem integer_scanned_witness:
  "sqlyylex (phrase ''-120'') =
     Some (TK_INTEGERVAL, IntV (Some (- 120)), past (phrase ''-120'') [] ''-120'')"
proof -
  have t: "int_text (- 120) = ''-120''" by code_simp
  have "\<not> is_digit NUL" "to_lower NUL \<noteq> CHR ''e''" by code_simp+
  then show ?thesis
    using integer_scanned [of "phrase ''-120''" "[]" "- 120" NUL "[]", unfolded t]
    by (simp add: at_text_def phrase_def in_int32_def)
qed

end
