(* ===== verification/PCode.thy ===== *)
theory PCode
  imports LexerFacts
begin

text \<open>
  The entry point of the SQL parser and the construction of its pcode, \<open>source/sqlact.c\<close>. The
  parser itself, \<open>sql_yyparse\<close>, is generated from a grammar and is a parameter: it takes the
  statement and gives its result and the statement afterwards, or \<open>None\<close> when it does not return.
\<close>

section \<open>Parsing a phrase\<close>

text \<open>
  \<open>SqlParse(stmt, query, queryLen)\<close>; \<open>q\<close> is the C string at \<open>query\<close> with its NUL, or \<open>None\<close>
  for the null pointer, in which case \<open>errPtr\<close> points to a string of its own and its offset is
  left alone.
\<close>

definition SqlParse ::
  "(sql_stmt \<Rightarrow> (int \<times> sql_stmt) option) \<Rightarrow> sql_stmt \<Rightarrow> bytes option \<Rightarrow> nat \<Rightarrow> (int \<times> sql_stmt) option"
where
  "SqlParse yyparse s q n =
     (case q of
        None \<Rightarrow> Some (0, s\<lparr>errMsg := ERR_PARSE\<rparr>)
      | Some m \<Rightarrow> do {
          let n1 = (if n = 0 then length (takeWhile (\<lambda>c. c \<noteq> NUL) m) + 1 else n);
          (r, s1) \<leftarrow> yyparse (s\<lparr>query := m, queryLen := n1, queryPtr := 0, errPtr := 0, errMsg := 0\<rparr>);
          Some (if r \<noteq> 0 \<or> errMsg s1 \<noteq> 0 \<or> command s1 = - 1
                then (0, if errMsg s1 = 0 then s1\<lparr>errMsg := ERR_PARSE\<rparr> else s1)
                else (1, s1))
        })"

definition zero_stmt :: sql_stmt where
  "zero_stmt = \<lparr>command = 0, numParam = 0, errMsg = 0, sq_where = 0, query = [], queryLen = 0,
                queryPtr = 0, errPtr = 0, pArray = NIL, pTemp = NIL\<rparr>"

text \<open>
  \<open>SR_SQLPARSE(cPhrase, @nError, @nErrorPos)\<close>: the value returned and what is stored in the two
  arguments when they are by reference. An empty phrase does nothing.
\<close>

definition SR_SQLPARSE ::
  "(sql_stmt \<Rightarrow> (int \<times> sql_stmt) option) \<Rightarrow> bytes \<Rightarrow> bool \<Rightarrow> bool \<Rightarrow>
   (item \<times> int option \<times> int option) option"
where
  "SR_SQLPARSE yyparse t byref2 byref3 =
     (if length t \<noteq> 0 then do {
        let m = takeWhile (\<lambda>c. c \<noteq> NUL) t @ [NUL];
        (r, s) \<leftarrow> SqlParse yyparse zero_stmt (Some m) 0;
        Some (if r \<noteq> 0 then (pArray s, None, None)
              else (Arr 0 [], if byref2 then Some (errMsg s) else None,
                    if byref3 then Some (int (queryPtr s)) else None))
      }
      else Some (NIL, None, None))"

section \<open>pcode\<close>

text \<open>Codes are stored with \<open>hb_itemPutNILen(.., code, 6)\<close>; moving an item keeps its value.\<close>

definition SQLpCodeGenInt :: "int \<Rightarrow> item" where
  "SQLpCodeGenInt code = hb_arraySet (Arr 0 [NIL]) 1 (INum code)"

definition SQLpCodeGenIntItem :: "int \<Rightarrow> item \<Rightarrow> item" where
  "SQLpCodeGenIntItem code v = hb_arraySet (hb_arraySet (Arr 0 [NIL, NIL]) 1 (INum code)) 2 v"

definition SQLpCodeGenItemInt :: "item \<Rightarrow> int \<Rightarrow> item" where
  "SQLpCodeGenItemInt v code = hb_arraySet (hb_arraySet (Arr 0 [NIL, NIL]) 1 v) 2 (INum code)"

definition SQLpCodeGenIntItem2 :: "int \<Rightarrow> item \<Rightarrow> int \<Rightarrow> item \<Rightarrow> item" where
  "SQLpCodeGenIntItem2 code v code2 v2 =
     (let a = Arr 0 [NIL, NIL, NIL, NIL];
          a1 = hb_arraySet a 1 (INum code);
          a2 = hb_arraySet a1 2 v;
          a3 = hb_arraySet a2 3 (INum code2)
      in hb_arraySet a3 4 v2)"

fun join_loop :: "item \<Rightarrow> item \<Rightarrow> nat list \<Rightarrow> item" where
  "join_loop a b [] = a"
| "join_loop a b (n # ns) = join_loop (hb_arrayAdd a (hb_arrayGet b n)) b ns"

definition SQLpCodeGenArrayJoin :: "item \<Rightarrow> item \<Rightarrow> item" where
  "SQLpCodeGenArrayJoin a b = join_loop a b [1 ..< hb_arrayLen b + 1]"

definition SQLpCodeGenArrayItem :: "item \<Rightarrow> item \<Rightarrow> item" where
  "SQLpCodeGenArrayItem a v = hb_arrayAdd a v"

definition SQLpCodeGenArrayInt :: "item \<Rightarrow> int \<Rightarrow> item" where
  "SQLpCodeGenArrayInt a code = hb_arrayAdd a (INum code)"

definition SQLpCodeGenArrayIntInt :: "item \<Rightarrow> int \<Rightarrow> int \<Rightarrow> item" where
  "SQLpCodeGenArrayIntInt a code code2 = hb_arrayAdd (hb_arrayAdd a (INum code)) (INum code2)"

definition SQLpCodeGenIntArray :: "int \<Rightarrow> item \<Rightarrow> item" where
  "SQLpCodeGenIntArray code a = hb_arraySet (hb_arrayIns (hb_arrayAdd a NIL) 1) 1 (INum code)"

section \<open>Properties\<close>

lemma join_loop_eq: "join_loop (Arr c xs) b ns = Arr c (xs @ map (hb_arrayGet b) ns)"
  by (induction ns arbitrary: xs) auto

lemma map_hb_arrayGet: "map (hb_arrayGet (Arr c xs)) [1 ..< length xs + 1] = xs"
  by (rule nth_equalityI) (auto simp: hb_arrayGet_def arr_get_def simp del: upt_Suc)

lemma SQLpCodeGenArrayJoin_eq: "SQLpCodeGenArrayJoin (Arr c xs) (Arr d ys) = Arr c (xs @ ys)"
  using map_hb_arrayGet [of d ys]
  by (simp add: SQLpCodeGenArrayJoin_def join_loop_eq hb_arrayLen_def del: upt_Suc)

lemma SQLpCodeGenIntArray_eq: "SQLpCodeGenIntArray code (Arr c xs) = Arr c (INum code # xs)"
  by (cases xs) (simp_all add: SQLpCodeGenIntArray_def arr_set_def)

text \<open>the parser's constructors build the code as the concatenation of their parts, in
  order: every constructor is the list of its codes and values, and a join keeps both sides whole.\<close>

theorem pcode_constructors:
  "arr_of (SQLpCodeGenArrayJoin (SQLpCodeGenIntArray k (SQLpCodeGenArrayInt (SQLpCodeGenIntItem c1 v1) c2))
                       (SQLpCodeGenArrayItem (SQLpCodeGenItemInt v2 c3) v3)) =
   [INum k, INum c1, v1, INum c2, v2, INum c3, v3] \<and>
   arr_of (SQLpCodeGenArrayIntInt (SQLpCodeGenIntItem2 c1 v1 c2 v2) c3 c4) =
   [INum c1, v1, INum c2, v2, INum c3, INum c4] \<and>
   SQLpCodeGenArrayJoin (SQLpCodeGenArrayJoin (Arr 0 xs) (Arr 0 ys)) (Arr 0 zs) =
   SQLpCodeGenArrayJoin (Arr 0 xs) (SQLpCodeGenArrayJoin (Arr 0 ys) (Arr 0 zs))"
  by (simp_all add: SQLpCodeGenArrayJoin_eq SQLpCodeGenIntArray_eq SQLpCodeGenArrayInt_def
      SQLpCodeGenIntItem_def SQLpCodeGenArrayItem_def SQLpCodeGenItemInt_def SQLpCodeGenArrayIntInt_def
      SQLpCodeGenIntItem2_def arr_set_def eval_nat_numeral)

text \<open>the parser is only ever entered on a statement the scanner's promises hold for: parsers
  that agree on terminated phrases whose length counts the NUL, with the pointer at the start and
  no error, give the same result.\<close>

theorem parser_entered_terminated:
  assumes "\<And>s. ended (query s) \<Longrightarrow> queryLen s = length (query s) \<Longrightarrow> queryPtr s = 0 \<Longrightarrow>
             errMsg s = 0 \<Longrightarrow> yy s = yy' s"
  shows "SR_SQLPARSE yy t b2 b3 = SR_SQLPARSE yy' t b2 b3"
proof -
  have "takeWhile (\<lambda>c. c \<noteq> NUL) (takeWhile (\<lambda>c. c \<noteq> NUL) t @ [NUL]) = takeWhile (\<lambda>c. c \<noteq> NUL) t"
    by (induction t) auto
  then show ?thesis
    using assms [of "zero_stmt\<lparr>query := takeWhile (\<lambda>c. c \<noteq> NUL) t @ [NUL],
        queryLen := length (takeWhile (\<lambda>c. c \<noteq> NUL) t) + 1, queryPtr := 0, errPtr := 0, errMsg := 0\<rparr>"]
    by (simp add: SR_SQLPARSE_def SqlParse_def)
qed

theorem parser_entered_terminated_witness:
  "SR_SQLPARSE (\<lambda>s. if queryLen s = length (query s) then Some (0, s) else None) ''a'' True True =
   SR_SQLPARSE (\<lambda>s. Some (0, s)) ''a'' True True"
  by (rule parser_entered_terminated) simp

text \<open>whatever the parser does, \<open>SqlParse\<close> reports success exactly when no error code is set,
  and a failure always comes with one.\<close>

theorem parse_result_consistent:
  "SqlParse yy s q n = Some (r, s') \<Longrightarrow> r \<in> {0, 1} \<and> (r = 0 \<longleftrightarrow> errMsg s' \<noteq> 0)"
  by (auto simp: SqlParse_def split: option.splits bind_splits if_splits)

theorem parse_result_consistent_witness:
  "SqlParse (\<lambda>s. Some (1, s)) zero_stmt (Some [NUL]) 0 =
     Some (0, zero_stmt\<lparr>query := [NUL], queryLen := 1, errMsg := ERR_PARSE\<rparr>) \<and>
   (0 = (0::int) \<longleftrightarrow> errMsg (zero_stmt\<lparr>query := [NUL], queryLen := 1, errMsg := ERR_PARSE\<rparr>) \<noteq> 0)"
proof -
  have r: "SqlParse (\<lambda>s. Some (1, s)) zero_stmt (Some [NUL]) 0 =
     Some (0, zero_stmt\<lparr>query := [NUL], queryLen := 1, errMsg := ERR_PARSE\<rparr>)" by code_simp
  then show ?thesis using parse_result_consistent [OF r] by simp
qed

end
