(* ===== verification/MovementProps.thy ===== *)
theory MovementProps
  imports Movement
begin

text \<open>
  What the movement operations promise: the loop over hidden records, the clamped skip in the rows of
  a query, the skip inside the cache of a table, the comparison of keys, the saving of a changed
  record before the area leaves it.
\<close>

section \<open>Leaving hidden records behind\<close>

text \<open>
  One turn of the loop of \<open>sqlSkipFilter\<close> that goes on: the area is on a record hidden by the filter or
  by its deletion, and \<open>SKIPRAW\<close> moves on. \<open>rests\<close> are the areas where the loop stops.
\<close>

inductive skips_hidden :: "'w env \<Rightarrow> 'w rdd \<Rightarrow> int \<Rightarrow> 'w area \<Rightarrow> 'w area \<Rightarrow> bool"
  for env self d
where
  by_filter: "\<not> fBof a \<Longrightarrow> \<not> fEof a \<Longrightarrow> filter_hides env a = Some (True, a1) \<Longrightarrow>
     self_skipRaw self d a1 = Some (r, b) \<Longrightarrow> skips_hidden env self d a b"
| by_deletion: "\<not> fBof a \<Longrightarrow> \<not> fEof a \<Longrightarrow> filter_hides env a = Some (False, a1) \<Longrightarrow>
     deleted_hides env self a1 = Some (True, a2) \<Longrightarrow> self_skipRaw self d a2 = Some (r, b) \<Longrightarrow>
     skips_hidden env self d a b"

inductive_cases skips_hiddenE: "skips_hidden env self d a b"

definition rests :: "'w env \<Rightarrow> 'w rdd \<Rightarrow> 'w area \<Rightarrow> bool \<Rightarrow> 'w area \<Rightarrow> bool" where
  "rests env self a out b \<longleftrightarrow>
     (if fBof a \<or> fEof a then out \<and> b = a
      else \<not> out \<and> (\<exists>a1. filter_hides env a = Some (False, a1) \<and>
             deleted_hides env self a1 = Some (False, b)))"

lemma ex_if_iff:
  "(\<exists>x. P x \<and> (if C x then A x else B x)) \<longleftrightarrow> (\<exists>x. P x \<and> C x \<and> A x) \<or> (\<exists>x. P x \<and> \<not> C x \<and> B x)"
  by (auto split: if_splits)

lemma rests_True: "rests env self a True b \<longleftrightarrow> (fBof a \<or> fEof a) \<and> b = a"
  by (simp add: rests_def)

lemma rests_False: "rests env self a False b \<Longrightarrow> \<not> (fBof a \<or> fEof a)"
  by (simp add: rests_def split: if_splits)

lemma filter_loop_rests:
  "rests env self a out b \<Longrightarrow> filter_loop env self d a = Some (out, b)"
  by (subst filter_loop.simps) (auto simp: rests_def split: if_splits)

lemma filter_loop_step:
  "skips_hidden env self d a b \<Longrightarrow> filter_loop env self d a = filter_loop env self d b"
  by (erule skips_hiddenE; subst filter_loop.simps; simp)

lemma filter_loop_steps:
  "(skips_hidden env self d)\<^sup>*\<^sup>* a b \<Longrightarrow> filter_loop env self d a = filter_loop env self d b"
  by (induction rule: converse_rtranclp_induct) (auto dest: filter_loop_step)

definition loop_end :: "'w env \<Rightarrow> 'w rdd \<Rightarrow> int \<Rightarrow> 'w area \<Rightarrow> bool \<times> 'w area \<Rightarrow> bool" where
  "loop_end env self d a res \<longleftrightarrow>
     (\<exists>a'. (skips_hidden env self d)\<^sup>*\<^sup>* a a' \<and> rests env self a' (fst res) (snd res))"

lemma loop_end_now: "rests env self a out b \<Longrightarrow> loop_end env self d a (out, b)"
  unfolding loop_end_def by auto

lemma loop_end_later: "skips_hidden env self d a a1 \<Longrightarrow> loop_end env self d a1 res \<Longrightarrow> loop_end env self d a res"
  unfolding loop_end_def by (blast intro: converse_rtranclp_into_rtranclp)

lemma filter_loop_end: "filter_loop env self d a = Some res \<Longrightarrow> loop_end env self d a res"
proof (rule filter_loop.raw_induct [where P = loop_end])
  fix loop env self d a and res :: "bool \<times> 'b area"
  assume ih: "\<And>env self d a res. loop env self d a = Some res \<Longrightarrow> loop_end env self d a res"
    and eq: "(if fBof a \<or> fEof a then Some (True, a)
      else do {
        (h, a1) \<leftarrow> filter_hides env a;
        if h then do {
          (r, a2) \<leftarrow> self_skipRaw self d a1;
          loop env self d a2
        }
        else do {
          (h2, a2) \<leftarrow> deleted_hides env self a1;
          if h2 then do {
            (r, a3) \<leftarrow> self_skipRaw self d a2;
            loop env self d a3
          }
          else Some (False, a2)
        }
      }) = Some res"
  show "loop_end env self d a res"
  proof (cases "fBof a \<or> fEof a")
    case True
    then have "res = (True, a)" using eq by simp
    then show ?thesis using True by (auto intro!: loop_end_now simp: rests_def)
  next
    case False
    then obtain h a1 where h: "filter_hides env a = Some (h, a1)"
      using eq by (cases "filter_hides env a") auto
    show ?thesis
    proof (cases h)
      case True
      with eq h False obtain r a2 where "self_skipRaw self d a1 = Some (r, a2)" "loop env self d a2 = Some res"
        by (cases "self_skipRaw self d a1") auto
      then show ?thesis
        using ih [of env self d a2 res] False h True by (auto intro: loop_end_later skips_hidden.by_filter)
    next
      case no: False
      with eq h False obtain h2 a2 where d: "deleted_hides env self a1 = Some (h2, a2)"
        by (cases "deleted_hides env self a1") auto
      show ?thesis
      proof (cases h2)
        case True
        with eq h False no d obtain r a3 where "self_skipRaw self d a2 = Some (r, a3)" "loop env self d a3 = Some res"
          by (cases "self_skipRaw self d a2") auto
        then show ?thesis
          using ih [of env self d a3 res] False h no d True
          by (auto intro: loop_end_later skips_hidden.by_deletion)
      next
        case f: False
        then have "res = (False, a2)" using eq h False no d by simp
        then show ?thesis using False h no d f by (auto intro!: loop_end_now simp: rests_def)
      qed
    qed
  qed
qed

lemma filter_loop_iff:
  "filter_loop env self d a = Some (out, b) \<longleftrightarrow>
   (\<exists>a'. (skips_hidden env self d)\<^sup>*\<^sup>* a a' \<and> rests env self a' out b)"
proof
  assume "filter_loop env self d a = Some (out, b)"
  then show "\<exists>a'. (skips_hidden env self d)\<^sup>*\<^sup>* a a' \<and> rests env self a' out b"
    using filter_loop_end [of env self d a "(out, b)"] by (simp add: loop_end_def)
next
  assume "\<exists>a'. (skips_hidden env self d)\<^sup>*\<^sup>* a a' \<and> rests env self a' out b"
  then show "filter_loop env self d a = Some (out, b)"
    using filter_loop_steps filter_loop_rests by metis
qed

lemma skip_loop_exact:
  assumes "filtering env a" "0 < n"
  shows "sqlSkipFilter self env n a = Some (r, b) \<longleftrightarrow> r = HB_SUCCESS \<and>
    (\<exists>a'. (skips_hidden env self 1)\<^sup>*\<^sup>* a a' \<and>
       (if fBof a' \<or> fEof a' then b = a'\<lparr>fBof := False\<rparr> else rests env self a' False b))"
proof -
  let ?steps = "(skips_hidden env self 1)\<^sup>*\<^sup>* a"
  have "sqlSkipFilter self env n a = Some (r, b) \<longleftrightarrow> r = HB_SUCCESS \<and>
     ((\<exists>a1. filter_loop env self 1 a = Some (True, a1) \<and> b = a1\<lparr>fBof := False\<rparr>) \<or>
      filter_loop env self 1 a = Some (False, b))"
    using assms by (cases "filter_loop env self 1 a") (auto simp: sqlSkipFilter_def split: if_splits)
  also have "\<dots> \<longleftrightarrow> r = HB_SUCCESS \<and>
     ((\<exists>a'. ?steps a' \<and> (fBof a' \<or> fEof a') \<and> b = a'\<lparr>fBof := False\<rparr>) \<or>
      (\<exists>a'. ?steps a' \<and> \<not> (fBof a' \<or> fEof a') \<and> rests env self a' False b))"
    unfolding filter_loop_iff rests_True using rests_False by metis
  also have "\<dots> \<longleftrightarrow> r = HB_SUCCESS \<and> (\<exists>a'. ?steps a' \<and>
       (if fBof a' \<or> fEof a' then b = a'\<lparr>fBof := False\<rparr> else rests env self a' False b))"
    unfolding ex_if_iff ..
  finally show ?thesis .
qed

text \<open>C5: going forward, SKIPFILTER comes back exactly when finitely many hidden records lie before a
  visible record or an end of the table; it stops at the first of them, never at BOF.\<close>

theorem skip_filter_exact:
  assumes "filtering env a" "0 < n"
  shows "sqlSkipFilter self env n a = Some (r, b) \<longleftrightarrow> r = HB_SUCCESS \<and>
    (\<exists>a'. (skips_hidden env self 1)\<^sup>*\<^sup>* a a' \<and>
       (if fBof a' \<or> fEof a' then b = a'\<lparr>fBof := False\<rparr> else rests env self a' False b))"
  by (rule skip_loop_exact [OF assms])

text \<open>If every call answers and every hidden record that is skipped brings the area nearer to an end, SKIPFILTER
  comes back, in either direction.\<close>

lemma skip_filter_returns:
  fixes m :: "'w area \<Rightarrow> nat"
  assumes answers: "\<And>blk x. eval_block env blk x \<noteq> None" "\<And>x. self_deleted self x \<noteq> None"
      "\<And>d x. self_skipRaw self d x \<noteq> None" "\<And>x. self_goTop self x \<noteq> None"
      "\<And>x. send env ''SETBOF'' [] x \<noteq> None"
    and nearer: "\<And>d x y. skips_hidden env self d x y \<Longrightarrow> m y < m x"
  shows "\<exists>r b. sqlSkipFilter self env n a = Some (r, b)"
proof -
  have loop: "\<exists>out b. filter_loop env self d x = Some (out, b)" for d x
  proof (induction "m x" arbitrary: x rule: less_induct)
    case less
    have raw: "\<exists>r b. self_skipRaw self d y = Some (r, b)" for y using answers(3) [of d y] by auto
    have f: "\<exists>h x1. filter_hides env x = Some (h, x1)"
    proof (cases "itmCobExpr x")
      case (Some blk)
      then show ?thesis using answers(1) [of blk x] by (auto simp: filter_hides_def)
    qed (auto simp: filter_hides_def)
    have d: "\<exists>h x1. deleted_hides env self y = Some (h, x1)" for y
      using answers(2) [of y] by (auto simp: deleted_hides_def)
    consider y where "skips_hidden env self d x y" | out y where "rests env self x out y"
    proof (cases "fBof x \<or> fEof x")
      case True
      then have "rests env self x True x" by (simp add: rests_def)
      then show ?thesis using that by blast
    next
      case False
      obtain h x1 where h: "filter_hides env x = Some (h, x1)" using f by blast
      obtain h2 x2 where h2: "deleted_hides env self x1 = Some (h2, x2)" using d by blast
      show ?thesis
        using that False h h2 raw [of x1] raw [of x2]
        by (cases h; cases h2) (auto simp: rests_def intro: skips_hidden.intros)
    qed
    then show ?case
    proof cases
      case 1
      then show ?thesis using less [OF nearer [OF 1]] filter_loop_step [OF 1] by simp
    next
      case 2
      then show ?thesis using filter_loop_rests [OF 2] by blast
    qed
  qed
  have top: "\<exists>e b. self_goTop self x = Some (e, b)" for x using answers(4) [of x] by auto
  have bof: "\<exists>e b. send env ''SETBOF'' [] x = Some (e, b)" for x using answers(5) [of x] by auto
  obtain out x where x: "filter_loop env self (if n > 0 then 1 else - 1) a = Some (out, x)" using loop by blast
  obtain e y where y: "self_goTop self (x\<lparr>fEof := False\<rparr>) = Some (e, y)" using top by blast
  obtain v z where z: "send env ''SETBOF'' [] y = Some (v, z)" using bof by blast
  show ?thesis using x y z by (simp add: sqlSkipFilter_def)
qed

section \<open>The rows of a query\<close>

lemma aInfo_clean_cols [simp]: "aInfo (clean_cols n vs a) = aInfo a"
  by (induction n vs a rule: clean_cols.induct) simp_all

lemma info_clean_cols [simp]:
  "info m (clean_cols n vs a) = info m a" "infoL m (clean_cols n vs a) = infoL m a"
  "infoNL m (clean_cols n vs a) = infoNL m a" "info_ok (clean_cols n vs a) = info_ok a"
  by (simp_all add: info_def infoL_def infoNL_def info_ok_def)

lemma clean_buffer_info:
  assumes "info_ok a"
  shows "info_ok (sqlGetCleanBuffer a)" "infoL SR_AINFO_EOF (sqlGetCleanBuffer a)"
    "infoL SR_AINFO_BOF (sqlGetCleanBuffer a) = infoL SR_AINFO_BOF a"
    "\<not> isam a \<Longrightarrow> infoNL SR_AINFO_NPOSCACHE (sqlGetCleanBuffer a) = int (length (aCache a)) + 1"
    "infoNL SR_AINFO_RECNO (sqlGetCleanBuffer a) = infoNL SR_AINFO_RCOUNT a + 1"
  using assms load_frame(9-12) by (simp_all add: sqlGetCleanBuffer_def Let_def load_frame)

lemma clean_buffer_fields [simp]:
  "lpdbRelations (sqlGetCleanBuffer a) = lpdbRelations a" "fBof (sqlGetCleanBuffer a) = fBof a"
  "fEof (sqlGetCleanBuffer a) = fEof a" "world (sqlGetCleanBuffer a) = world a"
  by (simp_all add: sqlGetCleanBuffer_def Let_def load_frame)

lemma info_load_cols_other:
  "info_ok a \<Longrightarrow> m \<noteq> SR_AINFO_RECNO \<Longrightarrow> m \<noteq> SR_AINFO_DELETED \<Longrightarrow> info m (load_cols n vs a) = info m a"
  by (induction n vs a rule: load_cols.induct) (simp_all add: infoL_infoNL_load, simp add: load_col_def Let_def)

lemma loaded_from_cache:
  assumes "sqlGetBufferFromCache2 p a = Some b" "info_ok a"
  shows "info_ok b" "infoNL SR_AINFO_NPOSCACHE b = p" "frame b = frame a"
    "\<And>m. m \<notin> {SR_AINFO_RECNO, SR_AINFO_DELETED, SR_AINFO_NPOSCACHE} \<Longrightarrow> info m b = info m a"
  using assms by (auto simp: sqlGetBufferFromCache2_def Let_def info_ok_load_cols info_load_cols_other
      split: bind_splits)

lemma load_buffer:
  assumes "cell (aCache a) p = Some (Arr k rec)" "length rec = length (aBuffer a)"
  shows "\<exists>b. sqlGetBufferFromCache2 p a = Some b \<and> aBuffer b = rec"
  using assms aBuffer_load_cols [of 1 rec a]
  by (auto simp: sqlGetBufferFromCache2_def Let_def)

text \<open>C17: a skip in the rows of a query goes to the row at that distance, to the first row with BOF set
  if there is none before, to the position after the last with EOF set if there is none behind; the
  flags of the area and of the status array agree and the buffer is the row arrived at.\<close>

theorem query_skip_clamps:
  assumes "info_ok a" "\<not> isam a" "aCache a \<noteq> []" "n \<noteq> 0" "\<not> lpdbRelations a"
    and rows: "\<forall>v \<in> set (aCache a). \<exists>k rec. v = Arr k rec \<and> length rec = length (aBuffer a)"
    and somewhere: "\<not> (infoL SR_AINFO_EOF a \<and> infoL SR_AINFO_BOF a)"
    and stable: "\<And>m args x. m \<in> {''STABILIZE'', ''NORMALIZE''} \<Longrightarrow>
      \<exists>v w. send env m args x = Some (v, x\<lparr>world := w\<rparr>)"
  shows "\<exists>b. sqlSkipRaw self env n a = Some (HB_SUCCESS, b) \<and>
     (let p = infoNL SR_AINFO_NPOSCACHE a + n; l = int (length (aCache a)) in
      infoNL SR_AINFO_NPOSCACHE b = max 1 (min (l + 1) p) \<and>
      fBof b = (p < 1) \<and> fEof b = (p > l) \<and>
      infoL SR_AINFO_BOF b = fBof b \<and> infoL SR_AINFO_EOF b = fEof b \<and>
      (p \<le> l \<longrightarrow> aBuffer b = arr_of (aCache a ! nat (max 1 p - 1))))"
proof -
  let ?p = "infoNL SR_AINFO_NPOSCACHE a + n" and ?l = "int (length (aCache a))"
  define a1 where "a1 = set_infoNL SR_AINFO_SKIPCOUNT (infoNL SR_AINFO_SKIPCOUNT a + n) (a\<lparr>fFound := False\<rparr>)"
  obtain v w where st: "send env ''STABILIZE'' [] a1 = Some (v, a1\<lparr>world := w\<rparr>)" using stable by blast
  define x where "x = a1\<lparr>world := w\<rparr>"
  have x: "info_ok x" "aCache x = aCache a" "aBuffer x = aBuffer a" "\<not> isam x" "\<not> lpdbRelations x"
    "infoNL SR_AINFO_NPOSCACHE x = infoNL SR_AINFO_NPOSCACHE a"
    using assms(1,2,5) by (simp_all add: x_def a1_def)
  have raw: "sqlSkipRaw self env n a = skip_query env n a1"
    using somewhere assms(2,4) unfolding a1_def by (auto simp: sqlSkipRaw_def Let_def)
  have c: "length (aCache a1) \<noteq> 0" "send env ''STABILIZE'' [] a1 = Some (v, x)"
    using assms(3) st by (simp_all add: a1_def x_def)
  have row: "\<exists>k rec. cell (aCache y) q = Some (Arr k rec) \<and> length rec = length (aBuffer y) \<and>
      rec = arr_of (aCache a ! nat (q - 1))"
    if "1 \<le> q" "q \<le> ?l" "aCache y = aCache a" "aBuffer y = aBuffer a" for q and y :: "'a area"
  proof -
    have "aCache a ! nat (q - 1) \<in> set (aCache a)" using that by (intro nth_mem) auto
    with rows obtain k rec where "aCache a ! nat (q - 1) = Arr k rec" "length rec = length (aBuffer a)"
      by blast
    then show ?thesis using that by (simp add: cell_def)
  qed
  consider "?p < 1" | "1 \<le> ?p" "?p \<le> ?l" | "?p > ?l" "\<not> ?p < 1" by linarith
  then show ?thesis
  proof cases
    case 1
    let ?y = "set_infoNL SR_AINFO_NPOSCACHE 1 x"
    have l1: "1 \<le> ?l" using assms(3) by (cases "aCache a") auto
    obtain k rec where r: "cell (aCache ?y) 1 = Some (Arr k rec)" "length rec = length (aBuffer ?y)"
      "rec = arr_of (aCache a ! nat (1 - 1))" using row [of 1 ?y] l1 x by auto
    from load_buffer [OF r(1,2)] obtain b where b: "sqlGetBufferFromCache2 1 ?y = Some b" "aBuffer b = rec"
      by blast
    have "info_ok ?y" using x(1) by simp
    note lb = loaded_from_cache [OF b(1) this]
    have "\<not> lpdbRelations b" using frame_eq_fields(8) [OF lb(3)] x(5) by simp
    then show ?thesis
      using 1 raw c x b lb(1,2) r(3) l1 by (simp add: skip_query_def Let_def ConcludeSkipraw_def)
  next
    case 2
    obtain k rec where r: "cell (aCache x) ?p = Some (Arr k rec)" "length rec = length (aBuffer x)"
      "rec = arr_of (aCache a ! nat (?p - 1))" using row [of ?p x] 2 x by auto
    from load_buffer [OF r(1,2)] obtain b where b: "sqlGetBufferFromCache2 ?p x = Some b" "aBuffer b = rec"
      by blast
    note lb = loaded_from_cache [OF b(1) x(1)]
    define b3 where "b3 = set_infoL SR_AINFO_FOUND False
      (set_infoL SR_AINFO_EOF False (set_infoL SR_AINFO_BOF False b))"
    obtain v2 w2 where nm: "send env ''NORMALIZE'' [NIL] b3 = Some (v2, b3\<lparr>world := w2\<rparr>)"
      using stable by blast
    have "\<not> lpdbRelations b3" using frame_eq_fields(8) [OF lb(3)] x(5) by (simp add: b3_def)
    moreover have "info_ok b3" "aBuffer b3 = rec" "infoNL SR_AINFO_NPOSCACHE b3 = ?p"
      "\<not> infoL SR_AINFO_BOF b3" "\<not> infoL SR_AINFO_EOF b3" "\<not> infoL SR_AINFO_FOUND b3"
      using lb(1,2) b(2) by (simp_all add: b3_def)
    moreover have "max 1 (min (?l + 1) ?p) = ?p" "max 1 ?p = ?p" using 2 by linarith+
    ultimately show ?thesis
      using 2 raw c x b(1) nm r(3)
      by (simp add: skip_query_def Let_def ConcludeSkipraw_def b3_def [symmetric] del: One_nat_def)
  next
    case 3
    let ?y = "set_infoL SR_AINFO_BOF False x"
    have y: "info_ok ?y" using x(1) by simp
    have "max 1 (min (?l + 1) ?p) = ?l + 1" using 3 by linarith
    then show ?thesis
      using 3 raw c x clean_buffer_info [OF y]
      by (simp add: skip_query_def Let_def ConcludeSkipraw_def load_eof_bof_def)
  qed
qed

section \<open>A table's cache\<close>

lemma step_inverse [simp]: "on_ring p \<Longrightarrow> step_bwd (step_fwd p) = p"
  by (auto simp: step_fwd_def step_bwd_def fixCachePointer_def on_ring_def)

lemma step_back:
  assumes "on_ring p" "j \<le> m"
  shows "(step_bwd ^^ j) ((step_fwd ^^ m) p) = (step_fwd ^^ (m - j)) p"
  using assms(2)
proof (induction j)
  case (Suc j)
  then obtain i where i: "m - j = Suc i" "m - Suc j = i" by (metis Suc_diff_Suc Suc_le_lessD)
  then show ?case using Suc fwd.ring_orbit [OF assms(1), of i] by simp
qed simp

lemma on_ring_pos: "on_ring p \<Longrightarrow> p \<noteq> 0"
  by (auto simp: on_ring_def)

lemma search_fwd_hit:
  assumes pos: "p = infoNL SR_AINFO_NPOSCACHE a" "on_ring p"
    and gap: "\<forall>j < k. in_window a ((step_fwd ^^ Suc j) p) \<and> cell (aCache a) ((step_fwd ^^ Suc j) p) = Some NIL"
    and hit: "in_window a ((step_fwd ^^ Suc k) p)" "cell (aCache a) ((step_fwd ^^ Suc k) p) = Some v" "v \<noteq> NIL"
    and "prev \<noteq> 0"
  shows "searchCacheFWD a prev = Some ((step_fwd ^^ Suc k) p)"
proof -
  let ?b = "infoNL SR_AINFO_NCACHEBEGIN a" and ?e = "infoNL SR_AINFO_NCACHEEND a"
  have "\<forall>j < k. \<not> fwd.stops (aCache a) ?b ?e ((step_fwd ^^ j) (step_fwd p))"
    using gap by (simp add: fwd.stops_def in_window_def funpow_swap1)
  moreover have "fwd.stops (aCache a) ?b ?e ((step_fwd ^^ k) (step_fwd p))"
    using hit by (simp add: fwd.stops_def funpow_swap1)
  ultimately have "fwd_loop (aCache a) ?b ?e (step_fwd p) = Some ((step_fwd ^^ Suc k) p)"
    using fwd.scan_first [of k "aCache a" ?b ?e "step_fwd p"] fwd.scan_stop hit
    by (simp add: in_window_def funpow_swap1)
  then show ?thesis
    using assms on_ring_pos [OF pos(2)] by (simp add: searchCacheFWD_def step_fwd_def)
qed

lemma search_bwd_hit:
  assumes pos: "p = infoNL SR_AINFO_NPOSCACHE a" "on_ring p"
    and gap: "\<forall>j < k. in_window a ((step_bwd ^^ Suc j) p) \<and> cell (aCache a) ((step_bwd ^^ Suc j) p) = Some NIL"
    and hit: "in_window a ((step_bwd ^^ Suc k) p)" "cell (aCache a) ((step_bwd ^^ Suc k) p) = Some v" "v \<noteq> NIL"
    and "prev \<noteq> 0"
  shows "searchCacheBWD a prev = Some ((step_bwd ^^ Suc k) p)"
proof -
  let ?b = "infoNL SR_AINFO_NCACHEBEGIN a" and ?e = "infoNL SR_AINFO_NCACHEEND a"
  have "\<forall>j < k. \<not> bwd.stops (aCache a) ?b ?e ((step_bwd ^^ j) (step_bwd p))"
    using gap by (simp add: bwd.stops_def in_window_def funpow_swap1)
  moreover have "bwd.stops (aCache a) ?b ?e ((step_bwd ^^ k) (step_bwd p))"
    using hit by (simp add: bwd.stops_def funpow_swap1)
  ultimately have "bwd_loop (aCache a) ?b ?e (step_bwd p) = Some ((step_bwd ^^ Suc k) p)"
    using bwd.scan_first [of k "aCache a" ?b ?e "step_bwd p"] bwd.scan_stop hit
    by (simp add: in_window_def funpow_swap1)
  then show ?thesis
    using assms on_ring_pos [OF pos(2)] by (simp add: searchCacheBWD_def step_bwd_def)
qed

text \<open>A table's area on a cached record, away from both ends.\<close>

definition on_record :: "'w env \<Rightarrow> 'w area \<Rightarrow> bool" where
  "on_record env a \<longleftrightarrow> info_ok a \<and> isam a \<and> \<not> lpdbRelations a \<and> on_ring (infoNL SR_AINFO_NPOSCACHE a) \<and>
     \<not> infoL SR_AINFO_EOF a \<and> \<not> infoL SR_AINFO_BOF a \<and>
     (\<exists>k r. cell (aCache a) (infoNL SR_AINFO_NPOSCACHE a) = Some (Arr k r))"

text \<open>Where a skip inside the cache leaves the area: on the record at position \<open>q\<close>.\<close>

definition arrives :: "'w area \<Rightarrow> int \<Rightarrow> item list \<Rightarrow> 'w area \<Rightarrow> bool" where
  "arrives a q rec c \<longleftrightarrow> info_ok c \<and> aBuffer c = rec \<and> infoNL SR_AINFO_NPOSCACHE c = q \<and>
     info SR_AINFO_RECNO c = rec ! (ulhRecno a - 1) \<and> frame c = (frame a)\<lparr>fFound := False, fBof := fBof c\<rparr> \<and>
     (\<forall>m. m \<notin> {SR_AINFO_RECNO, SR_AINFO_DELETED, SR_AINFO_NPOSCACHE, SR_AINFO_SKIPCOUNT} \<longrightarrow>
        info m c = info m a)"

definition counted :: "int \<Rightarrow> 'w area \<Rightarrow> 'w area" where
  "counted n a = set_infoNL SR_AINFO_SKIPCOUNT (infoNL SR_AINFO_SKIPCOUNT a + n) (a\<lparr>fFound := False\<rparr>)"

lemma counted_fields [simp]:
  "aCache (counted n a) = aCache a" "aBuffer (counted n a) = aBuffer a" "isam (counted n a) = isam a"
  "info_ok (counted n a) = info_ok a" "lpdbRelations (counted n a) = lpdbRelations a"
  "ulhRecno (counted n a) = ulhRecno a"
  "info_ok a \<Longrightarrow> m \<noteq> SR_AINFO_SKIPCOUNT \<Longrightarrow> info m (counted n a) = info m a"
  "info_ok a \<Longrightarrow> m \<noteq> SR_AINFO_SKIPCOUNT \<Longrightarrow> infoNL m (counted n a) = infoNL m a"
  by (simp_all add: counted_def)

lemma frame_counted [simp]: "frame (counted n a) = (frame a)\<lparr>fFound := False\<rparr>"
  by (cases a) (simp add: counted_def frame_def set_info_def)

lemma search_counted [simp]:
  "info_ok a \<Longrightarrow> searchCacheFWD (counted n a) prev = searchCacheFWD a prev"
  "info_ok a \<Longrightarrow> searchCacheBWD (counted n a) prev = searchCacheBWD a prev"
  by (simp_all add: searchCacheFWD_def searchCacheBWD_def Let_def cong: if_cong)

lemma frame_self_fBof: "frame c = (frame c)\<lparr>fBof := fBof c\<rparr>"
  by (cases c) (simp add: frame_def)

lemma load_arrives:
  assumes "cell (aCache a) q = Some (Arr k rec)" "length rec = length (aBuffer a)" "info_ok a"
    "1 \<le> ulhRecno a" "ulhRecno a \<le> length rec"
  shows "\<exists>c. setCurrentFromCache q (counted n a) = Some c \<and> arrives a q rec c"
proof -
  let ?a = "counted n a"
  have ok: "info_ok ?a" using assms(3) by simp
  obtain c where c: "sqlGetBufferFromCache2 q ?a = Some c" "aBuffer c = rec"
    using load_buffer [of ?a q k rec] assms(1,2) by auto
  note lc = loaded_from_cache [OF c(1) ok]
  have "info SR_AINFO_RECNO c = rec ! (ulhRecno a - 1)"
    using c(1) assms(1,3-5) info_load_cols [OF ok, of 1 rec] info_ok_load_cols [OF ok, of 1 rec]
    by (auto simp: sqlGetBufferFromCache2_def Let_def)
  moreover have "frame c = (frame a)\<lparr>fFound := False, fBof := fBof c\<rparr>"
    using lc(3) frame_eq_fields(7) [OF lc(3)] frame_self_fBof [of c] by simp
  ultimately show ?thesis
    using c lc(1,2,4) assms(3) unfolding arrives_def loaders_eq by auto
qed

lemma arrives_fBof: "arrives a q rec c \<Longrightarrow> arrives a q rec (c\<lparr>fBof := x\<rparr>)"
  by (cases a; cases c) (simp add: arrives_def frame_def info_def info_ok_def infoNL_def)

lemma arrives_relations: "arrives a q rec c \<Longrightarrow> lpdbRelations c = lpdbRelations a"
  by (cases a; cases c) (simp add: arrives_def frame_def)

lemma skip_forward:
  assumes a: "on_record env a" "\<not> iTemCompEqual env (info SR_AINFO_EOF_AT a) (info SR_AINFO_RECNO a)"
    and s: "searchCacheFWD a 1 = Some q" "q \<noteq> 0"
    and l: "cell (aCache a) q = Some (Arr k rec)" "length rec = length (aBuffer a)"
      "1 \<le> ulhRecno a" "ulhRecno a \<le> length rec"
    and n: "n > 0"
  shows "\<exists>c. sqlSkipRaw self env n a = Some (HB_SUCCESS, c) \<and> arrives a q rec c"
proof -
  have ok: "info_ok a" using a(1) by (simp add: on_record_def)
  obtain c where c: "setCurrentFromCache q (counted n a) = Some c" "arrives a q rec c"
    using load_arrives [OF l(1,2) ok l(3,4)] by blast
  have "sqlSkipRaw self env n a = skip_table_fwd env False (infoNL SR_AINFO_NPOSCACHE a) (counted n a)"
    using a n by (auto simp: sqlSkipRaw_def Let_def on_record_def counted_def [symmetric])
  also have "\<dots> = ConcludeSkipraw env (c\<lparr>fBof := False\<rparr>)"
    using a s c ok by (simp add: skip_table_fwd_def)
  also have "\<dots> = Some (HB_SUCCESS, c\<lparr>fBof := False\<rparr>)"
    using arrives_relations [OF c(2)] a(1) by (simp add: ConcludeSkipraw_def on_record_def)
  finally show ?thesis using arrives_fBof [OF c(2)] by blast
qed

lemma skip_backward:
  assumes a: "on_record env a" "\<not> iTemCompEqual env (info SR_AINFO_BOF_AT a) (info SR_AINFO_RECNO a)"
    and s: "searchCacheBWD a 1 = Some q" "q \<noteq> 0"
    and l: "cell (aCache a) q = Some (Arr k rec)" "length rec = length (aBuffer a)"
      "1 \<le> ulhRecno a" "ulhRecno a \<le> length rec"
    and n: "n < 0"
  shows "\<exists>c. sqlSkipRaw self env n a = Some (HB_SUCCESS, c) \<and> arrives a q rec c"
proof -
  have ok: "info_ok a" using a(1) by (simp add: on_record_def)
  obtain c where c: "setCurrentFromCache q (counted n a) = Some c" "arrives a q rec c"
    using load_arrives [OF l(1,2) ok l(3,4)] by blast
  have "sqlSkipRaw self env n a = skip_table_bwd self env False False (infoNL SR_AINFO_NPOSCACHE a) (counted n a)"
    using a n by (auto simp: sqlSkipRaw_def Let_def on_record_def counted_def [symmetric] HB_IS_NIL_def)
  also have "\<dots> = ConcludeSkipraw env c"
    using a s c ok by (simp add: skip_table_bwd_def skip_table_prev_def)
  also have "\<dots> = Some (HB_SUCCESS, c)"
    using arrives_relations [OF c(2)] a(1) by (simp add: ConcludeSkipraw_def on_record_def)
  finally show ?thesis using c(2) by blast
qed

text \<open>C7: on a cached record of a table, skipping forward goes to the nearest cached record behind it,
  over positions whose records are gone, without asking the server, and skipping back again returns
  to the record and the position it came from.\<close>

theorem skip_there_and_back:
  assumes a: "on_record env a" "p = infoNL SR_AINFO_NPOSCACHE a" "cell (aCache a) p = Some (Arr k0 rec0)"
      "length rec0 = length (aBuffer a)" "in_window a p"
    and q: "cell (aCache a) ((step_fwd ^^ Suc k) p) = Some (Arr k1 rec1)" "length rec1 = length (aBuffer a)"
      "in_window a ((step_fwd ^^ Suc k) p)"
    and gap: "\<forall>j < k. in_window a ((step_fwd ^^ Suc j) p) \<and> cell (aCache a) ((step_fwd ^^ Suc j) p) = Some NIL"
    and recno: "1 \<le> ulhRecno a" "ulhRecno a \<le> length (aBuffer a)"
    and ends: "\<not> iTemCompEqual env (info SR_AINFO_EOF_AT a) (info SR_AINFO_RECNO a)"
      "\<not> iTemCompEqual env (info SR_AINFO_BOF_AT a) (rec1 ! (ulhRecno a - 1))"
  shows "\<exists>b c. sqlSkipRaw self env 1 a = Some (HB_SUCCESS, b) \<and> world b = world a \<and> aBuffer b = rec1 \<and>
      infoNL SR_AINFO_NPOSCACHE b = (step_fwd ^^ Suc k) p \<and>
      sqlSkipRaw self env (- 1) b = Some (HB_SUCCESS, c) \<and> world c = world a \<and> aBuffer c = rec0 \<and>
      infoNL SR_AINFO_NPOSCACHE c = p"
proof -
  let ?q = "(step_fwd ^^ Suc k) p"
  have ring: "on_ring p" using a(1,2) by (simp add: on_record_def)
  have q0: "?q \<noteq> 0" "p \<noteq> 0" using on_ring_pos [OF fwd.ring_orbit [OF ring]] on_ring_pos [OF ring] by blast+
  have "searchCacheFWD a 1 = Some ?q"
    using search_fwd_hit [OF a(2) ring gap q(3,1)] by simp
  from skip_forward [OF a(1) ends(1) this q0(1) q(1,2) recno(1), where n = 1 and self = self] recno(2) q(2)
  obtain b where b: "sqlSkipRaw self env 1 a = Some (HB_SUCCESS, b)" "arrives a ?q rec1 b" by force
  have fb: "frame b = (frame a)\<lparr>fFound := False, fBof := fBof b\<rparr>" and ib: "info_ok b"
    and nb: "infoNL SR_AINFO_NPOSCACHE b = ?q" and bb: "aBuffer b = rec1"
    and rb: "info SR_AINFO_RECNO b = rec1 ! (ulhRecno a - 1)"
    and ob: "\<And>m. m \<notin> {SR_AINFO_RECNO, SR_AINFO_DELETED, SR_AINFO_NPOSCACHE, SR_AINFO_SKIPCOUNT} \<Longrightarrow> info m b = info m a"
    using b(2) by (simp_all add: arrives_def)
  have eb: "aCache b = aCache a" "ulhRecno b = ulhRecno a" "isam b = isam a" "world b = world a"
    "lpdbRelations b = lpdbRelations a"
    using fb by (cases a; cases b; simp add: frame_def)+
  have ob': "on_record env b"
    using a(1) q(1) ib nb eb ob fwd.ring_orbit [OF ring, of "Suc k"]
    by (simp add: on_record_def infoL_def)
  have wb: "in_window b x = in_window a x" for x using ob by (simp add: in_window_def infoNL_def)
  have bk: "(step_bwd ^^ Suc j) ?q = (step_fwd ^^ (k - j)) p" if "j \<le> k" for j
    using step_back [OF ring, of "Suc j" "Suc k"] that by (simp del: funpow.simps)
  have "searchCacheBWD b 1 = Some ((step_bwd ^^ Suc k) ?q)"
  proof (rule search_bwd_hit)
    show "\<forall>j<k. in_window b ((step_bwd ^^ Suc j) ?q) \<and> cell (aCache b) ((step_bwd ^^ Suc j) ?q) = Some NIL"
    proof (intro allI impI)
      fix j assume "j < k"
      then obtain i where "k - j = Suc i" "i < k" by (metis Suc_diff_Suc diff_Suc_less diff_less_Suc less_trans_Suc lessI not_less_eq zero_less_Suc)
      then show "in_window b ((step_bwd ^^ Suc j) ?q) \<and> cell (aCache b) ((step_bwd ^^ Suc j) ?q) = Some NIL"
        using bk [of j] gap \<open>j < k\<close> eb wb by (simp del: funpow.simps)
    qed
    have "(step_bwd ^^ Suc k) ?q = p" using bk [of k] by (simp del: funpow.simps add: funpow_0)
    then show "in_window b ((step_bwd ^^ Suc k) ?q)"
      "cell (aCache b) ((step_bwd ^^ Suc k) ?q) = Some (Arr k0 rec0)"
      using wb eb a by (simp_all del: funpow.simps)
  qed (use nb fwd.ring_orbit [OF ring, of "Suc k"] in simp_all)
  then have sb: "searchCacheBWD b 1 = Some p" using bk [of k] by (simp del: funpow.simps add: funpow_0)
  have "\<not> iTemCompEqual env (info SR_AINFO_BOF_AT b) (info SR_AINFO_RECNO b)"
    using ends(2) rb ob by simp
  from skip_backward [OF ob' this sb q0(2), of k0 rec0 "- 1" self] a(3,4) eb bb q(2) recno
  obtain c where c: "sqlSkipRaw self env (- 1) b = Some (HB_SUCCESS, c)" "arrives b p rec0 c" by auto
  have "world c = world b" using c(2) by (cases b; cases c) (simp add: arrives_def frame_def)
  then show ?thesis using b(1) eb(4) bb nb c by (auto simp: arrives_def)
qed

section \<open>Comparing keys\<close>

lemma filter_zip_Nil: "length xs = length ys \<Longrightarrow> filter (\<lambda>(c, d). c \<noteq> d) (zip xs ys) = [] \<longleftrightarrow> xs = ys"
  by (induction xs ys rule: list_induct2) auto

lemma memcmp_eq:
  assumes "n \<le> length m1" "n \<le> length m2"
  shows "\<exists>r. memcmp m1 m2 n = Some r \<and> (r = 0 \<longleftrightarrow> take n m1 = take n m2)"
proof -
  have "length (take n m1) = length (take n m2)" using assms by simp
  from filter_zip_Nil [OF this] show ?thesis
    using assms by (cases "filter (\<lambda>(c, d). c \<noteq> d) (zip (take n m1) (take n m2))")
      (auto simp: memcmp_def split: if_splits)
qed

lemma u8_small: "n < 256 \<Longrightarrow> u8 (int n) = n"
  by (simp add: u8_def mod_pos_pos_trivial)

lemma prefix_take: "prefix k v \<longleftrightarrow> length k \<le> length v \<and> take (length k) v = k"
  by (metis append_eq_conv_conj prefix_def prefix_length_le take_is_prefix)

lemma key_result_prefix:
  assumes "length v < 256" "length k < 256"
  shows "\<exists>r. key_result (Str v) (u8 (int (length v))) k (u8 (int (length k))) False = Some r \<and>
     (r \<noteq> 0 \<longleftrightarrow> prefix k v)"
proof -
  define lim where "lim = min (length v) (length k)"
  obtain r where r: "memcmp (v @ [NUL]) (k @ [NUL]) lim = Some r" "r = 0 \<longleftrightarrow> take lim v = take lim k"
  proof -
    have le: "lim \<le> length v" "lim \<le> length k" by (simp_all add: lim_def)
    then have "lim \<le> length (v @ [NUL])" "lim \<le> length (k @ [NUL])" by simp_all
    from memcmp_eq [OF this] show ?thesis using that le by auto
  qed
  have lim: "(if length v > length k then length k else length v) = lim" by (simp add: lim_def)
  have z: "lim = 0 \<Longrightarrow> take lim v = take lim k" by simp
  show ?thesis
  proof (cases "length k \<le> length v")
    case True
    then have "lim = length k" by (simp add: lim_def)
    then show ?thesis
      using True r z by (auto simp: key_result_def Let_def u8_small assms lim prefix_take)
  next
    case False
    then have "lim = length v" by (simp add: lim_def)
    then show ?thesis
      using False r by (auto simp: key_result_def Let_def u8_small assms lim prefix_take)
  qed
qed

text \<open>The order in use, whose key is computed by a code block, has the value \<open>v\<close> for the current
  record.\<close>

definition order_key :: "'w env \<Rightarrow> 'w area \<Rightarrow> bytes \<Rightarrow> 'w area \<Rightarrow> bool" where
  "order_key env a v b \<longleftrightarrow> HB_IS_OBJECT (oWorkArea a) \<and>
     (\<exists>n a1 blk. send env ''SQLORDERLISTNUM'' [NIL] a = Some (INum n, a1) \<and> 1 \<le> n \<and> \<not> firstinteract a1 \<and>
        blk = hb_arrayGet (arr_get NIL (aOrders a1) (nat n)) SR_AINDEX_INDEX_KEY_CODEBLOCK \<and>
        \<not> HB_IS_NUMERIC blk \<and> eval_block env blk a1 = Some (Str v, b))"

lemma compare_order_key:
  assumes "order_key env a v b"
  shows "SR_sqlKeyCompare self env (Str k) exact a =
    map_option (\<lambda>r. (r, b)) (key_result (Str v) (u8 (int (length v))) k (u8 (int (length k))) exact)"
proof -
  obtain n a1 blk where n: "send env ''SQLORDERLISTNUM'' [NIL] a = Some (INum n, a1)" "1 \<le> n"
    "\<not> firstinteract a1" "blk = hb_arrayGet (arr_get NIL (aOrders a1) (nat n)) SR_AINDEX_INDEX_KEY_CODEBLOCK"
    "\<not> HB_IS_NUMERIC blk" "eval_block env blk a1 = Some (Str v, b)" "HB_IS_OBJECT (oWorkArea a)"
    using assms by (auto simp: order_key_def)
  have "sr_loadTagDefault env None a = Some ((Some (arr_get NIL (aOrders a1) (nat n)), n), a1)"
    using n by (simp add: sr_loadTagDefault_def Let_def)
  moreover have "key_value env (arr_get NIL (aOrders a1) (nat n)) a1 = Some ((Str v, u8 (int (length v))), b)"
    using n by (simp add: key_value_def Let_def)
  ultimately show ?thesis
    using n(3) by (cases "key_result (Str v) (u8 (int (length v))) k (u8 (int (length k))) exact")
      (simp_all add: SR_sqlKeyCompare_def first_interact_def key_text_def)
qed

text \<open>comparing a string key with the current record's, as a seek does, tells whether the key sought
  is a prefix of the record's key, for keys of less than 256 bytes.\<close>

theorem key_compare_prefix:
  assumes "order_key env a v b" "length v < 256" "length k < 256"
  shows "\<exists>r. SR_sqlKeyCompare self env (Str k) False a = Some (r, b) \<and> (r \<noteq> 0 \<longleftrightarrow> prefix k v)"
  using key_result_prefix [OF assms(2,3)] compare_order_key [OF assms(1), of self k False] by auto

text \<open>a sought key of 256 bytes has length 0 in the comparison's 8-bit length and matches every
  record.\<close>

theorem long_key_matches_all:
  assumes "order_key env a v b" "length k = 256"
  shows "SR_sqlKeyCompare self env (Str k) False a = Some (1, b)"
  using compare_order_key [OF assms(1), of self k False] assms(2)
  by (simp add: key_result_def u8_def)

section \<open>Saving a changed record\<close>

lemma leave_position_fields [simp]:
  "world (leave_position a) = world a" "infoL n (leave_position a) = infoL n a"
  "infoNL n (leave_position a) = infoNL n a" "lpdbRelations (leave_position a) = lpdbRelations a"
  "itmCobExpr (leave_position a) = itmCobExpr a" "cdPage (leave_position a) = cdPage a"
  by (simp_all add: leave_position_def)

lemma load_eof_bof_more [simp]:
  "world (load_eof_bof a) = world a" "lpdbRelations (load_eof_bof a) = lpdbRelations a"
  by (simp_all add: load_eof_bof_def)

text \<open>leaving a changed record by going to a record, the top or the bottom saves it first; seeking
  does not: the object gets the SQLSEEK with the change still pending.\<close>

theorem moves_save_first:
  assumes "send env = log_send" "infoL SR_AINFO_HOT a" "\<not> lpdbRelations a" "world a = []"
    "infoNL SR_AINFO_BOF_AT a = 0" "infoNL SR_AINFO_EOF_AT a = 0"
    "\<And>n x. self_skipFilter self n x = Some (HB_SUCCESS, x)"
    "\<not> set_deleted env [(''SQLSEEK'', [k, Logical soft, Logical final])]" "itmCobExpr a = None" "cdPage a = 0"
  shows "map_option (rev \<circ> world \<circ> snd) (sqlGoTo env n a) = Some [(''WRITEBUFFER'', []), (''SQLGOTO'', [INum n])] \<and>
    map_option (rev \<circ> world \<circ> snd) (sqlGoTop self env a) = Some [(''WRITEBUFFER'', []), (''SQLGOTOP'', [])] \<and>
    map_option (rev \<circ> world \<circ> snd) (sqlGoBottom self env a) =
      Some [(''WRITEBUFFER'', []), (''SQLGOBOTTOM'', [])] \<and>
    map_option (rev \<circ> world \<circ> snd) (sqlSeek self env soft k final a) =
      Some [(''SQLSEEK'', [k, Logical soft, Logical final])]"
  using assms
  by (simp_all add: sqlGoTo_def sqlGoTop_def sqlGoBottom_def sqlSeek_def Let_def write_hot_def log_send_def
      sync_relations_def filtering_def seek_key_def must_convert_def)

section \<open>Witnesses\<close>

text \<open>A filter that hides everything, and a table whose end comes after one record.\<close>

definition hide_env :: "trace env" where
  "hide_env = idle_env\<lparr>eval_block := \<lambda>b a. Some (Logical False, a)\<rparr>"

definition hide_rdd :: "trace rdd" where
  "hide_rdd = idle_rdd\<lparr>self_skipRaw := \<lambda>d a. Some (HB_SUCCESS, a\<lparr>fEof := True\<rparr>)\<rparr>"

definition hidden_area :: "trace area" where
  "hidden_area = (zero_area [])\<lparr>itmCobExpr := Some (Block 1)\<rparr>"

theorem skip_filter_exact_witness:
  "sqlSkipFilter hide_rdd hide_env 1 hidden_area = Some (HB_SUCCESS, hidden_area\<lparr>fEof := True, fBof := False\<rparr>)"
proof -
  have f: "filtering hide_env hidden_area" by (simp add: filtering_def hidden_area_def)
  have "filter_hides hide_env hidden_area = Some (True, hidden_area)"
    by (simp add: filter_hides_def hide_env_def hidden_area_def)
  then have "skips_hidden hide_env hide_rdd 1 hidden_area (hidden_area\<lparr>fEof := True\<rparr>)"
    by (rule skips_hidden.by_filter [rotated 2]) (simp_all add: hidden_area_def zero_area_def hide_rdd_def)
  then have steps: "(skips_hidden hide_env hide_rdd 1)\<^sup>*\<^sup>* hidden_area (hidden_area\<lparr>fEof := True\<rparr>)" ..
  show ?thesis
    by (rule skip_filter_exact [OF f, THEN iffD2, OF _ conjI, OF _ refl exI, OF _ conjI [OF steps]])
      (simp_all add: hidden_area_def zero_area_def)
qed

definition query_area :: "trace area" where
  "query_area = (zero_area [])
     \<lparr>aCache := [Arr 0 [Str ''a'', INum 1], Arr 0 [Str ''b'', INum 2]], aBuffer := [NIL, NIL],
      aInfo := (replicate 24 NIL)[19 := INum 2]\<rparr>"

theorem query_skip_clamps_witness:
  "\<exists>b. sqlSkipRaw idle_rdd idle_env (- 5) query_area = Some (HB_SUCCESS, b) \<and> fBof b \<and>
     infoNL SR_AINFO_NPOSCACHE b = 1 \<and> aBuffer b = [Str ''a'', INum 1]"
proof -
  have i: "infoNL SR_AINFO_NPOSCACHE query_area = 2"
    by (simp add: query_area_def infoNL_def info_def arr_get_def)
  have "\<exists>b. sqlSkipRaw idle_rdd idle_env (- 5) query_area = Some (HB_SUCCESS, b) \<and>
     (let p = infoNL SR_AINFO_NPOSCACHE query_area + - 5; l = int (length (aCache query_area)) in
      infoNL SR_AINFO_NPOSCACHE b = max 1 (min (l + 1) p) \<and>
      fBof b = (p < 1) \<and> fEof b = (p > l) \<and>
      infoL SR_AINFO_BOF b = fBof b \<and> infoL SR_AINFO_EOF b = fEof b \<and>
      (p \<le> l \<longrightarrow> aBuffer b = arr_of (aCache query_area ! nat (max 1 p - 1))))"
    by (rule query_skip_clamps)
      (auto simp: query_area_def zero_area_def info_ok_def infoL_def info_def arr_get_def idle_env_def log_send_def)
  then show ?thesis by (auto simp: i Let_def) (auto simp: query_area_def)
qed

definition table_area :: "trace area" where
  "table_area = (zero_area [])
     \<lparr>aCache := (replicate 600 NIL)[1 := Arr 0 [Str ''b'', INum 2], 599 := Arr 0 [Str ''a'', INum 1]],
      aInfo := (replicate 24 NIL)[19 := INum 600, 20 := INum 1, 21 := INum 600],
      aBuffer := [Str ''a'', INum 1], ulhRecno := 2, isam := True\<rparr>"

lemma table_area_fields [simp]:
  "infoNL SR_AINFO_NPOSCACHE table_area = 600" "infoNL SR_AINFO_NCACHEBEGIN table_area = 1"
  "infoNL SR_AINFO_NCACHEEND table_area = 600" "info SR_AINFO_EOF_AT table_area = NIL"
  "info SR_AINFO_BOF_AT table_area = NIL" "info_ok table_area" "isam table_area" "\<not> lpdbRelations table_area"
  "\<not> infoL SR_AINFO_EOF table_area" "\<not> infoL (Suc 0) table_area" "ulhRecno table_area = 2"
  "aBuffer table_area = [Str ''a'', INum 1]" "world table_area = []"
  "cell (aCache table_area) 1 = Some NIL" "cell (aCache table_area) 2 = Some (Arr 0 [Str ''b'', INum 2])"
  "cell (aCache table_area) 600 = Some (Arr 0 [Str ''a'', INum 1])"
  by (simp_all add: table_area_def zero_area_def infoNL_def infoL_def info_def arr_get_def info_ok_def cell_def nth_list_update)

theorem skip_there_and_back_witness:
  "\<exists>b c. sqlSkipRaw idle_rdd idle_env 1 table_area = Some (HB_SUCCESS, b) \<and> aBuffer b = [Str ''b'', INum 2] \<and>
     sqlSkipRaw idle_rdd idle_env (- 1) b = Some (HB_SUCCESS, c) \<and> aBuffer c = [Str ''a'', INum 1]"
proof -
  have st: "step_fwd 600 = 1" "step_fwd 1 = 2" by (simp_all add: step_fwd_def fixCachePointer_def)
  have "on_record idle_env table_area" by (simp add: on_record_def on_ring_def)
  from skip_there_and_back [OF this, of 600 0 "[Str ''a'', INum 1]" 1 0 "[Str ''b'', INum 2]" idle_rdd]
  show ?thesis
    by (auto simp: st in_window_def isCachePointerInRange_def iTemCompEqual_def HB_IS_NIL_def)
qed

definition key_env :: "trace env" where
  "key_env = idle_env\<lparr>send := \<lambda>m args a. Some (INum 1, a), eval_block := \<lambda>b a. Some (Str ''abc'', a)\<rparr>"

definition key_area :: "trace area" where
  "key_area = (zero_area [])\<lparr>oWorkArea := Arr 1 []\<rparr>"

lemma key_area_key: "order_key key_env key_area ''abc'' key_area"
  by (simp add: order_key_def key_env_def key_area_def zero_area_def hb_arrayGet_def arr_get_def)

theorem key_compare_prefix_witness:
  "\<exists>r. SR_sqlKeyCompare idle_rdd key_env (Str ''ab'') False key_area = Some (r, key_area) \<and> r \<noteq> 0"
  using key_compare_prefix [OF key_area_key, of "''ab''" idle_rdd] by auto

theorem long_key_matches_all_witness:
  "SR_sqlKeyCompare idle_rdd key_env (Str (replicate 256 CHR ''z'')) False key_area = Some (1, key_area)"
  by (rule long_key_matches_all [OF key_area_key]) simp

definition hot_area :: "trace area" where
  "hot_area = (zero_area [])\<lparr>aInfo := (replicate 24 NIL)[6 := Logical True]\<rparr>"

theorem moves_save_first_witness:
  "map_option (rev \<circ> world \<circ> snd) (sqlGoTo idle_env 7 hot_area) = Some [(''WRITEBUFFER'', []), (''SQLGOTO'', [INum 7])] \<and>
   map_option (rev \<circ> world \<circ> snd) (sqlSeek idle_rdd idle_env False (Str ''x'') False hot_area) =
     Some [(''SQLSEEK'', [Str ''x'', Logical False, Logical False])]"
  using moves_save_first [of idle_env hot_area idle_rdd "Str ''x''" False False 7]
  by (simp add: hot_area_def zero_area_def idle_env_def idle_rdd_def infoL_def infoNL_def info_def arr_get_def)
end
