(* ===== verification/DataProps.thy ===== *)
theory DataProps
  imports Data
begin

text \<open>
  What the data operations promise: a value stored in a column is read back, texts have the width of
  their field, values of the wrong kind are refused and change nothing, an appended record counts
  before it is saved, and the way a deletion and \<open>GOCOLD\<close> treat unsaved changes.
\<close>

section \<open>Storing and reading back\<close>

text \<open>An area that needs no positioning before column \<open>n\<close>, which lies at position \<open>i\<close> of the buffer and
  has the field \<open>f\<close>, is accessed.\<close>

definition at_column :: "'w area \<Rightarrow> nat \<Rightarrow> nat \<Rightarrow> field \<Rightarrow> bool" where
  "at_column a n i f \<longleftrightarrow> lpdbPendingRel a = None \<and> \<not> firstinteract a \<and> info_ok a \<and>
     carr (uiBufferIndex a) n = Some (int i) \<and> 1 \<le> i \<and> i \<le> length (aBuffer a) \<and> i < 65536 \<and>
     n \<le> length (uiFieldList a) \<and> carr (lpFields a) n = Some f"

lemma at_column_simps:
  assumes "at_column a n i f"
  shows "pending_or_first self a = Some ((), a)" "first_then_pending self a = Some ((), a)"
    "arr_get NIL (aBuffer a) i = aBuffer a ! (i - 1)"
  using assms by (simp_all add: at_column_def pending_or_first_def first_then_pending_def
      first_interact_def force_pending_def arr_get_def)

lemma note_column_at:
  assumes "at_column a n i f"
  shows "\<exists>b x. note_column n a = Some (b, x) \<and> at_column b n i f \<and> aBuffer b = aBuffer a \<and>
     cdPage b = cdPage a \<and> cdPageCnv b = cdPageCnv a \<and> world b = world a \<and> info_ok b"
proof -
  have i: "carr (uiBufferIndex a) n = Some (int i)" using assms by (simp add: at_column_def)
  have u: "carr (uiFieldList a) n = Some (uiFieldList a ! (n - 1))"
    using assms by (auto simp: at_column_def carr_def split: if_splits)
  show ?thesis
  proof (cases "uiFieldList a ! (n - 1) = 0")
    case True
    then show ?thesis using assms i u by (auto simp: note_column_def at_column_def)
  next
    case False
    then show ?thesis using assms u by (auto simp: note_column_def at_column_def)
  qed
qed

lemma convert_same:
  assumes "cdPage b = cdPage a" "cdPageCnv b = cdPageCnv a" "world b = world a"
  shows "other_cdp env b = other_cdp env a" "must_convert env b = must_convert env a"
    "converted env b f v = converted env a f v"
  using assms by (simp_all add: other_cdp_def must_convert_def converted_def)

lemma put_value_at:
  assumes a: "at_column a n i f" and kind: "same_kind (aBuffer a ! (i - 1)) v"
  shows "\<exists>b. sqlPutValue self env n v a = Some ((converted env a f v, HB_SUCCESS), b) \<and>
     infoL SR_AINFO_HOT b \<and> at_column b n i f \<and> cdPage b = cdPage a \<and> cdPageCnv b = cdPageCnv a \<and>
     world b = world a \<and> aBuffer b = (aBuffer a)[i - 1 := converted env a f v]"
proof -
  obtain b x where b: "note_column n a = Some (b, x)" "at_column b n i f" "aBuffer b = aBuffer a"
    "cdPage b = cdPage a" "cdPageCnv b = cdPageCnv a" "world b = world a" "info_ok b"
    using note_column_at [OF a] by blast
  have col: "u16 (int i) = i" "carr (uiBufferIndex a) n = Some (int i)" "carr (lpFields b) n = Some f"
    using a b(2) by (simp_all add: at_column_def u16_small)
  have dest: "\<not> HB_IS_NIL (aBuffer a ! (i - 1))" using kind
    by (cases "aBuffer a ! (i - 1)") (auto simp: same_kind_def HB_IS_NIL_def HB_IS_DATETIME_def)
  let ?w = "converted env a f v"
  let ?c = "set_infoL SR_AINFO_HOT True (b\<lparr>aBuffer := arr_set (aBuffer b) i ?w\<rparr>)"
  have "sqlPutValue self env n v a = Some ((?w, HB_SUCCESS), ?c)"
    using b col dest kind at_column_simps [OF a] convert_same [OF b(4-6)]
    by (simp add: sqlPutValue_def store_value_def Let_def)
  moreover have "at_column ?c n i f"
    using b(2) by (simp add: at_column_def)
  moreover have "arr_set (aBuffer b) i ?w = (aBuffer a)[i - 1 := ?w]"
    using a b(3) by (simp add: arr_set_def at_column_def)
  ultimately show ?thesis using b by (intro exI [of _ ?c]) simp
qed

lemma get_value_at:
  assumes a: "at_column a n i f" and v: "v = aBuffer a ! (i - 1)" "\<not> HB_IS_NIL v"
  shows "\<exists>b c. sqlGetValue self env n a = map_option (\<lambda>w. ((w, HB_SUCCESS), b)) (column_value env n v c) \<and>
     lpFields c = lpFields a \<and> cdPage c = cdPage a \<and> cdPageCnv c = cdPageCnv a \<and> world c = world a"
proof -
  obtain b x where b: "note_column n a = Some (b, x)" "cdPage b = cdPage a"
    "cdPageCnv b = cdPageCnv a" "world b = world a"
    using note_column_at [OF a] by blast
  moreover have "lpFields b = lpFields a"
    using b(1) by (auto simp: note_column_def split: if_splits bind_splits)
  moreover have "carr (uiBufferIndex a) n = Some (int i)" using a by (simp add: at_column_def)
  ultimately show ?thesis
    using v at_column_simps [OF a]
    by (intro exI [of _ "if x then b\<lparr>iFieldListStatus := FIELD_LIST_NEW_VALUE_READ\<rparr> else b"] exI
        [of _ "if x then b\<lparr>iFieldListStatus := FIELD_LIST_NEW_VALUE_READ\<rparr> else b"])
      (cases "column_value env n v (if x then b\<lparr>iFieldListStatus := FIELD_LIST_NEW_VALUE_READ\<rparr> else b)";
        simp add: sqlGetValue_def Let_def)
qed

text \<open>C12: a value of the kind of its column is stored in the form the field asks for, the record is marked
  as changed, and reading the column gives the stored form back where the code pages agree.\<close>

theorem stored_value_reads_back:
  assumes "at_column a n i f" "same_kind (aBuffer a ! (i - 1)) v" "w = converted env a f v"
    "\<not> HB_IS_NIL w" "\<not> HB_IS_ARRAY w" "\<not> HB_IS_HASH w" "uiType f = HB_FT_STRING \<longrightarrow> \<not> must_convert env a"
  shows "\<exists>b c. sqlPutValue self env n v a = Some ((w, HB_SUCCESS), b) \<and> infoL SR_AINFO_HOT b \<and>
     sqlGetValue self env n b = Some ((w, HB_SUCCESS), c)"
proof -
  from put_value_at [OF assms(1,2), of self env] obtain b where b:
    "sqlPutValue self env n v a = Some ((w, HB_SUCCESS), b)" "infoL SR_AINFO_HOT b" "at_column b n i f"
    "cdPage b = cdPage a" "cdPageCnv b = cdPageCnv a" "world b = world a" "aBuffer b = (aBuffer a)[i - 1 := w]"
    using assms(3) by blast
  have "i - 1 < length (aBuffer a)" using assms(1) by (auto simp: at_column_def)
  then have w: "w = aBuffer b ! (i - 1)" using b(7) by simp
  obtain d c where d: "sqlGetValue self env n b = map_option (\<lambda>w. ((w, HB_SUCCESS), d)) (column_value env n w c)"
    "lpFields c = lpFields b" "cdPage c = cdPage b" "cdPageCnv c = cdPageCnv b" "world c = world b"
    using get_value_at [OF b(3) w assms(4)] by blast
  have "must_convert env c = must_convert env a" using d b by (simp add: must_convert_def other_cdp_def)
  moreover have "carr (lpFields c) n = Some f" using b(3) d(2) by (simp add: at_column_def)
  ultimately have "column_value env n w c = Some w" using assms(5-7) by (auto simp: column_value_def)
  then show ?thesis using b(1,2) d(1) by auto
qed

text \<open>a text stored in a character column has exactly the width of the field, whatever its length, if
  the code page conversion keeps to its buffer.\<close>

theorem stored_text_has_width:
  assumes "at_column a n i f" "uiType f = HB_FT_STRING" "HB_IS_STRING (aBuffer a ! (i - 1))"
    and cdp: "\<And>s k p q. length (cdp_dup2 env s k p q) \<le> k"
  shows "\<exists>t b. sqlPutValue self env n (Str s) a = Some ((Str t, HB_SUCCESS), b) \<and>
     aBuffer b = (aBuffer a)[i - 1 := Str t] \<and> length t = uiLen f"
proof -
  have kind: "same_kind (aBuffer a ! (i - 1)) (Str s)" using assms(3) by (simp add: same_kind_def)
  define u where "u = cdp_dup2 env s (uiLen f) (other_cdp env a) (cdPage a)"
  define t where "t = u @ replicate (uiLen f - length u) SPACE"
  have t: "converted env a f (Str s) = Str t" "length t = uiLen f"
    using assms(2) cdp [of s "uiLen f"] by (simp_all add: converted_def Let_def t_def u_def)
  from put_value_at [OF assms(1) kind, of self env] t show ?thesis by auto
qed

text \<open>a value of another kind than its column, where the column is neither a memo nor multi-language,
  is refused with an error: the buffer keeps its value and the record is not marked as changed.\<close>

theorem wrong_kind_refused:
  assumes a: "at_column a n i f" and bad: "\<not> same_kind (aBuffer a ! (i - 1)) v" "\<not> HB_IS_NIL (aBuffer a ! (i - 1))"
    "\<not> is_multilang env (world a)" "uiType f \<noteq> HB_FT_MEMO"
    and err: "\<And>x. common_error env EG_DATATYPE ESQLRDD_DATATYPE x = Some ((), x)"
  shows "\<exists>b. sqlPutValue self env n v a = Some ((v, HB_FAILURE), b) \<and> aBuffer b = aBuffer a \<and>
     aInfo b = aInfo a"
proof -
  obtain b x where b: "note_column n a = Some (b, x)" "at_column b n i f" "aBuffer b = aBuffer a"
    "world b = world a" using note_column_at [OF a] by blast
  have "aInfo b = aInfo a"
    using b(1) by (auto simp: note_column_def split: if_splits bind_splits)
  moreover have "u16 (int i) = i" "carr (uiBufferIndex a) n = Some (int i)" "carr (lpFields b) n = Some f"
    using a b(2) by (simp_all add: at_column_def u16_small)
  ultimately show ?thesis
    using b bad err at_column_simps [OF a]
    by (simp add: sqlPutValue_def store_value_def Let_def)
qed

section \<open>Unsaved changes\<close>

text \<open>until it is saved, an appended record counts as a record and is not the end of the table.\<close>

theorem appended_record_counts:
  assumes "send env = log_send" "info_ok a"
  shows "\<exists>b. sqlAppend env x a = Some (HB_SUCCESS, b) \<and> aLocked b = [] \<and>
     sqlEof self b = Some ((False, HB_SUCCESS), b) \<and>
     sqlRecCount self b = Some ((infoNL SR_AINFO_RCOUNT a + 1, HB_SUCCESS), b)"
  using assms
  by (simp add: sqlAppend_def write_hot_def log_send_def sqlEof_def sqlRecCount_def first_then_pending_def
      first_interact_def force_pending_def load_eof_bof_def leave_position_def Let_def)

text \<open>GOCOLD does not save the changes of a deleted record, which stays marked as changed; deleting a
  changed record saves the change first, and so does leaving a deleted one.\<close>

theorem deleted_changes:
  assumes "send env = log_send" "info_ok a" "infoL SR_AINFO_HOT a" "infoL SR_AINFO_DELETED a"
    "lpdbPendingRel a = None" "\<not> firstinteract a"
  shows "sqlGoCold env a = Some (HB_SUCCESS, a) \<and>
     map_option (world \<circ> snd) (sqlDeleteRec self env a) =
       Some ((''SQLDELETEREC'', []) # (''WRITEBUFFER'', []) # world a) \<and>
     map_option (world \<circ> snd) (sqlGoTo env k a) = Some ((''SQLGOTO'', [INum k]) # (''WRITEBUFFER'', []) # world a)"
  using assms
  by (simp add: sqlGoCold_def sqlDeleteRec_def first_then_pending_def first_interact_def force_pending_def
      write_hot_def log_send_def sqlGoTo_def leave_position_def load_eof_bof_def)

text \<open>the index arrays of an area have room for the fields and the hidden columns only while their
  number fits in 16 bits: with 65535 fields and both columns one position is left.\<close>

theorem field_extent_wraps:
  assumes "super_setFieldExtent env n a = Some (HB_SUCCESS, b)" "n < 65536"
  shows "\<exists>c. sqlSetFieldExtent env n a = Some (HB_SUCCESS, c) \<and>
     length (uiBufferIndex c) = (n + of_bool (\<not> hide_recno env (world b)) + of_bool (\<not> hide_historic env (world b))) mod 65536 \<and>
     length (uiFieldList c) = length (uiBufferIndex c)"
proof -
  have u: "u16 (int m + 1) = (m + 1) mod 65536" for m by (simp add: u16_def nat_mod_distrib nat_add_distrib)
  show ?thesis
    using assms by (cases "hide_recno env (world b)"; cases "hide_historic env (world b)")
      (simp_all add: sqlSetFieldExtent_def Let_def u mod_Suc_eq)
qed

section \<open>Witnesses\<close>

definition text_field :: field where
  "text_field = \<lparr>uiType = HB_FT_STRING, uiLen = 5, uiDec = 0, uiFlags = 0\<rparr>"

definition column_area :: "trace area" where
  "column_area = (zero_area [])
     \<lparr>uiBufferIndex := [1], uiFieldList := [0], lpFields := [text_field], aBuffer := [Str ''old  ''],
      aInfo := replicate 24 NIL\<rparr>"

lemma column_area_at: "at_column column_area 1 1 text_field"
  by (simp add: at_column_def column_area_def zero_area_def carr_def info_ok_def)

lemma column_area_simps [simp]: "aBuffer column_area = [Str ''old  '']" "\<not> must_convert idle_env column_area"
  "world column_area = []"
  by (simp_all add: column_area_def zero_area_def must_convert_def)

theorem stored_value_reads_back_witness:
  "\<exists>b c. sqlPutValue idle_rdd idle_env 1 (Str ''ab'') column_area = Some ((Str ''ab   '', HB_SUCCESS), b) \<and>
     sqlGetValue idle_rdd idle_env 1 b = Some ((Str ''ab   '', HB_SUCCESS), c)"
proof -
  have w: "Str ''ab   '' = converted idle_env column_area text_field (Str ''ab'')"
    by (simp add: converted_def text_field_def idle_env_def Let_def eval_nat_numeral)
  show ?thesis
    using stored_value_reads_back [OF column_area_at _ w, of idle_rdd]
    by (auto simp: same_kind_def HB_IS_NIL_def)
qed

theorem stored_text_has_width_witness:
  "\<exists>t b. sqlPutValue idle_rdd idle_env 1 (Str ''a long text'') column_area = Some ((Str t, HB_SUCCESS), b) \<and>
     length t = 5"
proof -
  have "length (cdp_dup2 idle_env s k p q) \<le> k" for s k p q by (simp add: idle_env_def)
  from stored_text_has_width [OF column_area_at _ _ this, of idle_rdd "''a long text''"] show ?thesis
    by (auto simp: text_field_def)
qed

theorem wrong_kind_refused_witness:
  "\<exists>b. sqlPutValue idle_rdd idle_env 1 (INum 3) column_area = Some ((INum 3, HB_FAILURE), b) \<and>
     aBuffer b = [Str ''old  '']"
proof -
  have "common_error idle_env EG_DATATYPE ESQLRDD_DATATYPE x = Some ((), x)" for x by (simp add: idle_env_def)
  from wrong_kind_refused [OF column_area_at, of "INum 3" idle_env idle_rdd, OF _ _ _ _ this] show ?thesis
    by (auto simp: same_kind_def HB_IS_NIL_def HB_IS_DATETIME_def text_field_def idle_env_def)
qed

theorem appended_record_counts_witness:
  "\<exists>b. sqlAppend idle_env True column_area = Some (HB_SUCCESS, b) \<and>
     sqlRecCount idle_rdd b = Some ((1, HB_SUCCESS), b)"
proof -
  have "send idle_env = log_send" "info_ok column_area" "infoNL SR_AINFO_RCOUNT column_area = 0"
    by (simp_all add: idle_env_def column_area_def info_ok_def infoNL_def info_def arr_get_def)
  with appended_record_counts [of idle_env column_area True idle_rdd] show ?thesis by auto
qed

definition deleted_area :: "trace area" where
  "deleted_area = (zero_area [])\<lparr>aInfo := (replicate 24 NIL)[6 := Logical True, 7 := Logical True]\<rparr>"

theorem deleted_changes_witness:
  "sqlGoCold idle_env deleted_area = Some (HB_SUCCESS, deleted_area) \<and>
   map_option (world \<circ> snd) (sqlDeleteRec idle_rdd idle_env deleted_area) =
     Some [(''SQLDELETEREC'', []), (''WRITEBUFFER'', [])]"
  using deleted_changes [of idle_env deleted_area idle_rdd 1]
  by (simp add: deleted_area_def zero_area_def idle_env_def info_ok_def infoL_def info_def arr_get_def)

theorem field_extent_wraps_witness:
  "\<exists>c. sqlSetFieldExtent idle_env 65535 column_area = Some (HB_SUCCESS, c) \<and> length (uiBufferIndex c) = 1"
  using field_extent_wraps [of idle_env 65535 column_area column_area] by (auto simp: idle_env_def)

end
