(* ===== verification/OrderProps.thy ===== *)
theory OrderProps
  imports Orders
begin

text \<open>
  What orders, filters and scopes promise: a direction that is set is read back, a translated filter is
  asked of the object until it is cleared, and the cases in which an order is not looked at as it
  should be.
\<close>

section \<open>The current order\<close>

text \<open>The object answers with order \<open>k\<close> and changes nothing the driver sees.\<close>

definition current_order :: "'w env \<Rightarrow> int \<Rightarrow> bool" where
  "current_order env k \<longleftrightarrow>
     (\<forall>args x. \<exists>w. send env ''SQLORDERLISTNUM'' args x = Some (INum k, x\<lparr>world := w\<rparr>))"

lemma load_current:
  assumes "current_order env k" "HB_IS_OBJECT (oWorkArea a)" "1 \<le> k"
  shows "\<exists>w. sr_loadTagDefault env ord a = Some ((Some (arr_get NIL (aOrders a) (nat k)), k), a\<lparr>world := w\<rparr>)"
proof -
  obtain w where "send env ''SQLORDERLISTNUM'' [case ord of Some v \<Rightarrow> v | None \<Rightarrow> NIL] a = Some (INum k, a\<lparr>world := w\<rparr>)"
    using assms(1) unfolding current_order_def by blast
  then show ?thesis using assms(2,3) by (intro exI [of _ w]) (simp add: sr_loadTagDefault_def Let_def)
qed

definition asks :: "orderinfo \<Rightarrow> item option \<Rightarrow> orderinfo" where
  "asks i v = i\<lparr>itmNewVal := v\<rparr>"

text \<open>a direction set for the current order is the one read back, the ends of the table that were known
  in the old direction are forgotten, and the status array knows the new one.\<close>

theorem direction_reads_back:
  assumes ord: "current_order env k" "HB_IS_OBJECT (oWorkArea a)" "1 \<le> k" "k \<le> int (length (aOrders a))"
    and tag: "aOrders a ! (nat k - 1) = Arr c t" "17 \<le> length t" and a: "info_ok a"
  shows "\<exists>b j c. sqlOrderInfo self env DBOI_ISDESC (asks i (Some (Logical d))) a = Some ((j, HB_SUCCESS), b) \<and>
     infoNL SR_AINFO_BOF_AT b = 0 \<and> infoNL SR_AINFO_EOF_AT b = 0 \<and> infoL SR_AINFO_REVERSE_INDEX b = d \<and>
     sqlOrderInfo self env DBOI_ISDESC (asks i None) b =
       Some ((put_result (Logical d) (asks i None), HB_SUCCESS), c)"
proof -
  have ne: "aOrders a \<noteq> []" using ord(3,4) by auto
  obtain w where w: "sr_loadTagDefault env ord a = Some ((Some (arr_get NIL (aOrders a) (nat k)), k), a\<lparr>world := w\<rparr>)"
    if "ord = itmOrder i" for ord using load_current [OF ord(1-3)] by blast
  define b where "b = reverse_tag k d (a\<lparr>world := w\<rparr>)"
  have b: "HB_IS_OBJECT (oWorkArea b)" "aOrders b \<noteq> []" "length (aOrders b) = length (aOrders a)"
    using ord(2) ne by (simp_all add: b_def reverse_tag_def Let_def arr_set_def)
  have bt: "hb_arrayGet (arr_get NIL (aOrders b) (nat k)) SR_AINDEX_DESCEND_INDEX_ORDER = Logical d"
    using ord(3,4) tag
    by (simp add: b_def reverse_tag_def Let_def arr_get_def arr_set_def hb_arrayGet_def nat_le_iff le_nat_iff)
  have bi: "infoNL SR_AINFO_BOF_AT b = 0" "infoNL SR_AINFO_EOF_AT b = 0" "infoL SR_AINFO_REVERSE_INDEX b = d"
    using a by (simp_all add: b_def reverse_tag_def Let_def info_ok_def infoNL_def infoL_def info_def set_info_def arr_get_set)
  obtain w2 where w2: "sr_loadTagDefault env (itmOrder i) b =
      Some ((Some (arr_get NIL (aOrders b) (nat k)), k), b\<lparr>world := w2\<rparr>)"
    using load_current [OF ord(1) b(1) ord(3)] by blast
  show ?thesis
    using w [OF refl] w2 ne b(2) bt bi
    by (intro exI [of _ b] exI [of _ "put_result (Logical (infoL SR_AINFO_REVERSE_INDEX (a\<lparr>world := w\<rparr>)))
          (asks i (Some (Logical d)))"] exI [of _ "b\<lparr>world := w2\<rparr>"])
      (simp add: sqlOrderInfo_def order_direction_def asks_def b_def [symmetric])
qed

text \<open>an order is never reported as unique: the driver reads the entry of the order's array that
  holds its key expression, a text.\<close>

theorem never_unique:
  assumes ord: "current_order env k" "HB_IS_OBJECT (oWorkArea a)" "1 \<le> k" "aOrders a \<noteq> []"
    and key: "hb_arrayGet (arr_get NIL (aOrders a) (nat k)) SR_AINDEX_INDEX_KEY = Str e"
  shows "\<exists>b. sqlOrderInfo self env DBOI_UNIQUE i a = Some ((put_result (Logical False) i, HB_SUCCESS), b)"
  using load_current [OF ord(1-3), of "itmOrder i"] ord(4) key
  by (auto simp: sqlOrderInfo_def tag_flag_def)

text \<open>an order can only be destroyed while some order is in use: without one the request fails before
  the object is asked to remove the order it names.\<close>

theorem destroy_needs_current:
  assumes "current_order env 0" "HB_IS_OBJECT (oWorkArea a)" "self_goCold self a = Some (HB_SUCCESS, a)"
  shows "\<exists>w. sqlOrderDestroy self env i a = Some (HB_FAILURE, a\<lparr>world := w\<rparr>)"
proof -
  obtain w where "send env ''SQLORDERLISTNUM'' [NIL] a = Some (INum 0, a\<lparr>world := w\<rparr>)"
    using assms(1) unfolding current_order_def by blast
  then show ?thesis using assms(2,3)
    by (intro exI [of _ w]) (simp add: sqlOrderDestroy_def sr_loadTagDefault_def Let_def)
qed

section \<open>Filters\<close>

text \<open>The object's and the parent's part of a filter, as far as the driver sees it.\<close>

definition filter_calls :: "'w env \<Rightarrow> int \<Rightarrow> bool" where
  "filter_calls env res \<longleftrightarrow>
     (\<forall>args x. \<exists>w. send env ''SQLSETFILTER'' args x = Some (INum res, x\<lparr>world := w\<rparr>)) \<and>
     (\<forall>x. super_clearFilter env x = Some (HB_SUCCESS, x))"

text \<open>a filter the object has translated is in force in the database: its text is asked of the object,
  and clearing it tells the object exactly once.\<close>

theorem translated_filter_life:
  assumes f: "filter_calls env HB_SUCCESS" "lpdbPendingRel a = None"
    and ask: "\<And>m x. m \<in> {''SQLFILTERTEXT'', ''SQLCLEARFILTER''} \<Longrightarrow> send env m [] x = Some (ans m, upd m x)"
    and keep: "\<And>m x. sqlfilter (upd m x) = sqlfilter x"
  shows "\<exists>b. sqlSetFilter self env fi a = Some (HB_SUCCESS, b) \<and> sqlfilter b \<and>
     sqlFilterText env v b = Some ((ans ''SQLFILTERTEXT'', HB_SUCCESS), upd ''SQLFILTERTEXT'' b) \<and>
     (\<exists>c. sqlClearFilter env b = Some (HB_SUCCESS, c) \<and> \<not> sqlfilter c \<and>
        sqlClearFilter env c = Some (HB_SUCCESS, c))"
proof -
  obtain w where "send env ''SQLSETFILTER'' [abFilterText fi] a = Some (INum HB_SUCCESS, a\<lparr>world := w\<rparr>)"
    using f(1) unfolding filter_calls_def by blast
  then show ?thesis using f ask
    by (simp add: sqlSetFilter_def sqlFilterText_def sqlClearFilter_def filter_calls_def)
qed

text \<open>a filter the object cannot translate leaves the mark of the one before: after a translated filter
  the text is still asked of the object, not of the parent that now filters.\<close>

theorem refused_filter_keeps_mark:
  assumes "filter_calls env res" "res \<noteq> HB_SUCCESS" "lpdbPendingRel a = None" "sqlfilter a"
    and "\<And>x. super_setFilter env self fi x = Some (HB_SUCCESS, x\<lparr>itmCobExpr := ff_itmCobExpr fi\<rparr>)"
    and "\<And>x. send env ''SQLFILTERTEXT'' [] x = Some (old, x)"
  shows "\<exists>b. sqlSetFilter self env fi a = Some (HB_SUCCESS, b) \<and> itmCobExpr b = ff_itmCobExpr fi \<and>
     sqlFilterText env v b = Some ((old, HB_SUCCESS), b)"
proof -
  obtain w where "send env ''SQLSETFILTER'' [abFilterText fi] a = Some (INum res, a\<lparr>world := w\<rparr>)"
    using assms(1) unfolding filter_calls_def by blast
  then show ?thesis using assms by (simp add: sqlSetFilter_def sqlFilterText_def filter_calls_def)
qed

section \<open>Scopes\<close>

text \<open>both ways of setting a scope send the same request only while no code page conversion is due;
  otherwise the one through the order information sends the value unconverted.\<close>

theorem scope_conversion:
  assumes "send env = log_send" "must_convert env a"
  shows "map_option (hd \<circ> world \<circ> snd) (sqlSetScope env n (Some (Str s)) a) =
      Some (''SQLSETSCOPE'', [INum n, Str (cdp_dup env s (other_cdp env a) (cdPage a))]) \<and>
    map_option (hd \<circ> world \<circ> snd) (sqlSetServerSideIndexScope env n (Some (Str s)) a) =
      Some (''SQLSETSCOPE'', [INum n, Str s])"
  using assms
  by (simp add: sqlSetScope_def sqlSetServerSideIndexScope_def or_NIL_def log_send_def after_scope_def Let_def)

section \<open>Witnesses\<close>

definition order_env :: "int \<Rightarrow> trace env" where
  "order_env k = idle_env\<lparr>send := \<lambda>m args a. Some (INum k, a)\<rparr>"

lemma order_env_current: "current_order (order_env k) k"
  unfolding current_order_def
proof (intro allI)
  fix args and x :: "trace area"
  show "\<exists>w. send (order_env k) ''SQLORDERLISTNUM'' args x = Some (INum k, x\<lparr>world := w\<rparr>)"
    by (rule exI [of _ "world x"]) (cases x, simp add: order_env_def)
qed

definition order_area :: "trace area" where
  "order_area = (zero_area [])
     \<lparr>oWorkArea := Arr 1 [], aInfo := replicate 24 NIL,
      aOrders := [Arr 0 ((replicate 21 NIL)[3 := Str ''NAME''])]\<rparr>"

definition ask_info :: orderinfo where
  "ask_info = \<lparr>itmOrder = None, oi_atomBagName = None, itmResult = Some NIL, itmNewVal = None\<rparr>"

theorem direction_reads_back_witness:
  "\<exists>b j c. sqlOrderInfo idle_rdd (order_env 1) DBOI_ISDESC (asks ask_info (Some (Logical True))) order_area =
     Some ((j, HB_SUCCESS), b) \<and> infoL SR_AINFO_REVERSE_INDEX b \<and>
     sqlOrderInfo idle_rdd (order_env 1) DBOI_ISDESC (asks ask_info None) b =
       Some ((put_result (Logical True) (asks ask_info None), HB_SUCCESS), c)"
proof -
  have "HB_IS_OBJECT (oWorkArea order_area)" "(1 :: int) \<le> int (length (aOrders order_area))"
    "aOrders order_area ! (nat 1 - 1) = Arr 0 ((replicate 21 NIL)[3 := Str ''NAME''])" "info_ok order_area"
    by (simp_all add: order_area_def info_ok_def)
  from direction_reads_back [OF order_env_current this(1) _ this(2,3) _ this(4), of idle_rdd ask_info True]
  show ?thesis by fastforce
qed

theorem never_unique_witness:
  "\<exists>b. sqlOrderInfo idle_rdd (order_env 1) DBOI_UNIQUE ask_info order_area =
     Some ((put_result (Logical False) ask_info, HB_SUCCESS), b)"
  by (rule never_unique [OF order_env_current])
    (simp_all add: order_area_def hb_arrayGet_def arr_get_def)

theorem destroy_needs_current_witness:
  "\<exists>w. sqlOrderDestroy idle_rdd (order_env 0) (ask_info\<lparr>itmOrder := Some (Str ''X'')\<rparr>) order_area =
     Some (HB_FAILURE, order_area\<lparr>world := w\<rparr>)"
  by (rule destroy_needs_current [OF order_env_current]) (simp_all add: order_area_def idle_rdd_def)

definition some_filter :: filterinfo where
  "some_filter = \<lparr>ff_itmCobExpr = Some (Block 2), abFilterText = Str ''A > 1''\<rparr>"

lemma keeps_all: "\<exists>w. x = x\<lparr>world := w\<rparr>" for x :: "'w area"
  by (rule exI [of _ "world x"]) (cases x, simp)

lemma order_env_filter: "filter_calls (order_env k) k"
  unfolding filter_calls_def order_env_def by (simp add: idle_env_def keeps_all)

theorem translated_filter_life_witness:
  "\<exists>b. sqlSetFilter idle_rdd (order_env 0) some_filter order_area = Some (HB_SUCCESS, b) \<and> sqlfilter b \<and>
     (\<exists>c. sqlClearFilter (order_env 0) b = Some (HB_SUCCESS, c) \<and> \<not> sqlfilter c)"
proof -
  have "\<exists>b. sqlSetFilter idle_rdd (order_env 0) some_filter order_area = Some (HB_SUCCESS, b) \<and> sqlfilter b \<and>
     sqlFilterText (order_env 0) NIL b = Some ((INum 0, HB_SUCCESS), b) \<and>
     (\<exists>c. sqlClearFilter (order_env 0) b = Some (HB_SUCCESS, c) \<and> \<not> sqlfilter c \<and>
        sqlClearFilter (order_env 0) c = Some (HB_SUCCESS, c))"
    by (rule translated_filter_life [OF order_env_filter, where ans = "\<lambda>m. INum 0" and upd = "\<lambda>m x. x"])
      (simp_all add: order_area_def zero_area_def order_env_def)
  then show ?thesis by blast
qed

definition filtered_env :: "trace env" where
  "filtered_env = idle_env\<lparr>send := \<lambda>m args a. Some (if m = ''SQLFILTERTEXT'' then Str ''old'' else INum 1, a),
     super_setFilter := \<lambda>t fi a. Some (HB_SUCCESS, a\<lparr>itmCobExpr := ff_itmCobExpr fi\<rparr>)\<rparr>"

theorem refused_filter_keeps_mark_witness:
  "\<exists>b. sqlSetFilter idle_rdd filtered_env some_filter (order_area\<lparr>sqlfilter := True\<rparr>) = Some (HB_SUCCESS, b) \<and>
     sqlFilterText filtered_env NIL b = Some ((Str ''old'', HB_SUCCESS), b)"
proof -
  have c: "filter_calls filtered_env 1"
    unfolding filter_calls_def filtered_env_def by (simp add: idle_env_def keeps_all)
  have "\<exists>b. sqlSetFilter idle_rdd filtered_env some_filter (order_area\<lparr>sqlfilter := True\<rparr>) = Some (HB_SUCCESS, b) \<and>
     itmCobExpr b = ff_itmCobExpr some_filter \<and> sqlFilterText filtered_env NIL b = Some ((Str ''old'', HB_SUCCESS), b)"
    by (rule refused_filter_keeps_mark [OF c])
      (simp_all add: order_area_def zero_area_def filtered_env_def)
  then show ?thesis by blast
qed

definition upper_env :: "trace env" where
  "upper_env = idle_env\<lparr>cdp_dup := \<lambda>s p q. map to_upper s\<rparr>"

theorem scope_conversion_witness:
  "map_option (hd \<circ> world \<circ> snd) (sqlSetServerSideIndexScope upper_env 0 (Some (Str ''a'')) (order_area\<lparr>cdPage := 2\<rparr>)) =
     Some (''SQLSETSCOPE'', [INum 0, Str ''a''])"
  using scope_conversion [of upper_env "order_area\<lparr>cdPage := 2\<rparr>" 0 "''a''"]
  by (simp add: upper_env_def idle_env_def must_convert_def other_cdp_def order_area_def zero_area_def)

end
