(* ===== verification/Areas.thy ===== *)
theory Areas
  imports Data
begin

text \<open>
  The life of a work area, \<open>source/sqlrdd1.c\<close>: opening, creating and closing, the fields taken over from
  the work area object, information about the area, relations with parent areas, locks, and the
  operations on whole tables. A released array is empty and the released object is NIL.
\<close>

section \<open>Taking over from the object\<close>

definition ulong :: "int \<Rightarrow> nat" where
  "ulong n = nat (n mod 2 ^ 64)"

text \<open>The arrays of the object, which the area shares from now on.\<close>

definition fetch_arrays :: "'w env \<Rightarrow> ('w, unit) op" where
  "fetch_arrays env a = do {
     (v, a) \<leftarrow> send env ''AINFO'' [] a;
     (v, a) \<leftarrow> send env ''ACACHE'' [] (a\<lparr>aInfo := arr_of v\<rparr>);
     (v, a) \<leftarrow> send env ''AOLDBUFFER'' [] (a\<lparr>aCache := arr_of v\<rparr>);
     (v, a) \<leftarrow> send env ''ALOCALBUFFER'' [] (a\<lparr>aOldBuffer := arr_of v\<rparr>);
     (v, a) \<leftarrow> send env ''AEMPTYBUFFER'' [] (a\<lparr>aBuffer := arr_of v\<rparr>);
     (v, a) \<leftarrow> send env ''AINDEX'' [] (a\<lparr>aEmptyBuff := arr_of v\<rparr>);
     (v, a) \<leftarrow> send env ''ASELECTLIST'' [] (a\<lparr>aOrders := arr_of v\<rparr>);
     (v, a) \<leftarrow> send env ''AINIFIELDS'' [] (a\<lparr>aSelectList := arr_of v\<rparr>);
     (v, a) \<leftarrow> send env ''ALOCKED'' [] (a\<lparr>aStruct := v\<rparr>);
     Some ((), a\<lparr>aLocked := arr_of v\<rparr>)
   }"

text \<open>The positions of the hidden columns.\<close>

definition fetch_hidden :: "'w env \<Rightarrow> ('w, unit) op" where
  "fetch_hidden env a = do {
     (v, a1) \<leftarrow> send env ''HNRECNO'' [] a;
     (v2, a2) \<leftarrow> send env ''HNDELETED'' [] (a1\<lparr>ulhRecno := ulong (hb_itemGetNL v)\<rparr>);
     Some ((), a2\<lparr>ulhDeleted := ulong (hb_itemGetNL v2)\<rparr>)
   }"

section \<open>Fields\<close>

text \<open>The field type for the first byte of a type name; 0 is \<open>HB_IT_NIL\<close>, for the others.\<close>

definition field_type :: "char \<Rightarrow> nat \<Rightarrow> int" where
  "field_type c len =
     (if c = CHR ''c'' \<or> c = CHR ''C'' then HB_FT_STRING
      else if c = CHR ''m'' \<or> c = CHR ''M'' then HB_FT_MEMO
      else if c = CHR ''n'' \<or> c = CHR ''N'' then HB_FT_LONG
      else if c = CHR ''l'' \<or> c = CHR ''L'' then HB_FT_LOGICAL
      else if c = CHR ''d'' \<or> c = CHR ''D'' then HB_FT_DATE
      else if c = CHR ''v'' \<or> c = CHR ''V'' then HB_FT_ANY
      else if c = CHR ''t'' \<or> c = CHR ''T'' then (if len = 4 then HB_FT_TIME else HB_FT_TIMESTAMP)
      else 0)"

definition type_char :: "item \<Rightarrow> char" where
  "type_char v = (case hb_itemGetC v of c # _ \<Rightarrow> c | [] \<Rightarrow> NUL)"

definition field_of :: "item \<Rightarrow> fieldinfo" where
  "field_of t =
     (let c = type_char (hb_arrayGet t 2); len = u16 (hb_itemGetNL (hb_arrayGet t 3))
      in \<lparr>atomName = hb_itemGetC (hb_arrayGet t 1), fi_uiType = field_type c len, fi_uiLen = len,
          fi_uiDec = (if c = CHR ''n'' \<or> c = CHR ''N'' then u16 (hb_itemGetNL (hb_arrayGet t 4)) else 0)\<rparr>)"

text \<open>\<open>thiswa->uiBufferIndex[i - 1] = ..\<close>\<close>

definition set_index :: "nat \<Rightarrow> int \<Rightarrow> 'w area \<Rightarrow> 'w area option" where
  "set_index i k a =
     (if 1 \<le> i \<and> i \<le> length (uiBufferIndex a)
      then Some (a\<lparr>uiBufferIndex := (uiBufferIndex a)[i - 1 := k]\<rparr>) else None)"

text \<open>The values of the \<open>uint16_t\<close> counter of the loops over \<open>n\<close> fields: at 65535 it starts again from 0,
  where there is no field.\<close>

definition counter :: "nat \<Rightarrow> nat list" where
  "counter n = [1 ..< n + 1] @ (if n = 65535 then [0] else [])"

fun process_loop :: "'w env \<Rightarrow> nat list \<Rightarrow> ('w, bool) op" where
  "process_loop env [] a = Some (True, a)"
| "process_loop env (i # is) a =
     (let t = arr_get NIL (arr_of (aStruct a)) i in
      if \<not> HB_IS_ARRAY t then Some (False, a)
      else do {
        let f = field_of t;
        a1 \<leftarrow> set_index i (hb_itemGetNL (hb_arrayGet t 5)) a;
        if fi_uiType f = 0 then Some (False, a1)
        else do {
          (r, a2) \<leftarrow> add_field env f a1;
          process_loop env is a2
        }
      })"

definition ProcessFields :: "'w rdd \<Rightarrow> 'w env \<Rightarrow> ('w, bool) op" where
  "ProcessFields self env a =
     (if \<not> HB_IS_ARRAY (aStruct a) then Some (False, a)
      else if hb_arrayLen (aStruct a) = 0 then Some (False, a)
      else do {
        let n = u16 (int (hb_arrayLen (aStruct a)));
        (r, a1) \<leftarrow> self_setFieldExtent self n a;
        process_loop env (counter n) a1
      })"

fun set_loop :: "nat list \<Rightarrow> ('w, bool) op" where
  "set_loop [] a = Some (True, a)"
| "set_loop (i # is) a =
     (let t = arr_get NIL (arr_of (aStruct a)) i in
      if \<not> HB_IS_ARRAY t then Some (False, a)
      else do {
        a1 \<leftarrow> set_index i (hb_itemGetNL (hb_arrayGet t 5)) a;
        set_loop is a1
      })"

definition SetFields :: "('w, bool) op" where
  "SetFields a =
     (if \<not> HB_IS_ARRAY (aStruct a) then Some (False, a)
      else if hb_arrayLen (aStruct a) = 0 then Some (False, a)
      else set_loop (counter (u16 (int (hb_arrayLen (aStruct a))))) a)"

section \<open>Opening, creating, closing\<close>

definition sqlNewArea :: "'w env \<Rightarrow> ('w, errcode) op" where
  "sqlNewArea env a = do {
     (r, a1) \<leftarrow> super_new env a;
     if r = HB_FAILURE then Some (HB_FAILURE, a1)
     else Some (HB_SUCCESS, a1\<lparr>uiBufferIndex := [], uiFieldList := []\<rparr>)
   }"

definition sqlClose :: "'w rdd \<Rightarrow> 'w env \<Rightarrow> ('w, errcode) op" where
  "sqlClose self env a =
     (let a0 = a\<lparr>lpdbPendingRel := None\<rparr> in
      if HB_IS_OBJECT (oWorkArea a0) then do {
        (v, a1) \<leftarrow> send env ''SQLCLOSE'' [] a0;
        (r, a2) \<leftarrow> super_close env self a1;
        Some (r, a2\<lparr>aStruct := NIL, aInfo := [], aBuffer := [], aOrders := [], aSelectList := [],
                    aLocked := [], aOldBuffer := [], aCache := [], aEmptyBuff := [],
                    szDataFileName := None, uiBufferIndex := [], uiFieldList := [],
                    oWorkArea := (if HB_IS_OBJECT (oWorkArea a2) then NIL else oWorkArea a2)\<rparr>)
      }
      else super_close env self a0)"

definition sqlCreate :: "'w rdd \<Rightarrow> 'w env \<Rightarrow> openinfo \<Rightarrow> ('w, errcode) op" where
  "sqlCreate self env i a = do {
     let a = a\<lparr>creating := True, szDataFileName := Some (abName i), fTop := False, fBottom := True,
               fBof := False, fEof := True\<rparr>;
     (obj, a) \<leftarrow> new_workarea env a;
     (v, a) \<leftarrow> send env ''SQLCREATE''
       [aCreate a, Str (abName i), case atomAlias i of Some s \<Rightarrow> Str s | None \<Rightarrow> NIL, INum (uiArea i)]
       (a\<lparr>oWorkArea := obj\<rparr>);
     (u, a) \<leftarrow> fetch_arrays env a;
     (opened, a) \<leftarrow> send env ''LOPENED'' [] a;
     if \<not> hb_itemGetL opened then Some (HB_FAILURE, a)
     else do {
       (ok, a) \<leftarrow> SetFields a;
       if \<not> ok then Some (HB_FAILURE, a)
       else do {
         (errCode, a) \<leftarrow> super_create env self i a;
         (v, a) \<leftarrow> send env ''LISAM'' [] a;
         (u, a) \<leftarrow> fetch_hidden env (a\<lparr>isam := hb_itemGetL v\<rparr>);
         if errCode \<noteq> HB_SUCCESS then do {
           (r, a) \<leftarrow> self_close self a;
           Some (errCode, a)
         }
         else do {
           (r, a) \<leftarrow> self_goTop self a;
           Some (HB_SUCCESS, a\<lparr>firstinteract := False, wasdel := False\<rparr>)
         }
       }
     }
   }"

text \<open>The code page of the table: the one asked for, or that of the program.\<close>

definition open_cdp :: "'w env \<Rightarrow> openinfo \<Rightarrow> 'w area \<Rightarrow> nat" where
  "open_cdp env i a =
     (case cdpId i of
        Some s \<Rightarrow> (if cdp_find env s \<noteq> 0 then cdp_find env s else vm_cdp env (world a))
      | None \<Rightarrow> vm_cdp env (world a))"

text \<open>The object is made, opens the table and hands its arrays over; the answer tells whether it is open.\<close>

definition open_object :: "'w env \<Rightarrow> openinfo \<Rightarrow> ('w, bool) op" where
  "open_object env i a = do {
     (obj, a) \<leftarrow> new_workarea env a;
     (v, a) \<leftarrow> send env ''SQLOPEN''
       [Str (abName i), INum (uiArea i), Logical (shared a), Logical (readonly a),
        case atomAlias i of Some s \<Rightarrow> Str s | None \<Rightarrow> Str [], INum (ulConnection i)]
       (a\<lparr>oWorkArea := obj\<rparr>);
     (u, a) \<leftarrow> fetch_arrays env a;
     (v, a) \<leftarrow> send env ''LGOTOPONFIRSTINTERACT'' [] a;
     (opened, a) \<leftarrow> send env ''LOPENED'' []
       (a\<lparr>firstinteract := hb_itemGetL v, initialized := True, wasdel := False\<rparr>);
     Some (hb_itemGetL opened, a)
   }"

definition open_indexes :: "'w env \<Rightarrow> ('w, errcode) op" where
  "open_indexes env a =
     (if \<not> auto_open env (world a) then Some (HB_SUCCESS, a)
      else if HB_IS_OBJECT (oWorkArea a) then do {
        (v, a1) \<leftarrow> send env ''SQLOPENALLINDEXES'' [] a;
        Some (HB_SUCCESS, if hb_itemGetNL v \<noteq> 0 then a1\<lparr>hOrdCurrent := hb_itemGetNL v\<rparr> else a1)
      }
      else do {
        (u, a1) \<leftarrow> common_error env EG_DATATYPE ESQLRDD_DATATYPE a;
        Some (HB_FAILURE, a1)
      })"

definition sqlOpen :: "'w rdd \<Rightarrow> 'w env \<Rightarrow> openinfo \<Rightarrow> ('w, errcode) op" where
  "sqlOpen self env i0 a = do {
     let i = (if atomAlias i0 = None then i0\<lparr>atomAlias := Some (alias_of env (abName i0))\<rparr> else i0);
     (errCode, a) \<leftarrow> super_open env i (a\<lparr>szDataFileName := Some (abName i)\<rparr>);
     if errCode \<noteq> HB_SUCCESS then do {
       (r, a) \<leftarrow> self_close self a;
       Some (errCode, a)
     }
     else do {
       (opened, a) \<leftarrow> open_object env i
         (a\<lparr>shared := fShared i, readonly := fReadonly i, hOrdCurrent := 0, creating := False,
            initialized := False, sqlfilter := False, cdPage := open_cdp env i a\<rparr>);
       if \<not> opened then Some (HB_FAILURE, a)
       else do {
         (v, a) \<leftarrow> send env ''LISAM'' [] a;
         (ok, a) \<leftarrow> ProcessFields self env (a\<lparr>isam := hb_itemGetL v\<rparr>);
         if \<not> ok then Some (HB_FAILURE, a)
         else do {
           (u, a) \<leftarrow> fetch_hidden env a;
           open_indexes env a
         }
       }
     }
   }"

section \<open>Information\<close>

datatype dbi =
    DBI_ISDBF | DBI_CANPUTREC | DBI_GETHEADERSIZE | DBI_LASTUPDATE | DBI_GETDELIMITER | DBI_SETDELIMITER
  | DBI_GETRECSIZE | DBI_GETLOCKARRAY | DBI_TABLEEXT | DBI_MEMOEXT | DBI_MEMOBLOCKSIZE | DBI_FULLPATH
  | DBI_FILEHANDLE | DBI_BOF | DBI_EOF | DBI_ISFLOCK | DBI_MEMOHANDLE | DBI_RDD_BUILD | DBI_RDD_VERSION
  | DBI_DB_VERSION | DBI_INTERNAL_OBJECT | DBI_ISREADONLY | DBI_SHARED | DBI_CPCONVERTTO | DBI_other int

abbreviation HB_SQLRDD_BUILD :: int where "HB_SQLRDD_BUILD \<equiv> 15"

text \<open>The Julian day number of 2003-12-31.\<close>

abbreviation last_update :: int where "last_update \<equiv> 2453005"

text \<open>An answer of the object, or of its connection, for a question that needs the object.\<close>

definition ask_object :: "'w env \<Rightarrow> ('w, item) op \<Rightarrow> item \<Rightarrow> ('w, item \<times> errcode) op" where
  "ask_object env ask v a =
     (if HB_IS_OBJECT (oWorkArea a) then do { (r, a1) \<leftarrow> ask a; Some ((r, HB_SUCCESS), a1) }
      else do {
        (u, a1) \<leftarrow> common_error env EG_DATATYPE ESQLRDD_DATATYPE a;
        Some ((v, HB_FAILURE), a1)
      })"

definition ask_connection :: "'w env \<Rightarrow> string \<Rightarrow> ('w, item) op" where
  "ask_connection env m a = do { (con, a1) \<leftarrow> send env ''OSQL'' [] a; send_to env con m [] a1 }"

fun sqlInfo :: "'w rdd \<Rightarrow> 'w env \<Rightarrow> dbi \<Rightarrow> item \<Rightarrow> ('w, item \<times> errcode) op" where
  "sqlInfo self env DBI_ISDBF v a = Some ((Logical False, HB_SUCCESS), a)"
| "sqlInfo self env DBI_CANPUTREC v a = Some ((Logical False, HB_SUCCESS), a)"
| "sqlInfo self env DBI_GETHEADERSIZE v a = Some ((INum 0, HB_SUCCESS), a)"
| "sqlInfo self env DBI_LASTUPDATE v a = Some ((Date last_update, HB_SUCCESS), a)"
| "sqlInfo self env DBI_GETDELIMITER v a = Some ((v, HB_SUCCESS), a)"
| "sqlInfo self env DBI_SETDELIMITER v a = Some ((v, HB_SUCCESS), a)"
| "sqlInfo self env DBI_GETRECSIZE v a =
     do { (r, a1) \<leftarrow> send env ''SQLRECSIZE'' [] a; Some ((INum (hb_itemGetNL r), HB_SUCCESS), a1) }"
| "sqlInfo self env DBI_GETLOCKARRAY v a = Some ((Arr 0 (aLocked a), HB_SUCCESS), a)"
| "sqlInfo self env DBI_TABLEEXT v a = Some ((Str [], HB_SUCCESS), a)"
| "sqlInfo self env DBI_MEMOEXT v a = Some ((Str [], HB_SUCCESS), a)"
| "sqlInfo self env DBI_MEMOBLOCKSIZE v a = Some ((INum 0, HB_SUCCESS), a)"
| "sqlInfo self env DBI_FULLPATH v a =
     Some ((Str (case szDataFileName a of Some s \<Rightarrow> s | None \<Rightarrow> []), HB_SUCCESS), a)"
| "sqlInfo self env DBI_FILEHANDLE v a = Some ((INum 0, HB_SUCCESS), a)"
| "sqlInfo self env DBI_BOF v a =
     do { ((f, r), a1) \<leftarrow> self_bof self a; Some ((Logical f, HB_SUCCESS), a1) }"
| "sqlInfo self env DBI_EOF v a =
     do { ((f, r), a1) \<leftarrow> self_eof self a; Some ((Logical f, HB_SUCCESS), a1) }"
| "sqlInfo self env DBI_ISFLOCK v a = ask_object env (send env ''LTABLELOCKED'' []) v a"
| "sqlInfo self env DBI_MEMOHANDLE v a = Some ((INum 0, HB_SUCCESS), a)"
| "sqlInfo self env DBI_RDD_BUILD v a = Some ((INum HB_SQLRDD_BUILD, HB_SUCCESS), a)"
| "sqlInfo self env DBI_RDD_VERSION v a = ask_object env (ask_connection env ''CMGMNTVERS'') v a"
| "sqlInfo self env DBI_DB_VERSION v a = ask_object env (ask_connection env ''NSYSTEMID'') v a"
| "sqlInfo self env DBI_INTERNAL_OBJECT v a = Some ((oWorkArea a, HB_SUCCESS), a)"
| "sqlInfo self env DBI_ISREADONLY v a = Some ((Logical (readonly a), HB_SUCCESS), a)"
| "sqlInfo self env DBI_SHARED v a = Some ((Logical (shared a), HB_SUCCESS), a)"
| "sqlInfo self env DBI_CPCONVERTTO v a =
     (let c = (if HB_IS_STRING v then cdp_find env (hb_itemGetC v) else 0);
          a1 = (if c \<noteq> 0 then a\<lparr>cdPageCnv := c\<rparr> else a)
      in Some ((Str (if cdPageCnv a1 \<noteq> 0 then cdp_id env (cdPageCnv a1) else []), HB_SUCCESS), a1))"
| "sqlInfo self env (DBI_other n) v a = Some ((v, HB_SUCCESS), a)"

section \<open>Whole tables\<close>

definition sqlPack :: "'w rdd \<Rightarrow> 'w env \<Rightarrow> ('w, errcode) op" where
  "sqlPack self env a = do {
     (v, a1) \<leftarrow> send env ''SQLPACK'' [] a;
     (r, a2) \<leftarrow> self_goTop self a1;
     Some (HB_SUCCESS, a2)
   }"

definition sqlZap :: "'w env \<Rightarrow> ('w, errcode) op" where
  "sqlZap env a = do {
     (v, a1) \<leftarrow> send env ''SQLZAP'' [] a;
     Some (HB_SUCCESS, (load_eof_bof a1)\<lparr>firstinteract := False, wasdel := False\<rparr>)
   }"

definition sqlDrop :: "'w env \<Rightarrow> item \<Rightarrow> ('w, errcode) op" where
  "sqlDrop env table a = do {
     (obj, a1) \<leftarrow> new_workarea env a;
     (v, a2) \<leftarrow> send_to env obj ''SQLDROP'' [table] a1;
     Some (HB_SUCCESS, a2)
   }"

text \<open>The result is an \<open>HB_BOOL\<close>, given here as its number.\<close>

definition sqlExists :: "'w env \<Rightarrow> item option \<Rightarrow> item option \<Rightarrow> ('w, int) op" where
  "sqlExists env table index a = do {
     (obj, a1) \<leftarrow> new_workarea env a;
     if HB_IS_OBJECT obj then
       (case (table, index) of
          (Some t, _) \<Rightarrow> do {
            (v, a2) \<leftarrow> send_to env obj ''SQLEXISTS'' [t] a1; Some (of_bool (hb_itemGetL v), a2) }
        | (None, Some x) \<Rightarrow> do {
            (v, a2) \<leftarrow> send_to env obj ''SQLEXISTS'' [x] a1; Some (of_bool (hb_itemGetL v), a2) }
        | (None, None) \<Rightarrow> Some (HB_FAILURE, a1))
     else do {
       (u, a2) \<leftarrow> common_error env EG_DATATYPE ESQLRDD_DATATYPE a1;
       Some (HB_FAILURE, a2)
     }
   }"

datatype rddi =
    RDDI_ORDBAGEXT | RDDI_ORDEREXT | RDDI_ORDSTRUCTEXT | RDDI_MULTITAG | RDDI_SORTRECNO | RDDI_STRUCTORD
  | RDDI_MULTIKEY | RDDI_other int

text \<open>\<open>super\<close> is the parent's answer.\<close>

fun sqlRddInfo :: "(rddi \<Rightarrow> item \<Rightarrow> item \<times> errcode) \<Rightarrow> rddi \<Rightarrow> item \<Rightarrow> item \<times> errcode" where
  "sqlRddInfo super RDDI_ORDBAGEXT v = (Str [], HB_SUCCESS)"
| "sqlRddInfo super RDDI_ORDEREXT v = (Str [], HB_SUCCESS)"
| "sqlRddInfo super RDDI_ORDSTRUCTEXT v = (Str [], HB_SUCCESS)"
| "sqlRddInfo super RDDI_MULTITAG v = (Logical True, HB_SUCCESS)"
| "sqlRddInfo super RDDI_SORTRECNO v = (Logical True, HB_SUCCESS)"
| "sqlRddInfo super RDDI_STRUCTORD v = (Logical True, HB_SUCCESS)"
| "sqlRddInfo super RDDI_MULTIKEY v = (Logical True, HB_SUCCESS)"
| "sqlRddInfo super (RDDI_other n) v = super (RDDI_other n) v"

section \<open>Relations\<close>

definition sqlChildEnd :: "'w rdd \<Rightarrow> 'w env \<Rightarrow> nat \<Rightarrow> ('w, errcode) op" where
  "sqlChildEnd self env rel a = do {
     (r, a1) \<leftarrow> (if lpdbPendingRel a = Some rel then self_forceRel self a else Some (HB_SUCCESS, a));
     (r2, a2) \<leftarrow> super_childEnd env rel a1;
     Some (r, a2)
   }"

definition sqlChildStart :: "'w rdd \<Rightarrow> 'w env \<Rightarrow> nat \<Rightarrow> ('w, errcode) op" where
  "sqlChildStart self env rel a = do {
     (u, a1) \<leftarrow> first_interact self a;
     (r, a2) \<leftarrow> self_childSync self rel a1;
     super_childStart env rel a2
   }"

definition sqlChildSync :: "'w env \<Rightarrow> nat \<Rightarrow> ('w, errcode) op" where
  "sqlChildSync env rel a = do {
     (r, a1) \<leftarrow> sync_children env (a\<lparr>lpdbPendingRel := Some rel\<rparr>);
     Some (HB_SUCCESS, a1)
   }"

definition sqlForceRel :: "'w env \<Rightarrow> ('w, errcode) op" where
  "sqlForceRel env a =
     (case lpdbPendingRel a of
        Some rel \<Rightarrow> do {
          (r, a1) \<leftarrow> rel_eval env rel (a\<lparr>lpdbPendingRel := None\<rparr>);
          Some (r, a1\<lparr>firstinteract := False, wasdel := False\<rparr>)
        }
      | None \<Rightarrow> Some (HB_SUCCESS, a))"

section \<open>Locks\<close>

abbreviation DBLM_EXCLUSIVE :: int where "DBLM_EXCLUSIVE \<equiv> 1"
abbreviation DBLM_MULTIPLE :: int where "DBLM_MULTIPLE \<equiv> 2"
abbreviation DBLM_FILE :: int where "DBLM_FILE \<equiv> 3"

text \<open>\<open>fResult\<close> of the lock information and the error code.\<close>

definition sqlLock :: "'w rdd \<Rightarrow> 'w env \<Rightarrow> int \<Rightarrow> item \<Rightarrow> ('w, bool \<times> errcode) op" where
  "sqlLock self env uiMethod recId a = do {
     (u, a1) \<leftarrow> first_interact self a;
     if infoL SR_AINFO_ISINSERT a1 \<or> infoL SR_AINFO_EOF a1 then Some ((True, HB_SUCCESS), a1)
     else if shared a1 then
       (if uiMethod = DBLM_EXCLUSIVE then do {
          (v, a2) \<leftarrow> send env ''SQLLOCK'' [INum uiMethod, info SR_AINFO_RECNO a1] a1;
          Some ((hb_itemGetL v, HB_SUCCESS), a2)
        }
        else if uiMethod = DBLM_MULTIPLE then do {
          (v, a2) \<leftarrow> send env ''SQLLOCK'' [INum uiMethod, recId] a1;
          Some ((hb_itemGetL v, HB_SUCCESS), a2)
        }
        else if uiMethod = DBLM_FILE then do {
          (v, a2) \<leftarrow> send env ''SQLLOCK'' [INum uiMethod] a1;
          Some ((hb_itemGetL v, HB_SUCCESS), a2)
        }
        else Some ((False, HB_SUCCESS), a1))
     else Some ((True, HB_SUCCESS), a1)
   }"

definition sqlUnLock :: "'w rdd \<Rightarrow> 'w env \<Rightarrow> item option \<Rightarrow> ('w, errcode) op" where
  "sqlUnLock self env recNo a = do {
     (u, a1) \<leftarrow> first_interact self a;
     (v, a2) \<leftarrow> send env ''SQLUNLOCK'' (case recNo of Some r \<Rightarrow> [r] | None \<Rightarrow> []) a1;
     Some (HB_SUCCESS, a2)
   }"

text \<open>\<open>SR_SETFOUND\<close> in a current work area; the argument counts only if it is a logical.\<close>

fun SR_SETFOUND :: "item \<Rightarrow> 'w area \<Rightarrow> 'w area" where
  "SR_SETFOUND (Logical b) a = set_infoL SR_AINFO_FOUND b (a\<lparr>fFound := b\<rparr>)"
| "SR_SETFOUND v a = a"

end
