(* ===== verification/AreaProps.thy ===== *)
theory AreaProps
  imports Areas
begin

text \<open>
  What the life of a work area promises: the fields taken over when a table is opened, the order in
  which the work area object is asked, one evaluation of a pending relation, one closing of the
  object, locks that need no answer of the server, and the result of \<open>sqlExists\<close> after an error.
\<close>

section \<open>Fields\<close>

text \<open>A column the driver has a field type for, and its position in the buffer.\<close>

definition supported :: "item \<Rightarrow> bool" where
  "supported t \<longleftrightarrow> HB_IS_ARRAY t \<and> fi_uiType (field_of t) \<noteq> 0"

definition position_of :: "item \<Rightarrow> int" where
  "position_of t = hb_itemGetNL (hb_arrayGet t 5)"

text \<open>The parent's functions that take the fields leave the driver's part of the area alone.\<close>

definition keeps_fields :: "'w env \<Rightarrow> bool" where
  "keeps_fields env \<longleftrightarrow>
     (\<forall>f x r y. add_field env f x = Some (r, y) \<longrightarrow>
        aStruct y = aStruct x \<and> uiBufferIndex y = uiBufferIndex x)"

abbreviation column :: "'w area \<Rightarrow> nat \<Rightarrow> item" where
  "column a i \<equiv> arr_get NIL (arr_of (aStruct a)) i"

lemma set_index_eq_Some:
  "set_index i k a = Some b \<longleftrightarrow>
     1 \<le> i \<and> i \<le> length (uiBufferIndex a) \<and> b = a\<lparr>uiBufferIndex := (uiBufferIndex a)[i - 1 := k]\<rparr>"
  by (auto simp: set_index_def)

lemma process_step:
  assumes "process_loop env (i # is) a = Some (True, b)" "keeps_fields env"
  shows "supported (column a i) \<and> 1 \<le> i \<and> i \<le> length (uiBufferIndex a) \<and>
     (\<exists>c. process_loop env is c = Some (True, b) \<and> aStruct c = aStruct a \<and>
        uiBufferIndex c = (uiBufferIndex a)[i - 1 := position_of (column a i)])"
proof -
  obtain c r where c: "process_loop env is c = Some (True, b)" "supported (column a i)"
    "1 \<le> i" "i \<le> length (uiBufferIndex a)"
    "add_field env (field_of (column a i))
       (a\<lparr>uiBufferIndex := (uiBufferIndex a)[i - 1 := position_of (column a i)]\<rparr>) = Some (r, c)"
    using assms(1)
    by (auto simp: Let_def supported_def position_of_def set_index_eq_Some split: if_splits bind_splits)
  then show ?thesis using assms(2) by (auto simp: keeps_fields_def)
qed

lemma process_loop_result:
  assumes "process_loop env is a = Some (True, b)" "keeps_fields env"
  shows "length (uiBufferIndex b) = length (uiBufferIndex a) \<and>
     (\<forall>i \<in> set is. supported (column a i) \<and> 1 \<le> i \<and> i \<le> length (uiBufferIndex a)) \<and>
     (\<forall>j < length (uiBufferIndex a). uiBufferIndex b ! j =
        (if Suc j \<in> set is then position_of (column a (Suc j)) else uiBufferIndex a ! j))"
  using assms(1)
proof (induction "is" arbitrary: a)
  case Nil
  then show ?case by simp
next
  case (Cons i "is")
  from process_step [OF Cons.prems assms(2)] obtain c where c: "supported (column a i)" "1 \<le> i"
    "i \<le> length (uiBufferIndex a)" "process_loop env is c = Some (True, b)" "aStruct c = aStruct a"
    "uiBufferIndex c = (uiBufferIndex a)[i - 1 := position_of (column a i)]" by blast
  from Cons.IH [OF c(4)] c show ?case by (auto simp: nth_list_update)
qed

text \<open>if the fields are taken over, there are fewer than 65535 of them (the 16 bit counter would
  start again at the field that does not exist), the driver has a field type for each, and each is known
  by its position in the buffer.\<close>

theorem fields_taken_over:
  assumes ok: "ProcessFields self env a = Some (True, b)" and env: "keeps_fields env"
    and ext: "\<And>n x r y. self_setFieldExtent self n x = Some (r, y) \<Longrightarrow> aStruct y = aStruct x"
  shows "let n = hb_arrayLen (aStruct a) mod 65536 in
    n \<noteq> 65535 \<and> (\<forall>i \<in> {1..n}. supported (column a i) \<and> i \<le> length (uiBufferIndex b) \<and>
      uiBufferIndex b ! (i - 1) = position_of (column a i))"
proof -
  define n where "n = hb_arrayLen (aStruct a) mod 65536"
  have u: "u16 (int (hb_arrayLen (aStruct a))) = n" by (simp add: u16_def n_def nat_mod_distrib)
  obtain r c where c: "process_loop env (counter n) c = Some (True, b)" "aStruct c = aStruct a"
    using ok ext by (auto simp: ProcessFields_def u Let_def split: if_splits bind_splits)
  note res = process_loop_result [OF c(1) env, unfolded c(2)]
  have all: "\<And>i. i \<in> set (counter n) \<Longrightarrow> supported (column a i) \<and> 1 \<le> i \<and> i \<le> length (uiBufferIndex b)"
    using res by simp
  have "n \<noteq> 65535"
  proof
    assume "n = 65535"
    then have "0 \<in> set (counter n)" by (simp add: counter_def)
    from all [OF this] show False by simp
  qed
  moreover have "uiBufferIndex b ! (i - 1) = position_of (column a i)" if "i \<in> {1..n}" for i
  proof -
    have i: "i \<in> set (counter n)" using that by (auto simp: counter_def)
    then have "i - 1 < length (uiBufferIndex c)" "Suc (i - 1) = i" using res that by auto
    then show ?thesis using res i by auto
  qed
  moreover have "i \<in> set (counter n)" if "i \<in> {1..n}" for i using that by (auto simp: counter_def)
  ultimately show ?thesis using all by (auto simp: Let_def n_def [symmetric])
qed

section \<open>Opening\<close>

text \<open>An object with fixed answers, whose messages are recorded in the world, the latest first.\<close>

definition answers :: "trace env \<Rightarrow> (string \<Rightarrow> item) \<Rightarrow> bool" where
  "answers env ans \<longleftrightarrow>
     (\<forall>m args x. send env m args x = Some (ans m, x\<lparr>world := (m, args) # world x\<rparr>))"

text \<open>Every column is supported and has room for its position.\<close>

lemma process_loop_returns:
  assumes "keeps_fields env" "\<And>f x. \<exists>r y. add_field env f x = Some (r, y)"
    and "\<forall>i \<in> set is. supported (column a i) \<and> 1 \<le> i \<and> i \<le> length (uiBufferIndex a)"
  shows "\<exists>b. process_loop env is a = Some (True, b)"
  using assms(3)
proof (induction "is" arbitrary: a)
  case Nil
  then show ?case by simp
next
  case (Cons i "is")
  let ?a = "a\<lparr>uiBufferIndex := (uiBufferIndex a)[i - 1 := position_of (column a i)]\<rparr>"
  obtain r y where y: "add_field env (field_of (column a i)) ?a = Some (r, y)" using assms(2) by blast
  then have "aStruct y = aStruct a" "uiBufferIndex y = uiBufferIndex ?a"
    using assms(1) by (auto simp: keeps_fields_def)
  with Cons.prems have "\<exists>b. process_loop env is y = Some (True, b)" by (intro Cons.IH) auto
  then show ?case
    using Cons.prems y by (auto simp: Let_def supported_def position_of_def set_index_def)
qed

lemma send_answers: "answers env ans \<Longrightarrow> send env m args x = Some (ans m, x\<lparr>world := (m, args) # world x\<rparr>)"
  by (simp add: answers_def)

definition array_messages :: trace where
  "array_messages = [(''ALOCKED'', []), (''AINIFIELDS'', []), (''ASELECTLIST'', []), (''AINDEX'', []),
     (''AEMPTYBUFFER'', []), (''ALOCALBUFFER'', []), (''AOLDBUFFER'', []), (''ACACHE'', []), (''AINFO'', [])]"

lemma fetch_arrays_answers:
  "answers env ans \<Longrightarrow> fetch_arrays env a = Some ((), a\<lparr>aInfo := arr_of (ans ''AINFO''),
     aCache := arr_of (ans ''ACACHE''), aOldBuffer := arr_of (ans ''AOLDBUFFER''),
     aBuffer := arr_of (ans ''ALOCALBUFFER''), aEmptyBuff := arr_of (ans ''AEMPTYBUFFER''),
     aOrders := arr_of (ans ''AINDEX''), aSelectList := arr_of (ans ''ASELECTLIST''),
     aStruct := ans ''AINIFIELDS'', aLocked := arr_of (ans ''ALOCKED''),
     world := array_messages @ world a\<rparr>)"
  by (simp add: fetch_arrays_def send_answers array_messages_def)

lemma fetch_hidden_answers:
  "answers env ans \<Longrightarrow> fetch_hidden env a = Some ((), a\<lparr>ulhRecno := ulong (hb_itemGetNL (ans ''HNRECNO'')),
     ulhDeleted := ulong (hb_itemGetNL (ans ''HNDELETED'')),
     world := [(''HNDELETED'', []), (''HNRECNO'', [])] @ world a\<rparr>)"
  by (simp add: fetch_hidden_def send_answers)

text \<open>The parent accepts everything and changes nothing but its own part.\<close>

definition willing_parent :: "trace env \<Rightarrow> bool" where
  "willing_parent env \<longleftrightarrow> (\<forall>i x. super_open env i x = Some (HB_SUCCESS, x)) \<and>
     (\<forall>f x. add_field env f x = Some (HB_SUCCESS, x)) \<and>
     (\<forall>n x. super_setFieldExtent env n x = Some (HB_SUCCESS, x)) \<and>
     (\<forall>x. new_workarea env x = Some (Arr 1 [], x))"

lemma process_step_willing:
  "willing_parent env \<Longrightarrow> process_loop env (i # is) a =
     (if \<not> HB_IS_ARRAY (column a i) then Some (False, a)
      else if 1 \<le> i \<and> i \<le> length (uiBufferIndex a)
      then (let b = a\<lparr>uiBufferIndex := (uiBufferIndex a)[i - 1 := position_of (column a i)]\<rparr>
            in if fi_uiType (field_of (column a i)) = 0 then Some (False, b) else process_loop env is b)
      else None)"
  by (simp add: Let_def willing_parent_def position_of_def set_index_def)

lemma same_index: "\<exists>u. a = a\<lparr>uiBufferIndex := u\<rparr>" for a :: "'w area"
  by (rule exI [of _ "uiBufferIndex a"]) simp

lemma process_loop_changes:
  assumes "willing_parent env"
  shows "process_loop env is a = Some (r, b) \<Longrightarrow> \<exists>u. b = a\<lparr>uiBufferIndex := u\<rparr>"
proof (induction "is" arbitrary: a)
  case Nil
  then show ?case using same_index [of a] by simp
next
  case (Cons i "is")
  let ?a = "a\<lparr>uiBufferIndex := (uiBufferIndex a)[i - 1 := position_of (column a i)]\<rparr>"
  have "b = a \<or> b = ?a \<or> process_loop env is ?a = Some (r, b)"
    using Cons.prems unfolding process_step_willing [OF assms] Let_def by (simp split: if_splits)
  then show ?case
  proof (elim disjE)
    assume "process_loop env is ?a = Some (r, b)"
    from Cons.IH [OF this] obtain u where "b = ?a\<lparr>uiBufferIndex := u\<rparr>" ..
    then show ?thesis by (intro exI [of _ u]) simp
  qed (use same_index [of a] in blast)+
qed

lemma willing_keeps: "willing_parent env \<Longrightarrow> keeps_fields env"
  by (auto simp: willing_parent_def keeps_fields_def)

text \<open>Taking over the fields of a structure the driver supports, with the driver's own extent.\<close>

lemma process_fields_supported:
  assumes env: "willing_parent env" "self_setFieldExtent self = sqlSetFieldExtent env"
    and fs: "aStruct a = Arr c fs" "fs \<noteq> []" "length fs < 65534" "\<forall>t \<in> set fs. supported t"
  shows "\<exists>b u v. ProcessFields self env a = Some (True, b) \<and> b = a\<lparr>uiBufferIndex := u, uiFieldList := v\<rparr> \<and>
     take (length fs) u = map position_of fs"
proof -
  have n: "u16 (int (length fs)) = length fs" "length fs < 65535" using fs(3) by (simp_all add: u16_small)
  define k where "k = length fs + of_bool (\<not> hide_recno env (world a)) + of_bool (\<not> hide_historic env (world a))"
  have k: "length fs \<le> k" "sqlSetFieldExtent env (length fs) a =
      Some (HB_SUCCESS, a\<lparr>uiBufferIndex := replicate k 0, uiFieldList := replicate k 0\<rparr>)"
    using env(1) fs(3) unfolding k_def
    by (auto simp: sqlSetFieldExtent_def willing_parent_def u16_small Let_def nat_add_distrib)
  let ?a = "a\<lparr>uiBufferIndex := replicate k 0, uiFieldList := replicate k 0\<rparr>"
  have col: "i \<in> set (counter (length fs)) \<Longrightarrow> column ?a i = fs ! (i - 1) \<and> 1 \<le> i \<and> i \<le> length fs" for i
    using n(2) fs(1) by (auto simp: counter_def arr_get_def)
  have "\<exists>b. process_loop env (counter (length fs)) ?a = Some (True, b)"
  proof (rule process_loop_returns [OF willing_keeps [OF env(1)]])
    show "\<exists>r y. add_field env f x = Some (r, y)" for f x using env(1) by (simp add: willing_parent_def)
    show "\<forall>i \<in> set (counter (length fs)). supported (column ?a i) \<and> 1 \<le> i \<and> i \<le> length (uiBufferIndex ?a)"
      using col fs(4) k(1) by fastforce
  qed
  then obtain b where b: "process_loop env (counter (length fs)) ?a = Some (True, b)" ..
  obtain u where u: "b = ?a\<lparr>uiBufferIndex := u\<rparr>" using process_loop_changes [OF env(1) b] by blast
  note res = process_loop_result [OF b willing_keeps [OF env(1)]]
  have "take (length fs) u = map position_of fs"
  proof (rule nth_equalityI)
    show "length (take (length fs) u) = length (map position_of fs)" using res u k(1) by simp
    fix j assume j: "j < length (take (length fs) u)"
    then have j': "j < length fs" "Suc j \<in> set (counter (length fs))" by (auto simp: counter_def)
    then have "uiBufferIndex b ! j = position_of (column ?a (Suc j))" using res k(1) by simp
    then show "take (length fs) u ! j = map position_of fs ! j" using col [OF j'(2)] j' u by simp
  qed
  moreover have "ProcessFields self env a = Some (True, b)"
    using b k(2) fs(1,2) n(1) unfolding ProcessFields_def hb_arrayLen_def Let_def env(2) by simp
  moreover have "b = a\<lparr>uiBufferIndex := u, uiFieldList := replicate k 0\<rparr>" using u by simp
  ultimately show ?thesis by blast
qed

text \<open>opening a table asks the object for its parts in a fixed order and takes them over: the area
  shares its arrays, knows where its columns and hidden columns are, has no current order and no filter.\<close>

theorem open_takes_over:
  assumes env: "willing_parent env" "answers env ans" "self_setFieldExtent self = sqlSetFieldExtent env"
    and ans: "ans ''LOPENED'' = Logical True" "ans ''AINIFIELDS'' = Arr c fs"
    and fs: "fs \<noteq> []" "length fs < 65534" "\<forall>t \<in> set fs. supported t"
    and set: "\<And>w. \<not> auto_open env w" and world: "world a = []"
  shows "\<exists>b. sqlOpen self env i a = Some (HB_SUCCESS, b) \<and>
     rev (map fst (world b)) = [''SQLOPEN'', ''AINFO'', ''ACACHE'', ''AOLDBUFFER'', ''ALOCALBUFFER'',
       ''AEMPTYBUFFER'', ''AINDEX'', ''ASELECTLIST'', ''AINIFIELDS'', ''ALOCKED'',
       ''LGOTOPONFIRSTINTERACT'', ''LOPENED'', ''LISAM'', ''HNRECNO'', ''HNDELETED''] \<and>
     aInfo b = arr_of (ans ''AINFO'') \<and> aCache b = arr_of (ans ''ACACHE'') \<and>
     aBuffer b = arr_of (ans ''ALOCALBUFFER'') \<and> aOrders b = arr_of (ans ''AINDEX'') \<and>
     isam b = hb_itemGetL (ans ''LISAM'') \<and> shared b = fShared i \<and> \<not> sqlfilter b \<and> hOrdCurrent b = 0 \<and>
     ulhDeleted b = ulong (hb_itemGetNL (ans ''HNDELETED'')) \<and>
     take (length fs) (uiBufferIndex b) = map position_of fs"
proof -
  define j where "j = (if atomAlias i = None then i\<lparr>atomAlias := Some (alias_of env (abName i))\<rparr> else i)"
  have j: "fShared j = fShared i" by (simp add: j_def)
  obtain x where x: "open_object env j (a\<lparr>szDataFileName := Some (abName j), shared := fShared j,
      readonly := fReadonly j, hOrdCurrent := 0, creating := False, initialized := False, sqlfilter := False,
      cdPage := open_cdp env j (a\<lparr>szDataFileName := Some (abName j)\<rparr>)\<rparr>) = Some (True, x)"
    and f: "rev (map fst (world x)) = [''SQLOPEN'', ''AINFO'', ''ACACHE'', ''AOLDBUFFER'', ''ALOCALBUFFER'',
       ''AEMPTYBUFFER'', ''AINDEX'', ''ASELECTLIST'', ''AINIFIELDS'', ''ALOCKED'',
       ''LGOTOPONFIRSTINTERACT'', ''LOPENED'']"
     "aInfo x = arr_of (ans ''AINFO'')" "aCache x = arr_of (ans ''ACACHE'')"
     "aBuffer x = arr_of (ans ''ALOCALBUFFER'')" "aOrders x = arr_of (ans ''AINDEX'')"
     "shared x = fShared i" "\<not> sqlfilter x" "hOrdCurrent x = 0" "aStruct x = Arr c fs"
    using env(1,2) ans world j
    by (simp add: open_object_def fetch_arrays_answers send_answers willing_parent_def array_messages_def)
  let ?x = "x\<lparr>world := (''LISAM'', []) # world x, isam := hb_itemGetL (ans ''LISAM'')\<rparr>"
  obtain y u v where y: "ProcessFields self env ?x = Some (True, y)"
    "y = ?x\<lparr>uiBufferIndex := u, uiFieldList := v\<rparr>" "take (length fs) u = map position_of fs"
    using process_fields_supported [OF env(1,3), of ?x c fs] f(9) fs by auto
  show ?thesis
    using x y f env(1,2) set
    by (simp add: sqlOpen_def j_def [symmetric] Let_def willing_parent_def send_answers
        fetch_hidden_answers open_indexes_def)
qed

section \<open>Closing\<close>

text \<open>closing releases the object and every array of the area, and a second close only calls the
  parent: the object never gets a second SQLCLOSE.\<close>

theorem close_releases_once:
  assumes "sqlClose self env a = Some (r, b)" "HB_IS_OBJECT (oWorkArea a)"
  shows "\<not> HB_IS_OBJECT (oWorkArea b) \<and> aInfo b = [] \<and> aBuffer b = [] \<and> aCache b = [] \<and> aOrders b = [] \<and>
    uiBufferIndex b = [] \<and> szDataFileName b = None \<and>
    sqlClose self env b = super_close env self (b\<lparr>lpdbPendingRel := None\<rparr>)"
  using assms by (auto simp: sqlClose_def Let_def split: bind_splits if_splits)

section \<open>Relations\<close>

text \<open>a relation that a parent area announces is evaluated by the next forced positioning, once: the
  parent's evaluation sees no pending relation, the area is not positioned a second time at its top, and
  forcing it again does nothing.\<close>

theorem relation_evaluated_once:
  assumes sync: "\<And>x. \<exists>q y. sync_children env x = Some (q, y) \<and> lpdbPendingRel y = lpdbPendingRel x"
    and eval: "\<And>x. lpdbPendingRel x = None \<Longrightarrow> \<exists>q y. rel_eval env rel x = Some (q, y) \<and> lpdbPendingRel y = None"
  shows "\<exists>b q y. sqlChildSync env rel a = Some (HB_SUCCESS, b) \<and>
     rel_eval env rel (b\<lparr>lpdbPendingRel := None\<rparr>) = Some (q, y) \<and>
     sqlForceRel env b = Some (q, y\<lparr>firstinteract := False, wasdel := False\<rparr>) \<and>
     sqlForceRel env (y\<lparr>firstinteract := False, wasdel := False\<rparr>) =
       Some (HB_SUCCESS, y\<lparr>firstinteract := False, wasdel := False\<rparr>)"
proof -
  obtain p b where b: "sync_children env (a\<lparr>lpdbPendingRel := Some rel\<rparr>) = Some (p, b)" "lpdbPendingRel b = Some rel"
    using sync [of "a\<lparr>lpdbPendingRel := Some rel\<rparr>"] by auto
  obtain q y where y: "rel_eval env rel (b\<lparr>lpdbPendingRel := None\<rparr>) = Some (q, y)" "lpdbPendingRel y = None"
    using eval [of "b\<lparr>lpdbPendingRel := None\<rparr>"] by auto
  show ?thesis
    using b y by (intro exI [of _ b] exI [of _ q] exI [of _ y]) (simp add: sqlChildSync_def sqlForceRel_def)
qed

section \<open>Locks\<close>

text \<open>a lock is granted without asking in an area opened for exclusive use, on a record being appended
  and at the end of the table; otherwise the answer of the object decides, asked with the current record
  for a single lock, and an unknown kind of lock is refused.\<close>

theorem lock_decision:
  assumes "\<not> firstinteract a" "answers env ans"
  shows "sqlLock self env k v a =
    (if infoL SR_AINFO_ISINSERT a \<or> infoL SR_AINFO_EOF a \<or> \<not> shared a then Some ((True, HB_SUCCESS), a)
     else if k \<in> {DBLM_EXCLUSIVE, DBLM_MULTIPLE, DBLM_FILE}
     then Some ((hb_itemGetL (ans ''SQLLOCK''), HB_SUCCESS),
       a\<lparr>world := (''SQLLOCK'', INum k # (if k = DBLM_EXCLUSIVE then [info SR_AINFO_RECNO a]
                                      else if k = DBLM_MULTIPLE then [v] else [])) # world a\<rparr>)
     else Some ((False, HB_SUCCESS), a))"
  using assms by (simp add: sqlLock_def first_interact_def send_answers)

section \<open>Existence\<close>

text \<open>asked for neither a table nor an index, or without an object, \<open>sqlExists\<close> gives the error code 1,
  which its caller reads as true.\<close>

theorem exists_error_is_true:
  assumes "new_workarea env a = Some (obj, b)" "\<not> HB_IS_OBJECT obj \<or> tab = None \<and> ind = None"
    and "\<And>x. \<exists>y. common_error env EG_DATATYPE ESQLRDD_DATATYPE x = Some ((), y)"
  shows "\<exists>c. sqlExists env tab ind a = Some (1, c)"
  using assms(1,2) assms(3) [of b] by (auto simp: sqlExists_def)

section \<open>Witnesses\<close>

definition name_column :: item where
  "name_column = Arr 0 [Str ''NAME'', Str ''C'', INum 10, INum 0, INum 3]"

definition object_answers :: "string \<Rightarrow> item" where
  "object_answers m =
     (if m = ''LOPENED'' then Logical True else if m = ''AINIFIELDS'' then Arr 0 [name_column] else NIL)"

definition open_env :: "trace env" where
  "open_env = idle_env\<lparr>send := \<lambda>m args a. Some (object_answers m, a\<lparr>world := (m, args) # world a\<rparr>)\<rparr>"

definition open_rdd :: "trace rdd" where
  "open_rdd = idle_rdd\<lparr>self_setFieldExtent := sqlSetFieldExtent open_env\<rparr>"

definition table_info :: openinfo where
  "table_info = \<lparr>uiArea = 1, abName = ''table'', atomAlias = None, fShared = True, fReadonly = False,
     cdpId = None, ulConnection = 0\<rparr>"

lemma name_column_simps: "supported name_column" "position_of name_column = 3"
  by (simp_all add: name_column_def supported_def position_of_def field_of_def type_char_def field_type_def
      hb_arrayGet_def arr_get_def Let_def)

lemma open_env_answers: "answers open_env object_answers"
  by (simp add: answers_def open_env_def)

lemma open_env_willing: "willing_parent open_env"
  by (simp add: willing_parent_def open_env_def idle_env_def)

definition struct_area :: "trace area" where
  "struct_area = (zero_area [])\<lparr>aStruct := Arr 0 [name_column]\<rparr>"

theorem fields_taken_over_witness:
  "\<exists>b. ProcessFields open_rdd open_env struct_area = Some (True, b) \<and> uiBufferIndex b ! 0 = 3"
proof -
  have s: "aStruct struct_area = Arr 0 [name_column]" by (simp add: struct_area_def)
  have "\<exists>b u v. ProcessFields open_rdd open_env struct_area = Some (True, b) \<and>
      b = struct_area\<lparr>uiBufferIndex := u, uiFieldList := v\<rparr> \<and>
      take (length [name_column]) u = map position_of [name_column]"
    by (rule process_fields_supported [OF open_env_willing _ s]) (simp_all add: open_rdd_def name_column_simps)
  then obtain b where b: "ProcessFields open_rdd open_env struct_area = Some (True, b)" by blast
  have "aStruct y = aStruct x" if "self_setFieldExtent open_rdd n x = Some (r, y)" for n x r y
    using that open_env_willing
    by (auto simp: open_rdd_def sqlSetFieldExtent_def willing_parent_def Let_def)
  from fields_taken_over [OF b willing_keeps [OF open_env_willing] this] b show ?thesis
    by (auto simp: s hb_arrayLen_def arr_get_def name_column_simps)
qed

theorem open_takes_over_witness:
  "\<exists>b. sqlOpen open_rdd open_env table_info (zero_area []) = Some (HB_SUCCESS, b) \<and>
     hd (map fst (rev (world b))) = ''SQLOPEN'' \<and> take 1 (uiBufferIndex b) = [3]"
proof -
  have "\<not> auto_open open_env w" for w by (simp add: open_env_def idle_env_def)
  from open_takes_over [OF open_env_willing open_env_answers _ _ _ _ _ _ this, of open_rdd 0 "[name_column]" "zero_area []" table_info]
  show ?thesis by (auto simp: open_rdd_def object_answers_def name_column_simps zero_area_def rev_map)
qed

definition open_area :: "trace area" where
  "open_area = (zero_area [])\<lparr>oWorkArea := Arr 1 [], aInfo := replicate 24 NIL, shared := True\<rparr>"

theorem close_releases_once_witness:
  "\<exists>r b. sqlClose idle_rdd idle_env open_area = Some (r, b) \<and> sqlClose idle_rdd idle_env b = Some (0, b) \<and>
     \<not> HB_IS_OBJECT (oWorkArea b)"
proof -
  obtain b where b: "sqlClose idle_rdd idle_env open_area = Some (0, b)" "lpdbPendingRel b = None"
    by (simp add: sqlClose_def open_area_def idle_env_def log_send_def zero_area_def)
  moreover have "b\<lparr>lpdbPendingRel := None\<rparr> = b" using b(2) by (cases b) simp
  moreover have "HB_IS_OBJECT (oWorkArea open_area)" by (simp add: open_area_def)
  ultimately show ?thesis using close_releases_once [OF b(1)] by (simp add: idle_env_def)
qed

theorem relation_evaluated_once_witness:
  "\<exists>b q y. sqlChildSync idle_env 4 open_area = Some (HB_SUCCESS, b) \<and>
     sqlForceRel idle_env b = Some (q, y) \<and> sqlForceRel idle_env y = Some (HB_SUCCESS, y)"
proof -
  have "\<exists>q y. sync_children idle_env x = Some (q, y) \<and> lpdbPendingRel y = lpdbPendingRel x" for x
    by (simp add: idle_env_def)
  moreover have "lpdbPendingRel x = None \<Longrightarrow> \<exists>q y. rel_eval idle_env 4 x = Some (q, y) \<and> lpdbPendingRel y = None" for x
    by (simp add: idle_env_def)
  ultimately show ?thesis using relation_evaluated_once [of idle_env 4 open_area] by blast
qed

theorem lock_decision_witness:
  "sqlLock idle_rdd open_env DBLM_EXCLUSIVE NIL open_area =
     Some ((False, HB_SUCCESS), open_area\<lparr>world := [(''SQLLOCK'', [INum 1, NIL])]\<rparr>)"
proof -
  have "\<not> firstinteract open_area" by (simp add: open_area_def zero_area_def)
  from lock_decision [OF this open_env_answers, of idle_rdd 1 NIL] show ?thesis
    by (simp add: open_area_def zero_area_def object_answers_def infoL_def info_def arr_get_def)
qed

theorem exists_error_is_true_witness: "\<exists>c. sqlExists idle_env None None open_area = Some (1, c)"
  by (rule exists_error_is_true [where obj = "Arr 1 []" and b = open_area]) (simp_all add: idle_env_def)

end
