(* ===== verification/Driver.thy ===== *)
theory Driver
  imports MovementProps Areas Orders
begin

text \<open>
  The function table \<open>sqlTable\<close> of \<open>source/sqlrdd1.c\<close>. The driver's functions call each other through
  it, so it refers to itself: \<open>sqlrdd_table env n\<close> is the table in which such calls may be nested \<open>n\<close>
  deep; without any depth left a call has no result. \<open>driver_status\<close> is what the functions rely on
  when they call the status functions and \<open>GOCOLD\<close> through the table, and the table keeps it at every
  depth.
\<close>

definition sqlTable :: "'w env \<Rightarrow> 'w rdd \<Rightarrow> 'w rdd" where
  "sqlTable env t =
     \<lparr>self_goBottom = sqlGoBottom t env, self_goTo = sqlGoTo env, self_goToId = sqlGoToId t env,
      self_goTop = sqlGoTop t env, self_skip = sqlSkip t env, self_skipFilter = sqlSkipFilter t env,
      self_skipRaw = sqlSkipRaw t env, self_deleted = sqlDeleted t, self_goCold = sqlGoCold env,
      self_forceRel = sqlForceRel env, self_childSync = sqlChildSync env,
      self_clearFilter = sqlClearFilter env, self_bof = sqlBof t, self_eof = sqlEof t,
      self_recCount = sqlRecCount t, self_recId = sqlRecId t,
      self_setFieldExtent = sqlSetFieldExtent env, self_close = sqlClose t env\<rparr>"

fun sqlrdd_table :: "'w env \<Rightarrow> nat \<Rightarrow> 'w rdd" where
  "sqlrdd_table env 0 =
     \<lparr>self_goBottom = (\<lambda>a. None), self_goTo = (\<lambda>n a. None), self_goToId = (\<lambda>v a. None),
      self_goTop = (\<lambda>a. None), self_skip = (\<lambda>n a. None), self_skipFilter = (\<lambda>n a. None),
      self_skipRaw = (\<lambda>n a. None), self_deleted = (\<lambda>a. None), self_goCold = (\<lambda>a. None),
      self_forceRel = (\<lambda>a. None), self_childSync = (\<lambda>r a. None), self_clearFilter = (\<lambda>a. None),
      self_bof = (\<lambda>a. None), self_eof = (\<lambda>a. None), self_recCount = (\<lambda>a. None),
      self_recId = (\<lambda>a. None), self_setFieldExtent = (\<lambda>n a. None), self_close = (\<lambda>a. None)\<rparr>"
| "sqlrdd_table env (Suc n) = sqlTable env (sqlrdd_table env n)"

section \<open>What the status functions promise\<close>


section \<open>The depth does not matter\<close>

text \<open>\<open>extends x y\<close>: where \<open>x\<close> has a result, \<open>y\<close> has the same.\<close>

definition extends :: "'a option \<Rightarrow> 'a option \<Rightarrow> bool" where
  "extends x y \<longleftrightarrow> (\<forall>v. x = Some v \<longrightarrow> y = Some v)"

named_theorems extend_rules \<open>how results carry over from a table to a deeper one\<close>

lemma extends_refl [extend_rules]: "extends x x"
  by (simp add: extends_def)

lemma extends_None [simp]: "extends None y"
  by (simp add: extends_def)

lemma extends_bind [extend_rules]:
  "extends x y \<Longrightarrow> (\<And>v. extends (f v) (g v)) \<Longrightarrow> extends (Option.bind x f) (Option.bind y g)"
  by (cases x) (auto simp: extends_def)

lemma extends_prod [extend_rules]:
  "(\<And>x y. extends (f x y) (g x y)) \<Longrightarrow> extends (case_prod f p) (case_prod g p)"
  by (cases p) simp

lemma extends_if [extend_rules]:
  "(c \<Longrightarrow> extends x y) \<Longrightarrow> (\<not> c \<Longrightarrow> extends x' y') \<Longrightarrow> extends (if c then x else x') (if c then y else y')"
  by simp

lemma extends_let [extend_rules]: "(\<And>v. extends (f v) (g v)) \<Longrightarrow> extends (Let x f) (Let x g)"
  by simp

definition deeper :: "'w rdd \<Rightarrow> 'w rdd \<Rightarrow> bool" where
  "deeper t t' \<longleftrightarrow>
     (\<forall>a. extends (self_goBottom t a) (self_goBottom t' a)) \<and>
     (\<forall>n a. extends (self_goTo t n a) (self_goTo t' n a)) \<and>
     (\<forall>v a. extends (self_goToId t v a) (self_goToId t' v a)) \<and>
     (\<forall>a. extends (self_goTop t a) (self_goTop t' a)) \<and>
     (\<forall>n a. extends (self_skip t n a) (self_skip t' n a)) \<and>
     (\<forall>n a. extends (self_skipFilter t n a) (self_skipFilter t' n a)) \<and>
     (\<forall>n a. extends (self_skipRaw t n a) (self_skipRaw t' n a)) \<and>
     (\<forall>a. extends (self_deleted t a) (self_deleted t' a)) \<and>
     (\<forall>a. extends (self_goCold t a) (self_goCold t' a)) \<and>
     (\<forall>a. extends (self_forceRel t a) (self_forceRel t' a)) \<and>
     (\<forall>r a. extends (self_childSync t r a) (self_childSync t' r a)) \<and>
     (\<forall>a. extends (self_clearFilter t a) (self_clearFilter t' a)) \<and>
     (\<forall>a. extends (self_bof t a) (self_bof t' a)) \<and>
     (\<forall>a. extends (self_eof t a) (self_eof t' a)) \<and>
     (\<forall>a. extends (self_recCount t a) (self_recCount t' a)) \<and>
     (\<forall>a. extends (self_recId t a) (self_recId t' a)) \<and>
     (\<forall>n a. extends (self_setFieldExtent t n a) (self_setFieldExtent t' n a)) \<and>
     (\<forall>a. extends (self_close t a) (self_close t' a))"

text \<open>What the parent's functions do with the table they are given they also do with a deeper one.\<close>

definition parent_extends :: "'w env \<Rightarrow> bool" where
  "parent_extends env \<longleftrightarrow>
     (\<forall>t t' n a. deeper t t' \<longrightarrow> extends (super_skip env t n a) (super_skip env t' n a)) \<and>
     (\<forall>t t' a. deeper t t' \<longrightarrow> extends (super_close env t a) (super_close env t' a))"

lemma self_extends [extend_rules]:
  assumes "deeper t t'"
  shows "extends (self_goBottom t a) (self_goBottom t' a)" "extends (self_goTo t n a) (self_goTo t' n a)"
    "extends (self_goToId t v a) (self_goToId t' v a)" "extends (self_goTop t a) (self_goTop t' a)"
    "extends (self_skipFilter t n a) (self_skipFilter t' n a)" "extends (self_skipRaw t n a) (self_skipRaw t' n a)"
    "extends (self_deleted t a) (self_deleted t' a)" "extends (self_goCold t a) (self_goCold t' a)"
    "extends (self_forceRel t a) (self_forceRel t' a)"
  using assms by (simp_all add: deeper_def)

lemma waiting_extends [extend_rules]:
  assumes "deeper t t'"
  shows "extends (force_pending t a) (force_pending t' a)" "extends (first_interact t a) (first_interact t' a)"
    "extends (pending_or_first t a) (pending_or_first t' a)"
    "extends (first_then_pending t a) (first_then_pending t' a)"
  unfolding pending_or_first_def first_then_pending_def force_pending_def first_interact_def
  by (intro extend_rules assms)+

lemma status_extends [extend_rules]:
  assumes "deeper t t'"
  shows "extends (sqlBof t a) (sqlBof t' a)" "extends (sqlEof t a) (sqlEof t' a)"
    "extends (sqlDeleted t a) (sqlDeleted t' a)" "extends (sqlRecCount t a) (sqlRecCount t' a)"
    "extends (sqlRecId t a) (sqlRecId t' a)"
  unfolding sqlBof_def sqlEof_def sqlDeleted_def sqlRecCount_def sqlRecId_def
  by (intro extend_rules assms)+

lemma move_extends [extend_rules]:
  assumes "deeper t t'"
  shows "extends (sqlGoBottom t env a) (sqlGoBottom t' env a)" "extends (sqlGoTop t env a) (sqlGoTop t' env a)"
    "extends (sqlGoToId t env v a) (sqlGoToId t' env v a)" "extends (sqlSkipRaw t env n a) (sqlSkipRaw t' env n a)"
  unfolding sqlGoBottom_def sqlGoTop_def sqlGoToId_def sqlSkipRaw_def skip_table_deleted_def skip_table_bwd_def
  by (intro extend_rules assms)+

lemma parent_calls_extend [extend_rules]:
  assumes "deeper t t'" "parent_extends env"
  shows "extends (sqlSkip t env n a) (sqlSkip t' env n a)" "extends (sqlClose t env a) (sqlClose t' env a)"
proof -
  have [extend_rules]: "extends (super_skip env t n a) (super_skip env t' n a)"
    "extends (super_close env t a) (super_close env t' a)" for n a
    using assms by (auto simp: parent_extends_def)
  show "extends (sqlSkip t env n a) (sqlSkip t' env n a)" "extends (sqlClose t env a) (sqlClose t' env a)"
    unfolding sqlSkip_def sqlClose_def by (intro extend_rules assms(1))+
qed

text \<open>The loop over hidden records: its turns and its resting places carry over.\<close>

lemma deleted_extends: "deeper t t' \<Longrightarrow> extends (deleted_hides env t a) (deleted_hides env t' a)"
  unfolding deleted_hides_def by (intro extend_rules)

lemma extendsD: "extends x y \<Longrightarrow> x = Some v \<Longrightarrow> y = Some v"
  by (simp add: extends_def)

lemma skips_extend: "skips_hidden env t d a b \<Longrightarrow> deeper t t' \<Longrightarrow> skips_hidden env t' d a b"
  by (erule skips_hiddenE)
    (blast intro: skips_hidden.intros extendsD [OF deleted_extends] extendsD [OF self_extends(6)])+

lemma rests_extend: "rests env t a out b \<Longrightarrow> deeper t t' \<Longrightarrow> rests env t' a out b"
  by (auto simp: rests_def intro: extendsD [OF deleted_extends] split: if_splits)

lemma filter_loop_extends [extend_rules]:
  assumes "deeper t t'"
  shows "extends (filter_loop env t d a) (filter_loop env t' d a)"
proof -
  have "filter_loop env t' d a = Some (out, b)" if "filter_loop env t d a = Some (out, b)" for out b
  proof -
    from that obtain a' where a': "(skips_hidden env t d)\<^sup>*\<^sup>* a a'" "rests env t a' out b"
      unfolding filter_loop_iff by blast
    have "(skips_hidden env t' d)\<^sup>*\<^sup>* a a'"
      using a'(1) by (rule rtranclp_mono [THEN predicate2D, rotated]) (auto intro: skips_extend assms)
    then show ?thesis unfolding filter_loop_iff using rests_extend [OF a'(2) assms] by blast
  qed
  then show ?thesis by (auto simp: extends_def)
qed

lemma skipFilter_extends [extend_rules]:
  "deeper t t' \<Longrightarrow> extends (sqlSkipFilter t env n a) (sqlSkipFilter t' env n a)"
  unfolding sqlSkipFilter_def by (intro extend_rules)

lemma table_deeper:
  assumes "parent_extends env" "deeper t t'"
  shows "deeper (sqlTable env t) (sqlTable env t')"
  unfolding deeper_def sqlTable_def rdd.select_convs by (intro conjI allI extend_rules assms)

lemma table_deeper_Suc:
  assumes "parent_extends env"
  shows "deeper (sqlrdd_table env n) (sqlrdd_table env (Suc n))"
proof (induction n)
  case 0
  show ?case by (simp add: deeper_def)
next
  case (Suc n)
  then show ?case unfolding sqlrdd_table.simps(2) by (rule table_deeper [OF assms])
qed

text \<open>A result the driver's function table gives at some depth of nested calls it gives at every greater
  depth: the depth of the model, which has no counterpart in the code, only decides whether there is a result.\<close>

lemma depth_does_not_matter:
  assumes "parent_extends env" "n \<le> m"
  shows "deeper (sqlrdd_table env n) (sqlrdd_table env m)"
  using assms(2)
proof (induction m rule: dec_induct)
  case base
  show ?case by (simp add: deeper_def extends_refl)
next
  case (step m)
  then show ?case using table_deeper_Suc [OF assms(1), of m]
    unfolding deeper_def extends_def by meson
qed


section \<open>Moves that return\<close>

text \<open>The object and the related areas answer, the object sets no filter, and deleted records are shown.\<close>

definition answering :: "'w env \<Rightarrow> bool" where
  "answering env \<longleftrightarrow>
     (\<forall>m args x. itmCobExpr x = None \<longrightarrow> (\<exists>v y. send env m args x = Some (v, y) \<and> itmCobExpr y = None)) \<and>
     (\<forall>x. \<exists>r y. sync_children env x = Some (r, y)) \<and> (\<forall>w. \<not> set_deleted env w)"

lemma answering_send:
  assumes "answering env" "itmCobExpr x = None"
  obtains v y where "send env m args x = Some (v, y)" "itmCobExpr y = None"
  using assms unfolding answering_def by blast

lemma answering_hot:
  assumes "answering env" "itmCobExpr x = None"
  obtains y where "write_hot env x = Some ((), y)" "itmCobExpr y = None"
proof (cases "infoL SR_AINFO_HOT x")
  case True
  obtain v y where "send env ''WRITEBUFFER'' [] x = Some (v, y)" "itmCobExpr y = None"
    by (rule answering_send [OF assms])
  then show ?thesis using True that by (simp add: write_hot_def)
next
  case False
  then show ?thesis using that assms(2) by (simp add: write_hot_def)
qed

lemma goto_returns:
  assumes "answering env" "itmCobExpr x = None"
  shows "\<exists>r y. sqlGoTo env k x = Some (r, y)"
proof -
  have x: "itmCobExpr (leave_position x) = None" using assms(2) by simp
  obtain y where y: "write_hot env (leave_position x) = Some ((), y)" "itmCobExpr y = None"
    by (rule answering_hot [OF assms(1) x])
  obtain v z where "send env ''SQLGOTO'' [INum k] y = Some (v, z)"
    by (rule answering_send [OF assms(1) y(2)])
  with y(1) show ?thesis by (simp add: sqlGoTo_def)
qed

lemma gotoid_returns:
  assumes "answering env" "itmCobExpr x = None" "self_goTo t = sqlGoTo env"
  shows "\<exists>r y. sqlGoToId t env v x = Some (r, y)"
proof (cases "HB_IS_NUMERIC v")
  case True
  then show ?thesis
    using goto_returns [OF assms(1), of "x\<lparr>firstinteract := False, wasdel := False\<rparr>" "hb_itemGetNL v"] assms(2,3)
    by (simp add: sqlGoToId_def Let_def)
next
  case False
  have x: "itmCobExpr (x\<lparr>firstinteract := False, wasdel := False\<rparr>) = None" using assms(2) by simp
  obtain y where y: "write_hot env (x\<lparr>firstinteract := False, wasdel := False\<rparr>) = Some ((), y)" "itmCobExpr y = None"
    by (rule answering_hot [OF assms(1) x])
  obtain u z where "send env ''SQLGOTO'' [v] y = Some (u, z)"
    by (rule answering_send [OF assms(1) y(2)])
  with y(1) False show ?thesis by (simp add: sqlGoToId_def Let_def)
qed

lemma ends_return:
  fixes env :: "'w env"
  assumes env: "answering env" and x: "itmCobExpr x = None"
    and skip: "\<And>d x. itmCobExpr x = None \<Longrightarrow> self_skipFilter t d x = Some (HB_SUCCESS, x)"
  shows "\<exists>r y. sqlGoTop t env x = Some (r, y)" "\<exists>r y. sqlGoBottom t env x = Some (r, y)"
proof -
  have "itmCobExpr (leave_position x) = None" using x by simp
  then obtain y where y: "write_hot env (leave_position x) = Some ((), y)" "itmCobExpr y = None"
    by (rule answering_hot [OF env])
  have rel: "\<exists>r b. sync_relations env z = Some (r, b)" for z
    using env by (simp add: sync_relations_def answering_def)
  have shown: "self_skipFilter t d (load_eof_bof z) = Some (HB_SUCCESS, load_eof_bof z)"
    if "itmCobExpr z = None" for d and z :: "'w area"
    using skip [of "load_eof_bof z" d] that by (simp add: load_eof_bof_def)
  obtain v z where "(if infoNL SR_AINFO_BOF_AT y \<noteq> 0 then send env ''SQLGOTO'' [INum (infoNL SR_AINFO_BOF_AT y)] y
      else send env ''SQLGOTOP'' [] y) = Some (v, z)" "itmCobExpr z = None"
    by (cases "infoNL SR_AINFO_BOF_AT y \<noteq> 0") (simp_all, (erule answering_send [OF env y(2)])+)
  then show "\<exists>r y. sqlGoTop t env x = Some (r, y)"
    using y(1) shown [of "z\<lparr>fTop := True, fBottom := False\<rparr>" 1] rel by (simp add: sqlGoTop_def Let_def)
  obtain v z where "(if infoNL SR_AINFO_EOF_AT y \<noteq> 0 then send env ''SQLGOTO'' [INum (infoNL SR_AINFO_EOF_AT y)] y
      else send env ''SQLGOBOTTOM'' [] y) = Some (v, z)" "itmCobExpr z = None"
    by (cases "infoNL SR_AINFO_EOF_AT y \<noteq> 0") (simp_all, (erule answering_send [OF env y(2)])+)
  then show "\<exists>r y. sqlGoBottom t env x = Some (r, y)"
    using y(1) shown [of "z\<lparr>fTop := False, fBottom := True\<rparr>" "- 1"] rel by (simp add: sqlGoBottom_def Let_def)
qed

text \<open>where nothing is hidden and the object answers, two levels of the table are enough for every
  absolute move to come back.\<close>

theorem absolute_moves_return:
  assumes env: "answering env" and a: "itmCobExpr a = None" and n: "2 \<le> n"
  shows "self_goTop (sqlrdd_table env n) a \<noteq> None \<and> self_goBottom (sqlrdd_table env n) a \<noteq> None \<and>
     self_goTo (sqlrdd_table env n) k a \<noteq> None \<and> self_goToId (sqlrdd_table env n) v a \<noteq> None"
proof -
  obtain j where "n = 2 + j" using le_Suc_ex [OF n] ..
  then have j: "sqlrdd_table env n = sqlTable env (sqlrdd_table env (Suc j))" by simp
  let ?t = "sqlrdd_table env (Suc j)"
  have "self_skipFilter ?t d x = Some (HB_SUCCESS, x)" if "itmCobExpr x = None" for d x
    using that env by (simp add: sqlTable_def sqlSkipFilter_def filtering_def answering_def)
  from ends_return [OF env a this] have "\<exists>r y. sqlGoTop ?t env a = Some (r, y)" "\<exists>r y. sqlGoBottom ?t env a = Some (r, y)"
    by blast+
  moreover have "\<exists>r y. sqlGoToId ?t env v a = Some (r, y)"
    by (rule gotoid_returns [OF env a]) (simp add: sqlTable_def)
  ultimately show ?thesis
    using goto_returns [OF env a, of k] unfolding j sqlTable_def [of env ?t] by auto
qed

section \<open>Witnesses\<close>



declare filter_loop.simps [code] fwd_loop.simps [code] bwd_loop.simps [code]



theorem absolute_moves_return_witness:
  "self_goTop (sqlrdd_table idle_env 2) (zero_area []) \<noteq> None \<and> self_goToId (sqlrdd_table idle_env 2) (INum 5) (zero_area []) \<noteq> None"
proof -
  have "answering idle_env" by (simp add: answering_def idle_env_def log_send_def)
  from absolute_moves_return [OF this, of "zero_area []" 2 1 "INum 5"] show ?thesis by (simp add: zero_area_def)
qed

end
