(* ===== verification/XmlNode.thy ===== *)
theory XmlNode
  imports HbItem
begin

text \<open>
  The nodes of an XML document, \<open>source/xml/srxml.c\<close> with the fields of the class \<open>sr_TXmlNode\<close> of
  \<open>source/xml/txml.prg\<close>: making, linking, unlinking and cloning of nodes. An object is known by its
  address, which stays valid as long as something refers to it, so the store is a total function; a
  reference that may be NIL is an option. The loops over siblings may run for ever on a ring.
\<close>

section \<open>Nodes and documents\<close>

abbreviation MXML_TYPE_TAG :: int where "MXML_TYPE_TAG \<equiv> 0"
abbreviation MXML_TYPE_COMMENT :: int where "MXML_TYPE_COMMENT \<equiv> 1"
abbreviation MXML_TYPE_PI :: int where "MXML_TYPE_PI \<equiv> 2"
abbreviation MXML_TYPE_DIRECTIVE :: int where "MXML_TYPE_DIRECTIVE \<equiv> 3"
abbreviation MXML_TYPE_DATA :: int where "MXML_TYPE_DATA \<equiv> 4"
abbreviation MXML_TYPE_CDATA :: int where "MXML_TYPE_CDATA \<equiv> 5"
abbreviation MXML_TYPE_DOCUMENT :: int where "MXML_TYPE_DOCUMENT \<equiv> 6"

record xnode =
  nType :: int
  cName :: item
  cData :: item
  aAttributes :: item
  oNext :: "nat option"
  oPrev :: "nat option"
  oParent :: "nat option"
  oChild :: "nat option"
  nBeginLine :: item

text \<open>A document, with the store of all nodes; \<open>next_node\<close> is the address the next node gets.\<close>

record xdoc =
  nodes :: "nat \<Rightarrow> xnode"
  next_node :: nat
  nLine :: int
  nStatus :: int
  nError :: int
  oErrorNode :: "nat option"
  nNodeCount :: int

text \<open>Reading a field of a node, and sending it an assignment.\<close>

abbreviation nd :: "xdoc \<Rightarrow> nat \<Rightarrow> xnode" where
  "nd d p \<equiv> nodes d p"

definition upd :: "nat \<Rightarrow> (xnode \<Rightarrow> xnode) \<Rightarrow> xdoc \<Rightarrow> xdoc" where
  "upd p f d = d\<lparr>nodes := (nodes d)(p := f (nodes d p))\<rparr>"

lemma nd_upd: "nd (upd p f d) q = (if q = p then f (nd d p) else nd d q)"
  by (simp add: upd_def)

lemma upd_fields [simp]:
  "next_node (upd p f d) = next_node d" "nLine (upd p f d) = nLine d" "nStatus (upd p f d) = nStatus d"
  "nError (upd p f d) = nError d" "oErrorNode (upd p f d) = oErrorNode d" "nNodeCount (upd p f d) = nNodeCount d"
  by (simp_all add: upd_def)

section \<open>New nodes and clones\<close>

text \<open>\<open>sr_TXmlNode:New()\<close> without arguments.\<close>

definition new_node :: xnode where
  "new_node = \<lparr>nType = MXML_TYPE_TAG, cName = NIL, cData = NIL, aAttributes = Hash [], oNext = None,
     oPrev = None, oParent = None, oChild = None, nBeginLine = NIL\<rparr>"

definition mxml_node_new :: "bool \<Rightarrow> xdoc \<Rightarrow> nat \<times> xdoc" where
  "mxml_node_new in_doc d =
     (let p = next_node d;
          n = (if in_doc then new_node\<lparr>nBeginLine := INum (nLine d)\<rparr> else new_node)
      in (p, d\<lparr>nodes := (nodes d)(p := n), next_node := Suc p\<rparr>))"

text \<open>\<open>array_clone\<close> is \<open>hb_arrayClone\<close>, which is given the attributes.\<close>

definition mxml_node_clone :: "(item \<Rightarrow> item) \<Rightarrow> nat \<Rightarrow> xdoc \<Rightarrow> nat \<times> xdoc" where
  "mxml_node_clone array_clone tg d =
     (let (p, d1) = mxml_node_new False d
      in (p, upd p (\<lambda>n. n\<lparr>nType := nType (nd d tg), cName := cName (nd d tg), cData := cData (nd d tg),
                         aAttributes := array_clone (aAttributes (nd d tg))\<rparr>) d1))"

text \<open>The children from \<open>c\<close> on are cloned, each one becoming the only child of \<open>p\<close> it refers to.\<close>

partial_function (option) clone_children ::
  "(item \<Rightarrow> item) \<Rightarrow> nat \<Rightarrow> nat option \<Rightarrow> xdoc \<Rightarrow> xdoc option"
where
  "clone_children array_clone p child d =
     (case child of
        None \<Rightarrow> Some d
      | Some c \<Rightarrow> do {
          let (s, d1) = mxml_node_clone array_clone c d;
          d2 \<leftarrow> clone_children array_clone s (oChild (nd d1 c)) d1;
          let d3 = upd s (\<lambda>n. n\<lparr>oParent := Some p\<rparr>) (upd p (\<lambda>n. n\<lparr>oChild := Some s\<rparr>) d2);
          clone_children array_clone p (oNext (nd d3 c)) d3
        })"

definition mxml_node_clone_tree :: "(item \<Rightarrow> item) \<Rightarrow> nat \<Rightarrow> xdoc \<Rightarrow> (nat \<times> xdoc) option" where
  "mxml_node_clone_tree array_clone tg d = do {
     let (p, d1) = mxml_node_clone array_clone tg d;
     d2 \<leftarrow> clone_children array_clone p (oChild (nd d1 tg)) d1;
     Some (p, d2)
   }"

section \<open>Linking and unlinking\<close>

definition mxml_node_unlink :: "nat \<Rightarrow> xdoc \<Rightarrow> xdoc" where
  "mxml_node_unlink p d =
     (let prev = oPrev (nd d p); next = oNext (nd d p); par = oParent (nd d p);
          d1 = (case prev of None \<Rightarrow> d
                | Some q \<Rightarrow> upd p (\<lambda>n. n\<lparr>oNext := None\<rparr>) (upd q (\<lambda>n. n\<lparr>oNext := next\<rparr>) d));
          d2 = (case next of None \<Rightarrow> d1
                | Some q \<Rightarrow> upd p (\<lambda>n. n\<lparr>oPrev := None\<rparr>) (upd q (\<lambda>n. n\<lparr>oPrev := prev\<rparr>) d1))
      in case par of None \<Rightarrow> d2
         | Some q \<Rightarrow> upd p (\<lambda>n. n\<lparr>oParent := None\<rparr>)
                       (if prev = None then upd q (\<lambda>n. n\<lparr>oChild := next\<rparr>) d2 else d2))"

definition mxml_node_insert_before :: "nat \<Rightarrow> nat \<Rightarrow> xdoc \<Rightarrow> xdoc" where
  "mxml_node_insert_before tg p d =
     (let prev = oPrev (nd d tg);
          d1 = upd p (\<lambda>n. n\<lparr>oPrev := prev\<rparr>) d;
          d2 = (case prev of None \<Rightarrow> d1
                | Some q \<Rightarrow> if oNext (nd d1 q) = Some tg then upd q (\<lambda>n. n\<lparr>oNext := Some p\<rparr>) d1 else d1);
          d3 = upd p (\<lambda>n. n\<lparr>oNext := Some tg\<rparr>) (upd tg (\<lambda>n. n\<lparr>oPrev := Some p\<rparr>) d2);
          par = oParent (nd d3 tg);
          d4 = upd p (\<lambda>n. n\<lparr>oParent := par\<rparr>) d3
      in case par of None \<Rightarrow> d4
         | Some q \<Rightarrow> if oChild (nd d4 q) = Some tg then upd q (\<lambda>n. n\<lparr>oChild := Some p\<rparr>) d4 else d4)"

definition mxml_node_insert_after :: "nat \<Rightarrow> nat \<Rightarrow> xdoc \<Rightarrow> xdoc" where
  "mxml_node_insert_after tg p d =
     (let d1 = upd p (\<lambda>n. n\<lparr>oNext := oNext (nd d tg)\<rparr>) d;
          d2 = upd tg (\<lambda>n. n\<lparr>oNext := Some p\<rparr>) d1;
          d3 = upd p (\<lambda>n. n\<lparr>oPrev := Some tg\<rparr>) d2
      in upd p (\<lambda>n. n\<lparr>oParent := oParent (nd d3 tg)\<rparr>) d3)"

text \<open>The children from \<open>c\<close> on get the parent \<open>p\<close>.\<close>

partial_function (option) move_children :: "nat \<Rightarrow> nat option \<Rightarrow> xdoc \<Rightarrow> xdoc option" where
  "move_children p child d =
     (case child of
        None \<Rightarrow> Some d
      | Some c \<Rightarrow>
          (let d1 = upd c (\<lambda>n. n\<lparr>oParent := Some p\<rparr>) d in move_children p (oNext (nd d1 c)) d1))"

definition mxml_node_insert_below :: "nat \<Rightarrow> nat \<Rightarrow> xdoc \<Rightarrow> xdoc option" where
  "mxml_node_insert_below tg p d =
     (let child = oChild (nd d tg);
          d1 = upd p (\<lambda>n. n\<lparr>oChild := child\<rparr>) d
      in move_children p child (upd p (\<lambda>n. n\<lparr>oParent := Some tg\<rparr>) d1))"

partial_function (option) last_sibling :: "nat \<Rightarrow> xdoc \<Rightarrow> nat option" where
  "last_sibling c d = (case oNext (nd d c) of None \<Rightarrow> Some c | Some q \<Rightarrow> last_sibling q d)"

definition mxml_node_add_below :: "nat \<Rightarrow> nat \<Rightarrow> xdoc \<Rightarrow> xdoc option" where
  "mxml_node_add_below tg p d =
     (let d1 = upd p (\<lambda>n. n\<lparr>oParent := Some tg\<rparr>) d
      in case oChild (nd d1 tg) of
           Some c \<Rightarrow> do {
             l \<leftarrow> last_sibling c d1;
             Some (upd p (\<lambda>n. n\<lparr>oPrev := Some l\<rparr>) (upd l (\<lambda>n. n\<lparr>oNext := Some p\<rparr>) d1))
           }
         | None \<Rightarrow> Some (upd tg (\<lambda>n. n\<lparr>oChild := Some p\<rparr>) d1))"

text \<open>\<open>sr_TXmlNode:Depth()\<close>, the number of nodes above.\<close>

partial_function (option) node_depth :: "nat \<Rightarrow> xdoc \<Rightarrow> int option" where
  "node_depth p d =
     (case oParent (nd d p) of None \<Rightarrow> Some 0 | Some q \<Rightarrow> do { k \<leftarrow> node_depth q d; Some (k + 1) })"

declare clone_children.simps [code] move_children.simps [code] last_sibling.simps [code] node_depth.simps [code]

end
