(* ===== verification/XmlWrite.thy ===== *)
theory XmlWrite
  imports XmlNode
begin

text \<open>
  Writing of XML documents, \<open>source/xml/srxml.c\<close>: the output object with its two output functions, the
  self growing string, and the writing of attributes and nodes. The new line is \<open>hb_conNewLine()\<close>. The
  memory of a new block is given by \<open>garbage\<close>, so that reading it before it is written is seen.
\<close>

section \<open>Status and styles\<close>

abbreviation MXML_STATUS_ERROR :: int where "MXML_STATUS_ERROR \<equiv> 0"
abbreviation MXML_STATUS_OK :: int where "MXML_STATUS_OK \<equiv> 1"
abbreviation MXML_STATUS_DONE :: int where "MXML_STATUS_DONE \<equiv> 3"
abbreviation MXML_STATUS_MALFORMED :: int where "MXML_STATUS_MALFORMED \<equiv> 5"

abbreviation MXML_ERROR_NONE :: int where "MXML_ERROR_NONE \<equiv> 0"
abbreviation MXML_ERROR_IO :: int where "MXML_ERROR_IO \<equiv> 1"
abbreviation MXML_ERROR_NOMEM :: int where "MXML_ERROR_NOMEM \<equiv> 2"
abbreviation MXML_ERROR_INVNODE :: int where "MXML_ERROR_INVNODE \<equiv> 4"
abbreviation MXML_ERROR_INVATT :: int where "MXML_ERROR_INVATT \<equiv> 5"
abbreviation MXML_ERROR_MALFATT :: int where "MXML_ERROR_MALFATT \<equiv> 6"
abbreviation MXML_ERROR_UNCLOSED :: int where "MXML_ERROR_UNCLOSED \<equiv> 11"
abbreviation MXML_ERROR_UNCLOSEDENTITY :: int where "MXML_ERROR_UNCLOSEDENTITY \<equiv> 12"
abbreviation MXML_ERROR_WRONGENTITY :: int where "MXML_ERROR_WRONGENTITY \<equiv> 13"

text \<open>The bits of a style.\<close>

definition STYLE_INDENT :: "int \<Rightarrow> bool" where "STYLE_INDENT s \<longleftrightarrow> bit s 0"
definition STYLE_TAB :: "int \<Rightarrow> bool" where "STYLE_TAB s \<longleftrightarrow> bit s 1"
definition STYLE_THREESPACES :: "int \<Rightarrow> bool" where "STYLE_THREESPACES s \<longleftrightarrow> bit s 2"
definition STYLE_NOESCAPE :: "int \<Rightarrow> bool" where "STYLE_NOESCAPE s \<longleftrightarrow> bit s 3"
definition STYLE_NONEWLINE :: "int \<Rightarrow> bool" where "STYLE_NONEWLINE s \<longleftrightarrow> bit s 4"

section \<open>Self growing strings\<close>

abbreviation MXML_ALLOC_BLOCK :: nat where "MXML_ALLOC_BLOCK \<equiv> 128"

text \<open>The buffer has \<open>allocated\<close> bytes; a write outside has no result.\<close>

record sgs =
  buffer :: bytes
  sg_length :: nat

abbreviation allocated :: "sgs \<Rightarrow> nat" where
  "allocated g \<equiv> length (buffer g)"

definition block :: "(nat \<Rightarrow> char) \<Rightarrow> nat \<Rightarrow> bytes" where
  "block garbage n = map garbage [0 ..< n]"

definition xrealloc :: "(nat \<Rightarrow> char) \<Rightarrow> bytes \<Rightarrow> nat \<Rightarrow> bytes" where
  "xrealloc garbage b n = take n b @ map garbage [length b ..< n]"

definition mxml_sgs_new :: "(nat \<Rightarrow> char) \<Rightarrow> sgs" where
  "mxml_sgs_new garbage = \<lparr>buffer = block garbage MXML_ALLOC_BLOCK, sg_length = 0\<rparr>"

definition mxml_sgs_append_char :: "(nat \<Rightarrow> char) \<Rightarrow> char \<Rightarrow> sgs \<Rightarrow> sgs option" where
  "mxml_sgs_append_char garbage c g =
     (if sg_length g < allocated g then
        (let g1 = g\<lparr>buffer := (buffer g)[sg_length g := c], sg_length := Suc (sg_length g)\<rparr>
         in Some (if sg_length g1 \<ge> allocated g1
                  then g1\<lparr>buffer := xrealloc garbage (buffer g1) (allocated g1 + MXML_ALLOC_BLOCK)\<rparr>
                  else g1))
      else None)"

text \<open>\<open>memcpy\<close> with the byte after the string, its NUL.\<close>

definition memcpy :: "bytes \<Rightarrow> nat \<Rightarrow> bytes \<Rightarrow> bytes option" where
  "memcpy b p s =
     (if p + length s \<le> length b then Some (take p b @ s @ drop (p + length s) b) else None)"

definition mxml_sgs_append_string_len :: "(nat \<Rightarrow> char) \<Rightarrow> bytes \<Rightarrow> sgs \<Rightarrow> sgs option" where
  "mxml_sgs_append_string_len garbage s g =
     (if 0 < length s then do {
        let n = sg_length g + length s;
        let b = (if n \<ge> allocated g
                 then xrealloc garbage (buffer g) ((n div MXML_ALLOC_BLOCK + 1) * MXML_ALLOC_BLOCK)
                 else buffer g);
        b1 \<leftarrow> memcpy b (sg_length g) (s @ [NUL]);
        Some (g\<lparr>buffer := b1, sg_length := n\<rparr>)
      }
      else Some g)"

text \<open>The bytes of the result without its NUL, and what is left.\<close>

definition mxml_sgs_extract :: "sgs \<Rightarrow> bytes option" where
  "mxml_sgs_extract g = (if sg_length g < allocated g then Some (take (sg_length g) (buffer g)) else None)"

section \<open>Output\<close>

text \<open>\<open>u\<close> is the data of the output function, a handle or a self growing string.\<close>

record 'u xoutput =
  status :: int
  error :: int
  node_done :: int
  u :: 'u

type_synonym 'u out_func = "bytes \<Rightarrow> 'u xoutput \<Rightarrow> 'u xoutput option"

text \<open>The setup succeeds, and returns the error code.\<close>

definition mxml_output_setup :: "'u \<Rightarrow> int \<times> 'u xoutput" where
  "mxml_output_setup x = (MXML_STATUS_ERROR, \<lparr>status = MXML_STATUS_OK, error = MXML_ERROR_NONE, node_done = 0, u = x\<rparr>)"

text \<open>\<open>write\<close> is \<open>hb_fsWriteLarge\<close> on the handle: how many bytes it took, and the handle afterwards.\<close>

definition mxml_output_func_to_handle :: "('f \<Rightarrow> bytes \<Rightarrow> nat \<times> 'f) \<Rightarrow> 'f out_func" where
  "mxml_output_func_to_handle write s out =
     (let (n, f) = write (u out) s; out1 = out\<lparr>u := f\<rparr>
      in Some (if n < length s then out1\<lparr>status := MXML_STATUS_ERROR, error := MXML_ERROR_IO\<rparr> else out1))"

definition mxml_output_func_to_sgs :: "(nat \<Rightarrow> char) \<Rightarrow> sgs out_func" where
  "mxml_output_func_to_sgs garbage s out = do {
     g \<leftarrow> (case s of [c] \<Rightarrow> mxml_sgs_append_char garbage c (u out)
                | _ \<Rightarrow> mxml_sgs_append_string_len garbage s (u out));
     Some (out\<lparr>u := g\<rparr>)
   }"

definition mxml_output_char :: "'u out_func \<Rightarrow> char \<Rightarrow> 'u xoutput \<Rightarrow> 'u xoutput option" where
  "mxml_output_char func c out = func [c] out"

definition mxml_output_string_len :: "'u out_func \<Rightarrow> bytes \<Rightarrow> 'u xoutput \<Rightarrow> 'u xoutput option" where
  "mxml_output_string_len func s out = func s out"

definition mxml_output_string :: "'u out_func \<Rightarrow> bytes \<Rightarrow> 'u xoutput \<Rightarrow> 'u xoutput option" where
  "mxml_output_string func s out = func s out"

text \<open>The escape of a byte and the loop over a C string, which an error ends.\<close>

definition xml_escape :: "char \<Rightarrow> bytes" where
  "xml_escape c =
     (if c = DQUOTE then ''&quot;'' else if c = QUOTE then ''&apos;'' else if c = CHR ''&'' then ''&amp;''
      else if c = CHR ''<'' then ''&lt;'' else if c = CHR ''>'' then ''&gt;'' else [c])"

fun mxml_output_string_escape :: "'u out_func \<Rightarrow> bytes \<Rightarrow> 'u xoutput \<Rightarrow> 'u xoutput option" where
  "mxml_output_string_escape func [] out = Some out"
| "mxml_output_string_escape func (c # cs) out =
     (if c = NUL then Some out
      else do {
        out1 \<leftarrow> func (xml_escape c) out;
        if status out1 \<noteq> MXML_STATUS_OK then Some out1 else mxml_output_string_escape func cs out1
      })"

section \<open>Attributes and nodes\<close>

definition write_text :: "'u out_func \<Rightarrow> int \<Rightarrow> item \<Rightarrow> 'u xoutput \<Rightarrow> 'u xoutput option" where
  "write_text func style v out =
     (if \<not> STYLE_NOESCAPE style then mxml_output_string_escape func (hb_itemGetC v) out
      else mxml_output_string_len func (hb_itemGetC v) out)"

definition mxml_attribute_write :: "'u out_func \<Rightarrow> item \<times> item \<Rightarrow> int \<Rightarrow> 'u xoutput \<Rightarrow> (int \<times> 'u xoutput) option" where
  "mxml_attribute_write func attr style out = do {
     out \<leftarrow> mxml_output_string_len func (hb_itemGetC (fst attr)) out;
     out \<leftarrow> mxml_output_char func (CHR ''='') out;
     out \<leftarrow> mxml_output_char func DQUOTE out;
     out \<leftarrow> write_text func style (snd attr) out;
     out \<leftarrow> mxml_output_char func DQUOTE out;
     Some (status out, out)
   }"

fun hash_of :: "item \<Rightarrow> (item \<times> item) list" where
  "hash_of (Hash kv) = kv"
| "hash_of _ = []"

fun write_attributes :: "'u out_func \<Rightarrow> (item \<times> item) list \<Rightarrow> int \<Rightarrow> 'u xoutput \<Rightarrow> 'u xoutput option" where
  "write_attributes func [] style out = Some out"
| "write_attributes func (kv # kvs) style out = do {
     out1 \<leftarrow> mxml_output_char func SPACE out;
     (r, out2) \<leftarrow> mxml_attribute_write func kv style out1;
     write_attributes func kvs style out2
   }"

definition mxml_node_write_attributes :: "'u out_func \<Rightarrow> item \<Rightarrow> int \<Rightarrow> 'u xoutput \<Rightarrow> 'u xoutput option" where
  "mxml_node_write_attributes func attr style out = write_attributes func (hash_of attr) style out"

fun indent_loop :: "'u out_func \<Rightarrow> nat \<Rightarrow> int \<Rightarrow> 'u xoutput \<Rightarrow> 'u xoutput option" where
  "indent_loop func 0 style out = Some out"
| "indent_loop func (Suc n) style out = do {
     out1 \<leftarrow> (if STYLE_TAB style then mxml_output_char func (CHR 0x09) out
             else if STYLE_THREESPACES style then mxml_output_string_len func ''   '' out
             else mxml_output_char func SPACE out);
     indent_loop func n style out1
   }"

definition mxml_node_file_indent :: "'u out_func \<Rightarrow> int \<Rightarrow> int \<Rightarrow> 'u xoutput \<Rightarrow> 'u xoutput option" where
  "mxml_node_file_indent func depth style out = indent_loop func (nat depth) style out"

definition new_line :: "'u out_func \<Rightarrow> bytes \<Rightarrow> int \<Rightarrow> 'u xoutput \<Rightarrow> 'u xoutput option" where
  "new_line func eol style out =
     (if \<not> STYLE_NONEWLINE style then mxml_output_string func eol out else Some out)"

text \<open>A node between two brackets, its data taken as it is; \<open>opt_data\<close> is left out if it is no text.\<close>

definition write_between ::
  "'u out_func \<Rightarrow> bytes \<Rightarrow> int \<Rightarrow> bytes \<Rightarrow> bytes \<Rightarrow> bytes \<Rightarrow> 'u xoutput \<Rightarrow> 'u xoutput option"
where
  "write_between func eol style l s r out = do {
     out \<leftarrow> mxml_output_string_len func l out;
     out \<leftarrow> mxml_output_string_len func s out;
     out \<leftarrow> mxml_output_string_len func r out;
     new_line func eol style out
   }"

definition write_instruction ::
  "'u out_func \<Rightarrow> bytes \<Rightarrow> int \<Rightarrow> bytes \<Rightarrow> xnode \<Rightarrow> bytes \<Rightarrow> 'u xoutput \<Rightarrow> 'u xoutput option"
where
  "write_instruction func eol style l n r out = do {
     out \<leftarrow> mxml_output_string_len func l out;
     out \<leftarrow> mxml_output_string_len func (hb_itemGetC (cName n)) out;
     out \<leftarrow> (if HB_IS_STRING (cData n) then do {
               out \<leftarrow> mxml_output_char func SPACE out;
               mxml_output_string_len func (hb_itemGetC (cData n)) out
             }
             else Some out);
     out \<leftarrow> mxml_output_string_len func r out;
     new_line func eol style out
   }"

text \<open>The parts of a tag before and after its children; \<open>depth\<close> is 0 without indentation.\<close>

definition write_tag_open :: "'u out_func \<Rightarrow> bytes \<Rightarrow> int \<Rightarrow> xnode \<Rightarrow> 'u xoutput \<Rightarrow> 'u xoutput option" where
  "write_tag_open func eol style n out = do {
     out \<leftarrow> mxml_output_char func (CHR ''<'') out;
     out \<leftarrow> mxml_output_string_len func (hb_itemGetC (cName n)) out;
     out \<leftarrow> mxml_node_write_attributes func (aAttributes n) style out;
     if HB_IS_NIL (cData n) \<and> oChild n = None then do {
       out \<leftarrow> mxml_output_string_len func ''/>'' out;
       new_line func eol style out
     }
     else do {
       out \<leftarrow> mxml_output_char func (CHR ''>'') out;
       if oChild n \<noteq> None then new_line func eol style out else Some out
     }
   }"

definition write_tag_close :: "'u out_func \<Rightarrow> bytes \<Rightarrow> int \<Rightarrow> int \<Rightarrow> xnode \<Rightarrow> 'u xoutput \<Rightarrow> 'u xoutput option" where
  "write_tag_close func eol style depth n out =
     (if HB_IS_NIL (cData n) \<and> oChild n = None then Some out
      else do {
        let mustIndent = (oChild n \<noteq> None \<and> STYLE_INDENT style);
        out \<leftarrow> (if HB_IS_NIL (cData n) then Some out
               else do {
                 out \<leftarrow> (if mustIndent then mxml_node_file_indent func (depth + 1) style out else Some out);
                 write_text func style (cData n) out
               });
        out \<leftarrow> (if mustIndent then mxml_node_file_indent func depth style out else Some out);
        out \<leftarrow> mxml_output_string_len func ''</'' out;
        out \<leftarrow> mxml_output_string_len func (hb_itemGetC (cName n)) out;
        out \<leftarrow> mxml_output_char func (CHR ''>'') out;
        new_line func eol style out
      })"

text \<open>Only an unfailing output is counted; the result is its status.\<close>

definition finish_node :: "'u xoutput \<Rightarrow> int \<times> 'u xoutput" where
  "finish_node out =
     (if status out \<noteq> MXML_STATUS_OK then (status out, out)
      else (MXML_STATUS_OK, out\<lparr>node_done := node_done out + 1\<rparr>))"

text \<open>The node at \<open>p\<close> and, with \<open>rest\<close>, the siblings after it: the loop over the children of a node.\<close>

partial_function (option) write_nodes ::
  "'u out_func \<Rightarrow> bytes \<Rightarrow> xdoc \<Rightarrow> int \<Rightarrow> bool \<Rightarrow> nat option \<Rightarrow> 'u xoutput \<Rightarrow> (int \<times> 'u xoutput) option"
where
  "write_nodes func eol d style0 rest p out =
     (case p of
        None \<Rightarrow> Some (MXML_STATUS_OK, out)
      | Some q \<Rightarrow> do {
          let n = nd d q;
          let style = (if STYLE_NONEWLINE style0 then unset_bit 0 style0 else style0);
          depth \<leftarrow> (if STYLE_INDENT style then do { k \<leftarrow> node_depth q d; Some (k - 1) } else Some 0);
          out \<leftarrow> (if STYLE_INDENT style then mxml_node_file_indent func depth style out else Some out);
          out \<leftarrow>
            (if nType n = MXML_TYPE_TAG then do {
               out \<leftarrow> write_tag_open func eol style n out;
               (r, out) \<leftarrow> write_nodes func eol d style True (oChild n) out;
               write_tag_close func eol style depth n out
             }
             else if nType n = MXML_TYPE_COMMENT then
               write_between func eol style ''<!-- '' (hb_itemGetC (cData n)) '' -->'' out
             else if nType n = MXML_TYPE_CDATA then
               write_between func eol style ''<![CDATA['' (hb_itemGetC (cData n)) '']]>'' out
             else if nType n = MXML_TYPE_DATA then do {
               out \<leftarrow> write_text func style (cData n) out;
               new_line func eol style out
             }
             else if nType n = MXML_TYPE_DIRECTIVE then write_instruction func eol style ''<!'' n ''>'' out
             else if nType n = MXML_TYPE_PI then write_instruction func eol style ''<?'' n ''?>'' out
             else if nType n = MXML_TYPE_DOCUMENT then do {
               (r, out) \<leftarrow> write_nodes func eol d style True (oChild n) out;
               new_line func eol style out
             }
             else Some out);
          let (r, out) = finish_node out;
          if rest then write_nodes func eol d style0 True (oNext n) out else Some (r, out)
        })"

definition mxml_node_write :: "'u out_func \<Rightarrow> bytes \<Rightarrow> xdoc \<Rightarrow> nat \<Rightarrow> int \<Rightarrow> 'u xoutput \<Rightarrow> (int \<times> 'u xoutput) option" where
  "mxml_node_write func eol d p style out = write_nodes func eol d style False (Some p) out"

text \<open>The text of a node, if writing succeeds; and the status after writing it to a handle.\<close>

definition SR_XML_NODE_TO_STRING :: "(nat \<Rightarrow> char) \<Rightarrow> bytes \<Rightarrow> xdoc \<Rightarrow> nat \<Rightarrow> item \<Rightarrow> bytes option option" where
  "SR_XML_NODE_TO_STRING garbage eol d p style = do {
     let (r, out) = mxml_output_setup (mxml_sgs_new garbage);
     (st, out) \<leftarrow> mxml_node_write (mxml_output_func_to_sgs garbage) eol d p (hb_itemGetNL style) out;
     if st = MXML_STATUS_OK then do { s \<leftarrow> mxml_sgs_extract (u out); Some (Some s) } else Some None
   }"

definition SR_XML_NODE_WRITE ::
  "('f \<Rightarrow> bytes \<Rightarrow> nat \<times> 'f) \<Rightarrow> bytes \<Rightarrow> xdoc \<Rightarrow> nat \<Rightarrow> 'f \<Rightarrow> item \<Rightarrow> (int \<times> 'f) option"
where
  "SR_XML_NODE_WRITE write eol d p f style = do {
     let (r, out) = mxml_output_setup f;
     (st, out) \<leftarrow> mxml_node_write (mxml_output_func_to_handle write) eol d p (hb_itemGetNL style) out;
     Some (st, u out)
   }"

declare write_nodes.simps [code]

end
