(* ===== verification/XmlRead.thy ===== *)
theory XmlRead
  imports XmlWrite Escape
begin

text \<open>
  Reading of XML documents, \<open>source/xml/srxml.c\<close>: the re-filled input, the readers of attributes and of
  the kinds of nodes, and \<open>mxml_node_read\<close>, which calls itself for the contents of a tag. \<open>EOF\<close> is
  \<open>None\<close>; a byte is a \<open>char\<close> wherever the code converts it. The buffers that only grow are lists.
\<close>

section \<open>Input\<close>

text \<open>Without a handle the input is the buffer; \<open>answers_left\<close> are the answers \<open>hb_fsReadLarge\<close> will give,
  \<open>None\<close> for an error.\<close>

record refil =
  r_status :: int
  r_error :: int
  r_buffer :: bytes
  bufpos :: nat
  from_handle :: bool
  answers_left :: "bytes option list"
  sparechar :: "char option"

definition mxml_refil_setup :: "bool \<Rightarrow> bytes option list \<Rightarrow> bytes \<Rightarrow> refil" where
  "mxml_refil_setup handle ans buf =
     \<lparr>r_status = MXML_STATUS_OK, r_error = MXML_ERROR_NONE, r_buffer = buf, bufpos = 0,
      from_handle = handle, answers_left = ans, sparechar = None\<rparr>"

definition mxml_refill_from_handle_func :: "refil \<Rightarrow> refil" where
  "mxml_refill_from_handle_func r =
     (case answers_left r of
        [] \<Rightarrow> r\<lparr>r_buffer := [], bufpos := 0\<rparr>
      | None # as \<Rightarrow> r\<lparr>answers_left := as, r_status := MXML_STATUS_ERROR, r_error := MXML_ERROR_IO\<rparr>
      | Some b # as \<Rightarrow> r\<lparr>answers_left := as, r_buffer := b, bufpos := 0\<rparr>)"

definition mxml_refil_getc :: "refil \<Rightarrow> char option \<times> refil" where
  "mxml_refil_getc r =
     (case sparechar r of
        Some c \<Rightarrow> (Some c, r\<lparr>sparechar := None\<rparr>)
      | None \<Rightarrow>
          (if bufpos r \<ge> length (r_buffer r) then
             (if from_handle r then
                (let r1 = mxml_refill_from_handle_func r in
                 if r_status r1 \<noteq> MXML_STATUS_OK \<or> length (r_buffer r1) = 0 then (None, r1)
                 else (Some (r_buffer r1 ! bufpos r1), r1\<lparr>bufpos := Suc (bufpos r1)\<rparr>))
              else (None, r))
           else (Some (r_buffer r ! bufpos r), r\<lparr>bufpos := Suc (bufpos r)\<rparr>)))"

definition mxml_refil_ungetc :: "char \<Rightarrow> refil \<Rightarrow> refil" where
  "mxml_refil_ungetc c r = r\<lparr>sparechar := Some c\<rparr>"

text \<open>The bytes still to come, if no answer of the handle is empty or an error.\<close>

definition bytes_left :: "refil \<Rightarrow> bytes" where
  "bytes_left r = (case sparechar r of Some c \<Rightarrow> [c] | None \<Rightarrow> []) @ drop (bufpos r) (r_buffer r) @
     concat (map (\<lambda>a. case a of Some b \<Rightarrow> b | None \<Rightarrow> []) (answers_left r))"

abbreviation rsize :: "refil \<Rightarrow> nat" where
  "rsize r \<equiv> length (bytes_left r)"

lemma refill_left: "length (r_buffer r) \<le> bufpos r \<Longrightarrow> bytes_left (mxml_refill_from_handle_func r) = bytes_left r"
  by (simp add: mxml_refill_from_handle_func_def bytes_left_def split: list.splits option.splits)

lemma advance_left:
  "sparechar r = None \<Longrightarrow> bufpos r < length (r_buffer r) \<Longrightarrow>
   bytes_left r = r_buffer r ! bufpos r # bytes_left (r\<lparr>bufpos := Suc (bufpos r)\<rparr>)"
  by (simp add: bytes_left_def Cons_nth_drop_Suc [symmetric])

lemma getc_refilled:
  assumes "sparechar r = None" "length (r_buffer r) \<le> bufpos r" "from_handle r"
    "mxml_refil_getc r = (Some c, r')"
  shows "bytes_left r = c # bytes_left r'"
proof -
  let ?r = "mxml_refill_from_handle_func r"
  have r': "r_buffer ?r \<noteq> []" "r_status ?r = MXML_STATUS_OK" "r' = ?r\<lparr>bufpos := Suc (bufpos ?r)\<rparr>"
    "c = r_buffer ?r ! bufpos ?r"
    using assms by (auto simp: mxml_refil_getc_def Let_def split: if_splits)
  then have "bufpos ?r < length (r_buffer ?r)" "sparechar ?r = None"
    using assms(1,2) by (auto simp: mxml_refill_from_handle_func_def split: list.splits option.splits)
  then show ?thesis using advance_left [of ?r] refill_left [OF assms(2)] r' by simp
qed

lemma getc_left: "mxml_refil_getc r = (Some c, r') \<Longrightarrow> bytes_left r = c # bytes_left r'"
proof (cases "sparechar r = None \<and> length (r_buffer r) \<le> bufpos r \<and> from_handle r")
  case False
  assume g: "mxml_refil_getc r = (Some c, r')"
  show ?thesis
  proof (cases "sparechar r")
    case None
    then show ?thesis using False g advance_left [of r] by (auto simp: mxml_refil_getc_def split: if_splits)
  next
    case (Some e)
    then show ?thesis using g by (auto simp: mxml_refil_getc_def bytes_left_def)
  qed
qed (auto dest: getc_refilled)

lemma getc_size: "mxml_refil_getc r = (Some c, r') \<Longrightarrow> rsize r' < rsize r"
  by (simp add: getc_left)

lemma getc_EOF_left: "mxml_refil_getc r = (None, r') \<Longrightarrow> bytes_left r' = bytes_left r"
  using refill_left [of r] by (auto simp: mxml_refil_getc_def Let_def split: option.splits if_splits)

text \<open>Reading a byte leaves room for the byte that may be put back.\<close>

lemma getc_no_spare: "mxml_refil_getc r = (x, r') \<Longrightarrow> sparechar r' = None"
  by (auto simp: mxml_refil_getc_def mxml_refill_from_handle_func_def Let_def
      split: option.splits if_splits list.splits)

lemma ungetc_left: "sparechar r = None \<Longrightarrow> bytes_left (mxml_refil_ungetc c r) = c # bytes_left r"
  by (simp add: mxml_refil_ungetc_def bytes_left_def)

lemma get_unget_left: "mxml_refil_getc r = (Some c, r') \<Longrightarrow> bytes_left (mxml_refil_ungetc e r') = e # bytes_left r'"
  by (rule ungetc_left [OF getc_no_spare])

lemma get_unget_size: "mxml_refil_getc r = (Some c, r') \<Longrightarrow> rsize (mxml_refil_ungetc c r') \<le> rsize r"
  by (simp add: getc_left get_unget_left)

section \<open>The document\<close>

text \<open>The number that becomes the status of the document is 1, whatever the status of the input.\<close>

definition hbxml_set_doc_status :: "nat \<Rightarrow> int \<Rightarrow> int \<Rightarrow> refil \<times> xdoc \<Rightarrow> refil \<times> xdoc" where
  "hbxml_set_doc_status p st err x =
     ((fst x)\<lparr>r_status := st, r_error := err\<rparr>, (snd x)\<lparr>nStatus := 1, nError := err, oErrorNode := Some p\<rparr>)"

definition hbxml_doc_new_line :: "xdoc \<Rightarrow> xdoc" where
  "hbxml_doc_new_line d = d\<lparr>nLine := nLine d + 1\<rparr>"

definition hbxml_doc_new_node :: "int \<Rightarrow> xdoc \<Rightarrow> xdoc" where
  "hbxml_doc_new_node n d = d\<lparr>nNodeCount := nNodeCount d + n\<rparr>"

definition count_line :: "char \<Rightarrow> xdoc \<Rightarrow> xdoc" where
  "count_line c d = (if c = LF then hbxml_doc_new_line d else d)"

definition xml_space :: "char \<Rightarrow> bool" where
  "xml_space c \<longleftrightarrow> c = SPACE \<or> c = CHR 0x09 \<or> c = LF \<or> c = CR"

section \<open>Entities\<close>

text \<open>\<open>strncmp(..) == 0\<close> on memory of which at least \<open>n\<close> bytes, or the bytes up to a NUL, are given.\<close>

fun strncmp_eq :: "nat \<Rightarrow> bytes \<Rightarrow> bytes \<Rightarrow> bool" where
  "strncmp_eq 0 xs ys = True"
| "strncmp_eq (Suc n) xs ys =
     (let x = (case xs of c # _ \<Rightarrow> c | [] \<Rightarrow> NUL); y = (case ys of c # _ \<Rightarrow> c | [] \<Rightarrow> NUL)
      in x = y \<and> (x = NUL \<or> strncmp_eq n (tl xs) (tl ys)))"

text \<open>The text between the ampersand and the semicolon; one byte less is compared than there is.\<close>

definition entity :: "bytes \<Rightarrow> char option" where
  "entity t =
     (let n = length t - 1
      in if strncmp_eq n t ''amp'' then Some (CHR ''&'')
         else if strncmp_eq n t ''lt'' then Some (CHR ''<'')
         else if strncmp_eq n t ''gt'' then Some (CHR ''>'')
         else if strncmp_eq n t ''quot'' then Some DQUOTE
         else if strncmp_eq n t ''apos'' then Some QUOTE
         else None)"

text \<open>\<open>atoi\<close> on memory that ends after the given bytes: digits up to its end have no result.\<close>

definition atoi :: "bytes \<Rightarrow> int option" where
  "atoi m =
     (let ds = takeWhile is_digit m
      in if length ds = length m then None
         else Some (foldl (\<lambda>k c. 10 * k + (int (byte c) - 48)) 0 ds))"

text \<open>A numeric reference in an attribute, read from the byte after its ampersand on; the memory may end
  inside.\<close>

definition char_of_int :: "int \<Rightarrow> char" where
  "char_of_int v = char_of (nat (v mod 256))"

definition numeric_reference :: "bytes \<Rightarrow> char option" where
  "numeric_reference m =
     (if m ! 1 = CHR ''x'' then
        (if 3 < length m then Some (char_of_int (16 * (schar (m ! 2) - 48) + (schar (m ! 3) - 48))) else None)
      else map_option char_of_int (atoi (tl m)))"

section \<open>Attributes\<close>

text \<open>The state of the machine that reads an attribute.\<close>

record attr_st =
  iStatus :: nat
  quotechr :: char
  buf_name :: bytes
  buf_attrib :: sgs
  iPosAmper :: nat

datatype attr_step = Next attr_st | Bad int | NoAttribute

definition attr_begin :: "attr_st \<Rightarrow> char \<Rightarrow> attr_step" where
  "attr_begin a c =
     (if xml_space c then Next a
      else if c = CHR ''>'' \<or> c = CHR ''/'' then NoAttribute
      else if is_alpha c then Next (a\<lparr>buf_name := buf_name a @ [c], iStatus := 1\<rparr>)
      else Bad MXML_ERROR_INVATT)"

definition attr_name :: "attr_st \<Rightarrow> char \<Rightarrow> attr_step" where
  "attr_name a c =
     (if is_alnum c \<or> c = CHR ''_'' \<or> c = CHR ''-'' \<or> c = CHR '':''
      then Next (a\<lparr>buf_name := buf_name a @ [c]\<rparr>)
      else if xml_space c then Next (a\<lparr>iStatus := 2\<rparr>)
      else if c = CHR ''='' then Next (a\<lparr>iStatus := 3\<rparr>)
      else Bad MXML_ERROR_MALFATT)"

definition attr_equals :: "attr_st \<Rightarrow> char \<Rightarrow> attr_step" where
  "attr_equals a c =
     (if c = CHR ''='' then Next (a\<lparr>iStatus := 3\<rparr>)
      else if xml_space c then Next a else Bad MXML_ERROR_MALFATT)"

definition attr_quote :: "attr_st \<Rightarrow> char \<Rightarrow> attr_step" where
  "attr_quote a c =
     (if c = QUOTE \<or> c = DQUOTE then Next (a\<lparr>iStatus := 4, quotechr := c\<rparr>)
      else if xml_space c then Next a else Bad MXML_ERROR_MALFATT)"

definition attr_append :: "(nat \<Rightarrow> char) \<Rightarrow> char \<Rightarrow> attr_st \<Rightarrow> attr_step option" where
  "attr_append garbage c a = do {
     g \<leftarrow> mxml_sgs_append_char garbage c (buf_attrib a);
     Some (Next (a\<lparr>buf_attrib := g\<rparr>))
   }"

definition attr_value :: "(nat \<Rightarrow> char) \<Rightarrow> int \<Rightarrow> attr_st \<Rightarrow> char \<Rightarrow> attr_step option" where
  "attr_value garbage style a c =
     (if c = quotechr a then Some (Next (a\<lparr>iStatus := 6\<rparr>))
      else if c = CHR ''&'' \<and> \<not> STYLE_NOESCAPE style
      then attr_append garbage c (a\<lparr>iStatus := 5, iPosAmper := sg_length (buf_attrib a)\<rparr>)
      else attr_append garbage c a)"

text \<open>The end of an entity: what it stands for takes its place, a semicolon if nothing is known of it.\<close>

definition attr_entity :: "(nat \<Rightarrow> char) \<Rightarrow> attr_st \<Rightarrow> char \<Rightarrow> attr_step option" where
  "attr_entity garbage a c =
     (if c = CHR '';'' then
        (let g = buf_attrib a; b = Suc (iPosAmper a);
             t = drop b (take (sg_length g) (buffer g))
         in if length t \<le> 1 then Some (Bad MXML_ERROR_WRONGENTITY)
            else do {
              e \<leftarrow> (case entity t of
                     Some e \<Rightarrow> Some e
                   | None \<Rightarrow> if hd t = CHR ''#'' then numeric_reference (drop b (buffer g)) else Some c);
              attr_append garbage e (a\<lparr>iStatus := 4, buf_attrib := g\<lparr>sg_length := iPosAmper a\<rparr>\<rparr>)
            })
      else if \<not> (is_alpha c \<or> is_digit c \<or> c = CHR ''#'') then Some (Bad MXML_ERROR_WRONGENTITY)
      else attr_append garbage c a)"

definition attr_char :: "(nat \<Rightarrow> char) \<Rightarrow> int \<Rightarrow> attr_st \<Rightarrow> char \<Rightarrow> attr_step option" where
  "attr_char garbage style a c =
     (if iStatus a = 0 then Some (attr_begin a c)
      else if iStatus a = 1 then Some (attr_name a c)
      else if iStatus a = 2 then Some (attr_equals a c)
      else if iStatus a = 3 then Some (attr_quote a c)
      else if iStatus a = 4 then attr_value garbage style a c
      else attr_entity garbage a c)"

text \<open>The loop; a line terminator is counted in every state but inside an entity.\<close>

function attr_loop ::
  "(nat \<Rightarrow> char) \<Rightarrow> int \<Rightarrow> attr_st \<Rightarrow> refil \<times> xdoc \<Rightarrow> (attr_step \<times> refil \<times> xdoc) option"
where
  "attr_loop garbage style a (r, d) =
     (if iStatus a \<ge> 6 then Some (Next a, r, d)
      else (case mxml_refil_getc r of
              (None, r1) \<Rightarrow> Some (Next a, r1, d)
            | (Some c, r1) \<Rightarrow>
                (let d1 = (if iStatus a < 5 then count_line c d else d)
                 in case attr_char garbage style a c of
                      None \<Rightarrow> None
                    | Some (Next b) \<Rightarrow> attr_loop garbage style b (r1, d1)
                    | Some x \<Rightarrow> Some (x, r1, d1))))"
  by pat_completeness auto
termination
  by (relation "measure (\<lambda>(_, _, _, r, _). rsize r)") (auto dest: getc_size [OF sym])

declare attr_loop.simps [simp del]

text \<open>The status and, if it is \<open>MXML_STATUS_OK\<close>, the name and the value.\<close>

definition mxml_attribute_read ::
  "(nat \<Rightarrow> char) \<Rightarrow> nat \<Rightarrow> int \<Rightarrow> refil \<times> xdoc \<Rightarrow> (int \<times> (bytes \<times> bytes) option \<times> refil \<times> xdoc) option"
where
  "mxml_attribute_read garbage p style x = do {
     (e, r, d) \<leftarrow> attr_loop garbage style
       \<lparr>iStatus = 0, quotechr = DQUOTE, buf_name = [], buf_attrib = mxml_sgs_new garbage, iPosAmper = 0\<rparr> x;
     (case e of
        NoAttribute \<Rightarrow> Some (MXML_STATUS_DONE, None, r, d)
      | Bad err \<Rightarrow> Some (MXML_STATUS_MALFORMED, None, hbxml_set_doc_status p MXML_STATUS_MALFORMED err (r, d))
      | Next a \<Rightarrow>
          (if r_status r \<noteq> MXML_STATUS_OK then Some (r_status r, None, r, d)
           else if iStatus a < 6 then
             Some (MXML_STATUS_MALFORMED, None,
                   hbxml_set_doc_status p MXML_STATUS_MALFORMED MXML_ERROR_MALFATT (r, d))
           else do {
             v \<leftarrow> mxml_sgs_extract (buf_attrib a);
             Some (MXML_STATUS_OK, Some (buf_name a, v), r, d)
           }))
   }"

text \<open>\<open>hb_hashAdd\<close> on a hash that keeps the order in which keys were added.\<close>

fun hash_put :: "item \<Rightarrow> item \<Rightarrow> (item \<times> item) list \<Rightarrow> (item \<times> item) list" where
  "hash_put k v [] = [(k, v)]"
| "hash_put k v ((k', v') # kvs) = (if k = k' then (k, v) # kvs else (k', v') # hash_put k v kvs)"

partial_function (option) attributes_loop ::
  "(nat \<Rightarrow> char) \<Rightarrow> nat \<Rightarrow> int \<Rightarrow> (item \<times> item) list \<Rightarrow> refil \<times> xdoc \<Rightarrow> ((item \<times> item) list \<times> refil \<times> xdoc) option"
where
  "attributes_loop garbage p style kvs x = do {
     (st, nv, x1) \<leftarrow> mxml_attribute_read garbage p style x;
     (case nv of
        Some (n, v) \<Rightarrow> attributes_loop garbage p style (hash_put (Str n) (Str v) kvs) x1
      | None \<Rightarrow> Some (kvs, x1))
   }"

definition mxml_node_read_attributes :: "(nat \<Rightarrow> char) \<Rightarrow> nat \<Rightarrow> int \<Rightarrow> refil \<times> xdoc \<Rightarrow> (int \<times> refil \<times> xdoc) option" where
  "mxml_node_read_attributes garbage p style x = do {
     (kvs, r, d) \<leftarrow> attributes_loop garbage p style [] x;
     Some (r_status r, r, upd p (\<lambda>n. n\<lparr>aAttributes := Hash kvs\<rparr>) d)
   }"

section \<open>Names\<close>

text \<open>\<open>None\<close> for a byte that cannot be in a name.\<close>

function name_loop :: "bool \<Rightarrow> bytes \<Rightarrow> refil \<Rightarrow> bytes option \<times> refil" where
  "name_loop started buf r =
     (case mxml_refil_getc r of
        (None, r1) \<Rightarrow> (Some buf, r1)
      | (Some c, r1) \<Rightarrow>
          (if is_alpha c \<or> c = CHR ''_'' \<or>
              started \<and> (is_alnum c \<or> c = CHR ''-'' \<or> c = CHR ''.'' \<or> c = CHR '':'')
           then name_loop True (buf @ [c]) r1
           else if started \<and> (c = CHR ''>'' \<or> c = CHR ''/'' \<or> xml_space c)
           then (Some buf, mxml_refil_ungetc c r1)
           else (None, r1)))"
  by pat_completeness auto
termination
  by (relation "measure (\<lambda>(_, _, r). rsize r)") (auto dest: getc_size [OF sym])

declare name_loop.simps [simp del]

definition mxml_node_read_name :: "nat \<Rightarrow> refil \<times> xdoc \<Rightarrow> int \<times> refil \<times> xdoc" where
  "mxml_node_read_name p x =
     (case name_loop False [] (fst x) of
        (None, r) \<Rightarrow> (MXML_STATUS_MALFORMED, hbxml_set_doc_status p MXML_STATUS_MALFORMED MXML_ERROR_INVNODE (r, snd x))
      | (Some s, r) \<Rightarrow>
          (if r_status r \<noteq> MXML_STATUS_OK
           then (r_status r, hbxml_set_doc_status p (r_status r) (r_error r) (r, snd x))
           else (MXML_STATUS_OK, r, upd p (\<lambda>n. n\<lparr>cName := Str s\<rparr>) (snd x))))"

section \<open>Kinds of nodes\<close>

text \<open>Data up to the next tag. \<open>amper\<close> is the position of the ampersand of an open entity.\<close>

datatype data_end = Data bytes | Data_error int

function data_loop :: "int \<Rightarrow> nat option \<Rightarrow> bytes \<Rightarrow> refil \<times> xdoc \<Rightarrow> data_end \<times> refil \<times> xdoc" where
  "data_loop style amper buf (r, d) =
     (case mxml_refil_getc r of
        (None, r1) \<Rightarrow> (if amper = None then Data buf else Data_error MXML_ERROR_UNCLOSEDENTITY, r1, d)
      | (Some c, r1) \<Rightarrow>
          (if c = CHR ''<''
           then (if amper = None then Data buf else Data_error MXML_ERROR_UNCLOSEDENTITY, mxml_refil_ungetc c r1, d)
           else if c = CHR ''&'' \<and> \<not> STYLE_NOESCAPE style then
             (if amper = None then data_loop style (Some (length buf)) (buf @ [c]) (r1, d)
              else (Data_error MXML_ERROR_UNCLOSEDENTITY, r1, d))
           else if c = CHR '';'' \<and> amper \<noteq> None then
             (let t = drop (Suc (the amper)) buf
              in if length t \<le> 1 then (Data_error MXML_ERROR_WRONGENTITY, r1, d)
                 else (case entity t of
                         Some e \<Rightarrow> data_loop style None (take (the amper) buf @ [e]) (r1, d)
                       | None \<Rightarrow> data_loop style None (buf @ [c]) (r1, d)))
           else data_loop style amper (buf @ [c]) (r1, count_line c d)))"
  by pat_completeness auto
termination
  by (relation "measure (\<lambda>(_, _, _, r, _). rsize r)") (auto dest: getc_size [OF sym])

declare data_loop.simps [simp del]

text \<open>\<open>while (iPos > 1 && HB_ISSPACE(..)) iPos--\<close>, on the bytes backwards.\<close>

fun trim_rev :: "bytes \<Rightarrow> bytes" where
  "trim_rev (c # d # cs) = (if is_space c then trim_rev (d # cs) else c # d # cs)"
| "trim_rev cs = cs"

definition mxml_node_read_data :: "nat \<Rightarrow> int \<Rightarrow> refil \<times> xdoc \<Rightarrow> refil \<times> xdoc" where
  "mxml_node_read_data p style x =
     (case data_loop style None [] x of
        (Data_error err, y) \<Rightarrow> hbxml_set_doc_status p MXML_STATUS_MALFORMED err y
      | (Data s, r, d) \<Rightarrow>
          (if r_status r \<noteq> MXML_STATUS_OK then hbxml_set_doc_status p (r_status r) (r_error r) (r, d)
           else (r, upd p (\<lambda>n. n\<lparr>nType := MXML_TYPE_DATA, cData := Str (rev (trim_rev (rev s)))\<rparr>) d)))"

text \<open>The end that most readers share: the data and the type of the node, or the error of the input.\<close>

definition finish_data :: "nat \<Rightarrow> int option \<Rightarrow> bytes \<Rightarrow> refil \<times> xdoc \<Rightarrow> refil \<times> xdoc" where
  "finish_data p ty s x =
     (if r_status (fst x) = MXML_STATUS_OK
      then (fst x, upd p (\<lambda>n. n\<lparr>nType := (case ty of Some t \<Rightarrow> t | None \<Rightarrow> nType n), cData := Str s\<rparr>) (snd x))
      else hbxml_set_doc_status p (r_status (fst x)) (r_error (fst x)) x)"

function directive_loop :: "bytes \<Rightarrow> refil \<times> xdoc \<Rightarrow> bytes \<times> refil \<times> xdoc" where
  "directive_loop buf (r, d) =
     (case mxml_refil_getc r of
        (None, r1) \<Rightarrow> (buf, r1, d)
      | (Some c, r1) \<Rightarrow>
          (if c = CHR ''>'' then (buf, r1, d)
           else directive_loop (if buf \<noteq> [] \<or> \<not> xml_space c then buf @ [c] else buf) (r1, count_line c d)))"
  by pat_completeness auto
termination
  by (relation "measure (\<lambda>(_, r, _). rsize r)") (auto dest: getc_size [OF sym])

declare directive_loop.simps [simp del]

definition mxml_node_read_directive :: "nat \<Rightarrow> refil \<times> xdoc \<Rightarrow> refil \<times> xdoc" where
  "mxml_node_read_directive p x =
     (let (st, y) = mxml_node_read_name p x
      in if st = MXML_STATUS_OK
         then (let (s, z) = directive_loop [] y in finish_data p (Some MXML_TYPE_DIRECTIVE) s z)
         else y)"

function pi_loop :: "bool \<Rightarrow> bytes \<Rightarrow> refil \<times> xdoc \<Rightarrow> bytes \<times> refil \<times> xdoc" where
  "pi_loop mark buf (r, d) =
     (case mxml_refil_getc r of
        (None, r1) \<Rightarrow> (buf, r1, d)
      | (Some c, r1) \<Rightarrow>
          (if mark then
             (if c = CHR ''>'' then (buf, r1, d)
              else pi_loop False (buf @ [CHR ''?'']) (mxml_refil_ungetc c r1, d))
           else if c = LF then pi_loop False (buf @ [c]) (r1, hbxml_doc_new_line d)
           else if c = CHR ''?'' then pi_loop True buf (r1, d)
           else pi_loop False (if buf \<noteq> [] \<or> c \<noteq> SPACE then buf @ [c] else buf) (r1, d)))"
  by pat_completeness auto
termination
  by (relation "measure (\<lambda>(m, _, r, _). 2 * rsize r + of_bool m)")
    (auto dest: getc_size [OF sym] get_unget_size [OF sym])

declare pi_loop.simps [simp del]

definition mxml_node_read_pi :: "nat \<Rightarrow> refil \<times> xdoc \<Rightarrow> refil \<times> xdoc" where
  "mxml_node_read_pi p x =
     (let (st, y) = mxml_node_read_name p x
      in if st = MXML_STATUS_OK
         then (let (s, z) = pi_loop False [] y in finish_data p (Some MXML_TYPE_PI) s z)
         else y)"

text \<open>The data of a comment and of a CDATA node, up to twice \<open>m\<close> and a greater sign; \<open>k\<close> marks have been seen.\<close>

function marked_loop :: "char \<Rightarrow> nat \<Rightarrow> bytes \<Rightarrow> refil \<times> xdoc \<Rightarrow> bytes \<times> refil \<times> xdoc" where
  "marked_loop m k buf (r, d) =
     (case mxml_refil_getc r of
        (None, r1) \<Rightarrow> (buf, r1, d)
      | (Some c, r1) \<Rightarrow>
          (if k = 0 then
             (if c = LF then marked_loop m 0 (buf @ [c]) (r1, hbxml_doc_new_line d)
              else if c = m then marked_loop m 1 buf (r1, d)
              else marked_loop m 0 (buf @ [c]) (r1, d))
           else if k = 1 then
             (if c = m then marked_loop m 2 buf (r1, d)
              else marked_loop m 0 (buf @ [m]) (mxml_refil_ungetc c r1, d))
           else
             (if c = CHR ''>'' then (buf, r1, d)
              else marked_loop m 0 (buf @ [m]) (mxml_refil_ungetc c r1, d))))"
  by pat_completeness auto
termination
  by (relation "measure (\<lambda>(_, k, _, r, _). 2 * rsize r + k)")
    (auto dest: getc_size [OF sym] get_unget_size [OF sym])

declare marked_loop.simps [simp del]

definition mxml_node_read_comment :: "nat \<Rightarrow> refil \<times> xdoc \<Rightarrow> refil \<times> xdoc" where
  "mxml_node_read_comment p x =
     (let (s, z) = marked_loop (CHR ''-'') 0 [] (fst x, upd p (\<lambda>n. n\<lparr>nType := MXML_TYPE_COMMENT\<rparr>) (snd x))
      in finish_data p None s z)"

text \<open>The bytes \<open>es\<close> are still to come; a wrong one ends the reading, the end of the input does not.\<close>

fun cdata_header :: "bytes \<Rightarrow> refil \<times> xdoc \<Rightarrow> bool \<times> refil \<times> xdoc" where
  "cdata_header [] x = (True, x)"
| "cdata_header (e # es) x =
     (case mxml_refil_getc (fst x) of
        (None, r1) \<Rightarrow> (True, r1, snd x)
      | (Some c, r1) \<Rightarrow>
          (if c = e then cdata_header es (r1, snd x) else (False, r1, count_line c (snd x))))"

definition mxml_node_read_cdata :: "nat \<Rightarrow> refil \<times> xdoc \<Rightarrow> refil \<times> xdoc" where
  "mxml_node_read_cdata p x =
     (let (ok, y) = cdata_header ''CDATA['' (fst x, upd p (\<lambda>n. n\<lparr>nType := MXML_TYPE_CDATA\<rparr>) (snd x))
      in if ok then (let (s, z) = marked_loop (CHR '']'') 0 [] y in finish_data p None s z)
         else hbxml_set_doc_status p MXML_STATUS_MALFORMED MXML_ERROR_INVNODE y)"

text \<open>The name of a closing tag into a buffer of one byte more than the name of the node; the comparison
  reads the whole length of that name.\<close>

function closing_loop :: "nat \<Rightarrow> bytes \<Rightarrow> refil \<Rightarrow> bytes \<times> char option \<times> refil" where
  "closing_loop n buf r =
     (case mxml_refil_getc r of
        (None, r1) \<Rightarrow> (buf, None, r1)
      | (Some c, r1) \<Rightarrow>
          (if c \<noteq> CHR ''>'' \<and> c \<noteq> SPACE \<and> length buf < n then closing_loop n (buf @ [c]) r1
           else (buf, Some c, r1)))"
  by pat_completeness auto
termination
  by (relation "measure (\<lambda>(_, _, r). rsize r)") (auto dest: getc_size [OF sym])

declare closing_loop.simps [simp del]

definition mxml_node_read_closing :: "(nat \<Rightarrow> char) \<Rightarrow> nat \<Rightarrow> refil \<times> xdoc \<Rightarrow> refil \<times> xdoc" where
  "mxml_node_read_closing garbage p x =
     (let name = hb_itemGetC (cName (nd (snd x) p));
          n = length name + 1;
          (buf, c, r) = closing_loop n [] (fst x)
      in if r_status r \<noteq> MXML_STATUS_OK
         then hbxml_set_doc_status p (r_status r) (r_error r) (r, snd x)
         else if (c \<noteq> Some (CHR ''>'') \<and> c \<noteq> Some SPACE) \<or> length buf = n \<or>
                 \<not> strncmp_eq (n - 1) name (buf @ map garbage [length buf ..< n])
         then hbxml_set_doc_status p MXML_STATUS_MALFORMED MXML_ERROR_UNCLOSED (r, snd x)
         else (r, snd x))"

section \<open>Trees\<close>

text \<open>The only child with data, if the children from \<open>c\<close> on have one and no second.\<close>

partial_function (option) data_scan :: "nat option \<Rightarrow> nat option \<Rightarrow> xdoc \<Rightarrow> nat option option" where
  "data_scan found child d =
     (case child of
        None \<Rightarrow> Some found
      | Some c \<Rightarrow>
          (if nType (nd d c) = MXML_TYPE_DATA
           then (if found = None then data_scan (Some c) (oNext (nd d c)) d else Some None)
           else data_scan found (oNext (nd d c)) d))"

text \<open>The end of a tag: its closing tag is checked, and a single data node becomes its data.\<close>

definition close_node :: "(nat \<Rightarrow> char) \<Rightarrow> nat \<Rightarrow> refil \<times> xdoc \<Rightarrow> (int \<times> refil \<times> xdoc) option" where
  "close_node garbage p x =
     (let (r, d) = mxml_node_read_closing garbage p x
      in if r_status r \<noteq> MXML_STATUS_OK then Some (r_status r, r, d)
         else do {
           found \<leftarrow> data_scan None (oChild (nd d p)) d;
           Some (MXML_STATUS_OK, r,
                 case found of
                   None \<Rightarrow> d
                 | Some q \<Rightarrow>
                     hbxml_doc_new_node (- 1)
                       (mxml_node_unlink q (upd p (\<lambda>n. n\<lparr>cData := cData (nd d q)\<rparr>) d)))
         })"

text \<open>A tag up to its contents: whether they have to be read. The byte after the attributes is pushed back
  as a \<open>char\<close>, the end of the input as NUL.\<close>

definition read_tag_head :: "(nat \<Rightarrow> char) \<Rightarrow> nat \<Rightarrow> int \<Rightarrow> refil \<times> xdoc \<Rightarrow> (bool \<times> refil \<times> xdoc) option" where
  "read_tag_head garbage p style x = do {
     let (st, r, d) = mxml_node_read_name p (fst x, upd p (\<lambda>n. n\<lparr>nType := MXML_TYPE_TAG\<rparr>) (snd x));
     (st2, r, d) \<leftarrow> (if st = MXML_STATUS_OK then mxml_node_read_attributes garbage p style (r, d)
                    else Some (MXML_STATUS_OK, r, d));
     if st2 \<noteq> MXML_STATUS_OK then Some (False, r, d)
     else
       (let (c, r) = mxml_refil_getc r; chr = (case c of Some c \<Rightarrow> c | None \<Rightarrow> NUL)
        in if r_status r = MXML_STATUS_OK \<and> chr \<noteq> CHR ''>'' then Some (True, mxml_refil_ungetc chr r, d)
           else if r_status r \<noteq> MXML_STATUS_OK
           then Some (False, hbxml_set_doc_status p (r_status r) (r_error r) (r, d))
           else Some (False, r, d))
   }"

text \<open>What the first bytes of a node tell, by the state of the machine.\<close>

datatype node_step = Go nat | Close | Wrong | New node_kind
  and node_kind = K_data | K_pi | K_tag | K_directive | K_cdata | K_comment

definition node_char :: "nat \<Rightarrow> char \<Rightarrow> node_step" where
  "node_char st c =
     (if st = 0 then
        (if xml_space c then Go 0 else if c = CHR ''<'' then Go 1 else New K_data)
      else if st = 1 then
        (if c = CHR ''/'' then Close
         else if c = CHR ''!'' then Go 2
         else if c = CHR ''?'' then New K_pi
         else if is_alpha c then New K_tag
         else Wrong)
      else if st = 2 then
        (if c = CHR ''-'' then Go 3
         else if is_alpha c then New K_directive
         else if c = CHR ''['' then New K_cdata
         else Wrong)
      else (if c = CHR ''-'' then New K_comment else Wrong))"

text \<open>Kinds that begin with the byte that was read.\<close>

definition pushes_back :: "node_kind \<Rightarrow> bool" where
  "pushes_back k \<longleftrightarrow> k \<in> {K_data, K_tag, K_directive}"

text \<open>The node \<open>q\<close> is read; for a tag the flag tells whether its contents follow.\<close>

definition read_kind ::
  "(nat \<Rightarrow> char) \<Rightarrow> int \<Rightarrow> node_kind \<Rightarrow> nat \<Rightarrow> refil \<times> xdoc \<Rightarrow> (bool \<times> refil \<times> xdoc) option"
where
  "read_kind garbage style k q x =
     (case k of
        K_data \<Rightarrow> Some (False, mxml_node_read_data q style x)
      | K_pi \<Rightarrow> Some (False, mxml_node_read_pi q x)
      | K_tag \<Rightarrow> read_tag_head garbage q style x
      | K_directive \<Rightarrow> Some (False, mxml_node_read_directive q x)
      | K_cdata \<Rightarrow> Some (False, mxml_node_read_cdata q x)
      | K_comment \<Rightarrow> Some (False, mxml_node_read_comment q x))"

text \<open>\<open>mxml_node_read\<close> from state \<open>st\<close> on, with the recursion of \<open>mxml_node_read_tag\<close>.\<close>

partial_function (option) node_loop ::
  "(nat \<Rightarrow> char) \<Rightarrow> int \<Rightarrow> nat \<Rightarrow> nat \<Rightarrow> refil \<times> xdoc \<Rightarrow> (int \<times> refil \<times> xdoc) option"
where
  "node_loop garbage style p st x =
     (case mxml_refil_getc (fst x) of
        (None, r) \<Rightarrow> Some (MXML_STATUS_OK, r, snd x)
      | (Some c, r) \<Rightarrow>
          (if r_status r \<noteq> MXML_STATUS_OK
           then Some (MXML_STATUS_MALFORMED, hbxml_set_doc_status p MXML_STATUS_MALFORMED MXML_ERROR_INVNODE (r, snd x))
           else (case node_char st c of
              Go st' \<Rightarrow> node_loop garbage style p st' (r, if st = 0 then count_line c (snd x) else snd x)
            | Close \<Rightarrow> close_node garbage p (r, snd x)
            | Wrong \<Rightarrow> Some (MXML_STATUS_MALFORMED,
                            hbxml_set_doc_status p MXML_STATUS_MALFORMED MXML_ERROR_INVNODE (r, snd x))
            | New k \<Rightarrow> do {
                let (q, d) = mxml_node_new True (snd x);
                (deep, y) \<leftarrow> read_kind garbage style k q (if pushes_back k then mxml_refil_ungetc c r else r, d);
                y \<leftarrow> (if deep then do { (s, y) \<leftarrow> node_loop garbage style q 0 y; Some y } else Some y);
                if r_status (fst y) = MXML_STATUS_OK then do {
                  d \<leftarrow> mxml_node_add_below p q (snd y);
                  node_loop garbage style p 0 (fst y, hbxml_doc_new_node 1 d)
                }
                else Some (r_status (fst y), y)
              })))"

definition mxml_node_read :: "(nat \<Rightarrow> char) \<Rightarrow> int \<Rightarrow> nat \<Rightarrow> refil \<times> xdoc \<Rightarrow> (int \<times> refil \<times> xdoc) option" where
  "mxml_node_read garbage style p x = node_loop garbage style p 0 x"

text \<open>Reading into the root at \<open>p\<close> from a text, or from the answers of a handle.\<close>

definition SR_XML_DATAREAD ::
  "(nat \<Rightarrow> char) \<Rightarrow> bytes option list \<Rightarrow> nat \<Rightarrow> item \<Rightarrow> int \<Rightarrow> xdoc \<Rightarrow> (int \<times> refil \<times> xdoc) option hbret"
where
  "SR_XML_DATAREAD garbage ans p v style d =
     (if HB_IS_STRING v then Returns (mxml_node_read garbage style p (mxml_refil_setup False [] (hb_itemGetC v), d))
      else if HB_IS_NUMERIC v then Returns (mxml_node_read garbage style p (mxml_refil_setup True ans [], d))
      else ArgError)"

declare attributes_loop.simps [code] data_scan.simps [code] node_loop.simps [code]

section \<open>Descriptions of errors\<close>

definition edesc :: "string list" where
  "edesc = [''Input/output error'', ''Not enough memory'', ''Character outside tags'',
     ''Invalid character as tag name'', ''Invalid character as attribute name'',
     ''Malformed attribute definition'', ''Invalid character'', ''Name of tag too long'',
     ''Name of attribute too long'', ''Value of attribute too long'', ''Unbalanced tag closeure'',
     ''Unbalanced entity opening'', ''Escape/entity '' @ [QUOTE] @ ''&;'' @ [QUOTE] @ '' found'']"

text \<open>Inside, \<open>None\<close> is the null pointer; the description past the last one is not there.\<close>

definition mxml_error_desc :: "int \<Rightarrow> string option option" where
  "mxml_error_desc code =
     (let i = code - 1
      in if i < 0 \<or> i > int (length edesc) then Some None
         else if nat i < length edesc then Some (Some (edesc ! nat i)) else None)"

end
