(* ===== verification/XmlNodeProps.thy ===== *)
theory XmlNodeProps
  imports XmlNode
begin

text \<open>
  What the node operations promise: the children of a node are a doubly linked list, which adding,
  unlinking and inserting before keep; which links the other insertions and the cloning leave wrong.
\<close>

section \<open>Lists of siblings\<close>

text \<open>The nodes \<open>xs\<close> are linked in both directions below \<open>par\<close>, from the reference \<open>start\<close> to the
  reference \<open>stop\<close> of the last one.\<close>

fun seg :: "xdoc \<Rightarrow> nat \<Rightarrow> nat option \<Rightarrow> nat option \<Rightarrow> nat option \<Rightarrow> nat list \<Rightarrow> bool" where
  "seg d par prev start stop [] \<longleftrightarrow> start = stop"
| "seg d par prev start stop (x # xs) \<longleftrightarrow>
     start = Some x \<and> oPrev (nd d x) = prev \<and> oParent (nd d x) = Some par \<and>
     seg d par (Some x) (oNext (nd d x)) stop xs"

definition kids :: "xdoc \<Rightarrow> nat \<Rightarrow> nat list \<Rightarrow> bool" where
  "kids d par xs \<longleftrightarrow> seg d par None (oChild (nd d par)) None xs \<and> distinct xs \<and> par \<notin> set xs"

definition last_of :: "nat option \<Rightarrow> nat list \<Rightarrow> nat option" where
  "last_of prev xs = (if xs = [] then prev else Some (last xs))"

lemma last_of_simps [simp]: "last_of prev [] = prev" "last_of prev (x # xs) = last_of (Some x) xs"
  by (simp_all add: last_of_def)

lemma last_of_snoc [simp]: "last_of prev (xs @ [x]) = Some x"
  by (simp add: last_of_def)

lemma last_of_None: "last_of None xs = None \<longleftrightarrow> xs = []"
  by (simp add: last_of_def)

lemma seg_append:
  "seg d par prev start stop (xs @ ys) \<longleftrightarrow>
     (\<exists>mid. seg d par prev start mid xs \<and> seg d par (last_of prev xs) mid stop ys)"
  by (induction xs arbitrary: prev start) auto

lemma seg_upd_other [simp]:
  "p \<notin> set xs \<Longrightarrow> seg (upd p f d) par prev start stop xs = seg d par prev start stop xs"
  by (induction xs arbitrary: prev start) (auto simp: nd_upd)

text \<open>A segment that begins with \<open>None\<close> or ends at \<open>None\<close>.\<close>

lemma seg_start_None: "seg d par prev None stop xs \<longleftrightarrow> xs = [] \<and> stop = None"
  by (cases xs) auto

lemma seg_snoc:
  "seg d par prev start stop (xs @ [x]) \<longleftrightarrow>
     seg d par prev start (Some x) xs \<and> oPrev (nd d x) = last_of prev xs \<and> oParent (nd d x) = Some par \<and>
     oNext (nd d x) = stop"
  by (auto simp: seg_append)

lemma last_sibling_seg:
  "seg d par prev (Some c) None (xs @ [x]) \<Longrightarrow> last_sibling c d = Some x"
proof (induction xs arbitrary: prev c)
  case Nil
  then show ?case by (subst last_sibling.simps) auto
next
  case (Cons y xs)
  then have c: "c = y" and s: "seg d par (Some y) (oNext (nd d y)) None (xs @ [x])" by auto
  from s obtain z where z: "oNext (nd d y) = Some z" by (cases "oNext (nd d y)") (auto simp: seg_start_None)
  from Cons.IH [OF s [unfolded z]] show ?case by (subst last_sibling.simps) (simp add: c z)
qed

section \<open>Adding and unlinking\<close>

text \<open>a node without siblings that is added below another becomes its last child; nothing else changes
  but the links.\<close>

theorem add_below_appends:
  assumes k: "kids d tg xs" and p: "p \<notin> set xs" "p \<noteq> tg" "oNext (nd d p) = None" "oPrev (nd d p) = None"
  shows "\<exists>b. mxml_node_add_below tg p d = Some b \<and> kids b tg (xs @ [p])"
proof (cases xs rule: rev_cases)
  case Nil
  then show ?thesis using assms by (auto simp: mxml_node_add_below_def kids_def nd_upd Let_def)
next
  case (snoc ys l)
  let ?d = "upd p (\<lambda>n. n\<lparr>oParent := Some tg\<rparr>) d"
  have tg: "tg \<notin> set xs" and dist: "distinct xs" using k by (simp_all add: kids_def)
  have s: "seg d tg None (oChild (nd d tg)) None (ys @ [l])" using k snoc by (simp add: kids_def)
  then obtain c where c: "oChild (nd d tg) = Some c" by (cases ys) auto
  have "seg ?d tg None (Some c) None (ys @ [l])" using s c p(1) snoc by (simp del: last_of_snoc)
  from last_sibling_seg [OF this] have l: "last_sibling c ?d = Some l" .
  then show ?thesis
    using s c p tg dist snoc
    by (auto simp: mxml_node_add_below_def kids_def nd_upd seg_append Let_def)
qed

text \<open>unlinking takes a child out of the list of its siblings, whose order stays.\<close>

theorem unlink_removes:
  assumes k: "kids d tg (xs @ p # ys)"
  shows "kids (mxml_node_unlink p d) tg (xs @ ys) \<and> oParent (nd (mxml_node_unlink p d) p) = None"
proof -
  obtain mid where s: "seg d tg None (oChild (nd d tg)) (Some p) xs" "oPrev (nd d p) = last_of None xs"
    "oParent (nd d p) = Some tg" "seg d tg (Some p) (oNext (nd d p)) None ys"
    using k by (auto simp: kids_def seg_append)
  have dist: "distinct (xs @ p # ys)" "tg \<notin> set (xs @ p # ys)" using k by (auto simp: kids_def)
  show ?thesis
    using s dist
    by (cases xs rule: rev_cases; cases ys)
      (auto simp: mxml_node_unlink_def kids_def nd_upd seg_append Let_def)
qed

text \<open>inserting before a child puts the node there, between the child and the one before it.\<close>

theorem insert_before_inserts:
  assumes k: "kids d tg (xs @ c # ys)" and p: "p \<notin> set (xs @ c # ys)" "p \<noteq> tg"
  shows "kids (mxml_node_insert_before c p d) tg (xs @ p # c # ys)"
proof -
  obtain mid where s: "seg d tg None (oChild (nd d tg)) (Some c) xs" "oPrev (nd d c) = last_of None xs"
    "oParent (nd d c) = Some tg" "seg d tg (Some c) (oNext (nd d c)) None ys"
    using k by (auto simp: kids_def seg_append)
  have dist: "distinct (xs @ c # ys)" "tg \<notin> set (xs @ c # ys)" using k by (auto simp: kids_def)
  have "oChild (nd d tg) \<noteq> Some c" if "xs \<noteq> []"
    using s(1) dist(1) that by (cases xs) auto
  then show ?thesis
    using s dist p
    by (cases xs rule: rev_cases)
      (auto simp: mxml_node_insert_before_def kids_def nd_upd seg_append Let_def)
qed

section \<open>Links that are left wrong\<close>

text \<open>Only the references forward; the children one can reach from a node.\<close>

fun forward :: "xdoc \<Rightarrow> nat option \<Rightarrow> nat option \<Rightarrow> nat list \<Rightarrow> bool" where
  "forward d start stop [] \<longleftrightarrow> start = stop"
| "forward d start stop (x # xs) \<longleftrightarrow> start = Some x \<and> forward d (oNext (nd d x)) stop xs"

lemma forward_upd_other [simp]: "p \<notin> set xs \<Longrightarrow> forward (upd p f d) start stop xs = forward d start stop xs"
  by (induction xs arbitrary: start) (auto simp: nd_upd)

lemma forward_append:
  "forward d start stop (xs @ ys) \<longleftrightarrow> (\<exists>mid. forward d start mid xs \<and> forward d mid stop ys)"
  by (induction xs arbitrary: start) auto

lemma seg_forward: "seg d par prev start stop xs \<Longrightarrow> forward d start stop xs"
  by (induction xs arbitrary: prev start) auto

text \<open>inserting after a child puts the node behind it, but the child that followed still refers back
  to the one it followed before: unlinking it drops the inserted node from the list.\<close>

theorem insert_after_one_way:
  assumes k: "kids d tg (xs @ c # e # ys)" and p: "p \<notin> set (xs @ c # e # ys)" "p \<noteq> tg"
  shows "let b = mxml_node_insert_after c p d; b' = mxml_node_unlink e b in
    forward b (oChild (nd b tg)) None (xs @ c # p # e # ys) \<and> oPrev (nd b e) = Some c \<and>
    forward b' (oChild (nd b' tg)) None (xs @ c # ys)"
proof -
  have s: "seg d tg None (oChild (nd d tg)) (Some c) xs" "oNext (nd d c) = Some e" "oPrev (nd d e) = Some c"
    "oParent (nd d c) = Some tg" "oParent (nd d e) = Some tg" "seg d tg (Some e) (oNext (nd d e)) None ys"
    using k by (auto simp: kids_def seg_append)
  have dist: "distinct (xs @ c # e # ys)" "tg \<notin> set (xs @ c # e # ys)" using k by (auto simp: kids_def)
  have f: "forward d (oChild (nd d tg)) (Some c) xs" "forward d (oNext (nd d e)) None ys"
    using s seg_forward by blast+
  show ?thesis
    using s(2-5) f dist p
    by (cases ys)
      (auto simp: mxml_node_insert_after_def mxml_node_unlink_def nd_upd forward_append Let_def)
qed

lemma move_children_seg:
  "seg d par prev start None xs \<Longrightarrow> distinct xs \<Longrightarrow> p \<notin> set xs \<Longrightarrow>
   \<exists>b. move_children p start d = Some b \<and> seg b p prev start None xs \<and>
     (\<forall>q. q \<notin> set xs \<longrightarrow> nd b q = nd d q)"
proof (induction xs arbitrary: d prev start)
  case Nil
  then show ?case by (simp add: move_children.simps [of p None])
next
  case (Cons x xs)
  let ?d = "upd x (\<lambda>n. n\<lparr>oParent := Some p\<rparr>) d"
  have "seg ?d par (Some x) (oNext (nd d x)) None xs" using Cons.prems by simp
  from Cons.IH [OF this] Cons.prems obtain b where b: "move_children p (oNext (nd d x)) ?d = Some b"
    "seg b p (Some x) (oNext (nd d x)) None xs" "\<forall>q. q \<notin> set xs \<longrightarrow> nd b q = nd ?d q" by auto
  have "move_children p start d = Some b"
    using Cons.prems(1) b(1) by (subst move_children.simps) (simp add: nd_upd Let_def)
  moreover have "nd b x = nd ?d x" using b(3) Cons.prems(2) by simp
  ultimately show ?case using b(2,3) Cons.prems by (auto simp: nd_upd)
qed

text \<open>a node inserted below another takes over its children, which now refer to it, but it does not
  become a child itself: the other node still refers to its old first child.\<close>

theorem insert_below_loses_node:
  assumes k: "kids d tg xs" and p: "p \<notin> set xs" "p \<noteq> tg"
  shows "\<exists>b. mxml_node_insert_below tg p d = Some b \<and> kids b p xs \<and> oParent (nd b p) = Some tg \<and>
    oChild (nd b tg) = oChild (nd d tg)"
proof -
  let ?d = "upd p (\<lambda>n. n\<lparr>oParent := Some tg\<rparr>) (upd p (\<lambda>n. n\<lparr>oChild := oChild (nd d tg)\<rparr>) d)"
  have "seg ?d tg None (oChild (nd d tg)) None xs" using k p by (simp add: kids_def)
  from move_children_seg [OF this _ p(1)] k obtain b where b: "move_children p (oChild (nd d tg)) ?d = Some b"
    "seg b p None (oChild (nd d tg)) None xs" "\<forall>q. q \<notin> set xs \<longrightarrow> nd b q = nd ?d q"
    by (auto simp: kids_def)
  then show ?thesis using k p by (auto simp: mxml_node_insert_below_def kids_def nd_upd Let_def)
qed

section \<open>Clones\<close>

text \<open>a clone of a node with two children without children of their own refers to the clone of the
  second only, and the clones of the children do not know each other.\<close>

theorem clone_keeps_last_child:
  assumes k: "kids d tg [x, y]" and leaf: "oChild (nd d x) = None" "oChild (nd d y) = None"
    and fresh: "tg < next_node d" "x < next_node d" "y < next_node d"
  shows "\<exists>p b s. mxml_node_clone_tree f tg d = Some (p, b) \<and> oChild (nd b p) = Some s \<and>
    cName (nd b s) = cName (nd d y) \<and> oPrev (nd b s) = None \<and> oNext (nd b s) = None"
proof -
  have l: "oChild (nd d tg) = Some x" "oNext (nd d x) = Some y" "oNext (nd d y) = None" "x \<noteq> y" "tg \<noteq> x" "tg \<noteq> y"
    using k by (auto simp: kids_def)
  have "\<exists>b s. clone_children f p (Some x) d1 = Some b \<and> oChild (nd b p) = Some s \<and> cName (nd b s) = cName (nd d1 y) \<and>
      oPrev (nd b s) = None \<and> oNext (nd b s) = None"
    if "oNext (nd d1 x) = Some y" "oNext (nd d1 y) = None" "oChild (nd d1 x) = None" "oChild (nd d1 y) = None"
      "x < p" "y < p" "next_node d1 = Suc p" for d1 p
    using that l(4)
    by (subst clone_children.simps, subst clone_children.simps, subst clone_children.simps, subst clone_children.simps,
      subst clone_children.simps)
     (simp add: mxml_node_clone_def mxml_node_new_def nd_upd new_node_def Let_def)
  note two = this
  obtain e where e: "mxml_node_clone f tg d = (next_node d, e)" "next_node e = Suc (next_node d)"
    "\<And>q. q < next_node d \<Longrightarrow> nd e q = nd d q"
    by (simp add: mxml_node_clone_def mxml_node_new_def nd_upd Let_def)
  obtain b s where "clone_children f (next_node d) (Some x) e = Some b" "oChild (nd b (next_node d)) = Some s"
    "cName (nd b s) = cName (nd e y)" "oPrev (nd b s) = None" "oNext (nd b s) = None"
    using two [of e "next_node d"] e(2,3) fresh l leaf by auto
  then show ?thesis using e fresh l by (simp add: mxml_node_clone_tree_def)
qed

section \<open>Witnesses\<close>

text \<open>A node 0 with the children 1 and 2, and a node 3 of its own.\<close>

definition family :: xdoc where
  "family = \<lparr>nodes = (\<lambda>p. new_node)
     (0 := new_node\<lparr>oChild := Some 1\<rparr>,
      1 := new_node\<lparr>cName := Str ''a'', oParent := Some 0, oNext := Some 2\<rparr>,
      2 := new_node\<lparr>cName := Str ''b'', oParent := Some 0, oPrev := Some 1\<rparr>),
     next_node = 4, nLine = 1, nStatus = 1, nError = 0, oErrorNode = None, nNodeCount = 0\<rparr>"

lemma family_kids: "kids family 0 [1, 2]"
  by (simp add: kids_def family_def new_node_def)

lemma family_3: "oNext (nd family 3) = None" "oPrev (nd family 3) = None"
  by (simp_all add: family_def new_node_def)

theorem add_below_appends_witness: "\<exists>b. mxml_node_add_below 0 3 family = Some b \<and> kids b 0 [1, 2, 3]"
  using add_below_appends [OF family_kids _ _ family_3] by simp

theorem unlink_removes_witness: "kids (mxml_node_unlink 1 family) 0 [2]"
  using unlink_removes [of family 0 "[]" 1 "[2]"] family_kids by simp

theorem insert_before_inserts_witness: "kids (mxml_node_insert_before 2 3 family) 0 [1, 3, 2]"
  using insert_before_inserts [of family 0 "[1]" 2 "[]" 3] family_kids by simp

theorem insert_after_one_way_witness:
  "oPrev (nd (mxml_node_insert_after 1 3 family) 2) = Some 1 \<and>
   forward (mxml_node_unlink 2 (mxml_node_insert_after 1 3 family)) (Some 1) None [1]"
  using insert_after_one_way [of family 0 "[]" 1 2 "[]" 3] family_kids by (simp add: Let_def)

theorem insert_below_loses_node_witness:
  "\<exists>b. mxml_node_insert_below 0 3 family = Some b \<and> kids b 3 [1, 2] \<and> oChild (nd b 0) = Some 1"
proof -
  have "oChild (nd family 0) = Some 1" by (simp add: family_def new_node_def)
  with insert_below_loses_node [OF family_kids, of 3] show ?thesis by auto
qed

theorem clone_keeps_last_child_witness:
  "\<exists>p b s. mxml_node_clone_tree id 0 family = Some (p, b) \<and> oChild (nd b p) = Some s \<and>
     cName (nd b s) = Str ''b'' \<and> oPrev (nd b s) = None"
  using clone_keeps_last_child [OF family_kids, of id] by (auto simp: family_def new_node_def)

end
