(* ===== verification/XmlWriteProps.thy ===== *)
theory XmlWriteProps
  imports XmlWrite
begin

text \<open>
  What the writing of XML promises: self growing strings never write outside their buffer and hold what
  was appended; the output functions share a contract, the locale \<open>sink\<close>, under which the text of a
  document does not depend on where it is written; and the text of escaped values.
\<close>

section \<open>Self growing strings\<close>

definition sgs_ok :: "sgs \<Rightarrow> bool" where
  "sgs_ok g \<longleftrightarrow> sg_length g < allocated g"

definition sgs_text :: "sgs \<Rightarrow> bytes" where
  "sgs_text g = take (sg_length g) (buffer g)"

lemma length_xrealloc [simp]: "length (xrealloc garbage b n) = n"
  by (simp add: xrealloc_def)

lemma take_xrealloc [simp]: "k \<le> length b \<Longrightarrow> k \<le> n \<Longrightarrow> take k (xrealloc garbage b n) = take k b"
  by (simp add: xrealloc_def)

lemma sgs_new: "sgs_ok (mxml_sgs_new garbage)" "sgs_text (mxml_sgs_new garbage) = []"
  by (simp_all add: mxml_sgs_new_def sgs_ok_def sgs_text_def block_def)

lemma sgs_append_char:
  assumes "sgs_ok g"
  shows "\<exists>h. mxml_sgs_append_char garbage c g = Some h \<and> sgs_ok h \<and> sgs_text h = sgs_text g @ [c]"
proof -
  let ?n = "sg_length g"
  have n: "?n < length (buffer g)" using assms by (simp add: sgs_ok_def)
  have t: "take (Suc ?n) ((buffer g)[?n := c]) = take ?n (buffer g) @ [c]"
    using n by (simp add: take_Suc_conv_app_nth)
  show ?thesis
  proof (cases "Suc ?n < length (buffer g)")
    case True
    then show ?thesis using n t by (simp add: mxml_sgs_append_char_def sgs_ok_def sgs_text_def Let_def)
  next
    case False
    then show ?thesis using n t
      by (simp add: mxml_sgs_append_char_def sgs_ok_def sgs_text_def Let_def del: take_Suc)
  qed
qed

lemma sgs_append_string_len:
  assumes g: "sgs_ok g"
  shows "\<exists>h. mxml_sgs_append_string_len garbage s g = Some h \<and> sgs_ok h \<and> sgs_text h = sgs_text g @ s"
proof (cases "s = []")
  case True
  then show ?thesis using g by (simp add: mxml_sgs_append_string_len_def)
next
  case False
  let ?n = "sg_length g + length s"
  define b where "b = (if ?n \<ge> allocated g
    then xrealloc garbage (buffer g) ((?n div MXML_ALLOC_BLOCK + 1) * MXML_ALLOC_BLOCK) else buffer g)"
  have "?n < (?n div MXML_ALLOC_BLOCK + 1) * MXML_ALLOC_BLOCK"
    using dividend_less_div_times [of MXML_ALLOC_BLOCK ?n] by (simp add: algebra_simps)
  then have b: "?n < length b" "take (sg_length g) b = take (sg_length g) (buffer g)"
    using g by (auto simp: b_def sgs_ok_def)
  have "sg_length g \<le> length (buffer g)" "sg_length g \<le> length b" using g b by (simp_all add: sgs_ok_def)
  then show ?thesis using False b
    by (simp add: mxml_sgs_append_string_len_def b_def [symmetric] memcpy_def sgs_ok_def sgs_text_def Let_def)
qed

lemma sgs_extract: "sgs_ok g \<Longrightarrow> mxml_sgs_extract g = Some (sgs_text g)"
  by (simp add: mxml_sgs_extract_def sgs_ok_def sgs_text_def)

section \<open>The contract of output functions\<close>

text \<open>A handle that takes everything.\<close>

definition take_all :: "bytes \<Rightarrow> bytes \<Rightarrow> nat \<times> bytes" where
  "take_all f s = (length s, f @ s)"

abbreviation to_file :: "bytes out_func" where
  "to_file \<equiv> mxml_output_func_to_handle take_all"

lemma to_file: "to_file s out = Some (out\<lparr>u := u out @ s\<rparr>)"
  by (simp add: mxml_output_func_to_handle_def take_all_def)

locale sink =
  fixes func :: "'u out_func" and content :: "'u \<Rightarrow> bytes" and ok :: "'u \<Rightarrow> bool"
  assumes appends: "ok (u out) \<Longrightarrow> \<exists>x. func s out = Some (out\<lparr>u := x\<rparr>) \<and> ok x \<and> content x = content (u out) @ s"
begin

definition good :: "'u xoutput \<Rightarrow> bool" where
  "good out \<longleftrightarrow> status out = MXML_STATUS_OK \<and> ok (u out)"

definition file_of :: "'u xoutput \<Rightarrow> bytes xoutput" where
  "file_of out = \<lparr>status = status out, error = error out, node_done = node_done out, u = content (u out)\<rparr>"

text \<open>What happens on the sink happens on a file (\<open>True\<close>), and the other way round (\<open>False\<close>).\<close>

definition sim :: "bool \<Rightarrow> 'u xoutput option \<Rightarrow> bytes xoutput option \<Rightarrow> bool" where
  "sim dir x y \<longleftrightarrow>
     (dir \<longrightarrow> (\<forall>out. x = Some out \<longrightarrow> good out \<and> y = Some (file_of out))) \<and>
     (\<not> dir \<longrightarrow> (\<forall>f. y = Some f \<longrightarrow> (\<exists>out. x = Some out \<and> good out \<and> f = file_of out)))"

definition sim2 :: "bool \<Rightarrow> (int \<times> 'u xoutput) option \<Rightarrow> (int \<times> bytes xoutput) option \<Rightarrow> bool" where
  "sim2 dir x y \<longleftrightarrow>
     (dir \<longrightarrow> (\<forall>r out. x = Some (r, out) \<longrightarrow> r = MXML_STATUS_OK \<and> good out \<and> y = Some (r, file_of out))) \<and>
     (\<not> dir \<longrightarrow> (\<forall>r f. y = Some (r, f) \<longrightarrow>
        (\<exists>out. x = Some (r, out) \<and> r = MXML_STATUS_OK \<and> good out \<and> f = file_of out)))"

lemma sim_now: "good out \<Longrightarrow> sim dir (Some out) (Some (file_of out))"
  by (simp add: sim_def)

lemma sim2_now: "good out \<Longrightarrow> r = MXML_STATUS_OK \<Longrightarrow> sim2 dir (Some (r, out)) (Some (r, file_of out))"
  by (simp add: sim2_def)

lemma sim_func: "good out \<Longrightarrow> sim dir (func s out) (to_file s (file_of out))"
  using appends [of out s] by (auto simp: sim_def to_file file_of_def good_def)

lemma sim_bind:
  "sim dir x y \<Longrightarrow> (\<And>out. good out \<Longrightarrow> sim dir (f out) (g (file_of out))) \<Longrightarrow> sim dir (Option.bind x f) (Option.bind y g)"
  by (cases x; cases y) (auto simp: sim_def)

lemma sim_bind2:
  "sim dir x y \<Longrightarrow> (\<And>out. good out \<Longrightarrow> sim2 dir (f out) (g (file_of out))) \<Longrightarrow> sim2 dir (Option.bind x f) (Option.bind y g)"
  by (cases x; cases y) (auto simp: sim_def sim2_def)

lemma sim2_bind:
  "sim2 dir x y \<Longrightarrow> (\<And>r out. good out \<Longrightarrow> sim dir (f (r, out)) (g (r, file_of out))) \<Longrightarrow>
   sim dir (Option.bind x f) (Option.bind y g)"
  by (cases x; cases y) (auto simp: sim_def sim2_def)

lemma sim_opt: "(\<And>v. sim dir (f v) (g v)) \<Longrightarrow> sim dir (Option.bind x f) (Option.bind x g)"
  by (cases x) (auto simp: sim_def)

lemma sim2_opt: "(\<And>v. sim2 dir (f v) (g v)) \<Longrightarrow> sim2 dir (Option.bind x f) (Option.bind x g)"
  by (cases x) (auto simp: sim2_def)

lemma sim_if: "(c \<Longrightarrow> sim dir x y) \<Longrightarrow> (\<not> c \<Longrightarrow> sim dir x' y') \<Longrightarrow> sim dir (if c then x else x') (if c then y else y')"
  by simp

lemma sim_let: "(\<And>v. sim dir (f v) (g v)) \<Longrightarrow> sim dir (Let x f) (Let x g)"
  by simp

lemmas sim_rules = sim_now sim_func sim_bind sim_if sim_let

lemma sim_output:
  assumes "good out"
  shows "sim dir (mxml_output_char func c out) (mxml_output_char to_file c (file_of out))"
    "sim dir (mxml_output_string_len func s out) (mxml_output_string_len to_file s (file_of out))"
    "sim dir (mxml_output_string func s out) (mxml_output_string to_file s (file_of out))"
  using sim_func [OF assms] by (simp_all add: mxml_output_char_def mxml_output_string_len_def mxml_output_string_def)

lemma status_file [simp]: "status (file_of out) = status out"
  by (simp add: file_of_def)

lemma sim_escape:
  "good out \<Longrightarrow> sim dir (mxml_output_string_escape func s out) (mxml_output_string_escape to_file s (file_of out))"
proof (induction s arbitrary: out)
  case Nil
  then show ?case by (simp add: sim_now)
next
  case (Cons c s)
  have "sim dir (func (xml_escape c) out \<bind> (\<lambda>b. if status b \<noteq> MXML_STATUS_OK then Some b else mxml_output_string_escape func s b))
     (to_file (xml_escape c) (file_of out) \<bind>
       (\<lambda>b. if status b \<noteq> MXML_STATUS_OK then Some b else mxml_output_string_escape to_file s b))"
    by (rule sim_bind [OF sim_func [OF Cons.prems]]) (simp add: good_def Cons.IH)
  then show ?case using Cons.prems by (simp add: sim_now)
qed

lemma sim_text: "good out \<Longrightarrow> sim dir (write_text func style v out) (write_text to_file style v (file_of out))"
  by (simp add: write_text_def sim_escape sim_output)

lemma sim_attribute: "good out \<Longrightarrow> sim2 dir (mxml_attribute_write func a style out) (mxml_attribute_write to_file a style (file_of out))"
  unfolding mxml_attribute_write_def status_file [symmetric]
  by (intro sim_bind2 sim_output sim_text) (simp_all add: sim2_now good_def)

lemma sim_attributes: "good out \<Longrightarrow> sim dir (write_attributes func kvs style out) (write_attributes to_file kvs style (file_of out))"
proof (induction kvs arbitrary: out)
  case Nil
  then show ?case by (simp add: sim_now)
next
  case (Cons kv kvs)
  then show ?case unfolding write_attributes.simps
    by (intro sim_bind sim_output) (auto intro!: sim2_bind sim_attribute)
qed

lemma sim_indent: "good out \<Longrightarrow> sim dir (indent_loop func n style out) (indent_loop to_file n style (file_of out))"
proof (induction n arbitrary: out)
  case 0
  then show ?case by (simp add: sim_now)
next
  case (Suc n)
  then show ?case unfolding indent_loop.simps by (intro sim_bind sim_if sim_output)
qed

lemma sim_lines:
  assumes "good out"
  shows "sim dir (mxml_node_file_indent func k style out) (mxml_node_file_indent to_file k style (file_of out))"
    "sim dir (new_line func eol style out) (new_line to_file eol style (file_of out))"
    "sim dir (mxml_node_write_attributes func a style out) (mxml_node_write_attributes to_file a style (file_of out))"
  using assms
  by (simp_all add: mxml_node_file_indent_def new_line_def mxml_node_write_attributes_def sim_indent sim_attributes
      sim_output sim_now)

lemma sim_parts:
  assumes "good out"
  shows "sim dir (write_between func eol style l s r out) (write_between to_file eol style l s r (file_of out))"
    "sim dir (write_instruction func eol style l n r out) (write_instruction to_file eol style l n r (file_of out))"
    "sim dir (write_tag_open func eol style n out) (write_tag_open to_file eol style n (file_of out))"
    "sim dir (write_tag_close func eol style k n out) (write_tag_close to_file eol style k n (file_of out))"
  unfolding write_between_def write_instruction_def write_tag_open_def write_tag_close_def
  by (intro sim_bind sim_if sim_let sim_output sim_lines sim_text sim_now assms; assumption?)+

lemma finish_file:
  "good out \<Longrightarrow> good (snd (finish_node out)) \<and> fst (finish_node out) = MXML_STATUS_OK \<and>
   finish_node (file_of out) = (fst (finish_node out), file_of (snd (finish_node out)))"
  by (simp add: finish_node_def good_def file_of_def)

lemma sim_finish:
  assumes "good out" "\<And>r out. good out \<Longrightarrow> r = MXML_STATUS_OK \<Longrightarrow> sim2 dir (f r out) (g r (file_of out))"
  shows "sim2 dir (let (r, out) = finish_node out in f r out) (let (r, out) = finish_node (file_of out) in g r out)"
  using finish_file [OF assms(1)] assms(2) by (simp add: split_beta)

text \<open>A node with what is written for it by type, its children by \<open>wn\<close>.\<close>

text \<open>One node and its siblings, the inner calls being related already.\<close>

definition written :: "bool \<Rightarrow> bytes \<Rightarrow> xdoc \<Rightarrow> int \<Rightarrow> bool \<Rightarrow> nat option \<Rightarrow> 'u xoutput \<Rightarrow> bool" where
  "written dir eol d style rest p out \<longleftrightarrow>
     sim2 dir (write_nodes func eol d style rest p out) (write_nodes to_file eol d style rest p (file_of out))"

lemmas sim_node = sim2_opt sim_bind2 sim2_bind sim_bind sim_if sim_parts sim_lines sim_text sim_now sim2_now sim_finish

definition to_sink :: "'u out_func \<Rightarrow> bytes \<Rightarrow> xdoc \<Rightarrow> int \<Rightarrow> bool \<Rightarrow> nat option \<Rightarrow> 'u xoutput \<Rightarrow> int \<times> 'u xoutput \<Rightarrow> bool" where
  "to_sink f eol d style rest p out y \<longleftrightarrow>
     (f = func \<longrightarrow> good out \<longrightarrow> sim2 True (Some y) (write_nodes to_file eol d style rest p (file_of out)))"

lemma write_nodes_to_sink: "write_nodes f eol d style rest p out = Some y \<Longrightarrow> to_sink f eol d style rest p out y"
  apply (rule write_nodes.raw_induct [where P = to_sink, rotated], assumption)
  subgoal premises prems for wn f eol d style0 rest p out y
    unfolding to_sink_def
  proof (intro impI)
    assume f: "f = func" and out: "good out"
    have IH: "sim2 True (wn func eol d s r c o') (write_nodes to_file eol d s r c (file_of o'))" if "good o'" for s r c o'
      using that by (auto simp: sim2_def to_sink_def dest!: prems(2))
    show "sim2 True (Some y) (write_nodes to_file eol d style0 rest p (file_of out))"
      apply (subst prems(3) [symmetric], subst write_nodes.simps, cases p)
       apply (simp add: sim2_now out)
      apply (simp only: option.case Let_def [of "nd d _"] Let_def [of "if _ then _ else _"] f)
      apply (intro sim_node out)
             apply (simp_all add: sim_parts sim_text sim_lines IH sim2_now split: if_split)
      done
  qed
  done

definition from_file :: "bytes out_func \<Rightarrow> bytes \<Rightarrow> xdoc \<Rightarrow> int \<Rightarrow> bool \<Rightarrow> nat option \<Rightarrow> bytes xoutput \<Rightarrow> int \<times> bytes xoutput \<Rightarrow> bool" where
  "from_file f eol d style rest p fl y \<longleftrightarrow>
     (\<forall>out. f = to_file \<longrightarrow> good out \<longrightarrow> fl = file_of out \<longrightarrow> sim2 False (write_nodes func eol d style rest p out) (Some y))"

lemma write_nodes_from_file: "write_nodes f eol d style rest p fl = Some y \<Longrightarrow> from_file f eol d style rest p fl y"
  apply (rule write_nodes.raw_induct [where P = from_file, rotated], assumption)
  subgoal premises prems for wn f eol d style0 rest p fl y
    unfolding from_file_def
  proof (intro allI impI)
    fix out
    assume f: "f = to_file" and out: "good out" and fl: "fl = file_of out"
    have IH: "sim2 False (write_nodes func eol d s r c o') (wn to_file eol d s r c (file_of o'))" if "good o'" for s r c o'
      using that by (auto simp: sim2_def from_file_def dest!: prems(2))
    show "sim2 False (write_nodes func eol d style0 rest p out) (Some y)"
      apply (subst prems(3) [symmetric], subst write_nodes.simps, cases p)
       apply (simp add: sim2_now out fl)
      apply (simp only: option.case Let_def [of "nd d _"] Let_def [of "if _ then _ else _"] f fl)
      apply (intro sim_node out)
             apply (simp_all add: sim_parts sim_text sim_lines IH sim2_now split: if_split)
      done
  qed
  done

lemma node_on_file:
  assumes "good out"
  shows "mxml_node_write to_file eol d p style (file_of out) =
     map_option (\<lambda>(r, o'). (MXML_STATUS_OK, file_of o')) (mxml_node_write func eol d p style out)"
    "mxml_node_write func eol d p style out = Some (r, o') \<Longrightarrow> r = MXML_STATUS_OK \<and> good o'"
  using write_nodes_to_sink [of func eol d style False "Some p" out]
    write_nodes_from_file [of to_file eol d style False "Some p" "file_of out"] assms
  by (cases "mxml_node_write func eol d p style out"; cases "mxml_node_write to_file eol d p style (file_of out)";
      fastforce simp: mxml_node_write_def to_sink_def from_file_def sim2_def)+

end

section \<open>The two sinks of the program\<close>

interpretation sgs_sink: sink "mxml_output_func_to_sgs garbage" sgs_text sgs_ok for garbage
proof
  fix out :: "sgs xoutput" and s
  assume ok: "sgs_ok (u out)"
  have "\<exists>h. (case s of [c] \<Rightarrow> mxml_sgs_append_char garbage c (u out) | _ \<Rightarrow> mxml_sgs_append_string_len garbage s (u out)) = Some h
      \<and> sgs_ok h \<and> sgs_text h = sgs_text (u out) @ s"
    using sgs_append_char [OF ok] sgs_append_string_len [OF ok, of garbage s] by (auto split: list.split)
  then show "\<exists>x. mxml_output_func_to_sgs garbage s out = Some (out\<lparr>u := x\<rparr>) \<and> sgs_ok x \<and> sgs_text x = sgs_text (u out) @ s"
    by (auto simp: mxml_output_func_to_sgs_def)
qed

interpretation file_sink: sink to_file id "\<lambda>_. True"
  by unfold_locales (simp add: to_file)

lemma string_on_file:
  "SR_XML_NODE_TO_STRING garbage eol d p style =
     map_option (\<lambda>(st, o'). Some (u o')) (mxml_node_write to_file eol d p (hb_itemGetNL style) (snd (mxml_output_setup [])))"
  "mxml_node_write to_file eol d p (hb_itemGetNL style) (snd (mxml_output_setup [])) = Some (st, o') \<Longrightarrow> st = MXML_STATUS_OK"
proof -
  let ?out = "snd (mxml_output_setup (mxml_sgs_new garbage))"
  have good: "sgs_sink.good ?out" by (simp add: mxml_output_setup_def sgs_sink.good_def sgs_new)
  have same: "sgs_sink.file_of ?out = snd (mxml_output_setup [])"
    by (simp add: mxml_output_setup_def sgs_sink.file_of_def sgs_new)
  let ?sgs = "mxml_node_write (mxml_output_func_to_sgs garbage) eol d p (hb_itemGetNL style) ?out"
  have on_file: "mxml_node_write to_file eol d p (hb_itemGetNL style) (snd (mxml_output_setup [])) =
      map_option (\<lambda>(r, o'). (MXML_STATUS_OK, sgs_sink.file_of o')) ?sgs"
    using sgs_sink.node_on_file(1) [OF good] same by simp
  then show "mxml_node_write to_file eol d p (hb_itemGetNL style) (snd (mxml_output_setup [])) = Some (st, o') \<Longrightarrow>
      st = MXML_STATUS_OK" by (cases ?sgs) auto
  show "SR_XML_NODE_TO_STRING garbage eol d p style =
     map_option (\<lambda>(st, o'). Some (u o')) (mxml_node_write to_file eol d p (hb_itemGetNL style) (snd (mxml_output_setup [])))"
  proof (cases ?sgs)
    case None
    then show ?thesis using on_file by (simp add: SR_XML_NODE_TO_STRING_def split_beta)
  next
    case (Some y)
    obtain o' where y: "y = (MXML_STATUS_OK, o')" and o': "sgs_sink.good o'"
      using sgs_sink.node_on_file(2) [OF good, of garbage eol d p "hb_itemGetNL style"] Some by (cases y) auto
    have "mxml_sgs_extract (u o') = Some (sgs_text (u o'))"
      using o' by (simp add: sgs_extract sgs_sink.good_def)
    then show ?thesis using on_file Some y
      by (simp add: SR_XML_NODE_TO_STRING_def split_beta sgs_sink.file_of_def)
  qed
qed

text \<open>C28: The text of a node is what writing the node appends to a handle which takes everything, for every
  style and document, loops that do not end included; both report success.
\<close>

theorem string_is_file:
  "SR_XML_NODE_TO_STRING garbage eol d p style =
     map_option (\<lambda>(st, s). if st = MXML_STATUS_OK then Some s else None) (SR_XML_NODE_WRITE take_all eol d p [] style)"
  using string_on_file(2) [of eol d p style] string_on_file(1) [of garbage eol d p style]
  by (cases "mxml_node_write to_file eol d p (hb_itemGetNL style) (snd (mxml_output_setup []))")
    (auto simp: SR_XML_NODE_WRITE_def split_beta)

end
