(* ===== verification/XmlReadProps.thy ===== *)
theory XmlReadProps
  imports XmlRead XmlNodeProps XmlWriteProps
begin

text \<open>
  What the reading of XML promises on an input in memory: a value that was written escaped is read back,
  as an attribute and as data; a tag with attributes and text that was written is read back; and the places where
  the reader takes something else than what stands there.
\<close>

section \<open>Inputs in memory\<close>

definition feeds :: "refil \<Rightarrow> bytes \<Rightarrow> bool" where
  "feeds r s \<longleftrightarrow> \<not> from_handle r \<and> answers_left r = [] \<and> r_status r = MXML_STATUS_OK \<and> bytes_left r = s"

lemma feeds_setup: "feeds (mxml_refil_setup False [] s) s"
  by (simp add: feeds_def mxml_refil_setup_def bytes_left_def)

lemma feeds_status: "feeds r s \<Longrightarrow> r_status r = MXML_STATUS_OK"
  by (simp add: feeds_def)

lemma feeds_End:
  assumes "feeds r []"
  shows "mxml_refil_getc r = (None, r)"
  using assms by (auto simp: feeds_def mxml_refil_getc_def bytes_left_def split: option.splits)

lemma feeds_Cons:
  assumes "feeds r (c # s)"
  obtains r' where "mxml_refil_getc r = (Some c, r')" "feeds r' s" "\<And>e. feeds (mxml_refil_ungetc e r') (e # s)"
proof -
  obtain x r' where g: "mxml_refil_getc r = (x, r')" by fastforce
  have x: "x \<noteq> None" using g assms
    by (auto simp: feeds_def mxml_refil_getc_def bytes_left_def split: option.splits if_splits dest: sym)
  then obtain e where e: "x = Some e" by blast
  have r': "\<not> from_handle r'" "answers_left r' = []" "r_status r' = MXML_STATUS_OK"
    using g assms by (auto simp: feeds_def mxml_refil_getc_def split: option.splits if_splits)
  have left: "bytes_left r = e # bytes_left r'" using getc_left g e by simp
  then have "e = c" "feeds r' s" using assms r' by (auto simp: feeds_def)
  moreover have "feeds (mxml_refil_ungetc k r') (k # s)" for k
    using get_unget_left [of r e r' k] g e r' \<open>feeds r' s\<close>
    by (simp add: feeds_def) (simp add: mxml_refil_ungetc_def)
  ultimately show thesis using that g e by blast
qed

text \<open>Line terminators are counted.\<close>

definition lines :: "bytes \<Rightarrow> xdoc \<Rightarrow> xdoc" where
  "lines s d = fold count_line s d"

lemma lines_simps [simp]: "lines [] d = d" "lines (c # s) d = lines s (count_line c d)"
  by (simp_all add: lines_def)

lemma lines_nLine: "lines s d = d\<lparr>nLine := nLine d + int (count_list s LF)\<rparr>"
  by (induction s arbitrary: d) (simp_all add: count_line_def hbxml_doc_new_line_def)

section \<open>Escaped values\<close>

definition escaped :: "bytes \<Rightarrow> bytes" where
  "escaped s = concat (map xml_escape s)"

lemma escaped_simps [simp]: "escaped [] = []" "escaped (c # s) = xml_escape c @ escaped s"
  by (simp_all add: escaped_def)

text \<open>A C string is written escaped.\<close>

lemma write_escaped:
  "status out = MXML_STATUS_OK \<Longrightarrow> mxml_output_string_escape to_file s out =
     Some (out\<lparr>u := u out @ escaped (takeWhile (\<lambda>c. c \<noteq> NUL) s)\<rparr>)"
  by (induction s arbitrary: out) (simp_all add: to_file)

section \<open>Reading an attribute\<close>

lemma attr_run:
  assumes "feeds r (c # s)" "iStatus a < 6" "attr_char garbage style a c = Some (Next b)"
  obtains r' where "feeds r' s"
    "attr_loop garbage style a (r, d) = attr_loop garbage style b (r', if iStatus a < 5 then count_line c d else d)"
proof -
  from assms(1) obtain r' where r': "mxml_refil_getc r = (Some c, r')" "feeds r' s" by (rule feeds_Cons) blast
  have "attr_loop garbage style a (r, d) = attr_loop garbage style b (r', if iStatus a < 5 then count_line c d else d)"
    using assms(2,3) r'(1) by (subst attr_loop.simps) (simp add: Let_def)
  with r'(2) show thesis by (rule that)
qed

lemma attr_run_same_line:
  assumes "feeds r (c # s)" "attr_char garbage style a c = Some (Next b)" "iStatus a < 6" "c \<noteq> LF"
  obtains r' where "attr_loop garbage style a (r, d) = attr_loop garbage style b (r', d)" "feeds r' s"
proof -
  have "(if iStatus a < 5 then count_line c d else d) = d" using assms(4) by (simp add: count_line_def)
  then show thesis using attr_run [OF assms(1,3,2), of d] that by metis
qed

text \<open>The machine holds the name and the value read so far.\<close>

definition holds :: "attr_st \<Rightarrow> bytes \<Rightarrow> bytes \<Rightarrow> bool" where
  "holds a n v \<longleftrightarrow> buf_name a = n \<and> quotechr a = DQUOTE \<and> sgs_ok (buf_attrib a) \<and> sgs_text (buf_attrib a) = v"

lemma holds_append:
  assumes "holds a n v"
  obtains b where "attr_append garbage c a = Some (Next b)" "holds b n (v @ [c])" "iStatus b = iStatus a"
    "iPosAmper b = iPosAmper a"
proof -
  from assms obtain h where "mxml_sgs_append_char garbage c (buf_attrib a) = Some h" "sgs_ok h" "sgs_text h = v @ [c]"
    using sgs_append_char [of "buf_attrib a" garbage c] by (auto simp: holds_def)
  with assms that [of "a\<lparr>buf_attrib := h\<rparr>"] show thesis by (simp add: attr_append_def holds_def)
qed

lemma entity_run:
  "\<lbrakk>feeds r (t @ s); iStatus a = 5; holds a n v; \<forall>c \<in> set t. is_alpha c\<rbrakk> \<Longrightarrow>
   \<exists>b r'. attr_loop garbage style a (r, d) = attr_loop garbage style b (r', d) \<and> feeds r' s \<and>
     holds b n (v @ t) \<and> iStatus b = 5 \<and> iPosAmper b = iPosAmper a"
proof (induction t arbitrary: a r v)
  case Nil
  then show ?case by auto
next
  case (Cons c t)
  have "c \<noteq> CHR '';''" using Cons.prems(4) by (auto simp: ctype_defs)
  from holds_append [OF Cons.prems(3), of garbage c] obtain b where
    b: "attr_append garbage c a = Some (Next b)" "holds b n (v @ [c])" "iStatus b = 5" "iPosAmper b = iPosAmper a"
    using Cons.prems(2) by metis
  have step: "attr_char garbage style a c = Some (Next b)"
    using Cons.prems(2,4) b(1) \<open>c \<noteq> _\<close> by (simp add: attr_char_def attr_entity_def)
  have f: "feeds r (c # t @ s)" and st: "iStatus a < 6" using Cons.prems(1,2) by simp_all
  from attr_run [OF f st step, of d] Cons.prems(2) obtain r' where
    r': "attr_loop garbage style a (r, d) = attr_loop garbage style b (r', d)" "feeds r' (t @ s)" by auto
  then show ?case using Cons.IH [OF r'(2) b(3,2)] Cons.prems(4) b(4) by simp
qed

lemma entity_end:
  assumes a: "holds a n (v @ CHR ''&'' # t)" "iPosAmper a = length v" "iStatus a = 5"
    and t: "entity t = Some e" "1 < length t"
  obtains b where "attr_char garbage style a (CHR '';'') = Some (Next b)" "holds b n (v @ [e])" "iStatus b = 4"
proof -
  let ?g = "buf_attrib a"
  let ?a = "a\<lparr>iStatus := 4, buf_attrib := ?g\<lparr>sg_length := iPosAmper a\<rparr>\<rparr>"
  have g: "take (sg_length ?g) (buffer ?g) = v @ CHR ''&'' # t" "sg_length ?g < length (buffer ?g)"
    using a(1) by (simp_all add: holds_def sgs_text_def sgs_ok_def)
  from arg_cong [OF g(1), of length] g(2) have l: "sg_length ?g = Suc (length v + length t)" by simp
  have "take (length v) (buffer ?g) = take (length v) (take (sg_length ?g) (buffer ?g))" using l by simp
  then have "take (length v) (buffer ?g) = v" using g(1) by simp
  then have "holds ?a n v" using a l g(2) by (simp add: holds_def sgs_ok_def sgs_text_def)
  from holds_append [OF this, of garbage e] obtain b where
    b: "attr_append garbage e ?a = Some (Next b)" "holds b n (v @ [e])" "iStatus b = 4" by auto
  have "attr_char garbage style a (CHR '';'') = Some (Next b)"
    using a(2,3) t b(1) g(1) by (simp add: attr_char_def attr_entity_def Let_def del: length_drop length_take)
  then show thesis by (rule that [OF _ b(2,3)])
qed

lemma xml_escape_cases:
  obtains (plain) "xml_escape c = [c]" "c \<noteq> DQUOTE" "c \<noteq> CHR ''&''" "c \<noteq> CHR ''<''"
  | (entity) t where "xml_escape c = CHR ''&'' # t @ '';''" "entity t = Some c" "1 < length t" "\<forall>x \<in> set t. is_alpha x"
      "c \<noteq> LF"
proof -
  have alpha: "\<forall>x \<in> set ''quotaposampltgt''. is_alpha x" by (simp add: ctype_defs)
  note e = entity_def strncmp_eq.simps Let_def numeral_eq_Suc
  consider "c = DQUOTE" | "c = QUOTE" | "c = CHR ''&''" | "c = CHR ''<''" | "c = CHR ''>''"
    | "c \<notin> {DQUOTE, QUOTE, CHR ''&'', CHR ''<'', CHR ''>''}" by blast
  then show thesis
  proof cases
    case 1
    show thesis by (rule entity [of "''quot''"]) (use alpha 1 in \<open>simp_all add: xml_escape_def e\<close>)
  next
    case 2
    show thesis by (rule entity [of "''apos''"]) (use alpha 2 in \<open>simp_all add: xml_escape_def e\<close>)
  next
    case 3
    show thesis by (rule entity [of "''amp''"]) (use alpha 3 in \<open>simp_all add: xml_escape_def e\<close>)
  next
    case 4
    show thesis by (rule entity [of "''lt''"]) (use alpha 4 in \<open>simp_all add: xml_escape_def e\<close>)
  next
    case 5
    show thesis by (rule entity [of "''gt''"]) (use alpha 5 in \<open>simp_all add: xml_escape_def e\<close>)
  next
    case 6
    then show thesis by (intro plain) (simp_all add: xml_escape_def)
  qed
qed

lemma escape_run:
  assumes r: "feeds r (xml_escape c @ s)" and a: "holds a n v" "iStatus a = 4" and st: "\<not> STYLE_NOESCAPE style"
  obtains b r' where "attr_loop garbage style a (r, d) = attr_loop garbage style b (r', count_line c d)"
    "feeds r' s" "holds b n (v @ [c])" "iStatus b = 4"
proof (cases rule: xml_escape_cases [of c])
  case plain
  from holds_append [OF a(1), of garbage c] obtain b where
    b: "attr_append garbage c a = Some (Next b)" "holds b n (v @ [c])" "iStatus b = 4" using a(2) by metis
  have step: "attr_char garbage style a c = Some (Next b)"
    using a plain b by (simp add: attr_char_def attr_value_def holds_def)
  have f: "feeds r (c # s)" and i: "iStatus a < 6" using r plain a by simp_all
  from attr_run [OF f i step, of d] a(2) obtain r' where
    "attr_loop garbage style a (r, d) = attr_loop garbage style b (r', count_line c d)" "feeds r' s" by auto
  then show thesis by (rule that [OF _ _ b(2,3)])
next
  case (entity t)
  let ?a = "a\<lparr>iStatus := 5, iPosAmper := sg_length (buf_attrib a)\<rparr>"
  have len: "sg_length (buf_attrib a) = length v" using a(1) by (auto simp: holds_def sgs_text_def sgs_ok_def)
  have "holds ?a n v" using a(1) by (simp add: holds_def)
  from holds_append [OF this, of garbage "CHR ''&''"] obtain b where
    b: "attr_append garbage (CHR ''&'') ?a = Some (Next b)" "holds b n (v @ ''&'')" "iStatus b = 5" "iPosAmper b = length v"
    using len by auto
  have step: "attr_char garbage style a (CHR ''&'') = Some (Next b)"
    using a b(1) st by (simp add: attr_char_def attr_value_def holds_def)
  have f: "feeds r (CHR ''&'' # t @ CHR '';'' # s)" and i: "iStatus a < 6" using r entity a by simp_all
  from attr_run [OF f i step, of d] a(2) obtain r1 where
    1: "attr_loop garbage style a (r, d) = attr_loop garbage style b (r1, d)" "feeds r1 (t @ CHR '';'' # s)"
    by (auto simp: count_line_def)
  from entity_run [OF 1(2) b(3,2) entity(4), of garbage style d] obtain b2 r2 where
    2: "attr_loop garbage style b (r1, d) = attr_loop garbage style b2 (r2, d)" "feeds r2 (CHR '';'' # s)"
    "holds b2 n (v @ CHR ''&'' # t)" "iStatus b2 = 5" "iPosAmper b2 = length v"
    using b(4) by auto
  from entity_end [OF 2(3,5,4) entity(2,3), of garbage style] obtain b3 where
    3: "attr_char garbage style b2 (CHR '';'') = Some (Next b3)" "holds b3 n (v @ [c])" "iStatus b3 = 4" .
  have i: "iStatus b2 < 6" using 2(4) by simp
  from attr_run [OF 2(2) i 3(1), of d] 2(4) obtain r3 where
    4: "attr_loop garbage style b2 (r2, d) = attr_loop garbage style b3 (r3, d)" "feeds r3 s" by auto
  have "count_line c d = d" using entity(5) by (simp add: count_line_def)
  then show thesis using that [OF _ 4(2) 3(2,3)] 1(1) 2(1) 4(1) by simp
qed

lemma value_run:
  "\<lbrakk>feeds r (escaped w @ DQUOTE # s); holds a n v; iStatus a = 4; \<not> STYLE_NOESCAPE style\<rbrakk> \<Longrightarrow>
   \<exists>b r'. attr_loop garbage style a (r, d) = Some (Next b, r', lines w d) \<and> feeds r' s \<and>
     holds b n (v @ w) \<and> iStatus b = 6"
proof (induction w arbitrary: a r v d)
  case Nil
  let ?b = "a\<lparr>iStatus := 6\<rparr>"
  have step: "attr_char garbage style a DQUOTE = Some (Next ?b)"
    using Nil.prems(2,3) by (simp add: attr_char_def attr_value_def holds_def)
  have f: "feeds r (DQUOTE # s)" and i: "iStatus a < 6" using Nil.prems by simp_all
  from attr_run [OF f i step, of d] Nil.prems(3) obtain r' where
    "attr_loop garbage style a (r, d) = attr_loop garbage style ?b (r', d)" "feeds r' s" by (auto simp: count_line_def)
  then show ?case using Nil.prems(2) by (intro exI [of _ ?b] exI [of _ r']) (simp add: attr_loop.simps holds_def)
next
  case (Cons c w)
  have f: "feeds r (xml_escape c @ escaped w @ DQUOTE # s)" using Cons.prems(1) by simp
  from escape_run [OF f Cons.prems(2-4), of garbage d] obtain b r' where
    "attr_loop garbage style a (r, d) = attr_loop garbage style b (r', count_line c d)"
    "feeds r' (escaped w @ DQUOTE # s)" "holds b n (v @ [c])" "iStatus b = 4" .
  then show ?case using Cons.IH [of r' b "v @ [c]" "count_line c d"] Cons.prems(4) by simp
qed

definition name_char :: "char \<Rightarrow> bool" where
  "name_char c \<longleftrightarrow> is_alnum c \<or> c = CHR ''_'' \<or> c = CHR ''-'' \<or> c = CHR '':''"

fun attr_name_ok :: "bytes \<Rightarrow> bool" where
  "attr_name_ok [] = False"
| "attr_name_ok (c # cs) = (is_alpha c \<and> list_all name_char cs)"

lemma name_char_no_line: "name_char c \<Longrightarrow> c \<noteq> LF" "is_alpha c \<Longrightarrow> \<not> xml_space c \<and> c \<noteq> CHR ''>'' \<and> c \<noteq> CHR ''/''"
  by (auto simp: name_char_def xml_space_def ctype_defs)

lemma name_run:
  "\<lbrakk>feeds r (w @ s); holds a n v; iStatus a = 1; list_all name_char w\<rbrakk> \<Longrightarrow>
   \<exists>r'. attr_loop garbage style a (r, d) = attr_loop garbage style (a\<lparr>buf_name := n @ w\<rparr>) (r', d) \<and> feeds r' s"
proof (induction w arbitrary: a r n)
  case Nil
  then have "a\<lparr>buf_name := n\<rparr> = a" by (simp add: holds_def)
  then show ?case using Nil by auto
next
  case (Cons c w)
  let ?b = "a\<lparr>buf_name := n @ [c]\<rparr>"
  have c: "name_char c" "c \<noteq> LF" using Cons.prems(4) name_char_no_line(1) by auto
  have step: "attr_char garbage style a c = Some (Next ?b)"
    using Cons.prems(2,3) c by (simp add: attr_char_def attr_name_def holds_def name_char_def)
  have f: "feeds r (c # w @ s)" and i: "iStatus a < 6" using Cons.prems by simp_all
  from attr_run_same_line [OF f step i c(2), of d] obtain r' where
    r': "attr_loop garbage style a (r, d) = attr_loop garbage style ?b (r', d)" "feeds r' (w @ s)" .
  have "holds ?b (n @ [c]) v" using Cons.prems(2) by (simp add: holds_def)
  from Cons.IH [OF r'(2) this] Cons.prems(3,4) r'(1) show ?case by simp
qed

text \<open>The attribute as \<open>mxml_attribute_write\<close> writes it after a space.\<close>

definition attribute_text :: "bytes \<Rightarrow> bytes \<Rightarrow> bytes" where
  "attribute_text n v = SPACE # n @ CHR ''='' # DQUOTE # escaped v @ [DQUOTE]"

lemma attribute_read:
  assumes r: "feeds r (attribute_text n v @ s)" and n: "attr_name_ok n" and st: "\<not> STYLE_NOESCAPE style"
  obtains r' where "mxml_attribute_read garbage p style (r, d) = Some (MXML_STATUS_OK, Some (n, v), r', lines v d)"
    "feeds r' s"
proof -
  let ?a = "\<lparr>iStatus = 0, quotechr = DQUOTE, buf_name = [], buf_attrib = mxml_sgs_new garbage, iPosAmper = 0\<rparr>"
  obtain c w where n: "n = c # w" "is_alpha c" "list_all name_char w" using n by (cases n) auto
  have f0: "feeds r (SPACE # c # w @ CHR ''='' # DQUOTE # escaped v @ DQUOTE # s)"
    using r n by (simp add: attribute_text_def)
  define a where "a = ?a"
  define a1 where "a1 = a\<lparr>buf_name := [c], iStatus := 1\<rparr>"
  define a2 where "a2 = a1\<lparr>buf_name := n\<rparr>"
  define a3 where "a3 = a2\<lparr>iStatus := 3\<rparr>"
  define a4 where "a4 = a3\<lparr>iStatus := 4\<rparr>"
  note a_defs = a4_def a3_def a2_def a1_def a_def
  have steps: "attr_char garbage style a SPACE = Some (Next a)" "attr_char garbage style a c = Some (Next a1)"
    "attr_char garbage style a2 (CHR ''='') = Some (Next a3)" "attr_char garbage style a3 DQUOTE = Some (Next a4)"
    using n(2) name_char_no_line(2) [OF n(2)]
    by (simp_all add: a_defs attr_char_def attr_begin_def attr_name_def attr_quote_def is_alnum_def xml_space_def ctype_defs)
  have states: "iStatus a < 6" "iStatus a1 = 1" "iStatus a1 < 6" "iStatus a2 < 6" "iStatus a3 < 6" "iStatus a4 = 4"
    by (simp_all add: a_defs)
  have hold: "holds a1 [c] []" "holds a4 n []" by (simp_all add: a_defs holds_def sgs_new)
  have c: "c \<noteq> LF" using n(2) by (auto simp: ctype_defs)
  from attr_run_same_line [OF f0 steps(1) states(1), of d] obtain r1 where
    1: "attr_loop garbage style a (r, d) = attr_loop garbage style a (r1, d)"
      "feeds r1 (c # w @ CHR ''='' # DQUOTE # escaped v @ DQUOTE # s)" by auto
  from attr_run_same_line [OF 1(2) steps(2) states(1) c, of d] obtain r2 where
    2: "attr_loop garbage style a (r1, d) = attr_loop garbage style a1 (r2, d)"
      "feeds r2 (w @ CHR ''='' # DQUOTE # escaped v @ DQUOTE # s)" .
  from name_run [OF 2(2) hold(1) states(2) n(3), of garbage style d] n(1) obtain r3 where
    3: "attr_loop garbage style a1 (r2, d) = attr_loop garbage style a2 (r3, d)"
      "feeds r3 (CHR ''='' # DQUOTE # escaped v @ DQUOTE # s)" by (auto simp: a2_def)
  from attr_run_same_line [OF 3(2) steps(3) states(4), of d] obtain r4 where
    4: "attr_loop garbage style a2 (r3, d) = attr_loop garbage style a3 (r4, d)"
      "feeds r4 (DQUOTE # escaped v @ DQUOTE # s)" by auto
  from attr_run_same_line [OF 4(2) steps(4) states(5), of d] obtain r5 where
    5: "attr_loop garbage style a3 (r4, d) = attr_loop garbage style a4 (r5, d)" "feeds r5 (escaped v @ DQUOTE # s)"
    by auto
  from value_run [OF 5(2) hold(2) states(6) st, of garbage d] obtain b r6 where
    6: "attr_loop garbage style a4 (r5, d) = Some (Next b, r6, lines v d)" "feeds r6 s" "holds b n v" "iStatus b = 6"
    by auto
  have "attr_loop garbage style ?a (r, d) = Some (Next b, r6, lines v d)"
    using 1(1) 2(1) 3(1) 4(1) 5(1) 6(1) unfolding a_def by simp
  then have "mxml_attribute_read garbage p style (r, d) = Some (MXML_STATUS_OK, Some (n, v), r6, lines v d)"
    using 6(3,4) feeds_status [OF 6(2)] by (simp add: mxml_attribute_read_def sgs_extract holds_def)
  then show thesis using 6(2) by (rule that)
qed

text \<open>C29: An attribute that was written is read back: any name the reader takes and any value without a NUL
  byte, for every style that escapes; the reader stops behind it and has counted the lines of the value.
\<close>

theorem attribute_round_trip:
  assumes n: "attr_name_ok n" and v: "NUL \<notin> set v" and st: "\<not> STYLE_NOESCAPE style"
  shows "\<exists>out r. write_attributes to_file [(Str n, Str v)] style (snd (mxml_output_setup [])) = Some out \<and>
     mxml_attribute_read garbage p style (mxml_refil_setup False [] (u out @ s), d) =
       Some (MXML_STATUS_OK, Some (n, v), r, d\<lparr>nLine := nLine d + int (count_list v LF)\<rparr>) \<and>
     bytes_left r = s"
proof -
  have tw: "takeWhile (\<lambda>c. c \<noteq> NUL) v = v" using v by (auto simp: takeWhile_eq_all_conv)
  have w: "write_attributes to_file [(Str n, Str v)] style (snd (mxml_output_setup [])) =
      Some ((snd (mxml_output_setup []))\<lparr>u := attribute_text n v\<rparr>)"
    using st by (simp add: mxml_attribute_write_def mxml_output_char_def mxml_output_string_len_def write_text_def
        to_file write_escaped mxml_output_setup_def attribute_text_def tw)
  from attribute_read [OF feeds_setup n st] obtain r where
    "mxml_attribute_read garbage p style (mxml_refil_setup False [] (attribute_text n v @ s), d) =
       Some (MXML_STATUS_OK, Some (n, v), r, lines v d)" "feeds r s" .
  then show ?thesis using w by (auto simp: lines_nLine feeds_def)
qed

theorem attribute_round_trip_witness:
  "\<forall>d. \<exists>out r. write_attributes to_file [(Str ''id'', Str ''a<b'')] 0 (snd (mxml_output_setup [])) = Some out \<and>
     mxml_attribute_read (\<lambda>_. CHR ''?'') 0 0 (mxml_refil_setup False [] (u out @ ''/>''), d) =
       Some (MXML_STATUS_OK, Some (''id'', ''a<b''), r, d\<lparr>nLine := nLine d + int (count_list ''a<b'' LF)\<rparr>) \<and>
     bytes_left r = ''/>''"
  by (intro allI, rule attribute_round_trip) (simp_all add: ctype_defs STYLE_NOESCAPE_def name_char_def)

section \<open>Reading data\<close>

lemma data_run:
  assumes "feeds r (c # s)"
    "\<And>r' x. mxml_refil_getc r = (Some c, r') \<Longrightarrow> feeds r' s \<Longrightarrow> data_loop style k buf (r, d) = F r'"
  obtains r' where "data_loop style k buf (r, d) = F r'" "feeds r' s"
  by (rule feeds_Cons [OF assms(1)]) (use assms(2) that in blast)

lemma data_append:
  assumes "feeds r (c # s)" "c \<noteq> CHR ''<''" "c = CHR ''&'' \<longrightarrow> STYLE_NOESCAPE style" "c \<noteq> CHR '';'' \<or> k = None"
  obtains r' where "data_loop style k buf (r, d) = data_loop style k (buf @ [c]) (r', count_line c d)" "feeds r' s"
proof (rule data_run [OF assms(1), of style k buf d "\<lambda>r'. data_loop style k (buf @ [c]) (r', count_line c d)"])
  fix r' assume "mxml_refil_getc r = (Some c, r')"
  then show "data_loop style k buf (r, d) = data_loop style k (buf @ [c]) (r', count_line c d)"
    using assms(2-4) by (subst data_loop.simps) auto
qed (rule that)

lemma data_letters:
  "\<lbrakk>feeds r (t @ s); \<forall>c \<in> set t. is_alpha c\<rbrakk> \<Longrightarrow>
   \<exists>r'. data_loop style k buf (r, d) = data_loop style k (buf @ t) (r', d) \<and> feeds r' s"
proof (induction t arbitrary: r buf)
  case Nil
  then show ?case by auto
next
  case (Cons c t)
  have c: "c \<noteq> CHR ''<''" "c \<noteq> CHR ''&''" "c \<noteq> CHR '';''" "count_line c d = d"
    using Cons.prems(2) by (auto simp: ctype_defs count_line_def)
  have f: "feeds r (c # t @ s)" using Cons.prems(1) by simp
  show ?case
    by (rule data_append [OF f c(1), of style k buf d]) (use Cons.IH Cons.prems(2) c in \<open>auto, metis append_Cons append_assoc append_Nil\<close>)
qed

lemma data_escape:
  assumes r: "feeds r (xml_escape c @ s)" and st: "\<not> STYLE_NOESCAPE style"
  obtains r' where "data_loop style None buf (r, d) = data_loop style None (buf @ [c]) (r', count_line c d)" "feeds r' s"
proof (cases rule: xml_escape_cases [of c])
  case plain
  then have f: "feeds r (c # s)" using r by simp
  show thesis by (rule data_append [OF f plain(4), of style None buf d]) (use plain(3) that in auto)
next
  case (entity t)
  let ?open = "data_loop style (Some (length buf)) (buf @ ''&'')"
  have f: "feeds r (CHR ''&'' # t @ CHR '';'' # s)" using r entity by simp
  obtain r1 where 1: "data_loop style None buf (r, d) = ?open (r1, d)" "feeds r1 (t @ CHR '';'' # s)"
  proof (rule data_run [OF f, of style None buf d "\<lambda>r'. ?open (r', d)"])
    fix r' assume "mxml_refil_getc r = (Some (CHR ''&''), r')"
    then show "data_loop style None buf (r, d) = ?open (r', d)" using st by (subst data_loop.simps) simp
  qed (rule that)
  from data_letters [OF 1(2) entity(4), of style "Some (length buf)" "buf @ ''&''" d] obtain r2 where
    2: "?open (r1, d) = data_loop style (Some (length buf)) (buf @ CHR ''&'' # t) (r2, d)" "feeds r2 (CHR '';'' # s)"
    by auto
  let ?done = "data_loop style None (buf @ [c])"
  obtain r3 where 3: "data_loop style (Some (length buf)) (buf @ CHR ''&'' # t) (r2, d) = ?done (r3, d)" "feeds r3 s"
  proof (rule data_run [OF 2(2), of style "Some (length buf)" "buf @ CHR ''&'' # t" d "\<lambda>r'. ?done (r', d)"])
    fix r' assume "mxml_refil_getc r2 = (Some (CHR '';''), r')"
    then show "data_loop style (Some (length buf)) (buf @ CHR ''&'' # t) (r2, d) = ?done (r', d)"
      using entity(2,3) by (subst data_loop.simps) (simp add: Let_def)
  qed (rule that)
  have "count_line c d = d" using entity(5) by (simp add: count_line_def)
  then show thesis using that [OF _ 3(2)] 1(1) 2(1) 3(1) by simp
qed

lemma data_escaped:
  "\<lbrakk>feeds r (escaped w @ s); \<not> STYLE_NOESCAPE style\<rbrakk> \<Longrightarrow>
   \<exists>r'. data_loop style None buf (r, d) = data_loop style None (buf @ w) (r', lines w d) \<and> feeds r' s"
proof (induction w arbitrary: r buf d)
  case Nil
  then show ?case by auto
next
  case (Cons c w)
  have f: "feeds r (xml_escape c @ escaped w @ s)" using Cons.prems(1) by simp
  from data_escape [OF f Cons.prems(2), of buf d] obtain r' where
    "data_loop style None buf (r, d) = data_loop style None (buf @ [c]) (r', count_line c d)"
    "feeds r' (escaped w @ s)" .
  then show ?case using Cons.IH [of r' "buf @ [c]" "count_line c d"] Cons.prems(2) by simp
qed

text \<open>Blanks are data inside data.\<close>

lemma data_blanks:
  "\<lbrakk>feeds r (w @ s); list_all xml_space w\<rbrakk> \<Longrightarrow>
   \<exists>r'. data_loop style None buf (r, d) = data_loop style None (buf @ w) (r', lines w d) \<and> feeds r' s"
proof (induction w arbitrary: r buf d)
  case Nil
  then show ?case by auto
next
  case (Cons c w)
  have f: "feeds r (c # w @ s)" and c: "c \<noteq> CHR ''<''" "c \<noteq> CHR ''&''" "c \<noteq> CHR '';''"
    using Cons.prems by (auto simp: xml_space_def)
  show ?case
  proof (rule data_append [OF f c(1), of style None buf d])
    fix r' assume "data_loop style None buf (r, d) = data_loop style None (buf @ [c]) (r', count_line c d)"
      "feeds r' (w @ s)"
    then show ?thesis using Cons.IH [of r' "buf @ [c]" "count_line c d"] Cons.prems(2) by simp
  qed (use c in simp_all)
qed

text \<open>Text that does not end in a blank is taken without the blanks behind it.\<close>

lemma trim_blanks:
  assumes "list_all xml_space w" "t \<noteq> []" "\<not> is_space (last t)"
  shows "rev (trim_rev (rev (t @ w))) = t"
proof -
  have "trim_rev (w' @ rev t) = rev t" if "list_all xml_space w'" for w'
    using that
  proof (induction w')
    case Nil
    from assms(2,3) obtain us c where "t = us @ [c]" "\<not> is_space c" by (cases t rule: rev_cases) auto
    then show ?case by (cases us rule: rev_cases) auto
  next
    case (Cons c w')
    have "is_space c" using Cons.prems by (auto simp: xml_space_def is_space_def byte_def)
    moreover obtain e es where "w' @ rev t = e # es" using assms(2) by (cases "w' @ rev t") auto
    ultimately show ?case using Cons by simp
  qed
  then show ?thesis using assms(1) by simp
qed

lemma data_read:
  assumes r: "feeds r (escaped t @ w @ CHR ''<'' # s)" and w: "list_all xml_space w"
    and t: "t \<noteq> []" "\<not> is_space (last t)" and st: "\<not> STYLE_NOESCAPE style"
  obtains r' where "mxml_node_read_data p style (r, d) =
      (r', upd p (\<lambda>n. n\<lparr>nType := MXML_TYPE_DATA, cData := Str t\<rparr>) (lines (t @ w) d))" "feeds r' (CHR ''<'' # s)"
proof -
  from data_escaped [OF r st, of "[]" d] obtain r1 where
    1: "data_loop style None [] (r, d) = data_loop style None t (r1, lines t d)" "feeds r1 (w @ CHR ''<'' # s)" by auto
  from data_blanks [OF 1(2) w, of style t "lines t d"] obtain r2 where
    2: "data_loop style None t (r1, lines t d) = data_loop style None (t @ w) (r2, lines (t @ w) d)"
      "feeds r2 (CHR ''<'' # s)" by (auto simp: lines_def)
  from 2(2) obtain r3 where 3: "mxml_refil_getc r2 = (Some (CHR ''<''), r3)"
    "feeds (mxml_refil_ungetc (CHR ''<'') r3) (CHR ''<'' # s)" by (rule feeds_Cons) blast
  have "data_loop style None (t @ w) (r2, lines (t @ w) d) =
      (Data (t @ w), mxml_refil_ungetc (CHR ''<'') r3, lines (t @ w) d)"
    using 3(1) by (subst data_loop.simps) simp
  then show thesis
    using that [OF _ 3(2)] 1(1) 2(1) feeds_status [OF 3(2)] trim_blanks [OF w t]
    by (simp add: mxml_node_read_data_def)
qed

section \<open>Comments and CDATA\<close>

text \<open>The data and what is left behind the end, as a function of the bytes. Two marks that no greater sign
  follows count as one.\<close>

definition put_byte :: "char \<Rightarrow> bytes \<times> bytes \<Rightarrow> bytes \<times> bytes" where
  "put_byte c x = (c # fst x, snd x)"

fun unmark :: "char \<Rightarrow> bytes \<Rightarrow> bytes \<times> bytes" where
  "unmark m [] = ([], [])"
| "unmark m [a] = (if a = m then [] else [a], [])"
| "unmark m (a # b # s) =
     (if a \<noteq> m then put_byte a (unmark m (b # s))
      else if b \<noteq> m then put_byte m (unmark m (b # s))
      else if s = [] then ([], [])
      else if hd s = CHR ''>'' then ([], tl s)
      else put_byte m (unmark m s))"

lemma marked_End:
  "feeds r [] \<Longrightarrow> marked_loop m k buf (r, d) = (buf, r, d)"
  by (simp add: marked_loop.simps [of m k] feeds_End)

lemma marked_plain:
  assumes "feeds r (c # s)" "c \<noteq> m"
  obtains r' where "marked_loop m 0 buf (r, d) = marked_loop m 0 (buf @ [c]) (r', count_line c d)" "feeds r' s"
proof (rule feeds_Cons [OF assms(1)])
  fix r' assume "mxml_refil_getc r = (Some c, r')" "feeds r' s"
  then have "marked_loop m 0 buf (r, d) = marked_loop m 0 (buf @ [c]) (r', count_line c d)"
    using assms(2) by (subst marked_loop.simps) (simp add: count_line_def)
  then show thesis using \<open>feeds r' s\<close> by (rule that)
qed

lemma marked_first:
  assumes "feeds r (m # s)" "m \<noteq> LF"
  obtains r' where "marked_loop m 0 buf (r, d) = marked_loop m 1 buf (r', d)" "feeds r' s"
proof (rule feeds_Cons [OF assms(1)])
  fix r' assume "mxml_refil_getc r = (Some m, r')" "feeds r' s"
  then show thesis using assms(2) that [of r'] by (simp add: marked_loop.simps [of m 0])
qed

lemma marked_second:
  assumes "feeds r (m # s)"
  obtains r' where "marked_loop m 1 buf (r, d) = marked_loop m 2 buf (r', d)" "feeds r' s"
proof (rule feeds_Cons [OF assms(1)])
  fix r' assume "mxml_refil_getc r = (Some m, r')" "feeds r' s"
  then show thesis using that [of r'] by (simp add: marked_loop.simps [of m "Suc 0"])
qed

lemma marked_close:
  assumes "feeds r (CHR ''>'' # s)"
  obtains r' where "marked_loop m 2 buf (r, d) = (buf, r', d)" "feeds r' s"
proof (rule feeds_Cons [OF assms(1)])
  fix r' assume "mxml_refil_getc r = (Some (CHR ''>''), r')" "feeds r' s"
  then show thesis using that [of r'] by (simp add: marked_loop.simps [of m 2])
qed

lemma marked_back:
  assumes "feeds r (c # s)" "k = 1 \<and> c \<noteq> m \<or> k = 2 \<and> c \<noteq> CHR ''>''"
  obtains r' where "marked_loop m k buf (r, d) = marked_loop m 0 (buf @ [m]) (r', d)" "feeds r' (c # s)"
proof (rule feeds_Cons [OF assms(1)])
  fix r' assume "mxml_refil_getc r = (Some c, r')" "\<And>e. feeds (mxml_refil_ungetc e r') (e # s)"
  then show thesis using assms(2) that [of "mxml_refil_ungetc c r'"]
    by (auto simp: marked_loop.simps [of m "Suc 0"] marked_loop.simps [of m 2])
qed

lemma marked_unmark:
  "\<lbrakk>feeds r s; m \<noteq> LF\<rbrakk> \<Longrightarrow>
   \<exists>r'. marked_loop m 0 buf (r, d) = (buf @ fst (unmark m s), r', lines (fst (unmark m s)) d) \<and>
     feeds r' (snd (unmark m s))"
proof (induction m s arbitrary: r buf d rule: unmark.induct)
  case (1 m)
  then show ?case using marked_End by auto
next
  case (2 m a)
  show ?case
  proof (cases "a = m")
    case True
    with 2 marked_first [of r m "[]" buf d] obtain r1 where
      "marked_loop m 0 buf (r, d) = marked_loop m 1 buf (r1, d)" "feeds r1 []" by auto
    then show ?thesis using True marked_End [of r1 m 1 buf d] by auto
  next
    case False
    with marked_plain [OF 2(1), of m buf d] obtain r1 where
      "marked_loop m 0 buf (r, d) = marked_loop m 0 (buf @ [a]) (r1, count_line a d)" "feeds r1 []" by auto
    then show ?thesis using False marked_End [of r1 m 0 "buf @ [a]"] by auto
  qed
next
  case (3 m a b s)
  note ih = 3(1-3) and prems = 3(4,5)
  consider (none) "a \<noteq> m" | (one) "a = m" "b \<noteq> m" | (both) "a = m" "b = m" by blast
  then show ?case
  proof cases
    case none
    with marked_plain [OF prems(1), of m buf d] obtain r1 where
      r1: "marked_loop m 0 buf (r, d) = marked_loop m 0 (buf @ [a]) (r1, count_line a d)" "feeds r1 (b # s)" by auto
    have "\<exists>r'. marked_loop m 0 (buf @ [a]) (r1, count_line a d) = (buf @ a # fst (unmark m (b # s)), r',
        lines (fst (unmark m (b # s))) (count_line a d)) \<and> feeds r' (snd (unmark m (b # s)))"
      using ih(1) [OF none r1(2) prems(2), of "buf @ [a]" "count_line a d"] by simp
    then show ?thesis using r1(1) none by (simp add: put_byte_def)
  next
    case one
    with prems obtain r1 where
      r1: "marked_loop m 0 buf (r, d) = marked_loop m 1 buf (r1, d)" "feeds r1 (b # s)"
      using marked_first [of r m "b # s" buf d] by auto
    with marked_back [OF r1(2), of 1 m buf d] one(2) obtain r2 where
      r2: "marked_loop m 1 buf (r1, d) = marked_loop m 0 (buf @ [m]) (r2, d)" "feeds r2 (b # s)" by auto
    have "count_line m d = d" using prems(2) by (simp add: count_line_def)
    with ih(2) [OF _ one(2) r2(2) prems(2), of "buf @ [m]" d] r1(1) r2(1) one show ?thesis by (simp add: put_byte_def)
  next
    case both
    with prems obtain r1 where
      r1: "marked_loop m 0 buf (r, d) = marked_loop m 1 buf (r1, d)" "feeds r1 (m # s)"
      using marked_first [of r m "b # s" buf d] by auto
    from marked_second [OF r1(2), of buf d] obtain r2 where
      r2: "marked_loop m 1 buf (r1, d) = marked_loop m 2 buf (r2, d)" "feeds r2 s" by auto
    show ?thesis
    proof (cases s)
      case Nil
      then show ?thesis using r1 r2 both marked_End [of r2 m 2 buf d] by auto
    next
      case (Cons c t)
      show ?thesis
      proof (cases "c = CHR ''>''")
        case True
        then show ?thesis using r1(1) r2 both Cons marked_close [of r2 t m buf d] by auto
      next
        case False
        with marked_back [OF r2(2) [unfolded Cons], of 2 m buf d] obtain r3 where
          r3: "marked_loop m 2 buf (r2, d) = marked_loop m 0 (buf @ [m]) (r3, d)" "feeds r3 s" using Cons by auto
        have "count_line m d = d" using prems(2) by (simp add: count_line_def)
        with ih(3) [OF _ _ _ _ r3(2) prems(2), of "buf @ [m]" d] r1(1) r2(1) r3(1) both Cons False
        show ?thesis by (simp add: put_byte_def)
      qed
    qed
  qed
qed

text \<open>Data in which the marks stand alone, followed by the end.\<close>

fun marks_alone :: "char \<Rightarrow> bytes \<Rightarrow> bool" where
  "marks_alone m (a # b # s) \<longleftrightarrow> \<not> (a = m \<and> b = m) \<and> marks_alone m (b # s)"
| "marks_alone m [a] \<longleftrightarrow> a \<noteq> m"
| "marks_alone m [] \<longleftrightarrow> True"

lemma unmark_plain: "c \<noteq> m \<Longrightarrow> unmark m (c # s) = put_byte c (unmark m s)"
  by (cases s) (simp_all add: put_byte_def)

lemma unmark_append: "marks_alone m t \<Longrightarrow> unmark m (t @ s) = (t @ fst (unmark m s), snd (unmark m s))"
  by (induction m t rule: marks_alone.induct) (auto simp: put_byte_def unmark_plain)

lemma cdata_header_run:
  "feeds r (es @ s) \<Longrightarrow> \<exists>r'. cdata_header es (r, d) = (True, r', d) \<and> feeds r' s"
proof (induction es arbitrary: r)
  case (Cons e es)
  then have "feeds r (e # es @ s)" by simp
  then obtain r' where "mxml_refil_getc r = (Some e, r')" "feeds r' (es @ s)" by (rule feeds_Cons) blast
  then show ?case using Cons.IH by simp
qed simp

text \<open>The end both readers share.\<close>

lemma marked_finish:
  assumes "feeds r s" "m \<noteq> LF"
  obtains r' where "(let (b, z) = marked_loop m 0 [] (r, d) in finish_data p None b z) =
      (r', upd p (\<lambda>n. n\<lparr>cData := Str (fst (unmark m s))\<rparr>) (lines (fst (unmark m s)) d))" "feeds r' (snd (unmark m s))"
proof -
  from marked_unmark [OF assms, of "[]" d] obtain r' where
    r': "marked_loop m 0 [] (r, d) = (fst (unmark m s), r', lines (fst (unmark m s)) d)" "feeds r' (snd (unmark m s))"
    by auto
  show thesis using r' feeds_status [OF r'(2)] by (intro that) (simp_all add: finish_data_def)
qed

text \<open>The reader of comments: the data of the node is given by \<open>unmark\<close> on the bytes of the input, and
  reading goes on behind the end it finds.
\<close>

theorem comment_reads:
  "\<exists>r. mxml_node_read_comment p (mxml_refil_setup False [] s, d) =
      (r, upd p (\<lambda>n. n\<lparr>cData := Str (fst (unmark (CHR ''-'') s))\<rparr>)
            (lines (fst (unmark (CHR ''-'') s)) (upd p (\<lambda>n. n\<lparr>nType := MXML_TYPE_COMMENT\<rparr>) d))) \<and>
     bytes_left r = snd (unmark (CHR ''-'') s)"
proof -
  have "CHR ''-'' \<noteq> LF" by simp
  from marked_finish [OF feeds_setup [of s] this, of "upd p (\<lambda>n. n\<lparr>nType := MXML_TYPE_COMMENT\<rparr>) d" p] obtain r where
    "mxml_node_read_comment p (mxml_refil_setup False [] s, d) =
      (r, upd p (\<lambda>n. n\<lparr>cData := Str (fst (unmark (CHR ''-'') s))\<rparr>)
            (lines (fst (unmark (CHR ''-'') s)) (upd p (\<lambda>n. n\<lparr>nType := MXML_TYPE_COMMENT\<rparr>) d)))"
    "feeds r (snd (unmark (CHR ''-'') s))" by (auto simp: mxml_node_read_comment_def)
  then show ?thesis by (auto simp: feeds_def)
qed

lemma cdata_reads:
  obtains r where "mxml_node_read_cdata p (mxml_refil_setup False [] (''CDATA['' @ s), d) =
      (r, upd p (\<lambda>n. n\<lparr>cData := Str (fst (unmark (CHR '']'') s))\<rparr>)
            (lines (fst (unmark (CHR '']'') s)) (upd p (\<lambda>n. n\<lparr>nType := MXML_TYPE_CDATA\<rparr>) d)))"
    "feeds r (snd (unmark (CHR '']'') s))"
proof -
  let ?d = "upd p (\<lambda>n. n\<lparr>nType := MXML_TYPE_CDATA\<rparr>) d"
  have m: "CHR '']'' \<noteq> LF" by simp
  from cdata_header_run [OF feeds_setup, of "''CDATA[''" s ?d] obtain r1 where
    1: "cdata_header ''CDATA['' (mxml_refil_setup False [] (''CDATA['' @ s), ?d) = (True, r1, ?d)" "feeds r1 s" by blast
  from marked_finish [OF 1(2) m, of ?d p] obtain r where
    "(let (b, z) = marked_loop (CHR '']'') 0 [] (r1, ?d) in finish_data p None b z) =
      (r, upd p (\<lambda>n. n\<lparr>cData := Str (fst (unmark (CHR '']'') s))\<rparr>) (lines (fst (unmark (CHR '']'') s)) ?d))"
    "feeds r (snd (unmark (CHR '']'') s))" .
  then show thesis using that 1(1) by (simp add: mxml_node_read_cdata_def)
qed

text \<open>CDATA without adjacent brackets is read as it stands, up to the end that follows it.\<close>

theorem cdata_kept:
  assumes "marks_alone (CHR '']'') t"
  shows "\<exists>r d'. mxml_node_read_cdata p (mxml_refil_setup False [] (''CDATA['' @ t @ '']]>'' @ s), d) = (r, d') \<and>
    bytes_left r = s \<and> nd d' p = (nd d p)\<lparr>nType := MXML_TYPE_CDATA, cData := Str t\<rparr> \<and>
    nLine d' = nLine d + int (count_list t LF)"
  by (rule cdata_reads [of p "t @ '']]>'' @ s" d])
    (use assms in \<open>auto simp: unmark_append lines_nLine nd_upd feeds_def\<close>)

theorem cdata_kept_witness:
  "\<forall>d. \<exists>r d'. mxml_node_read_cdata 0 (mxml_refil_setup False [] (''CDATA['' @ ''a[0]x'' @ '']]>'' @ ''<b/>''), d) = (r, d') \<and>
    bytes_left r = ''<b/>'' \<and> nd d' 0 = (nd d 0)\<lparr>nType := MXML_TYPE_CDATA, cData := Str ''a[0]x''\<rparr> \<and>
    nLine d' = nLine d + int (count_list ''a[0]x'' LF)"
  by (intro allI, rule cdata_kept) simp

text \<open>A bracket before the end hides it: of \<open>]]]>\<close> the reader makes data with one bracket less, and
  it goes on behind it. Two brackets inside the data lose one.
\<close>

theorem third_bracket_hides_end:
  assumes "marks_alone (CHR '']'') t" "marks_alone (CHR '']'') w"
  shows "\<exists>r d'. mxml_node_read_cdata p (mxml_refil_setup False [] (''CDATA['' @ t @ '']]]>'' @ w @ '']]>'' @ s), d) = (r, d') \<and>
    bytes_left r = s \<and> cData (nd d' p) = Str (t @ '']]>'' @ w)"
  by (rule cdata_reads [of p "t @ '']]]>'' @ w @ '']]>'' @ s" d])
    (use assms in \<open>auto simp: unmark_append unmark_plain put_byte_def lines_nLine nd_upd feeds_def\<close>)

theorem third_bracket_hides_end_witness:
  "\<forall>d. \<exists>r d'. mxml_node_read_cdata 0 (mxml_refil_setup False [] (''CDATA['' @ ''x[y'' @ '']]]>'' @ ''</t>'' @ '']]>'' @ []), d) = (r, d') \<and>
    bytes_left r = [] \<and> cData (nd d' 0) = Str (''x[y'' @ '']]>'' @ ''</t>'')"
  by (intro allI, rule third_bracket_hides_end) simp_all

section \<open>Entities\<close>

lemma strncmp_take: "n \<le> length xs \<Longrightarrow> strncmp_eq n (xs @ ys) s = strncmp_eq n xs s"
proof (induction n arbitrary: xs s)
  case (Suc n)
  then show ?case by (cases xs) (auto simp: Let_def)
qed simp

text \<open>
  The last byte of the name of an entity is not looked at: \<open>&amq;\<close> reads as an ampersand, and one letter
  and anything else is enough for the entities that have no other rival.
\<close>

theorem last_byte_of_entity_ignored:
  "entity (t @ [x]) = entity (t @ [y]) \<and> entity [CHR ''l'', x] = Some (CHR ''<'')"
  by (simp add: entity_def strncmp_take Let_def)

end
