(* ===== verification/XmlTree.thy ===== *)
theory XmlTree
  imports XmlReadProps
begin

text \<open>
  Whole documents: trees of tags with attributes and text, the store that holds a tree, the texts that
  show it, and the proof that reading such a text builds the tree.
\<close>

section \<open>Trees and their place in the store\<close>

datatype xtree = Tag bytes "(bytes \<times> bytes) list" bytes "xtree list"

definition attrs :: "(bytes \<times> bytes) list \<Rightarrow> (item \<times> item) list" where
  "attrs kvs = map (\<lambda>(n, v). (Str n, Str v)) kvs"

definition text_item :: "bytes \<Rightarrow> item" where
  "text_item t = (if t = [] then NIL else Str t)"

text \<open>The tree below \<open>q\<close> takes addresses below \<open>hi\<close>; a list of trees has the roots \<open>ys\<close> between \<open>lo\<close> and \<open>hi\<close>.\<close>

fun tree_at :: "xdoc \<Rightarrow> xtree \<Rightarrow> nat \<Rightarrow> nat \<Rightarrow> bool"
  and forest_at :: "xdoc \<Rightarrow> xtree list \<Rightarrow> nat list \<Rightarrow> nat \<Rightarrow> nat \<Rightarrow> bool"
where
  "tree_at d (Tag n kvs t ts) q hi \<longleftrightarrow>
     nType (nd d q) = MXML_TYPE_TAG \<and> cName (nd d q) = Str n \<and> aAttributes (nd d q) = Hash (attrs kvs) \<and>
     cData (nd d q) = text_item t \<and> (\<exists>ys. kids d q ys \<and> forest_at d ts ys (Suc q) hi)"
| "forest_at d [] ys lo hi \<longleftrightarrow> ys = [] \<and> lo \<le> hi"
| "forest_at d (t # ts) ys lo hi \<longleftrightarrow>
     (\<exists>y zs mid. ys = y # zs \<and> lo \<le> y \<and> y < mid \<and> tree_at d t y mid \<and> forest_at d ts zs mid hi)"

lemma forest_range: "forest_at d ts ys lo hi \<Longrightarrow> lo \<le> hi \<and> (\<forall>y \<in> set ys. lo \<le> y \<and> y < hi)"
  by (induction ts arbitrary: ys lo) fastforce+

lemma seg_cong:
  "(\<And>x. x \<in> set xs \<Longrightarrow> nd d' x = nd d x) \<Longrightarrow> seg d' par prev start stop xs = seg d par prev start stop xs"
  by (induction xs arbitrary: prev start) auto

definition same_body :: "xnode \<Rightarrow> xnode \<Rightarrow> bool" where
  "same_body n m \<longleftrightarrow> nType n = nType m \<and> cName n = cName m \<and> cData n = cData m \<and>
     aAttributes n = aAttributes m \<and> oChild n = oChild m"

text \<open>A tree stays where the nodes below its root are left alone, and the body of its root.\<close>

lemma tree_frame:
  "tree_at d t q hi \<Longrightarrow> same_body (nd d' q) (nd d q) \<Longrightarrow> (\<And>x. q < x \<Longrightarrow> x < hi \<Longrightarrow> nd d' x = nd d x) \<Longrightarrow>
     tree_at d' t q hi"
  and forest_frame:
  "forest_at d ts ys lo hi \<Longrightarrow> (\<And>x. x \<in> set ys \<Longrightarrow> same_body (nd d' x) (nd d x)) \<Longrightarrow>
     (\<And>x. lo \<le> x \<Longrightarrow> x < hi \<Longrightarrow> x \<notin> set ys \<Longrightarrow> nd d' x = nd d x) \<Longrightarrow> forest_at d' ts ys lo hi"
proof (induction d t q hi and d ts ys lo hi rule: tree_at_forest_at.induct)
  case (1 d n kvs t ts q hi)
  from 1(2) obtain ys where ys: "kids d q ys" "forest_at d ts ys (Suc q) hi" by auto
  have r: "nd d' x = nd d x" if "x \<in> set ys" for x using forest_range [OF ys(2)] that 1(4) by auto
  have "seg d' q None (oChild (nd d q)) None ys" using ys(1) seg_cong [of ys d' d] r by (simp add: kids_def)
  then have "kids d' q ys" using ys(1) 1(3) by (simp add: kids_def same_body_def)
  moreover have "forest_at d' ts ys (Suc q) hi" by (rule 1(1) [OF ys(2)]) (use r 1(4) in \<open>auto simp: same_body_def\<close>)
  ultimately show ?case using 1(2,3) by (auto simp: same_body_def)
next
  case (2 d ys lo hi)
  then show ?case by simp
next
  case (3 d t ts ys lo hi)
  from 3(3) obtain y zs mid where ys: "ys = y # zs" "lo \<le> y" "y < mid" "tree_at d t y mid" "forest_at d ts zs mid hi"
    by auto
  note rng = forest_range [OF ys(5)]
  have "nd d' x = nd d x" if "y < x" "x < mid" for x
    using that ys rng by (intro 3(5)) fastforce+
  then have "tree_at d' t y mid" by (intro 3(1) [OF ys(4)]) (use 3(4) ys(1) in auto)
  moreover have "forest_at d' ts zs mid hi" by (rule 3(2) [OF ys(5)]) (use 3(4,5) ys rng in auto)
  ultimately show ?case using ys by auto
qed

section \<open>Texts that show a tree\<close>

definition attributes_text :: "(bytes \<times> bytes) list \<Rightarrow> bytes" where
  "attributes_text kvs = concat (map (\<lambda>(n, v). attribute_text n v) kvs)"

definition blank :: "bytes \<Rightarrow> bool" where
  "blank w \<longleftrightarrow> list_all xml_space w"

text \<open>Blanks may stand before every tag, and around the text of a tag, which comes after its children.\<close>

inductive shown :: "xtree \<Rightarrow> bytes \<Rightarrow> bool"
  and shown_list :: "xtree list \<Rightarrow> bytes \<Rightarrow> bool"
where
  empty: "shown (Tag n kvs [] []) (CHR ''<'' # n @ attributes_text kvs @ ''/>'')"
| full: "shown_list ts b \<Longrightarrow> blank w1 \<Longrightarrow> blank w2 \<Longrightarrow>
    shown (Tag n kvs t ts)
      (CHR ''<'' # n @ attributes_text kvs @ CHR ''>'' # b @ w1 @ escaped t @ w2 @ CHR ''<'' # CHR ''/'' # n @ ''>'')"
| Nil: "shown_list [] []"
| Cons: "blank w \<Longrightarrow> shown t a \<Longrightarrow> shown_list ts b \<Longrightarrow> shown_list (t # ts) (w @ a @ b)"

fun name_ok :: "bytes \<Rightarrow> bool" where
  "name_ok [] = False"
| "name_ok (c # cs) = (is_alpha c \<and> list_all (\<lambda>c. name_char c \<or> c = CHR ''.'') cs)"

definition text_ok :: "bytes \<Rightarrow> bool" where
  "text_ok t \<longleftrightarrow> t = [] \<or> \<not> xml_space (hd t) \<and> \<not> is_space (last t)"

fun tree_ok :: "xtree \<Rightarrow> bool" where
  "tree_ok (Tag n kvs t ts) \<longleftrightarrow> name_ok n \<and> (\<forall>kv \<in> set kvs. attr_name_ok (fst kv)) \<and> distinct (map fst kvs) \<and>
     text_ok t \<and> (\<forall>u \<in> set ts. tree_ok u)"

section \<open>Reading the head of a tag\<close>

lemma name_loop_run:
  "\<lbrakk>feeds r (w @ c # s); list_all (\<lambda>c. name_char c \<or> c = CHR ''.'') w; c = CHR ''>'' \<or> c = CHR ''/'' \<or> xml_space c\<rbrakk> \<Longrightarrow>
   \<exists>r'. name_loop True buf r = (Some (buf @ w), r') \<and> feeds r' (c # s)"
proof (induction w arbitrary: r buf)
  case Nil
  have c: "\<not> is_alpha c" "\<not> is_alnum c" "c \<notin> {CHR ''_'', CHR ''-'', CHR ''.'', CHR '':''}"
    using Nil.prems(3) by (auto simp: xml_space_def ctype_defs)
  from Nil.prems(1) have "feeds r (c # s)" by simp
  then obtain r' where "mxml_refil_getc r = (Some c, r')" "feeds (mxml_refil_ungetc c r') (c # s)"
    by (rule feeds_Cons) blast
  then show ?case using c Nil.prems(3) by (subst name_loop.simps) auto
next
  case (Cons e w)
  then have "feeds r (e # w @ c # s)" by simp
  then obtain r' where r': "mxml_refil_getc r = (Some e, r')" "feeds r' (w @ c # s)" by (rule feeds_Cons) blast
  have e: "is_alpha e \<or> e = CHR ''_'' \<or> is_alnum e \<or> e = CHR ''-'' \<or> e = CHR ''.'' \<or> e = CHR '':''"
    using Cons.prems(2) by (auto simp: name_char_def)
  have "name_loop True buf r = name_loop True (buf @ [e]) r'" using r'(1) e by (subst name_loop.simps) auto
  then show ?case using Cons.IH [OF r'(2), of "buf @ [e]"] Cons.prems(2,3) by auto
qed

lemma name_read:
  assumes "feeds r (n @ c # s)" "name_ok n" "c = CHR ''>'' \<or> c = CHR ''/'' \<or> xml_space c"
  obtains r' where "mxml_node_read_name p (r, d) = (MXML_STATUS_OK, r', upd p (\<lambda>x. x\<lparr>cName := Str n\<rparr>) d)" "feeds r' (c # s)"
proof -
  obtain e w where n: "n = e # w" "is_alpha e" "list_all (\<lambda>c. name_char c \<or> c = CHR ''.'') w"
    using assms(2) by (cases n) auto
  then have "feeds r (e # w @ c # s)" using assms(1) by simp
  then obtain r1 where r1: "mxml_refil_getc r = (Some e, r1)" "feeds r1 (w @ c # s)" by (rule feeds_Cons) blast
  have "name_loop False [] r = name_loop True [e] r1" using r1(1) n(2) by (subst name_loop.simps) auto
  with name_loop_run [OF r1(2) n(3) assms(3), of "[e]"] n(1) obtain r' where
    "name_loop False [] r = (Some n, r')" "feeds r' (c # s)" by auto
  then show thesis using feeds_status by (intro that) (auto simp: mxml_node_read_name_def)
qed

lemma hash_put_new: "k \<notin> fst ` set kvs \<Longrightarrow> hash_put k v kvs = kvs @ [(k, v)]"
  by (induction kvs) auto

lemma attribute_none:
  assumes "feeds r (c # s)" "c = CHR ''>'' \<or> c = CHR ''/''"
  obtains r' where "mxml_attribute_read garbage p style (r, d) = Some (MXML_STATUS_DONE, None, r', d)" "feeds r' s"
proof -
  from assms(1) obtain r' where r': "mxml_refil_getc r = (Some c, r')" "feeds r' s" by (rule feeds_Cons) blast
  then show thesis using assms(2)
    by (intro that [of r'])
      (auto simp: mxml_attribute_read_def attr_loop.simps attr_char_def attr_begin_def xml_space_def count_line_def)
qed

lemma attributes_run:
  "\<lbrakk>feeds r (attributes_text kvs @ c # s); c = CHR ''>'' \<or> c = CHR ''/''; \<forall>kv \<in> set kvs. attr_name_ok (fst kv);
    distinct (map fst kvs); \<forall>kv \<in> set kvs. Str (fst kv) \<notin> fst ` set acc; \<not> STYLE_NOESCAPE style\<rbrakk> \<Longrightarrow>
   \<exists>r' w. attributes_loop garbage p style acc (r, d) = Some (acc @ attrs kvs, r', lines w d) \<and> feeds r' s"
proof (induction kvs arbitrary: r acc d)
  case Nil
  then have "feeds r (c # s)" by (simp add: attributes_text_def)
  from attribute_none [OF this Nil.prems(2), of garbage p style d] obtain r' where
    "mxml_attribute_read garbage p style (r, d) = Some (MXML_STATUS_DONE, None, r', d)" "feeds r' s" .
  then show ?case by (subst attributes_loop.simps) (auto simp: attrs_def intro!: exI [of _ "[]"])
next
  case (Cons kv kvs)
  obtain n v where kv: "kv = (n, v)" by fastforce
  have f: "feeds r (attribute_text n v @ attributes_text kvs @ c # s)" and n: "attr_name_ok n"
    using Cons.prems(1,3) kv by (simp_all add: attributes_text_def)
  from attribute_read [OF f n Cons.prems(6), of garbage p d] obtain r1 where
    r1: "mxml_attribute_read garbage p style (r, d) = Some (MXML_STATUS_OK, Some (n, v), r1, lines v d)"
      "feeds r1 (attributes_text kvs @ c # s)" .
  have new: "hash_put (Str n) (Str v) acc = acc @ [(Str n, Str v)]" using Cons.prems(5) kv by (intro hash_put_new) simp
  have "\<forall>kv \<in> set kvs. Str (fst kv) \<notin> fst ` set (acc @ [(Str n, Str v)])"
    using Cons.prems(4,5) kv by (auto simp: image_iff)
  from Cons.IH [OF r1(2) Cons.prems(2) _ _ this Cons.prems(6), of "lines v d"] Cons.prems(3,4) obtain r' w where
    "attributes_loop garbage p style (acc @ [(Str n, Str v)]) (r1, lines v d) =
       Some (acc @ attrs (kv # kvs), r', lines w (lines v d))" "feeds r' s" by (auto simp: attrs_def kv)
  moreover have "lines w (lines v d) = lines (v @ w) d" by (simp add: lines_def)
  ultimately show ?case using r1(1) new by (subst attributes_loop.simps) auto
qed

text \<open>What the head of a tag does to the document, the line apart.\<close>

definition same_doc :: "xdoc \<Rightarrow> xdoc \<Rightarrow> bool" where
  "same_doc d d' \<longleftrightarrow> nodes d' = nodes d \<and> next_node d' = next_node d \<and> nNodeCount d' = nNodeCount d"

lemma same_doc_lines [simp]: "same_doc d (lines w d)"
  by (simp add: same_doc_def lines_nLine)

definition tag_node :: "bytes \<Rightarrow> (bytes \<times> bytes) list \<Rightarrow> xnode \<Rightarrow> xnode" where
  "tag_node n kvs x = x\<lparr>nType := MXML_TYPE_TAG, cName := Str n, aAttributes := Hash (attrs kvs)\<rparr>"

lemma attributes_first:
  obtains (none) "attributes_text kvs = []" | (some) w where "attributes_text kvs = SPACE # w"
  by (cases kvs) (auto simp: attributes_text_def attribute_text_def split: prod.splits)

lemma head_read:
  assumes f: "feeds r (n @ attributes_text kvs @ c # s)" and c: "c = CHR ''>'' \<or> c = CHR ''/''"
    and ok: "name_ok n" "\<forall>kv \<in> set kvs. attr_name_ok (fst kv)" "distinct (map fst kvs)" "\<not> STYLE_NOESCAPE style"
  obtains r1 d' where "same_doc (upd p (tag_node n kvs) d) d'" "feeds r1 s"
    "\<And>r2 e. mxml_refil_getc r1 = (Some e, r2) \<Longrightarrow> r_status r2 = MXML_STATUS_OK \<Longrightarrow>
       read_tag_head garbage p style (r, d) =
         Some (if e = CHR ''>'' then (False, r2, d') else (True, mxml_refil_ungetc e r2, d'))"
proof -
  let ?d = "upd p (\<lambda>n. n\<lparr>nType := MXML_TYPE_TAG\<rparr>) d"
  obtain e w where e: "attributes_text kvs @ c # s = e # w" "e = CHR ''>'' \<or> e = CHR ''/'' \<or> xml_space e"
    using c by (cases rule: attributes_first [of kvs]) (auto simp: xml_space_def)
  from name_read [OF f [unfolded e(1)] ok(1) e(2), of p ?d] obtain ra where
    a: "mxml_node_read_name p (r, ?d) = (MXML_STATUS_OK, ra, upd p (\<lambda>x. x\<lparr>cName := Str n\<rparr>) ?d)"
      "feeds ra (attributes_text kvs @ c # s)" using e(1) by auto
  from attributes_run [OF a(2) c ok(2,3) _ ok(4), of "[]" garbage p "upd p (\<lambda>x. x\<lparr>cName := Str n\<rparr>) ?d"] obtain rb w where
    b: "attributes_loop garbage p style [] (ra, upd p (\<lambda>x. x\<lparr>cName := Str n\<rparr>) ?d) =
         Some (attrs kvs, rb, lines w (upd p (\<lambda>x. x\<lparr>cName := Str n\<rparr>) ?d))" "feeds rb s" by auto
  let ?d' = "upd p (\<lambda>x. x\<lparr>aAttributes := Hash (attrs kvs)\<rparr>) (lines w (upd p (\<lambda>x. x\<lparr>cName := Str n\<rparr>) ?d))"
  have doc: "same_doc (upd p (tag_node n kvs) d) ?d'"
    by (auto simp: same_doc_def lines_nLine upd_def tag_node_def)
  have "read_tag_head garbage p style (r, d) =
         Some (if e = CHR ''>'' then (False, r2, ?d') else (True, mxml_refil_ungetc e r2, ?d'))"
    if "mxml_refil_getc rb = (Some e, r2)" "r_status r2 = MXML_STATUS_OK" for e r2
    using that a(1) b feeds_status [OF b(2)]
    by (simp add: read_tag_head_def mxml_node_read_attributes_def Let_def)
  then show thesis using that doc b(2) by blast
qed

lemma head_empty:
  assumes f: "feeds r (n @ attributes_text kvs @ CHR ''/'' # CHR ''>'' # s)"
    and ok: "name_ok n" "\<forall>kv \<in> set kvs. attr_name_ok (fst kv)" "distinct (map fst kvs)" "\<not> STYLE_NOESCAPE style"
  obtains r' d' where "read_tag_head garbage p style (r, d) = Some (False, r', d')" "feeds r' s"
    "same_doc (upd p (tag_node n kvs) d) d'"
proof (rule head_read [OF f _ ok, of p d garbage])
  fix r1 d' assume d': "same_doc (upd p (tag_node n kvs) d) d'" and f1: "feeds r1 (CHR ''>'' # s)"
    and run: "\<And>r2 e. mxml_refil_getc r1 = (Some e, r2) \<Longrightarrow> r_status r2 = MXML_STATUS_OK \<Longrightarrow>
       read_tag_head garbage p style (r, d) =
         Some (if e = CHR ''>'' then (False, r2, d') else (True, mxml_refil_ungetc e r2, d'))"
  from f1 obtain r2 where r2: "mxml_refil_getc r1 = (Some (CHR ''>''), r2)" "feeds r2 s" by (rule feeds_Cons) blast
  show thesis using run [OF r2(1) feeds_status [OF r2(2)]] r2(2) d' by (intro that) auto
qed simp

lemma head_full:
  assumes f: "feeds r (n @ attributes_text kvs @ CHR ''>'' # c # s)" and c: "c \<noteq> CHR ''>''"
    and ok: "name_ok n" "\<forall>kv \<in> set kvs. attr_name_ok (fst kv)" "distinct (map fst kvs)" "\<not> STYLE_NOESCAPE style"
  obtains r' d' where "read_tag_head garbage p style (r, d) = Some (True, r', d')" "feeds r' (c # s)"
    "same_doc (upd p (tag_node n kvs) d) d'"
proof (rule head_read [OF f _ ok, of p d garbage])
  fix r1 d' assume d': "same_doc (upd p (tag_node n kvs) d) d'" and f1: "feeds r1 (c # s)"
    and run: "\<And>r2 e. mxml_refil_getc r1 = (Some e, r2) \<Longrightarrow> r_status r2 = MXML_STATUS_OK \<Longrightarrow>
       read_tag_head garbage p style (r, d) =
         Some (if e = CHR ''>'' then (False, r2, d') else (True, mxml_refil_ungetc e r2, d'))"
  from f1 obtain r2 where r2: "mxml_refil_getc r1 = (Some c, r2)" "feeds r2 s" "feeds (mxml_refil_ungetc c r2) (c # s)"
    by (rule feeds_Cons) blast
  show thesis using run [OF r2(1) feeds_status [OF r2(2)]] c r2(3) d' by (intro that) auto
qed simp

section \<open>The end of a tag\<close>

lemma closing_run:
  "\<lbrakk>feeds r (w @ CHR ''>'' # s); CHR ''>'' \<notin> set w; SPACE \<notin> set w; length buf + length w < n\<rbrakk> \<Longrightarrow>
   \<exists>r'. closing_loop n buf r = (buf @ w, Some (CHR ''>''), r') \<and> feeds r' s"
proof (induction w arbitrary: r buf)
  case Nil
  then have "feeds r (CHR ''>'' # s)" by simp
  then obtain r' where "mxml_refil_getc r = (Some (CHR ''>''), r')" "feeds r' s" by (rule feeds_Cons) blast
  then show ?case by (subst closing_loop.simps) auto
next
  case (Cons c w)
  then have "feeds r (c # w @ CHR ''>'' # s)" by simp
  then obtain r1 where r1: "mxml_refil_getc r = (Some c, r1)" "feeds r1 (w @ CHR ''>'' # s)" by (rule feeds_Cons) blast
  have "closing_loop n buf r = closing_loop n (buf @ [c]) r1" using r1(1) Cons.prems by (subst closing_loop.simps) auto
  with Cons.IH [OF r1(2), of "buf @ [c]"] Cons.prems show ?case by auto
qed

lemma strncmp_same: "strncmp_eq (length n) n (n @ m)"
  by (induction n) (simp_all add: Let_def)

lemma closing_read:
  assumes f: "feeds r (n @ CHR ''>'' # s)" and n: "name_ok n" "cName (nd d p) = Str n"
  obtains r' where "mxml_node_read_closing garbage p (r, d) = (r', d)" "feeds r' s"
proof -
  have "CHR ''>'' \<notin> set n \<and> SPACE \<notin> set n"
    using n(1) by (cases n) (auto simp: list_all_iff name_char_def ctype_defs)
  with closing_run [OF f, of "[]" "length n + 1"] obtain r' where
    "closing_loop (length n + 1) [] r = (n, Some (CHR ''>''), r')" "feeds r' s" by auto
  then show thesis using n(2) feeds_status [of r' s] strncmp_same [of n]
    by (intro that [of r']) (simp_all add: mxml_node_read_closing_def Let_def)
qed

lemma data_scan_none:
  "seg d par prev start None xs \<Longrightarrow> (\<forall>x \<in> set xs. nType (nd d x) \<noteq> MXML_TYPE_DATA) \<Longrightarrow> data_scan found start d = Some found"
  by (induction xs arbitrary: prev start) (subst data_scan.simps, auto)+

lemma data_scan_last:
  "seg d par prev start None (xs @ [z]) \<Longrightarrow> (\<forall>x \<in> set xs. nType (nd d x) \<noteq> MXML_TYPE_DATA) \<Longrightarrow>
   nType (nd d z) = MXML_TYPE_DATA \<Longrightarrow> data_scan None start d = Some (Some z)"
proof (induction xs arbitrary: prev start)
  case Nil
  then have "start = Some z" "oNext (nd d z) = None" by auto
  then show ?case using Nil(3) by (simp add: data_scan.simps)
next
  case (Cons x xs)
  then show ?case by (subst data_scan.simps) auto
qed

section \<open>What adding and unlinking leave alone\<close>

lemma kids_cong: "nodes d' = nodes d \<Longrightarrow> kids d' p xs = kids d p xs"
  using seg_cong [of xs d' d] by (simp add: kids_def)

text \<open>Children were added to \<open>p\<close> behind \<open>xs\<close>, and nodes that are new; nothing else changed.\<close>

definition grown :: "xdoc \<Rightarrow> nat \<Rightarrow> nat list \<Rightarrow> xdoc \<Rightarrow> bool" where
  "grown d p xs d' \<longleftrightarrow> next_node d \<le> next_node d' \<and>
     (\<forall>x. x < next_node d \<longrightarrow> x \<noteq> p \<longrightarrow> x \<notin> set xs \<longrightarrow> nd d' x = nd d x) \<and>
     (\<forall>x \<in> set xs. \<exists>y. nd d' x = (nd d x)\<lparr>oNext := y\<rparr>) \<and> (\<exists>y. nd d' p = (nd d p)\<lparr>oChild := y\<rparr>)"

lemma same_links [intro!]: "\<exists>y. n = n\<lparr>oNext := y\<rparr>" "\<exists>y. n = n\<lparr>oChild := y\<rparr>" for n :: xnode
  by (rule exI [of _ "oNext n"], simp, rule exI [of _ "oChild n"], simp)

lemma grown_refl: "nodes d' = nodes d \<Longrightarrow> next_node d \<le> next_node d' \<Longrightarrow> grown d p xs d'"
  by (auto simp: grown_def)

lemma grown_trans:
  assumes "grown d p xs d1" "grown d1 p (xs @ ys) d2" "\<forall>y \<in> set ys. next_node d \<le> y"
  shows "grown d p xs d2"
  unfolding grown_def
proof (intro conjI allI ballI impI)
  show "next_node d \<le> next_node d2" using assms(1,2) by (simp add: grown_def)
  show "nd d2 x = nd d x" if x: "x < next_node d" "x \<noteq> p" "x \<notin> set xs" for x
  proof -
    have "x < next_node d1" "x \<notin> set (xs @ ys)" using assms(1,3) x by (auto simp: grown_def)
    then have "nd d2 x = nd d1 x" using assms(2) x(2) by (simp add: grown_def)
    then show ?thesis using assms(1) x by (simp add: grown_def)
  qed
  show "\<exists>y. nd d2 x = (nd d x)\<lparr>oNext := y\<rparr>" if "x \<in> set xs" for x
  proof -
    from assms(1) that obtain y where "nd d1 x = (nd d x)\<lparr>oNext := y\<rparr>" by (auto simp: grown_def)
    moreover from assms(2) that obtain z where "nd d2 x = (nd d1 x)\<lparr>oNext := z\<rparr>" by (auto simp: grown_def)
    ultimately show ?thesis by auto
  qed
  from assms(1) obtain y where "nd d1 p = (nd d p)\<lparr>oChild := y\<rparr>" by (auto simp: grown_def)
  moreover from assms(2) obtain z where "nd d2 p = (nd d1 p)\<lparr>oChild := z\<rparr>" by (auto simp: grown_def)
  ultimately show "\<exists>y. nd d2 p = (nd d p)\<lparr>oChild := y\<rparr>" by auto
qed

lemma add_below_frame:
  assumes k: "kids d tg xs" and p: "p \<notin> set xs" "p \<noteq> tg" "oNext (nd d p) = None" "oPrev (nd d p) = None"
  obtains b where "mxml_node_add_below tg p d = Some b" "kids b tg (xs @ [p])" "next_node b = next_node d"
    "nNodeCount b = nNodeCount d" "\<And>x. x \<noteq> tg \<Longrightarrow> x \<noteq> p \<Longrightarrow> x \<notin> set xs \<Longrightarrow> nd b x = nd d x"
    "\<And>x. x \<in> set xs \<Longrightarrow> \<exists>y. nd b x = (nd d x)\<lparr>oNext := y\<rparr>" "\<exists>y. nd b tg = (nd d tg)\<lparr>oChild := y\<rparr>"
    "\<exists>y. nd b p = (nd d p)\<lparr>oParent := Some tg, oPrev := y\<rparr>"
proof -
  from add_below_appends [OF assms] obtain b where b: "mxml_node_add_below tg p d = Some b" "kids b tg (xs @ [p])" by blast
  have tg: "tg \<notin> set xs" using k by (simp add: kids_def)
  show thesis
  proof (cases xs rule: rev_cases)
    case Nil
    then have "oChild (nd d tg) = None" using k by (simp add: kids_def)
    then have eq: "b = upd tg (\<lambda>n. n\<lparr>oChild := Some p\<rparr>) (upd p (\<lambda>n. n\<lparr>oParent := Some tg\<rparr>) d)"
      using b(1) p(2) by (simp add: mxml_node_add_below_def nd_upd Let_def)
    show thesis using Nil p by (intro that [OF b]) (auto simp: eq nd_upd intro: exI [of _ "Some p"] exI [of _ None])
  next
    case (snoc ys l)
    let ?d = "upd p (\<lambda>n. n\<lparr>oParent := Some tg\<rparr>) d"
    have s: "seg d tg None (oChild (nd d tg)) None (ys @ [l])" using k snoc by (simp add: kids_def)
    then obtain c where c: "oChild (nd d tg) = Some c" by (cases ys) auto
    have "seg ?d tg None (Some c) None (ys @ [l])" using s c p(1) snoc by (simp del: last_of_snoc)
    from last_sibling_seg [OF this] have
      eq: "b = upd p (\<lambda>n. n\<lparr>oPrev := Some l\<rparr>) (upd l (\<lambda>n. n\<lparr>oNext := Some p\<rparr>) ?d)"
      using b(1) c p(2) by (simp add: mxml_node_add_below_def nd_upd Let_def)
    show thesis using snoc p tg
      by (intro that [OF b])
        (auto simp: eq nd_upd intro: exI [of _ "Some p"] exI [of _ "Some l"])
  qed
qed

text \<open>The last child is unlinked again.\<close>

lemma unlink_last_frame:
  assumes k: "kids d tg (xs @ [p])" and p: "p \<noteq> tg"
  shows "kids (mxml_node_unlink p d) tg xs" "next_node (mxml_node_unlink p d) = next_node d"
    "nNodeCount (mxml_node_unlink p d) = nNodeCount d"
    "\<And>x. x \<noteq> tg \<Longrightarrow> x \<noteq> p \<Longrightarrow> x \<notin> set xs \<Longrightarrow> nd (mxml_node_unlink p d) x = nd d x"
    "\<And>x. x \<in> set xs \<Longrightarrow> \<exists>y. nd (mxml_node_unlink p d) x = (nd d x)\<lparr>oNext := y\<rparr>"
    "\<exists>y. nd (mxml_node_unlink p d) tg = (nd d tg)\<lparr>oChild := y\<rparr>"
proof -
  have s: "oPrev (nd d p) = last_of None xs" "oParent (nd d p) = Some tg" "oNext (nd d p) = None"
    using k by (auto simp: kids_def seg_append)
  have dist: "distinct (xs @ [p])" "tg \<notin> set xs" using k by (auto simp: kids_def)
  show "kids (mxml_node_unlink p d) tg xs" using unlink_removes [of d tg xs p "[]"] k by simp
  show "next_node (mxml_node_unlink p d) = next_node d" "nNodeCount (mxml_node_unlink p d) = nNodeCount d"
    by (auto simp: mxml_node_unlink_def Let_def split: option.splits)
  show "nd (mxml_node_unlink p d) x = nd d x" if "x \<noteq> tg" "x \<noteq> p" "x \<notin> set xs" for x
    using that s dist by (cases xs rule: rev_cases) (auto simp: mxml_node_unlink_def nd_upd Let_def)
  show "\<exists>y. nd (mxml_node_unlink p d) x = (nd d x)\<lparr>oNext := y\<rparr>" if "x \<in> set xs" for x
    using that s dist p
    by (cases xs rule: rev_cases)
      (auto simp: mxml_node_unlink_def nd_upd Let_def intro: exI [of _ None])
  show "\<exists>y. nd (mxml_node_unlink p d) tg = (nd d tg)\<lparr>oChild := y\<rparr>"
    using s dist p
    by (cases xs rule: rev_cases)
      (auto simp: mxml_node_unlink_def nd_upd Let_def intro: exI [of _ None])
qed

section \<open>Steps of the reader\<close>

lemma node_go:
  assumes "feeds r (c # s)" "node_char st c = Go st'"
  obtains r' where "node_loop garbage style p st (r, d) =
    node_loop garbage style p st' (r', if st = 0 then count_line c d else d)" "feeds r' s"
proof -
  from assms(1) obtain r' where "mxml_refil_getc r = (Some c, r')" "feeds r' s" by (rule feeds_Cons) blast
  then show thesis using assms(2) feeds_status by (intro that) (subst node_loop.simps, auto)
qed

lemma node_blanks:
  "feeds r (w @ s) \<Longrightarrow> blank w \<Longrightarrow>
   \<exists>r'. node_loop garbage style p 0 (r, d) = node_loop garbage style p 0 (r', lines w d) \<and> feeds r' s"
proof (induction w arbitrary: r d)
  case Nil
  then show ?case by auto
next
  case (Cons c w)
  then have "feeds r (c # w @ s)" "node_char 0 c = Go 0" by (simp_all add: blank_def node_char_def)
  from node_go [OF this, of garbage style p d] obtain r' where
    "node_loop garbage style p 0 (r, d) = node_loop garbage style p 0 (r', count_line c d)" "feeds r' (w @ s)" by auto
  then show ?case using Cons.IH [of r' "count_line c d"] Cons.prems(2) by (simp add: blank_def)
qed

text \<open>What follows the reading of the node \<open>q\<close> with the result \<open>res\<close>.\<close>

definition after_node ::
  "(nat \<Rightarrow> char) \<Rightarrow> int \<Rightarrow> nat \<Rightarrow> nat \<Rightarrow> (bool \<times> refil \<times> xdoc) option \<Rightarrow> (int \<times> refil \<times> xdoc) option"
where
  "after_node garbage style p q res = do {
      (deep, y) \<leftarrow> res;
      y \<leftarrow> (if deep then do { (s, y) \<leftarrow> node_loop garbage style q 0 y; Some y } else Some y);
      if r_status (fst y) = MXML_STATUS_OK then do {
        d \<leftarrow> mxml_node_add_below p q (snd y);
        node_loop garbage style p 0 (fst y, hbxml_doc_new_node 1 d)
      }
      else Some (r_status (fst y), y)
    }"

text \<open>A node that begins with the byte \<open>c\<close>, after \<open>st\<close>.\<close>

lemma node_begins:
  assumes "feeds r (c # s)" "node_char st c = New k" "pushes_back k"
  obtains r' where "feeds r' (c # s)" "node_loop garbage style p st (r, d) = after_node garbage style p (next_node d) (read_kind garbage style k (next_node d) (r', snd (mxml_node_new True d)))"
proof -
  from assms(1) obtain r' where r': "mxml_refil_getc r = (Some c, r')" "feeds r' s" "feeds (mxml_refil_ungetc c r') (c # s)"
    by (rule feeds_Cons) blast
  show thesis using r'(1) assms(2,3) feeds_status [OF r'(2)]
    by (intro that [OF r'(3)]) (subst node_loop.simps, simp add: mxml_node_new_def Let_def after_node_def)
qed

lemma new_node_facts:
  "next_node (snd (mxml_node_new True d)) = Suc (next_node d)" "nNodeCount (snd (mxml_node_new True d)) = nNodeCount d"
  "nd (snd (mxml_node_new True d)) x = (if x = next_node d then new_node\<lparr>nBeginLine := INum (nLine d)\<rparr> else nd d x)"
  by (simp_all add: mxml_node_new_def Let_def)

lemma count_fields [simp]:
  "nodes (hbxml_doc_new_node k d) = nodes d" "next_node (hbxml_doc_new_node k d) = next_node d"
  "nNodeCount (hbxml_doc_new_node k d) = nNodeCount d + k"
  by (simp_all add: hbxml_doc_new_node_def)

text \<open>The node \<open>q\<close> was read and becomes a child of \<open>p\<close>.\<close>

definition attached :: "xdoc \<Rightarrow> nat \<Rightarrow> nat list \<Rightarrow> xdoc \<Rightarrow> xdoc \<Rightarrow> bool" where
  "attached d p xs d1 d' \<longleftrightarrow> kids d' p (xs @ [next_node d]) \<and> grown d p xs d' \<and> next_node d' = next_node d1 \<and>
     nNodeCount d' = nNodeCount d1 + 1 \<and> (\<exists>y. nd d' (next_node d) = (nd d1 (next_node d))\<lparr>oParent := Some p, oPrev := y\<rparr>) \<and>
     (\<forall>x > next_node d. nd d' x = nd d1 x)"

lemma attach:
  assumes k: "kids d p xs" "p < next_node d" "\<forall>x \<in> set xs. x < next_node d"
    and old: "next_node d < next_node d1" "\<And>x. x < next_node d \<Longrightarrow> nd d1 x = nd d x"
    and q: "oNext (nd d1 (next_node d)) = None" "oPrev (nd d1 (next_node d)) = None"
  obtains b where "mxml_node_add_below p (next_node d) d1 = Some b" "attached d p xs d1 (hbxml_doc_new_node 1 b)"
proof -
  let ?q = "next_node d"
  have k1: "kids d1 p xs" using k old(2) seg_cong [of xs d1 d] by (simp add: kids_def)
  have new: "?q \<notin> set xs" "?q \<noteq> p" using k(2,3) by auto
  from add_below_frame [OF k1 new q] obtain b where
    b: "mxml_node_add_below p ?q d1 = Some b" "kids b p (xs @ [?q])" "next_node b = next_node d1"
    "nNodeCount b = nNodeCount d1" "\<And>x. x \<noteq> p \<Longrightarrow> x \<noteq> ?q \<Longrightarrow> x \<notin> set xs \<Longrightarrow> nd b x = nd d1 x"
    "\<And>x. x \<in> set xs \<Longrightarrow> \<exists>y. nd b x = (nd d1 x)\<lparr>oNext := y\<rparr>" "\<exists>y. nd b p = (nd d1 p)\<lparr>oChild := y\<rparr>"
    "\<exists>y. nd b ?q = (nd d1 ?q)\<lparr>oParent := Some p, oPrev := y\<rparr>" by metis
  let ?b = "hbxml_doc_new_node 1 b"
  have "grown d p xs ?b" using b(3,5-7) k(2,3) old by (auto simp: grown_def)
  moreover have "kids ?b p (xs @ [?q])" using b(2) kids_cong [of ?b b] by simp
  moreover have "nd ?b x = nd d1 x" if "x > ?q" for x
  proof -
    have "x \<noteq> p" "x \<notin> set xs" using k(2,3) that by auto
    then show ?thesis using b(5) that by simp
  qed
  ultimately have "attached d p xs d1 ?b" using b(3,4,8) by (simp add: attached_def)
  then show thesis by (rule that [OF b(1)])
qed

lemma node_closes:
  assumes "feeds r (CHR ''<'' # CHR ''/'' # s)"
  obtains r' where "node_loop garbage style p 0 (r, d) = close_node garbage p (r', d)" "feeds r' s"
proof -
  have "node_char 0 (CHR ''<'') = Go 1" by (simp add: node_char_def xml_space_def)
  from node_go [OF assms this, of garbage style p d] obtain r1 where
    1: "node_loop garbage style p 0 (r, d) = node_loop garbage style p 1 (r1, d)" "feeds r1 (CHR ''/'' # s)"
    by (auto simp: count_line_def)
  from 1(2) obtain r' where r': "mxml_refil_getc r1 = (Some (CHR ''/''), r')" "feeds r' s" by (rule feeds_Cons) blast
  have "node_loop garbage style p 1 (r1, d) = close_node garbage p (r', d)"
    using r'(1) feeds_status [OF r'(2)] by (subst node_loop.simps) (simp add: node_char_def)
  with 1(1) show thesis using r'(2) by (intro that) simp
qed

text \<open>What the end of the tag \<open>q\<close> with the children \<open>ys\<close> leaves.\<close>

definition finished :: "bytes \<Rightarrow> xdoc \<Rightarrow> nat \<Rightarrow> nat list \<Rightarrow> xdoc \<Rightarrow> bool" where
  "finished t d q ys d' \<longleftrightarrow> kids d' q ys \<and> next_node d \<le> next_node d' \<and> nNodeCount d' = nNodeCount d \<and>
     (\<forall>x < next_node d. x \<noteq> q \<longrightarrow> x \<notin> set ys \<longrightarrow> nd d' x = nd d x) \<and>
     (\<forall>x \<in> set ys. \<exists>y. nd d' x = (nd d x)\<lparr>oNext := y\<rparr>) \<and>
     (\<exists>y. nd d' q = (nd d q)\<lparr>cData := text_item t, oChild := y\<rparr>)"

lemma finish_empty:
  assumes f: "feeds r (CHR ''<'' # CHR ''/'' # n @ CHR ''>'' # s)" and n: "name_ok n" "cName (nd d q) = Str n"
    and k: "kids d q ys" "\<forall>y \<in> set ys. nType (nd d y) \<noteq> MXML_TYPE_DATA" "cData (nd d q) = NIL"
  obtains r' d' where "node_loop garbage style q 0 (r, d) = Some (MXML_STATUS_OK, r', d')" "feeds r' s" "finished [] d q ys d'"
proof -
  from node_closes [OF f, of garbage style q d] obtain r1 where
    1: "node_loop garbage style q 0 (r, d) = close_node garbage q (r1, d)" "feeds r1 (n @ CHR ''>'' # s)" .
  from closing_read [OF 1(2) n(1), of d q garbage] n(2) obtain r2 where
    2: "mxml_node_read_closing garbage q (r1, d) = (r2, d)" "feeds r2 s" by auto
  have "data_scan None (oChild (nd d q)) d = Some None" using k by (intro data_scan_none) (auto simp: kids_def)
  then have "close_node garbage q (r1, d) = Some (MXML_STATUS_OK, r2, d)"
    using 2(1) feeds_status [OF 2(2)] by (simp add: close_node_def)
  moreover have "\<exists>y. nd d q = (nd d q)\<lparr>cData := text_item [], oChild := y\<rparr>"
    using k(3) by (intro exI [of _ "oChild (nd d q)"]) (simp add: text_item_def)
  ultimately show thesis using that [OF _ 2(2)] k(1) 1(1) by (auto simp: finished_def)
qed

lemma escaped_first:
  assumes "t \<noteq> []" "\<not> xml_space (hd t)"
  obtains c w where "escaped t = c # w" "c \<noteq> CHR ''<''" "c \<noteq> CHR ''>''" "\<not> xml_space c"
proof -
  obtain e u where t: "t = e # u" using assms(1) by (cases t) auto
  show thesis
    using assms(2) t by (intro that [of "hd (xml_escape e)" "tl (xml_escape e) @ escaped u"])
      (auto simp: xml_escape_def xml_space_def)
qed

lemma finish_text:
  assumes f: "feeds r (escaped t @ w @ CHR ''<'' # CHR ''/'' # n @ CHR ''>'' # s)"
    and t: "t \<noteq> []" "text_ok t" "blank w" "\<not> STYLE_NOESCAPE style"
    and n: "name_ok n" "cName (nd d q) = Str n"
    and k: "kids d q ys" "\<forall>y \<in> set ys. nType (nd d y) \<noteq> MXML_TYPE_DATA" "q < next_node d" "\<forall>y \<in> set ys. y < next_node d"
  obtains r' d' where "node_loop garbage style q 0 (r, d) = Some (MXML_STATUS_OK, r', d')" "feeds r' s" "finished t d q ys d'"
proof -
  let ?z = "next_node d"
  let ?d1 = "snd (mxml_node_new True d)"
  let ?data = "\<lambda>w. upd ?z (\<lambda>n. n\<lparr>nType := MXML_TYPE_DATA, cData := Str t\<rparr>) (lines w ?d1)"
  from t(1,2) have "\<not> xml_space (hd t)" by (simp add: text_ok_def)
  from escaped_first [OF t(1) this] obtain c u where c: "escaped t = c # u" "c \<noteq> CHR ''<''" "\<not> xml_space c" .
  have "node_char 0 c = New K_data" "pushes_back K_data" using c by (simp_all add: node_char_def pushes_back_def)
  from node_begins [OF f [unfolded c(1) append_Cons] this, of garbage style q d] obtain r1 where
    1: "feeds r1 (escaped t @ w @ CHR ''<'' # CHR ''/'' # n @ CHR ''>'' # s)"
      "node_loop garbage style q 0 (r, d) = after_node garbage style q ?z (read_kind garbage style K_data ?z (r1, ?d1))" unfolding c(1) append_Cons .
  have tl: "\<not> is_space (last t)" "list_all xml_space w" using t by (simp_all add: text_ok_def blank_def)
  from data_read [OF 1(1) tl(2) t(1) tl(1) t(4), of ?z ?d1] obtain r2 where
    2: "mxml_node_read_data ?z style (r1, ?d1) = (r2, ?data (t @ w))" "feeds r2 (CHR ''<'' # CHR ''/'' # n @ CHR ''>'' # s)" .
  let ?d2 = "?data (t @ w)"
  have d2: "next_node ?d2 = Suc ?z" "nNodeCount ?d2 = nNodeCount d" "\<And>x. x < ?z \<Longrightarrow> nd ?d2 x = nd d x"
    "nType (nd ?d2 ?z) = MXML_TYPE_DATA" "cData (nd ?d2 ?z) = Str t" "oNext (nd ?d2 ?z) = None" "oPrev (nd ?d2 ?z) = None"
    by (simp_all add: nd_upd lines_nLine new_node_facts new_node_def)
  from attach [OF k(1,3,4), of ?d2] d2 obtain b where
    b: "mxml_node_add_below q ?z ?d2 = Some b" "attached d q ys ?d2 (hbxml_doc_new_node 1 b)" by auto
  let ?d3 = "hbxml_doc_new_node 1 b"
  have 3: "node_loop garbage style q 0 (r, d) = node_loop garbage style q 0 (r2, ?d3)"
    using 1(2) 2(1) b(1) feeds_status [OF 2(2)] by (simp add: read_kind_def after_node_def)
  have k3: "kids ?d3 q (ys @ [?z])" and g: "grown d q ys ?d3" and z3: "nType (nd ?d3 ?z) = MXML_TYPE_DATA" "cData (nd ?d3 ?z) = Str t"
    and nx: "next_node ?d3 = Suc ?z" "nNodeCount ?d3 = nNodeCount d + 1"
    using b(2) d2 unfolding attached_def by auto
  have ty: "nType (nd ?d3 y) \<noteq> MXML_TYPE_DATA" if "y \<in> set ys" for y
    using g k(2) that by (fastforce simp: grown_def)
  from g obtain oc where q3: "nd ?d3 q = (nd d q)\<lparr>oChild := oc\<rparr>" by (auto simp: grown_def)
  from node_closes [OF 2(2), of garbage style q ?d3] obtain r3 where
    4: "node_loop garbage style q 0 (r2, ?d3) = close_node garbage q (r3, ?d3)" "feeds r3 (n @ CHR ''>'' # s)" .
  from closing_read [OF 4(2) n(1), of ?d3 q garbage] n(2) q3 obtain r4 where
    5: "mxml_node_read_closing garbage q (r3, ?d3) = (r4, ?d3)" "feeds r4 s" by auto
  have scan: "data_scan None (oChild (nd ?d3 q)) ?d3 = Some (Some ?z)"
    using k3 ty z3(1) by (intro data_scan_last) (auto simp: kids_def)
  let ?d4 = "upd q (\<lambda>n. n\<lparr>cData := Str t\<rparr>) ?d3"
  let ?d5 = "hbxml_doc_new_node (- 1) (mxml_node_unlink ?z ?d4)"
  have 6: "node_loop garbage style q 0 (r, d) = Some (MXML_STATUS_OK, r4, ?d5)"
    using 3 4(1) 5(1) feeds_status [OF 5(2)] scan z3(2) by (simp add: close_node_def)
  have q4: "q \<notin> set (ys @ [?z])" using k3 by (simp add: kids_def)
  have k4: "kids ?d4 q (ys @ [?z])" using k3 q4 unfolding kids_def by (simp add: nd_upd del: seg.simps)
  have zq: "?z \<noteq> q" using k(3) by simp
  note un = unlink_last_frame [OF k4 zq]
  have "finished t d q ys ?d5"
    unfolding finished_def
  proof (intro conjI allI ballI impI)
    show "kids ?d5 q ys" using un(1) kids_cong [of ?d5 "mxml_node_unlink ?z ?d4"] by simp
    show "next_node d \<le> next_node ?d5" "nNodeCount ?d5 = nNodeCount d" using un(2,3) nx by simp_all
    show "nd ?d5 x = nd d x" if "x < next_node d" "x \<noteq> q" "x \<notin> set ys" for x
      using un(4) [of x] g that by (auto simp: nd_upd grown_def)
    show "\<exists>y. nd ?d5 x = (nd d x)\<lparr>oNext := y\<rparr>" if x: "x \<in> set ys" for x
    proof -
      have "nd ?d4 x = nd ?d3 x" using q4 x by (auto simp: nd_upd)
      then show ?thesis using un(5) [OF x] g x by (auto simp: grown_def) force
    qed
    show "\<exists>y. nd ?d5 q = (nd d q)\<lparr>cData := text_item t, oChild := y\<rparr>"
      using un(6) q3 t(1) by (auto simp: nd_upd text_item_def)
  qed
  then show thesis by (rule that [OF 6 5(2)])
qed

lemma finish_tag:
  assumes f: "feeds r (w1 @ escaped t @ w2 @ CHR ''<'' # CHR ''/'' # n @ CHR ''>'' # s)"
    and t: "text_ok t" "blank w1" "blank w2" "\<not> STYLE_NOESCAPE style"
    and n: "name_ok n" "cName (nd d q) = Str n" "cData (nd d q) = NIL"
    and k: "kids d q ys" "\<forall>y \<in> set ys. nType (nd d y) \<noteq> MXML_TYPE_DATA" "q < next_node d" "\<forall>y \<in> set ys. y < next_node d"
  obtains r' d' where "node_loop garbage style q 0 (r, d) = Some (MXML_STATUS_OK, r', d')" "feeds r' s" "finished t d q ys d'"
proof -
  have same: "nodes (lines w d) = nodes d" "next_node (lines w d) = next_node d" for w by (simp_all add: lines_nLine)
  have fin: "finished t (lines w d) q ys d' = finished t d q ys d'" for w d'
    by (simp add: finished_def lines_nLine)
  have kids: "kids (lines w d) q ys" for w using k(1) kids_cong [OF same(1)] by simp
  show thesis
  proof (cases "t = []")
    case True
    then have "feeds r ((w1 @ w2) @ CHR ''<'' # CHR ''/'' # n @ CHR ''>'' # s)" "blank (w1 @ w2)"
      using f t(2,3) by (simp_all add: blank_def)
    from node_blanks [OF this, of garbage style q d] obtain r1 where
      1: "node_loop garbage style q 0 (r, d) = node_loop garbage style q 0 (r1, lines (w1 @ w2) d)"
        "feeds r1 (CHR ''<'' # CHR ''/'' # n @ CHR ''>'' # s)" by blast
    show thesis
      by (rule finish_empty [OF 1(2) n(1) _ kids, of "w1 @ w2" garbage style])
        (use n k same 1(1) fin True that in auto)
  next
    case False
    from node_blanks [OF f t(2), of garbage style q d] obtain r1 where
      1: "node_loop garbage style q 0 (r, d) = node_loop garbage style q 0 (r1, lines w1 d)"
        "feeds r1 (escaped t @ w2 @ CHR ''<'' # CHR ''/'' # n @ CHR ''>'' # s)" by blast
    show thesis
      by (rule finish_text [OF 1(2) False t(1,3,4) n(1) _ kids, of w1 garbage])
        (use n k same 1(1) fin that in auto)
  qed
qed

section \<open>Reading a tree\<close>

fun tree_size :: "xtree \<Rightarrow> int" where
  "tree_size (Tag n kvs t ts) = 1 + sum_list (map tree_size ts)"

definition tree_read :: "(nat \<Rightarrow> char) \<Rightarrow> int \<Rightarrow> xtree \<Rightarrow> bytes \<Rightarrow> bool" where
  "tree_read garbage style t a \<longleftrightarrow> (\<forall>r d p xs s. feeds r (a @ s) \<longrightarrow> kids d p xs \<longrightarrow> p < next_node d \<longrightarrow>
     (\<forall>x \<in> set xs. x < next_node d) \<longrightarrow>
     (\<exists>r' d'. node_loop garbage style p 0 (r, d) = node_loop garbage style p 0 (r', d') \<and> feeds r' s \<and>
        kids d' p (xs @ [next_node d]) \<and> tree_at d' t (next_node d) (next_node d') \<and> next_node d < next_node d' \<and>
        grown d p xs d' \<and> nNodeCount d' = nNodeCount d + tree_size t))"

definition forest_read :: "(nat \<Rightarrow> char) \<Rightarrow> int \<Rightarrow> xtree list \<Rightarrow> bytes \<Rightarrow> bool" where
  "forest_read garbage style ts a \<longleftrightarrow> (\<forall>r d p xs s. feeds r (a @ s) \<longrightarrow> kids d p xs \<longrightarrow> p < next_node d \<longrightarrow>
     (\<forall>x \<in> set xs. x < next_node d) \<longrightarrow>
     (\<exists>r' d' ys. node_loop garbage style p 0 (r, d) = node_loop garbage style p 0 (r', d') \<and> feeds r' s \<and>
        kids d' p (xs @ ys) \<and> forest_at d' ts ys (next_node d) (next_node d') \<and>
        grown d p xs d' \<and> nNodeCount d' = nNodeCount d + sum_list (map tree_size ts)))"

lemma forest_Nil: "forest_read garbage style [] []"
  by (auto simp: forest_read_def intro: grown_refl)

text \<open>The first tree has been read and the others follow: it stays where it is.\<close>

lemma forest_Cons:
  assumes w: "blank w" and t: "tree_read garbage style t a" and ts: "forest_read garbage style ts b"
  shows "forest_read garbage style (t # ts) (w @ a @ b)"
  unfolding forest_read_def
proof (intro allI impI)
  fix r d p xs s
  assume f: "feeds r ((w @ a @ b) @ s)" and k: "kids d p xs" "p < next_node d" "\<forall>x \<in> set xs. x < next_node d"
  let ?d0 = "lines w d"
  have d0: "nodes ?d0 = nodes d" "next_node ?d0 = next_node d" "nNodeCount ?d0 = nNodeCount d" by (simp_all add: lines_nLine)
  have g0: "grown ?d0 p xs d' = grown d p xs d'" for d' by (simp add: grown_def d0)
  from node_blanks [of r w "a @ b @ s" garbage style p d] f w obtain r0 where
    r0: "node_loop garbage style p 0 (r, d) = node_loop garbage style p 0 (r0, ?d0)" "feeds r0 (a @ b @ s)" by auto
  have "kids ?d0 p xs" using k(1) kids_cong [OF d0(1)] by simp
  then obtain r1 d1 where
    1: "node_loop garbage style p 0 (r0, ?d0) = node_loop garbage style p 0 (r1, d1)" "feeds r1 (b @ s)"
      "kids d1 p (xs @ [next_node d])" "tree_at d1 t (next_node d) (next_node d1)" "next_node d < next_node d1"
      "grown d p xs d1" "nNodeCount d1 = nNodeCount d + tree_size t"
    using t [unfolded tree_read_def, rule_format, OF r0(2), of ?d0 p xs] k d0 g0 by auto
  have "p < next_node d1" "\<forall>x \<in> set (xs @ [next_node d]). x < next_node d1" using k 1(5) by auto
  with ts [unfolded forest_read_def, rule_format, OF 1(2,3)] obtain r2 d2 ys where
    2: "node_loop garbage style p 0 (r1, d1) = node_loop garbage style p 0 (r2, d2)" "feeds r2 s"
      "kids d2 p ((xs @ [next_node d]) @ ys)" "forest_at d2 ts ys (next_node d1) (next_node d2)"
      "grown d1 p (xs @ [next_node d]) d2" "nNodeCount d2 = nNodeCount d1 + sum_list (map tree_size ts)" by blast
  have "same_body (nd d2 (next_node d)) (nd d1 (next_node d))"
    using 2(5) by (auto simp: grown_def same_body_def)
  then have "tree_at d2 t (next_node d) (next_node d1)"
    by (rule tree_frame [OF 1(4)]) (use 2(5) k in \<open>fastforce simp: grown_def\<close>)
  then have "forest_at d2 (t # ts) (next_node d # ys) (next_node d) (next_node d2)" using 1(5) 2(4) by auto
  moreover have "grown d p xs d2" by (rule grown_trans [OF 1(6) 2(5)]) simp
  moreover have "kids d2 p (xs @ next_node d # ys)" using 2(3) by simp
  ultimately show "\<exists>r' d' ys. node_loop garbage style p 0 (r, d) = node_loop garbage style p 0 (r', d') \<and> feeds r' s \<and>
        kids d' p (xs @ ys) \<and> forest_at d' (t # ts) ys (next_node d) (next_node d') \<and>
        grown d p xs d' \<and> nNodeCount d' = nNodeCount d + sum_list (map tree_size (t # ts))"
    using r0(1) 1(1,7) 2(1,2,6) by (intro exI [of _ r2] exI [of _ d2] exI [of _ "next_node d # ys"]) simp
qed

text \<open>The tag has been read into its node \<open>q\<close>, and is attached.\<close>

lemma tree_attached:
  assumes k: "kids d p xs" "p < next_node d" "\<forall>x \<in> set xs. x < next_node d"
    and old: "\<And>x. x < next_node d \<Longrightarrow> nd d1 x = nd d x" "oNext (nd d1 (next_node d)) = None" "oPrev (nd d1 (next_node d)) = None"
    and t: "tree_at d1 t (next_node d) (next_node d1)" "next_node d < next_node d1" "nNodeCount d1 = nNodeCount d + tree_size t - 1"
    and f: "feeds r s"
  obtains b where "mxml_node_add_below p (next_node d) d1 = Some b"
    "\<exists>r' d'. node_loop garbage style p 0 (r, hbxml_doc_new_node 1 b) = node_loop garbage style p 0 (r', d') \<and> feeds r' s \<and>
        kids d' p (xs @ [next_node d]) \<and> tree_at d' t (next_node d) (next_node d') \<and> next_node d < next_node d' \<and>
        grown d p xs d' \<and> nNodeCount d' = nNodeCount d + tree_size t"
proof -
  from attach [OF k t(2) old] obtain b where b: "mxml_node_add_below p (next_node d) d1 = Some b"
    "attached d p xs d1 (hbxml_doc_new_node 1 b)" .
  let ?b = "hbxml_doc_new_node 1 b"
  have "same_body (nd ?b (next_node d)) (nd d1 (next_node d))"
    using b(2) by (auto simp: attached_def same_body_def)
  then have "tree_at ?b t (next_node d) (next_node d1)"
    by (rule tree_frame [OF t(1)]) (use b(2) in \<open>auto simp: attached_def\<close>)
  then show thesis using b(2) t(2,3) f by (intro that [OF b(1)] exI [of _ r] exI [of _ ?b]) (simp add: attached_def)
qed

lemma node_tag:
  assumes "feeds r (CHR ''<'' # n @ s)" "name_ok n"
  obtains r' where "feeds r' (n @ s)" "node_loop garbage style p 0 (r, d) = after_node garbage style p (next_node d) (read_tag_head garbage (next_node d) style (r', snd (mxml_node_new True d)))"
proof -
  obtain e u where n: "n = e # u" "is_alpha e" using assms(2) by (cases n) auto
  have 0: "node_char 0 (CHR ''<'') = Go 1" "pushes_back K_tag" by (simp_all add: node_char_def xml_space_def pushes_back_def)
  from node_go [OF assms(1) 0(1), of garbage style p d] obtain r1 where
    1: "node_loop garbage style p 0 (r, d) = node_loop garbage style p 1 (r1, d)" "feeds r1 (e # u @ s)"
    using n(1) by (auto simp: count_line_def)
  have "node_char 1 e = New K_tag" using n(2) by (auto simp: node_char_def ctype_defs)
  from node_begins [OF 1(2) this 0(2), of garbage style p d] obtain r2 where
    2: "feeds r2 (e # u @ s)" "node_loop garbage style p 1 (r1, d) =
      after_node garbage style p (next_node d) (read_kind garbage style K_tag (next_node d) (r2, snd (mxml_node_new True d)))" .
  show thesis using 2 1(1) n(1) by (intro that [of r2]) (simp_all add: read_kind_def)
qed

text \<open>The new node, as the head of the tag leaves it.\<close>

lemma head_doc:
  assumes "same_doc (upd (next_node d) (tag_node n kvs) (snd (mxml_node_new True d))) d'"
  shows "next_node d' = Suc (next_node d)" "nNodeCount d' = nNodeCount d" "\<And>x. x < next_node d \<Longrightarrow> nd d' x = nd d x"
    "nType (nd d' (next_node d)) = MXML_TYPE_TAG" "cName (nd d' (next_node d)) = Str n" "cData (nd d' (next_node d)) = NIL"
    "aAttributes (nd d' (next_node d)) = Hash (attrs kvs)" "oNext (nd d' (next_node d)) = None"
    "oPrev (nd d' (next_node d)) = None" "oChild (nd d' (next_node d)) = None"
  using assms by (simp_all add: same_doc_def nd_upd new_node_facts tag_node_def new_node_def)

lemma read_empty:
  assumes ok: "tree_ok (Tag n kvs [] [])" and st: "\<not> STYLE_NOESCAPE style"
  shows "tree_read garbage style (Tag n kvs [] []) (CHR ''<'' # n @ attributes_text kvs @ ''/>'')"
  unfolding tree_read_def
proof (intro allI impI)
  fix r d p xs s
  assume f: "feeds r ((CHR ''<'' # n @ attributes_text kvs @ ''/>'') @ s)"
    and k: "kids d p xs" "p < next_node d" "\<forall>x \<in> set xs. x < next_node d"
  have n: "name_ok n" "\<forall>kv \<in> set kvs. attr_name_ok (fst kv)" "distinct (map fst kvs)" using ok by simp_all
  have f': "feeds r (CHR ''<'' # n @ attributes_text kvs @ CHR ''/'' # CHR ''>'' # s)" using f by simp
  from node_tag [OF f' n(1), of garbage style p d] obtain r1 where
    1: "feeds r1 (n @ attributes_text kvs @ CHR ''/'' # CHR ''>'' # s)" "node_loop garbage style p 0 (r, d) = after_node garbage style p (next_node d) (read_tag_head garbage (next_node d) style (r1, snd (mxml_node_new True d)))" .
  from head_empty [OF 1(1) n st] obtain r2 d2 where
    2: "read_tag_head garbage (next_node d) style (r1, snd (mxml_node_new True d)) = Some (False, r2, d2)" "feeds r2 s"
      "same_doc (upd (next_node d) (tag_node n kvs) (snd (mxml_node_new True d))) d2" by metis
  note d2 = head_doc [OF 2(3)]
  have "kids d2 (next_node d) []" using d2(10) by (simp add: kids_def)
  then have tree: "tree_at d2 (Tag n kvs [] []) (next_node d) (next_node d2)"
    using d2 by (auto simp: text_item_def)
  show "\<exists>r' d'. node_loop garbage style p 0 (r, d) = node_loop garbage style p 0 (r', d') \<and> feeds r' s \<and>
        kids d' p (xs @ [next_node d]) \<and> tree_at d' (Tag n kvs [] []) (next_node d) (next_node d') \<and> next_node d < next_node d' \<and>
        grown d p xs d' \<and> nNodeCount d' = nNodeCount d + tree_size (Tag n kvs [] [])"
    by (rule tree_attached [OF k d2(3,8,9) tree _ _ 2(2), of garbage style])
      (use 1(2) 2(1) d2(1,2) feeds_status [OF 2(2)] in \<open>simp_all add: after_node_def\<close>)
qed

text \<open>The first byte of the contents does not end the tag.\<close>

definition opens :: "bytes \<Rightarrow> bool" where
  "opens s \<longleftrightarrow> s \<noteq> [] \<and> hd s \<noteq> CHR ''>''"

lemma opens_simps: "opens (c # s) \<longleftrightarrow> c \<noteq> CHR ''>''" "blank w \<Longrightarrow> opens s \<Longrightarrow> opens (w @ s)"
  "text_ok t \<Longrightarrow> opens s \<Longrightarrow> opens (escaped t @ s)"
proof -
  show "opens (c # s) \<longleftrightarrow> c \<noteq> CHR ''>''" by (simp add: opens_def)
  show "blank w \<Longrightarrow> opens s \<Longrightarrow> opens (w @ s)" by (cases w) (auto simp: opens_def blank_def xml_space_def)
  show "text_ok t \<Longrightarrow> opens s \<Longrightarrow> opens (escaped t @ s)"
  proof (cases "t = []")
    case False
    assume "text_ok t"
    with False have "\<not> xml_space (hd t)" by (simp add: text_ok_def)
    from escaped_first [OF False this] obtain c w where "escaped t = c # w" "c \<noteq> CHR ''>''" .
    then show ?thesis by (simp add: opens_def)
  qed simp
qed

lemma shown_opens: "shown t a \<Longrightarrow> opens (a @ s)"
  by (erule shown.cases) (simp_all add: opens_def)

lemma shown_list_opens: "shown_list ts b \<Longrightarrow> opens s \<Longrightarrow> opens (b @ s)"
  by (erule shown_list.cases) (simp_all add: opens_simps(2) shown_opens)

lemma forest_tags: "forest_at d ts ys lo hi \<Longrightarrow> \<forall>y \<in> set ys. nType (nd d y) = MXML_TYPE_TAG"
proof (induction ts arbitrary: ys lo)
  case (Cons t ts)
  then show ?case by (cases t) fastforce
qed simp

lemma forest_weaken: "forest_at d ts ys lo hi \<Longrightarrow> hi \<le> hi' \<Longrightarrow> forest_at d ts ys lo hi'"
proof (induction ts arbitrary: ys lo)
  case (Cons t ts)
  then show ?case by fastforce
qed simp

lemma read_full:
  assumes ok: "tree_ok (Tag n kvs t ts)" and st: "\<not> STYLE_NOESCAPE style"
    and b: "shown_list ts b" "blank w1" "blank w2" and ts: "forest_read garbage style ts b"
  shows "tree_read garbage style (Tag n kvs t ts)
    (CHR ''<'' # n @ attributes_text kvs @ CHR ''>'' # b @ w1 @ escaped t @ w2 @ CHR ''<'' # CHR ''/'' # n @ ''>'')"
  unfolding tree_read_def
proof (intro allI impI)
  fix r and d :: xdoc and p xs s
  let ?q = "next_node d" and ?close = "CHR ''<'' # CHR ''/'' # n @ CHR ''>'' # s"
  let ?d1 = "snd (mxml_node_new True d)"
  assume f: "feeds r ((CHR ''<'' # n @ attributes_text kvs @ CHR ''>'' # b @ w1 @ escaped t @ w2 @
      CHR ''<'' # CHR ''/'' # n @ ''>'') @ s)"
    and k: "kids d p xs" "p < next_node d" "\<forall>x \<in> set xs. x < next_node d"
  have n: "name_ok n" "\<forall>kv \<in> set kvs. attr_name_ok (fst kv)" "distinct (map fst kvs)" "text_ok t" using ok by simp_all
  have "opens (b @ w1 @ escaped t @ w2 @ ?close)"
    using b n(4) by (intro shown_list_opens opens_simps(2,3)) (simp_all add: opens_simps(1))
  then obtain c u where c: "b @ w1 @ escaped t @ w2 @ ?close = c # u" "c \<noteq> CHR ''>''"
    by (cases "b @ w1 @ escaped t @ w2 @ ?close") (auto simp: opens_def)
  have f': "feeds r (CHR ''<'' # n @ attributes_text kvs @ CHR ''>'' # c # u)" using f c(1) by simp
  from node_tag [OF f' n(1), of garbage style p d] obtain r1 where
    1: "feeds r1 (n @ attributes_text kvs @ CHR ''>'' # c # u)"
      "node_loop garbage style p 0 (r, d) = after_node garbage style p ?q (read_tag_head garbage ?q style (r1, ?d1))" .
  from head_full [OF 1(1) c(2) n(1-3) st] obtain r2 d2 where
    2: "read_tag_head garbage ?q style (r1, ?d1) = Some (True, r2, d2)" "feeds r2 (c # u)"
      "same_doc (upd ?q (tag_node n kvs) ?d1) d2" by metis
  note d2 = head_doc [OF 2(3)]
  have f2: "feeds r2 (b @ w1 @ escaped t @ w2 @ ?close)" using 2(2) c(1) by simp
  have k2: "kids d2 ?q []" using d2(10) by (simp add: kids_def)
  from ts [unfolded forest_read_def, rule_format, OF f2 k2] d2(1) obtain r3 d3 ys where
    3: "node_loop garbage style ?q 0 (r2, d2) = node_loop garbage style ?q 0 (r3, d3)" "feeds r3 (w1 @ escaped t @ w2 @ ?close)"
      "kids d3 ?q ys" "forest_at d3 ts ys (Suc ?q) (next_node d3)" "grown d2 ?q [] d3"
      "nNodeCount d3 = nNodeCount d + sum_list (map tree_size ts)" using d2(2) by auto
  have rng: "Suc ?q \<le> next_node d3" "\<forall>y \<in> set ys. Suc ?q \<le> y \<and> y < next_node d3" using forest_range [OF 3(4)] by auto
  from 3(5) obtain oc where q3: "nd d3 ?q = (nd d2 ?q)\<lparr>oChild := oc\<rparr>" by (auto simp: grown_def)
  have old3: "nd d3 x = nd d x" if "x < ?q" for x using 3(5) d2(1,3) that by (simp add: grown_def)
  have in3: "cName (nd d3 ?q) = Str n" "cData (nd d3 ?q) = NIL" using q3 d2 by simp_all
  have ty: "\<forall>y \<in> set ys. nType (nd d3 y) \<noteq> MXML_TYPE_DATA" using forest_tags [OF 3(4)] by auto
  have q: "?q < next_node d3" "\<forall>y \<in> set ys. y < next_node d3" using rng by auto
  from finish_tag [OF 3(2) n(4) b(2,3) st n(1) in3 3(3) ty q] obtain r4 d4 where
    4: "node_loop garbage style ?q 0 (r3, d3) = Some (MXML_STATUS_OK, r4, d4)" "feeds r4 s" "finished t d3 ?q ys d4" .
  from 4(3) obtain oc' where q4: "nd d4 ?q = (nd d3 ?q)\<lparr>cData := text_item t, oChild := oc'\<rparr>" by (auto simp: finished_def)
  have old4: "nd d4 x = nd d x" if "x < ?q" for x
  proof -
    have "x < next_node d3" "x \<noteq> ?q" "x \<notin> set ys" using that rng by auto
    then have "nd d4 x = nd d3 x" using 4(3) by (simp add: finished_def)
    then show ?thesis using old3 [OF that] by simp
  qed
  have ext: "next_node d3 \<le> next_node d4" "nNodeCount d4 = nNodeCount d3" "kids d4 ?q ys"
    using 4(3) by (simp_all add: finished_def)
  have "forest_at d4 ts ys (Suc ?q) (next_node d3)"
  proof (rule forest_frame [OF 3(4)])
    show "same_body (nd d4 x) (nd d3 x)" if x: "x \<in> set ys" for x
    proof -
      from 4(3) x obtain y where "nd d4 x = (nd d3 x)\<lparr>oNext := y\<rparr>" by (auto simp: finished_def)
      then show ?thesis by (simp add: same_body_def)
    qed
    show "nd d4 x = nd d3 x" if "Suc ?q \<le> x" "x < next_node d3" "x \<notin> set ys" for x
      using 4(3) that by (simp add: finished_def)
  qed
  then have "forest_at d4 ts ys (Suc ?q) (next_node d4)" using ext(1) by (rule forest_weaken)
  then have tree: "tree_at d4 (Tag n kvs t ts) ?q (next_node d4)" using ext(3) q3 q4 d2 by auto
  have links: "oNext (nd d4 ?q) = None" "oPrev (nd d4 ?q) = None" using q3 q4 d2 by simp_all
  have size: "?q < next_node d4" "nNodeCount d4 = nNodeCount d + tree_size (Tag n kvs t ts) - 1"
    using rng(1) ext 3(6) by simp_all
  show "\<exists>r' d'. node_loop garbage style p 0 (r, d) = node_loop garbage style p 0 (r', d') \<and> feeds r' s \<and>
        kids d' p (xs @ [?q]) \<and> tree_at d' (Tag n kvs t ts) ?q (next_node d') \<and> ?q < next_node d' \<and>
        grown d p xs d' \<and> nNodeCount d' = nNodeCount d + tree_size (Tag n kvs t ts)"
    by (rule tree_attached [OF k old4 links tree size 4(2), of garbage style])
      (use 1(2) 2(1) 3(1) 4(1) feeds_status [OF 4(2)] in \<open>simp_all add: after_node_def\<close>)
qed

lemma reads_shown:
  assumes "\<not> STYLE_NOESCAPE style"
  shows "shown t a \<Longrightarrow> tree_ok t \<Longrightarrow> tree_read garbage style t a"
    "shown_list ts b \<Longrightarrow> (\<forall>t \<in> set ts. tree_ok t) \<Longrightarrow> forest_read garbage style ts b"
proof (induction rule: shown_shown_list.inducts)
  case (empty n kvs)
  then show ?case using read_empty assms by blast
next
  case (full ts b w1 w2 n kvs t)
  then show ?case by (intro read_full assms) auto
next
  case Nil
  then show ?case by (simp add: forest_Nil)
next
  case (Cons w t a ts b)
  then show ?case by (intro forest_Cons) auto
qed

section \<open>Documents\<close>

text \<open>A document before reading, with its root only.\<close>

definition new_doc :: xdoc where
  "new_doc = \<lparr>nodes = (\<lambda>p. new_node\<lparr>nType := MXML_TYPE_DOCUMENT\<rparr>), next_node = 1, nLine = 1, nStatus = MXML_STATUS_OK,
     nError = MXML_ERROR_NONE, oErrorNode = None, nNodeCount = 0\<rparr>"

lemma shown_read:
  assumes t: "shown_list ts b" "\<forall>t \<in> set ts. tree_ok t" and w: "blank w" and st: "\<not> STYLE_NOESCAPE style"
  obtains r d ys where "SR_XML_DATAREAD garbage ans 0 (Str (b @ w)) style new_doc = Returns (Some (MXML_STATUS_OK, r, d))"
     "kids d 0 ys" "forest_at d ts ys 1 (next_node d)" "nNodeCount d = sum_list (map tree_size ts)"
     "nType (nd d 0) = MXML_TYPE_DOCUMENT" "oParent (nd d 0) = None" "bytes_left r = []"
proof -
  have k: "kids new_doc 0 []" "0 < next_node new_doc" "\<And>x. x \<in> set [] \<Longrightarrow> x < next_node new_doc"
    by (simp_all add: kids_def new_doc_def new_node_def)
  have "forest_read garbage style ts b" using reads_shown(2) [OF st t(1)] t(2) by blast
  from this [unfolded forest_read_def, rule_format, OF feeds_setup [of "b @ w"] k] obtain r1 d ys where
    1: "node_loop garbage style 0 0 (mxml_refil_setup False [] (b @ w), new_doc) = node_loop garbage style 0 0 (r1, d)"
      "feeds r1 w" "kids d 0 ys" "forest_at d ts ys 1 (next_node d)" "nNodeCount d = sum_list (map tree_size ts)"
      "grown new_doc 0 [] d" by (auto simp: new_doc_def)
  have "feeds r1 (w @ [])" using 1(2) by simp
  from node_blanks [OF this w, of garbage style 0 d] obtain r where
    2: "node_loop garbage style 0 0 (r1, d) = node_loop garbage style 0 0 (r, lines w d)" "feeds r []" by blast
  let ?d = "lines w d"
  have "node_loop garbage style 0 0 (r, ?d) = Some (MXML_STATUS_OK, r, ?d)"
    using feeds_End [OF 2(2)] by (subst node_loop.simps) simp
  then have "SR_XML_DATAREAD garbage ans 0 (Str (b @ w)) style new_doc = Returns (Some (MXML_STATUS_OK, r, ?d))"
    using 1(1) 2(1) by (simp add: SR_XML_DATAREAD_def mxml_node_read_def)
  moreover have "kids ?d 0 ys" using 1(3) kids_cong [of ?d d] by (simp add: lines_nLine)
  moreover have "forest_at ?d ts ys 1 (next_node ?d)"
    using forest_frame [OF 1(4), of ?d] by (simp add: lines_nLine same_body_def)
  moreover from 1(6) obtain y where "nd d 0 = (nd new_doc 0)\<lparr>oChild := y\<rparr>" by (auto simp: grown_def)
  then have "nType (nd ?d 0) = MXML_TYPE_DOCUMENT" "oParent (nd ?d 0) = None"
    by (simp_all add: lines_nLine new_doc_def new_node_def)
  moreover have "nNodeCount ?d = sum_list (map tree_size ts)" using 1(5) by (simp add: lines_nLine)
  moreover have "bytes_left r = []" using 2(2) by (simp add: feeds_def)
  ultimately show thesis by (intro that)
qed

end
