(* ===== verification/XmlTreeWrite.thy ===== *)
theory XmlTreeWrite
  imports XmlTree
begin

text \<open>
  Writing the tree the store holds gives a text that shows it; with the reading of such texts, the round
  trip of whole documents.
\<close>

section \<open>Output that only grows\<close>

text \<open>The output goes on with \<open>w\<close>.\<close>

definition says :: "bytes xoutput option \<Rightarrow> bytes xoutput \<Rightarrow> bytes \<Rightarrow> bool" where
  "says x out w \<longleftrightarrow> (\<exists>o'. x = Some o' \<and> status o' = MXML_STATUS_OK \<and> u o' = u out @ w)"

definition says2 :: "(int \<times> bytes xoutput) option \<Rightarrow> bytes xoutput \<Rightarrow> bytes \<Rightarrow> bool" where
  "says2 x out w \<longleftrightarrow> (\<exists>r o'. x = Some (r, o') \<and> status o' = MXML_STATUS_OK \<and> u o' = u out @ w)"

lemma says_now: "status out = MXML_STATUS_OK \<Longrightarrow> says (Some out) out []"
  by (simp add: says_def)

lemma says2_now: "status out = MXML_STATUS_OK \<Longrightarrow> says2 (Some (r, out)) out []"
  by (simp add: says2_def)

lemma says_output:
  assumes "status out = MXML_STATUS_OK"
  shows "says (mxml_output_char to_file c out) out [c]" "says (mxml_output_string_len to_file s out) out s"
    "says (mxml_output_string to_file s out) out s"
  using assms by (simp_all add: says_def to_file mxml_output_char_def mxml_output_string_len_def mxml_output_string_def)

lemma says_bind:
  "says x out w \<Longrightarrow> (\<And>o'. status o' = MXML_STATUS_OK \<Longrightarrow> says (f o') o' w') \<Longrightarrow> says (Option.bind x f) out (w @ w')"
  by (fastforce simp: says_def)

lemma says_bind2:
  "says x out w \<Longrightarrow> (\<And>o'. status o' = MXML_STATUS_OK \<Longrightarrow> says2 (f o') o' w') \<Longrightarrow> says2 (Option.bind x f) out (w @ w')"
  by (fastforce simp: says_def says2_def)

lemma says2_bind:
  "says2 x out w \<Longrightarrow> (\<And>r o'. status o' = MXML_STATUS_OK \<Longrightarrow> says (f (r, o')) o' w') \<Longrightarrow> says (Option.bind x f) out (w @ w')"
  by (fastforce simp: says_def says2_def)

lemma says2_bind2:
  "says2 x out w \<Longrightarrow> (\<And>r o'. status o' = MXML_STATUS_OK \<Longrightarrow> says2 (f (r, o')) o' w') \<Longrightarrow> says2 (Option.bind x f) out (w @ w')"
  by (fastforce simp: says2_def)

lemma says_if: "(c \<Longrightarrow> says x out w) \<Longrightarrow> (\<not> c \<Longrightarrow> says y out w') \<Longrightarrow> says (if c then x else y) out (if c then w else w')"
  by simp

section \<open>The parts of a tag\<close>

definition plain :: "bytes \<Rightarrow> bool" where
  "plain s \<longleftrightarrow> NUL \<notin> set s"

lemma says_text:
  assumes "status out = MXML_STATUS_OK" "plain t" "\<not> STYLE_NOESCAPE style"
  shows "says (write_text to_file style (Str t) out) out (escaped t)"
proof -
  have tw: "takeWhile (\<lambda>c. c \<noteq> NUL) t = t" using assms(2) by (auto simp: takeWhile_eq_all_conv plain_def)
  show ?thesis using assms(1,3) by (simp add: says_def write_text_def write_escaped tw)
qed

lemma says_attribute:
  assumes "status out = MXML_STATUS_OK" "plain v" "\<not> STYLE_NOESCAPE style"
  shows "says2 (mxml_attribute_write to_file (Str n, Str v) style out) out (n @ [CHR ''=''] @ [DQUOTE] @ escaped v @ [DQUOTE] @ [])"
  unfolding mxml_attribute_write_def fst_conv snd_conv hb_itemGetC.simps
  by (intro says_bind2 says_output says_text assms says2_now; assumption)

lemma says_attributes:
  assumes "\<not> STYLE_NOESCAPE style"
  shows "\<forall>kv \<in> set kvs. plain (snd kv) \<Longrightarrow> status out = MXML_STATUS_OK \<Longrightarrow>
    says (mxml_node_write_attributes to_file (Hash (attrs kvs)) style out) out (attributes_text kvs)"
  unfolding mxml_node_write_attributes_def hash_of.simps
proof (induction kvs arbitrary: out)
  case Nil
  then show ?case by (simp add: attrs_def attributes_text_def says_now)
next
  case (Cons kv kvs)
  obtain n v where kv: "kv = (n, v)" by fastforce
  have "says (write_attributes to_file ((Str n, Str v) # attrs kvs) style out) out
      ([SPACE] @ (n @ [CHR ''=''] @ [DQUOTE] @ escaped v @ [DQUOTE] @ []) @ attributes_text kvs)"
    unfolding write_attributes.simps
    by (intro says_bind says2_bind says_output says_attribute assms) (use Cons kv in auto)
  then show ?case by (simp add: attrs_def attributes_text_def attribute_text_def kv)
qed

lemma blank_append [simp]: "blank (v @ w) \<longleftrightarrow> blank v \<and> blank w"
  by (simp add: blank_def)

lemma blank_Nil [simp]: "blank []"
  by (simp add: blank_def)

text \<open>The output goes on with \<open>w\<close>, and with something blank behind it.\<close>

definition says_pre :: "bytes xoutput option \<Rightarrow> bytes xoutput \<Rightarrow> bytes \<Rightarrow> bool" where
  "says_pre x out w \<longleftrightarrow> (\<exists>v. blank v \<and> says x out (w @ v))"

lemma says_pre: "says x out w \<Longrightarrow> blank w \<Longrightarrow> says_pre x out []"
  by (auto simp: says_pre_def)

lemma says_pre_now: "status out = MXML_STATUS_OK \<Longrightarrow> says_pre (Some out) out []"
  by (rule says_pre [OF says_now]) (simp_all add: blank_def)

lemma says_bind_pre:
  "says x out w \<Longrightarrow> (\<And>o'. status o' = MXML_STATUS_OK \<Longrightarrow> says_pre (f o') o' w') \<Longrightarrow> says_pre (Option.bind x f) out (w @ w')"
  by (fastforce simp: says_def says_pre_def)

text \<open>Something blank first, and twice something blank.\<close>

lemma says_blank_pre:
  assumes "says_pre x out []" "\<And>o'. status o' = MXML_STATUS_OK \<Longrightarrow> says_pre (f o') o' []"
  shows "says_pre (Option.bind x f) out []"
proof -
  from assms(1) obtain v o1 where v: "blank v" "x = Some o1" "status o1 = MXML_STATUS_OK" "u o1 = u out @ v"
    by (auto simp: says_pre_def says_def)
  from assms(2) [OF v(3)] obtain v' where "blank v'" "says (f o1) o1 v'" by (auto simp: says_pre_def)
  with v show ?thesis by (intro says_pre [of _ _ "v @ v'"]) (auto simp: says_def)
qed

lemma says_pre_cases:
  assumes "says_pre x out w"
  obtains v o' where "blank v" "x = Some o'" "status o' = MXML_STATUS_OK" "u o' = u out @ w @ v"
  using assms by (auto simp: says_pre_def says_def)

lemma says_indent_loop: "status out = MXML_STATUS_OK \<Longrightarrow> says_pre (indent_loop to_file n style out) out []"
proof (induction n arbitrary: out)
  case 0
  then show ?case by (simp add: says_pre_now)
next
  case (Suc n)
  have "says_pre (if STYLE_TAB style then mxml_output_char to_file (CHR 0x09) out
     else if STYLE_THREESPACES style then mxml_output_string_len to_file ''   '' out
     else mxml_output_char to_file SPACE out) out []"
    by (auto intro!: says_pre says_output Suc.prems simp: blank_def xml_space_def)
  then show ?case unfolding indent_loop.simps by (rule says_blank_pre) (rule Suc.IH)
qed

lemma says_indent:
  "status out = MXML_STATUS_OK \<Longrightarrow> says_pre (if c then mxml_node_file_indent to_file k style out else Some out) out []"
  using says_indent_loop says_pre_now by (auto simp: mxml_node_file_indent_def)

lemma says_line:
  assumes "blank eol" "status out = MXML_STATUS_OK"
  shows "says_pre (new_line to_file eol style out) out []"
  using says_pre [OF says_output(3) [OF assms(2)] assms(1)] says_pre_now [OF assms(2)] by (simp add: new_line_def)

text \<open>The node of a tree.\<close>

definition tag_here :: "xnode \<Rightarrow> bytes \<Rightarrow> (bytes \<times> bytes) list \<Rightarrow> bytes \<Rightarrow> bool" where
  "tag_here x n kvs t \<longleftrightarrow> nType x = MXML_TYPE_TAG \<and> cName x = Str n \<and> aAttributes x = Hash (attrs kvs) \<and> cData x = text_item t"

lemma tag_here_text: "tag_here x n kvs t \<Longrightarrow> HB_IS_NIL (cData x) \<longleftrightarrow> t = []"
  by (simp add: tag_here_def text_item_def HB_IS_NIL_def)

lemma says_open:
  assumes x: "tag_here x n kvs t" and ok: "\<forall>kv \<in> set kvs. plain (snd kv)" "\<not> STYLE_NOESCAPE style" "blank eol"
    and out: "status out = MXML_STATUS_OK"
  shows "says_pre (write_tag_open to_file eol style x out) out
    ([CHR ''<''] @ n @ attributes_text kvs @ (if t = [] \<and> oChild x = None then ''/>'' else ''>'') @ [])"
proof -
  have x': "cName x = Str n" "aAttributes x = Hash (attrs kvs)" using x by (simp_all add: tag_here_def)
  have line: "says_pre (if c then new_line to_file eol style o' else Some o') o' []" if "status o' = MXML_STATUS_OK" for c o'
    using says_line [OF ok(3) that] says_pre_now [OF that] by simp
  have fin: "says_pre (if c then mxml_output_string_len to_file ''/>'' o' \<bind> new_line to_file eol style
        else mxml_output_char to_file (CHR ''>'') o' \<bind>
          (\<lambda>o'. if c' then new_line to_file eol style o' else Some o')) o' ((if c then ''/>'' else ''>'') @ [])"
    if "status o' = MXML_STATUS_OK" for c c' o'
    by (cases c; simp only: if_True if_False) (intro says_bind_pre says_output says_line line ok that; assumption)+
  show ?thesis unfolding write_tag_open_def x' hb_itemGetC.simps tag_here_text [OF x]
    by (intro says_bind_pre says_output says_attributes out ok fin; assumption)
qed

lemma says_close:
  assumes x: "tag_here x n kvs t" and ok: "plain t" "\<not> STYLE_NOESCAPE style" "blank eol"
    and some: "\<not> (t = [] \<and> oChild x = None)" and out: "status out = MXML_STATUS_OK"
  shows "\<exists>w1 w2. blank w1 \<and> blank w2 \<and> says_pre (write_tag_close to_file eol style depth x out) out
    ((w1 @ escaped t) @ w2 @ ''</'' @ n @ [CHR ''>''] @ [])"
proof -
  have x': "cName x = Str n" "cData x = text_item t" using x by (simp_all add: tag_here_def)
  have nil: "HB_IS_NIL (text_item t) \<longleftrightarrow> t = []" using tag_here_text [OF x] x'(2) by simp
  let ?ind = "\<lambda>k out. if oChild x \<noteq> None \<and> STYLE_INDENT style then mxml_node_file_indent to_file k style out else Some out"
  let ?text = "if t = [] then Some out else ?ind (depth + 1) out \<bind> write_text to_file style (text_item t)"
  have "\<exists>w1. blank w1 \<and> says ?text out (w1 @ escaped t)"
  proof (cases "t = []")
    case True
    then show ?thesis using says_now [OF out] by (auto intro!: exI [of _ "[]"] simp: blank_def)
  next
    case False
    obtain w1 where w1: "blank w1" "says (?ind (depth + 1) out) out w1"
      using says_indent [OF out] unfolding says_pre_def append_Nil by blast
    have "says (?ind (depth + 1) out \<bind> write_text to_file style (Str t)) out (w1 @ escaped t)"
      by (rule says_bind [OF w1(2)]) (rule says_text [OF _ ok(1,2)])
    then show ?thesis using w1(1) False by (auto simp: text_item_def)
  qed
  then obtain w1 o1 where 1: "blank w1" "?text = Some o1" "status o1 = MXML_STATUS_OK" "u o1 = u out @ w1 @ escaped t"
    by (auto simp: says_def)
  obtain w2 where w2: "blank w2" "says (?ind depth o1) o1 w2"
    using says_indent [OF 1(3)] unfolding says_pre_def append_Nil by blast
  have tail: "says_pre (?ind depth o1 \<bind> (\<lambda>out. mxml_output_string_len to_file ''</'' out \<bind>
      (\<lambda>out. mxml_output_string_len to_file n out \<bind>
      (\<lambda>out. mxml_output_char to_file (CHR ''>'') out \<bind> new_line to_file eol style)))) o1
      (w2 @ ''</'' @ n @ [CHR ''>''] @ [])"
    by (intro says_bind_pre w2 says_output says_line ok; assumption)
  have "write_tag_close to_file eol style depth x out = ?text \<bind> (\<lambda>o1. ?ind depth o1 \<bind>
      (\<lambda>out. mxml_output_string_len to_file ''</'' out \<bind>
      (\<lambda>out. mxml_output_string_len to_file n out \<bind>
      (\<lambda>out. mxml_output_char to_file (CHR ''>'') out \<bind> new_line to_file eol style))))"
    using some nil unfolding write_tag_close_def x' by (auto simp: Let_def)
  also have "\<dots> = ?ind depth o1 \<bind> (\<lambda>out. mxml_output_string_len to_file ''</'' out \<bind>
      (\<lambda>out. mxml_output_string_len to_file n out \<bind>
      (\<lambda>out. mxml_output_char to_file (CHR ''>'') out \<bind> new_line to_file eol style)))"
    unfolding 1(2) by simp
  finally have run: "write_tag_close to_file eol style depth x out = \<dots>" .
  from tail have "says_pre (write_tag_close to_file eol style depth x out) out ((w1 @ escaped t) @ w2 @ ''</'' @ n @ [CHR ''>''] @ [])"
    using 1(4) unfolding run by (simp add: says_pre_def says_def)
  then show ?thesis using 1(1) w2(1) by blast
qed

section \<open>Nodes\<close>

text \<open>The loop over siblings writes one node and goes on with the next one.\<close>

lemma write_nodes_rest:
  "write_nodes func eol d style True (Some q) out =
     write_nodes func eol d style False (Some q) out \<bind> (\<lambda>(r, o'). write_nodes func eol d style True (oNext (nd d q)) o')"
  by (subst (1 2) write_nodes.simps) (simp add: Let_def split_beta)

lemma write_nodes_None: "write_nodes func eol d style rest None out = Some (MXML_STATUS_OK, out)"
  by (simp add: write_nodes.simps)

text \<open>The style nodes below get.\<close>

definition inner_style :: "int \<Rightarrow> int" where
  "inner_style style = (if STYLE_NONEWLINE style then unset_bit 0 style else style)"

lemma inner_style: "STYLE_NOESCAPE (inner_style style) = STYLE_NOESCAPE style" "inner_style (inner_style style) = inner_style style"
proof -
  have "unset_bit 0 (unset_bit 0 style) = unset_bit 0 style" by (rule bit_eqI) (simp add: bit_unset_bit_iff)
  then show "inner_style (inner_style style) = inner_style style" by (simp add: inner_style_def)
  show "STYLE_NOESCAPE (inner_style style) = STYLE_NOESCAPE style"
    by (simp add: inner_style_def STYLE_NOESCAPE_def bit_unset_bit_iff)
qed

lemma write_tag:
  assumes x: "nType (nd d q) = MXML_TYPE_TAG" and depth: "node_depth q d = Some k"
  shows "write_nodes func eol d style False (Some q) out =
    (if STYLE_INDENT (inner_style style) then mxml_node_file_indent func (k - 1) (inner_style style) out else Some out) \<bind>
    (\<lambda>out. write_tag_open func eol (inner_style style) (nd d q) out \<bind>
    (\<lambda>out. write_nodes func eol d (inner_style style) True (oChild (nd d q)) out \<bind>
    (\<lambda>(r, out). write_tag_close func eol (inner_style style)
        (if STYLE_INDENT (inner_style style) then k - 1 else 0) (nd d q) out \<bind>
    (\<lambda>out. Some (finish_node out)))))"
  using x depth by (subst write_nodes.simps) (simp add: Let_def inner_style_def [symmetric] case_prod_unfold)

section \<open>Writing a tree\<close>

fun tree_plain :: "xtree \<Rightarrow> bool" where
  "tree_plain (Tag n kvs t ts) \<longleftrightarrow> plain t \<and> (\<forall>kv \<in> set kvs. plain (snd kv)) \<and> (\<forall>u \<in> set ts. tree_plain u)"

text \<open>The text has blanks before and behind what shows the tree.\<close>

definition tree_written :: "bytes \<Rightarrow> xdoc \<Rightarrow> xtree \<Rightarrow> nat \<Rightarrow> bool" where
  "tree_written eol d t q \<longleftrightarrow> (\<forall>style k out. \<not> STYLE_NOESCAPE style \<longrightarrow> node_depth q d = Some k \<longrightarrow>
     status out = MXML_STATUS_OK \<longrightarrow>
     (\<exists>w1 a w2. blank w1 \<and> shown t a \<and> blank w2 \<and>
        says2 (write_nodes to_file eol d style False (Some q) out) out (w1 @ a @ w2)))"

definition forest_written :: "bytes \<Rightarrow> xdoc \<Rightarrow> xtree list \<Rightarrow> nat \<Rightarrow> nat option \<Rightarrow> bool" where
  "forest_written eol d ts par start \<longleftrightarrow> (\<forall>style k out. \<not> STYLE_NOESCAPE style \<longrightarrow> node_depth par d = Some k \<longrightarrow>
     status out = MXML_STATUS_OK \<longrightarrow>
     (\<exists>b w. shown_list ts b \<and> blank w \<and> says2 (write_nodes to_file eol d style True start out) out (b @ w)))"

lemma shown_list_blank:
  assumes "shown_list ts b" "blank w" "ts \<noteq> []"
  shows "shown_list ts (w @ b)"
proof -
  from assms(1,3) obtain w' t a ts' b' where "ts = t # ts'" "b = w' @ a @ b'" "blank w'" "shown t a" "shown_list ts' b'"
    by (auto elim: shown_list.cases)
  then show ?thesis using shown_shown_list.Cons [of "w @ w'" t a ts' b'] assms(2) by simp
qed

text \<open>Blanks in front of a list of trees, or of nothing.\<close>

lemma shown_list_shift:
  assumes "shown_list ts b" "blank w" "blank v"
  shows "\<exists>b' v'. w @ b @ v = b' @ v' \<and> shown_list ts b' \<and> blank v'"
proof (cases "ts = []")
  case True
  then have "b = []" using assms(1) by (auto elim: shown_list.cases)
  then show ?thesis using assms(2,3) True shown_shown_list.Nil by (intro exI [of _ "[]"] exI [of _ "w @ v"]) simp
next
  case False
  then show ?thesis using shown_list_blank [OF assms(1,2)] assms(3) by (intro exI [of _ "w @ b"] exI [of _ v]) simp
qed

lemma says2_obtain:
  assumes "says2 x out w"
  obtains r o' where "x = Some (r, o')" "status o' = MXML_STATUS_OK" "u o' = u out @ w"
  using assms by (auto simp: says2_def)

lemma forest_written_Cons:
  assumes t: "tree_written eol d t y" and ts: "forest_written eol d ts par (oNext (nd d y))"
    and par: "oParent (nd d y) = Some par"
  shows "forest_written eol d (t # ts) par (Some y)"
  unfolding forest_written_def
proof (intro allI impI)
  fix style and k :: int and out :: "bytes xoutput"
  assume st: "\<not> STYLE_NOESCAPE style" and k: "node_depth par d = Some k" and out: "status out = MXML_STATUS_OK"
  have ky: "node_depth y d = Some (k + 1)" using k par by (simp add: node_depth.simps)
  from t [unfolded tree_written_def, rule_format, OF st ky out] obtain w1 a w2 where
    1: "blank w1" "shown t a" "blank w2" "says2 (write_nodes to_file eol d style False (Some y) out) out (w1 @ a @ w2)" by blast
  from 1(4) obtain r o1 where
    o1: "write_nodes to_file eol d style False (Some y) out = Some (r, o1)" "status o1 = MXML_STATUS_OK"
      "u o1 = u out @ w1 @ a @ w2" by (rule says2_obtain)
  from ts [unfolded forest_written_def, rule_format, OF st k o1(2)] obtain b w where
    2: "shown_list ts b" "blank w" "says2 (write_nodes to_file eol d style True (oNext (nd d y)) o1) o1 (b @ w)" by blast
  from shown_list_shift [OF 2(1) 1(3) 2(2)] obtain b' w' where
    3: "w2 @ b @ w = b' @ w'" "shown_list ts b'" "blank w'" by blast
  have "shown_list (t # ts) (w1 @ a @ b')" using 1(1,2) 3(2) by (rule shown_shown_list.Cons)
  moreover have "says2 (write_nodes to_file eol d style True (Some y) out) out ((w1 @ a @ b') @ w')"
    using 2(3) o1 3(1) by (subst write_nodes_rest) (simp add: says2_def)
  ultimately show "\<exists>b w. shown_list (t # ts) b \<and> blank w \<and> says2 (write_nodes to_file eol d style True (Some y) out) out (b @ w)"
    using 3(3) by blast
qed

text \<open>A tag whose children are written.\<close>

lemma tag_written:
  assumes x: "tag_here (nd d q) n kvs t" and ok: "plain t" "\<forall>kv \<in> set kvs. plain (snd kv)" "blank eol"
    and ts: "forest_written eol d ts q (oChild (nd d q))" "oChild (nd d q) = None \<longleftrightarrow> ts = []"
  shows "tree_written eol d (Tag n kvs t ts) q"
  unfolding tree_written_def
proof (intro allI impI)
  fix style0 and k :: int and out :: "bytes xoutput"
  let ?style = "inner_style style0" and ?x = "nd d q"
  let ?depth = "if STYLE_INDENT ?style then k - 1 else 0"
  let ?close = "if t = [] \<and> oChild ?x = None then ''/>'' else ''>''"
  assume st: "\<not> STYLE_NOESCAPE style0" and k: "node_depth q d = Some k" and out: "status out = MXML_STATUS_OK"
  have ty: "nType ?x = MXML_TYPE_TAG" using x by (simp add: tag_here_def)
  have st': "\<not> STYLE_NOESCAPE ?style" using st by (simp add: inner_style)
  let ?ind = "if STYLE_INDENT ?style then mxml_node_file_indent to_file (k - 1) ?style out else Some out"
  from says_indent [OF out] obtain w1 o1 where
    1: "blank w1" "?ind = Some o1" "status o1 = MXML_STATUS_OK" "u o1 = u out @ w1"
    by (rule says_pre_cases) simp
  from says_open [OF x ok(2) st' ok(3) 1(3)] obtain v1 o2 where
    2: "blank v1" "write_tag_open to_file eol ?style ?x o1 = Some o2" "status o2 = MXML_STATUS_OK"
      "u o2 = u o1 @ (CHR ''<'' # n @ attributes_text kvs @ ?close) @ v1" by (rule says_pre_cases) simp
  from ts(1) [unfolded forest_written_def, rule_format, OF st' k 2(3)] obtain b v2 where
    b: "shown_list ts b" "blank v2" "says2 (write_nodes to_file eol d ?style True (oChild ?x) o2) o2 (b @ v2)" by blast
  from b(3) obtain r o3 where
    3: "write_nodes to_file eol d ?style True (oChild ?x) o2 = Some (r, o3)" "status o3 = MXML_STATUS_OK"
      "u o3 = u o2 @ b @ v2" by (rule says2_obtain)
  have run: "write_nodes to_file eol d style0 False (Some q) out =
      write_tag_close to_file eol ?style ?depth ?x o3 \<bind> (\<lambda>out. Some (finish_node out))"
    using write_tag [OF ty k, of to_file eol style0 out] 1(2) 2(2) 3(1) by simp
  show "\<exists>w1 a w2. blank w1 \<and> shown (Tag n kvs t ts) a \<and> blank w2 \<and>
        says2 (write_nodes to_file eol d style0 False (Some q) out) out (w1 @ a @ w2)"
  proof (cases "t = [] \<and> oChild ?x = None")
    case True
    then have "write_tag_close to_file eol ?style ?depth ?x o3 = Some o3"
      using tag_here_text [OF x] by (simp add: write_tag_close_def)
    moreover have "r = MXML_STATUS_OK" "o3 = o2" using 3(1) True by (simp_all add: write_nodes_None)
    ultimately have "says2 (write_nodes to_file eol d style0 False (Some q) out) out
        (w1 @ (CHR ''<'' # n @ attributes_text kvs @ ''/>'') @ v1)"
      using run 1(4) 2(3,4) True by (simp add: says2_def finish_node_def)
    moreover have "shown (Tag n kvs t ts) (CHR ''<'' # n @ attributes_text kvs @ ''/>'')"
      using True ts(2) shown_shown_list.empty by simp
    ultimately show ?thesis using 1(1) 2(1) by blast
  next
    case False
    from says_close [OF x ok(1) st' ok(3) False 3(2)] obtain w2 w3 where
      c: "blank w2" "blank w3" "says_pre (write_tag_close to_file eol ?style ?depth ?x o3) o3
        ((w2 @ escaped t) @ w3 @ ''</'' @ n @ [CHR ''>''] @ [])" by blast
    from c(3) obtain v3 o4 where
      4: "blank v3" "write_tag_close to_file eol ?style ?depth ?x o3 = Some o4" "status o4 = MXML_STATUS_OK"
        "u o4 = u o3 @ (w2 @ escaped t @ w3 @ ''</'' @ n @ [CHR ''>'']) @ v3" by (rule says_pre_cases) simp
    from shown_list_shift [OF b(1) 2(1) b(2)] obtain b' v where
      b': "v1 @ b @ v2 = b' @ v" "shown_list ts b'" "blank v" by blast
    let ?a = "CHR ''<'' # n @ attributes_text kvs @ CHR ''>'' # b' @ (v @ w2) @ escaped t @ w3 @ CHR ''<'' # CHR ''/'' # n @ ''>''"
    have "shown (Tag n kvs t ts) ?a" using b'(2,3) c(1,2) by (intro shown_shown_list.full) simp_all
    moreover have "u o4 = u out @ w1 @ CHR ''<'' # n @ attributes_text kvs @ CHR ''>'' # (v1 @ b @ v2) @ w2 @ escaped t @ w3 @
        ''</'' @ n @ CHR ''>'' # v3"
      using 1(4) 2(4) 3(3) 4(4) False by simp
    then have "says2 (write_nodes to_file eol d style0 False (Some q) out) out (w1 @ ?a @ v3)"
      using run 4(2,3) unfolding b'(1) by (simp add: says2_def finish_node_def)
    ultimately show ?thesis using 1(1) 4(1) by blast
  qed
qed

lemma forest_written_Nil: "forest_written eol d [] par None"
  unfolding forest_written_def write_nodes_None
  by (auto intro!: exI [of _ "[]"] shown_shown_list.Nil simp: says2_def)

lemma writes_tree:
  "tree_at d t q hi \<Longrightarrow> tree_plain t \<Longrightarrow> blank eol \<Longrightarrow> tree_written eol d t q"
  and writes_forest:
  "forest_at d ts ys lo hi \<Longrightarrow> \<forall>t \<in> set ts. tree_plain t \<Longrightarrow> blank eol \<Longrightarrow> seg d par prev start None ys \<Longrightarrow>
     forest_written eol d ts par start"
proof (induction d t q hi and d ts ys lo hi arbitrary: and par prev start rule: tree_at_forest_at.induct)
  case (1 d n kvs t ts q hi)
  from 1(2) obtain ys where ys: "kids d q ys" "forest_at d ts ys (Suc q) hi" by auto
  have "forest_written eol d ts q (oChild (nd d q))"
    by (rule 1(1) [OF ys(2)]) (use 1(3,4) ys(1) in \<open>auto simp: kids_def\<close>)
  moreover have "oChild (nd d q) = None \<longleftrightarrow> ts = []"
    using ys by (cases ts) (auto simp: kids_def)
  ultimately show ?case using 1(2-4) by (intro tag_written) (auto simp: tag_here_def)
next
  case (2 d ys lo hi)
  then show ?case using forest_written_Nil by simp
next
  case (3 d t ts ys lo hi)
  from 3(3) obtain y zs mid where ys: "ys = y # zs" "tree_at d t y mid" "forest_at d ts zs mid hi" by auto
  with 3(6) have s: "start = Some y" "oParent (nd d y) = Some par" "seg d par (Some y) (oNext (nd d y)) None zs" by auto
  show ?case unfolding s(1)
    by (intro forest_written_Cons s(2) 3(1) [OF ys(2)] 3(2) [OF ys(3)]) (use 3(4,5) s(3) in auto)
qed

section \<open>The round trip\<close>

text \<open>A document whose root \<open>q\<close> holds the trees.\<close>

definition document_at :: "xdoc \<Rightarrow> nat \<Rightarrow> xtree list \<Rightarrow> bool" where
  "document_at d q ts \<longleftrightarrow> nType (nd d q) = MXML_TYPE_DOCUMENT \<and> oParent (nd d q) = None \<and>
     (\<exists>ys lo hi. kids d q ys \<and> forest_at d ts ys lo hi)"

lemma write_document:
  assumes x: "nType (nd d q) = MXML_TYPE_DOCUMENT" and depth: "node_depth q d = Some k"
  shows "write_nodes func eol d style False (Some q) out =
    (if STYLE_INDENT (inner_style style) then mxml_node_file_indent func (k - 1) (inner_style style) out else Some out) \<bind>
    (\<lambda>out. write_nodes func eol d (inner_style style) True (oChild (nd d q)) out \<bind>
    (\<lambda>(r, out). new_line func eol (inner_style style) out \<bind> (\<lambda>out. Some (finish_node out))))"
  using x depth by (subst write_nodes.simps) (simp add: Let_def inner_style_def [symmetric] case_prod_unfold)

lemma document_text:
  assumes d: "document_at d q ts" "\<forall>t \<in> set ts. tree_plain t" and eol: "blank eol" and st: "\<not> STYLE_NOESCAPE (hb_itemGetNL style)"
  obtains b w where "SR_XML_NODE_TO_STRING garbage eol d q style = Some (Some (b @ w))" "shown_list ts b" "blank w"
proof -
  let ?style = "inner_style (hb_itemGetNL style)" and ?out = "snd (mxml_output_setup ([] :: bytes))"
  from d(1) obtain ys lo hi where ys: "kids d q ys" "forest_at d ts ys lo hi" by (auto simp: document_at_def)
  have k: "node_depth q d = Some 0" and ty: "nType (nd d q) = MXML_TYPE_DOCUMENT"
    using d(1) by (simp_all add: document_at_def node_depth.simps)
  have out: "status ?out = MXML_STATUS_OK" "u ?out = []" by (simp_all add: mxml_output_setup_def)
  have st': "\<not> STYLE_NOESCAPE ?style" using st by (simp add: inner_style)
  from says_indent [OF out(1), of "STYLE_INDENT ?style" "0 - 1" ?style] obtain v o1 where
    1: "blank v" "(if STYLE_INDENT ?style then mxml_node_file_indent to_file (0 - 1) ?style ?out else Some ?out) = Some o1"
      "status o1 = MXML_STATUS_OK" "u o1 = v" using out(2) by (elim says_pre_cases) auto
  have "seg d q None (oChild (nd d q)) None ys" using ys(1) by (simp add: kids_def)
  from writes_forest [OF ys(2) d(2) eol this, unfolded forest_written_def, rule_format, OF st' k 1(3)] obtain b w where
    b: "shown_list ts b" "blank w" "says2 (write_nodes to_file eol d ?style True (oChild (nd d q)) o1) o1 (b @ w)" by blast
  from b(3) obtain r o2 where
    2: "write_nodes to_file eol d ?style True (oChild (nd d q)) o1 = Some (r, o2)" "status o2 = MXML_STATUS_OK"
      "u o2 = u o1 @ b @ w" by (rule says2_obtain)
  from says_line [OF eol 2(2), of ?style] obtain v' o3 where
    3: "blank v'" "new_line to_file eol ?style o2 = Some o3" "status o3 = MXML_STATUS_OK" "u o3 = u o2 @ v'"
    by (elim says_pre_cases) auto
  have "mxml_node_write to_file eol d q (hb_itemGetNL style) ?out = Some (finish_node o3)"
    using write_document [OF ty k, of to_file eol "hb_itemGetNL style" ?out] 1(2) 2(1) 3(2) by (simp add: mxml_node_write_def)
  then have shown: "SR_XML_NODE_TO_STRING garbage eol d q style = Some (Some (v @ b @ (w @ v')))"
    unfolding string_on_file(1) using 1(4) 2(3) 3(3,4) by (simp add: finish_node_def)
  from shown_list_shift [OF b(1) 1(1), of "w @ v'"] b(2) 3(1) obtain b' w' where
    "v @ b @ (w @ v') = b' @ w'" "shown_list ts b'" "blank w'" by auto
  with shown show thesis by (intro that) simp_all
qed

text \<open>C6: A document of tags, with attributes, texts and children, that is written and read again is the same
  document: the tags have their names, their attributes in order with the same values, their texts and their
  children in order, in doubly linked lists; for every style that escapes, with or without indentation and new lines,
  as long as the new line is blank, the values have no NUL byte and the texts no blanks at their ends.
\<close>

theorem document_round_trip:
  assumes d: "document_at d q ts" "\<forall>t \<in> set ts. tree_plain t \<and> tree_ok t" and eol: "blank eol"
    and st: "\<not> STYLE_NOESCAPE (hb_itemGetNL style)" "\<not> STYLE_NOESCAPE style'"
  shows "\<exists>s r d'. SR_XML_NODE_TO_STRING garbage eol d q style = Some (Some s) \<and>
     SR_XML_DATAREAD garbage' ans 0 (Str s) style' new_doc = Returns (Some (MXML_STATUS_OK, r, d')) \<and>
     document_at d' 0 ts \<and> nNodeCount d' = sum_list (map tree_size ts)"
proof -
  have plain: "\<forall>t \<in> set ts. tree_plain t" and ok: "\<forall>t \<in> set ts. tree_ok t" using d(2) by auto
  from document_text [OF d(1) plain eol st(1), of garbage] obtain b w where
    out: "SR_XML_NODE_TO_STRING garbage eol d q style = Some (Some (b @ w))" "shown_list ts b" "blank w" .
  from shown_read [OF out(2) ok out(3) st(2), of garbage' ans] obtain r d' ys where
    read: "SR_XML_DATAREAD garbage' ans 0 (Str (b @ w)) style' new_doc = Returns (Some (MXML_STATUS_OK, r, d'))"
      "kids d' 0 ys" "forest_at d' ts ys 1 (next_node d')" "nNodeCount d' = sum_list (map tree_size ts)"
      "nType (nd d' 0) = MXML_TYPE_DOCUMENT" "oParent (nd d' 0) = None" .
  then have "document_at d' 0 ts" by (auto simp: document_at_def)
  with out(1) read(1,4) show ?thesis by blast
qed

text \<open>A list with an attribute, and two items, one with a text.\<close>

definition sample_doc :: xdoc where
  "sample_doc = \<lparr>nodes = (\<lambda>p. new_node)
     (0 := new_node\<lparr>nType := MXML_TYPE_DOCUMENT, oChild := Some 1\<rparr>,
      1 := new_node\<lparr>cName := Str ''list'', aAttributes := Hash [(Str ''id'', Str ''1<2'')], oParent := Some 0, oChild := Some 2\<rparr>,
      2 := new_node\<lparr>cName := Str ''item'', cData := Str ''a & b'', oParent := Some 1, oNext := Some 3\<rparr>,
      3 := new_node\<lparr>cName := Str ''item'', oParent := Some 1, oPrev := Some 2\<rparr>),
     next_node = 4, nLine = 1, nStatus = 1, nError = 0, oErrorNode = None, nNodeCount = 3\<rparr>"

definition sample_trees :: "xtree list" where
  "sample_trees = [Tag ''list'' [(''id'', ''1<2'')] [] [Tag ''item'' [] ''a & b'' [], Tag ''item'' [] [] []]]"

lemma sample_document: "document_at sample_doc 0 sample_trees"
proof -
  have k0: "kids sample_doc 0 [1]" "kids sample_doc 1 [2, 3]" "kids sample_doc 2 []" "kids sample_doc 3 []"
    by (simp_all add: kids_def sample_doc_def new_node_def)
  have items: "tree_at sample_doc (Tag ''item'' [] ''a & b'' []) 2 3" "tree_at sample_doc (Tag ''item'' [] [] []) 3 4"
    using k0(3,4) by (auto simp: sample_doc_def new_node_def attrs_def text_item_def)
  have "forest_at sample_doc [Tag ''item'' [] ''a & b'' [], Tag ''item'' [] [] []] [2, 3] 2 4"
    unfolding forest_at.simps
    by (intro exI [of _ 2] exI [of _ "[3]"] exI [of _ 3] conjI items refl exI [of _ "[]"] exI [of _ 4]) simp_all
  moreover have "nType (nd sample_doc 1) = MXML_TYPE_TAG" "cName (nd sample_doc 1) = Str ''list''"
    "aAttributes (nd sample_doc 1) = Hash (attrs [(''id'', ''1<2'')])" "cData (nd sample_doc 1) = text_item []"
    by (simp_all add: sample_doc_def new_node_def attrs_def text_item_def)
  ultimately have "tree_at sample_doc (hd sample_trees) 1 4"
    using k0(2) by (auto simp: sample_trees_def numeral_2_eq_2 simp del: forest_at.simps)
  then have "forest_at sample_doc sample_trees [1] 1 4"
    by (auto simp: sample_trees_def intro!: exI [of _ 4] simp del: tree_at.simps)
  then show ?thesis using k0(1) by (auto simp: document_at_def sample_doc_def new_node_def)
qed

theorem document_round_trip_witness:
  "\<exists>s r d'. SR_XML_NODE_TO_STRING (\<lambda>_. CHR ''?'') [LF] sample_doc 0 (INum 1) = Some (Some s) \<and>
     SR_XML_DATAREAD (\<lambda>_. CHR ''?'') [] 0 (Str s) 0 new_doc = Returns (Some (MXML_STATUS_OK, r, d')) \<and>
     document_at d' 0 sample_trees \<and> nNodeCount d' = sum_list (map tree_size sample_trees)"
  by (rule document_round_trip [OF sample_document])
    (simp_all add: sample_trees_def plain_def text_ok_def name_char_def is_space_def xml_space_def ctype_defs blank_def
      STYLE_NOESCAPE_def)

end
