(* ===== verification/Column.thy ===== *)
theory Column
  imports ExArea
begin

text \<open>
  Columns of result sets: the arrays in which the connections of the databases describe them to the PRG
  code, and how the text of a column becomes a value. The connections do this in copies of one function
  that differ in details, in \<open>source/postgresql\<close>, \<open>source/mysql\<close>, \<open>source/mariadb\<close> and \<open>source/firebird\<close>;
  what they have in common is here. Number items do not keep their widths.
\<close>

section \<open>Codes\<close>

text \<open>The types of \<open>include/sqlodbc.ch\<close>.\<close>

abbreviation SQL_CHAR :: int where "SQL_CHAR \<equiv> 1"
abbreviation SQL_NUMERIC :: int where "SQL_NUMERIC \<equiv> 2"
abbreviation SQL_DECIMAL :: int where "SQL_DECIMAL \<equiv> 3"
abbreviation SQL_INTEGER :: int where "SQL_INTEGER \<equiv> 4"
abbreviation SQL_SMALLINT :: int where "SQL_SMALLINT \<equiv> 5"
abbreviation SQL_FLOAT :: int where "SQL_FLOAT \<equiv> 6"
abbreviation SQL_REAL :: int where "SQL_REAL \<equiv> 7"
abbreviation SQL_DOUBLE :: int where "SQL_DOUBLE \<equiv> 8"
abbreviation SQL_DATE :: int where "SQL_DATE \<equiv> 9"
abbreviation SQL_TIME :: int where "SQL_TIME \<equiv> 10"
abbreviation SQL_TIMESTAMP :: int where "SQL_TIMESTAMP \<equiv> 11"
abbreviation SQL_TYPE_DATE :: int where "SQL_TYPE_DATE \<equiv> 91"
abbreviation SQL_TYPE_TIMESTAMP :: int where "SQL_TYPE_TIMESTAMP \<equiv> 93"
abbreviation SQL_LONGVARCHAR :: int where "SQL_LONGVARCHAR \<equiv> - 1"
abbreviation SQL_VARBINARY :: int where "SQL_VARBINARY \<equiv> - 3"
abbreviation SQL_LONGVARBINARY :: int where "SQL_LONGVARBINARY \<equiv> - 4"
abbreviation SQL_BIGINT :: int where "SQL_BIGINT \<equiv> - 5"
abbreviation SQL_TINYINT :: int where "SQL_TINYINT \<equiv> - 6"
abbreviation SQL_BIT :: int where "SQL_BIT \<equiv> - 7"
abbreviation SQL_WCHAR :: int where "SQL_WCHAR \<equiv> - 8"
abbreviation SQL_NVARCHAR :: int where "SQL_NVARCHAR \<equiv> - 9"
abbreviation SQL_WLONGVARCHAR :: int where "SQL_WLONGVARCHAR \<equiv> - 10"
abbreviation SQL_GUID :: int where "SQL_GUID \<equiv> - 11"
abbreviation SQL_LONGVARCHARXML :: int where "SQL_LONGVARCHARXML \<equiv> - 30"
abbreviation SQL_DATETIME :: int where "SQL_DATETIME \<equiv> - 40"
abbreviation SQL_DB2_CLOB :: int where "SQL_DB2_CLOB \<equiv> - 99"
abbreviation SQL_FAKE_LOB :: int where "SQL_FAKE_LOB \<equiv> - 100"
abbreviation SQL_FAKE_NUM :: int where "SQL_FAKE_NUM \<equiv> - 102"

abbreviation SR_FIELD_ENUM :: nat where "SR_FIELD_ENUM \<equiv> 8"
abbreviation SR_FIELD_INFO_SIZE :: nat where "SR_FIELD_INFO_SIZE \<equiv> 11"

text \<open>The numbers the PRG code gets for the results of a call.\<close>

fun sql_code :: "sqlreturn \<Rightarrow> int" where
  "sql_code SQL_SUCCESS = 0"
| "sql_code SQL_SUCCESS_WITH_INFO = 1"
| "sql_code SQL_NO_DATA = 100"
| "sql_code SQL_ERROR = - 1"
| "sql_code SQL_INVALID_HANDLE = - 2"

section \<open>Descriptions\<close>

text \<open>What a connection finds out of a column: the letter of its type, length, decimals and domain.\<close>

type_synonym column_type = "bytes \<times> int \<times> int \<times> int"

definition column_array :: "bytes \<Rightarrow> item \<Rightarrow> column_type option \<Rightarrow> bool \<Rightarrow> item" where
  "column_array name enum ty nullable =
     (let a0 = hb_arraySet (Arr 0 (replicate SR_FIELD_INFO_SIZE NIL)) SR_FIELD_NAME (Str name);
          a1 = hb_arraySet a0 SR_FIELD_ENUM enum;
          a2 = (case ty of None \<Rightarrow> a1
                | Some (t, len, dec, domain) \<Rightarrow>
                    hb_arraySet (hb_arraySet (hb_arraySet (hb_arraySet a1 SR_FIELD_TYPE (Str t))
                      SR_FIELD_LEN (INum len)) SR_FIELD_DEC (INum dec)) SR_FIELD_DOMAIN (INum domain))
      in hb_arraySet a2 SR_FIELD_NULLABLE (Logical nullable))"

definition col_letter :: "item \<Rightarrow> bytes" where
  "col_letter f = hb_itemGetC (hb_arrayGet f SR_FIELD_TYPE)"

definition col_domain :: "item \<Rightarrow> int" where
  "col_domain f = hb_itemGetNL (hb_arrayGet f SR_FIELD_DOMAIN)"

definition col_len :: "item \<Rightarrow> int" where
  "col_len f = hb_itemGetNL (hb_arrayGet f SR_FIELD_LEN)"

definition col_dec :: "item \<Rightarrow> int" where
  "col_dec f = hb_itemGetNL (hb_arrayGet f SR_FIELD_DEC)"

definition col_enum :: "item \<Rightarrow> int" where
  "col_enum f = hb_itemGetNL (hb_arrayGet f SR_FIELD_ENUM)"

lemma column_array_fields [simp]:
  "hb_arrayGet (column_array name enum ty nullable) SR_FIELD_ENUM = enum"
  "col_letter (column_array name enum (Some (t, len, dec, domain)) nullable) = t"
  "col_len (column_array name enum (Some (t, len, dec, domain)) nullable) = len"
  "col_dec (column_array name enum (Some (t, len, dec, domain)) nullable) = dec"
  "col_domain (column_array name enum (Some (t, len, dec, domain)) nullable) = domain"
  "col_enum (column_array name enum ty nullable) = hb_itemGetNL enum"
  by (simp_all add: column_array_def col_letter_def col_len_def col_dec_def col_domain_def col_enum_def
      hb_arrayGet_def hb_arraySet_arr_of arr_get_set Let_def split: option.split)

section \<open>The outside\<close>

text \<open>
  The run-time library: \<open>c_str_val\<close> and \<open>c_str_int\<close> are \<open>hb_strVal\<close> and \<open>hb_strValInt\<close>, \<open>c_put_number\<close> is
  \<open>hb_itemPutNLen\<close>, \<open>c_date_enc\<close> is what \<open>hb_itemPutDS\<close> makes of eight digits, \<open>c_stamp\<close>, \<open>c_stamp_raw\<close> and
  \<open>c_time\<close> are \<open>hb_timeStampStrGetDT\<close>, \<open>hb_timeStampStrRawGet\<close> and \<open>hb_timeUnformat\<close>. The switches are
  \<open>sr_lSerializeArrayAsJson\<close>, \<open>sr_lSerializedAsString\<close> and \<open>sr_isMultilang\<close>; \<open>c_languages\<close> are the base, second
  and root language. \<open>c_deserialize\<close> and \<open>c_from_xml\<close> are functions written in PRG code.
  A C \<open>double\<close> is the rational number it stands for: how \<open>hb_strVal\<close> rounds is its own, what is no number and
  the two infinities have no value here.
\<close>

record colenv =
  c_str_val :: "bytes \<Rightarrow> rat"
  c_str_int :: "bytes \<Rightarrow> int \<times> bool"
  c_put_number :: "rat \<Rightarrow> int \<Rightarrow> int \<Rightarrow> item"
  c_date_enc :: "bytes \<Rightarrow> int"
  c_stamp :: "bytes \<Rightarrow> int \<times> int"
  c_stamp_raw :: "bytes \<Rightarrow> int \<times> int"
  c_time :: "bytes \<Rightarrow> int"
  c_as_json :: bool
  c_as_string :: bool
  c_multilang :: bool
  c_languages :: "item list"
  c_deserialize :: "bytes \<Rightarrow> item"
  c_from_xml :: "bytes \<Rightarrow> item"

definition cstring :: "bytes \<Rightarrow> bytes" where
  "cstring s = takeWhile (\<lambda>c. c \<noteq> NUL) s"

text \<open>\<open>strncmp (s, t, n) == 0\<close>, where \<open>t\<close> has \<open>n\<close> bytes.\<close>

definition starts_with :: "bytes \<Rightarrow> bytes \<Rightarrow> bool" where
  "starts_with t s \<longleftrightarrow> take (length t) (cstring s) = t"

section \<open>Values\<close>

text \<open>A text of the width of its column. No memory is given for a negative width, which is a huge one
  when it is read as the unsigned type it is used as.\<close>

definition fixed_text :: "int \<Rightarrow> bytes \<Rightarrow> item option" where
  "fixed_text len s = (if len < 0 then None else Some (Str (fit (nat len) s)))"

definition put_escaped :: "colenv \<Rightarrow> item \<Rightarrow> bytes \<Rightarrow> item" where
  "put_escaped env f s =
     (case sr_escapeNumber (c_str_val env) (c_str_int env) s (word_of_int (col_len f)) (word_of_int (col_dec f)) of
        (v, w, d) \<Rightarrow> c_put_number env v w d)"

text \<open>A date from \<open>YYYY-MM-DD\<close>; the text ends with its NUL.\<close>

definition date_value :: "colenv \<Rightarrow> bytes \<Rightarrow> item option" where
  "date_value env s =
     (if length s < 9 then None
      else Some (Date (c_date_enc env (map (\<lambda>i. (s @ [NUL]) ! i) [0, 1, 2, 3, 5, 6, 8, 9]))))"

text \<open>The value of a multi-language hash in the first language it has.\<close>

definition choose_language :: "colenv \<Rightarrow> (item \<times> item) list \<Rightarrow> item" where
  "choose_language env kv =
     (case filter (\<lambda>l. map_of kv l \<noteq> None) (c_languages env) of
        l # ls \<Rightarrow> the (map_of kv l)
      | [] \<Rightarrow> NIL)"

text \<open>
  A memo. \<open>HB_JSONDECODE\<close> is called with the item for its result pushed by value, and a function does not
  change what was pushed by value: the item stays NIL. \<open>raw\<close> is what the text is otherwise.
\<close>

definition memo_value :: "colenv \<Rightarrow> item \<Rightarrow> bytes \<Rightarrow> bool \<Rightarrow> item" where
  "memo_value env raw s bTranslate =
     (if 0 < length s \<and> (starts_with ''['' s \<or> \<not> starts_with ''[]'' s) \<and> c_as_json env then NIL
      else if length s > 10 \<and> starts_with serial_signature s \<and> \<not> c_as_string env
      then (case c_deserialize env s of
              Hash kv \<Rightarrow> (if c_multilang env \<and> bTranslate then choose_language env kv else Hash kv)
            | v \<Rightarrow> v)
      else raw)"

text \<open>
  The switches over the type of the column that the connections share, for a column without content and
  for one with content: \<open>nums\<close> are the number types and \<open>bits\<close> the logical ones, \<open>is_true\<close> reads a logical
  value. A type that is not known leaves the item as it is, which is NIL.
\<close>

definition null_column :: "colenv \<Rightarrow> int set \<Rightarrow> int set \<Rightarrow> item \<Rightarrow> item option" where
  "null_column env nums bits f =
     (let t = col_domain f in
      if t = SQL_CHAR then fixed_text (col_len f) []
      else if t \<in> nums then Some (put_escaped env f [SPACE])
      else if t = SQL_DATE then Some (Date (c_date_enc env (replicate 8 SPACE)))
      else if t = SQL_LONGVARCHAR then Some (Str [])
      else if t \<in> bits then Some (Logical False)
      else if t = SQL_DATETIME \<or> t = SQL_TIME then Some (TStamp 0 0)
      else Some NIL)"

definition text_column ::
  "colenv \<Rightarrow> int set \<Rightarrow> int set \<Rightarrow> (bytes \<Rightarrow> bool) \<Rightarrow> item \<Rightarrow> bytes \<Rightarrow> bool \<Rightarrow> item option"
where
  "text_column env nums bits is_true f s bTranslate =
     (let t = col_domain f in
      if t = SQL_CHAR then fixed_text (col_len f) s
      else if t \<in> nums then Some (put_escaped env f s)
      else if t = SQL_DATE then date_value env s
      else if t = SQL_LONGVARCHAR then Some (memo_value env (Str s) s bTranslate)
      else if t \<in> bits then Some (Logical (is_true s))
      else if t = SQL_DATETIME then Some (case c_stamp env (cstring s) of (d, ms) \<Rightarrow> TStamp d ms)
      else if t = SQL_TIME then Some (TStamp 0 (c_time env (cstring s)))
      else Some NIL)"

section \<open>A row\<close>

text \<open>The loop over the fields of a row: \<open>read\<close> gives the value of a field whose column has number \<open>n\<close>; a
  field without a column stays NIL. The results go into an array from position \<open>i\<close> on.\<close>

fun row_loop :: "(item \<Rightarrow> int \<Rightarrow> item option) \<Rightarrow> nat \<Rightarrow> item list \<Rightarrow> item \<Rightarrow> item option" where
  "row_loop read i [] ret = Some ret"
| "row_loop read i (f # fs) ret = do {
     v \<leftarrow> (if col_enum f = 0 then Some NIL else read f (col_enum f));
     row_loop read (Suc i) fs (hb_arraySet ret i v)
   }"

end
