(* ===== verification/Postgres.thy ===== *)
theory Postgres
  imports Column
begin

text \<open>
  The connection to PostgreSQL, \<open>source/postgresql/sr_pgs_bind.c\<close>: sessions, results and their rows, and how
  columns are described. The library \<open>libpq\<close> is a parameter; a result is seen through what its documentation
  says of its accessors.
\<close>

section \<open>Results\<close>

abbreviation PGRES_EMPTY_QUERY :: int where "PGRES_EMPTY_QUERY \<equiv> 0"
abbreviation PGRES_COMMAND_OK :: int where "PGRES_COMMAND_OK \<equiv> 1"
abbreviation PGRES_TUPLES_OK :: int where "PGRES_TUPLES_OK \<equiv> 2"
abbreviation PGRES_BAD_RESPONSE :: int where "PGRES_BAD_RESPONSE \<equiv> 5"
abbreviation PGRES_NONFATAL_ERROR :: int where "PGRES_NONFATAL_ERROR \<equiv> 6"
abbreviation PGRES_FATAL_ERROR :: int where "PGRES_FATAL_ERROR \<equiv> 7"

text \<open>A column has a name, the number of its type, the modifier of the type and the size of its values; a
  null is \<open>None\<close>.\<close>

record pgcol =
  pc_name :: bytes
  pc_type :: int
  pc_mod :: int
  pc_size :: int

record pgresult =
  r_status :: int
  r_cols :: "pgcol list"
  r_rows :: "bytes option list list"
  r_tuples :: bytes

text \<open>\<open>PQgetvalue\<close>: no pointer for a row or a column that is not there, the empty text for a null.\<close>

definition PQgetvalue :: "pgresult \<Rightarrow> int \<Rightarrow> int \<Rightarrow> bytes option" where
  "PQgetvalue r row col = do {
     xs \<leftarrow> rd_at (r_rows r) row;
     v \<leftarrow> rd_at xs col;
     Some (case v of None \<Rightarrow> [] | Some s \<Rightarrow> cstring s)
   }"

definition PQgetlength :: "pgresult \<Rightarrow> int \<Rightarrow> int \<Rightarrow> int" where
  "PQgetlength r row col = (case PQgetvalue r row col of None \<Rightarrow> 0 | Some s \<Rightarrow> int (length s))"

text \<open>\<open>PQresultStatus\<close> of no result is a fatal error.\<close>

definition PQresultStatus :: "pgresult option \<Rightarrow> int" where
  "PQresultStatus r = (case r of None \<Rightarrow> PGRES_FATAL_ERROR | Some x \<Rightarrow> r_status x)"

section \<open>Sessions\<close>

text \<open>\<open>pg_dbh\<close> says whether there is a connection, \<open>pg_stmt\<close> is the current result. A session that does not
  exist is \<open>None\<close>.\<close>

record pgs_session =
  pg_numcols :: int
  pg_ifetch :: int
  pg_dbh :: bool
  pg_stmt :: "pgresult option"
  pg_affected :: int

record 'w pgs_env =
  pe_col :: colenv
  pe_connect :: "bytes \<Rightarrow> 'w \<Rightarrow> bool \<times> 'w"
  pe_finish :: "'w \<Rightarrow> 'w"
  pe_status :: "'w \<Rightarrow> int"
  pe_exec :: "bytes \<Rightarrow> 'w \<Rightarrow> pgresult option \<times> 'w"
  pe_error :: "'w \<Rightarrow> bytes"
  pe_trans :: "'w \<Rightarrow> int"
  pe_status_text :: "int \<Rightarrow> bytes"
  pe_old_behavior :: bool

definition pg_connected :: "pgs_session option \<Rightarrow> bool" where
  "pg_connected s = (case s of None \<Rightarrow> False | Some x \<Rightarrow> pg_dbh x)"

definition pg_result :: "pgs_session option \<Rightarrow> pgresult option" where
  "pg_result s = (case s of None \<Rightarrow> None | Some x \<Rightarrow> if pg_dbh x then pg_stmt x else None)"

definition SR_PGSCONNECT :: "'w pgs_env \<Rightarrow> bytes \<Rightarrow> 'w \<Rightarrow> pgs_session option \<times> 'w" where
  "SR_PGSCONNECT env text w =
     (case pe_connect env text w of
        (ok, w1) \<Rightarrow>
          (Some \<lparr>pg_numcols = 0, pg_ifetch = - 2, pg_dbh = ok, pg_stmt = None, pg_affected = 0\<rparr>, w1))"

definition SR_PGSFINISH :: "'w pgs_env \<Rightarrow> pgs_session option \<Rightarrow> 'w \<Rightarrow> 'w" where
  "SR_PGSFINISH env s w = (if pg_connected s then pe_finish env w else w)"

definition SR_PGSSTATUS :: "'w pgs_env \<Rightarrow> pgs_session option \<Rightarrow> 'w \<Rightarrow> int" where
  "SR_PGSSTATUS env s w =
     sql_code (if pg_connected s \<and> pe_status env w = 0 then SQL_SUCCESS else SQL_ERROR)"

definition SR_PGSSTATUS2 :: "'w pgs_env \<Rightarrow> pgs_session option \<Rightarrow> 'w \<Rightarrow> int" where
  "SR_PGSSTATUS2 env s w = (if pg_connected s then pe_status env w else sql_code SQL_ERROR)"

definition SR_PGSRESULTSTATUS :: "pgresult option \<Rightarrow> int" where
  "SR_PGSRESULTSTATUS res =
     (case res of
        None \<Rightarrow> sql_code SQL_ERROR
      | Some r \<Rightarrow>
          (let ret = r_status r in
           if ret = PGRES_EMPTY_QUERY then sql_code SQL_ERROR
           else if ret = PGRES_COMMAND_OK then sql_code SQL_SUCCESS
           else if ret = PGRES_TUPLES_OK then sql_code SQL_SUCCESS
           else if ret = PGRES_BAD_RESPONSE then sql_code SQL_ERROR
           else if ret = PGRES_NONFATAL_ERROR then sql_code SQL_SUCCESS_WITH_INFO
           else if ret = PGRES_FATAL_ERROR then sql_code SQL_ERROR
           else ret))"

definition SR_PGSEXEC ::
  "'w pgs_env \<Rightarrow> bytes \<Rightarrow> pgs_session option \<Rightarrow> 'w \<Rightarrow> pgresult option \<times> pgs_session option \<times> 'w"
where
  "SR_PGSEXEC env cmd s w =
     (case s of
        Some x \<Rightarrow>
          (if \<not> pg_dbh x then (None, s, w)
           else (case pe_exec env cmd w of
             (None, w1) \<Rightarrow> (None, Some (x\<lparr>pg_stmt := None, pg_numcols := 0, pg_affected := 0\<rparr>), w1)
           | (Some r, w1) \<Rightarrow>
               (Some r, Some (x\<lparr>pg_stmt := Some r, pg_ifetch := - 1, pg_numcols := int (length (r_cols r)),
                  pg_affected := (if r_status r = PGRES_COMMAND_OK then c_atol (r_tuples r) else 0)\<rparr>), w1)))
      | None \<Rightarrow> (None, s, w))"

definition SR_PGSFETCH :: "pgs_session option \<Rightarrow> int \<times> pgs_session option" where
  "SR_PGSFETCH s =
     (case (s, pg_result s) of
        (Some x, Some r) \<Rightarrow>
          (let x1 = x\<lparr>pg_affected := 0\<rparr> in
           if r_status r \<noteq> PGRES_TUPLES_OK then (sql_code SQL_INVALID_HANDLE, Some x1)
           else if pg_ifetch x1 \<ge> - 1 then
             (let x2 = x1\<lparr>pg_ifetch := pg_ifetch x1 + 1\<rparr>;
                  iTpl = int (length (r_rows r)) - 1
              in if pg_ifetch x2 > iTpl then (sql_code SQL_NO_DATA, Some x2)
                 else (sql_code SQL_SUCCESS, Some (x2\<lparr>pg_affected := iTpl\<rparr>)))
           else (sql_code SQL_INVALID_HANDLE, Some x1))
      | _ \<Rightarrow> (sql_code SQL_INVALID_HANDLE, s))"

definition SR_PGSRESSTATUS :: "'w pgs_env \<Rightarrow> pgs_session option \<Rightarrow> bytes" where
  "SR_PGSRESSTATUS env s = (case pg_result s of None \<Rightarrow> [] | Some r \<Rightarrow> pe_status_text env (r_status r))"

definition SR_PGSCLEAR :: "pgs_session option \<Rightarrow> pgs_session option" where
  "SR_PGSCLEAR s =
     (case (s, pg_result s) of
        (Some x, Some r) \<Rightarrow> Some (x\<lparr>pg_stmt := None, pg_ifetch := - 2\<rparr>)
      | _ \<Rightarrow> s)"

definition SR_PGSCOLS :: "pgresult option \<Rightarrow> int" where
  "SR_PGSCOLS res = (case res of None \<Rightarrow> 0 | Some r \<Rightarrow> int (length (r_cols r)))"

definition SR_PGSERRMSG :: "'w pgs_env \<Rightarrow> pgs_session option \<Rightarrow> 'w \<Rightarrow> bytes" where
  "SR_PGSERRMSG env s w = (if pg_connected s then pe_error env w else [])"

definition SR_PGSROLLBACK :: "'w pgs_env \<Rightarrow> pgs_session option \<Rightarrow> 'w \<Rightarrow> int \<times> 'w" where
  "SR_PGSROLLBACK env s w =
     (if \<not> pg_connected s then (sql_code SQL_ERROR, w)
      else (case pe_exec env ''ROLLBACK'' w of
              (res, w1) \<Rightarrow>
                (sql_code (if PQresultStatus res = PGRES_COMMAND_OK then SQL_SUCCESS else SQL_ERROR), w1)))"

definition SR_PGSTRANSSTATUS :: "'w pgs_env \<Rightarrow> pgs_session option \<Rightarrow> 'w \<Rightarrow> int" where
  "SR_PGSTRANSSTATUS env s w = (if pg_connected s then pe_trans env w else 4)"

definition SR_PGSAFFECTEDROWS :: "pgs_session option \<Rightarrow> int" where
  "SR_PGSAFFECTEDROWS s = (case s of None \<Rightarrow> 0 | Some x \<Rightarrow> pg_affected x)"

section \<open>The columns of a query and of a table\<close>

text \<open>Numbers of types, \<open>include/pgs.ch\<close>, that become texts: char, name, bpchar, varchar, bytea, abstime,
  reltime, tinterval, money, macaddr, inet, cidr and timetz.\<close>

definition pgs_text_types :: "int list" where
  "pgs_text_types = [18, 19, 1042, 1043, 17, 702, 703, 704, 790, 829, 869, 650, 1266]"

abbreviation BOOLOID :: int where "BOOLOID \<equiv> 16"
abbreviation INT8OID :: int where "INT8OID \<equiv> 20"
abbreviation INT2OID :: int where "INT2OID \<equiv> 21"
abbreviation INT4OID :: int where "INT4OID \<equiv> 23"
abbreviation TEXTOID :: int where "TEXTOID \<equiv> 25"
abbreviation OIDOID :: int where "OIDOID \<equiv> 26"
abbreviation XMLOID :: int where "XMLOID \<equiv> 142"
abbreviation FLOAT4OID :: int where "FLOAT4OID \<equiv> 700"
abbreviation FLOAT8OID :: int where "FLOAT8OID \<equiv> 701"
abbreviation UNKNOWNOID :: int where "UNKNOWNOID \<equiv> 705"
abbreviation CASHOID :: int where "CASHOID \<equiv> 790"
abbreviation VARCHAROID :: int where "VARCHAROID \<equiv> 1043"
abbreviation DATEOID :: int where "DATEOID \<equiv> 1082"
abbreviation TIMEOID :: int where "TIMEOID \<equiv> 1083"
abbreviation TIMESTAMPOID :: int where "TIMESTAMPOID \<equiv> 1114"
abbreviation TIMESTAMPTZOID :: int where "TIMESTAMPTZOID \<equiv> 1184"
abbreviation NUMERICOID :: int where "NUMERICOID \<equiv> 1700"

text \<open>The types whose width is fixed by the driver.\<close>

definition pgs_fixed_type :: "int \<Rightarrow> column_type option" where
  "pgs_fixed_type t =
     (if t = BOOLOID then Some (''L'', 1, 0, SQL_BIT)
      else if t = TEXTOID then Some (''M'', 10, 0, SQL_LONGVARCHAR)
      else if t = XMLOID then Some (''M'', 4, 0, SQL_LONGVARCHARXML)
      else if t = DATEOID then Some (''D'', 8, 0, SQL_DATE)
      else if t = INT2OID then Some (''N'', 6, 0, SQL_NUMERIC)
      else if t = INT8OID then Some (''N'', 20, 0, SQL_NUMERIC)
      else if t = INT4OID then Some (''N'', 11, 0, SQL_NUMERIC)
      else if t = FLOAT4OID then Some (''N'', 18, 2, SQL_NUMERIC)
      else if t = FLOAT8OID then Some (''N'', 18, 6, SQL_NUMERIC)
      else if t = TIMESTAMPOID \<or> t = TIMESTAMPTZOID then Some (''T'', 8, 0, SQL_DATETIME)
      else None)"

text \<open>Precision and scale of a number are packed in the modifier of its type.\<close>

definition pgs_numeric :: "int \<Rightarrow> column_type" where
  "pgs_numeric typmod = (''N'', drop_bit 16 (typmod - 4), take_bit 16 (typmod - 4), SQL_NUMERIC)"

definition pgs_query_type :: "pgresult \<Rightarrow> nat \<Rightarrow> pgcol \<Rightarrow> column_type option" where
  "pgs_query_type r n c =
     (let typmod = (if pc_mod c < 0 then pc_size c else pc_mod c) in
      if pc_type c \<in> set pgs_text_types then
        Some (''C'', if typmod \<ge> 4 then typmod - 4 else if pc_size c \<le> 0 then 254 else pc_size c, 0, SQL_CHAR)
      else if pc_type c = UNKNOWNOID then Some (''C'', PQgetlength r 0 (int n), 0, SQL_CHAR)
      else if pc_type c = NUMERICOID then
        Some (if typmod > 0 then pgs_numeric typmod else (''N'', 18, 6, SQL_NUMERIC))
      else if pc_type c = OIDOID then Some (''N'', 20, 0, SQL_NUMERIC)
      else pgs_fixed_type (pc_type c))"

definition SR_PGSQUERYATTR :: "pgs_session option \<Rightarrow> nat \<Rightarrow> item" where
  "SR_PGSQUERYATTR s pcount =
     (case pg_result s of
        None \<Rightarrow> INum (- 1)
      | Some r \<Rightarrow>
          if pcount \<noteq> 1 then INum (- 2)
          else Arr 0 (map (\<lambda>(n, c). column_array (map to_upper (pc_name c)) (INum (int n + 1)) (pgs_query_type r n c) False)
                        (zip [0..<length (r_cols r)] (r_cols r))))"

definition pgs_table_type :: "int \<Rightarrow> int \<Rightarrow> column_type option" where
  "pgs_table_type t typmod =
     (if t \<in> set pgs_text_types then Some (''C'', typmod - 4, 0, SQL_CHAR)
      else if t = NUMERICOID then Some (pgs_numeric typmod)
      else if t = TIMEOID then Some (''T'', 4, 0, SQL_TIME)
      else pgs_fixed_type t)"

text \<open>The query goes into a buffer of 512 bytes.\<close>

definition table_attr_query :: "bytes \<Rightarrow> bytes \<Rightarrow> bytes option" where
  "table_attr_query name owner =
     into 512
       (''select a.attname, a.atttypid, a.atttypmod, a.attnotnull from pg_attribute a left '' @
        ''join pg_class b on '' @
        ''a.attrelid = b.oid left join pg_namespace c on b.relnamespace = c.oid where '' @
        ''a.attisdropped IS FALSE and '' @
        ''a.attnum > 0 and b.relname = '' @ [QUOTE] @ name @ [QUOTE] @ '' and c.nspname = '' @ [QUOTE] @ owner @
        [QUOTE] @ '' order by attnum'')"

fun table_attr_rows :: "'w pgs_env \<Rightarrow> pgresult \<Rightarrow> nat \<Rightarrow> nat \<Rightarrow> item list option" where
  "table_attr_rows env r row 0 = Some []"
| "table_attr_rows env r row (Suc k) = do {
     name \<leftarrow> PQgetvalue r (int row) 0;
     t \<leftarrow> PQgetvalue r (int row) 1;
     m \<leftarrow> PQgetvalue r (int row) 2;
     notnull \<leftarrow> (if pe_old_behavior env then Some [] else PQgetvalue r (int row) 3);
     rest \<leftarrow> table_attr_rows env r (Suc row) k;
     Some (column_array (map to_upper name) (INum (int row + 1)) (pgs_table_type (c_atol t) (c_atol m))
             (\<not> pe_old_behavior env \<and> notnull = ''f'') # rest)
   }"

text \<open>A result that is an error is cleared, and used again afterwards.\<close>

definition SR_PGSTABLEATTR ::
  "'w pgs_env \<Rightarrow> pgs_session option \<Rightarrow> nat \<Rightarrow> bytes \<Rightarrow> bytes \<Rightarrow> 'w \<Rightarrow> (item \<times> 'w) option"
where
  "SR_PGSTABLEATTR env s pcount name owner w =
     (if \<not> pg_connected s then Some (INum (- 1), w)
      else if pcount < 3 then Some (INum (- 2), w)
      else do {
        q \<leftarrow> table_attr_query name owner;
        (case pe_exec env q w of
           (None, w1) \<Rightarrow> Some (Arr 0 [], w1)
         | (Some r, w1) \<Rightarrow>
             if r_status r \<noteq> PGRES_TUPLES_OK then None
             else do {
               xs \<leftarrow> table_attr_rows env r 0 (length (r_rows r));
               Some (Arr 0 xs, w1)
             })
      })"

section \<open>Values\<close>

definition sr_PGSFieldGet :: "colenv \<Rightarrow> item \<Rightarrow> bytes \<Rightarrow> bool \<Rightarrow> item option" where
  "sr_PGSFieldGet env f s bTranslate =
     (if length s = 0 then null_column env {SQL_NUMERIC, SQL_FAKE_NUM} {SQL_BIT} f
      else if col_domain f = SQL_LONGVARCHARXML then Some (c_from_xml env s)
      else text_column env {SQL_NUMERIC} {SQL_BIT} (\<lambda>b. hd b = CHR ''t'') f s bTranslate)"

definition SR_PGSLINEPROCESSED ::
  "'w pgs_env \<Rightarrow> pgs_session option \<Rightarrow> item list \<Rightarrow> bool \<Rightarrow> item \<Rightarrow> item option"
where
  "SR_PGSLINEPROCESSED env s fs bTranslate ret =
     (case (s, pg_result s) of
        (Some x, Some r) \<Rightarrow>
          row_loop (\<lambda>f n. do {
             col \<leftarrow> PQgetvalue r (pg_ifetch x) (n - 1);
             sr_PGSFieldGet (pe_col env) f col bTranslate
           }) 1 fs ret
      | _ \<Rightarrow> Some ret)"

end
