(* ===== verification/Mysql.thy ===== *)
theory Mysql
  imports Column
begin

text \<open>
  The connections to MySQL and MariaDB, \<open>source/mysql/sr_mysql_bind.c\<close> and
  \<open>source/mariadb/sr_mariadb_bind.c\<close>. The second file is a copy of the first; where it differs, the definitions
  have \<open>MARIADB\<close> or \<open>maria\<close> in their names. The client library is a parameter.
\<close>

section \<open>Results and sessions\<close>

text \<open>The length of a column is in bytes.\<close>

record myfield =
  mf_name :: bytes
  mf_type :: int
  mf_length :: nat
  mf_decimals :: nat
  mf_flags :: int
  mf_charset :: nat

record myresult =
  m_fields :: "myfield list"
  m_rows :: "bytes option list list"

abbreviation SR_MYSQL_MAX_COLLATION :: nat where "SR_MYSQL_MAX_COLLATION \<equiv> 1024"

text \<open>\<open>ms_maxlen\<close> has the bytes per character for each collation, 0 where they are not known.\<close>

record my_session =
  ms_status :: int
  ms_numcols :: nat
  ms_ifetch :: int
  ms_dbh :: bool
  ms_stmt :: "myresult option"
  ms_affected :: nat
  ms_map_loaded :: bool
  ms_maxlen :: "nat list"

text \<open>
  The client library: \<open>me_query\<close> is \<open>mysql_real_query\<close>, which gives zero for success, \<open>me_charset\<close> the number
  of the connection's collation and its \<open>mbmaxlen\<close>; \<open>me_commit\<close> and \<open>me_rollback\<close> give a value that is not
  zero if there was an error. The state is the number of connections and everything else.
\<close>

record 'w my_env =
  me_col :: colenv
  me_init :: "'w \<Rightarrow> bool \<times> 'w"
  me_connect :: "bool \<Rightarrow> bytes list \<Rightarrow> 'w \<Rightarrow> 'w"
  me_close :: "bool \<Rightarrow> 'w \<Rightarrow> 'w"
  me_library_end :: "'w \<Rightarrow> 'w"
  me_query :: "bytes \<Rightarrow> 'w \<Rightarrow> int \<times> 'w"
  me_store :: "'w \<Rightarrow> myresult option \<times> 'w"
  me_affected_rows :: "'w \<Rightarrow> nat"
  me_errno :: "'w \<Rightarrow> int"
  me_error :: "'w \<Rightarrow> bytes"
  me_charset :: "'w \<Rightarrow> nat \<times> nat"
  me_commit :: "'w \<Rightarrow> bool \<times> 'w"
  me_rollback :: "'w \<Rightarrow> bool \<times> 'w"
  me_thread_id :: "'w \<Rightarrow> int"
  me_kill :: "int \<Rightarrow> 'w \<Rightarrow> int \<times> 'w"
  me_version :: "'w \<Rightarrow> int"

definition my_connected :: "my_session option \<Rightarrow> bool" where
  "my_connected s = (case s of None \<Rightarrow> False | Some x \<Rightarrow> ms_dbh x)"

definition my_result :: "my_session option \<Rightarrow> myresult option" where
  "my_result s = (case s of None \<Rightarrow> None | Some x \<Rightarrow> if ms_dbh x then ms_stmt x else None)"

section \<open>Bytes per character\<close>

definition charset_query :: bytes where
  "charset_query =
     ''SELECT co.ID, cs.MAXLEN'' @ '' FROM information_schema.COLLATIONS co'' @
     '' JOIN information_schema.CHARACTER_SETS cs'' @ '' ON co.CHARACTER_SET_NAME = cs.CHARACTER_SET_NAME''"

text \<open>\<open>strtoul\<close>: a minus sign wraps around, what is too large becomes the largest number.\<close>

definition c_strtoul :: "bytes \<Rightarrow> nat" where
  "c_strtoul s = (let v = c_atol s in nat (if v < 0 then v mod 2 ^ 64 else min v (2 ^ 64 - 1)))"

fun charset_rows :: "bytes option list list \<Rightarrow> nat list \<Rightarrow> nat list" where
  "charset_rows [] m = m"
| "charset_rows (row # rows) m =
     charset_rows rows
       (case row of
          Some a # Some b # _ \<Rightarrow>
            (let ulId = c_strtoul a; ulMaxLen = c_strtoul b
             in if ulId < SR_MYSQL_MAX_COLLATION \<and> 0 < ulMaxLen \<and> ulMaxLen < 256 then m[ulId := ulMaxLen] else m)
        | _ \<Rightarrow> m)"

definition SR_MysLoadCharsetMap :: "'w my_env \<Rightarrow> my_session \<Rightarrow> 'w \<Rightarrow> my_session \<times> 'w" where
  "SR_MysLoadCharsetMap env x w =
     (if \<not> ms_dbh x \<or> ms_map_loaded x then (x, w)
      else
        (let x1 = x\<lparr>ms_map_loaded := True\<rparr>; (err, w1) = me_query env charset_query w
         in if err \<noteq> 0 then (x1, w1)
            else (case me_store env w1 of
                    (None, w2) \<Rightarrow> (x1, w2)
                  | (Some r, w2) \<Rightarrow> (x1\<lparr>ms_maxlen := charset_rows (m_rows r) (ms_maxlen x1)\<rparr>, w2))))"

definition SR_MysColMaxLen :: "'w my_env \<Rightarrow> my_session \<Rightarrow> nat \<Rightarrow> 'w \<Rightarrow> nat" where
  "SR_MysColMaxLen env x nr w =
     (if nr < SR_MYSQL_MAX_COLLATION \<and> nr < length (ms_maxlen x) \<and> 0 < ms_maxlen x ! nr then ms_maxlen x ! nr
      else if ms_dbh x \<and> 1 < snd (me_charset env w) \<and> nr = fst (me_charset env w) then snd (me_charset env w)
      else 1)"

definition maria_col_maxlen :: "'w my_env \<Rightarrow> 'w \<Rightarrow> nat" where
  "maria_col_maxlen env w = (if 0 < snd (me_charset env w) then snd (me_charset env w) else 1)"

section \<open>Operations\<close>

definition zero_session :: "bool \<Rightarrow> my_session" where
  "zero_session ok =
     \<lparr>ms_status = 0, ms_numcols = 0, ms_ifetch = - 2, ms_dbh = ok, ms_stmt = None, ms_affected = 0,
      ms_map_loaded = False, ms_maxlen = replicate SR_MYSQL_MAX_COLLATION 0\<rparr>"

text \<open>\<open>loads\<close> is whether the map of the collations is read, which is so for MySQL only.\<close>

definition my_connect ::
  "bool \<Rightarrow> 'w my_env \<Rightarrow> bool \<Rightarrow> bytes list \<Rightarrow> int \<times> 'w \<Rightarrow> my_session option \<times> int \<times> 'w"
where
  "my_connect loads env compress args st =
     (case st of (n, w) \<Rightarrow>
        (case me_init env w of
           (True, w1) \<Rightarrow>
             (let w2 = me_connect env compress args w1;
                  (x, w3) = (if loads then SR_MysLoadCharsetMap env (zero_session True) w2 else (zero_session True, w2))
              in (Some x, n + 1, w3))
         | (False, w1) \<Rightarrow>
             (let w2 = me_close env False w1 in (None, n, if n = 0 then me_library_end env w2 else w2))))"

definition SR_MYSCONNECT where "SR_MYSCONNECT = my_connect True"
definition SR_MARIADBCONNECT where "SR_MARIADBCONNECT = my_connect False"

definition SR_MYSFINISH :: "'w my_env \<Rightarrow> my_session option \<Rightarrow> int \<times> 'w \<Rightarrow> int \<times> 'w" where
  "SR_MYSFINISH env s st =
     (case s of
        None \<Rightarrow> st
      | Some x \<Rightarrow>
          (let (n, w) = st;
               (n1, w1) = (if ms_dbh x then (if n > 0 then n - 1 else n, me_close env True w) else (n, w))
           in (n1, if n1 = 0 then me_library_end env w1 else w1)))"

definition SR_MYSGETCONNID :: "'w my_env \<Rightarrow> my_session option \<Rightarrow> 'w \<Rightarrow> int" where
  "SR_MYSGETCONNID env s w = (if my_connected s then me_thread_id env w else 0)"

definition SR_MYSKILLCONNID :: "'w my_env \<Rightarrow> my_session option \<Rightarrow> int \<Rightarrow> 'w \<Rightarrow> int \<times> 'w" where
  "SR_MYSKILLCONNID env s k w = (if my_connected s then me_kill env k w else (0, w))"

definition SR_MARIADBKILLCONNID :: "'w my_env \<Rightarrow> my_session option \<Rightarrow> int \<Rightarrow> 'w \<Rightarrow> int \<times> 'w" where
  "SR_MARIADBKILLCONNID env s k w = (if my_connected s then me_kill env k w else (- 1, w))"

definition SR_MYSEXEC ::
  "'w my_env \<Rightarrow> bytes \<Rightarrow> my_session option \<Rightarrow> 'w \<Rightarrow> myresult option \<times> my_session option \<times> 'w"
where
  "SR_MYSEXEC env q s w =
     (case s of
        Some x \<Rightarrow>
          (if \<not> ms_dbh x then (None, s, w)
           else
             (let (err, w1) = me_query env q w; (r, w2) = me_store env w1
              in (r, Some (x\<lparr>ms_stmt := r, ms_affected := me_affected_rows env w2,
                    ms_numcols := (case r of None \<Rightarrow> 0 | Some y \<Rightarrow> length (m_fields y)), ms_ifetch := - 1\<rparr>), w2)))
      | None \<Rightarrow> (None, s, w))"

definition SR_MYSFETCH :: "'w my_env \<Rightarrow> my_session option \<Rightarrow> 'w \<Rightarrow> int \<times> my_session option" where
  "SR_MYSFETCH env s w =
     (case (s, my_result s) of
        (Some x, Some r) \<Rightarrow>
          (let x1 = x\<lparr>ms_status := me_errno env w\<rparr> in
           if ms_status x1 \<noteq> 0 then (sql_code SQL_INVALID_HANDLE, Some x1)
           else if ms_ifetch x1 \<ge> - 1 then
             (let x2 = x1\<lparr>ms_ifetch := ms_ifetch x1 + 1\<rparr>
              in (sql_code (if ms_ifetch x2 > int (length (m_rows r)) - 1 then SQL_NO_DATA else SQL_SUCCESS), Some x2))
           else (sql_code SQL_INVALID_HANDLE, Some x1))
      | _ \<Rightarrow> (sql_code SQL_INVALID_HANDLE, s))"

definition SR_MYSSTATUS :: "'w my_env \<Rightarrow> my_session option \<Rightarrow> 'w \<Rightarrow> int" where
  "SR_MYSSTATUS env s w = sql_code (if my_connected s \<and> me_errno env w = 0 then SQL_SUCCESS else SQL_ERROR)"

text \<open>The codes of the errors out of sync, unknown error, server gone, server lost and no database; other
  codes are handed on. \<open>SQL_ERROR\<close> as an unsigned number of 32 bits.\<close>

definition SR_MYSRESULTSTATUS :: "'w my_env \<Rightarrow> my_session option \<Rightarrow> 'w \<Rightarrow> int" where
  "SR_MYSRESULTSTATUS env s w =
     (if \<not> my_connected s then sql_code SQL_ERROR
      else
        (let ret = me_errno env w mod 2 ^ 32 in
         if ret = 0 then sql_code SQL_SUCCESS
         else if ret \<in> {2014, 2000, 2006, 2013, 1046} then sql_code SQL_ERROR mod 2 ^ 32
         else ret))"

definition SR_MYSERRMSG :: "'w my_env \<Rightarrow> my_session option \<Rightarrow> 'w \<Rightarrow> bytes" where
  "SR_MYSERRMSG env s w = (if my_connected s then me_error env w else [])"

definition SR_MYSRESSTATUS :: "'w my_env \<Rightarrow> my_session option \<Rightarrow> 'w \<Rightarrow> bytes" where
  "SR_MYSRESSTATUS env s w = (if my_connected s then me_error env w else [])"

definition SR_MYSCLEAR :: "my_session option \<Rightarrow> my_session option" where
  "SR_MYSCLEAR s =
     (case (s, my_result s) of
        (Some x, Some r) \<Rightarrow> Some (x\<lparr>ms_stmt := None, ms_ifetch := - 2\<rparr>)
      | _ \<Rightarrow> s)"

definition SR_MYSCOLS :: "my_session option \<Rightarrow> nat" where
  "SR_MYSCOLS s = (case s of Some x \<Rightarrow> (if ms_dbh x then ms_numcols x else 0) | None \<Rightarrow> 0)"

definition SR_MYSVERS :: "'w my_env \<Rightarrow> my_session option \<Rightarrow> 'w \<Rightarrow> int" where
  "SR_MYSVERS env s w = (if my_connected s then me_version env w else 0)"

definition SR_MYSCOMMIT :: "'w my_env \<Rightarrow> my_session option \<Rightarrow> 'w \<Rightarrow> int \<times> 'w" where
  "SR_MYSCOMMIT env s w =
     (if \<not> my_connected s then (sql_code SQL_ERROR, w)
      else (case me_commit env w of
              (b, w1) \<Rightarrow> (sql_code (if b then SQL_SUCCESS else SQL_ERROR), w1)))"

definition SR_MYSROLLBACK :: "'w my_env \<Rightarrow> my_session option \<Rightarrow> 'w \<Rightarrow> int \<times> 'w" where
  "SR_MYSROLLBACK env s w =
     (if \<not> my_connected s then (sql_code SQL_ERROR, w)
      else (case me_rollback env w of
              (b, w1) \<Rightarrow> (sql_code (if b then SQL_SUCCESS else SQL_ERROR), w1)))"

definition SR_MYSAFFECTEDROWS :: "my_session option \<Rightarrow> nat" where
  "SR_MYSAFFECTEDROWS s = (case s of None \<Rightarrow> 0 | Some x \<Rightarrow> ms_affected x)"

section \<open>The columns of a query\<close>

text \<open>Numbers of types, \<open>include/mysql.ch\<close>.\<close>

abbreviation MYSQL_TINY_TYPE :: int where "MYSQL_TINY_TYPE \<equiv> 1"
abbreviation MYSQL_SHORT_TYPE :: int where "MYSQL_SHORT_TYPE \<equiv> 2"
abbreviation MYSQL_LONG_TYPE :: int where "MYSQL_LONG_TYPE \<equiv> 3"
abbreviation MYSQL_TIMESTAMP_TYPE :: int where "MYSQL_TIMESTAMP_TYPE \<equiv> 7"
abbreviation MYSQL_LONGLONG_TYPE :: int where "MYSQL_LONGLONG_TYPE \<equiv> 8"
abbreviation MYSQL_INT24_TYPE :: int where "MYSQL_INT24_TYPE \<equiv> 9"
abbreviation MYSQL_DATE_TYPE :: int where "MYSQL_DATE_TYPE \<equiv> 10"
abbreviation MYSQL_TIME_TYPE :: int where "MYSQL_TIME_TYPE \<equiv> 11"
abbreviation MYSQL_DATETIME_TYPE :: int where "MYSQL_DATETIME_TYPE \<equiv> 12"
abbreviation MYSQL_VAR_STRING_TYPE :: int where "MYSQL_VAR_STRING_TYPE \<equiv> 253"
abbreviation MYSQL_STRING_TYPE :: int where "MYSQL_STRING_TYPE \<equiv> 254"

definition int32 :: "nat \<Rightarrow> int" where
  "int32 n = sint (of_nat n :: 32 word)"

definition char_len :: "nat \<Rightarrow> nat \<Rightarrow> int" where
  "char_len mbmax len =
     (let n = int32 (if mbmax > 1 then len div mbmax else len) in if n \<le> 0 then int32 len else n)"

text \<open>Float, decimal, double and new decimal have the length and decimals the server tells.\<close>

definition my_type :: "nat \<Rightarrow> myfield \<Rightarrow> column_type option" where
  "my_type mbmax f =
     (let t = mf_type f in
      if t = MYSQL_STRING_TYPE \<or> t = MYSQL_VAR_STRING_TYPE then Some (''C'', char_len mbmax (mf_length f), 0, SQL_CHAR)
      else if t = MYSQL_TINY_TYPE then Some (''L'', 1, 0, SQL_BIT)
      else if t \<in> {249, 250, 251, 252} then Some (''M'', 10, 0, SQL_LONGVARCHAR)
      else if t = MYSQL_DATE_TYPE then Some (''D'', 8, 0, SQL_DATE)
      else if t = MYSQL_DATETIME_TYPE \<or> t = MYSQL_TIMESTAMP_TYPE then Some (''T'', 8, 0, SQL_DATETIME)
      else if t = MYSQL_TIME_TYPE then Some (''T'', 4, 0, SQL_TIME)
      else if t = MYSQL_SHORT_TYPE then Some (''N'', 6, 0, SQL_NUMERIC)
      else if t = MYSQL_LONGLONG_TYPE then Some (''N'', 20, 0, SQL_NUMERIC)
      else if t = MYSQL_LONG_TYPE then Some (''N'', min 11 (int32 (mf_length f)), 0, SQL_NUMERIC)
      else if t = MYSQL_INT24_TYPE then Some (''N'', min 8 (int32 (mf_length f)), 0, SQL_NUMERIC)
      else if t \<in> {4, 0, 5, 246} then Some (''N'', int32 (mf_length f), int32 (mf_decimals f), SQL_NUMERIC)
      else None)"

text \<open>\<open>IS_NOT_NULL\<close> looks at the lowest flag. The number of a column in the result is not given.\<close>

definition my_attributes :: "(myfield \<Rightarrow> nat) \<Rightarrow> my_session option \<Rightarrow> item" where
  "my_attributes mbmax s =
     (case (s, my_result s) of
        (Some x, Some r) \<Rightarrow>
          Arr 0 (map (\<lambda>f. column_array (map to_upper (mf_name f)) NIL (my_type (mbmax f) f) (\<not> odd (mf_flags f)))
                   (take (ms_numcols x) (m_fields r)))
      | _ \<Rightarrow> INum (- 2))"

definition SR_MYSQUERYATTR :: "'w my_env \<Rightarrow> my_session option \<Rightarrow> 'w \<Rightarrow> item" where
  "SR_MYSQUERYATTR env s w =
     my_attributes (\<lambda>f. case s of None \<Rightarrow> 1 | Some x \<Rightarrow> SR_MysColMaxLen env x (mf_charset f mod 2 ^ 32) w) s"

definition SR_MARIADBQUERYATTR :: "'w my_env \<Rightarrow> my_session option \<Rightarrow> 'w \<Rightarrow> item" where
  "SR_MARIADBQUERYATTR env s w = my_attributes (\<lambda>f. maria_col_maxlen env w) s"

section \<open>Values\<close>

definition MSQLFieldGet :: "colenv \<Rightarrow> item \<Rightarrow> bytes \<Rightarrow> bool \<Rightarrow> item option" where
  "MSQLFieldGet env f s bTranslate =
     (if length s = 0 then null_column env {SQL_NUMERIC, SQL_FAKE_NUM} {SQL_BIT} f
      else text_column env {SQL_NUMERIC} {SQL_BIT} (\<lambda>b. hd b = CHR ''1'') f s bTranslate)"

text \<open>Seeking a row that is not there leaves no row to fetch; a null in it is read as an empty text.\<close>

definition SR_MYSLINEPROCESSED ::
  "'w my_env \<Rightarrow> my_session option \<Rightarrow> item list \<Rightarrow> bool \<Rightarrow> item \<Rightarrow> 'w \<Rightarrow>
   (int \<times> item \<times> my_session option) option"
where
  "SR_MYSLINEPROCESSED env s fs bTranslate ret w =
     (case (s, my_result s) of
        (Some x, Some r) \<Rightarrow>
          (let x1 = x\<lparr>ms_status := me_errno env w\<rparr> in
           if ms_status x1 \<noteq> 0 \<or> ms_ifetch x1 < - 1 then Some (sql_code SQL_INVALID_HANDLE, ret, Some x1)
           else do {
             a \<leftarrow> row_loop (\<lambda>f n. do {
               row \<leftarrow> rd_at (m_rows r) (ms_ifetch x1);
               v \<leftarrow> rd_at row (n - 1);
               MSQLFieldGet (me_col env) f (case v of None \<Rightarrow> [] | Some s \<Rightarrow> s) bTranslate
             }) 1 fs ret;
             Some (sql_code SQL_SUCCESS, a, Some x1)
           })
      | _ \<Rightarrow> Some (sql_code SQL_INVALID_HANDLE, ret, s))"

section \<open>MariaDB\<close>

text \<open>The functions of MariaDB that do what their originals do. The session has no map of the collations, which
  stays as it is.\<close>

definition SR_MARIADBFINISH where "SR_MARIADBFINISH = SR_MYSFINISH"
definition SR_MARIADBGETCONNID where "SR_MARIADBGETCONNID = SR_MYSGETCONNID"
definition SR_MARIADBEXEC where "SR_MARIADBEXEC = SR_MYSEXEC"
definition SR_MARIADBFETCH where "SR_MARIADBFETCH = SR_MYSFETCH"
definition sr_MSQLFieldGet where "sr_MSQLFieldGet = MSQLFieldGet"
definition SR_MARIADBLINEPROCESSED where "SR_MARIADBLINEPROCESSED = SR_MYSLINEPROCESSED"
definition SR_MARIADBSTATUS where "SR_MARIADBSTATUS = SR_MYSSTATUS"
definition SR_MARIADBRESULTSTATUS where "SR_MARIADBRESULTSTATUS = SR_MYSRESULTSTATUS"
definition SR_MARIADBRESSTATUS where "SR_MARIADBRESSTATUS = SR_MYSRESSTATUS"
definition SR_MARIADBCLEAR where "SR_MARIADBCLEAR = SR_MYSCLEAR"
definition SR_MARIADBCOLS where "SR_MARIADBCOLS = SR_MYSCOLS"
definition SR_MARIADBVERS where "SR_MARIADBVERS = SR_MYSVERS"
definition SR_MARIADBERRMSG where "SR_MARIADBERRMSG = SR_MYSERRMSG"
definition SR_MARIADBCOMMIT where "SR_MARIADBCOMMIT = SR_MYSCOMMIT"
definition SR_MARIADBROLLBACK where "SR_MARIADBROLLBACK = SR_MYSROLLBACK"
definition SR_MARIADBAFFECTEDROWS where "SR_MARIADBAFFECTEDROWS = SR_MYSAFFECTEDROWS"

end
