(* ===== verification/Firebird.thy ===== *)
theory Firebird
  imports Column
begin

text \<open>
  The connection to Firebird, \<open>source/firebird/sr_firebird_bind.c\<close>: transactions, statements and their
  descriptions. The files for the versions 3, 4 and 5, \<open>sr_firebird3_bind.c\<close> to \<open>sr_firebird5_bind.c\<close>, are
  copies that differ from it, and not from each other; where they do, the definitions ask \<open>fe_new\<close>. The client
  library is a parameter. The session keeps the first two elements of the status
  vector, which is all that is looked at; a handle is a number, 0 is none. A call that does not give a value
  to the PRG code has the result \<open>None\<close> inside. Operations that need a session are given one; without it
  they give an error before they do anything.
\<close>

section \<open>Sessions\<close>

abbreviation MAX_COLUMNS_IN_QUERY :: nat where "MAX_COLUMNS_IN_QUERY \<equiv> 620"
abbreviation MSG_BUFFER_LEN :: nat where "MSG_BUFFER_LEN \<equiv> 1024"

text \<open>A column as it is described, with the memory for its value and its indicator.\<close>

record fbvar =
  v_sqltype :: int
  v_sqlscale :: int
  v_sqllen :: nat
  v_alias :: bytes
  v_data :: bytes
  v_ind :: int

record fb_session =
  fb_db :: nat
  fb_status :: "int \<times> int"
  fb_transac :: nat
  fb_stmt :: nat
  fb_vars :: "fbvar list"
  fb_msgerror :: "bytes option"
  fb_errorcode :: int
  fb_pending :: bool
  fb_query :: int

definition CHECK_ERROR :: "fb_session \<Rightarrow> bool" where
  "CHECK_ERROR x \<longleftrightarrow> fst (fb_status x) = 1 \<and> snd (fb_status x) > 0"

text \<open>
  The library: every call gives a status, whose second element is also the value of the call, and the handle
  as it is afterwards. \<open>fe_interpret\<close> are the texts of a status, \<open>fe_fetch\<close> gives what is written into the memory
  of each column, \<open>fe_garbage\<close> is memory not written yet. \<open>fe_long_size\<close> is the size of a C \<open>long\<close>.
  The decoders give the calendar's numbers: year, month, day, hour, minute and second. \<open>fe_get_segment\<close> is
  given the room there is and has the bytes it writes as a result. \<open>fe_stmt_info\<close> is the reply on the type of a
  statement, \<open>fe_execute2\<close> executes a procedure and gives its values.
\<close>

type_synonym status = "int \<times> int"

record 'w fb_env =
  fe_new :: bool
  fe_col :: colenv
  fe_interpret :: "status \<Rightarrow> bytes list"
  fe_attach :: "bytes \<Rightarrow> bytes \<Rightarrow> 'w \<Rightarrow> status \<times> nat \<times> 'w"
  fe_detach :: "nat \<Rightarrow> 'w \<Rightarrow> status \<times> 'w"
  fe_start :: "'w \<Rightarrow> status \<times> nat \<times> 'w"
  fe_commit :: "nat \<Rightarrow> 'w \<Rightarrow> status \<times> nat \<times> 'w"
  fe_commit_retaining :: "nat \<Rightarrow> 'w \<Rightarrow> status \<times> nat \<times> 'w"
  fe_rollback :: "nat \<Rightarrow> 'w \<Rightarrow> status \<times> nat \<times> 'w"
  fe_free_stmt :: "nat \<Rightarrow> 'w \<Rightarrow> status \<times> 'w"
  fe_alloc_stmt :: "'w \<Rightarrow> status \<times> nat \<times> 'w"
  fe_prepare :: "bytes \<Rightarrow> int \<Rightarrow> 'w \<Rightarrow> status \<times> fbvar list \<times> 'w"
  fe_execute :: "int \<Rightarrow> 'w \<Rightarrow> status \<times> 'w"
  fe_execute2 :: "int \<Rightarrow> 'w \<Rightarrow> status \<times> (bytes \<times> int) list \<times> 'w"
  fe_stmt_info :: "'w \<Rightarrow> status \<times> bytes \<times> 'w"
  fe_immediate :: "bytes \<Rightarrow> int \<Rightarrow> nat \<Rightarrow> 'w \<Rightarrow> status \<times> 'w"
  fe_fetch :: "'w \<Rightarrow> status \<times> (bytes \<times> int) list \<times> 'w"
  fe_version :: "'w \<Rightarrow> bytes list option"
  fe_garbage :: "nat \<Rightarrow> bytes"
  fe_long_size :: nat
  fe_short_as_num :: bool
  fe_decode_stamp :: "bytes \<Rightarrow> (nat \<times> nat \<times> nat) \<times> nat \<times> nat \<times> nat"
  fe_decode_time :: "bytes \<Rightarrow> nat \<times> nat \<times> nat"
  fe_decode_date :: "bytes \<Rightarrow> nat \<times> nat \<times> nat"
  fe_float :: "bytes \<Rightarrow> rat"
  fe_double :: "bytes \<Rightarrow> rat"
  fe_open_blob :: "bytes \<Rightarrow> 'w \<Rightarrow> status \<times> 'w"
  fe_vax_integer :: "bytes \<Rightarrow> int"
  fe_blob_info :: "'w \<Rightarrow> status \<times> bytes \<times> 'w"
  fe_get_segment :: "nat \<Rightarrow> 'w \<Rightarrow> int \<times> bytes \<times> 'w"
  fe_close_blob :: "'w \<Rightarrow> status \<times> 'w"

type_synonym 'w fbop = "fb_session \<Rightarrow> 'w \<Rightarrow> (int option \<times> fb_session \<times> 'w) option"

section \<open>Errors\<close>

text \<open>The texts of the error go into a buffer of 8193 bytes. The transaction is rolled back; if that is an
  error, the same is done for it.\<close>

partial_function (option) fb_log_status ::
  "'w fb_env \<Rightarrow> fb_session \<Rightarrow> 'w \<Rightarrow> (fb_session \<times> 'w) option"
where
  "fb_log_status env x w = do {
     m \<leftarrow> into 8193 (concat (map (\<lambda>s. s @ [LF]) (fe_interpret env (fb_status x))));
     let x1 = x\<lparr>fb_msgerror := Some m, fb_errorcode := snd (fb_status x)\<rparr>;
     if fb_transac x1 = 0 then Some (x1, w)
     else (case fe_rollback env (fb_transac x1) w of
             (st, h, w1) \<Rightarrow>
               (let x2 = x1\<lparr>fb_status := st, fb_transac := h\<rparr> in
                if CHECK_ERROR x2 then fb_log_status env x2 w1
                else Some (x2\<lparr>fb_transac := 0, fb_pending := False\<rparr>, w1)))
   }"

text \<open>\<open>ERRORLOGANDEXIT\<close>.\<close>

definition log_and_exit :: "'w fb_env \<Rightarrow> 'w fbop" where
  "log_and_exit env x w = do {
     (x1, w1) \<leftarrow> fb_log_status env x w;
     Some (Some (sql_code SQL_ERROR), x1, w1)
   }"

section \<open>Connections\<close>

text \<open>The parameter block has 256 bytes; only the lowest byte of a length is kept.\<close>

definition dpb_item :: "nat \<Rightarrow> bytes \<Rightarrow> bytes" where
  "dpb_item code s = char_of code # char_of (length s) # s"

definition SR_FBCONNECT ::
  "'w fb_env \<Rightarrow> bytes \<Rightarrow> bytes \<Rightarrow> bytes \<Rightarrow> bytes option \<Rightarrow> 'w \<Rightarrow> (int \<times> fb_session option \<times> 'w) option"
where
  "SR_FBCONNECT env db user passwd charset w = do {
     let dpb = char_of (1 :: nat) # dpb_item 28 user @ dpb_item 29 passwd @
               (case charset of None \<Rightarrow> [] | Some s \<Rightarrow> dpb_item 48 s);
     dpb1 \<leftarrow> into 257 dpb;
     (case fe_attach env db dpb1 w of
        (st, h, w1) \<Rightarrow>
          (let x = \<lparr>fb_db = h, fb_status = st, fb_transac = 0, fb_stmt = 0, fb_vars = [], fb_msgerror = None,
                    fb_errorcode = 0, fb_pending = False, fb_query = 0\<rparr> in
           if snd st \<noteq> 0 then do {
             (x1, w2) \<leftarrow> fb_log_status env x w1;
             Some (sql_code SQL_ERROR, None, w2)
           }
           else Some (sql_code SQL_SUCCESS, Some x, w1)))
   }"

definition SR_FBCLOSE ::
  "'w fb_env \<Rightarrow> fb_session option \<Rightarrow> 'w \<Rightarrow> (int option \<times> fb_session option \<times> 'w) option"
where
  "SR_FBCLOSE env s w =
     (case s of
        None \<Rightarrow> Some (Some (sql_code SQL_ERROR), None, w)
      | Some x \<Rightarrow>
          (let (st, h, w1) = (if fb_transac x = 0 then ((0, 0), 0, w) else fe_commit env (fb_transac x) w);
               x1 = (if fb_transac x = 0 then x else x\<lparr>fb_status := st, fb_transac := h\<rparr>)
           in if snd st \<noteq> 0 then do { (r, x2, w2) \<leftarrow> log_and_exit env x1 w1; Some (r, Some x2, w2) }
              else (case fe_detach env (fb_db x1) w1 of
                      (st2, w2) \<Rightarrow>
                        if snd st2 \<noteq> 0
                        then do { (r, x3, w3) \<leftarrow> log_and_exit env (x1\<lparr>fb_status := st2\<rparr>) w2; Some (r, Some x3, w3) }
                        else Some (Some (sql_code SQL_SUCCESS), None, w2))))"

section \<open>Transactions\<close>

definition start_transaction :: "'w fb_env \<Rightarrow> fb_session \<Rightarrow> 'w \<Rightarrow> fb_session \<times> 'w" where
  "start_transaction env x w =
     (case fe_start env w of
        (st, h, w1) \<Rightarrow> (x\<lparr>fb_status := st, fb_transac := (if snd st = 0 then h else fb_transac x)\<rparr>, w1))"

definition end_transaction ::
  "(nat \<Rightarrow> 'w \<Rightarrow> status \<times> nat \<times> 'w) \<Rightarrow> fb_session \<Rightarrow> 'w \<Rightarrow> fb_session \<times> 'w"
where
  "end_transaction f x w =
     (case f (fb_transac x) w of (st, h, w1) \<Rightarrow> (x\<lparr>fb_status := st, fb_transac := h\<rparr>, w1))"

definition begin_new :: "'w fb_env \<Rightarrow> bool \<Rightarrow> 'w fbop" where
  "begin_new env settles x w =
     (case start_transaction env x w of
        (x1, w1) \<Rightarrow>
          if CHECK_ERROR x1 then log_and_exit env x1 w1
          else Some (Some (sql_code SQL_SUCCESS), if settles then x1\<lparr>fb_pending := False\<rparr> else x1, w1))"

text \<open>After an error the transaction is rolled back first. With changes pending, the transaction is
  committed and goes on; only if that fails a new one is begun.\<close>

definition begin_pending :: "'w fb_env \<Rightarrow> 'w fbop" where
  "begin_pending env x w =
     (if fb_pending x \<and> fb_transac x \<noteq> 0 then
        (case end_transaction (fe_commit_retaining env) x w of
           (x1, w1) \<Rightarrow>
             if \<not> CHECK_ERROR x1 then Some (None, x1, w1)
             else (case end_transaction (fe_commit env) (x1\<lparr>fb_pending := False\<rparr>) w1 of
                     (x2, w2) \<Rightarrow> if CHECK_ERROR x2 then log_and_exit env x2 w2 else begin_new env False x2 w2))
      else
        (let (x1, w1) = (if fb_transac x \<noteq> 0 then end_transaction (fe_commit env) x w else (x, w))
         in if fb_transac x \<noteq> 0 \<and> CHECK_ERROR x1 then log_and_exit env x1 w1
            else begin_new env True x1 w1))"

definition SR_FBBEGINTRANSACTION :: "'w fb_env \<Rightarrow> 'w fbop" where
  "SR_FBBEGINTRANSACTION env x w =
     (if CHECK_ERROR x \<and> fb_transac x \<noteq> 0 then
        (case end_transaction (fe_rollback env) x w of
           (x1, w1) \<Rightarrow>
             if CHECK_ERROR x1 then log_and_exit env x1 w1
             else begin_pending env (x1\<lparr>fb_transac := 0, fb_pending := False\<rparr>) w1)
      else begin_pending env x w)"

definition close_transaction :: "(nat \<Rightarrow> 'w \<Rightarrow> status \<times> nat \<times> 'w) \<Rightarrow> 'w fb_env \<Rightarrow> 'w fbop" where
  "close_transaction f env x w =
     (if fb_transac x = 0 then Some (Some (sql_code SQL_ERROR), x, w)
      else (case end_transaction f x w of
              (x1, w1) \<Rightarrow>
                if CHECK_ERROR x1 then log_and_exit env x1 w1
                else Some (Some (sql_code SQL_SUCCESS), x1\<lparr>fb_transac := 0, fb_pending := False\<rparr>, w1)))"

definition SR_FBCOMMITTRANSACTION :: "'w fb_env \<Rightarrow> 'w fbop" where
  "SR_FBCOMMITTRANSACTION env = close_transaction (fe_commit env) env"

definition SR_FBROLLBACKTRANSACTION :: "'w fb_env \<Rightarrow> 'w fbop" where
  "SR_FBROLLBACKTRANSACTION env = close_transaction (fe_rollback env) env"

section \<open>Statements\<close>

text \<open>Numbers of types, \<open>include/firebird.ch\<close>.\<close>

abbreviation IB_SQL_TEXT :: int where "IB_SQL_TEXT \<equiv> 452"
abbreviation IB_SQL_VARYING :: int where "IB_SQL_VARYING \<equiv> 448"
abbreviation IB_SQL_SHORT :: int where "IB_SQL_SHORT \<equiv> 500"
abbreviation IB_SQL_LONG :: int where "IB_SQL_LONG \<equiv> 496"
abbreviation IB_SQL_FLOAT :: int where "IB_SQL_FLOAT \<equiv> 482"
abbreviation IB_SQL_DOUBLE :: int where "IB_SQL_DOUBLE \<equiv> 480"
abbreviation IB_SQL_D_FLOAT :: int where "IB_SQL_D_FLOAT \<equiv> 530"
abbreviation IB_SQL_TIMESTAMP :: int where "IB_SQL_TIMESTAMP \<equiv> 510"
abbreviation IB_SQL_BLOB :: int where "IB_SQL_BLOB \<equiv> 520"
abbreviation IB_SQL_ARRAY :: int where "IB_SQL_ARRAY \<equiv> 540"
abbreviation IB_SQL_QUAD :: int where "IB_SQL_QUAD \<equiv> 550"
abbreviation IB_SQL_TYPE_TIME :: int where "IB_SQL_TYPE_TIME \<equiv> 560"
abbreviation IB_SQL_TYPE_DATE :: int where "IB_SQL_TYPE_DATE \<equiv> 570"
abbreviation IB_SQL_INT64 :: int where "IB_SQL_INT64 \<equiv> 580"
abbreviation IB_SQL_BOOLEAN :: int where "IB_SQL_BOOLEAN \<equiv> 32764"

definition var_type :: "fbvar \<Rightarrow> int" where
  "var_type v = v_sqltype v div 2 * 2"

definition var_size :: "'w fb_env \<Rightarrow> fbvar \<Rightarrow> nat" where
  "var_size env v =
     (let t = var_type v in
      if fe_new env \<and> t = IB_SQL_BOOLEAN then 1
      else if t = IB_SQL_TEXT then v_sqllen v + 1
      else if t = IB_SQL_VARYING then v_sqllen v + 3
      else if t = IB_SQL_LONG then fe_long_size env
      else if t = IB_SQL_SHORT then 2
      else if t = IB_SQL_FLOAT then 4
      else if t = IB_SQL_DOUBLE then 8
      else if t = IB_SQL_D_FLOAT then 8
      else if t = IB_SQL_TIMESTAMP then 8
      else if t = IB_SQL_ARRAY \<or> t = IB_SQL_QUAD \<or> t = IB_SQL_BLOB then 8
      else if t = IB_SQL_TYPE_TIME then 4
      else if t = IB_SQL_TYPE_DATE then 4
      else if t = IB_SQL_INT64 then 8 * v_sqllen v
      else v_sqllen v)"

text \<open>There is room for 620 columns; the loop goes over all that were described.\<close>

definition alloc_vars :: "'w fb_env \<Rightarrow> fbvar list \<Rightarrow> fbvar list option" where
  "alloc_vars env vs =
     (if length vs > MAX_COLUMNS_IN_QUERY then None
      else Some (map (\<lambda>v. v\<lparr>v_data := fe_garbage env (var_size env v)\<rparr>) vs))"

text \<open>A statement needs a transaction; a new one is begun if there is none.\<close>

definition need_transaction :: "'w fb_env \<Rightarrow> fb_session \<Rightarrow> 'w \<Rightarrow> fb_session \<times> bool \<times> 'w" where
  "need_transaction env x w =
     (if fb_transac x = 0
      then (case start_transaction env x w of (x1, w1) \<Rightarrow> (x1, CHECK_ERROR x1, w1))
      else (x, False, w))"

text \<open>Numbers of the machine, the lowest byte first.\<close>

definition le_nat :: "bytes \<Rightarrow> nat" where
  "le_nat s = foldr (\<lambda>c n. byte c + 256 * n) s 0"

definition le_int :: "bytes \<Rightarrow> int" where
  "le_int s =
     (if le_nat s < 2 ^ (8 * length s - 1) then int (le_nat s) else int (le_nat s) - 2 ^ (8 * length s))"

text \<open>The type of a statement, which the reply of the library has behind a byte and the length of two bytes.\<close>

abbreviation isc_info_sql_stmt_exec_procedure :: int where "isc_info_sql_stmt_exec_procedure \<equiv> 8"

definition int16 :: "int \<Rightarrow> int" where
  "int16 n = (n + 2 ^ 15) mod 2 ^ 16 - 2 ^ 15"

definition rd_bytes :: "bytes \<Rightarrow> int \<Rightarrow> int \<Rightarrow> bytes option" where
  "rd_bytes buf p n =
     (if 0 \<le> n \<and> 0 \<le> p \<and> p + n \<le> int (length buf) then Some (take (nat n) (drop (nat p) buf)) else None)"

definition isSelect :: "'w fb_env \<Rightarrow> fb_session \<Rightarrow> 'w \<Rightarrow> (fb_session \<times> 'w) option" where
  "isSelect env x w =
     (case fe_stmt_info env w of
        (st, acBuffer, w1) \<Rightarrow> do {
          s \<leftarrow> rd_bytes (take 9 acBuffer) 1 2;
          q \<leftarrow> rd_bytes (take 9 acBuffer) 3 (int16 (fe_vax_integer env s));
          Some (x\<lparr>fb_status := st, fb_query := fe_vax_integer env q\<rparr>, w1)
        })"

text \<open>What is written into the memory of the columns.\<close>

definition put_value :: "fbvar \<Rightarrow> bytes \<times> int \<Rightarrow> fbvar" where
  "put_value v d = (case d of (s, ind) \<Rightarrow> v\<lparr>v_data := s @ drop (length s) (v_data v), v_ind := ind\<rparr>)"

definition put_values :: "fbvar list \<Rightarrow> (bytes \<times> int) list \<Rightarrow> fbvar list" where
  "put_values vs ds = map (\<lambda>(v, d). put_value v d) (zip vs ds)"

definition execute_prepared :: "'w fb_env \<Rightarrow> int \<Rightarrow> fb_session \<Rightarrow> 'w \<Rightarrow> fb_session \<times> 'w" where
  "execute_prepared env dialect x w =
     (if fe_new env \<and> fb_query x = isc_info_sql_stmt_exec_procedure
      then (case fe_execute2 env dialect w of
              (st, ds, w1) \<Rightarrow>
                (x\<lparr>fb_status := st, fb_vars := (if snd st = 0 then put_values (fb_vars x) ds else fb_vars x)\<rparr>, w1))
      else (case fe_execute env dialect w of (st, w1) \<Rightarrow> (x\<lparr>fb_status := st\<rparr>, w1)))"

definition run_statement :: "'w fb_env \<Rightarrow> bytes \<Rightarrow> int \<Rightarrow> 'w fbop" where
  "run_statement env command dialect x w =
     (case need_transaction env x w of
        (x1, True, w1) \<Rightarrow> log_and_exit env x1 w1
      | (x1, False, w1) \<Rightarrow>
          (case fe_prepare env command dialect w1 of
             (st, vs, w2) \<Rightarrow>
               (let x2 = x1\<lparr>fb_status := st\<rparr> in
                if CHECK_ERROR x2 then log_and_exit env x2 w2
                else do {
                  (x3, w3) \<leftarrow> (if fe_new env then isSelect env x2 w2 else Some (x2, w2));
                  vars \<leftarrow> alloc_vars env vs;
                  (case execute_prepared env dialect (x3\<lparr>fb_vars := vars, fb_pending := True\<rparr>) w3 of
                     (x4, w4) \<Rightarrow>
                       if CHECK_ERROR x4 then log_and_exit env x4 w4 else Some (Some (sql_code SQL_SUCCESS), x4, w4))
                })))"

definition SR_FBEXECUTE :: "'w fb_env \<Rightarrow> bytes \<Rightarrow> int \<Rightarrow> 'w fbop" where
  "SR_FBEXECUTE env command dialect x w =
     (let (st, w1) = (if fb_stmt x = 0 then ((0, 0), w) else fe_free_stmt env (fb_stmt x) w);
          x1 = (if fb_stmt x = 0 then x else x\<lparr>fb_status := st\<rparr>)
      in if snd st \<noteq> 0 then log_and_exit env x1 w1
         else (case fe_alloc_stmt env w1 of
                 (st2, h, w2) \<Rightarrow>
                   (let x2 = x1\<lparr>fb_status := st2, fb_stmt := (if snd st2 = 0 then h else 0)\<rparr> in
                    if CHECK_ERROR x2 then log_and_exit env x2 w2 else run_statement env command dialect x2 w2)))"

definition SR_FBEXECUTEIMMEDIATE :: "'w fb_env \<Rightarrow> bytes \<Rightarrow> int \<Rightarrow> 'w fbop" where
  "SR_FBEXECUTEIMMEDIATE env command dialect x w =
     (case need_transaction env x w of
        (x1, True, w1) \<Rightarrow> log_and_exit env x1 w1
      | (x1, False, w1) \<Rightarrow>
          (case fe_immediate env command dialect (fb_transac x1) w1 of
             (st, w2) \<Rightarrow>
               (let x2 = x1\<lparr>fb_status := st\<rparr> in
                if CHECK_ERROR x2 then log_and_exit env x2 w2
                else Some (Some (sql_code SQL_SUCCESS), x2\<lparr>fb_pending := True\<rparr>, w2))))"

section \<open>Descriptions of columns\<close>

text \<open>What is stored in which parameter of the call, one after the other.\<close>

definition describe_var :: "'w fb_env \<Rightarrow> fbvar \<Rightarrow> int \<times> (nat \<times> item) list" where
  "describe_var env v =
     (let t = var_type v; len = INum (int (v_sqllen v)); scale = v_sqlscale v in
      if fe_new env \<and> t = IB_SQL_BOOLEAN then (SQL_BIT, [(5, INum 1), (6, INum 0)])
      else if t = IB_SQL_TEXT \<or> t = IB_SQL_VARYING then (SQL_CHAR, [(5, len), (6, INum scale)])
      else if t = IB_SQL_TYPE_TIME then (SQL_TIME, [(5, INum 4), (6, INum 0)])
      else if t = IB_SQL_TIMESTAMP then (SQL_DATETIME, [(5, INum 8), (6, INum 0)])
      else if t = IB_SQL_SHORT then
        (if fe_short_as_num env then (SQL_NUMERIC, [(1, INum 5), (0, INum scale)])
         else (SQL_SMALLINT, [(1, len), (0, INum scale)]))
      else if t = IB_SQL_LONG \<or> t = IB_SQL_INT64 then (SQL_NUMERIC, [(5, INum 20), (6, INum (- scale))])
      else if t = IB_SQL_FLOAT \<or> t = IB_SQL_DOUBLE \<or> t = IB_SQL_D_FLOAT then (SQL_DOUBLE, [(5, INum 23), (6, INum 3)])
      else if t = IB_SQL_BLOB \<or> t = IB_SQL_ARRAY \<or> t = IB_SQL_QUAD then (SQL_LONGVARCHAR, [(5, INum 10), (6, INum 0)])
      else if t = IB_SQL_TYPE_DATE then (SQL_DATE, [(5, INum 8), (6, INum 0)])
      else (SQL_CHAR, [(5, len), (6, INum scale)]))"

definition SR_FBDESCRIBECOL :: "'w fb_env \<Rightarrow> fb_session option \<Rightarrow> int \<Rightarrow> (int \<times> (nat \<times> item) list) option" where
  "SR_FBDESCRIBECOL env s icol =
     (case s of
        None \<Rightarrow> Some (sql_code SQL_ERROR, [])
      | Some x \<Rightarrow>
          if int (length (fb_vars x)) < icol then Some (sql_code SQL_ERROR, [])
          else do {
            v \<leftarrow> rd_at (fb_vars x) (max 0 (icol - 1));
            let (t, stores) = describe_var env v;
            Some (sql_code SQL_SUCCESS,
              stores @ [(3, Str (v_alias v)), (4, INum t), (7, INum (if odd (v_sqltype v) then 1 else 0))])
          })"

definition SR_FBNUMRESULTCOLS :: "fb_session option \<Rightarrow> int \<times> (nat \<times> item) list" where
  "SR_FBNUMRESULTCOLS s =
     (case s of
        None \<Rightarrow> (sql_code SQL_ERROR, [])
      | Some x \<Rightarrow> (sql_code SQL_SUCCESS, [(2, INum (int (length (fb_vars x))))]))"

definition SR_FBERROR :: "fb_session option \<Rightarrow> item \<times> (nat \<times> item) list" where
  "SR_FBERROR s =
     (case s of
        None \<Rightarrow> (INum (sql_code SQL_ERROR), [])
      | Some x \<Rightarrow>
          (Str (case fb_msgerror x of None \<Rightarrow> [] | Some m \<Rightarrow> cstring m), [(2, INum (fb_errorcode x))]))"

section \<open>Rows\<close>

text \<open>Every error is the end of the rows; for the later versions only the code 100 is, and every other is a
  success.\<close>

definition SR_FBFETCH :: "'w fb_env \<Rightarrow> fb_session option \<Rightarrow> 'w \<Rightarrow> int \<times> fb_session option \<times> 'w" where
  "SR_FBFETCH env s w =
     (case s of
        None \<Rightarrow> (sql_code SQL_ERROR, None, w)
      | Some x \<Rightarrow>
          (case fe_fetch env w of
             (st, ds, w1) \<Rightarrow>
               (sql_code (if (if fe_new env then snd st = 100 else snd st \<noteq> 0) then SQL_NO_DATA else SQL_SUCCESS),
                Some (x\<lparr>fb_status := st, fb_vars := (if snd st = 0 then put_values (fb_vars x) ds else fb_vars x)\<rparr>), w1)))"

text \<open>Only the later versions have this function, which gives the first value of a procedure.\<close>

definition SR_FBMORERESULTS3 :: "'w fb_env \<Rightarrow> fb_session option \<Rightarrow> (int \<times> (nat \<times> item) list) option" where
  "SR_FBMORERESULTS3 env s =
     (case s of
        None \<Rightarrow> Some (sql_code SQL_ERROR, [])
      | Some x \<Rightarrow>
          if fb_vars x \<noteq> [] \<and> fb_query x = isc_info_sql_stmt_exec_procedure
          then map_option (\<lambda>b. (sql_code SQL_SUCCESS, [(2, INum (le_int b))])) (rd_bytes (v_data (hd (fb_vars x))) 0 8)
          else Some (sql_code SQL_ERROR, []))"

text \<open>\<open>firebird_info_cb\<close> copies the first text the library has for the version; every further one adds a
  blank.\<close>

definition firebird_info_cb :: "bytes \<Rightarrow> bytes \<Rightarrow> bytes" where
  "firebird_info_cb tmp s = (if tmp \<noteq> [] then tmp @ [SPACE] else s)"

definition SR_FBVERSION :: "'w fb_env \<Rightarrow> 'w \<Rightarrow> bytes option" where
  "SR_FBVERSION env w =
     (case fe_version env w of
        None \<Rightarrow> Some []
      | Some ls \<Rightarrow> into 1000 (foldl firebird_info_cb [] ls))"

definition create_db_text :: "bytes \<Rightarrow> bytes \<Rightarrow> bytes \<Rightarrow> int \<Rightarrow> bytes option \<Rightarrow> bytes" where
  "create_db_text db user passwd page charset =
     take (MSG_BUFFER_LEN - 1)
       (''CREATE DATABASE '' @ [QUOTE] @ db @ [QUOTE] @ '' USER '' @ [QUOTE] @ user @ [QUOTE] @
        '' PASSWORD '' @ [QUOTE] @ passwd @ [QUOTE] @
        (if page \<noteq> 0 then '' PAGE_SIZE = '' @ int_text page else []) @
        (case charset of None \<Rightarrow> [] | Some c \<Rightarrow> '' DEFAULT CHARACTER SET '' @ c))"

definition SR_FBCREATEDB ::
  "'w fb_env \<Rightarrow> bytes \<Rightarrow> bytes \<Rightarrow> bytes \<Rightarrow> int \<Rightarrow> bytes option \<Rightarrow> int \<Rightarrow> 'w \<Rightarrow> int \<times> 'w"
where
  "SR_FBCREATEDB env db user passwd page charset dialect w =
     (case fe_immediate env (create_db_text db user passwd page charset) (if dialect = 0 then 3 else dialect) 0 w of
        (st, w1) \<Rightarrow>
          if snd st \<noteq> 0 then (sql_code SQL_ERROR, w1)
          else (case fe_detach env 0 w1 of
                  (st2, w2) \<Rightarrow> (sql_code (if snd st2 \<noteq> 0 then SQL_ERROR else SQL_SUCCESS), w2)))"

end
