(* ===== verification/FirebirdRow.thy ===== *)
theory FirebirdRow
  imports Firebird
begin

text \<open>
  How the connection to Firebird makes values of a row that was fetched: \<open>sr_FBFieldGet\<close> and
  \<open>SR_FBLINEPROCESSED\<close> of \<open>source/firebird/sr_firebird_bind.c\<close> and of the files for later versions. The array of the fields is given to the
  call by value.
\<close>

section \<open>From texts\<close>

definition sr_FBFieldGet :: "'w fb_env \<Rightarrow> item \<Rightarrow> bytes \<Rightarrow> bool \<Rightarrow> item option" where
  "sr_FBFieldGet env f s bTranslate =
     (if s = []
      then null_column (fe_col env) {SQL_NUMERIC, SQL_FAKE_NUM, SQL_DOUBLE, SQL_FLOAT} {SQL_BIT, SQL_SMALLINT} f
      else text_column (fe_col env) {SQL_DOUBLE, SQL_FLOAT, SQL_NUMERIC} {SQL_BIT, SQL_SMALLINT}
             (\<lambda>b. if fe_new env then hd b \<in> {CHR ''t'', CHR ''T'', char_of (1 :: nat)} else c_str_val (fe_col env) b > 0)
             f s bTranslate)"

section \<open>Memory\<close>

definition read_int :: "nat \<Rightarrow> bytes \<Rightarrow> int" where
  "read_int n s = le_int (take n s)"

definition wr_bytes :: "bytes \<Rightarrow> int \<Rightarrow> bytes \<Rightarrow> bytes option" where
  "wr_bytes buf p s =
     (if 0 \<le> p \<and> p + int (length s) \<le> int (length buf)
      then Some (take (nat p) buf @ s @ drop (nat p + length s) buf) else None)"

section \<open>Texts of values\<close>

text \<open>A whole number with a scale. The product of tens of a scale below -18 is none of 64 bits.\<close>

definition fb_number_text :: "int \<Rightarrow> int \<Rightarrow> int \<Rightarrow> bytes option" where
  "fb_number_text width scale v =
     (if scale < - 18 then None
      else if scale < 0 then
        (let k = nat (- scale); tens = 10 ^ k in
         Some (if 0 \<le> v then in_width (width - 1 + scale) (int_text (v div tens)) @ ''.'' @ zero_padded k (nat (v mod tens))
               else if - v div tens \<noteq> 0
               then in_width (width - 1 + scale) (int_text (- (- v div tens))) @ ''.'' @ zero_padded k (nat (- v mod tens))
               else in_width (width - 1 + scale) ''-0'' @ ''.'' @ zero_padded k (nat (- v mod tens))))
      else Some (take (MSG_BUFFER_LEN - 1) (in_width width (int_text v) @ zero_padded (nat scale) 0)))"

definition clock_text :: "nat \<times> nat \<times> nat \<Rightarrow> nat \<Rightarrow> bytes" where
  "clock_text t fraction =
     (case t of (h, m, s) \<Rightarrow>
        zero_padded 2 h @ '':'' @ zero_padded 2 m @ '':'' @ zero_padded 2 s @ ''.'' @ zero_padded 4 fraction)"

definition calendar_text :: "nat \<times> nat \<times> nat \<Rightarrow> bytes" where
  "calendar_text d =
     (case d of (y, m, dd) \<Rightarrow> zero_padded 4 y @ ''-'' @ zero_padded 2 m @ ''-'' @ zero_padded 2 dd)"

definition stamp_text :: "'w fb_env \<Rightarrow> bytes \<Rightarrow> bytes" where
  "stamp_text env s =
     (case fe_decode_stamp env s of
        (d, t) \<Rightarrow> take 24 (calendar_text d @ '' '' @ clock_text t (le_nat (take 4 (drop 4 s)) mod 10000)))"

definition time_text :: "'w fb_env \<Rightarrow> bytes \<Rightarrow> bytes" where
  "time_text env s = take 24 (clock_text (fe_decode_time env s) (le_nat (take 4 s) mod 10000))"

definition date_text :: "'w fb_env \<Rightarrow> bytes \<Rightarrow> bytes" where
  "date_text env s = in_width 8 (take 24 (calendar_text (fe_decode_date env s))) @ '' ''"

section \<open>Blobs\<close>

text \<open>What is known of a blob. The three variables are those of the call: they are not reset from one column
  to the next.\<close>

record blobinfo =
  blob_size :: int
  num_segments :: int
  bEnd :: bool

abbreviation isc_info_end :: nat where "isc_info_end \<equiv> 1"
abbreviation isc_info_truncated :: nat where "isc_info_truncated \<equiv> 2"
abbreviation isc_info_blob_num_segments :: nat where "isc_info_blob_num_segments \<equiv> 4"
abbreviation isc_info_blob_total_length :: nat where "isc_info_blob_total_length \<equiv> 6"
abbreviation isc_segstr_eof :: int where "isc_segstr_eof \<equiv> 335544367"

definition info_item :: "'w fb_env \<Rightarrow> bytes \<Rightarrow> int \<Rightarrow> nat \<Rightarrow> int \<Rightarrow> blobinfo \<Rightarrow> blobinfo option" where
  "info_item env buf p itm len b =
     (if itm = isc_info_blob_total_length then do {
        s \<leftarrow> rd_bytes buf p len;
        Some (b\<lparr>blob_size := fe_vax_integer env s\<rparr>)
      }
      else if itm = isc_info_blob_num_segments then do {
        s \<leftarrow> rd_bytes buf p len;
        Some (b\<lparr>num_segments := fe_vax_integer env s\<rparr>)
      }
      else if itm = isc_info_truncated then Some (b\<lparr>bEnd := True\<rparr>)
      else Some b)"

partial_function (option) info_loop ::
  "'w fb_env \<Rightarrow> bytes \<Rightarrow> int \<Rightarrow> blobinfo \<Rightarrow> blobinfo option"
where
  "info_loop env buf p b = do {
     c \<leftarrow> rd_at buf p;
     if byte c = isc_info_end then Some b
     else do {
       s \<leftarrow> rd_bytes buf (p + 1) 2;
       let len = int16 (fe_vax_integer env s);
       b1 \<leftarrow> info_item env buf (p + 3) (byte c) len b;
       if bEnd b1 then Some b1 else info_loop env buf (p + 3 + len) b1
     }
   }"

text \<open>\<open>n\<close> rounds: the room there is goes as 16 bits without a sign, the length that comes back is read
  with one.\<close>

fun segment_loop ::
  "'w fb_env \<Rightarrow> nat \<Rightarrow> bytes \<Rightarrow> int \<Rightarrow> int \<Rightarrow> 'w \<Rightarrow> (bytes \<times> 'w) option"
where
  "segment_loop env 0 buf p residual w = Some (buf, w)"
| "segment_loop env (Suc n) buf p residual w =
     (case fe_get_segment env (nat (residual mod 2 ^ 16)) w of
        (st, s, w1) \<Rightarrow> do {
          buf1 \<leftarrow> wr_bytes buf p s;
          if st = isc_segstr_eof then segment_loop env n buf1 p residual w1
          else (let len = int16 (int (length s)) in segment_loop env n buf1 (p + len) (residual - len) w1)
        })"

section \<open>Columns\<close>

text \<open>A column is stored, leaves the element of the result as it is, or ends the call with an error.\<close>

datatype fbread = FbStored item | FbKept | FbFailed

type_synonym 'w fbstate = "fb_session \<times> blobinfo \<times> 'w"

definition fb_failed :: "'w fb_env \<Rightarrow> fb_session \<Rightarrow> blobinfo \<Rightarrow> 'w \<Rightarrow> (fbread \<times> 'w fbstate) option" where
  "fb_failed env x b w = do { (x1, w1) \<leftarrow> fb_log_status env x w; Some (FbFailed, x1, b, w1) }"

definition fb_read_blob ::
  "'w fb_env \<Rightarrow> item \<Rightarrow> bytes \<Rightarrow> bool \<Rightarrow> 'w fbstate \<Rightarrow> (fbread \<times> 'w fbstate) option"
where
  "fb_read_blob env f blob_id bTranslate xbw =
     (case xbw of (x, b, w) \<Rightarrow>
        (case fe_open_blob env blob_id w of
           (st, w1) \<Rightarrow>
             if snd st \<noteq> 0 then fb_failed env (x\<lparr>fb_status := st\<rparr>) b w1
             else (case fe_blob_info env w1 of
                     (st2, res_buffer, w2) \<Rightarrow>
                       if snd st2 \<noteq> 0 then fb_failed env (x\<lparr>fb_status := st2\<rparr>) b w2
                       else do {
                         b1 \<leftarrow> info_loop env (take 20 res_buffer) 0 b;
                         if blob_size b1 < 0 then None
                         else do {
                           (read_blob, w3) \<leftarrow> segment_loop env (nat (num_segments b1 + 1))
                              (fe_garbage env (nat (blob_size b1)) @ [NUL]) 0 (blob_size b1) w2;
                           (case fe_close_blob env w3 of
                              (st3, w4) \<Rightarrow>
                                (let x1 = x\<lparr>fb_status := st3\<rparr> in
                                 if snd st3 \<noteq> 0 then fb_failed env x1 b1 w4
                                 else do {
                                   v \<leftarrow> sr_FBFieldGet env f (take (nat (blob_size b1)) read_blob) bTranslate;
                                   Some (FbStored v, x1, b1, w4)
                                 }))
                         }
                       })))"

definition fb_int_width :: "'w fb_env \<Rightarrow> int \<Rightarrow> nat \<times> int" where
  "fb_int_width env t =
     (if t = IB_SQL_SHORT then (2, 6) else if t = IB_SQL_LONG then (fe_long_size env, 11) else (8, 21))"

definition fb_read_number :: "'w fb_env \<Rightarrow> item \<Rightarrow> fbvar \<Rightarrow> bool \<Rightarrow> item option" where
  "fb_read_number env f v bTranslate =
     (case fb_int_width env (var_type v) of
        (n, width) \<Rightarrow>
          (let value = read_int n (v_data v) in
           if v_sqlscale v = 0
           then Some (if col_domain f = SQL_BIT \<or> col_domain f = SQL_SMALLINT
                      then Logical (value mod 2 ^ 32 \<noteq> 0) else INum value)
           else do {
             s \<leftarrow> fb_number_text width (v_sqlscale v) value;
             sr_FBFieldGet env f s bTranslate
           }))"

text \<open>The text of a varying column ends at its length or at a NUL inside it.\<close>

definition varying_text :: "bytes \<Rightarrow> bytes option" where
  "varying_text s = do {
     s1 \<leftarrow> wr_at s (2 + read_int 2 s) NUL;
     if read_int 2 s < 0 then None else Some (cstring (drop 2 s1))
   }"

definition fb_read_column ::
  "'w fb_env \<Rightarrow> item \<Rightarrow> fbvar \<Rightarrow> bool \<Rightarrow> 'w fbstate \<Rightarrow> (fbread \<times> 'w fbstate) option"
where
  "fb_read_column env f v bTranslate xbw =
     (let t = var_type v;
          stored = (\<lambda>r. map_option (\<lambda>i. (FbStored i, xbw)) r);
          from_text = (\<lambda>s. stored (sr_FBFieldGet env f s bTranslate))
      in if odd (v_sqltype v) \<and> v_ind v < 0 then from_text []
         else if fe_new env \<and> t = IB_SQL_BOOLEAN then stored (Some (Logical (take 1 (v_data v) = [char_of (1 :: nat)])))
         else if t = IB_SQL_TEXT then from_text (take (v_sqllen v) (v_data v))
         else if t = IB_SQL_VARYING then Option.bind (varying_text (v_data v)) from_text
         else if t = IB_SQL_TIMESTAMP then from_text (stamp_text env (v_data v))
         else if t = IB_SQL_TYPE_TIME then from_text (time_text env (v_data v))
         else if t = IB_SQL_LONG \<or> t = IB_SQL_INT64 \<or> t = IB_SQL_SHORT
         then stored (fb_read_number env f v bTranslate)
         else if t = IB_SQL_FLOAT then stored (Some (DNum (fe_float env (v_data v))))
         else if t = IB_SQL_DOUBLE then stored (Some (DNum (fe_double env (v_data v))))
         else if t = IB_SQL_BLOB \<or> t = IB_SQL_ARRAY \<or> t = IB_SQL_QUAD
         then fb_read_blob env f (v_data v) bTranslate xbw
         else if t = IB_SQL_TYPE_DATE then from_text (date_text env (v_data v))
         else Some (FbKept, xbw))"

section \<open>A row\<close>

text \<open>The result of the call, which is none for a session that is not there; the array that was filled; and
  the state afterwards.\<close>

fun fb_row_loop ::
  "'w fb_env \<Rightarrow> bool \<Rightarrow> nat \<Rightarrow> item list \<Rightarrow> item \<Rightarrow> 'w fbstate \<Rightarrow> (int \<times> item \<times> 'w fbstate) option"
where
  "fb_row_loop env bTranslate i [] ret xbw = Some (sql_code SQL_SUCCESS, ret, xbw)"
| "fb_row_loop env bTranslate i (f # fs) ret xbw =
     (if col_enum f = 0 then fb_row_loop env bTranslate (Suc i) fs (hb_arraySet ret i NIL) xbw
      else do {
        v \<leftarrow> rd_at (fb_vars (fst xbw)) (max 0 (col_enum f - 1));
        (r, xbw1) \<leftarrow> fb_read_column env f v bTranslate xbw;
        (case r of
           FbStored val \<Rightarrow> fb_row_loop env bTranslate (Suc i) fs (hb_arraySet ret i val) xbw1
         | FbKept \<Rightarrow> fb_row_loop env bTranslate (Suc i) fs ret xbw1
         | FbFailed \<Rightarrow> Some (sql_code SQL_ERROR, ret, xbw1))
      })"

definition SR_FBLINEPROCESSED ::
  "'w fb_env \<Rightarrow> fb_session option \<Rightarrow> item \<Rightarrow> bool \<Rightarrow> item \<Rightarrow> 'w \<Rightarrow>
    (int option \<times> item \<times> fb_session option \<times> 'w) option"
where
  "SR_FBLINEPROCESSED env s pFields bTranslate pRet w =
     (case s of
        None \<Rightarrow> Some (None, pRet, None, w)
      | Some x \<Rightarrow>
          map_option (\<lambda>(r, ret, x1, b, w1). (Some r, ret, Some x1, w1))
            (fb_row_loop env bTranslate 1 (arr_of pFields) pRet
               (x, \<lparr>blob_size = 0, num_segments = 0, bEnd = False\<rparr>, w)))"

section \<open>The later versions\<close>

text \<open>The functions of \<open>sr_firebird3_bind.c\<close>. Those of the versions 4 and 5 have the same text but for their names.
  The calls for the number of columns, the last error, the version and a new database are those of before.\<close>

definition SR_FBCONNECT3 where "SR_FBCONNECT3 env = SR_FBCONNECT (env\<lparr>fe_new := True\<rparr>)"
definition SR_FBCLOSE3 where "SR_FBCLOSE3 env = SR_FBCLOSE (env\<lparr>fe_new := True\<rparr>)"
definition SR_FBBEGINTRANSACTION3 where "SR_FBBEGINTRANSACTION3 env = SR_FBBEGINTRANSACTION (env\<lparr>fe_new := True\<rparr>)"
definition SR_FBCOMMITTRANSACTION3 where "SR_FBCOMMITTRANSACTION3 env = SR_FBCOMMITTRANSACTION (env\<lparr>fe_new := True\<rparr>)"
definition SR_FBROLLBACKTRANSACTION3 where "SR_FBROLLBACKTRANSACTION3 env = SR_FBROLLBACKTRANSACTION (env\<lparr>fe_new := True\<rparr>)"
definition SR_FBEXECUTE3 where "SR_FBEXECUTE3 env = SR_FBEXECUTE (env\<lparr>fe_new := True\<rparr>)"
definition SR_FBEXECUTEIMMEDIATE3 where "SR_FBEXECUTEIMMEDIATE3 env = SR_FBEXECUTEIMMEDIATE (env\<lparr>fe_new := True\<rparr>)"
definition SR_FBDESCRIBECOL3 where "SR_FBDESCRIBECOL3 env = SR_FBDESCRIBECOL (env\<lparr>fe_new := True\<rparr>)"
definition SR_FBFETCH3 where "SR_FBFETCH3 env = SR_FBFETCH (env\<lparr>fe_new := True\<rparr>)"
definition SR_FBLINEPROCESSED3 where "SR_FBLINEPROCESSED3 env = SR_FBLINEPROCESSED (env\<lparr>fe_new := True\<rparr>)"
definition sr_FBFieldGet3 where "sr_FBFieldGet3 env = sr_FBFieldGet (env\<lparr>fe_new := True\<rparr>)"
definition SR_FBNUMRESULTCOLS3 where "SR_FBNUMRESULTCOLS3 = SR_FBNUMRESULTCOLS"
definition SR_FBERROR3 where "SR_FBERROR3 = SR_FBERROR"
definition SR_FBVERSION3 where "SR_FBVERSION3 = SR_FBVERSION"
definition SR_FBCREATEDB3 where "SR_FBCREATEDB3 = SR_FBCREATEDB"

end
