(* ===== verification/Odbc.thy ===== *)
theory Odbc
  imports Column Cache
begin

text \<open>
  The connection through ODBC, \<open>source/odbc/sr_odbc_bind.c\<close>: how a column becomes a value, the rows that are
  read into a record, and the pages of rows that are read into the cache of a work area. The driver manager is
  a parameter. A call that reads or writes outside its memory, or raises a run-time error for its arguments,
  is \<open>None\<close>.
\<close>

section \<open>The driver manager\<close>

text \<open>
  \<open>oe_get_char\<close> is \<open>SQLGetData\<close> of a column as a text for a buffer of a size: the code, the bytes written
  before the NUL, the length if it was stored, and the state afterwards. The others are \<open>SQLGetData\<close> as a
  number, a logical value, a date or a time stamp with its fraction in nanoseconds; their length is
  \<open>SQL_NULL_DATA\<close> for a null. \<open>oe_exec_memo\<close> executes a text with one parameter. \<open>oe_date_enc\<close> and
  \<open>oe_time_enc\<close> are \<open>hb_dateEncode\<close> and \<open>hb_timeEncode\<close>, \<open>oe_new_types\<close> is \<open>sr_lsql2008newTypes\<close>, and
  \<open>oe_long_size\<close> the size of a C \<open>long\<close>.
\<close>

type_synonym ('w, 'a) getdata = "nat \<Rightarrow> 'w \<Rightarrow> sqlreturn \<times> 'a \<times> int option \<times> 'w"

record describe =
  d_name :: bytes
  d_type :: int
  d_size :: nat
  d_decimals :: int
  d_nullable :: int

record 'w odbc_env =
  oe_col :: colenv
  oe_fetch :: "'w \<Rightarrow> sqlreturn \<times> 'w"
  oe_get_char :: "nat \<Rightarrow> ('w, bytes) getdata"
  oe_get_long :: "('w, int) getdata"
  oe_get_bigint :: "('w, int) getdata"
  oe_get_double :: "('w, rat) getdata"
  oe_get_bit :: "('w, int) getdata"
  oe_get_short :: "('w, int) getdata"
  oe_get_date :: "('w, int \<times> int \<times> int) getdata"
  oe_get_stamp :: "('w, (int \<times> int \<times> int) \<times> int \<times> int \<times> int \<times> nat) getdata"
  oe_describe :: "nat \<Rightarrow> nat \<Rightarrow> 'w \<Rightarrow> sqlreturn \<times> describe"
  oe_bind_memo :: "bytes \<Rightarrow> 'w \<Rightarrow> sqlreturn"
  oe_exec_memo :: "bytes \<Rightarrow> bytes \<Rightarrow> 'w \<Rightarrow> sqlreturn \<times> 'w"
  oe_unbind :: "'w \<Rightarrow> sqlreturn"
  oe_date_enc :: "int \<times> int \<times> int \<Rightarrow> int"
  oe_time_enc :: "int \<Rightarrow> int \<Rightarrow> int \<Rightarrow> nat \<Rightarrow> int"
  oe_new_types :: bool
  oe_long_size :: nat

definition SQL_SUCCEEDED :: "sqlreturn \<Rightarrow> bool" where
  "SQL_SUCCEEDED r \<longleftrightarrow> r = SQL_SUCCESS \<or> r = SQL_SUCCESS_WITH_INFO"

section \<open>From texts\<close>

definition odbc_char_types :: "int set" where
  "odbc_char_types = {SQL_CHAR, SQL_VARCHAR, SQL_NVARCHAR, SQL_WCHAR, SQL_GUID}"

definition odbc_num_types :: "int set" where
  "odbc_num_types = {SQL_NUMERIC, SQL_DECIMAL, SQL_DOUBLE, SQL_INTEGER, SQL_FLOAT, SQL_REAL, SQL_BIGINT, SQL_FAKE_NUM}"

definition odbc_memo_types :: "int set" where
  "odbc_memo_types = {SQL_LONGVARCHAR, SQL_WLONGVARCHAR, SQL_DB2_CLOB, SQL_FAKE_LOB, SQL_LONGVARBINARY}"

definition first_is :: "char \<Rightarrow> bytes \<Rightarrow> bool" where
  "first_is c s \<longleftrightarrow> take 1 s = [c]"

text \<open>The databases whose time stamps are values with a time.\<close>

definition stamps_kept :: "'w odbc_env \<Rightarrow> int \<Rightarrow> bool" where
  "stamps_kept env sys \<longleftrightarrow>
     sys \<in> {RDBMS_POSTGR, RDBMS_ORACLE, RDBMS_FIREBR, RDBMS_FIREBR3, RDBMS_FIREBR4, RDBMS_FIREBR5, RDBMS_MYSQL,
            RDBMS_MARIADB} \<or> sys = RDBMS_MSSQL7 \<and> oe_new_types env"

definition oterro_date :: "colenv \<Rightarrow> bytes \<Rightarrow> item option" where
  "oterro_date env s =
     (if length s < 9 then None
      else Some (Date (c_date_enc env (map (\<lambda>i. (s @ [NUL]) ! i) [6, 7, 8, 9, 0, 1, 3, 4]))))"

text \<open>A number of a text as a C \<open>int\<close>; a double that is not in its range has no such value.\<close>

definition text_int32 :: "colenv \<Rightarrow> bytes \<Rightarrow> item option" where
  "text_int32 env s =
     (let n = hb_itemGetNL (DNum (c_str_val env s))
      in if - (2 ^ 31) \<le> n \<and> n < 2 ^ 31 then Some (INum n) else None)"

definition odbc_null :: "'w odbc_env \<Rightarrow> item \<Rightarrow> bool \<Rightarrow> int \<Rightarrow> item option" where
  "odbc_null env f bQueryOnly sys =
     (let t = col_domain f; empty_date = Date (c_date_enc (oe_col env) (replicate 8 SPACE)) in
      if t \<in> odbc_char_types then fixed_text (col_len f) []
      else if t \<in> odbc_num_types then
        Some (if first_is (CHR ''L'') (col_letter f) \<and> sys = RDBMS_ORACLE then Logical False
              else put_escaped (oe_col env) f [SPACE])
      else if t = SQL_DATE \<or> t = SQL_TYPE_DATE then Some empty_date
      else if t = SQL_TIMESTAMP \<or> t = SQL_TYPE_TIMESTAMP then
        Some (if sys = RDBMS_IBMDB2 \<or> stamps_kept env sys then TStamp 0 0 else empty_date)
      else if t \<in> odbc_memo_types then Some (Str [])
      else if t = SQL_BIT then Some (Logical False)
      else if t = SQL_SMALLINT \<or> t = SQL_TINYINT then Some (if bQueryOnly then INum 0 else Logical False)
      else Some NIL)"

definition odbc_content :: "'w odbc_env \<Rightarrow> item \<Rightarrow> bytes \<Rightarrow> bool \<Rightarrow> int \<Rightarrow> bool \<Rightarrow> item option" where
  "odbc_content env f s bQueryOnly sys bTranslate =
     (let t = col_domain f; ce = oe_col env in
      if t \<in> odbc_char_types then fixed_text (col_len f) s
      else if t \<in> odbc_num_types then
        Some (if first_is (CHR ''L'') (col_letter f) \<and> sys = RDBMS_ORACLE then Logical (first_is (CHR ''1'') s)
              else put_escaped ce f s)
      else if t \<in> {SQL_DATE, SQL_TIMESTAMP, SQL_TYPE_TIMESTAMP, SQL_TYPE_DATE} then
        (if sys = RDBMS_OTERRO then oterro_date ce s
         else if (t = SQL_TIMESTAMP \<or> t = SQL_TYPE_TIMESTAMP) \<and> (sys = RDBMS_IBMDB2 \<or> stamps_kept env sys)
         then Some (case c_stamp_raw ce (cstring s) of (d, ms) \<Rightarrow> TStamp d ms)
         else date_value ce s)
      else if t \<in> odbc_memo_types \<or> t = SQL_VARBINARY then Some (memo_value ce (Str (cstring s)) s bTranslate)
      else if t = SQL_BIT then Some (Logical (first_is (CHR ''1'') s))
      else if t = SQL_SMALLINT \<or> t = SQL_TINYINT then
        (if bQueryOnly then text_int32 ce s else Some (Logical (c_str_val ce s > 0)))
      else Some NIL)"

text \<open>A length that is not positive is a null.\<close>

definition sr_odbcFieldGet ::
  "'w odbc_env \<Rightarrow> item \<Rightarrow> bytes \<Rightarrow> int \<Rightarrow> bool \<Rightarrow> int \<Rightarrow> bool \<Rightarrow> item option"
where
  "sr_odbcFieldGet env f buf len bQueryOnly sys bTranslate =
     (if len \<le> 0 then odbc_null env f bQueryOnly sys
      else if len > int (length buf) then None
      else odbc_content env f (take (nat len) buf) bQueryOnly sys bTranslate)"

section \<open>One column\<close>

definition ind_of :: "int option \<Rightarrow> int \<Rightarrow> int" where
  "ind_of ind old = (case ind of None \<Rightarrow> old | Some n \<Rightarrow> n)"

text \<open>\<open>SR_odbcGetData\<close> of a text: its length is asked for first.\<close>

definition get_text ::
  "'w odbc_env \<Rightarrow> item \<Rightarrow> item \<Rightarrow> bool \<Rightarrow> int \<Rightarrow> bool \<Rightarrow> nat \<Rightarrow> 'w \<Rightarrow> (item \<times> 'w) option"
where
  "get_text env f old bQueryOnly sys bTranslate ui w =
     (case oe_get_char env 0 ui w of
        (res, s0, ind, w1) \<Rightarrow>
          (let len = ind_of ind 0 in
           if \<not> SQL_SUCCEEDED res then Some (old, w1)
           else if len = SQL_NULL_DATA \<or> len = 0
           then map_option (\<lambda>v. (v, w1)) (sr_odbcFieldGet env f [] (- 1) bQueryOnly sys bTranslate)
           else if len < 0 then Some (old, w1)
           else (case oe_get_char env (nat len + 1) ui w1 of
                   (res2, s, ind2, w2) \<Rightarrow>
                     if \<not> SQL_SUCCEEDED res2 then Some (old, w2)
                     else map_option (\<lambda>v. (v, w2))
                            (sr_odbcFieldGet env f s (ind_of ind2 len) bQueryOnly sys bTranslate))))"

text \<open>Every other type: the value that was read, then what a null is, if the indicator says so. It is
  a null before the call.\<close>

definition get_value ::
  "('w, 'a) getdata \<Rightarrow> ('a \<Rightarrow> item) \<Rightarrow> item \<Rightarrow> item \<Rightarrow> nat \<Rightarrow> 'w \<Rightarrow> item \<times> 'w"
where
  "get_value get mk null old ui w =
     (case get ui w of
        (res, v, ind, w1) \<Rightarrow>
          (let it = (if SQL_SUCCEEDED res then mk v else old)
           in (if ind_of ind SQL_NULL_DATA = SQL_NULL_DATA then null else it, w1)))"

text \<open>A number of 32 bits that is written into a C \<open>long\<close> which is zero, on a machine that has the lowest
  byte first.\<close>

definition in_long :: "'w odbc_env \<Rightarrow> int \<Rightarrow> int" where
  "in_long env n = (if oe_long_size env = 4 then n else n mod 2 ^ 32)"

definition stamp_item :: "'w odbc_env \<Rightarrow> (int \<times> int \<times> int) \<times> int \<times> int \<times> int \<times> nat \<Rightarrow> item" where
  "stamp_item env v =
     (case v of (d, h, m, s, fraction) \<Rightarrow> TStamp (oe_date_enc env d) (oe_time_enc env h m s (fraction div 1000000)))"

definition SR_odbcGetData ::
  "'w odbc_env \<Rightarrow> item \<Rightarrow> item \<Rightarrow> bool \<Rightarrow> int \<Rightarrow> bool \<Rightarrow> nat \<Rightarrow> 'w \<Rightarrow> (item \<times> 'w) option"
where
  "SR_odbcGetData env f old bQueryOnly sys bTranslate ui w =
     (let t = col_domain f;
          zero = (if first_is (CHR ''L'') (col_letter f) \<and> (sys = RDBMS_ORACLE \<or> sys = RDBMS_CUBRID)
                  then Logical False else INum 0)
      in if t \<in> odbc_char_types \<or> t \<in> odbc_memo_types \<or> t = SQL_VARBINARY
         then get_text env f old bQueryOnly sys bTranslate ui w
         else if t = SQL_INTEGER \<or> t = SQL_BIGINT \<or> t = SQL_FAKE_NUM then
           Some (if 0 \<le> col_len f \<and> col_len f < 10
                 then get_value (oe_get_long env) (\<lambda>n. INum (in_long env n)) zero old ui w
                 else get_value (oe_get_bigint env) INum zero old ui w)
         else if t \<in> {SQL_NUMERIC, SQL_FLOAT, SQL_REAL, SQL_DECIMAL, SQL_DOUBLE} then
           Some (get_value (oe_get_double env) DNum (DNum 0) old ui w)
         else if t = SQL_BIT \<or> t = SQL_TINYINT then
           Some (get_value (oe_get_bit env) (\<lambda>n. Logical (n \<noteq> 0)) (Logical False) old ui w)
         else if t = SQL_SMALLINT then
           Some (get_value (oe_get_short env) (\<lambda>n. Logical (n \<noteq> 0)) (Logical False) old ui w)
         else if t = SQL_DATE \<or> t = SQL_TYPE_DATE then
           Some (get_value (oe_get_date env) (\<lambda>d. Date (oe_date_enc env d)) (Date (oe_date_enc env (0, 0, 0))) old ui w)
         else if t = SQL_TIMESTAMP \<or> t = SQL_TYPE_TIMESTAMP then
           Some (get_value (oe_get_stamp env) (stamp_item env) (TStamp 0 0) old ui w)
         else Some (old, w))"

section \<open>A record\<close>

text \<open>The number of a column is cut to 16 bits.\<close>

fun odbc_row_loop ::
  "'w odbc_env \<Rightarrow> bool \<Rightarrow> int \<Rightarrow> bool \<Rightarrow> nat \<Rightarrow> item list \<Rightarrow> item \<Rightarrow> 'w \<Rightarrow> (item \<times> 'w) option"
where
  "odbc_row_loop env bQueryOnly sys bTranslate i [] ret w = Some (ret, w)"
| "odbc_row_loop env bQueryOnly sys bTranslate i (f # fs) ret w =
     (let n = nat (col_enum f mod 2 ^ 16) in
      if n = 0 then odbc_row_loop env bQueryOnly sys bTranslate (Suc i) fs (hb_arraySet ret i NIL) w
      else do {
        (v, w1) \<leftarrow> SR_odbcGetData env f NIL bQueryOnly sys bTranslate n w;
        odbc_row_loop env bQueryOnly sys bTranslate (Suc i) fs (hb_arraySet ret i v) w1
      })"

definition SR_ODBCLINEPROCESSED ::
  "'w odbc_env \<Rightarrow> int \<Rightarrow> item list \<Rightarrow> bool \<Rightarrow> int \<Rightarrow> bool \<Rightarrow> item \<Rightarrow> 'w \<Rightarrow> (item \<times> 'w) option"
where
  "SR_ODBCLINEPROCESSED env lLen fs bQueryOnly sys bTranslate ret w =
     (if fs = [] \<or> lLen \<le> 0 then None else odbc_row_loop env bQueryOnly sys bTranslate 1 fs ret w)"

section \<open>A page of records\<close>

text \<open>
  The status array and the cache of the work area, the number of the last record that was read, the numbers of
  all that were read, the position in the cache, and the size of the buffer, which only grows.
\<close>

record 'w page =
  gl_info :: "item list"
  gl_cache :: "item list"
  gl_rec :: item
  gl_fetch :: item
  gl_pos :: int
  gl_len :: nat
  gl_world :: 'w

text \<open>
  A column as a text. When it does not fit into the buffer, a second call gives the rest, which is put behind
  what was read. The first result is the value to store, if there is one.
\<close>

definition get_long_text ::
  "'w odbc_env \<Rightarrow> int \<Rightarrow> bool \<Rightarrow> item \<Rightarrow> nat \<Rightarrow> nat \<Rightarrow> bytes \<Rightarrow> int \<Rightarrow> 'w \<Rightarrow> (item option \<times> nat \<times> 'w) option"
where
  "get_long_text env sys bTranslate f n len s1 out1 w =
     (let len2 = nat out1 + 3 in
      case oe_get_char env len2 n w of
        (res, s2, ind, w1) \<Rightarrow>
          if \<not> SQL_SUCCEEDED res then Some (None, len2, w1)
          else do {
            bOut \<leftarrow> into (nat out1 + 1) (cstring s1 @ cstring s2);
            v \<leftarrow> sr_odbcFieldGet env f bOut (ind_of ind out1 + int len - 1) False sys bTranslate;
            Some (Some v, len2, w1)
          })"

definition get_line_column ::
  "'w odbc_env \<Rightarrow> int \<Rightarrow> bool \<Rightarrow> item \<Rightarrow> nat \<Rightarrow> nat \<Rightarrow> 'w \<Rightarrow> (item option \<times> nat \<times> 'w) option"
where
  "get_line_column env sys bTranslate f n len w =
     (case oe_get_char env len n w of
        (res, s, ind, w1) \<Rightarrow>
          (let out = ind_of ind 0 in
           if res = SQL_SUCCESS \<or> res = SQL_SUCCESS_WITH_INFO \<and> out < int len
           then map_option (\<lambda>v. (Some v, len, w1)) (sr_odbcFieldGet env f s out False sys bTranslate)
           else if res = SQL_SUCCESS_WITH_INFO then get_long_text env sys bTranslate f n len s out w1
           else Some (None, len, w1)))"

fun get_line ::
  "'w odbc_env \<Rightarrow> int \<Rightarrow> bool \<Rightarrow> nat \<Rightarrow> item list \<Rightarrow> item \<Rightarrow> nat \<Rightarrow> 'w \<Rightarrow> (item \<times> nat \<times> 'w) option"
where
  "get_line env sys bTranslate i [] pLine len w = Some (pLine, len, w)"
| "get_line env sys bTranslate i (f # fs) pLine len w = do {
     (v, len1, w1) \<leftarrow> get_line_column env sys bTranslate f
        (nat ((if col_enum f = 0 then int i else col_enum f) mod 2 ^ 16)) len w;
     get_line env sys bTranslate (Suc i) fs (case v of None \<Rightarrow> pLine | Some x \<Rightarrow> hb_arraySet pLine i x) len1 w1
   }"

definition ring_next :: "bool \<Rightarrow> int \<Rightarrow> int" where
  "ring_next fwd p =
     (if fwd then (if p + 1 > SR_CACHE_PAGE_SIZE * 3 then p + 1 - SR_CACHE_PAGE_SIZE * 3 else p + 1)
      else (if p - 1 < 1 then p - 1 + SR_CACHE_PAGE_SIZE * 3 else p - 1))"

text \<open>The end of the rows: where it is, and the last position of the cache.\<close>

definition end_of_rows :: "bool \<Rightarrow> 'w page \<Rightarrow> 'w page" where
  "end_of_rows fwd g =
     g\<lparr>gl_info :=
        (if fwd then arr_set (arr_set (gl_info g) SR_AINFO_EOF_AT (gl_rec g)) SR_AINFO_NCACHEEND (INum (gl_pos g))
         else arr_set (arr_set (gl_info g) SR_AINFO_BOF_AT (gl_rec g)) SR_AINFO_NCACHEBEGIN (INum (gl_pos g)))\<rparr>"

definition store_line ::
  "'w odbc_env \<Rightarrow> item list \<Rightarrow> int \<Rightarrow> bool \<Rightarrow> bool \<Rightarrow> nat \<Rightarrow> bool \<Rightarrow> 'w page \<Rightarrow> 'w page option"
where
  "store_line env fs sys bTranslate fwd ulnRecno bFetchAll g = do {
     let p = ring_next fwd (gl_pos g);
     c \<leftarrow> cell (gl_cache g) p;
     (row, len, w) \<leftarrow> get_line env sys bTranslate 1 fs (if c = NIL then Arr 0 (replicate (length fs) NIL) else c)
        (gl_len g) (gl_world g);
     let rno = INum (hb_itemGetNL (hb_arrayGet row ulnRecno));
     Some (g\<lparr>gl_cache := (gl_cache g)[nat (p - 1) := row], gl_rec := rno, gl_pos := p, gl_len := len, gl_world := w,
            gl_fetch := (if bFetchAll then hb_arrayAdd (gl_fetch g) rno else gl_fetch g)\<rparr>)
   }"

fun get_lines ::
  "'w odbc_env \<Rightarrow> item list \<Rightarrow> int \<Rightarrow> bool \<Rightarrow> bool \<Rightarrow> nat \<Rightarrow> bool \<Rightarrow> nat \<Rightarrow> sqlreturn \<Rightarrow> 'w page \<Rightarrow>
    (sqlreturn \<times> 'w page) option"
where
  "get_lines env fs sys bTranslate fwd ulnRecno bFetchAll 0 ret g = Some (ret, g)"
| "get_lines env fs sys bTranslate fwd ulnRecno bFetchAll (Suc k) ret g =
     (case oe_fetch env (gl_world g) of
        (res, w) \<Rightarrow>
          (let g1 = g\<lparr>gl_world := w\<rparr> in
           if res = SQL_ERROR then Some (res, g1)
           else if res \<noteq> SQL_SUCCESS then Some (res, end_of_rows fwd g1)
           else do {
             g2 \<leftarrow> store_line env fs sys bTranslate fwd ulnRecno bFetchAll g1;
             get_lines env fs sys bTranslate fwd ulnRecno bFetchAll k res g2
           }))"

text \<open>The position in the cache the area had is put back.\<close>

definition SR_ODBCGETLINES ::
  "'w odbc_env \<Rightarrow> item list \<Rightarrow> int \<Rightarrow> bool \<Rightarrow> int \<Rightarrow> int \<Rightarrow> nat \<Rightarrow> bool \<Rightarrow> 'w page \<Rightarrow> (sqlreturn \<times> 'w page) option"
where
  "SR_ODBCGETLINES env fs sys bTranslate iCurrFetch ulDirect ulnRecno bFetchAll g =
     (if fs = [] \<or> gl_len g = 0 then None
      else do {
        (r, g1) \<leftarrow> get_lines env fs sys bTranslate (ulDirect = 1) ulnRecno bFetchAll (nat iCurrFetch) SQL_ERROR g;
        Some (r, g1\<lparr>gl_info := arr_set (gl_info g1) SR_AINFO_NPOSCACHE
                     (INum (hb_itemGetNL (arr_get NIL (gl_info g) SR_AINFO_NPOSCACHE)))\<rparr>)
      })"

section \<open>Memos\<close>

definition memo_update :: "bytes \<Rightarrow> bytes \<Rightarrow> bytes \<Rightarrow> int \<Rightarrow> bytes option" where
  "memo_update tbl sField recno ulRecno =
     into 512 (''UPDATE '' @ tbl @ '' SET '' @ sField @ '' = ? WHERE '' @ recno @ '' = '' @
               nat_text (nat (ulRecno mod 2 ^ 64)))"

fun write_memos ::
  "'w odbc_env \<Rightarrow> bytes \<Rightarrow> bytes \<Rightarrow> int \<Rightarrow> item list \<Rightarrow> sqlreturn \<Rightarrow> 'w \<Rightarrow> (sqlreturn \<times> 'w) option"
where
  "write_memos env tbl recno ulRecno [] ret w = Some (ret, w)"
| "write_memos env tbl recno ulRecno (d # ds) ret w = do {
     szSql \<leftarrow> memo_update tbl (hb_itemGetC (hb_arrayGet d 1)) recno ulRecno;
     let sMemo = cstring (hb_itemGetC (hb_arrayGet d 2));
     let bound = oe_bind_memo env sMemo w;
     if \<not> SQL_SUCCEEDED bound then Some (bound, w)
     else
       (case oe_exec_memo env szSql sMemo w of
          (res, w1) \<Rightarrow>
            if \<not> SQL_SUCCEEDED res \<or> \<not> SQL_SUCCEEDED (oe_unbind env w1) then Some (res, w1)
            else write_memos env tbl recno ulRecno ds res w1)
   }"

definition SR_ODBCWRITEMEMO ::
  "'w odbc_env \<Rightarrow> bool \<Rightarrow> bytes \<Rightarrow> int \<Rightarrow> bytes \<Rightarrow> item list \<Rightarrow> 'w \<Rightarrow> (int \<times> 'w) option"
where
  "SR_ODBCWRITEMEMO env hDbc tbl ulRecno recno descs w =
     (if hDbc \<and> descs \<noteq> []
      then map_option (\<lambda>(r, w1). (sql_code r, w1)) (write_memos env tbl recno ulRecno descs SQL_SUCCESS w)
      else Some (0, w))"

section \<open>Descriptions of columns\<close>

text \<open>
  The result, what is stored in which parameter, and whether an error is raised before, which is so for the
  wide texts of MySQL. The name is taken with the length the driver tells, which is that of the whole name,
  from a buffer that may hold less of it.
\<close>

definition SR_DESCRIB ::
  "'w odbc_env \<Rightarrow> nat \<Rightarrow> int \<Rightarrow> int \<Rightarrow> int \<Rightarrow> 'w \<Rightarrow> (int \<times> (nat \<times> item) list \<times> bool) option"
where
  "SR_DESCRIB env col len type0 sys w =
     (let room = (if len \<le> 0 then 64 else nat len) in
      case oe_describe env col room w of
        (res, d) \<Rightarrow>
          (let raised = ((if SQL_SUCCEEDED res then d_type d else type0) = - 8 \<and> sys = RDBMS_MYSQL);
               n = INum (int (length (d_name d)))
           in if \<not> SQL_SUCCEEDED res then Some (sql_code res, [], raised)
              else if length (d_name d) > room then None
              else Some (sql_code res,
                [(3, Str (take (room - 1) (d_name d) @ (if length (d_name d) = room then [NUL] else []))),
                 (5, n), (6, INum (d_type d)), (7, INum (int (d_size d))), (8, INum (d_decimals d)),
                 (9, INum (d_nullable d))], raised)))"

end
