(* ===== verification/Oracle.thy ===== *)
theory Oracle
  imports Column
begin

text \<open>
  The connection to Oracle, \<open>source/oracle/sr_oracle_bind.c\<close>: sessions, statements, cursors that a procedure
  gives, parameters of procedures, memos, and the values of a row. The library below it, \<open>sqlora.c\<close>, is a
  parameter. The handles of statements are numbers, -1 is none.
\<close>

section \<open>Sessions\<close>

abbreviation SQLO_SUCCESS :: int where "SQLO_SUCCESS \<equiv> 0"
abbreviation SQLO_SUCCESS_WITH_INFO :: int where "SQLO_SUCCESS_WITH_INFO \<equiv> 1"
abbreviation SQLO_NO_DATA :: int where "SQLO_NO_DATA \<equiv> 100"
abbreviation SQLO_STILL_EXECUTING :: int where "SQLO_STILL_EXECUTING \<equiv> - 3123"
abbreviation SQLO_STH_INIT :: int where "SQLO_STH_INIT \<equiv> - 1"

text \<open>A parameter with the memory for its value in every type; \<open>bc_name\<close> is the buffer of a text, if there
  is one.\<close>

record bindcol =
  bc_name :: "bytes option"
  bc_null :: int
  bc_double :: rat
  bc_type :: int
  bc_long :: int
  bc_date :: "int list"
  bc_int :: int
  bc_text :: bytes

record ora_session =
  os_stmt :: int
  os_status :: int
  os_numcols :: int
  os_version :: bytes
  os_param :: int
  os_link :: "bindcol list option"
  os_bindnum :: nat
  os_param_res :: int
  os_rows :: nat

record odesc =
  od_type :: nat
  od_name :: bytes
  od_prec :: int
  od_scale :: int
  od_size :: int
  od_nullok :: bool

text \<open>
  The library: every call gives a status. \<open>oa_open\<close> and \<open>oa_bind_ref\<close> are given a handle and change it;
  \<open>oa_execute\<close> writes the values of out parameters into their memory; \<open>oa_values\<close> is the current row, empty
  texts for nulls. \<open>oa_date_dec\<close>, \<open>oa_date_enc\<close>, \<open>oa_time_dec\<close> and \<open>oa_stamp\<close> are \<open>hb_dateDecode\<close>,
  \<open>hb_dateEncode\<close>, \<open>hb_timeDecode\<close> without the milliseconds, and the day and milliseconds of
  \<open>hb_timeStampPack\<close>; \<open>oa_sprintf\<close> is what \<open>sprintf\<close> makes of a format and a length.
\<close>

record 'w ora_env =
  oa_col :: colenv
  oa_init :: "'w \<Rightarrow> int \<times> 'w"
  oa_connect :: "bytes \<Rightarrow> 'w \<Rightarrow> int \<times> 'w"
  oa_version :: "'w \<Rightarrow> bytes"
  oa_finish :: "'w \<Rightarrow> 'w"
  oa_freeall :: "'w \<Rightarrow> 'w"
  oa_error :: "'w \<Rightarrow> bytes"
  oa_errcode :: "'w \<Rightarrow> int"
  oa_exec :: "bytes \<Rightarrow> 'w \<Rightarrow> int \<times> nat \<times> 'w"
  oa_open :: "bytes \<Rightarrow> int \<Rightarrow> 'w \<Rightarrow> int \<times> int \<times> 'w"
  oa_executeselect :: "int \<Rightarrow> 'w \<Rightarrow> int \<times> 'w"
  oa_ncols :: "int \<Rightarrow> 'w \<Rightarrow> int"
  oa_describe :: "int \<Rightarrow> nat \<Rightarrow> 'w \<Rightarrow> odesc"
  oa_fetch :: "int \<Rightarrow> 'w \<Rightarrow> int \<times> 'w"
  oa_values :: "int \<Rightarrow> 'w \<Rightarrow> bytes list"
  oa_commit :: "'w \<Rightarrow> int \<times> 'w"
  oa_rollback :: "'w \<Rightarrow> int \<times> 'w"
  oa_close :: "int \<Rightarrow> 'w \<Rightarrow> int \<times> 'w"
  oa_prepare :: "bytes \<Rightarrow> 'w \<Rightarrow> int \<times> 'w"
  oa_bind :: "int \<Rightarrow> int \<Rightarrow> nat \<Rightarrow> int \<Rightarrow> 'w \<Rightarrow> int \<times> 'w"
  oa_bind_ref :: "int \<Rightarrow> bytes \<Rightarrow> int \<Rightarrow> 'w \<Rightarrow> int \<times> int \<times> 'w"
  oa_execute :: "int \<Rightarrow> bindcol list option \<Rightarrow> 'w \<Rightarrow> int \<times> bindcol list option \<times> 'w"
  oa_lob_write :: "bytes \<Rightarrow> 'w \<Rightarrow> int \<times> 'w"
  oa_sprintf :: "bytes \<Rightarrow> nat \<Rightarrow> bytes"
  oa_date_dec :: "int \<Rightarrow> int \<times> int \<times> int"
  oa_date_enc :: "int \<times> int \<times> int \<Rightarrow> int"
  oa_time_dec :: "int \<Rightarrow> int \<times> int \<times> int"
  oa_stamp :: "int \<times> int \<times> int \<Rightarrow> int \<times> int \<times> int \<Rightarrow> int \<times> int"

text \<open>The number of connections is kept in 16 bits. A session is not set to zero: \<open>g\<close> is what is in its
  memory. After an error of the first initialisation the connection is tried nevertheless.\<close>

definition SR_SQLO_CONNECT ::
  "'w ora_env \<Rightarrow> ora_session \<Rightarrow> bytes \<Rightarrow> nat \<times> 'w \<Rightarrow> int \<times> ora_session option \<times> nat \<times> 'w"
where
  "SR_SQLO_CONNECT env g cstr st =
     (case st of (n, w) \<Rightarrow>
        (let w1 = (if n = 0 then snd (oa_init env w) else w); n1 = (n + 1) mod 2 ^ 16 in
         case oa_connect env cstr w1 of
           (status, w2) \<Rightarrow>
             if status \<noteq> SQLO_SUCCESS then (sql_code SQL_ERROR, None, n1, w2)
             else (sql_code SQL_SUCCESS,
                   Some (g\<lparr>os_status := status, os_param_res := SQLO_STH_INIT, os_version := oa_version env w2\<rparr>), n1, w2)))"

definition SR_SQLO_DBMSNAME :: "ora_session option \<Rightarrow> bytes" where
  "SR_SQLO_DBMSNAME s = (case s of None \<Rightarrow> ''Not connected to Oracle'' | Some x \<Rightarrow> os_version x)"

definition SR_SQLO_DISCONNECT :: "'w ora_env \<Rightarrow> ora_session option \<Rightarrow> nat \<times> 'w \<Rightarrow> int \<times> nat \<times> 'w" where
  "SR_SQLO_DISCONNECT env s st =
     (case (s, st) of
        (None, n, w) \<Rightarrow> (sql_code SQL_ERROR, n, w)
      | (Some x, n, w) \<Rightarrow>
          (let w1 = oa_finish env w; n1 = (n + (2 ^ 16 - 1)) mod 2 ^ 16
           in (sql_code SQL_SUCCESS, n1, if n1 = 0 then oa_freeall env w1 else w1)))"

definition SR_SQLO_GETERRORDESCR :: "'w ora_env \<Rightarrow> ora_session option \<Rightarrow> 'w \<Rightarrow> bytes" where
  "SR_SQLO_GETERRORDESCR env s w = (if s = None then ''Not connected to Oracle'' else oa_error env w)"

definition SR_SQLO_GETERRORCODE :: "'w ora_env \<Rightarrow> ora_session option \<Rightarrow> 'w \<Rightarrow> int" where
  "SR_SQLO_GETERRORCODE env s w = (if s = None then sql_code SQL_ERROR else oa_errcode env w)"

section \<open>Statements\<close>

text \<open>A call that is still executing is made again.\<close>

partial_function (option) still_loop :: "('w \<Rightarrow> int \<times> 'a \<times> 'w) \<Rightarrow> 'w \<Rightarrow> (int \<times> 'a \<times> 'w) option" where
  "still_loop f w =
     (case f w of
        (status, a, w1) \<Rightarrow> if status = SQLO_STILL_EXECUTING then still_loop f w1 else Some (status, a, w1))"

definition SR_SQLO_EXECDIRECT ::
  "'w ora_env \<Rightarrow> bytes \<Rightarrow> ora_session option \<Rightarrow> 'w \<Rightarrow> (int \<times> ora_session option \<times> 'w) option"
where
  "SR_SQLO_EXECDIRECT env stm s w =
     (case s of
        None \<Rightarrow> Some (sql_code SQL_ERROR, None, w)
      | Some x \<Rightarrow> do {
          (status, rr, w1) \<leftarrow> still_loop (oa_exec env stm) w;
          Some (sql_code (if status \<in> {SQLO_SUCCESS_WITH_INFO, SQLO_SUCCESS, SQLO_NO_DATA} then SQL_SUCCESS else SQL_ERROR),
            Some (x\<lparr>os_status := status, os_rows := rr\<rparr>), w1)
        })"

text \<open>\<open>lStmt\<close> is whether the statement was prepared.\<close>

definition SR_SQLO_EXECUTE ::
  "'w ora_env \<Rightarrow> bytes \<Rightarrow> bool \<Rightarrow> ora_session option \<Rightarrow> 'w \<Rightarrow> (int \<times> ora_session option \<times> 'w) option"
where
  "SR_SQLO_EXECUTE env stm lStmt s w =
     (case s of
        None \<Rightarrow> Some (sql_code SQL_ERROR, None, w)
      | Some x \<Rightarrow> do {
          (status, u, h, w1) \<leftarrow> still_loop
             (\<lambda>(h, w). if lStmt then (case oa_executeselect env h w of (status, w1) \<Rightarrow> (status, (), h, w1))
                       else (case oa_open env stm h w of (status, h1, w1) \<Rightarrow> (status, (), h1, w1)))
             (os_stmt x, w);
          let x1 = x\<lparr>os_stmt := h, os_status := status\<rparr>;
          if status \<noteq> SQLO_SUCCESS \<and> status \<noteq> SQLO_SUCCESS_WITH_INFO
          then Some (sql_code SQL_ERROR, Some (x1\<lparr>os_numcols := 0\<rparr>), w1)
          else Some (sql_code SQL_SUCCESS, Some (x1\<lparr>os_numcols := oa_ncols env h w1\<rparr>), w1)
        })"

definition SR_SQLO_NUMCOLS :: "ora_session option \<Rightarrow> int" where
  "SR_SQLO_NUMCOLS s = (case s of None \<Rightarrow> sql_code SQL_ERROR | Some x \<Rightarrow> os_numcols x)"

definition SR_GETAFFECTROWS :: "ora_session option \<Rightarrow> nat" where
  "SR_GETAFFECTROWS s = (case s of None \<Rightarrow> 0 | Some x \<Rightarrow> os_rows x)"

text \<open>The numbers of types of \<open>sqlora.h\<close> in groups: texts, large objects, numbers, dates and time stamps.\<close>

definition sqlo_sqldtype :: "nat \<Rightarrow> int" where
  "sqlo_sqldtype t =
     (if t \<in> {1, 5, 9, 10, 15, 23, 24, 91, 94, 95, 96, 97, 102, 104, 105, 106, 108, 110, 185, 186, 155} then SQL_CHAR
      else if t \<in> {112, 113, 114, 115, 116, 122} then SQL_LONGVARCHAR
      else if t \<in> {2, 68, 3, 4, 6, 7, 8, 11, 189, 190} then SQL_NUMERIC
      else if t \<in> {12, 156, 184} then SQL_DATE
      else if t \<in> {187, 188, 232} then SQL_DATETIME
      else 0)"

abbreviation SQLOT_RDD :: nat where "SQLOT_RDD \<equiv> 104"

text \<open>A cursor that a procedure gave stands before the statement.\<close>

definition current_stmt :: "ora_session \<Rightarrow> int" where
  "current_stmt x = (if os_param_res x \<noteq> - 1 then os_param_res x else os_stmt x)"

text \<open>What is stored in which parameter; the number of the column is cut to 16 bits.\<close>

definition describe_sizes :: "odesc \<Rightarrow> (nat \<times> item) list" where
  "describe_sizes d =
     (let type = sqlo_sqldtype (od_type d);
          dbsize = (if od_type d = SQLOT_RDD then 18 else od_size d)
      in if type = SQL_CHAR then [(6, INum 0), (5, INum dbsize)]
         else if type = SQL_NUMERIC then
           (if od_prec d = 0 then [(5, INum 19), (6, INum 6)] else [(5, INum (od_prec d)), (6, INum (od_scale d))])
         else if type = SQL_DATETIME then [(6, INum 0), (5, INum 8)]
         else [(5, INum (od_prec d)), (6, INum (od_scale d))])"

definition SR_SQLO_DESCRIBECOL :: "'w ora_env \<Rightarrow> ora_session option \<Rightarrow> int \<Rightarrow> 'w \<Rightarrow> int \<times> (nat \<times> item) list" where
  "SR_SQLO_DESCRIBECOL env s col w =
     (case s of
        None \<Rightarrow> (sql_code SQL_ERROR, [])
      | Some x \<Rightarrow>
          (let d = oa_describe env (current_stmt x) (nat ((col - 1) mod 2 ^ 16)) w
           in (sql_code SQL_SUCCESS,
               (4, INum (sqlo_sqldtype (od_type d))) # describe_sizes d @ [(7, Logical (od_nullok d)), (3, Str (od_name d))])))"

definition SR_SQLO_FETCH ::
  "'w ora_env \<Rightarrow> ora_session option \<Rightarrow> 'w \<Rightarrow> (int \<times> ora_session option \<times> 'w) option"
where
  "SR_SQLO_FETCH env s w =
     (case s of
        None \<Rightarrow> Some (sql_code SQL_ERROR, None, w)
      | Some x \<Rightarrow> do {
          (status, u, w1) \<leftarrow> still_loop (\<lambda>w. case oa_fetch env (current_stmt x) w of (status, w1) \<Rightarrow> (status, (), w1)) w;
          Some (sql_code (if status = 0 \<or> status = 1 then SQL_SUCCESS else SQL_NO_DATA), Some (x\<lparr>os_status := status\<rparr>), w1)
        })"

definition ora_end ::
  "('w \<Rightarrow> int \<times> 'w) \<Rightarrow> ora_session option \<Rightarrow> 'w \<Rightarrow> int \<times> ora_session option \<times> 'w"
where
  "ora_end f s w =
     (case s of
        None \<Rightarrow> (sql_code SQL_ERROR, None, w)
      | Some x \<Rightarrow>
          (case f w of
             (status, w1) \<Rightarrow>
               (sql_code (if status = SQLO_SUCCESS then SQL_SUCCESS else SQL_ERROR), Some (x\<lparr>os_status := status\<rparr>), w1)))"

definition SR_SQLO_COMMIT where "SR_SQLO_COMMIT env = ora_end (oa_commit env)"
definition SR_SQLO_ROLLBACK where "SR_SQLO_ROLLBACK env = ora_end (oa_rollback env)"

text \<open>The statuses of the closing are overwritten by a success.\<close>

definition SR_SQLO_CLOSESTMT :: "'w ora_env \<Rightarrow> ora_session option \<Rightarrow> 'w \<Rightarrow> int \<times> ora_session option \<times> 'w" where
  "SR_SQLO_CLOSESTMT env s w =
     (case s of
        None \<Rightarrow> (sql_code SQL_SUCCESS, None, w)
      | Some x \<Rightarrow>
          (let (x1, w1) = (if os_param_res x \<noteq> - 1
                 then (x\<lparr>os_param_res := SQLO_STH_INIT\<rparr>, snd (oa_close env (os_param x) (snd (oa_close env (os_param_res x) w))))
                 else (x, w));
               (status, w2) = oa_close env (os_stmt x1) w1
           in (sql_code SQL_SUCCESS, Some (x1\<lparr>os_status := status\<rparr>), w2)))"

definition SR_CLOSECURSOR :: "'w ora_env \<Rightarrow> ora_session option \<Rightarrow> 'w \<Rightarrow> int \<times> ora_session option \<times> 'w" where
  "SR_CLOSECURSOR env s w =
     (case s of
        None \<Rightarrow> (sql_code SQL_SUCCESS, None, w)
      | Some x \<Rightarrow>
          (case oa_close env (os_param_res x) (snd (oa_close env (os_param x) w)) of
             (status, w1) \<Rightarrow> (sql_code SQL_SUCCESS, Some (x\<lparr>os_status := status\<rparr>), w1)))"

section \<open>Values\<close>

text \<open>Dates are eight digits.\<close>

definition digits_date :: "colenv \<Rightarrow> bytes \<Rightarrow> item option" where
  "digits_date env s =
     (if length s < 7 then None else Some (Date (c_date_enc env (take 8 (s @ [NUL])))))"

definition SQLO_FieldGet :: "colenv \<Rightarrow> item \<Rightarrow> bytes \<Rightarrow> bool \<Rightarrow> item option" where
  "SQLO_FieldGet env f s bTranslate =
     (if col_domain f = SQL_TIME then Some NIL
      else if length s = 0 then null_column env {SQL_NUMERIC, SQL_FAKE_NUM} {SQL_BIT} f
      else if col_domain f = SQL_DATE then digits_date env s
      else text_column env {SQL_NUMERIC} {SQL_BIT} (\<lambda>b. hd b = CHR ''1'') f s bTranslate)"

definition SR_SQLO_LINEPROCESSED ::
  "'w ora_env \<Rightarrow> ora_session option \<Rightarrow> item list \<Rightarrow> bool \<Rightarrow> item \<Rightarrow> 'w \<Rightarrow> item option"
where
  "SR_SQLO_LINEPROCESSED env s fs bTranslate ret w =
     (case s of
        None \<Rightarrow> Some ret
      | Some x \<Rightarrow>
          row_loop (\<lambda>f n. do {
            v \<leftarrow> rd_at (oa_values env (current_stmt x) w) (n - 1);
            SQLO_FieldGet (oa_col env) f v bTranslate
          }) 1 fs ret)"

section \<open>Memos\<close>

definition clob_update :: "bytes \<Rightarrow> bytes \<Rightarrow> bytes \<Rightarrow> int \<Rightarrow> bytes option" where
  "clob_update tbl sField recno ulRecno =
     into 256 (''UPDATE '' @ tbl @ '' SET '' @ sField @ '' = EMPTY_CLOB() WHERE '' @ recno @ '' = '' @
               nat_text (nat (ulRecno mod 2 ^ 64)) @ '' RETURNING '' @ sField @ '' INTO :b1'')"

abbreviation SQLOT_INT :: nat where "SQLOT_INT \<equiv> 3"
abbreviation SQLOT_FLT :: nat where "SQLOT_FLT \<equiv> 4"
abbreviation SQLOT_STR :: nat where "SQLOT_STR \<equiv> 5"
abbreviation SQLOT_DAT :: nat where "SQLOT_DAT \<equiv> 12"
abbreviation SQLOT_AFC :: nat where "SQLOT_AFC \<equiv> 96"
abbreviation SQLOT_CLOB :: nat where "SQLOT_CLOB \<equiv> 112"

fun ora_write_memos ::
  "'w ora_env \<Rightarrow> bytes \<Rightarrow> bytes \<Rightarrow> int \<Rightarrow> item list \<Rightarrow> 'w \<Rightarrow> (int \<times> 'w) option"
where
  "ora_write_memos env tbl recno ulRecno [] w = Some (0, w)"
| "ora_write_memos env tbl recno ulRecno (d # ds) w = do {
     szSql \<leftarrow> clob_update tbl (hb_itemGetC (hb_arrayGet d 1)) recno ulRecno;
     let (sth, w1) = oa_prepare env szSql w;
     let (u, w2) = oa_bind env sth 1 SQLOT_CLOB 0 w1;
     let (status, v, w3) = oa_execute env sth None w2;
     if status \<noteq> SQLO_SUCCESS then Some (- 1, snd (oa_close env sth w3))
     else
       (case oa_lob_write env (cstring (hb_itemGetC (hb_arrayGet d 2))) w3 of
          (status2, w4) \<Rightarrow>
            if status2 < 0 then Some (- 2, snd (oa_close env sth w4))
            else ora_write_memos env tbl recno ulRecno ds (snd (oa_close env sth w4)))
   }"

definition SR_ORACLEWRITEMEMO ::
  "'w ora_env \<Rightarrow> ora_session option \<Rightarrow> bytes \<Rightarrow> int \<Rightarrow> bytes \<Rightarrow> item list \<Rightarrow> 'w \<Rightarrow> (int \<times> 'w) option"
where
  "SR_ORACLEWRITEMEMO env s tbl ulRecno recno descs w =
     (if s = None \<or> descs = [] then Some (0, w) else ora_write_memos env tbl recno ulRecno descs w)"

section \<open>Parameters of procedures\<close>

definition zero_bind :: bindcol where
  "zero_bind = \<lparr>bc_name = None, bc_null = 0, bc_double = 0, bc_type = 0, bc_long = 0, bc_date = replicate 7 0,
                bc_int = 0, bc_text = replicate 31 NUL\<rparr>"

text \<open>Memory for no parameter is an internal error.\<close>

definition SR_ORACLEBINDALLOC :: "ora_session option \<Rightarrow> int \<Rightarrow> (int \<times> ora_session option) option" where
  "SR_ORACLEBINDALLOC s n =
     (case s of
        None \<Rightarrow> Some (1, None)
      | Some x \<Rightarrow>
          if n \<le> 0 then None
          else Some (1, Some (x\<lparr>os_link := Some (replicate (nat n) zero_bind), os_bindnum := nat n\<rparr>)))"

definition OracleFreeLink :: "ora_session \<Rightarrow> ora_session" where
  "OracleFreeLink x = (if os_link x = None then x else x\<lparr>os_link := None, os_bindnum := 0\<rparr>)"

definition SR_ORACLEFREEBIND :: "ora_session option \<Rightarrow> ora_session option" where
  "SR_ORACLEFREEBIND s = map_option OracleFreeLink s"

definition SR_ORACLEPREPARE :: "'w ora_env \<Rightarrow> bytes \<Rightarrow> bool \<Rightarrow> ora_session option \<Rightarrow> 'w \<Rightarrow> int \<times> ora_session option \<times> 'w" where
  "SR_ORACLEPREPARE env szSql lStmt s w =
     (case s of
        None \<Rightarrow> (- 1, None, w)
      | Some x \<Rightarrow>
          (case oa_prepare env szSql w of
             (h, w1) \<Rightarrow> (1, Some (if lStmt then x\<lparr>os_stmt := h\<rparr> else x\<lparr>os_param := h\<rparr>), w1)))"

text \<open>A byte of a C \<open>char\<close>, and a date in the format of Oracle: hundreds of years and years with 100 added,
  the parts of the time with 1.\<close>

definition int8 :: "int \<Rightarrow> int" where
  "int8 n = (n + 2 ^ 7) mod 2 ^ 8 - 2 ^ 7"

definition ora_date :: "int \<times> int \<times> int \<Rightarrow> int list \<Rightarrow> int list" where
  "ora_date d t = (case d of (y, m, dd) \<Rightarrow> [int8 (int8 (y div 100) + 100), int8 (int8 (y mod 100) + 100), int8 m, int8 dd] @ t)"

text \<open>A parameter of a function that is read as a logical value is false for every other type.\<close>

fun hb_parl :: "item \<Rightarrow> bool" where
  "hb_parl (Logical b) = b"
| "hb_parl _ = False"

text \<open>The value goes into the memory of the parameter; a value of another type leaves it as it is. The length
  of a text is not compared with the size of its buffer. A fixed text is used as a format.\<close>

definition store_param :: "'w ora_env \<Rightarrow> int \<Rightarrow> int \<Rightarrow> item \<Rightarrow> bindcol \<Rightarrow> bindcol option" where
  "store_param env type len v b =
     (if type = 4 then Some (if HB_IS_NUMERIC v then b\<lparr>bc_double := hb_itemGetND v\<rparr> else b)
      else if type = 2 then Some (if HB_IS_NUMERIC v then b\<lparr>bc_long := hb_itemGetNL v mod 2 ^ 64\<rparr> else b)
      else if type = 3 then Some (if HB_IS_NUMERIC v then b\<lparr>bc_int := (if hb_parl v then 1 else 0)\<rparr> else b)
      else if type = 8 then Some
        (if HB_IS_DATE v then b\<lparr>bc_date := ora_date (oa_date_dec env (hb_itemGetDL v)) [1, 1, 1]\<rparr> else b)
      else if type = 9 then Some
        (case v of
           TStamp d ms \<Rightarrow> (case oa_time_dec env ms of
             (h, mi, s) \<Rightarrow> b\<lparr>bc_date := ora_date (oa_date_dec env d) [int8 (int8 h + 1), int8 (int8 mi + 1), int8 (int8 s + 1)]\<rparr>)
         | Date d \<Rightarrow> (case oa_time_dec env 0 of
             (h, mi, s) \<Rightarrow> b\<lparr>bc_date := ora_date (oa_date_dec env d) [int8 (int8 h + 1), int8 (int8 mi + 1), int8 (int8 s + 1)]\<rparr>)
         | _ \<Rightarrow> b)
      else if type = 1 then
        (if HB_IS_STRING v
         then map_option (\<lambda>s. b\<lparr>bc_text := s @ NUL # drop (length s + 1) (bc_text b)\<rparr>)
                (into 31 (oa_sprintf env (cstring (hb_itemGetC v)) (length (hb_itemGetC v))))
         else Some b)
      else
        (let n = (if len = 0 then 1 else len); s = hb_itemGetC v in
         if n < 0 \<or> HB_IS_STRING v \<and> n + 1 < int (length s) then None
         else Some (b\<lparr>bc_name := Some ((if HB_IS_STRING v then s else []) @
                         replicate (nat n + 1 - (if HB_IS_STRING v then length s else 0)) NUL)\<rparr>)))"

text \<open>The type of Oracle for a parameter and the size that is told; a type 6 is a cursor.\<close>

definition bound_type :: "int \<Rightarrow> int \<Rightarrow> nat \<times> int" where
  "bound_type type len =
     (if type = 4 then (SQLOT_FLT, 8)
      else if type = 2 \<or> type = 3 then (SQLOT_INT, 8)
      else if type = 8 \<or> type = 9 then (SQLOT_DAT, 7)
      else if type = 1 then (SQLOT_AFC, len)
      else (SQLOT_STR, (if len = 0 then 1 else len) + 1))"

definition SR_ORACLEINBINDPARAM ::
  "'w ora_env \<Rightarrow> int \<Rightarrow> int \<Rightarrow> int \<Rightarrow> item \<Rightarrow> bool \<Rightarrow> bool \<Rightarrow> ora_session option \<Rightarrow> 'w \<Rightarrow>
   (int \<times> ora_session option \<times> 'w) option"
where
  "SR_ORACLEINBINDPARAM env num type len v lStmt isNull s w =
     (case s of
        None \<Rightarrow> Some (sql_code SQL_ERROR, None, w)
      | Some x \<Rightarrow> do {
          ls \<leftarrow> os_link x;
          b \<leftarrow> rd_at ls (num - 1);
          let b0 = b\<lparr>bc_null := (if isNull then - 1 else 0), bc_type := type\<rparr>;
          if type = 6 then
            (case oa_bind_ref env (os_param x) '':c1'' (os_param_res x) w of
               (ret, h, w1) \<Rightarrow> Some (ret, Some (x\<lparr>os_link := Some (ls[nat (num - 1) := b0]), os_param_res := h\<rparr>), w1))
          else do {
            b1 \<leftarrow> store_param env type len v b0;
            (case bound_type type len of
               (t, n) \<Rightarrow>
                 (case oa_bind env (if lStmt then os_stmt x else os_param x) num t n w of
                    (ret, w1) \<Rightarrow> Some (ret, Some (x\<lparr>os_link := Some (ls[nat (num - 1) := b1])\<rparr>), w1)))
          }
        })"

text \<open>The value of a parameter. A date before the year 0 of its format gives no value.\<close>

definition param_value :: "'w ora_env \<Rightarrow> bindcol \<Rightarrow> item option" where
  "param_value env b =
     (if bc_type b = 4 then Some (DNum (bc_double b))
      else if bc_type b = 2 then Some (INum (if bc_long b < 2 ^ 63 then bc_long b else bc_long b - 2 ^ 64))
      else if bc_type b = 8 \<or> bc_type b = 9 then
        (case bc_date b of
           [century, y, month, dd, h, mi, sec] \<Rightarrow>
             (let d = ((century - 100) * 100 + (y mod 2 ^ 8 - 100), month, dd) in
              Some (if century < 100 then NIL
                    else if bc_type b = 8 then Date (oa_date_enc env d)
                    else (case oa_stamp env d (h - 1, mi - 1, sec - 1) of (dt, ms) \<Rightarrow> TStamp dt ms)))
         | _ \<Rightarrow> None)
      else if bc_type b = 3 then Some (Logical (bc_int b \<noteq> 0))
      else (case bc_name b of
              None \<Rightarrow> Some (Str [])
            | Some s \<Rightarrow> if NUL \<in> set s then Some (Str (cstring s)) else None))"

definition SR_ORACLEGETBINDDATA :: "'w ora_env \<Rightarrow> ora_session option \<Rightarrow> item \<Rightarrow> item option" where
  "SR_ORACLEGETBINDDATA env s p1 =
     (case s of
        Some x \<Rightarrow>
          (if HB_IS_NUMERIC p1 then do {
             ls \<leftarrow> os_link x;
             b \<leftarrow> rd_at ls (hb_itemGetNL p1 - 1);
             param_value env b
           }
           else Some (Str []))
      | None \<Rightarrow> Some (Str []))"

definition SR_ORACLEEXECDIR :: "'w ora_env \<Rightarrow> ora_session option \<Rightarrow> 'w \<Rightarrow> int \<times> ora_session option \<times> 'w" where
  "SR_ORACLEEXECDIR env s w =
     (case s of
        None \<Rightarrow> (sql_code SQL_ERROR, None, w)
      | Some x \<Rightarrow>
          (case oa_execute env (os_param x) (os_link x) w of
             (ret, ls, w1) \<Rightarrow>
               (case oa_close env (os_param x) w1 of
                  (status, w2) \<Rightarrow> (ret, Some (x\<lparr>os_link := ls, os_status := status\<rparr>), w2))))"

text \<open>The result of a procedure that gives a cursor is the handle of its statement.\<close>

definition SR_ORACLE_PROCCURSOR ::
  "'w ora_env \<Rightarrow> bytes \<Rightarrow> bytes \<Rightarrow> ora_session option \<Rightarrow> 'w \<Rightarrow> int \<times> ora_session option \<times> 'w"
where
  "SR_ORACLE_PROCCURSOR env stmt parc s w =
     (case s of
        None \<Rightarrow> (sql_code SQL_ERROR, None, w)
      | Some x \<Rightarrow>
          (case oa_prepare env stmt w of
             (sth, w1) \<Rightarrow>
               if sth < SQLO_SUCCESS then (sql_code SQL_ERROR, s, w1)
               else
                 (case oa_bind_ref env sth parc SQLO_STH_INIT w1 of
                    (r, st2h, w2) \<Rightarrow>
                      if r \<noteq> SQLO_SUCCESS then (sql_code SQL_ERROR, s, w2)
                      else
                        (let x1 = x\<lparr>os_param := sth, os_param_res := st2h\<rparr>;
                             (r1, l1, w3) = oa_execute env sth (os_link x1) w2;
                             x2 = x1\<lparr>os_link := l1\<rparr>
                         in if r1 \<noteq> SQLO_SUCCESS then (sql_code SQL_ERROR, Some x2, w3)
                            else
                              (let (r2, l2, w4) = oa_execute env st2h l1 w3; x3 = x2\<lparr>os_link := l2\<rparr>
                               in if r2 \<noteq> SQLO_SUCCESS then (sql_code SQL_ERROR, Some x3, w4)
                                  else (sth, Some (x3\<lparr>os_numcols := oa_ncols env st2h w4\<rparr>), w4))))))"

end
