(* ===== verification/Oracle2.thy ===== *)
theory Oracle2
  imports Oracle
begin

text \<open>
  The second connection to Oracle, \<open>source/oracle/sr_oracle2_bind.c\<close>, over the library \<open>OCILIB\<close>, which is a
  parameter. Handles of statements and of result sets are numbers, 0 is none.
\<close>

section \<open>Sessions\<close>

record bindcol2 =
  b2_name :: "bytes option"
  b2_bindname :: bytes
  b2_type :: int
  b2_null :: int
  b2_double :: rat
  b2_ulong :: int
  b2_int :: int
  b2_long :: int
  b2_date :: "(int \<times> int \<times> int) \<times> int \<times> int \<times> int"
  b2_size :: int

record ora2_session =
  o2_stmt :: nat
  o2_param_res :: nat
  o2_rs :: nat
  o2_status :: int
  o2_numcols :: int
  o2_version :: bytes
  o2_link :: "bindcol2 list option"
  o2_bindnum :: nat

record ocolumn =
  oc_name :: bytes
  oc_type :: nat
  oc_prec :: int
  oc_scale :: int
  oc_size :: int
  oc_nullable :: bool

text \<open>
  The library: most calls give whether they succeeded; \<open>ob_length\<close> is the number of bytes it tells for a value,
  \<open>ob_string\<close> its text, \<open>ob_day\<close> a date. \<open>ob_lob_write\<close> gives what was written, 0 after an error.
\<close>

record 'w ora2_env =
  ob_ora :: "'w ora_env"
  ob_initialize :: "'w \<Rightarrow> bool \<times> 'w"
  ob_connection :: "bytes list \<Rightarrow> 'w \<Rightarrow> bool \<times> 'w"
  ob_connection_free :: "'w \<Rightarrow> 'w"
  ob_cleanup :: "'w \<Rightarrow> 'w"
  ob_version :: "'w \<Rightarrow> bytes"
  ob_last_error :: "'w \<Rightarrow> bytes"
  ob_last_type :: "'w \<Rightarrow> int"
  ob_commit :: "'w \<Rightarrow> bool \<times> 'w"
  ob_rollback :: "'w \<Rightarrow> bool \<times> 'w"
  ob_create :: "'w \<Rightarrow> nat \<times> 'w"
  ob_free :: "nat \<Rightarrow> 'w \<Rightarrow> bool \<times> 'w"
  ob_prepare :: "nat \<Rightarrow> bytes \<Rightarrow> 'w \<Rightarrow> bool \<times> 'w"
  ob_execute :: "nat \<Rightarrow> bindcol2 list option \<Rightarrow> 'w \<Rightarrow> bool \<times> bindcol2 list option \<times> 'w"
  ob_execute_stmt :: "nat \<Rightarrow> bytes \<Rightarrow> 'w \<Rightarrow> bool \<times> 'w"
  ob_resultset :: "nat \<Rightarrow> 'w \<Rightarrow> nat \<times> 'w"
  ob_column_count :: "nat \<Rightarrow> 'w \<Rightarrow> int"
  ob_column :: "nat \<Rightarrow> int \<Rightarrow> 'w \<Rightarrow> ocolumn"
  ob_bind :: "nat \<Rightarrow> bytes \<Rightarrow> int \<Rightarrow> int \<Rightarrow> 'w \<Rightarrow> bool \<times> 'w"
  ob_bind_stmt :: "nat \<Rightarrow> bytes \<Rightarrow> nat \<Rightarrow> 'w \<Rightarrow> bool \<times> 'w"
  ob_set_null :: "nat \<Rightarrow> int \<Rightarrow> 'w \<Rightarrow> 'w"
  ob_new_date :: "(int \<times> int \<times> int) \<times> int \<times> int \<times> int"
  ob_next :: "nat \<Rightarrow> 'w \<Rightarrow> bool \<times> 'w"
  ob_is_null :: "nat \<Rightarrow> int \<Rightarrow> 'w \<Rightarrow> bool"
  ob_string :: "nat \<Rightarrow> int \<Rightarrow> 'w \<Rightarrow> bytes"
  ob_length :: "nat \<Rightarrow> int \<Rightarrow> 'w \<Rightarrow> nat"
  ob_double :: "nat \<Rightarrow> int \<Rightarrow> 'w \<Rightarrow> rat"
  ob_bigint :: "nat \<Rightarrow> int \<Rightarrow> 'w \<Rightarrow> int"
  ob_day :: "nat \<Rightarrow> int \<Rightarrow> 'w \<Rightarrow> int \<times> int \<times> int"
  ob_lob_write :: "bytes \<Rightarrow> 'w \<Rightarrow> nat \<times> 'w"
  ob_cache_size :: "int \<Rightarrow> 'w \<Rightarrow> bool \<times> 'w"

definition new_session2 :: ora2_session where
  "new_session2 = \<lparr>o2_stmt = 0, o2_param_res = 0, o2_rs = 0, o2_status = 0, o2_numcols = 0, o2_version = [],
                   o2_link = None, o2_bindnum = 0\<rparr>"

text \<open>Without a connection the status is that of the initialisation; when that is a success, the calls that
  follow get no connection, and the text of the version is copied from no pointer.\<close>

definition SR_SQLO2_CONNECT ::
  "'w ora2_env \<Rightarrow> bytes list \<Rightarrow> nat \<times> 'w \<Rightarrow> (int \<times> ora2_session option \<times> nat \<times> 'w) option"
where
  "SR_SQLO2_CONNECT env args st =
     (case st of (n, w) \<Rightarrow>
        (let (ok, w1) = (if n = 0 then ob_initialize env w else (True, w)); n1 = (n + 1) mod 2 ^ 16;
             (cn, w2) = ob_connection env args w1
         in if \<not> cn \<and> \<not> ok then Some (sql_code SQL_ERROR, None, n1, w2)
            else if \<not> cn then None
            else do {
              v \<leftarrow> into 1024 (ob_version env w2);
              Some (sql_code SQL_SUCCESS, Some (new_session2\<lparr>o2_version := v\<rparr>), n1, w2)
            }))"

definition SR_SQLO2_DBMSNAME :: "ora2_session option \<Rightarrow> bytes" where
  "SR_SQLO2_DBMSNAME s = (case s of None \<Rightarrow> ''Not connected to Oracle'' | Some x \<Rightarrow> o2_version x)"

definition SR_SQLO2_DISCONNECT :: "'w ora2_env \<Rightarrow> ora2_session option \<Rightarrow> nat \<times> 'w \<Rightarrow> int \<times> nat \<times> 'w" where
  "SR_SQLO2_DISCONNECT env s st =
     (case (s, st) of
        (None, n, w) \<Rightarrow> (sql_code SQL_ERROR, n, w)
      | (Some x, n, w) \<Rightarrow>
          (let w1 = ob_connection_free env w; n1 = (n + (2 ^ 16 - 1)) mod 2 ^ 16
           in (sql_code SQL_SUCCESS, n1, if n1 = 0 then ob_cleanup env w1 else w1)))"

definition SR_SQLO2_GETERRORDESCR :: "'w ora2_env \<Rightarrow> ora2_session option \<Rightarrow> 'w \<Rightarrow> bytes" where
  "SR_SQLO2_GETERRORDESCR env s w = (if s = None then ''Not connected to Oracle'' else ob_last_error env w)"

definition SR_SQLO2_GETERRORCODE :: "'w ora2_env \<Rightarrow> ora2_session option \<Rightarrow> 'w \<Rightarrow> int" where
  "SR_SQLO2_GETERRORCODE env s w = (if s = None then sql_code SQL_ERROR else ob_last_type env w)"

definition SR_SQLO2_NUMCOLS :: "ora2_session option \<Rightarrow> int" where
  "SR_SQLO2_NUMCOLS s = (case s of None \<Rightarrow> sql_code SQL_ERROR | Some x \<Rightarrow> o2_numcols x)"

definition ora2_end ::
  "('w \<Rightarrow> bool \<times> 'w) \<Rightarrow> ora2_session option \<Rightarrow> 'w \<Rightarrow> int \<times> ora2_session option \<times> 'w"
where
  "ora2_end f s w =
     (case s of
        None \<Rightarrow> (sql_code SQL_ERROR, None, w)
      | Some x \<Rightarrow>
          (case f w of
             (ok, w1) \<Rightarrow>
               (sql_code (if ok then SQL_SUCCESS else SQL_ERROR), Some (x\<lparr>o2_status := (if ok then 0 else - 1)\<rparr>), w1)))"

definition SR_SQLO2_COMMIT where "SR_SQLO2_COMMIT env = ora2_end (ob_commit env)"
definition SR_SQLO2_ROLLBACK where "SR_SQLO2_ROLLBACK env = ora2_end (ob_rollback env)"

definition SR_SQLO2_SETSTATEMENTCACHESIZE :: "'w ora2_env \<Rightarrow> int \<Rightarrow> ora2_session option \<Rightarrow> 'w \<Rightarrow> bool \<times> 'w" where
  "SR_SQLO2_SETSTATEMENTCACHESIZE env n s w = (if s = None then (False, w) else ob_cache_size env (n mod 2 ^ 32) w)"

section \<open>Statements\<close>

text \<open>The statement is freed, and the session keeps its handle.\<close>

definition SR_SQLO2_EXECDIRECT ::
  "'w ora2_env \<Rightarrow> bytes \<Rightarrow> ora2_session option \<Rightarrow> 'w \<Rightarrow> int \<times> ora2_session option \<times> 'w"
where
  "SR_SQLO2_EXECDIRECT env stm s w =
     (case s of
        None \<Rightarrow> (sql_code SQL_ERROR, None, w)
      | Some x \<Rightarrow>
          (let (h, w1) = ob_create env w; (ok, w2) = ob_execute_stmt env h stm w1
           in (sql_code (if ok then SQL_SUCCESS else SQL_ERROR), Some (x\<lparr>o2_stmt := h\<rparr>), snd (ob_free env h w2))))"

definition with_resultset :: "'w ora2_env \<Rightarrow> nat \<Rightarrow> ora2_session \<Rightarrow> 'w \<Rightarrow> ora2_session \<times> 'w" where
  "with_resultset env h x w =
     (case ob_resultset env h w of (rs, w1) \<Rightarrow> (x\<lparr>o2_rs := rs, o2_numcols := ob_column_count env rs w1\<rparr>, w1))"

definition SR_SQLO2_EXECUTE ::
  "'w ora2_env \<Rightarrow> bytes \<Rightarrow> bool \<Rightarrow> ora2_session option \<Rightarrow> 'w \<Rightarrow> int \<times> ora2_session option \<times> 'w"
where
  "SR_SQLO2_EXECUTE env stm lStmt s w =
     (case s of
        None \<Rightarrow> (sql_code SQL_ERROR, None, w)
      | Some x \<Rightarrow>
          (let (ok, x1, w1) =
             (if lStmt then (case ob_execute env (o2_stmt x) (o2_link x) w of (ok, ls, w1) \<Rightarrow> (ok, x\<lparr>o2_link := ls\<rparr>, w1))
              else (case ob_create env w of
                      (h, w1) \<Rightarrow> (case ob_execute_stmt env h stm w1 of (ok, w2) \<Rightarrow> (ok, x\<lparr>o2_stmt := h\<rparr>, w2))))
           in if ok then (case with_resultset env (o2_stmt x1) x1 w1 of (x2, w2) \<Rightarrow> (sql_code SQL_SUCCESS, Some x2, w2))
              else (sql_code SQL_ERROR, Some (x1\<lparr>o2_numcols := 0\<rparr>), w1)))"

text \<open>The types of columns of the library: 1 is a number, 3 a date with its time, 4 a text, 7 a large object, 9 a
  time stamp.\<close>

definition SQLO2_sqldtype :: "nat \<Rightarrow> int" where
  "SQLO2_sqldtype t =
     (if t = 4 then SQL_CHAR else if t = 7 then SQL_LONGVARCHAR else if t = 1 then SQL_NUMERIC
      else if t = 3 then SQL_DATE else if t = 9 then SQL_DATETIME else 0)"

definition SR_SQLO2_DESCRIBECOL :: "'w ora2_env \<Rightarrow> ora2_session option \<Rightarrow> int \<Rightarrow> 'w \<Rightarrow> int \<times> (nat \<times> item) list" where
  "SR_SQLO2_DESCRIBECOL env s ncol w =
     (case s of
        None \<Rightarrow> (sql_code SQL_ERROR, [])
      | Some x \<Rightarrow>
          (let c = ob_column env (o2_rs x) ncol w; type = SQLO2_sqldtype (oc_type c)
           in (sql_code SQL_SUCCESS,
               (4, INum type) #
               (if type = SQL_CHAR then [(6, INum 0), (5, INum (oc_size c))]
                else if type = SQL_NUMERIC then
                  (if oc_prec c = 0 then [(5, INum 19), (6, INum 6)] else [(5, INum (oc_prec c)), (6, INum (oc_scale c))])
                else if type = SQL_DATETIME then [(6, INum 0), (5, INum 8)]
                else [(5, INum (oc_prec c)), (6, INum (oc_scale c))]) @
               [(7, Logical (oc_nullable c)), (3, Str (oc_name c))])))"

definition SR_SQLO2_FETCH :: "'w ora2_env \<Rightarrow> ora2_session option \<Rightarrow> 'w \<Rightarrow> int \<times> ora2_session option \<times> 'w" where
  "SR_SQLO2_FETCH env s w =
     (case s of
        None \<Rightarrow> (sql_code SQL_ERROR, None, w)
      | Some x \<Rightarrow>
          (case ob_next env (o2_rs x) w of
             (ok, w1) \<Rightarrow>
               (sql_code (if ok then SQL_SUCCESS else SQL_NO_DATA), Some (x\<lparr>o2_status := (if ok then 1 else - 1)\<rparr>), w1)))"

text \<open>The status is overwritten by a success.\<close>

definition SR_SQLO2_CLOSESTMT :: "'w ora2_env \<Rightarrow> ora2_session option \<Rightarrow> 'w \<Rightarrow> int \<times> ora2_session option \<times> 'w" where
  "SR_SQLO2_CLOSESTMT env s w =
     (case s of
        None \<Rightarrow> (sql_code SQL_SUCCESS, None, w)
      | Some x \<Rightarrow>
          (let w1 = (if o2_param_res x \<noteq> 0 then snd (ob_free env (o2_param_res x) w) else w);
               (ok, w2) = (if o2_stmt x \<noteq> 0 then ob_free env (o2_stmt x) w1 else (True, w1))
           in (sql_code SQL_SUCCESS, Some (x\<lparr>o2_param_res := 0, o2_stmt := 0, o2_status := (if ok then 1 else - 1)\<rparr>), w2)))"

section \<open>Values\<close>

text \<open>The bytes of a text go into the memory for the width of its column, one byte more than it.\<close>

definition oci_text :: "int \<Rightarrow> bytes \<Rightarrow> nat \<Rightarrow> item option" where
  "oci_text width s n =
     (if width < 0 \<or> int n > width + 1 \<or> n > length s + 1 then None
      else Some (Str (fit (nat width) (take n (s @ [NUL])))))"

text \<open>A time stamp is read and dropped.\<close>

definition SQLO2_FieldGet ::
  "'w ora2_env \<Rightarrow> item \<Rightarrow> int \<Rightarrow> bool \<Rightarrow> nat \<Rightarrow> 'w \<Rightarrow> item option"
where
  "SQLO2_FieldGet env f n bTranslate rs w =
     (let t = col_domain f; ce = oa_col (ob_ora env) in
      if t = SQL_TIME then Some NIL
      else if ob_is_null env rs n w then
        (if t = SQL_NUMERIC \<or> t = SQL_FAKE_NUM then Some (if col_dec f > 0 then DNum 0 else INum 0)
         else null_column ce {} {SQL_BIT} f)
      else if t = SQL_CHAR then oci_text (col_len f) (ob_string env rs n w) (ob_length env rs n w)
      else if t = SQL_NUMERIC then Some (if col_dec f > 0 then DNum (ob_double env rs n w) else INum (ob_bigint env rs n w))
      else if t = SQL_DATE then Some (Date (oa_date_enc (ob_ora env) (ob_day env rs n w)))
      else if t = SQL_LONGVARCHAR then
        (let s = cstring (ob_string env rs n w) in Some (memo_value ce (Str s) s bTranslate))
      else if t = SQL_BIT then Some (Logical (ob_bigint env rs n w = 1))
      else Some NIL)"

definition SR_SQLO2_LINEPROCESSED ::
  "'w ora2_env \<Rightarrow> ora2_session option \<Rightarrow> item list \<Rightarrow> bool \<Rightarrow> item \<Rightarrow> 'w \<Rightarrow> item option"
where
  "SR_SQLO2_LINEPROCESSED env s fs bTranslate ret w =
     (case s of
        None \<Rightarrow> Some ret
      | Some x \<Rightarrow> row_loop (\<lambda>f n. SQLO2_FieldGet env f n bTranslate (o2_rs x) w) 1 fs ret)"

section \<open>Memos\<close>

text \<open>What was written is a number without a sign, so only a huge one is taken for an error.\<close>

fun ora2_write_memos ::
  "'w ora2_env \<Rightarrow> bytes \<Rightarrow> bytes \<Rightarrow> int \<Rightarrow> item list \<Rightarrow> 'w \<Rightarrow> (int \<times> 'w) option"
where
  "ora2_write_memos env tbl recno ulRecno [] w = Some (0, w)"
| "ora2_write_memos env tbl recno ulRecno (d # ds) w = do {
     szSql \<leftarrow> clob_update tbl (hb_itemGetC (hb_arrayGet d 1)) recno ulRecno;
     let (h, w1) = ob_create env w;
     let w2 = snd (ob_prepare env h szSql w1);
     let (ok, ls, w3) = ob_execute env h None w2;
     if \<not> ok then Some (- 1, w3)
     else
       (let (rs, w4) = ob_resultset env h w3;
            w5 = snd (ob_next env rs w4);
            (status, w6) = ob_lob_write env (cstring (hb_itemGetC (hb_arrayGet d 2))) w5;
            w7 = snd (ob_free env h w6)
        in if 2 ^ 31 \<le> status mod 2 ^ 32 then Some (- 2, w7) else ora2_write_memos env tbl recno ulRecno ds w7)
   }"

definition SR_ORACLEWRITEMEMO2 ::
  "'w ora2_env \<Rightarrow> ora2_session option \<Rightarrow> bytes \<Rightarrow> int \<Rightarrow> bytes \<Rightarrow> item list \<Rightarrow> 'w \<Rightarrow> (int \<times> 'w) option"
where
  "SR_ORACLEWRITEMEMO2 env s tbl ulRecno recno descs w =
     (if s = None \<or> descs = [] then Some (0, w) else ora2_write_memos env tbl recno ulRecno descs w)"

section \<open>Parameters\<close>

definition zero_bind2 :: "'w ora2_env \<Rightarrow> bindcol2" where
  "zero_bind2 env = \<lparr>b2_name = None, b2_bindname = [], b2_type = 0, b2_null = 0, b2_double = 0, b2_ulong = 0, b2_int = 0,
                     b2_long = 0, b2_date = ob_new_date env, b2_size = 0\<rparr>"

definition SR_ORACLEBINDALLOC2 :: "'w ora2_env \<Rightarrow> ora2_session option \<Rightarrow> int \<Rightarrow> (int \<times> ora2_session option) option" where
  "SR_ORACLEBINDALLOC2 env s n =
     (case s of
        None \<Rightarrow> Some (1, None)
      | Some x \<Rightarrow>
          if n \<le> 0 then None
          else Some (1, Some (x\<lparr>o2_link := Some (replicate (nat n) (zero_bind2 env)), o2_bindnum := nat n\<rparr>)))"

definition OracleFreeLink2 :: "ora2_session \<Rightarrow> ora2_session" where
  "OracleFreeLink2 x = (if o2_link x = None then x else x\<lparr>o2_link := None, o2_bindnum := 0\<rparr>)"

definition SR_ORACLEFREEBIND2 :: "ora2_session option \<Rightarrow> ora2_session option" where
  "SR_ORACLEFREEBIND2 s = map_option OracleFreeLink2 s"

definition SR_ORACLEPREPARE2 ::
  "'w ora2_env \<Rightarrow> bytes \<Rightarrow> ora2_session option \<Rightarrow> 'w \<Rightarrow> int \<times> ora2_session option \<times> 'w"
where
  "SR_ORACLEPREPARE2 env szSql s w =
     (case s of
        None \<Rightarrow> (- 1, None, w)
      | Some x \<Rightarrow>
          (let (h, w1) = ob_create env w; (ok, w2) = ob_prepare env h szSql w1
           in (if ok then 1 else - 1, Some (x\<lparr>o2_stmt := h\<rparr>), w2)))"

text \<open>The value of a parameter, and whether the result of the binding is looked at.\<close>

definition store_param2 :: "'w ora2_env \<Rightarrow> int \<Rightarrow> int \<Rightarrow> item \<Rightarrow> bindcol2 \<Rightarrow> (bindcol2 \<times> int \<times> bool) option" where
  "store_param2 env type len v b =
     (let num = HB_IS_NUMERIC v; ora = ob_ora env in
      if type = 2 then Some (if num then b\<lparr>b2_ulong := hb_itemGetNL v mod 2 ^ 32\<rparr> else b, 4, True)
      else if type = 3 then Some (if num then b\<lparr>b2_int := (if hb_parl v then 1 else 0)\<rparr> else b, 8, \<not> num)
      else if type = 4 then Some (if num then b\<lparr>b2_double := hb_itemGetND v\<rparr> else b, 8, \<not> num)
      else if type = 5 then Some (if num then b\<lparr>b2_long := hb_itemGetNL v\<rparr> else b, 8, \<not> num)
      else if type = 8 then Some
        (let b1 = b\<lparr>b2_date := ob_new_date env\<rparr>
         in (if HB_IS_DATE v then b1\<lparr>b2_date := (oa_date_dec ora (hb_itemGetDL v), snd (ob_new_date env))\<rparr> else b1, 0, True))
      else if type = 9 then Some
        (case v of
           TStamp d ms \<Rightarrow> (b\<lparr>b2_date := (oa_date_dec ora d, oa_time_dec ora ms)\<rparr>, 0, False)
         | Date d \<Rightarrow> (b\<lparr>b2_date := (oa_date_dec ora d, oa_time_dec ora 0)\<rparr>, 0, False)
         | _ \<Rightarrow> (b\<lparr>b2_date := ob_new_date env\<rparr>, 0, True))
      else
        (let s = hb_itemGetC v in
         if len < 0 \<or> HB_IS_STRING v \<and> len < int (length s) then None
         else Some (b\<lparr>b2_name := Some ((if HB_IS_STRING v then s else []) @
                         replicate (nat len + 1 - (if HB_IS_STRING v then length s else 0)) NUL)\<rparr>,
                    if HB_IS_STRING v then int (length s) else len, True)))"

text \<open>A result that is not looked at counts as a success. Without a session the call goes astray.\<close>

definition SR_ORACLEINBINDPARAM2 ::
  "'w ora2_env \<Rightarrow> int \<Rightarrow> int \<Rightarrow> int \<Rightarrow> item \<Rightarrow> bool \<Rightarrow> ora2_session option \<Rightarrow> 'w \<Rightarrow>
   (int \<times> ora2_session option \<times> 'w) option"
where
  "SR_ORACLEINBINDPARAM2 env num type len v isNull s w = do {
     x \<leftarrow> s;
     ls \<leftarrow> o2_link x;
     b \<leftarrow> rd_at ls (num - 1);
     name \<leftarrow> into 10 (CHR '':'' # int_text num);
     let b0 = b\<lparr>b2_bindname := name, b2_size := len, b2_null := (if isNull then - 1 else 0), b2_type := type\<rparr>;
     (b1, ok, w1) \<leftarrow> (if type = 6
        then (case ob_bind_stmt env (o2_stmt x) '':1'' (o2_param_res x) w of (ok, w1) \<Rightarrow> Some (b0, ok, w1))
        else do {
          (b1, n, looks) \<leftarrow> store_param2 env type len v b0;
          (case ob_bind env (o2_stmt x) name type n w of (ok, w1) \<Rightarrow> Some (b1, ok \<or> \<not> looks, w1))
        });
     Some (if ok then 1 else sql_code SQL_ERROR, Some (x\<lparr>o2_link := Some (ls[nat (num - 1) := b1])\<rparr>),
           if isNull then ob_set_null env (o2_stmt x) num w1 else w1)
   }"

definition SR_ORACLE_PROCCURSOR2 ::
  "'w ora2_env \<Rightarrow> bytes \<Rightarrow> bytes \<Rightarrow> ora2_session option \<Rightarrow> 'w \<Rightarrow> int \<times> ora2_session option \<times> 'w"
where
  "SR_ORACLE_PROCCURSOR2 env stmt parc s w =
     (case s of
        None \<Rightarrow> (sql_code SQL_ERROR, None, w)
      | Some x \<Rightarrow>
          (let (h, w1) = ob_create env w; (c, w2) = ob_create env w1;
               x1 = x\<lparr>o2_stmt := h, o2_param_res := c\<rparr>; (ok, w3) = ob_prepare env h stmt w2
           in if \<not> ok then (sql_code SQL_ERROR, Some x1, w3)
              else
                (case ob_bind_stmt env h parc c w3 of
                   (bound, w4) \<Rightarrow>
                     if \<not> bound then (sql_code SQL_ERROR, Some x1, w4)
                     else
                       (case ob_execute env h (o2_link x1) w4 of
                          (done1, ls, w5) \<Rightarrow>
                            if \<not> done1 then (sql_code SQL_ERROR, Some (x1\<lparr>o2_link := ls\<rparr>), w5)
                            else (case with_resultset env c (x1\<lparr>o2_link := ls\<rparr>) w5 of
                                    (x2, w6) \<Rightarrow> (sql_code SQL_SUCCESS, Some x2, w6))))))"

end
