(* ===== verification/ConnDemo.thy ===== *)
theory ConnDemo
  imports Postgres Mysql FirebirdRow Odbc Oracle2
begin

text \<open>
  Concrete environments for the connections, at which the properties of the connections are applied, and lemmas
  on texts of a width that their properties share.
\<close>

lemma length_fit [simp]: "length (fit n s) = n"
  by (simp add: fit_def)

section \<open>PostgreSQL and MySQL\<close>

definition demo_col :: colenv where
  "demo_col =
     \<lparr>c_str_val = (\<lambda>s. of_int (c_atol s)), c_str_int = (\<lambda>s. (c_atol s, False)), c_put_number = (\<lambda>v w d. DNum v),
      c_date_enc = c_atol, c_stamp = (\<lambda>s. (0, 0)), c_stamp_raw = (\<lambda>s. (0, 0)), c_time = (\<lambda>s. 0),
      c_as_json = False, c_as_string = False, c_multilang = False, c_languages = [],
      c_deserialize = (\<lambda>s. Arr 0 []), c_from_xml = (\<lambda>s. Arr 0 [])\<rparr>"

definition demo_rows :: pgresult where
  "demo_rows =
     \<lparr>r_status = 2, r_cols = [\<lparr>pc_name = ''code'', pc_type = 1043, pc_mod = 7, pc_size = - 1\<rparr>],
      r_rows = [[Some ''ab''], [None]], r_tuples = []\<rparr>"

definition demo_pgs :: "unit pgs_env" where
  "demo_pgs =
     \<lparr>pe_col = demo_col, pe_connect = (\<lambda>s w. (True, w)), pe_finish = id, pe_status = (\<lambda>w. 0),
      pe_exec = (\<lambda>s w. (Some demo_rows, w)), pe_error = (\<lambda>w. []), pe_trans = (\<lambda>w. 0),
      pe_status_text = (\<lambda>n. []), pe_old_behavior = False\<rparr>"

definition demo_my_rows :: myresult where
  "demo_my_rows =
     \<lparr>m_fields = [\<lparr>mf_name = ''code'', mf_type = 253, mf_length = 12, mf_decimals = 0, mf_flags = 0, mf_charset = 45\<rparr>],
      m_rows = [[Some ''ab''], [None]]\<rparr>"

definition demo_my :: "unit my_env" where
  "demo_my =
     \<lparr>me_col = demo_col, me_init = (\<lambda>w. (True, w)), me_connect = (\<lambda>b s w. w), me_close = (\<lambda>b w. w),
      me_library_end = id, me_query = (\<lambda>q w. (0, w)), me_store = (\<lambda>w. (Some demo_my_rows, w)),
      me_affected_rows = (\<lambda>w. 2), me_errno = (\<lambda>w. 0), me_error = (\<lambda>w. []), me_charset = (\<lambda>w. (8, 1)),
      me_commit = (\<lambda>w. (False, w)), me_rollback = (\<lambda>w. (False, w)), me_thread_id = (\<lambda>w. 1),
      me_kill = (\<lambda>n w. (0, w)), me_version = (\<lambda>w. 80000)\<rparr>"

definition demo_field :: item where
  "demo_field = column_array ''CODE'' (INum 1) (Some (''C'', 3, 0, SQL_CHAR)) True"

definition demo_pgs_session :: pgs_session where
  "demo_pgs_session = \<lparr>pg_numcols = 1, pg_ifetch = 0, pg_dbh = True, pg_stmt = Some demo_rows, pg_affected = 0\<rparr>"

section \<open>Firebird\<close>

text \<open>The state is the number of calls that were made.\<close>

definition demo_fb :: "nat fb_env" where
  "demo_fb =
     \<lparr>fe_new = False, fe_col = demo_col, fe_interpret = (\<lambda>st. [''error'']), fe_attach = (\<lambda>db dpb w. ((1, 0), 1, w)),
      fe_detach = (\<lambda>h w. ((1, 0), w)), fe_start = (\<lambda>w. ((1, 0), Suc w, Suc w)),
      fe_commit = (\<lambda>h w. ((1, 0), 0, w)), fe_commit_retaining = (\<lambda>h w. ((1, 0), h, w)),
      fe_rollback = (\<lambda>h w. ((1, 0), 0, w)), fe_free_stmt = (\<lambda>h w. ((1, 0), w)),
      fe_alloc_stmt = (\<lambda>w. ((1, 0), 1, w)), fe_prepare = (\<lambda>s d w. ((1, 0), [], w)),
      fe_execute = (\<lambda>d w. ((1, 0), w)), fe_execute2 = (\<lambda>d w. ((1, 0), [], w)),
      fe_stmt_info = (\<lambda>w. ((1, 0), map char_of [21 :: nat, 4, 0, 1, 0, 0, 0, 1, 0], w)), fe_immediate = (\<lambda>s d h w. ((1, 0), w)),
      fe_fetch = (\<lambda>w. ((1, 100), [], w)), fe_version = (\<lambda>w. None), fe_garbage = (\<lambda>n. replicate n NUL),
      fe_long_size = 4, fe_short_as_num = False, fe_decode_stamp = (\<lambda>s. ((2024, 1, 2), 3, 4, 5)),
      fe_decode_time = (\<lambda>s. (3, 4, 5)), fe_decode_date = (\<lambda>s. (2024, 1, 2)), fe_float = (\<lambda>s. 0),
      fe_double = (\<lambda>s. 0), fe_open_blob = (\<lambda>s w. ((1, 0), w)), fe_vax_integer = le_int,
      fe_blob_info = (\<lambda>w. ((1, 0), map char_of [6 :: nat, 4, 0, 3, 0, 0, 0, 4, 4, 0, 2, 0, 0, 0, 1], w)),
      fe_get_segment = (\<lambda>n w. (if w < 2 then 0 else isc_segstr_eof, if w = 0 then ''ab'' else if w = 1 then ''c'' else [], Suc w)),
      fe_close_blob = (\<lambda>w. ((1, 0), w))\<rparr>"

section \<open>ODBC\<close>

text \<open>A result of one column; the state is what is left of its text and how many rows there are.\<close>

definition demo_odbc :: "(bytes \<times> nat) odbc_env" where
  "demo_odbc =
     \<lparr>oe_col = demo_col, oe_fetch = (\<lambda>(s, n). if n = 0 then (SQL_NO_DATA, s, n) else (SQL_SUCCESS, ''abcde'', n - 1)),
      oe_get_char = (\<lambda>size col (s, n).
        if length s < size then (SQL_SUCCESS, s, Some (int (length s)), [], n)
        else (SQL_SUCCESS_WITH_INFO, take (size - 1) s, Some (int (length s)), drop (size - 1) s, n)),
      oe_get_long = (\<lambda>col w. (SQL_SUCCESS, - 1, Some 4, w)), oe_get_bigint = (\<lambda>col w. (SQL_SUCCESS, - 1, Some 8, w)),
      oe_get_double = (\<lambda>col w. (SQL_SUCCESS, 0, Some 8, w)), oe_get_bit = (\<lambda>col w. (SQL_SUCCESS, 0, Some 1, w)),
      oe_get_short = (\<lambda>col w. (SQL_SUCCESS, 0, Some 2, w)), oe_get_date = (\<lambda>col w. (SQL_SUCCESS, (0, 0, 0), Some 6, w)),
      oe_get_stamp = (\<lambda>col w. (SQL_SUCCESS, ((0, 0, 0), 0, 0, 0, 0), Some 16, w)),
      oe_describe = (\<lambda>col len w. (SQL_ERROR, \<lparr>d_name = [], d_type = 0, d_size = 0, d_decimals = 0, d_nullable = 0\<rparr>)),
      oe_bind_memo = (\<lambda>s w. SQL_SUCCESS), oe_exec_memo = (\<lambda>s m w. (SQL_SUCCESS, w)), oe_unbind = (\<lambda>w. SQL_SUCCESS),
      oe_date_enc = (\<lambda>d. 0), oe_time_enc = (\<lambda>h m s ms. 0), oe_new_types = False, oe_long_size = 8\<rparr>"

definition demo_page :: "(bytes \<times> nat) page" where
  "demo_page =
     \<lparr>gl_info = replicate 22 (INum 0), gl_cache = replicate 600 NIL, gl_rec = INum 0, gl_fetch = Arr 0 [], gl_pos = 600,
      gl_len = 4, gl_world = ([], 3)\<rparr>"

section \<open>Oracle\<close>

text \<open>Days and times are taken apart by divisions.\<close>

definition demo_ora :: "unit ora_env" where
  "demo_ora =
     \<lparr>oa_col = demo_col, oa_init = (\<lambda>w. (0, w)), oa_connect = (\<lambda>s w. (0, w)), oa_version = (\<lambda>w. ''Oracle''),
      oa_finish = id, oa_freeall = id, oa_error = (\<lambda>w. []), oa_errcode = (\<lambda>w. 0), oa_exec = (\<lambda>s w. (0, 1, w)),
      oa_open = (\<lambda>s h w. (0, 1, w)), oa_executeselect = (\<lambda>h w. (0, w)), oa_ncols = (\<lambda>h w. 1),
      oa_describe = (\<lambda>h n w. \<lparr>od_type = 1, od_name = ''CODE'', od_prec = 0, od_scale = 0, od_size = 3, od_nullok = True\<rparr>),
      oa_fetch = (\<lambda>h w. (100, w)), oa_values = (\<lambda>h w. [''ab'']), oa_commit = (\<lambda>w. (0, w)), oa_rollback = (\<lambda>w. (0, w)),
      oa_close = (\<lambda>h w. (0, w)), oa_prepare = (\<lambda>s w. (1, w)), oa_bind = (\<lambda>h num t n w. (0, w)),
      oa_bind_ref = (\<lambda>h s r w. (0, 2, w)), oa_execute = (\<lambda>h ls w. (0, ls, w)), oa_lob_write = (\<lambda>s w. (0, w)),
      oa_sprintf = (\<lambda>s n. s), oa_date_dec = (\<lambda>d. (d div 100 div 30, d div 100 mod 30, d mod 100)),
      oa_date_enc = (\<lambda>(y, m, d). (y * 30 + m) * 100 + d),
      oa_time_dec = (\<lambda>ms. (ms div 1000 div 60 div 60, ms div 1000 div 60 mod 60, ms div 1000 mod 60)),
      oa_stamp = (\<lambda>(y, m, d) (h, mi, s). ((y * 30 + m) * 100 + d, ((h * 60 + mi) * 60 + s) * 1000))\<rparr>"

definition demo_ora_session :: ora_session where
  "demo_ora_session =
     \<lparr>os_stmt = - 1, os_status = 0, os_numcols = 0, os_version = ''Oracle'', os_param = 1,
      os_link = None, os_bindnum = 0, os_param_res = - 1, os_rows = 0\<rparr>"

end
