(* ===== verification/ConnProps.thy ===== *)
theory ConnProps
  imports ConnDemo
begin

text \<open>
  What the connections have in common. Their cursors over the rows of a result are interpretations of one
  locale; a value is of the type its description declares; and a text, a number or a date is the same value
  whichever connection reads it.
\<close>

section \<open>Cursors\<close>

text \<open>A fetch goes to the next row, and says whether there is one.\<close>

locale row_cursor =
  fixes fetch :: "'s \<Rightarrow> int \<times> 's"
    and row_at :: "'s \<Rightarrow> int"
    and rows :: "'s \<Rightarrow> 'r list"
    and ready :: "'s \<Rightarrow> bool"
  assumes fetch_code: "ready s \<Longrightarrow> fst (fetch s) = (if row_at s + 1 < int (length (rows s)) then sql_code SQL_SUCCESS else sql_code SQL_NO_DATA)"
    and fetch_at: "ready s \<Longrightarrow> row_at (snd (fetch s)) = row_at s + 1"
    and fetch_rows: "ready s \<Longrightarrow> rows (snd (fetch s)) = rows s"
    and fetch_ready: "ready s \<Longrightarrow> ready (snd (fetch s))"
begin

definition after :: "nat \<Rightarrow> 's \<Rightarrow> 's" where
  "after k s = ((\<lambda>t. snd (fetch t)) ^^ k) s"

lemma after_Suc: "after (Suc k) s = snd (fetch (after k s))"
  by (simp add: after_def)

lemma after_ready: "ready s \<Longrightarrow> ready (after k s)"
  by (induction k) (simp_all add: after_Suc fetch_ready, simp add: after_def)

lemma after_at: "ready s \<Longrightarrow> row_at (after k s) = row_at s + int k"
  by (induction k) (simp_all add: after_Suc fetch_at after_ready, simp add: after_def)

lemma after_rows: "ready s \<Longrightarrow> rows (after k s) = rows s"
  by (induction k) (simp_all add: after_Suc fetch_rows after_ready, simp add: after_def)

text \<open>From before the first row, the fetches say success once for each row.\<close>

lemma nth_fetch:
  assumes "ready s" "row_at s = - 1"
  shows "fst (fetch (after k s)) = (if k < length (rows s) then sql_code SQL_SUCCESS else sql_code SQL_NO_DATA)"
    and "row_at (snd (fetch (after k s))) = int k"
    and "rows (snd (fetch (after k s))) = rows s"
  using fetch_code [OF after_ready [OF assms(1)]] fetch_at [OF after_ready [OF assms(1)]]
    fetch_rows [OF after_ready [OF assms(1)]] assms
  by (simp_all add: after_at after_rows)

end

definition pgs_ready :: "pgs_session option \<Rightarrow> bool" where
  "pgs_ready s \<longleftrightarrow>
     (case (s, pg_result s) of (Some x, Some r) \<Rightarrow> r_status r = PGRES_TUPLES_OK \<and> - 1 \<le> pg_ifetch x | _ \<Rightarrow> False)"

definition pgs_at :: "pgs_session option \<Rightarrow> int" where
  "pgs_at s = (case s of None \<Rightarrow> 0 | Some x \<Rightarrow> pg_ifetch x)"

definition pgs_rows :: "pgs_session option \<Rightarrow> bytes option list list" where
  "pgs_rows s = (case pg_result s of None \<Rightarrow> [] | Some r \<Rightarrow> r_rows r)"

lemmas pgs_cursor_defs = pgs_ready_def pgs_at_def pgs_rows_def SR_PGSFETCH_def pg_result_def

interpretation pgs: row_cursor SR_PGSFETCH pgs_at pgs_rows pgs_ready
  by unfold_locales (auto simp: pgs_cursor_defs Let_def split: option.splits if_splits)

text \<open>The fetch of the other connection also looks at the state of the library.\<close>

definition my_fetch :: "my_session option \<times> 'w my_env \<times> 'w \<Rightarrow> int \<times> my_session option \<times> 'w my_env \<times> 'w" where
  "my_fetch s = (case s of (x, env, w) \<Rightarrow> case SR_MYSFETCH env x w of (r, x1) \<Rightarrow> (r, x1, env, w))"

definition my_ready :: "my_session option \<times> 'w my_env \<times> 'w \<Rightarrow> bool" where
  "my_ready s \<longleftrightarrow>
     (case s of (x, env, w) \<Rightarrow> me_errno env w = 0 \<and>
        (case (x, my_result x) of (Some y, Some r) \<Rightarrow> - 1 \<le> ms_ifetch y | _ \<Rightarrow> False))"

definition my_at :: "my_session option \<times> 'w my_env \<times> 'w \<Rightarrow> int" where
  "my_at s = (case fst s of None \<Rightarrow> 0 | Some x \<Rightarrow> ms_ifetch x)"

definition my_rows :: "my_session option \<times> 'w my_env \<times> 'w \<Rightarrow> bytes option list list" where
  "my_rows s = (case my_result (fst s) of None \<Rightarrow> [] | Some r \<Rightarrow> m_rows r)"

lemma my_readyE:
  assumes "my_ready s"
  obtains y r env w where "s = (Some y, env, w)" "me_errno env w = 0" "ms_dbh y" "ms_stmt y = Some r" "- 1 \<le> ms_ifetch y"
  using assms by (cases s) (auto simp: my_ready_def my_result_def split: option.splits if_splits)

lemma my_fetch_ready:
  assumes "ms_dbh y" "ms_stmt y = Some r" "me_errno env w = 0" "- 1 \<le> ms_ifetch y"
  shows "my_fetch (Some y, env, w) =
    (sql_code (if ms_ifetch y + 1 < int (length (m_rows r)) then SQL_SUCCESS else SQL_NO_DATA),
     Some (y\<lparr>ms_status := 0, ms_ifetch := ms_ifetch y + 1\<rparr>), env, w)"
  using assms by (simp add: my_fetch_def SR_MYSFETCH_def my_result_def Let_def)

interpretation my: row_cursor my_fetch my_at my_rows my_ready
  by (unfold_locales; erule my_readyE)
     (simp_all add: my_fetch_ready my_at_def my_rows_def my_result_def my_ready_def)

text \<open>The values of a row, whatever the connection.\<close>

definition row_values ::
  "(item \<Rightarrow> bytes \<Rightarrow> item option) \<Rightarrow> (bytes \<Rightarrow> bytes) \<Rightarrow> bytes option list \<Rightarrow> item list \<Rightarrow> item \<Rightarrow> item option"
where
  "row_values get txt row fs ret =
     row_loop (\<lambda>f n. Option.bind (rd_at row (n - 1)) (\<lambda>v. get f (case v of None \<Rightarrow> [] | Some s \<Rightarrow> txt s))) 1 fs ret"

lemma pgs_line:
  assumes "pg_result s = Some r" "pgs_at s = int k" "k < length (r_rows r)"
  shows "SR_PGSLINEPROCESSED env s fs bT ret =
    row_values (\<lambda>f c. sr_PGSFieldGet (pe_col env) f c bT) cstring (r_rows r ! k) fs ret"
proof (cases s)
  case (Some x)
  have p: "PQgetvalue r (int k) j = Option.bind (rd_at (r_rows r ! k) j) (\<lambda>v. Some (case v of None \<Rightarrow> [] | Some s \<Rightarrow> cstring s))" for j
    using assms(3) by (simp add: PQgetvalue_def)
  show ?thesis
    using assms Some by (simp add: SR_PGSLINEPROCESSED_def row_values_def pgs_at_def p Option.bind_assoc)
qed (use assms(1) in \<open>simp add: pg_result_def\<close>)

lemma my_line:
  assumes "ms_dbh y" "ms_stmt y = Some m" "ms_ifetch y = int k" "k < length (m_rows m)" "me_errno env w = 0"
  shows "map_option (\<lambda>(code, a, s). (code, a)) (SR_MYSLINEPROCESSED env (Some y) fs bT ret w) =
    map_option (\<lambda>a. (sql_code SQL_SUCCESS, a)) (row_values (\<lambda>f c. MSQLFieldGet (me_col env) f c bT) id (m_rows m ! k) fs ret)"
  using assms by (simp add: SR_MYSLINEPROCESSED_def my_result_def Let_def row_values_def cong: option.case_cong)
    (simp add: option.map_comp o_def split: Option.bind_split)

text \<open>C8: The rows of a query are fetched in their order, each once: after the query was executed, the fetch
  number \<open>k\<close> succeeds while there are rows, the values read after it are those of row \<open>k\<close>, and every later
  fetch says that there is no more data. This holds for PostgreSQL and for MySQL.\<close>

theorem every_row_fetched_once:
  assumes "pg_dbh x" "pe_exec env cmd w = (Some r, w1)" "r_status r = PGRES_TUPLES_OK"
    and "ms_dbh y" "me_query menv q v = (0, v1)" "me_store menv v1 = (Some m, v2)" "me_errno menv v2 = 0"
  shows "(let s = fst (snd (SR_PGSEXEC env cmd (Some x) w)); t = ((\<lambda>u. snd (SR_PGSFETCH u)) ^^ k) s; (code, t1) = SR_PGSFETCH t
     in code = (if k < length (r_rows r) then sql_code SQL_SUCCESS else sql_code SQL_NO_DATA) \<and>
        (k < length (r_rows r) \<longrightarrow> SR_PGSLINEPROCESSED env t1 fs bT ret =
           row_values (\<lambda>f c. sr_PGSFieldGet (pe_col env) f c bT) cstring (r_rows r ! k) fs ret)) \<and>
     (let s = fst (snd (SR_MYSEXEC menv q (Some y) v)); t = ((\<lambda>u. snd (SR_MYSFETCH menv u v2)) ^^ k) s;
         (code, t1) = SR_MYSFETCH menv t v2
     in code = (if k < length (m_rows m) then sql_code SQL_SUCCESS else sql_code SQL_NO_DATA) \<and>
        (k < length (m_rows m) \<longrightarrow>
           map_option (\<lambda>(c, a, s). (c, a)) (SR_MYSLINEPROCESSED menv t1 fs bT ret v2) =
           map_option (\<lambda>a. (sql_code SQL_SUCCESS, a))
             (row_values (\<lambda>f c. MSQLFieldGet (me_col menv) f c bT) id (m_rows m ! k) fs ret)))"
proof (rule conjI)
  let ?s = "fst (snd (SR_PGSEXEC env cmd (Some x) w))"
  let ?t = "((\<lambda>u. snd (SR_PGSFETCH u)) ^^ k) ?s"
  have s: "pgs_ready ?s" "pgs_at ?s = - 1" "pgs_rows ?s = r_rows r" "pg_result ?s = Some r"
    using assms(1-3) by (simp_all add: SR_PGSEXEC_def pgs_ready_def pgs_at_def pgs_rows_def pg_result_def)
  have t: "pgs.after k ?s = ?t" by (simp add: pgs.after_def)
  have keep: "pg_result (snd (SR_PGSFETCH u)) = pg_result u" for u
    by (auto simp: SR_PGSFETCH_def pg_result_def Let_def split: option.splits)
  have "pg_result (((\<lambda>u. snd (SR_PGSFETCH u)) ^^ j) ?s) = Some r" for j
    by (induction j) (simp_all add: s(4) keep)
  note res = this [of k]
  show "let s = ?s; t = ((\<lambda>u. snd (SR_PGSFETCH u)) ^^ k) s; (code, t1) = SR_PGSFETCH t
     in code = (if k < length (r_rows r) then sql_code SQL_SUCCESS else sql_code SQL_NO_DATA) \<and>
        (k < length (r_rows r) \<longrightarrow> SR_PGSLINEPROCESSED env t1 fs bT ret =
           row_values (\<lambda>f c. sr_PGSFieldGet (pe_col env) f c bT) cstring (r_rows r ! k) fs ret)"
    using pgs.nth_fetch [OF s(1,2), of k] pgs_line [of "snd (SR_PGSFETCH ?t)" r k env fs bT ret] res
    by (simp add: t s(3) keep case_prod_beta)
next
  let ?s = "fst (snd (SR_MYSEXEC menv q (Some y) v))"
  let ?t = "((\<lambda>u. snd (SR_MYSFETCH menv u v2)) ^^ k) ?s"
  let ?y = "y\<lparr>ms_stmt := Some m, ms_affected := me_affected_rows menv v2, ms_numcols := length (m_fields m), ms_ifetch := - 1\<rparr>"
  have s: "?s = Some ?y" using assms(4-6) by (simp add: SR_MYSEXEC_def)
  have t: "?t = Some (if k = 0 then ?y else ?y\<lparr>ms_status := 0, ms_ifetch := int k - 1\<rparr>)"
    unfolding s using assms(4,7)
    by (induction k) (auto simp: SR_MYSFETCH_def my_result_def Let_def)
  have f: "SR_MYSFETCH menv ?t v2 =
      (if k < length (m_rows m) then sql_code SQL_SUCCESS else sql_code SQL_NO_DATA,
       Some (?y\<lparr>ms_status := 0, ms_ifetch := int k\<rparr>))"
    unfolding t using assms(4,7) by (auto simp: SR_MYSFETCH_def my_result_def Let_def)
  show "let s = ?s; t = ((\<lambda>u. snd (SR_MYSFETCH menv u v2)) ^^ k) s; (code, t1) = SR_MYSFETCH menv t v2
     in code = (if k < length (m_rows m) then sql_code SQL_SUCCESS else sql_code SQL_NO_DATA) \<and>
        (k < length (m_rows m) \<longrightarrow>
           map_option (\<lambda>(c, a, s). (c, a)) (SR_MYSLINEPROCESSED menv t1 fs bT ret v2) =
           map_option (\<lambda>a. (sql_code SQL_SUCCESS, a))
             (row_values (\<lambda>f c. MSQLFieldGet (me_col menv) f c bT) id (m_rows m ! k) fs ret))"
    using my_line [of "?y\<lparr>ms_status := 0, ms_ifetch := int k\<rparr>" m k menv v2 fs bT ret] assms(4,7)
    by (simp add: s f [unfolded s])
qed

theorem every_row_fetched_once_witness:
  "let s = fst (snd (SR_PGSEXEC demo_pgs [] (Some \<lparr>pg_numcols = 0, pg_ifetch = - 2, pg_dbh = True, pg_stmt = None, pg_affected = 0\<rparr>) ()));
     t = ((\<lambda>u. snd (SR_PGSFETCH u)) ^^ 1) s; (code, t1) = SR_PGSFETCH t
   in code = 0 \<and> SR_PGSLINEPROCESSED demo_pgs t1 [demo_field] False (Arr 0 [NIL]) = Some (Arr 0 [Str ''   ''])"
proof -
  have v: "row_values (\<lambda>f c. sr_PGSFieldGet (pe_col demo_pgs) f c False) cstring (r_rows demo_rows ! 1) [demo_field] (Arr 0 [NIL]) =
      Some (Arr 0 [Str ''   ''])" by code_simp
  have m: "me_query demo_my [] () = (0, ())" "me_store demo_my () = (Some demo_my_rows, ())" "me_errno demo_my () = 0"
    "ms_dbh (zero_session True)" by (simp_all add: demo_my_def zero_session_def)
  have p: "pe_exec demo_pgs [] () = (Some demo_rows, ())" "r_status demo_rows = PGRES_TUPLES_OK" "length (r_rows demo_rows) = 2"
    by (simp_all add: demo_pgs_def demo_rows_def)
  show ?thesis
    using every_row_fetched_once [where x = "\<lparr>pg_numcols = 0, pg_ifetch = - 2, pg_dbh = True, pg_stmt = None, pg_affected = 0\<rparr>"
        and k = 1 and fs = "[demo_field]" and ret = "Arr 0 [NIL]" and bT = False, OF _ p(1,2) m(4,1,2,3)] v p(3)
    by (simp add: Let_def case_prod_beta)
qed

section \<open>The connections agree\<close>

text \<open>C16: A column of a text, a number, a date or a memo gives the same value through PostgreSQL, MySQL,
  Firebird and ODBC, for every content and for none; through ODBC where neither the dates of Oterro nor the
  logical values of Oracle are concerned, and for a content without NUL. The binding of Oracle gives it too, but
  for dates, which it is sent without dashes.\<close>

theorem connections_agree:
  assumes "col_domain f \<in> {SQL_CHAR, SQL_NUMERIC, SQL_DATE, SQL_LONGVARCHAR}" "fe_col fenv = env" "oe_col oenv = env"
    and "sys \<noteq> RDBMS_OTERRO" "sys \<noteq> RDBMS_ORACLE" "NUL \<notin> set s"
  shows "MSQLFieldGet env f s bT = sr_PGSFieldGet env f s bT \<and>
    sr_FBFieldGet fenv f s bT = sr_PGSFieldGet env f s bT \<and>
    sr_odbcFieldGet oenv f s (int (length s)) q sys bT = sr_PGSFieldGet env f s bT \<and>
    (col_domain f = SQL_DATE \<and> s \<noteq> [] \<or> SQLO_FieldGet env f s bT = sr_PGSFieldGet env f s bT)"
proof -
  have s: "cstring s = s" "take (nat (int (length s))) s = s"
    using assms(6) by (auto simp: cstring_def takeWhile_eq_all_conv)
  have sys: "\<not> (first_is (CHR ''L'') (col_letter f) \<and> sys = RDBMS_ORACLE)" "sys = RDBMS_OTERRO \<longleftrightarrow> False"
    using assms(4,5) by simp_all
  note defs = MSQLFieldGet_def sr_PGSFieldGet_def sr_FBFieldGet_def sr_odbcFieldGet_def null_column_def odbc_null_def
    text_column_def odbc_content_def odbc_char_types_def odbc_num_types_def odbc_memo_types_def SQLO_FieldGet_def Let_def
  from assms(1) show ?thesis
  proof (elim insertE emptyE)
    assume t: "col_domain f = SQL_CHAR"
    show ?thesis by (simp add: defs t s)
  next
    assume t: "col_domain f = SQL_NUMERIC"
    show ?thesis by (simp add: defs t s sys assms(2,3))
  next
    assume t: "col_domain f = SQL_DATE"
    show ?thesis by (simp add: defs t s sys assms(2,3))
  next
    assume t: "col_domain f = SQL_LONGVARCHAR"
    show ?thesis by (simp add: defs t s sys assms(2,3))
  qed
qed

theorem connections_agree_witness:
  "MSQLFieldGet demo_col demo_field ''abcd'' False = Some (Str ''abc'') \<and>
   sr_FBFieldGet demo_fb demo_field ''abcd'' False = Some (Str ''abc'') \<and>
   sr_odbcFieldGet demo_odbc demo_field ''abcd'' 4 False RDBMS_MSSQL7 False = Some (Str ''abc'')"
proof -
  have p: "sr_PGSFieldGet demo_col demo_field ''abcd'' False = Some (Str ''abc'')" by code_simp
  have "col_domain demo_field = SQL_CHAR" "fe_col demo_fb = demo_col" "oe_col demo_odbc = demo_col"
    by (simp_all add: demo_field_def demo_fb_def demo_odbc_def)
  then show ?thesis
    using connections_agree [of demo_field demo_fb demo_col demo_odbc RDBMS_MSSQL7 "''abcd''" False False] p by simp
qed

section \<open>Types\<close>

text \<open>
  The values that belong to the letter of a column and to its content: a text is the content in the width of
  the column, a memo is the content.
\<close>

definition of_column :: "item \<Rightarrow> bytes \<Rightarrow> item \<Rightarrow> bool" where
  "of_column f c v \<longleftrightarrow>
     (if col_letter f = ''C'' then v = Str (fit (nat (col_len f)) c)
      else if col_letter f = ''N'' then HB_IS_NUMERIC v
      else if col_letter f = ''L'' then HB_IS_LOGICAL v
      else if col_letter f = ''D'' then HB_IS_DATE v
      else if col_letter f = ''T'' then HB_IS_TIMESTAMP v
      else col_letter f = ''M'' \<and> v = Str c)"

text \<open>
  The contents that are read: a text is not of a negative width, a date has the nine bytes at least that are
  looked at, and a memo is neither XML nor an array in a text.
\<close>

definition can_read :: "colenv \<Rightarrow> item \<Rightarrow> bytes \<Rightarrow> bool" where
  "can_read env f c \<longleftrightarrow>
     col_letter f \<noteq> [] \<and>
     (col_letter f = ''C'' \<longrightarrow> 0 \<le> col_len f) \<and>
     (col_letter f = ''D'' \<longrightarrow> c = [] \<or> 9 \<le> length c) \<and>
     (col_letter f = ''M'' \<longrightarrow> col_domain f = SQL_LONGVARCHAR \<and>
        (c \<noteq> [] \<longrightarrow> \<not> c_as_json env \<and> (c_as_string env \<or> \<not> starts_with serial_signature c)))"

text \<open>What the descriptions of both connections have in common: letter and domain fit each other.\<close>

definition column_ok :: "int set \<Rightarrow> item \<Rightarrow> bool" where
  "column_ok memos f \<longleftrightarrow>
     (col_letter f, col_domain f) \<in>
       {(''C'', SQL_CHAR), (''N'', SQL_NUMERIC), (''L'', SQL_BIT), (''D'', SQL_DATE), (''T'', SQL_DATETIME), (''T'', SQL_TIME)} \<or>
     col_letter f = ''M'' \<and> col_domain f \<in> memos"

lemma put_escaped_numeric:
  assumes "\<And>v w d. HB_IS_NUMERIC (c_put_number env v w d)"
  shows "HB_IS_NUMERIC (put_escaped env f s)"
  using assms by (simp add: put_escaped_def split: prod.split)

text \<open>Number and logical types that are no types of another kind.\<close>

definition kinds_apart :: "int set \<Rightarrow> int set \<Rightarrow> bool" where
  "kinds_apart nums bits \<longleftrightarrow> SQL_NUMERIC \<in> nums \<and> SQL_BIT \<in> bits \<and> SQL_NUMERIC \<notin> bits \<and> SQL_BIT \<notin> nums \<and>
     (\<forall>t \<in> {SQL_CHAR, SQL_DATE, SQL_DATETIME, SQL_TIME, SQL_LONGVARCHAR}. t \<notin> nums \<and> t \<notin> bits)"

lemma column_okE:
  assumes "column_ok {SQL_LONGVARCHAR} f"
  obtains "col_letter f = ''C''" "col_domain f = SQL_CHAR" | "col_letter f = ''N''" "col_domain f = SQL_NUMERIC"
    | "col_letter f = ''L''" "col_domain f = SQL_BIT" | "col_letter f = ''D''" "col_domain f = SQL_DATE"
    | "col_letter f = ''T''" "col_domain f = SQL_DATETIME" | "col_letter f = ''T''" "col_domain f = SQL_TIME"
    | "col_letter f = ''M''" "col_domain f = SQL_LONGVARCHAR"
  using assms unfolding column_ok_def by blast

lemma null_column_typed:
  assumes "column_ok {SQL_LONGVARCHAR} f" "\<And>v w d. HB_IS_NUMERIC (c_put_number env v w d)"
    and "can_read env f []" "kinds_apart nums bits"
  shows "\<exists>v. null_column env nums bits f = Some v \<and> of_column f [] v"
  using assms(1)
proof (cases rule: column_okE)
  case 1
  then show ?thesis using assms(3) by (simp add: null_column_def of_column_def can_read_def Let_def fixed_text_def)
qed (use assms(4) in \<open>simp_all add: null_column_def of_column_def Let_def kinds_apart_def put_escaped_numeric [OF assms(2)]\<close>)

lemma text_column_typed:
  assumes "column_ok {SQL_LONGVARCHAR} f" "\<And>v w d. HB_IS_NUMERIC (c_put_number env v w d)"
    and "can_read env f c" "c \<noteq> []" "kinds_apart nums bits"
  shows "\<exists>v. text_column env nums bits is_true f c bT = Some v \<and> of_column f c v"
  using assms(1)
proof (cases rule: column_okE)
  case 1
  then show ?thesis using assms(3) by (simp add: text_column_def of_column_def can_read_def Let_def fixed_text_def)
next
  case 4
  then show ?thesis using assms(3-5)
    by (simp add: text_column_def of_column_def can_read_def Let_def kinds_apart_def date_value_def)
next
  case 7
  then show ?thesis using assms(3-5)
    by (auto simp: text_column_def of_column_def can_read_def Let_def kinds_apart_def memo_value_def)
qed (use assms(5) in \<open>simp_all add: text_column_def of_column_def Let_def kinds_apart_def put_escaped_numeric [OF assms(2)]
       split: prod.split\<close>)

lemma column_array_ok:
  "column_ok memos (column_array name enum (Some (t, len, dec, domain)) nullable) \<longleftrightarrow>
     (t, domain) \<in>
       {(''C'', SQL_CHAR), (''N'', SQL_NUMERIC), (''L'', SQL_BIT), (''D'', SQL_DATE), (''T'', SQL_DATETIME), (''T'', SQL_TIME)} \<or>
     t = ''M'' \<and> domain \<in> memos"
  by (simp add: column_ok_def)

lemma column_array_untyped [simp]: "col_letter (column_array name enum None nullable) = []"
  by (simp add: column_array_def col_letter_def hb_arrayGet_def hb_arraySet_arr_of arr_get_set Let_def) (simp add: arr_get_def)

lemma pgs_query_type_ok:
  "pgs_query_type r n c = Some ty \<Longrightarrow>
   column_ok {SQL_LONGVARCHAR, SQL_LONGVARCHARXML} (column_array name enum (Some ty) nullable)"
  by (cases ty) (auto simp: pgs_query_type_def pgs_fixed_type_def pgs_numeric_def column_array_ok Let_def split: if_splits)

lemma my_type_ok:
  "my_type k c = Some ty \<Longrightarrow> column_ok {SQL_LONGVARCHAR} (column_array name enum (Some ty) nullable)"
  by (cases ty) (auto simp: my_type_def column_array_ok Let_def split: if_splits)

lemma pgs_described:
  assumes "SR_PGSQUERYATTR s 1 = Arr 0 ds" "f \<in> set ds" "col_letter f \<noteq> []"
  shows "column_ok {SQL_LONGVARCHAR, SQL_LONGVARCHARXML} f"
proof -
  obtain r where r: "ds = map (\<lambda>(n, c). column_array (map to_upper (pc_name c)) (INum (int n + 1)) (pgs_query_type r n c) False)
      (zip [0..<length (r_cols r)] (r_cols r))"
    using assms(1) by (auto simp: SR_PGSQUERYATTR_def split: option.splits)
  obtain n c where f: "f = column_array (map to_upper (pc_name c)) (INum (int n + 1)) (pgs_query_type r n c) False"
    using assms(2) unfolding r by auto
  then show ?thesis
    using assms(3) pgs_query_type_ok by (cases "pgs_query_type r n c") auto
qed

lemma my_described:
  assumes "SR_MYSQUERYATTR menv s v = Arr 0 ds" "f \<in> set ds" "col_letter f \<noteq> []"
  shows "column_ok {SQL_LONGVARCHAR} f"
proof -
  obtain k :: nat and c where f: "f = column_array (map to_upper (mf_name c)) NIL (my_type k c) (\<not> odd (mf_flags c))"
    using assms(1,2) by (auto simp: SR_MYSQUERYATTR_def my_attributes_def split: option.splits)
  then show ?thesis
    using assms(3) my_type_ok by (cases "my_type k c") auto
qed

text \<open>C13: Through PostgreSQL and through MySQL, what is read from a column of a query is a value of the type that
  the description of the query declares: for a text the content in the declared width, for a memo the content
  itself. This is so for the columns whose type is known and whose width is not negative, for dates that are as
  long as one, and for memos that are plain texts, neither XML nor an array written as a text.\<close>

theorem value_of_declared_type:
  assumes "SR_PGSQUERYATTR s 1 = Arr 0 ds" "SR_MYSQUERYATTR menv ms v = Arr 0 es"
    and "\<And>x w d. HB_IS_NUMERIC (c_put_number env x w d)"
  shows "(\<forall>f \<in> set ds. can_read env f c \<longrightarrow>
      (\<exists>x. sr_PGSFieldGet env f c bT = Some x \<and> of_column f c x)) \<and>
    (\<forall>f \<in> set es. can_read env f c \<longrightarrow>
      (\<exists>x. MSQLFieldGet env f c bT = Some x \<and> of_column f c x))"
proof (intro conjI ballI impI)
  have apart: "kinds_apart {SQL_NUMERIC, SQL_FAKE_NUM} {SQL_BIT}" "kinds_apart {SQL_NUMERIC} {SQL_BIT}"
    by (simp_all add: kinds_apart_def)
  {
    fix f
    assume f: "f \<in> set ds" "can_read env f c"
    then have "column_ok {SQL_LONGVARCHAR} f" "col_domain f \<noteq> SQL_LONGVARCHARXML"
      using pgs_described [OF assms(1) f(1)] by (auto simp: column_ok_def can_read_def)
    with f(2) show "\<exists>x. sr_PGSFieldGet env f c bT = Some x \<and> of_column f c x"
      using null_column_typed [of f env, OF _ assms(3) _ apart(1)] text_column_typed [of f env c, OF _ assms(3) _ _ apart(2)]
      by (cases "c = []") (auto simp: sr_PGSFieldGet_def)
  next
    fix f
    assume f: "f \<in> set es" "can_read env f c"
    then have "column_ok {SQL_LONGVARCHAR} f"
      using my_described [OF assms(2) f(1)] by (simp add: can_read_def)
    with f(2) show "\<exists>x. MSQLFieldGet env f c bT = Some x \<and> of_column f c x"
      using null_column_typed [of f env, OF _ assms(3) _ apart(1)] text_column_typed [of f env c, OF _ assms(3) _ _ apart(2)]
      by (cases "c = []") (auto simp: MSQLFieldGet_def)
  }
qed

theorem value_of_declared_type_witness:
  "\<exists>f. SR_PGSQUERYATTR (Some demo_pgs_session) 1 = Arr 0 [f] \<and> col_letter f = ''C'' \<and> col_len f = 3 \<and>
     sr_PGSFieldGet demo_col f ''abcd'' False = Some (Str ''abc'')"
proof -
  let ?f = "column_array ''CODE'' (INum 1) (Some (''C'', 3, 0, SQL_CHAR)) False"
  have p: "SR_PGSQUERYATTR (Some demo_pgs_session) 1 = Arr 0 [?f]" by code_simp
  have m: "SR_MYSQUERYATTR demo_my (Some ((zero_session True)\<lparr>ms_stmt := Some demo_my_rows\<rparr>)) () = Arr 0 []"
    by (simp add: SR_MYSQUERYATTR_def my_attributes_def my_result_def zero_session_def)
  have n: "HB_IS_NUMERIC (c_put_number demo_col x w d)" for x w d by (simp add: demo_col_def)
  have "can_read demo_col ?f ''abcd''" by (simp add: can_read_def)
  then have "\<exists>x. sr_PGSFieldGet demo_col ?f ''abcd'' False = Some x \<and> of_column ?f ''abcd'' x"
    using value_of_declared_type [OF p m n, of "''abcd''" False] by simp
  then show ?thesis using p by - (rule exI [of _ ?f], auto simp: of_column_def fit_def)
qed

text \<open>With the switch for JSON on, every memo that is not empty is read as NIL.\<close>

lemma json_memo_lost: "c_as_json env \<Longrightarrow> s \<noteq> [] \<Longrightarrow> memo_value env raw s bT = NIL"
proof -
  assume "c_as_json env" "s \<noteq> []"
  have "starts_with ''[]'' s \<Longrightarrow> starts_with ''['' s" by (cases "cstring s") (simp_all add: starts_with_def)
  then show ?thesis using \<open>c_as_json env\<close> \<open>s \<noteq> []\<close> by (auto simp: memo_value_def)
qed

text \<open>A column of money gets a width of four in the description of a query.\<close>

lemma money_column_narrow:
  "pgs_query_type r n \<lparr>pc_name = name, pc_type = CASHOID, pc_mod = - 1, pc_size = 8\<rparr> = Some (''C'', 4, 0, SQL_CHAR)"
  by (simp add: pgs_query_type_def pgs_text_types_def)

section \<open>Texts are written and read\<close>

text \<open>What a server stores for a literal; nothing for a null.\<close>

definition sent_value :: "int \<Rightarrow> cstr \<Rightarrow> bytes \<Rightarrow> bool" where
  "sent_value db r c \<longleftrightarrow>
     r = CText ''NULL'' \<and> c = [] \<or> (\<exists>t. r = CText (QUOTE # t) \<and> read_literal (server_mode db) t = Some (c, []))"

lemma sent_literal: "read_literal (server_mode db) t = Some (c, []) \<Longrightarrow> sent_value db (CText (QUOTE # t)) c"
  unfolding sent_value_def by blast

lemma sent_null: "sent_value db (CText ''NULL'') []"
  unfolding sent_value_def by blast

lemma fit_blank: "fit n (s @ [SPACE]) = fit n s"
proof (cases "n \<le> length s")
  case False
  then obtain k where "n = length s + Suc k" by (metis add_Suc_right less_imp_Suc_add not_le)
  then show ?thesis by (simp add: fit_def)
qed (simp add: fit_def)

lemma fit_rtrim: "fit n (rtrim_spaces s) = fit n s"
proof (induction s rule: rev_induct)
  case (snoc c s)
  then show ?case by (cases "c = SPACE") (simp_all add: fit_blank rtrim_spaces_snoc_other)
qed simp

lemma fit_blanks: "set s \<subseteq> {SPACE} \<Longrightarrow> fit n s = fit n []"
proof (induction s rule: rev_induct)
  case (snoc c s)
  then show ?case by (simp add: fit_blank)
qed simp

lemma stored_blanks: "set s \<subseteq> {SPACE} \<Longrightarrow> stored db s = s"
  by (induction s) (auto simp: stored_def stored1_def nul_to_space_def drop_nul_def pgs_std_value_def)

lemma char_column_read:
  assumes "col_domain f = SQL_CHAR" "col_len f = int n"
  shows "sr_PGSFieldGet env f c bT = Some (Str (fit n c))" "MSQLFieldGet env f c bT = Some (Str (fit n c))"
    "sr_FBFieldGet fenv f c bT = Some (Str (fit n c))"
    "sr_odbcFieldGet oenv f c (int (length c)) q sys bT = Some (Str (fit n c))"
    "SQLO_FieldGet env f c bT = Some (Str (fit n c))"
  using assms
  by (cases "c = []"; simp add: sr_PGSFieldGet_def MSQLFieldGet_def sr_FBFieldGet_def sr_odbcFieldGet_def SQLO_FieldGet_def
      null_column_def text_column_def odbc_null_def odbc_content_def odbc_char_types_def fixed_text_def Let_def)+

lemma stored_plain:
  assumes "\<forall>x \<in> set s. x \<noteq> NUL \<and> (db = RDBMS_POSTGR \<longrightarrow> x \<noteq> BSLASH)"
  shows "stored db s = s"
  using assms
  by (induction s) (simp_all add: stored_def stored1_def nul_to_space_def drop_nul_def pgs_std_value_def)

lemma fit_longer: "length s \<le> n \<Longrightarrow> fit n s = s @ replicate (n - length s) SPACE"
  by (auto simp: fit_def)

text \<open>C11: A text that is written as a literal and read back from a text column is the text the database stores,
  filled with blanks or cut to the width of the column, whichever database it is and whichever connection reads
  it. Where the text has no zero byte (and, for PostgreSQL, no backslash, which is stored twice) and fits into
  the column, that is the text itself and blanks behind it. This holds for empty texts too, that are written as
  \<open>NULL\<close> or as a blank, where the texts that count as empty are blank.\<close>

theorem text_written_and_read:
  assumes "escape_for db s \<noteq> None" "SR_quotedNull e is ds (Str s) len dec nullable db tc memo = (r, isnull)"
    and "e s \<Longrightarrow> set s \<subseteq> {SPACE}" "col_domain f = SQL_CHAR" "col_len f = int n"
  shows "(\<exists>c. sent_value db r c \<and>
    sr_PGSFieldGet env f c bT = Some (Str (fit n (stored db s))) \<and>
    MSQLFieldGet env f c bT = Some (Str (fit n (stored db s))) \<and>
    sr_FBFieldGet fenv f c bT = Some (Str (fit n (stored db s))) \<and>
    sr_odbcFieldGet oenv f c (int (length c)) q sys bT = Some (Str (fit n (stored db s))) \<and>
    SQLO_FieldGet env f c bT = Some (Str (fit n (stored db s)))) \<and>
    ((\<forall>x \<in> set s. x \<noteq> NUL \<and> (db = RDBMS_POSTGR \<longrightarrow> x \<noteq> BSLASH)) \<and> length s \<le> n \<longrightarrow>
      fit n (stored db s) = s @ replicate (n - length s) SPACE)"
proof -
  obtain u where u: "escape_for db s = Some u" using assms(1) by blast
  have quoted: "\<exists>c. sent_value db (quote_text s db trim) c \<and> fit n c = fit n (stored db s)" for trim
  proof -
    obtain t where "quote_text s db trim = CText (QUOTE # t)"
      "read_literal (server_mode db) t = Some (if trim then rtrim_spaces (stored db s) else stored db s, [])"
      using quote_text_read [OF u, of trim] by blast
    then have "sent_value db (quote_text s db trim) (if trim then rtrim_spaces (stored db s) else stored db s)"
      using sent_literal by simp
    moreover have "fit n (if trim then rtrim_spaces (stored db s) else stored db s) = fit n (stored db s)"
      using fit_rtrim by simp
    ultimately show ?thesis by blast
  qed
  have empty: "fit n (stored db s) = fit n []" if "e s"
    using fit_blanks [OF assms(3) [OF that], of n] stored_blanks [OF assms(3) [OF that], of db] by simp
  have "\<exists>c. sent_value db r c \<and> fit n c = fit n (stored db s)"
  proof (cases "e s \<and> db \<noteq> RDBMS_POSTGR")
    case True
    have blank: "sent_value db (CText [QUOTE, SPACE, QUOTE]) [SPACE]"
      by (rule sent_literal, rule blank_literal_read)
    have "r = CText ''NULL'' \<or> r = quote_text s db False \<or> r = CText [QUOTE, SPACE, QUOTE]"
      using True assms(2) by (auto simp: SR_quotedNull_def Let_def split: if_splits)
    then show ?thesis
      using quoted [of False] sent_null [of db] blank empty True fit_blank [of n "[]"] by (metis append_Nil)
  next
    case False
    then have "r = quote_text s db (\<not> tc)"
      using assms(2) by (auto simp: SR_quotedNull_def Let_def split: if_splits)
    then show ?thesis using quoted by simp
  qed
  then have "\<exists>c. sent_value db r c \<and>
      sr_PGSFieldGet env f c bT = Some (Str (fit n (stored db s))) \<and>
      MSQLFieldGet env f c bT = Some (Str (fit n (stored db s))) \<and>
      sr_FBFieldGet fenv f c bT = Some (Str (fit n (stored db s))) \<and>
      sr_odbcFieldGet oenv f c (int (length c)) q sys bT = Some (Str (fit n (stored db s))) \<and>
      SQLO_FieldGet env f c bT = Some (Str (fit n (stored db s)))"
    by (auto simp: char_column_read [OF assms(4,5)])
  then show ?thesis using stored_plain [of s db] fit_longer [of s n] by simp
qed

theorem text_written_and_read_witness:
  "\<exists>c. sent_value RDBMS_POSTGR (CText (QUOTE # ''ab'' @ [QUOTE])) c \<and>
     sr_PGSFieldGet demo_col demo_field c False = Some (Str ''ab '')"
proof -
  have r: "SR_quotedNull (\<lambda>s. s = []) (\<lambda>v l d. []) (\<lambda>d. []) (Str ''ab '') NIL NIL True RDBMS_POSTGR False False =
      (CText (QUOTE # ''ab'' @ [QUOTE]), False)" by code_simp
  have e: "escape_for RDBMS_POSTGR ''ab '' \<noteq> None" by code_simp
  have s: "fit 3 (stored RDBMS_POSTGR ''ab '') = ''ab ''" by code_simp
  show ?thesis
    using text_written_and_read [where env = demo_col and f = demo_field and n = 3 and bT = False, OF e r] s
    by (simp add: demo_field_def) blast
qed

end
