(* ===== verification/FirebirdProps.thy ===== *)
theory FirebirdProps
  imports ConnDemo
begin

text \<open>
  The connection to Firebird: numbers with a scale, blobs, the session's transaction, and the rolling back
  after an error.
\<close>

section \<open>Numbers with a scale\<close>

text \<open>The value of a decimal text: blanks, a sign, digits, and a point with digits.\<close>

definition unsigned_value :: "bytes \<Rightarrow> rat" where
  "unsigned_value u =
     of_int (dec_value (takeWhile is_digit u)) +
     (case dropWhile is_digit u of
        c # r \<Rightarrow> (if c = CHR ''.''
                  then of_int (dec_value (takeWhile is_digit r)) / 10 ^ length (takeWhile is_digit r) else 0)
      | [] \<Rightarrow> 0)"

definition decimal_value :: "bytes \<Rightarrow> rat" where
  "decimal_value s =
     (case dropWhile is_space s of
        c # r \<Rightarrow> if c = CHR ''-'' then - unsigned_value r else unsigned_value (c # r)
      | [] \<Rightarrow> 0)"

lemma takeWhile_digits: "\<forall>c \<in> set a. is_digit c \<Longrightarrow> takeWhile is_digit a = a"
  by (simp add: takeWhile_eq_all_conv)

lemma point_no_digit: "\<not> is_digit (CHR ''.'')"
  by (simp add: is_digit_def byte_def)

lemma digits_point:
  assumes "\<forall>c \<in> set a. is_digit c" "\<forall>c \<in> set b. is_digit c"
  shows "unsigned_value (a @ ''.'' @ b) = of_int (dec_value a) + of_int (dec_value b) / 10 ^ length b"
proof -
  have "takeWhile is_digit (a @ ''.'' @ b) = a" "dropWhile is_digit (a @ ''.'' @ b) = ''.'' @ b"
    using assms(1) by (simp_all add: takeWhile_append2 dropWhile_append2 point_no_digit)
  then show ?thesis by (simp add: unsigned_value_def takeWhile_digits [OF assms(2)])
qed

lemma digits_only:
  assumes "\<forall>c \<in> set a. is_digit c"
  shows "unsigned_value a = of_int (dec_value a)"
proof -
  have "dropWhile is_digit a = []" using assms by simp
  then show ?thesis by (simp add: unsigned_value_def takeWhile_digits [OF assms] del: dropWhile_eq_Nil_conv)
qed

lemma drop_padding: "dropWhile is_space (replicate k SPACE @ s) = dropWhile is_space s"
  by (induction k) (simp_all add: is_space_def byte_def)

lemma decimal_value_padded: "0 \<le> w \<Longrightarrow> decimal_value (in_width w s @ t) = decimal_value (s @ t)"
  by (simp add: in_width_def Let_def decimal_value_def drop_padding)

lemma decimal_value_digit:
  assumes "\<forall>c \<in> set a. is_digit c" "a \<noteq> []"
  shows "decimal_value (a @ t) = unsigned_value (a @ t)"
proof -
  obtain c r where c: "a = c # r" using assms(2) by (cases a) auto
  then have "is_digit c" using assms(1) by simp
  then have "\<not> is_space c" "c \<noteq> CHR ''-''" by (auto simp: is_digit_def is_space_def byte_def)
  then show ?thesis by (simp add: decimal_value_def c)
qed

lemma decimal_value_minus: "decimal_value (CHR ''-'' # u) = - unsigned_value u"
  by (simp add: decimal_value_def is_space_def byte_def)

lemma int_text_nat: "0 \<le> n \<Longrightarrow> int_text n = nat_text (nat n)"
  by (simp add: int_text_def)

lemma int_text_neg: "n < 0 \<Longrightarrow> int_text n = CHR ''-'' # nat_text (nat (- n))"
  by (simp add: int_text_def)

lemma fixed_point_value:
  assumes "0 \<le> (v :: int)"
  shows "(of_int (v div 10 ^ k) + of_int (v mod 10 ^ k) / 10 ^ k :: rat) = of_int v / 10 ^ k"
proof -
  have "(of_int (v div 10 ^ k * 10 ^ k + v mod 10 ^ k) :: rat) = of_int v" by (simp only: div_mult_mod_eq)
  then have "(of_int (v div 10 ^ k) * 10 ^ k + of_int (v mod 10 ^ k) :: rat) = of_int v"
    by (simp only: of_int_add of_int_mult of_int_power of_int_numeral)
  then show ?thesis by (simp add: field_simps)
qed

text \<open>A whole number behind a width, a point and its fraction, for a number and for its negative.\<close>

lemma point_text_value:
  assumes "0 \<le> v" "0 < k" "0 \<le> w"
  shows "decimal_value (in_width w (nat_text (nat (v div 10 ^ k))) @ ''.'' @ zero_padded k (nat (v mod 10 ^ k))) =
      of_int v / 10 ^ k"
    and "decimal_value (in_width w (CHR ''-'' # nat_text (nat (v div 10 ^ k))) @ ''.'' @ zero_padded k (nat (v mod 10 ^ k))) =
      - (of_int v / 10 ^ k)"
proof -
  have m: "0 \<le> v mod 10 ^ k" "v mod 10 ^ k < 10 ^ k" by simp_all
  then have "nat (v mod 10 ^ k) < 10 ^ k" by (simp add: nat_less_iff)
  then have l: "length (zero_padded k (nat (v mod 10 ^ k))) = k" by (rule zero_padded_length [OF assms(2)])
  have d: "0 \<le> v div 10 ^ k" using assms(1) by (simp add: pos_imp_zdiv_nonneg_iff)
  have u: "unsigned_value (nat_text (nat (v div 10 ^ k)) @ ''.'' @ zero_padded k (nat (v mod 10 ^ k))) = of_int v / 10 ^ k"
    using digits_point [OF nat_text_digits zero_padded_digits] m(1) d l fixed_point_value [OF assms(1), of k]
    by (simp add: dec_value_nat_text)
  show "decimal_value (in_width w (nat_text (nat (v div 10 ^ k))) @ ''.'' @ zero_padded k (nat (v mod 10 ^ k))) =
      of_int v / 10 ^ k"
    using u by (simp only: decimal_value_padded [OF assms(3)] decimal_value_digit [OF nat_text_digits nat_text_nonempty])
  show "decimal_value (in_width w (CHR ''-'' # nat_text (nat (v div 10 ^ k))) @ ''.'' @ zero_padded k (nat (v mod 10 ^ k))) =
      - (of_int v / 10 ^ k)"
    using u by (simp only: decimal_value_padded [OF assms(3)] append_Cons decimal_value_minus)
qed

lemma zero_text: "nat_text 0 = ''0''"
proof -
  have "char_of (48 :: nat) = CHR ''0''" by code_simp
  then show ?thesis by (simp add: nat_text.simps [of 0])
qed

text \<open>Such texts: blanks, perhaps a sign, digits, a point and \<open>k\<close> digits.\<close>

definition decimal_text :: "nat \<Rightarrow> bytes \<Rightarrow> bool" where
  "decimal_text k s \<longleftrightarrow> (\<exists>j sg ds es. s = replicate j SPACE @ sg @ ds @ CHR ''.'' # es \<and> (sg = [] \<or> sg = ''-'') \<and>
     ds \<noteq> [] \<and> length es = k \<and> (\<forall>c \<in> set (ds @ es). is_digit c))"

lemma decimal_text_padded:
  assumes "0 \<le> w" "0 < k" "0 \<le> (v :: int)" "sg = [] \<or> sg = ''-''"
  shows "decimal_text k (in_width w (sg @ nat_text n) @ CHR ''.'' # zero_padded k (nat (v mod 10 ^ k)))"
proof -
  let ?es = "zero_padded k (nat (v mod 10 ^ k))"
  have "nat (v mod 10 ^ k) < 10 ^ k" by (simp add: nat_less_iff)
  then have l: "length ?es = k" by (rule zero_padded_length [OF assms(2)])
  have e: "in_width w (sg @ nat_text n) @ CHR ''.'' # ?es =
      replicate (nat \<bar>w\<bar> - length (sg @ nat_text n)) SPACE @ sg @ nat_text n @ CHR ''.'' # ?es"
    using assms(1) by (simp add: in_width_def Let_def)
  have d: "\<forall>c \<in> set (nat_text n @ ?es). is_digit c" using nat_text_digits zero_padded_digits by auto
  show ?thesis unfolding decimal_text_def
    by (rule exI, rule exI, rule exI, rule exI, rule conjI [OF e]) (use assms(4) l d nat_text_nonempty in simp)
qed

lemma digit_plain: "is_digit c \<Longrightarrow> plain c \<and> c \<noteq> NUL"
  by (auto simp: plain_def is_digit_def byte_def)

lemma decimal_text_point:
  assumes "decimal_text k s"
  obtains a b where "s = a @ CHR ''.'' # b" "\<forall>c \<in> set (a @ b). plain c \<and> c \<noteq> NUL"
proof -
  obtain j sg ds es where s: "s = replicate j SPACE @ sg @ ds @ CHR ''.'' # es" "sg = [] \<or> sg = ''-''"
    "\<forall>c \<in> set (ds @ es). is_digit c"
    using assms unfolding decimal_text_def by blast
  have "plain SPACE \<and> SPACE \<noteq> NUL" "plain (CHR ''-'') \<and> CHR ''-'' \<noteq> NUL" by (simp_all add: plain_def)
  then have "\<forall>c \<in> set ((replicate j SPACE @ sg @ ds) @ es). plain c \<and> c \<noteq> NUL"
    using s(2) s(3) [THEN bspec, THEN digit_plain] by (simp add: ball_Un) (elim disjE; simp)
  then show thesis using that [of "replicate j SPACE @ sg @ ds" es] s(1) by simp
qed

text \<open>A column of whole numbers of 64 bits with a scale: the text that is made of it is the decimal number with
  as many places as the scale says.\<close>

lemma number_text_value:
  assumes "- 18 \<le> scale" "scale < 0" "- scale < width"
  obtains s where "fb_number_text width scale v = Some s" "decimal_text (nat (- scale)) s"
    "decimal_value s = of_int v / 10 ^ nat (- scale)"
proof -
  let ?k = "nat (- scale)" and ?w = "width - 1 + scale"
  have k: "0 < ?k" "0 \<le> ?w" using assms(2,3) by simp_all
  show thesis
  proof (cases "0 \<le> v")
    case True
    then have "0 \<le> v div 10 ^ ?k" by (simp add: pos_imp_zdiv_nonneg_iff)
    then have "fb_number_text width scale v =
        Some (in_width ?w (nat_text (nat (v div 10 ^ ?k))) @ CHR ''.'' # zero_padded ?k (nat (v mod 10 ^ ?k)))"
      using assms True by (simp add: fb_number_text_def Let_def int_text_nat)
    then show ?thesis
      using that decimal_text_padded [OF k(2,1) True, of "[]"] point_text_value(1) [OF True k] by simp
  next
    case False
    then have v: "0 \<le> - v" by simp
    have d: "0 \<le> - v div 10 ^ ?k" using v by (simp add: pos_imp_zdiv_nonneg_iff)
    have "fb_number_text width scale v =
        Some (in_width ?w (CHR ''-'' # nat_text (nat (- v div 10 ^ ?k))) @ CHR ''.'' # zero_padded ?k (nat (- v mod 10 ^ ?k)))"
    proof (cases "- v div 10 ^ ?k = 0")
      case True
      then show ?thesis using assms False by (simp add: fb_number_text_def Let_def zero_text)
    next
      case nz: False
      then have "- (- v div 10 ^ ?k) < 0" using d by linarith
      then show ?thesis using assms False nz by (simp add: fb_number_text_def Let_def int_text_neg)
    qed
    then show ?thesis
      using that decimal_text_padded [OF k(2,1) v, of "''-''"] point_text_value(2) [OF v k] by simp
  qed
qed

text \<open>C23: The value of a column of numbers is the whole number in its memory divided by the power of ten of its
  scale, as the run-time library rounds it (\<open>rnd\<close>) to a number with a floating point: two bytes of a column of 16
  bits, four of one of 32 and eight of one of 64, with a sign, and at most as many places as the text that is made
  on the way has room for. The field is a number, and a C long has 32 bits where the column has.\<close>

theorem scaled_number_read:
  assumes "(var_type v, n, width) \<in> {(IB_SQL_SHORT, 2, 6), (IB_SQL_LONG, 4, 11), (IB_SQL_INT64, 8, 21)}"
    and "var_type v = IB_SQL_LONG \<Longrightarrow> fe_long_size env = 4" "\<not> (odd (v_sqltype v) \<and> v_ind v < 0)"
    and "- 18 \<le> v_sqlscale v" "v_sqlscale v < 0" "- v_sqlscale v < width"
    and "col_domain f \<in> {SQL_NUMERIC, SQL_DOUBLE, SQL_FLOAT}"
    and "\<And>s. decimal_text (nat (- v_sqlscale v)) s \<Longrightarrow> c_str_val (fe_col env) s = rnd (decimal_value s)"
  shows "\<exists>w d. fb_read_column env f v bT xbw = Some (FbStored (c_put_number (fe_col env)
    (rnd (of_int (le_int (take n (v_data v))) / 10 ^ nat (- v_sqlscale v))) w d), xbw)"
proof -
  let ?v = "le_int (take n (v_data v))"
  have width: "fb_int_width env (var_type v) = (n, width)" using assms(1,2) by (auto simp: fb_int_width_def)
  obtain s where s: "fb_number_text width (v_sqlscale v) ?v = Some s" "decimal_text (nat (- v_sqlscale v)) s"
    "decimal_value s = of_int ?v / 10 ^ nat (- v_sqlscale v)"
    by (rule number_text_value [OF assms(4-6)])
  obtain a b where ab: "s = a @ CHR ''.'' # b" "\<forall>c \<in> set (a @ b). plain c \<and> c \<noteq> NUL"
    by (rule decimal_text_point [OF s(2)])
  then have whole: "takeWhile (\<lambda>c. c \<noteq> NUL) (a @ CHR ''.'' # b) = a @ CHR ''.'' # b"
    by (subst takeWhile_eq_all_conv) auto
  have "fst (sr_escapeNumber (c_str_val (fe_col env)) (c_str_int (fe_col env)) s l d) =
      rnd (of_int ?v / 10 ^ nat (- v_sqlscale v))" for l d
    using assms(8) [OF s(2)] s(3) unfolding ab(1)
    by (simp only: sr_escapeNumber_def whole pointed_number_read [OF ab(2)])
  then have "\<exists>w d. put_escaped (fe_col env) f s =
      c_put_number (fe_col env) (rnd (of_int ?v / 10 ^ nat (- v_sqlscale v))) w d"
    unfolding put_escaped_def case_prod_unfold by simp blast
  moreover have "sr_FBFieldGet env f s bT = Some (put_escaped (fe_col env) f s)"
    using assms(7) ab(1) by (auto simp: sr_FBFieldGet_def text_column_def Let_def)
  moreover have "fb_read_column env f v bT xbw =
      map_option (\<lambda>i. (FbStored i, xbw)) (sr_FBFieldGet env f s bT)"
    using assms(1,3,5) s(1) width by (auto simp: fb_read_column_def fb_read_number_def read_int_def Let_def)
  ultimately show ?thesis by auto
qed

theorem scaled_number_read_witness:
  "\<forall>x b w0. fb_read_column (demo_fb\<lparr>fe_col := demo_col\<lparr>c_str_val := decimal_value\<rparr>\<rparr>)
     (column_array ''PRICE'' (INum 1) (Some (''N'', 20, 2, SQL_NUMERIC)) True)
     \<lparr>v_sqltype = 500, v_sqlscale = - 2, v_sqllen = 2, v_alias = ''price'', v_data = map char_of [(57 :: nat), 255], v_ind = 0\<rparr>
     False (x, b, w0) = Some (FbStored (DNum (- 199 / 100)), x, b, w0)"
proof -
  let ?v = "\<lparr>v_sqltype = 500, v_sqlscale = - 2, v_sqllen = 2, v_alias = ''price'', v_data = map char_of [(57 :: nat), 255], v_ind = 0\<rparr>"
  let ?env = "demo_fb\<lparr>fe_col := demo_col\<lparr>c_str_val := decimal_value\<rparr>\<rparr>"
  have t: "var_type ?v = IB_SQL_SHORT" by (simp add: var_type_def)
  have r: "le_int (map char_of [(57 :: nat), 255]) = - 199" by (simp add: le_int_def le_nat_def)
  have "fb_read_column ?env (column_array ''PRICE'' (INum 1) (Some (''N'', 20, 2, SQL_NUMERIC)) True) ?v False xbw =
      Some (FbStored (DNum (- 199 / 100)), xbw)" for xbw
    using scaled_number_read [of ?v 2 6 ?env "column_array ''PRICE'' (INum 1) (Some (''N'', 20, 2, SQL_NUMERIC)) True" id False xbw]
      t r by (simp add: demo_col_def)
  then show ?thesis by blast
qed

text \<open>Where a C long has 64 bits, a column of 32 bits is read with four bytes more, that are none of its.\<close>

lemma long_read_too_far:
  "fe_long_size env = 8 \<Longrightarrow> var_type v = IB_SQL_LONG \<Longrightarrow> v_sqlscale v = 0 \<Longrightarrow> col_domain f = SQL_NUMERIC \<Longrightarrow>
   fb_read_number env f v bT = Some (INum (le_int (take 8 (v_data v))))"
  by (simp add: fb_read_number_def fb_int_width_def read_int_def Let_def)

section \<open>Blobs\<close>

text \<open>The library hands out the segments of a blob one by one, each to whoever has room for it, and then says
  that there are no more.\<close>

fun serves :: "'w fb_env \<Rightarrow> bytes list \<Rightarrow> 'w \<Rightarrow> 'w \<Rightarrow> bool" where
  "serves env [] w w' \<longleftrightarrow> fe_get_segment env 0 w = (isc_segstr_eof, [], w')"
| "serves env (s # ss) w w' \<longleftrightarrow>
     (\<exists>st w1. st \<noteq> isc_segstr_eof \<and> (\<forall>n \<ge> length s. fe_get_segment env n w = (st, s, w1)) \<and> serves env ss w1 w')"

lemma int16_small: "0 \<le> n \<Longrightarrow> n < 2 ^ 15 \<Longrightarrow> int16 n = n"
  by (simp add: int16_def)

lemma wr_bytes_here: "length s \<le> length junk \<Longrightarrow> wr_bytes (pre @ junk) (int (length pre)) s = Some (pre @ s @ drop (length s) junk)"
  by (simp add: wr_bytes_def)

lemma segments_read:
  "serves env ss w w' \<Longrightarrow> \<forall>s \<in> set ss. length s < 2 ^ 15 \<Longrightarrow> length (concat ss) < 2 ^ 16 \<Longrightarrow>
   length (concat ss) \<le> length junk \<Longrightarrow>
   segment_loop env (Suc (length ss)) (pre @ junk) (int (length pre)) (int (length (concat ss))) w =
   Some (pre @ concat ss @ drop (length (concat ss)) junk, w')"
proof (induction ss arbitrary: w pre junk)
  case Nil
  then show ?case using wr_bytes_here [of "[]" junk pre] by simp
next
  case (Cons s ss)
  let ?m = "length (concat ss)"
  obtain st w1 where seg: "st \<noteq> isc_segstr_eof" "\<And>n. length s \<le> n \<Longrightarrow> fe_get_segment env n w = (st, s, w1)" "serves env ss w1 w'"
    using Cons.prems(1) by auto
  have len: "length s < 2 ^ 15" "length s + ?m < 2 ^ 16" "length s + ?m \<le> length junk"
    using Cons.prems(2-4) by simp_all
  have "int (length s + ?m) mod 2 ^ 16 = int (length s + ?m)"
    using len(2) by (intro mod_pos_pos_trivial) auto
  then have n: "nat (int (length (concat (s # ss))) mod 2 ^ 16) = length s + ?m"
    by (simp only: concat.simps length_append nat_int)
  have "fe_get_segment env (nat (int (length (concat (s # ss))) mod 2 ^ 16)) w = (st, s, w1)"
    unfolding n by (rule seg(2)) simp
  note get = this
  have l: "int16 (int (length s)) = int (length s)" using len(1) by (simp add: int16_small)
  have "length s \<le> length junk" using len(3) by simp
  note wr = wr_bytes_here [OF this]
  have "segment_loop env (Suc (length (s # ss))) (pre @ junk) (int (length pre)) (int (length (concat (s # ss)))) w =
      segment_loop env (Suc (length ss)) (pre @ s @ drop (length s) junk) (int (length pre) + int (length s))
        (int (length (concat (s # ss))) - int (length s)) w1"
    unfolding list.size(4) add_0_right add_Suc_right segment_loop.simps(2) [of _ "Suc (length ss)"]
    by (simp only: get prod.case wr Option.bind.simps seg(1) if_False Let_def l)
  also have "\<dots> = segment_loop env (Suc (length ss)) ((pre @ s) @ drop (length s) junk) (int (length (pre @ s))) (int ?m) w1"
    by simp
  also have "\<dots> = Some ((pre @ s) @ concat ss @ drop ?m (drop (length s) junk), w')"
    using Cons.prems(2,3) len by (intro Cons.IH seg(3)) simp_all
  finally show ?case by (simp add: add.commute)
qed

text \<open>The reply of the library on a blob: its length and the number of its segments, in len2 bytes for the
  length of a number and four for the number.\<close>

definition blob_reply :: "bytes \<Rightarrow> bytes \<Rightarrow> bytes \<Rightarrow> bytes" where
  "blob_reply len2 len4 num4 =
     [char_of isc_info_blob_total_length] @ len2 @ len4 @ [char_of isc_info_blob_num_segments] @ len2 @ num4 @ [char_of isc_info_end]"

lemma info_reply:
  assumes "length len2 = 2" "length len4 = 4" "length num4 = 4" "fe_vax_integer env len2 = 4" "\<not> bEnd b"
  shows "info_loop env (take 20 (blob_reply len2 len4 num4 @ rest)) 0 b =
    Some (b\<lparr>blob_size := fe_vax_integer env len4, num_segments := fe_vax_integer env num4\<rparr>)"
proof -
  define r where "r = take 20 (blob_reply len2 len4 num4 @ rest)"
  obtain a1 a2 where len2: "len2 = [a1, a2]" using assms(1) by (auto simp: length_Suc_conv eval_nat_numeral)
  obtain s1 s2 s3 s4 where len4: "len4 = [s1, s2, s3, s4]" using assms(2) by (auto simp: length_Suc_conv eval_nat_numeral)
  obtain c1 c2 c3 c4 where num4: "num4 = [c1, c2, c3, c4]" using assms(3) by (auto simp: length_Suc_conv eval_nat_numeral)
  have r: "r = [char_of (6 :: nat), a1, a2, s1, s2, s3, s4, char_of (4 :: nat), a1, a2, c1, c2, c3, c4, char_of (1 :: nat)] @ take 5 rest"
    by (simp add: r_def blob_reply_def len2 len4 num4)
  have i: "int16 4 = 4" by (simp add: int16_small)
  have v: "fe_vax_integer env [a1, a2] = 4" using assms(4) len2 by simp
  have end_: "info_loop env r 14 b2 = Some b2" for b2
    by (subst info_loop.simps) (simp add: r rd_at_def)
  have mid: "info_loop env r 7 b2 = Some (b2\<lparr>num_segments := fe_vax_integer env num4\<rparr>)" if "\<not> bEnd b2" for b2
    using that end_ by (subst info_loop.simps) (simp add: r rd_at_def rd_bytes_def v i info_item_def num4 Let_def)
  show ?thesis
    unfolding r_def [symmetric] using assms(5) mid by (subst info_loop.simps) (simp add: r rd_at_def rd_bytes_def v i info_item_def len4 Let_def)
qed

text \<open>C22: A blob of less than 65536 bytes is read whole: its bytes are the bytes of all its segments in their
  order, for every division into segments of less than 32768 bytes each. The library is taken to answer the question for length
  and number of segments in its format, and to hand the segments out one by one.\<close>

theorem blob_read_whole:
  assumes "fe_open_blob env blob_id w = (st, w1)" "snd st = 0"
    and "fe_blob_info env w1 = (st2, blob_reply len2 len4 num4 @ rest, w2)" "snd st2 = 0"
    and "length len2 = 2" "length len4 = 4" "length num4 = 4" "fe_vax_integer env len2 = 4"
    and "fe_vax_integer env len4 = int (length (concat segs))" "fe_vax_integer env num4 = int (length segs)"
    and "serves env segs w2 w3" "\<forall>s \<in> set segs. length s < 2 ^ 15" "length (concat segs) < 2 ^ 16"
    and "fe_close_blob env w3 = (st3, w4)" "snd st3 = 0" "\<And>n. length (fe_garbage env n) = n" "\<not> bEnd b"
  shows "fb_read_blob env f blob_id bT (x, b, w) =
    map_option (\<lambda>v. (FbStored v, x\<lparr>fb_status := st3\<rparr>,
        b\<lparr>blob_size := int (length (concat segs)), num_segments := int (length segs)\<rparr>, w4))
      (sr_FBFieldGet env f (concat segs) bT)"
proof -
  let ?b = "b\<lparr>blob_size := int (length (concat segs)), num_segments := int (length segs)\<rparr>"
  let ?n = "length (concat segs)"
  have i: "info_loop env (take 20 (blob_reply len2 len4 num4 @ rest)) 0 b = Some ?b"
    using info_reply [OF assms(5-8,17)] assms(9,10) by simp
  have "segment_loop env (Suc (length segs)) ([] @ fe_garbage env ?n @ [NUL]) (int (length ([] :: bytes))) (int ?n) w2 =
      Some ([] @ concat segs @ drop ?n (fe_garbage env ?n @ [NUL]), w3)"
    using assms(16) by (intro segments_read assms(11-13)) simp
  then have r: "segment_loop env (Suc (length segs)) (fe_garbage env ?n @ [NUL]) 0 (int ?n) w2 = Some (concat segs @ [NUL], w3)"
    using assms(16) by simp
  have n: "nat (int (length segs) + 1) = Suc (length segs)" "nat (int ?n) = ?n" "\<not> int ?n < 0" by simp_all
  have ok: "(snd st \<noteq> 0) = False" "(snd st2 \<noteq> 0) = False" "(snd st3 \<noteq> 0) = False" using assms(2,4,15) by simp_all
  have t: "take ?n (concat segs @ [NUL]) = concat segs" by simp
  have sel: "blob_size ?b = int ?n" "num_segments ?b = int (length segs)" by simp_all
  have "fb_read_blob env f blob_id bT (x, b, w) =
      Option.bind (sr_FBFieldGet env f (concat segs) bT) (\<lambda>v. Some (FbStored v, x\<lparr>fb_status := st3\<rparr>, ?b, w4))"
    unfolding fb_read_blob_def prod.case assms(1) assms(3) Let_def
    by (simp only: ok i Option.bind.simps if_False sel n r prod.case assms(14) t)
  then show ?thesis by (cases "sr_FBFieldGet env f (concat segs) bT") simp_all
qed

theorem blob_read_whole_witness:
  "\<forall>x. fb_read_blob demo_fb (column_array ''NOTE'' (INum 1) (Some (''M'', 10, 0, SQL_LONGVARCHAR)) True) [] False
     (x, \<lparr>blob_size = 0, num_segments = 0, bEnd = False\<rparr>, 0) =
   Some (FbStored (Str ''abc''), x\<lparr>fb_status := (1, 0)\<rparr>, \<lparr>blob_size = 3, num_segments = 2, bEnd = False\<rparr>, 3)"
proof
  fix x
  let ?f = "column_array ''NOTE'' (INum 1) (Some (''M'', 10, 0, SQL_LONGVARCHAR)) True"
  let ?b = "\<lparr>blob_size = 0, num_segments = 0, bEnd = False\<rparr>"
  let ?two = "map char_of [4 :: nat, 0]" and ?four = "map char_of [3 :: nat, 0, 0, 0]" and ?num = "map char_of [2 :: nat, 0, 0, 0]"
  have o: "fe_open_blob demo_fb [] 0 = ((1, 0), 0)"
    "fe_blob_info demo_fb 0 = ((1, 0), blob_reply ?two ?four ?num @ [], 0)" "fe_close_blob demo_fb 3 = ((1, 0), 3)"
    "length (fe_garbage demo_fb n) = n" for n
    by (simp_all add: demo_fb_def blob_reply_def)
  have v: "fe_vax_integer demo_fb ?two = 4" "fe_vax_integer demo_fb ?four = int (length (concat [''ab'', ''c'']))"
    "fe_vax_integer demo_fb ?num = int (length [''ab'', ''c''])"
    by (simp_all add: demo_fb_def le_int_def le_nat_def)
  have "serves demo_fb [''c''] 1 3"
    unfolding serves.simps by (intro exI [of _ 0] exI [of _ 2]) (simp add: demo_fb_def)
  then have g: "serves demo_fb [''ab'', ''c''] 0 3"
    unfolding serves.simps(2) [of _ "''ab''"] by (intro exI [of _ 0] exI [of _ 1]) (simp add: demo_fb_def)
  have s: "sr_FBFieldGet demo_fb ?f ''abc'' False = Some (Str ''abc'')"
    by (simp add: sr_FBFieldGet_def text_column_def Let_def memo_value_def demo_fb_def demo_col_def)
  show "fb_read_blob demo_fb ?f [] False (x, ?b, 0) =
      Some (FbStored (Str ''abc''), x\<lparr>fb_status := (1, 0)\<rparr>, \<lparr>blob_size = 3, num_segments = 2, bEnd = False\<rparr>, 3)"
    using blob_read_whole [OF o(1) _ o(2) _ _ _ _ v(1) v(2) v(3) g _ _ o(3) _ o(4), of ?b ?f False x] s by simp
qed

section \<open>Errors\<close>

text \<open>What the library has for the rolling back of a transaction that cannot be rolled back: after \<open>k\<close>
  attempts.\<close>

fun after_rollbacks :: "'w fb_env \<Rightarrow> nat \<Rightarrow> nat \<Rightarrow> 'w \<Rightarrow> status \<times> nat \<times> 'w" where
  "after_rollbacks env 0 h w = fe_rollback env h w"
| "after_rollbacks env (Suc k) h w = (case fe_rollback env h w of (st, h1, w1) \<Rightarrow> after_rollbacks env k h1 w1)"

definition is_error :: "status \<Rightarrow> bool" where
  "is_error st \<longleftrightarrow> fst st = 1 \<and> snd st > 0"

lemma CHECK_ERROR_is_error: "CHECK_ERROR x = is_error (fb_status x)"
  by (simp add: CHECK_ERROR_def is_error_def)

text \<open>An attempt ends the rollbacks if it is no error or leaves no transaction.\<close>

definition rollback_ends :: "'w fb_env \<Rightarrow> nat \<Rightarrow> nat \<Rightarrow> 'w \<Rightarrow> bool" where
  "rollback_ends env k h w \<longleftrightarrow> (case after_rollbacks env k h w of (st, h1, w1) \<Rightarrow> \<not> is_error st \<or> h1 = 0)"

definition status_text :: "'w fb_env \<Rightarrow> status \<Rightarrow> bytes" where
  "status_text env st = concat (map (\<lambda>s. s @ [LF]) (fe_interpret env st))"

definition logged :: "'w fb_env \<Rightarrow> fb_session \<Rightarrow> fb_session" where
  "logged env x = x\<lparr>fb_msgerror := Some (status_text env (fb_status x)), fb_errorcode := snd (fb_status x)\<rparr>"

lemma logged_fields [simp]:
  "fb_transac (logged env x) = fb_transac x" "fb_pending (logged env x) = fb_pending x"
  by (simp_all add: logged_def)

lemma log_status_step:
  assumes "length (status_text env (fb_status x)) < 8193"
  shows "fb_log_status env x w =
    (if fb_transac x = 0 then Some (logged env x, w)
     else (case fe_rollback env (fb_transac x) w of
             (st, h, w1) \<Rightarrow>
               (let x2 = (logged env x)\<lparr>fb_status := st, fb_transac := h\<rparr>
                in if is_error st then fb_log_status env x2 w1
                   else Some (x2\<lparr>fb_transac := 0, fb_pending := False\<rparr>, w1))))"
  using assms
  by (subst fb_log_status.simps) (simp add: Let_def CHECK_ERROR_is_error status_text_def logged_def)

lemma log_status_idle:
  assumes "\<And>st. length (status_text env st) < 8193" "fb_transac x = 0"
  shows "fb_log_status env x w = Some (logged env x, w)"
  using log_status_step [OF assms(1)] assms(2) by simp

lemma log_status_returns:
  assumes "\<And>st. length (status_text env st) < 8193"
  shows "rollback_ends env k (fb_transac x) w \<Longrightarrow> \<exists>r. fb_log_status env x w = Some r"
proof (induction k arbitrary: x w)
  case 0
  then show ?case
    using log_status_idle [OF assms]
    by (subst log_status_step [OF assms]) (auto simp: rollback_ends_def Let_def split: prod.splits)
next
  case (Suc k)
  obtain st h w1 where r: "fe_rollback env (fb_transac x) w = (st, h, w1)" by (metis prod.exhaust)
  then have e: "rollback_ends env k h w1" using Suc.prems by (simp add: rollback_ends_def)
  show ?case
    using Suc.IH [of "(logged env x)\<lparr>fb_status := st, fb_transac := h\<rparr>" w1] e
    by (subst log_status_step [OF assms]) (simp add: r Let_def)
qed

text \<open>Induction over the rounds of a call that comes back.\<close>

lemma log_status_induct [consumes 1, case_names idle ended again]:
  assumes "fb_log_status env x w = Some r"
    and "\<And>x w. fb_transac x = 0 \<Longrightarrow> P x w (logged env x, w)"
    and "\<And>x w st h w1. fb_transac x \<noteq> 0 \<Longrightarrow> fe_rollback env (fb_transac x) w = (st, h, w1) \<Longrightarrow> \<not> is_error st \<Longrightarrow>
      P x w ((logged env x)\<lparr>fb_status := st, fb_transac := 0, fb_pending := False\<rparr>, w1)"
    and "\<And>x w st h w1 r. fb_transac x \<noteq> 0 \<Longrightarrow> fe_rollback env (fb_transac x) w = (st, h, w1) \<Longrightarrow> is_error st \<Longrightarrow>
      P ((logged env x)\<lparr>fb_status := st, fb_transac := h\<rparr>) w1 r \<Longrightarrow> P x w r"
  shows "P x w r"
proof -
  let ?Q = "\<lambda>e x w r. e = env \<longrightarrow> P x w r"
  have "(case ((env, x), w) of (p, q) \<Rightarrow> (case p of (e, y) \<Rightarrow> ?Q e y) q) r"
  proof (rule fb_log_status.raw_induct [where P = ?Q])
    fix f e x w r
    assume IH: "\<And>e y v r. f e y v = Some r \<Longrightarrow> ?Q e y v r"
      and body: "Option.bind (into 8193 (concat (map (\<lambda>s. s @ [LF]) (fe_interpret e (fb_status x)))))
        (\<lambda>m. let x1 = x\<lparr>fb_msgerror := Some m, fb_errorcode := snd (fb_status x)\<rparr>
          in if fb_transac x1 = 0 then Some (x1, w)
             else case fe_rollback e (fb_transac x1) w of
               (st, h, w1) \<Rightarrow> let x2 = x1\<lparr>fb_status := st, fb_transac := h\<rparr>
                  in if CHECK_ERROR x2 then f e x2 w1 else Some (x2\<lparr>fb_transac := 0, fb_pending := False\<rparr>, w1)) = Some r"
    obtain st h w1 where rb: "fe_rollback e (fb_transac x) w = (st, h, w1)" by (metis prod.exhaust)
    have "into 8193 (concat (map (\<lambda>s. s @ [LF]) (fe_interpret e (fb_status x)))) =
        Some (concat (map (\<lambda>s. s @ [LF]) (fe_interpret e (fb_status x))))"
      using body by (auto simp: into_def split: if_splits)
    then have body2: "(if fb_transac x = 0 then Some (logged e x, w)
        else if is_error st then f e ((logged e x)\<lparr>fb_status := st, fb_transac := h\<rparr>) w1
        else Some ((logged e x)\<lparr>fb_status := st, fb_transac := 0, fb_pending := False\<rparr>, w1)) = Some r"
      using body
      by (cases "fb_transac x = 0"; cases "is_error st")
         (simp_all add: Let_def rb CHECK_ERROR_is_error logged_def status_text_def)
    show "?Q e x w r"
    proof
      assume e: "e = env"
      consider "fb_transac x = 0" | "fb_transac x \<noteq> 0" "\<not> is_error st" | "fb_transac x \<noteq> 0" "is_error st" by blast
      then show "P x w r"
      proof cases
        case 1
        then show ?thesis using body2 assms(2) e by auto
      next
        case 2
        then have r: "r = ((logged env x)\<lparr>fb_status := st, fb_transac := 0, fb_pending := False\<rparr>, w1)"
          using body2 e by simp
        show ?thesis unfolding r by (rule assms(3) [OF 2(1)]) (use rb e 2(2) in simp_all)
      next
        case 3
        then have "f e ((logged e x)\<lparr>fb_status := st, fb_transac := h\<rparr>) w1 = Some r" using body2 by simp
        from IH [OF this] e have "P ((logged env x)\<lparr>fb_status := st, fb_transac := h\<rparr>) w1 r" by simp
        then show ?thesis using assms(4) [OF 3(1)] 3(2) rb e by blast
      qed
    qed
  qed (simp add: assms(1))
  then show ?thesis by simp
qed

lemma log_status_ends:
  assumes "fb_log_status env x w = Some r"
  shows "fb_transac x = 0 \<or> (\<exists>k. rollback_ends env k (fb_transac x) w)"
  using assms
proof (induction rule: log_status_induct)
  case (ended x w st h w1)
  then have "rollback_ends env 0 (fb_transac x) w" by (simp add: rollback_ends_def)
  then show ?case by blast
next
  case (again x w st h w1 r)
  show ?case
  proof (cases "h = 0")
    case True
    then have "rollback_ends env 0 (fb_transac x) w" using again by (simp add: rollback_ends_def)
    then show ?thesis by blast
  next
    case False
    then obtain k where "rollback_ends env k h w1" using again.IH by auto
    then have "rollback_ends env (Suc k) (fb_transac x) w" using again by (simp add: rollback_ends_def)
    then show ?thesis by blast
  qed
qed simp

text \<open>C25: Recording an error comes back exactly when there is no transaction or one of the attempts to roll it back
  is no error or leaves no transaction: while the library says that the rolling back failed, it is tried again.
  The messages of the library are taken to fit their buffer.\<close>

theorem error_recorded_iff:
  assumes "\<And>st. length (status_text env st) < 8193"
  shows "(\<exists>r. fb_log_status env x w = Some r) \<longleftrightarrow> fb_transac x = 0 \<or> (\<exists>k. rollback_ends env k (fb_transac x) w)"
proof
  assume "\<exists>r. fb_log_status env x w = Some r"
  then show "fb_transac x = 0 \<or> (\<exists>k. rollback_ends env k (fb_transac x) w)"
    using log_status_ends by (elim exE)
next
  assume "fb_transac x = 0 \<or> (\<exists>k. rollback_ends env k (fb_transac x) w)"
  then show "\<exists>r. fb_log_status env x w = Some r"
    using log_status_returns [OF assms] log_status_idle [OF assms] by (elim disjE exE) simp_all
qed

theorem error_recorded_iff_witness:
  "fb_log_status (demo_fb\<lparr>fe_rollback := (\<lambda>h w. ((1, 335544721), h, w))\<rparr>)
     \<lparr>fb_db = 1, fb_status = (1, 335544721), fb_transac = 1, fb_stmt = 0, fb_vars = [], fb_msgerror = None,
      fb_errorcode = 0, fb_pending = True, fb_query = 0\<rparr> 0 = None"
proof -
  let ?env = "demo_fb\<lparr>fe_rollback := (\<lambda>h w. ((1, 335544721), h, w))\<rparr>"
  have fits: "length (status_text ?env st) < 8193" for st by (simp add: status_text_def demo_fb_def)
  have "after_rollbacks ?env k h w = ((1, 335544721), h, w)" for k h w by (induction k) simp_all
  then have "\<not> rollback_ends ?env k 1 0" for k by (simp add: rollback_ends_def is_error_def)
  then have "\<not> (\<exists>r. fb_log_status ?env \<lparr>fb_db = 1, fb_status = (1, 335544721), fb_transac = 1, fb_stmt = 0, fb_vars = [],
      fb_msgerror = None, fb_errorcode = 0, fb_pending = True, fb_query = 0\<rparr> 0 = Some r)"
    unfolding error_recorded_iff [OF fits] by simp
  then show ?thesis by (simp only: not_Some_eq [symmetric] not_ex) blast
qed

text \<open>An error of a fetch is the end of the rows to the program; with the later versions it is one more row, and
  the memory of the columns has the one before.\<close>

lemma fetch_error_hidden:
  assumes "fe_fetch env w = (st, ds, w1)" "snd st \<noteq> 0" "snd st \<noteq> 100"
  shows "SR_FBFETCH3 env (Some x) w = (sql_code SQL_SUCCESS, Some (x\<lparr>fb_status := st\<rparr>), w1)"
    and "\<not> fe_new env \<Longrightarrow> SR_FBFETCH env (Some x) w = (sql_code SQL_NO_DATA, Some (x\<lparr>fb_status := st\<rparr>), w1)"
  using assms by (cases x; simp add: SR_FBFETCH3_def SR_FBFETCH_def)+

section \<open>Transactions\<close>





























end
