(* ===== verification/MysqlProps.thy ===== *)
theory MysqlProps
  imports ConnDemo
begin

text \<open>
  The connections to MySQL and MariaDB: the width of a text column in characters, and what the ends of
  transactions report.
\<close>

section \<open>Widths\<close>

text \<open>What a row of the query tells of a collation, if it does.\<close>

definition collation_row :: "bytes option list \<Rightarrow> (nat \<times> nat) option" where
  "collation_row row =
     (case row of
        Some a # Some b # _ \<Rightarrow>
          (if c_strtoul a < SR_MYSQL_MAX_COLLATION \<and> 0 < c_strtoul b \<and> c_strtoul b < 256
           then Some (c_strtoul a, c_strtoul b) else None)
      | _ \<Rightarrow> None)"

lemma charset_rows_step:
  "charset_rows (row # rows) m =
     charset_rows rows (case collation_row row of None \<Rightarrow> m | Some (i, k) \<Rightarrow> m[i := k])"
  by (simp add: collation_row_def Let_def split: list.split option.split)

declare charset_rows.simps(2) [simp del]

lemma length_charset_rows [simp]: "length (charset_rows rows m) = length m"
  by (induction rows arbitrary: m) (simp_all add: charset_rows_step split: option.split)

text \<open>An entry is as it was, or what some row says of the collation.\<close>

lemma charset_entry:
  "n < length m \<Longrightarrow> charset_rows rows m ! n = m ! n \<and> (\<forall>row \<in> set rows. \<forall>k. collation_row row \<noteq> Some (n, k)) \<or>
     (\<exists>row \<in> set rows. collation_row row = Some (n, charset_rows rows m ! n))"
proof (induction rows arbitrary: m)
  case (Cons row rows)
  show ?case
  proof (cases "collation_row row")
    case None
    then show ?thesis using Cons by (auto simp: charset_rows_step)
  next
    case (Some p)
    obtain i k where p: "p = (i, k)" by (cases p)
    show ?thesis
      using Cons.IH [of "m[i := k]"] Cons.prems Some p
      by (cases "i = n") (auto simp: charset_rows_step)
  qed
qed simp

lemma collation_row_bounds: "collation_row row = Some (n, k) \<Longrightarrow> n < SR_MYSQL_MAX_COLLATION \<and> 0 < k \<and> k < 256"
  by (auto simp: collation_row_def split: list.splits option.splits if_splits)

lemma int32_small: "n < 2 ^ 31 \<Longrightarrow> int32 n = int n"
  by (simp add: int32_def signed_take_bit_int_eq_self signed_of_nat)

lemma char_len_exact:
  assumes "0 < k" "0 < chars" "chars * k < 2 ^ 31"
  shows "char_len k (chars * k) = int chars"
proof -
  have "chars \<le> chars * k" using assms(1) by simp
  then have "chars < 2 ^ 31" using assms(3) by linarith
  moreover have "(if k > 1 then chars * k div k else chars * k) = chars" using assms(1) by simp
  ultimately show ?thesis using assms(2) by (simp add: char_len_def int32_small Let_def)
qed

text \<open>A library that answers the query for the collations and every other one.\<close>

definition demo_collations :: myresult where
  "demo_collations = \<lparr>m_fields = [], m_rows = [[Some ''8'', Some ''1''], [Some ''45'', Some ''4'']]\<rparr>"

definition demo_utf :: "bool my_env" where
  "demo_utf =
     \<lparr>me_col = demo_col, me_init = (\<lambda>w. (True, w)), me_connect = (\<lambda>b s w. w), me_close = (\<lambda>b w. w),
      me_library_end = id, me_query = (\<lambda>q w. (0, q = charset_query)),
      me_store = (\<lambda>w. (Some (if w then demo_collations else demo_my_rows), w)),
      me_affected_rows = (\<lambda>w. 2), me_errno = (\<lambda>w. 0), me_error = (\<lambda>w. []), me_charset = (\<lambda>w. (8, 1)),
      me_commit = (\<lambda>w. (False, w)), me_rollback = (\<lambda>w. (False, w)), me_thread_id = (\<lambda>w. 1),
      me_kill = (\<lambda>n w. (0, w)), me_version = (\<lambda>w. 80000)\<rparr>"

lemma map_of_connection:
  assumes "SR_MYSCONNECT env compress args (u, w0) = (Some x, u1, w1)"
    and "me_query env charset_query (me_connect env compress args (snd (me_init env w0))) = (0, w2)"
    and "me_store env w2 = (Some m, w3)"
  shows "ms_dbh x" "ms_maxlen x = charset_rows (m_rows m) (ms_maxlen (zero_session True))"
proof -
  obtain b v where i: "me_init env w0 = (b, v)" by (metis prod.exhaust)
  show "ms_dbh x" "ms_maxlen x = charset_rows (m_rows m) (ms_maxlen (zero_session True))"
    using assms i by (auto simp: SR_MYSCONNECT_def my_connect_def SR_MysLoadCharsetMap_def zero_session_def Let_def split: bool.splits)
qed

lemma bytes_per_character:
  assumes "ms_maxlen x = charset_rows (m_rows m) (ms_maxlen (zero_session True))"
    and "row \<in> set (m_rows m)" "collation_row row = Some (n, k)"
    and "\<And>row' k'. row' \<in> set (m_rows m) \<Longrightarrow> collation_row row' = Some (n, k') \<Longrightarrow> k' = k"
  shows "SR_MysColMaxLen env x n w = k"
proof -
  have b: "n < SR_MYSQL_MAX_COLLATION" "0 < k" using collation_row_bounds [OF assms(3)] by simp_all
  let ?z = "ms_maxlen (zero_session True)"
  have len: "n < length ?z" using b(1) by (simp add: zero_session_def)
  have "ms_maxlen x ! n = k" using charset_entry [OF len, of "m_rows m"] assms(2-4) unfolding assms(1) by blast
  moreover have "n < length (ms_maxlen x)" using len assms(1) by simp
  ultimately show ?thesis using b by (simp add: SR_MysColMaxLen_def)
qed

text \<open>C26: After a connection to MySQL and a query, the width by which the query's description names a text column
  is the number of its characters. The server tells the length of column \<open>i\<close> in bytes, which is the number of
  characters times the bytes per character of that column's own collation; the map of the collations, which the
  connection reads when it is made, has these bytes, if it has a row for the collation and its rows do not
  contradict each other. The character set of the connection has no part in it.\<close>

theorem width_in_characters:
  assumes "SR_MYSCONNECT env compress args (u, w0) = (Some x, u1, w1)"
    and "me_query env charset_query (me_connect env compress args (snd (me_init env w0))) = (0, w2)"
    and "me_store env w2 = (Some m, w3)"
    and "SR_MYSEXEC env q (Some x) w4 = (Some r, s, w5)"
    and "i < length (m_fields r)" "mf_type (m_fields r ! i) \<in> {MYSQL_STRING_TYPE, MYSQL_VAR_STRING_TYPE}"
    and "row \<in> set (m_rows m)" "collation_row row = Some (mf_charset (m_fields r ! i), k)"
    and "\<And>row' k'. row' \<in> set (m_rows m) \<Longrightarrow> collation_row row' = Some (mf_charset (m_fields r ! i), k') \<Longrightarrow> k' = k"
    and "mf_length (m_fields r ! i) = chars * k" "0 < chars" "chars * k < 2 ^ 31"
  shows "\<exists>ds. SR_MYSQUERYATTR env s w6 = Arr 0 ds \<and> length ds = length (m_fields r) \<and>
    col_letter (ds ! i) = ''C'' \<and> col_len (ds ! i) = int chars"
proof -
  let ?f = "m_fields r ! i"
  note x = map_of_connection [OF assms(1-3)]
  obtain y where y: "s = Some y" "ms_dbh y" "ms_stmt y = Some r" "ms_numcols y = length (m_fields r)" "ms_maxlen y = ms_maxlen x"
    using assms(4) x(1) by (auto simp: SR_MYSEXEC_def Let_def split: prod.splits)
  have b: "mf_charset ?f < SR_MYSQL_MAX_COLLATION" "0 < k" using collation_row_bounds [OF assms(8)] by simp_all
  have "SR_MysColMaxLen env y (mf_charset ?f) w6 = k"
    by (rule bytes_per_character [OF _ assms(7-9)]) (simp add: x(2) y(5))
  then have "my_type (SR_MysColMaxLen env y (mf_charset ?f mod 2 ^ 32) w6) ?f = Some (''C'', int chars, 0, SQL_CHAR)"
    using assms(6,10-12) b char_len_exact [of k chars] by (auto simp: my_type_def Let_def)
  then show ?thesis using assms(5) y by (auto simp: SR_MYSQUERYATTR_def my_attributes_def my_result_def)
qed

theorem width_in_characters_witness:
  "\<exists>s ds. snd (SR_MYSEXEC demo_utf ''SELECT CODE FROM T'' (fst (SR_MYSCONNECT demo_utf False [] (0, False))) False) = (s, False) \<and>
     SR_MYSQUERYATTR demo_utf s False = Arr 0 ds \<and> col_letter (ds ! 0) = ''C'' \<and> col_len (ds ! 0) = 3"
proof -
  let ?q = "''SELECT CODE FROM T''"
  let ?x = "(zero_session True)\<lparr>ms_map_loaded := True,
      ms_maxlen := charset_rows (m_rows demo_collations) (ms_maxlen (zero_session True))\<rparr>"
  have c: "SR_MYSCONNECT demo_utf False [] (0, False) = (Some ?x, 1, True)"
    by (simp add: SR_MYSCONNECT_def my_connect_def SR_MysLoadCharsetMap_def demo_utf_def zero_session_def Let_def)
  have q: "?q \<noteq> charset_query" by (simp add: charset_query_def)
  let ?s = "Some (?x\<lparr>ms_stmt := Some demo_my_rows, ms_affected := 2, ms_numcols := 1, ms_ifetch := - 1\<rparr>)"
  have e: "SR_MYSEXEC demo_utf ?q (Some ?x) False = (Some demo_my_rows, ?s, False)"
    using q by (simp add: SR_MYSEXEC_def demo_utf_def demo_my_rows_def zero_session_def Let_def)
  have r: "collation_row [Some ''8'', Some ''1''] = Some (8, 1)" "collation_row [Some ''45'', Some ''4''] = Some (45, 4)"
    by code_simp+
  have "\<exists>ds. SR_MYSQUERYATTR demo_utf ?s False = Arr 0 ds \<and> length ds = length (m_fields demo_my_rows) \<and>
      col_letter (ds ! 0) = ''C'' \<and> col_len (ds ! 0) = int 3"
    by (rule width_in_characters [OF c _ _ e, of True demo_collations True _ "[Some ''45'', Some ''4'']" 4])
       (use r in \<open>auto simp: demo_utf_def demo_collations_def demo_my_rows_def\<close>)
  then show ?thesis using c e by auto
qed

text \<open>MariaDB divides by the bytes per character of the connection instead: a column of ten characters of one
  byte gets a width of two over a connection with four bytes per character.\<close>

lemma maria_width_of_connection:
  assumes "snd (me_charset env w) = 4" "mf_type f = MYSQL_VAR_STRING_TYPE" "mf_length f = 10"
  shows "my_type (maria_col_maxlen env w) f = Some (''C'', 2, 0, SQL_CHAR)"
  using assms by (simp add: my_type_def maria_col_maxlen_def char_len_def int32_small Let_def)

section \<open>Ends of transactions\<close>

text \<open>Both ends report success exactly when the library reports an error.\<close>

lemma end_status_inverted:
  assumes "my_connected s"
  shows "fst (SR_MYSCOMMIT env s w) = sql_code SQL_SUCCESS \<longleftrightarrow> fst (me_commit env w)"
    and "fst (SR_MYSROLLBACK env s w) = sql_code SQL_SUCCESS \<longleftrightarrow> fst (me_rollback env w)"
  using assms by (auto simp: SR_MYSCOMMIT_def SR_MYSROLLBACK_def split: prod.split)

end
