(* ===== verification/OdbcProps.thy ===== *)
theory OdbcProps
  imports ConnDemo
begin

text \<open>
  The connection through ODBC: a text is read whole, both by record and by page, and where the records of a
  page are put in the cache of the work area, so that its searches find them.
\<close>

section \<open>Texts\<close>

text \<open>
  A driver that hands out a text \<open>s\<close> of a column: asked without a buffer it tells the length, a buffer that is
  large enough gets the text, and a smaller one its beginning, which is cut; then the next call gives the rest.
\<close>

definition hands_out :: "'w odbc_env \<Rightarrow> nat \<Rightarrow> bytes \<Rightarrow> 'w \<Rightarrow> 'w \<Rightarrow> bool" where
  "hands_out env n s w w1 \<longleftrightarrow>
     oe_get_char env 0 n w = (SQL_SUCCESS_WITH_INFO, [], Some (int (length s)), w) \<and>
     (\<forall>room. length s < room \<longrightarrow> oe_get_char env room n w = (SQL_SUCCESS, s, Some (int (length s)), w1)) \<and>
     (\<forall>room. 0 < room \<and> room \<le> length s \<longrightarrow>
        (\<exists>w2. oe_get_char env room n w = (SQL_SUCCESS_WITH_INFO, take (room - 1) s, Some (int (length s)), w2) \<and>
          (\<forall>room2. length s < room2 + (room - 1) \<longrightarrow>
             oe_get_char env room2 n w2 = (SQL_SUCCESS, drop (room - 1) s, Some (int (length s - (room - 1))), w1))))"

lemma cstring_id: "NUL \<notin> set s \<Longrightarrow> cstring s = s"
  by (auto simp: cstring_def takeWhile_eq_all_conv)

lemma cstring_parts:
  assumes "NUL \<notin> set s"
  shows "cstring (take n s) @ cstring (drop n s) = s"
proof -
  have "NUL \<notin> set (take n s)" "NUL \<notin> set (drop n s)" using assms set_take_subset set_drop_subset by fast+
  then show ?thesis by (simp add: cstring_id)
qed

lemma text_by_page:
  assumes "hands_out env n s w w1" "NUL \<notin> set s" "0 < len"
  shows "get_line_column env sys bT f n len w =
    map_option (\<lambda>v. (Some v, if length s < len then len else length s + 3, w1))
      (sr_odbcFieldGet env f s (int (length s)) False sys bT)"
proof (cases "length s < len")
  case True
  then have "oe_get_char env len n w = (SQL_SUCCESS, s, Some (int (length s)), w1)"
    using assms(1) by (simp add: hands_out_def)
  then show ?thesis using True by (simp add: get_line_column_def ind_of_def)
next
  case False
  then obtain w2 where first: "oe_get_char env len n w = (SQL_SUCCESS_WITH_INFO, take (len - 1) s, Some (int (length s)), w2)"
    and rest: "\<And>room2. length s < room2 + (len - 1) \<Longrightarrow>
      oe_get_char env room2 n w2 = (SQL_SUCCESS, drop (len - 1) s, Some (int (length s - (len - 1))), w1)"
    using assms(1,3) unfolding hands_out_def by (meson not_le)
  have second: "oe_get_char env (length s + 3) n w2 = (SQL_SUCCESS, drop (len - 1) s, Some (int (length s - (len - 1))), w1)"
    by (rule rest) simp
  have l: "int (length s - (len - 1)) + int len - 1 = int (length s)" using False assms(3) by simp
  have "get_line_column env sys bT f n len w = get_long_text env sys bT f n len (take (len - 1) s) (int (length s)) w2"
    using False by (simp add: get_line_column_def first ind_of_def)
  also have "\<dots> = map_option (\<lambda>v. (Some v, length s + 3, w1)) (sr_odbcFieldGet env f s (int (length s)) False sys bT)"
    using l by (simp add: get_long_text_def second SQL_SUCCEEDED_def cstring_parts [OF assms(2)] ind_of_def
        map_option_case split: Option.bind_split option.split)
  finally show ?thesis using False by simp
qed

lemma text_by_record:
  assumes "hands_out env n s w w1" "s \<noteq> []"
  shows "get_text env f old False sys bT n w =
    map_option (\<lambda>v. (v, w1)) (sr_odbcFieldGet env f s (int (length s)) False sys bT)"
proof -
  have "oe_get_char env 0 n w = (SQL_SUCCESS_WITH_INFO, [], Some (int (length s)), w)"
    "oe_get_char env (length s + 1) n w = (SQL_SUCCESS, s, Some (int (length s)), w1)"
    using assms(1) by (simp_all add: hands_out_def)
  then show ?thesis using assms(2) by (simp add: get_text_def ind_of_def SQL_SUCCEEDED_def)
qed

text \<open>C14: A text column is read whole in both ways, and to the same value: by record, asking for the length first,
  and by page, with a second call for what did not fit into the buffer, whatever the size of the buffer is.\<close>

theorem text_read_whole:
  assumes "hands_out env n s w w1" "NUL \<notin> set s" "s \<noteq> []" "0 < len"
    and "col_domain f \<in> odbc_char_types \<union> odbc_memo_types \<union> {SQL_VARBINARY}"
  shows "SR_odbcGetData env f old False sys bT n w =
      map_option (\<lambda>v. (v, w1)) (odbc_content env f s False sys bT) \<and>
    get_line_column env sys bT f n len w =
      map_option (\<lambda>v. (Some v, if length s < len then len else length s + 3, w1)) (odbc_content env f s False sys bT)"
proof -
  have "sr_odbcFieldGet env f s (int (length s)) False sys bT = odbc_content env f s False sys bT"
    using assms(3) by (simp add: sr_odbcFieldGet_def)
  moreover have "(col_domain f \<in> odbc_char_types \<or> col_domain f \<in> odbc_memo_types \<or> col_domain f = SQL_VARBINARY) = True"
    using assms(5) by blast
  then have "SR_odbcGetData env f old False sys bT n w = get_text env f old False sys bT n w"
    unfolding SR_odbcGetData_def Let_def by (simp only: if_True)
  ultimately show ?thesis
    using text_by_page [OF assms(1,2,4), of sys bT f] text_by_record [OF assms(1,3), of f old sys bT] by simp
qed

theorem text_read_whole_witness:
  "SR_odbcGetData demo_odbc (column_array ''NOTE'' (INum 1) (Some (''M'', 10, 0, SQL_LONGVARCHAR)) True) NIL False
     RDBMS_MSSQL7 False 1 (''abcde'', 0) = Some (Str ''abcde'', [], 0) \<and>
   get_line_column demo_odbc RDBMS_MSSQL7 False (column_array ''NOTE'' (INum 1) (Some (''M'', 10, 0, SQL_LONGVARCHAR)) True) 1 4
     (''abcde'', 0) = Some (Some (Str ''abcde''), 8, [], 0)"
proof -
  let ?f = "column_array ''NOTE'' (INum 1) (Some (''M'', 10, 0, SQL_LONGVARCHAR)) True"
  have h: "hands_out demo_odbc 1 ''abcde'' (''abcde'', 0) ([], 0)"
    by (auto simp: hands_out_def demo_odbc_def)
  have c: "odbc_content demo_odbc ?f ''abcde'' False RDBMS_MSSQL7 False = Some (Str ''abcde'')" by code_simp
  show ?thesis
    using text_read_whole [OF h, of 4 ?f NIL RDBMS_MSSQL7 False] c by (simp add: odbc_memo_types_def)
qed

section \<open>Numbers\<close>

text \<open>Where a C \<open>long\<close> has 64 bits, a negative number of a narrow column becomes a large one.\<close>

lemma negative_number_read:
  assumes "oe_long_size env = 8" "oe_get_long env n w = (SQL_SUCCESS, - 1, Some 4, w1)"
    and "col_domain f = SQL_INTEGER" "0 \<le> col_len f" "col_len f < 10"
  shows "SR_odbcGetData env f old q sys bT n w = Some (INum 4294967295, w1)"
  using assms
  by (simp add: SR_odbcGetData_def odbc_char_types_def odbc_memo_types_def get_value_def in_long_def SQL_SUCCEEDED_def
      ind_of_def Let_def)

section \<open>Pages\<close>

text \<open>The step to the next position of the cache is the one of the searches.\<close>

lemma ring_next_steps: "on_ring p \<Longrightarrow> ring_next fwd p = (if fwd then step_fwd p else step_bwd p)"
  by (auto simp: ring_next_def step_fwd_def step_bwd_def fixCachePointer_def on_ring_def)

lemma ring_next_on_ring: "on_ring p \<Longrightarrow> on_ring (ring_next fwd p)"
  by (auto simp: ring_next_def on_ring_def)

lemma ring_next_iter: "on_ring p \<Longrightarrow> on_ring ((ring_next fwd ^^ k) p)"
  by (induction k) (simp_all add: ring_next_on_ring)

lemma ring_next_far:
  assumes "on_ring p"
  shows "(ring_next fwd ^^ k) p = (p - 1 + (if fwd then int k else - int k)) mod 600 + 1"
proof -
  have "(ring_next fwd ^^ k) p = (if fwd then (step_fwd ^^ k) p else (step_bwd ^^ k) p)"
  proof (induction k)
    case (Suc k)
    then show ?case using ring_next_steps [OF ring_next_iter [OF assms], of fwd k fwd] by (cases fwd) simp_all
  qed simp
  then show ?thesis using step_fwd_power [OF assms, of k] step_bwd_power [OF assms, of k] by simp
qed

lemma ring_next_distinct:
  assumes "on_ring p" "i < j" "j < i + 600"
  shows "(ring_next fwd ^^ i) p \<noteq> (ring_next fwd ^^ j) p"
proof
  assume "(ring_next fwd ^^ i) p = (ring_next fwd ^^ j) p"
  then have "(p - 1 + (if fwd then int i else - int i)) mod 600 = (p - 1 + (if fwd then int j else - int j)) mod 600"
    by (simp add: ring_next_far [OF assms(1)])
  then have "600 dvd (if fwd then int i - int j else int j - int i)"
    by (auto simp: mod_eq_dvd_iff split: if_splits)
  then have "600 dvd int (j - i)"
    using assms(2) by (auto simp: of_nat_diff dvd_diff_commute split: if_splits)
  then have "600 \<le> int (j - i)" using assms(2) by (intro zdvd_imp_le) auto
  then show False using assms(3) by simp
qed

text \<open>A driver that has rows of texts: each is fetched, and its columns are handed out in their order; after the
  last there is no more data.\<close>

definition column_no :: "nat \<Rightarrow> item \<Rightarrow> nat" where
  "column_no i f = nat ((if col_enum f = 0 then int i else col_enum f) mod 2 ^ 16)"

fun gives_row :: "'w odbc_env \<Rightarrow> nat \<Rightarrow> item list \<Rightarrow> bytes list \<Rightarrow> 'w \<Rightarrow> 'w \<Rightarrow> bool" where
  "gives_row env i [] [] w w1 = (w1 = w)"
| "gives_row env i (f # fs) (t # ts) w w1 =
     (NUL \<notin> set t \<and> (\<exists>w2. hands_out env (column_no i f) t w w2 \<and> gives_row env (Suc i) fs ts w2 w1))"
| "gives_row env i _ _ w w1 = False"

fun gives_rows :: "'w odbc_env \<Rightarrow> item list \<Rightarrow> bytes list list \<Rightarrow> 'w \<Rightarrow> bool" where
  "gives_rows env fs [] w = (\<exists>w1. oe_fetch env w = (SQL_NO_DATA, w1))"
| "gives_rows env fs (ts # rows) w =
     (\<exists>w1 w2. oe_fetch env w = (SQL_SUCCESS, w1) \<and> gives_row env 1 fs ts w1 w2 \<and> gives_rows env fs rows w2)"

text \<open>The values of a row.\<close>

fun row_items :: "'w odbc_env \<Rightarrow> int \<Rightarrow> bool \<Rightarrow> item list \<Rightarrow> bytes list \<Rightarrow> item list option" where
  "row_items env sys bT (f # fs) (t # ts) = do {
     v \<leftarrow> sr_odbcFieldGet env f t (int (length t)) False sys bT;
     vs \<leftarrow> row_items env sys bT fs ts;
     Some (v # vs)
   }"
| "row_items env sys bT _ _ = Some []"

lemma line_read:
  assumes "gives_row env i fs ts w w1" "row_items env sys bT fs ts = Some vs" "0 < len" "1 \<le> i" "i - 1 + length fs = length xs"
  shows "\<exists>len1 > 0. get_line env sys bT i fs (Arr c xs) len w = Some (Arr c (take (i - 1) xs @ vs), len1, w1) \<and>
    length vs = length fs"
  using assms
proof (induction env i fs ts w w1 arbitrary: vs len xs rule: gives_row.induct)
  case (1 env i w w1)
  then show ?case by auto
next
  case (2 env i f fs t ts w w1)
  obtain w2 where w2: "hands_out env (column_no i f) t w w2" "gives_row env (Suc i) fs ts w2 w1" "NUL \<notin> set t"
    using "2.prems"(1) by auto
  obtain v vs1 where v: "sr_odbcFieldGet env f t (int (length t)) False sys bT = Some v"
    "row_items env sys bT fs ts = Some vs1" "vs = v # vs1"
    using "2.prems"(2) by (auto split: Option.bind_splits)
  let ?len = "if length t < len then len else length t + 3"
  have c: "get_line_column env sys bT f (column_no i f) len w = Some (Some v, ?len, w2)"
    using text_by_page [OF w2(1,3) "2.prems"(3), of sys bT f] v(1) by simp
  have i: "1 \<le> i" "i \<le> length xs" using "2.prems"(4,5) by simp_all
  have "\<exists>len1 > 0. get_line env sys bT (Suc i) fs (Arr c (xs[i - 1 := v])) ?len w2 =
      Some (Arr c (take (Suc i - 1) (xs[i - 1 := v]) @ vs1), len1, w1) \<and> length vs1 = length fs"
    by (rule "2.IH" [OF w2(2) v(2)]) (use "2.prems"(3,5) i in simp_all)
  moreover have "take i (xs[i - 1 := v]) = take (i - 1) xs @ [v]"
    using i take_Suc_conv_app_nth [of "i - 1" "xs[i - 1 := v]"] by simp
  ultimately show ?case
    using c i by (simp add: column_no_def v(3) arr_set_def)
qed simp_all

text \<open>The cells of the cache are empty, or records with a value for each column.\<close>

definition record_cells :: "nat \<Rightarrow> item list \<Rightarrow> bool" where
  "record_cells n c \<longleftrightarrow> length c = 600 \<and> (\<forall>v \<in> set c. v = NIL \<or> (\<exists>k xs. v = Arr k xs \<and> length xs = n))"

lemma record_cells_update: "record_cells n c \<Longrightarrow> length xs = n \<Longrightarrow> record_cells n (c[m := Arr k xs])"
  by (auto simp: record_cells_def dest!: set_update_subset_insert [THEN subsetD])

lemma cell_update:
  "record_cells n c \<Longrightarrow> on_ring p \<Longrightarrow> on_ring q \<Longrightarrow> cell (c[nat (p - 1) := v]) q = (if q = p then Some v else cell c q)"
  by (auto simp: record_cells_def cell_def on_ring_def nth_list_update)

lemma store_line_read:
  assumes "gives_row env 1 fs ts (gl_world g) w1" "row_items env sys bT fs ts = Some vs" "0 < gl_len g"
    and "record_cells (length fs) (gl_cache g)" "on_ring (gl_pos g)"
  obtains g1 where "store_line env fs sys bT fwd n all g = Some g1" "gl_pos g1 = ring_next fwd (gl_pos g)"
    "record_cells (length fs) (gl_cache g1)" "gl_info g1 = gl_info g" "gl_world g1 = w1" "0 < gl_len g1"
    "gl_rec g1 = INum (hb_itemGetNL (arr_get NIL vs n))"
    "\<exists>k. cell (gl_cache g1) (gl_pos g1) = Some (Arr k vs)"
    "\<forall>q. on_ring q \<and> q \<noteq> gl_pos g1 \<longrightarrow> cell (gl_cache g1) q = cell (gl_cache g) q"
proof -
  let ?p = "ring_next fwd (gl_pos g)"
  have p: "on_ring ?p" by (rule ring_next_on_ring [OF assms(5)])
  then obtain v where v: "cell (gl_cache g) ?p = Some v" "v = NIL \<or> (\<exists>k xs. v = Arr k xs \<and> length xs = length fs)"
    using assms(4) by (auto simp: record_cells_def cell_def on_ring_def)
  obtain k xs where xs: "(if v = NIL then Arr 0 (replicate (length fs) NIL) else v) = Arr k xs" "length xs = length fs"
    using v(2) by auto
  obtain len1 where l: "0 < len1" "get_line env sys bT 1 fs (Arr k xs) (gl_len g) (gl_world g) = Some (Arr k vs, len1, w1)"
    "length vs = length fs"
    using line_read [OF assms(1-3), of xs k] xs(2) by auto
  define rec where "rec = INum (hb_itemGetNL (arr_get NIL vs n))"
  define g1 where "g1 = g\<lparr>gl_cache := (gl_cache g)[nat (?p - 1) := Arr k vs], gl_rec := rec, gl_pos := ?p, gl_len := len1,
    gl_world := w1, gl_fetch := (if all then hb_arrayAdd (gl_fetch g) rec else gl_fetch g)\<rparr>"
  have "store_line env fs sys bT fwd n all g = Some g1"
    using v(1) l xs(1) by (simp add: store_line_def Let_def g1_def rec_def hb_arrayGet_def)
  then show ?thesis
    by (rule that) (use l assms(4) p in \<open>simp_all add: g1_def rec_def record_cells_update cell_update\<close>)
qed

text \<open>What the reading of a page did with the values of the rows: those of the first \<open>m\<close> are in the positions after
  the one it started from, the other positions are as they were, and the status array tells the end of the
  rows, if they ended.\<close>

definition page_read :: "bool \<Rightarrow> nat \<Rightarrow> nat \<Rightarrow> item list list \<Rightarrow> 'w page \<Rightarrow> 'w page \<Rightarrow> bool" where
  "page_read fwd n k vss g g1 \<longleftrightarrow>
     (let m = min k (length vss) in
      gl_pos g1 = (ring_next fwd ^^ m) (gl_pos g) \<and>
      (\<forall>j < m. \<exists>c. cell (gl_cache g1) ((ring_next fwd ^^ Suc j) (gl_pos g)) = Some (Arr c (vss ! j))) \<and>
      (\<forall>q. on_ring q \<and> (\<forall>j < m. q \<noteq> (ring_next fwd ^^ Suc j) (gl_pos g)) \<longrightarrow> cell (gl_cache g1) q = cell (gl_cache g) q) \<and>
      gl_rec g1 = (if m = 0 then gl_rec g else INum (hb_itemGetNL (arr_get NIL (vss ! (m - 1)) n))) \<and>
      gl_info g1 = (if k \<le> length vss then gl_info g else gl_info (end_of_rows fwd (g1\<lparr>gl_info := gl_info g\<rparr>))))"

lemma page_read_world: "page_read fwd n k vss (g\<lparr>gl_world := w\<rparr>) g1 = page_read fwd n k vss g g1"
  by (simp add: page_read_def)

lemma page_read_step:
  assumes "page_read fwd n k vss g2 g1" "on_ring (gl_pos g)" "k \<le> 599"
    and st: "gl_pos g2 = ring_next fwd (gl_pos g)" "gl_info g2 = gl_info g"
      "gl_rec g2 = INum (hb_itemGetNL (arr_get NIL vs n))" "\<exists>c. cell (gl_cache g2) (gl_pos g2) = Some (Arr c vs)"
      "\<forall>q. on_ring q \<and> q \<noteq> gl_pos g2 \<longrightarrow> cell (gl_cache g2) q = cell (gl_cache g) q"
  shows "page_read fwd n (Suc k) (vs # vss) g g1"
proof -
  let ?m = "min k (length vss)"
  have p: "gl_pos g1 = (ring_next fwd ^^ ?m) (gl_pos g2)"
    "\<And>j. j < ?m \<Longrightarrow> \<exists>c. cell (gl_cache g1) ((ring_next fwd ^^ Suc j) (gl_pos g2)) = Some (Arr c (vss ! j))"
    "\<And>q. on_ring q \<Longrightarrow> \<forall>j < ?m. q \<noteq> (ring_next fwd ^^ Suc j) (gl_pos g2) \<Longrightarrow> cell (gl_cache g1) q = cell (gl_cache g2) q"
    "gl_rec g1 = (if ?m = 0 then gl_rec g2 else INum (hb_itemGetNL (arr_get NIL (vss ! (?m - 1)) n)))"
    "gl_info g1 = (if k \<le> length vss then gl_info g2 else gl_info (end_of_rows fwd (g1\<lparr>gl_info := gl_info g2\<rparr>)))"
    using assms(1) unfolding page_read_def Let_def by blast+
  have on: "on_ring (gl_pos g2)" using st(1) ring_next_on_ring [OF assms(2)] by simp
  have shift: "(ring_next fwd ^^ j) (gl_pos g2) = (ring_next fwd ^^ Suc j) (gl_pos g)" for j
    by (simp only: st(1) funpow_Suc_right o_apply)
  have far: "\<forall>j < ?m. gl_pos g2 \<noteq> (ring_next fwd ^^ Suc j) (gl_pos g2)"
  proof (intro allI impI)
    show "gl_pos g2 \<noteq> (ring_next fwd ^^ Suc j) (gl_pos g2)" if "j < ?m" for j
      using ring_next_distinct [OF on, of 0 "Suc j" fwd] that assms(3) by simp
  qed
  have lines: "\<exists>c. cell (gl_cache g1) ((ring_next fwd ^^ Suc j) (gl_pos g)) = Some (Arr c ((vs # vss) ! j))" if "j < Suc ?m" for j
  proof (cases j)
    case 0
    then show ?thesis using p(3) [OF on far] st(1,4) by simp
  next
    case (Suc i)
    then show ?thesis using p(2) [of i] that unfolding shift by simp
  qed
  have kept: "cell (gl_cache g1) q = cell (gl_cache g) q"
    if q: "on_ring q" "\<forall>j < Suc ?m. q \<noteq> (ring_next fwd ^^ Suc j) (gl_pos g)" for q
  proof -
    have "q \<noteq> gl_pos g2" using q(2) st(1) by force
    moreover have "\<forall>j < ?m. q \<noteq> (ring_next fwd ^^ Suc j) (gl_pos g2)"
      using q(2) unfolding shift by blast
    ultimately show ?thesis using p(3) [OF q(1)] q(1) st(5) by metis
  qed
  have m: "min (Suc k) (length (vs # vss)) = Suc ?m" by simp
  have "gl_pos g1 = (ring_next fwd ^^ Suc ?m) (gl_pos g)" using p(1) unfolding shift .
  moreover have "gl_rec g1 = INum (hb_itemGetNL (arr_get NIL ((vs # vss) ! ?m) n))"
    using p(4) st(3) by (cases ?m) simp_all
  moreover have "gl_info g1 = (if Suc k \<le> length (vs # vss) then gl_info g else gl_info (end_of_rows fwd (g1\<lparr>gl_info := gl_info g\<rparr>)))"
    using p(5) st(2) by simp
  ultimately show ?thesis
    using lines kept unfolding page_read_def m Let_def by simp
qed

lemma lines_read:
  assumes "gives_rows env fs rows (gl_world g)" "list_all2 (\<lambda>ts vs. row_items env sys bT fs ts = Some vs) rows vss"
    and "record_cells (length fs) (gl_cache g)" "on_ring (gl_pos g)" "0 < gl_len g" "k \<le> 600"
  shows "\<exists>g1. get_lines env fs sys bT fwd n all k ret g =
      Some (if length rows < k then SQL_NO_DATA else if k = 0 then ret else SQL_SUCCESS, g1) \<and> page_read fwd n k vss g g1"
  using assms
proof (induction k arbitrary: rows vss ret g)
  case 0
  then show ?case by (simp add: page_read_def)
next
  case (Suc k)
  show ?case
  proof (cases rows)
    case Nil
    then obtain w1 where "oe_fetch env (gl_world g) = (SQL_NO_DATA, w1)" using Suc.prems(1) by auto
    then show ?thesis using Nil Suc.prems(2) by (simp add: page_read_def end_of_rows_def Let_def)
  next
    case (Cons ts rows1)
    obtain w1 w2 where w: "oe_fetch env (gl_world g) = (SQL_SUCCESS, w1)" "gives_row env 1 fs ts w1 w2" "gives_rows env fs rows1 w2"
      using Suc.prems(1) Cons by auto
    obtain vs vss1 where vs: "vss = vs # vss1" "row_items env sys bT fs ts = Some vs"
      "list_all2 (\<lambda>ts vs. row_items env sys bT fs ts = Some vs) rows1 vss1"
      using Suc.prems(2) Cons by (auto simp: list_all2_Cons1)
    let ?g = "g\<lparr>gl_world := w1\<rparr>"
    have ok: "gives_row env 1 fs ts (gl_world ?g) w2" "0 < gl_len ?g" "record_cells (length fs) (gl_cache ?g)" "on_ring (gl_pos ?g)"
      using w(2) Suc.prems(3-5) by simp_all
    obtain g2 where g2: "store_line env fs sys bT fwd n all ?g = Some g2" "gl_pos g2 = ring_next fwd (gl_pos ?g)"
      "record_cells (length fs) (gl_cache g2)" "gl_info g2 = gl_info ?g" "gl_world g2 = w2" "0 < gl_len g2"
      "gl_rec g2 = INum (hb_itemGetNL (arr_get NIL vs n))" "\<exists>k. cell (gl_cache g2) (gl_pos g2) = Some (Arr k vs)"
      "\<forall>q. on_ring q \<and> q \<noteq> gl_pos g2 \<longrightarrow> cell (gl_cache g2) q = cell (gl_cache ?g) q"
      by (rule store_line_read [OF ok(1) vs(2) ok(2-4)])
    have on: "on_ring (gl_pos g2)" using g2(2) ring_next_on_ring [OF ok(4)] by simp
    have "\<exists>g1. get_lines env fs sys bT fwd n all k SQL_SUCCESS g2 =
        Some (if length rows1 < k then SQL_NO_DATA else if k = 0 then SQL_SUCCESS else SQL_SUCCESS, g1) \<and>
        page_read fwd n k vss1 g2 g1"
      by (rule Suc.IH) (use w(3) g2 vs(3) on Suc.prems(6) in simp_all)
    then obtain g1 where g1: "get_lines env fs sys bT fwd n all k SQL_SUCCESS g2 =
        Some (if length rows1 < k then SQL_NO_DATA else SQL_SUCCESS, g1)" "page_read fwd n k vss1 g2 g1"
      by auto
    have "page_read fwd n (Suc k) vss ?g g1"
      unfolding vs(1) by (rule page_read_step [OF g1(2) ok(4) _ g2(2,4,7-9)]) (use Suc.prems(6) in simp)
    then have "page_read fwd n (Suc k) vss g g1" unfolding page_read_world .
    then show ?thesis using w(1) g2(1) g1(1) Cons by auto
  qed
qed

text \<open>A search from a position finds the next one, if it is filled and in the valid part of the cache.\<close>

lemma search_next:
  assumes "on_ring p" "infoNL SR_AINFO_NPOSCACHE a = p" "cell (aCache a) (ring_next fwd p) = Some (Arr c vs)"
    and "in_window a (ring_next fwd p)"
  shows "(if fwd then searchCacheFWD a 1 else searchCacheBWD a 1) = Some (ring_next fwd p)"
  using assms ring_next_steps [OF assms(1), of fwd]
  by (cases fwd) (auto simp: searchCacheFWD_def searchCacheBWD_def fwd_loop.simps bwd_loop.simps Let_def in_window_def
      step_fwd_def step_bwd_def on_ring_def)

text \<open>C9: The records of a page that is read through ODBC are where the searches of the work area look for them,
  in both directions. Of the rows the driver has, as many as were asked for are read; the values of the first
  are at the position after the one the page was read from, those of the next at the one after that, and so
  on round the ring; nothing else of the cache changes; when the rows end the status array says so, with the
  number of the last record and its position. A search in the direction of the page finds its first record from
  the position the page was read from, and from each record the next one, if they are in the valid part of
  the cache. This is for pages of not more records than the ring has.\<close>

theorem page_found_by_search:
  assumes "gives_rows env fs rows (gl_world g)" "list_all2 (\<lambda>ts vs. row_items env sys bT fs ts = Some vs) rows vss"
    and "record_cells (length fs) (gl_cache g)" "on_ring (gl_pos g)" "0 < gl_len g" "fs \<noteq> []" "0 < k" "k \<le> 600"
    and "length (gl_info g) = 22" and "m = min k (length rows)" "fwd = (dir = 1)"
  shows "\<exists>g1. SR_ODBCGETLINES env fs sys bT (int k) dir n all g =
      Some (if length rows < k then SQL_NO_DATA else SQL_SUCCESS, g1) \<and>
    (\<forall>j < m. \<exists>c. cell (gl_cache g1) ((ring_next fwd ^^ Suc j) (gl_pos g)) = Some (Arr c (vss ! j))) \<and>
    (\<forall>q. on_ring q \<and> (\<forall>j < m. q \<noteq> (ring_next fwd ^^ Suc j) (gl_pos g)) \<longrightarrow> cell (gl_cache g1) q = cell (gl_cache g) q) \<and>
    (length rows < k \<longrightarrow>
       arr_get NIL (gl_info g1) (if fwd then SR_AINFO_NCACHEEND else SR_AINFO_NCACHEBEGIN) = INum ((ring_next fwd ^^ m) (gl_pos g)) \<and>
       arr_get NIL (gl_info g1) (if fwd then SR_AINFO_EOF_AT else SR_AINFO_BOF_AT) =
         (if m = 0 then gl_rec g else INum (hb_itemGetNL (arr_get NIL (vss ! (m - 1)) n)))) \<and>
    (\<forall>a. \<forall>j < m. aCache a = gl_cache g1 \<and> infoNL SR_AINFO_NPOSCACHE a = (ring_next fwd ^^ j) (gl_pos g) \<and>
        in_window a ((ring_next fwd ^^ Suc j) (gl_pos g)) \<longrightarrow>
       (if fwd then searchCacheFWD a 1 else searchCacheBWD a 1) = Some ((ring_next fwd ^^ Suc j) (gl_pos g)))"
proof -
  have len: "length vss = length rows" using assms(2) by (simp add: list_all2_lengthD)
  obtain g2 where g2: "get_lines env fs sys bT fwd n all k SQL_ERROR g =
      Some (if length rows < k then SQL_NO_DATA else SQL_SUCCESS, g2)" "page_read fwd n k vss g g2"
    using lines_read [OF assms(1-5,8), of fwd n all SQL_ERROR] assms(7) by auto
  define g1 where "g1 = g2\<lparr>gl_info := arr_set (gl_info g2) SR_AINFO_NPOSCACHE
      (INum (hb_itemGetNL (arr_get NIL (gl_info g) SR_AINFO_NPOSCACHE)))\<rparr>"
  have r: "SR_ODBCGETLINES env fs sys bT (int k) dir n all g = Some (if length rows < k then SQL_NO_DATA else SQL_SUCCESS, g1)"
    using g2(1) assms(5,6,11) by (simp add: SR_ODBCGETLINES_def g1_def)
  have p: "gl_pos g2 = (ring_next fwd ^^ m) (gl_pos g)"
    "\<And>j. j < m \<Longrightarrow> \<exists>c. cell (gl_cache g1) ((ring_next fwd ^^ Suc j) (gl_pos g)) = Some (Arr c (vss ! j))"
    "\<And>q. on_ring q \<and> (\<forall>j < m. q \<noteq> (ring_next fwd ^^ Suc j) (gl_pos g)) \<Longrightarrow> cell (gl_cache g1) q = cell (gl_cache g) q"
    "gl_rec g2 = (if m = 0 then gl_rec g else INum (hb_itemGetNL (arr_get NIL (vss ! (m - 1)) n)))"
    "length rows < k \<Longrightarrow> gl_info g2 = gl_info (end_of_rows fwd (g2\<lparr>gl_info := gl_info g\<rparr>))"
    using g2(2) unfolding page_read_def len assms(10) [symmetric] Let_def by (simp_all add: g1_def)
  have stops: "length rows < k \<longrightarrow>
       arr_get NIL (gl_info g1) (if fwd then SR_AINFO_NCACHEEND else SR_AINFO_NCACHEBEGIN) = INum ((ring_next fwd ^^ m) (gl_pos g)) \<and>
       arr_get NIL (gl_info g1) (if fwd then SR_AINFO_EOF_AT else SR_AINFO_BOF_AT) =
         (if m = 0 then gl_rec g else INum (hb_itemGetNL (arr_get NIL (vss ! (m - 1)) n)))"
    unfolding p(1,4) [symmetric]
  proof
    assume "length rows < k"
    from p(5) [OF this] assms(9)
    show "arr_get NIL (gl_info g1) (if fwd then SR_AINFO_NCACHEEND else SR_AINFO_NCACHEBEGIN) = INum (gl_pos g2) \<and>
        arr_get NIL (gl_info g1) (if fwd then SR_AINFO_EOF_AT else SR_AINFO_BOF_AT) = gl_rec g2"
      by (simp add: g1_def end_of_rows_def arr_get_set)
  qed
  have search: "(if fwd then searchCacheFWD a 1 else searchCacheBWD a 1) = Some ((ring_next fwd ^^ Suc j) (gl_pos g))"
    if j: "j < m" and a: "aCache a = gl_cache g1 \<and> infoNL SR_AINFO_NPOSCACHE a = (ring_next fwd ^^ j) (gl_pos g) \<and>
      in_window a ((ring_next fwd ^^ Suc j) (gl_pos g))" for a j
  proof -
    obtain c where "cell (aCache a) (ring_next fwd ((ring_next fwd ^^ j) (gl_pos g))) = Some (Arr c (vss ! j))"
      using p(2) [OF j] a by auto
    with search_next [OF ring_next_iter [OF assms(4)] _ this] a show ?thesis by simp
  qed
  show ?thesis
    by (rule exI [of _ g1], intro conjI stops r allI impI) (erule p(2), erule p(3), erule search, assumption)
qed

theorem page_found_by_search_witness:
  "\<exists>g1 c d. SR_ODBCGETLINES demo_odbc [demo_field] RDBMS_MSSQL7 False 4 2 1 False demo_page = Some (SQL_NO_DATA, g1) \<and>
     cell (gl_cache g1) 599 = Some (Arr c [Str ''abc'']) \<and> cell (gl_cache g1) 597 = Some (Arr d [Str ''abc''])"
proof -
  have give: "gives_row demo_odbc 1 [demo_field] [''abcde''] (''abcde'', n) ([], n)" for n
    by (auto simp: column_no_def demo_field_def hands_out_def demo_odbc_def)
  have fetch: "oe_fetch demo_odbc ([], Suc n) = (SQL_SUCCESS, ''abcde'', n)" "oe_fetch demo_odbc ([], 0) = (SQL_NO_DATA, [], 0)" for n
    by (simp_all add: demo_odbc_def)
  have g: "gives_rows demo_odbc [demo_field] (replicate 3 [''abcde'']) (gl_world demo_page)"
    using give fetch by (simp add: demo_page_def numeral_3_eq_3) blast
  have v: "row_items demo_odbc RDBMS_MSSQL7 False [demo_field] [''abcde''] = Some [Str ''abc'']" by code_simp
  have l: "list_all2 (\<lambda>ts vs. row_items demo_odbc RDBMS_MSSQL7 False [demo_field] ts = Some vs) (replicate 3 [''abcde''])
      (replicate 3 [Str ''abc''])"
    using v by (simp add: numeral_3_eq_3 del: row_items.simps)
  have p: "record_cells (length [demo_field]) (gl_cache demo_page)" "on_ring (gl_pos demo_page)" "gl_pos demo_page = 600"
    "0 < gl_len demo_page" "length (gl_info demo_page) = 22"
    by (simp_all add: demo_page_def record_cells_def on_ring_def)
  obtain g1 where g1: "SR_ODBCGETLINES demo_odbc [demo_field] RDBMS_MSSQL7 False 4 2 1 False demo_page = Some (SQL_NO_DATA, g1)"
    "\<forall>j < 3. \<exists>c. cell (gl_cache g1) ((ring_next False ^^ Suc j) 600) = Some (Arr c (replicate 3 [Str ''abc''] ! j))"
    using page_found_by_search [OF g l p(1,2,4), of 4 3 False 2 1 False] p(3,5) by auto
  have "(ring_next False ^^ Suc 0) 600 = 599" "(ring_next False ^^ Suc 2) 600 = 597"
    by (simp_all add: numeral_2_eq_2 ring_next_def)
  then show ?thesis using g1(1) g1(2) [rule_format, of 0] g1(2) [rule_format, of 2] by auto
qed

end
