(* ===== verification/OracleProps.thy ===== *)
theory OracleProps
  imports ConnDemo
begin

text \<open>
  Properties of the connections to Oracle: the parameters of procedures, calls that are made again while the
  server is busy, and what is lost on the way.
\<close>

section \<open>Parameters\<close>

text \<open>A parameter can hold whole numbers of 64 bits, doubles, dates and times up to the year 2799, and texts
  that fit into their size.\<close>

definition date_fits :: "int \<times> int \<times> int \<Rightarrow> bool" where
  "date_fits d \<longleftrightarrow> (case d of (y, m, dd) \<Rightarrow> 0 \<le> y \<and> y < 2800 \<and> 0 \<le> m \<and> m < 128 \<and> 0 \<le> dd \<and> dd < 128)"

text \<open>The days and times of the run-time library: no day, or one of the years 0 to 9999, and whole seconds of a
  day. It puts them together as it took them apart.\<close>

definition valid_day :: "int \<Rightarrow> bool" where
  "valid_day d \<longleftrightarrow> d = 0 \<or> 1721060 \<le> d \<and> d \<le> 5373484"

definition whole_second :: "int \<Rightarrow> bool" where
  "whole_second ms \<longleftrightarrow> 0 \<le> ms \<and> ms < 86400000 \<and> ms mod 1000 = 0"

definition time_fits :: "int \<times> int \<times> int \<Rightarrow> bool" where
  "time_fits t \<longleftrightarrow> (case t of (h, m, s) \<Rightarrow> 0 \<le> h \<and> h < 24 \<and> 0 \<le> m \<and> m < 60 \<and> 0 \<le> s \<and> s < 60)"

definition calendar_ok :: "'w ora_env \<Rightarrow> bool" where
  "calendar_ok env \<longleftrightarrow>
     (\<forall>d. valid_day d \<longrightarrow> oa_date_enc env (oa_date_dec env d) = d) \<and>
     (\<forall>ms. whole_second ms \<longrightarrow> time_fits (oa_time_dec env ms)) \<and>
     (\<forall>d ms. valid_day d \<and> whole_second ms \<longrightarrow> oa_stamp env (oa_date_dec env d) (oa_time_dec env ms) = (d, ms))"

definition param_fits :: "'w ora_env \<Rightarrow> int \<Rightarrow> int \<Rightarrow> item \<Rightarrow> bool" where
  "param_fits env type len v \<longleftrightarrow>
     (case v of
        INum n \<Rightarrow> type = 2 \<and> - (2 ^ 63) \<le> n \<and> n < 2 ^ 63
      | DNum d \<Rightarrow> type = 4
      | Date d \<Rightarrow> type = 8 \<and> valid_day d \<and> date_fits (oa_date_dec env d)
      | TStamp d ms \<Rightarrow> type = 9 \<and> valid_day d \<and> whole_second ms \<and> date_fits (oa_date_dec env d)
      | Str s \<Rightarrow> type \<notin> {1, 2, 3, 4, 6, 8, 9} \<and> 0 \<le> len \<and> int (length s) \<le> len \<and> NUL \<notin> set s
      | _ \<Rightarrow> False)"

lemma int8_small: "- 128 \<le> n \<Longrightarrow> n < 128 \<Longrightarrow> int8 n = n"
  by (simp add: int8_def)

lemma int8_byte: "int8 n mod 2 ^ 8 = n mod 2 ^ 8"
  by (simp add: int8_def mod_diff_left_eq)

lemma year_bytes:
  assumes "0 \<le> y" "y < 2800"
  shows "int8 (int8 (y div 100) + 100) = y div 100 + 100" "int8 (int8 (y mod 100) + 100) mod 2 ^ 8 = y mod 100 + 100"
proof -
  have c: "0 \<le> y div 100" "y div 100 < 28" "0 \<le> y mod 100" "y mod 100 < 100" using assms by auto
  then show "int8 (int8 (y div 100) + 100) = y div 100 + 100" by (simp add: int8_small)
  show "int8 (int8 (y mod 100) + 100) mod 2 ^ 8 = y mod 100 + 100"
    using c(3,4) by (simp only: int8_byte) (simp add: int8_small)
qed

lemma date_value_read:
  assumes "date_fits d" "bc_date b = ora_date d [h, mi, s]"
  shows "bc_type b = 8 \<Longrightarrow> param_value env b = Some (Date (oa_date_enc env d))"
    and "bc_type b = 9 \<Longrightarrow> param_value env b =
      Some (case oa_stamp env d (h - 1, mi - 1, s - 1) of (dt, ms) \<Rightarrow> TStamp dt ms)"
proof -
  obtain y m dd where d: "d = (y, m, dd)" by (metis prod.exhaust)
  have f: "0 \<le> y" "y < 2800" "int8 m = m" "int8 dd = dd"
    using assms(1) by (simp_all add: d date_fits_def int8_small)
  have y: "(y div 100 + 100 - 100) * 100 + (int8 (int8 (y mod 100) + 100) mod 2 ^ 8 - 100) = y"
    unfolding year_bytes(2) [OF f(1,2)] by simp
  have b: "bc_date b = [y div 100 + 100, int8 (int8 (y mod 100) + 100), m, dd, h, mi, s]"
    using assms(2) year_bytes(1) [OF f(1,2)] f(3,4) by (simp add: ora_date_def d)
  have c: "\<not> y div 100 + 100 < 100" using f(1) by (simp add: not_less pos_imp_zdiv_nonneg_iff)
  show "bc_type b = 8 \<Longrightarrow> param_value env b = Some (Date (oa_date_enc env d))"
    unfolding param_value_def b list.case y Let_def if_not_P [OF c] by (simp add: d)
  show "bc_type b = 9 \<Longrightarrow> param_value env b = Some (case oa_stamp env d (h - 1, mi - 1, s - 1) of (dt, ms) \<Rightarrow> TStamp dt ms)"
    unfolding param_value_def b list.case y Let_def if_not_P [OF c] by (simp add: d)
qed

text \<open>The memory of a fitting value gives the value back.\<close>

lemma stored_text_read:
  assumes "type \<notin> {1, 2, 3, 4, 6, 8, 9}" "0 \<le> len" "int (length s) \<le> len" "NUL \<notin> set s" "bc_type b = type"
  shows "\<exists>b1. store_param env type len (Str s) b = Some b1 \<and> param_value env b1 = Some (Str s)"
proof -
  let ?n = "if len = 0 then 1 else len"
  have "int (length s) \<le> ?n" using assms(2,3) by auto
  then obtain k where k: "nat ?n + 1 - length s = Suc k" by (metis Suc_diff_le Suc_eq_plus1 nat_int nat_mono)
  have "cstring (s @ replicate (Suc k) NUL) = s"
    unfolding cstring_def using assms(4) by (subst takeWhile_append2) auto
  moreover have "store_param env type len (Str s) b = Some (b\<lparr>bc_name := Some (s @ replicate (Suc k) NUL)\<rparr>)"
    using assms(1-3) k by (simp add: store_param_def Let_def)
  ultimately show ?thesis using assms(1,5) by (simp add: param_value_def)
qed

lemma stored_param_read:
  assumes "param_fits env type len v" "calendar_ok env" "bc_type b = type"
  shows "\<exists>b1. store_param env type len v b = Some b1 \<and> param_value env b1 = Some v"
proof (cases v)
  case (Str s)
  then show ?thesis using assms(1,3) stored_text_read [of type len s b env] by (simp add: param_fits_def)
next
  case (Date d)
  then show ?thesis
    using assms date_value_read(1) [of "oa_date_dec env d" "b\<lparr>bc_date := ora_date (oa_date_dec env d) [1, 1, 1]\<rparr>" 1 1 1 env]
    by (simp add: param_fits_def store_param_def calendar_ok_def)
next
  case (TStamp d ms)
  obtain h mi s where t: "oa_time_dec env ms = (h, mi, s)" by (metis prod.exhaust)
  let ?b = "b\<lparr>bc_date := ora_date (oa_date_dec env d) [h + 1, mi + 1, s + 1]\<rparr>"
  have f: "type = 9" "date_fits (oa_date_dec env d)" "valid_day d" "whole_second ms"
    using assms(1) by (simp_all add: TStamp param_fits_def)
  have t8: "time_fits (h, mi, s)" "oa_stamp env (oa_date_dec env d) (h, mi, s) = (d, ms)"
    using assms(2) f(3,4) t unfolding calendar_ok_def by metis+
  then have "param_value env ?b = Some (TStamp d ms)"
    using date_value_read(2) [of "oa_date_dec env d" ?b "h + 1" "mi + 1" "s + 1" env] t8(2) f(1,2) assms(3) by simp
  moreover have "store_param env type len (TStamp d ms) b = Some ?b"
    using f(1) t8(1) by (simp add: store_param_def t time_fits_def int8_small)
  ultimately show ?thesis by (simp add: TStamp)
next
  case (INum n)
  have "(if n mod 2 ^ 64 < 2 ^ 63 then n mod 2 ^ 64 else n mod 2 ^ 64 - 2 ^ 64) = n" if "- (2 ^ 63) \<le> n" "n < 2 ^ 63"
  proof (cases "n < 0")
    case True
    have "n mod 2 ^ 64 = (n + 2 ^ 64) mod 2 ^ 64" by simp
    also have "\<dots> = n + 2 ^ 64" using that True by (intro mod_pos_pos_trivial) auto
    finally show ?thesis using that True by simp
  qed (use that in simp)
  then show ?thesis using assms(1,3) by (simp add: INum param_fits_def store_param_def param_value_def split: if_splits)
next
  case (DNum d)
  then show ?thesis using assms(1,3) by (simp add: param_fits_def store_param_def param_value_def)
qed (use assms(1) in \<open>simp_all add: param_fits_def\<close>)

lemma bound_read:
  assumes "os_link x = Some ls" "k < length ls" "param_fits env type len v" "calendar_ok env"
  shows "\<exists>ret b w1. SR_ORACLEINBINDPARAM env (int k + 1) type len v lStmt isNull (Some x) w =
      Some (ret, Some (x\<lparr>os_link := Some (ls[k := b])\<rparr>), w1) \<and> param_value env b = Some v"
proof -
  let ?b = "(ls ! k)\<lparr>bc_null := (if isNull then - 1 else 0), bc_type := type\<rparr>"
  obtain b where b: "store_param env type len v ?b = Some b" "param_value env b = Some v"
    using stored_param_read [OF assms(3,4), of ?b] by auto
  have "type \<noteq> 6" using assms(3) by (auto simp: param_fits_def split: item.splits)
  then show ?thesis
    using assms(1,2) b by (auto simp: SR_ORACLEINBINDPARAM_def rd_at_def Let_def split: prod.split)
qed

text \<open>The parameters of a call in their order: types, lengths and values.\<close>

fun bind_all :: "'w ora_env \<Rightarrow> int \<Rightarrow> (int \<times> int \<times> item) list \<Rightarrow> ora_session option \<Rightarrow> 'w \<Rightarrow> (ora_session option \<times> 'w) option" where
  "bind_all env n [] s w = Some (s, w)"
| "bind_all env n ((type, len, v) # ps) s w = do {
     (ret, s1, w1) \<leftarrow> SR_ORACLEINBINDPARAM env n type len v False (v = NIL) s w;
     bind_all env (n + 1) ps s1 w1
   }"

lemma bind_all_read:
  assumes "\<forall>(type, len, v) \<in> set ps. param_fits env type len v" "calendar_ok env"
    and "os_link x = Some ls" "k + length ps \<le> length ls"
  shows "\<exists>bs w1. bind_all env (int k + 1) ps (Some x) w = Some (Some (x\<lparr>os_link := Some bs\<rparr>), w1) \<and>
    length bs = length ls \<and> (\<forall>j < k. bs ! j = ls ! j) \<and>
    (\<forall>i < length ps. param_value env (bs ! (k + i)) = Some (snd (snd (ps ! i))))"
  using assms(1,3,4)
proof (induction ps arbitrary: k x ls w)
  case Nil
  then show ?case by (intro exI [of _ ls]) simp
next
  case (Cons p ps)
  obtain type len v where p: "p = (type, len, v)" by (metis prod.exhaust)
  obtain ret b w1 where b: "SR_ORACLEINBINDPARAM env (int k + 1) type len v False (v = NIL) (Some x) w =
      Some (ret, Some (x\<lparr>os_link := Some (ls[k := b])\<rparr>), w1)" "param_value env b = Some v"
    using bound_read [OF Cons.prems(2), of k env type len v False "v = NIL" w] Cons.prems(1,3) assms(2) by (auto simp: p)
  obtain bs w2 where r: "bind_all env (int (Suc k) + 1) ps (Some (x\<lparr>os_link := Some (ls[k := b])\<rparr>)) w1 =
      Some (Some (x\<lparr>os_link := Some bs\<rparr>), w2)" "length bs = length ls" "\<forall>j < Suc k. bs ! j = ls[k := b] ! j"
      "\<forall>i < length ps. param_value env (bs ! (Suc k + i)) = Some (snd (snd (ps ! i)))"
    using Cons.IH [of "x\<lparr>os_link := Some (ls[k := b])\<rparr>" "ls[k := b]" "Suc k" w1] Cons.prems(1,3) by auto
  have "bs ! k = b" using r(3) Cons.prems(3) by simp
  then have "param_value env (bs ! (k + i)) = Some (snd (snd ((p # ps) ! i)))" if "i < length (p # ps)" for i
    using that b(2) r(4) by (cases i) (auto simp: p)
  then show ?case using b(1) r(1-3) by (auto simp: p add.commute)
qed

text \<open>C24: Values that are bound as the parameters of a procedure can be read back, each under its number: whole
  numbers of 64 bits, doubles, dates and times in whole seconds up to the year 2799, and texts that fit into
  their size, where the run-time library puts dates and times together as it took them apart.\<close>

theorem bound_values_read_back:
  assumes "ps \<noteq> []" "\<forall>(type, len, v) \<in> set ps. param_fits env type len v" "calendar_ok env"
  shows "\<exists>s s1 w1. SR_ORACLEBINDALLOC (Some x) (int (length ps)) = Some (1, s) \<and>
    bind_all env 1 ps s w = Some (s1, w1) \<and>
    (\<forall>i < length ps. SR_ORACLEGETBINDDATA env s1 (INum (int i + 1)) = Some (snd (snd (ps ! i))))"
proof -
  let ?ls = "replicate (length ps) zero_bind"
  let ?x = "x\<lparr>os_link := Some ?ls, os_bindnum := length ps\<rparr>"
  have s: "SR_ORACLEBINDALLOC (Some x) (int (length ps)) = Some (1, Some ?x)"
    using assms(1) by (simp add: SR_ORACLEBINDALLOC_def)
  obtain bs w1 where bs: "bind_all env 1 ps (Some ?x) w = Some (Some (?x\<lparr>os_link := Some bs\<rparr>), w1)"
    "length bs = length ps" "\<forall>i < length ps. param_value env (bs ! i) = Some (snd (snd (ps ! i)))"
    using bind_all_read [OF assms(2,3), of ?x ?ls 0 w] by auto
  have "SR_ORACLEGETBINDDATA env (Some (?x\<lparr>os_link := Some bs\<rparr>)) (INum (int i + 1)) = Some (snd (snd (ps ! i)))"
    if "i < length ps" for i
    using that bs(2,3) by (simp add: SR_ORACLEGETBINDDATA_def rd_at_def)
  then show ?thesis using s bs(1) by blast
qed

theorem bound_values_read_back_witness:
  "\<exists>s s1 w1. SR_ORACLEBINDALLOC (Some demo_ora_session) 3 = Some (1, s) \<and>
     bind_all demo_ora 1 [(2, 0, INum (- 5)), (9, 0, TStamp 2460000 45296000), (5, 4, Str ''ab'')] s () = Some (s1, w1) \<and>
     SR_ORACLEGETBINDDATA demo_ora s1 (INum 2) = Some (TStamp 2460000 45296000)"
proof -
  let ?ps = "[(2, 0, INum (- 5)), (9, 0, TStamp 2460000 45296000), (5, 4, Str ''ab'')] :: (int \<times> int \<times> item) list"
  have time: "(ms div 1000 div 60 div 60 * 60 + ms div 1000 div 60 mod 60) * 60 + ms div 1000 mod 60 = ms div 1000" for ms :: int
    by (simp only: div_mult_mod_eq)
  have day: "(d div 100 div 30 * 30 + d div 100 mod 30) * 100 + d mod 100 = d" for d :: int
    by (simp only: div_mult_mod_eq)
  have sixty: "0 \<le> n mod 60" "n mod 60 < 60" for n :: int
    by simp_all
  have second: "ms div 1000 * 1000 = ms" if "whole_second ms" for ms
    using that div_mult_mod_eq [of ms 1000] by (simp add: whole_second_def)
  have cal: "calendar_ok demo_ora"
    unfolding calendar_ok_def
  proof (intro conjI allI impI; (elim conjE)?)
    fix ms
    assume ms: "whole_second ms"
    then have "0 \<le> ms" "ms < 86400000" by (simp_all add: whole_second_def)
    then have "0 \<le> ms div 3600000" "ms div 3600000 < 24"
      using pos_imp_zdiv_nonneg_iff [of 3600000 ms] zdiv_mono1 [of ms 86399999 3600000] by simp_all
    moreover have "ms div (1000 * 60 * 60) = ms div 1000 div 60 div 60"
      by (simp only: zdiv_zmult2_eq zero_le_numeral)
    ultimately have "0 \<le> ms div 1000 div 60 div 60 \<and> ms div 1000 div 60 div 60 < 24" by simp
    then show "time_fits (oa_time_dec demo_ora ms)"
      unfolding demo_ora_def ora_env.simps time_fits_def prod.case using sixty by blast
    show "oa_stamp demo_ora (oa_date_dec demo_ora d) (oa_time_dec demo_ora ms) = (d, ms)" for d
      unfolding demo_ora_def ora_env.simps prod.case day time second [OF ms] ..
  next
    show "oa_date_enc demo_ora (oa_date_dec demo_ora d) = d" for d
      unfolding demo_ora_def ora_env.simps prod.case day ..
  qed
  have fit: "\<forall>(type, len, v) \<in> set ?ps. param_fits demo_ora type len v"
    by (simp add: param_fits_def demo_ora_def date_fits_def valid_day_def whole_second_def)
  obtain s s1 w1 where r: "SR_ORACLEBINDALLOC (Some demo_ora_session) (int (length ?ps)) = Some (1, s)"
      "bind_all demo_ora 1 ?ps s () = Some (s1, w1)"
      "\<forall>i < length ?ps. SR_ORACLEGETBINDDATA demo_ora s1 (INum (int i + 1)) = Some (snd (snd (?ps ! i)))"
    using bound_values_read_back [OF list.distinct(2) fit cal, of demo_ora_session "()"] by blast
  have l: "int (length ?ps) = 3" "1 < length ?ps" "int 1 + 1 = 2" "snd (snd (?ps ! 1)) = TStamp 2460000 45296000" by simp_all
  show ?thesis
    using r(1,2) r(3) [rule_format, of 1, OF l(2)] unfolding l(1,3,4) by blast
qed

section \<open>What is lost\<close>

text \<open>A fixed text is bound from a buffer that is never read again, a logical value is not taken, and from the
  year 2800 on a date has no value.\<close>

lemma char_parameter_lost:
  assumes "bc_name b = None" "bc_type b = 1" "store_param env 1 len (Str s) b = Some b1"
  shows "param_value env b1 = Some (Str [])"
  using assms by (auto simp: store_param_def param_value_def)

lemma number_no_logical: "HB_IS_NUMERIC v \<Longrightarrow> \<not> hb_parl v"
  by (cases v) auto

lemma logical_parameter_false:
  assumes "bc_int b = 0" "bc_type b = 3" "store_param env 3 len v b = Some b1"
  shows "param_value env b1 = Some (Logical False)"
  using assms number_no_logical by (auto simp: store_param_def param_value_def split: if_splits)

lemma late_date_lost:
  assumes "oa_date_dec env d = (2800, m, dd)" "bc_type b = 8" "store_param env 8 len (Date d) b = Some b1"
  shows "param_value env b1 = Some NIL"
  using assms by (auto simp: store_param_def param_value_def ora_date_def int8_def)

text \<open>A statement that was executed at once is freed, and freed again when it is closed.\<close>

lemma statement_freed_twice:
  assumes "ob_create env w = (h, w1)" "h \<noteq> 0" "o2_param_res x = 0"
    and "SR_SQLO2_EXECDIRECT env stm (Some x) w = (r, s, w2)"
  shows "\<exists>w3. w2 = snd (ob_free env h w3)" "snd (snd (SR_SQLO2_CLOSESTMT env s w2)) = snd (ob_free env h w2)"
  using assms by (auto simp: SR_SQLO2_EXECDIRECT_def SR_SQLO2_CLOSESTMT_def Let_def split: prod.splits)

text \<open>A time stamp read through the other library is lost.\<close>

lemma time_stamp_lost: "col_domain f = SQL_DATETIME \<Longrightarrow> \<exists>v. SQLO2_FieldGet env f n tr rs w = Some v \<and> (ob_is_null env rs n w \<or> v = NIL)"
  by (simp add: SQLO2_FieldGet_def null_column_def Let_def)

section \<open>Calls that are made again\<close>

text \<open>A call returns exactly when the library stops saying that it is still executing.\<close>

lemma still_loop_step:
  "f w = (status, a, w1) \<Longrightarrow> still_loop f w = (if status = SQLO_STILL_EXECUTING then still_loop f w1 else Some (status, a, w1))"
  by (subst still_loop.simps) simp

definition stops :: "('w \<Rightarrow> int \<times> 'a \<times> 'w) \<Rightarrow> 'w \<Rightarrow> bool" where
  "stops f w \<longleftrightarrow> (\<exists>k. fst (f (((\<lambda>w. snd (snd (f w))) ^^ k) w)) \<noteq> SQLO_STILL_EXECUTING)"

lemma stops_now: "f w = (status, a, w1) \<Longrightarrow> status \<noteq> SQLO_STILL_EXECUTING \<Longrightarrow> stops f w"
  unfolding stops_def by (rule exI [of _ 0]) simp

lemma stops_later:
  assumes "f w = (status, a, w1)" "stops f w1"
  shows "stops f w"
proof -
  obtain k where "fst (f (((\<lambda>w. snd (snd (f w))) ^^ k) w1)) \<noteq> SQLO_STILL_EXECUTING" using assms(2) unfolding stops_def by blast
  then show ?thesis
    unfolding stops_def using assms(1) by (intro exI [of _ "Suc k"]) (simp add: funpow_Suc_right del: funpow.simps)
qed

lemma still_loop_sound: "still_loop f w = Some r \<Longrightarrow> stops f w"
proof (rule still_loop.raw_induct [where P = "\<lambda>f w r. stops f w"])
  fix loop f w r
  assume ih: "\<And>f w r. loop f w = Some r \<Longrightarrow> stops f w"
    and eq: "(case f w of (status, a, w1) \<Rightarrow> if status = SQLO_STILL_EXECUTING then loop f w1 else Some (status, a, w1)) = Some r"
  obtain status a w1 where f: "f w = (status, a, w1)" by (metis prod.exhaust)
  show "stops f w"
    using eq ih [of f w1 r] stops_now [where f = f and w = w, OF f] stops_later [where f = f and w = w, OF f]
    by (cases "status = SQLO_STILL_EXECUTING") (simp_all add: f)
qed

lemma still_loop_returns:
  assumes "fst (f (((\<lambda>w. snd (snd (f w))) ^^ k) w)) \<noteq> SQLO_STILL_EXECUTING"
  shows "\<exists>r. still_loop f w = Some r"
  using assms
proof (induction k arbitrary: w)
  case 0
  obtain status a w1 where f: "f w = (status, a, w1)" by (metis prod.exhaust)
  then show ?case using 0 still_loop_step [where f = f and w = w, OF f] by simp
next
  case (Suc k)
  obtain status a w1 where f: "f w = (status, a, w1)" by (metis prod.exhaust)
  have "\<exists>r. still_loop f w1 = Some r" using Suc.IH [of w1] Suc.prems by (simp add: funpow_Suc_right f del: funpow.simps)
  then show ?case using still_loop_step [where f = f and w = w, OF f] by simp
qed

lemma still_loop_returns_iff: "(\<exists>r. still_loop f w = Some r) \<longleftrightarrow> stops f w"
proof
  show "stops f w" if "\<exists>r. still_loop f w = Some r"
    using that by (elim exE) (erule still_loop_sound)
  show "\<exists>r. still_loop f w = Some r" if "stops f w"
    using that unfolding stops_def by (elim exE) (erule still_loop_returns)
qed

end
