(* ===== verification/Spec2Isabelle.thy ===== *)
theory Spec2Isabelle
  imports ExScanProps ExRowProps LexerWords PCode Literal MovementProps DataProps OrderProps AreaProps Driver
    XmlTreeWrite ConnProps FirebirdProps MysqlProps OdbcProps OracleProps
begin

text \<open>
  A verification development of the C core of SQLRDD++, the replaceable database driver that lets Harbour
  programs work on the tables of SQL databases.

  \<^bold>\<open>The program.\<close> A Harbour program calls the functions of the driver through a table of
  functions (\<open>sqlTable\<close> in \<open>src/source/sqlrdd1.c\<close>). The state of an open table is
  the work area \<open>SQLAREA\<close> (\<open>src/source/sqlrdd.h\<close>): flags, the fields, and Harbour
  arrays it shares with a work area object written in PRG code (the cache of records, the buffers of the
  current record, the orders, a list of facts). The driver sends messages to that object for everything that
  needs SQL, and the object changes the shared arrays. Values become SQL text in
  \<open>src/source/sqlact.c\<close>; SQL phrases of the program are scanned in
  \<open>src/source/sqllex.c\<close> for a generated parser, whose actions build the pCode of
  \<open>sqlact.c\<close>. XML documents are read, written and linked in
  \<open>src/source/xml/srxml.c\<close>. A second driver, in \<open>src/source/sqlex1.c\<close> to
  \<open>sqlex3.c\<close> with its work area in \<open>sqlex.h\<close>, prepares its own ODBC statements: it
  keeps a list of the numbers of up to 250 records around the current one, and a pool of records read, and
  reads a new list when a movement leaves the old one. Below both are the connections, PRG classes over
  bindings of the client libraries: they execute statements, describe the columns of a result, and make a
  record of values of a row that was fetched (\<open>src/source/postgresql\<close>, \<open>mysql\<close>,
  \<open>mariadb\<close>, \<open>firebird\<close>, \<open>odbc\<close>, \<open>oracle\<close>).

  \<^bold>\<open>Theories and sources.\<close> \<open>Prelude\<close> has bytes, the character classes of C
  and arrays counted from one. \<open>Decimal\<close> has what \<open>printf\<close> writes for numbers.
  \<open>HbItem\<close> has the items of Harbour with the functions of its run-time system the code calls.
  From \<open>sqlact.c\<close>: \<open>Escape\<close> (escape routines, quoting, hexadecimal conversion),
  \<open>Literal\<close> (items as SQL literals, \<open>SR_quotedNull\<close>,
  \<open>sr_escapeNumber\<close>), \<open>PCode\<close> (parser entry and pCode constructors). From
  \<open>sqllex.c\<close>: \<open>Lexer\<close> (\<open>sqlyylex\<close> and its buffer), with
  \<open>LexerFacts\<close>, \<open>LexerProps\<close> and \<open>LexerWords\<close> about it. From
  \<open>sqlrdd1.c\<close>: \<open>WorkArea\<close> (the state and the outside), \<open>Cache\<close> (the
  ring of cached records, \<open>searchCacheFWD\<close> to \<open>getCurrentFromCache\<close>),
  \<open>Movement\<close> (\<open>sqlBof\<close> to \<open>sqlSkipRaw\<close>), \<open>Data\<close>
  (\<open>sqlAppend\<close> to \<open>sqlSetFieldExtent\<close>), \<open>Orders\<close>
  (\<open>sqlOrderListAdd\<close> to \<open>sqlLocate\<close>), \<open>Areas\<close> (opening, closing,
  relations, locks, \<open>sqlCreate\<close> to \<open>sqlExists\<close>), \<open>Driver\<close> (the
  function table); the theories with \<open>Props\<close> in their names are about the theory named before
  it. From \<open>srxml.c\<close>: \<open>XmlNode\<close> (nodes and their links), \<open>XmlWrite\<close>
  (self growing strings, output objects, writing), \<open>XmlRead\<close> (re-filled input, reading), with
  \<open>XmlNodeProps\<close>, \<open>XmlWriteProps\<close>, \<open>XmlReadProps\<close>, and
  \<open>XmlTree\<close> and \<open>XmlTreeWrite\<close> about whole documents. The second driver:
  \<open>ExArea\<close> (its work area, the bindings of columns and orders, and the outside),
  \<open>ExQuery\<close> (parts of queries, \<open>SR_SetBindValue\<close>), \<open>ExRecords\<close>
  (missing columns, the conditions of \<open>getWhereExpression\<close>), \<open>ExSkip\<close> (statements
  of skips, \<open>getPreparedRecordList\<close>, \<open>updateRecordBuffer\<close>,
  \<open>trySkippingOnCache\<close>), \<open>ExMove\<close> (\<open>sqlExBof\<close> to
  \<open>sqlExSkipRaw\<close>), \<open>ExWrite\<close> (INSERT and UPDATE, from \<open>sqlex2.c\<close>),
  \<open>ExEdit\<close> (\<open>sqlExAppend\<close> to \<open>sqlExRecId\<close>, the life of an area, the
  sizes of page and pool), \<open>ExSeek\<close> (keys and seeks, from \<open>sqlex3.c\<close>),
  \<open>ExTable\<close> (orders, filters, locks, the function table). \<open>ExNatural\<close> to
  \<open>ExTop\<close> are about its movement in the natural order, one layer each: the texts of the
  queries, reading a page and a list, single skips inside and over the ends of the list, the absolute moves;
  \<open>ExFaults\<close> about skips that lose their place; \<open>ExDemo\<close> has a small server and an
  area on it for the witnesses; \<open>ExScanProps\<close> and \<open>ExRowProps\<close> have the
  properties. The connections: \<open>Column\<close> (what their copies of one code have in common: the
  array that describes a column, the switches over its type, memos, the loop over a row),
  \<open>Postgres\<close> (\<open>sr_pgs_bind.c\<close>), \<open>Mysql\<close>
  (\<open>sr_mysql_bind.c\<close> and \<open>sr_mariadb_bind.c\<close>), \<open>Firebird\<close> and
  \<open>FirebirdRow\<close> (\<open>sr_firebird_bind.c\<close>: transactions and statements; the values of
  a row, blobs included; with the flag \<open>fe_new\<close> also \<open>sr_firebird3_bind.c\<close>, whose
  text the files for the versions 4 and 5 repeat), \<open>Odbc\<close> (\<open>sr_odbc_bind.c\<close>:
  values, records, pages for the cache of a work area), \<open>Oracle\<close>
  (\<open>sr_oracle_bind.c\<close>) and \<open>Oracle2\<close> (\<open>sr_oracle2_bind.c\<close> with
  \<open>sqlorastru.h\<close>: statements, cursors, parameters of procedures, values, memos);
  \<open>ConnDemo\<close> has small libraries for the witnesses, \<open>ConnProps\<close> is about all
  connections, \<open>FirebirdProps\<close>, \<open>MysqlProps\<close>, \<open>OdbcProps\<close> and
  \<open>OracleProps\<close> about theirs. Definitions carry the names of the C functions; a loop of a
  function is a function of its own with \<open>loop\<close> in its name.

  \<^bold>\<open>State and effects.\<close> An operation on a work area is a function from the area to an
  optional pair of result and area; out parameters are components of the result. \<open>None\<close> says
  that C does not come back with a result: a loop that goes on for ever, an access outside an object. The
  outside of a work area is the record \<open>env\<close> of functions (messages to the object, the
  functions of the parent driver, run-time functions); what they change beside the area is the component
  \<open>world\<close>. A message may change the whole area. The functions the driver calls through its own
  table come from the record \<open>rdd\<close>, which \<open>Driver\<close> closes. The store of XML nodes
  is a function from addresses, so that the aliasing of links is there; \<open>garbage\<close> gives the
  memory C has not written yet. A connection is given its client library as a record of functions over a
  state of the outside; what the session of the connection keeps is a record, and a session that does not
  exist is \<open>None\<close>. Integers are \<open>int\<close> or \<open>nat\<close> with the reduction
  written out where C stores them in a narrow type.

  \<^bold>\<open>What is shown.\<close> \<open>Escape\<close>: a locale states what an escape routine
  promises to the reading of an SQL literal; each routine is an interpretation, so quoted values read back.
  \<open>Literal\<close>: numbers and texts become the literals they mean, and the limits of
  \<open>sr_escapeNumber\<close>. Scanner: every call stays inside the phrase, makes progress, ends; words
  become keywords or identifiers. \<open>PCode\<close>: the result of a parse is a pCode array or an error.
  \<open>Cache\<close>: a search ends exactly when there is something to find, and finds the nearest record.
  \<open>Movement\<close>: skipping under a filter stops at the first visible record or at an end, for every
  filter; skips forward and back cancel; a query is not left. \<open>Data\<close>: a stored value is read
  back in the form of its field; wrong kinds are refused. \<open>Orders\<close>: directions, filters and
  scopes read back. \<open>Areas\<close>: opening takes the parts over, closing releases them once, a
  pending relation is evaluated once. \<open>Driver\<close>: a locale states what the functions rely on when
  they call each other; the table is an interpretation of it at every depth. XML nodes: adding, unlinking
  and inserting before keep the doubly linked lists of children; the other insertions and the clone do not.
  XML documents: the locale \<open>sink\<close> is the contract of output functions, the two of the program
  are interpretations, so text and file agree; a document of tags that is written and read again is the same
  document, for every tree. The second driver, in the natural order, on any server that answers the texts of
  its queries as it should (\<open>serves\<close>, \<open>serves_ends\<close>): the record list is a part of
  the table in the direction of the last skip (\<open>window\<close>), and what the area knows of the ends
  of the table is true (\<open>anchored\<close>, \<open>along_list\<close>); every step keeps this and goes to
  the neighbour of the record in the table, so a table of any size is read completely from either end, and a
  GOTO finds its record. The UPDATE that is built names what it binds; restrictions are joined once; the pool is
  bounded. The other properties are what the code does beside its intention: a skip of several records that
  ends with the list, a skip back that turns it, a re-used UPDATE that omits a column, a change that is
  dropped after an append, a filter that changed and is not seen, the old record of a table that is empty, a
  page larger than its array. Connections: the locale \<open>row_cursor\<close> is the contract of fetching,
  interpreted for PostgreSQL and MySQL, so every row of a query is fetched once, in order; the values that
  are read belong to the types the columns are described with, and are the same through every connection; a
  text that the driver writes as a literal is read back as its database stores it, filled or cut to the width
  of its column, and that is the text itself where it fits and has no zero byte and, for PostgreSQL, no
  backslash (\<open>Literal\<close> and the connections together). Firebird: numbers with a scale are read as
  the run-time library rounds them, where a C long has the 32 bits of the column; blobs of less than 65536
  bytes are read whole; changes are pending only inside a transaction, but for a closing that commits and then
  fails; the recording of an error comes back exactly if some attempt to roll back does. MySQL: the width of a
  text column is the number of its characters. ODBC: texts are read whole in both ways; the records of a page
  have the values of the rows that were fetched, and the searches of \<open>Cache\<close> find each from the
  one before it, in both directions. Oracle: values that are bound as parameters are read back under their
  numbers, and a call that is made again while the server is busy returns exactly if the server stops saying
  so.

  \<^bold>\<open>Recursion and depth.\<close> Loops over an input or a count have measures. Loops that may
  run for ever (the searches of the cache, the skipping under a filter, everything along links of nodes) are
  partial functions with values in \<open>option\<close>; that they return is shown where it holds
  (\<open>search_returns_iff\<close>, \<open>skip_filter_exact\<close>,
  \<open>document_round_trip\<close>). Loops of the second driver are bounded by the number of records,
  columns or levels, except the skipping under a filter and the renewed preparation of statements for a
  value that became null. The function tables \<open>sqlrdd_table env n\<close> and \<open>ex_table env
  n\<close> allow calls nested \<open>n\<close> deep; for the first driver a result at one depth is the
  result at every greater one (\<open>depth_does_not_matter\<close>), and two levels are enough for its
  absolute moves (\<open>absolute_moves_return\<close>) and for the movements of the second driver.

  \<^bold>\<open>Simplifications.\<close> A null object pointer and an item that is no object are one value.
  Numbers of items are read as C's widest integer where the code reads a narrower one and the value fits.
  A C \<open>double\<close> is the rational number it stands for, without infinities; where a decimal text becomes
  one, the function that does it is a parameter, and a theorem names what it relies on.
  The widths with which numbers are shown are not kept. A hash of items is a list of pairs. Buffers that
  only grow, and are not seen in between, are lists.

  \<^bold>\<open>Not modelled.\<close> The PRG classes (work area, connections, XML documents and
  iterators), which the C code reaches by messages. The generated parser \<open>sqly.c\<close>, a parameter
  of its entry. The functions of ODBC, the messages and the parent driver are parameters of the second
  driver too; releasing its handles and memory is left out, and the theorems on its movement are for the
  natural order without a column of deletion marks. The client libraries are parameters of the connections;
  the calls of the ODBC binding that only hand their arguments on (handles, connecting, attributes, lists
  of data sources) are left out. The libraries below the bindings of Oracle, \<open>sqlora.c\<close> and
  OCILIB, are third-party code and parameters too. Functions between \<open>#if 0\<close> and
  \<open>#endif\<close> are not compiled and not modelled; a \<open>long\<close> has 64 bits where the
  environment does not say otherwise. Registration and tracing, which are input and output only.
\<close>

end
